(* ===== verification/Prelude.thy ===== *)
theory Prelude
  imports Complex_Main "HOL-Library.Product_Lexorder"
begin

text \<open>
  Shared ground of the development: the names of the primitive types, the result
  type of a service call, the table primitives that stand for the SQL statements the
  services issue, the text predicates the contracts use, and the contract of a
  lease-based work queue.

  A UUID is a natural number (its 128 bits read as an integer), an instant a number
  of microseconds, text a list of characters, a table a list of rows in insertion
  order.
\<close>

named_theorems table_simps \<open>reading a table after a table update\<close>
named_theorems res_simps \<open>when a composed service call returns a value\<close>

type_synonym uuid = nat
type_synonym instant = int
type_synonym duration = int

definition seconds :: "int \<Rightarrow> duration" where
  "seconds n = n * 1000000"

definition days :: "int \<Rightarrow> duration" where
  "days n = seconds (n * 86400)"

lemma seconds_mono [simp]: "seconds a < seconds b \<longleftrightarrow> a < b" "seconds a \<le> seconds b \<longleftrightarrow> a \<le> b"
  by (auto simp: seconds_def)

lemma seconds_pos [simp]: "0 < seconds a \<longleftrightarrow> 0 < a" "0 \<le> seconds a \<longleftrightarrow> 0 \<le> a"
  by (auto simp: seconds_def)

section \<open>Results of service calls\<close>

text \<open>A call either raises (the transaction is rolled back) or returns a value.\<close>

definition bindR :: "'e + 'a \<Rightarrow> ('a \<Rightarrow> 'e + 'b) \<Rightarrow> 'e + 'b" where
  "bindR m f = (case m of Inl e \<Rightarrow> Inl e | Inr x \<Rightarrow> f x)"

lemma bindR_simps [simp]: "bindR (Inl e) f = Inl e" "bindR (Inr x) f = f x"
  by (simp_all add: bindR_def)

lemma bindR_Inr [res_simps]: "bindR m f = Inr y \<longleftrightarrow> (\<exists>x. m = Inr x \<and> f x = Inr y)"
  by (auto simp: bindR_def split: sum.splits)

lemma bindR_Inl: "bindR m f = Inl e \<longleftrightarrow> m = Inl e \<or> (\<exists>x. m = Inr x \<and> f x = Inl e)"
  by (auto simp: bindR_def split: sum.splits)

lemma bindR_assoc: "bindR (bindR m f) g = bindR m (\<lambda>x. bindR (f x) g)"
  by (auto simp: bindR_def split: sum.splits)

lemma if_Inl_Inr [res_simps]: "(if b then Inl e else m) = Inr y \<longleftrightarrow> \<not> b \<and> m = Inr y"
  by auto

lemma option_Inl_Inr [res_simps]:
  "(case x of None \<Rightarrow> Inl e | Some a \<Rightarrow> f a) = Inr y \<longleftrightarrow> (\<exists>a. x = Some a \<and> f a = Inr y)"
  by (cases x) auto

definition isOk :: "'e + 'a \<Rightarrow> bool" where
  "isOk m = (case m of Inl _ \<Rightarrow> False | Inr _ \<Rightarrow> True)"

lemma isOk_simps [simp]: "isOk (Inr x)" "\<not> isOk (Inl e)"
  by (simp_all add: isOk_def)

lemma isOk_iff: "isOk m \<longleftrightarrow> (\<exists>x. m = Inr x)"
  by (cases m) auto

definition theR :: "'e + 'a \<Rightarrow> 'a" where
  "theR m = (case m of Inr x \<Rightarrow> x | Inl _ \<Rightarrow> undefined)"

lemma theR_Inr [simp]: "theR (Inr x) = x"
  by (simp add: theR_def)

section \<open>Tables\<close>

text \<open>
  \<open>row k i t\<close> is the row with identifier \<open>i\<close> (\<open>k\<close> reads the primary key),
  \<open>put_row k r t\<close> writes a changed row back, \<open>select_by s n P t\<close> is a
  \<open>SELECT \<dots> WHERE P ORDER BY s LIMIT n\<close>.
\<close>

definition row :: "('r \<Rightarrow> uuid) \<Rightarrow> uuid \<Rightarrow> 'r list \<Rightarrow> 'r option" where
  "row k i t = find (\<lambda>r. k r = i) t"

definition put_row :: "('r \<Rightarrow> uuid) \<Rightarrow> 'r \<Rightarrow> 'r list \<Rightarrow> 'r list" where
  "put_row k r t = map (\<lambda>x. if k x = k r then r else x) t"

definition select_by :: "('r \<Rightarrow> 'k::linorder) \<Rightarrow> nat \<Rightarrow> ('r \<Rightarrow> bool) \<Rightarrow> 'r list \<Rightarrow> 'r list" where
  "select_by s n P t = take n (sort_key s (filter P t))"

definition update_where :: "('r \<Rightarrow> bool) \<Rightarrow> ('r \<Rightarrow> 'r) \<Rightarrow> 'r list \<Rightarrow> 'r list" where
  "update_where P f t = map (\<lambda>x. if P x then f x else x) t"

definition keys :: "('r \<Rightarrow> uuid) \<Rightarrow> 'r list \<Rightarrow> uuid list" where
  "keys k t = map k t"

lemma row_Nil [simp]: "row k i [] = None"
  by (simp add: row_def)

lemma row_Cons [simp]: "row k i (r # t) = (if k r = i then Some r else row k i t)"
  by (simp add: row_def)

lemma row_append [simp]:
  "row k i (t @ u) = (case row k i t of None \<Rightarrow> row k i u | Some r \<Rightarrow> Some r)"
  by (induction t) auto

lemma row_SomeD: "row k i t = Some r \<Longrightarrow> k r = i \<and> r \<in> set t"
  by (induction t) (auto split: if_splits)

lemma row_key: "row k i t = Some r \<Longrightarrow> k r = i"
  by (simp add: row_SomeD)

lemma row_mem: "row k i t = Some r \<Longrightarrow> r \<in> set t"
  by (simp add: row_SomeD)

lemma row_None_iff: "row k i t = None \<longleftrightarrow> i \<notin> k ` set t"
  by (induction t) auto

lemma row_of_mem: "distinct (map k t) \<Longrightarrow> r \<in> set t \<Longrightarrow> row k (k r) t = Some r"
  by (induction t) (auto simp: image_iff)

lemma row_put_row [table_simps]:
  "row k i (put_row k r t) = (if k r = i then (case row k i t of None \<Rightarrow> None | Some _ \<Rightarrow> Some r)
                              else row k i t)"
  by (induction t) (auto simp: put_row_def)

lemma keys_put_row [simp]: "map k (put_row k r t) = map k t"
  by (induction t) (auto simp: put_row_def)

lemma set_put_row: "set (put_row k r t) \<subseteq> insert r (set t)"
  by (auto simp: put_row_def)

lemma put_rowE:
  assumes "x \<in> set (put_row k r t)"
  obtains "x = r" | "x \<in> set t" "k x \<noteq> k r"
  using assms by (auto simp: put_row_def split: if_splits)

lemma length_put_row [simp]: "length (put_row k r t) = length t"
  by (simp add: put_row_def)

lemma put_row_Nil [simp]: "put_row k r [] = []"
  by (simp add: put_row_def)

lemma put_row_absent: "row k (k r) t = None \<Longrightarrow> put_row k r t = t"
  by (induction t) (auto simp: put_row_def split: if_splits)

lemma put_row_same: "distinct (map k t) \<Longrightarrow> row k (k r) t = Some r \<Longrightarrow> put_row k r t = t"
  by (induction t) (auto simp: put_row_def image_iff split: if_splits intro!: map_idI)

lemma all_put_row:
  "\<forall>x \<in> set t. P x \<Longrightarrow> P r \<Longrightarrow> \<forall>x \<in> set (put_row k r t). P x"
  by (auto simp: put_row_def)

lemma select_by_subset: "set (select_by s n P t) \<subseteq> {r \<in> set t. P r}"
  using set_take_subset[of n "sort_key s (filter P t)"] by (auto simp: select_by_def)

lemma select_by_mem: "r \<in> set (select_by s n P t) \<Longrightarrow> r \<in> set t \<and> P r"
  using select_by_subset[of s n P t] by blast

lemma length_select_by: "length (select_by s n P t) = min n (length (filter P t))"
  by (simp add: select_by_def)

lemma select_by_sorted: "sorted (map s (select_by s n P t))"
proof -
  have "sorted (map s (sort_key s (filter P t)))" by (rule sorted_sort_key)
  then show ?thesis by (simp add: select_by_def take_map[symmetric] sorted_wrt_take)
qed

lemma select_by_distinct:
  assumes "distinct (map k t)"
  shows "distinct (map k (select_by s n P t))"
proof -
  have "distinct (map k (filter P t))" using assms by (rule distinct_map_filter)
  then have "distinct (map k (sort_key s (filter P t)))"
    by (simp add: distinct_map)
  then show ?thesis by (simp add: select_by_def take_map[symmetric])
qed

text \<open>A row passed over by a limited selection sorts after every selected row.\<close>

lemma select_by_first:
  assumes r: "r \<in> set t" "P r" and out: "r \<notin> set (select_by s n P t)"
    and x: "x \<in> set (select_by s n P t)"
  shows "s x \<le> s r"
proof -
  let ?l = "sort_key s (filter P t)"
  have "r \<in> set (drop n ?l)"
    using r out by (metis (mono_tags, lifting) Un_iff append_take_drop_id mem_Collect_eq
        select_by_def set_append set_filter set_sort)
  moreover have "sorted (map s (take n ?l @ drop n ?l))" by simp
  ultimately show ?thesis
    using x unfolding map_append sorted_append select_by_def by auto
qed

lemma update_where_Nil [simp]: "update_where P f [] = []"
  by (simp add: update_where_def)

lemma keys_update_where:
  "(\<And>r. k (f r) = k r) \<Longrightarrow> map k (update_where P f t) = map k t"
  by (induction t) (auto simp: update_where_def)

lemma row_update_where:
  assumes "\<And>r. k (f r) = k r"
  shows "row k i (update_where P f t) = map_option (\<lambda>r. if P r then f r else r) (row k i t)"
  using assms by (induction t) (auto simp: update_where_def)

text \<open>Lookups with \<open>find\<close>.\<close>

lemma find_mem: "find P xs = Some x \<Longrightarrow> x \<in> set xs \<and> P x"
  by (induction xs) (auto split: if_splits)

lemma find_unique:
  assumes "x \<in> set xs" "P x" "\<And>y. y \<in> set xs \<Longrightarrow> P y \<Longrightarrow> y = x"
  shows "find P xs = Some x"
proof (cases "find P xs")
  case None
  then show ?thesis using assms(1,2) by (simp add: find_None_iff)
next
  case (Some y)
  then show ?thesis using assms(3) find_mem[OF Some] by simp
qed

lemma distinct_map_eq: "distinct (map f xs) \<Longrightarrow> x \<in> set xs \<Longrightarrow> y \<in> set xs \<Longrightarrow> f x = f y \<Longrightarrow> x = y"
  by (auto simp: distinct_map dest: inj_onD)

lemma find_append: "find P (xs @ ys) = (case find P xs of None \<Rightarrow> find P ys | Some x \<Rightarrow> Some x)"
  by (induction xs) auto

lemma pair_image_nth: "fst ` (\<lambda>k. (f (xs ! k), g k)) ` {0..<length xs} = f ` set xs"
proof -
  have "fst ` (\<lambda>k. (f (xs ! k), g k)) ` {0..<length xs} = f ` (!) xs ` {0..<length xs}"
    by (simp add: image_image)
  also have "(!) xs ` {0..<length xs} = set xs" by (metis list.set_map map_nth set_upt)
  finally show ?thesis .
qed

section \<open>Text\<close>

definition is_space :: "char \<Rightarrow> bool" where
  "is_space c = (let n = (of_char c :: nat) in (9 \<le> n \<and> n \<le> 13) \<or> (28 \<le> n \<and> n \<le> 32) \<or> n = 133 \<or> n = 160)"

definition strip :: "string \<Rightarrow> string" where
  "strip s = rev (dropWhile is_space (rev (dropWhile is_space s)))"

definition in_range :: "char \<Rightarrow> char \<Rightarrow> char \<Rightarrow> bool" where
  "in_range lo hi c = ((of_char lo :: nat) \<le> of_char c \<and> (of_char c :: nat) \<le> of_char hi)"

definition is_digit :: "char \<Rightarrow> bool" where
  "is_digit = in_range CHR ''0'' CHR ''9''"

definition is_lower :: "char \<Rightarrow> bool" where
  "is_lower = in_range CHR ''a'' CHR ''z''"

definition is_upper :: "char \<Rightarrow> bool" where
  "is_upper = in_range CHR ''A'' CHR ''Z''"

definition is_lower_hex :: "char \<Rightarrow> bool" where
  "is_lower_hex c = (is_digit c \<or> in_range CHR ''a'' CHR ''f'' c)"

text \<open>Fixed-width lowercase hexadecimal, and the canonical text of a UUID.\<close>

definition hex_digit :: "nat \<Rightarrow> char" where
  "hex_digit n = (if n < 10 then char_of (48 + n) else char_of (87 + n))"

fun hex_fixed :: "nat \<Rightarrow> nat \<Rightarrow> string" where
  "hex_fixed 0 n = []"
| "hex_fixed (Suc w) n = hex_fixed w (n div 16) @ [hex_digit (n mod 16)]"

lemma length_hex_fixed [simp]: "length (hex_fixed w n) = w"
  by (induction w arbitrary: n) auto

lemma hex_digit_code: "n < 16 \<Longrightarrow> (of_char (hex_digit n) :: nat) = (if n < 10 then 48 + n else 87 + n)"
  by (simp add: hex_digit_def)

lemma hex_digit_hex: "n < 16 \<Longrightarrow> is_lower_hex (hex_digit n)"
  by (simp add: hex_digit_code is_lower_hex_def is_digit_def in_range_def)

lemma hex_fixed_hex: "c \<in> set (hex_fixed w n) \<Longrightarrow> is_lower_hex c"
  by (induction w arbitrary: n) (auto simp: hex_digit_hex)

lemma hex_digit_inj:
  assumes "a < 16" "b < 16" and eq: "hex_digit a = hex_digit b"
  shows "a = b"
proof -
  have "(of_char (hex_digit a) :: nat) = of_char (hex_digit b)" using eq by simp
  then show "a = b" using assms(1,2) by (auto simp: hex_digit_code split: if_splits)
qed

lemma hex_fixed_inj: "a < 16 ^ w \<Longrightarrow> b < 16 ^ w \<Longrightarrow> hex_fixed w a = hex_fixed w b \<Longrightarrow> a = b"
proof (induction w arbitrary: a b)
  case (Suc w)
  have "a div 16 < 16 ^ w" "b div 16 < 16 ^ w" using Suc.prems by (auto simp: less_mult_imp_div_less mult.commute)
  moreover have "hex_fixed w (a div 16) = hex_fixed w (b div 16)" using Suc.prems by simp
  ultimately have "a div 16 = b div 16" by (rule Suc.IH)
  moreover have "a mod 16 = b mod 16"
    using Suc.prems(3) by (intro hex_digit_inj) auto
  ultimately show ?case by (metis div_mult_mod_eq)
qed simp

definition uuid_str :: "uuid \<Rightarrow> string" where
  "uuid_str u = (let h = hex_fixed 32 u in
     take 8 h @ ''-'' @ take 4 (drop 8 h) @ ''-'' @ take 4 (drop 12 h) @ ''-'' @
     take 4 (drop 16 h) @ ''-'' @ drop 20 h)"

definition canonical_uuid :: "string \<Rightarrow> bool" where
  "canonical_uuid s = (length s = 36 \<and>
     (\<forall>i < 36. if i \<in> {8, 13, 18, 23} then s ! i = CHR ''-'' else is_lower_hex (s ! i)))"

lemma uuid_str_canonical [simp]: "canonical_uuid (uuid_str u)"
proof -
  define h where "h = hex_fixed 32 u"
  have len: "length h = 32" by (simp add: h_def)
  have hex: "is_lower_hex (h ! i)" if "i < 32" for i
    using that len by (intro hex_fixed_hex[of _ 32 u]) (auto simp: h_def[symmetric])
  have s: "uuid_str u = take 8 h @ ''-'' @ take 4 (drop 8 h) @ ''-'' @ take 4 (drop 12 h) @ ''-'' @
     take 4 (drop 16 h) @ ''-'' @ drop 20 h"
    by (simp add: uuid_str_def h_def Let_def)
  have nth: "uuid_str u ! i =
     (if i \<in> {8, 13, 18, 23} then CHR ''-'' else
      h ! (if i < 8 then i else if i < 13 then i - 1 else if i < 18 then i - 2
           else if i < 23 then i - 3 else i - 4))" if "i < 36" for i
    using that len unfolding s by (auto simp: nth_append nth_Cons' intro!: arg_cong[where f = "\<lambda>j. h ! j"])
  have "length (uuid_str u) = 36" using len by (simp add: s)
  then show ?thesis unfolding canonical_uuid_def using nth hex by auto
qed

lemma uuid_str_inj:
  assumes "a < 2 ^ 128" "b < 2 ^ 128" "uuid_str a = uuid_str b"
  shows "a = b"
proof -
  let ?a = "hex_fixed 32 a" and ?b = "hex_fixed 32 b"
  have parts: "take 8 ?a = take 8 ?b \<and> take 4 (drop 8 ?a) = take 4 (drop 8 ?b) \<and>
    take 4 (drop 12 ?a) = take 4 (drop 12 ?b) \<and> take 4 (drop 16 ?a) = take 4 (drop 16 ?b) \<and>
    drop 20 ?a = drop 20 ?b"
    using assms(3) by (simp add: uuid_str_def Let_def del: hex_fixed.simps)
  have split: "h = take 8 h @ take 4 (drop 8 h) @ take 4 (drop 12 h) @ take 4 (drop 16 h) @ drop 20 h"
    for h :: string
  proof -
    have "drop 8 h = take 4 (drop 8 h) @ drop 12 h"
      using append_take_drop_id[of 4 "drop 8 h"] by simp
    moreover have "drop 12 h = take 4 (drop 12 h) @ drop 16 h"
      using append_take_drop_id[of 4 "drop 12 h"] by simp
    moreover have "drop 16 h = take 4 (drop 16 h) @ drop 20 h"
      using append_take_drop_id[of 4 "drop 16 h"] by simp
    ultimately show ?thesis using append_take_drop_id[of 8 h] by simp
  qed
  have "?a = ?b" using parts split[of ?a] split[of ?b] by argo
  moreover have "(16::nat) ^ 32 = 2 ^ 128" by simp
  ultimately show ?thesis using assms(1,2) by (intro hex_fixed_inj[of a 32 b]) auto
qed

section \<open>JSON values\<close>

datatype json = JNull | JBool bool | JInt int | JStr string | JList "json list"
  | JObj "(string \<times> json) list"

section \<open>Bounded exponential delay\<close>

text \<open>The retry delays of the services are all \<open>2 ** min(n, 8)\<close> for some count \<open>n\<close>.\<close>

lemma pow2_min8_bounds:
  fixes n :: int
  assumes "0 \<le> n"
  shows "(1::int) \<le> 2 ^ nat (min n 8)" "(2::int) ^ nat (min n 8) \<le> 256"
proof -
  show "(1::int) \<le> 2 ^ nat (min n 8)" by simp
  have "nat (min n 8) \<le> 8" by simp
  then have "(2::int) ^ nat (min n 8) \<le> 2 ^ 8" by (intro power_increasing) auto
  then show "(2::int) ^ nat (min n 8) \<le> 256" by simp
qed

end
