(* ===== verification/Contracts.thy ===== *)
theory Contracts
  imports Prelude
begin

text \<open>
  The cross-module contracts of \<open>app/contracts\<close>: the enumerations shared by
  several modules with their wire values, the exceptions a service raises, the
  provider errors, and the domain event envelope with its payload validation.
\<close>

section \<open>Enumerations\<close>

datatype ParticipantRole = CUSTOMER | COMPANY_MANAGER | FIELD_WORKER

fun role_value :: "ParticipantRole \<Rightarrow> string" where
  "role_value CUSTOMER = ''customer''"
| "role_value COMPANY_MANAGER = ''company_manager''"
| "role_value FIELD_WORKER = ''field_worker''"

datatype MediaPurpose = INVENTORY | CONDITION | CHANGE_EVIDENCE | COMPLETION

datatype MediaAssetStatus = PENDING_UPLOAD | UPLOADED | PROCESSING | READY | MEDIA_FAILED | DELETED

datatype ProviderErrorKind = NOT_FOUND | CONFLICT | INVALID_INPUT | UNAVAILABLE
  | DEADLINE_EXCEEDED | PERMISSION_DENIED

fun kind_value :: "ProviderErrorKind \<Rightarrow> string" where
  "kind_value NOT_FOUND = ''not_found''"
| "kind_value CONFLICT = ''conflict''"
| "kind_value INVALID_INPUT = ''invalid_input''"
| "kind_value UNAVAILABLE = ''unavailable''"
| "kind_value DEADLINE_EXCEEDED = ''deadline_exceeded''"
| "kind_value PERMISSION_DENIED = ''permission_denied''"

lemma kind_value_inj [simp]: "kind_value a = kind_value b \<longleftrightarrow> a = b"
  by (cases a; cases b; simp)

text \<open>What a port call may raise: a provider error, or any other exception.\<close>

datatype port_error = ProviderError ProviderErrorKind bool | OtherError

fun port_error_code :: "port_error \<Rightarrow> string" where
  "port_error_code (ProviderError k r) = kind_value k"
| "port_error_code OtherError = ''unexpected''"

text \<open>Exceptions of the service layer, one constructor per class.\<close>

datatype exn =
    ValueError | KeyError | AssertionError | IntegrityError | NoResultFound | RecursionError
  | BackgroundJobNotFoundError | BackgroundJobConflictError
  | CaptureResourceNotFoundError | CaptureWorkflowConflictError | MediaConsentConflictError
  | MediaPurposeNotAllowedError | MediaMetadataMismatchError | MediaUploadStateConflictError
  | ScopeResourceNotFoundError | ScopeVersionConflictError | ScopeApprovalConflictError
  | AnalysisDraftInvalidError | ChangeRequestConflictError | ChangeRequestInvalidError
  | ScopeReviewNotFoundError | ScopeReviewConflictError
  | FieldChangeNotFoundError | FieldChangeConflictError | FieldChangeInvalidError
  | DispatchNotFoundError | DispatchConflictError | DispatchInvalidError
  | CompletionResourceNotFoundError | CompletionConflictError | CompletionInvalidError
  | MoveJobNotFoundError | MoveJobConflictError
  | InvalidAccessTokenError | AccessRateLimitExceededError int
  | InvitationNotFoundError | InvitationConflictError | InvitationRoleError
  | ActorAccessLinkNotFoundError
  | InvalidWorkspaceSessionError | WorkspaceConflictError | WorkspaceContactNotFoundError
  | InvalidMoveConnectionError
  | AnalysisRunNotFoundError | AnalysisRunConflictError | AnalysisInputsUnavailableError
  | CaptureAnalysisNotFoundError | CaptureAnalysisConflictError
  | AnalysisReviewNotFoundError | AnalysisReviewConflictError
  | NotificationResourceNotFoundError | NotificationConflictError
  | PortError port_error

type_synonym 'a result = "exn + 'a"

section \<open>Domain events\<close>

datatype DomainEventType =
    CAPTURE_SUBMITTED_V1 | ANALYSIS_COMPLETED_V1 | ANALYSIS_FAILED_V1 | SCOPE_LOCKED_V1
  | CHANGE_REQUESTED_V1 | DISPATCH_CONFIRMED_V1 | COMPLETION_MEDIA_SUBMITTED_V1
  | COMPLETION_SUBMITTED_V1 | COMPLETION_REQUESTED_V1 | COMPLETION_DECIDED_V1
  | MEDIA_DELETED_V1

fun event_type_value :: "DomainEventType \<Rightarrow> string" where
  "event_type_value CAPTURE_SUBMITTED_V1 = ''capture_submitted.v1''"
| "event_type_value ANALYSIS_COMPLETED_V1 = ''analysis_completed.v1''"
| "event_type_value ANALYSIS_FAILED_V1 = ''analysis_failed.v1''"
| "event_type_value SCOPE_LOCKED_V1 = ''scope_locked.v1''"
| "event_type_value CHANGE_REQUESTED_V1 = ''change_requested.v1''"
| "event_type_value DISPATCH_CONFIRMED_V1 = ''dispatch_confirmed.v1''"
| "event_type_value COMPLETION_MEDIA_SUBMITTED_V1 = ''completion_media_submitted.v1''"
| "event_type_value COMPLETION_SUBMITTED_V1 = ''completion_submitted.v1''"
| "event_type_value COMPLETION_REQUESTED_V1 = ''completion_requested.v1''"
| "event_type_value COMPLETION_DECIDED_V1 = ''completion_decided.v1''"
| "event_type_value MEDIA_DELETED_V1 = ''media_deleted.v1''"

record DomainEvent =
  de_event_id :: uuid
  de_event_type :: DomainEventType
  de_schema_version :: int
  de_aggregate_id :: uuid
  de_occurred_at :: instant
  de_actor_id :: "uuid option"
  de_trace_id :: string
  de_payload :: "(string \<times> json) list"

text \<open>\<open>event_type.rsplit(".v", maxsplit=1)[-1]\<close>, and the number it spells.\<close>

fun after_last_v :: "string \<Rightarrow> string option" where
  "after_last_v (a # b # s) =
     (case after_last_v (b # s) of Some r \<Rightarrow> Some r
      | None \<Rightarrow> if a = CHR ''.'' \<and> b = CHR ''v'' then Some s else None)"
| "after_last_v _ = None"

definition version_suffix :: "string \<Rightarrow> string" where
  "version_suffix s = (case after_last_v s of Some r \<Rightarrow> r | None \<Rightarrow> s)"

definition parse_nat :: "string \<Rightarrow> int option" where
  "parse_nat s = (if s \<noteq> [] \<and> list_all is_digit s
     then Some (foldl (\<lambda>n c. 10 * n + (of_char c - 48)) 0 s) else None)"

definition matching_versions :: "DomainEvent \<Rightarrow> bool" where
  "matching_versions ev = (parse_nat (version_suffix (event_type_value (de_event_type ev)))
     = Some (de_schema_version ev))"

definition uuid_text :: "json option \<Rightarrow> bool" where
  "uuid_text v = (case v of Some (JStr s) \<Rightarrow> canonical_uuid s | _ \<Rightarrow> False)"

definition uuid_text_list :: "json option \<Rightarrow> bool" where
  "uuid_text_list v = (case v of
     Some (JList xs) \<Rightarrow> xs \<noteq> [] \<and> list_all (\<lambda>x. uuid_text (Some x)) xs \<and> distinct xs
   | _ \<Rightarrow> False)"

definition hash_text :: "string \<Rightarrow> bool" where
  "hash_text s = (length s = 64 \<and> list_all is_lower_hex s)"

definition documented_payload :: "DomainEventType \<Rightarrow> (string \<times> json) list \<Rightarrow> bool" where
  "documented_payload ty p = (let get = map_of p; names = set (map fst p) in
   case ty of
     CAPTURE_SUBMITTED_V1 \<Rightarrow>
       names = {''capture_session_id'', ''analysis_run_id'', ''inventory_media_asset_ids''} \<and>
       uuid_text (get ''capture_session_id'') \<and> uuid_text (get ''analysis_run_id'') \<and>
       uuid_text_list (get ''inventory_media_asset_ids'')
   | ANALYSIS_COMPLETED_V1 \<Rightarrow>
       names = {''capture_session_id'', ''analysis_run_id'', ''scope_version_id''} \<and>
       uuid_text (get ''capture_session_id'') \<and> uuid_text (get ''analysis_run_id'') \<and>
       uuid_text (get ''scope_version_id'')
   | ANALYSIS_FAILED_V1 \<Rightarrow>
       names = {''capture_session_id'', ''analysis_run_id'', ''error_kind'', ''retryable''} \<and>
       uuid_text (get ''capture_session_id'') \<and> uuid_text (get ''analysis_run_id'') \<and>
       (case get ''error_kind'' of Some (JStr s) \<Rightarrow>
          s \<in> {''not_found'', ''conflict'', ''invalid_input'', ''unavailable'',
               ''deadline_exceeded'', ''permission_denied''} | _ \<Rightarrow> False) \<and>
       (case get ''retryable'' of Some (JBool _) \<Rightarrow> True | _ \<Rightarrow> False)
   | SCOPE_LOCKED_V1 \<Rightarrow>
       names = {''scope_version_id'', ''content_hash''} \<and>
       uuid_text (get ''scope_version_id'') \<and>
       (case get ''content_hash'' of Some (JStr s) \<Rightarrow> hash_text s | _ \<Rightarrow> False)
   | CHANGE_REQUESTED_V1 \<Rightarrow>
       names = {''change_request_id'', ''base_scope_version_id'', ''evidence_media_asset_ids''} \<and>
       uuid_text (get ''change_request_id'') \<and> uuid_text (get ''base_scope_version_id'') \<and>
       uuid_text_list (get ''evidence_media_asset_ids'')
   | DISPATCH_CONFIRMED_V1 \<Rightarrow>
       names = {''dispatch_id'', ''scope_version_id'', ''field_worker_participant_id''} \<and>
       uuid_text (get ''dispatch_id'') \<and> uuid_text (get ''scope_version_id'') \<and>
       uuid_text (get ''field_worker_participant_id'')
   | COMPLETION_MEDIA_SUBMITTED_V1 \<Rightarrow>
       names = {''capture_session_id'', ''media_asset_id'', ''room_zone_id''} \<and>
       uuid_text (get ''capture_session_id'') \<and> uuid_text (get ''media_asset_id'') \<and>
       uuid_text (get ''room_zone_id'')
   | COMPLETION_SUBMITTED_V1 \<Rightarrow>
       names = {''completion_submission_id'', ''scope_version_id'', ''field_worker_participant_id''} \<and>
       uuid_text (get ''completion_submission_id'') \<and> uuid_text (get ''scope_version_id'') \<and>
       uuid_text (get ''field_worker_participant_id'')
   | COMPLETION_REQUESTED_V1 \<Rightarrow>
       names = {''completion_request_id'', ''completion_submission_id'', ''customer_participant_id''} \<and>
       uuid_text (get ''completion_request_id'') \<and> uuid_text (get ''completion_submission_id'') \<and>
       uuid_text (get ''customer_participant_id'')
   | COMPLETION_DECIDED_V1 \<Rightarrow>
       names = {''completion_request_id'', ''completion_submission_id'', ''decision'',
                ''problem_report_id''} \<and>
       uuid_text (get ''completion_request_id'') \<and> uuid_text (get ''completion_submission_id'') \<and>
       get ''decision'' \<in> {Some (JStr ''confirm''), Some (JStr ''report_issue'')} \<and>
       (if get ''decision'' = Some (JStr ''confirm'') then get ''problem_report_id'' = Some JNull
        else uuid_text (get ''problem_report_id''))
   | MEDIA_DELETED_V1 \<Rightarrow>
       names = {''background_job_id'', ''media_asset_id''} \<and>
       uuid_text (get ''background_job_id'') \<and> uuid_text (get ''media_asset_id''))"

definition trace_text :: "string \<Rightarrow> bool" where
  "trace_text s = (length s = 32 \<and> list_all is_lower_hex s)"

text \<open>Constructing the contract model: surrounding whitespace of the trace id is
  stripped, then every validator runs; a failed one is a \<open>ValueError\<close>.\<close>

definition mk_domain_event :: "DomainEvent \<Rightarrow> DomainEvent result" where
  "mk_domain_event ev0 = (let ev = ev0\<lparr>de_trace_id := strip (de_trace_id ev0)\<rparr> in
     if de_schema_version ev < 1 \<or> \<not> trace_text (de_trace_id ev) then Inl ValueError
     else if \<not> matching_versions ev then Inl ValueError
     else if \<not> documented_payload (de_event_type ev) (de_payload ev) then Inl ValueError
     else Inr ev)"

lemma version_of_every_event:
  "parse_nat (version_suffix (event_type_value ty)) = Some 1"
  by (cases ty) (simp_all add: version_suffix_def parse_nat_def is_digit_def in_range_def)

lemma matching_versions_iff: "matching_versions ev \<longleftrightarrow> de_schema_version ev = 1"
  by (auto simp: matching_versions_def version_of_every_event)

lemma uuid_text_str [simp]: "uuid_text (Some (JStr (uuid_str u)))"
  by (simp add: uuid_text_def)

lemma lower_hex_not_space: "is_lower_hex c \<Longrightarrow> \<not> is_space c"
  by (auto simp: is_lower_hex_def is_space_def is_digit_def in_range_def Let_def)

lemma strip_no_space: "list_all (\<lambda>c. \<not> is_space c) s \<Longrightarrow> strip s = s"
  by (metis (no_types, lifting) dropWhile_eq_self_iff list.pred_set list.set_sel(1)
      rev_rev_ident set_rev strip_def)

lemma strip_trace [simp]: "trace_text s \<Longrightarrow> strip s = s"
  by (rule strip_no_space) (auto simp: trace_text_def list.pred_set lower_hex_not_space)

lemma trace_text_hex [simp]: "trace_text (hex_fixed 32 n)"
  by (auto simp: trace_text_def list.pred_set hex_fixed_hex simp del: hex_fixed.simps)

lemma mk_domain_event_ok:
  "de_schema_version ev = 1 \<Longrightarrow> trace_text (de_trace_id ev) \<Longrightarrow>
   documented_payload (de_event_type ev) (de_payload ev) \<Longrightarrow> mk_domain_event ev = Inr ev"
  by (simp add: mk_domain_event_def matching_versions_iff Let_def)

end
