(* ===== verification/Content.thy ===== *)
theory Content
  imports Contracts "HOL-Library.List_Lexorder" "HOL-Library.Char_ord"
begin

text \<open>
  The documents the tables store: location conditions
  (\<open>app/modules/move_job/schemas.py\<close>), scope content (\<open>app/modules/scope/schemas.py\<close>),
  AI drafts (\<open>app/contracts/ai.py\<close>) and quotes (\<open>app/contracts/scope_review.py\<close>),
  each with its validator, and the canonical JSON text the scope hash is taken over.
\<close>

section \<open>Location conditions\<close>

datatype LocationKind = ORIGIN | DESTINATION

fun location_kind_value :: "LocationKind \<Rightarrow> string" where
  "location_kind_value ORIGIN = ''origin''"
| "location_kind_value DESTINATION = ''destination''"

lemma location_kind_value_inj [simp]: "location_kind_value a = location_kind_value b \<longleftrightarrow> a = b"
  by (cases a; cases b; simp)

datatype KnowledgeStatus = KNOWN | UNKNOWN

fun knowledge_value :: "KnowledgeStatus \<Rightarrow> string" where
  "knowledge_value KNOWN = ''known''"
| "knowledge_value UNKNOWN = ''unknown''"

datatype ResidenceType = APARTMENT | VILLA | OFFICETEL | HOUSE | STUDIO | OTHER_RESIDENCE
  | UNKNOWN_RESIDENCE

fun residence_value :: "ResidenceType \<Rightarrow> string" where
  "residence_value APARTMENT = ''apartment''"
| "residence_value VILLA = ''villa''"
| "residence_value OFFICETEL = ''officetel''"
| "residence_value HOUSE = ''house''"
| "residence_value STUDIO = ''studio''"
| "residence_value OTHER_RESIDENCE = ''other''"
| "residence_value UNKNOWN_RESIDENCE = ''unknown''"

datatype ElevatorAvailability = ELEVATOR_AVAILABLE | ELEVATOR_UNAVAILABLE | ELEVATOR_UNKNOWN

fun elevator_value :: "ElevatorAvailability \<Rightarrow> string" where
  "elevator_value ELEVATOR_AVAILABLE = ''available''"
| "elevator_value ELEVATOR_UNAVAILABLE = ''unavailable''"
| "elevator_value ELEVATOR_UNKNOWN = ''unknown''"

datatype StairUsage = STAIRS_REQUIRED | STAIRS_NOT_REQUIRED | STAIRS_UNKNOWN

fun stairs_value :: "StairUsage \<Rightarrow> string" where
  "stairs_value STAIRS_REQUIRED = ''required''"
| "stairs_value STAIRS_NOT_REQUIRED = ''not_required''"
| "stairs_value STAIRS_UNKNOWN = ''unknown''"

datatype LadderTruckUsage = LADDER_REQUIRED | LADDER_NOT_REQUIRED | LADDER_UNKNOWN

fun ladder_value :: "LadderTruckUsage \<Rightarrow> string" where
  "ladder_value LADDER_REQUIRED = ''required''"
| "ladder_value LADDER_NOT_REQUIRED = ''not_required''"
| "ladder_value LADDER_UNKNOWN = ''unknown''"

datatype ParkingAccess = PARKING_AVAILABLE | PARKING_RESTRICTED | PARKING_UNAVAILABLE
  | PARKING_UNKNOWN

fun parking_value :: "ParkingAccess \<Rightarrow> string" where
  "parking_value PARKING_AVAILABLE = ''available''"
| "parking_value PARKING_RESTRICTED = ''restricted''"
| "parking_value PARKING_UNAVAILABLE = ''unavailable''"
| "parking_value PARKING_UNKNOWN = ''unknown''"

record FloorCondition =
  fc_status :: KnowledgeStatus
  fc_value :: "int option"

record CarryDistanceCondition =
  cd_status :: KnowledgeStatus
  cd_value_m :: "int option"

definition floor_ok :: "FloorCondition \<Rightarrow> bool" where
  "floor_ok f = ((case fc_value f of None \<Rightarrow> True | Some v \<Rightarrow> -10 \<le> v \<and> v \<le> 200) \<and>
     (fc_status f = KNOWN) = (fc_value f \<noteq> None))"

definition carry_distance_ok :: "CarryDistanceCondition \<Rightarrow> bool" where
  "carry_distance_ok d = ((case cd_value_m d of None \<Rightarrow> True | Some v \<Rightarrow> 0 \<le> v \<and> v \<le> 100000) \<and>
     (cd_status d = KNOWN) = (cd_value_m d \<noteq> None))"

definition text_between :: "nat \<Rightarrow> nat \<Rightarrow> string \<Rightarrow> bool" where
  "text_between lo hi s = (lo \<le> length s \<and> length s \<le> hi)"

definition optional_text :: "nat \<Rightarrow> nat \<Rightarrow> string option \<Rightarrow> bool" where
  "optional_text lo hi s = (case s of None \<Rightarrow> True | Some t \<Rightarrow> text_between lo hi t)"

record LocationConditions =
  lc_residence_type :: ResidenceType
  lc_floor :: FloorCondition
  lc_elevator :: ElevatorAvailability
  lc_stairs :: StairUsage
  lc_ladder :: LadderTruckUsage
  lc_parking_access :: ParkingAccess
  lc_carry_distance :: CarryDistanceCondition
  lc_access_note :: "string option"

definition location_conditions_ok :: "LocationConditions \<Rightarrow> bool" where
  "location_conditions_ok c = (floor_ok (lc_floor c) \<and> carry_distance_ok (lc_carry_distance c) \<and>
     optional_text 1 1000 (lc_access_note c))"

definition default_conditions :: LocationConditions where
  "default_conditions = \<lparr>lc_residence_type = UNKNOWN_RESIDENCE,
     lc_floor = \<lparr>fc_status = UNKNOWN, fc_value = None\<rparr>, lc_elevator = ELEVATOR_UNKNOWN,
     lc_stairs = STAIRS_UNKNOWN, lc_ladder = LADDER_UNKNOWN, lc_parking_access = PARKING_UNKNOWN,
     lc_carry_distance = \<lparr>cd_status = UNKNOWN, cd_value_m = None\<rparr>, lc_access_note = None\<rparr>"

section \<open>Scope content\<close>

datatype ScopeItemReviewStatus = CONFIRMED_ITEM | REVIEW_REQUIRED

datatype ScopeItemSource = SOURCE_AI | SOURCE_CUSTOMER | SOURCE_COMPANY | SOURCE_FIELD_CHANGE

fun review_value :: "ScopeItemReviewStatus \<Rightarrow> string" where
  "review_value CONFIRMED_ITEM = ''confirmed''"
| "review_value REVIEW_REQUIRED = ''review_required''"

fun source_value :: "ScopeItemSource \<Rightarrow> string" where
  "source_value SOURCE_AI = ''ai''"
| "source_value SOURCE_CUSTOMER = ''customer''"
| "source_value SOURCE_COMPANY = ''company''"
| "source_value SOURCE_FIELD_CHANGE = ''field_change''"

record ScopeItemV1 =
  i1_item_key :: string
  i1_room_zone_id :: uuid
  i1_description :: string

record ScopeItemV2 =
  i2_item_key :: string
  i2_room_zone_id :: uuid
  i2_name :: string
  i2_quantity :: "int option"
  i2_unit :: "string option"
  i2_work_note :: "string option"
  i2_review_status :: ScopeItemReviewStatus
  i2_source :: ScopeItemSource

datatype ScopeItem = Item1 ScopeItemV1 | Item2 ScopeItemV2

fun item_key :: "ScopeItem \<Rightarrow> string" where
  "item_key (Item1 i) = i1_item_key i"
| "item_key (Item2 i) = i2_item_key i"

fun item_zone :: "ScopeItem \<Rightarrow> uuid" where
  "item_zone (Item1 i) = i1_room_zone_id i"
| "item_zone (Item2 i) = i2_room_zone_id i"

fun scope_item_ok :: "ScopeItem \<Rightarrow> bool" where
  "scope_item_ok (Item1 i) = (text_between 1 100 (i1_item_key i) \<and>
     text_between 1 2000 (i1_description i))"
| "scope_item_ok (Item2 i) = (text_between 1 100 (i2_item_key i) \<and> text_between 1 200 (i2_name i) \<and>
     (case i2_quantity i of None \<Rightarrow> True | Some q \<Rightarrow> 1 \<le> q) \<and> optional_text 1 20 (i2_unit i) \<and>
     optional_text 1 500 (i2_work_note i) \<and>
     \<not> (i2_review_status i = CONFIRMED_ITEM \<and> (i2_quantity i = None \<or> i2_unit i = None)))"

record ScopeLocationConditions =
  sl_location_id :: uuid
  sl_kind :: LocationKind
  sl_conditions :: LocationConditions

record ScopeContent =
  sc_schema_version :: int
  sc_items :: "ScopeItem list"
  sc_location_conditions :: "ScopeLocationConditions list"

definition scope_content_ok :: "ScopeContent \<Rightarrow> bool" where
  "scope_content_ok c = (
     sc_schema_version c \<in> {1, 2} \<and>
     1 \<le> length (sc_items c) \<and> length (sc_items c) \<le> 500 \<and>
     list_all scope_item_ok (sc_items c) \<and>
     list_all (\<lambda>l. location_conditions_ok (sl_conditions l)) (sc_location_conditions c) \<and>
     list_all (\<lambda>i. case i of Item1 _ \<Rightarrow> sc_schema_version c = 1
                          | Item2 _ \<Rightarrow> sc_schema_version c = 2) (sc_items c) \<and>
     distinct (map item_key (sc_items c)) \<and>
     distinct (map sl_location_id (sc_location_conditions c)) \<and>
     distinct (map sl_kind (sc_location_conditions c)) \<and>
     \<not> (sc_schema_version c = 1 \<and> sc_location_conditions c \<noteq> []))"

section \<open>AI drafts\<close>

record DraftLocationCondition =
  dl_location_id :: uuid
  dl_location_kind :: LocationKind
  dl_residence_type :: ResidenceType
  dl_floor :: FloorCondition
  dl_elevator :: ElevatorAvailability
  dl_stairs :: StairUsage
  dl_parking_access :: ParkingAccess
  dl_carry_distance :: CarryDistanceCondition
  dl_access_note :: "string option"
  dl_confidence :: rat
  dl_review_required_fields :: "string list"
  dl_source_media_asset_ids :: "uuid list"

record DraftItem =
  di_item_key :: string
  di_description :: string
  di_name :: "string option"
  di_quantity :: "int option"
  di_unit :: "string option"
  di_work_note :: "string option"
  di_confidence :: rat
  di_source_media_asset_ids :: "uuid list"

record AnalysisResult =
  an_analysis_run_id :: uuid
  an_capture_session_id :: uuid
  an_model_name :: string
  an_model_version :: string
  an_prompt_version :: string
  an_result_schema_version :: int
  an_draft_items :: "DraftItem list"
  an_review_required_items :: "DraftItem list"
  an_location_condition_suggestions :: "DraftLocationCondition list"

definition draft_location_ok :: "DraftLocationCondition \<Rightarrow> bool" where
  "draft_location_ok l = (floor_ok (dl_floor l) \<and> carry_distance_ok (dl_carry_distance l) \<and>
     optional_text 1 1000 (dl_access_note l) \<and> 0 \<le> dl_confidence l \<and> dl_confidence l \<le> 1 \<and>
     distinct (dl_review_required_fields l) \<and> distinct (dl_source_media_asset_ids l))"

definition draft_item_ok :: "DraftItem \<Rightarrow> bool" where
  "draft_item_ok d = (text_between 1 100 (di_item_key d) \<and> text_between 1 2000 (di_description d) \<and>
     optional_text 1 200 (di_name d) \<and> (case di_quantity d of None \<Rightarrow> True | Some q \<Rightarrow> 1 \<le> q) \<and>
     optional_text 1 20 (di_unit d) \<and> optional_text 1 500 (di_work_note d) \<and>
     0 \<le> di_confidence d \<and> di_confidence d \<le> 1)"

definition analysis_result_ok :: "AnalysisResult \<Rightarrow> bool" where
  "analysis_result_ok r = (
     let items = an_draft_items r @ an_review_required_items r;
         locs = an_location_condition_suggestions r in
     text_between 1 100 (an_model_name r) \<and> text_between 1 100 (an_model_version r) \<and>
     text_between 1 100 (an_prompt_version r) \<and> an_result_schema_version r \<in> {1, 2} \<and>
     list_all draft_item_ok items \<and> list_all draft_location_ok locs \<and>
     (if an_result_schema_version r = 1 then
        locs = [] \<and>
        list_all (\<lambda>d. di_name d = None \<and> di_quantity d = None \<and> di_unit d = None \<and>
                      di_work_note d = None) items
      else
        list_all (\<lambda>d. di_name d \<noteq> None) items \<and>
        list_all (\<lambda>d. di_quantity d \<noteq> None \<and> di_unit d \<noteq> None) (an_draft_items r) \<and>
        list_all (\<lambda>d. (di_quantity d = None) = (di_unit d = None)) (an_review_required_items r) \<and>
        distinct (map di_item_key items) \<and>
        list_all (\<lambda>d. di_source_media_asset_ids d \<noteq> [] \<and>
                      distinct (di_source_media_asset_ids d)) items \<and>
        distinct (map dl_location_id locs) \<and> distinct (map dl_location_kind locs) \<and>
        list_all (\<lambda>l. dl_source_media_asset_ids l \<noteq> []) locs))"

section \<open>Quotes\<close>

definition MAX_AMOUNT_KRW :: int where
  "MAX_AMOUNT_KRW = 100000000000"

record QuoteAdjustment =
  qa_label :: string
  qa_amount_krw :: int

record QuoteSnapshot =
  qs_base_amount_krw :: int
  qs_adjustments :: "QuoteAdjustment list"
  qs_total_amount_krw :: int

definition quote_ok :: "QuoteSnapshot \<Rightarrow> bool" where
  "quote_ok q = (
     0 \<le> qs_base_amount_krw q \<and> qs_base_amount_krw q \<le> MAX_AMOUNT_KRW \<and>
     0 \<le> qs_total_amount_krw q \<and> qs_total_amount_krw q \<le> MAX_AMOUNT_KRW \<and>
     length (qs_adjustments q) \<le> 100 \<and>
     list_all (\<lambda>a. text_between 1 200 (qa_label a) \<and> - MAX_AMOUNT_KRW \<le> qa_amount_krw a \<and>
                   qa_amount_krw a \<le> MAX_AMOUNT_KRW) (qs_adjustments q) \<and>
     distinct (map qa_label (qs_adjustments q)) \<and>
     qs_base_amount_krw q + sum_list (map qa_amount_krw (qs_adjustments q)) = qs_total_amount_krw q)"

section \<open>Canonical JSON text\<close>

text \<open>
  \<open>json.dumps(document, ensure_ascii=False, separators=(",", ":"), sort_keys=True)\<close>.
  The documents are built below with their keys already in sorted order.
\<close>

fun decimal :: "nat \<Rightarrow> string" where
  "decimal n = (if n < 10 then [char_of (48 + n)] else decimal (n div 10) @ [char_of (48 + n mod 10)])"

declare decimal.simps [simp del]

definition int_text :: "int \<Rightarrow> string" where
  "int_text n = (if n < 0 then CHR ''-'' # decimal (nat (- n)) else decimal (nat n))"

definition escape_char :: "char \<Rightarrow> string" where
  "escape_char c = (let n = (of_char c :: nat) in
     if n = 34 then [char_of (92 :: nat), char_of (34 :: nat)]
     else if n = 92 then [char_of (92 :: nat), char_of (92 :: nat)]
     else if n = 10 then [char_of (92 :: nat), CHR ''n'']
     else if n = 13 then [char_of (92 :: nat), CHR ''r'']
     else if n = 9 then [char_of (92 :: nat), CHR ''t'']
     else if n = 8 then [char_of (92 :: nat), CHR ''b'']
     else if n = 12 then [char_of (92 :: nat), CHR ''f'']
     else if n < 32 then [char_of (92 :: nat), CHR ''u''] @ hex_fixed 4 n
     else [c])"

definition quoted :: "string \<Rightarrow> string" where
  "quoted s = [char_of (34 :: nat)] @ concat (map escape_char s) @ [char_of (34 :: nat)]"

fun joined :: "string list \<Rightarrow> string" where
  "joined [] = []"
| "joined [s] = s"
| "joined (s # t # r) = s @ '','' @ joined (t # r)"

fun dump_json :: "json \<Rightarrow> string" where
  "dump_json JNull = ''null''"
| "dump_json (JBool b) = (if b then ''true'' else ''false'')"
| "dump_json (JInt n) = int_text n"
| "dump_json (JStr s) = quoted s"
| "dump_json (JList xs) = ''['' @ joined (map dump_json xs) @ '']''"
| "dump_json (JObj fs) = CHR 0x7B # joined (map (\<lambda>(k, v). quoted k @ '':'' @ dump_json v) fs) @ [CHR 0x7D]"

definition json_opt :: "('a \<Rightarrow> json) \<Rightarrow> 'a option \<Rightarrow> json" where
  "json_opt f x = (case x of None \<Rightarrow> JNull | Some a \<Rightarrow> f a)"

definition conditions_json :: "LocationConditions \<Rightarrow> json" where
  "conditions_json c = JObj [
     (''access_note'', json_opt JStr (lc_access_note c)),
     (''carry_distance'', JObj [(''status'', JStr (knowledge_value (cd_status (lc_carry_distance c)))),
                               (''value_m'', json_opt JInt (cd_value_m (lc_carry_distance c)))]),
     (''elevator'', JStr (elevator_value (lc_elevator c))),
     (''floor'', JObj [(''status'', JStr (knowledge_value (fc_status (lc_floor c)))),
                      (''value'', json_opt JInt (fc_value (lc_floor c)))]),
     (''ladder'', JStr (ladder_value (lc_ladder c))),
     (''parking_access'', JStr (parking_value (lc_parking_access c))),
     (''residence_type'', JStr (residence_value (lc_residence_type c))),
     (''stairs'', JStr (stairs_value (lc_stairs c)))]"

fun item_json :: "ScopeItem \<Rightarrow> json" where
  "item_json (Item1 i) = JObj [
     (''description'', JStr (i1_description i)),
     (''item_key'', JStr (i1_item_key i)),
     (''room_zone_id'', JStr (uuid_str (i1_room_zone_id i)))]"
| "item_json (Item2 i) = JObj [
     (''item_key'', JStr (i2_item_key i)),
     (''name'', JStr (i2_name i)),
     (''quantity'', json_opt JInt (i2_quantity i)),
     (''review_status'', JStr (review_value (i2_review_status i))),
     (''room_zone_id'', JStr (uuid_str (i2_room_zone_id i))),
     (''source'', JStr (source_value (i2_source i))),
     (''unit'', json_opt JStr (i2_unit i)),
     (''work_note'', json_opt JStr (i2_work_note i))]"

definition content_json :: "ScopeContent \<Rightarrow> json" where
  "content_json c = JObj [
     (''items'', JList (map item_json (sc_items c))),
     (''location_conditions'', JList (map (\<lambda>l. JObj [
        (''conditions'', conditions_json (sl_conditions l)),
        (''kind'', JStr (location_kind_value (sl_kind l))),
        (''location_id'', JStr (uuid_str (sl_location_id l)))]) (sc_location_conditions c))),
     (''schema_version'', JInt (sc_schema_version c))]"

definition canonical_text :: "ScopeContent \<Rightarrow> string" where
  "canonical_text c = dump_json (content_json c)"

end
