(* ===== verification/JobTables.thy ===== *)
theory JobTables
  imports Content
begin

text \<open>
  Rows of the tables of the move job, access, capture, background job and event bus
  modules (\<open>models.py\<close> of each). A row is a record with one field per mapped column.
  The CHECK constraints of a table are one predicate on its rows; a comparison with
  NULL makes an SQL check pass, and the predicates say so.
\<close>

section \<open>Move jobs: \<open>app/modules/move_job/models.py\<close>\<close>

datatype MoveJobStatus = DRAFT | ACTIVE | COMPLETED | CANCELED

record MoveJob =
  mj_id :: uuid
  mj_title :: string
  mj_status :: MoveJobStatus
  mj_scheduled_at :: "instant option"
  mj_created_at :: instant
  mj_updated_at :: instant
  mj_completed_at :: "instant option"

definition move_job_check :: "MoveJob \<Rightarrow> bool" where
  "move_job_check r = ((mj_status r = COMPLETED) = (mj_completed_at r \<noteq> None))"

record JobParticipant =
  jp_id :: uuid
  jp_job_id :: uuid
  jp_role :: ParticipantRole
  jp_display_name :: string
  jp_created_at :: instant

record Location =
  loc_id :: uuid
  loc_job_id :: uuid
  loc_kind :: LocationKind
  loc_label :: string
  loc_detail_address :: "string option"
  loc_conditions :: LocationConditions
  loc_created_at :: instant

record RoomZone =
  rz_id :: uuid
  rz_location_id :: uuid
  rz_name :: string
  rz_sort_order :: int
  rz_created_at :: instant

definition room_zone_check :: "RoomZone \<Rightarrow> bool" where
  "room_zone_check r = (0 \<le> rz_sort_order r)"

section \<open>Access: \<open>app/modules/access/models.py\<close>\<close>

record ParticipantAccessToken =
  at_id :: uuid
  at_participant_id :: uuid
  at_token_hash :: string
  at_expires_at :: instant
  at_revoked_at :: "instant option"
  at_last_used_at :: "instant option"
  at_rate_window_started_at :: "instant option"
  at_rate_window_count :: int
  at_created_at :: instant

definition access_token_check :: "ParticipantAccessToken \<Rightarrow> bool" where
  "access_token_check r = (length (at_token_hash r) = 64 \<and> at_created_at r < at_expires_at r \<and>
     ((at_rate_window_started_at r = None \<and> at_rate_window_count r = 0) \<or>
      (at_rate_window_started_at r \<noteq> None \<and> 0 < at_rate_window_count r)))"

datatype InvitationStatus = INV_PENDING | INV_ACCEPTED | INV_DECLINED | INV_EXPIRED | INV_REVOKED

record ParticipantInvitation =
  pi_id :: uuid
  pi_job_id :: uuid
  pi_issuer_participant_id :: uuid
  pi_invitee_participant_id :: uuid
  pi_access_link_id :: uuid
  pi_role :: ParticipantRole
  pi_status :: InvitationStatus
  pi_expires_at :: instant
  pi_issued_at :: instant
  pi_resolved_at :: "instant option"
  pi_created_at :: instant

definition invitation_check :: "ParticipantInvitation \<Rightarrow> bool" where
  "invitation_check r = (pi_role r \<in> {COMPANY_MANAGER, FIELD_WORKER} \<and>
     ((pi_status r \<in> {INV_PENDING, INV_EXPIRED} \<and> pi_resolved_at r = None) \<or>
      (pi_status r \<in> {INV_ACCEPTED, INV_DECLINED, INV_REVOKED} \<and> pi_resolved_at r \<noteq> None)) \<and>
     pi_issued_at r < pi_expires_at r \<and>
     pi_issuer_participant_id r \<noteq> pi_invitee_participant_id r)"

record WorkspaceAccount =
  wa_id :: uuid
  wa_role :: ParticipantRole
  wa_display_name :: string
  wa_created_at :: instant

record WorkspaceMembership =
  wm_id :: uuid
  wm_account_id :: uuid
  wm_participant_id :: uuid
  wm_joined_at :: instant
  wm_revoked_at :: "instant option"

record WorkspaceSession =
  ws_id :: uuid
  ws_account_id :: uuid
  ws_token_hash :: string
  ws_csrf_token :: string
  ws_expires_at :: instant
  ws_revoked_at :: "instant option"
  ws_last_used_at :: "instant option"
  ws_created_at :: instant

definition workspace_session_check :: "WorkspaceSession \<Rightarrow> bool" where
  "workspace_session_check r = (length (ws_token_hash r) = 64 \<and> 40 \<le> length (ws_csrf_token r) \<and>
     ws_created_at r < ws_expires_at r)"

datatype NotificationContactChannel = CONTACT_EMAIL | CONTACT_SMS | CONTACT_KAKAO

record WorkspaceContactPoint =
  cp_id :: uuid
  cp_account_id :: uuid
  cp_channel :: NotificationContactChannel
  cp_destination :: string
  cp_enabled :: bool
  cp_consented_at :: instant
  cp_updated_at :: instant

section \<open>Capture: \<open>app/modules/capture/models.py\<close>\<close>

record CaptureSession =
  cs_id :: uuid
  cs_job_id :: uuid
  cs_created_by_participant_id :: uuid
  cs_media_consent_policy_version :: "string option"
  cs_privacy_notice_acknowledged :: bool
  cs_media_retention_days :: "int option"
  cs_media_consented_at :: "instant option"
  cs_created_at :: instant

definition capture_session_check :: "CaptureSession \<Rightarrow> bool" where
  "capture_session_check r =
     ((\<not> cs_privacy_notice_acknowledged r \<and> cs_media_consent_policy_version r = None \<and>
       cs_media_retention_days r = None \<and> cs_media_consented_at r = None) \<or>
      (cs_privacy_notice_acknowledged r \<and>
       (case cs_media_consent_policy_version r of None \<Rightarrow> False | Some v \<Rightarrow> strip v \<noteq> []) \<and>
       (case cs_media_retention_days r of None \<Rightarrow> False | Some d \<Rightarrow> 0 < d) \<and>
       cs_media_consented_at r \<noteq> None))"

record MediaAsset =
  ma_id :: uuid
  ma_capture_session_id :: uuid
  ma_room_zone_id :: uuid
  ma_media_purpose :: MediaPurpose
  ma_status :: MediaAssetStatus
  ma_object_key :: string
  ma_content_type :: string
  ma_expected_size_bytes :: int
  ma_actual_size_bytes :: "int option"
  ma_sha256_hex :: "string option"
  ma_generation :: "string option"
  ma_created_at :: instant
  ma_uploaded_at :: "instant option"

definition media_asset_check :: "MediaAsset \<Rightarrow> bool" where
  "media_asset_check r = (
     0 < ma_expected_size_bytes r \<and> ma_expected_size_bytes r \<le> 209715200 \<and>
     ma_content_type r \<in> {''image/jpeg'', ''image/png'', ''video/mp4''} \<and>
     (take 6 (ma_content_type r) \<noteq> ''image/'' \<or> ma_expected_size_bytes r \<le> 20971520) \<and>
     (case ma_actual_size_bytes r of None \<Rightarrow> True | Some n \<Rightarrow> 0 \<le> n) \<and>
     (case ma_sha256_hex r of None \<Rightarrow> True | Some h \<Rightarrow> length h = 64) \<and>
     ((ma_status r = PENDING_UPLOAD \<and> ma_actual_size_bytes r = None \<and> ma_sha256_hex r = None \<and>
       ma_generation r = None \<and> ma_uploaded_at r = None) \<or>
      (ma_status r \<noteq> PENDING_UPLOAD \<and> ma_actual_size_bytes r \<noteq> None \<and>
       (case ma_generation r of None \<Rightarrow> False | Some g \<Rightarrow> strip g \<noteq> []) \<and>
       ma_uploaded_at r \<noteq> None)))"

section \<open>Background jobs: \<open>app/modules/background_job/models.py\<close>\<close>

datatype BackgroundJobType = MEDIA_VALIDATION | MEDIA_RETENTION_DELETE

datatype BackgroundJobStatus = PENDING | DISPATCHING | QUEUED | RUNNING | SUCCEEDED | FAILED

record BackgroundJob =
  bj_id :: uuid
  bj_move_job_id :: uuid
  bj_media_asset_id :: uuid
  bj_job_type :: BackgroundJobType
  bj_status :: BackgroundJobStatus
  bj_target_object_key :: string
  bj_target_generation :: string
  bj_target_content_type :: "string option"
  bj_target_size_bytes :: "int option"
  bj_trace_id :: string
  bj_scheduled_at :: instant
  bj_attempt_count :: int
  bj_dispatch_token :: "uuid option"
  bj_dispatch_locked_until :: "instant option"
  bj_provider_task_id :: "string option"
  bj_last_error_code :: "string option"
  bj_created_by_participant_id :: "uuid option"
  bj_created_at :: instant
  bj_last_attempt_at :: "instant option"
  bj_execution_deadline_at :: "instant option"
  bj_completed_at :: "instant option"

text \<open>The shape of the target (fixed when the job is created), and the bookkeeping of its
  state machine.\<close>

definition background_job_target_check :: "BackgroundJob \<Rightarrow> bool" where
  "background_job_target_check r = (
     ((bj_job_type r = MEDIA_VALIDATION \<and>
       (case bj_target_content_type r of None \<Rightarrow> False | Some t \<Rightarrow> t \<noteq> []) \<and>
       (case bj_target_size_bytes r of None \<Rightarrow> True | Some n \<Rightarrow> 0 < n)) \<or>
      (bj_job_type r = MEDIA_RETENTION_DELETE \<and> bj_target_content_type r = None \<and>
       bj_target_size_bytes r = None)) \<and>
     bj_target_object_key r \<noteq> [] \<and> bj_target_generation r \<noteq> [] \<and> length (bj_trace_id r) = 32)"

definition background_job_state_check :: "BackgroundJob \<Rightarrow> bool" where
  "background_job_state_check r = (
     0 \<le> bj_attempt_count r \<and>
     (bj_last_error_code r \<noteq> Some []) \<and>
     (bj_attempt_count r = 0) = (bj_last_attempt_at r = None) \<and>
     ((bj_status r = DISPATCHING \<and> bj_dispatch_token r \<noteq> None \<and> bj_dispatch_locked_until r \<noteq> None) \<or>
      (bj_status r \<noteq> DISPATCHING \<and> bj_dispatch_token r = None \<and> bj_dispatch_locked_until r = None)) \<and>
     (bj_status r = FAILED) = (bj_last_error_code r \<noteq> None) \<and>
     (bj_status r \<in> {SUCCEEDED, FAILED}) = (bj_completed_at r \<noteq> None) \<and>
     (bj_status r = RUNNING) = (bj_execution_deadline_at r \<noteq> None))"

section \<open>Event bus: \<open>app/platform/event_bus/models.py\<close>\<close>

record OutboxEvent =
  oe_event_id :: uuid
  oe_event_type :: DomainEventType
  oe_schema_version :: int
  oe_aggregate_id :: uuid
  oe_actor_id :: "uuid option"
  oe_trace_id :: string
  oe_payload :: "(string \<times> json) list"
  oe_occurred_at :: instant
  oe_next_attempt_at :: instant
  oe_attempt_count :: int
  oe_lock_token :: "uuid option"
  oe_locked_until :: "instant option"
  oe_published_at :: "instant option"
  oe_last_error_code :: "string option"

definition outbox_event_check :: "OutboxEvent \<Rightarrow> bool" where
  "outbox_event_check r = (
     oe_schema_version r = 1 \<and> 0 \<le> oe_attempt_count r \<and> length (oe_trace_id r) = 32 \<and>
     oe_last_error_code r \<noteq> Some [] \<and>
     (oe_lock_token r = None) = (oe_locked_until r = None) \<and>
     (oe_published_at r = None \<or>
      (oe_lock_token r = None \<and> oe_locked_until r = None \<and> oe_last_error_code r = None)))"

end
