(* ===== verification/AgreementTables.thy ===== *)
theory AgreementTables
  imports JobTables
begin

text \<open>
  Rows of the tables of the scope, scope review, field change, dispatch, completion,
  analysis and notification modules (\<open>models.py\<close> of each), with their CHECK
  constraints.
\<close>

section \<open>Scope: \<open>app/modules/scope/models.py\<close>\<close>

record ScopeVersion =
  sv_id :: uuid
  sv_job_id :: uuid
  sv_parent_version_id :: "uuid option"
  sv_sequence_number :: int
  sv_content :: ScopeContent
  sv_content_hash :: string
  sv_source_analysis_run_id :: "uuid option"
  sv_source_capture_session_id :: "uuid option"
  sv_analysis_source :: "AnalysisResult option"
  sv_created_by_participant_id :: "uuid option"
  sv_created_at :: instant
  sv_locked_at :: "instant option"

definition scope_version_check :: "ScopeVersion \<Rightarrow> bool" where
  "scope_version_check r = (
     0 < sv_sequence_number r \<and> length (sv_content_hash r) = 64 \<and>
     ((sv_source_analysis_run_id r = None \<and> sv_source_capture_session_id r = None \<and>
       sv_analysis_source r = None \<and> sv_created_by_participant_id r \<noteq> None) \<or>
      (sv_source_analysis_run_id r \<noteq> None \<and> sv_source_capture_session_id r \<noteq> None \<and>
       sv_analysis_source r \<noteq> None \<and> sv_created_by_participant_id r = None)))"

record ScopeApproval =
  sa_id :: uuid
  sa_scope_version_id :: uuid
  sa_participant_id :: uuid
  sa_role :: ParticipantRole
  sa_approved_at :: instant

definition scope_approval_check :: "ScopeApproval \<Rightarrow> bool" where
  "scope_approval_check r = (sa_role r \<in> {CUSTOMER, COMPANY_MANAGER})"

datatype ChangeRequestStatus = CR_PENDING | CR_CLARIFICATION_REQUESTED | CR_APPROVED | CR_REJECTED

record ChangeRequest =
  cr_id :: uuid
  cr_job_id :: uuid
  cr_base_scope_version_id :: uuid
  cr_requested_by_participant_id :: uuid
  cr_description :: string
  cr_proposed_content :: ScopeContent
  cr_status :: ChangeRequestStatus
  cr_clarification_requested_by_participant_id :: "uuid option"
  cr_clarification_request :: "string option"
  cr_clarification_requested_at :: "instant option"
  cr_explanation :: "string option"
  cr_explained_at :: "instant option"
  cr_decided_by_participant_id :: "uuid option"
  cr_decision_note :: "string option"
  cr_decided_at :: "instant option"
  cr_result_scope_version_id :: "uuid option"
  cr_created_at :: instant

definition change_request_check :: "ChangeRequest \<Rightarrow> bool" where
  "change_request_check r = (
     ((cr_status r \<in> {CR_PENDING, CR_CLARIFICATION_REQUESTED} \<and>
       cr_decided_by_participant_id r = None \<and> cr_decided_at r = None \<and>
       cr_decision_note r = None \<and> cr_result_scope_version_id r = None) \<or>
      (cr_status r = CR_APPROVED \<and> cr_decided_by_participant_id r \<noteq> None \<and>
       cr_decided_at r \<noteq> None \<and> cr_result_scope_version_id r \<noteq> None) \<or>
      (cr_status r = CR_REJECTED \<and> cr_decided_by_participant_id r \<noteq> None \<and>
       cr_decided_at r \<noteq> None \<and> cr_decision_note r \<noteq> None \<and>
       cr_result_scope_version_id r = None)) \<and>
     ((cr_clarification_requested_by_participant_id r = None \<and>
       cr_clarification_request r = None \<and> cr_clarification_requested_at r = None \<and>
       cr_explanation r = None \<and> cr_explained_at r = None) \<or>
      (cr_clarification_requested_by_participant_id r \<noteq> None \<and>
       cr_clarification_request r \<noteq> None \<and> cr_clarification_requested_at r \<noteq> None \<and>
       ((cr_status r = CR_CLARIFICATION_REQUESTED \<and> cr_explanation r = None \<and>
         cr_explained_at r = None) \<or>
        (cr_status r \<in> {CR_PENDING, CR_APPROVED, CR_REJECTED} \<and> cr_explanation r \<noteq> None \<and>
         cr_explained_at r \<noteq> None)))))"

record ChangeRequestEvidence =
  ce_change_request_id :: uuid
  ce_media_asset_id :: uuid

section \<open>Scope review: \<open>app/modules/scope_review/models.py\<close>\<close>

datatype ScopeProposalKind = INITIAL | REVISION

datatype ScopeProposalStatus = SP_CUSTOMER_REVIEW | SP_REVISION_REQUESTED | SP_CONFIRMED
  | SP_SUPERSEDED

record ExecutionPlanSnapshot =
  ep_vehicle_count :: int
  ep_vehicle_description :: string
  ep_worker_count :: int
  ep_estimated_duration_minutes :: int
  ep_notes :: "string option"

record ScopeProposal =
  sp_id :: uuid
  sp_job_id :: uuid
  sp_source_scope_version_id :: uuid
  sp_result_scope_version_id :: uuid
  sp_proposed_by_participant_id :: uuid
  sp_kind :: ScopeProposalKind
  sp_status :: ScopeProposalStatus
  sp_base_amount_krw :: int
  sp_adjustments :: "QuoteAdjustment list"
  sp_total_amount_krw :: int
  sp_execution_plan :: "ExecutionPlanSnapshot option"
  sp_included_works :: "string list"
  sp_exclusions :: "string list"
  sp_reason :: string
  sp_sent_at :: instant
  sp_confirmed_at :: "instant option"

definition scope_proposal_check :: "ScopeProposal \<Rightarrow> bool" where
  "scope_proposal_check r = (
     0 \<le> sp_base_amount_krw r \<and> 0 \<le> sp_total_amount_krw r \<and>
     sp_source_scope_version_id r \<noteq> sp_result_scope_version_id r \<and>
     (sp_status r = SP_CONFIRMED) = (sp_confirmed_at r \<noteq> None))"

record ScopeRevisionRequest =
  rr_id :: uuid
  rr_job_id :: uuid
  rr_scope_proposal_id :: uuid
  rr_scope_version_id :: uuid
  rr_requested_by_participant_id :: uuid
  rr_reason :: string
  rr_requested_at :: instant
  rr_resolved_by_scope_proposal_id :: "uuid option"
  rr_resolved_at :: "instant option"

definition scope_revision_request_check :: "ScopeRevisionRequest \<Rightarrow> bool" where
  "scope_revision_request_check r =
     ((rr_resolved_by_scope_proposal_id r = None) = (rr_resolved_at r = None))"

section \<open>Field change: \<open>app/modules/field_change/models.py\<close>\<close>

datatype FieldIssueType = OUT_OF_SCOPE | DAMAGE_RISK | SITE_BLOCKER

record FieldIssue =
  fi_id :: uuid
  fi_job_id :: uuid
  fi_client_reference :: uuid
  fi_base_scope_version_id :: uuid
  fi_reported_by_participant_id :: uuid
  fi_issue_type :: FieldIssueType
  fi_title :: string
  fi_description :: string
  fi_created_at :: instant

record FieldIssueEvidence =
  fe_field_issue_id :: uuid
  fe_media_asset_id :: uuid

record ChangeProposalDetail =
  pd_change_request_id :: uuid
  pd_field_issue_id :: uuid
  pd_title :: string
  pd_base_amount_krw :: int
  pd_adjustments :: "QuoteAdjustment list"
  pd_total_amount_krw :: int
  pd_created_at :: instant

definition change_proposal_detail_check :: "ChangeProposalDetail \<Rightarrow> bool" where
  "change_proposal_detail_check r = (0 \<le> pd_base_amount_krw r \<and> 0 \<le> pd_total_amount_krw r)"

section \<open>Dispatch: \<open>app/modules/dispatch/models.py\<close>\<close>

record DispatchCheckItem =
  ck_key :: string
  ck_label :: string

record DispatchVehicleOption =
  vo_id :: uuid
  vo_external_reference :: string
  vo_display_name :: string
  vo_specification :: string
  vo_equipment :: "string list"
  vo_capacity_m2 :: int
  vo_available :: bool
  vo_conflict_reason :: "string option"

record DispatchWorkerOption =
  wo_id :: uuid
  wo_external_reference :: string
  wo_display_name :: string
  wo_role_label :: string
  wo_skills :: "string list"
  wo_certifications :: "string list"
  wo_available :: bool
  wo_conflict_reason :: "string option"
  wo_participant_id :: "uuid option"

record DispatchSetup =
  ds_id :: uuid
  ds_job_id :: uuid
  ds_client_reference :: uuid
  ds_source_scope_version_id :: uuid
  ds_created_by_participant_id :: uuid
  ds_command_hash :: string
  ds_start_at :: instant
  ds_expected_duration_minutes :: int
  ds_required_vehicle_capacity_m2 :: int
  ds_required_worker_count :: int
  ds_required_skills :: "string list"
  ds_required_certifications :: "string list"
  ds_check_in_items :: "DispatchCheckItem list"
  ds_completion_check_items :: "DispatchCheckItem list"
  ds_origin_conditions :: "string list"
  ds_safety_notice :: string
  ds_vehicle_options :: "DispatchVehicleOption list"
  ds_worker_options :: "DispatchWorkerOption list"
  ds_created_at :: instant

definition dispatch_setup_check :: "DispatchSetup \<Rightarrow> bool" where
  "dispatch_setup_check r = (
     1 \<le> ds_expected_duration_minutes r \<and> ds_expected_duration_minutes r \<le> 720 \<and>
     0 \<le> ds_required_vehicle_capacity_m2 r \<and>
     1 \<le> ds_required_worker_count r \<and> ds_required_worker_count r \<le> 50 \<and>
     length (ds_command_hash r) = 64)"

record DispatchPlan =
  dp_id :: uuid
  dp_job_id :: uuid
  dp_setup_id :: uuid
  dp_source_scope_version_id :: uuid
  dp_vehicle_option_id :: uuid
  dp_lead_worker_option_id :: uuid
  dp_selected_worker_option_ids :: "uuid list"
  dp_worker_note :: "string option"
  dp_command_hash :: string
  dp_confirmed_by_participant_id :: uuid
  dp_confirmed_at :: instant

definition dispatch_plan_check :: "DispatchPlan \<Rightarrow> bool" where
  "dispatch_plan_check r = (length (dp_command_hash r) = 64)"

record FieldCheckIn =
  ci_id :: uuid
  ci_job_id :: uuid
  ci_dispatch_plan_id :: uuid
  ci_participant_id :: uuid
  ci_worker_option_id :: uuid
  ci_confirmed_check_keys :: "string list"
  ci_checked_in_at :: instant

section \<open>Completion: \<open>app/modules/completion/models.py\<close>\<close>

datatype AuditEventType = AU_JOB_CREATED | AU_PARTICIPANT_CONNECTED | AU_ACCESS_LINK_ISSUED
  | AU_ACCESS_LINK_REVOKED | AU_COMPLETION_MEDIA_UPLOADED | AU_SCOPE_VERSION_CREATED
  | AU_SCOPE_VERSION_APPROVED | AU_SCOPE_VERSION_LOCKED | AU_CHANGE_REQUESTED
  | AU_CHANGE_CLARIFICATION_REQUESTED | AU_CHANGE_EXPLAINED | AU_CHANGE_APPROVED
  | AU_CHANGE_REJECTED | AU_COMPLETION_CONFIRMED | AU_JOB_COMPLETED | AU_JOB_BASIC_INFO_UPDATED

datatype CompletionRequestStatus = CQ_REQUESTED | CQ_CONFIRMED | CQ_ISSUE_REPORTED | CQ_REVOKED

datatype CompletionProblemType = PROBLEM_MISSING_WORK | PROBLEM_DAMAGE | PROBLEM_AMOUNT
  | PROBLEM_OTHER

record CompletionWorkerShiftCreate =
  wsc_worker_id :: uuid
  wsc_started_at :: instant
  wsc_ended_at :: instant

record CompletionSubmission =
  cm_id :: uuid
  cm_job_id :: uuid
  cm_client_reference :: uuid
  cm_dispatch_plan_id :: uuid
  cm_scope_version_id :: uuid
  cm_submitted_by_participant_id :: uuid
  cm_command_hash :: string
  cm_completed_check_keys :: "string list"
  cm_worker_shifts :: "CompletionWorkerShiftCreate list"
  cm_onsite_customer_confirmed :: bool
  cm_onsite_confirmed_at :: instant
  cm_work_ended_at :: instant
  cm_submitted_at :: instant

definition completion_submission_check :: "CompletionSubmission \<Rightarrow> bool" where
  "completion_submission_check r =
     (length (cm_command_hash r) = 64 \<and> cm_onsite_customer_confirmed r)"

record CompletionSubmissionEvidence =
  me_completion_submission_id :: uuid
  me_media_asset_id :: uuid

record CompletionRequest =
  cq_id :: uuid
  cq_job_id :: uuid
  cq_client_reference :: uuid
  cq_completion_submission_id :: uuid
  cq_requested_by_participant_id :: uuid
  cq_command_hash :: string
  cq_status :: CompletionRequestStatus
  cq_requested_at :: instant
  cq_expires_at :: instant
  cq_revoked_at :: "instant option"
  cq_revoke_reason :: "string option"
  cq_decided_by_participant_id :: "uuid option"
  cq_decision_hash :: "string option"
  cq_unrecorded_extra_charge :: "bool option"
  cq_decided_at :: "instant option"

definition completion_request_check :: "CompletionRequest \<Rightarrow> bool" where
  "completion_request_check r = (
     length (cq_command_hash r) = 64 \<and> cq_requested_at r < cq_expires_at r \<and>
     ((cq_status r = CQ_REVOKED \<and> cq_revoked_at r \<noteq> None \<and> cq_revoke_reason r \<noteq> None) \<or>
      (cq_status r \<noteq> CQ_REVOKED \<and> cq_revoked_at r = None \<and> cq_revoke_reason r = None)) \<and>
     ((cq_status r \<in> {CQ_CONFIRMED, CQ_ISSUE_REPORTED} \<and> cq_decided_by_participant_id r \<noteq> None \<and>
       cq_decision_hash r \<noteq> None \<and> cq_decided_at r \<noteq> None) \<or>
      (cq_status r \<notin> {CQ_CONFIRMED, CQ_ISSUE_REPORTED} \<and> cq_decided_by_participant_id r = None \<and>
       cq_decision_hash r = None \<and> cq_decided_at r = None)))"

record CompletionProblemReport =
  pr_id :: uuid
  pr_job_id :: uuid
  pr_completion_request_id :: uuid
  pr_problem_type :: CompletionProblemType
  pr_description :: string
  pr_reported_by_participant_id :: uuid
  pr_reported_at :: instant

record CompletionConfirmation =
  cc_id :: uuid
  cc_job_id :: uuid
  cc_scope_version_id :: uuid
  cc_participant_id :: uuid
  cc_role :: ParticipantRole
  cc_confirmed_at :: instant

definition completion_confirmation_check :: "CompletionConfirmation \<Rightarrow> bool" where
  "completion_confirmation_check r = (cc_role r \<in> {CUSTOMER, COMPANY_MANAGER})"

record CompletionEvidence =
  cv_confirmation_id :: uuid
  cv_media_asset_id :: uuid

record AuditEvent =
  ae_id :: uuid
  ae_job_id :: uuid
  ae_event_type :: AuditEventType
  ae_actor_participant_id :: "uuid option"
  ae_payload :: "(string \<times> json) list"
  ae_occurred_at :: instant

end
