(* ===== verification/DeliveryTables.thy ===== *)
theory DeliveryTables
  imports Content
begin

text \<open>
  Rows of the tables of the analysis, analysis workflow and notification modules
  (\<open>models.py\<close> of each), with their CHECK constraints. A confidence is a
  rational number.
\<close>

section \<open>Analysis: \<open>app/modules/analysis/models.py\<close>\<close>

datatype AnalysisRunStatus = RUN_PENDING | RUN_RUNNING | RUN_COMPLETED | RUN_FAILED

record AiAnalysisRun =
  ar_id :: uuid
  ar_capture_session_id :: uuid
  ar_status :: AnalysisRunStatus
  ar_attempt_count :: int
  ar_trace_id :: string
  ar_model_name :: "string option"
  ar_model_version :: "string option"
  ar_prompt_version :: "string option"
  ar_result_schema_version :: "int option"
  ar_failure_code :: "string option"
  ar_failure_stage :: "string option"
  ar_provider_status :: "int option"
  ar_failure_detail_code :: "string option"
  ar_created_at :: instant
  ar_started_at :: "instant option"
  ar_completed_at :: "instant option"

definition analysis_run_check :: "AiAnalysisRun \<Rightarrow> bool" where
  "analysis_run_check r = (
     0 \<le> ar_attempt_count r \<and> length (ar_trace_id r) = 32 \<and>
     (ar_status r = RUN_PENDING) = (ar_started_at r = None) \<and>
     (ar_status r \<in> {RUN_COMPLETED, RUN_FAILED}) = (ar_completed_at r \<noteq> None) \<and>
     (ar_status r = RUN_FAILED) = (ar_failure_code r \<noteq> None) \<and>
     ar_failure_code r \<noteq> Some [] \<and> ar_failure_stage r \<noteq> Some [] \<and>
     ar_failure_detail_code r \<noteq> Some [] \<and>
     (ar_status r = RUN_COMPLETED) = (ar_model_name r \<noteq> None) \<and>
     (ar_model_name r = None) = (ar_model_version r = None) \<and>
     (ar_model_name r = None) = (ar_prompt_version r = None) \<and>
     (ar_model_name r = None) = (ar_result_schema_version r = None) \<and>
     ar_result_schema_version r \<in> {None, Some 1, Some 2})"

record Detection =
  dt_id :: uuid
  dt_analysis_run_id :: uuid
  dt_ordinal :: int
  dt_item_schema_version :: int
  dt_item_key :: string
  dt_description :: string
  dt_name :: "string option"
  dt_quantity :: "int option"
  dt_unit :: "string option"
  dt_work_note :: "string option"
  dt_confidence :: rat
  dt_review_required :: bool
  dt_source_media_asset_ids :: "uuid list"
  dt_created_at :: instant

definition detection_check :: "Detection \<Rightarrow> bool" where
  "detection_check r = (
     0 \<le> dt_confidence r \<and> dt_confidence r \<le> 1 \<and> dt_item_key r \<noteq> [] \<and> dt_description r \<noteq> [] \<and>
     0 \<le> dt_ordinal r \<and>
     ((dt_item_schema_version r = 1 \<and> dt_name r = None \<and> dt_quantity r = None \<and> dt_unit r = None \<and>
       dt_work_note r = None) \<or>
      (dt_item_schema_version r = 2 \<and> dt_name r \<noteq> None \<and> dt_name r \<noteq> Some [] \<and>
       ((\<not> dt_review_required r \<and> dt_quantity r \<noteq> None \<and> dt_unit r \<noteq> None) \<or>
        (dt_review_required r \<and> (dt_quantity r = None) = (dt_unit r = None))) \<and>
       (case dt_quantity r of None \<Rightarrow> True | Some q \<Rightarrow> 1 \<le> q) \<and>
       dt_unit r \<noteq> Some [] \<and> dt_work_note r \<noteq> Some [])))"

record AnalysisLocationConditionSuggestion =
  ls_id :: uuid
  ls_analysis_run_id :: uuid
  ls_ordinal :: int
  ls_location_id :: uuid
  ls_location_kind :: LocationKind
  ls_residence_type :: ResidenceType
  ls_floor_status :: KnowledgeStatus
  ls_floor_value :: "int option"
  ls_elevator :: ElevatorAvailability
  ls_stairs :: StairUsage
  ls_parking_access :: ParkingAccess
  ls_carry_distance_status :: KnowledgeStatus
  ls_carry_distance_value_m :: "int option"
  ls_access_note :: "string option"
  ls_confidence :: rat
  ls_review_required_fields :: "string list"
  ls_source_media_asset_ids :: "uuid list"
  ls_created_at :: instant

definition location_suggestion_check :: "AnalysisLocationConditionSuggestion \<Rightarrow> bool" where
  "location_suggestion_check r = (
     0 \<le> ls_ordinal r \<and>
     (ls_floor_status r = KNOWN) = (ls_floor_value r \<noteq> None) \<and>
     (case ls_floor_value r of None \<Rightarrow> True | Some v \<Rightarrow> -10 \<le> v \<and> v \<le> 200) \<and>
     (ls_carry_distance_status r = KNOWN) = (ls_carry_distance_value_m r \<noteq> None) \<and>
     (case ls_carry_distance_value_m r of None \<Rightarrow> True | Some v \<Rightarrow> 0 \<le> v \<and> v \<le> 100000) \<and>
     ls_access_note r \<noteq> Some [] \<and> 0 \<le> ls_confidence r \<and> ls_confidence r \<le> 1)"

section \<open>Analysis workflow: \<open>app/modules/analysis_workflow/models.py\<close>\<close>

datatype CaptureAnalysisStatus = CA_PENDING | CA_DISPATCHING | CA_QUEUED | CA_RUNNING
  | CA_COMPLETED | CA_FAILED

record CaptureAnalysisDispatch =
  ca_analysis_run_id :: uuid
  ca_capture_session_id :: uuid
  ca_move_job_id :: uuid
  ca_submitted_by_participant_id :: uuid
  ca_status :: CaptureAnalysisStatus
  ca_trace_id :: string
  ca_scheduled_at :: instant
  ca_dispatch_attempt_count :: int
  ca_dispatch_token :: "uuid option"
  ca_dispatch_locked_until :: "instant option"
  ca_provider_task_id :: "string option"
  ca_last_dispatch_error_code :: "string option"
  ca_failure_code :: "string option"
  ca_retryable :: "bool option"
  ca_failure_stage :: "string option"
  ca_provider_status :: "int option"
  ca_failure_detail_code :: "string option"
  ca_scope_version_id :: "uuid option"
  ca_submitted_at :: instant
  ca_last_attempt_at :: "instant option"
  ca_completed_at :: "instant option"

definition capture_analysis_check :: "CaptureAnalysisDispatch \<Rightarrow> bool" where
  "capture_analysis_check r = (
     0 \<le> ca_dispatch_attempt_count r \<and> length (ca_trace_id r) = 32 \<and>
     (ca_dispatch_attempt_count r = 0) = (ca_last_attempt_at r = None) \<and>
     ((ca_status r = CA_DISPATCHING \<and> ca_dispatch_token r \<noteq> None \<and>
       ca_dispatch_locked_until r \<noteq> None) \<or>
      (ca_status r \<noteq> CA_DISPATCHING \<and> ca_dispatch_token r = None \<and>
       ca_dispatch_locked_until r = None)) \<and>
     ca_last_dispatch_error_code r \<noteq> Some [] \<and>
     (ca_status r \<in> {CA_COMPLETED, CA_FAILED}) = (ca_completed_at r \<noteq> None) \<and>
     (ca_status r = CA_COMPLETED) = (ca_scope_version_id r \<noteq> None) \<and>
     ((ca_status r = CA_FAILED \<and> ca_failure_code r \<noteq> None \<and> ca_retryable r \<noteq> None) \<or>
      (ca_status r \<noteq> CA_FAILED \<and> ca_failure_code r = None \<and> ca_retryable r = None)) \<and>
     ca_failure_code r \<noteq> Some [] \<and> ca_failure_stage r \<noteq> Some [] \<and>
     ca_failure_detail_code r \<noteq> Some [])"

section \<open>Notifications: \<open>app/modules/notification/models.py\<close>\<close>

datatype NotificationStatus = NOTE_PENDING | NOTE_SENT | NOTE_FAILED

datatype NotificationChannel = IN_APP | EMAIL | SMS | KAKAO

record EventConsumption =
  ec_consumer_name :: string
  ec_event_id :: uuid
  ec_consumed_at :: instant

record NotificationDelivery =
  nd_id :: uuid
  nd_event_id :: uuid
  nd_event_type :: DomainEventType
  nd_job_id :: uuid
  nd_recipient_participant_id :: uuid
  nd_channel :: NotificationChannel
  nd_destination :: "string option"
  nd_status :: NotificationStatus
  nd_attempt_count :: int
  nd_created_at :: instant
  nd_last_attempt_at :: "instant option"
  nd_sent_at :: "instant option"
  nd_last_error_code :: "string option"
  nd_next_attempt_at :: "instant option"
  nd_locked_until :: "instant option"
  nd_lock_token :: "uuid option"
  nd_provider_message_id :: "string option"

definition notification_check :: "NotificationDelivery \<Rightarrow> bool" where
  "notification_check r = (
     (nd_channel r = IN_APP) = (nd_destination r = None) \<and>
     0 \<le> nd_attempt_count r \<and>
     (nd_status r = NOTE_SENT) = (nd_sent_at r \<noteq> None) \<and>
     (nd_status r = NOTE_FAILED) = (nd_last_error_code r \<noteq> None) \<and>
     nd_last_error_code r \<noteq> Some [] \<and>
     (0 < nd_attempt_count r) = (nd_last_attempt_at r \<noteq> None))"

end
