(* ===== verification/Database.thy ===== *)
theory Database
  imports AgreementTables DeliveryTables
begin

text \<open>
  The state every service call reads and writes: the tables, and the sources the
  program draws on that are not code under \<open>src/\<close>: \<open>rng\<close> supplies the
  values of \<open>uuid4()\<close> and \<open>secrets.token_*\<close> one after the other
  (\<open>drawn\<close> counts them), \<open>sha256_hex\<close> is the hexadecimal digest of a text.
  A call runs in one transaction: it returns the new database, or raises and leaves
  the old one.
\<close>

record db =
  rng :: "nat \<Rightarrow> uuid"
  drawn :: nat
  sha256_hex :: "string \<Rightarrow> string"
  move_jobs :: "MoveJob list"
  participants :: "JobParticipant list"
  locations :: "Location list"
  room_zones :: "RoomZone list"
  access_tokens :: "ParticipantAccessToken list"
  invitations :: "ParticipantInvitation list"
  workspace_accounts :: "WorkspaceAccount list"
  workspace_memberships :: "WorkspaceMembership list"
  workspace_sessions :: "WorkspaceSession list"
  contact_points :: "WorkspaceContactPoint list"
  capture_sessions :: "CaptureSession list"
  media_assets :: "MediaAsset list"
  background_jobs :: "BackgroundJob list"
  outbox :: "OutboxEvent list"
  scope_versions :: "ScopeVersion list"
  scope_approvals :: "ScopeApproval list"
  change_requests :: "ChangeRequest list"
  change_evidence :: "ChangeRequestEvidence list"
  scope_proposals :: "ScopeProposal list"
  revision_requests :: "ScopeRevisionRequest list"
  field_issues :: "FieldIssue list"
  field_issue_evidence :: "FieldIssueEvidence list"
  proposal_details :: "ChangeProposalDetail list"
  dispatch_setups :: "DispatchSetup list"
  dispatch_plans :: "DispatchPlan list"
  field_check_ins :: "FieldCheckIn list"
  completion_submissions :: "CompletionSubmission list"
  submission_evidence :: "CompletionSubmissionEvidence list"
  completion_requests :: "CompletionRequest list"
  problem_reports :: "CompletionProblemReport list"
  completion_confirmations :: "CompletionConfirmation list"
  completion_evidence :: "CompletionEvidence list"
  audit_events :: "AuditEvent list"
  analysis_runs :: "AiAnalysisRun list"
  detections :: "Detection list"
  location_suggestions :: "AnalysisLocationConditionSuggestion list"
  analysis_dispatches :: "CaptureAnalysisDispatch list"
  event_consumptions :: "EventConsumption list"
  notifications :: "NotificationDelivery list"

definition empty_db :: "(nat \<Rightarrow> uuid) \<Rightarrow> (string \<Rightarrow> string) \<Rightarrow> db" where
  "empty_db f h = \<lparr>rng = f, drawn = 0, sha256_hex = h, move_jobs = [], participants = [],
     locations = [], room_zones = [], access_tokens = [], invitations = [],
     workspace_accounts = [], workspace_memberships = [], workspace_sessions = [],
     contact_points = [], capture_sessions = [], media_assets = [], background_jobs = [],
     outbox = [], scope_versions = [], scope_approvals = [], change_requests = [],
     change_evidence = [], scope_proposals = [], revision_requests = [], field_issues = [],
     field_issue_evidence = [], proposal_details = [], dispatch_setups = [],
     dispatch_plans = [], field_check_ins = [], completion_submissions = [],
     submission_evidence = [], completion_requests = [], problem_reports = [],
     completion_confirmations = [], completion_evidence = [], audit_events = [],
     analysis_runs = [], detections = [], location_suggestions = [],
     analysis_dispatches = [], event_consumptions = [], notifications = []\<rparr>"

section \<open>Drawing identifiers\<close>

definition uuid4 :: "db \<Rightarrow> uuid \<times> db" where
  "uuid4 s = (rng s (drawn s), s\<lparr>drawn := Suc (drawn s)\<rparr>)"

text \<open>\<open>secrets.token_hex(16)\<close>: the 32 hexadecimal digits of the next 128 random bits.\<close>

definition token_hex16 :: "db \<Rightarrow> string \<times> db" where
  "token_hex16 s = (hex_fixed 32 (rng s (drawn s)), s\<lparr>drawn := Suc (drawn s)\<rparr>)"

text \<open>The values drawn so far, and the assumption that the supply never repeats one.\<close>

definition drawn_ids :: "db \<Rightarrow> uuid set" where
  "drawn_ids s = rng s ` {..< drawn s}"

definition fresh_supply :: "db \<Rightarrow> bool" where
  "fresh_supply s = inj (rng s)"

lemma uuid4_fresh: "fresh_supply s \<Longrightarrow> rng s (drawn s) \<notin> drawn_ids s"
  by (auto simp: fresh_supply_def drawn_ids_def dest: injD)

lemma drawn_ids_Suc [simp]:
  "drawn_ids (s\<lparr>drawn := Suc (drawn s)\<rparr>) = insert (rng s (drawn s)) (drawn_ids s)"
  by (auto simp: drawn_ids_def lessThan_Suc)

lemma drawn_ids_mono: "rng t = rng s \<Longrightarrow> drawn s \<le> drawn t \<Longrightarrow> drawn_ids s \<subseteq> drawn_ids t"
  by (auto simp: drawn_ids_def)

end
