(* ===== verification/LeaseQueue.thy ===== *)
theory LeaseQueue
  imports Prelude
begin

text \<open>
  The contract of a lease-based work queue. The outbox relay, the background-job
  dispatcher, the analysis dispatcher and the notification sender all follow it: a
  worker claims rows in one transaction and receives a token per row, works outside
  any transaction, and settles each row in a later transaction by presenting its
  token. The laws are stated on what a row's lease is (\<open>holder\<close>) and on whether
  the row is finished (\<open>final\<close>); the lemmas are about any interleaving of the
  operations of any number of workers.
\<close>

text \<open>The table effect of a claim loop: each selected row is stamped with the next token.\<close>

fun stamp_rows :: "('r \<Rightarrow> uuid) \<Rightarrow> (uuid \<Rightarrow> 'r \<Rightarrow> 'r) \<Rightarrow> (nat \<Rightarrow> uuid) \<Rightarrow> nat \<Rightarrow> 'r list \<Rightarrow> 'r list \<Rightarrow> 'r list" where
  "stamp_rows k f g n [] t = t"
| "stamp_rows k f g n (r # rs) t = stamp_rows k f g (Suc n) rs (put_row k (f (g n) r) t)"

lemma stamp_rows_keys:
  "map k (stamp_rows k f g n rs t) = map k t"
  by (induction rs arbitrary: n t) auto

lemma stamp_rows_other:
  assumes "\<And>u r. k (f u r) = k r" "i \<notin> k ` set rs"
  shows "row k i (stamp_rows k f g n rs t) = row k i t"
  using assms(2) by (induction rs arbitrary: n t) (auto simp: row_put_row assms(1))

lemma stamp_rows_nth:
  assumes "\<And>u r. k (f u r) = k r" "distinct (map k rs)" "\<forall>r \<in> set rs. row k (k r) t \<noteq> None" "j < length rs"
  shows "row k (k (rs ! j)) (stamp_rows k f g n rs t) = Some (f (g (n + j)) (rs ! j))"
  using assms(2-)
proof (induction rs arbitrary: n t j)
  case (Cons r rs)
  show ?case
  proof (cases j)
    case 0
    have "k r \<notin> k ` set rs" using Cons.prems(1) by auto
    then have "row k (k r) (stamp_rows k f g (Suc n) rs (put_row k (f (g n) r) t))
        = row k (k r) (put_row k (f (g n) r) t)"
      using assms(1) by (intro stamp_rows_other) auto
    then show ?thesis using 0 Cons.prems(2) by (auto simp: row_put_row assms(1))
  next
    case (Suc i)
    have "\<forall>x \<in> set rs. row k (k x) (put_row k (f (g n) r) t) \<noteq> None"
      using Cons.prems(2) by (auto simp: row_put_row assms(1))
    then show ?thesis using Cons.IH[of "put_row k (f (g n) r) t" i "Suc n"] Cons.prems Suc by simp
  qed
qed simp

lemma stamp_rows_mem:
  assumes "x \<in> set (stamp_rows k f g n rs t)"
  shows "x \<in> set t \<or> (\<exists>j < length rs. x = f (g (n + j)) (rs ! j))"
  using assms
proof (induction rs arbitrary: n t)
  case (Cons r rs)
  from Cons.prems have "x \<in> set (stamp_rows k f g (Suc n) rs (put_row k (f (g n) r) t))" by simp
  from Cons.IH[OF this] show ?case
  proof
    assume "x \<in> set (put_row k (f (g n) r) t)"
    then show ?thesis
    proof (rule put_rowE)
      assume "x = f (g n) r"
      then have "0 < length (r # rs) \<and> x = f (g (n + 0)) ((r # rs) ! 0)" by simp
      then show ?thesis by blast
    qed simp
  next
    assume "\<exists>j < length rs. x = f (g (Suc n + j)) (rs ! j)"
    then obtain j where "j < length rs" "x = f (g (Suc n + j)) (rs ! j)" by blast
    then have "Suc j < length (r # rs) \<and> x = f (g (n + Suc j)) ((r # rs) ! Suc j)" by simp
    then show ?thesis by blast
  qed
qed simp

datatype ('c, 'o) lease_op =
    Claim instant 'c
  | Settle 'o uuid uuid

locale lease_queue =
  fixes holder :: "'s \<Rightarrow> uuid \<Rightarrow> (uuid \<times> instant) option"
    and final :: "'s \<Rightarrow> uuid \<Rightarrow> bool"
    and issued :: "'s \<Rightarrow> uuid set"
    and claim :: "instant \<Rightarrow> 'c \<Rightarrow> 's \<Rightarrow> (uuid \<times> uuid) list \<times> 's"
    and settle :: "'o \<Rightarrow> uuid \<Rightarrow> uuid \<Rightarrow> 's \<Rightarrow> 's"
    and inv :: "'s \<Rightarrow> bool"
  assumes claim_inv: "inv s \<Longrightarrow> inv (snd (claim now c s))"
    and settle_inv: "inv s \<Longrightarrow> inv (settle x i t s)"
    and holder_issued: "inv s \<Longrightarrow> holder s i = Some (t, u) \<Longrightarrow> t \<in> issued s"
    and claim_issued: "inv s \<Longrightarrow> issued s \<subseteq> issued (snd (claim now c s))"
    and settle_issued: "issued s \<subseteq> issued (settle x i t s)"
    and claim_kept: "inv s \<Longrightarrow> i \<notin> fst ` set (fst (claim now c s)) \<Longrightarrow>
          holder (snd (claim now c s)) i = holder s i"
    and claim_grant: "inv s \<Longrightarrow> (i, t) \<in> set (fst (claim now c s)) \<Longrightarrow>
          t \<notin> issued s \<and> (\<exists>u. holder (snd (claim now c s)) i = Some (t, u))"
    and claim_once: "inv s \<Longrightarrow> distinct (map fst (fst (claim now c s)))"
    and claim_lease: "inv s \<Longrightarrow> holder s i = Some (t, u) \<Longrightarrow> now < u \<Longrightarrow>
          i \<notin> fst ` set (fst (claim now c s))"
    and claim_open: "inv s \<Longrightarrow> final s i \<Longrightarrow> i \<notin> fst ` set (fst (claim now c s))"
    and claim_final: "inv s \<Longrightarrow> final (snd (claim now c s)) i = final s i"
    and settle_token: "inv s \<Longrightarrow> \<nexists>u. holder s i = Some (t, u) \<Longrightarrow>
          holder (settle x i t s) j = holder s j \<and> final (settle x i t s) j = final s j"
    and settle_frame: "inv s \<Longrightarrow> j \<noteq> i \<Longrightarrow>
          holder (settle x i t s) j = holder s j \<and> final (settle x i t s) j = final s j"
    and settle_release: "inv s \<Longrightarrow> holder s i = Some (t, u) \<Longrightarrow> holder (settle x i t s) i = None"
    and final_unheld: "inv s \<Longrightarrow> final s i \<Longrightarrow> holder s i = None"
begin

text \<open>One operation of the queue, and a history of them.\<close>

definition step :: "('c, 'o) lease_op \<Rightarrow> 's \<Rightarrow> 's" where
  "step x s = (case x of Claim now c \<Rightarrow> snd (claim now c s) | Settle y i t \<Rightarrow> settle y i t s)"

definition run :: "('c, 'o) lease_op list \<Rightarrow> 's \<Rightarrow> 's" where
  "run xs s = fold step xs s"

lemma run_Nil [simp]: "run [] s = s"
  by (simp add: run_def)

lemma run_Cons [simp]: "run (x # xs) s = run xs (step x s)"
  by (simp add: run_def)

lemma step_inv: "inv s \<Longrightarrow> inv (step x s)"
  by (cases x) (auto simp: step_def claim_inv settle_inv)

lemma run_inv: "inv s \<Longrightarrow> inv (run xs s)"
  by (induction xs arbitrary: s) (auto simp: step_inv)

lemma step_issued: "inv s \<Longrightarrow> t \<in> issued s \<Longrightarrow> t \<in> issued (step x s)"
  using claim_issued settle_issued by (cases x) (fastforce simp: step_def)+

text \<open>An operation that leaves a live lease alone: a claim made before the lease runs
  out, or a settlement with another row or another token.\<close>

definition spares :: "uuid \<Rightarrow> uuid \<Rightarrow> instant \<Rightarrow> ('c, 'o) lease_op \<Rightarrow> bool" where
  "spares i t u x = (case x of Claim now c \<Rightarrow> now < u | Settle y j t' \<Rightarrow> j \<noteq> i \<or> t' \<noteq> t)"

lemma step_protected:
  assumes "inv s" "holder s i = Some (t, u)" "spares i t u x"
  shows "holder (step x s) i = Some (t, u)"
proof (cases x)
  case (Claim now c)
  then show ?thesis
    using assms claim_lease claim_kept by (fastforce simp: step_def spares_def)
next
  case (Settle y j t')
  have "holder (settle y j t' s) i = holder s i"
  proof (cases "j = i")
    case True
    then have "\<nexists>v. holder s j = Some (t', v)" using assms Settle by (auto simp: spares_def)
    then show ?thesis using settle_token assms(1) by blast
  next
    case False
    then show ?thesis using settle_frame assms(1) by metis
  qed
  then show ?thesis using assms Settle by (simp add: step_def)
qed

text \<open>A live lease survives everything other workers do before it runs out.\<close>

lemma lease_protected:
  assumes "inv s" "holder s i = Some (t, u)" "\<forall>x \<in> set xs. spares i t u x"
  shows "holder (run xs s) i = Some (t, u)"
  using assms by (induction xs arbitrary: s) (auto simp: step_protected step_inv)

text \<open>Nobody else is granted the row while the lease is live.\<close>

lemma no_second_grant:
  assumes "inv s" "holder s i = Some (t, u)" "\<forall>x \<in> set xs. spares i t u x" "now < u"
  shows "i \<notin> fst ` set (fst (claim now c (run xs s)))"
  using lease_protected[OF assms(1-3)] run_inv[OF assms(1)] claim_lease assms(4) by blast

text \<open>A token that no longer holds its row never holds it again.\<close>

lemma step_stale:
  assumes "inv s" "t \<in> issued s" "\<nexists>u. holder s i = Some (t, u)"
  shows "\<nexists>u. holder (step x s) i = Some (t, u)"
proof (cases x)
  case (Claim now c)
  show ?thesis
  proof (cases "i \<in> fst ` set (fst (claim now c s))")
    case True
    then obtain t' where "(i, t') \<in> set (fst (claim now c s))" by force
    then have "t' \<notin> issued s" "\<exists>u. holder (snd (claim now c s)) i = Some (t', u)"
      using claim_grant assms(1) by blast+
    then show ?thesis using assms(2) Claim by (auto simp: step_def)
  next
    case False
    then show ?thesis using claim_kept[OF assms(1)] assms(3) Claim by (simp add: step_def)
  qed
next
  case (Settle y j t')
  have "holder (settle y j t' s) i = None \<or> holder (settle y j t' s) i = holder s i"
    by (metis assms(1) settle_frame settle_release settle_token)
  then show ?thesis using assms(3) Settle by (auto simp: step_def)
qed

lemma stale_forever:
  assumes "inv s" "t \<in> issued s" "\<nexists>u. holder s i = Some (t, u)"
  shows "\<nexists>u. holder (run xs s) i = Some (t, u)"
  using assms
proof (induction xs arbitrary: s)
  case (Cons x xs)
  have "inv (step x s)" "t \<in> issued (step x s)" "\<nexists>u. holder (step x s) i = Some (t, u)"
    using Cons.prems step_inv step_issued step_stale by blast+
  then show ?case using Cons.IH by simp
qed simp

text \<open>After a settlement, the same token settles nothing any more.\<close>

lemma settle_only_once:
  assumes "inv s" "holder s i = Some (t, u)"
  shows "\<nexists>v. holder (run xs (settle x i t s)) i = Some (t, v)"
proof (rule stale_forever)
  show "inv (settle x i t s)" using assms settle_inv by blast
  show "t \<in> issued (settle x i t s)" using assms holder_issued settle_issued by blast
  show "\<nexists>v. holder (settle x i t s) i = Some (t, v)" using settle_release assms by simp
qed

text \<open>A finished row stays finished and is never claimed again.\<close>

lemma step_final: "inv s \<Longrightarrow> final s i \<Longrightarrow> final (step x s) i"
proof (cases x)
  case (Settle y j t')
  moreover assume "inv s" "final s i"
  ultimately show ?thesis
    by (cases "j = i") (auto simp: step_def settle_token settle_frame final_unheld)
qed (simp add: step_def claim_final)

lemma final_forever: "inv s \<Longrightarrow> final s i \<Longrightarrow> final (run xs s) i"
  by (induction xs arbitrary: s) (auto simp: step_final step_inv)

lemma final_never_claimed:
  "inv s \<Longrightarrow> final s i \<Longrightarrow> i \<notin> fst ` set (fst (claim now c (run xs s)))"
  using final_forever run_inv claim_open by blast

end

end
