(* ===== verification/Outbox.thy ===== *)
theory Outbox
  imports Database LeaseQueue
begin

text \<open>
  The transactional outbox of \<open>app/platform/event_bus/service.py\<close>: events are
  enqueued inside the business transaction that causes them, leased in batches,
  published outside any transaction and settled with the lease token. Each definition
  is one function of that file. The clock and the event bus are arguments.
\<close>

section \<open>Operations\<close>

definition MAX_BATCH_SIZE :: int where "MAX_BATCH_SIZE = 100"

definition MAX_RETRY_DELAY_SECONDS :: int where "MAX_RETRY_DELAY_SECONDS = 300"

text \<open>\<open>^[a-z][a-z0-9_]{0,63}$\<close>, matched against the whole text.\<close>

definition error_code_pattern :: "string \<Rightarrow> bool" where
  "error_code_pattern s = (case s of [] \<Rightarrow> False | c # cs \<Rightarrow>
     is_lower c \<and> length cs \<le> 63 \<and>
     list_all (\<lambda>d. is_lower d \<or> is_digit d \<or> d = CHR ''_'') cs)"

record ClaimedOutboxEvent =
  co_event :: DomainEvent
  co_lock_token :: uuid

record RelayResult =
  rl_claimed :: int
  rl_published :: int
  rl_failed :: int

datatype delivery_state = Ready | Leased | Published

definition delivery_state :: "OutboxEvent \<Rightarrow> delivery_state" where
  "delivery_state r = (if oe_published_at r \<noteq> None then Published
     else if oe_lock_token r \<noteq> None then Leased else Ready)"

fun outbox_delivery_transitions :: "delivery_state \<Rightarrow> delivery_state list" where
  "outbox_delivery_transitions Ready = [Leased]"
| "outbox_delivery_transitions Leased = [Ready, Leased, Published]"
| "outbox_delivery_transitions Published = []"

definition require_delivery_transition :: "OutboxEvent \<Rightarrow> delivery_state \<Rightarrow> unit result" where
  "require_delivery_transition r target =
     (if target \<notin> set (outbox_delivery_transitions (delivery_state r)) then Inl ValueError
      else Inr ())"

text \<open>\<open>trace_id or secrets.token_hex(16)\<close>.\<close>

definition trace_or_new :: "string option \<Rightarrow> db \<Rightarrow> string \<times> db" where
  "trace_or_new trace s = (case trace of
     Some (c # cs) \<Rightarrow> (c # cs, s) | _ \<Rightarrow> token_hex16 s)"

definition new_outbox_event :: "DomainEvent \<Rightarrow> OutboxEvent" where
  "new_outbox_event ev = \<lparr>oe_event_id = de_event_id ev, oe_event_type = de_event_type ev,
     oe_schema_version = de_schema_version ev, oe_aggregate_id = de_aggregate_id ev,
     oe_actor_id = de_actor_id ev, oe_trace_id = de_trace_id ev,
     oe_payload = de_payload ev, oe_occurred_at = de_occurred_at ev,
     oe_next_attempt_at = de_occurred_at ev, oe_attempt_count = 0,
     oe_lock_token = None, oe_locked_until = None, oe_published_at = None,
     oe_last_error_code = None\<rparr>"

definition enqueue_domain_event ::
    "DomainEventType \<Rightarrow> uuid \<Rightarrow> uuid option \<Rightarrow> string option \<Rightarrow> (string \<times> json) list \<Rightarrow>
     instant \<Rightarrow> db \<Rightarrow> (DomainEvent \<times> db) result" where
  "enqueue_domain_event ty aggregate actor trace payload occurred s =
     (let (eid, s1) = uuid4 s; (tr, s2) = trace_or_new trace s1 in
      bindR (mk_domain_event \<lparr>de_event_id = eid, de_event_type = ty, de_schema_version = 1,
               de_aggregate_id = aggregate, de_occurred_at = occurred, de_actor_id = actor,
               de_trace_id = tr, de_payload = payload\<rparr>)
       (\<lambda>ev. Inr (ev, s2\<lparr>outbox := outbox s2 @ [new_outbox_event ev]\<rparr>)))"

definition to_domain_event :: "OutboxEvent \<Rightarrow> DomainEvent result" where
  "to_domain_event r = mk_domain_event \<lparr>de_event_id = oe_event_id r,
     de_event_type = oe_event_type r, de_schema_version = oe_schema_version r,
     de_aggregate_id = oe_aggregate_id r, de_occurred_at = oe_occurred_at r,
     de_actor_id = oe_actor_id r, de_trace_id = oe_trace_id r, de_payload = oe_payload r\<rparr>"

definition outbox_due :: "instant \<Rightarrow> OutboxEvent \<Rightarrow> bool" where
  "outbox_due now r = (oe_published_at r = None \<and> oe_next_attempt_at r \<le> now \<and>
     (case oe_locked_until r of None \<Rightarrow> True | Some u \<Rightarrow> u \<le> now))"

definition lease_outbox_row :: "uuid \<Rightarrow> instant \<Rightarrow> OutboxEvent \<Rightarrow> OutboxEvent" where
  "lease_outbox_row tok until r = r\<lparr>oe_lock_token := Some tok, oe_locked_until := Some until,
     oe_attempt_count := oe_attempt_count r + 1\<rparr>"

text \<open>The loop of \<open>claim_outbox_events\<close> over the selected rows.\<close>

fun lease_outbox_rows ::
    "instant \<Rightarrow> OutboxEvent list \<Rightarrow> db \<Rightarrow> (ClaimedOutboxEvent list \<times> db) result" where
  "lease_outbox_rows until [] s = Inr ([], s)"
| "lease_outbox_rows until (r # rs) s =
     bindR (require_delivery_transition r Leased) (\<lambda>_.
     let (tok, s1) = uuid4 s;
         r' = lease_outbox_row tok until r;
         s2 = s1\<lparr>outbox := put_row oe_event_id r' (outbox s1)\<rparr> in
     bindR (to_domain_event r') (\<lambda>ev.
     bindR (lease_outbox_rows until rs s2) (\<lambda>(cs, s3).
     Inr (\<lparr>co_event = ev, co_lock_token = tok\<rparr> # cs, s3))))"

definition claim_outbox_events ::
    "instant \<Rightarrow> int \<Rightarrow> int \<Rightarrow> db \<Rightarrow> (ClaimedOutboxEvent list \<times> db) result" where
  "claim_outbox_events now limit lease_seconds s =
     (if \<not> (1 \<le> limit \<and> limit \<le> MAX_BATCH_SIZE) then Inl ValueError
      else if lease_seconds \<le> 0 then Inl ValueError
      else lease_outbox_rows (now + seconds lease_seconds)
             (select_by (\<lambda>r. (oe_occurred_at r, oe_event_id r)) (nat limit) (outbox_due now)
                (outbox s)) s)"

text \<open>The row a finalizer may touch: right event, right token, still unpublished.\<close>

definition leased_row :: "uuid \<Rightarrow> uuid \<Rightarrow> db \<Rightarrow> OutboxEvent option" where
  "leased_row eid tok s = find (\<lambda>r. oe_event_id r = eid \<and> oe_lock_token r = Some tok \<and>
     oe_published_at r = None) (outbox s)"

definition mark_outbox_published :: "uuid \<Rightarrow> uuid \<Rightarrow> instant \<Rightarrow> db \<Rightarrow> (bool \<times> db) result" where
  "mark_outbox_published eid tok published s = (case leased_row eid tok s of
     None \<Rightarrow> Inr (False, s)
   | Some r \<Rightarrow> bindR (require_delivery_transition r Published) (\<lambda>_.
       Inr (True, s\<lparr>outbox := put_row oe_event_id
         (r\<lparr>oe_published_at := Some published, oe_lock_token := None, oe_locked_until := None,
            oe_last_error_code := None\<rparr>) (outbox s)\<rparr>)))"

definition outbox_retry_delay :: "int \<Rightarrow> int" where
  "outbox_retry_delay attempts =
     min (2 ^ nat (min (max (attempts - 1) 0) 8)) MAX_RETRY_DELAY_SECONDS"

definition mark_outbox_failed ::
    "uuid \<Rightarrow> uuid \<Rightarrow> string \<Rightarrow> instant \<Rightarrow> db \<Rightarrow> (bool \<times> db) result" where
  "mark_outbox_failed eid tok code failed s =
     (if \<not> error_code_pattern code then Inl ValueError
      else case leased_row eid tok s of
        None \<Rightarrow> Inr (False, s)
      | Some r \<Rightarrow> bindR (require_delivery_transition r Ready) (\<lambda>_.
          Inr (True, s\<lparr>outbox := put_row oe_event_id
            (r\<lparr>oe_next_attempt_at := failed + seconds (outbox_retry_delay (oe_attempt_count r)),
               oe_lock_token := None, oe_locked_until := None,
               oe_last_error_code := Some code\<rparr>) (outbox s)\<rparr>)))"

text \<open>Settling the claims of a batch with the outcome of each publication.\<close>

definition settle_outbox ::
    "port_error option \<Rightarrow> uuid \<Rightarrow> uuid \<Rightarrow> instant \<Rightarrow> db \<Rightarrow> (bool \<times> db) result" where
  "settle_outbox err eid tok tm s = (case err of
     Some e \<Rightarrow> mark_outbox_failed eid tok (port_error_code e) tm s
   | None \<Rightarrow> mark_outbox_published eid tok tm s)"

fun settle_outbox_batch ::
    "(ClaimedOutboxEvent \<times> port_error option) list \<Rightarrow> instant \<Rightarrow> db \<Rightarrow> (int \<times> int \<times> db) result" where
  "settle_outbox_batch [] tm s = Inr (0, 0, s)"
| "settle_outbox_batch ((c, err) # rest) tm s =
     bindR (settle_outbox err (de_event_id (co_event c)) (co_lock_token c) tm s) (\<lambda>(ok, s1).
     bindR (settle_outbox_batch rest tm s1) (\<lambda>(published, failed, s2).
     Inr (if err = None then (published + of_bool ok, failed, s2)
          else (published, failed + of_bool ok, s2))))"

text \<open>\<open>IdempotencyKey(f"event:{event_id}")\<close>.\<close>

definition event_key :: "DomainEvent \<Rightarrow> string" where
  "event_key ev = ''event:'' @ uuid_str (de_event_id ev)"

text \<open>
  One relay pass: \<open>bus\<close> answers each publication, \<open>others\<close> is what the
  transactions of other workers do while nothing is locked, \<open>now\<close> the optional
  fixed clock, \<open>t0\<close> and \<open>t1\<close> the clock readings otherwise. The pass
  returns the counts, the events handed to the bus with their keys, and the database.
\<close>

definition relay_outbox_once ::
    "(DomainEvent \<Rightarrow> string \<Rightarrow> port_error option) \<Rightarrow> (db \<Rightarrow> db) \<Rightarrow> instant option \<Rightarrow> instant \<Rightarrow> instant \<Rightarrow>
     int \<Rightarrow> int \<Rightarrow> rat \<Rightarrow> db \<Rightarrow> (RelayResult \<times> (DomainEvent \<times> string) list \<times> db) result" where
  "relay_outbox_once bus others now t0 t1 batch_size lease_seconds timeout s =
     (if timeout \<le> 0 then Inl ValueError
      else if of_int lease_seconds \<le> timeout then Inl ValueError
      else let start = (case now of Some t \<Rightarrow> t | None \<Rightarrow> t0) in
      bindR (claim_outbox_events start batch_size lease_seconds s) (\<lambda>(claimed, s1).
      if claimed = [] then Inr (\<lparr>rl_claimed = 0, rl_published = 0, rl_failed = 0\<rparr>, [], s1)
      else let sent = map (\<lambda>c. (co_event c, event_key (co_event c))) claimed;
               errors = map (\<lambda>(ev, key). bus ev key) sent;
               finish = (case now of Some t \<Rightarrow> t | None \<Rightarrow> t1) in
      bindR (settle_outbox_batch (zip claimed errors) finish (others s1)) (\<lambda>(published, failed, s2).
      Inr (\<lparr>rl_claimed = int (length claimed), rl_published = published, rl_failed = failed\<rparr>,
           sent, s2))))"

section \<open>The invariant of the outbox\<close>

text \<open>
  Every stored row satisfies the table's constraints and carries a valid envelope, ids
  are unique, and ids and lease tokens come from the supply.
\<close>

definition outbox_row_ok :: "db \<Rightarrow> OutboxEvent \<Rightarrow> bool" where
  "outbox_row_ok s r = (outbox_event_check r \<and> trace_text (oe_trace_id r) \<and>
     documented_payload (oe_event_type r) (oe_payload r) \<and> oe_event_id r \<in> drawn_ids s \<and>
     (\<forall>t. oe_lock_token r = Some t \<longrightarrow> t \<in> drawn_ids s))"

definition outbox_inv :: "db \<Rightarrow> bool" where
  "outbox_inv s = (fresh_supply s \<and> distinct (map oe_event_id (outbox s)) \<and>
     (\<forall>r \<in> set (outbox s). outbox_row_ok s r))"

lemma outbox_invD:
  assumes "outbox_inv s"
  shows "fresh_supply s" "distinct (map oe_event_id (outbox s))"
    "r \<in> set (outbox s) \<Longrightarrow> outbox_row_ok s r"
  using assms by (auto simp: outbox_inv_def)

lemma outbox_row_ok_mono:
  "outbox_row_ok s r \<Longrightarrow> drawn_ids s \<subseteq> drawn_ids s' \<Longrightarrow> outbox_row_ok s' r"
  by (auto simp: outbox_row_ok_def)

definition event_of_row :: "OutboxEvent \<Rightarrow> DomainEvent" where
  "event_of_row r = \<lparr>de_event_id = oe_event_id r, de_event_type = oe_event_type r,
     de_schema_version = oe_schema_version r, de_aggregate_id = oe_aggregate_id r,
     de_occurred_at = oe_occurred_at r, de_actor_id = oe_actor_id r,
     de_trace_id = oe_trace_id r, de_payload = oe_payload r\<rparr>"

lemma to_domain_event_ok: "outbox_row_ok s r \<Longrightarrow> to_domain_event r = Inr (event_of_row r)"
  by (simp add: to_domain_event_def event_of_row_def outbox_row_ok_def outbox_event_check_def
      mk_domain_event_ok)

lemma lease_outbox_row_fields [simp]:
  "oe_event_id (lease_outbox_row t u r) = oe_event_id r"
  "oe_lock_token (lease_outbox_row t u r) = Some t"
  "oe_locked_until (lease_outbox_row t u r) = Some u"
  "oe_published_at (lease_outbox_row t u r) = oe_published_at r"
  "oe_attempt_count (lease_outbox_row t u r) = oe_attempt_count r + 1"
  "event_of_row (lease_outbox_row t u r) = event_of_row r"
  by (simp_all add: lease_outbox_row_def event_of_row_def)

lemma lease_outbox_row_ok:
  "outbox_row_ok s r \<Longrightarrow> t \<in> drawn_ids s \<Longrightarrow> oe_published_at r = None \<Longrightarrow>
   outbox_row_ok s (lease_outbox_row t u r)"
  by (auto simp: outbox_row_ok_def outbox_event_check_def lease_outbox_row_def)

lemma delivery_transition_lease: "oe_published_at r = None \<Longrightarrow>
    require_delivery_transition r Leased = Inr ()"
  by (simp add: require_delivery_transition_def delivery_state_def)

lemma delivery_transition_leased:
  "oe_lock_token r = Some t \<Longrightarrow> oe_published_at r = None \<Longrightarrow> x \<in> {Ready, Published} \<Longrightarrow>
    require_delivery_transition r x = Inr ()"
  by (auto simp: require_delivery_transition_def delivery_state_def)

text \<open>Writing back one valid row keeps the invariant.\<close>

lemma outbox_inv_put_row:
  assumes "outbox_inv s" "outbox_row_ok s' r" "rng s' = rng s" "drawn s \<le> drawn s'"
    "outbox s' = put_row oe_event_id r (outbox s)"
  shows "outbox_inv s'"
proof -
  have sub: "drawn_ids s \<subseteq> drawn_ids s'" using assms(3,4) by (rule drawn_ids_mono)
  have "outbox_row_ok s' x" if "x \<in> set (outbox s')" for x
    using that unfolding assms(5)
    by (rule put_rowE) (use assms(2) outbox_row_ok_mono[OF outbox_invD(3)[OF assms(1)] sub] in auto)
  then show ?thesis using assms by (auto simp: outbox_inv_def fresh_supply_def)
qed

section \<open>What a batch of claims does\<close>

lemma lease_outbox_rows_spec:
  assumes "outbox_inv s" "distinct (map oe_event_id rs)"
    "\<forall>r \<in> set rs. r \<in> set (outbox s) \<and> oe_published_at r = None"
  shows "\<exists>cs d t. lease_outbox_rows until rs s = Inr (cs, s\<lparr>drawn := d, outbox := t\<rparr>) \<and>
     d = drawn s + length rs \<and> outbox_inv (s\<lparr>drawn := d, outbox := t\<rparr>) \<and>
     map co_event cs = map event_of_row rs \<and>
     map co_lock_token cs = map (\<lambda>k. rng s (drawn s + k)) [0..<length rs] \<and>
     (\<forall>i. i \<notin> oe_event_id ` set rs \<longrightarrow> row oe_event_id i t = row oe_event_id i (outbox s)) \<and>
     (\<forall>k < length rs. row oe_event_id (oe_event_id (rs ! k)) t =
        Some (lease_outbox_row (rng s (drawn s + k)) until (rs ! k))) \<and>
     map oe_event_id t = map oe_event_id (outbox s)"
  using assms
proof (induction rs arbitrary: s)
  case Nil
  show ?case
    by (rule exI[of _ "[]"], rule exI[of _ "drawn s"], rule exI[of _ "outbox s"]) (simp add: Nil)
next
  case (Cons r rs)
  define tok where "tok = rng s (drawn s)"
  define r' where "r' = lease_outbox_row tok until r"
  define s2 where "s2 = s\<lparr>drawn := Suc (drawn s), outbox := put_row oe_event_id r' (outbox s)\<rparr>"
  have mem: "r \<in> set (outbox s)" "oe_published_at r = None" using Cons.prems by auto
  have ok: "outbox_row_ok s r" using Cons.prems mem outbox_invD by blast
  have "outbox_row_ok s2 r'" unfolding r'_def
    by (rule lease_outbox_row_ok)
      (use ok mem in \<open>auto simp: s2_def tok_def drawn_ids_def outbox_row_ok_def\<close>)
  then have inv2: "outbox_inv s2"
    by (rule outbox_inv_put_row[OF Cons.prems(1)]) (auto simp: s2_def)
  have row_r: "row oe_event_id (oe_event_id r) (outbox s2) = Some r'"
    using row_of_mem[OF outbox_invD(2)[OF Cons.prems(1)] mem(1)]
    by (simp add: s2_def row_put_row r'_def)
  have rest: "\<forall>x \<in> set rs. x \<in> set (outbox s2) \<and> oe_published_at x = None"
  proof
    fix x assume x: "x \<in> set rs"
    then have "oe_event_id x \<noteq> oe_event_id r" using Cons.prems(2) by (auto simp: image_iff)
    then show "x \<in> set (outbox s2) \<and> oe_published_at x = None"
      using Cons.prems(3) x by (force simp: s2_def put_row_def r'_def)
  qed
  obtain cs d t where IH: "lease_outbox_rows until rs s2 = Inr (cs, s2\<lparr>drawn := d, outbox := t\<rparr>)"
    "d = drawn s2 + length rs" "outbox_inv (s2\<lparr>drawn := d, outbox := t\<rparr>)"
    "map co_event cs = map event_of_row rs"
    "map co_lock_token cs = map (\<lambda>k. rng s2 (drawn s2 + k)) [0..<length rs]"
    "\<forall>i. i \<notin> oe_event_id ` set rs \<longrightarrow> row oe_event_id i t = row oe_event_id i (outbox s2)"
    "\<forall>k < length rs. row oe_event_id (oe_event_id (rs ! k)) t =
        Some (lease_outbox_row (rng s2 (drawn s2 + k)) until (rs ! k))"
    "map oe_event_id t = map oe_event_id (outbox s2)"
    using Cons.IH[OF inv2 _ rest] Cons.prems(2) by auto
  have step: "lease_outbox_rows until (r # rs) s =
      Inr (\<lparr>co_event = event_of_row r, co_lock_token = tok\<rparr> # cs, s\<lparr>drawn := d, outbox := t\<rparr>)"
    using IH(1) delivery_transition_lease[OF mem(2)] to_domain_event_ok[of s2 r'] inv2
      \<open>outbox_row_ok s2 r'\<close>
    by (simp add: uuid4_def Let_def tok_def s2_def r'_def)
  have state: "s2\<lparr>drawn := d, outbox := t\<rparr> = s\<lparr>drawn := d, outbox := t\<rparr>" by (simp add: s2_def)
  have tail: "row oe_event_id (oe_event_id ((r # rs) ! k)) t =
      Some (lease_outbox_row (rng s (drawn s + k)) until ((r # rs) ! k))"
    if "k < length (r # rs)" for k
  proof (cases k)
    case 0
    have "oe_event_id r \<notin> oe_event_id ` set rs" using Cons.prems(2) by auto
    then show ?thesis using 0 IH(6) row_r by (simp add: r'_def tok_def)
  next
    case (Suc j)
    then show ?thesis using that IH(7) by (simp add: s2_def)
  qed
  have other: "row oe_event_id i t = row oe_event_id i (outbox s)"
    if "i \<notin> oe_event_id ` set (r # rs)" for i
    using that IH(6) by (auto simp: s2_def row_put_row r'_def)
  have toks: "map co_lock_token (\<lparr>co_event = event_of_row r, co_lock_token = tok\<rparr> # cs)
      = map (\<lambda>k. rng s (drawn s + k)) [0..<length (r # rs)]"
    using IH(5) by (simp add: s2_def tok_def map_upt_Suc del: upt_Suc)
  show ?case
    using step IH(2,3,4,8) other tail toks unfolding state
    by (intro exI[of _ "\<lparr>co_event = event_of_row r, co_lock_token = tok\<rparr> # cs"] exI[of _ d]
        exI[of _ t]) (auto simp: s2_def)
qed

definition claimed_rows :: "instant \<Rightarrow> int \<Rightarrow> db \<Rightarrow> OutboxEvent list" where
  "claimed_rows now limit s = select_by (\<lambda>r. (oe_occurred_at r, oe_event_id r)) (nat limit)
     (outbox_due now) (outbox s)"

definition valid_claim :: "int \<Rightarrow> int \<Rightarrow> bool" where
  "valid_claim limit lease_seconds = (1 \<le> limit \<and> limit \<le> MAX_BATCH_SIZE \<and> 0 < lease_seconds)"

lemma claimed_rowsD:
  assumes "r \<in> set (claimed_rows now limit s)"
  shows "r \<in> set (outbox s)" "outbox_due now r" "oe_published_at r = None"
  using select_by_mem[OF assms[unfolded claimed_rows_def]] by (auto simp: outbox_due_def)

lemma claimed_rows_distinct:
  "outbox_inv s \<Longrightarrow> distinct (map oe_event_id (claimed_rows now limit s))"
  unfolding claimed_rows_def by (rule select_by_distinct) (simp add: outbox_inv_def)

lemma claim_outbox_invalid: "\<not> valid_claim l z \<Longrightarrow> claim_outbox_events now l z s = Inl ValueError"
  by (auto simp: claim_outbox_events_def valid_claim_def)

text \<open>A claim with valid arguments returns, and leases exactly the selected rows.\<close>

lemma claim_outbox_spec:
  assumes "outbox_inv s" "valid_claim l z"
  obtains cs d t where "claim_outbox_events now l z s = Inr (cs, s\<lparr>drawn := d, outbox := t\<rparr>)"
    "outbox_inv (s\<lparr>drawn := d, outbox := t\<rparr>)"
    "d = drawn s + length (claimed_rows now l s)"
    "map co_event cs = map event_of_row (claimed_rows now l s)"
    "map co_lock_token cs = map (\<lambda>k. rng s (drawn s + k)) [0..<length (claimed_rows now l s)]"
    "\<forall>i. i \<notin> oe_event_id ` set (claimed_rows now l s) \<longrightarrow>
       row oe_event_id i t = row oe_event_id i (outbox s)"
    "\<forall>k < length (claimed_rows now l s). row oe_event_id (oe_event_id (claimed_rows now l s ! k)) t =
        Some (lease_outbox_row (rng s (drawn s + k)) (now + seconds z) (claimed_rows now l s ! k))"
    "map oe_event_id t = map oe_event_id (outbox s)"
proof -
  have eq: "claim_outbox_events now l z s =
      lease_outbox_rows (now + seconds z) (claimed_rows now l s) s"
    using assms(2) by (simp add: claim_outbox_events_def claimed_rows_def valid_claim_def)
  have "\<forall>r \<in> set (claimed_rows now l s). r \<in> set (outbox s) \<and> oe_published_at r = None"
    using claimed_rowsD by blast
  from lease_outbox_rows_spec[OF assms(1) claimed_rows_distinct[OF assms(1)] this]
  show thesis using that unfolding eq by blast
qed

text \<open>The claims as pairs of event and token.\<close>

definition claim_pairs :: "ClaimedOutboxEvent list \<Rightarrow> (uuid \<times> uuid) list" where
  "claim_pairs cs = map (\<lambda>c. (de_event_id (co_event c), co_lock_token c)) cs"

lemma claim_pairs_zip: "claim_pairs cs = zip (map de_event_id (map co_event cs)) (map co_lock_token cs)"
  by (simp add: claim_pairs_def zip_map_map zip_same_conv_map)

lemma event_of_row_id [simp]: "de_event_id (event_of_row r) = oe_event_id r"
  by (simp add: event_of_row_def)

lemma claim_pairs_nth:
  assumes "map co_event cs = map event_of_row rs"
    "map co_lock_token cs = map (\<lambda>k. rng s (drawn s + k)) [0..<length rs]"
  shows "claim_pairs cs = map (\<lambda>k. (oe_event_id (rs ! k), rng s (drawn s + k))) [0..<length rs]"
proof -
  have "map de_event_id (map co_event cs) = map (\<lambda>k. oe_event_id (rs ! k)) [0..<length rs]"
    unfolding assms(1) by (rule nth_equalityI) auto
  then show ?thesis unfolding claim_pairs_zip assms(2) by (simp add: zip_map_map zip_same_conv_map)
qed

section \<open>Settling one claim\<close>

lemma leased_row_iff:
  assumes "outbox_inv s"
  shows "leased_row i t s = Some r \<longleftrightarrow>
    row oe_event_id i (outbox s) = Some r \<and> oe_lock_token r = Some t \<and> oe_published_at r = None"
proof
  assume "leased_row i t s = Some r"
  then have "r \<in> set (outbox s) \<and> oe_event_id r = i \<and> oe_lock_token r = Some t \<and> oe_published_at r = None"
    unfolding leased_row_def find_Some_iff by (auto intro: nth_mem)
  then show "row oe_event_id i (outbox s) = Some r \<and> oe_lock_token r = Some t \<and> oe_published_at r = None"
    using row_of_mem outbox_invD(2)[OF assms] by metis
next
  assume a: "row oe_event_id i (outbox s) = Some r \<and> oe_lock_token r = Some t \<and> oe_published_at r = None"
  have "find (\<lambda>r. oe_event_id r = i \<and> oe_lock_token r = Some t \<and> oe_published_at r = None) xs = Some r"
    if "row oe_event_id i xs = Some r" for xs
    using that a by (induction xs) (auto split: if_splits)
  then show "leased_row i t s = Some r" using a by (simp add: leased_row_def)
qed

definition published_row :: "instant \<Rightarrow> OutboxEvent \<Rightarrow> OutboxEvent" where
  "published_row tm r = r\<lparr>oe_published_at := Some tm, oe_lock_token := None,
     oe_locked_until := None, oe_last_error_code := None\<rparr>"

definition released_row :: "string \<Rightarrow> instant \<Rightarrow> OutboxEvent \<Rightarrow> OutboxEvent" where
  "released_row code tm r =
     r\<lparr>oe_next_attempt_at := tm + seconds (outbox_retry_delay (oe_attempt_count r)),
       oe_lock_token := None, oe_locked_until := None, oe_last_error_code := Some code\<rparr>"

definition settled_row :: "port_error option \<Rightarrow> instant \<Rightarrow> OutboxEvent \<Rightarrow> OutboxEvent" where
  "settled_row err tm r = (case err of None \<Rightarrow> published_row tm r
     | Some e \<Rightarrow> released_row (port_error_code e) tm r)"

lemma settled_row_fields [simp]:
  "oe_event_id (settled_row err tm r) = oe_event_id r"
  "oe_lock_token (settled_row err tm r) = None"
  "oe_locked_until (settled_row err tm r) = None"
  "oe_published_at (settled_row err tm r) = (if err = None then Some tm else oe_published_at r)"
  by (simp_all add: settled_row_def published_row_def released_row_def split: option.splits)

lemma port_error_code_pattern [simp]: "error_code_pattern (port_error_code e)"
proof (cases e)
  case (ProviderError k b)
  then show ?thesis
    by (cases k) (simp_all add: error_code_pattern_def is_lower_def is_digit_def in_range_def)
qed (simp add: error_code_pattern_def is_lower_def is_digit_def in_range_def)

lemma error_code_pattern_nonempty [simp]: "\<not> error_code_pattern []"
  by (simp add: error_code_pattern_def)

lemma port_error_code_nonempty [simp]: "port_error_code e \<noteq> []"
  using port_error_code_pattern[of e] by (metis error_code_pattern_nonempty)

lemma settled_row_ok:
  "outbox_row_ok s r \<Longrightarrow> oe_published_at r = None \<Longrightarrow> outbox_row_ok s (settled_row err tm r)"
  by (auto simp: outbox_row_ok_def outbox_event_check_def settled_row_def published_row_def
      released_row_def split: option.splits)

text \<open>Settling never raises: it changes the one leased row or nothing at all.\<close>

lemma settle_outbox_eq:
  assumes "outbox_inv s"
  shows "settle_outbox err i t tm s = Inr (case leased_row i t s of
     None \<Rightarrow> (False, s)
   | Some r \<Rightarrow> (True, s\<lparr>outbox := put_row oe_event_id (settled_row err tm r) (outbox s)\<rparr>))"
proof (cases "leased_row i t s")
  case None
  then show ?thesis
    by (auto simp: settle_outbox_def mark_outbox_failed_def mark_outbox_published_def
        split: option.splits)
next
  case (Some r)
  then have "oe_lock_token r = Some t" "oe_published_at r = None"
    using leased_row_iff[OF assms] by auto
  then have "require_delivery_transition r Ready = Inr ()"
    "require_delivery_transition r Published = Inr ()"
    using delivery_transition_leased by blast+
  then show ?thesis using Some
    by (auto simp: settle_outbox_def mark_outbox_failed_def mark_outbox_published_def
        settled_row_def published_row_def released_row_def split: option.splits)
qed

lemma settle_outbox_inv:
  assumes "outbox_inv s" "settle_outbox err i t tm s = Inr (b, s')"
  shows "outbox_inv s'"
proof (cases "leased_row i t s")
  case None
  then show ?thesis using assms settle_outbox_eq[OF assms(1)] by simp
next
  case (Some r)
  then have r: "row oe_event_id i (outbox s) = Some r" "oe_published_at r = None"
    using leased_row_iff[OF assms(1)] by auto
  have s': "s' = s\<lparr>outbox := put_row oe_event_id (settled_row err tm r) (outbox s)\<rparr>"
    using assms settle_outbox_eq[OF assms(1)] Some by simp
  have "outbox_row_ok s (settled_row err tm r)"
    using settled_row_ok[OF outbox_invD(3)[OF assms(1) row_mem[OF r(1)]] r(2)] .
  then have "outbox_row_ok s' (settled_row err tm r)"
    by (simp add: s' outbox_row_ok_def drawn_ids_def)
  then show ?thesis by (rule outbox_inv_put_row[OF assms(1)]) (simp_all add: s')
qed

section \<open>The outbox is a lease queue\<close>

definition outbox_holder :: "db \<Rightarrow> uuid \<Rightarrow> (uuid \<times> instant) option" where
  "outbox_holder s i = (case row oe_event_id i (outbox s) of None \<Rightarrow> None
     | Some r \<Rightarrow> (case (oe_lock_token r, oe_locked_until r) of
         (Some t, Some u) \<Rightarrow> Some (t, u) | _ \<Rightarrow> None))"

definition outbox_final :: "db \<Rightarrow> uuid \<Rightarrow> bool" where
  "outbox_final s i = (case row oe_event_id i (outbox s) of None \<Rightarrow> False
     | Some r \<Rightarrow> oe_published_at r \<noteq> None)"

text \<open>A claim and a settlement as committed transactions: one that raises changes nothing.\<close>

definition outbox_claim :: "instant \<Rightarrow> int \<times> int \<Rightarrow> db \<Rightarrow> (uuid \<times> uuid) list \<times> db" where
  "outbox_claim now c s = (case claim_outbox_events now (fst c) (snd c) s of
     Inl _ \<Rightarrow> ([], s) | Inr (cs, s') \<Rightarrow> (claim_pairs cs, s'))"

definition outbox_settle :: "port_error option \<times> instant \<Rightarrow> uuid \<Rightarrow> uuid \<Rightarrow> db \<Rightarrow> db" where
  "outbox_settle x i t s = (case settle_outbox (fst x) i t (snd x) s of
     Inl _ \<Rightarrow> s | Inr (_, s') \<Rightarrow> s')"

lemma outbox_holder_iff: "outbox_holder s i = Some (t, u) \<longleftrightarrow>
    (\<exists>r. row oe_event_id i (outbox s) = Some r \<and> oe_lock_token r = Some t \<and> oe_locked_until r = Some u)"
  by (auto simp: outbox_holder_def split: option.splits)

lemma outbox_pair:
  "outbox_inv s \<Longrightarrow> row oe_event_id i (outbox s) = Some r \<Longrightarrow>
   (oe_lock_token r = None) = (oe_locked_until r = None) \<and>
   (oe_published_at r \<noteq> None \<longrightarrow> oe_lock_token r = None)"
  using outbox_invD(3)[OF _ row_mem] by (fastforce simp: outbox_row_ok_def outbox_event_check_def)

lemma outbox_settle_eq:
  assumes "outbox_inv s"
  shows "outbox_settle x i t s = (case leased_row i t s of None \<Rightarrow> s
     | Some r \<Rightarrow> s\<lparr>outbox := put_row oe_event_id (settled_row (fst x) (snd x) r) (outbox s)\<rparr>)"
  using settle_outbox_eq[OF assms] by (simp add: outbox_settle_def split: option.splits)

lemma outbox_claim_cases:
  assumes "outbox_inv s"
  obtains (raised) "outbox_claim now c s = ([], s)"
  | (granted) d t where "valid_claim (fst c) (snd c)"
    "outbox_claim now c s = (map (\<lambda>k. (oe_event_id (claimed_rows now (fst c) s ! k), rng s (drawn s + k)))
        [0..<length (claimed_rows now (fst c) s)], s\<lparr>drawn := d, outbox := t\<rparr>)"
    "outbox_inv (s\<lparr>drawn := d, outbox := t\<rparr>)"
    "d = drawn s + length (claimed_rows now (fst c) s)"
    "\<forall>i. i \<notin> oe_event_id ` set (claimed_rows now (fst c) s) \<longrightarrow>
       row oe_event_id i t = row oe_event_id i (outbox s)"
    "\<forall>k < length (claimed_rows now (fst c) s).
        row oe_event_id (oe_event_id (claimed_rows now (fst c) s ! k)) t =
        Some (lease_outbox_row (rng s (drawn s + k)) (now + seconds (snd c))
          (claimed_rows now (fst c) s ! k))"
proof (cases "valid_claim (fst c) (snd c)")
  case False
  then show ?thesis using raised by (simp add: outbox_claim_def claim_outbox_invalid)
next
  case True
  obtain cs d t where *: "claim_outbox_events now (fst c) (snd c) s = Inr (cs, s\<lparr>drawn := d, outbox := t\<rparr>)"
    "outbox_inv (s\<lparr>drawn := d, outbox := t\<rparr>)"
    "d = drawn s + length (claimed_rows now (fst c) s)"
    "map co_event cs = map event_of_row (claimed_rows now (fst c) s)"
    "map co_lock_token cs = map (\<lambda>k. rng s (drawn s + k)) [0..<length (claimed_rows now (fst c) s)]"
    "\<forall>i. i \<notin> oe_event_id ` set (claimed_rows now (fst c) s) \<longrightarrow>
       row oe_event_id i t = row oe_event_id i (outbox s)"
    "\<forall>k < length (claimed_rows now (fst c) s).
        row oe_event_id (oe_event_id (claimed_rows now (fst c) s ! k)) t =
        Some (lease_outbox_row (rng s (drawn s + k)) (now + seconds (snd c))
          (claimed_rows now (fst c) s ! k))"
    using claim_outbox_spec[OF assms True, of now] by metis
  show ?thesis
    by (rule granted[OF True _ *(2,3,6,7)]) (simp add: outbox_claim_def *(1) claim_pairs_nth[OF *(4,5)])
qed

lemma claimed_row_unheld:
  assumes "outbox_inv s" "i \<in> oe_event_id ` set (claimed_rows now l s)"
  shows "\<not> outbox_final s i" "outbox_holder s i = Some (t, u) \<Longrightarrow> u \<le> now"
proof -
  obtain r where r: "r \<in> set (claimed_rows now l s)" "oe_event_id r = i" using assms(2) by blast
  have row: "row oe_event_id i (outbox s) = Some r"
    using row_of_mem[OF outbox_invD(2)[OF assms(1)] claimed_rowsD(1)[OF r(1)]] r(2) by simp
  show "\<not> outbox_final s i" using row claimed_rowsD(3)[OF r(1)] by (simp add: outbox_final_def)
  show "u \<le> now" if "outbox_holder s i = Some (t, u)"
    using that row claimed_rowsD(2)[OF r(1)] by (auto simp: outbox_holder_iff outbox_due_def)
qed

lemma drawn_ids_upd: "drawn s \<le> d \<Longrightarrow> drawn_ids s \<subseteq> drawn_ids (s\<lparr>drawn := d, outbox := t\<rparr>)"
  by (rule drawn_ids_mono) simp_all

lemma new_token_fresh: "fresh_supply s \<Longrightarrow> rng s (drawn s + k) \<notin> drawn_ids s"
  by (auto simp: fresh_supply_def drawn_ids_def dest!: injD)

interpretation outbox_queue: lease_queue outbox_holder outbox_final drawn_ids outbox_claim
  outbox_settle outbox_inv
proof unfold_locales
  fix s :: db and i j t u now c x
  assume inv: "outbox_inv s"
  let ?s' = "snd (outbox_claim now c s)" and ?ids = "fst ` set (fst (outbox_claim now c s))"
  show "outbox_inv ?s'"
    by (rule outbox_claim_cases[OF inv, of now c]) (auto simp: inv)
  show "outbox_inv (outbox_settle x i t s)"
    using settle_outbox_inv[OF inv] inv by (auto simp: outbox_settle_def split: sum.splits)
  show "drawn_ids s \<subseteq> drawn_ids ?s'"
    by (rule outbox_claim_cases[OF inv, of now c]) (use drawn_ids_upd in auto)
  have ids: "?ids \<subseteq> oe_event_id ` set (claimed_rows now (fst c) s)"
    by (rule outbox_claim_cases[OF inv, of now c]) (auto simp: pair_image_nth[where f = oe_event_id])
  show "t \<in> drawn_ids s" if "outbox_holder s i = Some (t, u)"
    using that outbox_invD(3)[OF inv row_mem] by (auto simp: outbox_holder_iff outbox_row_ok_def)
  show "outbox_holder ?s' i = outbox_holder s i" if "i \<notin> ?ids"
    using that by (rule_tac outbox_claim_cases[OF inv, of now c])
      (auto simp: outbox_holder_def pair_image_nth[where f = oe_event_id])
  show "t \<notin> drawn_ids s \<and> (\<exists>u. outbox_holder ?s' i = Some (t, u))"
    if "(i, t) \<in> set (fst (outbox_claim now c s))"
    using that new_token_fresh[OF outbox_invD(1)[OF inv]]
    by (rule_tac outbox_claim_cases[OF inv, of now c]) (auto simp: outbox_holder_def)
  show "distinct (map fst (fst (outbox_claim now c s)))"
  proof (rule outbox_claim_cases[OF inv, of now c], goal_cases)
    case (2 d t)
    have "map (\<lambda>k. oe_event_id (claimed_rows now (fst c) s ! k)) [0..<length (claimed_rows now (fst c) s)]
       = map oe_event_id (claimed_rows now (fst c) s)"
      by (rule nth_equalityI) auto
    then show ?case using 2 claimed_rows_distinct[OF inv] by (simp add: comp_def)
  qed simp
  show "i \<notin> ?ids" if "outbox_holder s i = Some (t, u)" "now < u"
    using ids claimed_row_unheld(2)[OF inv _ that(1)] that(2) by fastforce
  show "i \<notin> ?ids" if "outbox_final s i"
    using ids claimed_row_unheld(1)[OF inv] that by blast
  show "outbox_final ?s' i = outbox_final s i"
  proof (rule outbox_claim_cases[OF inv, of now c], goal_cases)
    case (2 d t)
    show ?case
    proof (cases "i \<in> oe_event_id ` set (claimed_rows now (fst c) s)")
      case True
      then obtain k where k: "k < length (claimed_rows now (fst c) s)"
        "oe_event_id (claimed_rows now (fst c) s ! k) = i" by (auto simp: in_set_conv_nth)
      have "oe_published_at (claimed_rows now (fst c) s ! k) = None"
        using claimed_rowsD(3) nth_mem[OF k(1)] by blast
      then show ?thesis using 2 k claimed_row_unheld(1)[OF inv True] by (auto simp: outbox_final_def)
    next
      case False
      then show ?thesis using 2 by (simp add: outbox_final_def)
    qed
  qed simp
  show "outbox_holder (outbox_settle x i t s) j = outbox_holder s j \<and>
        outbox_final (outbox_settle x i t s) j = outbox_final s j"
    if "\<nexists>u. outbox_holder s i = Some (t, u)"
  proof -
    have "leased_row i t s = None"
    proof (rule ccontr)
      assume "leased_row i t s \<noteq> None"
      then obtain r where r: "row oe_event_id i (outbox s) = Some r" "oe_lock_token r = Some t"
        using leased_row_iff[OF inv] by blast
      then obtain u where "oe_locked_until r = Some u" using outbox_pair[OF inv r(1)] by auto
      then show False using that r by (auto simp: outbox_holder_iff)
    qed
    then show ?thesis by (simp add: outbox_settle_eq[OF inv])
  qed
  show "outbox_holder (outbox_settle x i t s) j = outbox_holder s j \<and>
        outbox_final (outbox_settle x i t s) j = outbox_final s j" if "j \<noteq> i"
  proof (cases "leased_row i t s")
    case (Some r)
    then have "oe_event_id r = i" using leased_row_iff[OF inv] row_key by metis
    then show ?thesis using that Some
      by (simp add: outbox_settle_eq[OF inv] outbox_holder_def outbox_final_def row_put_row)
  qed (simp add: outbox_settle_eq[OF inv])
  show "outbox_holder (outbox_settle x i t s) i = None" if h: "outbox_holder s i = Some (t, u)"
  proof -
    obtain r where r: "row oe_event_id i (outbox s) = Some r" "oe_lock_token r = Some t"
      using h by (auto simp: outbox_holder_iff)
    then have "leased_row i t s = Some r"
      using leased_row_iff[OF inv] outbox_pair[OF inv r(1)] by auto
    then show ?thesis using r row_key[OF r(1)]
      by (simp add: outbox_settle_eq[OF inv] outbox_holder_def row_put_row)
  qed
  show "outbox_holder s i = None" if "outbox_final s i"
    using that outbox_pair[OF inv, of i] by (auto simp: outbox_final_def outbox_holder_def split: option.splits)
qed (auto simp: outbox_settle_def settle_outbox_def drawn_ids_def mark_outbox_published_def
      mark_outbox_failed_def bindR_def split: option.splits sum.splits)

section \<open>Histories of outbox transactions\<close>

type_synonym outbox_op = "(int \<times> int, port_error option \<times> instant) lease_op"

fun outbox_step :: "outbox_op \<Rightarrow> db \<Rightarrow> db" where
  "outbox_step (Claim now c) s = snd (outbox_claim now c s)"
| "outbox_step (Settle x i t) s = outbox_settle x i t s"

definition outbox_run :: "outbox_op list \<Rightarrow> db \<Rightarrow> db" where
  "outbox_run xs s = fold outbox_step xs s"

lemma outbox_step_eq: "outbox_queue.step x s = outbox_step x s"
  by (cases x) (simp_all add: outbox_queue.step_def)

lemma outbox_run_eq: "outbox_queue.run xs s = outbox_run xs s"
  by (simp add: outbox_queue.run_def outbox_run_def outbox_step_eq[abs_def])

lemmas outbox_history = outbox_queue.lease_protected outbox_queue.no_second_grant
  outbox_queue.settle_only_once outbox_queue.final_forever outbox_queue.final_never_claimed
  outbox_queue.run_inv

text \<open>What another worker may do during a lease that ends at \<open>u\<close>: claim before
  \<open>u\<close>, or settle with a token it was given itself.\<close>

fun spares_lease :: "(uuid \<times> uuid) set \<Rightarrow> instant \<Rightarrow> outbox_op \<Rightarrow> bool" where
  "spares_lease ps u (Claim now c) = (now < u)"
| "spares_lease ps u (Settle x i t) = ((i, t) \<notin> ps)"

lemma spares_lease_spares: "spares_lease ps u x \<Longrightarrow> (i, t) \<in> ps \<Longrightarrow> outbox_queue.spares i t u x"
  by (cases x) (auto simp: outbox_queue.spares_def)

lemma outbox_claim_eq:
  "claim_outbox_events now l z s = Inr (cs, s') \<Longrightarrow> outbox_claim now (l, z) s = (claim_pairs cs, s')"
  by (simp add: outbox_claim_def)

lemma claim_outbox_valid: "claim_outbox_events now l z s = Inr x \<Longrightarrow> valid_claim l z"
  using claim_outbox_invalid[of l z now s] by fastforce

lemma claim_outbox_inv:
  "outbox_inv s \<Longrightarrow> claim_outbox_events now l z s = Inr (cs, s') \<Longrightarrow> outbox_inv s'"
  using outbox_queue.claim_inv[of s now "(l, z)"] by (simp add: outbox_claim_eq)

lemma claim_outbox_holds:
  assumes "outbox_inv s" "claim_outbox_events now l z s = Inr (cs, s')" "(i, t) \<in> set (claim_pairs cs)"
  shows "outbox_holder s' i = Some (t, now + seconds z)"
proof (rule outbox_claim_cases[OF assms(1), of now "(l, z)"], goal_cases)
  case 1
  then show ?case using assms outbox_claim_eq[OF assms(2)] by simp
next
  case (2 d x)
  then show ?case using assms(3) outbox_claim_eq[OF assms(2)] by (auto simp: outbox_holder_def)
qed

lemma claim_outbox_ids_distinct:
  "outbox_inv s \<Longrightarrow> claim_outbox_events now l z s = Inr (cs, s') \<Longrightarrow> distinct (map fst (claim_pairs cs))"
  using outbox_queue.claim_once[of s now "(l, z)"] by (simp add: outbox_claim_eq)

lemma claim_pairs_ids:
  assumes "outbox_inv s" "claim_outbox_events now l z s = Inr (cs, s')"
  shows "fst ` set (claim_pairs cs) = oe_event_id ` set (claimed_rows now l s)"
proof -
  have "map co_event cs = map event_of_row (claimed_rows now l s)"
    using claim_outbox_spec[OF assms(1) claim_outbox_valid[OF assms(2)], of now] assms(2)
    by (metis Inr_inject prod.inject)
  then have "set (map de_event_id (map co_event cs)) = oe_event_id ` set (claimed_rows now l s)"
    by (simp add: image_image)
  then show ?thesis by (simp add: claim_pairs_def image_image)
qed

lemma claimed_still_held:
  assumes "outbox_inv s" "claim_outbox_events now l z s = Inr (cs, s1)" "(i, t) \<in> set (claim_pairs cs)"
    "\<forall>x \<in> set xs. spares_lease (set (claim_pairs cs)) (now + seconds z) x"
  shows "outbox_holder (outbox_run xs s1) i = Some (t, now + seconds z)"
proof -
  have "\<forall>x \<in> set xs. outbox_queue.spares i t (now + seconds z) x"
    using assms(3,4) spares_lease_spares by blast
  from outbox_queue.lease_protected[OF claim_outbox_inv[OF assms(1,2)] claim_outbox_holds[OF assms(1-3)] this]
  show ?thesis by (simp add: outbox_run_eq)
qed

lemma held_leased_row:
  assumes "outbox_inv s" "outbox_holder s i = Some (t, u)"
  obtains r where "leased_row i t s = Some r" "row oe_event_id i (outbox s) = Some r"
    "oe_published_at r = None"
proof -
  obtain r where r: "row oe_event_id i (outbox s) = Some r" "oe_lock_token r = Some t"
    using assms(2) by (auto simp: outbox_holder_iff)
  then show thesis using that leased_row_iff[OF assms(1)] outbox_pair[OF assms(1) r(1)] by simp
qed

lemma outbox_run_inv: "outbox_inv s \<Longrightarrow> outbox_inv (outbox_run xs s)"
  using outbox_queue.run_inv by (simp add: outbox_run_eq)

section \<open>Settling a batch\<close>

text \<open>With every claim of the batch still held, each settlement takes effect, and the
  counts are those of the answers of the bus.\<close>

lemma settle_outbox_batch_spec:
  assumes "outbox_inv s" "distinct (map (\<lambda>p. de_event_id (co_event (fst p))) ps)"
    "\<forall>(c, e) \<in> set ps. \<exists>u. outbox_holder s (de_event_id (co_event c)) = Some (co_lock_token c, u)"
  shows "\<exists>t. settle_outbox_batch ps tm s =
      Inr (int (length (filter (\<lambda>p. snd p = None) ps)),
           int (length (filter (\<lambda>p. snd p \<noteq> None) ps)), s\<lparr>outbox := t\<rparr>) \<and>
    outbox_inv (s\<lparr>outbox := t\<rparr>) \<and>
    (\<forall>i. i \<notin> (\<lambda>p. de_event_id (co_event (fst p))) ` set ps \<longrightarrow>
       row oe_event_id i t = row oe_event_id i (outbox s)) \<and>
    (\<forall>(c, e) \<in> set ps. \<exists>r. row oe_event_id (de_event_id (co_event c)) (outbox s) = Some r \<and>
       row oe_event_id (de_event_id (co_event c)) t = Some (settled_row e tm r))"
  using assms
proof (induction ps arbitrary: s)
  case Nil
  then show ?case by (intro exI[of _ "outbox s"]) simp
next
  case (Cons p ps)
  obtain c e where p: "p = (c, e)" by (cases p)
  let ?i = "de_event_id (co_event c)"
  obtain u where "outbox_holder s ?i = Some (co_lock_token c, u)" using Cons.prems(3) p by auto
  then obtain r where r: "leased_row ?i (co_lock_token c) s = Some r"
    "row oe_event_id ?i (outbox s) = Some r" "oe_published_at r = None"
    using held_leased_row[OF Cons.prems(1)] by blast
  let ?s1 = "s\<lparr>outbox := put_row oe_event_id (settled_row e tm r) (outbox s)\<rparr>"
  have s1: "settle_outbox e ?i (co_lock_token c) tm s = Inr (True, ?s1)"
    using settle_outbox_eq[OF Cons.prems(1)] r(1) by simp
  have inv1: "outbox_inv ?s1" using settle_outbox_inv[OF Cons.prems(1) s1] .
  have id_r: "oe_event_id r = ?i" using row_key[OF r(2)] .
  have other: "?i \<notin> (\<lambda>p. de_event_id (co_event (fst p))) ` set ps" using Cons.prems(2) p by auto
  have held: "\<forall>(c', e') \<in> set ps. \<exists>u. outbox_holder ?s1 (de_event_id (co_event c')) = Some (co_lock_token c', u)"
  proof clarify
    fix c' e' assume m: "(c', e') \<in> set ps"
    then have "de_event_id (co_event c') \<noteq> ?i" using other by force
    then show "\<exists>u. outbox_holder ?s1 (de_event_id (co_event c')) = Some (co_lock_token c', u)"
      using Cons.prems(3) m id_r by (fastforce simp: outbox_holder_def row_put_row)
  qed
  obtain t where t: "settle_outbox_batch ps tm ?s1 =
      Inr (int (length (filter (\<lambda>p. snd p = None) ps)),
           int (length (filter (\<lambda>p. snd p \<noteq> None) ps)), ?s1\<lparr>outbox := t\<rparr>)"
    "outbox_inv (?s1\<lparr>outbox := t\<rparr>)"
    "\<forall>i. i \<notin> (\<lambda>p. de_event_id (co_event (fst p))) ` set ps \<longrightarrow>
       row oe_event_id i t = row oe_event_id i (outbox ?s1)"
    "\<forall>(c, e) \<in> set ps. \<exists>r. row oe_event_id (de_event_id (co_event c)) (outbox ?s1) = Some r \<and>
       row oe_event_id (de_event_id (co_event c)) t = Some (settled_row e tm r)"
    using Cons.IH[OF inv1 _ held] Cons.prems(2) by auto
  have here: "row oe_event_id ?i t = Some (settled_row e tm r)"
    using t(3) other r(2) id_r by (simp add: row_put_row)
  have there: "\<forall>(c', e') \<in> set ps. \<exists>r. row oe_event_id (de_event_id (co_event c')) (outbox s) = Some r \<and>
       row oe_event_id (de_event_id (co_event c')) t = Some (settled_row e' tm r)"
  proof clarify
    fix c' e' assume m: "(c', e') \<in> set ps"
    then have "de_event_id (co_event c') \<noteq> ?i" using other by force
    then show "\<exists>r. row oe_event_id (de_event_id (co_event c')) (outbox s) = Some r \<and>
       row oe_event_id (de_event_id (co_event c')) t = Some (settled_row e' tm r)"
      using t(4) m id_r by (fastforce simp: row_put_row)
  qed
  have kept: "row oe_event_id i t = row oe_event_id i (outbox s)"
    if "i \<notin> (\<lambda>p. de_event_id (co_event (fst p))) ` set (p # ps)" for i
    using that t(3) id_r p by (simp add: row_put_row)
  have "settle_outbox_batch (p # ps) tm s =
      Inr (int (length (filter (\<lambda>p. snd p = None) (p # ps))),
           int (length (filter (\<lambda>p. snd p \<noteq> None) (p # ps))), s\<lparr>outbox := t\<rparr>)"
    using s1 t(1) p by simp
  then show ?case using t(2) here there kept r(2) p by (intro exI[of _ t]) simp
qed

section \<open>Enqueueing\<close>

text \<open>An enqueue that returns appends one row for a valid envelope with a new id.\<close>

lemma enqueue_event_spec:
  assumes "enqueue_domain_event ty agg actor trace payload occurred s = Inr (ev, s')"
  obtains d where "s' = s\<lparr>drawn := d, outbox := outbox s @ [new_outbox_event ev]\<rparr>"
    "drawn s < d" "d \<le> drawn s + 2" "de_event_id ev = rng s (drawn s)" "de_event_type ev = ty"
    "de_schema_version ev = 1" "de_aggregate_id ev = agg" "de_occurred_at ev = occurred"
    "de_actor_id ev = actor" "de_payload ev = payload" "trace_text (de_trace_id ev)"
    "documented_payload ty payload"
proof -
  let ?s1 = "s\<lparr>drawn := Suc (drawn s)\<rparr>"
  obtain tr s2 where tr: "trace_or_new trace ?s1 = (tr, s2)" by force
  have s2: "s2 = s\<lparr>drawn := drawn s2\<rparr>" "drawn s < drawn s2" "drawn s2 \<le> drawn s + 2"
    using tr by (auto simp: trace_or_new_def token_hex16_def split: option.splits list.splits)
  let ?ev0 = "\<lparr>de_event_id = rng s (drawn s), de_event_type = ty, de_schema_version = 1,
     de_aggregate_id = agg, de_occurred_at = occurred, de_actor_id = actor, de_trace_id = tr,
     de_payload = payload\<rparr>"
  have mk: "mk_domain_event ?ev0 = Inr ev" and s': "s' = s2\<lparr>outbox := outbox s2 @ [new_outbox_event ev]\<rparr>"
    using assms tr by (auto simp: enqueue_domain_event_def uuid4_def Let_def bindR_Inr)
  have "s' = s\<lparr>drawn := drawn s2, outbox := outbox s @ [new_outbox_event ev]\<rparr>"
    unfolding s' by (subst (1 2) s2(1)) simp
  then show thesis
    using that[of "drawn s2"] mk s2(2,3)
    by (auto simp: mk_domain_event_def Let_def matching_versions_iff split: if_splits)
qed

lemma enqueue_event_returns:
  assumes "documented_payload ty payload" "\<forall>t. trace = Some t \<longrightarrow> t = [] \<or> trace_text t"
  shows "\<exists>ev s'. enqueue_domain_event ty agg actor trace payload occurred s = Inr (ev, s')"
proof -
  obtain tr s2 where tr: "trace_or_new trace (s\<lparr>drawn := Suc (drawn s)\<rparr>) = (tr, s2)" by force
  have "trace_text tr"
    using tr assms(2) by (auto simp: trace_or_new_def token_hex16_def split: option.splits list.splits)
  then show ?thesis
    using assms(1) tr by (simp add: enqueue_domain_event_def uuid4_def mk_domain_event_ok)
qed

lemma new_outbox_event_simps [simp]:
  "oe_event_id (new_outbox_event ev) = de_event_id ev"
  "oe_published_at (new_outbox_event ev) = None" "oe_lock_token (new_outbox_event ev) = None"
  by (simp_all add: new_outbox_event_def)

lemma enqueue_outbox_inv:
  assumes "outbox_inv s" "enqueue_domain_event ty agg actor trace payload occurred s = Inr (ev, s')"
  shows "outbox_inv s'"
proof -
  obtain d where s': "s' = s\<lparr>drawn := d, outbox := outbox s @ [new_outbox_event ev]\<rparr>" "drawn s < d"
    and ev: "de_event_id ev = rng s (drawn s)" "de_event_type ev = ty" "de_schema_version ev = 1"
      "de_payload ev = payload" "trace_text (de_trace_id ev)" "documented_payload ty payload"
    by (rule enqueue_event_spec[OF assms(2)])
  have fresh: "de_event_id ev \<notin> drawn_ids s" using uuid4_fresh outbox_invD(1)[OF assms(1)] ev(1) by simp
  have mono: "drawn_ids s \<subseteq> drawn_ids s'" by (rule drawn_ids_mono) (use s' in auto)
  have new: "de_event_id ev \<in> drawn_ids s'" using s' ev(1) by (auto simp: drawn_ids_def)
  have old: "outbox_row_ok s' r \<and> oe_event_id r \<noteq> de_event_id ev" if "r \<in> set (outbox s)" for r
    using outbox_invD(3)[OF assms(1) that] outbox_row_ok_mono[OF _ mono] fresh
    by (auto simp: outbox_row_ok_def)
  have row: "outbox_row_ok s' (new_outbox_event ev)"
    using ev new by (auto simp: outbox_row_ok_def outbox_event_check_def trace_text_def new_outbox_event_def)
  show ?thesis unfolding outbox_inv_def
  proof (intro conjI ballI)
    show "fresh_supply s'" using outbox_invD(1)[OF assms(1)] s' by (simp add: fresh_supply_def)
    have "de_event_id ev \<notin> oe_event_id ` set (outbox s)" using old by (metis imageE)
    then show "distinct (map oe_event_id (outbox s'))" using outbox_invD(2)[OF assms(1)] s' by simp
    show "outbox_row_ok s' r" if "r \<in> set (outbox s')" for r using that old row s' by auto
  qed
qed

section \<open>Properties\<close>

text \<open>Property C38: while a relay worker's lease is live, no other worker can be granted the
  event, whatever claims and settlements the other workers make in any order, and the
  worker's own settlement takes effect (it is not lost).\<close>

theorem outbox_lease_exclusive:
  assumes "outbox_inv s" "claim_outbox_events now l z s = Inr (cs, s1)" "(i, t) \<in> set (claim_pairs cs)"
    and "\<forall>x \<in> set xs. spares_lease (set (claim_pairs cs)) (now + seconds z) x"
    and "now' < now + seconds z" "claim_outbox_events now' l' z' (outbox_run xs s1) = Inr (cs', s2)"
  shows "i \<notin> fst ` set (claim_pairs cs') \<and>
    (\<exists>s3. settle_outbox err i t tm (outbox_run xs s1) = Inr (True, s3))"
proof
  have inv: "outbox_inv (outbox_run xs s1)" using claim_outbox_inv[OF assms(1,2)] outbox_run_inv by blast
  have held: "outbox_holder (outbox_run xs s1) i = Some (t, now + seconds z)"
    using claimed_still_held assms(1-4) by blast
  show "i \<notin> fst ` set (claim_pairs cs')"
    using outbox_queue.claim_lease[OF inv held assms(5), of "(l', z')"] outbox_claim_eq[OF assms(6)] by simp
  obtain r where "leased_row i t (outbox_run xs s1) = Some r" using held_leased_row[OF inv held] by blast
  then show "\<exists>s3. settle_outbox err i t tm (outbox_run xs s1) = Inr (True, s3)"
    using settle_outbox_eq[OF inv] by simp
qed

text \<open>A token settles its event at most once: after a settlement, and after a
  lease taken over by another worker, the same token changes nothing in any later state.\<close>

theorem outbox_token_single_use:
  assumes "outbox_inv s" "settle_outbox err i t tm s = Inr (True, s1)"
  shows "settle_outbox err' i t tm' (outbox_run xs s1) = Inr (False, outbox_run xs s1)"
proof -
  obtain r where r: "leased_row i t s = Some r"
    using assms settle_outbox_eq[OF assms(1)] by (auto split: option.splits)
  then have row: "row oe_event_id i (outbox s) = Some r" "oe_lock_token r = Some t"
    using leased_row_iff[OF assms(1)] by auto
  obtain u where "oe_locked_until r = Some u" using outbox_pair[OF assms(1) row(1)] row(2) by auto
  then have held: "outbox_holder s i = Some (t, u)" using row by (auto simp: outbox_holder_iff)
  have s1: "s1 = outbox_settle (err, tm) i t s" by (simp add: outbox_settle_def assms(2))
  have inv: "outbox_inv (outbox_run xs s1)"
    using settle_outbox_inv[OF assms] outbox_run_inv by blast
  have "\<nexists>v. outbox_holder (outbox_run xs s1) i = Some (t, v)"
    using outbox_queue.settle_only_once[OF assms(1) held, of xs "(err, tm)"] by (simp add: s1 outbox_run_eq)
  then have "leased_row i t (outbox_run xs s1) = None"
    using leased_row_iff[OF inv] outbox_pair[OF inv] unfolding outbox_holder_iff
    by (metis (no_types, lifting) not_None_eq)
  then show ?thesis using settle_outbox_eq[OF inv] by simp
qed

text \<open>A published event stays published and is never leased again, after any
  history of claims and settlements.\<close>

theorem outbox_published_for_good:
  assumes "outbox_inv s" "settle_outbox None i t tm s = Inr (True, s1)"
  shows "outbox_final (outbox_run xs s1) i \<and>
    i \<notin> fst ` set (fst (outbox_claim now (l, z) (outbox_run xs s1)))"
proof -
  have inv: "outbox_inv s1" using settle_outbox_inv[OF assms] .
  obtain r where "leased_row i t s = Some r" and s1: "s1 = s\<lparr>outbox := put_row oe_event_id (settled_row None tm r) (outbox s)\<rparr>"
    using assms settle_outbox_eq[OF assms(1)] by (auto split: option.splits)
  then have row: "row oe_event_id i (outbox s) = Some r" using leased_row_iff[OF assms(1)] by simp
  then have "outbox_final s1 i" using row_key[OF row] by (simp add: s1 outbox_final_def row_put_row)
  then show ?thesis
    using outbox_queue.final_forever[OF inv] outbox_queue.final_never_claimed[OF inv]
    unfolding outbox_run_eq by blast
qed

text \<open>A relay pass accounts for every event it leases. If the other workers do
  not outlive the lease, then it hands each leased event to the bus once, marks an event
  published exactly when the bus accepted it, schedules the others for a retry, and its
  counts add up.\<close>

theorem relay_outbox_accounts:
  assumes "outbox_inv s" "valid_claim batch z" "0 < timeout" "timeout < of_int z"
    and "\<forall>x \<in> set xs. spares_lease {(oe_event_id (claimed_rows now batch s ! k), rng s (drawn s + k)) |k.
           k < length (claimed_rows now batch s)} (now + seconds z) x"
  shows "\<exists>sent s'. relay_outbox_once bus (outbox_run xs) (Some now) t0 t1 batch z timeout s =
      Inr (\<lparr>rl_claimed = int (length sent),
            rl_published = int (length (filter (\<lambda>(ev, k). bus ev k = None) sent)),
            rl_failed = int (length (filter (\<lambda>(ev, k). bus ev k \<noteq> None) sent))\<rparr>, sent, s') \<and>
    sent = map (\<lambda>r. (event_of_row r, event_key (event_of_row r))) (claimed_rows now batch s) \<and>
    outbox_inv s' \<and>
    (\<forall>(ev, k) \<in> set sent. \<exists>r. row oe_event_id (de_event_id ev) (outbox s') = Some r \<and>
       (oe_published_at r = (if bus ev k = None then Some now else None)) \<and> oe_lock_token r = None \<and>
       (\<forall>e. bus ev k = Some e \<longrightarrow> oe_last_error_code r = Some (port_error_code e) \<and>
            now + seconds 1 \<le> oe_next_attempt_at r))"
proof -
  let ?rows = "claimed_rows now batch s"
  obtain cs d t where c: "claim_outbox_events now batch z s = Inr (cs, s\<lparr>drawn := d, outbox := t\<rparr>)"
    "outbox_inv (s\<lparr>drawn := d, outbox := t\<rparr>)" "map co_event cs = map event_of_row ?rows"
    "map co_lock_token cs = map (\<lambda>k. rng s (drawn s + k)) [0..<length ?rows]"
    using claim_outbox_spec[OF assms(1,2), of now] by metis
  let ?s1 = "s\<lparr>drawn := d, outbox := t\<rparr>" and ?s2 = "outbox_run xs (s\<lparr>drawn := d, outbox := t\<rparr>)"
  define sent where "sent = map (\<lambda>c. (co_event c, event_key (co_event c))) cs"
  define errs where "errs = map (\<lambda>(ev, k). bus ev k) sent"
  define ps where "ps = zip cs errs"
  have ps_def': "ps = map (\<lambda>c. (c, bus (co_event c) (event_key (co_event c)))) cs"
    by (simp add: ps_def errs_def sent_def zip_map2 zip_same_conv_map comp_def)
  have pairs: "set (claim_pairs cs) = {(oe_event_id (?rows ! k), rng s (drawn s + k)) |k. k < length ?rows}"
    using claim_pairs_nth[OF c(3,4)] by auto
  have inv2: "outbox_inv ?s2" using c(2) outbox_run_inv by blast
  have held: "\<forall>(c, e) \<in> set ps. \<exists>u. outbox_holder ?s2 (de_event_id (co_event c)) = Some (co_lock_token c, u)"
  proof clarify
    fix x e assume "(x, e) \<in> set ps"
    then have "(de_event_id (co_event x), co_lock_token x) \<in> set (claim_pairs cs)"
      by (auto simp: ps_def' claim_pairs_def)
    then show "\<exists>u. outbox_holder ?s2 (de_event_id (co_event x)) = Some (co_lock_token x, u)"
      using claimed_still_held[OF assms(1) c(1) _ assms(5)[folded pairs]] by blast
  qed
  have dist: "distinct (map (\<lambda>p. de_event_id (co_event (fst p))) ps)"
    using claim_outbox_ids_distinct[OF assms(1) c(1)] by (simp add: ps_def' claim_pairs_def comp_def)
  obtain t' where t': "settle_outbox_batch ps now ?s2 =
      Inr (int (length (filter (\<lambda>p. snd p = None) ps)),
           int (length (filter (\<lambda>p. snd p \<noteq> None) ps)), ?s2\<lparr>outbox := t'\<rparr>)"
    "outbox_inv (?s2\<lparr>outbox := t'\<rparr>)"
    "\<forall>(c, e) \<in> set ps. \<exists>r. row oe_event_id (de_event_id (co_event c)) (outbox ?s2) = Some r \<and>
       row oe_event_id (de_event_id (co_event c)) t' = Some (settled_row e now r)"
    using settle_outbox_batch_spec[OF inv2 dist held] by blast
  have counts: "length (filter (\<lambda>p. snd p = None) ps) = length (filter (\<lambda>(ev, k). bus ev k = None) sent)"
    "length (filter (\<lambda>p. snd p \<noteq> None) ps) = length (filter (\<lambda>(ev, k). bus ev k \<noteq> None) sent)"
    by (simp_all add: ps_def' sent_def filter_map comp_def)
  have sent: "sent = map (\<lambda>r. (event_of_row r, event_key (event_of_row r))) ?rows"
  proof -
    have "sent = map (\<lambda>ev. (ev, event_key ev)) (map co_event cs)" by (simp add: sent_def)
    then show ?thesis unfolding c(3) by simp
  qed
  have rows: "\<exists>r. row oe_event_id (de_event_id ev) t' = Some r \<and>
       (oe_published_at r = (if bus ev k = None then Some now else None)) \<and> oe_lock_token r = None \<and>
       (\<forall>e. bus ev k = Some e \<longrightarrow> oe_last_error_code r = Some (port_error_code e) \<and>
            now + seconds 1 \<le> oe_next_attempt_at r)" if "(ev, k) \<in> set sent" for ev k
  proof -
    obtain x where x: "(x, bus ev k) \<in> set ps" "co_event x = ev" using \<open>(ev, k) \<in> set sent\<close>
      by (auto simp: ps_def' sent_def)
    then obtain r where r: "row oe_event_id (de_event_id ev) (outbox ?s2) = Some r"
      "row oe_event_id (de_event_id ev) t' = Some (settled_row (bus ev k) now r)" using t'(3) by fastforce
    obtain u where "outbox_holder ?s2 (de_event_id ev) = Some (co_lock_token x, u)"
      using bspec[OF held x(1)] x(2) by auto
    then have "oe_published_at r = None" using r(1) by (auto elim: held_leased_row[OF inv2])
    moreover have "1 \<le> outbox_retry_delay (oe_attempt_count r)"
      using pow2_min8_bounds(1)[of "max (oe_attempt_count r - 1) 0"]
      by (simp add: outbox_retry_delay_def MAX_RETRY_DELAY_SECONDS_def)
    ultimately show ?thesis using r(2) by (auto simp: settled_row_def released_row_def published_row_def)
  qed
  have nil: "s\<lparr>drawn := d, outbox := t\<rparr> = s\<lparr>drawn := d, outbox := t\<rparr>" ..
  show ?thesis
  proof (cases "cs = []")
    case True
    then have "relay_outbox_once bus (outbox_run xs) (Some now) t0 t1 batch z timeout s =
      Inr (\<lparr>rl_claimed = 0, rl_published = 0, rl_failed = 0\<rparr>, [], ?s1)"
      using c(1) assms(3,4) by (simp add: relay_outbox_once_def)
    then show ?thesis using True sent c(2) by (simp add: sent_def)
  next
    case False
    have "relay_outbox_once bus (outbox_run xs) (Some now) t0 t1 batch z timeout s =
      Inr (\<lparr>rl_claimed = int (length sent),
            rl_published = int (length (filter (\<lambda>(ev, k). bus ev k = None) sent)),
            rl_failed = int (length (filter (\<lambda>(ev, k). bus ev k \<noteq> None) sent))\<rparr>, sent, ?s2\<lparr>outbox := t'\<rparr>)"
      using c(1) assms(3,4) False t'(1) counts
      by (simp add: relay_outbox_once_def Let_def sent_def[symmetric] errs_def[symmetric] ps_def[symmetric])
        (simp add: sent_def)
    moreover have "\<forall>(ev, k) \<in> set sent. \<exists>r. row oe_event_id (de_event_id ev) (outbox (?s2\<lparr>outbox := t'\<rparr>)) = Some r \<and>
       (oe_published_at r = (if bus ev k = None then Some now else None)) \<and> oe_lock_token r = None \<and>
       (\<forall>e. bus ev k = Some e \<longrightarrow> oe_last_error_code r = Some (port_error_code e) \<and>
            now + seconds 1 \<le> oe_next_attempt_at r)"
    proof -
      have eq: "outbox (?s2\<lparr>outbox := t'\<rparr>) = t'" by simp
      show ?thesis unfolding eq using rows by blast
    qed
    ultimately show ?thesis using sent t'(2) by blast
  qed
qed

text \<open>Claims are fair: a batch holds at most \<open>limit\<close> due events, oldest
  first, and a due event left out is no older than any event taken, and is left out only
  because the batch is full.\<close>

theorem claim_outbox_oldest_first:
  assumes "outbox_inv s" "claim_outbox_events now l z s = Inr (cs, s')"
  shows "length cs = min (nat l) (length (filter (outbox_due now) (outbox s))) \<and>
    sorted (map (\<lambda>c. (de_occurred_at (co_event c), de_event_id (co_event c))) cs) \<and>
    (\<forall>r \<in> set (outbox s). outbox_due now r \<longrightarrow> oe_event_id r \<notin> fst ` set (claim_pairs cs) \<longrightarrow>
       length cs = nat l \<and> (\<forall>c \<in> set cs. de_occurred_at (co_event c) \<le> oe_occurred_at r))"
proof -
  let ?k = "\<lambda>r. (oe_occurred_at r, oe_event_id r)" and ?rows = "claimed_rows now l s"
  obtain d t where c: "s' = s\<lparr>drawn := d, outbox := t\<rparr>" "map co_event cs = map event_of_row ?rows"
    using claim_outbox_spec[OF assms(1) claim_outbox_valid[OF assms(2)], of now] assms(2)
    by (metis Inr_inject prod.inject)
  have len: "length cs = length ?rows" using c(2) by (metis length_map)
  have ev: "map (\<lambda>c. (de_occurred_at (co_event c), de_event_id (co_event c))) cs = map ?k ?rows"
  proof -
    have "map (\<lambda>ev. (de_occurred_at ev, de_event_id ev)) (map co_event cs) = map ?k ?rows"
      unfolding c(2) by (simp add: event_of_row_def)
    then show ?thesis by (simp add: comp_def)
  qed
  have ids: "oe_event_id ` set ?rows = fst ` set (claim_pairs cs)"
    using claim_pairs_ids[OF assms] by simp
  have left: "length cs = nat l \<and> (\<forall>c \<in> set cs. de_occurred_at (co_event c) \<le> oe_occurred_at r)"
    if r: "r \<in> set (outbox s)" "outbox_due now r" "oe_event_id r \<notin> fst ` set (claim_pairs cs)" for r
  proof
    have out: "r \<notin> set ?rows" using r(3) ids by blast
    have le: "?k x \<le> ?k r" if "x \<in> set ?rows" for x
      using select_by_first[where P = "outbox_due now"] r(1,2) out that
      unfolding claimed_rows_def by blast
    have "r \<in> set (sort_key ?k (filter (outbox_due now) (outbox s)))" using r by simp
    then have "nat l < length (filter (outbox_due now) (outbox s))"
      using out unfolding claimed_rows_def select_by_def by (metis length_sort not_le take_all)
    then show "length cs = nat l" by (simp add: len claimed_rows_def length_select_by)
    show "\<forall>c \<in> set cs. de_occurred_at (co_event c) \<le> oe_occurred_at r"
    proof
      fix x assume "x \<in> set cs"
      then have "co_event x \<in> event_of_row ` set ?rows"
        using c(2) by (metis image_eqI image_set)
      then show "de_occurred_at (co_event x) \<le> oe_occurred_at r"
        using le by (fastforce simp: event_of_row_def)
    qed
  qed
  show ?thesis using left ev select_by_sorted[of ?k "nat l" "outbox_due now" "outbox s"]
    by (auto simp: len claimed_rows_def length_select_by)
qed

text \<open>A failed publication is retried with a delay that starts at one second,
  doubles with each further attempt and never exceeds 256 seconds; the event is not
  leased again before the delay has passed. (The configured cap of 300 seconds is never
  reached.)\<close>

theorem outbox_retry_backoff:
  assumes "outbox_inv s" "row oe_event_id i (outbox s) = Some r"
    and "settle_outbox (Some e) i t tm s = Inr (True, s1)"
    and "now < tm + seconds (outbox_retry_delay (oe_attempt_count r))"
    and "claim_outbox_events now l z s1 = Inr (cs, s2)"
  shows "i \<notin> fst ` set (claim_pairs cs) \<and> outbox_retry_delay 1 = 1 \<and>
    outbox_retry_delay n < MAX_RETRY_DELAY_SECONDS \<and>
    (1 \<le> n \<longrightarrow> outbox_retry_delay (n + 1) = min (2 * outbox_retry_delay n) 256)"
proof -
  have inv: "outbox_inv s1" using settle_outbox_inv[OF assms(1,3)] .
  have s1: "s1 = s\<lparr>outbox := put_row oe_event_id (settled_row (Some e) tm r) (outbox s)\<rparr>"
    using assms(2,3) settle_outbox_eq[OF assms(1)] leased_row_iff[OF assms(1)]
    by (auto split: option.splits)
  have row1: "row oe_event_id i (outbox s1) = Some (settled_row (Some e) tm r)"
    using assms(2) row_key[OF assms(2)] by (simp add: s1 row_put_row)
  have "oe_next_attempt_at (settled_row (Some e) tm r) = tm + seconds (outbox_retry_delay (oe_attempt_count r))"
    by (simp add: settled_row_def released_row_def)
  then have undue: "\<not> outbox_due now (settled_row (Some e) tm r)"
    using assms(4) by (simp add: outbox_due_def)
  have "i \<notin> oe_event_id ` set (claimed_rows now l s1)"
  proof
    assume "i \<in> oe_event_id ` set (claimed_rows now l s1)"
    then obtain x where x: "x \<in> set (claimed_rows now l s1)" "oe_event_id x = i" by blast
    then have "row oe_event_id i (outbox s1) = Some x"
      using row_of_mem[OF outbox_invD(2)[OF inv] claimed_rowsD(1)[OF x(1)]] by simp
    then show False using row1 undue claimed_rowsD(2)[OF x(1)] by simp
  qed
  then have claim: "i \<notin> fst ` set (claim_pairs cs)"
    using claim_pairs_ids[OF inv assms(5)] by simp
  have "(2::int) ^ nat (min (max (n - 1) 0) 8) \<le> 256"
    using pow2_min8_bounds(2)[of "max (n - 1) 0"] by simp
  then have delay: "outbox_retry_delay n = 2 ^ nat (min (max (n - 1) 0) 8)"
    "outbox_retry_delay n < MAX_RETRY_DELAY_SECONDS"
    by (simp_all add: outbox_retry_delay_def MAX_RETRY_DELAY_SECONDS_def)
  have double: "outbox_retry_delay (n + 1) = min (2 * outbox_retry_delay n) 256" if n: "1 \<le> n"
  proof (cases "n \<le> 8")
    case True
    then have "n \<in> {1, 2, 3, 4, 5, 6, 7, 8}" using n by auto
    then show ?thesis by (auto simp: outbox_retry_delay_def MAX_RETRY_DELAY_SECONDS_def)
  next
    case False
    then have "min (max (n - 1) 0) 8 = 8" "min (max (n + 1 - 1) 0) 8 = 8" by auto
    then show ?thesis by (simp add: outbox_retry_delay_def MAX_RETRY_DELAY_SECONDS_def)
  qed
  show ?thesis using claim delay(2) double by (simp add: outbox_retry_delay_def MAX_RETRY_DELAY_SECONDS_def)
qed

section \<open>A sample outbox\<close>

definition sample_event :: "uuid \<Rightarrow> instant \<Rightarrow> OutboxEvent" where
  "sample_event i tm = new_outbox_event \<lparr>de_event_id = i, de_event_type = MEDIA_DELETED_V1,
     de_schema_version = 1, de_aggregate_id = 7, de_occurred_at = tm, de_actor_id = None,
     de_trace_id = hex_fixed 32 5,
     de_payload = [(''background_job_id'', JStr (uuid_str 8)), (''media_asset_id'', JStr (uuid_str 9))]\<rparr>"

definition sample_outbox :: db where
  "sample_outbox = (empty_db (\<lambda>n. n) (\<lambda>_. []))\<lparr>drawn := 10,
     outbox := [sample_event 2 30, sample_event 1 20, sample_event 3 900]\<rparr>"

lemma sample_outbox_inv: "outbox_inv sample_outbox"
  by (simp add: outbox_inv_def fresh_supply_def sample_outbox_def sample_event_def new_outbox_event_def
      outbox_row_ok_def outbox_event_check_def drawn_ids_def empty_db_def documented_payload_def
      insert_commute del: hex_fixed.simps)

lemma sample_claimed: "claimed_rows 100 10 sample_outbox = [sample_event 1 20, sample_event 2 30]"
  by (simp add: claimed_rows_def select_by_def sample_outbox_def outbox_due_def sample_event_def
      new_outbox_event_def)

lemma sample_claim: "\<exists>cs d t. claim_outbox_events 100 10 60 sample_outbox = Inr (cs, sample_outbox\<lparr>drawn := d, outbox := t\<rparr>)
    \<and> claim_pairs cs = [(1, 10), (2, 11)] \<and> outbox_inv (sample_outbox\<lparr>drawn := d, outbox := t\<rparr>)"
proof -
  have "valid_claim 10 60" by (simp add: valid_claim_def MAX_BATCH_SIZE_def)
  then obtain cs d t where c: "claim_outbox_events 100 10 60 sample_outbox = Inr (cs, sample_outbox\<lparr>drawn := d, outbox := t\<rparr>)"
    "outbox_inv (sample_outbox\<lparr>drawn := d, outbox := t\<rparr>)"
    "map co_event cs = map event_of_row (claimed_rows 100 10 sample_outbox)"
    "map co_lock_token cs = map (\<lambda>k. rng sample_outbox (drawn sample_outbox + k)) [0..<length (claimed_rows 100 10 sample_outbox)]"
    using claim_outbox_spec[OF sample_outbox_inv] by metis
  have "claim_pairs cs = [(1, 10), (2, 11)]"
    unfolding claim_pairs_nth[OF c(3,4)] sample_claimed
    by (simp add: upt_rec sample_outbox_def empty_db_def sample_event_def)
  then show ?thesis using c(1,2) by blast
qed

lemma outbox_lease_exclusive_witness:
  "\<exists>cs s1 cs' s2. claim_outbox_events 100 10 60 sample_outbox = Inr (cs, s1) \<and>
     claim_outbox_events 200 10 60 (outbox_run [Claim 150 (5, 30)] s1) = Inr (cs', s2) \<and>
     1 \<notin> fst ` set (claim_pairs cs') \<and>
     (\<exists>s3. settle_outbox None 1 10 300 (outbox_run [Claim 150 (5, 30)] s1) = Inr (True, s3))"
proof -
  obtain cs d t where c: "claim_outbox_events 100 10 60 sample_outbox = Inr (cs, sample_outbox\<lparr>drawn := d, outbox := t\<rparr>)"
    "claim_pairs cs = [(1, 10), (2, 11)]" "outbox_inv (sample_outbox\<lparr>drawn := d, outbox := t\<rparr>)"
    using sample_claim by blast
  let ?s1 = "sample_outbox\<lparr>drawn := d, outbox := t\<rparr>" and ?xs = "[Claim 150 (5, 30)] :: outbox_op list"
  have inv: "outbox_inv (outbox_run ?xs ?s1)" using c(3) outbox_run_inv by blast
  have "valid_claim 10 60" by (simp add: valid_claim_def MAX_BATCH_SIZE_def)
  then obtain cs' s2 where c': "claim_outbox_events 200 10 60 (outbox_run ?xs ?s1) = Inr (cs', s2)"
    using claim_outbox_spec[OF inv] by metis
  have "\<forall>x \<in> set ?xs. spares_lease (set (claim_pairs cs)) (100 + seconds 60) x"
    by (simp add: seconds_def)
  then show ?thesis
    using outbox_lease_exclusive[OF sample_outbox_inv c(1) _ _ _ c', of 1 10 None 300] c c'
    by (auto simp: seconds_def)
qed

text \<open>An outbox in which the relay holds a lease on event 1.\<close>

definition sample_leased :: db where
  "sample_leased = sample_outbox\<lparr>outbox := [sample_event 2 30,
     lease_outbox_row 5 (100 + seconds 60) (sample_event 1 20)]\<rparr>"

lemma sample_leased_inv: "outbox_inv sample_leased"
  by (simp add: sample_leased_def lease_outbox_row_def outbox_inv_def fresh_supply_def sample_outbox_def
      sample_event_def new_outbox_event_def outbox_row_ok_def outbox_event_check_def drawn_ids_def
      empty_db_def documented_payload_def insert_commute del: hex_fixed.simps)

lemma sample_leased_row: "leased_row 1 5 sample_leased = Some (lease_outbox_row 5 (100 + seconds 60) (sample_event 1 20))"
  "row oe_event_id 1 (outbox sample_leased) = Some (lease_outbox_row 5 (100 + seconds 60) (sample_event 1 20))"
  by (simp_all add: leased_row_def sample_leased_def sample_event_def)

lemma sample_settles: "\<exists>s1. settle_outbox err 1 5 300 sample_leased = Inr (True, s1)"
  using settle_outbox_eq[OF sample_leased_inv] sample_leased_row by simp

lemma outbox_token_single_use_witness:
  "\<exists>s1. settle_outbox None 1 5 300 sample_leased = Inr (True, s1) \<and>
     settle_outbox (Some OtherError) 1 5 400 (outbox_run [Claim 350 (10, 60)] s1) =
       Inr (False, outbox_run [Claim 350 (10, 60)] s1)"
  using sample_settles outbox_token_single_use[OF sample_leased_inv] by blast

lemma outbox_published_for_good_witness:
  "\<exists>s1. settle_outbox None 1 5 300 sample_leased = Inr (True, s1) \<and>
     outbox_final (outbox_run [Settle (None, 400) 1 5] s1) 1 \<and>
     1 \<notin> fst ` set (fst (outbox_claim 999 (10, 60) (outbox_run [Settle (None, 400) 1 5] s1)))"
proof -
  obtain s1 where s1: "settle_outbox None 1 5 300 sample_leased = Inr (True, s1)"
    using sample_settles by blast
  show ?thesis
    using s1 outbox_published_for_good[OF sample_leased_inv s1, of "[Settle (None, 400) 1 5]" 999 10 60] by blast
qed

lemma relay_outbox_accounts_witness:
  "\<exists>sent s'. relay_outbox_once (\<lambda>ev k. if de_event_id ev = 1 then None else Some OtherError)
      (outbox_run [Claim 150 (5, 30)]) (Some 100) 0 0 10 60 10 sample_outbox =
      Inr (\<lparr>rl_claimed = 2, rl_published = 1, rl_failed = 1\<rparr>, sent, s')"
proof -
  have "valid_claim 10 60" by (simp add: valid_claim_def MAX_BATCH_SIZE_def)
  from relay_outbox_accounts[OF sample_outbox_inv this, of 10 "[Claim 150 (5, 30)]" 100
      "\<lambda>ev k. if de_event_id ev = 1 then None else Some OtherError" 0 0]
  show ?thesis by (auto simp: sample_claimed sample_event_def event_of_row_def new_outbox_event_def seconds_def)
qed

lemma claim_outbox_oldest_first_witness:
  "\<exists>cs s'. claim_outbox_events 100 1 60 sample_outbox = Inr (cs, s') \<and> length cs = 1 \<and>
     sorted (map (\<lambda>c. (de_occurred_at (co_event c), de_event_id (co_event c))) cs)"
proof -
  have "valid_claim 1 60" by (simp add: valid_claim_def MAX_BATCH_SIZE_def)
  then obtain cs s' where c: "claim_outbox_events 100 1 60 sample_outbox = Inr (cs, s')"
    using claim_outbox_spec[OF sample_outbox_inv] by metis
  have "length (filter (outbox_due 100) (outbox sample_outbox)) = 2"
    by (simp add: sample_outbox_def outbox_due_def sample_event_def new_outbox_event_def)
  then show ?thesis using claim_outbox_oldest_first[OF sample_outbox_inv c] c by auto
qed

lemma outbox_retry_backoff_witness:
  "\<exists>s1 cs s2. settle_outbox (Some OtherError) 1 5 300 sample_leased = Inr (True, s1) \<and>
     claim_outbox_events 1000299 10 60 s1 = Inr (cs, s2) \<and> 1 \<notin> fst ` set (claim_pairs cs)"
proof -
  obtain s1 where s1: "settle_outbox (Some OtherError) 1 5 300 sample_leased = Inr (True, s1)"
    using sample_settles by blast
  have "valid_claim 10 60" by (simp add: valid_claim_def MAX_BATCH_SIZE_def)
  then obtain cs s2 where c: "claim_outbox_events 1000299 10 60 s1 = Inr (cs, s2)"
    using claim_outbox_spec[OF settle_outbox_inv[OF sample_leased_inv s1]] by metis
  have "oe_attempt_count (lease_outbox_row 5 (100 + seconds 60) (sample_event 1 20)) = 1"
    by (simp add: sample_event_def new_outbox_event_def)
  then have "(1000299::int) < 300 + seconds (outbox_retry_delay
      (oe_attempt_count (lease_outbox_row 5 (100 + seconds 60) (sample_event 1 20))))"
    by (simp add: outbox_retry_delay_def MAX_RETRY_DELAY_SECONDS_def seconds_def)
  from outbox_retry_backoff[OF sample_leased_inv sample_leased_row(2) s1 this c]
  show ?thesis using s1 c by blast
qed

end
