(* ===== verification/BackgroundJobs.thy ===== *)
theory BackgroundJobs
  imports Outbox
begin

text \<open>
  Media validation and deletion jobs: \<open>app/modules/background_job/service.py\<close> and
  the messages of \<open>app/contracts/maintenance.py\<close>. Each definition is one function;
  a job moves PENDING, DISPATCHING, QUEUED, RUNNING and ends SUCCEEDED or FAILED, and the
  media asset it targets moves with it. Lemmas about these operations are in
  BackgroundJobProofs.
\<close>

section \<open>Messages\<close>

text \<open>The two queue messages have the same fields; \<open>tk_job_type\<close> is the literal that
  tells them apart.\<close>

record MediaTask =
  tk_background_job_id :: uuid
  tk_job_type :: BackgroundJobType
  tk_attempt_count :: int
  tk_trace_id :: string

record MediaValidationWork =
  vw_background_job_id :: uuid
  vw_attempt_count :: int
  vw_object_key :: string
  vw_source_generation :: string
  vw_expected_content_type :: string
  vw_expected_size_bytes :: int

record MediaDeletionWork =
  dw_background_job_id :: uuid
  dw_attempt_count :: int
  dw_move_job_id :: uuid
  dw_media_asset_id :: uuid
  dw_object_key :: string
  dw_generation :: string

datatype MediaOutcome = OUTCOME_SUCCEEDED | OUTCOME_FAILED

record MediaValidationResult =
  vr_background_job_id :: uuid
  vr_attempt_count :: int
  vr_source_generation :: string
  vr_outcome :: MediaOutcome
  vr_observed_content_type :: "string option"
  vr_observed_size_bytes :: "int option"
  vr_sha256_hex :: "string option"
  vr_error_kind :: "ProviderErrorKind option"

record MediaDeletionResult =
  dr_background_job_id :: uuid
  dr_attempt_count :: int
  dr_outcome :: MediaOutcome
  dr_error_kind :: "ProviderErrorKind option"

text \<open>\<open>^[^/]+/[^/]+$\<close>.\<close>

definition media_type_text :: "string \<Rightarrow> bool" where
  "media_type_text s = (let a = takeWhile (\<lambda>c. c \<noteq> CHR ''/'') s; b = drop (Suc (length a)) s in
     a \<noteq> [] \<and> b \<noteq> [] \<and> CHR ''/'' \<notin> set b \<and> length a < length s)"

definition validation_result_ok :: "MediaValidationResult \<Rightarrow> bool" where
  "validation_result_ok r = (1 \<le> vr_attempt_count r \<and>
     text_between 1 255 (vr_source_generation r) \<and>
     strip (vr_source_generation r) = vr_source_generation r \<and>
     (case vr_observed_content_type r of None \<Rightarrow> True
      | Some c \<Rightarrow> text_between 3 255 c \<and> strip c = c \<and> media_type_text c) \<and>
     (case vr_observed_size_bytes r of None \<Rightarrow> True | Some n \<Rightarrow> 0 < n) \<and>
     (case vr_sha256_hex r of None \<Rightarrow> True | Some h \<Rightarrow> hash_text h) \<and>
     (if vr_outcome r = OUTCOME_SUCCEEDED then
        vr_error_kind r = None \<and> vr_observed_content_type r \<noteq> None \<and>
        vr_observed_size_bytes r \<noteq> None \<and> vr_sha256_hex r \<noteq> None
      else vr_error_kind r \<noteq> None \<and> vr_observed_content_type r = None \<and>
        vr_observed_size_bytes r = None \<and> vr_sha256_hex r = None))"

definition deletion_result_ok :: "MediaDeletionResult \<Rightarrow> bool" where
  "deletion_result_ok r = (1 \<le> dr_attempt_count r \<and>
     (dr_outcome r = OUTCOME_FAILED) = (dr_error_kind r \<noteq> None))"

definition mk_media_task :: "MediaTask \<Rightarrow> MediaTask result" where
  "mk_media_task t = (let t' = t\<lparr>tk_trace_id := strip (tk_trace_id t)\<rparr> in
     if tk_attempt_count t' < 1 \<or> \<not> trace_text (tk_trace_id t') then Inl ValueError else Inr t')"

record BackgroundJobResponse =
  br_id :: uuid
  br_job_id :: uuid
  br_media_asset_id :: uuid
  br_job_type :: BackgroundJobType
  br_status :: BackgroundJobStatus
  br_scheduled_at :: instant
  br_attempt_count :: int
  br_last_error_code :: "string option"
  br_created_at :: instant
  br_last_attempt_at :: "instant option"
  br_execution_deadline_at :: "instant option"
  br_completed_at :: "instant option"

definition job_response :: "BackgroundJob \<Rightarrow> BackgroundJobResponse" where
  "job_response r = \<lparr>br_id = bj_id r, br_job_id = bj_move_job_id r,
     br_media_asset_id = bj_media_asset_id r, br_job_type = bj_job_type r,
     br_status = bj_status r, br_scheduled_at = bj_scheduled_at r,
     br_attempt_count = bj_attempt_count r, br_last_error_code = bj_last_error_code r,
     br_created_at = bj_created_at r, br_last_attempt_at = bj_last_attempt_at r,
     br_execution_deadline_at = bj_execution_deadline_at r, br_completed_at = bj_completed_at r\<rparr>"

section \<open>Creation\<close>

definition deletable_media_statuses :: "MediaAssetStatus set" where
  "deletable_media_statuses = {UPLOADED, READY, MEDIA_FAILED}"

definition job_for :: "BackgroundJobType \<Rightarrow> uuid \<Rightarrow> db \<Rightarrow> BackgroundJob option" where
  "job_for ty asset s =
     find (\<lambda>r. bj_job_type r = ty \<and> bj_media_asset_id r = asset) (background_jobs s)"

text \<open>INSERT: the unique key on type and asset, and the CHECK constraints.\<close>

definition insert_background_job :: "BackgroundJob \<Rightarrow> db \<Rightarrow> db result" where
  "insert_background_job r s =
     (if job_for (bj_job_type r) (bj_media_asset_id r) s \<noteq> None \<or>
         \<not> background_job_target_check r \<or> \<not> background_job_state_check r
      then Inl IntegrityError
      else Inr (s\<lparr>background_jobs := background_jobs s @ [r]\<rparr>))"

definition new_background_job ::
    "uuid \<Rightarrow> uuid \<Rightarrow> uuid \<Rightarrow> BackgroundJobType \<Rightarrow> string \<Rightarrow> string \<Rightarrow> string option \<Rightarrow> int option \<Rightarrow>
     string \<Rightarrow> instant \<Rightarrow> uuid option \<Rightarrow> instant \<Rightarrow> BackgroundJob" where
  "new_background_job i job asset ty key gen ctype sz trace scheduled creator now =
     \<lparr>bj_id = i, bj_move_job_id = job, bj_media_asset_id = asset, bj_job_type = ty,
      bj_status = PENDING, bj_target_object_key = key, bj_target_generation = gen,
      bj_target_content_type = ctype, bj_target_size_bytes = sz, bj_trace_id = trace,
      bj_scheduled_at = scheduled, bj_attempt_count = 0, bj_dispatch_token = None,
      bj_dispatch_locked_until = None, bj_provider_task_id = None, bj_last_error_code = None,
      bj_created_by_participant_id = creator, bj_created_at = now, bj_last_attempt_at = None,
      bj_execution_deadline_at = None, bj_completed_at = None\<rparr>"

definition create_media_deletion_background_job ::
    "MediaAsset \<Rightarrow> uuid \<Rightarrow> uuid option \<Rightarrow> string \<Rightarrow> instant option \<Rightarrow> instant \<Rightarrow> db \<Rightarrow>
     (BackgroundJobResponse \<times> db) result" where
  "create_media_deletion_background_job asset job_id participant_id trace scheduled now s =
     (let (i, s1) = uuid4 s;
          generation = (case ma_generation asset of Some g \<Rightarrow> g | None \<Rightarrow> []);
          r = new_background_job i job_id (ma_id asset) MEDIA_RETENTION_DELETE
                  (ma_object_key asset) generation None None trace
                  (case scheduled of Some t \<Rightarrow> t | None \<Rightarrow> now) participant_id now in
      case insert_background_job r s1 of
        Inr s2 \<Rightarrow> Inr (job_response r, s2)
      | Inl e \<Rightarrow> (case job_for MEDIA_RETENTION_DELETE (ma_id asset) s1 of
          None \<Rightarrow> Inl e
        | Some concurrent \<Rightarrow> Inr (job_response concurrent, s1)))"

text \<open>\<open>SELECT \<dots> JOIN capture_session JOIN move_job\<close>.\<close>

definition asset_and_job :: "uuid \<Rightarrow> uuid \<Rightarrow> db \<Rightarrow> (MediaAsset \<times> MoveJob) option" where
  "asset_and_job asset_id job_id s = (case row ma_id asset_id (media_assets s) of
     None \<Rightarrow> None
   | Some a \<Rightarrow> (case row cs_id (ma_capture_session_id a) (capture_sessions s) of
       None \<Rightarrow> None
     | Some c \<Rightarrow> if cs_job_id c \<noteq> job_id then None
         else (case row mj_id job_id (move_jobs s) of None \<Rightarrow> None | Some j \<Rightarrow> Some (a, j))))"

definition trimmed_generation :: "MediaAsset \<Rightarrow> bool" where
  "trimmed_generation a = (case ma_generation a of None \<Rightarrow> False
     | Some g \<Rightarrow> g \<noteq> [] \<and> strip g = g)"

definition create_retention_background_job ::
    "uuid \<Rightarrow> uuid \<Rightarrow> uuid option \<Rightarrow> instant \<Rightarrow> string \<Rightarrow> instant option \<Rightarrow> instant \<Rightarrow> db \<Rightarrow>
     (BackgroundJobResponse \<times> db) result" where
  "create_retention_background_job job_id asset_id participant_id cutoff trace scheduled now s =
     (case asset_and_job asset_id job_id s of
        None \<Rightarrow> Inl BackgroundJobNotFoundError
      | Some (asset, job) \<Rightarrow>
          (case job_for MEDIA_RETENTION_DELETE asset_id s of
             Some existing \<Rightarrow> Inr (job_response existing, s)
           | None \<Rightarrow>
               if mj_status job \<noteq> COMPLETED \<or>
                  (case mj_completed_at job of None \<Rightarrow> True | Some t \<Rightarrow> cutoff < t) \<or>
                  ma_status asset \<notin> deletable_media_statuses \<or> \<not> trimmed_generation asset
               then Inl BackgroundJobConflictError
               else create_media_deletion_background_job asset job_id participant_id trace
                      scheduled now s))"

definition create_media_validation_background_job ::
    "uuid \<Rightarrow> uuid \<Rightarrow> uuid \<Rightarrow> string \<Rightarrow> instant option \<Rightarrow> instant \<Rightarrow> db \<Rightarrow>
     (BackgroundJobResponse \<times> db) result" where
  "create_media_validation_background_job job_id asset_id participant_id trace scheduled now s =
     (case row ma_id asset_id (media_assets s) of
        None \<Rightarrow> Inl BackgroundJobNotFoundError
      | Some asset \<Rightarrow>
          if map_option cs_job_id (row cs_id (ma_capture_session_id asset) (capture_sessions s))
             \<noteq> Some job_id then Inl BackgroundJobNotFoundError
          else (case job_for MEDIA_VALIDATION (ma_id asset) s of
             Some existing \<Rightarrow> Inr (job_response existing, s)
           | None \<Rightarrow>
               if ma_status asset \<noteq> UPLOADED \<or> \<not> trimmed_generation asset \<or>
                  ma_actual_size_bytes asset = None
               then Inl BackgroundJobConflictError
               else let (i, s1) = uuid4 s;
                        r = new_background_job i job_id (ma_id asset) MEDIA_VALIDATION
                          (ma_object_key asset)
                          (case ma_generation asset of Some g \<Rightarrow> g | None \<Rightarrow> [])
                          (Some (ma_content_type asset)) (ma_actual_size_bytes asset) trace
                          (case scheduled of Some t \<Rightarrow> t | None \<Rightarrow> now) (Some participant_id) now in
                 bindR (insert_background_job r s1) (\<lambda>s2. Inr (job_response r, s2))))"

definition list_background_jobs :: "uuid \<Rightarrow> db \<Rightarrow> BackgroundJobResponse list" where
  "list_background_jobs job_id s = map job_response
     (sort_key (\<lambda>r. (bj_created_at r, bj_id r))
       (filter (\<lambda>r. bj_move_job_id r = job_id) (background_jobs s)))"

definition put_job :: "BackgroundJob \<Rightarrow> db \<Rightarrow> db" where
  "put_job r s = s\<lparr>background_jobs := put_row bj_id r (background_jobs s)\<rparr>"

definition put_asset :: "MediaAsset \<Rightarrow> db \<Rightarrow> db" where
  "put_asset a s = s\<lparr>media_assets := put_row ma_id a (media_assets s)\<rparr>"

section \<open>Retry\<close>

definition execution_expired :: "instant \<Rightarrow> BackgroundJob \<Rightarrow> bool" where
  "execution_expired now r = (bj_status r = RUNNING \<and>
     (case bj_execution_deadline_at r of None \<Rightarrow> False | Some d \<Rightarrow> d \<le> now))"

definition reopened_job :: "instant \<Rightarrow> BackgroundJob \<Rightarrow> BackgroundJob" where
  "reopened_job now r = r\<lparr>bj_status := PENDING, bj_scheduled_at := now,
     bj_provider_task_id := None, bj_last_error_code := None, bj_execution_deadline_at := None,
     bj_completed_at := None\<rparr>"

definition retry_background_job ::
    "uuid \<Rightarrow> uuid \<Rightarrow> instant \<Rightarrow> db \<Rightarrow> (BackgroundJobResponse \<times> db) result" where
  "retry_background_job job_id bg_id now s =
     (case find (\<lambda>r. bj_id r = bg_id \<and> bj_move_job_id r = job_id) (background_jobs s) of
        None \<Rightarrow> Inl BackgroundJobNotFoundError
      | Some r \<Rightarrow>
          if bj_status r \<noteq> FAILED \<and> \<not> execution_expired now r then Inl BackgroundJobConflictError
          else
          bindR (if bj_job_type r = MEDIA_VALIDATION then
                   (case row ma_id (bj_media_asset_id r) (media_assets s) of
                      None \<Rightarrow> Inl NoResultFound
                    | Some a \<Rightarrow>
                        if execution_expired now r then
                          if ma_status a \<noteq> PROCESSING then Inl BackgroundJobConflictError
                          else Inr (put_asset (a\<lparr>ma_status := MEDIA_FAILED, ma_sha256_hex := None\<rparr>) s)
                        else Inr s)
                 else Inr s)
           (\<lambda>s1. Inr (job_response (reopened_job now r), put_job (reopened_job now r) s1)))"

section \<open>Dispatch\<close>

record ClaimedBackgroundJob =
  cj_task :: MediaTask
  cj_dispatch_token :: uuid

record DispatchResult =
  dpr_claimed :: int
  dpr_queued :: int
  dpr_failed :: int

definition job_due :: "instant \<Rightarrow> BackgroundJob \<Rightarrow> bool" where
  "job_due now r = ((bj_status r = PENDING \<and> bj_scheduled_at r \<le> now) \<or>
     (bj_status r = DISPATCHING \<and>
      (case bj_dispatch_locked_until r of None \<Rightarrow> False | Some u \<Rightarrow> u \<le> now)))"

definition lease_job :: "instant \<Rightarrow> instant \<Rightarrow> uuid \<Rightarrow> BackgroundJob \<Rightarrow> BackgroundJob" where
  "lease_job now until tok r0 =
     (let r = (if bj_status r0 = PENDING
               then r0\<lparr>bj_attempt_count := bj_attempt_count r0 + 1, bj_last_attempt_at := Some now\<rparr>
               else r0) in
      r\<lparr>bj_status := DISPATCHING, bj_dispatch_token := Some tok,
        bj_dispatch_locked_until := Some until\<rparr>)"

definition task_of_job :: "BackgroundJob \<Rightarrow> MediaTask" where
  "task_of_job r = \<lparr>tk_background_job_id = bj_id r, tk_job_type = bj_job_type r,
     tk_attempt_count = bj_attempt_count r, tk_trace_id = bj_trace_id r\<rparr>"

fun lease_job_rows ::
    "instant \<Rightarrow> instant \<Rightarrow> BackgroundJob list \<Rightarrow> db \<Rightarrow> (ClaimedBackgroundJob list \<times> db) result" where
  "lease_job_rows now until [] s = Inr ([], s)"
| "lease_job_rows now until (r # rs) s =
     (let (tok, s1) = uuid4 s; r' = lease_job now until tok r in
      bindR (mk_media_task (task_of_job r')) (\<lambda>task.
      bindR (lease_job_rows now until rs (put_job r' s1)) (\<lambda>(cs, s2).
      Inr (\<lparr>cj_task = task, cj_dispatch_token = tok\<rparr> # cs, s2))))"

definition claim_background_jobs ::
    "instant \<Rightarrow> int \<Rightarrow> int \<Rightarrow> db \<Rightarrow> (ClaimedBackgroundJob list \<times> db) result" where
  "claim_background_jobs now limit lease_seconds s =
     (if \<not> (1 \<le> limit \<and> limit \<le> MAX_BATCH_SIZE) then Inl ValueError
      else if lease_seconds \<le> 0 then Inl ValueError
      else lease_job_rows now (now + seconds lease_seconds)
             (select_by (\<lambda>r. (bj_scheduled_at r, bj_id r)) (nat limit) (job_due now)
                (background_jobs s)) s)"

text \<open>The outcome of a dispatch is a task id of the queue or an error code.\<close>

definition already_accepted ::
    "ClaimedBackgroundJob \<Rightarrow> string option \<Rightarrow> BackgroundJob \<Rightarrow> bool" where
  "already_accepted claim task_id r = (task_id \<noteq> None \<and>
     bj_attempt_count r = tk_attempt_count (cj_task claim) \<and>
     bj_trace_id r = tk_trace_id (cj_task claim) \<and>
     bj_status r \<in> {QUEUED, RUNNING, SUCCEEDED, FAILED} \<and>
     bj_dispatch_token r = None \<and> bj_provider_task_id r \<in> {None, task_id})"

definition finalize_background_job_dispatch ::
    "ClaimedBackgroundJob \<Rightarrow> string option \<Rightarrow> string option \<Rightarrow> instant \<Rightarrow> db \<Rightarrow> (bool \<times> db) result" where
  "finalize_background_job_dispatch claim task_id error_code completed s =
     (if (task_id = None) = (error_code = None) then Inl ValueError
      else case row bj_id (tk_background_job_id (cj_task claim)) (background_jobs s) of
        None \<Rightarrow> Inr (False, s)
      | Some r \<Rightarrow>
          if \<not> (bj_status r = DISPATCHING \<and> bj_dispatch_token r = Some (cj_dispatch_token claim)) then
            if \<not> already_accepted claim task_id r then Inr (False, s)
            else Inr (True, put_job (r\<lparr>bj_provider_task_id := task_id\<rparr>) s)
          else
            let r1 = r\<lparr>bj_dispatch_token := None, bj_dispatch_locked_until := None\<rparr> in
            (case error_code of
               None \<Rightarrow> Inr (True, put_job (r1\<lparr>bj_status := QUEUED, bj_provider_task_id := task_id\<rparr>) s)
             | Some code \<Rightarrow> Inr (True, put_job (r1\<lparr>bj_status := FAILED,
                 bj_last_error_code := Some code, bj_completed_at := Some completed\<rparr>) s)))"

text \<open>\<open>f"background-job:{id}:attempt:{n}"\<close>.\<close>

definition dispatch_key :: "MediaTask \<Rightarrow> string" where
  "dispatch_key t = ''background-job:'' @ uuid_str (tk_background_job_id t) @ '':attempt:'' @
     int_text (tk_attempt_count t)"

definition settle_job_dispatch ::
    "ClaimedBackgroundJob \<Rightarrow> port_error + string \<Rightarrow> instant \<Rightarrow> db \<Rightarrow> (bool \<times> db) result" where
  "settle_job_dispatch claim outcome tm s = (case outcome of
     Inl e \<Rightarrow> finalize_background_job_dispatch claim None (Some (port_error_code e)) tm s
   | Inr task_id \<Rightarrow> finalize_background_job_dispatch claim (Some task_id) None tm s)"

fun settle_dispatch_batch ::
    "(ClaimedBackgroundJob \<times> (port_error + string)) list \<Rightarrow> instant \<Rightarrow> db \<Rightarrow> (int \<times> int \<times> db) result" where
  "settle_dispatch_batch [] tm s = Inr (0, 0, s)"
| "settle_dispatch_batch ((c, outcome) # rest) tm s =
     bindR (settle_job_dispatch c outcome tm s) (\<lambda>(ok, s1).
     bindR (settle_dispatch_batch rest tm s1) (\<lambda>(queued, failed, s2).
     Inr (if isOk outcome then (queued + of_bool ok, failed, s2)
          else (queued, failed + of_bool ok, s2))))"

text \<open>One dispatch pass: \<open>queue\<close> answers each enqueue, \<open>others\<close> is what other
  transactions do while nothing is locked.\<close>

definition dispatch_background_jobs_once ::
    "(MediaTask \<Rightarrow> string \<Rightarrow> port_error + string) \<Rightarrow> (db \<Rightarrow> db) \<Rightarrow> instant option \<Rightarrow> instant \<Rightarrow> instant \<Rightarrow>
     int \<Rightarrow> int \<Rightarrow> rat \<Rightarrow> db \<Rightarrow> (DispatchResult \<times> (MediaTask \<times> string) list \<times> db) result" where
  "dispatch_background_jobs_once queue others now t0 t1 batch_size lease_seconds timeout s =
     (if timeout \<le> 0 then Inl ValueError
      else if of_int lease_seconds \<le> timeout then Inl ValueError
      else let start = (case now of Some t \<Rightarrow> t | None \<Rightarrow> t0) in
      bindR (claim_background_jobs start batch_size lease_seconds s) (\<lambda>(claims, s1).
      if claims = [] then Inr (\<lparr>dpr_claimed = 0, dpr_queued = 0, dpr_failed = 0\<rparr>, [], s1)
      else let sent = map (\<lambda>c. (cj_task c, dispatch_key (cj_task c))) claims;
               outcomes = map (\<lambda>(t, key). queue t key) sent;
               finish = (case now of Some t \<Rightarrow> t | None \<Rightarrow> t1) in
      bindR (settle_dispatch_batch (zip claims outcomes) finish (others s1)) (\<lambda>(queued, failed, s2).
      Inr (\<lparr>dpr_claimed = int (length claims), dpr_queued = queued, dpr_failed = failed\<rparr>,
           sent, s2))))"

section \<open>Execution\<close>

text \<open>The works handed to the workers are contract models too: their constructors validate.\<close>

definition deletion_work :: "BackgroundJob \<Rightarrow> MediaDeletionWork result" where
  "deletion_work r = (let key = strip (bj_target_object_key r); gen = strip (bj_target_generation r) in
     if bj_attempt_count r < 1 \<or> \<not> text_between 1 1024 key \<or> \<not> text_between 1 255 gen then Inl ValueError
     else Inr \<lparr>dw_background_job_id = bj_id r, dw_attempt_count = bj_attempt_count r,
       dw_move_job_id = bj_move_job_id r, dw_media_asset_id = bj_media_asset_id r,
       dw_object_key = key, dw_generation = gen\<rparr>)"

definition validation_work :: "BackgroundJob \<Rightarrow> MediaValidationWork result" where
  "validation_work r = (let key = strip (bj_target_object_key r); gen = strip (bj_target_generation r) in
     case (bj_target_content_type r, bj_target_size_bytes r) of
       (Some c, Some n) \<Rightarrow>
         if bj_attempt_count r < 1 \<or> \<not> text_between 1 1024 key \<or> \<not> text_between 1 255 gen \<or>
            \<not> text_between 3 255 (strip c) \<or> \<not> media_type_text (strip c) \<or> n \<le> 0 then Inl ValueError
         else Inr \<lparr>vw_background_job_id = bj_id r, vw_attempt_count = bj_attempt_count r,
           vw_object_key = key, vw_source_generation = gen,
           vw_expected_content_type = strip c, vw_expected_size_bytes = n\<rparr>
     | _ \<Rightarrow> Inl ValueError)"

definition job_and_asset :: "uuid \<Rightarrow> db \<Rightarrow> (BackgroundJob \<times> MediaAsset) option" where
  "job_and_asset i s = (case row bj_id i (background_jobs s) of None \<Rightarrow> None
     | Some r \<Rightarrow> (case row ma_id (bj_media_asset_id r) (media_assets s) of
         None \<Rightarrow> None | Some a \<Rightarrow> Some (r, a)))"

definition asset_matches_target :: "MediaAsset \<Rightarrow> BackgroundJob \<Rightarrow> bool" where
  "asset_matches_target a r = (ma_object_key a = bj_target_object_key r \<and>
     ma_generation a = Some (bj_target_generation r) \<and>
     Some (ma_content_type a) = bj_target_content_type r \<and>
     ma_actual_size_bytes a = bj_target_size_bytes r)"

definition running_job :: "instant \<Rightarrow> BackgroundJob \<Rightarrow> BackgroundJob" where
  "running_job deadline r = r\<lparr>bj_dispatch_token := None, bj_dispatch_locked_until := None,
     bj_status := RUNNING, bj_execution_deadline_at := Some deadline\<rparr>"

definition start_media_validation ::
    "MediaTask \<Rightarrow> instant \<Rightarrow> int \<Rightarrow> db \<Rightarrow> (MediaValidationWork option \<times> db) result" where
  "start_media_validation task now timeout_seconds s =
     (if timeout_seconds \<le> 0 then Inl ValueError
      else case job_and_asset (tk_background_job_id task) s of
        None \<Rightarrow> Inl BackgroundJobNotFoundError
      | Some (r, asset) \<Rightarrow>
          if bj_job_type r \<noteq> MEDIA_VALIDATION \<or> bj_attempt_count r \<noteq> tk_attempt_count task \<or>
             bj_trace_id r \<noteq> tk_trace_id task then Inl BackgroundJobNotFoundError
          else if bj_status r \<in> {SUCCEEDED, FAILED} then Inr (None, s)
          else if bj_status r = RUNNING then
            if ma_status asset \<noteq> PROCESSING then Inl BackgroundJobConflictError
            else bindR (validation_work r) (\<lambda>w. Inr (Some w, s))
          else if bj_status r \<notin> {DISPATCHING, QUEUED} then Inl BackgroundJobConflictError
          else if ma_status asset \<notin> {UPLOADED, MEDIA_FAILED} \<or> \<not> asset_matches_target asset r
            then Inl BackgroundJobConflictError
          else let r' = running_job (now + seconds timeout_seconds) r;
                   s' = put_asset (asset\<lparr>ma_status := PROCESSING, ma_sha256_hex := None\<rparr>) (put_job r' s) in
            bindR (validation_work r') (\<lambda>w. Inr (Some w, s')))"

definition same_validation_result :: "BackgroundJob \<Rightarrow> MediaAsset \<Rightarrow> MediaValidationResult \<Rightarrow> bool" where
  "same_validation_result r asset res =
     ((bj_status r = SUCCEEDED \<and> vr_outcome res = OUTCOME_SUCCEEDED \<and>
       ma_sha256_hex asset = vr_sha256_hex res) \<or>
      (bj_status r = FAILED \<and> vr_outcome res = OUTCOME_FAILED \<and>
       (case vr_error_kind res of None \<Rightarrow> False
        | Some k \<Rightarrow> bj_last_error_code r = Some (kind_value k))))"

definition complete_media_validation ::
    "MediaValidationResult \<Rightarrow> instant \<Rightarrow> db \<Rightarrow> (BackgroundJobResponse \<times> db) result" where
  "complete_media_validation res completed s =
     (case job_and_asset (vr_background_job_id res) s of
        None \<Rightarrow> Inl BackgroundJobNotFoundError
      | Some (r, asset) \<Rightarrow>
          if bj_job_type r \<noteq> MEDIA_VALIDATION \<or> bj_attempt_count r \<noteq> vr_attempt_count res \<or>
             bj_target_generation r \<noteq> vr_source_generation res \<or> \<not> asset_matches_target asset r
          then Inl BackgroundJobConflictError
          else if vr_outcome res = OUTCOME_SUCCEEDED \<and>
             (vr_observed_content_type res \<noteq> bj_target_content_type r \<or>
              vr_observed_size_bytes res \<noteq> bj_target_size_bytes r)
          then Inl BackgroundJobConflictError
          else if bj_status r \<in> {SUCCEEDED, FAILED} then
            if \<not> same_validation_result r asset res then Inl BackgroundJobConflictError
            else Inr (job_response r, s)
          else if bj_status r \<noteq> RUNNING \<or> ma_status asset \<noteq> PROCESSING
          then Inl BackgroundJobConflictError
          else let r1 = r\<lparr>bj_completed_at := Some completed, bj_execution_deadline_at := None\<rparr> in
            if vr_outcome res = OUTCOME_FAILED then
              (case vr_error_kind res of
                 None \<Rightarrow> Inl AssertionError
               | Some k \<Rightarrow>
                   let r2 = r1\<lparr>bj_status := FAILED, bj_last_error_code := Some (kind_value k)\<rparr> in
                   Inr (job_response r2, put_asset
                     (asset\<lparr>ma_status := MEDIA_FAILED, ma_sha256_hex := None\<rparr>) (put_job r2 s)))
            else if vr_sha256_hex res = None then Inl AssertionError
            else let r2 = r1\<lparr>bj_status := SUCCEEDED\<rparr> in
              Inr (job_response r2, put_asset
                (asset\<lparr>ma_status := READY, ma_generation := Some (vr_source_generation res),
                   ma_actual_size_bytes := vr_observed_size_bytes res,
                   ma_sha256_hex := vr_sha256_hex res\<rparr>) (put_job r2 s)))"

definition start_media_deletion ::
    "MediaTask \<Rightarrow> instant \<Rightarrow> int \<Rightarrow> db \<Rightarrow> (MediaDeletionWork option \<times> db) result" where
  "start_media_deletion task now timeout_seconds s =
     (if timeout_seconds \<le> 0 then Inl ValueError
      else case row bj_id (tk_background_job_id task) (background_jobs s) of
        None \<Rightarrow> Inl BackgroundJobNotFoundError
      | Some r \<Rightarrow>
          if bj_job_type r \<noteq> MEDIA_RETENTION_DELETE \<or> bj_attempt_count r \<noteq> tk_attempt_count task \<or>
             bj_trace_id r \<noteq> tk_trace_id task then Inl BackgroundJobNotFoundError
          else if bj_status r \<in> {SUCCEEDED, FAILED} then Inr (None, s)
          else if bj_status r = RUNNING then bindR (deletion_work r) (\<lambda>w. Inr (Some w, s))
          else if bj_status r \<notin> {DISPATCHING, QUEUED} then Inl BackgroundJobConflictError
          else let r' = running_job (now + seconds timeout_seconds) r in
            bindR (deletion_work r') (\<lambda>w. Inr (Some w, put_job r' s)))"

definition same_deletion_result :: "BackgroundJob \<Rightarrow> MediaDeletionResult \<Rightarrow> bool" where
  "same_deletion_result r res =
     ((bj_status r = SUCCEEDED \<and> dr_outcome res = OUTCOME_SUCCEEDED) \<or>
      (bj_status r = FAILED \<and> dr_outcome res = OUTCOME_FAILED \<and>
       (case dr_error_kind res of None \<Rightarrow> False
        | Some k \<Rightarrow> bj_last_error_code r = Some (kind_value k))))"

definition complete_media_deletion ::
    "MediaDeletionResult \<Rightarrow> instant \<Rightarrow> db \<Rightarrow> (BackgroundJobResponse \<times> db) result" where
  "complete_media_deletion res completed s =
     (case job_and_asset (dr_background_job_id res) s of
        None \<Rightarrow> Inl BackgroundJobNotFoundError
      | Some (r, asset) \<Rightarrow>
          if bj_job_type r \<noteq> MEDIA_RETENTION_DELETE \<or> bj_attempt_count r \<noteq> dr_attempt_count res
          then Inl BackgroundJobConflictError
          else if bj_status r \<in> {SUCCEEDED, FAILED} then
            if \<not> same_deletion_result r res then Inl BackgroundJobConflictError
            else Inr (job_response r, s)
          else if bj_status r \<noteq> RUNNING then Inl BackgroundJobConflictError
          else let r1 = r\<lparr>bj_completed_at := Some completed, bj_execution_deadline_at := None\<rparr> in
            if dr_outcome res = OUTCOME_FAILED then
              (case dr_error_kind res of
                 None \<Rightarrow> Inl AssertionError
               | Some k \<Rightarrow>
                   let r2 = r1\<lparr>bj_status := FAILED, bj_last_error_code := Some (kind_value k)\<rparr> in
                   Inr (job_response r2, put_job r2 s))
            else let r2 = r1\<lparr>bj_status := SUCCEEDED\<rparr> in
              bindR (enqueue_domain_event MEDIA_DELETED_V1 (bj_move_job_id r) None
                       (Some (bj_trace_id r))
                       [(''background_job_id'', JStr (uuid_str (bj_id r))),
                        (''media_asset_id'', JStr (uuid_str (bj_media_asset_id r)))]
                       completed (put_asset (asset\<lparr>ma_status := DELETED\<rparr>) (put_job r2 s)))
                (\<lambda>(ev, s'). Inr (job_response r2, s')))"

end
