(* ===== verification/BackgroundJobProofs.thy ===== *)
theory BackgroundJobProofs
  imports BackgroundJobs
begin

text \<open>
  Lemmas about the background-job operations: the invariant of the table and the state
  machine each operation respects, the dispatcher as a lease queue, and the properties
  of the component.
\<close>

section \<open>Invariant and state machine\<close>

text \<open>What the service promises about one job row: beyond the CHECK constraints, a job that
  has left PENDING carries an attempt number of at least one.\<close>

definition job_row_ok :: "db \<Rightarrow> BackgroundJob \<Rightarrow> bool" where
  "job_row_ok s r = (background_job_target_check r \<and> background_job_state_check r \<and>
     trace_text (bj_trace_id r) \<and> (bj_status r \<noteq> PENDING \<longrightarrow> 1 \<le> bj_attempt_count r) \<and>
     bj_id r \<in> drawn_ids s \<and>
     (\<forall>t. bj_dispatch_token r = Some t \<longrightarrow> t \<in> drawn_ids s))"

definition jobs_inv :: "db \<Rightarrow> bool" where
  "jobs_inv s = (fresh_supply s \<and> distinct (map bj_id (background_jobs s)) \<and>
     distinct (map (\<lambda>r. (bj_job_type r, bj_media_asset_id r)) (background_jobs s)) \<and>
     (\<forall>r \<in> set (background_jobs s). job_row_ok s r))"

text \<open>The abstract state machine: the statuses a job may have after one operation.\<close>

fun job_transitions :: "BackgroundJobStatus \<Rightarrow> BackgroundJobStatus list" where
  "job_transitions PENDING = [PENDING, DISPATCHING]"
| "job_transitions DISPATCHING = [DISPATCHING, QUEUED, RUNNING, FAILED]"
| "job_transitions QUEUED = [QUEUED, RUNNING]"
| "job_transitions RUNNING = [RUNNING, SUCCEEDED, FAILED, PENDING]"
| "job_transitions SUCCEEDED = [SUCCEEDED]"
| "job_transitions FAILED = [FAILED, PENDING]"

definition same_target :: "BackgroundJob \<Rightarrow> BackgroundJob \<Rightarrow> bool" where
  "same_target r r' = (bj_id r' = bj_id r \<and> bj_move_job_id r' = bj_move_job_id r \<and>
     bj_media_asset_id r' = bj_media_asset_id r \<and> bj_job_type r' = bj_job_type r \<and>
     bj_target_object_key r' = bj_target_object_key r \<and>
     bj_target_generation r' = bj_target_generation r \<and>
     bj_target_content_type r' = bj_target_content_type r \<and>
     bj_target_size_bytes r' = bj_target_size_bytes r \<and> bj_trace_id r' = bj_trace_id r \<and>
     bj_created_at r' = bj_created_at r)"

definition job_step :: "BackgroundJob \<Rightarrow> BackgroundJob \<Rightarrow> bool" where
  "job_step r r' = (same_target r r' \<and> bj_status r' \<in> set (job_transitions (bj_status r)) \<and>
     bj_attempt_count r' =
       (if bj_status r = PENDING \<and> bj_status r' = DISPATCHING then bj_attempt_count r + 1
        else bj_attempt_count r))"

text \<open>No job disappears, and every job moves by the state machine.\<close>

definition jobs_evolve :: "db \<Rightarrow> db \<Rightarrow> bool" where
  "jobs_evolve s s' = (\<forall>i r. row bj_id i (background_jobs s) = Some r \<longrightarrow>
     (\<exists>r'. row bj_id i (background_jobs s') = Some r' \<and> job_step r r'))"

lemma jobs_invD:
  assumes "jobs_inv s"
  shows "fresh_supply s" "distinct (map bj_id (background_jobs s))"
    "distinct (map (\<lambda>r. (bj_job_type r, bj_media_asset_id r)) (background_jobs s))"
    "r \<in> set (background_jobs s) \<Longrightarrow> job_row_ok s r"
  using assms by (auto simp: jobs_inv_def)

lemma job_step_refl [simp]: "job_step r r"
  by (cases "bj_status r") (simp_all add: job_step_def same_target_def)

lemma job_step_attempted:
  "job_step r r' \<Longrightarrow> background_job_state_check r \<Longrightarrow> bj_status r \<noteq> PENDING \<longrightarrow> 1 \<le> bj_attempt_count r \<Longrightarrow>
   bj_status r' \<noteq> PENDING \<longrightarrow> 1 \<le> bj_attempt_count r'"
  by (cases "bj_status r") (auto simp: job_step_def background_job_state_check_def)

lemma same_target_id: "same_target r r' \<Longrightarrow> bj_id r' = bj_id r"
  by (simp add: same_target_def)

lemma job_row_ok_mono: "job_row_ok s r \<Longrightarrow> drawn_ids s \<subseteq> drawn_ids s' \<Longrightarrow> job_row_ok s' r"
  by (auto simp: job_row_ok_def)

lemma jobs_same:
  assumes "jobs_inv s" "background_jobs s' = background_jobs s" "rng s' = rng s" "drawn s \<le> drawn s'"
  shows "jobs_inv s' \<and> jobs_evolve s s'"
  using assms drawn_ids_mono[OF assms(3,4)] job_row_ok_mono
  by (fastforce simp: jobs_inv_def jobs_evolve_def fresh_supply_def)

text \<open>Writing one moved row back.\<close>

lemma put_job_sound:
  assumes "jobs_inv s" "row bj_id i (background_jobs s) = Some r" "job_step r r'"
    "background_job_state_check r'" "\<forall>t. bj_dispatch_token r' = Some t \<longrightarrow> t \<in> drawn_ids s'"
    "background_jobs s' = put_row bj_id r' (background_jobs s)" "rng s' = rng s" "drawn s \<le> drawn s'"
  shows "jobs_inv s' \<and> jobs_evolve s s'"
proof -
  have id: "bj_id r = i" "r \<in> set (background_jobs s)" using row_SomeD[OF assms(2)] by auto
  have tgt: "same_target r r'" using assms(3) by (simp add: job_step_def)
  then have id': "bj_id r' = i" using id(1) same_target_id by simp
  have sub: "drawn_ids s \<subseteq> drawn_ids s'" using assms(7,8) by (rule drawn_ids_mono)
  have ok: "job_row_ok s' r'"
    using jobs_invD(4)[OF assms(1) id(2)] tgt assms(4,5) sub job_step_attempted[OF assms(3)]
    by (auto simp: job_row_ok_def same_target_def background_job_target_check_def)
  have keys: "map (\<lambda>r. (bj_job_type r, bj_media_asset_id r)) (put_row bj_id r' (background_jobs s))
      = map (\<lambda>r. (bj_job_type r, bj_media_asset_id r)) (background_jobs s)"
  proof -
    have "(bj_job_type x, bj_media_asset_id x) = (bj_job_type r', bj_media_asset_id r')"
      if "x \<in> set (background_jobs s)" "bj_id x = bj_id r'" for x
      using row_of_mem[OF jobs_invD(2)[OF assms(1)] that(1)] that(2) id' assms(2) tgt
      by (auto simp: same_target_def)
    then show ?thesis by (auto simp: put_row_def)
  qed
  have rows: "job_row_ok s' x" if "x \<in> set (background_jobs s')" for x
    using that unfolding assms(6)
    by (rule put_rowE) (use ok job_row_ok_mono[OF jobs_invD(4)[OF assms(1)] sub] in auto)
  have "jobs_inv s'"
    using jobs_invD[OF assms(1)] keys rows assms(6,7) by (simp add: jobs_inv_def fresh_supply_def)
  moreover have "jobs_evolve s s'"
    using assms(2,3,6) id' by (auto simp: jobs_evolve_def row_put_row)
  ultimately show ?thesis by simp
qed

text \<open>Adding a new job.\<close>

lemma insert_job_sound:
  assumes "jobs_inv s" "insert_background_job r s1 = Inr s'" "s1 = s\<lparr>drawn := Suc (drawn s)\<rparr>"
    "bj_id r = rng s (drawn s)" "trace_text (bj_trace_id r)" "bj_dispatch_token r = None"
    "bj_status r = PENDING"
  shows "jobs_inv s' \<and> jobs_evolve s s'"
proof -
  have s': "s' = s1\<lparr>background_jobs := background_jobs s1 @ [r]\<rparr>"
    "job_for (bj_job_type r) (bj_media_asset_id r) s1 = None"
    "background_job_target_check r" "background_job_state_check r"
    using assms(2) by (auto simp: insert_background_job_def split: if_splits)
  have new: "bj_id r \<notin> drawn_ids s" using assms(4) uuid4_fresh jobs_invD(1)[OF assms(1)] by simp
  have sub: "drawn_ids s \<subseteq> drawn_ids s'" by (rule drawn_ids_mono) (simp_all add: s' assms(3))
  have old: "job_row_ok s' x \<and> bj_id x \<noteq> bj_id r" if "x \<in> set (background_jobs s)" for x
    using jobs_invD(4)[OF assms(1) that] job_row_ok_mono[OF _ sub] new by (auto simp: job_row_ok_def)
  have key: "(bj_job_type r, bj_media_asset_id r) \<notin>
      (\<lambda>r. (bj_job_type r, bj_media_asset_id r)) ` set (background_jobs s)"
    using s'(2) by (auto simp: job_for_def find_None_iff assms(3))
  have idn: "bj_id r \<notin> bj_id ` set (background_jobs s)" using old by (metis imageE)
  have "job_row_ok s' r"
    using s' assms by (auto simp: job_row_ok_def drawn_ids_def)
  then have rows: "\<forall>x \<in> set (background_jobs s'). job_row_ok s' x"
    using old by (auto simp: s' assms(3))
  have "jobs_inv s'"
    using jobs_invD[OF assms(1)] key idn rows by (simp add: jobs_inv_def fresh_supply_def s' assms(3))
  moreover have "jobs_evolve s s'" by (auto simp: jobs_evolve_def s' assms(3))
  ultimately show ?thesis by simp
qed

section \<open>Every operation respects both\<close>

lemma create_deletion_sound:
  assumes "jobs_inv s" "trace_text trace"
    "create_media_deletion_background_job a job p trace sched now s = Inr (resp, s')"
  shows "jobs_inv s' \<and> jobs_evolve s s'"
proof -
  let ?s1 = "s\<lparr>drawn := Suc (drawn s)\<rparr>"
  have same: "jobs_inv ?s1 \<and> jobs_evolve s ?s1" using assms(1) by (rule jobs_same) simp_all
  show ?thesis
    using assms(3) same insert_job_sound[OF assms(1)] assms(2)
    by (auto simp: create_media_deletion_background_job_def uuid4_def Let_def new_background_job_def
        split: sum.splits option.splits)
qed

lemma create_retention_sound:
  assumes "jobs_inv s" "trace_text trace"
    "create_retention_background_job job asset p cutoff trace sched now s = Inr (resp, s')"
  shows "jobs_inv s' \<and> jobs_evolve s s'"
  using assms(3) create_deletion_sound[OF assms(1,2)] jobs_same[OF assms(1)]
  by (auto simp: create_retention_background_job_def split: option.splits prod.splits if_splits)

lemma create_validation_sound:
  assumes "jobs_inv s" "trace_text trace"
    "create_media_validation_background_job job asset p trace sched now s = Inr (resp, s')"
  shows "jobs_inv s' \<and> jobs_evolve s s'"
  using assms(3) insert_job_sound[OF assms(1)] assms(2) jobs_same[OF assms(1)]
  by (auto simp: create_media_validation_background_job_def uuid4_def Let_def bindR_Inr
      new_background_job_def split: option.splits if_splits)

lemma job_state_check_iff:
  "background_job_state_check r \<longleftrightarrow>
     0 \<le> bj_attempt_count r \<and> bj_last_error_code r \<noteq> Some [] \<and>
     (bj_attempt_count r = 0 \<longleftrightarrow> bj_last_attempt_at r = None) \<and>
     (bj_dispatch_token r \<noteq> None \<longleftrightarrow> bj_status r = DISPATCHING) \<and>
     (bj_dispatch_locked_until r \<noteq> None \<longleftrightarrow> bj_status r = DISPATCHING) \<and>
     (bj_status r = FAILED \<longleftrightarrow> bj_last_error_code r \<noteq> None) \<and>
     (bj_status r = SUCCEEDED \<or> bj_status r = FAILED \<longleftrightarrow> bj_completed_at r \<noteq> None) \<and>
     (bj_status r = RUNNING \<longleftrightarrow> bj_execution_deadline_at r \<noteq> None)"
  by (auto simp: background_job_state_check_def)

lemma job_row_state:
  "jobs_inv s \<Longrightarrow> row bj_id i (background_jobs s) = Some r \<Longrightarrow> background_job_state_check r"
  using jobs_invD(4)[OF _ row_mem] by (auto simp: job_row_ok_def)

lemmas job_updates = put_job_def put_asset_def

lemma reopened_sound:
  assumes "background_job_state_check r" "bj_status r \<in> {FAILED, RUNNING}"
  shows "job_step r (reopened_job now r) \<and> background_job_state_check (reopened_job now r) \<and>
    bj_dispatch_token (reopened_job now r) = None"
  using assms by (auto simp: reopened_job_def job_step_def same_target_def job_state_check_iff)

lemma retry_sound:
  assumes "jobs_inv s" "retry_background_job job i now s = Inr (resp, s')"
  shows "jobs_inv s' \<and> jobs_evolve s s'"
proof -
  obtain r s1 where r: "find (\<lambda>r. bj_id r = i \<and> bj_move_job_id r = job) (background_jobs s) = Some r"
    and st: "bj_status r \<in> {FAILED, RUNNING}" and s': "s' = put_job (reopened_job now r) s1"
    and s1: "s1 = s \<or> (\<exists>a. s1 = put_asset a s)"
    using assms(2) by (auto simp: retry_background_job_def execution_expired_def bindR_Inr
        split: option.splits if_splits)
  have mem: "r \<in> set (background_jobs s)" using r by (metis find_Some_iff nth_mem)
  have row: "row bj_id (bj_id r) (background_jobs s) = Some r"
    using row_of_mem[OF jobs_invD(2)[OF assms(1)] mem] .
  have "background_job_state_check r" using job_row_state[OF assms(1) row] .
  then show ?thesis
    using put_job_sound[OF assms(1) row, of "reopened_job now r" s'] reopened_sound[OF _ st] s1
    by (auto simp: s' job_updates)
qed

subsection \<open>Claiming\<close>

lemma lease_job_fields [simp]:
  "bj_id (lease_job now u t r) = bj_id r" "bj_status (lease_job now u t r) = DISPATCHING"
  "bj_dispatch_token (lease_job now u t r) = Some t"
  "bj_dispatch_locked_until (lease_job now u t r) = Some u"
  "bj_attempt_count (lease_job now u t r) =
     (if bj_status r = PENDING then bj_attempt_count r + 1 else bj_attempt_count r)"
  "bj_trace_id (lease_job now u t r) = bj_trace_id r"
  by (simp_all add: lease_job_def Let_def)

lemma lease_job_sound:
  assumes "background_job_state_check r" "bj_status r \<in> {PENDING, DISPATCHING}"
  shows "job_step r (lease_job now u t r)" "background_job_state_check (lease_job now u t r)"
  using assms by (auto simp: lease_job_def Let_def job_step_def same_target_def job_state_check_iff)

lemma leased_task_ok:
  assumes "background_job_state_check r" "bj_status r \<in> {PENDING, DISPATCHING}" "trace_text (bj_trace_id r)"
    "bj_status r = DISPATCHING \<longrightarrow> 1 \<le> bj_attempt_count r"
  shows "mk_media_task (task_of_job (lease_job now u t r)) = Inr (task_of_job (lease_job now u t r))"
  using assms by (auto simp: mk_media_task_def task_of_job_def Let_def job_state_check_iff)

definition due_jobs :: "instant \<Rightarrow> int \<Rightarrow> db \<Rightarrow> BackgroundJob list" where
  "due_jobs now limit s =
     select_by (\<lambda>r. (bj_scheduled_at r, bj_id r)) (nat limit) (job_due now) (background_jobs s)"

lemma due_jobsD:
  assumes "r \<in> set (due_jobs now l s)"
  shows "r \<in> set (background_jobs s)" "job_due now r" "bj_status r \<in> {PENDING, DISPATCHING}"
  using select_by_mem[OF assms[unfolded due_jobs_def]] by (auto simp: job_due_def)

text \<open>The state of a claim over a list of rows, as a table update.\<close>

definition leased_jobs :: "instant \<Rightarrow> instant \<Rightarrow> BackgroundJob list \<Rightarrow> db \<Rightarrow> db" where
  "leased_jobs now u rs s = s\<lparr>drawn := drawn s + length rs,
     background_jobs := stamp_rows bj_id (lease_job now u) (rng s) (drawn s) rs (background_jobs s)\<rparr>"

definition claims_of :: "instant \<Rightarrow> instant \<Rightarrow> BackgroundJob list \<Rightarrow> db \<Rightarrow> ClaimedBackgroundJob list" where
  "claims_of now u rs s = map (\<lambda>k. \<lparr>cj_task = task_of_job (lease_job now u (rng s (drawn s + k)) (rs ! k)),
     cj_dispatch_token = rng s (drawn s + k)\<rparr>) [0..<length rs]"

lemma claims_of_Cons:
  "claims_of now u (r # rs) s = \<lparr>cj_task = task_of_job (lease_job now u (rng s (drawn s)) r),
     cj_dispatch_token = rng s (drawn s)\<rparr> #
     claims_of now u rs (put_job (lease_job now u (rng s (drawn s)) r) (s\<lparr>drawn := Suc (drawn s)\<rparr>))"
  by (simp add: claims_of_def map_upt_Suc put_job_def del: upt_Suc)

lemma lease_job_rows_eq:
  assumes "\<forall>r \<in> set rs. \<forall>t. mk_media_task (task_of_job (lease_job now u t r)) =
      Inr (task_of_job (lease_job now u t r))"
  shows "lease_job_rows now u rs s = Inr (claims_of now u rs s, leased_jobs now u rs s)"
  using assms
proof (induction rs arbitrary: s)
  case Nil
  then show ?case by (simp add: claims_of_def leased_jobs_def)
next
  case (Cons r rs)
  then show ?case
    by (simp add: uuid4_def Let_def claims_of_Cons) (simp add: leased_jobs_def put_job_def)
qed

lemma due_jobs_task:
  assumes "jobs_inv s" "r \<in> set (due_jobs now l s)"
  shows "mk_media_task (task_of_job (lease_job now' u t r)) = Inr (task_of_job (lease_job now' u t r))"
proof (rule leased_task_ok)
  have r: "r \<in> set (background_jobs s)" using due_jobsD[OF assms(2)] by auto
  show "background_job_state_check r" "trace_text (bj_trace_id r)"
    "bj_status r = DISPATCHING \<longrightarrow> 1 \<le> bj_attempt_count r"
    using jobs_invD(4)[OF assms(1) r] by (auto simp: job_row_ok_def)
qed (use due_jobsD[OF assms(2)] in auto)

lemma claim_jobs_eq:
  assumes "jobs_inv s" "valid_claim l z"
  shows "claim_background_jobs now l z s = Inr (claims_of now (now + seconds z) (due_jobs now l s) s,
     leased_jobs now (now + seconds z) (due_jobs now l s) s)"
proof -
  have "claim_background_jobs now l z s = lease_job_rows now (now + seconds z) (due_jobs now l s) s"
    using assms(2) by (simp add: claim_background_jobs_def due_jobs_def valid_claim_def)
  also have "\<dots> = Inr (claims_of now (now + seconds z) (due_jobs now l s) s,
     leased_jobs now (now + seconds z) (due_jobs now l s) s)"
    using due_jobs_task[OF assms(1)] by (intro lease_job_rows_eq) blast
  finally show ?thesis .
qed

lemma claim_jobs_invalid: "\<not> valid_claim l z \<Longrightarrow> claim_background_jobs now l z s = Inl ValueError"
  by (auto simp: claim_background_jobs_def valid_claim_def)

lemma due_jobs_distinct: "jobs_inv s \<Longrightarrow> distinct (map bj_id (due_jobs now l s))"
  unfolding due_jobs_def by (rule select_by_distinct) (simp add: jobs_inv_def)

text \<open>What a claimed row looks like afterwards, and that the others are as before.\<close>

lemma leased_jobs_row:
  assumes "jobs_inv s" "k < length (due_jobs now l s)"
  shows "row bj_id (bj_id (due_jobs now l s ! k)) (background_jobs (leased_jobs now u (due_jobs now l s) s))
    = Some (lease_job now u (rng s (drawn s + k)) (due_jobs now l s ! k))"
proof -
  have "row bj_id (bj_id r) (background_jobs s) \<noteq> None" if "r \<in> set (due_jobs now l s)" for r
    using row_of_mem[OF jobs_invD(2)[OF assms(1)] due_jobsD(1)[OF that]] by simp
  then show ?thesis
    using stamp_rows_nth[of bj_id "lease_job now u", OF _ due_jobs_distinct[OF assms(1)] _ assms(2)]
    by (simp add: leased_jobs_def)
qed

lemma leased_jobs_other:
  "i \<notin> bj_id ` set rs \<Longrightarrow> row bj_id i (background_jobs (leased_jobs now u rs s)) = row bj_id i (background_jobs s)"
  by (simp add: leased_jobs_def stamp_rows_other)

lemma leased_jobs_sound:
  assumes "jobs_inv s"
  shows "jobs_inv (leased_jobs now u (due_jobs now l s) s) \<and> jobs_evolve s (leased_jobs now u (due_jobs now l s) s)"
proof -
  let ?rs = "due_jobs now l s"
  let ?s' = "leased_jobs now u ?rs s"
  have sub: "drawn_ids s \<subseteq> drawn_ids ?s'" by (rule drawn_ids_mono) (simp_all add: leased_jobs_def)
  have stamped: "job_row_ok ?s' (lease_job now u (rng s (drawn s + k)) (?rs ! k)) \<and>
      job_step (?rs ! k) (lease_job now u (rng s (drawn s + k)) (?rs ! k)) \<and> ?rs ! k \<in> set (background_jobs s)"
    if "k < length ?rs" for k
  proof -
    have mem: "?rs ! k \<in> set (background_jobs s)" "bj_status (?rs ! k) \<in> {PENDING, DISPATCHING}"
      using due_jobsD[OF nth_mem[OF that]] by auto
    have ok: "job_row_ok s (?rs ! k)" using jobs_invD(4)[OF assms mem(1)] .
    have st: "background_job_state_check (?rs ! k)" using ok by (simp add: job_row_ok_def)
    note step = lease_job_sound[OF st mem(2), of now u "rng s (drawn s + k)"]
    have tok: "rng s (drawn s + k) \<in> drawn_ids ?s'" using that by (auto simp: drawn_ids_def leased_jobs_def)
    show ?thesis using ok step tok sub mem(1) job_step_attempted[OF step(1) st]
      by (auto simp: job_row_ok_def job_step_def same_target_def background_job_target_check_def)
  qed
  have rows: "job_row_ok ?s' x" if x: "x \<in> set (background_jobs ?s')" for x
    using stamp_rows_mem[OF x[unfolded leased_jobs_def, simplified]] stamped job_row_ok_mono[OF jobs_invD(4)[OF assms] sub]
    by auto
  have ids: "map bj_id (background_jobs ?s') = map bj_id (background_jobs s)"
    by (simp add: leased_jobs_def stamp_rows_keys)
  have evolve: "jobs_evolve s ?s'" unfolding jobs_evolve_def
  proof (intro allI impI)
    fix i r assume r: "row bj_id i (background_jobs s) = Some r"
    show "\<exists>r'. row bj_id i (background_jobs ?s') = Some r' \<and> job_step r r'"
    proof (cases "i \<in> bj_id ` set ?rs")
      case True
      then obtain k where k: "k < length ?rs" "bj_id (?rs ! k) = i" by (auto simp: in_set_conv_nth)
      then have "?rs ! k = r"
        using row_of_mem[OF jobs_invD(2)[OF assms], of "?rs ! k"] stamped r by simp
      then show ?thesis using leased_jobs_row[OF assms k(1), of u] stamped[OF k(1)] k(2) by auto
    next
      case False
      then show ?thesis using leased_jobs_other[of i ?rs now u s] r by simp
    qed
  qed
  have "distinct (map (\<lambda>r. (bj_job_type r, bj_media_asset_id r)) (background_jobs ?s'))"
  proof -
    have "map (\<lambda>r. (bj_job_type r, bj_media_asset_id r)) (background_jobs ?s') =
        map (\<lambda>r. (bj_job_type r, bj_media_asset_id r)) (background_jobs s)"
    proof (rule nth_equalityI)
      show "length (map (\<lambda>r. (bj_job_type r, bj_media_asset_id r)) (background_jobs ?s')) =
        length (map (\<lambda>r. (bj_job_type r, bj_media_asset_id r)) (background_jobs s))"
        using ids by (metis length_map)
      fix n assume "n < length (map (\<lambda>r. (bj_job_type r, bj_media_asset_id r)) (background_jobs ?s'))"
      then have n: "n < length (background_jobs ?s')" "n < length (background_jobs s)" using ids
        by (metis length_map)+
      let ?x = "background_jobs s ! n" and ?y = "background_jobs ?s' ! n"
      have eq: "bj_id ?y = bj_id ?x" using ids n by (metis nth_map)
      have "row bj_id (bj_id ?x) (background_jobs s) = Some ?x"
        using row_of_mem[OF jobs_invD(2)[OF assms] nth_mem[OF n(2)]] .
      moreover have "row bj_id (bj_id ?y) (background_jobs ?s') = Some ?y"
        using row_of_mem[OF _ nth_mem[OF n(1)], of bj_id] jobs_invD(2)[OF assms] ids by simp
      ultimately have "job_step ?x ?y" using evolve eq by (fastforce simp: jobs_evolve_def)
      then show "map (\<lambda>r. (bj_job_type r, bj_media_asset_id r)) (background_jobs ?s') ! n =
          map (\<lambda>r. (bj_job_type r, bj_media_asset_id r)) (background_jobs s) ! n"
        using n by (simp add: job_step_def same_target_def)
    qed
    then show ?thesis using jobs_invD(3)[OF assms] by simp
  qed
  then have "jobs_inv ?s'"
    using jobs_invD[OF assms] rows ids by (simp add: jobs_inv_def fresh_supply_def) (simp add: leased_jobs_def)
  then show ?thesis using evolve by simp
qed

lemma claim_jobs_sound:
  assumes "jobs_inv s" "claim_background_jobs now l z s = Inr (cs, s')"
  shows "jobs_inv s' \<and> jobs_evolve s s'"
proof -
  have "valid_claim l z" using assms(2) claim_jobs_invalid[of l z now s] by fastforce
  then show ?thesis using claim_jobs_eq[OF assms(1)] assms(2) leased_jobs_sound[OF assms(1)] by auto
qed

subsection \<open>Settling a dispatch\<close>

definition queued_job :: "string option \<Rightarrow> BackgroundJob \<Rightarrow> BackgroundJob" where
  "queued_job task_id r = r\<lparr>bj_dispatch_token := None, bj_dispatch_locked_until := None,
     bj_status := QUEUED, bj_provider_task_id := task_id\<rparr>"

definition failed_dispatch :: "string \<Rightarrow> instant \<Rightarrow> BackgroundJob \<Rightarrow> BackgroundJob" where
  "failed_dispatch code tm r = r\<lparr>bj_dispatch_token := None, bj_dispatch_locked_until := None,
     bj_status := FAILED, bj_last_error_code := Some code, bj_completed_at := Some tm\<rparr>"

definition settled_dispatch :: "port_error + string \<Rightarrow> instant \<Rightarrow> BackgroundJob \<Rightarrow> BackgroundJob" where
  "settled_dispatch outcome tm r = (case outcome of Inl e \<Rightarrow> failed_dispatch (port_error_code e) tm r
     | Inr task_id \<Rightarrow> queued_job (Some task_id) r)"

definition dispatch_lease :: "uuid \<Rightarrow> uuid \<Rightarrow> db \<Rightarrow> BackgroundJob option" where
  "dispatch_lease i t s = (case row bj_id i (background_jobs s) of None \<Rightarrow> None
     | Some r \<Rightarrow> if bj_status r = DISPATCHING \<and> bj_dispatch_token r = Some t then Some r else None)"

lemma settle_job_dispatch_eq:
  "settle_job_dispatch c outcome tm s =
    (case dispatch_lease (tk_background_job_id (cj_task c)) (cj_dispatch_token c) s of
       Some r \<Rightarrow> Inr (True, put_job (settled_dispatch outcome tm r) s)
     | None \<Rightarrow> (case row bj_id (tk_background_job_id (cj_task c)) (background_jobs s) of
         None \<Rightarrow> Inr (False, s)
       | Some r \<Rightarrow> (case outcome of Inl _ \<Rightarrow> Inr (False, s)
           | Inr task_id \<Rightarrow> if already_accepted c (Some task_id) r
               then Inr (True, put_job (r\<lparr>bj_provider_task_id := Some task_id\<rparr>) s)
               else Inr (False, s))))"
  by (auto simp: settle_job_dispatch_def finalize_background_job_dispatch_def dispatch_lease_def Let_def
      settled_dispatch_def failed_dispatch_def queued_job_def already_accepted_def
      split: option.splits sum.splits)

lemma settled_dispatch_sound:
  assumes "background_job_state_check r" "bj_status r = DISPATCHING"
  shows "job_step r (settled_dispatch outcome tm r)" "background_job_state_check (settled_dispatch outcome tm r)"
    "bj_dispatch_token (settled_dispatch outcome tm r) = None"
  using assms by (auto simp: settled_dispatch_def failed_dispatch_def queued_job_def job_step_def
      same_target_def job_state_check_iff split: sum.splits)

lemma settle_dispatch_sound:
  assumes "jobs_inv s" "settle_job_dispatch c outcome tm s = Inr (b, s')"
  shows "jobs_inv s' \<and> jobs_evolve s s'"
proof (cases "dispatch_lease (tk_background_job_id (cj_task c)) (cj_dispatch_token c) s")
  case (Some r)
  then have r: "row bj_id (tk_background_job_id (cj_task c)) (background_jobs s) = Some r"
    "bj_status r = DISPATCHING"
    by (auto simp: dispatch_lease_def split: option.splits if_splits)
  then show ?thesis
    using put_job_sound[OF assms(1) r(1), of "settled_dispatch outcome tm r" s']
      settled_dispatch_sound[OF job_row_state[OF assms(1) r(1)] r(2)] assms(2) Some
    by (auto simp: settle_job_dispatch_eq put_job_def)
next
  case None
  then consider (same) "s' = s" | (accepted) r task_id where
      "row bj_id (tk_background_job_id (cj_task c)) (background_jobs s) = Some r"
      "s' = put_job (r\<lparr>bj_provider_task_id := Some task_id\<rparr>) s"
    using assms(2) by (auto simp: settle_job_dispatch_eq split: option.splits sum.splits if_splits)
  then show ?thesis
  proof cases
    case same
    then show ?thesis using jobs_same[OF assms(1)] by simp
  next
    case accepted
    have st: "background_job_state_check r" using job_row_state[OF assms(1) accepted(1)] .
    have mem: "job_row_ok s r" using jobs_invD(4)[OF assms(1) row_mem[OF accepted(1)]] .
    have step: "job_step r (r\<lparr>bj_provider_task_id := Some task_id\<rparr>)"
      by (cases "bj_status r") (simp_all add: job_step_def same_target_def)
    then show ?thesis
      using put_job_sound[OF assms(1) accepted(1) step, of s'] st mem accepted(2)
      by (auto simp: put_job_def job_state_check_iff job_row_ok_def drawn_ids_def)
  qed
qed

lemma finalize_cases:
  assumes "finalize_background_job_dispatch c task_id code tm s = Inr (b, s')"
  obtains (same) "s' = s"
    | (accepted) r where "row bj_id (tk_background_job_id (cj_task c)) (background_jobs s) = Some r"
        "s' = put_job (r\<lparr>bj_provider_task_id := task_id\<rparr>) s"
    | (queued) r where "row bj_id (tk_background_job_id (cj_task c)) (background_jobs s) = Some r"
        "bj_status r = DISPATCHING" "s' = put_job (queued_job task_id r) s"
    | (failed) r e where "row bj_id (tk_background_job_id (cj_task c)) (background_jobs s) = Some r"
        "bj_status r = DISPATCHING" "s' = put_job (failed_dispatch e tm r) s" "code = Some e"
  using assms by (auto simp: finalize_background_job_dispatch_def queued_job_def failed_dispatch_def
        Let_def split: option.splits if_splits)

lemma finalize_sound:
  assumes "jobs_inv s" "finalize_background_job_dispatch c task_id code tm s = Inr (b, s')"
    "code \<noteq> Some []"
  shows "jobs_inv s' \<and> jobs_evolve s s'"
  using assms(2)
proof (cases rule: finalize_cases)
  case same
  then show ?thesis using jobs_same[OF assms(1)] by simp
next
  case (accepted r)
  have ok: "job_row_ok s r" using jobs_invD(4)[OF assms(1) row_mem[OF accepted(1)]] .
  have step: "job_step r (r\<lparr>bj_provider_task_id := task_id\<rparr>)"
    by (cases "bj_status r") (simp_all add: job_step_def same_target_def)
  then show ?thesis
    using put_job_sound[OF assms(1) accepted(1) step, of s'] ok accepted(2)
    by (auto simp: put_job_def job_state_check_iff job_row_ok_def drawn_ids_def)
next
  case (queued r)
  have st: "background_job_state_check r" using job_row_state[OF assms(1) queued(1)] .
  then show ?thesis
    using put_job_sound[OF assms(1) queued(1), of "queued_job task_id r" s'] queued
    by (auto simp: put_job_def queued_job_def job_step_def same_target_def job_state_check_iff)
next
  case (failed r e)
  have st: "background_job_state_check r" using job_row_state[OF assms(1) failed(1)] .
  then show ?thesis
    using put_job_sound[OF assms(1) failed(1), of "failed_dispatch e tm r" s'] failed assms(3)
    by (auto simp: put_job_def failed_dispatch_def job_step_def same_target_def job_state_check_iff)
qed

subsection \<open>Execution\<close>

lemma running_job_sound:
  assumes "background_job_state_check r" "bj_status r \<in> {DISPATCHING, QUEUED}"
  shows "job_step r (running_job d r) \<and> background_job_state_check (running_job d r) \<and>
    bj_dispatch_token (running_job d r) = None"
  using assms by (auto simp: running_job_def job_step_def same_target_def job_state_check_iff)

definition finished_job :: "BackgroundJobStatus \<Rightarrow> string option \<Rightarrow> instant \<Rightarrow> BackgroundJob \<Rightarrow> BackgroundJob" where
  "finished_job st code tm r = r\<lparr>bj_completed_at := Some tm, bj_execution_deadline_at := None,
     bj_status := st, bj_last_error_code := code\<rparr>"

lemma finished_job_sound:
  assumes "background_job_state_check r" "bj_status r = RUNNING"
    "(st = SUCCEEDED \<and> code = None) \<or> (st = FAILED \<and> code \<noteq> None \<and> code \<noteq> Some [])"
  shows "job_step r (finished_job st code tm r) \<and> background_job_state_check (finished_job st code tm r) \<and>
    bj_dispatch_token (finished_job st code tm r) = None"
  using assms by (auto simp: finished_job_def job_step_def same_target_def job_state_check_iff)

lemma kind_value_nonempty [simp]: "kind_value k \<noteq> []"
  by (cases k) simp_all

lemma job_and_asset_row:
  "job_and_asset i s = Some (r, a) \<Longrightarrow> row bj_id i (background_jobs s) = Some r \<and>
     row ma_id (bj_media_asset_id r) (media_assets s) = Some a"
  by (auto simp: job_and_asset_def split: option.splits)

lemma running_no_error: "background_job_state_check r \<Longrightarrow> bj_status r = RUNNING \<Longrightarrow> bj_last_error_code r = None"
  by (auto simp: job_state_check_iff)

text \<open>What each execution command does to the job it names.\<close>

lemma start_validation_cases:
  assumes "start_media_validation task now z s = Inr (w, s')"
  obtains (same) "s' = s" "w = None \<or> (\<exists>r a v. job_and_asset (tk_background_job_id task) s = Some (r, a) \<and>
        bj_status r = RUNNING \<and> ma_status a = PROCESSING \<and> validation_work r = Inr v \<and> w = Some v)"
  | (started) r a v where "job_and_asset (tk_background_job_id task) s = Some (r, a)"
      "bj_job_type r = MEDIA_VALIDATION" "bj_attempt_count r = tk_attempt_count task"
      "bj_status r \<in> {DISPATCHING, QUEUED}" "asset_matches_target a r"
      "ma_status a \<in> {UPLOADED, MEDIA_FAILED}"
      "validation_work (running_job (now + seconds z) r) = Inr v" "w = Some v"
      "s' = put_asset (a\<lparr>ma_status := PROCESSING, ma_sha256_hex := None\<rparr>)
              (put_job (running_job (now + seconds z) r) s)"
  using assms that
  by (auto simp: start_media_validation_def Let_def bindR_Inr split: option.splits prod.splits if_splits)

lemma start_validation_sound:
  assumes "jobs_inv s" "start_media_validation task now z s = Inr (w, s')"
  shows "jobs_inv s' \<and> jobs_evolve s s'"
  using assms(2)
proof (cases rule: start_validation_cases)
  case same
  then show ?thesis using jobs_same[OF assms(1)] by simp
next
  case (started r a v)
  have row: "row bj_id (tk_background_job_id task) (background_jobs s) = Some r"
    using job_and_asset_row started(1) by blast
  show ?thesis
    using put_job_sound[OF assms(1) row, of "running_job (now + seconds z) r" s'] started(9)
      running_job_sound[OF job_row_state[OF assms(1) row] started(4), of "now + seconds z"]
    by (simp add: job_updates)
qed

lemma complete_validation_cases:
  assumes "complete_media_validation res tm s = Inr (resp, s')"
  obtains (replay) r a where "job_and_asset (vr_background_job_id res) s = Some (r, a)"
      "bj_status r \<in> {SUCCEEDED, FAILED}" "same_validation_result r a res" "s' = s" "resp = job_response r"
      "bj_attempt_count r = vr_attempt_count res"
  | (failed) r a k where "job_and_asset (vr_background_job_id res) s = Some (r, a)"
      "bj_job_type r = MEDIA_VALIDATION" "bj_attempt_count r = vr_attempt_count res"
      "bj_status r = RUNNING" "ma_status a = PROCESSING" "asset_matches_target a r"
      "vr_outcome res = OUTCOME_FAILED" "vr_error_kind res = Some k"
      "resp = job_response (finished_job FAILED (Some (kind_value k)) tm r)"
      "s' = put_asset (a\<lparr>ma_status := MEDIA_FAILED, ma_sha256_hex := None\<rparr>)
              (put_job (finished_job FAILED (Some (kind_value k)) tm r) s)"
  | (succeeded) r a where "job_and_asset (vr_background_job_id res) s = Some (r, a)"
      "bj_job_type r = MEDIA_VALIDATION" "bj_attempt_count r = vr_attempt_count res"
      "bj_status r = RUNNING" "ma_status a = PROCESSING" "asset_matches_target a r"
      "bj_target_generation r = vr_source_generation res"
      "vr_outcome res = OUTCOME_SUCCEEDED" "vr_observed_content_type res = bj_target_content_type r"
      "vr_observed_size_bytes res = bj_target_size_bytes r" "vr_sha256_hex res \<noteq> None"
      "resp = job_response (finished_job SUCCEEDED (bj_last_error_code r) tm r)"
      "s' = put_asset (a\<lparr>ma_status := READY, ma_generation := Some (vr_source_generation res),
              ma_actual_size_bytes := vr_observed_size_bytes res, ma_sha256_hex := vr_sha256_hex res\<rparr>)
              (put_job (finished_job SUCCEEDED (bj_last_error_code r) tm r) s)"
proof -
  obtain r a where ra: "job_and_asset (vr_background_job_id res) s = Some (r, a)"
    using assms by (auto simp: complete_media_validation_def split: option.splits)
  have fin: "r\<lparr>bj_completed_at := Some tm, bj_execution_deadline_at := None, bj_status := SUCCEEDED\<rparr>
      = finished_job SUCCEEDED (bj_last_error_code r) tm r" by (simp add: finished_job_def)
  have base: "bj_job_type r = MEDIA_VALIDATION" "bj_attempt_count r = vr_attempt_count res"
    "bj_target_generation r = vr_source_generation res" "asset_matches_target a r"
    using assms ra by (simp_all add: complete_media_validation_def split: if_splits)
  show thesis
  proof (cases "bj_status r \<in> {SUCCEEDED, FAILED}")
    case True
    then have "same_validation_result r a res" "s' = s" "resp = job_response r"
      using assms ra by (auto simp: complete_media_validation_def split: if_splits)
    then show ?thesis using replay ra True base(2) by blast
  next
    case False
    have run: "bj_status r = RUNNING" "ma_status a = PROCESSING"
      using assms ra False by (auto simp: complete_media_validation_def split: if_splits)
    show ?thesis
    proof (cases "vr_outcome res")
      case OUTCOME_FAILED
      obtain k where k: "vr_error_kind res = Some k"
        using assms ra run OUTCOME_FAILED base
        by (auto simp: complete_media_validation_def Let_def split: option.splits)
      show ?thesis
        by (rule failed[OF ra base(1,2) run base(4) OUTCOME_FAILED k])
          (use assms ra run OUTCOME_FAILED base k in
            \<open>simp_all add: complete_media_validation_def Let_def finished_job_def\<close>)
    next
      case OUTCOME_SUCCEEDED
      have obs: "vr_observed_content_type res = bj_target_content_type r"
        "vr_observed_size_bytes res = bj_target_size_bytes r" "vr_sha256_hex res \<noteq> None"
        using assms ra run OUTCOME_SUCCEEDED base
        by (simp_all add: complete_media_validation_def Let_def split: if_splits)
      show ?thesis
        by (rule succeeded[OF ra base(1,2) run base(4,3) OUTCOME_SUCCEEDED obs])
          (use assms ra run OUTCOME_SUCCEEDED base obs in
            \<open>simp_all add: complete_media_validation_def Let_def finished_job_def\<close>)
    qed
  qed
qed

lemma complete_validation_sound:
  assumes "jobs_inv s" "complete_media_validation res tm s = Inr (resp, s')"
  shows "jobs_inv s' \<and> jobs_evolve s s'"
  using assms(2)
proof (cases rule: complete_validation_cases)
  case (replay r a)
  then show ?thesis using jobs_same[OF assms(1)] by simp
next
  case (failed r a k)
  have row: "row bj_id (vr_background_job_id res) (background_jobs s) = Some r"
    using job_and_asset_row failed(1) by blast
  show ?thesis
    using put_job_sound[OF assms(1) row, of "finished_job FAILED (Some (kind_value k)) tm r" s'] failed(10)
      finished_job_sound[OF job_row_state[OF assms(1) row] failed(4), of FAILED "Some (kind_value k)" tm]
    by (simp add: job_updates)
next
  case (succeeded r a)
  have row: "row bj_id (vr_background_job_id res) (background_jobs s) = Some r"
    using job_and_asset_row succeeded(1) by blast
  have none: "bj_last_error_code r = None"
    using running_no_error[OF job_row_state[OF assms(1) row] succeeded(4)] .
  show ?thesis
    using put_job_sound[OF assms(1) row, of "finished_job SUCCEEDED None tm r" s'] succeeded(13) none
      finished_job_sound[OF job_row_state[OF assms(1) row] succeeded(4), of SUCCEEDED None tm]
    by (simp add: job_updates)
qed

lemma start_deletion_cases:
  assumes "start_media_deletion task now z s = Inr (w, s')"
  obtains (same) "s' = s"
  | (started) r v where "row bj_id (tk_background_job_id task) (background_jobs s) = Some r"
      "bj_job_type r = MEDIA_RETENTION_DELETE" "bj_attempt_count r = tk_attempt_count task"
      "bj_status r \<in> {DISPATCHING, QUEUED}"
      "deletion_work (running_job (now + seconds z) r) = Inr v" "w = Some v"
      "s' = put_job (running_job (now + seconds z) r) s"
  using assms that
  by (auto simp: start_media_deletion_def Let_def bindR_Inr split: option.splits if_splits)

lemma start_deletion_sound:
  assumes "jobs_inv s" "start_media_deletion task now z s = Inr (w, s')"
  shows "jobs_inv s' \<and> jobs_evolve s s'"
  using assms(2)
proof (cases rule: start_deletion_cases)
  case same
  then show ?thesis using jobs_same[OF assms(1)] by simp
next
  case (started r v)
  show ?thesis
    using put_job_sound[OF assms(1) started(1), of "running_job (now + seconds z) r" s'] started(7)
      running_job_sound[OF job_row_state[OF assms(1) started(1)] started(4), of "now + seconds z"]
    by (simp add: job_updates)
qed

definition deletion_payload :: "BackgroundJob \<Rightarrow> (string \<times> json) list" where
  "deletion_payload r = [(''background_job_id'', JStr (uuid_str (bj_id r))),
     (''media_asset_id'', JStr (uuid_str (bj_media_asset_id r)))]"

lemma complete_deletion_cases:
  assumes "complete_media_deletion res tm s = Inr (resp, s')"
  obtains (replay) r a where "job_and_asset (dr_background_job_id res) s = Some (r, a)"
      "bj_status r \<in> {SUCCEEDED, FAILED}" "same_deletion_result r res" "s' = s" "resp = job_response r"
  | (failed) r a k where "job_and_asset (dr_background_job_id res) s = Some (r, a)"
      "bj_job_type r = MEDIA_RETENTION_DELETE" "bj_attempt_count r = dr_attempt_count res"
      "bj_status r = RUNNING" "dr_outcome res = OUTCOME_FAILED" "dr_error_kind res = Some k"
      "resp = job_response (finished_job FAILED (Some (kind_value k)) tm r)"
      "s' = put_job (finished_job FAILED (Some (kind_value k)) tm r) s"
  | (succeeded) r a ev where "job_and_asset (dr_background_job_id res) s = Some (r, a)"
      "bj_job_type r = MEDIA_RETENTION_DELETE" "bj_attempt_count r = dr_attempt_count res"
      "bj_status r = RUNNING" "dr_outcome res = OUTCOME_SUCCEEDED"
      "resp = job_response (finished_job SUCCEEDED (bj_last_error_code r) tm r)"
      "enqueue_domain_event MEDIA_DELETED_V1 (bj_move_job_id r) None (Some (bj_trace_id r))
         (deletion_payload r) tm (put_asset (a\<lparr>ma_status := DELETED\<rparr>)
           (put_job (finished_job SUCCEEDED (bj_last_error_code r) tm r) s)) = Inr (ev, s')"
proof -
  obtain r a where ra: "job_and_asset (dr_background_job_id res) s = Some (r, a)"
    using assms by (auto simp: complete_media_deletion_def split: option.splits)
  have fin: "r\<lparr>bj_completed_at := Some tm, bj_execution_deadline_at := None, bj_status := SUCCEEDED\<rparr>
      = finished_job SUCCEEDED (bj_last_error_code r) tm r" by (simp add: finished_job_def)
  have base: "bj_job_type r = MEDIA_RETENTION_DELETE" "bj_attempt_count r = dr_attempt_count res"
    using assms ra by (simp_all add: complete_media_deletion_def split: if_splits)
  show thesis
  proof (cases "bj_status r \<in> {SUCCEEDED, FAILED}")
    case True
    then have "same_deletion_result r res" "s' = s" "resp = job_response r"
      using assms ra by (auto simp: complete_media_deletion_def split: if_splits)
    then show ?thesis using replay ra True by blast
  next
    case False
    have run: "bj_status r = RUNNING"
      using assms ra False by (auto simp: complete_media_deletion_def split: if_splits)
    show ?thesis
    proof (cases "dr_outcome res")
      case OUTCOME_FAILED
      obtain k where k: "dr_error_kind res = Some k"
        using assms ra run OUTCOME_FAILED base
        by (auto simp: complete_media_deletion_def Let_def split: option.splits)
      show ?thesis
        by (rule failed[OF ra base run OUTCOME_FAILED k])
          (use assms ra run OUTCOME_FAILED base k in
            \<open>simp_all add: complete_media_deletion_def Let_def finished_job_def\<close>)
    next
      case OUTCOME_SUCCEEDED
      obtain ev where "enqueue_domain_event MEDIA_DELETED_V1 (bj_move_job_id r) None (Some (bj_trace_id r))
         (deletion_payload r) tm (put_asset (a\<lparr>ma_status := DELETED\<rparr>)
           (put_job (finished_job SUCCEEDED (bj_last_error_code r) tm r) s)) = Inr (ev, s')"
        "resp = job_response (finished_job SUCCEEDED (bj_last_error_code r) tm r)"
        using assms ra run OUTCOME_SUCCEEDED base
        by (auto simp: complete_media_deletion_def Let_def fin deletion_payload_def bindR_Inr)
      then show ?thesis using succeeded[OF ra base run OUTCOME_SUCCEEDED] by blast
    qed
  qed
qed

lemma complete_deletion_sound:
  assumes "jobs_inv s" "complete_media_deletion res tm s = Inr (resp, s')"
  shows "jobs_inv s' \<and> jobs_evolve s s'"
  using assms(2)
proof (cases rule: complete_deletion_cases)
  case (replay r a)
  then show ?thesis using jobs_same[OF assms(1)] by simp
next
  case (failed r a k)
  have row: "row bj_id (dr_background_job_id res) (background_jobs s) = Some r"
    using job_and_asset_row failed(1) by blast
  show ?thesis
    using put_job_sound[OF assms(1) row, of "finished_job FAILED (Some (kind_value k)) tm r" s'] failed(8)
      finished_job_sound[OF job_row_state[OF assms(1) row] failed(4), of FAILED "Some (kind_value k)" tm]
    by (simp add: job_updates)
next
  case (succeeded r a ev)
  have row: "row bj_id (dr_background_job_id res) (background_jobs s) = Some r"
    using job_and_asset_row succeeded(1) by blast
  have none: "bj_last_error_code r = None"
    using running_no_error[OF job_row_state[OF assms(1) row] succeeded(4)] .
  obtain d where s': "s' = put_asset (a\<lparr>ma_status := DELETED\<rparr>)
      (put_job (finished_job SUCCEEDED (bj_last_error_code r) tm r) s)\<lparr>drawn := d,
        outbox := outbox s @ [new_outbox_event ev]\<rparr>" "drawn s < d"
    by (rule enqueue_event_spec[OF succeeded(7)]) (simp add: job_updates)
  show ?thesis
    using put_job_sound[OF assms(1) row, of "finished_job SUCCEEDED None tm r" s'] s' none
      finished_job_sound[OF job_row_state[OF assms(1) row] succeeded(4), of SUCCEEDED None tm]
    by (simp add: job_updates)
qed

section \<open>Histories of operations\<close>

text \<open>One committed operation of the service.\<close>

inductive job_op :: "db \<Rightarrow> db \<Rightarrow> bool" where
  op_create_retention: "create_retention_background_job job asset p cutoff trace sched now s = Inr (resp, s') \<Longrightarrow>
    trace_text trace \<Longrightarrow> job_op s s'"
| op_create_validation: "create_media_validation_background_job job asset p' trace sched now s = Inr (resp, s') \<Longrightarrow>
    trace_text trace \<Longrightarrow> job_op s s'"
| op_create_deletion: "create_media_deletion_background_job a job p trace sched now s = Inr (resp, s') \<Longrightarrow>
    trace_text trace \<Longrightarrow> job_op s s'"
| op_retry: "retry_background_job job i now s = Inr (resp, s') \<Longrightarrow> job_op s s'"
| op_claim: "claim_background_jobs now l z s = Inr (cs, s') \<Longrightarrow> job_op s s'"
| op_finalize: "finalize_background_job_dispatch c task_id code tm s = Inr (b, s') \<Longrightarrow> code \<noteq> Some [] \<Longrightarrow> job_op s s'"
| op_start_validation: "start_media_validation task now z s = Inr (w, s') \<Longrightarrow> job_op s s'"
| op_complete_validation: "complete_media_validation res tm s = Inr (resp, s') \<Longrightarrow> job_op s s'"
| op_start_deletion: "start_media_deletion task now z s = Inr (w', s') \<Longrightarrow> job_op s s'"
| op_complete_deletion: "complete_media_deletion res' tm s = Inr (resp, s') \<Longrightarrow> job_op s s'"

lemmas operation_sound = create_retention_sound create_validation_sound create_deletion_sound retry_sound
  claim_jobs_sound finalize_sound start_validation_sound complete_validation_sound
  start_deletion_sound complete_deletion_sound

lemma job_op_sound: "job_op s s' \<Longrightarrow> jobs_inv s \<Longrightarrow> jobs_inv s' \<and> jobs_evolve s s'"
  by (induction rule: job_op.induct) (rule operation_sound; assumption)+

lemma job_ops_inv: "job_op\<^sup>*\<^sup>* s s' \<Longrightarrow> jobs_inv s \<Longrightarrow> jobs_inv s'"
  by (induction rule: rtranclp_induct) (use job_op_sound in blast)+

lemma job_ops_row:
  assumes "job_op\<^sup>*\<^sup>* s s'" "jobs_inv s" "row bj_id i (background_jobs s) = Some r"
  shows "\<exists>r'. row bj_id i (background_jobs s') = Some r' \<and> job_step\<^sup>*\<^sup>* r r'"
  using assms
proof (induction rule: rtranclp_induct)
  case (step s1 s2)
  then obtain r1 where r1: "row bj_id i (background_jobs s1) = Some r1" "job_step\<^sup>*\<^sup>* r r1" by blast
  have "jobs_evolve s1 s2" using job_op_sound[OF step.hyps(2)] job_ops_inv[OF step.hyps(1)] step.prems(1) by blast
  then obtain r2 where "row bj_id i (background_jobs s2) = Some r2" "job_step r1 r2"
    using r1(1) by (auto simp: jobs_evolve_def)
  then show ?case using r1(2) rtranclp.rtrancl_into_rtrancl[of job_step] by blast
qed auto

text \<open>What survives any number of moves of one job.\<close>

lemma job_steps_facts:
  assumes "job_step\<^sup>*\<^sup>* r r'"
  shows "same_target r r'" "bj_attempt_count r \<le> bj_attempt_count r'"
    "bj_status r = SUCCEEDED \<Longrightarrow> bj_status r' = SUCCEEDED \<and> bj_attempt_count r' = bj_attempt_count r"
  using assms
  by (induction rule: rtranclp_induct) (auto simp: job_step_def same_target_def split: if_splits)

lemma row_ids: "map k t' = map k t \<Longrightarrow> row k i t = Some r \<Longrightarrow> \<exists>r'. row k i t' = Some r'"
  by (metis list.set_map not_None_eq row_None_iff)

lemma put_asset_ids [simp]: "map ma_id (media_assets (put_asset a s)) = map ma_id (media_assets s)"
  "map ma_id (media_assets (put_job r s)) = map ma_id (media_assets s)"
  by (simp_all add: job_updates)

lemma insert_job_assets: "insert_background_job r s = Inr s' \<Longrightarrow> media_assets s' = media_assets s"
  by (auto simp: insert_background_job_def split: if_splits)

lemma finalize_assets:
  "finalize_background_job_dispatch c task_id code tm s = Inr (b, s') \<Longrightarrow> media_assets s' = media_assets s"
  by (auto simp: finalize_background_job_dispatch_def Let_def put_job_def split: option.splits if_splits)

lemma lease_job_rows_assets: "lease_job_rows now u rs s = Inr (cs, s') \<Longrightarrow> media_assets s' = media_assets s"
  by (induction rs arbitrary: s cs) (auto simp: uuid4_def Let_def bindR_Inr put_job_def)

lemma create_deletion_assets:
  "create_media_deletion_background_job a job p trace sched now s = Inr (resp, s') \<Longrightarrow> media_assets s' = media_assets s"
  by (auto simp: create_media_deletion_background_job_def uuid4_def Let_def dest: insert_job_assets
      split: sum.splits option.splits)

lemma put_job_ids_assets: "media_assets (put_job r s) = media_assets s"
  by (simp add: put_job_def)

text \<open>No operation removes a media asset.\<close>

lemma job_op_assets: "job_op s s' \<Longrightarrow> map ma_id (media_assets s') = map ma_id (media_assets s)"
proof (induction rule: job_op.induct)
  case (op_create_retention job asset p cutoff trace sched now s resp s')
  then show ?case using create_deletion_assets
    by (auto simp: create_retention_background_job_def split: option.splits prod.splits if_splits)
next
  case (op_create_validation job asset p' trace sched now s resp s')
  then show ?case
    by (auto simp: create_media_validation_background_job_def uuid4_def Let_def bindR_Inr
        dest!: insert_job_assets split: option.splits if_splits)
next
  case (op_retry job i now s resp s')
  then show ?case by (auto simp: retry_background_job_def bindR_Inr split: option.splits if_splits)
next
  case (op_claim now l z s cs s')
  then show ?case by (auto simp: claim_background_jobs_def dest: lease_job_rows_assets split: if_splits)
next
  case (op_start_validation task now z s w s')
  then show ?case by (cases rule: start_validation_cases) simp_all
next
  case (op_complete_validation res tm s resp s')
  then show ?case by (cases rule: complete_validation_cases) simp_all
next
  case (op_start_deletion task now z s w s')
  then show ?case by (cases rule: start_deletion_cases) simp_all
next
  case (op_complete_deletion res tm s resp s')
  then show ?case
  proof (cases rule: complete_deletion_cases)
    case (succeeded r a ev)
    show ?thesis by (rule enqueue_event_spec[OF succeeded(7)]) simp
  qed simp_all
qed (auto simp: create_deletion_assets finalize_assets)

lemma job_ops_assets: "job_op\<^sup>*\<^sup>* s s' \<Longrightarrow> map ma_id (media_assets s') = map ma_id (media_assets s)"
  by (induction rule: rtranclp_induct) (auto simp: job_op_assets)

text \<open>A validation that runs against a deleted asset, and what keeps it in that state.\<close>

definition stuck_validation :: "uuid \<Rightarrow> db \<Rightarrow> bool" where
  "stuck_validation i s = (case job_and_asset i s of None \<Rightarrow> False
     | Some (r, a) \<Rightarrow> bj_job_type r = MEDIA_VALIDATION \<and> bj_status r = RUNNING \<and> ma_status a = DELETED)"

definition deleted_kept :: "MediaAsset list \<Rightarrow> MediaAsset list \<Rightarrow> bool" where
  "deleted_kept t t' = (\<forall>x a. row ma_id x t = Some a \<and> ma_status a = DELETED \<longrightarrow>
     (\<exists>a'. row ma_id x t' = Some a' \<and> ma_status a' = DELETED))"

lemma deleted_kept_refl [simp]: "deleted_kept t t"
  by (auto simp: deleted_kept_def)

lemma deleted_kept_put:
  "row ma_id (ma_id a') t = Some a \<Longrightarrow> ma_status a \<noteq> DELETED \<or> ma_status a' = DELETED \<Longrightarrow>
   deleted_kept t (put_row ma_id a' t)"
  by (auto simp: deleted_kept_def row_put_row)

lemma stuck_kept:
  assumes "stuck_validation i s" "deleted_kept (media_assets s) (media_assets s')"
    and "\<And>r. row bj_id i (background_jobs s) = Some r \<Longrightarrow> \<exists>r'. row bj_id i (background_jobs s') = Some r' \<and>
      bj_job_type r' = bj_job_type r \<and> bj_status r' = bj_status r \<and> bj_media_asset_id r' = bj_media_asset_id r"
  shows "stuck_validation i s'"
proof -
  obtain r a where ja: "job_and_asset i s = Some (r, a)" and st: "bj_job_type r = MEDIA_VALIDATION"
      "bj_status r = RUNNING" "ma_status a = DELETED"
    using assms(1) by (auto simp: stuck_validation_def split: option.splits)
  obtain r' where r': "row bj_id i (background_jobs s') = Some r'" "bj_job_type r' = MEDIA_VALIDATION"
      "bj_status r' = RUNNING" "bj_media_asset_id r' = bj_media_asset_id r"
    using assms(3) job_and_asset_row[OF ja] st by auto
  obtain a' where "row ma_id (bj_media_asset_id r) (media_assets s') = Some a'" "ma_status a' = DELETED"
    using assms(2) job_and_asset_row[OF ja] st(3) by (auto simp: deleted_kept_def)
  then show ?thesis using r' by (simp add: stuck_validation_def job_and_asset_def)
qed

lemma stuck_kept_same:
  "stuck_validation i s \<Longrightarrow> deleted_kept (media_assets s) (media_assets s') \<Longrightarrow>
   row bj_id i (background_jobs s') = row bj_id i (background_jobs s) \<Longrightarrow> stuck_validation i s'"
  by (rule stuck_kept) auto

lemma stuck_put_job: "stuck_validation i s \<Longrightarrow> bj_id r \<noteq> i \<Longrightarrow> stuck_validation i (put_job r s)"
  by (rule stuck_kept_same) (simp_all add: job_updates row_put_row)

lemma stuck_put_asset:
  "stuck_validation i s \<Longrightarrow> row ma_id x (media_assets s) = Some a \<Longrightarrow> ma_id a' = x \<Longrightarrow>
   ma_status a \<noteq> DELETED \<or> ma_status a' = DELETED \<Longrightarrow> stuck_validation i (put_asset a' s)"
  by (rule stuck_kept_same) (simp_all add: job_updates deleted_kept_put)

text \<open>Writing a job other than the stuck one together with its own asset.\<close>

lemma stuck_put_both:
  assumes "stuck_validation i s" "job_and_asset j s = Some (r, a)" "j \<noteq> i" "bj_id r' = bj_id r" "ma_id a' = ma_id a"
    "ma_status a \<noteq> DELETED \<or> ma_status a' = DELETED"
  shows "stuck_validation i (put_asset a' (put_job r' s))"
proof -
  note ja = job_and_asset_row[OF assms(2)]
  have id: "bj_id r' \<noteq> i" using ja row_key assms(3,4) by force
  have m: "row ma_id (ma_id a) (media_assets (put_job r' s)) = Some a"
    using conjunct2[OF ja] row_key[OF conjunct2[OF ja]] by (simp add: job_updates)
  show ?thesis using stuck_put_asset[OF stuck_put_job[OF assms(1) id] m assms(5,6)] .
qed

lemma stuck_row:
  "stuck_validation i s \<Longrightarrow> job_and_asset j s = Some (r, a) \<Longrightarrow>
   bj_job_type r \<noteq> MEDIA_VALIDATION \<or> bj_status r \<noteq> RUNNING \<or> ma_status a \<noteq> DELETED \<Longrightarrow> j \<noteq> i"
  by (auto simp: stuck_validation_def)

lemma stuck_job:
  "stuck_validation i s \<Longrightarrow> row bj_id j (background_jobs s) = Some r \<Longrightarrow>
   bj_job_type r \<noteq> MEDIA_VALIDATION \<or> bj_status r \<noteq> RUNNING \<Longrightarrow> j \<noteq> i"
  by (auto simp: stuck_validation_def job_and_asset_def split: option.splits)

lemma insert_job_row:
  "insert_background_job r s = Inr s' \<Longrightarrow> row bj_id i (background_jobs s) = Some x \<Longrightarrow>
   row bj_id i (background_jobs s') = Some x"
  by (auto simp: insert_background_job_def row_append split: if_splits)

lemma create_deletion_row:
  "create_media_deletion_background_job a job p trace sched now s = Inr (resp, s') \<Longrightarrow>
   row bj_id i (background_jobs s) = Some x \<Longrightarrow> row bj_id i (background_jobs s') = Some x"
  by (auto simp: create_media_deletion_background_job_def uuid4_def Let_def dest!: insert_job_row
      split: sum.splits option.splits)

lemma retry_stuck:
  assumes "jobs_inv s" "stuck_validation i s" "retry_background_job job j now s = Inr (resp, s')"
  shows "stuck_validation i s'"
proof -
  obtain r where r: "find (\<lambda>r. bj_id r = j \<and> bj_move_job_id r = job) (background_jobs s) = Some r"
    using assms(3) by (auto simp: retry_background_job_def split: option.splits)
  have "r \<in> set (background_jobs s)" "bj_id r = j" using r by (auto simp: find_Some_iff)
  then have row: "row bj_id j (background_jobs s) = Some r"
    using row_of_mem[OF jobs_invD(2)[OF assms(1)]] by blast
  note f = assms(3)[unfolded retry_background_job_def r, simplified]
  have ne: "j \<noteq> i"
  proof
    assume "j = i"
    then obtain a where "row ma_id (bj_media_asset_id r) (media_assets s) = Some a" "bj_job_type r = MEDIA_VALIDATION"
      "bj_status r = RUNNING" "ma_status a = DELETED"
      using assms(2) row by (auto simp: stuck_validation_def job_and_asset_def split: option.splits)
    then show False using f by (auto simp: bindR_Inr split: if_splits)
  qed
  have id: "bj_id (reopened_job now r) \<noteq> i" using ne row_key[OF row] by (simp add: reopened_job_def)
  consider "s' = put_job (reopened_job now r) s"
    | x a where "row ma_id x (media_assets s) = Some a" "ma_status a = PROCESSING"
       "s' = put_job (reopened_job now r) (put_asset (a\<lparr>ma_status := MEDIA_FAILED, ma_sha256_hex := None\<rparr>) s)"
    using f by (auto simp: bindR_Inr split: if_splits option.splits)
  then show ?thesis
  proof cases
    case 1
    then show ?thesis using stuck_put_job[OF assms(2) id] by simp
  next
    case (2 x a)
    have "stuck_validation i (put_asset (a\<lparr>ma_status := MEDIA_FAILED, ma_sha256_hex := None\<rparr>) s)"
      by (rule stuck_put_asset[OF assms(2) 2(1)]) (simp_all add: 2(2) row_key[OF 2(1)])
    then show ?thesis using stuck_put_job[OF _ id] 2(3) by simp
  qed
qed

lemma claim_stuck:
  assumes "jobs_inv s" "stuck_validation i s" "claim_background_jobs now l z s = Inr (cs, s')"
  shows "stuck_validation i s'"
proof -
  have v: "valid_claim l z" using assms(3) claim_jobs_invalid by (cases "valid_claim l z") auto
  have s': "s' = leased_jobs now (now + seconds z) (due_jobs now l s) s"
    using assms(3) claim_jobs_eq[OF assms(1) v] by simp
  have "i \<notin> bj_id ` set (due_jobs now l s)"
    using due_jobsD assms(2) row_of_mem[OF jobs_invD(2)[OF assms(1)]] stuck_job[OF assms(2)]
    by (fastforce simp: job_due_def)
  then show ?thesis
    using stuck_kept_same[OF assms(2)] leased_jobs_other by (simp add: s' leased_jobs_def)
qed

lemma finalize_stuck:
  assumes "stuck_validation i s" "finalize_background_job_dispatch c task_id code tm s = Inr (b, s')"
  shows "stuck_validation i s'"
  using assms(2)
proof (cases rule: finalize_cases)
  case (accepted r)
  show ?thesis
    by (rule stuck_kept[OF assms(1)])
      (use accepted row_key[OF accepted(1)] in \<open>auto simp: job_updates row_put_row\<close>)
next
  case (queued r)
  then show ?thesis
    using stuck_put_job[OF assms(1)] stuck_job[OF assms(1) queued(1)] row_key[OF queued(1)] by (simp add: queued_job_def)
next
  case (failed r e)
  then show ?thesis
    using stuck_put_job[OF assms(1)] stuck_job[OF assms(1) failed(1)] row_key[OF failed(1)] by (simp add: failed_dispatch_def)
qed (use assms(1) in simp)

lemma complete_deletion_stuck:
  assumes "stuck_validation i s" "complete_media_deletion res tm s = Inr (resp, s')"
  shows "stuck_validation i s'"
  using assms(2)
proof (cases rule: complete_deletion_cases)
  case (failed r a k)
  have "dr_background_job_id res \<noteq> i" using stuck_row[OF assms(1) failed(1)] failed(2) by simp
  then have "bj_id (finished_job FAILED (Some (kind_value k)) tm r) \<noteq> i"
    using job_and_asset_row[OF failed(1)] row_key by (fastforce simp: finished_job_def)
  then show ?thesis using stuck_put_job[OF assms(1)] failed(8) by simp
next
  case (succeeded r a ev)
  have "dr_background_job_id res \<noteq> i" using stuck_row[OF assms(1) succeeded(1)] succeeded(2) by simp
  then have st: "stuck_validation i (put_asset (a\<lparr>ma_status := DELETED\<rparr>)
      (put_job (finished_job SUCCEEDED (bj_last_error_code r) tm r) s))"
    by (rule stuck_put_both[OF assms(1) succeeded(1)]) (simp_all add: finished_job_def)
  show ?thesis
    by (rule enqueue_event_spec[OF succeeded(7)]) (rule stuck_kept_same[OF st], simp_all)
qed (use assms(1) in simp)

lemma start_validation_stuck:
  assumes "stuck_validation i s" "start_media_validation task now z s = Inr (w, s')"
  shows "stuck_validation i s'"
  using assms(2)
proof (cases rule: start_validation_cases)
  case (started r a v)
  have "tk_background_job_id task \<noteq> i" using stuck_row[OF assms(1) started(1)] started(4) by auto
  then show ?thesis unfolding started(9)
    by (rule stuck_put_both[OF assms(1) started(1)]) (use started(6) in \<open>auto simp: running_job_def\<close>)
qed (use assms(1) in simp)

lemma complete_validation_stuck:
  assumes "stuck_validation i s" "complete_media_validation res tm s = Inr (resp, s')"
  shows "stuck_validation i s'"
  using assms(2)
proof (cases rule: complete_validation_cases)
  case (failed r a k)
  have "vr_background_job_id res \<noteq> i" using stuck_row[OF assms(1) failed(1)] failed(5) by simp
  then show ?thesis unfolding failed(10)
    by (rule stuck_put_both[OF assms(1) failed(1)]) (use failed(5) in \<open>simp_all add: finished_job_def\<close>)
next
  case (succeeded r a)
  have "vr_background_job_id res \<noteq> i" using stuck_row[OF assms(1) succeeded(1)] succeeded(5) by simp
  then show ?thesis unfolding succeeded(13)
    by (rule stuck_put_both[OF assms(1) succeeded(1)]) (use succeeded(5) in \<open>simp_all add: finished_job_def\<close>)
qed (use assms(1) in simp)

lemma start_deletion_stuck:
  assumes "stuck_validation i s" "start_media_deletion task now z s = Inr (w, s')"
  shows "stuck_validation i s'"
  using assms(2)
proof (cases rule: start_deletion_cases)
  case (started r v)
  have "tk_background_job_id task \<noteq> i" using stuck_job[OF assms(1) started(1)] started(2) by simp
  then have "bj_id (running_job (now + seconds z) r) \<noteq> i" using row_key[OF started(1)] by (simp add: running_job_def)
  then show ?thesis using stuck_put_job[OF assms(1)] started(7) by simp
qed (use assms(1) in simp)

lemma job_op_stuck: "job_op s s' \<Longrightarrow> jobs_inv s \<Longrightarrow> stuck_validation i s \<Longrightarrow> stuck_validation i s'"
proof (induction rule: job_op.induct)
  case (op_create_retention job asset p cutoff trace sched now s resp s')
  then show ?case
    by (auto simp: create_retention_background_job_def create_deletion_assets split: option.splits prod.splits if_splits
        intro!: stuck_kept_same[OF op_create_retention.prems(2)] stuck_kept[OF op_create_retention.prems(2)] dest: create_deletion_row)
next
  case (op_create_validation job asset p' trace sched now s resp s')
  then show ?case
    by (auto simp: create_media_validation_background_job_def uuid4_def Let_def bindR_Inr insert_job_assets
        dest: insert_job_row split: option.splits if_splits intro!: stuck_kept[OF op_create_validation.prems(2)])
next
  case (op_create_deletion a job p trace sched now s resp s')
  then show ?case
    by (intro stuck_kept[OF op_create_deletion.prems(2)]) (auto simp: create_deletion_assets dest: create_deletion_row)
qed (blast intro: retry_stuck claim_stuck finalize_stuck start_validation_stuck complete_validation_stuck
      start_deletion_stuck complete_deletion_stuck)+

lemma job_ops_stuck:
  "job_op\<^sup>*\<^sup>* s s' \<Longrightarrow> jobs_inv s \<Longrightarrow> stuck_validation i s \<Longrightarrow> stuck_validation i s'"
  by (induction rule: rtranclp_induct) (use job_op_stuck job_ops_inv in blast)+

lemma retry_refused_when_deleted:
  assumes "jobs_inv s" "job_and_asset i s = Some (r, a)" "bj_job_type r = MEDIA_VALIDATION"
    "bj_status r = RUNNING" "ma_status a = DELETED"
  shows "\<not> isOk (retry_background_job job i now s)"
proof -
  note ja = job_and_asset_row[OF assms(2)]
  have "r' = r" if "find (\<lambda>r. bj_id r = i \<and> bj_move_job_id r = job) (background_jobs s) = Some r'" for r'
  proof -
    have "r' \<in> set (background_jobs s)" "bj_id r' = i" using that by (auto simp: find_Some_iff)
    then show ?thesis using row_of_mem[OF jobs_invD(2)[OF assms(1)]] ja by fastforce
  qed
  then show ?thesis
    using ja assms(3-5) by (auto simp: retry_background_job_def isOk_def bindR_def split: option.splits sum.splits if_splits)
qed

section \<open>The dispatcher is a lease queue\<close>

definition job_holder :: "db \<Rightarrow> uuid \<Rightarrow> (uuid \<times> instant) option" where
  "job_holder s i = (case row bj_id i (background_jobs s) of None \<Rightarrow> None
     | Some r \<Rightarrow> (case (bj_dispatch_token r, bj_dispatch_locked_until r) of
         (Some t, Some u) \<Rightarrow> Some (t, u) | _ \<Rightarrow> None))"

text \<open>A job the dispatcher is done with: neither waiting nor being dispatched.\<close>

definition job_dispatched :: "db \<Rightarrow> uuid \<Rightarrow> bool" where
  "job_dispatched s i = (case row bj_id i (background_jobs s) of None \<Rightarrow> False
     | Some r \<Rightarrow> bj_status r \<notin> {PENDING, DISPATCHING})"

definition job_pairs :: "ClaimedBackgroundJob list \<Rightarrow> (uuid \<times> uuid) list" where
  "job_pairs cs = map (\<lambda>c. (tk_background_job_id (cj_task c), cj_dispatch_token c)) cs"

definition job_claim :: "instant \<Rightarrow> int \<times> int \<Rightarrow> db \<Rightarrow> (uuid \<times> uuid) list \<times> db" where
  "job_claim now c s = (case claim_background_jobs now (fst c) (snd c) s of
     Inl _ \<Rightarrow> ([], s) | Inr (cs, s') \<Rightarrow> (job_pairs cs, s'))"

type_synonym dispatch_outcome = "MediaTask \<times> (port_error + string) \<times> instant"

definition job_settle :: "dispatch_outcome \<Rightarrow> uuid \<Rightarrow> uuid \<Rightarrow> db \<Rightarrow> db" where
  "job_settle x i t s = (case x of (task, outcome, tm) \<Rightarrow>
     (case settle_job_dispatch \<lparr>cj_task = task\<lparr>tk_background_job_id := i\<rparr>, cj_dispatch_token = t\<rparr> outcome tm s of
        Inl _ \<Rightarrow> s | Inr (_, s') \<Rightarrow> s'))"

lemma job_pairs_of: "job_pairs (claims_of now u rs s) = map (\<lambda>k. (bj_id (rs ! k), rng s (drawn s + k))) [0..<length rs]"
  by (simp add: job_pairs_def claims_of_def task_of_job_def)

lemma job_holder_iff: "job_holder s i = Some (t, u) \<longleftrightarrow>
    (\<exists>r. row bj_id i (background_jobs s) = Some r \<and> bj_dispatch_token r = Some t \<and> bj_dispatch_locked_until r = Some u)"
  by (auto simp: job_holder_def split: option.splits)

lemma job_claim_cases:
  assumes "jobs_inv s"
  obtains (raised) "job_claim now c s = ([], s)"
  | (granted) "valid_claim (fst c) (snd c)"
    "job_claim now c s = (map (\<lambda>k. (bj_id (due_jobs now (fst c) s ! k), rng s (drawn s + k)))
        [0..<length (due_jobs now (fst c) s)],
      leased_jobs now (now + seconds (snd c)) (due_jobs now (fst c) s) s)"
proof (cases "valid_claim (fst c) (snd c)")
  case True
  show ?thesis
    by (rule granted[OF True]) (simp add: job_claim_def claim_jobs_eq[OF assms True] job_pairs_of)
qed (simp add: raised job_claim_def claim_jobs_invalid)

lemma job_pair:
  "jobs_inv s \<Longrightarrow> row bj_id i (background_jobs s) = Some r \<Longrightarrow>
   (bj_dispatch_token r \<noteq> None \<longleftrightarrow> bj_status r = DISPATCHING) \<and>
   (bj_dispatch_locked_until r \<noteq> None \<longleftrightarrow> bj_status r = DISPATCHING)"
  using job_row_state by (simp add: job_state_check_iff)

lemma due_job_unheld:
  assumes "jobs_inv s" "i \<in> bj_id ` set (due_jobs now l s)"
  shows "\<not> job_dispatched s i" "job_holder s i = Some (t, u) \<Longrightarrow> u \<le> now"
proof -
  obtain r where r: "r \<in> set (due_jobs now l s)" "bj_id r = i" using assms(2) by blast
  have row: "row bj_id i (background_jobs s) = Some r"
    using row_of_mem[OF jobs_invD(2)[OF assms(1)] due_jobsD(1)[OF r(1)]] r(2) by simp
  show "\<not> job_dispatched s i" using row due_jobsD(3)[OF r(1)] by (auto simp: job_dispatched_def)
  show "u \<le> now" if "job_holder s i = Some (t, u)"
    using that row due_jobsD(2)[OF r(1)] job_pair[OF assms(1) row] by (auto simp: job_holder_iff job_due_def)
qed

lemma job_settle_eq:
  "job_settle (task, outcome, tm) i t s = (case dispatch_lease i t s of
     Some r \<Rightarrow> put_job (settled_dispatch outcome tm r) s
   | None \<Rightarrow> (case row bj_id i (background_jobs s) of
       None \<Rightarrow> s
     | Some r \<Rightarrow> (case outcome of Inl _ \<Rightarrow> s
         | Inr task_id \<Rightarrow> if already_accepted \<lparr>cj_task = task\<lparr>tk_background_job_id := i\<rparr>, cj_dispatch_token = t\<rparr>
               (Some task_id) r
             then put_job (r\<lparr>bj_provider_task_id := Some task_id\<rparr>) s else s)))"
  by (simp add: job_settle_def settle_job_dispatch_eq split: option.splits sum.splits)

lemma job_settle_unleased:
  assumes "row bj_id i (background_jobs s) = Some r" "dispatch_lease i t s = None"
  shows "job_settle x i t s = s \<or> (\<exists>p. job_settle x i t s = put_job (r\<lparr>bj_provider_task_id := p\<rparr>) s)"
proof -
  obtain task outcome tm where x: "x = (task, outcome, tm)" by (cases x)
  show ?thesis
  proof (cases outcome)
    case (Inr y)
    show ?thesis
    proof (cases "already_accepted \<lparr>cj_task = task\<lparr>tk_background_job_id := i\<rparr>, cj_dispatch_token = t\<rparr> (Some y) r")
      case True
      then have "job_settle x i t s = put_job (r\<lparr>bj_provider_task_id := Some y\<rparr>) s"
        by (simp add: job_settle_eq x assms Inr)
      then show ?thesis by blast
    qed (simp add: job_settle_eq x assms Inr)
  qed (simp add: job_settle_eq x assms)
qed

lemma settled_dispatch_fields [simp]:
  "bj_id (settled_dispatch x tm r) = bj_id r" "bj_dispatch_token (settled_dispatch x tm r) = None"
  by (simp_all add: settled_dispatch_def failed_dispatch_def queued_job_def split: sum.splits)

lemma job_settle_shape:
  assumes "row bj_id i (background_jobs s) = Some r"
  shows "job_settle x i t s = s \<or> (\<exists>r'. bj_id r' = bj_id r \<and> job_settle x i t s = put_job r' s)"
proof (cases "dispatch_lease i t s")
  case None
  then consider "job_settle x i t s = s" | p where "job_settle x i t s = put_job (r\<lparr>bj_provider_task_id := p\<rparr>) s"
    using job_settle_unleased[OF assms None, of x] by blast
  then show ?thesis
  proof cases
    case (2 p)
    have "bj_id (r\<lparr>bj_provider_task_id := p\<rparr>) = bj_id r" by simp
    then show ?thesis using 2 by blast
  qed simp
next
  case (Some r0)
  obtain task outcome tm where x: "x = (task, outcome, tm)" by (cases x)
  have "r0 = r" using Some assms by (auto simp: dispatch_lease_def split: if_splits)
  then have "job_settle x i t s = put_job (settled_dispatch outcome tm r) s" "bj_id (settled_dispatch outcome tm r) = bj_id r"
    using Some by (simp_all add: job_settle_eq x)
  then show ?thesis by blast
qed

interpretation dispatch_queue: lease_queue job_holder job_dispatched drawn_ids job_claim job_settle jobs_inv
proof unfold_locales
  fix s :: db and i j t u now c and x :: dispatch_outcome
  obtain task outcome tm where x: "x = (task, outcome, tm)" by (cases x)
  assume inv: "jobs_inv s"
  let ?s' = "snd (job_claim now c s)" and ?ids = "fst ` set (fst (job_claim now c s))"
  show "jobs_inv ?s'"
    by (rule job_claim_cases[OF inv, of now c]) (use inv leased_jobs_sound[OF inv] in auto)
  show "jobs_inv (job_settle x i t s)"
    using settle_dispatch_sound[OF inv] inv by (auto simp: job_settle_def x split: sum.splits)
  show "drawn_ids s \<subseteq> drawn_ids ?s'"
    by (rule job_claim_cases[OF inv, of now c]) (auto simp: leased_jobs_def drawn_ids_def)
  have ids: "?ids \<subseteq> bj_id ` set (due_jobs now (fst c) s)"
    by (rule job_claim_cases[OF inv, of now c]) (auto simp: pair_image_nth[where f = bj_id])
  show "t \<in> drawn_ids s" if "job_holder s i = Some (t, u)"
    using that jobs_invD(4)[OF inv row_mem] by (auto simp: job_holder_iff job_row_ok_def)
  show "job_holder ?s' i = job_holder s i" if "i \<notin> ?ids"
    using that by (rule_tac job_claim_cases[OF inv, of now c])
      (auto simp: job_holder_def leased_jobs_other pair_image_nth[where f = bj_id])
  show "t \<notin> drawn_ids s \<and> (\<exists>u. job_holder ?s' i = Some (t, u))"
    if "(i, t) \<in> set (fst (job_claim now c s))"
    using that leased_jobs_row[OF inv] new_token_fresh[OF jobs_invD(1)[OF inv]]
    by (rule_tac job_claim_cases[OF inv, of now c]) (auto simp: job_holder_def)
  show "distinct (map fst (fst (job_claim now c s)))"
  proof (rule job_claim_cases[OF inv, of now c], goal_cases)
    case 2
    have "map (\<lambda>k. bj_id (due_jobs now (fst c) s ! k)) [0..<length (due_jobs now (fst c) s)]
       = map bj_id (due_jobs now (fst c) s)"
      by (rule nth_equalityI) auto
    then show ?case using 2 due_jobs_distinct[OF inv] by (simp add: comp_def)
  qed simp
  show "i \<notin> ?ids" if "job_holder s i = Some (t, u)" "now < u"
    using ids due_job_unheld(2)[OF inv _ that(1)] that(2) by fastforce
  show "i \<notin> ?ids" if "job_dispatched s i"
    using ids due_job_unheld(1)[OF inv] that by blast
  show "job_dispatched ?s' i = job_dispatched s i"
  proof (rule job_claim_cases[OF inv, of now c], goal_cases)
    case 2
    show ?case
    proof (cases "i \<in> bj_id ` set (due_jobs now (fst c) s)")
      case True
      then obtain k where k: "k < length (due_jobs now (fst c) s)" "bj_id (due_jobs now (fst c) s ! k) = i"
        by (auto simp: in_set_conv_nth)
      then show ?thesis using 2 leased_jobs_row[OF inv k(1)] due_job_unheld(1)[OF inv True]
        by (simp add: job_dispatched_def)
    next
      case False
      then show ?thesis using 2 by (simp add: job_dispatched_def leased_jobs_other)
    qed
  qed simp
  show "job_holder (job_settle x i t s) j = job_holder s j \<and>
        job_dispatched (job_settle x i t s) j = job_dispatched s j"
    if h: "\<nexists>u. job_holder s i = Some (t, u)"
  proof -
    have none: "dispatch_lease i t s = None"
    proof (rule ccontr)
      assume "dispatch_lease i t s \<noteq> None"
      then obtain r where r: "row bj_id i (background_jobs s) = Some r" "bj_status r = DISPATCHING"
        "bj_dispatch_token r = Some t" by (auto simp: dispatch_lease_def split: option.splits if_splits)
      then obtain u where "bj_dispatch_locked_until r = Some u" using job_pair[OF inv r(1)] by auto
      then show False using h r by (auto simp: job_holder_iff)
    qed
    show ?thesis
    proof (cases "row bj_id i (background_jobs s)")
      case (Some r)
      then have r: "bj_id r = i" by (rule row_key)
      have "job_settle x i t s = s \<or> (\<exists>p. job_settle x i t s = put_job (r\<lparr>bj_provider_task_id := p\<rparr>) s)"
        using job_settle_unleased[OF Some none, of x] by auto
      then show ?thesis using Some r
        by (cases "j = i") (auto simp: job_holder_def job_dispatched_def put_job_def row_put_row
            split: option.splits)
    qed (simp add: job_settle_eq x none)
  qed
  show "job_holder (job_settle x i t s) j = job_holder s j \<and>
        job_dispatched (job_settle x i t s) j = job_dispatched s j" if "j \<noteq> i"
  proof (cases "row bj_id i (background_jobs s)")
    case (Some r)
    then have r: "bj_id r = i" by (rule row_key)
    have "job_settle x i t s = s \<or> (\<exists>r'. bj_id r' = i \<and> job_settle x i t s = put_job r' s)"
      using job_settle_shape[OF Some, of x t] r by auto
    then show ?thesis using that
      by (auto simp: job_holder_def job_dispatched_def put_job_def row_put_row)
  qed (simp add: job_settle_eq x dispatch_lease_def)
  show "job_holder (job_settle x i t s) i = None" if h: "job_holder s i = Some (t, u)"
  proof -
    obtain r where r: "row bj_id i (background_jobs s) = Some r" "bj_dispatch_token r = Some t"
      using h by (auto simp: job_holder_iff)
    then have "dispatch_lease i t s = Some r" using job_pair[OF inv r(1)] by (simp add: dispatch_lease_def)
    then show ?thesis using r row_key[OF r(1)]
      by (simp add: job_settle_eq x job_holder_def put_job_def row_put_row)
  qed
  show "job_holder s i = None" if "job_dispatched s i"
    using that job_pair[OF inv, of i] by (auto simp: job_dispatched_def job_holder_def split: option.splits)
next
  fix s :: db and i t and x :: dispatch_outcome
  obtain task outcome tm where x: "x = (task, outcome, tm)" by (cases x)
  show "drawn_ids s \<subseteq> drawn_ids (job_settle x i t s)"
    by (auto simp: job_settle_eq x put_job_def drawn_ids_def split: option.splits sum.splits)
qed

section \<open>Properties\<close>

text \<open>Property C39: the detailed operations refine the job state machine: every committed
  operation, whatever its arguments, keeps the table's constraints (so the database never
  rejects a write) and moves each job along the abstract machine, counting one attempt for
  each dispatch of a waiting job and leaving its target alone.\<close>

theorem job_operations_refine_machine:
  assumes "jobs_inv s" "job_op s s'"
  shows "jobs_inv s' \<and> (\<forall>i r. row bj_id i (background_jobs s) = Some r \<longrightarrow>
    (\<exists>r'. row bj_id i (background_jobs s') = Some r' \<and> background_job_state_check r' \<and> same_target r r' \<and>
      bj_status r' \<in> set (job_transitions (bj_status r)) \<and>
      bj_attempt_count r' = bj_attempt_count r +
        of_bool (bj_status r = PENDING \<and> bj_status r' = DISPATCHING)))"
proof -
  have inv: "jobs_inv s'" and ev: "jobs_evolve s s'" using job_op_sound[OF assms(2,1)] by auto
  have "\<exists>r'. row bj_id i (background_jobs s') = Some r' \<and> background_job_state_check r' \<and> same_target r r' \<and>
      bj_status r' \<in> set (job_transitions (bj_status r)) \<and>
      bj_attempt_count r' = bj_attempt_count r +
        of_bool (bj_status r = PENDING \<and> bj_status r' = DISPATCHING)"
    if r: "row bj_id i (background_jobs s) = Some r" for i r
  proof -
    obtain r' where r': "row bj_id i (background_jobs s') = Some r'" "job_step r r'"
      using ev r by (auto simp: jobs_evolve_def)
    then show ?thesis using job_row_state[OF inv r'(1)] by (intro exI[of _ r']) (simp add: job_step_def)
  qed
  then show ?thesis using inv by blast
qed

text \<open>A task or result of a superseded attempt is refused in every later state:
  once a job has reached a higher attempt, no start and no completion that carries the old
  number succeeds again.\<close>

theorem stale_attempt_refused:
  assumes "jobs_inv s" "row bj_id i (background_jobs s) = Some r" "n < bj_attempt_count r" "job_op\<^sup>*\<^sup>* s s'"
    and "tk_background_job_id task = i" "tk_attempt_count task = n"
    and "vr_background_job_id vres = i" "vr_attempt_count vres = n"
    and "dr_background_job_id dres = i" "dr_attempt_count dres = n"
  shows "\<not> isOk (start_media_validation task now z s') \<and> \<not> isOk (start_media_deletion task now z s') \<and>
    \<not> isOk (complete_media_validation vres tm s') \<and> \<not> isOk (complete_media_deletion dres tm s')"
proof -
  obtain r' where r': "row bj_id i (background_jobs s') = Some r'" "job_step\<^sup>*\<^sup>* r r'"
    using job_ops_row[OF assms(4,1,2)] by blast
  have n: "bj_attempt_count r' \<noteq> n" using job_steps_facts(2)[OF r'(2)] assms(3) by simp
  have none: "job_and_asset i s' = None \<or> (\<exists>a. job_and_asset i s' = Some (r', a))"
    using r'(1) by (auto simp: job_and_asset_def split: option.splits)
  have "\<not> isOk (start_media_validation task now z s')"
    using none n assms(5,6) by (auto simp: start_media_validation_def)
  moreover have "\<not> isOk (start_media_deletion task now z s')"
    using r'(1) n assms(5,6) by (simp add: start_media_deletion_def)
  moreover have "\<not> isOk (complete_media_validation vres tm s')"
    using none n assms(7,8) by (auto simp: complete_media_validation_def)
  moreover have "\<not> isOk (complete_media_deletion dres tm s')"
    using none n assms(9,10) by (auto simp: complete_media_deletion_def)
  ultimately show ?thesis by simp
qed

text \<open>While the dispatcher's lease on a job is live, no other dispatcher is given
  the job, and the dispatcher's own settlement takes effect, whatever the other dispatchers
  do in between.\<close>

theorem dispatch_lease_exclusive:
  assumes "jobs_inv s" "job_holder s i = Some (t, u)"
    and "\<forall>x \<in> set xs. case x of Claim now c \<Rightarrow> now < u | Settle y j t' \<Rightarrow> (j, t') \<noteq> (i, t)"
    and "s' = fold (\<lambda>x s. case x of Claim now c \<Rightarrow> snd (job_claim now c s) | Settle y j t' \<Rightarrow> job_settle y j t' s) xs s"
    and "now' < u" "claim_background_jobs now' l z s' = Inr (cs, s'')"
    and "tk_background_job_id (cj_task c) = i" "cj_dispatch_token c = t"
  shows "i \<notin> fst ` set (job_pairs cs) \<and>
    (\<exists>s3. settle_job_dispatch c outcome tm s' = Inr (True, s3) \<and> job_dispatched s3 i)"
proof
  have run: "s' = dispatch_queue.run xs s"
    unfolding assms(4) dispatch_queue.run_def by (rule arg_cong[where f = "\<lambda>g. fold g xs s"])
      (simp add: fun_eq_iff dispatch_queue.step_def split: lease_op.splits)
  have sp: "\<forall>x \<in> set xs. dispatch_queue.spares i t u x"
    using assms(3) by (auto simp: dispatch_queue.spares_def split: lease_op.splits)
  have held: "job_holder s' i = Some (t, u)" and inv: "jobs_inv s'"
    using dispatch_queue.lease_protected[OF assms(1,2) sp] dispatch_queue.run_inv[OF assms(1)] by (auto simp: run)
  show "i \<notin> fst ` set (job_pairs cs)"
    using dispatch_queue.claim_lease[OF inv held assms(5), of "(l, z)"] assms(6) by (simp add: job_claim_def)
  obtain r where r: "row bj_id i (background_jobs s') = Some r" "bj_dispatch_token r = Some t"
    using held by (auto simp: job_holder_iff)
  then have "dispatch_lease i t s' = Some r" using job_pair[OF inv r(1)] by (simp add: dispatch_lease_def)
  then show "\<exists>s3. settle_job_dispatch c outcome tm s' = Inr (True, s3) \<and> job_dispatched s3 i"
    using assms(7,8) r(1) row_key[OF r(1)]
    by (auto simp: settle_job_dispatch_eq job_dispatched_def put_job_def row_put_row settled_dispatch_def
        queued_job_def failed_dispatch_def split: sum.splits)
qed

text \<open>A deletion is announced exactly once. The completion that ends a running
  deletion marks the asset deleted and appends one MEDIA_DELETED event; in every later state,
  after any operations, reporting success again returns without changing anything.\<close>

theorem deletion_announced_once:
  assumes "jobs_inv s" "job_and_asset (dr_background_job_id res) s = Some (r, a)" "bj_status r = RUNNING"
    and "dr_outcome res = OUTCOME_SUCCEEDED" "complete_media_deletion res tm s = Inr (resp, s1)"
    and "job_op\<^sup>*\<^sup>* s1 s2"
  shows "(\<exists>ev. outbox s1 = outbox s @ [new_outbox_event ev] \<and> de_event_type ev = MEDIA_DELETED_V1 \<and>
      de_payload ev = deletion_payload r) \<and>
    row ma_id (bj_media_asset_id r) (media_assets s1) = Some (a\<lparr>ma_status := DELETED\<rparr>) \<and>
    (\<exists>resp'. complete_media_deletion res tm' s2 = Inr (resp', s2))"
  using assms(5)
proof (cases rule: complete_deletion_cases)
  case (replay r' a')
  then show ?thesis using assms(2,3) by simp
next
  case (failed r' a' k)
  then show ?thesis using assms(4) by simp
next
  case (succeeded r' a' ev)
  then have eq: "r' = r" "a' = a" using assms(2) by simp_all
  obtain d where s1: "s1 = put_asset (a\<lparr>ma_status := DELETED\<rparr>)
      (put_job (finished_job SUCCEEDED (bj_last_error_code r) tm r) s)\<lparr>drawn := d,
        outbox := outbox s @ [new_outbox_event ev]\<rparr>"
    and ev: "de_event_type ev = MEDIA_DELETED_V1" "de_payload ev = deletion_payload r"
    by (rule enqueue_event_spec[OF succeeded(7)[unfolded eq]]) (simp add: job_updates)
  note ja = job_and_asset_row[OF assms(2)]
  have ids: "bj_id r = dr_background_job_id res" "ma_id a = bj_media_asset_id r"
    using ja row_key by auto
  have asset: "row ma_id (bj_media_asset_id r) (media_assets s1) = Some (a\<lparr>ma_status := DELETED\<rparr>)"
    using ja ids by (simp add: s1 job_updates row_put_row)
  let ?f = "finished_job SUCCEEDED (bj_last_error_code r) tm r"
  have job: "row bj_id (dr_background_job_id res) (background_jobs s1) = Some ?f"
    using ja ids by (simp add: s1 job_updates row_put_row finished_job_def)
  have inv1: "jobs_inv s1" using complete_deletion_sound[OF assms(1,5)] by simp
  obtain r2 where r2: "row bj_id (dr_background_job_id res) (background_jobs s2) = Some r2" "job_step\<^sup>*\<^sup>* ?f r2"
    using job_ops_row[OF assms(6) inv1 job] by blast
  note facts = job_steps_facts[OF r2(2)]
  have st: "bj_status r2 = SUCCEEDED" "bj_attempt_count r2 = bj_attempt_count r"
    "bj_job_type r2 = bj_job_type r" "bj_media_asset_id r2 = bj_media_asset_id r"
    using facts by (auto simp: finished_job_def same_target_def)
  obtain a2 where a2: "row ma_id (bj_media_asset_id r) (media_assets s2) = Some a2"
    using row_ids[OF job_ops_assets[OF assms(6)] asset] by blast
  have "job_and_asset (dr_background_job_id res) s2 = Some (r2, a2)"
    using r2(1) a2 st by (simp add: job_and_asset_def)
  then have "complete_media_deletion res tm' s2 = Inr (job_response r2, s2)"
    using st succeeded(2,3,5) eq by (simp add: complete_media_deletion_def same_deletion_result_def)
  then show ?thesis using s1 ev asset by (auto simp: job_updates)
qed

text \<open>An asset becomes READY only for the object the attempt was pinned to: a
  successful completion requires the running attempt, the pinned generation, type and size,
  and stores exactly the reported digest; replaying it changes nothing, and a different
  digest for the same attempt is refused.\<close>

theorem validation_success_pins_object:
  assumes "jobs_inv s" "job_and_asset (vr_background_job_id res) s = Some (r, a)" "bj_status r = RUNNING"
    and "vr_outcome res = OUTCOME_SUCCEEDED" "complete_media_validation res tm s = Inr (resp, s1)"
    and "vr_background_job_id res' = vr_background_job_id res" "vr_outcome res' = OUTCOME_SUCCEEDED"
    and "vr_sha256_hex res' \<noteq> vr_sha256_hex res"
  shows "(\<exists>a1. row ma_id (bj_media_asset_id r) (media_assets s1) = Some a1 \<and> ma_status a1 = READY \<and>
      ma_sha256_hex a1 = vr_sha256_hex res \<and> asset_matches_target a1 r) \<and>
    br_status resp = SUCCEEDED \<and> complete_media_validation res tm' s1 = Inr (resp, s1) \<and>
    complete_media_validation res' tm' s1 = Inl BackgroundJobConflictError"
  using assms(5)
proof (cases rule: complete_validation_cases)
  case (replay r' a')
  then show ?thesis using assms(2,3) by simp
next
  case (failed r' a' k)
  then show ?thesis using assms(4) by simp
next
  case (succeeded r' a')
  then have eq: "r' = r" "a' = a" using assms(2) by simp_all
  note ja = job_and_asset_row[OF assms(2)]
  have ids: "bj_id r = vr_background_job_id res" "ma_id a = bj_media_asset_id r" using ja row_key by auto
  let ?f = "finished_job SUCCEEDED (bj_last_error_code r) tm r"
  let ?a = "a\<lparr>ma_status := READY, ma_generation := Some (vr_source_generation res),
    ma_actual_size_bytes := vr_observed_size_bytes res, ma_sha256_hex := vr_sha256_hex res\<rparr>"
  have ja1: "job_and_asset (vr_background_job_id res) s1 = Some (?f, ?a)"
    using ja ids succeeded(13) eq by (simp add: job_and_asset_def job_updates row_put_row finished_job_def)
  have match: "asset_matches_target ?a r" "asset_matches_target ?a ?f"
    using succeeded(6,7,10) eq by (simp_all add: asset_matches_target_def finished_job_def)
  have asset: "row ma_id (bj_media_asset_id r) (media_assets s1) = Some ?a"
    using job_and_asset_row[OF ja1] by (simp add: finished_job_def)
  have again: "complete_media_validation res tm' s1 = Inr (resp, s1)"
    using ja1 match(2) succeeded eq
    by (simp add: complete_media_validation_def finished_job_def same_validation_result_def)
  have other: "complete_media_validation res' tm' s1 = Inl BackgroundJobConflictError"
    using ja1 assms(6-8)
    by (simp add: complete_media_validation_def finished_job_def same_validation_result_def)
  show ?thesis
    using asset match(1) again other succeeded(12)
    by (auto simp: job_response_def finished_job_def intro!: exI[of _ ?a])
qed

text \<open>Property C40: the one way out of an execution whose worker died is a retry after the
  deadline, and it fails the half-done validation and reopens the job as a new attempt. If a
  retention deletion removes the asset while its validation runs, that way out is closed for
  ever: after any operations the job is still RUNNING, and no start, completion or retry of
  it succeeds at any time.\<close>

theorem validation_stuck_after_deletion:
  assumes "jobs_inv s" "job_and_asset i s = Some (r, a)" "bj_job_type r = MEDIA_VALIDATION"
    and "bj_status r = RUNNING" "ma_status a = DELETED" "job_op\<^sup>*\<^sup>* s s'"
    and "tk_background_job_id task = i" "vr_background_job_id res = i"
  shows "(\<exists>r'. row bj_id i (background_jobs s') = Some r' \<and> bj_status r' = RUNNING) \<and>
    \<not> isOk (start_media_validation task now z s') \<and> \<not> isOk (complete_media_validation res tm s') \<and>
    \<not> isOk (retry_background_job job i now s')"
proof -
  have inv: "jobs_inv s'" using job_ops_inv[OF assms(6,1)] .
  have stuck: "stuck_validation i s'"
    using job_ops_stuck[OF assms(6,1)] assms(2-5) by (simp add: stuck_validation_def)
  then obtain r' a' where ja: "job_and_asset i s' = Some (r', a')" and st: "bj_job_type r' = MEDIA_VALIDATION"
      "bj_status r' = RUNNING" "ma_status a' = DELETED"
    by (auto simp: stuck_validation_def split: option.splits)
  have "\<not> isOk (retry_background_job job i now s')"
    using retry_refused_when_deleted[OF inv ja st] .
  moreover have "\<not> isOk (start_media_validation task now z s')" "\<not> isOk (complete_media_validation res tm s')"
    using ja st assms(7,8) by (auto simp: start_media_validation_def complete_media_validation_def isOk_def split: sum.splits)
  ultimately show ?thesis using job_and_asset_row[OF ja] st by blast
qed

section \<open>A sample database\<close>

definition sample_asset :: "uuid \<Rightarrow> MediaAssetStatus \<Rightarrow> MediaAsset" where
  "sample_asset i st = \<lparr>ma_id = i, ma_capture_session_id = 2, ma_room_zone_id = 5,
     ma_media_purpose = INVENTORY, ma_status = st, ma_object_key = ''k'', ma_content_type = ''image/png'',
     ma_expected_size_bytes = 9, ma_actual_size_bytes = Some 9, ma_sha256_hex = None,
     ma_generation = Some ''g'', ma_created_at = 0, ma_uploaded_at = Some 1\<rparr>"

definition sample_job :: "uuid \<Rightarrow> uuid \<Rightarrow> BackgroundJobType \<Rightarrow> BackgroundJob" where
  "sample_job i asset ty = new_background_job i 1 asset ty ''k'' ''g''
     (if ty = MEDIA_VALIDATION then Some ''image/png'' else None)
     (if ty = MEDIA_VALIDATION then Some 9 else None) (hex_fixed 32 5) 10 None 0"

text \<open>Asset 3 is being validated by job 10, asset 4 being deleted by job 11, asset 6 was
  deleted under the running validation 12, job 13 is leased by token 20 until 1000.\<close>

definition sample_running :: "BackgroundJob \<Rightarrow> BackgroundJob" where
  "sample_running r = r\<lparr>bj_status := RUNNING, bj_attempt_count := 2, bj_last_attempt_at := Some 20,
     bj_execution_deadline_at := Some 500\<rparr>"

definition sample_media :: db where
  "sample_media = (empty_db (\<lambda>n. n) (\<lambda>_. []))\<lparr>drawn := 50,
     media_assets := [sample_asset 3 PROCESSING, sample_asset 4 READY, sample_asset 6 DELETED, sample_asset 7 UPLOADED],
     background_jobs := [sample_running (sample_job 10 3 MEDIA_VALIDATION),
       sample_running (sample_job 11 4 MEDIA_RETENTION_DELETE),
       sample_running (sample_job 12 6 MEDIA_VALIDATION),
       (sample_job 13 7 MEDIA_VALIDATION)\<lparr>bj_status := DISPATCHING, bj_attempt_count := 1,
          bj_last_attempt_at := Some 20, bj_dispatch_token := Some 20, bj_dispatch_locked_until := Some 1000\<rparr>]\<rparr>"

lemmas sample_media_defs = sample_media_def sample_running_def sample_job_def sample_asset_def
  new_background_job_def empty_db_def

lemma trace_text_length: "trace_text t \<Longrightarrow> length t = 32"
  by (simp add: trace_text_def)

lemma sample_media_inv: "jobs_inv sample_media"
  by (simp add: jobs_inv_def job_row_ok_def fresh_supply_def background_job_target_check_def
      background_job_state_check_def drawn_ids_def sample_media_defs del: hex_fixed.simps)

definition sample_success :: "uuid \<Rightarrow> string \<Rightarrow> MediaValidationResult" where
  "sample_success i h = \<lparr>vr_background_job_id = i, vr_attempt_count = 2, vr_source_generation = ''g'',
     vr_outcome = OUTCOME_SUCCEEDED, vr_observed_content_type = Some ''image/png'',
     vr_observed_size_bytes = Some 9, vr_sha256_hex = Some h, vr_error_kind = None\<rparr>"

definition sample_deleted :: MediaDeletionResult where
  "sample_deleted = \<lparr>dr_background_job_id = 11, dr_attempt_count = 2, dr_outcome = OUTCOME_SUCCEEDED,
     dr_error_kind = None\<rparr>"

lemma sample_validation_completes:
  "\<exists>resp s'. complete_media_validation (sample_success 10 ''aa'') 30 sample_media = Inr (resp, s')"
  by (simp add: complete_media_validation_def job_and_asset_def asset_matches_target_def sample_success_def
      sample_media_defs Let_def del: hex_fixed.simps)

lemma sample_deletion_completes:
  "\<exists>resp s'. complete_media_deletion sample_deleted 30 sample_media = Inr (resp, s')"
proof -
  let ?r = "sample_running (sample_job 11 4 MEDIA_RETENTION_DELETE)"
  let ?s = "put_asset ((sample_asset 4 READY)\<lparr>ma_status := DELETED\<rparr>)
       (put_job (?r\<lparr>bj_completed_at := Some 30, bj_execution_deadline_at := None, bj_status := SUCCEEDED\<rparr>) sample_media)"
  have doc: "documented_payload MEDIA_DELETED_V1
      [(''background_job_id'', JStr (uuid_str (bj_id ?r))), (''media_asset_id'', JStr (uuid_str (bj_media_asset_id ?r)))]"
    by (simp add: documented_payload_def insert_commute)
  have tr: "\<forall>t. Some (bj_trace_id ?r) = Some t \<longrightarrow> t = [] \<or> trace_text t"
    by (simp add: sample_running_def sample_job_def new_background_job_def del: hex_fixed.simps)
  obtain ev s' where "enqueue_domain_event MEDIA_DELETED_V1 (bj_move_job_id ?r) None (Some (bj_trace_id ?r))
      [(''background_job_id'', JStr (uuid_str (bj_id ?r))), (''media_asset_id'', JStr (uuid_str (bj_media_asset_id ?r)))]
      30 ?s = Inr (ev, s')"
    using enqueue_event_returns[OF doc tr] by blast
  moreover have "job_and_asset 11 sample_media = Some (?r, sample_asset 4 READY)"
    by (simp add: job_and_asset_def sample_media_defs)
  ultimately show ?thesis
    by (simp add: complete_media_deletion_def sample_deleted_def Let_def)
      (simp add: sample_running_def sample_job_def new_background_job_def)
qed

lemma job_operations_refine_machine_witness:
  "\<exists>resp s'. complete_media_validation (sample_success 10 ''aa'') 30 sample_media = Inr (resp, s') \<and>
     jobs_inv s' \<and> (\<exists>r'. row bj_id 10 (background_jobs s') = Some r' \<and> bj_status r' \<in> {RUNNING, SUCCEEDED, FAILED, PENDING})"
proof -
  obtain resp s' where c: "complete_media_validation (sample_success 10 ''aa'') 30 sample_media = Inr (resp, s')"
    using sample_validation_completes by blast
  have row: "row bj_id 10 (background_jobs sample_media) = Some (sample_running (sample_job 10 3 MEDIA_VALIDATION))"
    by (simp add: sample_media_defs)
  have "bj_status (sample_running (sample_job 10 3 MEDIA_VALIDATION)) = RUNNING" by (simp add: sample_running_def)
  then show ?thesis
    using job_operations_refine_machine[OF sample_media_inv op_complete_validation[OF c]] row c by fastforce
qed

lemma stale_attempt_refused_witness:
  "\<exists>resp s'. complete_media_validation (sample_success 10 ''aa'') 30 sample_media = Inr (resp, s') \<and>
     \<not> isOk (complete_media_validation ((sample_success 10 ''bb'')\<lparr>vr_attempt_count := 1\<rparr>) 40 s')"
proof -
  obtain resp s' where c: "complete_media_validation (sample_success 10 ''aa'') 30 sample_media = Inr (resp, s')"
    using sample_validation_completes by blast
  have row: "row bj_id 10 (background_jobs sample_media) = Some (sample_running (sample_job 10 3 MEDIA_VALIDATION))"
    by (simp add: sample_media_defs)
  have n: "1 < bj_attempt_count (sample_running (sample_job 10 3 MEDIA_VALIDATION))" by (simp add: sample_running_def)
  from stale_attempt_refused[OF sample_media_inv row n r_into_rtranclp[of job_op, OF op_complete_validation[OF c]],
      of "\<lparr>tk_background_job_id = 10, tk_job_type = MEDIA_VALIDATION, tk_attempt_count = 1, tk_trace_id = []\<rparr>"
         "(sample_success 10 ''bb'')\<lparr>vr_attempt_count := 1\<rparr>"
         "\<lparr>dr_background_job_id = 10, dr_attempt_count = 1, dr_outcome = OUTCOME_SUCCEEDED, dr_error_kind = None\<rparr>"]
  show ?thesis using c by (auto simp: sample_success_def)
qed

lemma dispatch_lease_exclusive_witness:
  "\<exists>cs s''. claim_background_jobs 600 10 60 sample_media = Inr (cs, s'') \<and> 13 \<notin> fst ` set (job_pairs cs)"
proof -
  have "valid_claim 10 60" by (simp add: valid_claim_def MAX_BATCH_SIZE_def)
  then obtain cs s'' where c: "claim_background_jobs 600 10 60 sample_media = Inr (cs, s'')"
    using claim_jobs_eq[OF sample_media_inv] by metis
  have held: "job_holder sample_media 13 = Some (20, 1000)" by (simp add: job_holder_def sample_media_defs)
  from dispatch_lease_exclusive[OF sample_media_inv held, of "[]" sample_media 600 10 60 cs s''
      "\<lparr>cj_task = \<lparr>tk_background_job_id = 13, tk_job_type = MEDIA_VALIDATION, tk_attempt_count = 1,
         tk_trace_id = []\<rparr>, cj_dispatch_token = 20\<rparr>" "Inr ''t''" 0]
  show ?thesis using c by auto
qed

lemma deletion_announced_once_witness:
  "\<exists>resp s1. complete_media_deletion sample_deleted 30 sample_media = Inr (resp, s1) \<and>
     length (outbox s1) = 1 \<and> (\<exists>resp'. complete_media_deletion sample_deleted 99 s1 = Inr (resp', s1))"
proof -
  obtain resp s1 where c: "complete_media_deletion sample_deleted 30 sample_media = Inr (resp, s1)"
    using sample_deletion_completes by blast
  have ja: "job_and_asset (dr_background_job_id sample_deleted) sample_media =
      Some (sample_running (sample_job 11 4 MEDIA_RETENTION_DELETE), sample_asset 4 READY)"
    by (simp add: job_and_asset_def sample_media_defs sample_deleted_def)
  have run: "bj_status (sample_running (sample_job 11 4 MEDIA_RETENTION_DELETE)) = RUNNING"
    "dr_outcome sample_deleted = OUTCOME_SUCCEEDED" by (simp_all add: sample_running_def sample_deleted_def)
  from deletion_announced_once[OF sample_media_inv ja run c rtranclp.rtrancl_refl, of 99]
  show ?thesis using c by (auto simp: sample_media_def empty_db_def)
qed

lemma validation_success_pins_object_witness:
  "\<exists>resp s1. complete_media_validation (sample_success 10 ''aa'') 30 sample_media = Inr (resp, s1) \<and>
     br_status resp = SUCCEEDED \<and>
     complete_media_validation (sample_success 10 ''bb'') 40 s1 = Inl BackgroundJobConflictError"
proof -
  obtain resp s1 where c: "complete_media_validation (sample_success 10 ''aa'') 30 sample_media = Inr (resp, s1)"
    using sample_validation_completes by blast
  have ja: "job_and_asset (vr_background_job_id (sample_success 10 ''aa'')) sample_media =
      Some (sample_running (sample_job 10 3 MEDIA_VALIDATION), sample_asset 3 PROCESSING)"
    by (simp add: job_and_asset_def sample_media_defs sample_success_def)
  have run: "bj_status (sample_running (sample_job 10 3 MEDIA_VALIDATION)) = RUNNING"
    "vr_outcome (sample_success 10 h) = OUTCOME_SUCCEEDED" for h
    by (simp_all add: sample_running_def sample_success_def)
  from validation_success_pins_object[OF sample_media_inv ja run(1) run(2) c, of "sample_success 10 ''bb''" 40]
  show ?thesis using c by (simp add: sample_success_def)
qed

lemma validation_stuck_after_deletion_witness:
  "\<not> isOk (retry_background_job 1 12 999999 sample_media) \<and>
   \<not> isOk (complete_media_validation (sample_success 12 ''aa'') 30 sample_media)"
proof -
  have ja: "job_and_asset 12 sample_media =
      Some (sample_running (sample_job 12 6 MEDIA_VALIDATION), sample_asset 6 DELETED)"
    by (simp add: job_and_asset_def sample_media_defs)
  have st: "bj_job_type (sample_running (sample_job 12 6 MEDIA_VALIDATION)) = MEDIA_VALIDATION"
    "bj_status (sample_running (sample_job 12 6 MEDIA_VALIDATION)) = RUNNING"
    "ma_status (sample_asset 6 DELETED) = DELETED"
    by (simp_all add: sample_running_def sample_job_def new_background_job_def sample_asset_def)
  from validation_stuck_after_deletion[OF sample_media_inv ja st,
      of sample_media "\<lparr>tk_background_job_id = 12, tk_job_type = MEDIA_VALIDATION, tk_attempt_count = 2, tk_trace_id = []\<rparr>"
         "sample_success 12 ''aa''" 999999 1 30 1]
  show ?thesis by (simp add: sample_success_def)
qed

end
