(* ===== verification/MediaProcessing.thy ===== *)
theory MediaProcessing
  imports BackgroundJobProofs
begin

text \<open>
  The task handlers of \<open>app/modules/media_processing\<close>: each runs one start
  transaction, calls the object storage outside any transaction and reports the outcome
  in a second transaction. The storage port and what other transactions do in between
  (\<open>others\<close>) are arguments. A handler returns what it returns or raises together with the
  committed database, because a raise after the first transaction does not undo it.
\<close>

definition DEFAULT_EXECUTION_TIMEOUT_SECONDS :: int where
  "DEFAULT_EXECUTION_TIMEOUT_SECONDS = 15 * 60"

record StorageObjectMetadata =
  so_object_key :: string
  so_content_type :: string
  so_size_bytes :: int
  so_sha256_hex :: "string option"
  so_generation :: "string option"

definition handle_media_deletion ::
    "(string \<Rightarrow> string \<Rightarrow> string \<Rightarrow> port_error option) \<Rightarrow> (db \<Rightarrow> db) \<Rightarrow> MediaTask \<Rightarrow> instant \<Rightarrow> db \<Rightarrow>
     MediaDeletionResult option result \<times> db" where
  "handle_media_deletion delete_object others task now s =
     (case start_media_deletion task now DEFAULT_EXECUTION_TIMEOUT_SECONDS s of
        Inl e \<Rightarrow> (Inl e, s)
      | Inr (None, s1) \<Rightarrow> (Inr None, s1)
      | Inr (Some w, s1) \<Rightarrow>
          (let key = ''media-delete:'' @ uuid_str (dw_background_job_id w);
               report = (\<lambda>res. case complete_media_deletion res now (others s1) of
                   Inl e \<Rightarrow> (Inl e, others s1) | Inr (_, s2) \<Rightarrow> (Inr (Some res), s2)) in
           case delete_object (dw_object_key w) (dw_generation w) key of
             None \<Rightarrow> report \<lparr>dr_background_job_id = dw_background_job_id w,
               dr_attempt_count = dw_attempt_count w, dr_outcome = OUTCOME_SUCCEEDED,
               dr_error_kind = None\<rparr>
           | Some (ProviderError k _) \<Rightarrow> report \<lparr>dr_background_job_id = dw_background_job_id w,
               dr_attempt_count = dw_attempt_count w, dr_outcome = OUTCOME_FAILED,
               dr_error_kind = Some k\<rparr>
           | Some OtherError \<Rightarrow> (Inl (PortError OtherError), others s1)))"

definition failed_validation :: "MediaValidationWork \<Rightarrow> ProviderErrorKind \<Rightarrow> MediaValidationResult" where
  "failed_validation w k = \<lparr>vr_background_job_id = vw_background_job_id w,
     vr_attempt_count = vw_attempt_count w, vr_source_generation = vw_source_generation w,
     vr_outcome = OUTCOME_FAILED, vr_observed_content_type = None, vr_observed_size_bytes = None,
     vr_sha256_hex = None, vr_error_kind = Some k\<rparr>"

definition metadata_matches :: "StorageObjectMetadata \<Rightarrow> MediaValidationWork \<Rightarrow> bool" where
  "metadata_matches m w = (so_object_key m = vw_object_key w \<and>
     so_generation m = Some (vw_source_generation w) \<and>
     so_content_type m = vw_expected_content_type w \<and> so_size_bytes m = vw_expected_size_bytes w)"

text \<open>The body of the \<open>try\<close>: the result to report, or the exception that escapes it.\<close>

definition examine_object ::
    "(string \<Rightarrow> port_error + StorageObjectMetadata) \<Rightarrow> (string \<Rightarrow> string \<Rightarrow> port_error + string) \<Rightarrow>
     MediaValidationWork \<Rightarrow> MediaValidationResult result" where
  "examine_object get_metadata calculate_sha256 w =
     (case get_metadata (vw_object_key w) of
        Inl (ProviderError k _) \<Rightarrow> Inr (failed_validation w k)
      | Inl OtherError \<Rightarrow> Inl (PortError OtherError)
      | Inr m \<Rightarrow>
          if \<not> metadata_matches m w then Inr (failed_validation w INVALID_INPUT)
          else (case calculate_sha256 (vw_object_key w) (vw_source_generation w) of
             Inl (ProviderError k _) \<Rightarrow> Inr (failed_validation w k)
           | Inl OtherError \<Rightarrow> Inl (PortError OtherError)
           | Inr h \<Rightarrow>
               let res = \<lparr>vr_background_job_id = vw_background_job_id w,
                 vr_attempt_count = vw_attempt_count w,
                 vr_source_generation = vw_source_generation w, vr_outcome = OUTCOME_SUCCEEDED,
                 vr_observed_content_type = Some (so_content_type m),
                 vr_observed_size_bytes = Some (so_size_bytes m), vr_sha256_hex = Some h,
                 vr_error_kind = None\<rparr> in
               if validation_result_ok res then Inr res else Inl ValueError))"

definition handle_media_validation ::
    "(string \<Rightarrow> port_error + StorageObjectMetadata) \<Rightarrow> (string \<Rightarrow> string \<Rightarrow> port_error + string) \<Rightarrow>
     (db \<Rightarrow> db) \<Rightarrow> MediaTask \<Rightarrow> instant \<Rightarrow> rat \<Rightarrow> rat \<Rightarrow> db \<Rightarrow> MediaValidationResult option result \<times> db" where
  "handle_media_validation get_metadata calculate_sha256 others task now metadata_timeout hash_timeout s =
     (if metadata_timeout \<le> 0 \<or> hash_timeout \<le> 0 then (Inl ValueError, s)
      else case start_media_validation task now DEFAULT_EXECUTION_TIMEOUT_SECONDS s of
        Inl e \<Rightarrow> (Inl e, s)
      | Inr (None, s1) \<Rightarrow> (Inr None, s1)
      | Inr (Some w, s1) \<Rightarrow>
          (case examine_object get_metadata calculate_sha256 w of
             Inl e \<Rightarrow> (Inl e, others s1)
           | Inr res \<Rightarrow> (case complete_media_validation res now (others s1) of
               Inl e \<Rightarrow> (Inl e, others s1)
             | Inr (_, s2) \<Rightarrow> (Inr (Some res), s2))))"

section \<open>What a validation task does to its job and asset\<close>

lemma validation_work_fields:
  assumes "validation_work r = Inr w"
  shows "vw_background_job_id w = bj_id r" "vw_attempt_count w = bj_attempt_count r"
    "vw_object_key w = strip (bj_target_object_key r)"
    "vw_source_generation w = strip (bj_target_generation r)"
    "\<exists>c. bj_target_content_type r = Some c \<and> vw_expected_content_type w = strip c"
    "bj_target_size_bytes r = Some (vw_expected_size_bytes w)"
  using assms by (auto simp: validation_work_def Let_def split: option.splits if_splits)

lemma asset_of_job: "job_and_asset i s = Some (r, a) \<Longrightarrow> ma_id a = bj_media_asset_id r \<and> bj_id r = i"
  using job_and_asset_row row_key by metis

lemma job_and_asset_put:
  assumes "job_and_asset i s = Some (r, a)" "same_target r r'" "ma_id a' = ma_id a"
  shows "job_and_asset i (put_asset a' (put_job r' s)) = Some (r', a')"
proof -
  have "bj_id r' = i" "bj_media_asset_id r' = ma_id a'"
    using asset_of_job[OF assms(1)] assms(2,3) by (simp_all add: same_target_def)
  then show ?thesis
    using job_and_asset_row[OF assms(1)] assms(2)
    by (simp add: job_and_asset_def job_updates row_put_row same_target_def)
qed

text \<open>The state right after a fresh start, and how the second transaction ends from there.\<close>

lemma started_validation_state:
  assumes "job_and_asset i s = Some (r, a)" "asset_matches_target a r"
    "s1 = put_asset (a\<lparr>ma_status := PROCESSING, ma_sha256_hex := None\<rparr>) (put_job (running_job d r) s)"
  shows "job_and_asset i s1 = Some (running_job d r, a\<lparr>ma_status := PROCESSING, ma_sha256_hex := None\<rparr>)"
    "asset_matches_target (a\<lparr>ma_status := PROCESSING, ma_sha256_hex := None\<rparr>) (running_job d r)"
proof -
  show "job_and_asset i s1 = Some (running_job d r, a\<lparr>ma_status := PROCESSING, ma_sha256_hex := None\<rparr>)"
    unfolding assms(3) by (rule job_and_asset_put[OF assms(1)]) (simp_all add: same_target_def running_job_def)
  show "asset_matches_target (a\<lparr>ma_status := PROCESSING, ma_sha256_hex := None\<rparr>) (running_job d r)"
    using assms(2) by (simp add: asset_matches_target_def running_job_def)
qed

lemma completion_of_failure:
  assumes "job_and_asset (vw_background_job_id w) s = Some (r, a)" "validation_work r = Inr w"
    "bj_job_type r = MEDIA_VALIDATION" "bj_status r = RUNNING" "ma_status a = PROCESSING"
    "asset_matches_target a r" "strip (bj_target_generation r) = bj_target_generation r"
  shows "\<exists>resp s'. complete_media_validation (failed_validation w k) tm s = Inr (resp, s') \<and>
    job_and_asset (vw_background_job_id w) s' = Some (finished_job FAILED (Some (kind_value k)) tm r,
      a\<lparr>ma_status := MEDIA_FAILED, ma_sha256_hex := None\<rparr>)"
proof -
  let ?r = "finished_job FAILED (Some (kind_value k)) tm r"
  let ?s = "put_asset (a\<lparr>ma_status := MEDIA_FAILED, ma_sha256_hex := None\<rparr>) (put_job ?r s)"
  have "complete_media_validation (failed_validation w k) tm s = Inr (job_response ?r, ?s)"
    using assms validation_work_fields[OF assms(2)]
    by (simp add: complete_media_validation_def failed_validation_def Let_def finished_job_def)
  moreover have "job_and_asset (vw_background_job_id w) ?s =
      Some (?r, a\<lparr>ma_status := MEDIA_FAILED, ma_sha256_hex := None\<rparr>)"
    by (rule job_and_asset_put[OF assms(1)]) (simp_all add: same_target_def finished_job_def)
  ultimately show ?thesis by blast
qed

lemma completion_of_success:
  assumes "job_and_asset (vw_background_job_id w) s = Some (r, a)" "validation_work r = Inr w"
    "bj_job_type r = MEDIA_VALIDATION" "bj_status r = RUNNING" "ma_status a = PROCESSING"
    "asset_matches_target a r" "strip (bj_target_generation r) = bj_target_generation r"
    "vr_background_job_id res = vw_background_job_id w" "vr_attempt_count res = vw_attempt_count w"
    "vr_source_generation res = vw_source_generation w" "vr_outcome res = OUTCOME_SUCCEEDED"
    "vr_observed_content_type res = bj_target_content_type r"
    "vr_observed_size_bytes res = bj_target_size_bytes r" "vr_sha256_hex res = Some h"
  shows "\<exists>resp s' r' a'. complete_media_validation res tm s = Inr (resp, s') \<and>
    job_and_asset (vw_background_job_id w) s' = Some (r', a') \<and>
    bj_status r' = SUCCEEDED \<and> ma_status a' = READY \<and> ma_sha256_hex a' = Some h"
proof -
  let ?r = "r\<lparr>bj_completed_at := Some tm, bj_execution_deadline_at := None, bj_status := SUCCEEDED\<rparr>"
  let ?a = "a\<lparr>ma_status := READY, ma_generation := Some (vr_source_generation res),
     ma_actual_size_bytes := vr_observed_size_bytes res, ma_sha256_hex := vr_sha256_hex res\<rparr>"
  let ?s = "put_asset ?a (put_job ?r s)"
  have "complete_media_validation res tm s = Inr (job_response ?r, ?s)"
    using assms validation_work_fields[OF assms(2)]
    by (simp add: complete_media_validation_def Let_def)
  moreover have "job_and_asset (vw_background_job_id w) ?s = Some (?r, ?a)"
    by (rule job_and_asset_put[OF assms(1)]) (simp_all add: same_target_def)
  moreover have "ma_sha256_hex ?a = Some h" using assms(14) by simp
  moreover have "bj_status ?r = SUCCEEDED" "ma_status ?a = READY" by simp_all
  ultimately show ?thesis by blast
qed

text \<open>One validation task, run alone, decides its job and asset by what the
  storage reports about the pinned object: an object that matches and hashes makes the asset
  READY with that digest and the job SUCCEEDED; a mismatch or a provider error makes both
  FAILED with the error kind; an unexpected exception leaves the job RUNNING for its deadline
  to expire.\<close>

theorem validation_task_decides:
  assumes "jobs_inv s" "job_and_asset (tk_background_job_id task) s = Some (r, a)"
    and "bj_status r \<in> {DISPATCHING, QUEUED}" "0 < mt" "0 < ht"
    and "strip (bj_target_generation r) = bj_target_generation r"
    and "bj_target_content_type r = Some c" "strip c = c"
    and "start_media_validation task now DEFAULT_EXECUTION_TIMEOUT_SECONDS s = Inr (Some w, s1)"
    and "handle_media_validation meta sha (\<lambda>s. s) task now mt ht s = (out, s')"
  shows "\<exists>r' a'. job_and_asset (tk_background_job_id task) s' = Some (r', a') \<and>
    (case examine_object meta sha w of
       Inl e \<Rightarrow> out = Inl e \<and> bj_status r' = RUNNING \<and> ma_status a' = PROCESSING
     | Inr res \<Rightarrow> out = Inr (Some res) \<and>
        (case vr_error_kind res of
           None \<Rightarrow> bj_status r' = SUCCEEDED \<and> ma_status a' = READY \<and> ma_sha256_hex a' = vr_sha256_hex res
         | Some k \<Rightarrow> bj_status r' = FAILED \<and> bj_last_error_code r' = Some (kind_value k) \<and>
                     ma_status a' = MEDIA_FAILED))"
  using assms(9)
proof (cases rule: start_validation_cases)
  case same
  then show ?thesis using assms(2,3) by auto
next
  case (started r0 a0 v)
  let ?d = "now + seconds DEFAULT_EXECUTION_TIMEOUT_SECONDS"
  have eq: "r0 = r" "a0 = a" "v = w" using started(1,8) assms(2) by simp_all
  have id: "bj_id r = tk_background_job_id task" using asset_of_job[OF assms(2)] by simp
  let ?r = "running_job ?d r" and ?a = "a\<lparr>ma_status := PROCESSING, ma_sha256_hex := None\<rparr>"
  note run = started_validation_state[OF assms(2) started(5)[unfolded eq] started(9)[unfolded eq]]
  have work: "validation_work ?r = Inr w" using started(7) eq by simp
  note wf = validation_work_fields[OF work]
  have wid: "vw_background_job_id w = tk_background_job_id task" using wf(1) id by (simp add: running_job_def)
  have ty: "bj_job_type ?r = MEDIA_VALIDATION" "bj_status ?r = RUNNING"
    "strip (bj_target_generation ?r) = bj_target_generation ?r"
    using started(2) assms(6) eq by (simp_all add: running_job_def)
  have handle: "(out, s') = (case examine_object meta sha w of
             Inl e \<Rightarrow> (Inl e, s1)
           | Inr res \<Rightarrow> (case complete_media_validation res now s1 of
               Inl e \<Rightarrow> (Inl e, s1) | Inr (_, s2) \<Rightarrow> (Inr (Some res), s2)))"
    using assms(4,5,9,10) by (simp add: handle_media_validation_def)
  show ?thesis
  proof (cases "examine_object meta sha w")
    case (Inl e)
    then show ?thesis using handle run(1) ty(2) by simp
  next
    case (Inr res)
    consider (bad) k where "res = failed_validation w k"
      | (good) m h where "metadata_matches m w" "res = \<lparr>vr_background_job_id = vw_background_job_id w,
          vr_attempt_count = vw_attempt_count w, vr_source_generation = vw_source_generation w,
          vr_outcome = OUTCOME_SUCCEEDED, vr_observed_content_type = Some (so_content_type m),
          vr_observed_size_bytes = Some (so_size_bytes m), vr_sha256_hex = Some h, vr_error_kind = None\<rparr>"
      using Inr by (auto simp: examine_object_def Let_def split: sum.splits port_error.splits if_splits)
    then show ?thesis
    proof cases
      case bad
      then show ?thesis
        using completion_of_failure[OF run(1)[folded wid] work ty(1,2) _ run(2) ty(3), of k now] handle Inr wid
        by (auto simp: failed_validation_def finished_job_def)
    next
      case good
      have "vr_observed_content_type res = bj_target_content_type ?r"
        "vr_observed_size_bytes res = bj_target_size_bytes ?r"
        using good wf(5,6) assms(7,8) by (auto simp: metadata_matches_def running_job_def)
      then show ?thesis
        using completion_of_success[OF run(1)[folded wid] work ty(1,2) _ run(2) ty(3), of res h now] handle Inr wid good
        by fastforce
    qed
  qed
qed

text \<open>A queued validation in the sample database.\<close>

definition sample_queued :: db where
  "sample_queued = sample_media\<lparr>background_jobs := [(sample_job 13 7 MEDIA_VALIDATION)\<lparr>bj_status := QUEUED,
     bj_attempt_count := 1, bj_last_attempt_at := Some 20\<rparr>]\<rparr>"

lemma sample_queued_inv: "jobs_inv sample_queued"
  by (simp add: jobs_inv_def job_row_ok_def fresh_supply_def background_job_target_check_def
      background_job_state_check_def drawn_ids_def sample_queued_def sample_media_defs del: hex_fixed.simps)

lemma validation_task_decides_witness:
  "\<exists>out s' r' a'. handle_media_validation
      (\<lambda>k. Inr \<lparr>so_object_key = k, so_content_type = ''image/gif'', so_size_bytes = 9, so_sha256_hex = None,
         so_generation = Some ''g''\<rparr>) (\<lambda>k g. Inr []) (\<lambda>s. s)
      \<lparr>tk_background_job_id = 13, tk_job_type = MEDIA_VALIDATION, tk_attempt_count = 1, tk_trace_id = hex_fixed 32 5\<rparr>
      100 1 1 sample_queued = (out, s') \<and>
     job_and_asset 13 s' = Some (r', a') \<and> bj_last_error_code r' = Some ''invalid_input'' \<and> ma_status a' = MEDIA_FAILED"
proof -
  let ?task = "\<lparr>tk_background_job_id = 13, tk_job_type = MEDIA_VALIDATION, tk_attempt_count = 1,
    tk_trace_id = hex_fixed 32 5\<rparr>"
  let ?meta = "\<lambda>k. Inr \<lparr>so_object_key = k, so_content_type = ''image/gif'', so_size_bytes = 9,
    so_sha256_hex = None, so_generation = Some ''g''\<rparr> :: port_error + StorageObjectMetadata"
  let ?sha = "\<lambda>k g. Inr [] :: port_error + string"
  let ?r = "(sample_job 13 7 MEDIA_VALIDATION)\<lparr>bj_status := QUEUED, bj_attempt_count := 1, bj_last_attempt_at := Some 20\<rparr>"
  let ?w = "\<lparr>vw_background_job_id = 13, vw_attempt_count = 1, vw_object_key = ''k'', vw_source_generation = ''g'',
    vw_expected_content_type = ''image/png'', vw_expected_size_bytes = 9\<rparr>"
  have ja: "job_and_asset (tk_background_job_id ?task) sample_queued = Some (?r, sample_asset 7 UPLOADED)"
    by (simp add: job_and_asset_def sample_queued_def sample_media_defs)
  have work: "validation_work (running_job d ?r) = Inr ?w" for d
    by (simp add: validation_work_def running_job_def sample_job_def new_background_job_def strip_def is_space_def
        text_between_def media_type_text_def Let_def)
  obtain s1 where st: "start_media_validation ?task 100 DEFAULT_EXECUTION_TIMEOUT_SECONDS sample_queued = Inr (Some ?w, s1)"
    using ja work by (simp add: start_media_validation_def DEFAULT_EXECUTION_TIMEOUT_SECONDS_def asset_matches_target_def
        Let_def sample_job_def new_background_job_def sample_asset_def del: hex_fixed.simps)
  obtain out s' where h: "handle_media_validation ?meta ?sha (\<lambda>s. s) ?task 100 1 1 sample_queued = (out, s')" by force
  have ex: "examine_object ?meta ?sha ?w = Inr (failed_validation ?w INVALID_INPUT)"
    by (simp add: examine_object_def metadata_matches_def)
  have q: "bj_status ?r \<in> {DISPATCHING, QUEUED}" by simp
  have tgt: "strip (bj_target_generation ?r) = bj_target_generation ?r" "bj_target_content_type ?r = Some ''image/png''"
    "strip ''image/png'' = ''image/png''"
    by (simp_all add: sample_job_def new_background_job_def strip_def is_space_def)
  from validation_task_decides[OF sample_queued_inv ja q _ _ tgt st h] ex h
  show ?thesis by (auto simp: failed_validation_def)
qed

end
