(* ===== verification/AuditTrail.thy ===== *)
theory AuditTrail
  imports Outbox
begin

text \<open>
  What several services share: the append-only audit trail
  (\<open>add_audit_event\<close> of \<open>app/modules/completion/service.py\<close>), the check that an actor is a
  participant of a move job, and the JSON of optional identifiers. A call reads the clock once,
  as its argument \<open>now\<close>.
\<close>

definition add_audit_event ::
    "uuid \<Rightarrow> AuditEventType \<Rightarrow> uuid option \<Rightarrow> (string \<times> json) list \<Rightarrow> instant \<Rightarrow> db \<Rightarrow> db" where
  "add_audit_event job_id ty actor payload now s = (let (i, s1) = uuid4 s in
     s1\<lparr>audit_events := audit_events s1 @ [\<lparr>ae_id = i, ae_job_id = job_id, ae_event_type = ty,
       ae_actor_participant_id = actor, ae_payload = payload, ae_occurred_at = now\<rparr>]\<rparr>)"

text \<open>\<open>SELECT \<dots> WHERE id = participant AND job_id = job AND role IN roles\<close> finds a row.\<close>

definition is_participant :: "uuid \<Rightarrow> uuid \<Rightarrow> ParticipantRole set \<Rightarrow> db \<Rightarrow> bool" where
  "is_participant job_id participant_id roles s =
     (case row jp_id participant_id (participants s) of None \<Rightarrow> False
      | Some p \<Rightarrow> jp_job_id p = job_id \<and> jp_role p \<in> roles)"

definition any_role :: "ParticipantRole set" where
  "any_role = {CUSTOMER, COMPANY_MANAGER, FIELD_WORKER}"

definition id_json :: "uuid \<Rightarrow> json" where
  "id_json u = JStr (uuid_str u)"

definition id_opt_json :: "uuid option \<Rightarrow> json" where
  "id_opt_json u = json_opt id_json u"

text \<open>The digest \<open>sha256_hex\<close> is assumed to have the documented shape: 64 lowercase
  hexadecimal digits.\<close>

definition digests_ok :: "db \<Rightarrow> bool" where
  "digests_ok s = (\<forall>t. hash_text (sha256_hex s t))"

lemma add_audit_simps [simp]:
  "rng (add_audit_event j ty a p now s) = rng s"
  "drawn (add_audit_event j ty a p now s) = Suc (drawn s)"
  "sha256_hex (add_audit_event j ty a p now s) = sha256_hex s"
  "participants (add_audit_event j ty a p now s) = participants s"
  "move_jobs (add_audit_event j ty a p now s) = move_jobs s"
  "locations (add_audit_event j ty a p now s) = locations s"
  "room_zones (add_audit_event j ty a p now s) = room_zones s"
  "scope_versions (add_audit_event j ty a p now s) = scope_versions s"
  "scope_approvals (add_audit_event j ty a p now s) = scope_approvals s"
  "change_requests (add_audit_event j ty a p now s) = change_requests s"
  "change_evidence (add_audit_event j ty a p now s) = change_evidence s"
  "outbox (add_audit_event j ty a p now s) = outbox s"
  by (simp_all add: add_audit_event_def uuid4_def)

lemma add_audit_trail:
  "audit_events (add_audit_event j ty a p now s) = audit_events s @ [\<lparr>ae_id = rng s (drawn s), ae_job_id = j,
     ae_event_type = ty, ae_actor_participant_id = a, ae_payload = p, ae_occurred_at = now\<rparr>]"
  by (simp add: add_audit_event_def uuid4_def)

lemma uuid_text_id [simp]: "uuid_text (Some (id_json u))"
  by (simp add: id_json_def)

text \<open>A loop that may stop with an exception.\<close>

fun mapR :: "('a \<Rightarrow> 'b result) \<Rightarrow> 'a list \<Rightarrow> 'b list result" where
  "mapR f [] = Inr []"
| "mapR f (x # xs) = bindR (f x) (\<lambda>y. bindR (mapR f xs) (\<lambda>ys. Inr (y # ys)))"

lemma mapR_length: "mapR f xs = Inr ys \<Longrightarrow> length ys = length xs"
  by (induction xs arbitrary: ys) (auto simp: bindR_Inr)

lemma mapR_nth: "mapR f xs = Inr ys \<Longrightarrow> k < length xs \<Longrightarrow> f (xs ! k) = Inr (ys ! k)"
  by (induction xs arbitrary: ys k) (auto simp: bindR_Inr nth_Cons split: nat.splits)

end
