(* ===== verification/Scope.thy ===== *)
theory Scope
  imports AuditTrail
begin

text \<open>
  Work-scope versions and change requests: \<open>app/modules/scope/service.py\<close> and the commands
  of \<open>app/modules/scope/schemas.py\<close>. A job has one linear chain of immutable versions; both
  business sides approve the head, which locks it, and a change request turns a locked head into
  its successor. Lemmas about these operations are in ScopeProofs.
\<close>

section \<open>Responses and commands\<close>

record ScopeVersionResponse =
  svr_id :: uuid
  svr_job_id :: uuid
  svr_parent_version_id :: "uuid option"
  svr_sequence_number :: int
  svr_content :: ScopeContent
  svr_content_hash :: string
  svr_created_by_participant_id :: "uuid option"
  svr_created_at :: instant
  svr_approval_roles :: "ParticipantRole list"
  svr_locked_at :: "instant option"
  svr_analysis_source :: "AnalysisResult option"

record ScopeApprovalResult =
  sar_approval :: ScopeApproval
  sar_version :: ScopeVersionResponse

record ChangeRequestCreate =
  crc_base_scope_version_id :: uuid
  crc_description :: string
  crc_proposed_content :: ScopeContent
  crc_evidence_media_asset_ids :: "uuid list"

datatype change_decision = APPROVE | REJECT

record ChangeDecisionCreate =
  cdc_decision :: change_decision
  cdc_note :: "string option"

definition change_request_create_ok :: "ChangeRequestCreate \<Rightarrow> bool" where
  "change_request_create_ok c = (text_between 1 2000 (crc_description c) \<and>
     scope_content_ok (crc_proposed_content c) \<and>
     1 \<le> length (crc_evidence_media_asset_ids c) \<and> length (crc_evidence_media_asset_ids c) \<le> 50 \<and>
     distinct (crc_evidence_media_asset_ids c))"

definition change_decision_create_ok :: "ChangeDecisionCreate \<Rightarrow> bool" where
  "change_decision_create_ok c = (optional_text 1 2000 (cdc_note c) \<and>
     \<not> (cdc_decision c = REJECT \<and> cdc_note c = None))"

record ChangeRequestResponse =
  crr_request :: ChangeRequest
  crr_evidence_media_asset_ids :: "uuid list"

definition REQUIRED_APPROVAL_ROLES :: "ParticipantRole list" where
  "REQUIRED_APPROVAL_ROLES = [CUSTOMER, COMPANY_MANAGER]"

section \<open>Content\<close>

text \<open>Constructing a \<open>ScopeContent\<close> runs its validators.\<close>

definition mk_scope_content :: "ScopeContent \<Rightarrow> ScopeContent result" where
  "mk_scope_content c = (if scope_content_ok c then Inr c else Inl ValueError)"

definition normalize_scope_content :: "ScopeContent \<Rightarrow> ScopeContent" where
  "normalize_scope_content c = c\<lparr>sc_items := sort_key item_key (sc_items c),
     sc_location_conditions :=
       sort_key (\<lambda>l. (location_kind_value (sl_kind l), uuid_str (sl_location_id l)))
         (sc_location_conditions c)\<rparr>"

definition job_locations :: "uuid \<Rightarrow> db \<Rightarrow> Location list" where
  "job_locations job_id s = sort_key (\<lambda>l. (location_kind_value (loc_kind l), loc_id l))
     (filter (\<lambda>l. loc_job_id l = job_id) (locations s))"

definition location_snapshot :: "Location \<Rightarrow> ScopeLocationConditions" where
  "location_snapshot l = \<lparr>sl_location_id = loc_id l, sl_kind = loc_kind l, sl_conditions = loc_conditions l\<rparr>"

definition with_location_condition_snapshot :: "uuid \<Rightarrow> ScopeContent \<Rightarrow> db \<Rightarrow> ScopeContent result" where
  "with_location_condition_snapshot job_id c s =
     (if sc_schema_version c = 1 then Inr c
      else let locs = job_locations job_id s in
        if locs = [] then Inl ScopeResourceNotFoundError
        else if sc_location_conditions c \<noteq> [] then
          if set (map sl_location_id (sc_location_conditions c)) \<noteq> set (map loc_id locs)
          then Inl ScopeResourceNotFoundError
          else if list_ex (\<lambda>l. map_option loc_kind (row loc_id (sl_location_id l) locs) \<noteq> Some (sl_kind l))
                 (sc_location_conditions c)
          then Inl ScopeResourceNotFoundError
          else Inr c
        else mk_scope_content (c\<lparr>sc_location_conditions := map location_snapshot locs\<rparr>))"

definition zone_in_job :: "uuid \<Rightarrow> RoomZone \<Rightarrow> db \<Rightarrow> bool" where
  "zone_in_job job_id z s = (case row loc_id (rz_location_id z) (locations s) of
     None \<Rightarrow> False | Some l \<Rightarrow> loc_job_id l = job_id)"

definition validate_scope_zones :: "uuid \<Rightarrow> ScopeContent \<Rightarrow> db \<Rightarrow> unit result" where
  "validate_scope_zones job_id c s = (let requested = set (map item_zone (sc_items c)) in
     if set (map rz_id (filter (\<lambda>z. rz_id z \<in> requested \<and> zone_in_job job_id z s) (room_zones s)))
        \<noteq> requested
     then Inl ScopeResourceNotFoundError else Inr ())"

definition content_hash_of :: "ScopeContent \<Rightarrow> db \<Rightarrow> string" where
  "content_hash_of c s = sha256_hex s (canonical_text c)"

section \<open>Versions\<close>

definition approval_roles_of :: "uuid \<Rightarrow> db \<Rightarrow> ParticipantRole list" where
  "approval_roles_of i s = map sa_role (filter (\<lambda>a. sa_scope_version_id a = i) (scope_approvals s))"

definition scope_version_response :: "ScopeVersion \<Rightarrow> db \<Rightarrow> ScopeVersionResponse" where
  "scope_version_response v s = \<lparr>svr_id = sv_id v, svr_job_id = sv_job_id v,
     svr_parent_version_id = sv_parent_version_id v, svr_sequence_number = sv_sequence_number v,
     svr_content = sv_content v, svr_content_hash = sv_content_hash v,
     svr_created_by_participant_id = sv_created_by_participant_id v,
     svr_created_at = sv_created_at v,
     svr_approval_roles = filter (\<lambda>r. r \<in> set (approval_roles_of (sv_id v) s)) REQUIRED_APPROVAL_ROLES,
     svr_locked_at = sv_locked_at v, svr_analysis_source = sv_analysis_source v\<rparr>"

definition has_child :: "uuid \<Rightarrow> db \<Rightarrow> bool" where
  "has_child i s = list_ex (\<lambda>v. sv_parent_version_id v = Some i) (scope_versions s)"

text \<open>INSERT: the CHECK constraints and the unique keys of \<open>scope_version\<close>.\<close>

definition scope_version_clash :: "ScopeVersion \<Rightarrow> ScopeVersion \<Rightarrow> bool" where
  "scope_version_clash r v =
     (sv_id v = sv_id r \<or>
      (sv_job_id v = sv_job_id r \<and> sv_sequence_number v = sv_sequence_number r) \<or>
      (sv_parent_version_id r \<noteq> None \<and> sv_parent_version_id v = sv_parent_version_id r) \<or>
      (sv_source_analysis_run_id r \<noteq> None \<and> sv_source_analysis_run_id v = sv_source_analysis_run_id r) \<or>
      (sv_parent_version_id r = None \<and> sv_parent_version_id v = None \<and> sv_job_id v = sv_job_id r))"

definition insert_scope_version :: "ScopeVersion \<Rightarrow> db \<Rightarrow> db result" where
  "insert_scope_version r s =
     (if \<not> scope_version_check r \<or> list_ex (scope_version_clash r) (scope_versions s)
      then Inl IntegrityError else Inr (s\<lparr>scope_versions := scope_versions s @ [r]\<rparr>))"

text \<open>The sequence number of a version with the given parent, with every check on the parent.\<close>

definition next_sequence_number :: "uuid \<Rightarrow> uuid option \<Rightarrow> bool \<Rightarrow> db \<Rightarrow> int result" where
  "next_sequence_number job_id parent_id from_locked_parent s = (case parent_id of
     None \<Rightarrow>
       if list_ex (\<lambda>v. sv_job_id v = job_id \<and> sv_parent_version_id v = None) (scope_versions s)
       then Inl ScopeVersionConflictError else Inr 1
   | Some p \<Rightarrow> (case row sv_id p (scope_versions s) of
       None \<Rightarrow> Inl ScopeResourceNotFoundError
     | Some parent \<Rightarrow>
         if sv_job_id parent \<noteq> job_id then Inl ScopeResourceNotFoundError
         else if from_locked_parent \<noteq> (sv_locked_at parent \<noteq> None) then Inl ScopeVersionConflictError
         else if \<not> from_locked_parent \<and>
            list_ex (\<lambda>r. cr_result_scope_version_id r = Some p) (change_requests s)
         then Inl ScopeVersionConflictError
         else if has_child p s then Inl ScopeVersionConflictError
         else Inr (sv_sequence_number parent + 1)))"

definition version_payload :: "ScopeVersion \<Rightarrow> (string \<times> json) list" where
  "version_payload v = [(''scope_version_id'', id_json (sv_id v)),
     (''parent_version_id'', id_opt_json (sv_parent_version_id v)),
     (''sequence_number'', JInt (sv_sequence_number v)),
     (''content_hash'', JStr (sv_content_hash v)),
     (''origin'', JStr (if sv_analysis_source v \<noteq> None then ''analysis'' else ''participant''))]"

definition new_scope_version ::
    "uuid \<Rightarrow> uuid \<Rightarrow> uuid option \<Rightarrow> int \<Rightarrow> ScopeContent \<Rightarrow> string \<Rightarrow> AnalysisResult option \<Rightarrow> uuid option \<Rightarrow>
     instant \<Rightarrow> ScopeVersion" where
  "new_scope_version i job_id parent_id seq c h source participant_id now =
     \<lparr>sv_id = i, sv_job_id = job_id, sv_parent_version_id = parent_id, sv_sequence_number = seq,
      sv_content = c, sv_content_hash = h,
      sv_source_analysis_run_id = map_option an_analysis_run_id source,
      sv_source_capture_session_id = map_option an_capture_session_id source,
      sv_analysis_source = source, sv_created_by_participant_id = participant_id,
      sv_created_at = now, sv_locked_at = None\<rparr>"

definition store_scope_version ::
    "uuid \<Rightarrow> uuid option \<Rightarrow> uuid option \<Rightarrow> int \<Rightarrow> ScopeContent \<Rightarrow> AnalysisResult option \<Rightarrow> instant \<Rightarrow> db \<Rightarrow>
     (ScopeVersionResponse \<times> db) result" where
  "store_scope_version job_id participant_id parent_id seq c source now s =
     (let nc = normalize_scope_content c;
          (i, s1) = uuid4 s;
          v = new_scope_version i job_id parent_id seq nc (content_hash_of nc s) source participant_id now in
      case insert_scope_version v s1 of
        Inl _ \<Rightarrow> Inl ScopeVersionConflictError
      | Inr s2 \<Rightarrow> let s3 = add_audit_event job_id AU_SCOPE_VERSION_CREATED participant_id
                     (version_payload v) now s2 in
          Inr (scope_version_response v s3, s3))"

definition create_scope_version ::
    "uuid \<Rightarrow> uuid option \<Rightarrow> uuid option \<Rightarrow> ScopeContent \<Rightarrow> AnalysisResult option \<Rightarrow> bool \<Rightarrow> instant \<Rightarrow> db \<Rightarrow>
     (ScopeVersionResponse \<times> db) result" where
  "create_scope_version job_id participant_id parent_id content source from_locked_parent now s =
     (if (source \<noteq> None) = (participant_id \<noteq> None) then Inl AnalysisDraftInvalidError
      else if (case participant_id of None \<Rightarrow> False | Some p \<Rightarrow> \<not> is_participant job_id p any_role s)
      then Inl ScopeResourceNotFoundError
      else
      bindR (with_location_condition_snapshot job_id content s) (\<lambda>c.
      bindR (validate_scope_zones job_id c s) (\<lambda>_.
      bindR (next_sequence_number job_id parent_id from_locked_parent s) (\<lambda>seq.
      store_scope_version job_id participant_id parent_id seq c source now s))))"

definition list_scope_versions :: "uuid \<Rightarrow> db \<Rightarrow> ScopeVersionResponse list" where
  "list_scope_versions job_id s = map (\<lambda>v. scope_version_response v s)
     (sort_key sv_sequence_number (filter (\<lambda>v. sv_job_id v = job_id) (scope_versions s)))"

section \<open>Approval\<close>

definition insert_scope_approval :: "ScopeApproval \<Rightarrow> db \<Rightarrow> db result" where
  "insert_scope_approval a s =
     (if \<not> scope_approval_check a \<or>
         list_ex (\<lambda>b. sa_scope_version_id b = sa_scope_version_id a \<and> sa_role b = sa_role a) (scope_approvals s)
      then Inl IntegrityError else Inr (s\<lparr>scope_approvals := scope_approvals s @ [a]\<rparr>))"

definition put_version :: "ScopeVersion \<Rightarrow> db \<Rightarrow> db" where
  "put_version v s = s\<lparr>scope_versions := put_row sv_id v (scope_versions s)\<rparr>"

definition version_of_job :: "uuid \<Rightarrow> uuid \<Rightarrow> db \<Rightarrow> ScopeVersion option" where
  "version_of_job job_id i s = (case row sv_id i (scope_versions s) of None \<Rightarrow> None
     | Some v \<Rightarrow> if sv_job_id v = job_id then Some v else None)"

definition lock_payload :: "ScopeVersion \<Rightarrow> (string \<times> json) list" where
  "lock_payload v = [(''scope_version_id'', id_json (sv_id v)), (''content_hash'', JStr (sv_content_hash v))]"

text \<open>The second approval locks the version and announces it.\<close>

definition lock_scope_version ::
    "uuid \<Rightarrow> ScopeVersion \<Rightarrow> uuid \<Rightarrow> string option \<Rightarrow> instant \<Rightarrow> db \<Rightarrow> db result" where
  "lock_scope_version job_id v participant_id trace now s =
     (let s1 = add_audit_event job_id AU_SCOPE_VERSION_LOCKED (Some participant_id) (lock_payload v) now s in
      bindR (enqueue_domain_event SCOPE_LOCKED_V1 job_id (Some participant_id) trace (lock_payload v) now s1)
        (\<lambda>(_, s2). Inr s2))"

definition approve_scope_version ::
    "uuid \<Rightarrow> uuid \<Rightarrow> uuid \<Rightarrow> ParticipantRole \<Rightarrow> string option \<Rightarrow> instant \<Rightarrow> db \<Rightarrow>
     (ScopeApprovalResult \<times> db) result" where
  "approve_scope_version job_id version_id participant_id role trace now s =
     (if \<not> is_participant job_id participant_id {role} s then Inl ScopeResourceNotFoundError
      else case version_of_job job_id version_id s of
        None \<Rightarrow> Inl ScopeResourceNotFoundError
      | Some v \<Rightarrow>
          if sv_locked_at v \<noteq> None \<or> sv_analysis_source v \<noteq> None then Inl ScopeApprovalConflictError
          else if has_child version_id s then Inl ScopeApprovalConflictError
          else let existing = set (approval_roles_of version_id s) in
            if role \<in> existing then Inl ScopeApprovalConflictError
            else let (i, s1) = uuid4 s;
                     a = \<lparr>sa_id = i, sa_scope_version_id = version_id, sa_participant_id = participant_id,
                          sa_role = role, sa_approved_at = now\<rparr>;
                     locked_now = (existing \<union> {role} = set REQUIRED_APPROVAL_ROLES);
                     v' = (if locked_now then v\<lparr>sv_locked_at := Some now\<rparr> else v);
                     s2 = add_audit_event job_id AU_SCOPE_VERSION_APPROVED (Some participant_id)
                            [(''scope_version_id'', id_json version_id), (''role'', JStr (role_value role))] now s1 in
              bindR (if locked_now then lock_scope_version job_id v' participant_id trace now s2 else Inr s2) (\<lambda>s3.
              (case insert_scope_approval a (put_version v' s3) of
                 Inl _ \<Rightarrow> Inl ScopeApprovalConflictError
               | Inr s4 \<Rightarrow> Inr (\<lparr>sar_approval = a, sar_version = scope_version_response v' s4\<rparr>, s4))))"

section \<open>Importing an analysis draft\<close>

definition usable_media :: "MediaAsset \<Rightarrow> bool" where
  "usable_media a = (ma_status a \<in> {UPLOADED, READY})"

definition result_items :: "AnalysisResult \<Rightarrow> DraftItem list" where
  "result_items r = an_draft_items r @ an_review_required_items r"

definition result_source_ids :: "AnalysisResult \<Rightarrow> uuid set" where
  "result_source_ids r = set (concat (map di_source_media_asset_ids (result_items r))) \<union>
     set (concat (map dl_source_media_asset_ids (an_location_condition_suggestions r)))"

definition result_assets :: "AnalysisResult \<Rightarrow> db \<Rightarrow> MediaAsset list" where
  "result_assets r s = filter (\<lambda>a. ma_id a \<in> result_source_ids r \<and>
     ma_capture_session_id a = an_capture_session_id r \<and> usable_media a) (media_assets s)"

definition asset_zone :: "MediaAsset list \<Rightarrow> uuid \<Rightarrow> uuid option" where
  "asset_zone assets i = map_option ma_room_zone_id (row ma_id i assets)"

text \<open>One draft line becomes one scope item, in the single room its sources show.\<close>

definition scope_item_of_draft :: "AnalysisResult \<Rightarrow> MediaAsset list \<Rightarrow> DraftItem \<Rightarrow> ScopeItem result" where
  "scope_item_of_draft r assets d =
     (case remdups (map (asset_zone assets) (di_source_media_asset_ids d)) of
        [Some zone] \<Rightarrow>
          (let item = (if an_result_schema_version r = 1 then
             Some (Item1 \<lparr>i1_item_key = di_item_key d, i1_room_zone_id = zone,
                     i1_description = di_description d\<rparr>)
           else map_option (\<lambda>name. Item2 \<lparr>i2_item_key = di_item_key d, i2_room_zone_id = zone,
             i2_name = name, i2_quantity = di_quantity d, i2_unit = di_unit d,
             i2_work_note = di_work_note d,
             i2_review_status = (if di_item_key d \<in> set (map di_item_key (an_review_required_items r))
                then REVIEW_REQUIRED else CONFIRMED_ITEM), i2_source = SOURCE_AI\<rparr>) (di_name d)) in
           case item of None \<Rightarrow> Inl ValueError
           | Some it \<Rightarrow> if scope_item_ok it then Inr it else Inl ValueError)
      | _ \<Rightarrow> Inl AnalysisDraftInvalidError)"

definition analysis_location_conditions :: "DraftLocationCondition \<Rightarrow> LocationConditions" where
  "analysis_location_conditions d = default_conditions\<lparr>lc_residence_type := dl_residence_type d,
     lc_floor := dl_floor d, lc_elevator := dl_elevator d, lc_stairs := dl_stairs d,
     lc_parking_access := dl_parking_access d, lc_carry_distance := dl_carry_distance d,
     lc_access_note := dl_access_note d\<rparr>"

definition suggestion_fits ::
    "uuid \<Rightarrow> AnalysisResult \<Rightarrow> MediaAsset list \<Rightarrow> Location list \<Rightarrow> db \<Rightarrow> DraftLocationCondition \<Rightarrow> bool" where
  "suggestion_fits job_id r assets locs s d =
     (map_option loc_kind (row loc_id (dl_location_id d) locs) = Some (dl_location_kind d) \<and>
      set (map (\<lambda>m. map_option rz_location_id (case asset_zone assets m of None \<Rightarrow> None
              | Some z \<Rightarrow> row rz_id z (room_zones s))) (dl_source_media_asset_ids d))
        = {Some (dl_location_id d)})"

definition analysis_locations ::
    "uuid \<Rightarrow> AnalysisResult \<Rightarrow> MediaAsset list \<Rightarrow> db \<Rightarrow> ScopeLocationConditions list result" where
  "analysis_locations job_id r assets s =
     (if an_result_schema_version r \<noteq> 2 then Inr []
      else let locs = job_locations job_id s;
               sugg = an_location_condition_suggestions r in
        if locs = [] then Inl AnalysisDraftInvalidError
        else if list_ex (\<lambda>a. row rz_id (ma_room_zone_id a) (room_zones s) = None) assets
        then Inl AnalysisDraftInvalidError
        else if \<not> list_all (suggestion_fits job_id r assets locs s) sugg then Inl AnalysisDraftInvalidError
        else Inr (map (\<lambda>l. (location_snapshot l)\<lparr>sl_conditions :=
               (case find (\<lambda>d. dl_location_id d = loc_id l) (rev sugg) of
                  Some d \<Rightarrow> analysis_location_conditions d | None \<Rightarrow> loc_conditions l)\<rparr>) locs))"

definition import_analysis_draft ::
    "uuid \<Rightarrow> AnalysisResult \<Rightarrow> uuid option \<Rightarrow> instant \<Rightarrow> db \<Rightarrow> (ScopeVersionResponse \<times> db) result" where
  "import_analysis_draft job_id r parent_id now s =
     (let items = result_items r; assets = result_assets r s in
      if list_ex (\<lambda>v. sv_source_analysis_run_id v = Some (an_analysis_run_id r)) (scope_versions s)
      then Inl ScopeVersionConflictError
      else if map_option cs_job_id (row cs_id (an_capture_session_id r) (capture_sessions s)) \<noteq> Some job_id
      then Inl ScopeResourceNotFoundError
      else if items = [] \<or> \<not> distinct (map di_item_key items) then Inl AnalysisDraftInvalidError
      else if list_ex (\<lambda>d. di_source_media_asset_ids d = [] \<or> \<not> distinct (di_source_media_asset_ids d)) items
      then Inl AnalysisDraftInvalidError
      else if set (map ma_id assets) \<noteq> result_source_ids r then Inl AnalysisDraftInvalidError
      else
      bindR (mapR (scope_item_of_draft r assets) items) (\<lambda>its.
      bindR (analysis_locations job_id r assets s) (\<lambda>locs.
      bindR (mk_scope_content \<lparr>sc_schema_version = an_result_schema_version r, sc_items = its,
               sc_location_conditions = locs\<rparr>) (\<lambda>c.
      create_scope_version job_id None parent_id c (Some r) False now s))))"

section \<open>Change requests\<close>

definition change_request_response :: "ChangeRequest \<Rightarrow> db \<Rightarrow> ChangeRequestResponse" where
  "change_request_response r s = \<lparr>crr_request = r, crr_evidence_media_asset_ids =
     sort (map ce_media_asset_id (filter (\<lambda>e. ce_change_request_id e = cr_id r) (change_evidence s)))\<rparr>"

definition change_evidence_media :: "uuid \<Rightarrow> uuid \<Rightarrow> MediaAsset \<Rightarrow> db \<Rightarrow> bool" where
  "change_evidence_media job_id participant_id a s =
     (ma_media_purpose a = CHANGE_EVIDENCE \<and> usable_media a \<and>
      (case row cs_id (ma_capture_session_id a) (capture_sessions s) of None \<Rightarrow> False
       | Some c \<Rightarrow> cs_job_id c = job_id \<and> cs_created_by_participant_id c = participant_id))"

definition change_event_payload :: "ChangeRequest \<Rightarrow> uuid list \<Rightarrow> (string \<times> json) list" where
  "change_event_payload r ids = [(''change_request_id'', id_json (cr_id r)),
     (''base_scope_version_id'', id_json (cr_base_scope_version_id r)),
     (''evidence_media_asset_ids'', JList (map JStr (sort (map uuid_str ids))))]"

definition new_change_request :: "uuid \<Rightarrow> uuid \<Rightarrow> uuid \<Rightarrow> ChangeRequestCreate \<Rightarrow> instant \<Rightarrow> ChangeRequest" where
  "new_change_request i job_id participant_id cmd now =
     \<lparr>cr_id = i, cr_job_id = job_id, cr_base_scope_version_id = crc_base_scope_version_id cmd,
      cr_requested_by_participant_id = participant_id, cr_description = crc_description cmd,
      cr_proposed_content = normalize_scope_content (crc_proposed_content cmd),
      cr_status = CR_PENDING, cr_clarification_requested_by_participant_id = None,
      cr_clarification_request = None, cr_clarification_requested_at = None,
      cr_explanation = None, cr_explained_at = None, cr_decided_by_participant_id = None,
      cr_decision_note = None, cr_decided_at = None, cr_result_scope_version_id = None,
      cr_created_at = now\<rparr>"

definition create_change_request ::
    "uuid \<Rightarrow> uuid \<Rightarrow> ChangeRequestCreate \<Rightarrow> string option \<Rightarrow> instant \<Rightarrow> db \<Rightarrow>
     (ChangeRequestResponse \<times> db) result" where
  "create_change_request job_id participant_id cmd trace now s =
     (case row mj_id job_id (move_jobs s) of
        None \<Rightarrow> Inl ScopeResourceNotFoundError
      | Some job \<Rightarrow>
          if mj_status job \<in> {COMPLETED, CANCELED} then Inl ChangeRequestConflictError
          else if \<not> is_participant job_id participant_id {FIELD_WORKER} s then Inl ScopeResourceNotFoundError
          else if list_ex (\<lambda>c. cc_job_id c = job_id) (completion_confirmations s)
          then Inl ChangeRequestConflictError
          else (case version_of_job job_id (crc_base_scope_version_id cmd) s of
            None \<Rightarrow> Inl ScopeResourceNotFoundError
          | Some base \<Rightarrow>
              if sv_locked_at base = None then Inl ChangeRequestConflictError
              else if has_child (sv_id base) s then Inl ChangeRequestConflictError
              else bindR (validate_scope_zones job_id (crc_proposed_content cmd) s) (\<lambda>_.
                if content_json (normalize_scope_content (crc_proposed_content cmd))
                   = content_json (sv_content base) then Inl ChangeRequestInvalidError
                else if set (map ma_id (filter (\<lambda>a. ma_id a \<in> set (crc_evidence_media_asset_ids cmd) \<and>
                       change_evidence_media job_id participant_id a s) (media_assets s)))
                     \<noteq> set (crc_evidence_media_asset_ids cmd)
                then Inl ChangeRequestInvalidError
                else let (i, s1) = uuid4 s;
                         r = new_change_request i job_id participant_id cmd now;
                         s2 = s1\<lparr>change_requests := change_requests s1 @ [r],
                           change_evidence := change_evidence s1 @
                             map (\<lambda>m. \<lparr>ce_change_request_id = i, ce_media_asset_id = m\<rparr>)
                               (crc_evidence_media_asset_ids cmd)\<rparr>;
                         payload = change_event_payload r (crc_evidence_media_asset_ids cmd);
                         s3 = add_audit_event job_id AU_CHANGE_REQUESTED (Some participant_id) payload now s2 in
                  bindR (enqueue_domain_event CHANGE_REQUESTED_V1 job_id (Some participant_id) trace
                           payload now s3) (\<lambda>(_, s4).
                  Inr (change_request_response r s4, s4)))))"

definition list_change_requests :: "uuid \<Rightarrow> db \<Rightarrow> ChangeRequestResponse list" where
  "list_change_requests job_id s = map (\<lambda>r. change_request_response r s)
     (sort_key (\<lambda>r. (cr_created_at r, cr_id r)) (filter (\<lambda>r. cr_job_id r = job_id) (change_requests s)))"

text \<open>The checks before an evidence read URL is asked of the storage: the object to read.\<close>

definition change_evidence_to_read ::
    "uuid \<Rightarrow> uuid \<Rightarrow> uuid \<Rightarrow> uuid \<Rightarrow> db \<Rightarrow> (string \<times> string) result" where
  "change_evidence_to_read job_id request_id asset_id participant_id s =
     (if \<not> is_participant job_id participant_id {CUSTOMER, COMPANY_MANAGER} s
      then Inl ScopeResourceNotFoundError
      else case (row ma_id asset_id (media_assets s), row cr_id request_id (change_requests s)) of
        (Some a, Some r) \<Rightarrow>
          if cr_job_id r \<noteq> job_id \<or> ma_media_purpose a \<noteq> CHANGE_EVIDENCE \<or>
             map_option cs_job_id (row cs_id (ma_capture_session_id a) (capture_sessions s)) \<noteq> Some job_id \<or>
             \<not> list_ex (\<lambda>e. ce_change_request_id e = request_id \<and> ce_media_asset_id e = asset_id) (change_evidence s)
          then Inl ScopeResourceNotFoundError
          else (case ma_generation a of
            None \<Rightarrow> Inl ChangeRequestConflictError
          | Some g \<Rightarrow> if ma_status a \<noteq> READY \<or> g = [] \<or> strip g \<noteq> g then Inl ChangeRequestConflictError
                      else Inr (ma_object_key a, g))
      | _ \<Rightarrow> Inl ScopeResourceNotFoundError)"

definition load_change_request :: "uuid \<Rightarrow> uuid \<Rightarrow> db \<Rightarrow> ChangeRequest result" where
  "load_change_request job_id i s = (case row cr_id i (change_requests s) of
     None \<Rightarrow> Inl ScopeResourceNotFoundError
   | Some r \<Rightarrow> if cr_job_id r = job_id then Inr r else Inl ScopeResourceNotFoundError)"

definition put_request :: "ChangeRequest \<Rightarrow> db \<Rightarrow> db" where
  "put_request r s = s\<lparr>change_requests := put_row cr_id r (change_requests s)\<rparr>"

definition request_change_clarification ::
    "uuid \<Rightarrow> uuid \<Rightarrow> uuid \<Rightarrow> string \<Rightarrow> instant \<Rightarrow> db \<Rightarrow> (ChangeRequestResponse \<times> db) result" where
  "request_change_clarification job_id i participant_id message now s =
     (if \<not> is_participant job_id participant_id {CUSTOMER, COMPANY_MANAGER} s
      then Inl ScopeResourceNotFoundError
      else bindR (load_change_request job_id i s) (\<lambda>r.
        if cr_status r \<noteq> CR_PENDING \<or> (case cr_clarification_request r of None \<Rightarrow> False | Some t \<Rightarrow> t \<noteq> [])
        then Inl ChangeRequestConflictError
        else let r' = r\<lparr>cr_status := CR_CLARIFICATION_REQUESTED,
                   cr_clarification_requested_by_participant_id := Some participant_id,
                   cr_clarification_request := Some message, cr_clarification_requested_at := Some now\<rparr>;
                 s' = add_audit_event job_id AU_CHANGE_CLARIFICATION_REQUESTED (Some participant_id)
                        [(''change_request_id'', id_json i)] now (put_request r' s) in
          Inr (change_request_response r' s', s')))"

definition explain_change_request ::
    "uuid \<Rightarrow> uuid \<Rightarrow> uuid \<Rightarrow> string \<Rightarrow> instant \<Rightarrow> db \<Rightarrow> (ChangeRequestResponse \<times> db) result" where
  "explain_change_request job_id i participant_id explanation now s =
     (if \<not> is_participant job_id participant_id {FIELD_WORKER} s then Inl ScopeResourceNotFoundError
      else bindR (load_change_request job_id i s) (\<lambda>r.
        if cr_status r \<noteq> CR_CLARIFICATION_REQUESTED \<or> cr_requested_by_participant_id r \<noteq> participant_id
        then Inl ChangeRequestConflictError
        else let r' = r\<lparr>cr_status := CR_PENDING, cr_explanation := Some explanation,
                   cr_explained_at := Some now\<rparr>;
                 s' = add_audit_event job_id AU_CHANGE_EXPLAINED (Some participant_id)
                        [(''change_request_id'', id_json i)] now (put_request r' s) in
          Inr (change_request_response r' s', s')))"

text \<open>An approval makes the proposed content the successor of the locked base version.\<close>

definition decided_request ::
    "uuid \<Rightarrow> ChangeRequest \<Rightarrow> uuid \<Rightarrow> ChangeDecisionCreate \<Rightarrow> instant \<Rightarrow> db \<Rightarrow> (ChangeRequest \<times> db) result" where
  "decided_request job_id r participant_id cmd now s = (case cdc_decision cmd of
     REJECT \<Rightarrow> Inr (r\<lparr>cr_status := CR_REJECTED\<rparr>, s)
   | APPROVE \<Rightarrow> (case create_scope_version job_id (Some participant_id)
         (Some (cr_base_scope_version_id r)) (cr_proposed_content r) None True now s of
         Inl ScopeVersionConflictError \<Rightarrow> Inl ChangeRequestConflictError
       | Inl e \<Rightarrow> Inl e
       | Inr (v, s1) \<Rightarrow> Inr (r\<lparr>cr_status := CR_APPROVED,
           cr_result_scope_version_id := Some (svr_id v)\<rparr>, s1)))"

definition decide_change_request ::
    "uuid \<Rightarrow> uuid \<Rightarrow> uuid \<Rightarrow> ChangeDecisionCreate \<Rightarrow> instant \<Rightarrow> db \<Rightarrow> (ChangeRequestResponse \<times> db) result" where
  "decide_change_request job_id i participant_id cmd now s =
     (if \<not> is_participant job_id participant_id {CUSTOMER, COMPANY_MANAGER} s
      then Inl ScopeResourceNotFoundError
      else bindR (load_change_request job_id i s) (\<lambda>r.
        if cr_status r \<noteq> CR_PENDING then Inl ChangeRequestConflictError
        else bindR (decided_request job_id r participant_id cmd now s) (\<lambda>(r1, s1).
          let r' = r1\<lparr>cr_decided_by_participant_id := Some participant_id,
                cr_decision_note := cdc_note cmd, cr_decided_at := Some now\<rparr>;
              s' = add_audit_event job_id
                     (if cr_status r' = CR_APPROVED then AU_CHANGE_APPROVED else AU_CHANGE_REJECTED)
                     (Some participant_id) [(''change_request_id'', id_json i),
                        (''result_scope_version_id'', id_opt_json (cr_result_scope_version_id r'))]
                     now (put_request r' s1) in
          Inr (change_request_response r' s', s'))))"

end
