(* ===== verification/ScopeReview.thy ===== *)
theory ScopeReview
  imports Scope
begin

text \<open>
  Quoted scope proposals: the commands of \<open>app/modules/scope_review/service.py\<close> and its
  confirmation history. The company answers a customer's scope with a quoted child version,
  the customer confirms it or asks for a revision, and a revision is answered by the next
  proposal. Lemmas are in ScopeReviewProofs.
\<close>

section \<open>Commands and responses\<close>

record ScopeProposalCreate =
  spc_source_scope_version_id :: uuid
  spc_content :: ScopeContent
  spc_quote :: QuoteSnapshot
  spc_execution_plan :: ExecutionPlanSnapshot
  spc_included_works :: "string list"
  spc_exclusions :: "string list"
  spc_reason :: string

definition execution_plan_ok :: "ExecutionPlanSnapshot \<Rightarrow> bool" where
  "execution_plan_ok p = (1 \<le> ep_vehicle_count p \<and> ep_vehicle_count p \<le> 20 \<and>
     text_between 1 200 (ep_vehicle_description p) \<and> 1 \<le> ep_worker_count p \<and> ep_worker_count p \<le> 100 \<and>
     30 \<le> ep_estimated_duration_minutes p \<and> ep_estimated_duration_minutes p \<le> 2880 \<and>
     optional_text 1 1000 (ep_notes p))"

definition scope_proposal_create_ok :: "ScopeProposalCreate \<Rightarrow> bool" where
  "scope_proposal_create_ok c = (scope_content_ok (spc_content c) \<and> quote_ok (spc_quote c) \<and>
     execution_plan_ok (spc_execution_plan c) \<and>
     length (spc_included_works c) \<le> 100 \<and> list_all (text_between 1 200) (spc_included_works c) \<and>
     length (spc_exclusions c) \<le> 100 \<and> list_all (text_between 1 200) (spc_exclusions c) \<and>
     text_between 1 2000 (spc_reason c) \<and>
     distinct (spc_included_works c) \<and> distinct (spc_exclusions c) \<and>
     set (spc_included_works c) \<inter> set (spc_exclusions c) = {})"

record ScopeProposalResponse =
  spr_proposal_id :: uuid
  spr_proposal_kind :: ScopeProposalKind
  spr_status :: ScopeProposalStatus
  spr_source_scope_version_id :: uuid
  spr_result_scope_version_id :: uuid
  spr_quote :: QuoteSnapshot
  spr_execution_plan :: ExecutionPlanSnapshot
  spr_included_works :: "string list"
  spr_exclusions :: "string list"
  spr_reason :: string
  spr_sent_at :: instant
  spr_confirmed_at :: "instant option"

record ScopeRevisionRequestResponse =
  rrr_revision_request_id :: uuid
  rrr_scope_proposal_id :: uuid
  rrr_scope_version_id :: uuid
  rrr_resolved :: bool
  rrr_reason :: string
  rrr_requested_at :: instant
  rrr_resolved_by_scope_proposal_id :: "uuid option"
  rrr_resolved_at :: "instant option"

record ScopeConfirmResponse =
  scr_proposal_id :: uuid
  scr_scope_version_id :: uuid
  scr_confirmed_at :: instant

definition quote_from_proposal :: "ScopeProposal \<Rightarrow> QuoteSnapshot" where
  "quote_from_proposal p = \<lparr>qs_base_amount_krw = sp_base_amount_krw p, qs_adjustments = sp_adjustments p,
     qs_total_amount_krw = sp_total_amount_krw p\<rparr>"

definition quote_from_change_detail :: "ChangeProposalDetail \<Rightarrow> QuoteSnapshot" where
  "quote_from_change_detail d = \<lparr>qs_base_amount_krw = pd_base_amount_krw d, qs_adjustments = pd_adjustments d,
     qs_total_amount_krw = pd_total_amount_krw d\<rparr>"

text \<open>Rendering a stored proposal validates its documents again.\<close>

definition proposal_response :: "ScopeProposal \<Rightarrow> ScopeProposalResponse result" where
  "proposal_response p = (case sp_execution_plan p of
     None \<Rightarrow> Inl ValueError
   | Some plan \<Rightarrow>
       if \<not> quote_ok (quote_from_proposal p) \<or> \<not> execution_plan_ok plan then Inl ValueError
       else Inr \<lparr>spr_proposal_id = sp_id p, spr_proposal_kind = sp_kind p, spr_status = sp_status p,
         spr_source_scope_version_id = sp_source_scope_version_id p,
         spr_result_scope_version_id = sp_result_scope_version_id p, spr_quote = quote_from_proposal p,
         spr_execution_plan = plan, spr_included_works = sp_included_works p,
         spr_exclusions = sp_exclusions p, spr_reason = sp_reason p, spr_sent_at = sp_sent_at p,
         spr_confirmed_at = sp_confirmed_at p\<rparr>)"

definition revision_response :: "ScopeRevisionRequest \<Rightarrow> ScopeRevisionRequestResponse" where
  "revision_response r = \<lparr>rrr_revision_request_id = rr_id r, rrr_scope_proposal_id = rr_scope_proposal_id r,
     rrr_scope_version_id = rr_scope_version_id r, rrr_resolved = (rr_resolved_at r \<noteq> None),
     rrr_reason = rr_reason r, rrr_requested_at = rr_requested_at r,
     rrr_resolved_by_scope_proposal_id = rr_resolved_by_scope_proposal_id r,
     rrr_resolved_at = rr_resolved_at r\<rparr>"

definition proposal_for_result :: "uuid \<Rightarrow> uuid \<Rightarrow> db \<Rightarrow> ScopeProposal option" where
  "proposal_for_result job_id version_id s =
     find (\<lambda>p. sp_job_id p = job_id \<and> sp_result_scope_version_id p = version_id) (scope_proposals s)"

definition revision_for_proposal :: "uuid \<Rightarrow> db \<Rightarrow> ScopeRevisionRequest option" where
  "revision_for_proposal proposal_id s =
     find (\<lambda>r. rr_scope_proposal_id r = proposal_id) (revision_requests s)"

section \<open>Sending a proposal\<close>

definition proposal_matches_replay ::
    "ScopeProposal \<Rightarrow> ScopeVersion \<Rightarrow> uuid \<Rightarrow> ScopeProposalCreate \<Rightarrow> bool" where
  "proposal_matches_replay p v participant_id cmd =
     (let nc = normalize_scope_content (spc_content cmd) in
      sp_proposed_by_participant_id p = participant_id \<and>
      (sv_content v = nc \<or>
       (sc_schema_version (spc_content cmd) = 2 \<and> sc_location_conditions (spc_content cmd) = [] \<and>
        sc_items (sv_content v) = sc_items nc)) \<and>
      quote_from_proposal p = spc_quote cmd \<and> sp_execution_plan p = Some (spc_execution_plan cmd) \<and>
      sp_included_works p = spc_included_works cmd \<and> sp_exclusions p = spc_exclusions cmd \<and>
      sp_reason p = spc_reason cmd)"

text \<open>Whether the source can be quoted, and as what: a customer's own version starts the
  negotiation, the result of an earlier proposal needs an open revision request.\<close>

definition proposal_basis ::
    "uuid \<Rightarrow> ScopeVersion \<Rightarrow> db \<Rightarrow> (ScopeProposalKind \<times> (ScopeProposal \<times> ScopeRevisionRequest) option) result" where
  "proposal_basis job_id source s =
     (if sv_locked_at source \<noteq> None \<or> has_child (sv_id source) s then Inl ScopeReviewConflictError
      else case proposal_for_result job_id (sv_id source) s of
        None \<Rightarrow> (case sv_created_by_participant_id source of
            None \<Rightarrow> Inl ScopeReviewConflictError
          | Some c \<Rightarrow> if is_participant job_id c {CUSTOMER} s then Inr (INITIAL, None)
                      else Inl ScopeReviewConflictError)
      | Some previous \<Rightarrow>
          if sp_status previous \<noteq> SP_REVISION_REQUESTED then Inl ScopeReviewConflictError
          else (case revision_for_proposal (sp_id previous) s of
            None \<Rightarrow> Inl ScopeReviewConflictError
          | Some r \<Rightarrow> if rr_resolved_at r \<noteq> None then Inl ScopeReviewConflictError
                      else Inr (REVISION, Some (previous, r))))"

definition new_proposal ::
    "uuid \<Rightarrow> uuid \<Rightarrow> uuid \<Rightarrow> uuid \<Rightarrow> ScopeProposalKind \<Rightarrow> ScopeProposalCreate \<Rightarrow> instant \<Rightarrow> ScopeProposal" where
  "new_proposal i job_id participant_id result_id kind cmd now =
     \<lparr>sp_id = i, sp_job_id = job_id, sp_source_scope_version_id = spc_source_scope_version_id cmd,
      sp_result_scope_version_id = result_id, sp_proposed_by_participant_id = participant_id,
      sp_kind = kind, sp_status = SP_CUSTOMER_REVIEW,
      sp_base_amount_krw = qs_base_amount_krw (spc_quote cmd),
      sp_adjustments = qs_adjustments (spc_quote cmd),
      sp_total_amount_krw = qs_total_amount_krw (spc_quote cmd),
      sp_execution_plan = Some (spc_execution_plan cmd), sp_included_works = spc_included_works cmd,
      sp_exclusions = spc_exclusions cmd, sp_reason = spc_reason cmd, sp_sent_at = now,
      sp_confirmed_at = None\<rparr>"

definition insert_proposal :: "ScopeProposal \<Rightarrow> db \<Rightarrow> db result" where
  "insert_proposal p s =
     (if \<not> scope_proposal_check p \<or>
         list_ex (\<lambda>q. sp_source_scope_version_id q = sp_source_scope_version_id p \<or>
                      sp_result_scope_version_id q = sp_result_scope_version_id p) (scope_proposals s)
      then Inl IntegrityError else Inr (s\<lparr>scope_proposals := scope_proposals s @ [p]\<rparr>))"

definition put_proposal :: "ScopeProposal \<Rightarrow> db \<Rightarrow> db" where
  "put_proposal p s = s\<lparr>scope_proposals := put_row sp_id p (scope_proposals s)\<rparr>"

definition put_revision :: "ScopeRevisionRequest \<Rightarrow> db \<Rightarrow> db" where
  "put_revision r s = s\<lparr>revision_requests := put_row rr_id r (revision_requests s)\<rparr>"

definition supersede :: "(ScopeProposal \<times> ScopeRevisionRequest) option \<Rightarrow> uuid \<Rightarrow> instant \<Rightarrow> db \<Rightarrow> db" where
  "supersede basis new_id now s = (case basis of None \<Rightarrow> s
     | Some (previous, r) \<Rightarrow> put_revision (r\<lparr>rr_resolved_by_scope_proposal_id := Some new_id,
         rr_resolved_at := Some now\<rparr>) (put_proposal (previous\<lparr>sp_status := SP_SUPERSEDED\<rparr>) s))"

definition send_proposal ::
    "uuid \<Rightarrow> uuid \<Rightarrow> ScopeProposalCreate \<Rightarrow> ScopeProposalKind \<Rightarrow> (ScopeProposal \<times> ScopeRevisionRequest) option \<Rightarrow>
     instant \<Rightarrow> db \<Rightarrow> (ScopeProposal \<times> db) result" where
  "send_proposal job_id participant_id cmd kind basis now s =
     bindR (create_scope_version job_id (Some participant_id) (Some (spc_source_scope_version_id cmd))
              (normalize_scope_content (spc_content cmd)) None False now s) (\<lambda>(v, s1).
     let (i, s2) = uuid4 s1; p = new_proposal i job_id participant_id (svr_id v) kind cmd now in
     (case insert_proposal p s2 of
        Inl _ \<Rightarrow> Inl ScopeReviewConflictError
      | Inr s3 \<Rightarrow>
          bindR (approve_scope_version job_id (svr_id v) participant_id COMPANY_MANAGER None now s3) (\<lambda>(_, s4).
          Inr (p, supersede basis (sp_id p) now s4))))"

definition create_scope_proposal ::
    "uuid \<Rightarrow> uuid \<Rightarrow> ScopeProposalCreate \<Rightarrow> instant \<Rightarrow> db \<Rightarrow> (ScopeProposalResponse \<times> db) result" where
  "create_scope_proposal job_id participant_id cmd now s =
     (case row mj_id job_id (move_jobs s) of
        None \<Rightarrow> Inl ScopeReviewNotFoundError
      | Some job \<Rightarrow>
          if mj_status job \<in> {COMPLETED, CANCELED} then Inl ScopeReviewConflictError
          else (case version_of_job job_id (spc_source_scope_version_id cmd) s of
            None \<Rightarrow> Inl ScopeReviewNotFoundError
          | Some source \<Rightarrow>
              (case find (\<lambda>p. sp_source_scope_version_id p = sv_id source) (scope_proposals s) of
                 Some existing \<Rightarrow>
                   (case row sv_id (sp_result_scope_version_id existing) (scope_versions s) of
                      None \<Rightarrow> Inl ScopeReviewConflictError
                    | Some v \<Rightarrow>
                        if proposal_matches_replay existing v participant_id cmd
                        then bindR (proposal_response existing) (\<lambda>resp. Inr (resp, s))
                        else Inl ScopeReviewConflictError)
               | None \<Rightarrow>
                   bindR (proposal_basis job_id source s) (\<lambda>(kind, basis).
                   bindR (send_proposal job_id participant_id cmd kind basis now s) (\<lambda>(p, s1).
                   bindR (proposal_response p) (\<lambda>resp. Inr (resp, s1)))))))"

section \<open>The customer's answer\<close>

definition insert_revision_request :: "ScopeRevisionRequest \<Rightarrow> db \<Rightarrow> db result" where
  "insert_revision_request r s =
     (if \<not> scope_revision_request_check r \<or>
         list_ex (\<lambda>q. rr_id q = rr_id r \<or> rr_scope_proposal_id q = rr_scope_proposal_id r \<or>
           rr_scope_version_id q = rr_scope_version_id r \<or>
           (rr_resolved_by_scope_proposal_id r \<noteq> None \<and>
            rr_resolved_by_scope_proposal_id q = rr_resolved_by_scope_proposal_id r)) (revision_requests s)
      then Inl IntegrityError else Inr (s\<lparr>revision_requests := revision_requests s @ [r]\<rparr>))"

definition request_scope_revision ::
    "uuid \<Rightarrow> uuid \<Rightarrow> uuid \<Rightarrow> string \<Rightarrow> instant \<Rightarrow> db \<Rightarrow> (ScopeRevisionRequestResponse \<times> db) result" where
  "request_scope_revision job_id participant_id version_id reason now s =
     (case proposal_for_result job_id version_id s of
        None \<Rightarrow> Inl ScopeReviewNotFoundError
      | Some p \<Rightarrow>
          (case revision_for_proposal (sp_id p) s of
             Some existing \<Rightarrow>
               if rr_requested_by_participant_id existing = participant_id \<and> rr_reason existing = reason
               then Inr (revision_response existing, s) else Inl ScopeReviewConflictError
           | None \<Rightarrow>
               if sp_status p \<noteq> SP_CUSTOMER_REVIEW \<or> has_child version_id s then Inl ScopeReviewConflictError
               else let (i, s1) = uuid4 s;
                        r = \<lparr>rr_id = i, rr_job_id = job_id, rr_scope_proposal_id = sp_id p,
                             rr_scope_version_id = version_id, rr_requested_by_participant_id = participant_id,
                             rr_reason = reason, rr_requested_at = now,
                             rr_resolved_by_scope_proposal_id = None, rr_resolved_at = None\<rparr> in
                 (case insert_revision_request r (put_proposal (p\<lparr>sp_status := SP_REVISION_REQUESTED\<rparr>) s1) of
                    Inl _ \<Rightarrow> Inl ScopeReviewConflictError
                  | Inr s2 \<Rightarrow> Inr (revision_response r, s2))))"

definition customer_approval :: "uuid \<Rightarrow> db \<Rightarrow> ScopeApproval option" where
  "customer_approval version_id s =
     find (\<lambda>a. sa_scope_version_id a = version_id \<and> sa_role a = CUSTOMER) (scope_approvals s)"

definition confirm_scope_proposal ::
    "uuid \<Rightarrow> uuid \<Rightarrow> uuid \<Rightarrow> string \<Rightarrow> instant \<Rightarrow> db \<Rightarrow> (ScopeConfirmResponse \<times> db) result" where
  "confirm_scope_proposal job_id participant_id version_id trace now s =
     (case proposal_for_result job_id version_id s of
        None \<Rightarrow> Inl ScopeReviewNotFoundError
      | Some p \<Rightarrow>
          (case (sp_status p, customer_approval version_id s) of
             (SP_CONFIRMED, Some a) \<Rightarrow>
               Inr (\<lparr>scr_proposal_id = sp_id p, scr_scope_version_id = version_id,
                     scr_confirmed_at = sa_approved_at a\<rparr>, s)
           | _ \<Rightarrow>
               if sp_status p \<noteq> SP_CUSTOMER_REVIEW then Inl ScopeReviewConflictError
               else bindR (approve_scope_version job_id version_id participant_id CUSTOMER (Some trace) now s)
                 (\<lambda>(res, s1). let at_time = sa_approved_at (sar_approval res) in
                  Inr (\<lparr>scr_proposal_id = sp_id p, scr_scope_version_id = version_id, scr_confirmed_at = at_time\<rparr>,
                       put_proposal (p\<lparr>sp_status := SP_CONFIRMED, sp_confirmed_at := Some at_time\<rparr>) s1))))"

section \<open>Confirmation history\<close>

datatype history_source = FROM_SCOPE | FROM_QUOTE | FROM_FIELD_CHANGE

record ScopeConfirmationRecord =
  sco_participant_id :: uuid
  sco_role :: ParticipantRole
  sco_confirmed_at :: instant

record ScopeConfirmationHistoryEntry =
  he_scope_version_id :: uuid
  he_parent_scope_version_id :: "uuid option"
  he_sequence_number :: int
  he_source :: history_source
  he_content :: ScopeContent
  he_content_hash :: string
  he_quote :: "QuoteSnapshot option"
  he_included_works :: "string list"
  he_exclusions :: "string list"
  he_proposal_id :: "uuid option"
  he_proposal_reason :: "string option"
  he_confirmations :: "ScopeConfirmationRecord list"
  he_bilaterally_confirmed :: bool
  he_created_at :: instant
  he_locked_at :: "instant option"

definition role_name :: "ParticipantRole \<Rightarrow> string" where
  "role_name r = (case r of CUSTOMER \<Rightarrow> ''CUSTOMER'' | COMPANY_MANAGER \<Rightarrow> ''COMPANY_MANAGER''
     | FIELD_WORKER \<Rightarrow> ''FIELD_WORKER'')"

definition confirmations_of :: "uuid \<Rightarrow> db \<Rightarrow> ScopeConfirmationRecord list" where
  "confirmations_of i s = map (\<lambda>a. \<lparr>sco_participant_id = sa_participant_id a, sco_role = sa_role a,
       sco_confirmed_at = sa_approved_at a\<rparr>)
     (sort_key (\<lambda>a. (sa_approved_at a, role_name (sa_role a)))
       (filter (\<lambda>a. sa_scope_version_id a = i) (scope_approvals s)))"

definition change_for_result :: "uuid \<Rightarrow> uuid \<Rightarrow> db \<Rightarrow> (ChangeProposalDetail \<times> ChangeRequest) option" where
  "change_for_result job_id i s =
     (case find (\<lambda>r. cr_job_id r = job_id \<and> cr_status r = CR_APPROVED \<and> cr_result_scope_version_id r = Some i \<and>
            row pd_change_request_id (cr_id r) (proposal_details s) \<noteq> None) (change_requests s) of
        None \<Rightarrow> None
      | Some r \<Rightarrow> map_option (\<lambda>d. (d, r)) (row pd_change_request_id (cr_id r) (proposal_details s)))"

definition history_entry ::
    "uuid \<Rightarrow> db \<Rightarrow> ScopeVersion \<Rightarrow> ScopeProposal option \<Rightarrow> ScopeConfirmationHistoryEntry" where
  "history_entry job_id s v agreement =
     (let proposal = proposal_for_result job_id (sv_id v) s;
          change = change_for_result job_id (sv_id v) s;
          confirmations = confirmations_of (sv_id v) s in
      \<lparr>he_scope_version_id = sv_id v, he_parent_scope_version_id = sv_parent_version_id v,
       he_sequence_number = sv_sequence_number v,
       he_source = (if change \<noteq> None then FROM_FIELD_CHANGE else if proposal \<noteq> None then FROM_QUOTE else FROM_SCOPE),
       he_content = sv_content v, he_content_hash = sv_content_hash v,
       he_quote = (case change of Some (d, r) \<Rightarrow> Some (quote_from_change_detail d)
                   | None \<Rightarrow> map_option quote_from_proposal proposal),
       he_included_works = (case agreement of Some p \<Rightarrow> sp_included_works p | None \<Rightarrow> []),
       he_exclusions = (case agreement of Some p \<Rightarrow> sp_exclusions p | None \<Rightarrow> []),
       he_proposal_id = (case change of Some (d, r) \<Rightarrow> Some (cr_id r) | None \<Rightarrow> map_option sp_id proposal),
       he_proposal_reason = (case change of Some (d, r) \<Rightarrow> Some (cr_description r)
                             | None \<Rightarrow> map_option sp_reason proposal),
       he_confirmations = confirmations,
       he_bilaterally_confirmed = ({CUSTOMER, COMPANY_MANAGER} \<subseteq> set (map sco_role confirmations)),
       he_created_at = sv_created_at v, he_locked_at = sv_locked_at v\<rparr>)"

text \<open>The loop over the versions in order: a version without its own proposal inherits the
  agreement of its parent.\<close>

fun history_entries ::
    "uuid \<Rightarrow> db \<Rightarrow> (uuid \<rightharpoonup> ScopeProposal) \<Rightarrow> ScopeVersion list \<Rightarrow> ScopeConfirmationHistoryEntry list" where
  "history_entries job_id s agreements [] = []"
| "history_entries job_id s agreements (v # vs) =
     (let inherited = (case sv_parent_version_id v of None \<Rightarrow> None | Some p \<Rightarrow> agreements p);
          agreement = (case proposal_for_result job_id (sv_id v) s of Some p \<Rightarrow> Some p | None \<Rightarrow> inherited) in
      history_entry job_id s v agreement # history_entries job_id s (agreements(sv_id v := agreement)) vs)"

definition get_scope_confirmation_history ::
    "uuid \<Rightarrow> uuid \<Rightarrow> ParticipantRole \<Rightarrow> db \<Rightarrow> ScopeConfirmationHistoryEntry list result" where
  "get_scope_confirmation_history job_id participant_id role s =
     (if row mj_id job_id (move_jobs s) = None then Inl ScopeReviewNotFoundError
      else if \<not> is_participant job_id participant_id {role} s \<or> role \<notin> {CUSTOMER, COMPANY_MANAGER}
      then Inl ScopeReviewNotFoundError
      else Inr (history_entries job_id s Map.empty
        (sort_key (\<lambda>v. (sv_sequence_number v, sv_id v))
          (filter (\<lambda>v. sv_job_id v = job_id) (scope_versions s)))))"

end
