(* ===== verification/FieldChange.thy ===== *)
theory FieldChange
  imports ScopeReview
begin

text \<open>
  Field issues and the customer's decision on a change of a running job:
  \<open>app/modules/field_change/service.py\<close> with the commands and responses of its
  \<open>schemas.py\<close>. A field report with evidence becomes at most one quoted change proposal; an
  approval makes the proposed content the next locked version. Reading evidence takes the
  storage adapter as an argument \<open>sign\<close>: object key and generation to a URL or an error, the
  URL check of \<open>validate_storage_url\<close> included. Lemmas are in FieldChangeProofs.
\<close>

section \<open>Commands and responses\<close>

record FieldIssueCreate =
  fic_client_reference :: uuid
  fic_base_scope_version_id :: uuid
  fic_issue_type :: FieldIssueType
  fic_title :: string
  fic_description :: string
  fic_evidence_media_asset_ids :: "uuid list"

definition field_issue_create_ok :: "FieldIssueCreate \<Rightarrow> bool" where
  "field_issue_create_ok c = (text_between 1 200 (fic_title c) \<and> text_between 1 2000 (fic_description c) \<and>
     1 \<le> length (fic_evidence_media_asset_ids c) \<and> length (fic_evidence_media_asset_ids c) \<le> 50 \<and>
     distinct (fic_evidence_media_asset_ids c))"

datatype FieldIssueStatus = FI_OPEN | FI_CUSTOMER_REVIEW | FI_CLARIFICATION_REQUESTED | FI_APPROVED | FI_REJECTED

record FieldIssueResponse =
  fir_issue :: FieldIssue
  fir_evidence_media_asset_ids :: "uuid list"
  fir_reported_by_role :: "ParticipantRole option"
  fir_status :: FieldIssueStatus
  fir_change_proposal_id :: "uuid option"

record EvidenceRead =
  er_media_asset_id :: uuid
  er_room_zone_id :: uuid
  er_content_type :: string
  er_read_url :: string
  er_expires_at :: instant

record ChangeProposalCreate =
  cpc_field_issue_id :: uuid
  cpc_base_scope_version_id :: uuid
  cpc_title :: string
  cpc_reason :: string
  cpc_proposed_content :: ScopeContent
  cpc_quote :: QuoteSnapshot

definition change_proposal_create_ok :: "ChangeProposalCreate \<Rightarrow> bool" where
  "change_proposal_create_ok c = (text_between 1 200 (cpc_title c) \<and> text_between 1 2000 (cpc_reason c) \<and>
     scope_content_ok (cpc_proposed_content c) \<and> quote_ok (cpc_quote c))"

record ChangeProposalResponse =
  cpr_proposal_id :: uuid
  cpr_field_issue_id :: uuid
  cpr_status :: ChangeRequestStatus
  cpr_base_scope_version_id :: uuid
  cpr_result_scope_version_id :: "uuid option"
  cpr_quote :: QuoteSnapshot
  cpr_requested_at :: instant

datatype proposal_decision = CP_APPROVE | CP_REJECT | CP_REQUEST_CLARIFICATION

record ChangeProposalDecisionCreate =
  cpd_decision :: proposal_decision
  cpd_note :: "string option"

definition change_proposal_decision_ok :: "ChangeProposalDecisionCreate \<Rightarrow> bool" where
  "change_proposal_decision_ok c = (optional_text 1 2000 (cpd_note c) \<and>
     \<not> (cpd_decision c \<noteq> CP_APPROVE \<and> cpd_note c = None))"

record ChangeProposalDecisionResponse =
  cpx_proposal_id :: uuid
  cpx_status :: ChangeRequestStatus
  cpx_result_scope_version_id :: "uuid option"
  cpx_clarification_requested_at :: "instant option"
  cpx_decided_at :: "instant option"

definition READ_URL_TTL_SECONDS :: int where
  "READ_URL_TTL_SECONDS = 5 * 60"

definition MAX_EVIDENCE_MEDIA :: nat where
  "MAX_EVIDENCE_MEDIA = 50"

section \<open>Guards\<close>

definition require_open_job :: "uuid \<Rightarrow> db \<Rightarrow> MoveJob result" where
  "require_open_job job_id s = (case row mj_id job_id (move_jobs s) of
     None \<Rightarrow> Inl FieldChangeNotFoundError
   | Some job \<Rightarrow> if mj_status job \<in> {COMPLETED, CANCELED} then Inl FieldChangeConflictError
       else if list_ex (\<lambda>c. cc_job_id c = job_id) (completion_confirmations s) then Inl FieldChangeConflictError
       else Inr job)"

definition require_current_locked_scope :: "uuid \<Rightarrow> uuid \<Rightarrow> db \<Rightarrow> ScopeVersion result" where
  "require_current_locked_scope job_id i s = (case version_of_job job_id i s of
     None \<Rightarrow> Inl FieldChangeNotFoundError
   | Some v \<Rightarrow> if sv_locked_at v = None then Inl FieldChangeConflictError
       else if has_child i s then Inl FieldChangeConflictError else Inr v)"

section \<open>Field issues\<close>

definition issue_evidence_ids :: "uuid \<Rightarrow> db \<Rightarrow> uuid list" where
  "issue_evidence_ids issue_id s =
     sort (map fe_media_asset_id (filter (\<lambda>e. fe_field_issue_id e = issue_id) (field_issue_evidence s)))"

definition change_proposal_for_issue :: "uuid \<Rightarrow> db \<Rightarrow> (ChangeProposalDetail \<times> ChangeRequest) option" where
  "change_proposal_for_issue issue_id s =
     (case find (\<lambda>d. pd_field_issue_id d = issue_id) (proposal_details s) of None \<Rightarrow> None
      | Some d \<Rightarrow> map_option (Pair d) (row cr_id (pd_change_request_id d) (change_requests s)))"

fun issue_status :: "ChangeRequest option \<Rightarrow> FieldIssueStatus" where
  "issue_status None = FI_OPEN"
| "issue_status (Some r) = (if cr_status r = CR_PENDING then FI_CUSTOMER_REVIEW
     else if cr_status r = CR_CLARIFICATION_REQUESTED then FI_CLARIFICATION_REQUESTED
     else if cr_status r = CR_APPROVED then FI_APPROVED else FI_REJECTED)"

definition field_issue_response :: "FieldIssue \<Rightarrow> db \<Rightarrow> FieldIssueResponse" where
  "field_issue_response issue s = (let proposal = change_proposal_for_issue (fi_id issue) s in
     \<lparr>fir_issue = issue, fir_evidence_media_asset_ids = issue_evidence_ids (fi_id issue) s,
      fir_reported_by_role = (case row jp_id (fi_reported_by_participant_id issue) (participants s) of
         None \<Rightarrow> None | Some p \<Rightarrow> if jp_job_id p = fi_job_id issue then Some (jp_role p) else None),
      fir_status = issue_status (map_option snd proposal),
      fir_change_proposal_id = map_option (pd_change_request_id \<circ> fst) proposal\<rparr>)"

definition field_issue_matches :: "FieldIssue \<Rightarrow> uuid list \<Rightarrow> uuid \<Rightarrow> FieldIssueCreate \<Rightarrow> bool" where
  "field_issue_matches issue evidence participant_id cmd =
     (fi_reported_by_participant_id issue = participant_id \<and>
      fi_base_scope_version_id issue = fic_base_scope_version_id cmd \<and>
      fi_issue_type issue = fic_issue_type cmd \<and> fi_title issue = fic_title cmd \<and>
      fi_description issue = fic_description cmd \<and> evidence = sort (fic_evidence_media_asset_ids cmd))"

definition new_field_issue :: "uuid \<Rightarrow> uuid \<Rightarrow> uuid \<Rightarrow> FieldIssueCreate \<Rightarrow> instant \<Rightarrow> FieldIssue" where
  "new_field_issue i job_id participant_id cmd now = \<lparr>fi_id = i, fi_job_id = job_id,
     fi_client_reference = fic_client_reference cmd, fi_base_scope_version_id = fic_base_scope_version_id cmd,
     fi_reported_by_participant_id = participant_id, fi_issue_type = fic_issue_type cmd,
     fi_title = fic_title cmd, fi_description = fic_description cmd, fi_created_at = now\<rparr>"

text \<open>The evidence rows have the pair of both columns as primary key.\<close>

definition insert_field_issue :: "FieldIssue \<Rightarrow> uuid list \<Rightarrow> db \<Rightarrow> db result" where
  "insert_field_issue issue media s =
     (if list_ex (\<lambda>q. fi_job_id q = fi_job_id issue \<and> fi_client_reference q = fi_client_reference issue)
           (field_issues s) \<or> \<not> distinct media
      then Inl IntegrityError
      else Inr (s\<lparr>field_issues := field_issues s @ [issue],
        field_issue_evidence := field_issue_evidence s @
          map (\<lambda>m. \<lparr>fe_field_issue_id = fi_id issue, fe_media_asset_id = m\<rparr>) media\<rparr>))"

definition create_field_issue ::
    "uuid \<Rightarrow> uuid \<Rightarrow> FieldIssueCreate \<Rightarrow> instant \<Rightarrow> db \<Rightarrow> (FieldIssueResponse \<times> db) result" where
  "create_field_issue job_id participant_id cmd now s =
     (case find (\<lambda>q. fi_job_id q = job_id \<and> fi_client_reference q = fic_client_reference cmd) (field_issues s) of
        Some existing \<Rightarrow>
          if field_issue_matches existing (issue_evidence_ids (fi_id existing) s) participant_id cmd
          then Inr (field_issue_response existing s, s) else Inl FieldChangeConflictError
      | None \<Rightarrow>
          bindR (require_open_job job_id s) (\<lambda>_.
          if \<not> is_participant job_id participant_id {COMPANY_MANAGER, FIELD_WORKER} s
          then Inl FieldChangeNotFoundError
          else bindR (require_current_locked_scope job_id (fic_base_scope_version_id cmd) s) (\<lambda>_.
          if set (map ma_id (filter (\<lambda>a. ma_id a \<in> set (fic_evidence_media_asset_ids cmd) \<and>
               change_evidence_media job_id participant_id a s) (media_assets s)))
             \<noteq> set (fic_evidence_media_asset_ids cmd)
          then Inl FieldChangeInvalidError
          else let (i, s1) = uuid4 s; issue = new_field_issue i job_id participant_id cmd now in
            (case insert_field_issue issue (fic_evidence_media_asset_ids cmd) s1 of
               Inl _ \<Rightarrow> Inl FieldChangeConflictError
             | Inr s2 \<Rightarrow> Inr (field_issue_response issue s2, s2)))))"

definition list_field_issues :: "uuid \<Rightarrow> db \<Rightarrow> FieldIssueResponse list" where
  "list_field_issues job_id s = map (\<lambda>i. field_issue_response i s)
     (sort_key (\<lambda>i. (fi_created_at i, fi_id i)) (filter (\<lambda>i. fi_job_id i = job_id) (field_issues s)))"

text \<open>A short-lived URL for one evidence object.\<close>

definition evidence_read :: "(string \<Rightarrow> string \<Rightarrow> string result) \<Rightarrow> instant \<Rightarrow> MediaAsset \<Rightarrow> string \<Rightarrow> EvidenceRead result" where
  "evidence_read sign now a g = bindR (sign (ma_object_key a) g) (\<lambda>url. Inr \<lparr>er_media_asset_id = ma_id a,
     er_room_zone_id = ma_room_zone_id a, er_content_type = ma_content_type a, er_read_url = url,
     er_expires_at = now + seconds READ_URL_TTL_SECONDS\<rparr>)"

definition create_field_issue_evidence_read_url ::
    "(string \<Rightarrow> string \<Rightarrow> string result) \<Rightarrow> uuid \<Rightarrow> uuid \<Rightarrow> uuid \<Rightarrow> uuid \<Rightarrow> ParticipantRole \<Rightarrow> instant \<Rightarrow> db \<Rightarrow>
     EvidenceRead result" where
  "create_field_issue_evidence_read_url sign job_id issue_id asset_id participant_id role now s =
     (if \<not> is_participant job_id participant_id {role} s then Inl FieldChangeNotFoundError
      else case (row ma_id asset_id (media_assets s), row fi_id issue_id (field_issues s)) of
        (Some a, Some issue) \<Rightarrow>
          if fi_job_id issue \<noteq> job_id \<or> ma_media_purpose a \<noteq> CHANGE_EVIDENCE \<or>
             map_option cs_job_id (row cs_id (ma_capture_session_id a) (capture_sessions s)) \<noteq> Some job_id \<or>
             asset_id \<notin> set (issue_evidence_ids issue_id s)
          then Inl FieldChangeNotFoundError
          else (case ma_generation a of
            None \<Rightarrow> Inl FieldChangeConflictError
          | Some g \<Rightarrow> if ma_status a \<noteq> READY \<or> g = [] \<or> strip g \<noteq> g then Inl FieldChangeConflictError
                      else evidence_read sign now a g)
      | _ \<Rightarrow> Inl FieldChangeNotFoundError)"

section \<open>Proposing a change\<close>

text \<open>The total agreed for a version: its confirmed quote, or else the quote of the approved change
  it results from.\<close>

definition initial_total :: "uuid \<Rightarrow> uuid \<Rightarrow> db \<Rightarrow> int option" where
  "initial_total job_id version_id s = map_option sp_total_amount_krw
     (find (\<lambda>p. sp_job_id p = job_id \<and> sp_result_scope_version_id p = version_id \<and> sp_status p = SP_CONFIRMED)
       (scope_proposals s))"

definition changed_total :: "uuid \<Rightarrow> uuid \<Rightarrow> db \<Rightarrow> int option" where
  "changed_total job_id version_id s = map_option pd_total_amount_krw
     (find (\<lambda>d. case row cr_id (pd_change_request_id d) (change_requests s) of None \<Rightarrow> False
        | Some r \<Rightarrow> cr_job_id r = job_id \<and> cr_result_scope_version_id r = Some version_id \<and> cr_status r = CR_APPROVED)
       (proposal_details s))"

definition effective_total_amount :: "uuid \<Rightarrow> uuid \<Rightarrow> db \<Rightarrow> int result" where
  "effective_total_amount job_id version_id s = (case initial_total job_id version_id s of
     Some n \<Rightarrow> Inr n
   | None \<Rightarrow> (case changed_total job_id version_id s of
        Some n \<Rightarrow> Inr n | None \<Rightarrow> Inl FieldChangeConflictError))"

definition change_proposal_response :: "ChangeProposalDetail \<Rightarrow> ChangeRequest \<Rightarrow> ChangeProposalResponse result" where
  "change_proposal_response d r = (if \<not> quote_ok (quote_from_change_detail d) then Inl ValueError
     else Inr \<lparr>cpr_proposal_id = cr_id r, cpr_field_issue_id = pd_field_issue_id d, cpr_status = cr_status r,
       cpr_base_scope_version_id = cr_base_scope_version_id r,
       cpr_result_scope_version_id = cr_result_scope_version_id r, cpr_quote = quote_from_change_detail d,
       cpr_requested_at = cr_created_at r\<rparr>)"

definition change_proposal_matches ::
    "ChangeProposalDetail \<Rightarrow> ChangeRequest \<Rightarrow> uuid \<Rightarrow> ChangeProposalCreate \<Rightarrow> bool" where
  "change_proposal_matches d r participant_id cmd =
     (cr_requested_by_participant_id r = participant_id \<and>
      cr_base_scope_version_id r = cpc_base_scope_version_id cmd \<and> cr_description r = cpc_reason cmd \<and>
      cr_proposed_content r = normalize_scope_content (cpc_proposed_content cmd) \<and>
      pd_title d = cpc_title cmd \<and> quote_from_change_detail d = cpc_quote cmd)"

definition ready_evidence_ids :: "uuid \<Rightarrow> uuid list \<Rightarrow> db \<Rightarrow> uuid set" where
  "ready_evidence_ids job_id ids s = set (map ma_id (filter (\<lambda>a. ma_id a \<in> set ids \<and>
     map_option cs_job_id (row cs_id (ma_capture_session_id a) (capture_sessions s)) = Some job_id \<and>
     ma_media_purpose a = CHANGE_EVIDENCE \<and> ma_status a \<in> {UPLOADED, READY} \<and> ma_generation a \<noteq> None)
     (media_assets s)))"

definition new_detail :: "uuid \<Rightarrow> ChangeProposalCreate \<Rightarrow> instant \<Rightarrow> ChangeProposalDetail" where
  "new_detail i cmd now = \<lparr>pd_change_request_id = i, pd_field_issue_id = cpc_field_issue_id cmd,
     pd_title = cpc_title cmd, pd_base_amount_krw = qs_base_amount_krw (cpc_quote cmd),
     pd_adjustments = qs_adjustments (cpc_quote cmd), pd_total_amount_krw = qs_total_amount_krw (cpc_quote cmd),
     pd_created_at = now\<rparr>"

definition proposal_audit_payload :: "ChangeRequest \<Rightarrow> uuid \<Rightarrow> uuid list \<Rightarrow> (string \<times> json) list" where
  "proposal_audit_payload r issue_id ids = [(''change_request_id'', id_json (cr_id r)),
     (''field_issue_id'', id_json issue_id),
     (''base_scope_version_id'', id_json (cr_base_scope_version_id r)),
     (''evidence_media_asset_ids'', JList (map JStr (sort (map uuid_str ids))))]"

definition proposal_event_payload :: "ChangeRequest \<Rightarrow> uuid list \<Rightarrow> (string \<times> json) list" where
  "proposal_event_payload r ids = [(''change_request_id'', id_json (cr_id r)),
     (''base_scope_version_id'', id_json (cr_base_scope_version_id r)),
     (''evidence_media_asset_ids'', JList (map id_json (sort ids)))]"

text \<open>The rows of one proposal, with the fact in the audit trail and the event.\<close>

definition insert_detail :: "ChangeProposalDetail \<Rightarrow> db \<Rightarrow> db result" where
  "insert_detail d s = (if \<not> change_proposal_detail_check d \<or>
       list_ex (\<lambda>q. pd_field_issue_id q = pd_field_issue_id d) (proposal_details s)
     then Inl IntegrityError else Inr (s\<lparr>proposal_details := proposal_details s @ [d]\<rparr>))"

definition store_change_proposal ::
    "uuid \<Rightarrow> uuid \<Rightarrow> ChangeProposalCreate \<Rightarrow> uuid list \<Rightarrow> string \<Rightarrow> instant \<Rightarrow> db \<Rightarrow>
     ((ChangeProposalDetail \<times> ChangeRequest) \<times> db) result" where
  "store_change_proposal job_id participant_id cmd ids trace now s =
     (let (i, s1) = uuid4 s;
          r = new_change_request i job_id participant_id
                \<lparr>crc_base_scope_version_id = cpc_base_scope_version_id cmd, crc_description = cpc_reason cmd,
                 crc_proposed_content = cpc_proposed_content cmd, crc_evidence_media_asset_ids = ids\<rparr> now;
          d = new_detail i cmd now;
          s2 = s1\<lparr>change_requests := change_requests s1 @ [r]\<rparr> in
      (case insert_detail d s2 of
         Inl _ \<Rightarrow> Inl FieldChangeConflictError
       | Inr s3 \<Rightarrow>
           let s4 = s3\<lparr>change_evidence := change_evidence s3 @
                 map (\<lambda>m. \<lparr>ce_change_request_id = i, ce_media_asset_id = m\<rparr>) ids\<rparr>;
               s5 = add_audit_event job_id AU_CHANGE_REQUESTED (Some participant_id)
                 (proposal_audit_payload r (cpc_field_issue_id cmd) ids) now s4 in
           bindR (enqueue_domain_event CHANGE_REQUESTED_V1 job_id (Some participant_id) (Some trace)
                    (proposal_event_payload r ids) now s5) (\<lambda>(_, s6). Inr ((d, r), s6))))"

definition create_change_proposal ::
    "uuid \<Rightarrow> uuid \<Rightarrow> ChangeProposalCreate \<Rightarrow> string \<Rightarrow> instant \<Rightarrow> db \<Rightarrow> (ChangeProposalResponse \<times> db) result" where
  "create_change_proposal job_id participant_id cmd trace now s =
     (case row fi_id (cpc_field_issue_id cmd) (field_issues s) of
        None \<Rightarrow> Inl FieldChangeNotFoundError
      | Some issue \<Rightarrow>
          if fi_job_id issue \<noteq> job_id then Inl FieldChangeNotFoundError
          else (case change_proposal_for_issue (fi_id issue) s of
            Some (d, r) \<Rightarrow>
              if change_proposal_matches d r participant_id cmd
              then bindR (change_proposal_response d r) (\<lambda>resp. Inr (resp, s))
              else Inl FieldChangeConflictError
          | None \<Rightarrow>
              bindR (require_open_job job_id s) (\<lambda>_.
              if \<not> is_participant job_id participant_id {COMPANY_MANAGER} s then Inl FieldChangeNotFoundError
              else if fi_base_scope_version_id issue \<noteq> cpc_base_scope_version_id cmd then Inl FieldChangeConflictError
              else bindR (require_current_locked_scope job_id (cpc_base_scope_version_id cmd) s) (\<lambda>base.
              bindR (effective_total_amount job_id (sv_id base) s) (\<lambda>expected.
              if qs_base_amount_krw (cpc_quote cmd) \<noteq> expected then Inl FieldChangeConflictError
              else case validate_scope_zones job_id (cpc_proposed_content cmd) s of
                Inl ScopeResourceNotFoundError \<Rightarrow> Inl FieldChangeNotFoundError
              | Inl e \<Rightarrow> Inl e
              | Inr _ \<Rightarrow>
                  if content_json (normalize_scope_content (cpc_proposed_content cmd)) = content_json (sv_content base)
                  then Inl FieldChangeInvalidError
                  else let ids = issue_evidence_ids (fi_id issue) s in
                    if ids = [] \<or> ready_evidence_ids job_id ids s \<noteq> set ids then Inl FieldChangeInvalidError
                    else bindR (store_change_proposal job_id participant_id cmd ids trace now s) (\<lambda>((d, r), s1).
                         bindR (change_proposal_response d r) (\<lambda>resp. Inr (resp, s1))))))))"

section \<open>The customer's decision\<close>

definition load_proposal :: "uuid \<Rightarrow> uuid \<Rightarrow> db \<Rightarrow> (ChangeProposalDetail \<times> ChangeRequest \<times> FieldIssue) result" where
  "load_proposal job_id i s =
     (case (row pd_change_request_id i (proposal_details s), row cr_id i (change_requests s)) of
        (Some d, Some r) \<Rightarrow> (case row fi_id (pd_field_issue_id d) (field_issues s) of
           None \<Rightarrow> Inl FieldChangeNotFoundError
         | Some issue \<Rightarrow> if cr_job_id r = job_id \<and> fi_job_id issue = job_id then Inr (d, r, issue)
                         else Inl FieldChangeNotFoundError)
      | _ \<Rightarrow> Inl FieldChangeNotFoundError)"

definition decision_response :: "ChangeRequest \<Rightarrow> ChangeProposalDecisionResponse" where
  "decision_response r = \<lparr>cpx_proposal_id = cr_id r, cpx_status = cr_status r,
     cpx_result_scope_version_id = cr_result_scope_version_id r,
     cpx_clarification_requested_at = cr_clarification_requested_at r, cpx_decided_at = cr_decided_at r\<rparr>"

fun matches_decision_replay :: "ChangeRequest \<Rightarrow> ChangeProposalDecisionCreate \<Rightarrow> bool" where
  "matches_decision_replay r cmd = (case cpd_decision cmd of
     CP_APPROVE \<Rightarrow> cr_status r = CR_APPROVED \<and> cr_decision_note r = cpd_note cmd
   | CP_REJECT \<Rightarrow> cr_status r = CR_REJECTED \<and> cr_decision_note r = cpd_note cmd
   | CP_REQUEST_CLARIFICATION \<Rightarrow> cr_status r = CR_CLARIFICATION_REQUESTED \<and>
       cr_clarification_request r = cpd_note cmd)"

text \<open>Every evidence object has been validated, and there is one.\<close>

definition evidence_ready :: "uuid \<Rightarrow> db \<Rightarrow> bool" where
  "evidence_ready issue_id s =
     (let assets = List.map_filter (\<lambda>i. row ma_id i (media_assets s)) (issue_evidence_ids issue_id s) in
      assets \<noteq> [] \<and> list_all (\<lambda>a. ma_status a = READY) assets)"

text \<open>Both sides approve the version an approved change made: the company for having proposed it.\<close>

definition approve_result ::
    "uuid \<Rightarrow> ChangeRequest \<Rightarrow> uuid \<Rightarrow> string \<Rightarrow> instant \<Rightarrow> db \<Rightarrow> db result" where
  "approve_result job_id r participant_id trace now s = (case cr_result_scope_version_id r of
     None \<Rightarrow> Inl FieldChangeConflictError
   | Some v \<Rightarrow>
       bindR (approve_scope_version job_id v (cr_requested_by_participant_id r) COMPANY_MANAGER None now s) (\<lambda>(_, s1).
       bindR (approve_scope_version job_id v participant_id CUSTOMER (Some trace) now s1) (\<lambda>(_, s2). Inr s2)))"

definition decide_change_proposal ::
    "uuid \<Rightarrow> uuid \<Rightarrow> uuid \<Rightarrow> ChangeProposalDecisionCreate \<Rightarrow> string \<Rightarrow> instant \<Rightarrow> db \<Rightarrow>
     (ChangeProposalDecisionResponse \<times> db) result" where
  "decide_change_proposal job_id i participant_id cmd trace now s =
     (if \<not> is_participant job_id participant_id {CUSTOMER} s then Inl FieldChangeNotFoundError
      else bindR (load_proposal job_id i s) (\<lambda>(d, r, _).
        if cr_status r \<noteq> CR_PENDING then
          (if matches_decision_replay r cmd then Inr (decision_response r, s) else Inl FieldChangeConflictError)
        else if cpd_decision cmd = CP_REQUEST_CLARIFICATION then
          (case cpd_note cmd of None \<Rightarrow> Inl AssertionError
           | Some note \<Rightarrow> bindR (request_change_clarification job_id i participant_id note now s)
               (\<lambda>(upd, s1). Inr (decision_response (crr_request upd), s1)))
        else if cpd_decision cmd = CP_APPROVE \<and> \<not> evidence_ready (pd_field_issue_id d) s
        then Inl FieldChangeConflictError
        else (case decide_change_request job_id i participant_id
                \<lparr>cdc_decision = (if cpd_decision cmd = CP_APPROVE then APPROVE else REJECT), cdc_note = cpd_note cmd\<rparr> now s of
            Inl ScopeResourceNotFoundError \<Rightarrow> Inl FieldChangeConflictError
          | Inl ScopeApprovalConflictError \<Rightarrow> Inl FieldChangeConflictError
          | Inl e \<Rightarrow> Inl e
          | Inr (upd, s1) \<Rightarrow>
              if cpd_decision cmd = CP_APPROVE
              then bindR (approve_result job_id (crr_request upd) participant_id trace now s1)
                     (\<lambda>s2. Inr (decision_response (crr_request upd), s2))
              else Inr (decision_response (crr_request upd), s1))))"

definition explain_change_proposal ::
    "uuid \<Rightarrow> uuid \<Rightarrow> uuid \<Rightarrow> string \<Rightarrow> instant \<Rightarrow> db \<Rightarrow> (ChangeProposalResponse \<times> db) result" where
  "explain_change_proposal job_id i participant_id explanation now s =
     (if \<not> is_participant job_id participant_id {COMPANY_MANAGER} s then Inl FieldChangeNotFoundError
      else bindR (load_proposal job_id i s) (\<lambda>(d, r, _).
        if cr_status r = CR_PENDING \<and> cr_explanation r = Some explanation
        then bindR (change_proposal_response d r) (\<lambda>resp. Inr (resp, s))
        else if cr_status r \<noteq> CR_CLARIFICATION_REQUESTED \<or> cr_requested_by_participant_id r \<noteq> participant_id
        then Inl FieldChangeConflictError
        else let r' = r\<lparr>cr_status := CR_PENDING, cr_explanation := Some explanation, cr_explained_at := Some now\<rparr>;
                 s1 = add_audit_event job_id AU_CHANGE_EXPLAINED (Some participant_id)
                        [(''change_request_id'', id_json i)] now (put_request r' s) in
          bindR (change_proposal_response d r') (\<lambda>resp. Inr (resp, s1))))"

section \<open>The decision screen\<close>

text \<open>Who is who in the header; a dictionary built from the rows keeps the last one of a key.\<close>

record ScopeReviewJobHeader =
  jh_job_id :: uuid
  jh_job_code :: string
  jh_title :: string
  jh_scheduled_at :: "instant option"
  jh_customer_display_name :: "string option"
  jh_company_display_name :: "string option"
  jh_viewer :: JobParticipant
  jh_origin_summary :: "string option"
  jh_destination_summary :: "string option"

record ChangeProposalView =
  cpv_job :: ScopeReviewJobHeader
  cpv_request :: ChangeRequest
  cpv_detail :: ChangeProposalDetail
  cpv_base_sequence_number :: int
  cpv_evidence_media :: "EvidenceRead list"
  cpv_requested_by :: JobParticipant
  cpv_decided_by :: "JobParticipant option"

definition upper_letter :: "char \<Rightarrow> char" where
  "upper_letter c = (if is_lower c then char_of (of_char c - (32 :: nat)) else c)"

definition job_code :: "uuid \<Rightarrow> string" where
  "job_code i = ''MOVE-'' @ map upper_letter (take 8 (uuid_str i))"

definition name_of_role :: "ParticipantRole \<Rightarrow> JobParticipant list \<Rightarrow> string option" where
  "name_of_role role ps = map_option jp_display_name (find (\<lambda>p. jp_role p = role) (rev ps))"

definition label_of_kind :: "LocationKind \<Rightarrow> Location list \<Rightarrow> string option" where
  "label_of_kind k ls = map_option loc_label (find (\<lambda>l. loc_kind l = k) (rev ls))"

definition change_job_header :: "MoveJob \<Rightarrow> JobParticipant list \<Rightarrow> Location list \<Rightarrow> JobParticipant \<Rightarrow> ScopeReviewJobHeader" where
  "change_job_header job ps ls viewer = \<lparr>jh_job_id = mj_id job, jh_job_code = job_code (mj_id job), jh_title = mj_title job,
     jh_scheduled_at = mj_scheduled_at job, jh_customer_display_name = name_of_role CUSTOMER ps,
     jh_company_display_name = name_of_role COMPANY_MANAGER ps, jh_viewer = viewer,
     jh_origin_summary = label_of_kind ORIGIN ls, jh_destination_summary = label_of_kind DESTINATION ls\<rparr>"

definition evidence_previews ::
    "(string \<Rightarrow> string \<Rightarrow> string result) \<Rightarrow> uuid \<Rightarrow> uuid \<Rightarrow> instant \<Rightarrow> db \<Rightarrow> EvidenceRead list result" where
  "evidence_previews sign job_id issue_id now s =
     (let ids = issue_evidence_ids issue_id s;
          assets = sort_key (\<lambda>a. (ma_created_at a, ma_id a)) (filter (\<lambda>a.
            ma_id a \<in> set (take MAX_EVIDENCE_MEDIA ids) \<and>
            map_option cs_job_id (row cs_id (ma_capture_session_id a) (capture_sessions s)) = Some job_id \<and>
            ma_status a \<in> {UPLOADED, READY} \<and> ma_generation a \<noteq> None) (media_assets s)) in
      if length assets \<noteq> length ids then Inl FieldChangeConflictError
      else mapR (\<lambda>a. case ma_generation a of
             None \<Rightarrow> Inl FieldChangeConflictError
           | Some g \<Rightarrow> if strip g \<noteq> g then Inl FieldChangeConflictError else evidence_read sign now a g) assets)"

definition get_change_proposal ::
    "(string \<Rightarrow> string \<Rightarrow> string result) \<Rightarrow> uuid \<Rightarrow> uuid \<Rightarrow> uuid \<Rightarrow> ParticipantRole \<Rightarrow> instant \<Rightarrow> db \<Rightarrow>
     ChangeProposalView result" where
  "get_change_proposal sign job_id i participant_id role now s =
     bindR (load_proposal job_id i s) (\<lambda>(d, r, issue).
     case row mj_id job_id (move_jobs s) of
       None \<Rightarrow> Inl FieldChangeNotFoundError
     | Some job \<Rightarrow>
         let ps = filter (\<lambda>p. jp_job_id p = job_id) (participants s);
             ls = filter (\<lambda>l. loc_job_id l = job_id) (locations s) in
         (case find (\<lambda>p. jp_id p = participant_id \<and> jp_role p = role) ps of
            None \<Rightarrow> Inl FieldChangeNotFoundError
          | Some viewer \<Rightarrow>
              (case version_of_job job_id (cr_base_scope_version_id r) s of
                 None \<Rightarrow> Inl FieldChangeConflictError
               | Some base \<Rightarrow>
                   (case find (\<lambda>p. jp_id p = cr_requested_by_participant_id r) ps of
                      None \<Rightarrow> Inl FieldChangeConflictError
                    | Some requester \<Rightarrow>
                        bindR (evidence_previews sign job_id (fi_id issue) now s) (\<lambda>media.
                        if \<not> quote_ok (quote_from_change_detail d) then Inl ValueError
                        else Inr \<lparr>cpv_job = change_job_header job ps ls viewer, cpv_request = r, cpv_detail = d,
                          cpv_base_sequence_number = sv_sequence_number base, cpv_evidence_media = media,
                          cpv_requested_by = requester,
                          cpv_decided_by = (case cr_decided_by_participant_id r of None \<Rightarrow> None
                            | Some u \<Rightarrow> find (\<lambda>p. jp_id p = u) ps)\<rparr>)))))"

end
