(* ===== verification/Dispatch.thy ===== *)
theory Dispatch
  imports FieldChange "HOL-Library.Option_ord"
begin

text \<open>
  Assigning a vehicle and workers to a locked scope, the field worker's brief and check-in:
  \<open>app/modules/dispatch/service.py\<close> with the commands and responses of its \<open>schemas.py\<close>.
  Lemmas are in DispatchProofs. Participants and locations of a job are read in table order,
  and a dictionary built from rows keeps the last row of a key. The sentences shown beside a
  check are rendered from the values of \<open>check_detail\<close>.
\<close>

section \<open>Commands\<close>

record DispatchVehicleCreate =
  vc_external_reference :: string
  vc_display_name :: string
  vc_specification :: string
  vc_equipment :: "string list"
  vc_capacity_m2 :: int
  vc_available :: bool
  vc_conflict_reason :: "string option"

record DispatchWorkerCreate =
  wc_external_reference :: string
  wc_display_name :: string
  wc_role_label :: string
  wc_skills :: "string list"
  wc_certifications :: "string list"
  wc_available :: bool
  wc_conflict_reason :: "string option"
  wc_participant_id :: "uuid option"

record DispatchSetupCreate =
  dsc_client_reference :: uuid
  dsc_source_scope_version_id :: uuid
  dsc_expected_duration_minutes :: int
  dsc_required_vehicle_capacity_m2 :: int
  dsc_required_worker_count :: int
  dsc_required_skills :: "string list"
  dsc_required_certifications :: "string list"
  dsc_check_in_items :: "DispatchCheckItem list"
  dsc_completion_check_items :: "DispatchCheckItem list"
  dsc_origin_conditions :: "string list"
  dsc_safety_notice :: string
  dsc_vehicles :: "DispatchVehicleCreate list"
  dsc_workers :: "DispatchWorkerCreate list"

record DispatchConfirmCreate =
  dcc_setup_id :: uuid
  dcc_vehicle_id :: uuid
  dcc_lead_worker_id :: uuid
  dcc_worker_ids :: "uuid list"
  dcc_worker_note :: "string option"

record FieldCheckInCreate =
  fcc_dispatch_id :: uuid
  fcc_confirmed_check_keys :: "string list"

definition check_key_ok :: "string \<Rightarrow> bool" where
  "check_key_ok k = (case k of [] \<Rightarrow> False | c # cs \<Rightarrow> is_lower c \<and> length cs \<le> 63 \<and>
     list_all (\<lambda>c. is_lower c \<or> is_digit c \<or> c = CHR ''_'') cs)"

definition check_item_ok :: "DispatchCheckItem \<Rightarrow> bool" where
  "check_item_ok i = (check_key_ok (ck_key i) \<and> text_between 1 200 (ck_label i))"

definition vehicle_create_ok :: "DispatchVehicleCreate \<Rightarrow> bool" where
  "vehicle_create_ok v = (text_between 1 100 (vc_external_reference v) \<and> text_between 1 200 (vc_display_name v) \<and>
     text_between 1 200 (vc_specification v) \<and> length (vc_equipment v) \<le> 50 \<and>
     list_all (text_between 1 200) (vc_equipment v) \<and> 0 \<le> vc_capacity_m2 v \<and> vc_capacity_m2 v \<le> 1000 \<and>
     optional_text 1 500 (vc_conflict_reason v) \<and> vc_available v = (vc_conflict_reason v = None))"

definition worker_create_ok :: "DispatchWorkerCreate \<Rightarrow> bool" where
  "worker_create_ok w = (text_between 1 100 (wc_external_reference w) \<and> text_between 1 200 (wc_display_name w) \<and>
     text_between 1 200 (wc_role_label w) \<and> length (wc_skills w) \<le> 100 \<and> list_all (text_between 1 200) (wc_skills w) \<and>
     length (wc_certifications w) \<le> 100 \<and> list_all (text_between 1 200) (wc_certifications w) \<and>
     optional_text 1 500 (wc_conflict_reason w) \<and> wc_available w = (wc_conflict_reason w = None))"

definition dispatch_setup_create_ok :: "DispatchSetupCreate \<Rightarrow> bool" where
  "dispatch_setup_create_ok c = (
     1 \<le> dsc_expected_duration_minutes c \<and> dsc_expected_duration_minutes c \<le> 720 \<and>
     0 \<le> dsc_required_vehicle_capacity_m2 c \<and> dsc_required_vehicle_capacity_m2 c \<le> 1000 \<and>
     1 \<le> dsc_required_worker_count c \<and> dsc_required_worker_count c \<le> 50 \<and>
     length (dsc_required_skills c) \<le> 100 \<and> list_all (text_between 1 200) (dsc_required_skills c) \<and>
     length (dsc_required_certifications c) \<le> 100 \<and> list_all (text_between 1 200) (dsc_required_certifications c) \<and>
     1 \<le> length (dsc_check_in_items c) \<and> length (dsc_check_in_items c) \<le> 20 \<and> list_all check_item_ok (dsc_check_in_items c) \<and>
     1 \<le> length (dsc_completion_check_items c) \<and> length (dsc_completion_check_items c) \<le> 20 \<and>
     list_all check_item_ok (dsc_completion_check_items c) \<and>
     length (dsc_origin_conditions c) \<le> 100 \<and> list_all (text_between 1 200) (dsc_origin_conditions c) \<and>
     text_between 1 2000 (dsc_safety_notice c) \<and>
     1 \<le> length (dsc_vehicles c) \<and> length (dsc_vehicles c) \<le> 100 \<and> list_all vehicle_create_ok (dsc_vehicles c) \<and>
     1 \<le> length (dsc_workers c) \<and> length (dsc_workers c) \<le> 100 \<and> list_all worker_create_ok (dsc_workers c) \<and>
     distinct (dsc_required_skills c) \<and> distinct (dsc_required_certifications c) \<and>
     distinct (map ck_key (dsc_check_in_items c)) \<and> distinct (map ck_key (dsc_completion_check_items c)) \<and>
     distinct (map vc_external_reference (dsc_vehicles c)) \<and> distinct (map wc_external_reference (dsc_workers c)) \<and>
     distinct (List.map_filter wc_participant_id (dsc_workers c)))"

definition dispatch_confirm_create_ok :: "DispatchConfirmCreate \<Rightarrow> bool" where
  "dispatch_confirm_create_ok c = (1 \<le> length (dcc_worker_ids c) \<and> length (dcc_worker_ids c) \<le> 50 \<and>
     optional_text 1 2000 (dcc_worker_note c) \<and> distinct (dcc_worker_ids c) \<and>
     dcc_lead_worker_id c \<in> set (dcc_worker_ids c))"

definition field_check_in_create_ok :: "FieldCheckInCreate \<Rightarrow> bool" where
  "field_check_in_create_ok c = (1 \<le> length (fcc_confirmed_check_keys c) \<and> length (fcc_confirmed_check_keys c) \<le> 20 \<and>
     distinct (fcc_confirmed_check_keys c))"

text \<open>The digest of a command: its JSON with sorted keys.\<close>

definition strings_json :: "string list \<Rightarrow> json" where
  "strings_json xs = JList (map JStr xs)"

definition check_item_json :: "DispatchCheckItem \<Rightarrow> json" where
  "check_item_json i = JObj [(''key'', JStr (ck_key i)), (''label'', JStr (ck_label i))]"

definition setup_command_json :: "DispatchSetupCreate \<Rightarrow> json" where
  "setup_command_json c = JObj [
     (''check_in_items'', JList (map check_item_json (dsc_check_in_items c))),
     (''client_reference'', id_json (dsc_client_reference c)),
     (''completion_check_items'', JList (map check_item_json (dsc_completion_check_items c))),
     (''expected_duration_minutes'', JInt (dsc_expected_duration_minutes c)),
     (''origin_conditions'', strings_json (dsc_origin_conditions c)),
     (''required_certifications'', strings_json (dsc_required_certifications c)),
     (''required_skills'', strings_json (dsc_required_skills c)),
     (''required_vehicle_capacity_m2'', JInt (dsc_required_vehicle_capacity_m2 c)),
     (''required_worker_count'', JInt (dsc_required_worker_count c)),
     (''safety_notice'', JStr (dsc_safety_notice c)),
     (''source_scope_version_id'', id_json (dsc_source_scope_version_id c)),
     (''vehicles'', JList (map (\<lambda>v. JObj [(''available'', JBool (vc_available v)), (''capacity_m2'', JInt (vc_capacity_m2 v)),
        (''conflict_reason'', json_opt JStr (vc_conflict_reason v)), (''display_name'', JStr (vc_display_name v)),
        (''equipment'', strings_json (vc_equipment v)), (''external_reference'', JStr (vc_external_reference v)),
        (''specification'', JStr (vc_specification v))]) (dsc_vehicles c))),
     (''workers'', JList (map (\<lambda>w. JObj [(''available'', JBool (wc_available w)),
        (''certifications'', strings_json (wc_certifications w)), (''conflict_reason'', json_opt JStr (wc_conflict_reason w)),
        (''display_name'', JStr (wc_display_name w)), (''external_reference'', JStr (wc_external_reference w)),
        (''participant_id'', id_opt_json (wc_participant_id w)), (''role_label'', JStr (wc_role_label w)),
        (''skills'', strings_json (wc_skills w))]) (dsc_workers c)))]"

definition confirm_command_json :: "DispatchConfirmCreate \<Rightarrow> json" where
  "confirm_command_json c = JObj [(''lead_worker_id'', id_json (dcc_lead_worker_id c)),
     (''setup_id'', id_json (dcc_setup_id c)), (''vehicle_id'', id_json (dcc_vehicle_id c)),
     (''worker_ids'', JList (map id_json (dcc_worker_ids c))), (''worker_note'', json_opt JStr (dcc_worker_note c))]"

definition command_hash :: "json \<Rightarrow> db \<Rightarrow> string" where
  "command_hash j s = sha256_hex s (dump_json j)"

section \<open>Guards\<close>

definition job_participants :: "uuid \<Rightarrow> db \<Rightarrow> JobParticipant list" where
  "job_participants job_id s = filter (\<lambda>p. jp_job_id p = job_id) (participants s)"

definition load_dispatch_job :: "uuid \<Rightarrow> db \<Rightarrow> MoveJob result" where
  "load_dispatch_job job_id s = (case row mj_id job_id (move_jobs s) of
     None \<Rightarrow> Inl DispatchNotFoundError | Some job \<Rightarrow> Inr job)"

definition require_open_scheduled_job :: "MoveJob \<Rightarrow> instant result" where
  "require_open_scheduled_job job = (if mj_status job \<in> {COMPLETED, CANCELED} then Inl DispatchConflictError
     else case mj_scheduled_at job of None \<Rightarrow> Inl DispatchConflictError | Some t \<Rightarrow> Inr t)"

definition dispatch_current_scope :: "uuid \<Rightarrow> uuid \<Rightarrow> db \<Rightarrow> ScopeVersion result" where
  "dispatch_current_scope job_id i s = (case version_of_job job_id i s of
     None \<Rightarrow> Inl DispatchNotFoundError
   | Some v \<Rightarrow> if sv_locked_at v = None then Inl DispatchConflictError
       else if has_child (sv_id v) s then Inl DispatchConflictError else Inr v)"

definition field_worker_of :: "uuid \<Rightarrow> db \<Rightarrow> JobParticipant option" where
  "field_worker_of job_id s = find (\<lambda>p. jp_role p = FIELD_WORKER) (job_participants job_id s)"

section \<open>The setup\<close>

definition vehicle_option :: "uuid \<Rightarrow> DispatchVehicleCreate \<Rightarrow> DispatchVehicleOption" where
  "vehicle_option i v = \<lparr>vo_id = i, vo_external_reference = vc_external_reference v, vo_display_name = vc_display_name v,
     vo_specification = vc_specification v, vo_equipment = vc_equipment v, vo_capacity_m2 = vc_capacity_m2 v,
     vo_available = vc_available v, vo_conflict_reason = vc_conflict_reason v\<rparr>"

definition worker_option :: "uuid \<Rightarrow> DispatchWorkerCreate \<Rightarrow> DispatchWorkerOption" where
  "worker_option i w = \<lparr>wo_id = i, wo_external_reference = wc_external_reference w, wo_display_name = wc_display_name w,
     wo_role_label = wc_role_label w, wo_skills = wc_skills w, wo_certifications = wc_certifications w,
     wo_available = wc_available w, wo_conflict_reason = wc_conflict_reason w, wo_participant_id = wc_participant_id w\<rparr>"

fun with_ids :: "(uuid \<Rightarrow> 'a \<Rightarrow> 'b) \<Rightarrow> 'a list \<Rightarrow> db \<Rightarrow> 'b list \<times> db" where
  "with_ids f [] s = ([], s)"
| "with_ids f (x # xs) s = (let (i, s1) = uuid4 s; (ys, s2) = with_ids f xs s1 in (f i x # ys, s2))"

definition snapshot_options ::
    "DispatchSetupCreate \<Rightarrow> db \<Rightarrow> (DispatchVehicleOption list \<times> DispatchWorkerOption list) \<times> db" where
  "snapshot_options cmd s = (let (vs, s1) = with_ids vehicle_option (dsc_vehicles cmd) s;
     (ws, s2) = with_ids worker_option (dsc_workers cmd) s1 in ((vs, ws), s2))"

definition new_setup ::
    "uuid \<Rightarrow> uuid \<Rightarrow> uuid \<Rightarrow> DispatchSetupCreate \<Rightarrow> string \<Rightarrow> instant \<Rightarrow> DispatchVehicleOption list \<Rightarrow>
     DispatchWorkerOption list \<Rightarrow> instant \<Rightarrow> DispatchSetup" where
  "new_setup i job_id participant_id cmd h start vs ws now = \<lparr>ds_id = i, ds_job_id = job_id,
     ds_client_reference = dsc_client_reference cmd, ds_source_scope_version_id = dsc_source_scope_version_id cmd,
     ds_created_by_participant_id = participant_id, ds_command_hash = h, ds_start_at = start,
     ds_expected_duration_minutes = dsc_expected_duration_minutes cmd,
     ds_required_vehicle_capacity_m2 = dsc_required_vehicle_capacity_m2 cmd,
     ds_required_worker_count = dsc_required_worker_count cmd, ds_required_skills = dsc_required_skills cmd,
     ds_required_certifications = dsc_required_certifications cmd, ds_check_in_items = dsc_check_in_items cmd,
     ds_completion_check_items = dsc_completion_check_items cmd, ds_origin_conditions = dsc_origin_conditions cmd,
     ds_safety_notice = dsc_safety_notice cmd, ds_vehicle_options = vs, ds_worker_options = ws, ds_created_at = now\<rparr>"

definition insert_setup :: "DispatchSetup \<Rightarrow> db \<Rightarrow> db result" where
  "insert_setup r s = (if \<not> dispatch_setup_check r \<or> list_ex (\<lambda>q. ds_job_id q = ds_job_id r) (dispatch_setups s)
     then Inl IntegrityError else Inr (s\<lparr>dispatch_setups := dispatch_setups s @ [r]\<rparr>))"

definition setup_of_job :: "uuid \<Rightarrow> db \<Rightarrow> DispatchSetup option" where
  "setup_of_job job_id s = find (\<lambda>r. ds_job_id r = job_id) (dispatch_setups s)"

definition plan_of_job :: "uuid \<Rightarrow> db \<Rightarrow> DispatchPlan option" where
  "plan_of_job job_id s = find (\<lambda>r. dp_job_id r = job_id) (dispatch_plans s)"

definition create_dispatch_setup ::
    "uuid \<Rightarrow> uuid \<Rightarrow> DispatchSetupCreate \<Rightarrow> instant \<Rightarrow> db \<Rightarrow> (DispatchSetup \<times> db) result" where
  "create_dispatch_setup job_id participant_id cmd now s =
     (let h = command_hash (setup_command_json cmd) s in
      bindR (load_dispatch_job job_id s) (\<lambda>job.
      case setup_of_job job_id s of
        Some existing \<Rightarrow>
          if ds_client_reference existing = dsc_client_reference cmd \<and>
             ds_created_by_participant_id existing = participant_id \<and> ds_command_hash existing = h
          then Inr (existing, s) else Inl DispatchConflictError
      | None \<Rightarrow>
          bindR (require_open_scheduled_job job) (\<lambda>start.
          if \<not> is_participant job_id participant_id {COMPANY_MANAGER} s then Inl DispatchNotFoundError
          else bindR (dispatch_current_scope job_id (dsc_source_scope_version_id cmd) s) (\<lambda>_.
          case field_worker_of job_id s of
            None \<Rightarrow> Inl DispatchNotFoundError
          | Some fw \<Rightarrow>
              if List.map_filter wc_participant_id (dsc_workers cmd) \<noteq> [jp_id fw] then Inl DispatchInvalidError
              else if int (length (dsc_workers cmd)) < dsc_required_worker_count cmd then Inl DispatchInvalidError
              else let ((vs, ws), s1) = snapshot_options cmd s; (i, s2) = uuid4 s1;
                       setup = new_setup i job_id participant_id cmd h start vs ws now in
                (case insert_setup setup s2 of Inl _ \<Rightarrow> Inl DispatchConflictError | Inr s3 \<Rightarrow> Inr (setup, s3))))))"

section \<open>Checks\<close>

datatype DispatchCheckStatus = PASS | FAIL

datatype check_detail = VEHICLE_AVAILABLE bool | VEHICLE_SELECTED | WORKERS_AVAILABLE int int | COVERAGE "string list"

record DispatchCheck =
  dk_key :: string
  dk_status :: DispatchCheckStatus
  dk_detail :: check_detail

definition pass_if :: "bool \<Rightarrow> DispatchCheckStatus" where
  "pass_if b = (if b then PASS else FAIL)"

definition coverage_check :: "string \<Rightarrow> string set \<Rightarrow> string set \<Rightarrow> DispatchCheck" where
  "coverage_check key required available = (let missing = sorted_list_of_set (required - available) in
     \<lparr>dk_key = key, dk_status = pass_if (missing = []), dk_detail = COVERAGE missing\<rparr>)"

definition skills_of :: "DispatchWorkerOption list \<Rightarrow> string set" where
  "skills_of ws = (\<Union>w \<in> set ws. set (wo_skills w))"

definition certifications_of :: "DispatchWorkerOption list \<Rightarrow> string set" where
  "certifications_of ws = (\<Union>w \<in> set ws. set (wo_certifications w))"

definition vehicle_fits :: "DispatchSetup \<Rightarrow> DispatchVehicleOption \<Rightarrow> bool" where
  "vehicle_fits setup v = (vo_available v \<and> ds_required_vehicle_capacity_m2 setup \<le> vo_capacity_m2 v)"

definition worker_by_id :: "DispatchWorkerOption list \<Rightarrow> uuid \<Rightarrow> DispatchWorkerOption option" where
  "worker_by_id ws i = find (\<lambda>w. wo_id w = i) (rev ws)"

definition dispatch_checks :: "DispatchSetup \<Rightarrow> DispatchPlan option \<Rightarrow> DispatchCheck list" where
  "dispatch_checks setup plan = (case plan of
     None \<Rightarrow>
       let eligible_vehicles = filter (vehicle_fits setup) (ds_vehicle_options setup);
           eligible = filter wo_available (ds_worker_options setup) in
       [\<lparr>dk_key = ''vehicle_availability'', dk_status = pass_if (eligible_vehicles \<noteq> []),
          dk_detail = VEHICLE_AVAILABLE (eligible_vehicles \<noteq> [])\<rparr>,
        \<lparr>dk_key = ''worker_availability'', dk_status = pass_if (ds_required_worker_count setup \<le> int (length eligible)),
          dk_detail = WORKERS_AVAILABLE (int (length eligible)) (ds_required_worker_count setup)\<rparr>,
        coverage_check ''required_skills'' (set (ds_required_skills setup)) (skills_of eligible),
        coverage_check ''required_certifications'' (set (ds_required_certifications setup)) (certifications_of eligible)]
   | Some p \<Rightarrow>
       let vehicle = find (\<lambda>v. vo_id v = dp_vehicle_option_id p) (ds_vehicle_options setup);
           selected = List.map_filter (worker_by_id (ds_worker_options setup)) (dp_selected_worker_option_ids p) in
       [\<lparr>dk_key = ''vehicle_availability'',
          dk_status = pass_if (case vehicle of None \<Rightarrow> False | Some v \<Rightarrow> vehicle_fits setup v),
          dk_detail = VEHICLE_SELECTED\<rparr>,
        \<lparr>dk_key = ''worker_availability'', dk_status = pass_if (int (length selected) = ds_required_worker_count setup \<and>
            list_all wo_available selected),
          dk_detail = WORKERS_AVAILABLE (int (length selected)) (ds_required_worker_count setup)\<rparr>,
        coverage_check ''required_skills'' (set (ds_required_skills setup)) (skills_of selected),
        coverage_check ''required_certifications'' (set (ds_required_certifications setup)) (certifications_of selected)])"

section \<open>The plan\<close>

definition validate_selection :: "DispatchSetup \<Rightarrow> DispatchConfirmCreate \<Rightarrow> uuid \<Rightarrow> bool" where
  "validate_selection setup cmd field_worker_id =
     ((case find (\<lambda>v. vo_id v = dcc_vehicle_id cmd) (rev (ds_vehicle_options setup)) of
         None \<Rightarrow> False | Some v \<Rightarrow> vo_available v \<and> \<not> vo_capacity_m2 v < ds_required_vehicle_capacity_m2 setup) \<and>
      int (length (dcc_worker_ids cmd)) = ds_required_worker_count setup \<and>
      list_all (\<lambda>i. case worker_by_id (ds_worker_options setup) i of None \<Rightarrow> False | Some w \<Rightarrow> wo_available w)
        (dcc_worker_ids cmd) \<and>
      (let selected = List.map_filter (worker_by_id (ds_worker_options setup)) (dcc_worker_ids cmd) in
       length (filter (\<lambda>w. wo_participant_id w = Some field_worker_id) selected) = 1 \<and>
       set (ds_required_skills setup) \<subseteq> skills_of selected \<and>
       set (ds_required_certifications setup) \<subseteq> certifications_of selected))"

definition new_plan ::
    "uuid \<Rightarrow> uuid \<Rightarrow> uuid \<Rightarrow> DispatchSetup \<Rightarrow> DispatchConfirmCreate \<Rightarrow> string \<Rightarrow> instant \<Rightarrow> DispatchPlan" where
  "new_plan i job_id participant_id setup cmd h now = \<lparr>dp_id = i, dp_job_id = job_id, dp_setup_id = ds_id setup,
     dp_source_scope_version_id = ds_source_scope_version_id setup, dp_vehicle_option_id = dcc_vehicle_id cmd,
     dp_lead_worker_option_id = dcc_lead_worker_id cmd, dp_selected_worker_option_ids = dcc_worker_ids cmd,
     dp_worker_note = dcc_worker_note cmd, dp_command_hash = h, dp_confirmed_by_participant_id = participant_id,
     dp_confirmed_at = now\<rparr>"

definition insert_plan :: "DispatchPlan \<Rightarrow> db \<Rightarrow> db result" where
  "insert_plan r s = (if \<not> dispatch_plan_check r \<or>
       list_ex (\<lambda>q. dp_job_id q = dp_job_id r \<or> dp_setup_id q = dp_setup_id r) (dispatch_plans s)
     then Inl IntegrityError else Inr (s\<lparr>dispatch_plans := dispatch_plans s @ [r]\<rparr>))"

definition plan_payload :: "DispatchPlan \<Rightarrow> uuid \<Rightarrow> (string \<times> json) list" where
  "plan_payload p field_worker_id = [(''dispatch_id'', id_json (dp_id p)),
     (''scope_version_id'', id_json (dp_source_scope_version_id p)),
     (''field_worker_participant_id'', id_json field_worker_id)]"

definition confirm_dispatch ::
    "uuid \<Rightarrow> uuid \<Rightarrow> DispatchConfirmCreate \<Rightarrow> string \<Rightarrow> instant \<Rightarrow> db \<Rightarrow> (DispatchPlan \<times> db) result" where
  "confirm_dispatch job_id participant_id cmd trace now s =
     (let h = command_hash (confirm_command_json cmd) s in
      bindR (load_dispatch_job job_id s) (\<lambda>job.
      case plan_of_job job_id s of
        Some existing \<Rightarrow>
          if dp_command_hash existing = h \<and> dp_confirmed_by_participant_id existing = participant_id
          then Inr (existing, s) else Inl DispatchConflictError
      | None \<Rightarrow>
          bindR (require_open_scheduled_job job) (\<lambda>_.
          if \<not> is_participant job_id participant_id {COMPANY_MANAGER} s then Inl DispatchNotFoundError
          else case row ds_id (dcc_setup_id cmd) (dispatch_setups s) of
            None \<Rightarrow> Inl DispatchNotFoundError
          | Some setup \<Rightarrow>
              if ds_job_id setup \<noteq> job_id then Inl DispatchNotFoundError
              else bindR (dispatch_current_scope job_id (ds_source_scope_version_id setup) s) (\<lambda>_.
              case field_worker_of job_id s of
                None \<Rightarrow> Inl DispatchNotFoundError
              | Some fw \<Rightarrow>
                  if \<not> validate_selection setup cmd (jp_id fw) then Inl DispatchConflictError
                  else let (i, s1) = uuid4 s; plan = new_plan i job_id participant_id setup cmd h now in
                    (case insert_plan plan s1 of
                       Inl _ \<Rightarrow> Inl DispatchConflictError
                     | Inr s2 \<Rightarrow>
                         bindR (enqueue_domain_event DISPATCH_CONFIRMED_V1 job_id (Some participant_id) (Some trace)
                                  (plan_payload plan (jp_id fw)) now s2) (\<lambda>(_, s3). Inr (plan, s3)))))))"

section \<open>The manager's view\<close>

datatype DispatchStatus = SETUP_REQUIRED | DS_READY | STALE | DS_CONFIRMED

record DispatchView =
  dv_job :: ScopeReviewJobHeader
  dv_setup :: "DispatchSetup option"
  dv_plan :: "DispatchPlan option"
  dv_source_sequence_number :: "int option"
  dv_checks :: "DispatchCheck list"
  dv_status :: DispatchStatus
  dv_notification_created :: bool

definition is_current_scope :: "DispatchSetup \<Rightarrow> db \<Rightarrow> (ScopeVersion \<times> bool) result" where
  "is_current_scope setup s = (case version_of_job (ds_job_id setup) (ds_source_scope_version_id setup) s of
     None \<Rightarrow> Inl DispatchConflictError
   | Some v \<Rightarrow> Inr (v, sv_locked_at v \<noteq> None \<and> \<not> has_child (sv_id v) s))"

definition locations_of_job :: "uuid \<Rightarrow> db \<Rightarrow> Location list" where
  "locations_of_job job_id s = filter (\<lambda>l. loc_job_id l = job_id) (locations s)"

definition get_dispatch_view :: "uuid \<Rightarrow> uuid \<Rightarrow> db \<Rightarrow> DispatchView result" where
  "get_dispatch_view job_id participant_id s =
     bindR (load_dispatch_job job_id s) (\<lambda>job.
     case find (\<lambda>p. jp_id p = participant_id \<and> jp_role p = COMPANY_MANAGER) (job_participants job_id s) of
       None \<Rightarrow> Inl DispatchNotFoundError
     | Some viewer \<Rightarrow>
         let header = change_job_header job (job_participants job_id s) (locations_of_job job_id s) viewer in
         (case setup_of_job job_id s of
            None \<Rightarrow> Inr \<lparr>dv_job = header, dv_setup = None, dv_plan = None, dv_source_sequence_number = None,
              dv_checks = [], dv_status = SETUP_REQUIRED, dv_notification_created = False\<rparr>
          | Some setup \<Rightarrow>
              bindR (is_current_scope setup s) (\<lambda>(version, current).
              let plan = plan_of_job job_id s in
              Inr \<lparr>dv_job = header, dv_setup = Some setup, dv_plan = plan,
                dv_source_sequence_number = Some (sv_sequence_number version), dv_checks = dispatch_checks setup plan,
                dv_status = (if \<not> current then STALE else if plan \<noteq> None then DS_CONFIRMED else DS_READY),
                dv_notification_created = (plan \<noteq> None)\<rparr>)))"

section \<open>The field worker's brief\<close>

definition confirmed_quote :: "ScopeProposal \<Rightarrow> QuoteSnapshot result" where
  "confirmed_quote p = (if sp_status p \<noteq> SP_CONFIRMED then Inl DispatchConflictError
     else if \<not> quote_ok (quote_from_proposal p) then Inl ValueError else Inr (quote_from_proposal p))"

text \<open>The row of an approved change that made the version, with its quote.\<close>

definition approved_change :: "uuid \<Rightarrow> uuid \<Rightarrow> db \<Rightarrow> ChangeProposalDetail option" where
  "approved_change job_id version_id s =
     find (\<lambda>d. case row cr_id (pd_change_request_id d) (change_requests s) of None \<Rightarrow> False
        | Some r \<Rightarrow> cr_job_id r = job_id \<and> cr_result_scope_version_id r = Some version_id \<and> cr_status r = CR_APPROVED)
       (proposal_details s)"

text \<open>The latest confirmed proposal of the job: the last one by time of confirmation and id.\<close>

definition latest_agreement :: "uuid \<Rightarrow> db \<Rightarrow> ScopeProposal option" where
  "latest_agreement job_id s =
     (case rev (sort_key (\<lambda>p. (sp_confirmed_at p, sp_id p))
             (filter (\<lambda>p. sp_job_id p = job_id \<and> sp_status p = SP_CONFIRMED) (scope_proposals s))) of
        [] \<Rightarrow> None | p # _ \<Rightarrow> Some p)"

definition field_brief_quote_context ::
    "uuid \<Rightarrow> uuid \<Rightarrow> db \<Rightarrow> (QuoteSnapshot option \<times> ScopeProposal option) result" where
  "field_brief_quote_context job_id version_id s =
     (case (proposal_for_result job_id version_id s, approved_change job_id version_id s) of
        (Some _, Some _) \<Rightarrow> Inl DispatchConflictError
      | (Some p, None) \<Rightarrow> bindR (confirmed_quote p) (\<lambda>q. Inr (Some q, Some p))
      | (None, None) \<Rightarrow> Inr (None, None)
      | (None, Some d) \<Rightarrow> (case latest_agreement job_id s of
            None \<Rightarrow> Inl DispatchConflictError
          | Some p \<Rightarrow> if \<not> quote_ok (quote_from_change_detail d) then Inl ValueError
                      else Inr (Some (quote_from_change_detail d), Some p)))"

definition assigned_worker :: "DispatchSetup \<Rightarrow> DispatchPlan \<Rightarrow> uuid \<Rightarrow> DispatchWorkerOption option" where
  "assigned_worker setup plan participant_id = find (\<lambda>w. wo_id w \<in> set (dp_selected_worker_option_ids plan) \<and>
     wo_participant_id w = Some participant_id) (ds_worker_options setup)"

record FieldBriefCheckItem =
  bi_key :: string
  bi_label :: string
  bi_confirmed :: bool

record FieldBriefWorker =
  bw_worker_id :: uuid
  bw_external_reference :: string
  bw_display_name :: string
  bw_role_label :: string
  bw_is_lead :: bool

record FieldBriefView =
  fb_job :: ScopeReviewJobHeader
  fb_dispatch_id :: uuid
  fb_scope :: ScopeVersion
  fb_quote :: "QuoteSnapshot option"
  fb_included_works :: "string list"
  fb_exclusions :: "string list"
  fb_start_at :: instant
  fb_origin :: "Location option"
  fb_destination :: "Location option"
  fb_lead_worker_name :: string
  fb_origin_conditions :: "string list"
  fb_field_check_required_count :: nat
  fb_check_in_items :: "FieldBriefCheckItem list"
  fb_completion_check_items :: "FieldBriefCheckItem list"
  fb_completion_required_count :: nat
  fb_completion_submission_id :: "uuid option"
  fb_assigned_vehicle :: DispatchVehicleOption
  fb_assigned_worker_count :: nat
  fb_assigned_workers :: "FieldBriefWorker list"
  fb_required_skills :: "string list"
  fb_safety_notice :: string
  fb_checked_in_at :: "instant option"

definition brief_items :: "DispatchCheckItem list \<Rightarrow> string list \<Rightarrow> FieldBriefCheckItem list" where
  "brief_items items confirmed = map (\<lambda>i. \<lparr>bi_key = ck_key i, bi_label = ck_label i,
     bi_confirmed = (ck_key i \<in> set confirmed)\<rparr>) items"

definition latest_submission :: "uuid \<Rightarrow> db \<Rightarrow> CompletionSubmission option" where
  "latest_submission job_id s =
     (case rev (sort_key (\<lambda>c. (cm_submitted_at c, cm_id c))
             (filter (\<lambda>c. cm_job_id c = job_id) (completion_submissions s))) of [] \<Rightarrow> None | c # _ \<Rightarrow> Some c)"

definition brief_workers :: "DispatchSetup \<Rightarrow> DispatchPlan \<Rightarrow> FieldBriefWorker list" where
  "brief_workers setup plan = map (\<lambda>w. \<lparr>bw_worker_id = wo_id w, bw_external_reference = wo_external_reference w,
       bw_display_name = wo_display_name w, bw_role_label = wo_role_label w,
       bw_is_lead = (wo_id w = dp_lead_worker_option_id plan)\<rparr>)
     (List.map_filter (worker_by_id (ds_worker_options setup)) (dp_selected_worker_option_ids plan))"

definition location_of_kind :: "LocationKind \<Rightarrow> Location list \<Rightarrow> Location option" where
  "location_of_kind k ls = find (\<lambda>l. loc_kind l = k) (rev ls)"

definition check_in_of :: "uuid \<Rightarrow> uuid \<Rightarrow> db \<Rightarrow> FieldCheckIn option" where
  "check_in_of job_id participant_id s =
     find (\<lambda>c. ci_job_id c = job_id \<and> ci_participant_id c = participant_id) (field_check_ins s)"

definition brief_view ::
    "uuid \<Rightarrow> uuid \<Rightarrow> MoveJob \<Rightarrow> JobParticipant \<Rightarrow> DispatchSetup \<Rightarrow> DispatchPlan \<Rightarrow> ScopeVersion \<Rightarrow>
     QuoteSnapshot option \<Rightarrow> ScopeProposal option \<Rightarrow> DispatchWorkerOption \<Rightarrow> DispatchVehicleOption \<Rightarrow> db \<Rightarrow> FieldBriefView" where
  "brief_view job_id participant_id job viewer setup plan version quote agreement lead vehicle s =
     (let check_in = check_in_of job_id participant_id s;
          submission = latest_submission job_id s;
          items = brief_items (ds_check_in_items setup) (case check_in of None \<Rightarrow> [] | Some c \<Rightarrow> ci_confirmed_check_keys c);
          completion_items = brief_items (ds_completion_check_items setup)
            (case submission of None \<Rightarrow> [] | Some c \<Rightarrow> cm_completed_check_keys c);
          ls = locations_of_job job_id s in
      \<lparr>fb_job = change_job_header job (job_participants job_id s) ls viewer, fb_dispatch_id = dp_id plan,
       fb_scope = version, fb_quote = quote,
       fb_included_works = (case agreement of None \<Rightarrow> [] | Some p \<Rightarrow> sp_included_works p),
       fb_exclusions = (case agreement of None \<Rightarrow> [] | Some p \<Rightarrow> sp_exclusions p),
       fb_start_at = ds_start_at setup, fb_origin = location_of_kind ORIGIN ls,
       fb_destination = location_of_kind DESTINATION ls, fb_lead_worker_name = wo_display_name lead,
       fb_origin_conditions = ds_origin_conditions setup,
       fb_field_check_required_count = length (filter (\<lambda>i. \<not> bi_confirmed i) items), fb_check_in_items = items,
       fb_completion_check_items = completion_items,
       fb_completion_required_count = length (filter (\<lambda>i. \<not> bi_confirmed i) completion_items),
       fb_completion_submission_id = map_option cm_id submission, fb_assigned_vehicle = vehicle,
       fb_assigned_worker_count = length (dp_selected_worker_option_ids plan),
       fb_assigned_workers = brief_workers setup plan, fb_required_skills = ds_required_skills setup,
       fb_safety_notice = ds_safety_notice setup, fb_checked_in_at = map_option ci_checked_in_at check_in\<rparr>)"

definition get_field_brief :: "uuid \<Rightarrow> uuid \<Rightarrow> db \<Rightarrow> FieldBriefView result" where
  "get_field_brief job_id participant_id s =
     bindR (load_dispatch_job job_id s) (\<lambda>job.
     case find (\<lambda>p. jp_id p = participant_id \<and> jp_role p = FIELD_WORKER) (job_participants job_id s) of
       None \<Rightarrow> Inl DispatchNotFoundError
     | Some viewer \<Rightarrow>
         (case (setup_of_job job_id s, plan_of_job job_id s) of
            (Some setup, Some plan) \<Rightarrow>
              bindR (dispatch_current_scope job_id (ds_source_scope_version_id setup) s) (\<lambda>version.
              bindR (field_brief_quote_context job_id (sv_id version) s) (\<lambda>(quote, agreement).
              case assigned_worker setup plan participant_id of
                None \<Rightarrow> Inl DispatchNotFoundError
              | Some _ \<Rightarrow>
                  (case (worker_by_id (ds_worker_options setup) (dp_lead_worker_option_id plan),
                         find (\<lambda>v. vo_id v = dp_vehicle_option_id plan) (rev (ds_vehicle_options setup))) of
                     (Some lead, Some vehicle) \<Rightarrow>
                       Inr (brief_view job_id participant_id job viewer setup plan version quote agreement lead vehicle s)
                   | _ \<Rightarrow> Inl DispatchConflictError)))
          | _ \<Rightarrow> Inl DispatchConflictError))"

section \<open>Check-in\<close>

record FieldCheckInResponse =
  fcr_check_in_id :: uuid
  fcr_dispatch_id :: uuid
  fcr_participant_id :: uuid
  fcr_confirmed_check_keys :: "string list"
  fcr_checked_in_at :: instant

definition check_in_response :: "FieldCheckIn \<Rightarrow> FieldCheckInResponse" where
  "check_in_response c = \<lparr>fcr_check_in_id = ci_id c, fcr_dispatch_id = ci_dispatch_plan_id c,
     fcr_participant_id = ci_participant_id c, fcr_confirmed_check_keys = ci_confirmed_check_keys c,
     fcr_checked_in_at = ci_checked_in_at c\<rparr>"

text \<open>The calendar date of an instant at the service's place, nine hours ahead of UTC: the number
  of the day since the epoch.\<close>

definition field_service_date :: "instant \<Rightarrow> int" where
  "field_service_date t = (t + seconds (9 * 3600)) div seconds 86400"

definition insert_check_in :: "FieldCheckIn \<Rightarrow> db \<Rightarrow> db result" where
  "insert_check_in r s = (if list_ex (\<lambda>q. (ci_job_id q = ci_job_id r \<or> ci_dispatch_plan_id q = ci_dispatch_plan_id r) \<and>
       ci_participant_id q = ci_participant_id r) (field_check_ins s)
     then Inl IntegrityError else Inr (s\<lparr>field_check_ins := field_check_ins s @ [r]\<rparr>))"

definition check_in_field_worker ::
    "uuid \<Rightarrow> uuid \<Rightarrow> FieldCheckInCreate \<Rightarrow> instant \<Rightarrow> db \<Rightarrow> (FieldCheckInResponse \<times> db) result" where
  "check_in_field_worker job_id participant_id cmd now s =
     bindR (load_dispatch_job job_id s) (\<lambda>job.
     bindR (require_open_scheduled_job job) (\<lambda>_.
     if \<not> is_participant job_id participant_id {FIELD_WORKER} s then Inl DispatchNotFoundError
     else case (setup_of_job job_id s, row dp_id (fcc_dispatch_id cmd) (dispatch_plans s)) of
       (Some setup, Some plan) \<Rightarrow>
         if dp_job_id plan \<noteq> job_id \<or> dp_setup_id plan \<noteq> ds_id setup then Inl DispatchNotFoundError
         else (case assigned_worker setup plan participant_id of
           None \<Rightarrow> Inl DispatchNotFoundError
         | Some worker \<Rightarrow>
             bindR (dispatch_current_scope job_id (ds_source_scope_version_id setup) s) (\<lambda>_.
             let required = map ck_key (ds_check_in_items setup) in
             if set (fcc_confirmed_check_keys cmd) \<noteq> set required then Inl DispatchConflictError
             else (case check_in_of job_id participant_id s of
               Some existing \<Rightarrow>
                 if ci_dispatch_plan_id existing = dp_id plan \<and>
                    set (ci_confirmed_check_keys existing) = set (fcc_confirmed_check_keys cmd)
                 then Inr (check_in_response existing, s) else Inl DispatchConflictError
             | None \<Rightarrow>
                 if field_service_date now \<noteq> field_service_date (ds_start_at setup) then Inl DispatchConflictError
                 else let (i, s1) = uuid4 s;
                          c = \<lparr>ci_id = i, ci_job_id = job_id, ci_dispatch_plan_id = dp_id plan,
                               ci_participant_id = participant_id, ci_worker_option_id = wo_id worker,
                               ci_confirmed_check_keys = required, ci_checked_in_at = now\<rparr> in
                   (case insert_check_in c s1 of
                      Inl _ \<Rightarrow> Inl DispatchConflictError | Inr s2 \<Rightarrow> Inr (check_in_response c, s2)))))
     | _ \<Rightarrow> Inl DispatchNotFoundError))"

end
