(* ===== verification/Completion.thy ===== *)
theory Completion
  imports Dispatch BackgroundJobs
begin

text \<open>
  Ending a move job: the worker's submission, the company's request, the customer's decision, and
  the older way of confirming from both sides (\<open>app/modules/completion/service.py\<close> with the
  commands and responses of its \<open>schemas.py\<close>). Lemmas are in CompletionProofs. A command
  is hashed over its JSON; a time in it, which the code writes as text in the offset the
  client chose, is written as its instant.
\<close>

section \<open>Commands and responses\<close>

record CompletionConfirmationCreate =
  ccc_scope_version_id :: uuid
  ccc_evidence_media_asset_ids :: "uuid list"

definition completion_confirmation_create_ok :: "CompletionConfirmationCreate \<Rightarrow> bool" where
  "completion_confirmation_create_ok c = (1 \<le> length (ccc_evidence_media_asset_ids c) \<and>
     length (ccc_evidence_media_asset_ids c) \<le> 50 \<and> distinct (ccc_evidence_media_asset_ids c))"

record CompletionConfirmationResponse =
  ccr_confirmation :: CompletionConfirmation
  ccr_evidence_media_asset_ids :: "uuid list"

record CompletionResult =
  cor_confirmation :: CompletionConfirmationResponse
  cor_job_status :: MoveJobStatus
  cor_completed_at :: "instant option"

definition shift_create_ok :: "CompletionWorkerShiftCreate \<Rightarrow> bool" where
  "shift_create_ok w = (\<not> wsc_ended_at w < wsc_started_at w)"

record CompletionSubmissionCreate =
  csc_client_reference :: uuid
  csc_dispatch_id :: uuid
  csc_scope_version_id :: uuid
  csc_completion_media_asset_ids :: "uuid list"
  csc_completed_check_keys :: "string list"
  csc_worker_shifts :: "CompletionWorkerShiftCreate list"
  csc_onsite_confirmed_at :: instant
  csc_work_ended_at :: instant

definition completion_submission_create_ok :: "CompletionSubmissionCreate \<Rightarrow> bool" where
  "completion_submission_create_ok c = (length (csc_completion_media_asset_ids c) \<le> 50 \<and>
     1 \<le> length (csc_completed_check_keys c) \<and> length (csc_completed_check_keys c) \<le> 20 \<and>
     1 \<le> length (csc_worker_shifts c) \<and> length (csc_worker_shifts c) \<le> 50 \<and>
     list_all shift_create_ok (csc_worker_shifts c) \<and> distinct (csc_completion_media_asset_ids c) \<and>
     distinct (csc_completed_check_keys c) \<and> distinct (map wsc_worker_id (csc_worker_shifts c)))"

record CompletionWorkerShift =
  sh_worker_id :: uuid
  sh_external_reference :: string
  sh_display_name :: string
  sh_role_label :: string
  sh_started_at :: instant
  sh_ended_at :: instant
  sh_duration_minutes :: int

record CompletionSubmissionResponse =
  csr_submission :: CompletionSubmission
  csr_completion_media_asset_ids :: "uuid list"
  csr_worker_shifts :: "CompletionWorkerShift list"

record CompletionRequestCreate =
  cqc_client_reference :: uuid
  cqc_completion_submission_id :: uuid

datatype CompletionRequestViewStatus = VIEW_NOT_REQUESTED | VIEW_REQUESTED | VIEW_CONFIRMED
  | VIEW_ISSUE_REPORTED | VIEW_REVOKED | VIEW_EXPIRED

record CompletionRequestResponse =
  cqr_completion_request_id :: uuid
  cqr_client_reference :: uuid
  cqr_completion_submission_id :: uuid
  cqr_status :: CompletionRequestViewStatus
  cqr_requested_at :: instant
  cqr_expires_at :: instant
  cqr_revoked_at :: "instant option"
  cqr_decided_at :: "instant option"
  cqr_unrecorded_extra_charge :: "bool option"
  cqr_problem_report :: "CompletionProblemReport option"

datatype completion_decision = CONFIRM | REPORT_ISSUE

record CompletionDecisionCreate =
  cdc2_decision :: completion_decision
  cdc2_problem_type :: "CompletionProblemType option"
  cdc2_problem_description :: "string option"
  cdc2_unrecorded_extra_charge :: "bool option"

definition completion_decision_create_ok :: "CompletionDecisionCreate \<Rightarrow> bool" where
  "completion_decision_create_ok c = (optional_text 1 2000 (cdc2_problem_description c) \<and>
     (if cdc2_decision c = REPORT_ISSUE then cdc2_problem_type c \<noteq> None \<and> cdc2_problem_description c \<noteq> None
      else cdc2_problem_type c = None \<and> cdc2_problem_description c = None))"

record CompletionDecisionResponse =
  cdr_completion_request_id :: uuid
  cdr_decision :: completion_decision
  cdr_status :: CompletionRequestStatus
  cdr_job_status :: MoveJobStatus
  cdr_completed_at :: "instant option"
  cdr_decided_at :: instant
  cdr_problem_report :: "CompletionProblemReport option"
  cdr_retention_scheduled_count :: nat

definition REQUIRED_COMPLETION_ROLES :: "ParticipantRole list" where
  "REQUIRED_COMPLETION_ROLES = [CUSTOMER, COMPANY_MANAGER]"

definition COMPLETION_REQUEST_TTL :: duration where
  "COMPLETION_REQUEST_TTL = days 7"

definition COMPLETION_READ_URL_TTL_SECONDS :: int where
  "COMPLETION_READ_URL_TTL_SECONDS = 5 * 60"

definition COMPLETION_CLOCK_SKEW :: duration where
  "COMPLETION_CLOCK_SKEW = seconds (5 * 60)"

definition COMPLETION_MAX_SHIFT_LOOKBACK :: duration where
  "COMPLETION_MAX_SHIFT_LOOKBACK = seconds (24 * 3600)"

text \<open>The digests of the commands.\<close>

definition shift_json :: "CompletionWorkerShiftCreate \<Rightarrow> json" where
  "shift_json w = JObj [(''ended_at'', JInt (wsc_ended_at w)), (''started_at'', JInt (wsc_started_at w)),
     (''worker_id'', id_json (wsc_worker_id w))]"

definition submission_command_json :: "CompletionSubmissionCreate \<Rightarrow> json" where
  "submission_command_json c = JObj [
     (''client_reference'', id_json (csc_client_reference c)),
     (''completed_check_keys'', strings_json (csc_completed_check_keys c)),
     (''completion_media_asset_ids'', JList (map id_json (csc_completion_media_asset_ids c))),
     (''dispatch_id'', id_json (csc_dispatch_id c)), (''onsite_confirmed_at'', JInt (csc_onsite_confirmed_at c)),
     (''onsite_customer_confirmed'', JBool True), (''scope_version_id'', id_json (csc_scope_version_id c)),
     (''work_ended_at'', JInt (csc_work_ended_at c)), (''worker_shifts'', JList (map shift_json (csc_worker_shifts c)))]"

definition request_command_json :: "CompletionRequestCreate \<Rightarrow> json" where
  "request_command_json c = JObj [(''client_reference'', id_json (cqc_client_reference c)),
     (''completion_submission_id'', id_json (cqc_completion_submission_id c))]"

fun problem_value :: "CompletionProblemType \<Rightarrow> string" where
  "problem_value PROBLEM_MISSING_WORK = ''missing_work''"
| "problem_value PROBLEM_DAMAGE = ''damage''"
| "problem_value PROBLEM_AMOUNT = ''amount''"
| "problem_value PROBLEM_OTHER = ''other''"

fun completion_decision_value :: "completion_decision \<Rightarrow> string" where
  "completion_decision_value CONFIRM = ''confirm''"
| "completion_decision_value REPORT_ISSUE = ''report_issue''"

definition decision_command_json :: "CompletionDecisionCreate \<Rightarrow> json" where
  "decision_command_json c = JObj [(''decision'', JStr (completion_decision_value (cdc2_decision c))),
     (''problem_description'', json_opt JStr (cdc2_problem_description c)),
     (''problem_type'', json_opt (JStr \<circ> problem_value) (cdc2_problem_type c)),
     (''unrecorded_extra_charge'', json_opt JBool (cdc2_unrecorded_extra_charge c))]"

section \<open>Confirming from both sides\<close>

definition confirmation_evidence :: "uuid \<Rightarrow> db \<Rightarrow> uuid list" where
  "confirmation_evidence i s = map cv_media_asset_id (filter (\<lambda>e. cv_confirmation_id e = i) (completion_evidence s))"

definition confirmation_response :: "CompletionConfirmation \<Rightarrow> db \<Rightarrow> CompletionConfirmationResponse" where
  "confirmation_response c s = \<lparr>ccr_confirmation = c, ccr_evidence_media_asset_ids = sort (confirmation_evidence (cc_id c) s)\<rparr>"

definition issue_unresolved :: "FieldIssue \<Rightarrow> db \<Rightarrow> bool" where
  "issue_unresolved issue s = (let ds = filter (\<lambda>d. pd_field_issue_id d = fi_id issue) (proposal_details s) in
     ds = [] \<or> list_ex (\<lambda>d. case row cr_id (pd_change_request_id d) (change_requests s) of None \<Rightarrow> False
       | Some r \<Rightarrow> cr_status r \<notin> {CR_APPROVED, CR_REJECTED}) ds)"

definition ensure_field_issues_resolved :: "uuid \<Rightarrow> db \<Rightarrow> unit result" where
  "ensure_field_issues_resolved job_id s =
     (if list_ex (\<lambda>i. fi_job_id i = job_id \<and> issue_unresolved i s) (field_issues s)
      then Inl CompletionConflictError else Inr ())"

definition open_change :: "uuid \<Rightarrow> db \<Rightarrow> bool" where
  "open_change job_id s = list_ex (\<lambda>r. cr_job_id r = job_id \<and> cr_status r \<in> {CR_PENDING, CR_CLARIFICATION_REQUESTED})
     (change_requests s)"

definition confirmations_of_job :: "uuid \<Rightarrow> db \<Rightarrow> CompletionConfirmation list" where
  "confirmations_of_job job_id s = filter (\<lambda>c. cc_job_id c = job_id) (completion_confirmations s)"

text \<open>Whether an asset is completion evidence a field worker of the job captured.\<close>

definition worker_evidence :: "uuid \<Rightarrow> MediaAsset \<Rightarrow> db \<Rightarrow> bool" where
  "worker_evidence job_id a s = (case row cs_id (ma_capture_session_id a) (capture_sessions s) of None \<Rightarrow> False
     | Some c \<Rightarrow> cs_job_id c = job_id \<and> is_participant job_id (cs_created_by_participant_id c) {FIELD_WORKER} s \<and>
         ma_media_purpose a = COMPLETION \<and> ma_status a \<in> {UPLOADED, READY})"

definition insert_confirmation :: "CompletionConfirmation \<Rightarrow> db \<Rightarrow> db result" where
  "insert_confirmation c s = (if \<not> completion_confirmation_check c \<or>
       list_ex (\<lambda>q. cc_job_id q = cc_job_id c \<and> cc_role q = cc_role c) (completion_confirmations s)
     then Inl IntegrityError else Inr (s\<lparr>completion_confirmations := completion_confirmations s @ [c]\<rparr>))"

definition add_evidence :: "uuid \<Rightarrow> uuid list \<Rightarrow> db \<Rightarrow> db" where
  "add_evidence i ids s = s\<lparr>completion_evidence := completion_evidence s @
     map (\<lambda>m. \<lparr>cv_confirmation_id = i, cv_media_asset_id = m\<rparr>) ids\<rparr>"

definition confirmation_payload :: "CompletionConfirmation \<Rightarrow> uuid list \<Rightarrow> (string \<times> json) list" where
  "confirmation_payload c ids = [(''completion_confirmation_id'', id_json (cc_id c)),
     (''scope_version_id'', id_json (cc_scope_version_id c)),
     (''evidence_media_asset_ids'', JList (map JStr (sort (map uuid_str ids))))]"

text \<open>Storing one side's confirmation with its evidence and its entry in the audit trail.\<close>

definition store_confirmation ::
    "uuid \<Rightarrow> uuid \<Rightarrow> uuid \<Rightarrow> ParticipantRole \<Rightarrow> uuid list \<Rightarrow> instant \<Rightarrow> db \<Rightarrow> (CompletionConfirmation \<times> db) result" where
  "store_confirmation job_id scope_id participant_id role ids now s =
     (let (i, s1) = uuid4 s;
          c = \<lparr>cc_id = i, cc_job_id = job_id, cc_scope_version_id = scope_id, cc_participant_id = participant_id,
               cc_role = role, cc_confirmed_at = now\<rparr> in
      bindR (insert_confirmation c s1) (\<lambda>s2.
        Inr (c, add_audit_event job_id AU_COMPLETION_CONFIRMED (Some participant_id) (confirmation_payload c ids) now
               (add_evidence i ids s2))))"

definition complete_job :: "uuid \<Rightarrow> instant \<Rightarrow> db \<Rightarrow> db" where
  "complete_job job_id now s = (case row mj_id job_id (move_jobs s) of None \<Rightarrow> s
     | Some j \<Rightarrow> s\<lparr>move_jobs := put_row mj_id (j\<lparr>mj_status := COMPLETED, mj_completed_at := Some now, mj_updated_at := now\<rparr>)
         (move_jobs s)\<rparr>)"

fun schedule_retention ::
    "uuid \<Rightarrow> MediaAsset list \<Rightarrow> int \<Rightarrow> string \<Rightarrow> instant \<Rightarrow> db \<Rightarrow> db result" where
  "schedule_retention job_id [] retention_days trace now s = Inr s"
| "schedule_retention job_id (a # as) retention_days trace now s =
     bindR (create_retention_background_job job_id (ma_id a) None now trace (Some (now + days retention_days)) now s)
       (\<lambda>(_, s1). schedule_retention job_id as retention_days trace now s1)"

text \<open>An integrity error while the changes are flushed is reported as a conflict.\<close>

definition as_conflict :: "'a result \<Rightarrow> 'a result" where
  "as_conflict m = (case m of Inl IntegrityError \<Rightarrow> Inl CompletionConflictError | _ \<Rightarrow> m)"

definition confirm_completion ::
    "uuid \<Rightarrow> uuid \<Rightarrow> ParticipantRole \<Rightarrow> CompletionConfirmationCreate \<Rightarrow> int \<Rightarrow> string \<Rightarrow> instant \<Rightarrow> db \<Rightarrow>
     (CompletionResult \<times> db) result" where
  "confirm_completion job_id participant_id role cmd retention_days trace now s =
     (case row mj_id job_id (move_jobs s) of
        None \<Rightarrow> Inl CompletionResourceNotFoundError
      | Some job \<Rightarrow>
      if mj_status job \<in> {COMPLETED, CANCELED} then Inl CompletionConflictError
      else if \<not> (is_participant job_id participant_id {role} s \<and> role \<in> set REQUIRED_COMPLETION_ROLES)
      then Inl CompletionResourceNotFoundError
      else bindR (ensure_field_issues_resolved job_id s) (\<lambda>_.
      case version_of_job job_id (ccc_scope_version_id cmd) s of
        None \<Rightarrow> Inl CompletionResourceNotFoundError
      | Some v \<Rightarrow>
      if sv_locked_at v = None then Inl CompletionConflictError
      else if has_child (sv_id v) s then Inl CompletionConflictError
      else if open_change job_id s then Inl CompletionConflictError
      else let others = confirmations_of_job job_id s;
               ids = ccc_evidence_media_asset_ids cmd in
      if list_ex (\<lambda>c. cc_role c = role) others then Inl CompletionConflictError
      else if list_ex (\<lambda>c. cc_scope_version_id c \<noteq> ccc_scope_version_id cmd) others then Inl CompletionConflictError
      else if (case others of [] \<Rightarrow> False | c # _ \<Rightarrow> set (confirmation_evidence (cc_id c) s) \<noteq> set ids)
      then Inl CompletionConflictError
      else let assets = filter (\<lambda>a. ma_id a \<in> set ids \<and> worker_evidence job_id a s) (media_assets s) in
      if set (map ma_id assets) \<noteq> set ids \<or> list_ex (\<lambda>a. \<not> trimmed_generation a) assets
      then Inl CompletionInvalidError
      else bindR (store_confirmation job_id (ccc_scope_version_id cmd) participant_id role ids now s) (\<lambda>(c, s1).
        if set (map cc_role others) \<union> {role} = set REQUIRED_COMPLETION_ROLES then
          (let s2 = add_audit_event job_id AU_JOB_COMPLETED (Some participant_id)
                  [(''scope_version_id'', id_json (ccc_scope_version_id cmd))] now (complete_job job_id now s1) in
           bindR (as_conflict (schedule_retention job_id assets retention_days trace now s2)) (\<lambda>s3.
             Inr (\<lparr>cor_confirmation = confirmation_response c s3, cor_job_status = COMPLETED, cor_completed_at = Some now\<rparr>, s3)))
        else Inr (\<lparr>cor_confirmation = confirmation_response c s1, cor_job_status = mj_status job, cor_completed_at = None\<rparr>, s1))))"

definition list_completion_confirmations :: "uuid \<Rightarrow> db \<Rightarrow> CompletionConfirmationResponse list" where
  "list_completion_confirmations job_id s = map (\<lambda>c. confirmation_response c s)
     (sort_key (\<lambda>c. (cc_confirmed_at c, cc_id c)) (confirmations_of_job job_id s))"

definition list_audit_events :: "uuid \<Rightarrow> db \<Rightarrow> AuditEvent list" where
  "list_audit_events job_id s = sort_key (\<lambda>e. (ae_occurred_at e, ae_id e))
     (filter (\<lambda>e. ae_job_id e = job_id) (audit_events s))"

section \<open>The current scope and the latest rows\<close>

definition load_completion_job :: "uuid \<Rightarrow> db \<Rightarrow> MoveJob result" where
  "load_completion_job job_id s = (case row mj_id job_id (move_jobs s) of
     None \<Rightarrow> Inl CompletionResourceNotFoundError | Some job \<Rightarrow> Inr job)"

definition completion_participant :: "uuid \<Rightarrow> uuid \<Rightarrow> ParticipantRole \<Rightarrow> db \<Rightarrow> JobParticipant result" where
  "completion_participant job_id participant_id role s =
     (case find (\<lambda>p. jp_id p = participant_id \<and> jp_role p = role) (job_participants job_id s) of
        None \<Rightarrow> Inl CompletionResourceNotFoundError | Some p \<Rightarrow> Inr p)"

definition latest_version :: "(ScopeVersion \<Rightarrow> bool) \<Rightarrow> uuid \<Rightarrow> db \<Rightarrow> ScopeVersion option" where
  "latest_version P job_id s = (case rev (sort_key (\<lambda>v. (sv_sequence_number v, sv_id v))
       (filter (\<lambda>v. sv_job_id v = job_id \<and> P v) (scope_versions s))) of [] \<Rightarrow> None | v # _ \<Rightarrow> Some v)"

definition completion_current_scope :: "uuid \<Rightarrow> uuid option \<Rightarrow> db \<Rightarrow> ScopeVersion result" where
  "completion_current_scope job_id expected s = (case latest_version (\<lambda>_. True) job_id s of
     None \<Rightarrow> Inl CompletionResourceNotFoundError
   | Some v \<Rightarrow> if sv_locked_at v = None \<or> (case expected of None \<Rightarrow> False | Some i \<Rightarrow> sv_id v \<noteq> i) then Inl CompletionConflictError
       else if has_child (sv_id v) s then Inl CompletionConflictError else Inr v)"

definition latest_request :: "(CompletionRequest \<Rightarrow> bool) \<Rightarrow> uuid \<Rightarrow> db \<Rightarrow> CompletionRequest option" where
  "latest_request P job_id s = (case rev (sort_key (\<lambda>r. (cq_requested_at r, cq_id r))
       (filter (\<lambda>r. cq_job_id r = job_id \<and> P r) (completion_requests s))) of [] \<Rightarrow> None | r # _ \<Rightarrow> Some r)"

definition submission_evidence_ids :: "uuid \<Rightarrow> db \<Rightarrow> uuid list" where
  "submission_evidence_ids i s = sort (map me_media_asset_id
     (filter (\<lambda>e. me_completion_submission_id e = i) (submission_evidence s)))"

section \<open>The worker's submission\<close>

definition shift_response :: "CompletionWorkerShiftCreate \<Rightarrow> DispatchWorkerOption \<Rightarrow> CompletionWorkerShift" where
  "shift_response w o' = \<lparr>sh_worker_id = wsc_worker_id w, sh_external_reference = wo_external_reference o',
     sh_display_name = wo_display_name o', sh_role_label = wo_role_label o', sh_started_at = wsc_started_at w,
     sh_ended_at = wsc_ended_at w, sh_duration_minutes = (wsc_ended_at w - wsc_started_at w) div seconds 60\<rparr>"

definition submission_response :: "CompletionSubmission \<Rightarrow> DispatchSetup \<Rightarrow> db \<Rightarrow> CompletionSubmissionResponse result" where
  "submission_response r setup s =
     bindR (mapR (\<lambda>w. case worker_by_id (ds_worker_options setup) (wsc_worker_id w) of
         None \<Rightarrow> Inl CompletionConflictError | Some o' \<Rightarrow> Inr (shift_response w o')) (cm_worker_shifts r))
       (\<lambda>shifts. Inr \<lparr>csr_submission = r, csr_completion_media_asset_ids = submission_evidence_ids (cm_id r) s,
          csr_worker_shifts = shifts\<rparr>)"

text \<open>A new submission may follow only one whose review has ended without a confirmation.\<close>

definition submission_blocked :: "uuid \<Rightarrow> instant \<Rightarrow> db \<Rightarrow> bool" where
  "submission_blocked job_id now s = (case latest_submission job_id s of None \<Rightarrow> False
     | Some c \<Rightarrow> (case latest_request (\<lambda>_. True) job_id s of None \<Rightarrow> True
         | Some r \<Rightarrow> cq_completion_submission_id r \<noteq> cm_id c \<or> (cq_status r = CQ_REQUESTED \<and> now < cq_expires_at r) \<or>
             cq_status r = CQ_CONFIRMED))"

definition times_ok :: "CompletionSubmissionCreate \<Rightarrow> instant \<Rightarrow> instant \<Rightarrow> bool" where
  "times_ok cmd check_in_at now = (\<not> (csc_work_ended_at cmd < check_in_at \<or> csc_onsite_confirmed_at cmd < check_in_at \<or>
     now + COMPLETION_CLOCK_SKEW < csc_work_ended_at cmd \<or> now + COMPLETION_CLOCK_SKEW < csc_onsite_confirmed_at cmd \<or>
     list_ex (\<lambda>w. wsc_started_at w < check_in_at - COMPLETION_MAX_SHIFT_LOOKBACK \<or>
        csc_work_ended_at cmd < wsc_ended_at w) (csc_worker_shifts cmd)))"

definition own_completion_media :: "uuid \<Rightarrow> uuid \<Rightarrow> MediaAsset \<Rightarrow> db \<Rightarrow> bool" where
  "own_completion_media job_id participant_id a s =
     (case row cs_id (ma_capture_session_id a) (capture_sessions s) of None \<Rightarrow> False
      | Some c \<Rightarrow> cs_job_id c = job_id \<and> cs_created_by_participant_id c = participant_id \<and>
          ma_media_purpose a = COMPLETION \<and> ma_status a \<in> {UPLOADED, READY} \<and> ma_generation a \<noteq> None)"

definition new_submission ::
    "uuid \<Rightarrow> uuid \<Rightarrow> uuid \<Rightarrow> CompletionSubmissionCreate \<Rightarrow> DispatchPlan \<Rightarrow> ScopeVersion \<Rightarrow> string \<Rightarrow> string list \<Rightarrow> instant \<Rightarrow>
     CompletionSubmission" where
  "new_submission i job_id participant_id cmd plan scope h required now = \<lparr>cm_id = i, cm_job_id = job_id,
     cm_client_reference = csc_client_reference cmd, cm_dispatch_plan_id = dp_id plan, cm_scope_version_id = sv_id scope,
     cm_submitted_by_participant_id = participant_id, cm_command_hash = h, cm_completed_check_keys = required,
     cm_worker_shifts = csc_worker_shifts cmd, cm_onsite_customer_confirmed = True,
     cm_onsite_confirmed_at = csc_onsite_confirmed_at cmd, cm_work_ended_at = csc_work_ended_at cmd, cm_submitted_at = now\<rparr>"

definition insert_submission :: "CompletionSubmission \<Rightarrow> uuid list \<Rightarrow> db \<Rightarrow> db result" where
  "insert_submission r media s = (if \<not> completion_submission_check r \<or>
       list_ex (\<lambda>q. cm_job_id q = cm_job_id r \<and> cm_client_reference q = cm_client_reference r) (completion_submissions s)
     then Inl IntegrityError
     else Inr (s\<lparr>completion_submissions := completion_submissions s @ [r],
       submission_evidence := submission_evidence s @
         map (\<lambda>m. \<lparr>me_completion_submission_id = cm_id r, me_media_asset_id = m\<rparr>) media\<rparr>))"

definition submission_payload :: "CompletionSubmission \<Rightarrow> (string \<times> json) list" where
  "submission_payload r = [(''completion_submission_id'', id_json (cm_id r)),
     (''scope_version_id'', id_json (cm_scope_version_id r)),
     (''field_worker_participant_id'', id_json (cm_submitted_by_participant_id r))]"

text \<open>What the submission must agree with: the plan, the scope, the check-in, the items, the workers
  and the times.\<close>

definition submission_facts ::
    "uuid \<Rightarrow> uuid \<Rightarrow> CompletionSubmissionCreate \<Rightarrow> DispatchSetup \<Rightarrow> instant \<Rightarrow> db \<Rightarrow> (DispatchPlan \<times> ScopeVersion) result" where
  "submission_facts job_id participant_id cmd setup now s =
     (case row dp_id (csc_dispatch_id cmd) (dispatch_plans s) of
        None \<Rightarrow> Inl CompletionResourceNotFoundError
      | Some plan \<Rightarrow>
      if dp_job_id plan \<noteq> job_id \<or> dp_setup_id plan \<noteq> ds_id setup then Inl CompletionResourceNotFoundError
      else bindR (completion_current_scope job_id (Some (csc_scope_version_id cmd)) s) (\<lambda>scope.
      if dp_source_scope_version_id plan \<noteq> sv_id scope then Inl CompletionConflictError
      else case find (\<lambda>c. ci_job_id c = job_id \<and> ci_dispatch_plan_id c = dp_id plan \<and> ci_participant_id c = participant_id)
                  (field_check_ins s) of
        None \<Rightarrow> Inl CompletionConflictError
      | Some check_in \<Rightarrow>
      if set (csc_completed_check_keys cmd) \<noteq> set (map ck_key (ds_completion_check_items setup)) then Inl CompletionConflictError
      else if set (map wsc_worker_id (csc_worker_shifts cmd)) \<noteq> set (dp_selected_worker_option_ids plan)
      then Inl CompletionConflictError
      else (case worker_by_id (ds_worker_options setup) (dp_lead_worker_option_id plan) of
        None \<Rightarrow> Inl CompletionConflictError
      | Some lead \<Rightarrow>
          if wo_participant_id lead \<noteq> Some participant_id then Inl CompletionConflictError
          else if \<not> times_ok cmd (ci_checked_in_at check_in) now then Inl CompletionConflictError
          else Inr (plan, scope))))"

definition submit_completion ::
    "uuid \<Rightarrow> uuid \<Rightarrow> CompletionSubmissionCreate \<Rightarrow> string \<Rightarrow> instant \<Rightarrow> db \<Rightarrow> (CompletionSubmissionResponse \<times> db) result" where
  "submit_completion job_id participant_id cmd trace now s =
     bindR (load_completion_job job_id s) (\<lambda>job.
     bindR (completion_participant job_id participant_id FIELD_WORKER s) (\<lambda>_.
     let h = command_hash (submission_command_json cmd) s;
         replay = find (\<lambda>r. cm_job_id r = job_id \<and> cm_client_reference r = csc_client_reference cmd) (completion_submissions s) in
     case setup_of_job job_id s of
       None \<Rightarrow> Inl CompletionResourceNotFoundError
     | Some setup \<Rightarrow>
     (case replay of
        Some r \<Rightarrow> if cm_command_hash r = h \<and> cm_submitted_by_participant_id r = participant_id
          then bindR (submission_response r setup s) (\<lambda>resp. Inr (resp, s)) else Inl CompletionConflictError
      | None \<Rightarrow>
     if mj_status job \<in> {COMPLETED, CANCELED} then Inl CompletionConflictError
     else bindR (ensure_field_issues_resolved job_id s) (\<lambda>_.
     if submission_blocked job_id now s then Inl CompletionConflictError
     else bindR (submission_facts job_id participant_id cmd setup now s) (\<lambda>(plan, scope).
     let ids = csc_completion_media_asset_ids cmd;
         assets = filter (\<lambda>a. ma_id a \<in> set ids \<and> own_completion_media job_id participant_id a s) (media_assets s) in
     if set (map ma_id assets) \<noteq> set ids \<or> list_ex (\<lambda>a. \<not> trimmed_generation a) assets then Inl CompletionInvalidError
     else let (i, s1) = uuid4 s;
              r = new_submission i job_id participant_id cmd plan scope h (map ck_key (ds_completion_check_items setup)) now in
       (case insert_submission r (map ma_id assets) s1 of
          Inl _ \<Rightarrow> Inl CompletionConflictError
        | Inr s2 \<Rightarrow>
            bindR (enqueue_domain_event COMPLETION_SUBMITTED_V1 job_id (Some participant_id) (Some trace)
                     (submission_payload r) now s2) (\<lambda>(_, s3).
            bindR (submission_response r setup s3) (\<lambda>resp. Inr (resp, s3)))))))))"

section \<open>The company's request\<close>

definition problem_of_request :: "uuid \<Rightarrow> db \<Rightarrow> CompletionProblemReport option" where
  "problem_of_request i s = find (\<lambda>p. pr_completion_request_id p = i) (problem_reports s)"

fun request_status_view :: "CompletionRequestStatus \<Rightarrow> CompletionRequestViewStatus" where
  "request_status_view CQ_REQUESTED = VIEW_REQUESTED"
| "request_status_view CQ_CONFIRMED = VIEW_CONFIRMED"
| "request_status_view CQ_ISSUE_REPORTED = VIEW_ISSUE_REPORTED"
| "request_status_view CQ_REVOKED = VIEW_REVOKED"

definition request_view_status :: "CompletionRequest \<Rightarrow> instant \<Rightarrow> CompletionRequestViewStatus" where
  "request_view_status r now = (if cq_status r = CQ_REQUESTED \<and> cq_expires_at r \<le> now then VIEW_EXPIRED
     else request_status_view (cq_status r))"

definition request_response :: "CompletionRequest \<Rightarrow> instant \<Rightarrow> db \<Rightarrow> CompletionRequestResponse" where
  "request_response r now s = \<lparr>cqr_completion_request_id = cq_id r, cqr_client_reference = cq_client_reference r,
     cqr_completion_submission_id = cq_completion_submission_id r, cqr_status = request_view_status r now,
     cqr_requested_at = cq_requested_at r, cqr_expires_at = cq_expires_at r, cqr_revoked_at = cq_revoked_at r,
     cqr_decided_at = cq_decided_at r, cqr_unrecorded_extra_charge = cq_unrecorded_extra_charge r,
     cqr_problem_report = problem_of_request (cq_id r) s\<rparr>"

definition ensure_completion_confirmation ::
    "uuid \<Rightarrow> uuid \<Rightarrow> uuid \<Rightarrow> ParticipantRole \<Rightarrow> uuid list \<Rightarrow> instant \<Rightarrow> db \<Rightarrow> (CompletionConfirmation \<times> db) result" where
  "ensure_completion_confirmation job_id scope_id participant_id role ids now s =
     (case find (\<lambda>c. cc_job_id c = job_id \<and> cc_role c = role) (completion_confirmations s) of
        Some existing \<Rightarrow>
          if cc_scope_version_id existing = scope_id \<and> cc_participant_id existing = participant_id \<and>
             set (confirmation_evidence (cc_id existing) s) = set ids
          then Inr (existing, s) else Inl CompletionConflictError
      | None \<Rightarrow> store_confirmation job_id scope_id participant_id role ids now s)"

definition request_blocked :: "uuid \<Rightarrow> CompletionSubmission \<Rightarrow> instant \<Rightarrow> db \<Rightarrow> bool" where
  "request_blocked job_id submission now s = (case latest_request (\<lambda>_. True) job_id s of None \<Rightarrow> False
     | Some r \<Rightarrow> cq_status r = CQ_CONFIRMED \<or>
         (cq_completion_submission_id r = cm_id submission \<and> cq_status r = CQ_ISSUE_REPORTED) \<or>
         (cq_status r = CQ_REQUESTED \<and> now < cq_expires_at r))"

definition new_completion_request ::
    "uuid \<Rightarrow> uuid \<Rightarrow> uuid \<Rightarrow> CompletionRequestCreate \<Rightarrow> uuid \<Rightarrow> string \<Rightarrow> instant \<Rightarrow> CompletionRequest" where
  "new_completion_request i job_id participant_id cmd submission_id h now = \<lparr>cq_id = i, cq_job_id = job_id,
     cq_client_reference = cqc_client_reference cmd, cq_completion_submission_id = submission_id,
     cq_requested_by_participant_id = participant_id, cq_command_hash = h, cq_status = CQ_REQUESTED,
     cq_requested_at = now, cq_expires_at = now + COMPLETION_REQUEST_TTL, cq_revoked_at = None, cq_revoke_reason = None,
     cq_decided_by_participant_id = None, cq_decision_hash = None, cq_unrecorded_extra_charge = None, cq_decided_at = None\<rparr>"

definition insert_completion_request :: "CompletionRequest \<Rightarrow> db \<Rightarrow> db result" where
  "insert_completion_request r s = (if \<not> completion_request_check r \<or>
       list_ex (\<lambda>q. cq_job_id q = cq_job_id r \<and> cq_client_reference q = cq_client_reference r) (completion_requests s)
     then Inl IntegrityError else Inr (s\<lparr>completion_requests := completion_requests s @ [r]\<rparr>))"

definition put_completion_request :: "CompletionRequest \<Rightarrow> db \<Rightarrow> db" where
  "put_completion_request r s = s\<lparr>completion_requests := put_row cq_id r (completion_requests s)\<rparr>"

definition request_payload :: "CompletionRequest \<Rightarrow> uuid \<Rightarrow> (string \<times> json) list" where
  "request_payload r customer_id = [(''completion_request_id'', id_json (cq_id r)),
     (''completion_submission_id'', id_json (cq_completion_submission_id r)),
     (''customer_participant_id'', id_json customer_id)]"

text \<open>The submission a request is about has to be the latest one of the job, on the current scope.\<close>

definition reviewed_submission :: "uuid \<Rightarrow> uuid \<Rightarrow> db \<Rightarrow> CompletionSubmission result" where
  "reviewed_submission job_id i s = (case row cm_id i (completion_submissions s) of
     None \<Rightarrow> Inl CompletionResourceNotFoundError
   | Some c \<Rightarrow>
       if cm_job_id c \<noteq> job_id then Inl CompletionResourceNotFoundError
       else if map_option cm_id (latest_submission job_id s) \<noteq> Some (cm_id c) then Inl CompletionConflictError
       else bindR (completion_current_scope job_id (Some (cm_scope_version_id c)) s) (\<lambda>_. Inr c))"

definition create_completion_request ::
    "uuid \<Rightarrow> uuid \<Rightarrow> CompletionRequestCreate \<Rightarrow> string \<Rightarrow> instant \<Rightarrow> db \<Rightarrow> (CompletionRequestResponse \<times> db) result" where
  "create_completion_request job_id participant_id cmd trace now s =
     bindR (load_completion_job job_id s) (\<lambda>job.
     bindR (completion_participant job_id participant_id COMPANY_MANAGER s) (\<lambda>_.
     if mj_status job \<in> {COMPLETED, CANCELED} then Inl CompletionConflictError
     else let h = command_hash (request_command_json cmd) s in
     (case find (\<lambda>r. cq_job_id r = job_id \<and> cq_client_reference r = cqc_client_reference cmd) (completion_requests s) of
        Some r \<Rightarrow> if cq_command_hash r = h \<and> cq_requested_by_participant_id r = participant_id
          then Inr (request_response r now s, s) else Inl CompletionConflictError
      | None \<Rightarrow>
     bindR (ensure_field_issues_resolved job_id s) (\<lambda>_.
     bindR (reviewed_submission job_id (cqc_completion_submission_id cmd) s) (\<lambda>submission.
     if request_blocked job_id submission now s then Inl CompletionConflictError
     else case find (\<lambda>p. jp_role p = CUSTOMER) (job_participants job_id s) of
       None \<Rightarrow> Inl CompletionResourceNotFoundError
     | Some customer \<Rightarrow>
     let (i, s1) = uuid4 s; r = new_completion_request i job_id participant_id cmd (cm_id submission) h now in
     (case insert_completion_request r s1 of
        Inl _ \<Rightarrow> Inl CompletionConflictError
      | Inr s2 \<Rightarrow>
          bindR (enqueue_domain_event COMPLETION_REQUESTED_V1 job_id (Some participant_id) (Some trace)
                   (request_payload r (jp_id customer)) now s2) (\<lambda>(_, s3). Inr (request_response r now s3, s3)))))))) "

definition request_of_job :: "uuid \<Rightarrow> uuid \<Rightarrow> db \<Rightarrow> CompletionRequest result" where
  "request_of_job job_id i s = (case row cq_id i (completion_requests s) of None \<Rightarrow> Inl CompletionResourceNotFoundError
     | Some r \<Rightarrow> if cq_job_id r = job_id then Inr r else Inl CompletionResourceNotFoundError)"

definition revoke_completion_request ::
    "uuid \<Rightarrow> uuid \<Rightarrow> uuid \<Rightarrow> string \<Rightarrow> instant \<Rightarrow> db \<Rightarrow> (CompletionRequestResponse \<times> db) result" where
  "revoke_completion_request job_id i participant_id reason now s =
     bindR (load_completion_job job_id s) (\<lambda>_.
     bindR (completion_participant job_id participant_id COMPANY_MANAGER s) (\<lambda>_.
     bindR (request_of_job job_id i s) (\<lambda>r.
     if cq_status r = CQ_REVOKED \<and> cq_revoke_reason r = Some reason then Inr (request_response r now s, s)
     else if cq_status r \<noteq> CQ_REQUESTED \<or> cq_expires_at r \<le> now then Inl CompletionConflictError
     else let r' = r\<lparr>cq_status := CQ_REVOKED, cq_revoked_at := Some now, cq_revoke_reason := Some reason\<rparr>;
              s1 = put_completion_request r' s in
       Inr (request_response r' now s1, s1))))"

section \<open>The customer's decision\<close>

definition retention_count :: "uuid \<Rightarrow> db \<Rightarrow> nat" where
  "retention_count job_id s = length (filter (\<lambda>b. bj_move_job_id b = job_id \<and> bj_job_type b = MEDIA_RETENTION_DELETE)
     (background_jobs s))"

definition completion_decision_response :: "MoveJob \<Rightarrow> CompletionRequest \<Rightarrow> db \<Rightarrow> CompletionDecisionResponse result" where
  "completion_decision_response job r s = (case cq_decided_at r of
     None \<Rightarrow> Inl CompletionConflictError
   | Some t \<Rightarrow> Inr \<lparr>cdr_completion_request_id = cq_id r,
       cdr_decision = (if cq_status r = CQ_CONFIRMED then CONFIRM else REPORT_ISSUE), cdr_status = cq_status r,
       cdr_job_status = mj_status job, cdr_completed_at = mj_completed_at job, cdr_decided_at = t,
       cdr_problem_report = problem_of_request (cq_id r) s, cdr_retention_scheduled_count = retention_count (mj_id job) s\<rparr>)"

definition completion_decided ::
    "CompletionRequest \<Rightarrow> CompletionRequestStatus \<Rightarrow> string \<Rightarrow> uuid \<Rightarrow> bool option \<Rightarrow> instant \<Rightarrow> CompletionRequest" where
  "completion_decided r st h participant_id extra now = r\<lparr>cq_status := st, cq_decision_hash := Some h,
     cq_decided_by_participant_id := Some participant_id, cq_unrecorded_extra_charge := extra, cq_decided_at := Some now\<rparr>"

definition insert_problem :: "CompletionProblemReport \<Rightarrow> db \<Rightarrow> db result" where
  "insert_problem p s = (if problem_of_request (pr_completion_request_id p) s \<noteq> None then Inl IntegrityError
     else Inr (s\<lparr>problem_reports := problem_reports s @ [p]\<rparr>))"

definition ready_assets :: "uuid list \<Rightarrow> db \<Rightarrow> MediaAsset list result" where
  "ready_assets ids s = (let assets = filter (\<lambda>a. ma_id a \<in> set ids) (media_assets s) in
     if set (map ma_id assets) \<noteq> set ids \<or> list_ex (\<lambda>a. ma_status a \<noteq> READY \<or> \<not> trimmed_generation a) assets
     then Inl CompletionConflictError else Inr assets)"

definition decided_payload :: "CompletionRequest \<Rightarrow> completion_decision \<Rightarrow> uuid option \<Rightarrow> (string \<times> json) list" where
  "decided_payload r d problem = [(''completion_request_id'', id_json (cq_id r)),
     (''completion_submission_id'', id_json (cq_completion_submission_id r)),
     (''decision'', JStr (completion_decision_value d)), (''problem_report_id'', id_opt_json problem)]"

text \<open>Reporting a problem closes the request and keeps the report; nobody is blamed.\<close>

definition report_problem ::
    "uuid \<Rightarrow> CompletionRequest \<Rightarrow> uuid \<Rightarrow> CompletionDecisionCreate \<Rightarrow> string \<Rightarrow> instant \<Rightarrow> db \<Rightarrow>
     (CompletionRequest \<times> uuid option \<times> db) result" where
  "report_problem job_id r participant_id cmd h now s =
     (case (cdc2_problem_type cmd, cdc2_problem_description cmd) of
        (Some ty, Some text) \<Rightarrow>
          let r' = completion_decided r CQ_ISSUE_REPORTED h participant_id (cdc2_unrecorded_extra_charge cmd) now;
              (i, s1) = uuid4 (put_completion_request r' s);
              p = \<lparr>pr_id = i, pr_job_id = job_id, pr_completion_request_id = cq_id r, pr_problem_type = ty,
                   pr_description = text, pr_reported_by_participant_id = participant_id, pr_reported_at = now\<rparr> in
          (case insert_problem p s1 of Inl _ \<Rightarrow> Inl CompletionConflictError | Inr s2 \<Rightarrow> Inr (r', Some i, s2))
      | _ \<Rightarrow> Inl AssertionError)"

text \<open>Confirming records the confirmation of both sides, completes the job and schedules the
  deletion of the evidence.\<close>

definition confirm_review ::
    "uuid \<Rightarrow> CompletionRequest \<Rightarrow> CompletionSubmission \<Rightarrow> uuid \<Rightarrow> CompletionDecisionCreate \<Rightarrow> string \<Rightarrow> uuid list \<Rightarrow>
     MediaAsset list \<Rightarrow> int \<Rightarrow> string \<Rightarrow> instant \<Rightarrow> db \<Rightarrow> (CompletionRequest \<times> uuid option \<times> db) result" where
  "confirm_review job_id r submission participant_id cmd h ids assets retention_days trace now s =
     bindR (completion_participant job_id (cq_requested_by_participant_id r) COMPANY_MANAGER s) (\<lambda>manager.
     bindR (ensure_completion_confirmation job_id (cm_scope_version_id submission) (jp_id manager) COMPANY_MANAGER ids now s) (\<lambda>(_, s1).
     bindR (ensure_completion_confirmation job_id (cm_scope_version_id submission) participant_id CUSTOMER ids now s1) (\<lambda>(_, s2).
     let r' = completion_decided r CQ_CONFIRMED h participant_id (cdc2_unrecorded_extra_charge cmd) now;
         s3 = add_audit_event job_id AU_JOB_COMPLETED (Some participant_id)
                [(''scope_version_id'', id_json (cm_scope_version_id submission)),
                 (''completion_submission_id'', id_json (cm_id submission)), (''completion_request_id'', id_json (cq_id r))] now
                (complete_job job_id now (put_completion_request r' s2)) in
     bindR (schedule_retention job_id assets retention_days trace now s3) (\<lambda>s4. Inr (r', None, s4)))))"

definition decide_completion_request ::
    "uuid \<Rightarrow> uuid \<Rightarrow> uuid \<Rightarrow> CompletionDecisionCreate \<Rightarrow> int \<Rightarrow> string \<Rightarrow> instant \<Rightarrow> db \<Rightarrow>
     (CompletionDecisionResponse \<times> db) result" where
  "decide_completion_request job_id i participant_id cmd retention_days trace now s =
     bindR (load_completion_job job_id s) (\<lambda>job.
     bindR (completion_participant job_id participant_id CUSTOMER s) (\<lambda>_.
     bindR (request_of_job job_id i s) (\<lambda>r.
     let h = command_hash (decision_command_json cmd) s in
     if cq_status r \<in> {CQ_CONFIRMED, CQ_ISSUE_REPORTED} then
       (if cq_decision_hash r = Some h then bindR (completion_decision_response job r s) (\<lambda>resp. Inr (resp, s))
        else Inl CompletionConflictError)
     else if map_option cq_id (latest_request (\<lambda>_. True) job_id s) \<noteq> Some (cq_id r) \<or> cq_status r \<noteq> CQ_REQUESTED \<or>
        cq_expires_at r \<le> now \<or> mj_status job \<in> {COMPLETED, CANCELED}
     then Inl CompletionConflictError
     else bindR (reviewed_submission job_id (cq_completion_submission_id r) s) (\<lambda>submission.
     let ids = submission_evidence_ids (cm_id submission) s in
     bindR (if cdc2_decision cmd = CONFIRM
        then bindR (ensure_field_issues_resolved job_id s) (\<lambda>_. bindR (ready_assets ids s) (\<lambda>assets.
          confirm_review job_id r submission participant_id cmd h ids assets retention_days trace now s))
        else report_problem job_id r participant_id cmd h now s) (\<lambda>(r', problem, s1).
     bindR (enqueue_domain_event COMPLETION_DECIDED_V1 job_id (Some participant_id) (Some trace)
              (decided_payload r' (cdc2_decision cmd) problem) now s1) (\<lambda>(_, s2).
     bindR (load_completion_job job_id s2) (\<lambda>job'.
     bindR (completion_decision_response job' r' s2) (\<lambda>resp. Inr (resp, s2)))))))))"

section \<open>The completion page\<close>

record CompletionChecklistItem =
  cki_key :: string
  cki_label :: string
  cki_confirmed :: bool

record CompletionChecklistSummary =
  cks_completed_count :: nat
  cks_total_count :: nat
  cks_items :: "CompletionChecklistItem list"

record CompletionMediaPreview =
  cmp_read :: EvidenceRead
  cmp_room_zone_label :: string

record CompletionFieldChangeSummary =
  cfs_proposal_id :: uuid
  cfs_title :: string
  cfs_status :: ChangeRequestStatus
  cfs_amount_delta_krw :: int
  cfs_total_amount_krw :: int
  cfs_decided_at :: "instant option"

datatype CompletionDocumentStatus = DOCUMENT_READY | DOCUMENT_NOT_READY

record CompletionSummaryView =
  csv_job :: ScopeReviewJobHeader
  csv_job_status :: MoveJobStatus
  csv_completion_submission_id :: "uuid option"
  csv_completed_at :: "instant option"
  csv_final_amount_krw :: "int option"
  csv_duration_minutes :: "int option"
  csv_completion_media :: "CompletionMediaPreview list"
  csv_completion_media_count :: nat
  csv_checklist :: CompletionChecklistSummary
  csv_onsite_confirmation_completed :: bool
  csv_worker_shifts :: "CompletionWorkerShift list"
  csv_field_changes :: "CompletionFieldChangeSummary list"
  csv_quote :: "QuoteSnapshot option"
  csv_completion_request :: "CompletionRequestResponse option"
  csv_approved_scope :: "ScopeVersion option"
  csv_document_status :: CompletionDocumentStatus
  csv_archive_ready :: bool
  csv_retention_until :: "instant option"
  csv_problem_report_count :: nat

definition quote_for_scope :: "uuid \<Rightarrow> uuid \<Rightarrow> db \<Rightarrow> QuoteSnapshot option result" where
  "quote_for_scope job_id version_id s =
     (let checked = (\<lambda>q. if quote_ok q then Inr (Some q) else Inl ValueError) in
      case find (\<lambda>p. sp_job_id p = job_id \<and> sp_result_scope_version_id p = version_id \<and> sp_status p = SP_CONFIRMED)
          (scope_proposals s) of
        Some p \<Rightarrow> checked (quote_from_proposal p)
      | None \<Rightarrow> (case approved_change job_id version_id s of
            None \<Rightarrow> Inr None | Some d \<Rightarrow> checked (quote_from_change_detail d)))"

definition field_change_summaries :: "uuid \<Rightarrow> db \<Rightarrow> CompletionFieldChangeSummary list" where
  "field_change_summaries job_id s = map (\<lambda>(d, r). \<lparr>cfs_proposal_id = cr_id r, cfs_title = pd_title d, cfs_status = cr_status r,
       cfs_amount_delta_krw = pd_total_amount_krw d - pd_base_amount_krw d, cfs_total_amount_krw = pd_total_amount_krw d,
       cfs_decided_at = cr_decided_at r\<rparr>)
     (sort_key (\<lambda>(d, r). (cr_created_at r, cr_id r))
       (List.map_filter (\<lambda>d. case row cr_id (pd_change_request_id d) (change_requests s) of None \<Rightarrow> None
          | Some r \<Rightarrow> if cr_job_id r = job_id then Some (d, r) else None) (proposal_details s)))"

definition zone_labels :: "uuid \<Rightarrow> db \<Rightarrow> uuid \<Rightarrow> string option" where
  "zone_labels job_id s i = map_option rz_name (find (\<lambda>z. rz_id z = i \<and> zone_in_job job_id z s) (room_zones s))"

definition completion_media_previews ::
    "(string \<Rightarrow> string \<Rightarrow> string result) \<Rightarrow> uuid \<Rightarrow> uuid \<Rightarrow> instant \<Rightarrow> db \<Rightarrow> CompletionMediaPreview list result" where
  "completion_media_previews sign job_id submission_id now s =
     (let ids = submission_evidence_ids submission_id s;
          assets = sort_key (\<lambda>a. (ma_created_at a, ma_id a)) (filter (\<lambda>a. ma_id a \<in> set ids \<and>
            ma_status a \<in> {UPLOADED, READY} \<and> ma_generation a \<noteq> None) (media_assets s)) in
      if ids = [] then Inr []
      else if set (map ma_id assets) \<noteq> set ids then Inl CompletionConflictError
      else mapR (\<lambda>a. case (ma_generation a, zone_labels job_id s (ma_room_zone_id a)) of
             (Some g, Some label) \<Rightarrow> bindR (evidence_read sign now a g) (\<lambda>e. Inr \<lparr>
               cmp_read = e\<lparr>er_expires_at := now + seconds COMPLETION_READ_URL_TTL_SECONDS\<rparr>, cmp_room_zone_label = label\<rparr>)
           | _ \<Rightarrow> Inl CompletionConflictError) assets)"

definition shifts_duration :: "CompletionWorkerShift list \<Rightarrow> int option" where
  "shifts_duration shifts = (if shifts = [] then None
     else Some ((Max (set (map sh_ended_at shifts)) - Min (set (map sh_started_at shifts))) div seconds 60))"

definition checklist_summary :: "DispatchCheckItem list \<Rightarrow> string list \<Rightarrow> CompletionChecklistSummary" where
  "checklist_summary items done = (let xs = map (\<lambda>i. \<lparr>cki_key = ck_key i, cki_label = ck_label i,
       cki_confirmed = (ck_key i \<in> set done)\<rparr>) items in
     \<lparr>cks_completed_count = length (filter cki_confirmed xs), cks_total_count = length xs, cks_items = xs\<rparr>)"

definition retention_until :: "uuid \<Rightarrow> db \<Rightarrow> instant option" where
  "retention_until job_id s = (case map bj_scheduled_at (filter (\<lambda>b. bj_move_job_id b = job_id \<and>
       bj_job_type b = MEDIA_RETENTION_DELETE) (background_jobs s)) of [] \<Rightarrow> None | ts \<Rightarrow> Some (Max (set ts)))"

definition summary_view ::
    "MoveJob \<Rightarrow> JobParticipant \<Rightarrow> ScopeVersion option \<Rightarrow> QuoteSnapshot option \<Rightarrow> CompletionSubmission option \<Rightarrow>
     CompletionWorkerShift list \<Rightarrow> DispatchSetup option \<Rightarrow> CompletionRequest option \<Rightarrow> CompletionMediaPreview list \<Rightarrow>
     instant \<Rightarrow> db \<Rightarrow> CompletionSummaryView" where
  "summary_view job viewer scope quote submission shifts setup request media now s =
     (let i = mj_id job; ready = (submission \<noteq> None \<and> quote \<noteq> None) in
     \<lparr>csv_job = change_job_header job (job_participants i s) (locations_of_job i s) viewer, csv_job_status = mj_status job,
      csv_completion_submission_id = map_option cm_id submission, csv_completed_at = map_option cm_work_ended_at submission,
      csv_final_amount_krw = map_option qs_total_amount_krw quote, csv_duration_minutes = shifts_duration shifts,
      csv_completion_media = media,
      csv_completion_media_count = (case submission of None \<Rightarrow> 0 | Some c \<Rightarrow> length (submission_evidence_ids (cm_id c) s)),
      csv_checklist = checklist_summary (case setup of None \<Rightarrow> [] | Some su \<Rightarrow> ds_completion_check_items su)
        (case submission of None \<Rightarrow> [] | Some c \<Rightarrow> cm_completed_check_keys c),
      csv_onsite_confirmation_completed = (case submission of None \<Rightarrow> False | Some c \<Rightarrow> cm_onsite_customer_confirmed c),
      csv_worker_shifts = shifts, csv_field_changes = field_change_summaries i s, csv_quote = quote,
      csv_completion_request = map_option (\<lambda>r. request_response r now s) request, csv_approved_scope = scope,
      csv_document_status = (if ready then DOCUMENT_READY else DOCUMENT_NOT_READY), csv_archive_ready = ready,
      csv_retention_until = retention_until i s,
      csv_problem_report_count = length (filter (\<lambda>p. pr_job_id p = i) (problem_reports s))\<rparr>)"

definition get_completion_summary ::
    "(string \<Rightarrow> string \<Rightarrow> string result) \<Rightarrow> uuid \<Rightarrow> uuid \<Rightarrow> ParticipantRole \<Rightarrow> instant \<Rightarrow> db \<Rightarrow> CompletionSummaryView result" where
  "get_completion_summary sign job_id participant_id role now s =
     bindR (load_completion_job job_id s) (\<lambda>job.
     bindR (completion_participant job_id participant_id role s) (\<lambda>viewer.
     if role \<notin> {CUSTOMER, COMPANY_MANAGER} then Inl CompletionResourceNotFoundError
     else let submission = latest_submission job_id s;
              request = (case submission of None \<Rightarrow> None
                | Some c \<Rightarrow> latest_request (\<lambda>r. cq_completion_submission_id r = cm_id c) job_id s);
              setup = setup_of_job job_id s in
     if role = CUSTOMER \<and> request = None then Inl CompletionConflictError
     else bindR (case (submission, setup) of
         (Some c, Some su) \<Rightarrow> bindR (submission_response c su s) (\<lambda>resp. Inr (csr_worker_shifts resp))
       | (Some c, None) \<Rightarrow> Inl CompletionConflictError
       | _ \<Rightarrow> Inr []) (\<lambda>shifts.
     let scope = (case submission of Some c \<Rightarrow> row sv_id (cm_scope_version_id c) (scope_versions s)
                  | None \<Rightarrow> latest_version (\<lambda>v. sv_locked_at v \<noteq> None) job_id s) in
     if (case scope of None \<Rightarrow> False | Some v \<Rightarrow> sv_job_id v \<noteq> job_id) then Inl CompletionConflictError
     else bindR (case scope of None \<Rightarrow> Inr None | Some v \<Rightarrow> quote_for_scope job_id (sv_id v) s) (\<lambda>quote.
     bindR (case submission of None \<Rightarrow> Inr [] | Some c \<Rightarrow> completion_media_previews sign job_id (cm_id c) now s) (\<lambda>media.
     Inr (summary_view job viewer scope quote submission shifts setup request media now s))))))"

end
