(* ===== verification/ScopeProofs.thy ===== *)
theory ScopeProofs
  imports Scope
begin

text \<open>
  Lemmas about scope versions and change requests: the invariant of the version history, what
  one operation may do to it, and the properties of the component.
\<close>

section \<open>Invariant\<close>

text \<open>The first version has number one and no parent; every other one follows its parent.\<close>

definition parent_ok :: "db \<Rightarrow> ScopeVersion \<Rightarrow> bool" where
  "parent_ok s v = (case sv_parent_version_id v of None \<Rightarrow> sv_sequence_number v = 1
     | Some p \<Rightarrow> (\<exists>w. row sv_id p (scope_versions s) = Some w \<and> sv_job_id w = sv_job_id v \<and>
         sv_sequence_number v = sv_sequence_number w + 1))"

definition version_ok :: "db \<Rightarrow> ScopeVersion \<Rightarrow> bool" where
  "version_ok s v = (sv_id v \<in> drawn_ids s \<and> scope_version_check v \<and>
     sv_content_hash v = content_hash_of (sv_content v) s \<and> parent_ok s v \<and>
     ((sv_locked_at v \<noteq> None) = (set (approval_roles_of (sv_id v) s) = {CUSTOMER, COMPANY_MANAGER})))"

definition approval_ok :: "db \<Rightarrow> ScopeApproval \<Rightarrow> bool" where
  "approval_ok s a = (scope_approval_check a \<and> (\<exists>v. row sv_id (sa_scope_version_id a) (scope_versions s) = Some v \<and>
     is_participant (sv_job_id v) (sa_participant_id a) {sa_role a} s))"

definition scope_inv :: "db \<Rightarrow> bool" where
  "scope_inv s = (fresh_supply s \<and> distinct (map sv_id (scope_versions s)) \<and>
     distinct (map (\<lambda>v. (sv_job_id v, sv_sequence_number v)) (scope_versions s)) \<and>
     distinct (map (\<lambda>a. (sa_scope_version_id a, sa_role a)) (scope_approvals s)) \<and>
     (\<forall>v \<in> set (scope_versions s). version_ok s v) \<and> (\<forall>a \<in> set (scope_approvals s). approval_ok s a))"

lemma scope_invD:
  assumes "scope_inv s"
  shows "fresh_supply s" "distinct (map sv_id (scope_versions s))"
    "distinct (map (\<lambda>v. (sv_job_id v, sv_sequence_number v)) (scope_versions s))"
    "distinct (map (\<lambda>a. (sa_scope_version_id a, sa_role a)) (scope_approvals s))"
    "v \<in> set (scope_versions s) \<Longrightarrow> version_ok s v"
    "a \<in> set (scope_approvals s) \<Longrightarrow> approval_ok s a"
  using assms by (auto simp: scope_inv_def)

lemma version_okD:
  assumes "version_ok s v"
  shows "sv_id v \<in> drawn_ids s" "scope_version_check v" "sv_content_hash v = content_hash_of (sv_content v) s"
    "parent_ok s v" "(sv_locked_at v \<noteq> None) = (set (approval_roles_of (sv_id v) s) = {CUSTOMER, COMPANY_MANAGER})"
  using assms by (simp_all add: version_ok_def)

lemma version_of_approval: "scope_inv s \<Longrightarrow> a \<in> set (scope_approvals s) \<Longrightarrow>
    \<exists>v. row sv_id (sa_scope_version_id a) (scope_versions s) = Some v"
  using scope_invD(6) by (auto simp: approval_ok_def)

text \<open>How a version may change: only its lock appears, once.\<close>

definition version_step :: "ScopeVersion \<Rightarrow> ScopeVersion \<Rightarrow> bool" where
  "version_step v v' = (v' = v \<or> (sv_locked_at v = None \<and> (\<exists>t. v' = v\<lparr>sv_locked_at := Some t\<rparr>)))"

definition decided :: "ChangeRequest \<Rightarrow> bool" where
  "decided r = (cr_status r \<in> {CR_APPROVED, CR_REJECTED})"

text \<open>Versions stay, approvals stay, decided change requests stay as they are.\<close>

definition scope_evolve :: "db \<Rightarrow> db \<Rightarrow> bool" where
  "scope_evolve s s' = (rng s' = rng s \<and> drawn s \<le> drawn s' \<and> sha256_hex s' = sha256_hex s \<and>
     (\<forall>i v. row sv_id i (scope_versions s) = Some v \<longrightarrow>
        (\<exists>v'. row sv_id i (scope_versions s') = Some v' \<and> version_step v v')) \<and>
     set (scope_approvals s) \<subseteq> set (scope_approvals s') \<and>
     (\<forall>i r. row cr_id i (change_requests s) = Some r \<and> decided r \<longrightarrow>
        row cr_id i (change_requests s') = Some r))"

lemma version_step_fields:
  "version_step v v' \<Longrightarrow> sv_id v' = sv_id v \<and> sv_job_id v' = sv_job_id v \<and>
     sv_sequence_number v' = sv_sequence_number v \<and> sv_content v' = sv_content v \<and>
     sv_content_hash v' = sv_content_hash v \<and> sv_parent_version_id v' = sv_parent_version_id v"
  by (auto simp: version_step_def)

lemma version_step_trans: "version_step a b \<Longrightarrow> version_step b c \<Longrightarrow> version_step a c"
  by (auto simp: version_step_def)

lemma scope_evolve_refl [simp]: "scope_evolve s s"
  by (auto simp: scope_evolve_def version_step_def)

lemma scope_evolve_trans: "scope_evolve a b \<Longrightarrow> scope_evolve b c \<Longrightarrow> scope_evolve a c"
  unfolding scope_evolve_def by (smt (verit) subset_trans version_step_trans order_trans)

text \<open>What the rest of the program may do: anything that keeps these tables and the
  participants.\<close>

definition scope_frame :: "db \<Rightarrow> db \<Rightarrow> bool" where
  "scope_frame s s' = (rng s' = rng s \<and> drawn s \<le> drawn s' \<and> sha256_hex s' = sha256_hex s \<and>
     scope_versions s' = scope_versions s \<and> scope_approvals s' = scope_approvals s \<and>
     (\<forall>i p. row jp_id i (participants s) = Some p \<longrightarrow> row jp_id i (participants s') = Some p) \<and>
     (\<forall>i r. row cr_id i (change_requests s) = Some r \<and> decided r \<longrightarrow>
        row cr_id i (change_requests s') = Some r))"

lemma is_participant_mono:
  "(\<forall>i p. row jp_id i (participants s) = Some p \<longrightarrow> row jp_id i (participants s') = Some p) \<Longrightarrow>
   is_participant j p R s \<Longrightarrow> is_participant j p R s'"
  by (auto simp: is_participant_def split: option.splits)

lemma scope_frame_sound:
  assumes "scope_inv s" "scope_frame s s'"
  shows "scope_inv s' \<and> scope_evolve s s'"
proof -
  have mono: "drawn_ids s \<subseteq> drawn_ids s'" using assms(2) by (intro drawn_ids_mono) (auto simp: scope_frame_def)
  have "version_ok s' v" if "v \<in> set (scope_versions s')" for v
  proof -
    have "version_ok s v" using that assms scope_invD(5) by (auto simp: scope_frame_def)
    then show ?thesis using mono assms(2)
      by (auto simp: version_ok_def scope_frame_def content_hash_of_def parent_ok_def approval_roles_of_def
          split: option.splits)
  qed
  moreover have "approval_ok s' a" if "a \<in> set (scope_approvals s')" for a
  proof -
    have "approval_ok s a" using that assms scope_invD(6) by (auto simp: scope_frame_def)
    then show ?thesis using assms(2) is_participant_mono[of s s'] by (auto simp: approval_ok_def scope_frame_def)
  qed
  ultimately have "scope_inv s'"
    using assms scope_invD[OF assms(1)] by (simp add: scope_inv_def scope_frame_def fresh_supply_def)
  moreover have "scope_evolve s s'"
    using assms(2) by (auto simp: scope_evolve_def scope_frame_def version_step_def)
  ultimately show ?thesis by simp
qed

section \<open>Creating a version\<close>

lemma create_version_cases:
  assumes "create_scope_version job pid parent content source flp now s = Inr (resp, s')"
  obtains c seq v where "with_location_condition_snapshot job content s = Inr c"
    "next_sequence_number job parent flp s = Inr seq"
    "v = new_scope_version (rng s (drawn s)) job parent seq (normalize_scope_content c)
       (content_hash_of (normalize_scope_content c) s) source pid now"
    "scope_version_check v" "\<not> list_ex (scope_version_clash v) (scope_versions s)"
    "s' = add_audit_event job AU_SCOPE_VERSION_CREATED pid (version_payload v) now
       (s\<lparr>drawn := Suc (drawn s), scope_versions := scope_versions s @ [v]\<rparr>)"
    "resp = scope_version_response v s'"
    "\<forall>p. pid = Some p \<longrightarrow> is_participant job p any_role s" "(source \<noteq> None) \<noteq> (pid \<noteq> None)"
proof -
  have g: "(source \<noteq> None) \<noteq> (pid \<noteq> None)" "\<forall>p. pid = Some p \<longrightarrow> is_participant job p any_role s"
    using assms by (auto simp: create_scope_version_def split: if_splits option.splits)
  obtain c seq where cs: "with_location_condition_snapshot job content s = Inr c"
      "next_sequence_number job parent flp s = Inr seq"
    using assms g by (auto simp: create_scope_version_def bindR_Inr split: if_splits option.splits)
  have st: "store_scope_version job pid parent seq c source now s = Inr (resp, s')"
    using assms g cs by (auto simp: create_scope_version_def bindR_Inr split: if_splits option.splits)
  let ?v = "new_scope_version (rng s (drawn s)) job parent seq (normalize_scope_content c)
       (content_hash_of (normalize_scope_content c) s) source pid now"
  obtain s2 where s2: "insert_scope_version ?v (s\<lparr>drawn := Suc (drawn s)\<rparr>) = Inr s2"
      "s' = add_audit_event job AU_SCOPE_VERSION_CREATED pid (version_payload ?v) now s2"
      "resp = scope_version_response ?v s'"
    using st by (auto simp: store_scope_version_def uuid4_def Let_def split: sum.splits)
  have ins: "scope_version_check ?v" "\<not> list_ex (scope_version_clash ?v) (scope_versions s)"
      "s2 = s\<lparr>drawn := Suc (drawn s), scope_versions := scope_versions s @ [?v]\<rparr>"
    using s2(1) by (auto simp: insert_scope_version_def split: if_splits)
  show thesis by (rule that[OF cs refl ins(1,2) _ s2(3) g(2,1)]) (simp add: s2(2) ins(3))
qed

lemma next_sequence_cases:
  assumes "next_sequence_number job parent flp s = Inr seq"
  obtains (first) "parent = None" "seq = 1"
  | (child) p w where "parent = Some p" "row sv_id p (scope_versions s) = Some w" "sv_job_id w = job"
      "seq = sv_sequence_number w + 1" "\<not> has_child p s" "flp = (sv_locked_at w \<noteq> None)"
  using assms by (auto simp: next_sequence_number_def split: option.splits if_splits)

lemma row_fresh_append: "row k i t = Some r \<Longrightarrow> row k i (t @ [x]) = Some r"
  by simp

text \<open>Appending a version with a fresh identifier.\<close>

lemma append_version_inv:
  assumes inv: "scope_inv s" and id: "sv_id v = rng s (drawn s)" and chk: "scope_version_check v"
    and clash: "\<not> list_ex (scope_version_clash v) (scope_versions s)"
    and hash: "sv_content_hash v = content_hash_of (sv_content v) s" and par: "parent_ok s v"
    and lock: "sv_locked_at v = None"
    and s': "scope_versions s' = scope_versions s @ [v]" "scope_approvals s' = scope_approvals s"
      "rng s' = rng s" "drawn s < drawn s'" "sha256_hex s' = sha256_hex s" "participants s' = participants s"
  shows "scope_inv s'"
proof -
  have fresh: "sv_id v \<notin> drawn_ids s" using uuid4_fresh[OF scope_invD(1)[OF inv]] id by simp
  have mono: "drawn_ids s \<subseteq> drawn_ids s'" by (rule drawn_ids_mono) (use s' in auto)
  have new: "sv_id v \<in> drawn_ids s'" using id s' by (auto simp: drawn_ids_def)
  have other: "sv_id x \<noteq> sv_id v" if "x \<in> set (scope_versions s)" for x
    using version_okD(1)[OF scope_invD(5)[OF inv that]] fresh by metis
  have noapp: "sa_scope_version_id a \<noteq> sv_id v" if "a \<in> set (scope_approvals s)" for a
    using version_of_approval[OF inv that] other row_SomeD by metis
  have norole: "approval_roles_of (sv_id v) s' = []"
    using noapp s' by (auto simp: approval_roles_of_def filter_empty_conv)
  have roles: "approval_roles_of i s' = approval_roles_of i s" for i using s' by (simp add: approval_roles_of_def)
  have keep: "parent_ok s' x" if "parent_ok s x" for x
    using that s' by (auto simp: parent_ok_def split: option.splits)
  have "version_ok s' x" if "x \<in> set (scope_versions s)" for x
    using scope_invD(5)[OF inv that] mono keep s' roles by (auto simp: version_ok_def content_hash_of_def)
  moreover have "version_ok s' v"
    using new chk hash keep[OF par] lock norole s' by (simp add: version_ok_def content_hash_of_def)
  moreover have "approval_ok s' a" if "a \<in> set (scope_approvals s')" for a
    using that s' scope_invD(6)[OF inv] by (fastforce simp: approval_ok_def is_participant_def)
  moreover have "distinct (map sv_id (scope_versions s'))"
    using scope_invD(2)[OF inv] other s' by (simp add: image_iff) metis
  moreover have "distinct (map (\<lambda>v. (sv_job_id v, sv_sequence_number v)) (scope_versions s'))"
    using scope_invD(3)[OF inv] clash s' by (auto simp: list_ex_iff scope_version_clash_def)
  ultimately show ?thesis
    using scope_invD[OF inv] s' by (auto simp: scope_inv_def fresh_supply_def)
qed

lemma create_version_sound:
  assumes "scope_inv s" "create_scope_version job pid parent content source flp now s = Inr (resp, s')"
  shows "scope_inv s' \<and> scope_evolve s s'"
proof -
  obtain c seq v where c: "next_sequence_number job parent flp s = Inr seq"
    and v: "v = new_scope_version (rng s (drawn s)) job parent seq (normalize_scope_content c)
       (content_hash_of (normalize_scope_content c) s) source pid now"
    and ok: "scope_version_check v" "\<not> list_ex (scope_version_clash v) (scope_versions s)"
    and s': "s' = add_audit_event job AU_SCOPE_VERSION_CREATED pid (version_payload v) now
       (s\<lparr>drawn := Suc (drawn s), scope_versions := scope_versions s @ [v]\<rparr>)"
    by (rule create_version_cases[OF assms(2)])
  have par: "parent_ok s v"
    using c by (cases rule: next_sequence_cases) (auto simp: v new_scope_version_def parent_ok_def)
  have "scope_inv s'"
    by (rule append_version_inv[OF assms(1) _ ok _ par])
      (simp_all add: v new_scope_version_def s')
  moreover have "scope_evolve s s'"
    by (auto simp: scope_evolve_def s' version_step_def)
  ultimately show ?thesis by simp
qed

section \<open>Approving a version\<close>

lemma lock_version_spec:
  assumes "lock_scope_version job v pid trace now s = Inr s'"
  obtains d ae ev where "s' = s\<lparr>drawn := d, audit_events := ae, outbox := outbox s @ [new_outbox_event ev]\<rparr>"
    "drawn s \<le> d" "de_event_type ev = SCOPE_LOCKED_V1" "de_payload ev = lock_payload v"
    "de_aggregate_id ev = job" "de_actor_id ev = Some pid"
proof -
  let ?s1 = "add_audit_event job AU_SCOPE_VERSION_LOCKED (Some pid) (lock_payload v) now s"
  obtain ev where en: "enqueue_domain_event SCOPE_LOCKED_V1 job (Some pid) trace (lock_payload v) now ?s1 = Inr (ev, s')"
    using assms by (auto simp: lock_scope_version_def Let_def bindR_Inr)
  obtain d where d: "s' = ?s1\<lparr>drawn := d, outbox := outbox ?s1 @ [new_outbox_event ev]\<rparr>" "drawn ?s1 < d"
    and ev: "de_event_type ev = SCOPE_LOCKED_V1" "de_payload ev = lock_payload v" "de_aggregate_id ev = job"
    "de_actor_id ev = Some pid"
    by (rule enqueue_event_spec[OF en])
  have "s' = s\<lparr>drawn := d, audit_events := audit_events ?s1, outbox := outbox s @ [new_outbox_event ev]\<rparr>"
    unfolding d(1) by (simp add: add_audit_event_def uuid4_def)
  then show thesis by (rule that[OF _ _ ev]) (use d(2) in simp)
qed

definition completes_approval :: "uuid \<Rightarrow> ParticipantRole \<Rightarrow> db \<Rightarrow> bool" where
  "completes_approval i role s = (insert role (set (approval_roles_of i s)) = {CUSTOMER, COMPANY_MANAGER})"

definition approved_version :: "ScopeVersion \<Rightarrow> ParticipantRole \<Rightarrow> instant \<Rightarrow> db \<Rightarrow> ScopeVersion" where
  "approved_version v role now s =
     (if completes_approval (sv_id v) role s then v\<lparr>sv_locked_at := Some now\<rparr> else v)"

definition approvable :: "uuid \<Rightarrow> ScopeVersion \<Rightarrow> uuid \<Rightarrow> ParticipantRole \<Rightarrow> db \<Rightarrow> bool" where
  "approvable job v pid role s = (sv_job_id v = job \<and> is_participant job pid {role} s \<and> sv_locked_at v = None \<and>
     sv_analysis_source v = None \<and> \<not> has_child (sv_id v) s \<and> role \<notin> set (approval_roles_of (sv_id v) s) \<and>
     role \<in> {CUSTOMER, COMPANY_MANAGER})"

definition new_approval :: "uuid \<Rightarrow> uuid \<Rightarrow> uuid \<Rightarrow> ParticipantRole \<Rightarrow> instant \<Rightarrow> ScopeApproval" where
  "new_approval i vid pid role now = \<lparr>sa_id = i, sa_scope_version_id = vid, sa_participant_id = pid,
     sa_role = role, sa_approved_at = now\<rparr>"

definition approved_state ::
    "uuid \<Rightarrow> ScopeVersion \<Rightarrow> uuid \<Rightarrow> ParticipantRole \<Rightarrow> string option \<Rightarrow> instant \<Rightarrow> db \<Rightarrow> db result" where
  "approved_state job v pid role trace now s =
     (let s2 = add_audit_event job AU_SCOPE_VERSION_APPROVED (Some pid)
        [(''scope_version_id'', id_json (sv_id v)), (''role'', JStr (role_value role))] now (s\<lparr>drawn := Suc (drawn s)\<rparr>) in
      if completes_approval (sv_id v) role s
      then lock_scope_version job (approved_version v role now s) pid trace now s2 else Inr s2)"

lemma has_approval:
  "list_ex (\<lambda>b. sa_scope_version_id b = i \<and> sa_role b = role) (scope_approvals s) \<longleftrightarrow>
   role \<in> set (approval_roles_of i s)"
  by (auto simp: approval_roles_of_def list_ex_iff)

lemma approved_state_tables:
  assumes "approved_state job v pid role trace now s = Inr s3"
  shows "scope_versions s3 = scope_versions s \<and> scope_approvals s3 = scope_approvals s \<and>
    rng s3 = rng s \<and> drawn s < drawn s3 \<and> sha256_hex s3 = sha256_hex s \<and> participants s3 = participants s \<and>
    change_requests s3 = change_requests s \<and>
    (if completes_approval (sv_id v) role s then
       (\<exists>ev. outbox s3 = outbox s @ [new_outbox_event ev] \<and> de_event_type ev = SCOPE_LOCKED_V1 \<and>
         de_payload ev = lock_payload v \<and> de_aggregate_id ev = job \<and> de_actor_id ev = Some pid)
     else outbox s3 = outbox s)"
proof (cases "completes_approval (sv_id v) role s")
  case True
  let ?s2 = "add_audit_event job AU_SCOPE_VERSION_APPROVED (Some pid)
        [(''scope_version_id'', id_json (sv_id v)), (''role'', JStr (role_value role))] now (s\<lparr>drawn := Suc (drawn s)\<rparr>)"
  have l: "lock_scope_version job (approved_version v role now s) pid trace now ?s2 = Inr s3"
    using assms True by (simp add: approved_state_def Let_def)
  have pay: "lock_payload (approved_version v role now s) = lock_payload v"
    by (simp add: approved_version_def lock_payload_def)
  show ?thesis
    by (rule lock_version_spec[OF l]) (use True pay in auto)
next
  case False
  then show ?thesis using assms by (auto simp: approved_state_def Let_def)
qed

lemma approve_unfold:
  assumes "row sv_id vid (scope_versions s) = Some v"
  shows "approve_scope_version job vid pid role trace now s =
    (if \<not> is_participant job pid {role} s \<or> sv_job_id v \<noteq> job then Inl ScopeResourceNotFoundError
     else if sv_locked_at v \<noteq> None \<or> sv_analysis_source v \<noteq> None \<or> has_child vid s \<or>
       role \<in> set (approval_roles_of vid s) then Inl ScopeApprovalConflictError
     else bindR (approved_state job v pid role trace now s) (\<lambda>s3.
       if role \<in> {CUSTOMER, COMPANY_MANAGER}
       then (let s4 = put_version (approved_version v role now s) s3\<lparr>scope_approvals := scope_approvals s @
               [new_approval (rng s (drawn s)) vid pid role now]\<rparr> in
             Inr (\<lparr>sar_approval = new_approval (rng s (drawn s)) vid pid role now,
                   sar_version = scope_version_response (approved_version v role now s) s4\<rparr>, s4))
       else Inl ScopeApprovalConflictError))"
proof (cases "is_participant job pid {role} s \<and> sv_job_id v = job \<and> sv_locked_at v = None \<and>
     sv_analysis_source v = None \<and> \<not> has_child vid s \<and> role \<notin> set (approval_roles_of vid s)")
  case False
  then show ?thesis using assms by (auto simp: approve_scope_version_def version_of_job_def Let_def)
next
  case True
  have id: "sv_id v = vid" using row_key[OF assms] .
  have lock: "(set (approval_roles_of vid s) \<union> {role} = set REQUIRED_APPROVAL_ROLES) = completes_approval vid role s"
    by (simp add: completes_approval_def REQUIRED_APPROVAL_ROLES_def)
  have av: "approved_version v role now s = (if completes_approval vid role s then v\<lparr>sv_locked_at := Some now\<rparr> else v)"
    using id by (simp add: approved_version_def)
  have st: "approve_scope_version job vid pid role trace now s =
    bindR (approved_state job v pid role trace now s) (\<lambda>s3.
       (case insert_scope_approval (new_approval (rng s (drawn s)) vid pid role now)
          (put_version (approved_version v role now s) s3) of
          Inl _ \<Rightarrow> Inl ScopeApprovalConflictError
        | Inr s4 \<Rightarrow> Inr (\<lparr>sar_approval = new_approval (rng s (drawn s)) vid pid role now,
            sar_version = scope_version_response (approved_version v role now s) s4\<rparr>, s4)))"
    using assms True
    unfolding approve_scope_version_def version_of_job_def Let_def uuid4_def prod.case lock av new_approval_def
    by (simp add: approved_state_def Let_def id av)
  have ins: "(case insert_scope_approval (new_approval (rng s (drawn s)) vid pid role now)
          (put_version (approved_version v role now s) s3) of
          Inl _ \<Rightarrow> Inl ScopeApprovalConflictError
        | Inr s4 \<Rightarrow> Inr (\<lparr>sar_approval = new_approval (rng s (drawn s)) vid pid role now,
            sar_version = scope_version_response (approved_version v role now s) s4\<rparr>, s4)) =
      (if role \<in> {CUSTOMER, COMPANY_MANAGER}
       then (let s4 = put_version (approved_version v role now s) s3\<lparr>scope_approvals := scope_approvals s @
               [new_approval (rng s (drawn s)) vid pid role now]\<rparr> in
             Inr (\<lparr>sar_approval = new_approval (rng s (drawn s)) vid pid role now,
                   sar_version = scope_version_response (approved_version v role now s) s4\<rparr>, s4))
       else Inl ScopeApprovalConflictError)"
    if "approved_state job v pid role trace now s = Inr s3" for s3
    using approved_state_tables[OF that] True has_approval[of vid role s]
    by (simp add: insert_scope_approval_def scope_approval_check_def new_approval_def put_version_def Let_def)
  show ?thesis
    unfolding st using True ins by (cases "approved_state job v pid role trace now s") simp_all
qed

lemma approve_cases:
  assumes "approve_scope_version job vid pid role trace now s = Inr (res, s')"
  obtains v s3 where "row sv_id vid (scope_versions s) = Some v" "approvable job v pid role s"
    "approved_state job v pid role trace now s = Inr s3"
    "s' = put_version (approved_version v role now s) s3\<lparr>scope_approvals := scope_approvals s @
               [new_approval (rng s (drawn s)) vid pid role now]\<rparr>"
    "sar_version res = scope_version_response (approved_version v role now s) s'"
proof -
  obtain v where v: "row sv_id vid (scope_versions s) = Some v"
    using assms by (auto simp: approve_scope_version_def version_of_job_def split: if_splits option.splits)
  then show thesis
    using assms that[OF v] row_key[OF v]
    by (auto simp: approve_unfold[OF v] approvable_def bindR_Inr Let_def split: if_splits)
qed

lemma approved_version_fields [simp]:
  "sv_id (approved_version v role now s) = sv_id v" "sv_job_id (approved_version v role now s) = sv_job_id v"
  "sv_sequence_number (approved_version v role now s) = sv_sequence_number v"
  "sv_content (approved_version v role now s) = sv_content v"
  "sv_content_hash (approved_version v role now s) = sv_content_hash v"
  "sv_parent_version_id (approved_version v role now s) = sv_parent_version_id v"
  "scope_version_check (approved_version v role now s) = scope_version_check v"
  by (simp_all add: approved_version_def scope_version_check_def)

lemma approve_sound:
  assumes inv: "scope_inv s" and ap: "approve_scope_version job vid pid role trace now s = Inr (res, s')"
  shows "scope_inv s' \<and> scope_evolve s s'"
proof -
  obtain v s3 where v: "row sv_id vid (scope_versions s) = Some v" and ok: "approvable job v pid role s"
    and s3: "approved_state job v pid role trace now s = Inr s3"
    and s': "s' = put_version (approved_version v role now s) s3\<lparr>scope_approvals := scope_approvals s @
               [new_approval (rng s (drawn s)) vid pid role now]\<rparr>"
    by (rule approve_cases[OF ap])
  let ?v = "approved_version v role now s" and ?a = "new_approval (rng s (drawn s)) vid pid role now"
  note t = approved_state_tables[OF s3]
  have id: "sv_id v = vid" using row_key[OF v] .
  have vs: "scope_versions s' = put_row sv_id ?v (scope_versions s)"
    and as: "scope_approvals s' = scope_approvals s @ [?a]"
    and fr: "rng s' = rng s" "drawn s < drawn s'" "sha256_hex s' = sha256_hex s" "participants s' = participants s"
      "change_requests s' = change_requests s"
    using t by (simp_all add: s' put_version_def)
  have mono: "drawn_ids s \<subseteq> drawn_ids s'" by (rule drawn_ids_mono) (use fr in auto)
  have row': "row sv_id i (scope_versions s') = (if i = vid then Some ?v else row sv_id i (scope_versions s))" for i
    using v id by (auto simp: vs row_put_row)
  have roles: "approval_roles_of i s' = approval_roles_of i s @ (if i = vid then [role] else [])" for i
    by (auto simp: approval_roles_of_def as new_approval_def)
  have par: "parent_ok s' x" if "parent_ok s y" "sv_parent_version_id x = sv_parent_version_id y"
      "sv_job_id x = sv_job_id y" "sv_sequence_number x = sv_sequence_number y" for x y
    using that v by (auto simp: parent_ok_def row' split: option.splits)
  have vok: "version_ok s v" using scope_invD(5)[OF inv row_mem[OF v]] .
  have lock: "(sv_locked_at ?v \<noteq> None) = (set (approval_roles_of vid s') = {CUSTOMER, COMPANY_MANAGER})"
    using ok by (auto simp: approved_version_def completes_approval_def roles approvable_def id)
  have new: "version_ok s' ?v"
    using version_okD[OF vok] mono par[OF version_okD(4)[OF vok]] lock fr id
    by (auto simp: version_ok_def content_hash_of_def)
  have old: "version_ok s' x" if "x \<in> set (scope_versions s)" "sv_id x \<noteq> vid" for x
    using version_okD[OF scope_invD(5)[OF inv that(1)]] mono par that(2) fr
    by (auto simp: version_ok_def content_hash_of_def roles)
  have "version_ok s' x" if "x \<in> set (scope_versions s')" for x
    using that unfolding vs by (rule put_rowE) (use new old id in auto)
  moreover have "approval_ok s' a" if "a \<in> set (scope_approvals s')" for a
  proof -
    have part: "is_participant j p R s' = is_participant j p R s" for j p R
      using fr(4) by (simp add: is_participant_def)
    show ?thesis
      using that scope_invD(6)[OF inv, of a] v ok
      by (auto simp: as approval_ok_def row' part new_approval_def approvable_def id scope_approval_check_def)
  qed
  moreover have "distinct (map (\<lambda>v. (sv_job_id v, sv_sequence_number v)) (scope_versions s'))"
  proof -
    have "map (\<lambda>v. (sv_job_id v, sv_sequence_number v)) (scope_versions s')
        = map (\<lambda>v. (sv_job_id v, sv_sequence_number v)) (scope_versions s)"
    proof -
      have "x = v" if "x \<in> set (scope_versions s)" "sv_id x = vid" for x
        using row_of_mem[OF scope_invD(2)[OF inv] that(1)] that(2) v by simp
      then show ?thesis by (simp add: vs put_row_def id)
    qed
    then show ?thesis using scope_invD(3)[OF inv] by simp
  qed
  moreover have "distinct (map (\<lambda>a. (sa_scope_version_id a, sa_role a)) (scope_approvals s'))"
    using scope_invD(4)[OF inv] ok has_approval[of vid role s] id
    by (auto simp: as new_approval_def approvable_def list_ex_iff)
  ultimately have "scope_inv s'"
    using scope_invD[OF inv] by (simp add: scope_inv_def fresh_supply_def fr vs)
  moreover have "scope_evolve s s'"
  proof -
    have "version_step v ?v" using ok by (auto simp: version_step_def approved_version_def approvable_def)
    moreover have "version_step x x" for x by (simp add: version_step_def)
    moreover have "drawn s \<le> drawn s'" using fr(2) by simp
    ultimately show ?thesis using v by (simp add: scope_evolve_def row' as fr) blast
  qed
  ultimately show ?thesis by simp
qed

section \<open>Change requests\<close>

lemma scope_frame_refl [simp]: "scope_frame s s"
  by (simp add: scope_frame_def)

lemma scope_frame_trans: "scope_frame a b \<Longrightarrow> scope_frame b c \<Longrightarrow> scope_frame a c"
  unfolding scope_frame_def by (smt (verit, best) order_trans)

lemma audit_frame: "scope_frame s (add_audit_event j ty a p now s)"
  by (simp add: scope_frame_def)

lemma put_request_frame:
  "row cr_id (cr_id r) (change_requests s) = Some r0 \<Longrightarrow> \<not> decided r0 \<Longrightarrow> scope_frame s (put_request r s)"
  by (auto simp: scope_frame_def put_request_def row_put_row)

lemma load_request_row: "load_change_request job i s = Inr r \<Longrightarrow>
    row cr_id i (change_requests s) = Some r \<and> cr_job_id r = job \<and> cr_id r = i"
  by (auto simp: load_change_request_def dest: row_key split: option.splits if_splits)

lemma request_written_frame:
  assumes "load_change_request job i s = Inr r" "\<not> decided r" "cr_id r' = cr_id r"
  shows "scope_frame s (add_audit_event j ty a p now (put_request r' s))"
  using scope_frame_trans[OF put_request_frame audit_frame] load_request_row[OF assms(1)] assms(2,3) by simp

lemma clarification_frame:
  assumes "request_change_clarification job i pid msg now s = Inr (resp, s')"
  shows "scope_frame s s'"
proof -
  obtain r where r: "load_change_request job i s = Inr r" "cr_status r = CR_PENDING"
    using assms by (auto simp: request_change_clarification_def bindR_Inr split: if_splits)
  then show ?thesis
    using assms by (auto simp: request_change_clarification_def Let_def decided_def split: if_splits
        intro!: request_written_frame[OF r(1)])
qed

lemma explanation_frame:
  assumes "explain_change_request job i pid msg now s = Inr (resp, s')"
  shows "scope_frame s s'"
proof -
  obtain r where r: "load_change_request job i s = Inr r" "cr_status r = CR_CLARIFICATION_REQUESTED"
    using assms by (auto simp: explain_change_request_def bindR_Inr split: if_splits)
  then show ?thesis
    using assms by (auto simp: explain_change_request_def Let_def decided_def split: if_splits
        intro!: request_written_frame[OF r(1)])
qed

lemma create_request_frame:
  assumes "create_change_request job pid cmd trace now s = Inr (resp, s')"
  shows "scope_frame s s'"
proof -
  obtain s3 ev payload where s3: "scope_frame s s3"
    and en: "enqueue_domain_event CHANGE_REQUESTED_V1 job (Some pid) trace payload now s3 = Inr (ev, s')"
  proof -
    let ?r = "new_change_request (rng s (drawn s)) job pid cmd now"
    let ?p = "change_event_payload ?r (crc_evidence_media_asset_ids cmd)"
    let ?s2 = "s\<lparr>drawn := Suc (drawn s), change_requests := change_requests s @ [?r],
      change_evidence := change_evidence s @ map (\<lambda>m. \<lparr>ce_change_request_id = rng s (drawn s), ce_media_asset_id = m\<rparr>)
        (crc_evidence_media_asset_ids cmd)\<rparr>"
    let ?s3 = "add_audit_event job AU_CHANGE_REQUESTED (Some pid) ?p now ?s2"
    have "scope_frame s ?s2" by (simp add: scope_frame_def)
    moreover have "\<exists>ev. enqueue_domain_event CHANGE_REQUESTED_V1 job (Some pid) trace ?p now ?s3 = Inr (ev, s')"
      using assms by (auto simp: create_change_request_def uuid4_def Let_def bindR_Inr split: option.splits if_splits)
    ultimately show thesis using that scope_frame_trans[OF _ audit_frame] by blast
  qed
  have "scope_frame s3 s'" by (rule enqueue_event_spec[OF en]) (simp add: scope_frame_def)
  then show ?thesis using scope_frame_trans s3 by blast
qed

lemma create_version_requests:
  "create_scope_version job pid parent content source flp now s = Inr (resp, s') \<Longrightarrow>
   change_requests s' = change_requests s"
  by (erule create_version_cases) simp

lemma decide_cases:
  assumes "decide_change_request job i pid cmd now s = Inr (resp, s')"
  obtains (rejected) r r' where "load_change_request job i s = Inr r" "cr_status r = CR_PENDING"
      "cdc_decision cmd = REJECT" "r' = r\<lparr>cr_status := CR_REJECTED, cr_decided_by_participant_id := Some pid,
         cr_decision_note := cdc_note cmd, cr_decided_at := Some now\<rparr>" "resp = change_request_response r' s'"
      "s' = add_audit_event job AU_CHANGE_REJECTED (Some pid) [(''change_request_id'', id_json i),
         (''result_scope_version_id'', id_opt_json (cr_result_scope_version_id r'))] now (put_request r' s)"
  | (approved) r r' v s1 where "load_change_request job i s = Inr r" "cr_status r = CR_PENDING"
      "cdc_decision cmd = APPROVE"
      "create_scope_version job (Some pid) (Some (cr_base_scope_version_id r)) (cr_proposed_content r) None True now s
         = Inr (v, s1)"
      "r' = r\<lparr>cr_status := CR_APPROVED, cr_result_scope_version_id := Some (svr_id v),
         cr_decided_by_participant_id := Some pid, cr_decision_note := cdc_note cmd, cr_decided_at := Some now\<rparr>"
      "resp = change_request_response r' s'"
      "s' = add_audit_event job AU_CHANGE_APPROVED (Some pid) [(''change_request_id'', id_json i),
         (''result_scope_version_id'', id_opt_json (cr_result_scope_version_id r'))] now (put_request r' s1)"
proof -
  obtain r where r: "load_change_request job i s = Inr r" "cr_status r = CR_PENDING"
    using assms by (auto simp: decide_change_request_def bindR_Inr split: if_splits)
  show thesis
  proof (cases "cdc_decision cmd")
    case REJECT
    show ?thesis by (rule rejected[OF r REJECT refl])
        (use assms r REJECT in \<open>auto simp: decide_change_request_def decided_request_def bindR_Inr Let_def split: if_splits\<close>)
  next
    case APPROVE
    obtain v s1 where c: "create_scope_version job (Some pid) (Some (cr_base_scope_version_id r))
        (cr_proposed_content r) None True now s = Inr (v, s1)"
      using assms r APPROVE
      by (auto simp: decide_change_request_def decided_request_def bindR_Inr split: if_splits sum.splits exn.splits)
    show ?thesis by (rule approved[OF r APPROVE c refl])
        (use assms r APPROVE c in \<open>auto simp: decide_change_request_def decided_request_def bindR_Inr Let_def split: if_splits\<close>)
  qed
qed

lemma decide_sound:
  assumes "scope_inv s" "decide_change_request job i pid cmd now s = Inr (resp, s')"
  shows "scope_inv s' \<and> scope_evolve s s'"
  using assms(2)
proof (cases rule: decide_cases)
  case (rejected r r')
  then have "scope_frame s s'" using request_written_frame[OF rejected(1)] by (simp add: decided_def)
  then show ?thesis using scope_frame_sound[OF assms(1)] by simp
next
  case (approved r r' v s1)
  have s1: "scope_inv s1 \<and> scope_evolve s s1" using create_version_sound[OF assms(1) approved(4)] .
  have "load_change_request job i s1 = Inr r"
    using approved(1) create_version_requests[OF approved(4)] by (simp add: load_change_request_def)
  then have "scope_frame s1 s'" using request_written_frame approved(2,5,7) by (simp add: decided_def)
  then show ?thesis using scope_frame_sound s1 scope_evolve_trans by blast
qed

lemma import_sound:
  assumes "scope_inv s" "import_analysis_draft job r parent now s = Inr (resp, s')"
  shows "scope_inv s' \<and> scope_evolve s s'"
  using assms(2) create_version_sound[OF assms(1)]
  by (auto simp: import_analysis_draft_def Let_def bindR_Inr split: if_splits)

section \<open>Histories\<close>

text \<open>One committed operation: one of the service's, or anything that keeps the scope tables.\<close>

inductive scope_op :: "db \<Rightarrow> db \<Rightarrow> bool" where
  sop_create: "create_scope_version job pid parent c source flp now s = Inr (resp, s') \<Longrightarrow> scope_op s s'"
| sop_approve: "approve_scope_version job vid p role trace now s = Inr (res, s') \<Longrightarrow> scope_op s s'"
| sop_import: "import_analysis_draft job r parent now s = Inr (resp, s') \<Longrightarrow> scope_op s s'"
| sop_request: "create_change_request job p cmd trace now s = Inr (cresp, s') \<Longrightarrow> scope_op s s'"
| sop_clarify: "request_change_clarification job i p msg now s = Inr (cresp, s') \<Longrightarrow> scope_op s s'"
| sop_explain: "explain_change_request job i p msg now s = Inr (cresp, s') \<Longrightarrow> scope_op s s'"
| sop_decide: "decide_change_request job i p dec now s = Inr (cresp, s') \<Longrightarrow> scope_op s s'"
| sop_other: "scope_frame s s' \<Longrightarrow> scope_op s s'"

lemmas scope_sound = create_version_sound approve_sound import_sound
  scope_frame_sound[OF _ create_request_frame] scope_frame_sound[OF _ clarification_frame]
  scope_frame_sound[OF _ explanation_frame] decide_sound scope_frame_sound

lemma scope_op_sound: "scope_op s s' \<Longrightarrow> scope_inv s \<Longrightarrow> scope_inv s' \<and> scope_evolve s s'"
  by (induction rule: scope_op.induct) (rule scope_sound; assumption)+

lemma scope_ops_sound: "scope_op\<^sup>*\<^sup>* s s' \<Longrightarrow> scope_inv s \<Longrightarrow> scope_inv s' \<and> scope_evolve s s'"
  by (induction rule: rtranclp_induct) (use scope_op_sound scope_evolve_trans in fastforce)+

text \<open>A downward closed set of positive numbers is an initial segment.\<close>

lemma initial_segment:
  fixes S :: "int set"
  assumes "finite S" "\<forall>x \<in> S. 1 \<le> x \<and> (x \<noteq> 1 \<longrightarrow> x - 1 \<in> S)"
  shows "S = {1..int (card S)}"
proof (cases "S = {}")
  case False
  let ?m = "Max S"
  have m: "?m \<in> S" using assms(1) False by simp
  have down: "1 \<le> ?m - int k \<longrightarrow> ?m - int k \<in> S" for k
  proof (induction k)
    case (Suc k)
    show ?case
    proof
      assume a: "1 \<le> ?m - int (Suc k)"
      then have "?m - int k \<in> S" "?m - int k \<noteq> 1" using Suc.IH by auto
      then have "?m - int k - 1 \<in> S" using assms(2) by blast
      then show "?m - int (Suc k) \<in> S" by (simp add: algebra_simps)
    qed
  qed (use m in simp)
  have "S = {1..?m}"
  proof
    show "S \<subseteq> {1..?m}" using assms by auto
    show "{1..?m} \<subseteq> S"
    proof
      fix x assume "x \<in> {1..?m}"
      then show "x \<in> S" using down[of "nat (?m - x)"] by auto
    qed
  qed
  moreover have "int (card {1..?m}) = ?m" using m assms(2) by auto
  ultimately show ?thesis by metis
qed simp

lemma sorted_segment:
  assumes "distinct (map f xs)" "f ` set xs = {1..int (length xs)}"
  shows "map f (sort_key f xs) = [1..int (length xs)]"
proof (rule sorted_distinct_set_unique)
  show "sorted (map f (sort_key f xs))" by simp
  show "distinct (map f (sort_key f xs))" using assms(1) by (simp add: distinct_map)
  show "set (map f (sort_key f xs)) = set [1..int (length xs)]" using assms(2) by simp
qed auto

definition versions_of :: "uuid \<Rightarrow> db \<Rightarrow> ScopeVersion list" where
  "versions_of job s = filter (\<lambda>v. sv_job_id v = job) (scope_versions s)"

lemma versions_of_job:
  assumes "scope_inv s"
  shows "distinct (map sv_sequence_number (versions_of job s))"
    "sv_sequence_number ` set (versions_of job s) = {1..int (length (versions_of job s))}"
proof -
  have d: "distinct (map (\<lambda>v. (sv_job_id v, sv_sequence_number v)) (versions_of job s))"
    using distinct_map_filter[OF scope_invD(3)[OF assms]] by (simp add: versions_of_def)
  show dist: "distinct (map sv_sequence_number (versions_of job s))"
  proof -
    have "map (\<lambda>v. (sv_job_id v, sv_sequence_number v)) (versions_of job s) =
        map (Pair job) (map sv_sequence_number (versions_of job s))"
      by (auto simp: versions_of_def)
    then show ?thesis using d distinct_map by metis
  qed
  let ?S = "sv_sequence_number ` set (versions_of job s)"
  have "\<forall>x \<in> ?S. 1 \<le> x \<and> (x \<noteq> 1 \<longrightarrow> x - 1 \<in> ?S)"
  proof
    fix x assume "x \<in> ?S"
    then obtain v where v: "v \<in> set (scope_versions s)" "sv_job_id v = job" "x = sv_sequence_number v"
      by (auto simp: versions_of_def)
    have ok: "version_ok s v" using scope_invD(5)[OF assms v(1)] .
    have "0 < x" using version_okD(2)[OF ok] v(3) by (simp add: scope_version_check_def)
    moreover have "x - 1 \<in> ?S" if ne: "x \<noteq> 1"
    proof -
      obtain w where w: "w \<in> set (scope_versions s)" "sv_job_id w = job" "x = sv_sequence_number w + 1"
        using version_okD(4)[OF ok] ne v(2,3) by (auto simp: parent_ok_def dest: row_mem split: option.splits)
      then show ?thesis by (auto simp: versions_of_def)
    qed
    ultimately show "1 \<le> x \<and> (x \<noteq> 1 \<longrightarrow> x - 1 \<in> ?S)" by simp
  qed
  then have "?S = {1..int (card ?S)}" by (intro initial_segment) simp
  moreover have "card ?S = length (versions_of job s)" using distinct_card[OF dist] by simp
  ultimately show "?S = {1..int (length (versions_of job s))}" by simp
qed

lemma history_numbers:
  assumes "scope_inv s"
  shows "map svr_sequence_number (list_scope_versions job s) = [1..int (length (list_scope_versions job s))]"
proof -
  have "map svr_sequence_number (list_scope_versions job s) =
      map sv_sequence_number (sort_key sv_sequence_number (versions_of job s))"
    by (simp add: list_scope_versions_def versions_of_def scope_version_response_def)
  moreover have "length (list_scope_versions job s) = length (versions_of job s)"
    by (simp add: list_scope_versions_def versions_of_def)
  ultimately show ?thesis using sorted_segment[OF versions_of_job[OF assms, of job]] by simp
qed

text \<open>Property C3: the history of a job is one line. In every state the operations can reach,
  listing a job's versions gives the numbers 1, 2, 3, \<dots> without a gap, the first version has
  no parent and every other one has the version before it as its parent.\<close>

theorem scope_history_linear:
  assumes "scope_inv s" "scope_op\<^sup>*\<^sup>* s s'" "vs = list_scope_versions job s'"
  shows "map svr_sequence_number vs = [1..int (length vs)] \<and>
    (\<forall>k < length vs. svr_parent_version_id (vs ! k) = (if k = 0 then None else Some (svr_id (vs ! (k - 1)))))"
proof -
  have inv: "scope_inv s'" using scope_ops_sound[OF assms(2,1)] by simp
  have num: "map svr_sequence_number vs = [1..int (length vs)]"
    unfolding assms(3) using history_numbers[OF inv] .
  let ?ws = "sort_key sv_sequence_number (versions_of job s')"
  have vs: "vs = map (\<lambda>v. scope_version_response v s') ?ws"
    by (simp add: assms(3) list_scope_versions_def versions_of_def)
  have seq: "sv_sequence_number (?ws ! k) = 1 + int k" if "k < length ?ws" for k
  proof -
    have "map svr_sequence_number vs ! k = 1 + int k" unfolding num using that by (simp add: vs)
    then show ?thesis using that by (simp add: vs scope_version_response_def)
  qed
  have mem: "?ws ! k \<in> set (versions_of job s')" if "k < length ?ws" for k
    using that nth_mem[of k ?ws] by simp
  have "sv_parent_version_id (?ws ! k) = (if k = 0 then None else Some (sv_id (?ws ! (k - 1))))"
    if k: "k < length ?ws" for k
  proof -
    have v: "?ws ! k \<in> set (scope_versions s')" "sv_job_id (?ws ! k) = job"
      using mem[OF k] by (auto simp: versions_of_def)
    have par: "parent_ok s' (?ws ! k)" using version_okD(4)[OF scope_invD(5)[OF inv v(1)]] .
    show ?thesis
    proof (cases "sv_parent_version_id (?ws ! k)")
      case None
      then show ?thesis using par seq[OF k] by (simp add: parent_ok_def)
    next
      case (Some p)
      then obtain w where w: "row sv_id p (scope_versions s') = Some w" "sv_job_id w = job"
          "sv_sequence_number w = int k"
        using par seq[OF k] v(2) by (auto simp: parent_ok_def)
      have wv: "w \<in> set (versions_of job s')" using row_mem[OF w(1)] w(2) by (simp add: versions_of_def)
      have "version_ok s' w" using scope_invD(5)[OF inv row_mem[OF w(1)]] .
      then have pos: "k \<noteq> 0" using version_okD(2) w(3) by (fastforce simp: scope_version_check_def)
      have "sv_sequence_number (?ws ! (k - 1)) = int k" using seq[of "k - 1"] k pos by simp
      moreover have "?ws ! (k - 1) \<in> set (versions_of job s')" using mem[of "k - 1"] k by simp
      ultimately have "w = ?ws ! (k - 1)"
        using versions_of_job(1)[OF inv, of job] wv w(3) by (metis distinct_map inj_onD)
      then show ?thesis using Some pos row_key[OF w(1)] by simp
    qed
  qed
  then show ?thesis using num by (auto simp: vs scope_version_response_def)
qed

section \<open>Properties of locking and approval\<close>

lemma locked_row_kept:
  assumes "scope_evolve s s'" "row sv_id i (scope_versions s) = Some v" "sv_locked_at v \<noteq> None"
  shows "row sv_id i (scope_versions s') = Some v"
proof -
  obtain v' where "row sv_id i (scope_versions s') = Some v'" "version_step v v'"
    using assms(1,2) unfolding scope_evolve_def by blast
  then show ?thesis using assms(3) by (simp add: version_step_def)
qed

text \<open>Property C4: a locked scope is what both sides agreed to, for good. Whatever happens
  later, the version is found unchanged, its hash is the digest of the canonical text of its
  content, a customer and a company manager of that job have approved it, and nobody can
  approve it again or create a child of it outside a change decision.\<close>

theorem locked_scope_immutable:
  assumes "scope_inv s" "row sv_id i (scope_versions s) = Some v" "sv_locked_at v \<noteq> None" "scope_op\<^sup>*\<^sup>* s s'"
  shows "row sv_id i (scope_versions s') = Some v \<and>
    sv_content_hash v = sha256_hex s' (canonical_text (sv_content v)) \<and>
    (\<forall>role \<in> {CUSTOMER, COMPANY_MANAGER}. \<exists>a \<in> set (scope_approvals s'). sa_scope_version_id a = i \<and>
       sa_role a = role \<and> is_participant (sv_job_id v) (sa_participant_id a) {role} s') \<and>
    \<not> isOk (approve_scope_version job i pid role trace now s') \<and>
    \<not> isOk (create_scope_version job p' (Some i) c source False now s')"
proof -
  have inv: "scope_inv s'" and ev: "scope_evolve s s'" using scope_ops_sound[OF assms(4,1)] by auto
  have row: "row sv_id i (scope_versions s') = Some v"
    using locked_row_kept[OF ev assms(2,3)] .
  have ok: "version_ok s' v" using scope_invD(5)[OF inv row_mem[OF row]] .
  have id: "sv_id v = i" using row_key[OF row] .
  have roles: "set (approval_roles_of i s') = {CUSTOMER, COMPANY_MANAGER}"
    using version_okD(5)[OF ok] assms(3) id by simp
  have "\<exists>a \<in> set (scope_approvals s'). sa_scope_version_id a = i \<and> sa_role a = r \<and>
      is_participant (sv_job_id v) (sa_participant_id a) {r} s'" if r: "r \<in> {CUSTOMER, COMPANY_MANAGER}" for r
  proof -
    obtain a where a: "a \<in> set (scope_approvals s')" "sa_scope_version_id a = i" "sa_role a = r"
    proof -
      have "r \<in> set (approval_roles_of i s')" using roles r by simp
      then show thesis using \<open>\<And>a. a \<in> set (scope_approvals s') \<Longrightarrow> sa_scope_version_id a = i \<Longrightarrow> sa_role a = r \<Longrightarrow> thesis\<close>
        by (auto simp: approval_roles_of_def)
    qed
    then show ?thesis using scope_invD(6)[OF inv a(1)] row by (auto simp: approval_ok_def)
  qed
  moreover have "\<not> isOk (approve_scope_version job i pid role trace now s')"
    using assms(3) by (simp add: approve_unfold[OF row])
  moreover have "\<not> isOk (create_scope_version job p' (Some i) c source False now s')"
    using row assms(3) create_version_cases[of job p' "Some i" c source False now s']
    by (fastforce simp: isOk_iff next_sequence_number_def split: if_splits)
  ultimately show ?thesis using row version_okD(3)[OF ok] by (simp add: content_hash_of_def)
qed

lemma lock_payload_documented: "hash_text (sv_content_hash v) \<Longrightarrow> documented_payload SCOPE_LOCKED_V1 (lock_payload v)"
  by (auto simp: documented_payload_def lock_payload_def Let_def)

lemma approved_state_returns:
  assumes "hash_text (sv_content_hash v)" "\<forall>t. trace = Some t \<longrightarrow> t = [] \<or> trace_text t"
  shows "\<exists>s3. approved_state job v pid role trace now s = Inr s3"
proof (cases "completes_approval (sv_id v) role s")
  case True
  have "hash_text (sv_content_hash (approved_version v role now s))" using assms(1) by simp
  then obtain ev s3 where "enqueue_domain_event SCOPE_LOCKED_V1 job (Some pid) trace
      (lock_payload (approved_version v role now s)) now (add_audit_event job AU_SCOPE_VERSION_LOCKED (Some pid)
        (lock_payload (approved_version v role now s)) now (add_audit_event job AU_SCOPE_VERSION_APPROVED (Some pid)
        [(''scope_version_id'', id_json (sv_id v)), (''role'', JStr (role_value role))] now (s\<lparr>drawn := Suc (drawn s)\<rparr>)))
      = Inr (ev, s3)"
    using enqueue_event_returns[OF lock_payload_documented assms(2)] by blast
  then show ?thesis using True by (simp add: approved_state_def lock_scope_version_def Let_def)
qed (simp add: approved_state_def Let_def)

text \<open>Property C5: when an approval is accepted. It is accepted exactly when the actor holds the
  role in the version's job, the role is one of the two business sides and has not approved
  yet, and the version is an unlocked, human-written head. The approval is then recorded; it
  locks the version exactly when the other side has approved before, and only then announces
  SCOPE_LOCKED with the content hash.\<close>

theorem approve_scope_decides:
  assumes "scope_inv s" "digests_ok s" "row sv_id vid (scope_versions s) = Some v"
    and "\<forall>t. trace = Some t \<longrightarrow> t = [] \<or> trace_text t"
  shows "isOk (approve_scope_version job vid pid role trace now s) = approvable job v pid role s \<and>
    (\<forall>res s'. approve_scope_version job vid pid role trace now s = Inr (res, s') \<longrightarrow>
      (\<exists>a v'. scope_approvals s' = scope_approvals s @ [a] \<and> sa_scope_version_id a = vid \<and> sa_role a = role \<and>
        sa_participant_id a = pid \<and> row sv_id vid (scope_versions s') = Some v' \<and> sv_content v' = sv_content v \<and>
        (if {role} \<union> set (approval_roles_of vid s) = {CUSTOMER, COMPANY_MANAGER}
         then sv_locked_at v' = Some now \<and> (\<exists>ev. outbox s' = outbox s @ [new_outbox_event ev] \<and>
            de_event_type ev = SCOPE_LOCKED_V1 \<and> de_payload ev = lock_payload v)
         else sv_locked_at v' = None \<and> outbox s' = outbox s)))"
proof
  have ok: "version_ok s v" using scope_invD(5)[OF assms(1) row_mem[OF assms(3)]] .
  have id: "sv_id v = vid" using row_key[OF assms(3)] .
  have "hash_text (sv_content_hash v)"
    using version_okD(3)[OF ok] assms(2) by (simp add: content_hash_of_def digests_ok_def)
  then obtain s3 where "approved_state job v pid role trace now s = Inr s3"
    using approved_state_returns assms(4) by blast
  then show "isOk (approve_scope_version job vid pid role trace now s) = approvable job v pid role s"
    using id by (auto simp: approve_unfold[OF assms(3)] approvable_def Let_def)
  show "\<forall>res s'. approve_scope_version job vid pid role trace now s = Inr (res, s') \<longrightarrow>
      (\<exists>a v'. scope_approvals s' = scope_approvals s @ [a] \<and> sa_scope_version_id a = vid \<and> sa_role a = role \<and>
        sa_participant_id a = pid \<and> row sv_id vid (scope_versions s') = Some v' \<and> sv_content v' = sv_content v \<and>
        (if {role} \<union> set (approval_roles_of vid s) = {CUSTOMER, COMPANY_MANAGER}
         then sv_locked_at v' = Some now \<and> (\<exists>ev. outbox s' = outbox s @ [new_outbox_event ev] \<and>
            de_event_type ev = SCOPE_LOCKED_V1 \<and> de_payload ev = lock_payload v)
         else sv_locked_at v' = None \<and> outbox s' = outbox s))"
  proof (intro allI impI)
    fix res s' assume ap: "approve_scope_version job vid pid role trace now s = Inr (res, s')"
    obtain s3 where apv: "approvable job v pid role s" and s3: "approved_state job v pid role trace now s = Inr s3"
      and s': "s' = put_version (approved_version v role now s) s3\<lparr>scope_approvals := scope_approvals s @
               [new_approval (rng s (drawn s)) vid pid role now]\<rparr>"
      by (rule approve_cases[OF ap]) (use assms(3) in auto)
    note t = approved_state_tables[OF s3]
    have row: "row sv_id vid (scope_versions s') = Some (approved_version v role now s)"
      using t assms(3) id by (simp add: s' put_version_def row_put_row)
    have lock: "({role} \<union> set (approval_roles_of vid s) = {CUSTOMER, COMPANY_MANAGER}) = completes_approval vid role s"
      by (simp add: completes_approval_def)
    show "\<exists>a v'. scope_approvals s' = scope_approvals s @ [a] \<and> sa_scope_version_id a = vid \<and> sa_role a = role \<and>
        sa_participant_id a = pid \<and> row sv_id vid (scope_versions s') = Some v' \<and> sv_content v' = sv_content v \<and>
        (if {role} \<union> set (approval_roles_of vid s) = {CUSTOMER, COMPANY_MANAGER}
         then sv_locked_at v' = Some now \<and> (\<exists>ev. outbox s' = outbox s @ [new_outbox_event ev] \<and>
            de_event_type ev = SCOPE_LOCKED_V1 \<and> de_payload ev = lock_payload v)
         else sv_locked_at v' = None \<and> outbox s' = outbox s)"
      unfolding lock
      by (rule exI[of _ "new_approval (rng s (drawn s)) vid pid role now"],
          rule exI[of _ "approved_version v role now s"])
        (use row t apv id in \<open>auto simp: s' put_version_def new_approval_def approved_version_def approvable_def\<close>)
  qed
qed

section \<open>Properties of change decisions\<close>

lemma snapshot_items: "with_location_condition_snapshot job c s = Inr c' \<Longrightarrow>
    sc_items c' = sc_items c \<and> sc_schema_version c' = sc_schema_version c"
  by (auto simp: with_location_condition_snapshot_def mk_scope_content_def Let_def split: if_splits)

lemma has_child_mono:
  assumes "scope_inv s'" "scope_evolve s s'" "row sv_id i (scope_versions s) = Some v" "sv_parent_version_id v = Some p"
  shows "has_child p s'"
proof -
  obtain v' where v': "row sv_id i (scope_versions s') = Some v'" "version_step v v'"
    using assms(2,3) unfolding scope_evolve_def by blast
  then show ?thesis
    using row_mem[OF v'(1)] version_step_fields[OF v'(2)] assms(4) by (auto simp: has_child_def list_ex_iff)
qed

lemma create_on_parent_with_child:
  assumes "has_child p s"
  shows "\<not> isOk (create_scope_version job pid (Some p) c source flp now s)"
proof
  assume "isOk (create_scope_version job pid (Some p) c source flp now s)"
  then obtain resp s' where c: "create_scope_version job pid (Some p) c source flp now s = Inr (resp, s')"
    by (auto simp: isOk_iff)
  show False by (rule create_version_cases[OF c])
      (use assms in \<open>auto simp: next_sequence_number_def split: option.splits if_splits\<close>)
qed

text \<open>Property C6: an approved change request becomes the one successor of the scope it was
  raised against. The decision appends exactly one version, an unlocked child of the locked
  base with the next number and the proposed items, and the request points to it; in every
  later state the request is found as decided, and no decision on it or approval of a
  competing request on the same base succeeds.\<close>

theorem change_approval_is_sole_successor:
  assumes "scope_inv s" "decide_change_request job i pid cmd now s = Inr (resp, s')" "cdc_decision cmd = APPROVE"
    and "row cr_id i (change_requests s) = Some r" "scope_op\<^sup>*\<^sup>* s' s''"
    and "row cr_id j (change_requests s'') = Some r2" "cr_base_scope_version_id r2 = cr_base_scope_version_id r"
    and "cdc_decision cmd2 = APPROVE"
  shows "(\<exists>v base. scope_versions s' = scope_versions s @ [v] \<and>
      row sv_id (cr_base_scope_version_id r) (scope_versions s) = Some base \<and> sv_locked_at base \<noteq> None \<and>
      sv_parent_version_id v = Some (sv_id base) \<and> sv_sequence_number v = sv_sequence_number base + 1 \<and>
      sv_locked_at v = None \<and> sc_items (sv_content v) = sort_key item_key (sc_items (cr_proposed_content r)) \<and>
      row cr_id i (change_requests s'') = Some (crr_request resp) \<and>
      cr_status (crr_request resp) = CR_APPROVED \<and>
      cr_result_scope_version_id (crr_request resp) = Some (sv_id v)) \<and>
    \<not> isOk (decide_change_request job' i pid' cmd' now' s'') \<and>
    \<not> isOk (decide_change_request job' j pid' cmd2 now' s'')"
  using assms(2)
proof (cases rule: decide_cases)
  case (rejected r0 r')
  then show ?thesis using assms(3) by simp
next
  case (approved r0 r' vresp s1)
  have r0: "r0 = r" using load_request_row[OF approved(1)] assms(4) by simp
  have inv': "scope_inv s'" using decide_sound[OF assms(1,2)] by simp
  have inv'': "scope_inv s''" and ev: "scope_evolve s' s''" using scope_ops_sound[OF assms(5) inv'] by auto
  obtain c seq v where c: "with_location_condition_snapshot job (cr_proposed_content r) s = Inr c"
    and seq: "next_sequence_number job (Some (cr_base_scope_version_id r)) True s = Inr seq"
    and v: "v = new_scope_version (rng s (drawn s)) job (Some (cr_base_scope_version_id r)) seq
       (normalize_scope_content c) (content_hash_of (normalize_scope_content c) s) None (Some pid) now"
    and s1: "s1 = add_audit_event job AU_SCOPE_VERSION_CREATED (Some pid) (version_payload v) now
       (s\<lparr>drawn := Suc (drawn s), scope_versions := scope_versions s @ [v]\<rparr>)"
    and vr: "vresp = scope_version_response v s1"
    by (rule create_version_cases[OF approved(4)[unfolded r0]])
  obtain base where base: "row sv_id (cr_base_scope_version_id r) (scope_versions s) = Some base"
      "seq = sv_sequence_number base + 1" "sv_locked_at base \<noteq> None"
    using seq by (cases rule: next_sequence_cases) auto
  have vs: "scope_versions s' = scope_versions s @ [v]"
    using approved(7) s1 by (simp add: put_request_def)
  have rid: "cr_id r = i" using row_key[OF assms(4)] .
  have req: "row cr_id i (change_requests s') = Some r'"
    using approved(5,7) s1 assms(4) rid r0 by (simp add: put_request_def row_put_row)
  have dec: "decided r'" using approved(5) by (simp add: decided_def)
  have req'': "row cr_id i (change_requests s'') = Some r'"
    using ev req dec unfolding scope_evolve_def by blast
  have vid: "row sv_id (sv_id v) (scope_versions s') = Some v"
    using row_of_mem[OF scope_invD(2)[OF inv'], of v] vs by simp
  have child: "has_child (cr_base_scope_version_id r) s''"
    by (rule has_child_mono[OF inv'' ev vid]) (simp add: v new_scope_version_def)
  have again: "\<not> isOk (decide_change_request job' i pid' cmd' now' s'')"
    using req'' dec by (auto simp: decide_change_request_def load_change_request_def decided_def isOk_iff bindR_Inr)
  have competing: "\<not> isOk (decide_change_request job' j pid' cmd2 now' s'')"
  proof
    assume "isOk (decide_change_request job' j pid' cmd2 now' s'')"
    then obtain resp2 s3 where "decide_change_request job' j pid' cmd2 now' s'' = Inr (resp2, s3)"
      by (auto simp: isOk_iff)
    then show False
    proof (cases rule: decide_cases)
      case (rejected q q')
      then show ?thesis using assms(8) by simp
    next
      case (approved q q' w s4)
      then have "q = r2" using load_request_row assms(6) by fastforce
      then show ?thesis
        using approved(4) create_on_parent_with_child[OF child] assms(7) by (auto simp: isOk_iff)
    qed
  qed
  have items: "sc_items (sv_content v) = sort_key item_key (sc_items (cr_proposed_content r))"
    using snapshot_items[OF c] by (simp add: v new_scope_version_def normalize_scope_content_def)
  have "crr_request resp = r'" using approved(6) by (simp add: change_request_response_def)
  then show ?thesis
    using vs base items req'' again competing approved(5) vr row_key[OF base(1)]
    by (auto simp: v new_scope_version_def scope_version_response_def)
qed

text \<open>Importing an AI draft forgets what the job already knows about a ladder truck.
  The draft has no such field, so a location it makes a suggestion for enters the new
  version with the use of a ladder truck unknown, even when the job's own record of the
  location says it is required.\<close>

theorem import_forgets_ladder:
  assumes "import_analysis_draft job r parent now s = Inr (resp, s')" "an_result_schema_version r = 2"
    and "d \<in> set (an_location_condition_suggestions r)"
  shows "\<exists>l \<in> set (sc_location_conditions (svr_content resp)). sl_location_id l = dl_location_id d \<and>
    lc_ladder (sl_conditions l) = LADDER_UNKNOWN"
proof -
  let ?assets = "result_assets r s" and ?locs = "job_locations job s" and ?sugg = "an_location_condition_suggestions r"
  obtain its locs c where locs: "analysis_locations job r ?assets s = Inr locs"
    and c: "mk_scope_content \<lparr>sc_schema_version = an_result_schema_version r, sc_items = its,
        sc_location_conditions = locs\<rparr> = Inr c"
    and cr: "create_scope_version job None parent c (Some r) False now s = Inr (resp, s')"
    using assms(1) by (auto simp: import_analysis_draft_def Let_def bindR_Inr split: if_splits)
  have fits: "suggestion_fits job r ?assets ?locs s d" and map: "locs = map (\<lambda>l. (location_snapshot l)\<lparr>sl_conditions :=
        (case find (\<lambda>d. dl_location_id d = loc_id l) (rev ?sugg) of
           Some d \<Rightarrow> analysis_location_conditions d | None \<Rightarrow> loc_conditions l)\<rparr>) ?locs"
    using locs assms(2,3) by (auto simp: analysis_locations_def Let_def list.pred_set split: if_splits)
  obtain l where l: "l \<in> set ?locs" "loc_id l = dl_location_id d"
    using fits row_SomeD by (fastforce simp: suggestion_fits_def)
  obtain d' where d': "find (\<lambda>d. dl_location_id d = loc_id l) (rev ?sugg) = Some d'"
    using assms(3) l(2) by (cases "find (\<lambda>d. dl_location_id d = loc_id l) (rev ?sugg)") (auto simp: find_None_iff)
  let ?sl = "(location_snapshot l)\<lparr>sl_conditions := analysis_location_conditions d'\<rparr>"
  have sl: "?sl \<in> set locs" using l(1) d' by (force simp: map)
  have "c = \<lparr>sc_schema_version = an_result_schema_version r, sc_items = its, sc_location_conditions = locs\<rparr>"
    using c by (simp add: mk_scope_content_def split: if_splits)
  then have cl: "sc_location_conditions c = locs" "sc_schema_version c = 2" using assms(2) by simp_all
  have ne: "locs \<noteq> []" using sl by auto
  obtain c' v where c': "with_location_condition_snapshot job c s = Inr c'"
    and content: "svr_content resp = normalize_scope_content c'"
    by (rule create_version_cases[OF cr]) (auto simp: scope_version_response_def new_scope_version_def)
  have "c' = c" using c' cl ne by (auto simp: with_location_condition_snapshot_def Let_def split: if_splits)
  then have "?sl \<in> set (sc_location_conditions (svr_content resp))"
    using sl cl content by (simp add: normalize_scope_content_def)
  moreover have "sl_location_id ?sl = dl_location_id d" "lc_ladder (sl_conditions ?sl) = LADDER_UNKNOWN"
    using l(2) by (simp_all add: location_snapshot_def analysis_location_conditions_def default_conditions_def)
  ultimately show ?thesis by blast
qed

section \<open>A sample database\<close>

definition sample_person :: "uuid \<Rightarrow> uuid \<Rightarrow> ParticipantRole \<Rightarrow> JobParticipant" where
  "sample_person i job role = \<lparr>jp_id = i, jp_job_id = job, jp_role = role, jp_display_name = ''p'', jp_created_at = 0\<rparr>"

definition sample_content :: "string \<Rightarrow> uuid \<Rightarrow> ScopeContent" where
  "sample_content k zone = \<lparr>sc_schema_version = 1, sc_items = [Item1 \<lparr>i1_item_key = k, i1_room_zone_id = zone,
     i1_description = ''sofa''\<rparr>], sc_location_conditions = []\<rparr>"

definition sample_version :: "uuid \<Rightarrow> uuid \<Rightarrow> uuid \<Rightarrow> instant option \<Rightarrow> ScopeVersion" where
  "sample_version i job pid locked = (new_scope_version i job None 1 (sample_content ''a'' 6)
     (replicate 64 CHR ''a'') None (Some pid) 5)\<lparr>sv_locked_at := locked\<rparr>"

definition sample_request :: "uuid \<Rightarrow> ChangeRequest" where
  "sample_request i = new_change_request i 1 4 \<lparr>crc_base_scope_version_id = 10, crc_description = ''more'',
     crc_proposed_content = sample_content ''b'' 6, crc_evidence_media_asset_ids = []\<rparr> 9"

definition sample_scope :: db where
  "sample_scope = (empty_db (\<lambda>n. n) (\<lambda>t. replicate 64 CHR ''a''))\<lparr>drawn := 100,
     participants := [sample_person 2 1 CUSTOMER, sample_person 3 1 COMPANY_MANAGER, sample_person 4 1 FIELD_WORKER,
       sample_person 42 41 CUSTOMER, sample_person 43 41 COMPANY_MANAGER],
     locations := [\<lparr>loc_id = 5, loc_job_id = 1, loc_kind = ORIGIN, loc_label = ''home'', loc_detail_address = None,
       loc_conditions = default_conditions, loc_created_at = 0\<rparr>],
     room_zones := [\<lparr>rz_id = 6, rz_location_id = 5, rz_name = ''room'', rz_sort_order = 0, rz_created_at = 0\<rparr>],
     scope_versions := [sample_version 10 1 2 (Some 8), sample_version 12 41 42 None],
     scope_approvals := [new_approval 20 10 2 CUSTOMER 7, new_approval 21 10 3 COMPANY_MANAGER 8,
       new_approval 22 12 42 CUSTOMER 7],
     change_requests := [sample_request 13, sample_request 14]\<rparr>"

lemmas sample_scope_defs = sample_scope_def sample_version_def sample_content_def sample_person_def
  new_scope_version_def new_approval_def empty_db_def

lemma sample_scope_inv: "scope_inv sample_scope"
  by (auto simp: scope_inv_def fresh_supply_def version_ok_def approval_ok_def parent_ok_def scope_version_check_def
      content_hash_of_def approval_roles_of_def is_participant_def drawn_ids_def scope_approval_check_def sample_scope_defs)

lemma sample_digests: "digests_ok sample_scope"
  by (simp add: digests_ok_def hash_text_def is_lower_hex_def in_range_def sample_scope_def empty_db_def
      list.pred_set)

lemma scope_history_linear_witness:
  "map svr_sequence_number (list_scope_versions 1 sample_scope) = [1] \<and>
   svr_parent_version_id (list_scope_versions 1 sample_scope ! 0) = None"
proof -
  have len: "length (list_scope_versions 1 sample_scope) = 1"
    by (simp add: list_scope_versions_def sample_scope_defs)
  from scope_history_linear[OF sample_scope_inv rtranclp.rtrancl_refl refl, of 1] len
  show ?thesis by simp
qed

lemma locked_scope_immutable_witness:
  "\<not> isOk (approve_scope_version 1 10 3 COMPANY_MANAGER None 50 sample_scope)"
proof -
  have r: "row sv_id 10 (scope_versions sample_scope) = Some (sample_version 10 1 2 (Some 8))"
    by (simp add: sample_scope_defs)
  have l: "sv_locked_at (sample_version 10 1 2 (Some 8)) \<noteq> None" by (simp add: sample_version_def)
  from locked_scope_immutable[OF sample_scope_inv r l rtranclp.rtrancl_refl] show ?thesis by blast
qed

lemma approve_scope_decides_witness:
  "\<exists>res s' v'. approve_scope_version 41 12 43 COMPANY_MANAGER None 50 sample_scope = Inr (res, s') \<and>
     row sv_id 12 (scope_versions s') = Some v' \<and> sv_locked_at v' = Some 50 \<and> length (outbox s') = 1"
proof -
  let ?v = "sample_version 12 41 42 None"
  have r: "row sv_id 12 (scope_versions sample_scope) = Some ?v" by (simp add: sample_scope_defs)
  have t: "\<forall>t. None = Some t \<longrightarrow> t = [] \<or> trace_text t" by simp
  have ap: "approvable 41 ?v 43 COMPANY_MANAGER sample_scope"
    by (simp add: approvable_def is_participant_def has_child_def approval_roles_of_def sample_scope_defs)
  have roles: "set (approval_roles_of 12 sample_scope) = {CUSTOMER}" "outbox sample_scope = []"
    by (simp_all add: approval_roles_of_def sample_scope_defs)
  note p = approve_scope_decides[OF sample_scope_inv sample_digests r t, of 41 43 COMPANY_MANAGER 50]
  obtain res s' where "approve_scope_version 41 12 43 COMPANY_MANAGER None 50 sample_scope = Inr (res, s')"
    using p ap by (auto simp: isOk_iff)
  then show ?thesis using p roles by fastforce
qed

lemma sample_decision: "\<exists>resp s'. decide_change_request 1 13 2 \<lparr>cdc_decision = APPROVE, cdc_note = None\<rparr> 60 sample_scope
    = Inr (resp, s') \<and> row cr_id 14 (change_requests s') = Some (sample_request 14)"
  by (simp add: decide_change_request_def decided_request_def load_change_request_def is_participant_def
      create_scope_version_def store_scope_version_def with_location_condition_snapshot_def validate_scope_zones_def
      zone_in_job_def next_sequence_number_def any_role_def has_child_def insert_scope_version_def
      scope_version_check_def scope_version_clash_def normalize_scope_content_def uuid4_def content_hash_of_def
      put_request_def row_put_row sample_request_def new_change_request_def Let_def sample_scope_defs)

lemma change_approval_is_sole_successor_witness:
  "\<exists>resp s'. decide_change_request 1 13 2 \<lparr>cdc_decision = APPROVE, cdc_note = None\<rparr> 60 sample_scope = Inr (resp, s') \<and>
     \<not> isOk (decide_change_request 1 14 3 \<lparr>cdc_decision = APPROVE, cdc_note = None\<rparr> 61 s')"
proof -
  let ?c = "\<lparr>cdc_decision = APPROVE, cdc_note = None\<rparr>"
  obtain resp s' where d: "decide_change_request 1 13 2 ?c 60 sample_scope = Inr (resp, s')"
    and r: "row cr_id 14 (change_requests s') = Some (sample_request 14)" using sample_decision by blast
  have r0: "row cr_id 13 (change_requests sample_scope) = Some (sample_request 13)"
    by (simp add: sample_request_def new_change_request_def sample_scope_defs)
  have base: "cr_base_scope_version_id (sample_request 14) = cr_base_scope_version_id (sample_request 13)"
    by (simp add: sample_request_def new_change_request_def)
  have a: "cdc_decision ?c = APPROVE" by simp
  from change_approval_is_sole_successor[OF sample_scope_inv d a r0 rtranclp.rtrancl_refl r base a] d
  show ?thesis by blast
qed

text \<open>A job whose only location is known to need a ladder truck, and a draft about it.\<close>

definition sample_draft :: AnalysisResult where
  "sample_draft = \<lparr>an_analysis_run_id = 30, an_capture_session_id = 31, an_model_name = ''m'', an_model_version = ''1'',
     an_prompt_version = ''1'', an_result_schema_version = 2,
     an_draft_items = [\<lparr>di_item_key = ''a'', di_description = ''sofa'', di_name = Some ''sofa'', di_quantity = Some 1,
       di_unit = Some ''ea'', di_work_note = None, di_confidence = 1, di_source_media_asset_ids = [32]\<rparr>],
     an_review_required_items = [],
     an_location_condition_suggestions = [\<lparr>dl_location_id = 33, dl_location_kind = ORIGIN,
       dl_residence_type = APARTMENT, dl_floor = \<lparr>fc_status = KNOWN, fc_value = Some 5\<rparr>,
       dl_elevator = ELEVATOR_UNKNOWN, dl_stairs = STAIRS_UNKNOWN, dl_parking_access = PARKING_UNKNOWN,
       dl_carry_distance = \<lparr>cd_status = UNKNOWN, cd_value_m = None\<rparr>, dl_access_note = None,
       dl_confidence = 1, dl_review_required_fields = [], dl_source_media_asset_ids = [32]\<rparr>]\<rparr>"

definition sample_import :: db where
  "sample_import = (empty_db (\<lambda>n. n) (\<lambda>t. replicate 64 CHR ''a''))\<lparr>drawn := 100,
     locations := [\<lparr>loc_id = 33, loc_job_id = 1, loc_kind = ORIGIN, loc_label = ''home'', loc_detail_address = None,
       loc_conditions = default_conditions\<lparr>lc_ladder := LADDER_REQUIRED\<rparr>, loc_created_at = 0\<rparr>],
     room_zones := [\<lparr>rz_id = 34, rz_location_id = 33, rz_name = ''room'', rz_sort_order = 0, rz_created_at = 0\<rparr>],
     capture_sessions := [\<lparr>cs_id = 31, cs_job_id = 1, cs_created_by_participant_id = 2,
       cs_media_consent_policy_version = None, cs_privacy_notice_acknowledged = False, cs_media_retention_days = None,
       cs_media_consented_at = None, cs_created_at = 0\<rparr>],
     media_assets := [\<lparr>ma_id = 32, ma_capture_session_id = 31, ma_room_zone_id = 34, ma_media_purpose = INVENTORY,
       ma_status = READY, ma_object_key = ''k'', ma_content_type = ''image/png'', ma_expected_size_bytes = 9,
       ma_actual_size_bytes = Some 9, ma_sha256_hex = None, ma_generation = Some ''g'', ma_created_at = 0,
       ma_uploaded_at = Some 1\<rparr>]\<rparr>"

lemma sample_import_returns: "\<exists>resp s'. import_analysis_draft 1 sample_draft None 50 sample_import = Inr (resp, s')"
  by (simp add: import_analysis_draft_def result_items_def result_assets_def result_source_ids_def usable_media_def
      scope_item_of_draft_def asset_zone_def analysis_locations_def suggestion_fits_def job_locations_def
      mk_scope_content_def scope_content_ok_def location_conditions_ok_def floor_ok_def carry_distance_ok_def
      optional_text_def text_between_def location_snapshot_def analysis_location_conditions_def default_conditions_def
      create_scope_version_def store_scope_version_def with_location_condition_snapshot_def validate_scope_zones_def
      zone_in_job_def next_sequence_number_def insert_scope_version_def scope_version_check_def
      normalize_scope_content_def uuid4_def content_hash_of_def new_scope_version_def Let_def
      sample_draft_def sample_import_def empty_db_def)

lemma import_forgets_ladder_witness:
  "\<exists>resp s'. import_analysis_draft 1 sample_draft None 50 sample_import = Inr (resp, s') \<and>
     (\<exists>l \<in> set (sc_location_conditions (svr_content resp)). sl_location_id l = 33 \<and>
        lc_ladder (sl_conditions l) = LADDER_UNKNOWN) \<and>
     map (lc_ladder \<circ> loc_conditions) (locations sample_import) = [LADDER_REQUIRED]"
proof -
  obtain resp s' where i: "import_analysis_draft 1 sample_draft None 50 sample_import = Inr (resp, s')"
    using sample_import_returns by blast
  have v: "an_result_schema_version sample_draft = 2" by (simp add: sample_draft_def)
  have d: "hd (an_location_condition_suggestions sample_draft) \<in> set (an_location_condition_suggestions sample_draft)"
    by (simp add: sample_draft_def)
  from import_forgets_ladder[OF i v d] i show ?thesis
    by (auto simp: sample_draft_def sample_import_def)
qed

end
