(* ===== verification/ScopeReviewProofs.thy ===== *)
theory ScopeReviewProofs
  imports ScopeReview ScopeProofs "HOL-Library.Multiset"
begin

text \<open>
  Lemmas about quoted proposals: the invariant that ties proposals to scope versions and
  revision requests, the life cycle of a proposal, and the properties of the component.
\<close>

section \<open>Invariant\<close>

definition revision_matches :: "ScopeProposalStatus \<Rightarrow> ScopeRevisionRequest option \<Rightarrow> bool" where
  "revision_matches st r = (case r of None \<Rightarrow> st \<in> {SP_CUSTOMER_REVIEW, SP_CONFIRMED}
     | Some q \<Rightarrow> (if rr_resolved_at q = None then st = SP_REVISION_REQUESTED else st = SP_SUPERSEDED))"

text \<open>A proposal quotes one child version that the company has approved, and a confirmed
  one quotes a locked version.\<close>

definition proposal_ok :: "db \<Rightarrow> ScopeProposal \<Rightarrow> bool" where
  "proposal_ok s p = (scope_proposal_check p \<and> sp_id p \<in> drawn_ids s \<and> sp_execution_plan p \<noteq> None \<and>
     (\<exists>v. row sv_id (sp_result_scope_version_id p) (scope_versions s) = Some v \<and>
        sv_parent_version_id v = Some (sp_source_scope_version_id p) \<and> sv_job_id v = sp_job_id p \<and>
        COMPANY_MANAGER \<in> set (approval_roles_of (sv_id v) s) \<and>
        (sp_status p = SP_CONFIRMED \<longrightarrow> sv_locked_at v \<noteq> None)) \<and>
     revision_matches (sp_status p) (revision_for_proposal (sp_id p) s))"

definition review_inv :: "db \<Rightarrow> bool" where
  "review_inv s = (scope_inv s \<and> distinct (map sp_id (scope_proposals s)) \<and>
     distinct (map sp_source_scope_version_id (scope_proposals s)) \<and>
     distinct (map sp_result_scope_version_id (scope_proposals s)) \<and>
     distinct (map rr_id (revision_requests s)) \<and>
     distinct (map rr_scope_proposal_id (revision_requests s)) \<and>
     (\<forall>r \<in> set (revision_requests s). rr_id r \<in> drawn_ids s \<and> rr_scope_proposal_id r \<in> drawn_ids s) \<and>
     (\<forall>p \<in> set (scope_proposals s). proposal_ok s p))"

lemma review_invD:
  assumes "review_inv s"
  shows "scope_inv s" "distinct (map sp_id (scope_proposals s))"
    "distinct (map sp_source_scope_version_id (scope_proposals s))"
    "distinct (map sp_result_scope_version_id (scope_proposals s))"
    "distinct (map rr_id (revision_requests s))" "distinct (map rr_scope_proposal_id (revision_requests s))"
    "r \<in> set (revision_requests s) \<Longrightarrow> rr_id r \<in> drawn_ids s \<and> rr_scope_proposal_id r \<in> drawn_ids s"
    "p \<in> set (scope_proposals s) \<Longrightarrow> proposal_ok s p"
  using assms by (auto simp: review_inv_def)

text \<open>The life of one proposal: its terms never change, and its status moves forward only; listed
  is what each status may have become some operations later.\<close>

fun proposal_transitions :: "ScopeProposalStatus \<Rightarrow> ScopeProposalStatus list" where
  "proposal_transitions SP_CUSTOMER_REVIEW = [SP_CUSTOMER_REVIEW, SP_REVISION_REQUESTED, SP_CONFIRMED, SP_SUPERSEDED]"
| "proposal_transitions SP_REVISION_REQUESTED = [SP_REVISION_REQUESTED, SP_SUPERSEDED]"
| "proposal_transitions SP_CONFIRMED = [SP_CONFIRMED]"
| "proposal_transitions SP_SUPERSEDED = [SP_SUPERSEDED]"

definition proposal_step :: "ScopeProposal \<Rightarrow> ScopeProposal \<Rightarrow> bool" where
  "proposal_step p p' = (\<exists>st t. p' = p\<lparr>sp_status := st, sp_confirmed_at := t\<rparr> \<and>
     st \<in> set (proposal_transitions (sp_status p)) \<and>
     (st = sp_status p \<or> st \<noteq> SP_CONFIRMED \<longrightarrow> t = sp_confirmed_at p))"

definition review_evolve :: "db \<Rightarrow> db \<Rightarrow> bool" where
  "review_evolve s s' = (scope_evolve s s' \<and>
     (\<forall>i p. row sp_id i (scope_proposals s) = Some p \<longrightarrow>
        (\<exists>p'. row sp_id i (scope_proposals s') = Some p' \<and> proposal_step p p')))"

lemma proposal_step_refl [simp]: "proposal_step p p"
  by (cases "sp_status p") (auto simp: proposal_step_def intro!: exI[of _ "sp_status p"] exI[of _ "sp_confirmed_at p"])

lemma proposal_step_final:
  assumes "proposal_step p p'" "sp_status p \<in> {SP_CONFIRMED, SP_SUPERSEDED}"
  shows "p' = p"
proof -
  obtain st t where q: "p' = p\<lparr>sp_status := st, sp_confirmed_at := t\<rparr>" "st \<in> set (proposal_transitions (sp_status p))"
      "st = sp_status p \<or> st \<noteq> SP_CONFIRMED \<longrightarrow> t = sp_confirmed_at p"
    using assms(1) by (auto simp: proposal_step_def)
  have "st = sp_status p" using q(2) assms(2) by auto
  then show ?thesis using q(1,3) by simp
qed

lemma proposal_step_confirmed:
  "proposal_step p p' \<Longrightarrow> sp_status p' = SP_CONFIRMED \<Longrightarrow> sp_status p \<in> {SP_CUSTOMER_REVIEW, SP_CONFIRMED}"
  by (cases "sp_status p") (auto simp: proposal_step_def)

lemma proposal_step_trans:
  assumes "proposal_step p q" "proposal_step q r"
  shows "proposal_step p r"
proof -
  obtain st t where q: "q = p\<lparr>sp_status := st, sp_confirmed_at := t\<rparr>" "st \<in> set (proposal_transitions (sp_status p))"
      "st = sp_status p \<or> st \<noteq> SP_CONFIRMED \<longrightarrow> t = sp_confirmed_at p"
    using assms(1) by (auto simp: proposal_step_def)
  obtain st' t' where r: "r = q\<lparr>sp_status := st', sp_confirmed_at := t'\<rparr>" "st' \<in> set (proposal_transitions st)"
      "st' = st \<or> st' \<noteq> SP_CONFIRMED \<longrightarrow> t' = t"
    using assms(2) q(1) by (auto simp: proposal_step_def)
  have "st' \<in> set (proposal_transitions (sp_status p))" "st' = sp_status p \<or> st' \<noteq> SP_CONFIRMED \<longrightarrow> t' = sp_confirmed_at p"
    using q(2,3) r(2,3) by (cases "sp_status p"; cases st; auto)+
  then show ?thesis unfolding proposal_step_def q(1) r(1) by (intro exI[of _ st'] exI[of _ t']) simp
qed

lemma proposal_step_id: "proposal_step p p' \<Longrightarrow> sp_id p' = sp_id p \<and>
   sp_source_scope_version_id p' = sp_source_scope_version_id p \<and>
   sp_result_scope_version_id p' = sp_result_scope_version_id p \<and> sp_job_id p' = sp_job_id p \<and>
   quote_from_proposal p' = quote_from_proposal p \<and> sp_execution_plan p' = sp_execution_plan p"
  by (auto simp: proposal_step_def quote_from_proposal_def)

lemma scope_evolveD:
  assumes "scope_evolve s s'"
  shows "rng s' = rng s" "drawn s \<le> drawn s'" "sha256_hex s' = sha256_hex s"
    "row sv_id i (scope_versions s) = Some v \<Longrightarrow> \<exists>v'. row sv_id i (scope_versions s') = Some v' \<and> version_step v v'"
    "set (scope_approvals s) \<subseteq> set (scope_approvals s')" "drawn_ids s \<subseteq> drawn_ids s'"
proof -
  note e = assms[unfolded scope_evolve_def]
  show "rng s' = rng s" "drawn s \<le> drawn s'" "sha256_hex s' = sha256_hex s" using e by blast+
  then show "drawn_ids s \<subseteq> drawn_ids s'" by (rule_tac drawn_ids_mono)
  show "row sv_id i (scope_versions s) = Some v \<Longrightarrow> \<exists>v'. row sv_id i (scope_versions s') = Some v' \<and> version_step v v'"
    using e by blast
  show "set (scope_approvals s) \<subseteq> set (scope_approvals s')" using e by blast
qed

text \<open>What a proposal needs of the scope tables survives every scope operation.\<close>

lemma proposal_ok_evolve:
  assumes "proposal_ok s p" "scope_evolve s s'" "revision_for_proposal (sp_id p) s' = revision_for_proposal (sp_id p) s"
  shows "proposal_ok s' p"
proof -
  obtain v where v: "row sv_id (sp_result_scope_version_id p) (scope_versions s) = Some v"
      "sv_parent_version_id v = Some (sp_source_scope_version_id p)" "sv_job_id v = sp_job_id p"
      "COMPANY_MANAGER \<in> set (approval_roles_of (sv_id v) s)" "sp_status p = SP_CONFIRMED \<longrightarrow> sv_locked_at v \<noteq> None"
    using assms(1) by (auto simp: proposal_ok_def)
  obtain v' where v': "row sv_id (sp_result_scope_version_id p) (scope_versions s') = Some v'" "version_step v v'"
    using scope_evolveD(4)[OF assms(2) v(1)] by blast
  have "COMPANY_MANAGER \<in> set (approval_roles_of (sv_id v') s')"
    using v(4) version_step_fields[OF v'(2)] scope_evolveD(5)[OF assms(2)] by (auto simp: approval_roles_of_def)
  moreover have "sp_status p = SP_CONFIRMED \<longrightarrow> sv_locked_at v' \<noteq> None"
    using v(5) v'(2) by (auto simp: version_step_def)
  ultimately show ?thesis
    using assms v(2,3) v'(1) version_step_fields[OF v'(2)] scope_evolveD(6)[OF assms(2)]
    by (auto simp: proposal_ok_def)
qed

lemma review_scope_step:
  assumes "review_inv s" "scope_inv s'" "scope_evolve s s'" "scope_proposals s' = scope_proposals s"
    "revision_requests s' = revision_requests s"
  shows "review_inv s' \<and> review_evolve s s'"
proof -
  have rev: "revision_for_proposal i s' = revision_for_proposal i s" for i
    using assms(5) by (simp add: revision_for_proposal_def)
  have "proposal_ok s' p" if "p \<in> set (scope_proposals s')" for p
    using proposal_ok_evolve[OF review_invD(8)[OF assms(1)] assms(3) rev] that assms(4) by simp
  then show ?thesis
    using assms review_invD[OF assms(1)] scope_evolveD(6)[OF assms(3)]
    by (auto simp: review_inv_def review_evolve_def)
qed

text \<open>Frames and proposals.\<close>

lemma review_frames [simp]:
  "scope_frame s (put_proposal p s)" "scope_frame s (put_revision r s)"
  "scope_proposals (put_revision r s) = scope_proposals s" "revision_requests (put_proposal p s) = revision_requests s"
  by (simp_all add: scope_frame_def put_proposal_def put_revision_def)

lemma proposal_for_result_row:
  assumes "review_inv s" "proposal_for_result job vid s = Some p"
  shows "row sp_id (sp_id p) (scope_proposals s) = Some p" "sp_job_id p = job" "sp_result_scope_version_id p = vid"
proof -
  have "p \<in> set (scope_proposals s) \<and> sp_job_id p = job \<and> sp_result_scope_version_id p = vid"
    using assms(2) by (auto simp: proposal_for_result_def find_Some_iff)
  then show "row sp_id (sp_id p) (scope_proposals s) = Some p" "sp_job_id p = job" "sp_result_scope_version_id p = vid"
    using row_of_mem[OF review_invD(2)[OF assms(1)]] by auto
qed

lemma proposal_ok_revision:
  assumes "proposal_ok s p"
  shows "sp_status p \<in> {SP_CUSTOMER_REVIEW, SP_CONFIRMED} \<Longrightarrow> revision_for_proposal (sp_id p) s = None"
    "sp_status p \<notin> {SP_CUSTOMER_REVIEW, SP_CONFIRMED} \<Longrightarrow> \<exists>r. revision_for_proposal (sp_id p) s = Some r \<and>
       (rr_resolved_at r = None) = (sp_status p = SP_REVISION_REQUESTED)"
proof -
  have m: "revision_matches (sp_status p) (revision_for_proposal (sp_id p) s)" using assms by (simp add: proposal_ok_def)
  show "sp_status p \<in> {SP_CUSTOMER_REVIEW, SP_CONFIRMED} \<Longrightarrow> revision_for_proposal (sp_id p) s = None"
    using m by (auto simp: revision_matches_def split: option.splits if_splits)
  show "sp_status p \<notin> {SP_CUSTOMER_REVIEW, SP_CONFIRMED} \<Longrightarrow> \<exists>r. revision_for_proposal (sp_id p) s = Some r \<and>
       (rr_resolved_at r = None) = (sp_status p = SP_REVISION_REQUESTED)"
    using m by (auto simp: revision_matches_def split: option.splits if_splits)
qed

text \<open>Writing one proposal back after it moved along its life cycle.\<close>

lemma put_proposal_sound:
  assumes inv: "review_inv s" and r: "row sp_id (sp_id p) (scope_proposals s) = Some p" and st: "proposal_step p p'"
    and s': "scope_inv s'" "scope_evolve s s'" "scope_proposals s' = put_row sp_id p' (scope_proposals s)"
    and ok: "proposal_ok s' p'"
    and revs: "\<And>q. q \<in> set (scope_proposals s) \<Longrightarrow> sp_id q \<noteq> sp_id p \<Longrightarrow>
      revision_for_proposal (sp_id q) s' = revision_for_proposal (sp_id q) s"
    and rr: "distinct (map rr_id (revision_requests s'))" "distinct (map rr_scope_proposal_id (revision_requests s'))"
      "\<forall>r \<in> set (revision_requests s'). rr_id r \<in> drawn_ids s' \<and> rr_scope_proposal_id r \<in> drawn_ids s'"
  shows "review_inv s' \<and> review_evolve s s'"
proof -
  note pid = proposal_step_id[OF st]
  have same: "x = p" if "x \<in> set (scope_proposals s)" "sp_id x = sp_id p'" for x
    using row_of_mem[OF review_invD(2)[OF inv] that(1)] that(2) r pid by simp
  have cols: "map f (scope_proposals s') = map f (scope_proposals s)" if "f p' = f p" for f :: "ScopeProposal \<Rightarrow> uuid"
    using same that by (auto simp: s'(3) put_row_def)
  have "proposal_ok s' q" if "q \<in> set (scope_proposals s')" for q
    using that unfolding s'(3)
    by (rule put_rowE) (use ok pid proposal_ok_evolve[OF review_invD(8)[OF inv] s'(2)] revs in auto)
  then have "review_inv s'"
    using review_invD[OF inv] s'(1) cols[of sp_id] cols[of sp_source_scope_version_id]
      cols[of sp_result_scope_version_id] pid rr by (simp add: review_inv_def)
  moreover have "review_evolve s s'"
    using r st pid s'(2) by (auto simp: review_evolve_def s'(3) row_put_row)
  ultimately show ?thesis by simp
qed

section \<open>The customer's answer\<close>

lemma revision_none: "revision_for_proposal i s = None \<longleftrightarrow> i \<notin> rr_scope_proposal_id ` set (revision_requests s)"
  by (auto simp: revision_for_proposal_def find_None_iff)

lemma request_revision_cases:
  assumes "request_scope_revision job pid vid reason now s = Inr (resp, s')"
  obtains (replay) p r where "proposal_for_result job vid s = Some p" "revision_for_proposal (sp_id p) s = Some r"
      "rr_requested_by_participant_id r = pid" "rr_reason r = reason" "s' = s" "resp = revision_response r"
  | (fresh) p r where "proposal_for_result job vid s = Some p" "revision_for_proposal (sp_id p) s = None"
      "sp_status p = SP_CUSTOMER_REVIEW" "\<not> has_child vid s" "resp = revision_response r"
      "r = \<lparr>rr_id = rng s (drawn s), rr_job_id = job, rr_scope_proposal_id = sp_id p, rr_scope_version_id = vid,
         rr_requested_by_participant_id = pid, rr_reason = reason, rr_requested_at = now,
         rr_resolved_by_scope_proposal_id = None, rr_resolved_at = None\<rparr>"
      "s' = s\<lparr>drawn := Suc (drawn s), scope_proposals := put_row sp_id (p\<lparr>sp_status := SP_REVISION_REQUESTED\<rparr>)
         (scope_proposals s), revision_requests := revision_requests s @ [r]\<rparr>"
proof -
  obtain p where p: "proposal_for_result job vid s = Some p"
    using assms by (auto simp: request_scope_revision_def split: option.splits)
  show thesis
  proof (cases "revision_for_proposal (sp_id p) s")
    case (Some r)
    then show ?thesis using replay[OF p Some] assms p by (auto simp: request_scope_revision_def split: if_splits)
  next
    case None
    show ?thesis
      by (rule fresh[OF p None _ _ _ refl])
        (use assms p None in \<open>auto simp: request_scope_revision_def uuid4_def Let_def insert_revision_request_def
           put_proposal_def split: if_splits\<close>)
  qed
qed

lemma request_revision_sound:
  assumes inv: "review_inv s" and rq: "request_scope_revision job pid vid reason now s = Inr (resp, s')"
  shows "review_inv s' \<and> review_evolve s s'"
  using rq
proof (cases rule: request_revision_cases)
  case (replay p r)
  then show ?thesis using inv by (simp add: review_evolve_def)
next
  case (fresh p r)
  let ?p = "p\<lparr>sp_status := SP_REVISION_REQUESTED\<rparr>"
  note row = proposal_for_result_row[OF inv fresh(1)]
  have pok: "proposal_ok s p" using review_invD(8)[OF inv row_mem[OF row(1)]] .
  have frame: "scope_frame s s'" by (simp add: scope_frame_def fresh(7))
  note sc = scope_frame_sound[OF review_invD(1)[OF inv] frame]
  note ev = scope_evolveD[OF conjunct2[OF sc]]
  have rev: "revision_for_proposal i s' = (if i = sp_id p then Some r else revision_for_proposal i s)" for i
    using fresh(2) by (auto simp: revision_for_proposal_def fresh(6,7) find_append split: option.splits)
  have step: "proposal_step p ?p"
    using fresh(3) by (auto simp: proposal_step_def intro!: exI[of _ SP_REVISION_REQUESTED] exI[of _ "sp_confirmed_at p"])
  have ok: "proposal_ok s' ?p"
    using pok fresh(3) ev(6) rev
    by (auto simp: proposal_ok_def scope_proposal_check_def revision_matches_def fresh(6,7) approval_roles_of_def)
  have new: "rr_id r \<notin> rr_id ` set (revision_requests s)"
    using review_invD(7)[OF inv] uuid4_fresh[OF scope_invD(1)[OF review_invD(1)[OF inv]]] by (auto simp: fresh(6))
  have rr: "revision_requests s' = revision_requests s @ [r]" by (simp add: fresh(7))
  have drawn: "rng s (drawn s) \<in> drawn_ids s'" "sp_id p \<in> drawn_ids s'"
    using pok ev(6) by (auto simp: drawn_ids_def fresh(7) proposal_ok_def)
  show ?thesis
  proof (rule put_proposal_sound[OF inv row(1) step _ _ _ ok])
    show "scope_inv s'" "scope_evolve s s'" using sc by auto
    show "scope_proposals s' = put_row sp_id ?p (scope_proposals s)" by (simp add: fresh(7))
    show "distinct (map rr_id (revision_requests s'))" using new review_invD(5)[OF inv] by (simp add: rr)
    show "distinct (map rr_scope_proposal_id (revision_requests s'))"
      using fresh(2) revision_none review_invD(6)[OF inv] by (simp add: rr fresh(6))
    show "\<forall>r \<in> set (revision_requests s'). rr_id r \<in> drawn_ids s' \<and> rr_scope_proposal_id r \<in> drawn_ids s'"
      using review_invD(7)[OF inv] ev(6) drawn by (auto simp: rr fresh(6))
  qed (simp add: rev)
qed

lemma confirm_cases:
  assumes "confirm_scope_proposal job pid vid trace now s = Inr (resp, s')"
  obtains (replay) p a where "proposal_for_result job vid s = Some p" "sp_status p = SP_CONFIRMED"
      "customer_approval vid s = Some a" "s' = s"
      "resp = \<lparr>scr_proposal_id = sp_id p, scr_scope_version_id = vid, scr_confirmed_at = sa_approved_at a\<rparr>"
  | (fresh) p res s1 where "proposal_for_result job vid s = Some p" "sp_status p = SP_CUSTOMER_REVIEW"
      "approve_scope_version job vid pid CUSTOMER (Some trace) now s = Inr (res, s1)"
      "resp = \<lparr>scr_proposal_id = sp_id p, scr_scope_version_id = vid,
         scr_confirmed_at = sa_approved_at (sar_approval res)\<rparr>"
      "s' = put_proposal (p\<lparr>sp_status := SP_CONFIRMED, sp_confirmed_at := Some (sa_approved_at (sar_approval res))\<rparr>) s1"
proof -
  obtain p where p: "proposal_for_result job vid s = Some p"
    using assms by (auto simp: confirm_scope_proposal_def split: option.splits)
  show thesis
  proof (cases "sp_status p = SP_CONFIRMED \<and> customer_approval vid s \<noteq> None")
    case True
    then show ?thesis using replay[OF p] assms p by (auto simp: confirm_scope_proposal_def)
  next
    case False
    then have st: "sp_status p = SP_CUSTOMER_REVIEW"
      using assms p by (auto simp: confirm_scope_proposal_def split: ScopeProposalStatus.splits option.splits if_splits)
    then show ?thesis
      using assms p fresh[OF p st] by (auto simp: confirm_scope_proposal_def bindR_Inr Let_def split: option.splits)
  qed
qed

lemma approve_tables:
  assumes "approve_scope_version job vid pid role trace now s = Inr (res, s')"
  shows "scope_proposals s' = scope_proposals s \<and> revision_requests s' = revision_requests s \<and>
    sa_approved_at (sar_approval res) = now"
proof -
  obtain v s3 where v: "row sv_id vid (scope_versions s) = Some v" and s3: "approved_state job v pid role trace now s = Inr s3"
    and s': "s' = put_version (approved_version v role now s) s3\<lparr>scope_approvals := scope_approvals s @
               [new_approval (rng s (drawn s)) vid pid role now]\<rparr>"
    by (rule approve_cases[OF assms])
  have "scope_proposals s3 = scope_proposals s \<and> revision_requests s3 = revision_requests s"
  proof (cases "completes_approval (sv_id v) role s")
    case True
    let ?s2 = "add_audit_event job AU_SCOPE_VERSION_APPROVED (Some pid)
        [(''scope_version_id'', id_json (sv_id v)), (''role'', JStr (role_value role))] now (s\<lparr>drawn := Suc (drawn s)\<rparr>)"
    have l: "lock_scope_version job (approved_version v role now s) pid trace now ?s2 = Inr s3"
      using s3 True by (simp add: approved_state_def Let_def)
    show ?thesis by (rule lock_version_spec[OF l]) (simp add: add_audit_event_def uuid4_def)
  next
    case False
    then show ?thesis using s3 by (auto simp: approved_state_def add_audit_event_def uuid4_def Let_def)
  qed
  moreover have "sa_approved_at (sar_approval res) = now"
    using assms by (auto simp: approve_unfold[OF v] bindR_Inr Let_def new_approval_def split: if_splits)
  ultimately show ?thesis by (simp add: s' put_version_def)
qed

lemma approval_roles_sides: "scope_inv s \<Longrightarrow> set (approval_roles_of i s) \<subseteq> {CUSTOMER, COMPANY_MANAGER}"
  using scope_invD(6) by (auto simp: approval_roles_of_def approval_ok_def scope_approval_check_def)

lemma customer_completes:
  assumes "scope_inv s" "COMPANY_MANAGER \<in> set (approval_roles_of i s)"
  shows "completes_approval i CUSTOMER s"
  using approval_roles_sides[OF assms(1), of i] assms(2) by (auto simp: completes_approval_def)

lemma approve_row:
  assumes "approve_scope_version job vid pid role trace now s = Inr (res, s')" "row sv_id vid (scope_versions s) = Some v"
  shows "row sv_id vid (scope_versions s') = Some (approved_version v role now s) \<and>
    scope_approvals s' = scope_approvals s @ [new_approval (rng s (drawn s)) vid pid role now] \<and>
    approvable job v pid role s"
proof -
  obtain v' s3 where a: "row sv_id vid (scope_versions s) = Some v'" "approvable job v' pid role s"
    and s3: "approved_state job v' pid role trace now s = Inr s3"
    and s': "s' = put_version (approved_version v' role now s) s3\<lparr>scope_approvals := scope_approvals s @
               [new_approval (rng s (drawn s)) vid pid role now]\<rparr>"
    by (rule approve_cases[OF assms(1)])
  then show ?thesis
    using approved_state_tables[OF s3] assms(2) row_key[OF assms(2)] by (simp add: put_version_def row_put_row)
qed

lemma confirm_sound:
  assumes inv: "review_inv s" and cf: "confirm_scope_proposal job pid vid trace now s = Inr (resp, s')"
  shows "review_inv s' \<and> review_evolve s s'"
  using cf
proof (cases rule: confirm_cases)
  case (replay p a)
  then show ?thesis using inv by (simp add: review_evolve_def)
next
  case (fresh p res s1)
  let ?p = "p\<lparr>sp_status := SP_CONFIRMED, sp_confirmed_at := Some (sa_approved_at (sar_approval res))\<rparr>"
  note row = proposal_for_result_row[OF inv fresh(1)]
  have pok: "proposal_ok s p" using review_invD(8)[OF inv row_mem[OF row(1)]] .
  note t = approve_tables[OF fresh(3)]
  note a1 = approve_sound[OF review_invD(1)[OF inv] fresh(3)]
  have fr: "scope_frame s1 s'" by (simp add: fresh(5))
  note sc = scope_frame_sound[OF conjunct1[OF a1] fr]
  have ev: "scope_evolve s s'" using scope_evolve_trans a1 sc by blast
  have rev: "revision_for_proposal i s' = revision_for_proposal i s" for i
    using t by (simp add: revision_for_proposal_def fresh(5))
  have step: "proposal_step p ?p"
    using fresh(2) by (auto simp: proposal_step_def intro!: exI[of _ SP_CONFIRMED])
  obtain v where v: "row sv_id vid (scope_versions s) = Some v" "sv_parent_version_id v = Some (sp_source_scope_version_id p)"
      "sv_job_id v = sp_job_id p" "COMPANY_MANAGER \<in> set (approval_roles_of (sv_id v) s)"
    using pok row(3) by (auto simp: proposal_ok_def)
  have id: "sv_id v = vid" using row_key[OF v(1)] .
  have "completes_approval vid CUSTOMER s" using customer_completes review_invD(1)[OF inv] v(4) id by simp
  then have locked: "sv_locked_at (approved_version v CUSTOMER now s) \<noteq> None" by (simp add: approved_version_def id)
  note ar = approve_row[OF fresh(3) v(1)]
  have vs': "scope_versions s' = scope_versions s1" "scope_approvals s' = scope_approvals s1"
    by (simp_all add: fresh(5) put_proposal_def)
  have "COMPANY_MANAGER \<in> set (approval_roles_of vid s')"
    using v(4) id ar by (auto simp: approval_roles_of_def vs')
  moreover have none: "revision_for_proposal (sp_id p) s' = None"
    using proposal_ok_revision(1)[OF pok] fresh(2) rev by simp
  moreover have "scope_proposal_check ?p" "sp_id p \<in> drawn_ids s'" "sp_execution_plan p \<noteq> None"
    using pok fresh(2) scope_evolveD(6)[OF ev] by (auto simp: proposal_ok_def scope_proposal_check_def)
  moreover have "row sv_id (sp_result_scope_version_id p) (scope_versions s') = Some (approved_version v CUSTOMER now s)"
    using ar row(3) by (simp add: vs')
  ultimately have ok: "proposal_ok s' ?p"
    using v(2,3) locked id by (simp add: proposal_ok_def revision_matches_def approved_version_def)
  show ?thesis
  proof (rule put_proposal_sound[OF inv row(1) step _ ev _ ok])
    show "scope_inv s'" using sc by simp
    show "scope_proposals s' = put_row sp_id ?p (scope_proposals s)" using t by (simp add: fresh(5) put_proposal_def)
    show "distinct (map rr_id (revision_requests s'))" "distinct (map rr_scope_proposal_id (revision_requests s'))"
      using review_invD[OF inv] t by (simp_all add: fresh(5))
    show "\<forall>r \<in> set (revision_requests s'). rr_id r \<in> drawn_ids s' \<and> rr_scope_proposal_id r \<in> drawn_ids s'"
      using review_invD(7)[OF inv] t scope_evolveD(6)[OF ev] by (auto simp: fresh(5))
  qed (simp add: rev)
qed

section \<open>Sending a proposal\<close>

lemma create_version_tables:
  "create_scope_version job pid parent content source flp now s = Inr (resp, s') \<Longrightarrow>
   scope_proposals s' = scope_proposals s \<and> revision_requests s' = revision_requests s \<and> move_jobs s' = move_jobs s"
  by (erule create_version_cases) (simp add: add_audit_event_def uuid4_def)

lemma send_cases:
  assumes "send_proposal job pid cmd kind basis now s = Inr (p, s')"
  obtains v s1 s3 res s4 where
    "create_scope_version job (Some pid) (Some (spc_source_scope_version_id cmd))
       (normalize_scope_content (spc_content cmd)) None False now s = Inr (v, s1)"
    "p = new_proposal (rng s1 (drawn s1)) job pid (svr_id v) kind cmd now" "scope_proposal_check p"
    "\<forall>q \<in> set (scope_proposals s1). sp_source_scope_version_id q \<noteq> sp_source_scope_version_id p \<and>
       sp_result_scope_version_id q \<noteq> sp_result_scope_version_id p"
    "s3 = s1\<lparr>drawn := Suc (drawn s1), scope_proposals := scope_proposals s1 @ [p]\<rparr>"
    "approve_scope_version job (svr_id v) pid COMPANY_MANAGER None now s3 = Inr (res, s4)"
    "s' = supersede basis (sp_id p) now s4"
proof -
  obtain v s1 where c: "create_scope_version job (Some pid) (Some (spc_source_scope_version_id cmd))
       (normalize_scope_content (spc_content cmd)) None False now s = Inr (v, s1)"
    using assms by (auto simp: send_proposal_def bindR_Inr)
  let ?p = "new_proposal (rng s1 (drawn s1)) job pid (svr_id v) kind cmd now"
  obtain s3 where i: "insert_proposal ?p (s1\<lparr>drawn := Suc (drawn s1)\<rparr>) = Inr s3"
    using assms c by (auto simp: send_proposal_def uuid4_def Let_def split: sum.splits)
  obtain res s4 where a: "approve_scope_version job (svr_id v) pid COMPANY_MANAGER None now s3 = Inr (res, s4)"
      "p = ?p" "s' = supersede basis (sp_id p) now s4"
    using assms c i by (auto simp: send_proposal_def uuid4_def Let_def bindR_Inr)
  show thesis
    by (rule that[OF c a(2) _ _ _ a(1,3)])
      (use i a(2) in \<open>auto simp: insert_proposal_def list_ex_iff split: if_splits\<close>)
qed

lemma has_child_row: "has_child p s \<Longrightarrow> \<exists>v \<in> set (scope_versions s). sv_parent_version_id v = Some p"
  by (simp add: has_child_def list_ex_iff)

text \<open>The database between the version and its approval, with the proposal already stored but
  its version not yet approved by the company.\<close>

lemma proposal_added:
  assumes inv: "review_inv s" and sc: "scope_inv s'" "scope_evolve s s'"
    and tab: "scope_proposals s' = scope_proposals s @ [p]" "revision_requests s' = revision_requests s"
    and new: "sp_id p \<in> drawn_ids s'" "sp_id p \<notin> drawn_ids s" "scope_proposal_check p" "sp_execution_plan p \<noteq> None"
      "\<forall>q \<in> set (scope_proposals s). sp_source_scope_version_id q \<noteq> sp_source_scope_version_id p \<and>
         sp_result_scope_version_id q \<noteq> sp_result_scope_version_id p"
      "sp_status p = SP_CUSTOMER_REVIEW"
    and v: "row sv_id (sp_result_scope_version_id p) (scope_versions s') = Some v"
      "sv_parent_version_id v = Some (sp_source_scope_version_id p)" "sv_job_id v = sp_job_id p"
      "COMPANY_MANAGER \<in> set (approval_roles_of (sv_id v) s')"
  shows "review_inv s' \<and> review_evolve s s'"
proof -
  note mono = scope_evolveD(6)[OF sc(2)]
  have rev: "revision_for_proposal i s' = revision_for_proposal i s" for i
    using tab(2) by (simp add: revision_for_proposal_def)
  have old: "proposal_ok s' q \<and> sp_id q \<noteq> sp_id p" if "q \<in> set (scope_proposals s)" for q
    using review_invD(8)[OF inv that] proposal_ok_evolve[OF _ sc(2) rev] new(2) by (auto simp: proposal_ok_def)
  have "revision_for_proposal (sp_id p) s' = None"
    using revision_none[of "sp_id p" s'] review_invD(7)[OF inv] new(2) tab(2) by auto
  then have "proposal_ok s' p" using new v by (auto simp: proposal_ok_def revision_matches_def)
  then have "review_inv s'"
    using review_invD[OF inv] old new(5) sc(1) mono tab
    by (auto simp: review_inv_def image_iff) metis
  moreover have "review_evolve s s'" using sc(2) tab(1) by (auto simp: review_evolve_def)
  ultimately show ?thesis by simp
qed

text \<open>A revision request answered: the previous proposal is superseded.\<close>

lemma superseded_sound:
  assumes inv: "review_inv s" and p: "row sp_id (sp_id p) (scope_proposals s) = Some p" "sp_status p = SP_REVISION_REQUESTED"
    and r: "revision_for_proposal (sp_id p) s = Some r" "rr_resolved_at r = None"
  shows "review_inv (supersede (Some (p, r)) i now s) \<and> review_evolve s (supersede (Some (p, r)) i now s)"
proof -
  let ?s = "supersede (Some (p, r)) i now s" and ?p = "p\<lparr>sp_status := SP_SUPERSEDED\<rparr>"
  let ?r = "r\<lparr>rr_resolved_by_scope_proposal_id := Some i, rr_resolved_at := Some now\<rparr>"
  have fr: "scope_frame s ?s" by (simp add: supersede_def scope_frame_def put_revision_def put_proposal_def)
  note sc = scope_frame_sound[OF review_invD(1)[OF inv] fr]
  have rm: "r \<in> set (revision_requests s)" "rr_scope_proposal_id r = sp_id p"
    using r(1) by (auto simp: revision_for_proposal_def find_Some_iff)
  have same: "x = r" if "x \<in> set (revision_requests s)" "rr_id x = rr_id r" for x
    using review_invD(5)[OF inv] that rm by (metis distinct_map inj_onD)
  have rr: "revision_requests ?s = map (\<lambda>x. if x = r then ?r else x) (revision_requests s)"
    using same by (auto simp: supersede_def put_revision_def put_proposal_def put_row_def)
  have rev: "revision_for_proposal j ?s = (if j = sp_id p then Some ?r else revision_for_proposal j s)" for j
  proof -
    have "find (\<lambda>x. rr_scope_proposal_id x = j) (map (\<lambda>x. if x = r then ?r else x) t) =
        map_option (\<lambda>x. if x = r then ?r else x) (find (\<lambda>x. rr_scope_proposal_id x = j) t)" for t
      by (induction t) auto
    then have "revision_for_proposal j ?s =
        map_option (\<lambda>x. if x = r then ?r else x) (revision_for_proposal j s)"
      by (simp add: revision_for_proposal_def rr)
    moreover have "x \<noteq> r" if "revision_for_proposal j s = Some x" "j \<noteq> sp_id p" for x
      using that rm(2) by (auto simp: revision_for_proposal_def find_Some_iff)
    ultimately show ?thesis using r(1) by (cases "revision_for_proposal j s") auto
  qed
  have step: "proposal_step p ?p"
    using p(2) by (auto simp: proposal_step_def intro!: exI[of _ SP_SUPERSEDED] exI[of _ "sp_confirmed_at p"])
  have pok: "proposal_ok s p" using review_invD(8)[OF inv row_mem[OF p(1)]] .
  have tabs: "scope_versions ?s = scope_versions s" "scope_approvals ?s = scope_approvals s" "drawn_ids ?s = drawn_ids s"
    by (simp_all add: supersede_def put_revision_def put_proposal_def drawn_ids_def)
  have ok: "proposal_ok ?s ?p"
    using pok p(2) rev tabs by (auto simp: proposal_ok_def scope_proposal_check_def revision_matches_def approval_roles_of_def)
  show ?thesis
  proof (rule put_proposal_sound[OF inv p(1) step _ _ _ ok])
    show "scope_inv ?s" "scope_evolve s ?s" using sc by auto
    show "scope_proposals ?s = put_row sp_id ?p (scope_proposals s)"
      by (simp add: supersede_def put_revision_def put_proposal_def)
    have "map rr_id (revision_requests ?s) = map rr_id (revision_requests s)"
      "map rr_scope_proposal_id (revision_requests ?s) = map rr_scope_proposal_id (revision_requests s)"
      by (auto simp: rr)
    then show "distinct (map rr_id (revision_requests ?s))" "distinct (map rr_scope_proposal_id (revision_requests ?s))"
      using review_invD(5,6)[OF inv] by auto
    show "\<forall>r \<in> set (revision_requests ?s). rr_id r \<in> drawn_ids ?s \<and> rr_scope_proposal_id r \<in> drawn_ids ?s"
      using review_invD(7)[OF inv] rm(1) by (auto simp: rr tabs)
  qed (simp add: rev)
qed

lemma review_evolve_trans: "review_evolve a b \<Longrightarrow> review_evolve b c \<Longrightarrow> review_evolve a c"
  unfolding review_evolve_def by (auto intro: scope_evolve_trans) (blast intro: proposal_step_trans)

lemma send_sound:
  assumes inv: "review_inv s" and sd: "send_proposal job pid cmd kind basis now s = Inr (p, s')"
    and basis: "\<And>q r. basis = Some (q, r) \<Longrightarrow> row sp_id (sp_id q) (scope_proposals s) = Some q \<and>
      sp_status q = SP_REVISION_REQUESTED \<and> revision_for_proposal (sp_id q) s = Some r \<and> rr_resolved_at r = None"
  shows "review_inv s' \<and> review_evolve s s'"
proof -
  obtain v s1 s3 res s4 where c: "create_scope_version job (Some pid) (Some (spc_source_scope_version_id cmd))
       (normalize_scope_content (spc_content cmd)) None False now s = Inr (v, s1)"
    and p: "p = new_proposal (rng s1 (drawn s1)) job pid (svr_id v) kind cmd now" "scope_proposal_check p"
    and uniq: "\<forall>q \<in> set (scope_proposals s1). sp_source_scope_version_id q \<noteq> sp_source_scope_version_id p \<and>
       sp_result_scope_version_id q \<noteq> sp_result_scope_version_id p"
    and s3: "s3 = s1\<lparr>drawn := Suc (drawn s1), scope_proposals := scope_proposals s1 @ [p]\<rparr>"
    and a: "approve_scope_version job (svr_id v) pid COMPANY_MANAGER None now s3 = Inr (res, s4)"
    and s': "s' = supersede basis (sp_id p) now s4"
    by (rule send_cases[OF sd])
  note t1 = create_version_tables[OF c] and t4 = approve_tables[OF a]
  note c1 = create_version_sound[OF review_invD(1)[OF inv] c]
  have "scope_frame s1 s3" by (simp add: scope_frame_def s3)
  note c3 = scope_frame_sound[OF conjunct1[OF c1] this]
  note c4 = approve_sound[OF conjunct1[OF c3] a]
  have ev: "scope_evolve s s4" using c1 c3 c4 scope_evolve_trans by blast
  have drawn: "drawn s3 \<le> drawn s4" "rng s4 = rng s1" using scope_evolveD(1,2)[OF conjunct2[OF c4]] s3 by simp_all
  obtain w where w: "row sv_id (svr_id v) (scope_versions s1) = Some w" "sv_job_id w = job"
      "sv_parent_version_id w = Some (spc_source_scope_version_id cmd)"
  proof (rule create_version_cases[OF c])
    fix cc seq x
    assume x: "x = new_scope_version (rng s (drawn s)) job (Some (spc_source_scope_version_id cmd)) seq
        (normalize_scope_content cc) (content_hash_of (normalize_scope_content cc) s) None (Some pid) now"
      and s1: "s1 = add_audit_event job AU_SCOPE_VERSION_CREATED (Some pid) (version_payload x) now
        (s\<lparr>drawn := Suc (drawn s), scope_versions := scope_versions s @ [x]\<rparr>)"
      and v: "v = scope_version_response x s1"
    have mem: "x \<in> set (scope_versions s1)" by (simp add: s1)
    show thesis
      by (rule that[of x])
        (use row_of_mem[OF scope_invD(2)[OF conjunct1[OF c1]] mem] x in
          \<open>simp_all add: v scope_version_response_def new_scope_version_def\<close>)
  qed
  have w3: "row sv_id (svr_id v) (scope_versions s3) = Some w" using w(1) by (simp add: s3)
  note ar = approve_row[OF a w3]
  have added: "review_inv s4 \<and> review_evolve s s4"
  proof (rule proposal_added[OF inv conjunct1[OF c4] ev])
    show "scope_proposals s4 = scope_proposals s @ [p]" "revision_requests s4 = revision_requests s"
      using t1 t4 by (simp_all add: s3)
    show "sp_id p \<in> drawn_ids s4" using drawn by (auto simp: p(1) new_proposal_def drawn_ids_def s3)
    show "sp_id p \<notin> drawn_ids s"
      using uuid4_fresh[OF scope_invD(1)[OF conjunct1[OF c1]]] scope_evolveD(6)[OF conjunct2[OF c1]]
      by (auto simp: p(1) new_proposal_def)
    show "scope_proposal_check p" using p(2) .
    show "sp_execution_plan p \<noteq> None" "sp_status p = SP_CUSTOMER_REVIEW" by (simp_all add: p(1) new_proposal_def)
    show "\<forall>q \<in> set (scope_proposals s). sp_source_scope_version_id q \<noteq> sp_source_scope_version_id p \<and>
         sp_result_scope_version_id q \<noteq> sp_result_scope_version_id p" using uniq t1 by simp
    show "row sv_id (sp_result_scope_version_id p) (scope_versions s4) = Some (approved_version w COMPANY_MANAGER now s3)"
      using ar by (simp add: p(1) new_proposal_def)
    show "sv_parent_version_id (approved_version w COMPANY_MANAGER now s3) = Some (sp_source_scope_version_id p)"
      "sv_job_id (approved_version w COMPANY_MANAGER now s3) = sp_job_id p"
      using w by (simp_all add: p(1) new_proposal_def)
    show "COMPANY_MANAGER \<in> set (approval_roles_of (sv_id (approved_version w COMPANY_MANAGER now s3)) s4)"
      using ar row_key[OF w(1)] by (auto simp: approval_roles_of_def new_approval_def)
  qed
  show ?thesis
  proof (cases basis)
    case None
    then show ?thesis using added by (simp add: s' supersede_def)
  next
    case (Some qr)
    obtain q r where qr: "basis = Some (q, r)" using Some by (cases qr) auto
    note b = basis[OF qr]
    have "row sp_id (sp_id q) (scope_proposals s4) = Some q" "revision_for_proposal (sp_id q) s4 = Some r"
      using b t1 t4 by (simp_all add: s3 revision_for_proposal_def)
    then show ?thesis
      using superseded_sound[of s4 q r "sp_id p" now] added b review_evolve_trans by (auto simp: s' qr)
  qed
qed

lemma basis_cases:
  assumes "review_inv s" "proposal_basis job source s = Inr (kind, basis)"
  shows "sv_locked_at source = None" "\<not> has_child (sv_id source) s"
    "basis = Some (q, r) \<Longrightarrow> row sp_id (sp_id q) (scope_proposals s) = Some q \<and>
      sp_status q = SP_REVISION_REQUESTED \<and> revision_for_proposal (sp_id q) s = Some r \<and> rr_resolved_at r = None"
    "proposal_for_result job (sv_id source) s = map_option fst basis"
  using assms(2) proposal_for_result_row(1)[OF assms(1), of job "sv_id source"]
  by (auto simp: proposal_basis_def split: if_splits option.splits)

lemma create_proposal_cases:
  assumes "create_scope_proposal job pid cmd now s = Inr (resp, s')"
  obtains (replay) p v where "find (\<lambda>p. sp_source_scope_version_id p = spc_source_scope_version_id cmd)
       (scope_proposals s) = Some p"
      "row sv_id (sp_result_scope_version_id p) (scope_versions s) = Some v"
      "proposal_matches_replay p v pid cmd" "s' = s" "proposal_response p = Inr resp"
  | (fresh) source kind basis p where "version_of_job job (spc_source_scope_version_id cmd) s = Some source"
      "proposal_basis job source s = Inr (kind, basis)"
      "find (\<lambda>p. sp_source_scope_version_id p = spc_source_scope_version_id cmd) (scope_proposals s) = None"
      "send_proposal job pid cmd kind basis now s = Inr (p, s')" "proposal_response p = Inr resp"
proof -
  obtain source where v: "version_of_job job (spc_source_scope_version_id cmd) s = Some source"
    using assms by (auto simp: create_scope_proposal_def split: if_splits option.splits)
  have id: "sv_id source = spc_source_scope_version_id cmd"
    using v row_key by (fastforce simp: version_of_job_def split: option.splits if_splits)
  show thesis
  proof (cases "find (\<lambda>p. sp_source_scope_version_id p = spc_source_scope_version_id cmd) (scope_proposals s)")
    case (Some p)
    then show ?thesis
      using assms v id replay[OF Some] by (auto simp: create_scope_proposal_def bindR_Inr split: if_splits option.splits)
  next
    case None
    then show ?thesis
      using assms v id fresh[OF v _ None]
      by (auto simp: create_scope_proposal_def bindR_Inr split: if_splits option.splits)
  qed
qed

lemma create_proposal_sound:
  assumes "review_inv s" "create_scope_proposal job pid cmd now s = Inr (resp, s')"
  shows "review_inv s' \<and> review_evolve s s'"
  using assms(2)
proof (cases rule: create_proposal_cases)
  case (replay p v)
  then show ?thesis using assms(1) by (simp add: review_evolve_def)
next
  case (fresh source kind basis p)
  show ?thesis by (rule send_sound[OF assms(1) fresh(4)]) (rule basis_cases(3)[OF assms(1) fresh(2)])
qed

section \<open>Everything that can happen to a proposal\<close>

text \<open>The three commands of this component, and any scope operation, among them the direct
  approval of a version and the decision of a change request.\<close>

inductive review_op :: "db \<Rightarrow> db \<Rightarrow> bool" where
  rop_send: "create_scope_proposal job p cmd now s = Inr (presp, s') \<Longrightarrow> review_op s s'"
| rop_revise: "request_scope_revision job p vid reason now s = Inr (rresp, s') \<Longrightarrow> review_op s s'"
| rop_confirm: "confirm_scope_proposal job p vid trace now s = Inr (cresp, s') \<Longrightarrow> review_op s s'"
| rop_scope: "scope_op s s' \<Longrightarrow> scope_proposals s' = scope_proposals s \<Longrightarrow>
     revision_requests s' = revision_requests s \<Longrightarrow> review_op s s'"

lemma review_op_sound:
  assumes "review_op s s'" "review_inv s"
  shows "review_inv s' \<and> review_evolve s s'"
  using assms
proof (cases rule: review_op.cases)
  case rop_scope
  then show ?thesis using scope_op_sound[OF _ review_invD(1)[OF assms(2)]] review_scope_step[OF assms(2)] by blast
qed (use assms(2) in \<open>auto dest: create_proposal_sound request_revision_sound confirm_sound\<close>)

lemma review_ops_sound: "review_op\<^sup>*\<^sup>* s s' \<Longrightarrow> review_inv s \<Longrightarrow> review_inv s' \<and> review_evolve s s'"
proof (induction rule: rtranclp_induct)
  case base
  then show ?case by (simp add: review_evolve_def)
next
  case (step y z)
  then show ?case using review_op_sound review_evolve_trans by blast
qed

section \<open>Properties\<close>

text \<open>Property C7: a quoted proposal is a fixed offer with a one-way life. Whatever commands and
  scope operations follow, its price, plan and versions never change; a confirmed or a
  superseded proposal never changes at all; only a proposal the customer was still reviewing
  is ever confirmed; and the version a confirmed proposal quotes is locked and carries the
  company's approval.\<close>

theorem proposal_lifecycle:
  assumes "review_inv s" "review_op\<^sup>*\<^sup>* s s'" "row sp_id i (scope_proposals s) = Some p"
  shows "\<exists>p'. row sp_id i (scope_proposals s') = Some p' \<and> quote_from_proposal p' = quote_from_proposal p \<and>
    sp_execution_plan p' = sp_execution_plan p \<and> sp_result_scope_version_id p' = sp_result_scope_version_id p \<and>
    (sp_status p \<in> {SP_CONFIRMED, SP_SUPERSEDED} \<longrightarrow> p' = p) \<and>
    (sp_status p' = SP_CONFIRMED \<longrightarrow> sp_status p \<in> {SP_CUSTOMER_REVIEW, SP_CONFIRMED} \<and>
       (\<exists>v. row sv_id (sp_result_scope_version_id p) (scope_versions s') = Some v \<and> sv_locked_at v \<noteq> None \<and>
          COMPANY_MANAGER \<in> set (approval_roles_of (sv_id v) s')))"
proof -
  note a = review_ops_sound[OF assms(2,1)]
  obtain p' where p': "row sp_id i (scope_proposals s') = Some p'" "proposal_step p p'"
    using a assms(3) by (auto simp: review_evolve_def)
  have ok: "proposal_ok s' p'" using review_invD(8)[OF conjunct1[OF a] row_mem[OF p'(1)]] .
  have "sp_status p \<in> {SP_CONFIRMED, SP_SUPERSEDED} \<longrightarrow> p' = p"
    using proposal_step_final[OF p'(2)] by simp
  moreover have "sp_status p' = SP_CONFIRMED \<longrightarrow> sp_status p \<in> {SP_CUSTOMER_REVIEW, SP_CONFIRMED}"
    using proposal_step_confirmed[OF p'(2)] by simp
  moreover have "sp_status p' = SP_CONFIRMED \<longrightarrow> (\<exists>v. row sv_id (sp_result_scope_version_id p) (scope_versions s') = Some v \<and>
      sv_locked_at v \<noteq> None \<and> COMPANY_MANAGER \<in> set (approval_roles_of (sv_id v) s'))"
    using ok proposal_step_id[OF p'(2)] unfolding proposal_ok_def by auto
  ultimately show ?thesis
    using p'(1) proposal_step_id[OF p'(2)] by (intro exI[of _ p']) simp
qed

lemma customer_approval_mono:
  assumes "scope_inv s'" "set (scope_approvals s) \<subseteq> set (scope_approvals s')" "customer_approval i s = Some a"
  shows "customer_approval i s' = Some a"
proof -
  have a: "a \<in> set (scope_approvals s')" "sa_scope_version_id a = i" "sa_role a = CUSTOMER"
    using find_mem[OF assms(3)[unfolded customer_approval_def]] assms(2) by auto
  show ?thesis
    unfolding customer_approval_def
    by (rule find_unique[OF a(1)]) (use a distinct_map_eq[OF scope_invD(4)[OF assms(1)]] in auto)
qed

lemma proposal_for_result_evolve:
  assumes "review_inv s" "review_inv s'" "review_evolve s s'" "proposal_for_result job vid s = Some p"
  obtains p' where "proposal_for_result job vid s' = Some p'" "proposal_step p p'" "p' \<in> set (scope_proposals s')"
proof -
  note r = proposal_for_result_row[OF assms(1,4)]
  obtain p' where p': "row sp_id (sp_id p) (scope_proposals s') = Some p'" "proposal_step p p'"
    using assms(3) r(1) by (auto simp: review_evolve_def)
  note f = proposal_step_id[OF p'(2)]
  have "proposal_for_result job vid s' = Some p'"
    unfolding proposal_for_result_def
  proof (rule find_unique[OF row_mem[OF p'(1)]])
    show "sp_job_id p' = job \<and> sp_result_scope_version_id p' = vid" using f r(2,3) by simp
    fix y assume y: "y \<in> set (scope_proposals s')" "sp_job_id y = job \<and> sp_result_scope_version_id y = vid"
    show "y = p'"
      by (rule distinct_map_eq[OF review_invD(4)[OF assms(2)] y(1) row_mem[OF p'(1)]]) (use y(2) f r(3) in simp)
  qed
  then show thesis by (rule that[OF _ p'(2) row_mem[OF p'(1)]])
qed

text \<open>Property C8: confirming is final and idempotent. A confirmation locks the quoted version
  and marks the proposal confirmed at the moment of the customer's approval; repeated at any
  later time, by any participant the route lets through and whatever happened in between, it
  returns the same answer and changes nothing.\<close>

theorem confirmation_is_final:
  assumes inv: "review_inv s" and cf: "confirm_scope_proposal job pid vid trace now s = Inr (resp, s1)"
    and ops: "review_op\<^sup>*\<^sup>* s1 s2"
  shows "(\<exists>v. row sv_id vid (scope_versions s1) = Some v \<and> sv_locked_at v \<noteq> None) \<and>
    (\<exists>p. proposal_for_result job vid s1 = Some p \<and> sp_status p = SP_CONFIRMED \<and> sp_id p = scr_proposal_id resp) \<and>
    confirm_scope_proposal job pid' vid trace' later s2 = Inr (resp, s2)"
proof -
  have s1: "review_inv s1" using confirm_sound[OF inv cf] by simp
  have done1: "\<exists>p a. proposal_for_result job vid s1 = Some p \<and> sp_status p = SP_CONFIRMED \<and>
     customer_approval vid s1 = Some a \<and>
     resp = \<lparr>scr_proposal_id = sp_id p, scr_scope_version_id = vid, scr_confirmed_at = sa_approved_at a\<rparr>"
    using cf
  proof (cases rule: confirm_cases)
    case (replay p a)
    then show ?thesis by blast
  next
    case (fresh p res t)
    note row = proposal_for_result_row[OF inv fresh(1)]
    let ?p = "p\<lparr>sp_status := SP_CONFIRMED, sp_confirmed_at := Some (sa_approved_at (sar_approval res))\<rparr>"
    have ps: "scope_proposals s1 = put_row sp_id ?p (scope_proposals s)"
      using approve_tables[OF fresh(3)] by (simp add: fresh(5) put_proposal_def)
    obtain v where v: "row sv_id vid (scope_versions s) = Some v"
      using fresh(3) by (auto simp: approve_scope_version_def version_of_job_def split: if_splits option.splits)
    note ar = approve_row[OF fresh(3) v]
    have "CUSTOMER \<notin> set (approval_roles_of vid s)" using ar row_key[OF v] by (simp add: approvable_def)
    then have "find (\<lambda>a. sa_scope_version_id a = vid \<and> sa_role a = CUSTOMER) (scope_approvals s) = None"
      by (force simp: find_None_iff approval_roles_of_def)
    then have ca: "customer_approval vid s1 = Some (new_approval (rng s (drawn s)) vid pid CUSTOMER now)"
      using ar by (simp add: customer_approval_def fresh(5) put_proposal_def find_append new_approval_def)
    obtain p' where p': "proposal_for_result job vid s1 = Some p'" "p' \<in> set (scope_proposals s1)" "proposal_step p p'"
      using proposal_for_result_evolve[OF inv s1 _ fresh(1)] confirm_sound[OF inv cf] by blast
    have "p' = ?p"
      using row_of_mem[OF review_invD(2)[OF s1] p'(2)] proposal_step_id[OF p'(3)] row(1)
      by (simp add: ps row_put_row)
    then show ?thesis
      using p'(1) ca approve_tables[OF fresh(3)] by (simp add: fresh(4) new_approval_def)
  qed
  then obtain p a where p: "proposal_for_result job vid s1 = Some p" "sp_status p = SP_CONFIRMED"
      "customer_approval vid s1 = Some a"
      "resp = \<lparr>scr_proposal_id = sp_id p, scr_scope_version_id = vid, scr_confirmed_at = sa_approved_at a\<rparr>" by blast
  note s2 = review_ops_sound[OF ops s1]
  obtain p2 where p2: "proposal_for_result job vid s2 = Some p2" "proposal_step p p2"
    using proposal_for_result_evolve[OF s1 _ _ p(1)] s2 by blast
  have "p2 = p" using proposal_step_final[OF p2(2)] p(2) by simp
  moreover have "customer_approval vid s2 = Some a"
    using customer_approval_mono[OF review_invD(1) _ p(3)] s2 scope_evolveD(5) by (auto simp: review_evolve_def)
  ultimately have "confirm_scope_proposal job pid' vid trace' later s2 = Inr (resp, s2)"
    using p2(1) p by (simp add: confirm_scope_proposal_def)
  moreover have "proposal_ok s1 p" using review_invD(8)[OF s1 row_mem[OF proposal_for_result_row(1)[OF s1 p(1)]]] .
  ultimately show ?thesis using p proposal_for_result_row[OF s1 p(1)] by (auto simp: proposal_ok_def)
qed

text \<open>An open proposal whose version is locked already stays open.\<close>

lemma locked_proposal_stays_open:
  assumes op: "review_op s s'" and inv: "review_inv s" and r: "row sp_id i (scope_proposals s) = Some p"
    and st: "sp_status p \<in> {SP_CUSTOMER_REVIEW, SP_REVISION_REQUESTED}"
    and v: "row sv_id (sp_result_scope_version_id p) (scope_versions s) = Some v" "sv_locked_at v \<noteq> None"
  shows "\<exists>p'. row sp_id i (scope_proposals s') = Some p' \<and> sp_status p' \<in> {SP_CUSTOMER_REVIEW, SP_REVISION_REQUESTED}"
  using op
proof (cases rule: review_op.cases)
  case (rop_send job pid cmd now resp)
  from rop_send show ?thesis
  proof (cases rule: create_proposal_cases)
    case (replay q w)
    then show ?thesis using r st by auto
  next
    case (fresh source kind basis q)
    obtain w s1 s3 res s4 where c: "create_scope_version job (Some pid) (Some (spc_source_scope_version_id cmd))
         (normalize_scope_content (spc_content cmd)) None False now s = Inr (w, s1)"
      and s3: "s3 = s1\<lparr>drawn := Suc (drawn s1), scope_proposals := scope_proposals s1 @ [q]\<rparr>"
      and a: "approve_scope_version job (svr_id w) pid COMPANY_MANAGER None now s3 = Inr (res, s4)"
      and s': "s' = supersede basis (sp_id q) now s4"
      by (rule send_cases[OF fresh(4)])
    have r4: "row sp_id i (scope_proposals s4) = Some p"
      using r create_version_tables[OF c] approve_tables[OF a] by (simp add: s3)
    have other: "i \<noteq> sp_id q0" if b: "basis = Some (q0, rq)" for q0 rq
    proof
      assume i: "i = sp_id q0"
      note b3 = basis_cases(3)[OF inv fresh(2) b] and b4 = basis_cases(4)[OF inv fresh(2)]
      have "q0 = p" using b3 r i by simp
      then have "sp_result_scope_version_id p = sv_id source"
        using b4 b proposal_for_result_row(3)[OF inv] by fastforce
      moreover have "row sv_id (sv_id source) (scope_versions s) = Some source"
        using fresh(1) row_key by (fastforce simp: version_of_job_def split: option.splits if_splits)
      ultimately show False using v basis_cases(1)[OF inv fresh(2)] by simp
    qed
    show ?thesis
    proof (cases basis)
      case None
      then show ?thesis using r4 st by (auto simp: s' supersede_def)
    next
      case (Some b)
      then show ?thesis using r4 st other[of "fst b" "snd b"]
        by (cases b) (auto simp: s' supersede_def put_revision_def put_proposal_def row_put_row)
    qed
  qed
next
  case (rop_revise job pid vid reason now resp)
  from rop_revise show ?thesis
  proof (cases rule: request_revision_cases)
    case (replay q rq)
    then show ?thesis using r st by auto
  next
    case (fresh q rq)
    then show ?thesis using r st by (auto simp: row_put_row)
  qed
next
  case (rop_confirm job pid vid trace now resp)
  from rop_confirm show ?thesis
  proof (cases rule: confirm_cases)
    case (replay q a)
    then show ?thesis using r st by auto
  next
    case (fresh q res s1)
    note rq = proposal_for_result_row[OF inv fresh(1)]
    have "i \<noteq> sp_id q"
    proof
      assume "i = sp_id q"
      then have "q = p" using rq(1) r by simp
      then have "row sv_id vid (scope_versions s) = Some v" using v rq(3) by simp
      then show False using approve_row[OF fresh(3)] v(2) by (auto simp: approvable_def)
    qed
    then show ?thesis using r st approve_tables[OF fresh(3)] by (auto simp: fresh(5) put_proposal_def row_put_row)
  qed
next
  case rop_scope
  then show ?thesis using r st by auto
qed

lemma proposal_for_result_of_row:
  assumes "review_inv s" "row sp_id i (scope_proposals s) = Some p"
  shows "proposal_for_result (sp_job_id p) (sp_result_scope_version_id p) s = Some p"
  unfolding proposal_for_result_def
proof (rule find_unique[OF row_mem[OF assms(2)]])
  fix y assume y: "y \<in> set (scope_proposals s)"
    "sp_job_id y = sp_job_id p \<and> sp_result_scope_version_id y = sp_result_scope_version_id p"
  show "y = p" by (rule distinct_map_eq[OF review_invD(4)[OF assms(1)] y(1) row_mem[OF assms(2)]]) (use y(2) in simp)
qed simp

text \<open>Property C9: the generic approval endpoint strands a quoted proposal. When the customer
  approves the quoted version through the scope component instead of confirming the proposal,
  the version locks but the proposal is not told: from then on it can never become confirmed,
  and every confirmation is refused.\<close>

theorem direct_approval_strands_proposal:
  assumes inv: "review_inv s" and p: "proposal_for_result job vid s = Some p" "sp_status p = SP_CUSTOMER_REVIEW"
    and ap: "approve_scope_version job vid pid CUSTOMER trace now s = Inr (res, s1)" and ops: "review_op\<^sup>*\<^sup>* s1 s2"
  shows "svr_locked_at (sar_version res) = Some now \<and>
    (\<exists>p2. proposal_for_result job vid s2 = Some p2 \<and> sp_status p2 \<in> {SP_CUSTOMER_REVIEW, SP_REVISION_REQUESTED}) \<and>
    \<not> isOk (confirm_scope_proposal job pid' vid trace' later s2)"
proof -
  note t = approve_tables[OF ap] and r = proposal_for_result_row[OF inv p(1)]
  have op: "review_op s s1" by (rule rop_scope[OF sop_approve[OF ap]]) (use t in simp_all)
  note s1 = review_op_sound[OF op inv]
  obtain v where v: "row sv_id vid (scope_versions s) = Some v" "COMPANY_MANAGER \<in> set (approval_roles_of (sv_id v) s)"
    using review_invD(8)[OF inv row_mem[OF r(1)]] r(3) by (auto simp: proposal_ok_def)
  have av: "approved_version v CUSTOMER now s = v\<lparr>sv_locked_at := Some now\<rparr>"
    using customer_completes[OF review_invD(1)[OF inv] v(2)] by (simp add: approved_version_def)
  have lk: "svr_locked_at (sar_version res) = Some now"
    by (rule approve_cases[OF ap]) (use v(1) av in \<open>simp add: scope_version_response_def\<close>)
  let ?open = "\<lambda>y. review_inv y \<and> (\<exists>q. row sp_id (sp_id p) (scope_proposals y) = Some q \<and> sp_job_id q = job \<and>
     sp_result_scope_version_id q = vid \<and> sp_status q \<in> {SP_CUSTOMER_REVIEW, SP_REVISION_REQUESTED}) \<and>
     (\<exists>w. row sv_id vid (scope_versions y) = Some w \<and> sv_locked_at w \<noteq> None)"
  have "?open s2"
    using ops
  proof (induction rule: rtranclp_induct)
    case base
    then show ?case using s1 r p(2) t approve_row[OF ap v(1)] av by simp
  next
    case (step y z)
    then obtain q w where q: "row sp_id (sp_id p) (scope_proposals y) = Some q" "sp_job_id q = job"
        "sp_result_scope_version_id q = vid" "sp_status q \<in> {SP_CUSTOMER_REVIEW, SP_REVISION_REQUESTED}"
      and w: "row sv_id vid (scope_versions y) = Some w" "sv_locked_at w \<noteq> None" and inv_y: "review_inv y" by blast
    note z = review_op_sound[OF step(2) inv_y]
    obtain q' where q': "row sp_id (sp_id p) (scope_proposals z) = Some q'"
        "sp_status q' \<in> {SP_CUSTOMER_REVIEW, SP_REVISION_REQUESTED}"
      using locked_proposal_stays_open[OF step(2) inv_y q(1,4)] q(3) w by auto
    have "proposal_step q q'" using z q(1) q'(1) by (fastforce simp: review_evolve_def)
    then have "sp_job_id q' = job" "sp_result_scope_version_id q' = vid"
      using q(2,3) proposal_step_id by metis+
    moreover obtain w' where "row sv_id vid (scope_versions z) = Some w'" "version_step w w'"
      using z scope_evolveD(4)[OF _ w(1), of z] unfolding review_evolve_def by blast
    ultimately show ?case using z q' w(2) by (auto simp: version_step_def)
  qed
  then obtain q w where inv2: "review_inv s2" and q: "row sp_id (sp_id p) (scope_proposals s2) = Some q" "sp_job_id q = job"
        "sp_result_scope_version_id q = vid" "sp_status q \<in> {SP_CUSTOMER_REVIEW, SP_REVISION_REQUESTED}"
      and w: "row sv_id vid (scope_versions s2) = Some w" "sv_locked_at w \<noteq> None" by blast
  have pr: "proposal_for_result job vid s2 = Some q" using proposal_for_result_of_row[OF inv2 q(1)] q(2,3) by simp
  have "\<not> isOk (confirm_scope_proposal job pid' vid trace' later s2)"
  proof
    assume "isOk (confirm_scope_proposal job pid' vid trace' later s2)"
    then obtain resp s3 where "confirm_scope_proposal job pid' vid trace' later s2 = Inr (resp, s3)" by (auto simp: isOk_iff)
    then show False
    proof (cases rule: confirm_cases)
      case (replay q' a)
      then show ?thesis using pr q(4) by auto
    next
      case (fresh q' res' s4)
      then show ?thesis using approve_row[OF fresh(3) w(1)] w(2) by (simp add: approvable_def)
    qed
  qed
  then show ?thesis using lk pr q(4) by blast
qed

section \<open>Confirmation history\<close>

text \<open>The agreement a version stands under, as a reader would define it: its own proposal, or
  else the agreement of its parent.\<close>

fun nearest_agreement :: "nat \<Rightarrow> uuid \<Rightarrow> uuid \<Rightarrow> db \<Rightarrow> ScopeProposal option" where
  "nearest_agreement 0 job_id i s = None"
| "nearest_agreement (Suc n) job_id i s = (case proposal_for_result job_id i s of Some p \<Rightarrow> Some p
     | None \<Rightarrow> (case row sv_id i (scope_versions s) of None \<Rightarrow> None
        | Some v \<Rightarrow> (case sv_parent_version_id v of None \<Rightarrow> None | Some q \<Rightarrow> nearest_agreement n job_id q s)))"

definition agreement_of :: "uuid \<Rightarrow> ScopeVersion \<Rightarrow> db \<Rightarrow> ScopeProposal option" where
  "agreement_of job_id v s = nearest_agreement (nat (sv_sequence_number v)) job_id (sv_id v) s"

lemma agreement_step:
  assumes inv: "scope_inv s" and v: "v \<in> set (scope_versions s)"
  shows "agreement_of job v s = (case proposal_for_result job (sv_id v) s of Some p \<Rightarrow> Some p
     | None \<Rightarrow> (case sv_parent_version_id v of None \<Rightarrow> None
        | Some q \<Rightarrow> (case row sv_id q (scope_versions s) of None \<Rightarrow> None | Some w \<Rightarrow> agreement_of job w s)))"
proof -
  have ok: "scope_version_check v" "parent_ok s v" using version_okD[OF scope_invD(5)[OF inv v]] by simp_all
  then have pos: "0 < sv_sequence_number v" by (simp add: scope_version_check_def)
  let ?n = "nat (sv_sequence_number v - 1)"
  have n: "nat (sv_sequence_number v) = Suc ?n" using pos by simp
  have r: "row sv_id (sv_id v) (scope_versions s) = Some v" using row_of_mem[OF scope_invD(2)[OF inv] v] .
  have par: "nearest_agreement ?n job q s = (case row sv_id q (scope_versions s) of None \<Rightarrow> None
      | Some w \<Rightarrow> agreement_of job w s)" if q: "sv_parent_version_id v = Some q" for q
  proof -
    obtain w where w: "row sv_id q (scope_versions s) = Some w" "sv_sequence_number v = sv_sequence_number w + 1"
      using ok(2) q by (auto simp: parent_ok_def)
    then show ?thesis using row_key[OF w(1)] by (simp add: agreement_of_def)
  qed
  show ?thesis
    unfolding agreement_of_def[of job v] n nearest_agreement.simps r option.case
    by (cases "proposal_for_result job (sv_id v) s"; cases "sv_parent_version_id v") (simp_all add: par)
qed

lemma history_entries_agree:
  assumes inv: "scope_inv s" and srt: "sorted (map (\<lambda>v. (sv_sequence_number v, sv_id v)) (pre @ vs))"
    and all: "set (pre @ vs) = {v \<in> set (scope_versions s). sv_job_id v = job}"
    and ag: "\<And>v. v \<in> set pre \<Longrightarrow> ag (sv_id v) = agreement_of job v s"
  shows "history_entries job s ag vs = map (\<lambda>v. history_entry job s v (agreement_of job v s)) vs"
  using srt all ag
proof (induction vs arbitrary: pre ag)
  case Nil
  then show ?case by simp
next
  case (Cons v vs)
  have v: "v \<in> set (scope_versions s)" "sv_job_id v = job" using Cons.prems(2) by auto
  have par: "ag q = agreement_of job w s" if "sv_parent_version_id v = Some q" "row sv_id q (scope_versions s) = Some w" for q w
  proof -
    have w: "sv_job_id w = job" "sv_sequence_number v = sv_sequence_number w + 1"
      using version_okD(4)[OF scope_invD(5)[OF inv v(1)]] that v(2) by (auto simp: parent_ok_def)
    then have "w \<in> set (pre @ v # vs)" using Cons.prems(2) row_mem[OF that(2)] by auto
    moreover have "\<forall>x \<in> set vs. (sv_sequence_number v, sv_id v) \<le> (sv_sequence_number x, sv_id x)"
      using Cons.prems(1) by (simp add: sorted_append)
    then have "w \<noteq> v" "w \<notin> set vs" using w(2) by (auto simp: less_eq_prod_def)
    ultimately have "w \<in> set pre" by simp
    then show ?thesis using Cons.prems(3) row_key[OF that(2)] by metis
  qed
  have parent: "\<exists>w. row sv_id q (scope_versions s) = Some w" if "sv_parent_version_id v = Some q" for q
    using version_okD(4)[OF scope_invD(5)[OF inv v(1)]] that by (auto simp: parent_ok_def)
  have now: "(case proposal_for_result job (sv_id v) s of Some p \<Rightarrow> Some p
       | None \<Rightarrow> (case sv_parent_version_id v of None \<Rightarrow> None | Some p \<Rightarrow> ag p)) = agreement_of job v s"
    unfolding agreement_step[OF inv v(1)] using par parent by (fastforce split: option.splits)
  have "history_entries job s (ag(sv_id v := agreement_of job v s)) vs =
      map (\<lambda>v. history_entry job s v (agreement_of job v s)) vs"
  proof (rule Cons.IH[of "pre @ [v]"])
    fix x assume x: "x \<in> set (pre @ [v])"
    have "x = v" if "sv_id x = sv_id v"
    proof -
      have "x \<in> set (pre @ v # vs)" using x by auto
      then have "x \<in> set (scope_versions s)" using Cons.prems(2) by blast
      then show ?thesis using distinct_map_eq[OF scope_invD(2)[OF inv] _ v(1)] that by simp
    qed
    then show "(ag(sv_id v := agreement_of job v s)) (sv_id x) = agreement_of job x s"
      using x Cons.prems(3) by auto
  qed (use Cons.prems(1,2) in auto)
  then show ?case by (simp add: now[symmetric] Let_def)
qed

text \<open>The confirmation history is complete and agrees with the reference reading.
  It lists every version of the job once, in order; the works included and excluded are those
  of the nearest ancestor's proposal; and a version is reported bilaterally confirmed exactly
  when it is locked.\<close>

theorem history_is_faithful:
  assumes "scope_inv s" "get_scope_confirmation_history job pid role s = Inr es"
  shows "\<exists>vs. mset vs = filter_mset (\<lambda>v. sv_job_id v = job) (mset (scope_versions s)) \<and>
    sorted (map sv_sequence_number vs) \<and> map he_scope_version_id es = map sv_id vs \<and>
    map he_included_works es = map (\<lambda>v. case agreement_of job v s of Some p \<Rightarrow> sp_included_works p | None \<Rightarrow> []) vs \<and>
    map he_exclusions es = map (\<lambda>v. case agreement_of job v s of Some p \<Rightarrow> sp_exclusions p | None \<Rightarrow> []) vs \<and>
    map he_bilaterally_confirmed es = map (\<lambda>e. he_locked_at e \<noteq> None) es"
proof -
  let ?key = "\<lambda>v. (sv_sequence_number v, sv_id v)"
  let ?vs = "sort_key ?key (filter (\<lambda>v. sv_job_id v = job) (scope_versions s))"
  have "es = history_entries job s Map.empty ?vs"
    using assms(2) by (simp add: get_scope_confirmation_history_def split: if_splits)
  also have "\<dots> = map (\<lambda>v. history_entry job s v (agreement_of job v s)) ?vs"
    by (rule history_entries_agree[OF assms(1), of "[]"]) auto
  finally have es: "es = map (\<lambda>v. history_entry job s v (agreement_of job v s)) ?vs" .
  have bil: "he_bilaterally_confirmed (history_entry job s v a) = (he_locked_at (history_entry job s v a) \<noteq> None)"
    if "v \<in> set (scope_versions s)" for v a
  proof -
    have "set (map sco_role (confirmations_of (sv_id v) s)) = set (approval_roles_of (sv_id v) s)"
      by (force simp: confirmations_of_def approval_roles_of_def)
    then show ?thesis
      using version_okD(5)[OF scope_invD(5)[OF assms(1) that]] approval_roles_sides[OF assms(1), of "sv_id v"]
      by (simp add: history_entry_def Let_def) blast
  qed
  have "sorted (map ?key ?vs)" by simp
  then have "sorted (map sv_sequence_number ?vs)"
    by (simp only: sorted_map) (erule sorted_wrt_mono_rel[rotated], auto simp: less_eq_prod_def)
  then show ?thesis
    by (intro exI[of _ ?vs]) (use bil in \<open>auto simp: es history_entry_def Let_def\<close>)
qed

section \<open>Sending the same proposal twice\<close>

lemma normalize_idem [simp]: "normalize_scope_content (normalize_scope_content c) = normalize_scope_content c"
  by (simp add: normalize_scope_content_def sorted_sort_key sort_key_id_if_sorted)

lemma snapshot_replay:
  assumes "with_location_condition_snapshot job (normalize_scope_content c) s = Inr c'"
  shows "normalize_scope_content c' = normalize_scope_content c \<or>
    (sc_schema_version c = 2 \<and> sc_location_conditions c = [] \<and>
     sc_items (normalize_scope_content c') = sc_items (normalize_scope_content c))"
proof -
  have v: "sc_schema_version (normalize_scope_content c) = sc_schema_version c"
    and l: "sc_location_conditions (normalize_scope_content c) = [] \<longleftrightarrow> sc_location_conditions c = []"
    by (simp_all add: normalize_scope_content_def) (metis length_0_conv length_sort)
  show ?thesis
  proof (cases "sc_schema_version c = 1 \<or> sc_location_conditions c \<noteq> []")
    case True
    then have "c' = normalize_scope_content c"
      using assms v l by (auto simp: with_location_condition_snapshot_def Let_def split: if_splits)
    then show ?thesis by simp
  next
    case False
    then have m: "mk_scope_content ((normalize_scope_content c)\<lparr>sc_location_conditions :=
        map location_snapshot (job_locations job s)\<rparr>) = Inr c'"
      using assms v l by (auto simp: with_location_condition_snapshot_def Let_def split: if_splits)
    then have c': "c' = (normalize_scope_content c)\<lparr>sc_location_conditions := map location_snapshot (job_locations job s)\<rparr>"
        and "scope_content_ok c'"
      by (auto simp: mk_scope_content_def split: if_splits)
    then have "sc_schema_version c = 2" using False v by (auto simp: scope_content_ok_def)
    then show ?thesis using False by (simp add: c' normalize_scope_content_def sorted_sort_key sort_key_id_if_sorted)
  qed
qed

lemma send_matches_replay:
  assumes inv: "review_inv s" and sd: "send_proposal job pid cmd kind basis now s = Inr (p, s')" and inv': "review_inv s'"
    and basis: "\<And>q r. basis = Some (q, r) \<Longrightarrow> row sp_id (sp_id q) (scope_proposals s) = Some q"
  obtains v where "p \<in> set (scope_proposals s')" "sp_job_id p = job"
    "sp_source_scope_version_id p = spc_source_scope_version_id cmd"
    "row sv_id (sp_result_scope_version_id p) (scope_versions s') = Some v" "proposal_matches_replay p v pid cmd"
proof -
  obtain w s1 s3 res s4 where c: "create_scope_version job (Some pid) (Some (spc_source_scope_version_id cmd))
       (normalize_scope_content (spc_content cmd)) None False now s = Inr (w, s1)"
    and p: "p = new_proposal (rng s1 (drawn s1)) job pid (svr_id w) kind cmd now"
    and s3: "s3 = s1\<lparr>drawn := Suc (drawn s1), scope_proposals := scope_proposals s1 @ [p]\<rparr>"
    and a: "approve_scope_version job (svr_id w) pid COMPANY_MANAGER None now s3 = Inr (res, s4)"
    and s': "s' = supersede basis (sp_id p) now s4"
    by (rule send_cases[OF sd])
  note c1 = create_version_sound[OF review_invD(1)[OF inv] c]
  obtain c' x where snap: "with_location_condition_snapshot job (normalize_scope_content (spc_content cmd)) s = Inr c'"
    and x: "x \<in> set (scope_versions s1)" "svr_id w = sv_id x" "sv_content x = normalize_scope_content c'"
  proof (rule create_version_cases[OF c])
    fix cc seq x
    assume "with_location_condition_snapshot job (normalize_scope_content (spc_content cmd)) s = Inr cc"
      and "x = new_scope_version (rng s (drawn s)) job (Some (spc_source_scope_version_id cmd)) seq
        (normalize_scope_content cc) (content_hash_of (normalize_scope_content cc) s) None (Some pid) now"
      and "s1 = add_audit_event job AU_SCOPE_VERSION_CREATED (Some pid) (version_payload x) now
        (s\<lparr>drawn := Suc (drawn s), scope_versions := scope_versions s @ [x]\<rparr>)" and "w = scope_version_response x s1"
    then show thesis
      by (intro that[of cc x]) (simp_all add: scope_version_response_def new_scope_version_def)
  qed
  have x3: "row sv_id (svr_id w) (scope_versions s3) = Some x"
    using row_of_mem[OF scope_invD(2)[OF conjunct1[OF c1]] x(1)] by (simp add: s3 x(2))
  have vs: "scope_versions s' = scope_versions s4"
    by (auto simp: s' supersede_def put_revision_def put_proposal_def split: option.splits)
  have r: "row sv_id (sp_result_scope_version_id p) (scope_versions s') =
      Some (approved_version x COMPANY_MANAGER now s3)"
    using approve_row[OF a x3] vs by (simp add: p new_proposal_def)
  have fresh: "sp_id p \<notin> drawn_ids s"
    using uuid4_fresh[OF scope_invD(1)[OF conjunct1[OF c1]]] scope_evolveD(6)[OF conjunct2[OF c1]]
    by (auto simp: p new_proposal_def)
  have old: "sp_id q \<noteq> sp_id p" if "basis = Some (q, r)" for q r
    using review_invD(8)[OF inv row_mem[OF basis[OF that]]] fresh by (auto simp: proposal_ok_def)
  have "p \<in> set (scope_proposals s4)" using approve_tables[OF a] by (simp add: s3)
  then have mem: "p \<in> set (scope_proposals s')"
    using old by (force simp: s' supersede_def put_revision_def put_proposal_def put_row_def split: option.splits)
  show thesis
    by (rule that[OF mem _ _ r])
      (use snapshot_replay[OF snap] x(3) in \<open>auto simp: p new_proposal_def proposal_matches_replay_def
         quote_from_proposal_def Let_def\<close>)
qed

lemma matches_replay_step:
  assumes "proposal_matches_replay p v pid cmd" "proposal_step p p'" "version_step v v'"
  shows "proposal_matches_replay p' v' pid cmd"
proof -
  have "sp_proposed_by_participant_id p' = sp_proposed_by_participant_id p" "sp_included_works p' = sp_included_works p"
    "sp_exclusions p' = sp_exclusions p" "sp_reason p' = sp_reason p"
    using assms(2) by (auto simp: proposal_step_def)
  then show ?thesis
    using assms(1) proposal_step_id[OF assms(2)] version_step_fields[OF assms(3)]
    by (simp add: proposal_matches_replay_def)
qed

lemma proposal_response_step:
  assumes "proposal_response p = Inr resp" "proposal_step p p'"
  shows "proposal_response p' = Inr (resp\<lparr>spr_status := sp_status p', spr_confirmed_at := sp_confirmed_at p'\<rparr>)"
proof -
  have "sp_id p' = sp_id p" "sp_kind p' = sp_kind p" "sp_included_works p' = sp_included_works p"
    "sp_exclusions p' = sp_exclusions p" "sp_reason p' = sp_reason p" "sp_sent_at p' = sp_sent_at p"
    using assms(2) by (auto simp: proposal_step_def)
  then show ?thesis
    using assms(1) proposal_step_id[OF assms(2)]
    by (auto simp: proposal_response_def split: option.splits if_splits)
qed

text \<open>Sending the same proposal again is safe. As long as the job is neither
  completed nor canceled, repeating the command at any later time finds the proposal it made,
  whatever the customer did with it since, and answers with the same terms and the current
  status, without a second version, approval or proposal.\<close>

theorem proposal_replay_returns_it:
  assumes inv: "review_inv s" and cr: "create_scope_proposal job pid cmd now s = Inr (resp, s1)"
    and ops: "review_op\<^sup>*\<^sup>* s1 s2"
    and live: "row mj_id job (move_jobs s2) = Some j" "mj_status j \<notin> {COMPLETED, CANCELED}"
  shows "\<exists>st t. create_scope_proposal job pid cmd later s2 =
    Inr (resp\<lparr>spr_status := st, spr_confirmed_at := t\<rparr>, s2)"
proof -
  note a1 = create_proposal_sound[OF inv cr]
  note a2 = review_ops_sound[OF ops conjunct1[OF a1]]
  obtain src where src: "version_of_job job (spc_source_scope_version_id cmd) s = Some src"
    using cr by (auto simp: create_scope_proposal_def split: if_splits option.splits)
  have src_row: "row sv_id (spc_source_scope_version_id cmd) (scope_versions s) = Some src" "sv_job_id src = job"
    using src by (auto simp: version_of_job_def split: option.splits if_splits)
  obtain p v where p: "p \<in> set (scope_proposals s1)" "sp_source_scope_version_id p = spc_source_scope_version_id cmd"
      "row sv_id (sp_result_scope_version_id p) (scope_versions s1) = Some v"
      "proposal_matches_replay p v pid cmd" "proposal_response p = Inr resp"
    using cr
  proof (cases rule: create_proposal_cases)
    case (replay p v)
    then show ?thesis using that[of p v] find_mem[OF replay(1)] by simp
  next
    case (fresh source kind basis p)
    show ?thesis
      by (rule send_matches_replay[OF inv fresh(4) conjunct1[OF a1]])
        (use basis_cases(3)[OF inv fresh(2)] that fresh(5) in auto)
  qed
  obtain p' where p': "row sp_id (sp_id p) (scope_proposals s2) = Some p'" "proposal_step p p'"
    using a2 row_of_mem[OF review_invD(2)[OF conjunct1[OF a1]] p(1)] unfolding review_evolve_def by blast
  obtain v' where v': "row sv_id (sp_result_scope_version_id p) (scope_versions s2) = Some v'" "version_step v v'"
    using a2 scope_evolveD(4)[OF _ p(3), of s2] unfolding review_evolve_def by blast
  note f = proposal_step_id[OF p'(2)]
  have ev: "scope_evolve s s2" using a1 a2 scope_evolve_trans unfolding review_evolve_def by blast
  obtain src' where s': "row sv_id (spc_source_scope_version_id cmd) (scope_versions s2) = Some src'" "version_step src src'"
    using scope_evolveD(4)[OF ev src_row(1)] by blast
  have vj: "version_of_job job (spc_source_scope_version_id cmd) s2 = Some src'"
    using s' src_row(2) version_step_fields[OF s'(2)] by (simp add: version_of_job_def)
  have find: "find (\<lambda>q. sp_source_scope_version_id q = sv_id src') (scope_proposals s2) = Some p'"
  proof (rule find_unique[OF row_mem[OF p'(1)]])
    show "sp_source_scope_version_id p' = sv_id src'" using f p(2) row_key[OF s'(1)] by simp
    fix y assume "y \<in> set (scope_proposals s2)" "sp_source_scope_version_id y = sv_id src'"
    then show "y = p'"
      using distinct_map_eq[OF review_invD(3)[OF conjunct1[OF a2]] _ row_mem[OF p'(1)]] f p(2) row_key[OF s'(1)] by simp
  qed
  have "create_scope_proposal job pid cmd later s2 =
      Inr (resp\<lparr>spr_status := sp_status p', spr_confirmed_at := sp_confirmed_at p'\<rparr>, s2)"
    using live vj find v'(1) f matches_replay_step[OF p(4) p'(2) v'(2)] proposal_response_step[OF p(5) p'(2)]
    by (simp add: create_scope_proposal_def)
  then show ?thesis by blast
qed

section \<open>A sample negotiation\<close>

lemma approve_returns:
  assumes "scope_inv s" "digests_ok s" "row sv_id vid (scope_versions s) = Some v" "approvable job v pid role s"
    and "\<forall>t. trace = Some t \<longrightarrow> t = [] \<or> trace_text t"
  shows "\<exists>res s'. approve_scope_version job vid pid role trace now s = Inr (res, s')"
proof -
  have "hash_text (sv_content_hash v)"
    using version_okD(3)[OF scope_invD(5)[OF assms(1) row_mem[OF assms(3)]]] assms(2)
    by (simp add: content_hash_of_def digests_ok_def)
  then obtain s3 where "approved_state job v pid role trace now s = Inr s3"
    using approved_state_returns assms(5) by blast
  then show ?thesis
    using assms(4) row_key[OF assms(3)] by (auto simp: approve_unfold[OF assms(3)] approvable_def Let_def)
qed

definition sample_quote :: QuoteSnapshot where
  "sample_quote = \<lparr>qs_base_amount_krw = 100, qs_adjustments = [\<lparr>qa_label = ''stairs'', qa_amount_krw = 20\<rparr>],
     qs_total_amount_krw = 120\<rparr>"

definition sample_plan :: ExecutionPlanSnapshot where
  "sample_plan = \<lparr>ep_vehicle_count = 1, ep_vehicle_description = ''truck'', ep_worker_count = 2,
     ep_estimated_duration_minutes = 60, ep_notes = None\<rparr>"

definition sample_command :: "uuid \<Rightarrow> ScopeProposalCreate" where
  "sample_command source = \<lparr>spc_source_scope_version_id = source, spc_content = sample_content ''a'' 6, spc_quote = sample_quote,
     spc_execution_plan = sample_plan, spc_included_works = [''packing''], spc_exclusions = [], spc_reason = ''offer''\<rparr>"

text \<open>Job 51 has a quoted version 61 on top of the customer's version 60; job 81 only has the
  customer's version 90.\<close>

definition sample_review :: db where
  "sample_review = (empty_db (\<lambda>n. n) (\<lambda>t. replicate 64 CHR ''a''))\<lparr>drawn := 100,
     move_jobs := [\<lparr>mj_id = 81, mj_title = ''m'', mj_status = ACTIVE, mj_scheduled_at = None, mj_created_at = 0,
       mj_updated_at = 0, mj_completed_at = None\<rparr>],
     participants := [sample_person 52 51 CUSTOMER, sample_person 53 51 COMPANY_MANAGER,
       sample_person 82 81 CUSTOMER, sample_person 83 81 COMPANY_MANAGER],
     locations := [\<lparr>loc_id = 5, loc_job_id = 81, loc_kind = ORIGIN, loc_label = ''home'', loc_detail_address = None,
       loc_conditions = default_conditions, loc_created_at = 0\<rparr>],
     room_zones := [\<lparr>rz_id = 6, rz_location_id = 5, rz_name = ''room'', rz_sort_order = 0, rz_created_at = 0\<rparr>],
     scope_versions := [sample_version 60 51 52 None,
       (sample_version 61 51 53 None)\<lparr>sv_parent_version_id := Some 60, sv_sequence_number := 2\<rparr>,
       sample_version 90 81 82 None],
     scope_approvals := [new_approval 20 61 53 COMPANY_MANAGER 7],
     scope_proposals := [new_proposal 70 51 53 61 INITIAL (sample_command 60) 7]\<rparr>"

lemmas sample_review_defs = sample_review_def sample_scope_defs new_proposal_def sample_command_def sample_quote_def sample_plan_def

lemma sample_review_scope: "scope_inv sample_review"
  by (auto simp: scope_inv_def fresh_supply_def version_ok_def approval_ok_def parent_ok_def scope_version_check_def
      content_hash_of_def approval_roles_of_def is_participant_def drawn_ids_def scope_approval_check_def sample_review_defs)

lemma sample_review_inv: "review_inv sample_review"
  using sample_review_scope
  by (simp add: review_inv_def proposal_ok_def scope_proposal_check_def revision_matches_def revision_for_proposal_def
      approval_roles_of_def sample_review_defs) (simp add: drawn_ids_def)

lemma sample_review_digests: "digests_ok sample_review"
  by (simp add: digests_ok_def hash_text_def is_lower_hex_def in_range_def sample_review_def empty_db_def list.pred_set)

lemma sample_review_proposal: "proposal_for_result 51 61 sample_review = Some (new_proposal 70 51 53 61 INITIAL (sample_command 60) 7)"
  by (simp add: proposal_for_result_def sample_review_defs)

lemma sample_review_approve:
  assumes "\<forall>t. trace = Some t \<longrightarrow> t = [] \<or> trace_text t"
  shows "\<exists>res s'. approve_scope_version 51 61 52 CUSTOMER trace 50 sample_review = Inr (res, s')"
  by (rule approve_returns[OF sample_review_scope sample_review_digests, of _
        "(sample_version 61 51 53 None)\<lparr>sv_parent_version_id := Some 60, sv_sequence_number := 2\<rparr>"])
    (use assms in \<open>simp_all add: approvable_def is_participant_def has_child_def approval_roles_of_def sample_review_defs\<close>)

lemma sample_confirms: "\<exists>resp s'. confirm_scope_proposal 51 52 61 (replicate 32 CHR ''a'') 50 sample_review = Inr (resp, s')"
proof -
  have t: "trace_text (replicate 32 CHR ''a'')"
    by (simp add: trace_text_def is_lower_hex_def in_range_def list.pred_set)
  then obtain res s' where a: "approve_scope_version 51 61 52 CUSTOMER (Some (replicate 32 CHR ''a'')) 50 sample_review = Inr (res, s')"
    using sample_review_approve by fastforce
  have st: "sp_status (new_proposal 70 51 53 61 INITIAL (sample_command 60) 7) = SP_CUSTOMER_REVIEW"
    by (simp add: new_proposal_def)
  show ?thesis unfolding confirm_scope_proposal_def sample_review_proposal by (simp add: st a Let_def)
qed

lemma proposal_lifecycle_witness:
  "\<exists>p' resp s'. confirm_scope_proposal 51 52 61 (replicate 32 CHR ''a'') 50 sample_review = Inr (resp, s') \<and>
     row sp_id 70 (scope_proposals s') = Some p' \<and> quote_from_proposal p' = sample_quote"
proof -
  obtain resp s' where c: "confirm_scope_proposal 51 52 61 (replicate 32 CHR ''a'') 50 sample_review = Inr (resp, s')"
    using sample_confirms by blast
  have r: "row sp_id 70 (scope_proposals sample_review) = Some (new_proposal 70 51 53 61 INITIAL (sample_command 60) 7)"
    by (simp add: sample_review_defs)
  from proposal_lifecycle[OF sample_review_inv r_into_rtranclp[of review_op, OF rop_confirm[OF c]] r] c show ?thesis
    by (auto simp: quote_from_proposal_def sample_review_defs)
qed

lemma confirmation_is_final_witness:
  "\<exists>resp s'. confirm_scope_proposal 51 52 61 (replicate 32 CHR ''a'') 50 sample_review = Inr (resp, s') \<and>
     confirm_scope_proposal 51 52 61 [] 99 s' = Inr (resp, s')"
proof -
  obtain resp s' where c: "confirm_scope_proposal 51 52 61 (replicate 32 CHR ''a'') 50 sample_review = Inr (resp, s')"
    using sample_confirms by blast
  from confirmation_is_final[OF sample_review_inv c rtranclp.rtrancl_refl, of 52 "[]" 99] c show ?thesis by blast
qed

lemma direct_approval_strands_proposal_witness:
  "\<exists>res s'. approve_scope_version 51 61 52 CUSTOMER None 50 sample_review = Inr (res, s') \<and>
     \<not> isOk (confirm_scope_proposal 51 52 61 [] 60 s')"
proof -
  obtain res s' where a: "approve_scope_version 51 61 52 CUSTOMER None 50 sample_review = Inr (res, s')"
    using sample_review_approve by fastforce
  have st: "sp_status (new_proposal 70 51 53 61 INITIAL (sample_command 60) 7) = SP_CUSTOMER_REVIEW"
    by (simp add: new_proposal_def)
  from direct_approval_strands_proposal[OF sample_review_inv sample_review_proposal st a rtranclp.rtrancl_refl, of 52 "[]" 60] a
  show ?thesis by blast
qed

lemma history_is_faithful_witness:
  "\<exists>es. get_scope_confirmation_history 81 82 CUSTOMER sample_review = Inr es \<and>
     map he_scope_version_id es = [90] \<and> map he_bilaterally_confirmed es = [False]"
proof -
  have g: "get_scope_confirmation_history 81 82 CUSTOMER sample_review = Inr [history_entry 81 sample_review (sample_version 90 81 82 None) None]"
    by (simp add: get_scope_confirmation_history_def is_participant_def proposal_for_result_def sample_review_defs)
  from history_is_faithful[OF sample_review_scope g] g show ?thesis
    by (auto simp: history_entry_def Let_def sample_review_defs)
qed

lemma sample_sends: "\<exists>resp s'. create_scope_proposal 81 83 (sample_command 90) 50 sample_review = Inr (resp, s') \<and>
    move_jobs s' = move_jobs sample_review"
  by (simp add: create_scope_proposal_def version_of_job_def proposal_basis_def has_child_def proposal_for_result_def
      is_participant_def send_proposal_def create_scope_version_def store_scope_version_def
      with_location_condition_snapshot_def validate_scope_zones_def zone_in_job_def next_sequence_number_def any_role_def
      insert_scope_version_def scope_version_check_def scope_version_clash_def normalize_scope_content_def uuid4_def
      content_hash_of_def insert_proposal_def scope_proposal_check_def scope_version_response_def
      approve_scope_version_def approval_roles_of_def REQUIRED_APPROVAL_ROLES_def insert_scope_approval_def
      scope_approval_check_def put_version_def supersede_def proposal_response_def quote_ok_def quote_from_proposal_def
      execution_plan_ok_def text_between_def optional_text_def MAX_AMOUNT_KRW_def add_audit_event_def Let_def sample_review_defs)

lemma proposal_replay_returns_it_witness:
  "\<exists>resp resp' s'. create_scope_proposal 81 83 (sample_command 90) 50 sample_review = Inr (resp, s') \<and>
     create_scope_proposal 81 83 (sample_command 90) 70 s' = Inr (resp', s') \<and>
     spr_proposal_id resp' = spr_proposal_id resp"
proof -
  obtain resp s' where c: "create_scope_proposal 81 83 (sample_command 90) 50 sample_review = Inr (resp, s')"
    and m: "move_jobs s' = move_jobs sample_review" using sample_sends by blast
  have j: "row mj_id 81 (move_jobs s') = Some (hd (move_jobs sample_review))"
    "mj_status (hd (move_jobs sample_review)) \<notin> {COMPLETED, CANCELED}"
    by (simp_all add: m sample_review_defs)
  from proposal_replay_returns_it[OF sample_review_inv c rtranclp.rtrancl_refl j, of 70] c show ?thesis by fastforce
qed

end
