(* ===== verification/FieldChangeProofs.thy ===== *)
theory FieldChangeProofs
  imports FieldChange ScopeReviewProofs
begin

text \<open>
  Lemmas about field changes: the invariant that ties change proposals to requests and prices,
  the stability of agreed prices, and the properties of the component.
\<close>

section \<open>Invariant\<close>

text \<open>Requests and details belong together, and a version is the result of at most one
  negotiation: one proposal or one change request.\<close>

definition request_ok :: "db \<Rightarrow> ChangeRequest \<Rightarrow> bool" where
  "request_ok s r = (cr_id r \<in> drawn_ids s \<and> (\<forall>v. cr_result_scope_version_id r = Some v \<longrightarrow>
     cr_status r = CR_APPROVED \<and> v \<in> sv_id ` set (scope_versions s) \<and>
     v \<notin> sp_result_scope_version_id ` set (scope_proposals s)))"

definition money_inv :: "db \<Rightarrow> bool" where
  "money_inv s = (distinct (map cr_id (change_requests s)) \<and> distinct (map pd_change_request_id (proposal_details s)) \<and>
     (\<forall>r \<in> set (change_requests s). request_ok s r) \<and>
     (\<forall>r \<in> set (change_requests s). \<forall>q \<in> set (change_requests s).
        cr_result_scope_version_id r = cr_result_scope_version_id q \<and> cr_result_scope_version_id r \<noteq> None \<longrightarrow> r = q) \<and>
     (\<forall>d \<in> set (proposal_details s). pd_change_request_id d \<in> cr_id ` set (change_requests s)))"

text \<open>The quote of a change starts at the total agreed for its base and adds up.\<close>

definition priced :: "db \<Rightarrow> ChangeProposalDetail \<Rightarrow> bool" where
  "priced s d = (pd_base_amount_krw d + sum_list (map qa_amount_krw (pd_adjustments d)) = pd_total_amount_krw d \<and>
     (\<exists>r. row cr_id (pd_change_request_id d) (change_requests s) = Some r \<and>
        effective_total_amount (cr_job_id r) (cr_base_scope_version_id r) s = Inr (pd_base_amount_krw d)))"

definition field_inv :: "db \<Rightarrow> bool" where
  "field_inv s = (review_inv s \<and> money_inv s \<and> (\<forall>d \<in> set (proposal_details s). priced s d))"

lemma money_invD:
  assumes "money_inv s"
  shows "distinct (map cr_id (change_requests s))" "distinct (map pd_change_request_id (proposal_details s))"
    "r \<in> set (change_requests s) \<Longrightarrow> request_ok s r"
    "r \<in> set (change_requests s) \<Longrightarrow> q \<in> set (change_requests s) \<Longrightarrow>
       cr_result_scope_version_id r = Some v \<Longrightarrow> cr_result_scope_version_id q = Some v \<Longrightarrow> r = q"
    "d \<in> set (proposal_details s) \<Longrightarrow> pd_change_request_id d \<in> cr_id ` set (change_requests s)"
proof -
  note m = assms[unfolded money_inv_def]
  show "distinct (map cr_id (change_requests s))" "distinct (map pd_change_request_id (proposal_details s))"
    "r \<in> set (change_requests s) \<Longrightarrow> request_ok s r"
    "d \<in> set (proposal_details s) \<Longrightarrow> pd_change_request_id d \<in> cr_id ` set (change_requests s)"
    using m by simp_all
  show "r \<in> set (change_requests s) \<Longrightarrow> q \<in> set (change_requests s) \<Longrightarrow>
       cr_result_scope_version_id r = Some v \<Longrightarrow> cr_result_scope_version_id q = Some v \<Longrightarrow> r = q"
    using m by fastforce
qed

lemma field_invD:
  assumes "field_inv s"
  shows "review_inv s" "money_inv s" "d \<in> set (proposal_details s) \<Longrightarrow> priced s d" "scope_inv s"
  using assms review_invD(1) by (simp_all add: field_inv_def)

text \<open>What a request keeps while it is discussed and decided.\<close>

definition request_step :: "ChangeRequest \<Rightarrow> ChangeRequest \<Rightarrow> bool" where
  "request_step r r' = (cr_id r' = cr_id r \<and> cr_job_id r' = cr_job_id r \<and>
     cr_base_scope_version_id r' = cr_base_scope_version_id r \<and>
     cr_requested_by_participant_id r' = cr_requested_by_participant_id r \<and>
     cr_description r' = cr_description r \<and> cr_proposed_content r' = cr_proposed_content r \<and>
     (decided r \<longrightarrow> r' = r))"

definition field_evolve :: "db \<Rightarrow> db \<Rightarrow> bool" where
  "field_evolve s s' = (review_evolve s s' \<and> set (proposal_details s) \<subseteq> set (proposal_details s') \<and>
     (\<forall>i r. row cr_id i (change_requests s) = Some r \<longrightarrow>
        (\<exists>r'. row cr_id i (change_requests s') = Some r' \<and> request_step r r')))"

lemma request_step_refl [simp]: "request_step r r"
  by (simp add: request_step_def)

lemma request_step_trans: "request_step a b \<Longrightarrow> request_step b c \<Longrightarrow> request_step a c"
  by (auto simp: request_step_def)

lemma field_evolve_trans:
  assumes "field_evolve a b" "field_evolve b c"
  shows "field_evolve a c"
proof -
  note f = assms[unfolded field_evolve_def]
  have "\<exists>r'. row cr_id i (change_requests c) = Some r' \<and> request_step r r'"
    if r: "row cr_id i (change_requests a) = Some r" for i r
  proof -
    obtain r1 where r1: "row cr_id i (change_requests b) = Some r1" "request_step r r1" using f(1) r by blast
    obtain r2 where "row cr_id i (change_requests c) = Some r2" "request_step r1 r2" using f(2) r1(1) by blast
    then show ?thesis using request_step_trans[OF r1(2)] by blast
  qed
  moreover have "review_evolve a c" using f review_evolve_trans by blast
  ultimately show ?thesis using f unfolding field_evolve_def by blast
qed

lemma field_evolve_refl [simp]: "field_evolve s s"
  by (simp add: field_evolve_def review_evolve_def)

section \<open>Agreed prices are stable\<close>

lemma initial_total_Some:
  assumes "initial_total job i s = Some n"
  obtains p where "p \<in> set (scope_proposals s)" "sp_job_id p = job" "sp_result_scope_version_id p = i"
    "sp_status p = SP_CONFIRMED" "sp_total_amount_krw p = n"
  using assms that by (auto simp: initial_total_def dest!: find_mem)

lemma changed_total_Some:
  assumes "changed_total job i s = Some n"
  obtains d r where "d \<in> set (proposal_details s)" "row cr_id (pd_change_request_id d) (change_requests s) = Some r"
    "cr_job_id r = job" "cr_result_scope_version_id r = Some i" "cr_status r = CR_APPROVED" "pd_total_amount_krw d = n"
  using assms that by (fastforce simp: changed_total_def dest!: find_mem split: option.splits)

lemma initial_totalI:
  assumes "review_inv s" "p \<in> set (scope_proposals s)" "sp_status p = SP_CONFIRMED"
  shows "initial_total (sp_job_id p) (sp_result_scope_version_id p) s = Some (sp_total_amount_krw p)"
proof -
  have "find (\<lambda>q. sp_job_id q = sp_job_id p \<and> sp_result_scope_version_id q = sp_result_scope_version_id p \<and>
      sp_status q = SP_CONFIRMED) (scope_proposals s) = Some p"
    by (rule find_unique[OF assms(2)]) (use assms distinct_map_eq[OF review_invD(4)[OF assms(1)]] in auto)
  then show ?thesis by (simp add: initial_total_def)
qed

lemma changed_totalI:
  assumes m: "money_inv s" and d: "d \<in> set (proposal_details s)"
    and r: "row cr_id (pd_change_request_id d) (change_requests s) = Some r" "cr_status r = CR_APPROVED"
      "cr_result_scope_version_id r = Some i"
  shows "effective_total_amount (cr_job_id r) i s = Inr (pd_total_amount_krw d)"
proof -
  have "find (\<lambda>d. case row cr_id (pd_change_request_id d) (change_requests s) of None \<Rightarrow> False
        | Some q \<Rightarrow> cr_job_id q = cr_job_id r \<and> cr_result_scope_version_id q = Some i \<and> cr_status q = CR_APPROVED)
       (proposal_details s) = Some d"
  proof (rule find_unique[OF d])
    fix e assume e: "e \<in> set (proposal_details s)" "case row cr_id (pd_change_request_id e) (change_requests s) of None \<Rightarrow> False
        | Some q \<Rightarrow> cr_job_id q = cr_job_id r \<and> cr_result_scope_version_id q = Some i \<and> cr_status q = CR_APPROVED"
    then obtain q where q: "row cr_id (pd_change_request_id e) (change_requests s) = Some q"
        "cr_result_scope_version_id q = Some i" by (auto split: option.splits)
    have "q = r" using money_invD(4)[OF m row_mem[OF q(1)] row_mem[OF r(1)] q(2) r(3)] .
    then have "pd_change_request_id e = pd_change_request_id d" using row_key[OF q(1)] row_key[OF r(1)] by simp
    then show "e = d" using distinct_map_eq[OF money_invD(2)[OF m] e(1) d] by simp
  qed (use r in simp)
  then have c: "changed_total (cr_job_id r) i s = Some (pd_total_amount_krw d)" by (simp add: changed_total_def)
  have "initial_total (cr_job_id r) i s = None"
  proof (rule ccontr)
    assume "initial_total (cr_job_id r) i s \<noteq> None"
    then obtain n where n: "initial_total (cr_job_id r) i s = Some n" by auto
    obtain p where "p \<in> set (scope_proposals s)" "sp_result_scope_version_id p = i"
      by (rule initial_total_Some[OF n])
    then show False using money_invD(3)[OF m row_mem[OF r(1)]] r(3) by (auto simp: request_ok_def)
  qed
  then show ?thesis using c by (simp add: effective_total_amount_def)
qed

lemma effective_stable:
  assumes inv: "review_inv s" "money_inv s" "review_inv s'" "money_inv s'" and ev: "field_evolve s s'"
    and n: "effective_total_amount job i s = Inr n"
  shows "effective_total_amount job i s' = Inr n"
proof (cases "initial_total job i s")
  case (Some k)
  obtain p where p: "p \<in> set (scope_proposals s)" "sp_job_id p = job" "sp_result_scope_version_id p = i"
      "sp_status p = SP_CONFIRMED" "sp_total_amount_krw p = k" by (rule initial_total_Some[OF Some])
  obtain p' where p': "row sp_id (sp_id p) (scope_proposals s') = Some p'" "proposal_step p p'"
    using ev row_of_mem[OF review_invD(2)[OF inv(1)] p(1)] unfolding field_evolve_def review_evolve_def by blast
  have "p' = p" using proposal_step_final[OF p'(2)] p(4) by simp
  then have "initial_total job i s' = Some k"
    using initial_totalI[OF inv(3) row_mem[OF p'(1)]] p by simp
  then show ?thesis using n Some by (simp add: effective_total_amount_def)
next
  case None
  then have "changed_total job i s = Some n" using n by (simp add: effective_total_amount_def split: option.splits)
  then obtain d r where d: "d \<in> set (proposal_details s)" "row cr_id (pd_change_request_id d) (change_requests s) = Some r"
      "cr_job_id r = job" "cr_result_scope_version_id r = Some i" "cr_status r = CR_APPROVED" "pd_total_amount_krw d = n"
    by (rule changed_total_Some)
  obtain r' where r': "row cr_id (pd_change_request_id d) (change_requests s') = Some r'" "request_step r r'"
    using ev d(2) unfolding field_evolve_def by blast
  have "r' = r" using r'(2) d(5) by (simp add: request_step_def decided_def)
  moreover have "d \<in> set (proposal_details s')" using ev d(1) unfolding field_evolve_def by blast
  ultimately show ?thesis using changed_totalI[OF inv(4)] r'(1) d by metis
qed

lemma priced_stable:
  assumes inv: "review_inv s" "money_inv s" "review_inv s'" "money_inv s'" and ev: "field_evolve s s'" and p: "priced s d"
  shows "priced s' d"
proof -
  obtain r where r: "row cr_id (pd_change_request_id d) (change_requests s) = Some r"
      "effective_total_amount (cr_job_id r) (cr_base_scope_version_id r) s = Inr (pd_base_amount_krw d)"
    using p by (auto simp: priced_def)
  obtain r' where r': "row cr_id (pd_change_request_id d) (change_requests s') = Some r'" "request_step r r'"
    using ev r(1) unfolding field_evolve_def by blast
  then show ?thesis
    using effective_stable[OF inv ev r(2)] p by (auto simp: priced_def request_step_def)
qed

text \<open>One step: the structural invariant of the new state and the price of a new detail are what
  is left to show.\<close>

lemma field_step:
  assumes inv: "field_inv s" and s': "review_inv s'" "money_inv s'" and ev: "field_evolve s s'"
    and new: "\<And>d. d \<in> set (proposal_details s') \<Longrightarrow> d \<notin> set (proposal_details s) \<Longrightarrow> priced s' d"
  shows "field_inv s' \<and> field_evolve s s'"
proof -
  have "priced s' d" if "d \<in> set (proposal_details s')" for d
    using that new priced_stable[OF field_invD(1,2)[OF inv] s' ev field_invD(3)[OF inv]] by blast
  then show ?thesis using s' ev by (simp add: field_inv_def)
qed

section \<open>Steps that keep the structure\<close>

lemma version_ids_mono: "scope_evolve s s' \<Longrightarrow> sv_id ` set (scope_versions s) \<subseteq> sv_id ` set (scope_versions s')"
proof
  fix i assume e: "scope_evolve s s'" and i: "i \<in> sv_id ` set (scope_versions s)"
  then obtain v where "row sv_id i (scope_versions s) = Some v"
    using row_None_iff[of sv_id i "scope_versions s"] by fastforce
  then obtain v' where "row sv_id i (scope_versions s') = Some v'" using scope_evolveD(4)[OF e] by blast
  then show "i \<in> sv_id ` set (scope_versions s')" using row_SomeD by fastforce
qed

text \<open>A negotiation only ever quotes a version made for it.\<close>

definition results_fresh :: "db \<Rightarrow> db \<Rightarrow> bool" where
  "results_fresh s s' = (\<forall>p \<in> set (scope_proposals s'). sp_result_scope_version_id p \<in>
     sp_result_scope_version_id ` set (scope_proposals s) \<union> - sv_id ` set (scope_versions s))"

lemma request_ok_mono:
  assumes "request_ok s r" "scope_evolve s s'" "results_fresh s s'"
  shows "request_ok s' r"
  unfolding request_ok_def
proof (intro conjI allI impI)
  show "cr_id r \<in> drawn_ids s'" using assms(1) scope_evolveD(6)[OF assms(2)] by (auto simp: request_ok_def)
next
  fix v assume "cr_result_scope_version_id r = Some v"
  then have v: "cr_status r = CR_APPROVED" "v \<in> sv_id ` set (scope_versions s)"
      "v \<notin> sp_result_scope_version_id ` set (scope_proposals s)"
    using assms(1) by (auto simp: request_ok_def)
  show "cr_status r = CR_APPROVED" using v(1) .
  show "v \<in> sv_id ` set (scope_versions s')" using v(2) version_ids_mono[OF assms(2)] by blast
  show "v \<notin> sp_result_scope_version_id ` set (scope_proposals s')"
  proof
    assume "v \<in> sp_result_scope_version_id ` set (scope_proposals s')"
    then obtain p where "p \<in> set (scope_proposals s')" "v = sp_result_scope_version_id p" by blast
    then have "v \<in> sp_result_scope_version_id ` set (scope_proposals s) \<union> - sv_id ` set (scope_versions s)"
      using assms(3) unfolding results_fresh_def by simp
    then show False using v(2,3) by simp
  qed
qed

lemma money_same:
  assumes m: "money_inv s" and ev: "scope_evolve s s'" "results_fresh s s'"
    and tab: "change_requests s' = change_requests s" "proposal_details s' = proposal_details s"
  shows "money_inv s'"
  using m request_ok_mono[OF _ ev] unfolding money_inv_def tab by blast

lemma money_append:
  assumes m: "money_inv s" and ev: "scope_evolve s s'" "results_fresh s s'"
    and tab: "change_requests s' = change_requests s @ [r]" "proposal_details s' = proposal_details s @ ds"
    and r: "cr_id r \<notin> drawn_ids s" "cr_id r \<in> drawn_ids s'" "cr_result_scope_version_id r = None"
    and ds: "ds = [] \<or> (\<exists>d. ds = [d] \<and> pd_change_request_id d = cr_id r)"
  shows "money_inv s'"
proof -
  have old: "cr_id q \<noteq> cr_id r" if "q \<in> set (change_requests s)" for q
    using money_invD(3)[OF m that] r(1) by (auto simp: request_ok_def)
  have det: "pd_change_request_id d \<noteq> cr_id r" if "d \<in> set (proposal_details s)" for d
    using money_invD(5)[OF m that] old by (metis imageE)
  have "cr_id r \<notin> cr_id ` set (change_requests s)" using old by (metis imageE)
  then have "distinct (map cr_id (change_requests s'))" using money_invD(1)[OF m] by (simp add: tab)
  moreover have "cr_id r \<notin> pd_change_request_id ` set (proposal_details s)" using det by (metis imageE)
  then have "distinct (map pd_change_request_id (proposal_details s'))"
    using money_invD(2)[OF m] ds by (elim disjE exE conjE) (simp_all add: tab)
  moreover have "request_ok s' q" if "q \<in> set (change_requests s')" for q
    using that request_ok_mono[OF money_invD(3)[OF m] ev] r by (auto simp: tab request_ok_def)
  moreover have "q = p" if "q \<in> set (change_requests s')" "p \<in> set (change_requests s')"
    "cr_result_scope_version_id q = cr_result_scope_version_id p" "cr_result_scope_version_id q \<noteq> None" for q p
    using that r(3) money_invD(4)[OF m] by (auto simp: tab)
  moreover have "\<forall>d \<in> set (proposal_details s'). pd_change_request_id d \<in> cr_id ` set (change_requests s')"
    using money_invD(5)[OF m] ds by (auto simp: tab)
  ultimately show ?thesis unfolding money_inv_def by blast
qed

lemma money_put:
  assumes m: "money_inv s" and ev: "scope_evolve s s'" "results_fresh s s'"
    and tab: "change_requests s' = put_row cr_id r' (change_requests s)" "proposal_details s' = proposal_details s"
    and r: "row cr_id (cr_id r') (change_requests s) = Some r"
    and res: "cr_result_scope_version_id r' = None \<or> (\<exists>v. cr_result_scope_version_id r' = Some v \<and>
      cr_status r' = CR_APPROVED \<and> v \<notin> sv_id ` set (scope_versions s) \<and> v \<in> sv_id ` set (scope_versions s') \<and>
      v \<notin> sp_result_scope_version_id ` set (scope_proposals s'))"
  shows "money_inv s'"
proof -
  have mem: "q = r' \<or> q \<in> set (change_requests s)" if "q \<in> set (change_requests s')" for q
    using that unfolding tab by (rule put_rowE) auto
  have old: "v \<in> sv_id ` set (scope_versions s)"
    if "q \<in> set (change_requests s)" "cr_result_scope_version_id q = Some v" for q v
    using money_invD(3)[OF m that(1)] that(2) by (auto simp: request_ok_def)
  have "cr_id r' \<in> drawn_ids s'"
    using money_invD(3)[OF m row_mem[OF r]] row_key[OF r] scope_evolveD(6)[OF ev(1)] by (auto simp: request_ok_def)
  with res have "request_ok s' r'" by (elim disjE exE conjE) (simp_all add: request_ok_def)
  then have ok: "request_ok s' q" if "q \<in> set (change_requests s')" for q
    using mem[OF that] request_ok_mono[OF money_invD(3)[OF m] ev] by blast
  have "q = p" if a: "q \<in> set (change_requests s')" "p \<in> set (change_requests s')"
    "cr_result_scope_version_id q = cr_result_scope_version_id p" "cr_result_scope_version_id q \<noteq> None" for q p
  proof -
    obtain v where v: "cr_result_scope_version_id q = Some v" "cr_result_scope_version_id p = Some v" using a(3,4) by auto
    show ?thesis
      using mem[OF a(1)] mem[OF a(2)] v res old[of q v] old[of p v] money_invD(4)[OF m _ _ v] by auto
  qed
  moreover have "cr_id ` set (change_requests s') = cr_id ` set (change_requests s)"
    unfolding tab by (metis keys_put_row list.set_map)
  ultimately show ?thesis using m ok unfolding money_inv_def tab keys_put_row by blast
qed

lemma field_step_same:
  assumes inv: "field_inv s" and rv: "review_inv s' \<and> review_evolve s s'" and rf: "results_fresh s s'"
    and tab: "change_requests s' = change_requests s" "proposal_details s' = proposal_details s"
  shows "field_inv s' \<and> field_evolve s s'"
proof -
  have "field_evolve s s'" using rv tab unfolding field_evolve_def by simp
  moreover have "money_inv s'"
    using money_same[OF field_invD(2)[OF inv] _ rf tab] rv unfolding review_evolve_def by blast
  ultimately show ?thesis by (rule_tac field_step[OF inv]) (use rv tab in auto)
qed

lemma field_step_put:
  assumes inv: "field_inv s" and rv: "review_inv s' \<and> review_evolve s s'" and rf: "results_fresh s s'"
    and tab: "change_requests s' = put_row cr_id r' (change_requests s)" "proposal_details s' = proposal_details s"
    and r: "row cr_id (cr_id r) (change_requests s) = Some r" "request_step r r'"
    and res: "cr_result_scope_version_id r' = None \<or> (\<exists>v. cr_result_scope_version_id r' = Some v \<and>
      cr_status r' = CR_APPROVED \<and> v \<notin> sv_id ` set (scope_versions s) \<and> v \<in> sv_id ` set (scope_versions s') \<and>
      v \<notin> sp_result_scope_version_id ` set (scope_proposals s'))"
  shows "field_inv s' \<and> field_evolve s s'"
proof -
  have id: "cr_id r' = cr_id r" using r(2) by (simp add: request_step_def)
  have "field_evolve s s'"
    using rv r id by (auto simp: field_evolve_def tab row_put_row)
  moreover have "money_inv s'"
    using money_put[OF field_invD(2)[OF inv] _ rf tab _ res, of r] rv r(1) id unfolding review_evolve_def by auto
  ultimately show ?thesis by (rule_tac field_step[OF inv]) (use rv tab in auto)
qed

lemma field_step_append:
  assumes inv: "field_inv s" and rv: "review_inv s' \<and> review_evolve s s'" and rf: "results_fresh s s'"
    and tab: "change_requests s' = change_requests s @ [r]" "proposal_details s' = proposal_details s @ ds"
    and r: "cr_id r \<notin> drawn_ids s" "cr_id r \<in> drawn_ids s'" "cr_result_scope_version_id r = None"
    and ds: "ds = [] \<or> (\<exists>d. ds = [d] \<and> pd_change_request_id d = cr_id r \<and>
      pd_base_amount_krw d + sum_list (map qa_amount_krw (pd_adjustments d)) = pd_total_amount_krw d \<and>
      effective_total_amount (cr_job_id r) (cr_base_scope_version_id r) s = Inr (pd_base_amount_krw d))"
  shows "field_inv s' \<and> field_evolve s s'"
proof -
  have old: "cr_id q \<noteq> cr_id r" if "q \<in> set (change_requests s)" for q
    using money_invD(3)[OF field_invD(2)[OF inv] that] r(1) by (auto simp: request_ok_def)
  have ev: "field_evolve s s'" using rv by (auto simp: field_evolve_def tab)
  have m: "money_inv s'"
    by (rule money_append[OF field_invD(2)[OF inv] _ rf tab r]) (use rv ds in \<open>auto simp: review_evolve_def\<close>)
  have row: "row cr_id (cr_id r) (change_requests s') = Some r"
    using old row_of_mem[OF money_invD(1)[OF m], of r] by (simp add: tab)
  show ?thesis
  proof (rule field_step[OF inv _ m ev])
    show "review_inv s'" using rv by simp
    fix d assume d: "d \<in> set (proposal_details s')" "d \<notin> set (proposal_details s)"
    then have "ds = [d]" using ds by (auto simp: tab)
    then show "priced s' d"
      using ds row effective_stable[OF field_invD(1,2)[OF inv] _ m ev] rv by (auto simp: priced_def)
  qed
qed

section \<open>Operations\<close>

lemma audit_field [simp]:
  "scope_proposals (add_audit_event j ty a p now s) = scope_proposals s"
  "revision_requests (add_audit_event j ty a p now s) = revision_requests s"
  "proposal_details (add_audit_event j ty a p now s) = proposal_details s"
  "field_issues (add_audit_event j ty a p now s) = field_issues s"
  "field_issue_evidence (add_audit_event j ty a p now s) = field_issue_evidence s"
  "media_assets (add_audit_event j ty a p now s) = media_assets s"
  by (simp_all add: add_audit_event_def uuid4_def)

lemma put_request_tables [simp]:
  "change_requests (put_request r s) = put_row cr_id r (change_requests s)"
  "scope_proposals (put_request r s) = scope_proposals s" "revision_requests (put_request r s) = revision_requests s"
  "proposal_details (put_request r s) = proposal_details s" "scope_versions (put_request r s) = scope_versions s"
  by (simp_all add: put_request_def)

lemma results_fresh_same: "scope_proposals s' = scope_proposals s \<Longrightarrow> results_fresh s s'"
  by (simp add: results_fresh_def)

lemma undecided_result: "money_inv s \<Longrightarrow> r \<in> set (change_requests s) \<Longrightarrow> \<not> decided r \<Longrightarrow> cr_result_scope_version_id r = None"
  using money_invD(3)[of s r] by (cases "cr_result_scope_version_id r") (auto simp: request_ok_def decided_def)

lemma loaded_result:
  assumes "money_inv s" "load_change_request job i s = Inr r" "\<not> decided r"
  shows "cr_result_scope_version_id r = None"
proof -
  have "row cr_id i (change_requests s) = Some r" using load_request_row[OF assms(2)] by simp
  then show ?thesis using undecided_result[OF assms(1) row_mem assms(3)] by blast
qed

text \<open>An undecided request written back, with the fact in the audit trail.\<close>

lemma request_written_sound:
  assumes inv: "field_inv s" and r: "load_change_request job i s = Inr r" "\<not> decided r" "request_step r r'"
    and res: "cr_result_scope_version_id r' = None"
  shows "field_inv (add_audit_event j ty a p now (put_request r' s)) \<and>
    field_evolve s (add_audit_event j ty a p now (put_request r' s))"
proof -
  let ?s = "add_audit_event j ty a p now (put_request r' s)"
  have fr: "scope_frame s ?s" using request_written_frame[OF r(1,2)] r(3) by (simp add: request_step_def)
  have rv: "review_inv ?s \<and> review_evolve s ?s"
    using review_scope_step[OF field_invD(1)[OF inv]] scope_frame_sound[OF field_invD(4)[OF inv] fr] by simp
  have row: "row cr_id (cr_id r) (change_requests s) = Some r" using load_request_row[OF r(1)] by simp
  show ?thesis
    by (rule field_step_put[OF inv rv results_fresh_same _ _ row r(3)]) (use res in simp_all)
qed

lemma clarify_cases:
  assumes "request_change_clarification job i pid msg now s = Inr (resp, s')"
  obtains r r' where "load_change_request job i s = Inr r" "cr_status r = CR_PENDING"
    "r' = r\<lparr>cr_status := CR_CLARIFICATION_REQUESTED, cr_clarification_requested_by_participant_id := Some pid,
       cr_clarification_request := Some msg, cr_clarification_requested_at := Some now\<rparr>"
    "s' = add_audit_event job AU_CHANGE_CLARIFICATION_REQUESTED (Some pid) [(''change_request_id'', id_json i)] now
       (put_request r' s)" "crr_request resp = r'"
  using assms that
  by (auto simp: request_change_clarification_def bindR_Inr Let_def change_request_response_def split: if_splits)

lemma explain_cases:
  assumes "explain_change_request job i pid msg now s = Inr (resp, s')"
  obtains r r' where "load_change_request job i s = Inr r" "cr_status r = CR_CLARIFICATION_REQUESTED"
    "r' = r\<lparr>cr_status := CR_PENDING, cr_explanation := Some msg, cr_explained_at := Some now\<rparr>"
    "s' = add_audit_event job AU_CHANGE_EXPLAINED (Some pid) [(''change_request_id'', id_json i)] now (put_request r' s)"
  using assms that by (auto simp: explain_change_request_def bindR_Inr Let_def split: if_splits)

lemma clarify_sound:
  assumes "field_inv s" "request_change_clarification job i pid msg now s = Inr (resp, s')"
  shows "field_inv s' \<and> field_evolve s s'"
proof -
  obtain r r' where r: "load_change_request job i s = Inr r" "cr_status r = CR_PENDING"
    and r': "r' = r\<lparr>cr_status := CR_CLARIFICATION_REQUESTED, cr_clarification_requested_by_participant_id := Some pid,
       cr_clarification_request := Some msg, cr_clarification_requested_at := Some now\<rparr>"
    and s': "s' = add_audit_event job AU_CHANGE_CLARIFICATION_REQUESTED (Some pid) [(''change_request_id'', id_json i)] now
       (put_request r' s)" by (rule clarify_cases[OF assms(2)])
  have nd: "\<not> decided r" using r(2) by (simp add: decided_def)
  have "cr_result_scope_version_id r = None"
    by (rule loaded_result[OF field_invD(2)[OF assms(1)] r(1) nd])
  then show ?thesis
    unfolding s' by (intro request_written_sound[OF assms(1) r(1) nd]) (use nd in \<open>simp_all add: r' request_step_def\<close>)
qed

lemma explain_sound:
  assumes "field_inv s" "explain_change_request job i pid msg now s = Inr (resp, s')"
  shows "field_inv s' \<and> field_evolve s s'"
proof -
  obtain r r' where r: "load_change_request job i s = Inr r" "cr_status r = CR_CLARIFICATION_REQUESTED"
    and r': "r' = r\<lparr>cr_status := CR_PENDING, cr_explanation := Some msg, cr_explained_at := Some now\<rparr>"
    and s': "s' = add_audit_event job AU_CHANGE_EXPLAINED (Some pid) [(''change_request_id'', id_json i)] now (put_request r' s)"
    by (rule explain_cases[OF assms(2)])
  have nd: "\<not> decided r" using r(2) by (simp add: decided_def)
  have "cr_result_scope_version_id r = None"
    by (rule loaded_result[OF field_invD(2)[OF assms(1)] r(1) nd])
  then show ?thesis
    unfolding s' by (intro request_written_sound[OF assms(1) r(1) nd]) (use nd in \<open>simp_all add: r' request_step_def\<close>)
qed

lemma proposal_result_known:
  assumes "review_inv s" "p \<in> set (scope_proposals s)"
  shows "sp_result_scope_version_id p \<in> sv_id ` set (scope_versions s)"
proof -
  obtain v where v: "row sv_id (sp_result_scope_version_id p) (scope_versions s) = Some v"
    using review_invD(8)[OF assms] by (auto simp: proposal_ok_def)
  show ?thesis using row_SomeD[OF v] by (metis imageI)
qed

lemma create_version_other:
  "create_scope_version job pid parent content source flp now s = Inr (resp, s') \<Longrightarrow>
   proposal_details s' = proposal_details s \<and> field_issues s' = field_issues s \<and>
   field_issue_evidence s' = field_issue_evidence s \<and> media_assets s' = media_assets s \<and>
   svr_id resp = rng s (drawn s) \<and> svr_id resp \<in> sv_id ` set (scope_versions s')"
  by (erule create_version_cases) (simp add: scope_version_response_def new_scope_version_def)

lemma new_version_unknown:
  assumes "scope_inv s"
  shows "rng s (drawn s) \<notin> sv_id ` set (scope_versions s)"
  using version_okD(1)[OF scope_invD(5)[OF assms]] uuid4_fresh[OF scope_invD(1)[OF assms]] by auto

lemma decide_review:
  assumes "field_inv s" "decide_change_request job i pid cmd now s = Inr (resp, s')"
  shows "review_inv s' \<and> review_evolve s s' \<and> scope_proposals s' = scope_proposals s \<and>
    proposal_details s' = proposal_details s"
proof -
  have "scope_proposals s' = scope_proposals s \<and> revision_requests s' = revision_requests s \<and>
    proposal_details s' = proposal_details s"
    using assms(2)
    by (cases rule: decide_cases) (simp_all add: create_version_tables create_version_other)
  then show ?thesis
    using review_scope_step[OF field_invD(1)[OF assms(1)]] decide_sound[OF field_invD(4)[OF assms(1)] assms(2)] by simp
qed

lemma decide_field_sound:
  assumes "field_inv s" "decide_change_request job i pid cmd now s = Inr (resp, s')"
  shows "field_inv s' \<and> field_evolve s s'"
  using assms(2)
proof (cases rule: decide_cases)
  case (rejected r r')
  have nd: "\<not> decided r" using rejected(2) by (simp add: decided_def)
  have "cr_result_scope_version_id r = None"
    by (rule loaded_result[OF field_invD(2)[OF assms(1)] rejected(1) nd])
  then show ?thesis
    unfolding rejected(6) by (intro request_written_sound[OF assms(1) rejected(1) nd])
      (use nd in \<open>simp_all add: rejected(4) request_step_def\<close>)
next
  case (approved r r' v s1)
  note rv = decide_review[OF assms] and ot = create_version_other[OF approved(4)]
  have row: "row cr_id (cr_id r) (change_requests s) = Some r" using load_request_row[OF approved(1)] by simp
  have step: "request_step r r'" using approved(2) by (simp add: approved(5) request_step_def decided_def)
  have v: "svr_id v \<notin> sv_id ` set (scope_versions s)" using ot new_version_unknown[OF field_invD(4)[OF assms(1)]] by simp
  have np: "svr_id v \<notin> sp_result_scope_version_id ` set (scope_proposals s')"
    using v proposal_result_known[OF field_invD(1)[OF assms(1)]] rv by auto
  show ?thesis
  proof (rule field_step_put[OF assms(1) _ results_fresh_same _ _ row step])
    show "change_requests s' = put_row cr_id r' (change_requests s)"
      using create_version_requests[OF approved(4)] by (simp add: approved(7))
    show "cr_result_scope_version_id r' = None \<or> (\<exists>v. cr_result_scope_version_id r' = Some v \<and>
      cr_status r' = CR_APPROVED \<and> v \<notin> sv_id ` set (scope_versions s) \<and> v \<in> sv_id ` set (scope_versions s') \<and>
      v \<notin> sp_result_scope_version_id ` set (scope_proposals s'))"
      by (intro disjI2 exI[of _ "svr_id v"]) (use v np conjunct2[OF conjunct2[OF conjunct2[OF conjunct2[OF conjunct2[OF ot]]]]] in
        \<open>simp add: approved(5,7)\<close>)
  qed (use rv in simp_all)
qed

text \<open>The commands of scope review quote fresh versions only.\<close>

lemma put_row_image: "f r \<in> f ` set t \<Longrightarrow> f ` set (put_row k r t) \<subseteq> f ` set t"
  using set_put_row[of k r t] by auto

lemma send_result_fresh:
  assumes "review_inv s" "send_proposal job pid cmd kind basis now s = Inr (p, s')"
    and "\<And>q r. basis = Some (q, r) \<Longrightarrow> q \<in> set (scope_proposals s)"
  shows "sp_result_scope_version_id ` set (scope_proposals s') \<subseteq>
    insert (rng s (drawn s)) (sp_result_scope_version_id ` set (scope_proposals s))"
proof -
  obtain v s1 s3 res s4 where c: "create_scope_version job (Some pid) (Some (spc_source_scope_version_id cmd))
       (normalize_scope_content (spc_content cmd)) None False now s = Inr (v, s1)"
    and p: "p = new_proposal (rng s1 (drawn s1)) job pid (svr_id v) kind cmd now"
    and s3: "s3 = s1\<lparr>drawn := Suc (drawn s1), scope_proposals := scope_proposals s1 @ [p]\<rparr>"
    and a: "approve_scope_version job (svr_id v) pid COMPANY_MANAGER None now s3 = Inr (res, s4)"
    and s': "s' = supersede basis (sp_id p) now s4"
    by (rule send_cases[OF assms(2)])
  have "scope_proposals s4 = scope_proposals s @ [p]"
    using create_version_tables[OF c] approve_tables[OF a] by (simp add: s3)
  moreover have "sp_result_scope_version_id p = rng s (drawn s)"
    using create_version_other[OF c] by (simp add: p new_proposal_def)
  moreover have "sp_result_scope_version_id ` set (scope_proposals s') \<subseteq> sp_result_scope_version_id ` set (scope_proposals s4)
      \<union> (case basis of None \<Rightarrow> {} | Some (q, r) \<Rightarrow> {sp_result_scope_version_id q})"
    using set_put_row by (fastforce simp: s' supersede_def put_revision_def put_proposal_def split: option.splits)
  ultimately show ?thesis using assms(3) by (cases basis) auto
qed

lemma review_results_fresh:
  assumes "review_op s s'" "review_inv s"
  shows "results_fresh s s'"
proof -
  have "sp_result_scope_version_id ` set (scope_proposals s') \<subseteq>
      insert (rng s (drawn s)) (sp_result_scope_version_id ` set (scope_proposals s))"
    using assms(1)
  proof (cases rule: review_op.cases)
    case (rop_send job pid cmd now resp)
    from rop_send show ?thesis
    proof (cases rule: create_proposal_cases)
      case (fresh source kind basis p)
      show ?thesis by (rule send_result_fresh[OF assms(2) fresh(4)])
          (use basis_cases(3)[OF assms(2) fresh(2)] row_mem in fast)
    qed auto
  next
    case (rop_revise job pid vid reason now resp)
    from rop_revise show ?thesis
    proof (cases rule: request_revision_cases)
      case (fresh p r)
      have "sp_result_scope_version_id (p\<lparr>sp_status := SP_REVISION_REQUESTED\<rparr>) \<in>
          sp_result_scope_version_id ` set (scope_proposals s)"
        using row_mem[OF proposal_for_result_row(1)[OF assms(2) fresh(1)]] by simp
      from put_row_image[OF this, of sp_id] show ?thesis by (auto simp: fresh(7))
    qed auto
  next
    case (rop_confirm job pid vid trace now resp)
    from rop_confirm show ?thesis
    proof (cases rule: confirm_cases)
      case (fresh p res s1)
      have "sp_result_scope_version_id (p\<lparr>sp_status := SP_CONFIRMED, sp_confirmed_at := Some (sa_approved_at (sar_approval res))\<rparr>) \<in>
          sp_result_scope_version_id ` set (scope_proposals s)"
        using row_mem[OF proposal_for_result_row(1)[OF assms(2) fresh(1)]] by simp
      from put_row_image[OF this, of sp_id] show ?thesis
        using approve_tables[OF fresh(3)] by (auto simp: fresh(5) put_proposal_def)
    qed auto
  next
    case rop_scope
    then show ?thesis by auto
  qed
  then have "sp_result_scope_version_id p \<in>
      insert (rng s (drawn s)) (sp_result_scope_version_id ` set (scope_proposals s))" if "p \<in> set (scope_proposals s')" for p
    using that by blast
  then show ?thesis
    using new_version_unknown[OF review_invD(1)[OF assms(2)]] unfolding results_fresh_def
    by (metis ComplI UnI1 UnI2 insertE)
qed

text \<open>Requests and proposals appended by the two ways of asking for a change.\<close>

lemma create_request_tables:
  assumes "create_change_request job pid cmd trace now s = Inr (resp, s')"
  shows "change_requests s' = change_requests s @ [new_change_request (rng s (drawn s)) job pid cmd now] \<and>
    scope_proposals s' = scope_proposals s \<and> revision_requests s' = revision_requests s \<and>
    proposal_details s' = proposal_details s \<and> rng s' = rng s \<and> drawn s < drawn s'"
proof -
  let ?r = "new_change_request (rng s (drawn s)) job pid cmd now"
  let ?p = "change_event_payload ?r (crc_evidence_media_asset_ids cmd)"
  let ?s2 = "s\<lparr>drawn := Suc (drawn s), change_requests := change_requests s @ [?r],
      change_evidence := change_evidence s @ map (\<lambda>m. \<lparr>ce_change_request_id = rng s (drawn s), ce_media_asset_id = m\<rparr>)
        (crc_evidence_media_asset_ids cmd)\<rparr>"
  let ?s3 = "add_audit_event job AU_CHANGE_REQUESTED (Some pid) ?p now ?s2"
  obtain ev where en: "enqueue_domain_event CHANGE_REQUESTED_V1 job (Some pid) trace ?p now ?s3 = Inr (ev, s')"
    using assms by (auto simp: create_change_request_def uuid4_def Let_def bindR_Inr split: option.splits if_splits)
  show ?thesis by (rule enqueue_event_spec[OF en]) simp
qed

lemma create_request_sound:
  assumes inv: "field_inv s" and cr: "create_change_request job pid cmd trace now s = Inr (resp, s')"
  shows "field_inv s' \<and> field_evolve s s'"
proof -
  note t = create_request_tables[OF cr]
  have rv: "review_inv s' \<and> review_evolve s s'"
    using review_scope_step[OF field_invD(1)[OF inv]] scope_frame_sound[OF field_invD(4)[OF inv] create_request_frame[OF cr]] t
    by simp
  have fresh: "rng s (drawn s) \<notin> drawn_ids s" using uuid4_fresh[OF scope_invD(1)[OF field_invD(4)[OF inv]]] .
  have drawn: "rng s (drawn s) \<in> drawn_ids s'" using t by (auto simp: drawn_ids_def)
  show ?thesis
    by (rule field_step_append[OF inv rv results_fresh_same, where ds = "[]" and r = "new_change_request (rng s (drawn s)) job pid cmd now"])
      (use t fresh drawn in \<open>simp_all add: new_change_request_def\<close>)
qed

lemma proposal_store_cases:
  assumes "store_change_proposal job pid cmd ids trace now s = Inr ((d, r), s')"
  obtains "d = new_detail (rng s (drawn s)) cmd now"
    "r = new_change_request (rng s (drawn s)) job pid
       \<lparr>crc_base_scope_version_id = cpc_base_scope_version_id cmd, crc_description = cpc_reason cmd,
        crc_proposed_content = cpc_proposed_content cmd, crc_evidence_media_asset_ids = ids\<rparr> now"
    "change_requests s' = change_requests s @ [r]" "proposal_details s' = proposal_details s @ [d]"
    "scope_frame s s'" "scope_proposals s' = scope_proposals s" "revision_requests s' = revision_requests s"
    "drawn s < drawn s'" "rng s' = rng s" "move_jobs s' = move_jobs s" "field_issues s' = field_issues s"
proof -
  let ?r = "new_change_request (rng s (drawn s)) job pid
       \<lparr>crc_base_scope_version_id = cpc_base_scope_version_id cmd, crc_description = cpc_reason cmd,
        crc_proposed_content = cpc_proposed_content cmd, crc_evidence_media_asset_ids = ids\<rparr> now"
  let ?d = "new_detail (rng s (drawn s)) cmd now"
  let ?s2 = "s\<lparr>drawn := Suc (drawn s), change_requests := change_requests s @ [?r]\<rparr>"
  let ?s3 = "?s2\<lparr>proposal_details := proposal_details s @ [?d]\<rparr>"
  let ?s4 = "?s3\<lparr>change_evidence := change_evidence ?s3 @
    map (\<lambda>m. \<lparr>ce_change_request_id = rng s (drawn s), ce_media_asset_id = m\<rparr>) ids\<rparr>"
  let ?s5 = "add_audit_event job AU_CHANGE_REQUESTED (Some pid) (proposal_audit_payload ?r (cpc_field_issue_id cmd) ids) now ?s4"
  have st: "(case insert_detail ?d ?s2 of Inl _ \<Rightarrow> Inl FieldChangeConflictError
      | Inr s3 \<Rightarrow> bindR (enqueue_domain_event CHANGE_REQUESTED_V1 job (Some pid) (Some trace) (proposal_event_payload ?r ids) now
          (add_audit_event job AU_CHANGE_REQUESTED (Some pid) (proposal_audit_payload ?r (cpc_field_issue_id cmd) ids) now
            (s3\<lparr>change_evidence := change_evidence s3 @
                 map (\<lambda>m. \<lparr>ce_change_request_id = rng s (drawn s), ce_media_asset_id = m\<rparr>) ids\<rparr>)))
          (\<lambda>(_, s6). Inr ((?d, ?r), s6))) = Inr ((d, r), s')"
    using assms unfolding store_change_proposal_def uuid4_def Let_def by simp
  have ins: "insert_detail ?d ?s2 = Inr (?s2\<lparr>proposal_details := proposal_details s @ [?d]\<rparr>)"
  proof (cases "insert_detail ?d ?s2")
    case (Inl e)
    show ?thesis using st unfolding Inl sum.case by simp
  next
    case (Inr s3)
    then show ?thesis unfolding insert_detail_def by (simp split: if_splits)
  qed
  obtain x where x: "enqueue_domain_event CHANGE_REQUESTED_V1 job (Some pid) (Some trace) (proposal_event_payload ?r ids) now ?s5
      = Inr x" "(case x of (_, s6) \<Rightarrow> Inr ((?d, ?r), s6)) = (Inr ((d, r), s') :: _ result)"
    using st unfolding ins sum.case bindR_Inr by blast
  obtain ev where en: "enqueue_domain_event CHANGE_REQUESTED_V1 job (Some pid) (Some trace) (proposal_event_payload ?r ids) now ?s5
      = Inr (ev, s')" and dr: "d = ?d" "r = ?r"
  proof -
    obtain ev s6 where ev: "x = (ev, s6)" by (cases x)
    have eq: "?d = d" "?r = r" "s6 = s'" using x(2) unfolding ev prod.case sum.inject prod.inject by blast+
    show thesis by (rule that[OF x(1)[unfolded ev eq(3)] eq(1,2)[symmetric]])
  qed
  have fr: "scope_frame s ?s5"
    by (rule scope_frame_trans[OF _ audit_frame]) (simp add: scope_frame_def)
  obtain k where s': "s' = ?s5\<lparr>drawn := k, outbox := outbox ?s5 @ [new_outbox_event ev]\<rparr>" "drawn ?s5 < k"
    by (rule enqueue_event_spec[OF en])
  have "scope_frame ?s5 s'" using s'(2) by (simp add: s'(1) scope_frame_def)
  then have "scope_frame s s'" using scope_frame_trans[OF fr] by simp
  then show thesis by (intro that) (use dr s'(2) in \<open>simp_all add: s'(1)\<close>)
qed

lemma create_change_proposal_cases:
  assumes "create_change_proposal job pid cmd trace now s = Inr (resp, s')"
  obtains (replay) d r issue where "row fi_id (cpc_field_issue_id cmd) (field_issues s) = Some issue"
      "change_proposal_for_issue (fi_id issue) s = Some (d, r)" "change_proposal_matches d r pid cmd" "s' = s"
      "change_proposal_response d r = Inr resp"
  | (fresh) issue base ids d r where "row fi_id (cpc_field_issue_id cmd) (field_issues s) = Some issue" "fi_job_id issue = job"
      "isOk (require_open_job job s)" "is_participant job pid {COMPANY_MANAGER} s"
      "require_current_locked_scope job (cpc_base_scope_version_id cmd) s = Inr base"
      "effective_total_amount job (sv_id base) s = Inr (qs_base_amount_krw (cpc_quote cmd))"
      "store_change_proposal job pid cmd ids trace now s = Inr ((d, r), s')" "change_proposal_response d r = Inr resp"
proof -
  obtain issue where i: "row fi_id (cpc_field_issue_id cmd) (field_issues s) = Some issue" "fi_job_id issue = job"
    using assms by (auto simp: create_change_proposal_def split: option.splits if_splits)
  show thesis
  proof (cases "change_proposal_for_issue (fi_id issue) s")
    case (Some p)
    then show ?thesis using assms i replay[OF i(1)]
      by (cases p) (auto simp: create_change_proposal_def bindR_Inr split: if_splits)
  next
    case None
    show ?thesis
      using assms i None fresh[OF i]
      by (auto simp: create_change_proposal_def bindR_Inr Let_def isOk_iff split: if_splits sum.splits exn.splits)
  qed
qed

lemma create_change_proposal_sound:
  assumes inv: "field_inv s" and cr: "create_change_proposal job pid cmd trace now s = Inr (resp, s')"
  shows "field_inv s' \<and> field_evolve s s'"
  using cr
proof (cases rule: create_change_proposal_cases)
  case (replay d r issue)
  then show ?thesis using inv by simp
next
  case (fresh issue base ids d r)
  have base: "sv_id base = cpc_base_scope_version_id cmd"
    using fresh(5) row_key by (fastforce simp: require_current_locked_scope_def version_of_job_def split: option.splits if_splits)
  have quote: "quote_ok (quote_from_change_detail d)"
    using fresh(8) by (auto simp: change_proposal_response_def split: if_splits)
  show ?thesis
  proof (rule proposal_store_cases[OF fresh(7)])
    assume d: "d = new_detail (rng s (drawn s)) cmd now"
      and r: "r = new_change_request (rng s (drawn s)) job pid
       \<lparr>crc_base_scope_version_id = cpc_base_scope_version_id cmd, crc_description = cpc_reason cmd,
        crc_proposed_content = cpc_proposed_content cmd, crc_evidence_media_asset_ids = ids\<rparr> now"
      and tab: "change_requests s' = change_requests s @ [r]" "proposal_details s' = proposal_details s @ [d]"
      and fr: "scope_frame s s'" and same: "scope_proposals s' = scope_proposals s" "revision_requests s' = revision_requests s"
      and dr: "drawn s < drawn s'" "rng s' = rng s"
    have rv: "review_inv s' \<and> review_evolve s s'"
      using review_scope_step[OF field_invD(1)[OF inv]] scope_frame_sound[OF field_invD(4)[OF inv] fr] same by simp
    have id: "cr_id r = rng s (drawn s)" "cr_result_scope_version_id r = None" "cr_job_id r = job"
        "cr_base_scope_version_id r = cpc_base_scope_version_id cmd"
      by (simp_all add: r new_change_request_def)
    show ?thesis
    proof (rule field_step_append[OF inv rv results_fresh_same[OF same(1)] tab])
      show "cr_id r \<notin> drawn_ids s" using uuid4_fresh[OF scope_invD(1)[OF field_invD(4)[OF inv]]] id by simp
      show "cr_id r \<in> drawn_ids s'" using id dr by (auto simp: drawn_ids_def)
      have "pd_base_amount_krw d + sum_list (map qa_amount_krw (pd_adjustments d)) = pd_total_amount_krw d"
        using quote by (simp add: quote_ok_def quote_from_change_detail_def)
      then show "[d] = [] \<or> (\<exists>e. [d] = [e] \<and> pd_change_request_id e = cr_id r \<and>
          pd_base_amount_krw e + sum_list (map qa_amount_krw (pd_adjustments e)) = pd_total_amount_krw e \<and>
          effective_total_amount (cr_job_id r) (cr_base_scope_version_id r) s = Inr (pd_base_amount_krw e))"
        using fresh(6) base id by (simp add: d new_detail_def)
    qed (rule id(2))
  qed
qed

lemma frame_sound:
  assumes inv: "field_inv s" and fr: "scope_frame s s'"
    and tab: "change_requests s' = change_requests s" "proposal_details s' = proposal_details s"
      "scope_proposals s' = scope_proposals s" "revision_requests s' = revision_requests s"
  shows "field_inv s' \<and> field_evolve s s'"
  using field_step_same[OF inv _ results_fresh_same tab(1,2)]
    review_scope_step[OF field_invD(1)[OF inv]] scope_frame_sound[OF field_invD(4)[OF inv] fr] tab by simp

lemma create_issue_sound:
  assumes "field_inv s" "create_field_issue job pid cmd now s = Inr (resp, s')"
  shows "field_inv s' \<and> field_evolve s s'"
proof (cases "find (\<lambda>q. fi_job_id q = job \<and> fi_client_reference q = fic_client_reference cmd) (field_issues s)")
  case None
  obtain s2 where "insert_field_issue (new_field_issue (rng s (drawn s)) job pid cmd now) (fic_evidence_media_asset_ids cmd)
      (s\<lparr>drawn := Suc (drawn s)\<rparr>) = Inr s2" "s' = s2"
    using assms(2) None by (auto simp: create_field_issue_def bindR_Inr uuid4_def Let_def split: if_splits sum.splits)
  then show ?thesis
    by (intro frame_sound[OF assms(1)]) (auto simp: insert_field_issue_def scope_frame_def split: if_splits)
next
  case (Some q)
  then show ?thesis using assms by (auto simp: create_field_issue_def split: if_splits)
qed

lemma load_proposal_row:
  assumes "load_proposal job i s = Inr (d, r, issue)"
  shows "row pd_change_request_id i (proposal_details s) = Some d" "row cr_id i (change_requests s) = Some r"
    "cr_job_id r = job" "load_change_request job i s = Inr r"
proof -
  show "row pd_change_request_id i (proposal_details s) = Some d" "row cr_id i (change_requests s) = Some r" "cr_job_id r = job"
    using assms by (auto simp: load_proposal_def split: option.splits if_splits)
  then show "load_change_request job i s = Inr r" by (simp add: load_change_request_def)
qed

lemma approve_other:
  assumes "approve_scope_version job vid pid role trace now s = Inr (res, s')"
  shows "change_requests s' = change_requests s \<and> proposal_details s' = proposal_details s"
proof -
  obtain v s3 where v: "row sv_id vid (scope_versions s) = Some v" and s3: "approved_state job v pid role trace now s = Inr s3"
    and s': "s' = put_version (approved_version v role now s) s3\<lparr>scope_approvals := scope_approvals s @
               [new_approval (rng s (drawn s)) vid pid role now]\<rparr>"
    by (rule approve_cases[OF assms])
  have "proposal_details s3 = proposal_details s"
  proof (cases "completes_approval (sv_id v) role s")
    case True
    let ?s2 = "add_audit_event job AU_SCOPE_VERSION_APPROVED (Some pid)
        [(''scope_version_id'', id_json (sv_id v)), (''role'', JStr (role_value role))] now (s\<lparr>drawn := Suc (drawn s)\<rparr>)"
    have l: "lock_scope_version job (approved_version v role now s) pid trace now ?s2 = Inr s3"
      using s3 True by (simp add: approved_state_def Let_def)
    show ?thesis by (rule lock_version_spec[OF l]) simp
  next
    case False
    then show ?thesis using s3 by (auto simp: approved_state_def Let_def)
  qed
  then show ?thesis using approved_state_tables[OF s3] by (simp add: s' put_version_def)
qed

lemma approve_field_sound:
  assumes "field_inv s" "approve_scope_version job vid pid role trace now s = Inr (res, s')"
  shows "field_inv s' \<and> field_evolve s s'"
  using field_step_same[OF assms(1) _ results_fresh_same] review_scope_step[OF field_invD(1)[OF assms(1)]]
    approve_sound[OF field_invD(4)[OF assms(1)] assms(2)] approve_tables[OF assms(2)] approve_other[OF assms(2)] by simp

lemma approve_result_cases:
  assumes "approve_result job r pid trace now s = Inr s'"
  obtains v res1 s1 res2 where "cr_result_scope_version_id r = Some v"
    "approve_scope_version job v (cr_requested_by_participant_id r) COMPANY_MANAGER None now s = Inr (res1, s1)"
    "approve_scope_version job v pid CUSTOMER (Some trace) now s1 = Inr (res2, s')"
  using assms that by (auto simp: approve_result_def bindR_Inr split: option.splits)

lemma decide_proposal_cases:
  assumes "decide_change_proposal job i pid cmd trace now s = Inr (resp, s')"
  obtains (replay) d r issue where "load_proposal job i s = Inr (d, r, issue)" "cr_status r \<noteq> CR_PENDING"
      "matches_decision_replay r cmd" "resp = decision_response r" "s' = s"
  | (clarified) d r issue msg upd where "load_proposal job i s = Inr (d, r, issue)" "cr_status r = CR_PENDING"
      "cpd_decision cmd = CP_REQUEST_CLARIFICATION" "cpd_note cmd = Some msg"
      "request_change_clarification job i pid msg now s = Inr (upd, s')" "resp = decision_response (crr_request upd)"
  | (approved) d r issue upd s1 where "load_proposal job i s = Inr (d, r, issue)" "cr_status r = CR_PENDING"
      "cpd_decision cmd = CP_APPROVE" "evidence_ready (pd_field_issue_id d) s"
      "decide_change_request job i pid \<lparr>cdc_decision = APPROVE, cdc_note = cpd_note cmd\<rparr> now s = Inr (upd, s1)"
      "approve_result job (crr_request upd) pid trace now s1 = Inr s'" "resp = decision_response (crr_request upd)"
  | (rejected) d r issue upd where "load_proposal job i s = Inr (d, r, issue)" "cr_status r = CR_PENDING"
      "cpd_decision cmd = CP_REJECT"
      "decide_change_request job i pid \<lparr>cdc_decision = REJECT, cdc_note = cpd_note cmd\<rparr> now s = Inr (upd, s')"
      "resp = decision_response (crr_request upd)"
proof -
  obtain d r issue where l: "load_proposal job i s = Inr (d, r, issue)"
    using assms by (auto simp: decide_change_proposal_def bindR_Inr split: if_splits)
  show thesis
  proof (cases "cr_status r = CR_PENDING")
    case False
    then show ?thesis using replay[OF l] assms l by (auto simp: decide_change_proposal_def split: if_splits)
  next
    case pending: True
    show ?thesis
    proof (cases "cpd_decision cmd")
      case CP_APPROVE
      then show ?thesis using approved[OF l pending CP_APPROVE] assms l pending
        by (auto simp: decide_change_proposal_def bindR_Inr split: if_splits sum.splits exn.splits)
    next
      case CP_REJECT
      then show ?thesis using rejected[OF l pending CP_REJECT] assms l pending
        by (auto simp: decide_change_proposal_def bindR_Inr split: if_splits sum.splits exn.splits)
    next
      case CP_REQUEST_CLARIFICATION
      then show ?thesis using clarified[OF l pending CP_REQUEST_CLARIFICATION] assms l pending
        by (auto simp: decide_change_proposal_def bindR_Inr split: if_splits option.splits)
    qed
  qed
qed

lemma decide_proposal_sound:
  assumes inv: "field_inv s" and dc: "decide_change_proposal job i pid cmd trace now s = Inr (resp, s')"
  shows "field_inv s' \<and> field_evolve s s'"
  using dc
proof (cases rule: decide_proposal_cases)
  case (replay d r issue)
  then show ?thesis using inv by simp
next
  case (clarified d r issue msg upd)
  show ?thesis by (rule clarify_sound[OF inv clarified(5)])
next
  case (approved d r issue upd s1)
  note d1 = decide_field_sound[OF inv approved(5)]
  obtain v res1 s2 res2 where a: "approve_scope_version job v (cr_requested_by_participant_id (crr_request upd)) COMPANY_MANAGER
       None now s1 = Inr (res1, s2)"
    and b: "approve_scope_version job v pid CUSTOMER (Some trace) now s2 = Inr (res2, s')"
    by (rule approve_result_cases[OF approved(6)])
  note a1 = approve_field_sound[OF conjunct1[OF d1] a]
  note b1 = approve_field_sound[OF conjunct1[OF a1] b]
  show ?thesis using d1 a1 b1 field_evolve_trans by blast
next
  case (rejected d r issue upd)
  show ?thesis by (rule decide_field_sound[OF inv rejected(4)])
qed

lemma explain_proposal_sound:
  assumes inv: "field_inv s" and ex: "explain_change_proposal job i pid explanation now s = Inr (resp, s')"
  shows "field_inv s' \<and> field_evolve s s'"
proof -
  obtain d r issue where l: "load_proposal job i s = Inr (d, r, issue)"
    using ex by (auto simp: explain_change_proposal_def bindR_Inr split: if_splits)
  show ?thesis
  proof (cases "cr_status r = CR_PENDING \<and> cr_explanation r = Some explanation")
    case True
    then show ?thesis using ex l inv by (auto simp: explain_change_proposal_def bindR_Inr split: if_splits)
  next
    case False
    let ?r = "r\<lparr>cr_status := CR_PENDING, cr_explanation := Some explanation, cr_explained_at := Some now\<rparr>"
    have st: "cr_status r = CR_CLARIFICATION_REQUESTED" and s': "s' = add_audit_event job AU_CHANGE_EXPLAINED (Some pid)
        [(''change_request_id'', id_json i)] now (put_request ?r s)"
      using ex l False by (auto simp: explain_change_proposal_def bindR_Inr Let_def split: if_splits)
    have nd: "\<not> decided r" using st by (simp add: decided_def)
    have "cr_result_scope_version_id r = None"
      by (rule loaded_result[OF field_invD(2)[OF inv] load_proposal_row(4)[OF l] nd])
    then show ?thesis
      unfolding s' by (intro request_written_sound[OF inv load_proposal_row(4)[OF l] nd])
        (use nd in \<open>simp_all add: request_step_def\<close>)
  qed
qed

section \<open>Everything that can happen to an agreement\<close>

text \<open>Scope and review operations that leave requests alone, the plain change request workflow of
  the scope component, and the commands of this one.\<close>

inductive field_op :: "db \<Rightarrow> db \<Rightarrow> bool" where
  fop_review: "review_op s s' \<Longrightarrow> change_requests s' = change_requests s \<Longrightarrow>
     proposal_details s' = proposal_details s \<Longrightarrow> field_op s s'"
| fop_request: "create_change_request job p rcmd tr now s = Inr (rresp, s') \<Longrightarrow> field_op s s'"
| fop_clarify: "request_change_clarification job i p msg now s = Inr (rresp, s') \<Longrightarrow> field_op s s'"
| fop_explain: "explain_change_request job i p msg now s = Inr (rresp, s') \<Longrightarrow> field_op s s'"
| fop_decide: "decide_change_request job i p dec now s = Inr (rresp, s') \<Longrightarrow> field_op s s'"
| fop_issue: "create_field_issue job p icmd now s = Inr (iresp, s') \<Longrightarrow> field_op s s'"
| fop_propose: "create_change_proposal job p pcmd trace now s = Inr (presp, s') \<Longrightarrow> field_op s s'"
| fop_decision: "decide_change_proposal job i p dcmd trace now s = Inr (dresp, s') \<Longrightarrow> field_op s s'"
| fop_explanation: "explain_change_proposal job i p msg now s = Inr (presp, s') \<Longrightarrow> field_op s s'"

lemma review_field_sound:
  assumes "field_inv s" "review_op s s'" "change_requests s' = change_requests s" "proposal_details s' = proposal_details s"
  shows "field_inv s' \<and> field_evolve s s'"
  by (rule field_step_same[OF assms(1) review_op_sound[OF assms(2) field_invD(1)[OF assms(1)]]
        review_results_fresh[OF assms(2) field_invD(1)[OF assms(1)]] assms(3,4)])

lemmas field_sound = review_field_sound create_request_sound clarify_sound explain_sound decide_field_sound
  create_issue_sound create_change_proposal_sound decide_proposal_sound explain_proposal_sound

lemma field_op_sound: "field_op s s' \<Longrightarrow> field_inv s \<Longrightarrow> field_inv s' \<and> field_evolve s s'"
  by (induction rule: field_op.induct) (rule field_sound; assumption)+

lemma field_ops_sound: "field_op\<^sup>*\<^sup>* s s' \<Longrightarrow> field_inv s \<Longrightarrow> field_inv s' \<and> field_evolve s s'"
proof (induction rule: rtranclp_induct)
  case (step y z)
  then show ?case using field_op_sound field_evolve_trans by blast
qed simp

section \<open>Properties\<close>

text \<open>The agreed price of a version is settled once. Whatever proposals, requests,
  decisions and scope operations follow, the total that a confirmed quote or an approved change
  gave to a version is the total every later quote has to start from.\<close>

theorem agreed_price_stable:
  assumes "field_inv s" "effective_total_amount job i s = Inr n" "field_op\<^sup>*\<^sup>* s s'"
  shows "effective_total_amount job i s' = Inr n"
proof -
  note s' = field_ops_sound[OF assms(3,1)]
  show ?thesis
    using effective_stable[OF field_invD(1,2)[OF assms(1)] field_invD(1,2)[OF conjunct1[OF s']] conjunct2[OF s'] assms(2)] .
qed

text \<open>Both approvals of the version a decision made.\<close>

lemma approve_both:
  assumes inv: "field_inv s" and v: "row sv_id i (scope_versions s) = Some v" and none: "approval_roles_of i s = []"
    and a: "approve_scope_version job i p COMPANY_MANAGER None now s = Inr (res1, s1)"
    and b: "approve_scope_version job i q CUSTOMER (Some trace) now s1 = Inr (res2, s2)"
  shows "row sv_id i (scope_versions s2) = Some (v\<lparr>sv_locked_at := Some now\<rparr>) \<and>
    {CUSTOMER, COMPANY_MANAGER} \<subseteq> set (approval_roles_of i s2)"
proof -
  note a1 = approve_field_sound[OF inv a] and ra = approve_row[OF a v]
  have id: "sv_id v = i" using row_key[OF v] .
  have "\<not> completes_approval i COMPANY_MANAGER s" using none by (auto simp: completes_approval_def)
  then have v1: "row sv_id i (scope_versions s1) = Some v" using ra by (simp add: approved_version_def id)
  note rb = approve_row[OF b v1]
  have roles1: "approval_roles_of i s1 = [COMPANY_MANAGER]"
    using ra none by (auto simp: approval_roles_of_def new_approval_def)
  then have "completes_approval i CUSTOMER s1" using customer_completes[OF field_invD(4)[OF conjunct1[OF a1]]] by simp
  then show ?thesis
    using rb roles1 by (auto simp: approved_version_def id approval_roles_of_def new_approval_def)
qed

text \<open>Property C10: approving a change moves scope and price together. The customer's approval
  of a pending proposal makes its content the next version of the job, the child of the version
  it was raised against; both sides have approved that version and it is locked; and the total
  agreed for it is the total agreed for the base plus the adjustments of the quote.\<close>

theorem approved_change_moves_price:
  assumes inv: "field_inv s" and l: "load_proposal job i s = Inr (d, r, issue)" and pend: "cr_status r = CR_PENDING"
    and app: "cpd_decision cmd = CP_APPROVE"
    and dc: "decide_change_proposal job i pid cmd trace now s = Inr (resp, s')"
  shows "\<exists>base v n. row sv_id (cr_base_scope_version_id r) (scope_versions s) = Some base \<and>
    cpx_result_scope_version_id resp = Some (sv_id v) \<and> row sv_id (sv_id v) (scope_versions s') = Some v \<and>
    sv_parent_version_id v = Some (sv_id base) \<and> sv_sequence_number v = sv_sequence_number base + 1 \<and>
    sc_items (sv_content v) = sort_key item_key (sc_items (cr_proposed_content r)) \<and> sv_locked_at v = Some now \<and>
    {CUSTOMER, COMPANY_MANAGER} \<subseteq> set (approval_roles_of (sv_id v) s') \<and>
    effective_total_amount job (cr_base_scope_version_id r) s = Inr n \<and>
    effective_total_amount job (sv_id v) s' = Inr (n + sum_list (map qa_amount_krw (pd_adjustments d)))"
  using dc
proof (cases rule: decide_proposal_cases)
  case (approved d1 r1 issue1 upd s1)
  note lr = load_proposal_row[OF l]
  note dec = decide_field_sound[OF inv approved(5)]
  show ?thesis
    using approved(5)
  proof (cases rule: decide_cases)
    case (rejected q q')
    then show ?thesis by simp
  next
    case inner: (approved q q' w s0)
    have q: "q = r" using inner(1) lr(4) by simp
    obtain c seq x where c: "with_location_condition_snapshot job (cr_proposed_content r) s = Inr c"
        "next_sequence_number job (Some (cr_base_scope_version_id r)) True s = Inr seq"
      and x: "x = new_scope_version (rng s (drawn s)) job (Some (cr_base_scope_version_id r)) seq
        (normalize_scope_content c) (content_hash_of (normalize_scope_content c) s) None (Some pid) now"
      and s0: "s0 = add_audit_event job AU_SCOPE_VERSION_CREATED (Some pid) (version_payload x) now
        (s\<lparr>drawn := Suc (drawn s), scope_versions := scope_versions s @ [x]\<rparr>)" and w: "w = scope_version_response x s0"
      by (rule create_version_cases[OF inner(4)]) (use q that in blast)
    obtain base where base: "row sv_id (cr_base_scope_version_id r) (scope_versions s) = Some base" "seq = sv_sequence_number base + 1"
      using c(2) by (cases rule: next_sequence_cases) auto
    have wid: "svr_id w = sv_id x" by (simp add: w scope_version_response_def)
    have s1v: "scope_versions s1 = scope_versions s @ [x]" "scope_approvals s1 = scope_approvals s"
      "change_requests s1 = put_row cr_id q' (change_requests s)"
      by (simp_all add: inner(7) s0 put_request_def)
    have x1: "row sv_id (sv_id x) (scope_versions s1) = Some x"
      using row_of_mem[OF scope_invD(2)[OF field_invD(4)[OF conjunct1[OF dec]]], of x] s1v(1) by simp
    have none: "approval_roles_of (sv_id x) s1 = []"
    proof -
      have "sa_scope_version_id a \<noteq> sv_id x" if mem: "a \<in> set (scope_approvals s)" for a
      proof
        assume "sa_scope_version_id a = sv_id x"
        then obtain v where "row sv_id (sv_id x) (scope_versions s) = Some v"
          using version_of_approval[OF field_invD(4)[OF inv] mem] by auto
        then have "sv_id x \<in> sv_id ` set (scope_versions s)" by (metis row_SomeD imageI)
        then show False using new_version_unknown[OF field_invD(4)[OF inv]] by (simp add: x new_scope_version_def)
      qed
      then show ?thesis by (auto simp: approval_roles_of_def s1v(2) filter_empty_conv)
    qed
    have upd: "crr_request upd = q'" using inner(6) by (simp add: change_request_response_def)
    obtain v res1 s2 res2 where v: "cr_result_scope_version_id q' = Some v"
      and a: "approve_scope_version job v (cr_requested_by_participant_id q') COMPANY_MANAGER None now s1 = Inr (res1, s2)"
      and b: "approve_scope_version job v pid CUSTOMER (Some trace) now s2 = Inr (res2, s')"
      by (rule approve_result_cases[OF approved(6)[unfolded upd]])
    have vid: "v = sv_id x" using v wid by (simp add: inner(5))
    note both = approve_both[OF conjunct1[OF dec] x1 none a[unfolded vid] b[unfolded vid]]
    let ?v = "x\<lparr>sv_locked_at := Some now\<rparr>"
    have inv': "field_inv s'" using decide_proposal_sound[OF inv dc] by simp
    have d: "d \<in> set (proposal_details s')" "d \<in> set (proposal_details s)"
      using row_mem[OF lr(1)] decide_proposal_sound[OF inv dc] by (auto simp: field_evolve_def)
    have rq: "row cr_id (pd_change_request_id d) (change_requests s') = Some q'"
    proof -
      have "row cr_id i (change_requests s1) = Some q'"
        using lr(2) row_key[OF lr(2)] by (simp add: s1v(3) row_put_row inner(5) q)
      then show ?thesis using approve_other[OF a] approve_other[OF b] row_key[OF lr(1)] by simp
    qed
    have tot: "effective_total_amount job (sv_id x) s' = Inr (pd_total_amount_krw d)"
      using changed_totalI[OF field_invD(2)[OF inv'] d(1) rq, of "sv_id x"] v vid lr(3) by (simp add: inner(5) q)
    have pr: "effective_total_amount job (cr_base_scope_version_id r) s = Inr (pd_base_amount_krw d)"
      "pd_base_amount_krw d + sum_list (map qa_amount_krw (pd_adjustments d)) = pd_total_amount_krw d"
      using field_invD(3)[OF inv d(2)] lr row_key[OF lr(1)] by (auto simp: priced_def)
    have items: "sc_items (sv_content ?v) = sort_key item_key (sc_items (cr_proposed_content r))"
      using snapshot_items[OF c(1)] by (simp add: x new_scope_version_def normalize_scope_content_def)
    show ?thesis
      by (rule exI[of _ base], rule exI[of _ ?v], rule exI[of _ "pd_base_amount_krw d"])
        (use both base row_key[OF base(1)] items tot pr v vid approved(7) upd in
          \<open>simp add: decision_response_def x new_scope_version_def\<close>)
  qed
qed (use l pend app in auto)

text \<open>A decision is final and its repetition harmless. Once a customer approved or
  rejected a change, the same decision sent again at any later time, by any customer of the
  job, gets the same answer and changes nothing; a different one is refused.\<close>

theorem decision_is_final:
  assumes inv: "field_inv s" and dc: "decide_change_proposal job i pid cmd trace now s = Inr (resp, s1)"
    and dec: "cpd_decision cmd \<in> {CP_APPROVE, CP_REJECT}" and ops: "field_op\<^sup>*\<^sup>* s1 s2"
    and who: "is_participant job pid' {CUSTOMER} s2" "isOk (load_proposal job i s2)"
  shows "decide_change_proposal job i pid' cmd trace' later s2 = Inr (resp, s2) \<and>
    (\<forall>cmd'. cpd_decision cmd' \<noteq> cpd_decision cmd \<longrightarrow>
       decide_change_proposal job i pid' cmd' trace' later s2 = Inl FieldChangeConflictError)"
proof -
  have s1: "field_inv s1" using decide_proposal_sound[OF inv dc] by simp
  have "\<exists>r. row cr_id i (change_requests s1) = Some r \<and> decided r \<and> resp = decision_response r \<and> matches_decision_replay r cmd"
    using dc
  proof (cases rule: decide_proposal_cases)
    case (replay d r issue)
    then show ?thesis
      using load_proposal_row(2)[OF replay(1)] dec by (auto simp: decided_def split: proposal_decision.splits)
  next
    case (clarified d r issue msg upd)
    then show ?thesis using dec by simp
  next
    case (approved d r issue upd s0)
    obtain q q' where q: "load_change_request job i s = Inr q" "cr_id q' = cr_id q" "crr_request upd = q'"
        "cr_status q' = CR_APPROVED" "cr_decision_note q' = cpd_note cmd" "row cr_id i (change_requests s0) = Some q'"
      using approved(5)
    proof (cases rule: decide_cases)
      case (approved q q' w s2)
      show ?thesis
        by (rule that[OF approved(1)]) (use approved load_request_row[OF approved(1)] create_version_requests[OF approved(4)] in
            \<open>simp_all add: change_request_response_def row_put_row\<close>)
    qed simp
    obtain v res1 s3 res2 where a: "approve_scope_version job v (cr_requested_by_participant_id (crr_request upd)) COMPANY_MANAGER
         None now s0 = Inr (res1, s3)"
      and b: "approve_scope_version job v pid CUSTOMER (Some trace) now s3 = Inr (res2, s1)"
      by (rule approve_result_cases[OF approved(6)])
    show ?thesis
      using q approve_other[OF a] approve_other[OF b] approved(3,7) by (simp add: decided_def)
  next
    case (rejected d r issue upd)
    show ?thesis
      using rejected(4)
    proof (cases rule: decide_cases)
      case inner: (rejected q q')
      then show ?thesis
        using load_request_row[OF inner(1)] rejected(3,5)
        by (simp add: decided_def change_request_response_def row_put_row)
    qed simp
  qed
  then obtain r where r: "row cr_id i (change_requests s1) = Some r" "decided r" "resp = decision_response r"
      "matches_decision_replay r cmd" by blast
  obtain r2 where "row cr_id i (change_requests s2) = Some r2" "request_step r r2"
    using field_ops_sound[OF ops s1] r(1) unfolding field_evolve_def by blast
  then have r2: "row cr_id i (change_requests s2) = Some r" using r(2) by (simp add: request_step_def)
  obtain d issue where l: "load_proposal job i s2 = Inr (d, r, issue)"
    using who(2) r2 load_proposal_row(2) by (fastforce simp: isOk_iff)
  have st: "cr_status r \<noteq> CR_PENDING" using r(2) by (auto simp: decided_def)
  have "\<not> matches_decision_replay r cmd'" if "cpd_decision cmd' \<noteq> cpd_decision cmd" for cmd'
    using r(2,4) dec that by (cases "cpd_decision cmd'") (auto simp: decided_def)
  then show ?thesis using who(1) l st r(3,4) by (simp add: decide_change_proposal_def)
qed

section \<open>A sample change\<close>

text \<open>Job 11 runs on the locked version 31, confirmed for 120 (proposal 40). A field issue with
  validated evidence has become change proposal 70, which adds 30.\<close>

definition sample_change :: ChangeRequest where
  "sample_change = new_change_request 70 11 13 \<lparr>crc_base_scope_version_id = 31, crc_description = ''more'',
     crc_proposed_content = sample_content ''b'' 6, crc_evidence_media_asset_ids = [60]\<rparr> 9"

definition sample_detail :: ChangeProposalDetail where
  "sample_detail = \<lparr>pd_change_request_id = 70, pd_field_issue_id = 50, pd_title = ''t'', pd_base_amount_krw = 120,
     pd_adjustments = [\<lparr>qa_label = ''extra'', qa_amount_krw = 30\<rparr>], pd_total_amount_krw = 150, pd_created_at = 9\<rparr>"

definition sample_field :: db where
  "sample_field = (empty_db (\<lambda>n. n) (\<lambda>t. replicate 64 CHR ''a''))\<lparr>drawn := 100,
     participants := [sample_person 12 11 CUSTOMER, sample_person 13 11 COMPANY_MANAGER],
     locations := [\<lparr>loc_id = 5, loc_job_id = 11, loc_kind = ORIGIN, loc_label = ''home'', loc_detail_address = None,
       loc_conditions = default_conditions, loc_created_at = 0\<rparr>],
     room_zones := [\<lparr>rz_id = 6, rz_location_id = 5, rz_name = ''room'', rz_sort_order = 0, rz_created_at = 0\<rparr>],
     scope_versions := [sample_version 30 11 12 None,
       (sample_version 31 11 13 (Some 8))\<lparr>sv_parent_version_id := Some 30, sv_sequence_number := 2\<rparr>],
     scope_approvals := [new_approval 20 31 13 COMPANY_MANAGER 7, new_approval 21 31 12 CUSTOMER 8],
     scope_proposals := [(new_proposal 40 11 13 31 INITIAL (sample_command 30) 7)\<lparr>sp_status := SP_CONFIRMED,
       sp_confirmed_at := Some 8\<rparr>],
     field_issues := [\<lparr>fi_id = 50, fi_job_id = 11, fi_client_reference = 51, fi_base_scope_version_id = 31,
       fi_reported_by_participant_id = 13, fi_issue_type = DAMAGE_RISK, fi_title = ''t'', fi_description = ''d'', fi_created_at = 8\<rparr>],
     field_issue_evidence := [\<lparr>fe_field_issue_id = 50, fe_media_asset_id = 60\<rparr>],
     media_assets := [\<lparr>ma_id = 60, ma_capture_session_id = 61, ma_room_zone_id = 6, ma_media_purpose = CHANGE_EVIDENCE,
       ma_status = READY, ma_object_key = ''k'', ma_content_type = ''image/png'', ma_expected_size_bytes = 9,
       ma_actual_size_bytes = Some 9, ma_sha256_hex = None, ma_generation = Some ''g'', ma_created_at = 0,
       ma_uploaded_at = Some 1\<rparr>],
     change_requests := [sample_change], proposal_details := [sample_detail]\<rparr>"

lemmas sample_field_defs = sample_field_def sample_review_defs sample_change_def sample_detail_def new_change_request_def

lemma sample_field_scope: "scope_inv sample_field"
  by (auto simp: scope_inv_def fresh_supply_def version_ok_def approval_ok_def parent_ok_def scope_version_check_def
      content_hash_of_def approval_roles_of_def is_participant_def drawn_ids_def scope_approval_check_def sample_field_defs)

lemma sample_field_inv: "field_inv sample_field"
proof -
  have "review_inv sample_field"
    using sample_field_scope
    by (simp add: review_inv_def proposal_ok_def scope_proposal_check_def revision_matches_def revision_for_proposal_def
        approval_roles_of_def sample_field_defs) (simp add: drawn_ids_def)
  moreover have "money_inv sample_field"
    by (simp add: money_inv_def request_ok_def sample_field_defs) (simp add: drawn_ids_def)
  moreover have "\<forall>d \<in> set (proposal_details sample_field). priced sample_field d"
    by (simp add: priced_def effective_total_amount_def initial_total_def sample_field_defs)
  ultimately show ?thesis by (simp add: field_inv_def)
qed

lemma sample_field_load: "\<exists>issue. load_proposal 11 70 sample_field = Inr (sample_detail, sample_change, issue)"
  by (simp add: load_proposal_def sample_field_defs)

definition approve_decision :: ChangeProposalDecisionCreate where
  "approve_decision = \<lparr>cpd_decision = CP_APPROVE, cpd_note = None\<rparr>"

lemma sample_hash: "hash_text (replicate 64 CHR ''a'')"
  by (simp add: hash_text_def is_lower_hex_def in_range_def list.pred_set)

lemma sample_trace: "trace_text (replicate 32 CHR ''a'')"
  by (simp add: trace_text_def is_lower_hex_def in_range_def list.pred_set)

text \<open>Two approvals of a fresh head always go through.\<close>

lemma approve_keeps:
  assumes "approve_scope_version job vid pid role trace now s = Inr (res, s')" "row sv_id vid (scope_versions s) = Some v"
  shows "participants s' = participants s \<and> sha256_hex s' = sha256_hex s \<and> field_issues s' = field_issues s \<and>
    scope_versions s' = put_row sv_id (approved_version v role now s) (scope_versions s)"
proof -
  obtain v' s3 where a: "row sv_id vid (scope_versions s) = Some v'"
    and s3: "approved_state job v' pid role trace now s = Inr s3"
    and s': "s' = put_version (approved_version v' role now s) s3\<lparr>scope_approvals := scope_approvals s @
               [new_approval (rng s (drawn s)) vid pid role now]\<rparr>"
    by (rule approve_cases[OF assms(1)])
  have "field_issues s3 = field_issues s"
  proof (cases "completes_approval (sv_id v') role s")
    case True
    let ?s2 = "add_audit_event job AU_SCOPE_VERSION_APPROVED (Some pid)
        [(''scope_version_id'', id_json (sv_id v')), (''role'', JStr (role_value role))] now (s\<lparr>drawn := Suc (drawn s)\<rparr>)"
    have l: "lock_scope_version job (approved_version v' role now s) pid trace now ?s2 = Inr s3"
      using s3 True by (simp add: approved_state_def Let_def)
    show ?thesis by (rule lock_version_spec[OF l]) simp
  next
    case False
    then show ?thesis using s3 by (auto simp: approved_state_def Let_def)
  qed
  then show ?thesis using approved_state_tables[OF s3] a assms(2) by (simp add: s' put_version_def)
qed

lemma approve_result_returns:
  assumes inv: "field_inv s" and dg: "digests_ok s" and v: "row sv_id i (scope_versions s) = Some v"
    and head: "sv_job_id v = job" "sv_locked_at v = None" "sv_analysis_source v = None" "\<not> has_child i s"
      "approval_roles_of i s = []"
    and who: "is_participant job (cr_requested_by_participant_id r) {COMPANY_MANAGER} s" "is_participant job pid {CUSTOMER} s"
    and r: "cr_result_scope_version_id r = Some i" and t: "trace = [] \<or> trace_text trace"
  shows "\<exists>s'. approve_result job r pid trace now s = Inr s' \<and> participants s' = participants s \<and>
    field_issues s' = field_issues s"
proof -
  have id: "sv_id v = i" using row_key[OF v] .
  obtain res1 s1 where a: "approve_scope_version job i (cr_requested_by_participant_id r) COMPANY_MANAGER None now s = Inr (res1, s1)"
    using approve_returns[OF field_invD(4)[OF inv] dg v, of job "cr_requested_by_participant_id r" COMPANY_MANAGER None now] head who(1) id
    by (auto simp: approvable_def)
  note k1 = approve_keeps[OF a v] and ra = approve_row[OF a v]
  have nc: "\<not> completes_approval i COMPANY_MANAGER s" using head(5) by (auto simp: completes_approval_def)
  then have v1: "row sv_id i (scope_versions s1) = Some v" using ra by (simp add: approved_version_def id)
  have vs: "scope_versions s1 = scope_versions s"
    using k1 nc put_row_same[OF scope_invD(2)[OF field_invD(4)[OF inv]], of v] v by (simp add: approved_version_def id)
  have ap: "approvable job v pid CUSTOMER s1"
    using head who(2) ra k1 id vs
    by (auto simp: approvable_def is_participant_def has_child_def approval_roles_of_def new_approval_def)
  have dg1: "digests_ok s1" using dg k1 by (simp add: digests_ok_def)
  obtain res2 s2 where b: "approve_scope_version job i pid CUSTOMER (Some trace) now s1 = Inr (res2, s2)"
    using approve_returns[OF field_invD(4)[OF conjunct1[OF approve_field_sound[OF inv a]]] dg1 v1 ap, of "Some trace" now] t by auto
  show ?thesis using a b r k1 approve_keeps[OF b v1] by (simp add: approve_result_def)
qed

lemma sample_field_decision: "\<exists>upd s1. decide_change_request 11 70 12 \<lparr>cdc_decision = APPROVE, cdc_note = None\<rparr> 60 sample_field
    = Inr (upd, s1) \<and> scope_versions s1 = scope_versions sample_field @ [new_scope_version 100 11 (Some 31) 3
        (sample_content ''b'' 6) (replicate 64 CHR ''a'') None (Some 12) 60] \<and>
    scope_approvals s1 = scope_approvals sample_field \<and> participants s1 = participants sample_field \<and>
    sha256_hex s1 = sha256_hex sample_field \<and> cr_result_scope_version_id (crr_request upd) = Some 100 \<and>
    cr_requested_by_participant_id (crr_request upd) = 13 \<and> field_issues s1 = field_issues sample_field"
  by (simp add: decide_change_request_def decided_request_def load_change_request_def is_participant_def
      create_scope_version_def store_scope_version_def with_location_condition_snapshot_def validate_scope_zones_def
      zone_in_job_def next_sequence_number_def any_role_def has_child_def insert_scope_version_def
      scope_version_check_def scope_version_clash_def normalize_scope_content_def uuid4_def content_hash_of_def
      put_request_def change_request_response_def scope_version_response_def Let_def sample_field_defs)

lemma sample_field_decides: "\<exists>resp s'. decide_change_proposal 11 70 12 approve_decision (replicate 32 CHR ''a'') 60 sample_field
    = Inr (resp, s') \<and> is_participant 11 12 {CUSTOMER} s' \<and> isOk (load_proposal 11 70 s')"
proof -
  obtain upd s1 where d: "decide_change_request 11 70 12 \<lparr>cdc_decision = APPROVE, cdc_note = None\<rparr> 60 sample_field = Inr (upd, s1)"
    and s1: "scope_versions s1 = scope_versions sample_field @ [new_scope_version 100 11 (Some 31) 3
        (sample_content ''b'' 6) (replicate 64 CHR ''a'') None (Some 12) 60]" "scope_approvals s1 = scope_approvals sample_field"
      "participants s1 = participants sample_field" "sha256_hex s1 = sha256_hex sample_field"
      "cr_result_scope_version_id (crr_request upd) = Some 100" "cr_requested_by_participant_id (crr_request upd) = 13"
      "field_issues s1 = field_issues sample_field"
    using sample_field_decision by blast
  have inv1: "field_inv s1" using decide_field_sound[OF sample_field_inv d] by simp
  have dg: "digests_ok s1" using sample_hash by (simp add: digests_ok_def s1(4) sample_field_def empty_db_def)
  have v: "row sv_id 100 (scope_versions s1) = Some (new_scope_version 100 11 (Some 31) 3
        (sample_content ''b'' 6) (replicate 64 CHR ''a'') None (Some 12) 60)"
    by (simp add: s1(1) sample_field_defs)
  obtain s' where s': "approve_result 11 (crr_request upd) 12 (replicate 32 CHR ''a'') 60 s1 = Inr s'"
      "participants s' = participants s1" "field_issues s' = field_issues s1"
    using approve_result_returns[OF inv1 dg v, of 11 "crr_request upd" 12 "replicate 32 CHR ''a''" 60] s1 sample_trace
    by (auto simp: has_child_def approval_roles_of_def is_participant_def new_scope_version_def sample_field_defs)
  have l: "\<exists>issue. load_proposal 11 70 sample_field = Inr (sample_detail, sample_change, issue)" by (rule sample_field_load)
  have e: "evidence_ready 50 sample_field"
    by (simp add: evidence_ready_def issue_evidence_ids_def List.map_filter_def sample_field_defs)
  have p: "is_participant 11 12 {CUSTOMER} sample_field" "cr_status sample_change = CR_PENDING" "pd_field_issue_id sample_detail = 50"
    by (simp_all add: is_participant_def sample_field_defs)
  have dc: "decide_change_proposal 11 70 12 approve_decision (replicate 32 CHR ''a'') 60 sample_field
      = Inr (decision_response (crr_request upd), s')"
    using l e p d s'(1) by (auto simp: decide_change_proposal_def approve_decision_def)
  note ev = conjunct2[OF decide_proposal_sound[OF sample_field_inv dc]]
  have inv': "field_inv s'" using decide_proposal_sound[OF sample_field_inv dc] by simp
  have "row cr_id 70 (change_requests sample_field) = Some sample_change" by (simp add: sample_field_defs)
  then obtain r' where r': "row cr_id 70 (change_requests s') = Some r'" "request_step sample_change r'"
    using ev unfolding field_evolve_def by blast
  have "sample_detail \<in> set (proposal_details s')" using ev by (auto simp: field_evolve_def sample_field_def)
  then have "row pd_change_request_id 70 (proposal_details s') = Some sample_detail"
    using row_of_mem[OF money_invD(2)[OF field_invD(2)[OF inv']]] by (fastforce simp: sample_detail_def)
  then have "isOk (load_proposal 11 70 s')"
    using r' s'(3) s1(7) by (simp add: load_proposal_def request_step_def sample_field_defs)
  moreover have "is_participant 11 12 {CUSTOMER} s'" using p(1) s'(2) s1(3) by (simp add: is_participant_def)
  ultimately show ?thesis using dc by blast
qed

lemma agreed_price_stable_witness:
  "\<exists>resp s'. decide_change_proposal 11 70 12 approve_decision (replicate 32 CHR ''a'') 60 sample_field = Inr (resp, s') \<and>
     effective_total_amount 11 31 s' = Inr 120"
proof -
  obtain resp s' where d: "decide_change_proposal 11 70 12 approve_decision (replicate 32 CHR ''a'') 60 sample_field = Inr (resp, s')"
    using sample_field_decides by blast
  have e: "effective_total_amount 11 31 sample_field = Inr 120"
    by (simp add: effective_total_amount_def initial_total_def sample_field_defs)
  from agreed_price_stable[OF sample_field_inv e r_into_rtranclp[of field_op, OF fop_decision[OF d]]] d show ?thesis by blast
qed

lemma approved_change_moves_price_witness:
  "\<exists>resp s' (v :: ScopeVersion). decide_change_proposal 11 70 12 approve_decision (replicate 32 CHR ''a'') 60 sample_field = Inr (resp, s') \<and>
     sv_parent_version_id v = Some 31 \<and> effective_total_amount 11 (sv_id v) s' = Inr 150"
proof -
  obtain resp s' where d: "decide_change_proposal 11 70 12 approve_decision (replicate 32 CHR ''a'') 60 sample_field = Inr (resp, s')"
    using sample_field_decides by blast
  obtain issue where l: "load_proposal 11 70 sample_field = Inr (sample_detail, sample_change, issue)" using sample_field_load by blast
  have c: "cr_status sample_change = CR_PENDING" "cpd_decision approve_decision = CP_APPROVE"
    by (simp_all add: sample_change_def new_change_request_def approve_decision_def)
  have e: "effective_total_amount 11 (cr_base_scope_version_id sample_change) sample_field = Inr 120"
    "cr_base_scope_version_id sample_change = 31" "sum_list (map qa_amount_krw (pd_adjustments sample_detail)) = 30"
    by (simp_all add: effective_total_amount_def initial_total_def sample_field_defs)
  from approved_change_moves_price[OF sample_field_inv l c d] show ?thesis
  proof (elim exE conjE)
    fix base v :: ScopeVersion and n
    assume r: "row sv_id (cr_base_scope_version_id sample_change) (scope_versions sample_field) = Some base"
      and v: "sv_parent_version_id v = Some (sv_id base)"
      and n: "effective_total_amount 11 (cr_base_scope_version_id sample_change) sample_field = Inr n"
        "effective_total_amount 11 (sv_id v) s' = Inr (n + sum_list (map qa_amount_krw (pd_adjustments sample_detail)))"
    have "n = 120" "sv_id base = 31" using e(1,2) n(1) row_key[OF r] by simp_all
    then have "sv_parent_version_id v = Some 31 \<and> effective_total_amount 11 (sv_id v) s' = Inr 150" using v n(2) e(3) by simp
    then show ?thesis using d by blast
  qed
qed

lemma decision_is_final_witness:
  "\<exists>resp s'. decide_change_proposal 11 70 12 approve_decision (replicate 32 CHR ''a'') 60 sample_field = Inr (resp, s') \<and>
     decide_change_proposal 11 70 12 approve_decision [] 90 s' = Inr (resp, s')"
proof -
  obtain resp s' where d: "decide_change_proposal 11 70 12 approve_decision (replicate 32 CHR ''a'') 60 sample_field = Inr (resp, s')"
    and p: "is_participant 11 12 {CUSTOMER} s'" "isOk (load_proposal 11 70 s')"
    using sample_field_decides by blast
  have c: "cpd_decision approve_decision \<in> {CP_APPROVE, CP_REJECT}" by (simp add: approve_decision_def)
  from decision_is_final[OF sample_field_inv d c rtranclp.rtrancl_refl p, of "[]" 90] d show ?thesis by blast
qed

end
