(* ===== verification/DispatchProofs.thy ===== *)
theory DispatchProofs
  imports Dispatch FieldChangeProofs
begin

text \<open>
  Lemmas about dispatch: a confirmed selection passes the checks the manager sees, and the
  check-in is tied to the service day.
\<close>

section \<open>Selections and checks\<close>

lemma map_filter_all_known:
  "\<forall>i \<in> set xs. f i \<noteq> None \<Longrightarrow> length (List.map_filter f xs) = length xs \<and> set (List.map_filter f xs) = (the \<circ> f) ` set xs"
  by (induction xs) (auto simp: List.map_filter_simps split: option.splits)

lemma coverage_passes: "finite R \<Longrightarrow> dk_status (coverage_check k R A) = PASS \<longleftrightarrow> R \<subseteq> A"
  by (simp add: coverage_check_def pass_if_def Let_def)

lemma find_rev_distinct: "distinct (map k xs) \<Longrightarrow> find (\<lambda>x. k x = i) (rev xs) = find (\<lambda>x. k x = i) xs"
proof (cases "find (\<lambda>x. k x = i) xs")
  case None
  then have "find (\<lambda>x. k x = i) (rev xs) = None" by (simp add: find_None_iff)
  then show ?thesis using None by simp
next
  case (Some x)
  assume d: "distinct (map k xs)"
  have x: "x \<in> set xs" "k x = i" using find_mem[OF Some] by auto
  show ?thesis unfolding Some by (rule find_unique) (use x distinct_map_eq[OF d] in auto)
qed

text \<open>The validation of a selection and the checks shown for the plan made of it.\<close>

definition all_pass :: "DispatchCheck list \<Rightarrow> bool" where
  "all_pass cs = list_all (\<lambda>c. dk_status c = PASS) cs"

definition mapped_workers :: "DispatchSetup \<Rightarrow> uuid list \<Rightarrow> uuid \<Rightarrow> DispatchWorkerOption list" where
  "mapped_workers su ids participant_id = filter (\<lambda>w. wo_participant_id w = Some participant_id)
     (List.map_filter (worker_by_id (ds_worker_options su)) ids)"

lemma selection_checks:
  assumes "distinct (map vo_id (ds_vehicle_options su))"
  shows "validate_selection su cmd fw \<longleftrightarrow>
    (\<forall>i \<in> set (dcc_worker_ids cmd). worker_by_id (ds_worker_options su) i \<noteq> None) \<and>
    length (mapped_workers su (dcc_worker_ids cmd) fw) = 1 \<and>
    all_pass (dispatch_checks su (Some (new_plan i job pid su cmd h now)))"
proof (cases "\<forall>i \<in> set (dcc_worker_ids cmd). worker_by_id (ds_worker_options su) i \<noteq> None")
  case False
  then show ?thesis by (auto simp: validate_selection_def list_all_iff)
next
  case True
  let ?sel = "List.map_filter (worker_by_id (ds_worker_options su)) (dcc_worker_ids cmd)"
  note mf = map_filter_all_known[OF True]
  have len: "length ?sel = length (dcc_worker_ids cmd)" using mf by simp
  have avail: "list_all (\<lambda>i. case worker_by_id (ds_worker_options su) i of None \<Rightarrow> False | Some w \<Rightarrow> wo_available w)
      (dcc_worker_ids cmd) = list_all wo_available ?sel"
    using True mf by (fastforce simp: list_all_iff split: option.splits)
  have veh: "(case find (\<lambda>v. vo_id v = dcc_vehicle_id cmd) (rev (ds_vehicle_options su)) of
         None \<Rightarrow> False | Some v \<Rightarrow> vo_available v \<and> \<not> vo_capacity_m2 v < ds_required_vehicle_capacity_m2 su) =
      (case find (\<lambda>v. vo_id v = dcc_vehicle_id cmd) (ds_vehicle_options su) of None \<Rightarrow> False | Some v \<Rightarrow> vehicle_fits su v)"
    unfolding find_rev_distinct[OF assms] by (auto simp: vehicle_fits_def not_less split: option.splits)
  show ?thesis
    unfolding validate_selection_def veh avail all_pass_def dispatch_checks_def Let_def option.case
    using True by (simp add: new_plan_def len coverage_passes pass_if_def mapped_workers_def) blast
qed

section \<open>Confirming\<close>

lemma confirm_dispatch_cases:
  assumes "confirm_dispatch job pid cmd trace now s = Inr (plan, s')"
  obtains (replay) "plan_of_job job s = Some plan" "s' = s" "dp_confirmed_by_participant_id plan = pid"
      "dp_command_hash plan = command_hash (confirm_command_json cmd) s"
  | (fresh) su version fw ev where "plan_of_job job s = None" "row ds_id (dcc_setup_id cmd) (dispatch_setups s) = Some su"
      "ds_job_id su = job" "is_participant job pid {COMPANY_MANAGER} s"
      "dispatch_current_scope job (ds_source_scope_version_id su) s = Inr version" "field_worker_of job s = Some fw"
      "validate_selection su cmd (jp_id fw)"
      "plan = new_plan (rng s (drawn s)) job pid su cmd (command_hash (confirm_command_json cmd) s) now"
      "enqueue_domain_event DISPATCH_CONFIRMED_V1 job (Some pid) (Some trace) (plan_payload plan (jp_id fw)) now
         (s\<lparr>drawn := Suc (drawn s), dispatch_plans := dispatch_plans s @ [plan]\<rparr>) = Inr (ev, s')"
proof (cases "plan_of_job job s")
  case (Some p)
  then show ?thesis using assms replay by (auto simp: confirm_dispatch_def Let_def bindR_Inr split: if_splits)
next
  case None
  obtain su where s: "row ds_id (dcc_setup_id cmd) (dispatch_setups s) = Some su" "ds_job_id su = job"
      "is_participant job pid {COMPANY_MANAGER} s"
    using assms None by (auto simp: confirm_dispatch_def Let_def bindR_Inr split: if_splits option.splits)
  obtain version fw where v: "dispatch_current_scope job (ds_source_scope_version_id su) s = Inr version"
      "field_worker_of job s = Some fw" "validate_selection su cmd (jp_id fw)"
    using assms None s by (auto simp: confirm_dispatch_def Let_def bindR_Inr split: if_splits option.splits)
  let ?p = "new_plan (rng s (drawn s)) job pid su cmd (command_hash (confirm_command_json cmd) s) now"
  have st: "(case insert_plan ?p (s\<lparr>drawn := Suc (drawn s)\<rparr>) of Inl _ \<Rightarrow> Inl DispatchConflictError
      | Inr s2 \<Rightarrow> bindR (enqueue_domain_event DISPATCH_CONFIRMED_V1 job (Some pid) (Some trace)
           (plan_payload ?p (jp_id fw)) now s2) (\<lambda>(_, s3). Inr (?p, s3))) = Inr (plan, s')"
    using assms None s v by (auto simp: confirm_dispatch_def Let_def bindR_Inr uuid4_def split: if_splits)
  have ins: "insert_plan ?p (s\<lparr>drawn := Suc (drawn s)\<rparr>) = Inr (s\<lparr>drawn := Suc (drawn s), dispatch_plans := dispatch_plans s @ [?p]\<rparr>)"
  proof (cases "insert_plan ?p (s\<lparr>drawn := Suc (drawn s)\<rparr>)")
    case (Inl e)
    show ?thesis using st unfolding Inl sum.case by simp
  next
    case (Inr s3)
    then show ?thesis unfolding insert_plan_def by (simp split: if_splits)
  qed
  obtain ev where "plan = ?p" "enqueue_domain_event DISPATCH_CONFIRMED_V1 job (Some pid) (Some trace)
      (plan_payload ?p (jp_id fw)) now (s\<lparr>drawn := Suc (drawn s), dispatch_plans := dispatch_plans s @ [?p]\<rparr>) = Inr (ev, s')"
    using st unfolding ins sum.case bindR_Inr by auto
  then show ?thesis using fresh[OF None s v] by blast
qed

text \<open>Property C11: a dispatch is confirmed only when it can be carried out, and once. The plan
  quotes the current locked scope, passes every check the manager's view shows for it, includes
  the field worker's own entry exactly once, and is announced by exactly one event; sending the
  same confirmation again returns the same plan and announces nothing more.\<close>

theorem confirmed_dispatch_is_feasible:
  assumes "confirm_dispatch job pid cmd trace now s = Inr (plan, s')" "plan_of_job job s = None"
    and ids: "\<forall>su \<in> set (dispatch_setups s). distinct (map vo_id (ds_vehicle_options su))"
  shows "\<exists>su version fw ev. row ds_id (dp_setup_id plan) (dispatch_setups s) = Some su \<and>
    dispatch_current_scope job (dp_source_scope_version_id plan) s = Inr version \<and>
    all_pass (dispatch_checks su (Some plan)) \<and> field_worker_of job s = Some fw \<and>
    length (mapped_workers su (dp_selected_worker_option_ids plan) (jp_id fw)) = 1 \<and>
    outbox s' = outbox s @ [new_outbox_event ev] \<and> de_event_type ev = DISPATCH_CONFIRMED_V1 \<and>
    de_payload ev = plan_payload plan (jp_id fw) \<and>
    (isOk (load_dispatch_job job s') \<longrightarrow> confirm_dispatch job pid cmd trace' later s' = Inr (plan, s'))"
  using assms(1)
proof (cases rule: confirm_dispatch_cases)
  case replay
  then show ?thesis using assms(2) by simp
next
  case (fresh su version fw ev)
  have "distinct (map vo_id (ds_vehicle_options su))" using ids row_mem[OF fresh(2)] by blast
  then have sel: "length (mapped_workers su (dcc_worker_ids cmd) (jp_id fw)) = 1 \<and> all_pass (dispatch_checks su (Some plan))"
    using selection_checks fresh(7) unfolding fresh(8) by blast
  have plan: "dp_setup_id plan = ds_id su" "dp_source_scope_version_id plan = ds_source_scope_version_id su"
    "dp_selected_worker_option_ids plan = dcc_worker_ids cmd" "dp_job_id plan = job" "dp_confirmed_by_participant_id plan = pid"
    "dp_command_hash plan = command_hash (confirm_command_json cmd) s"
    by (simp_all add: fresh(8) new_plan_def)
  show ?thesis
  proof (rule enqueue_event_spec[OF fresh(9)])
    fix d assume s': "s' = s\<lparr>drawn := Suc (drawn s), dispatch_plans := dispatch_plans s @ [plan]\<rparr>
        \<lparr>drawn := d, outbox := outbox (s\<lparr>drawn := Suc (drawn s), dispatch_plans := dispatch_plans s @ [plan]\<rparr>) @ [new_outbox_event ev]\<rparr>"
      and ev: "de_event_type ev = DISPATCH_CONFIRMED_V1" "de_payload ev = plan_payload plan (jp_id fw)"
    have "plan_of_job job s' = Some plan"
      using fresh(1) plan(4) by (simp add: plan_of_job_def s' find_append)
    moreover have "command_hash (confirm_command_json cmd) s' = command_hash (confirm_command_json cmd) s"
      by (simp add: command_hash_def s')
    ultimately have "isOk (load_dispatch_job job s') \<longrightarrow> confirm_dispatch job pid cmd trace' later s' = Inr (plan, s')"
      using plan(5,6) by (auto simp: confirm_dispatch_def Let_def isOk_iff)
    then show ?thesis
      using fresh(2,5,6) sel plan ev row_key[OF fresh(2)]
      by (intro exI[of _ su] exI[of _ version] exI[of _ fw] exI[of _ ev]) (simp add: s')
  qed
qed

section \<open>Check-in\<close>

lemma div_pos_iff:
  assumes "(0::int) < n"
  shows "x div n = d \<longleftrightarrow> d * n \<le> x \<and> x < (d + 1) * n"
proof
  assume "x div n = d"
  then show "d * n \<le> x \<and> x < (d + 1) * n"
    using assms mult_div_mod_eq[of n x] pos_mod_bound[OF assms, of x] pos_mod_sign[OF assms, of x]
    by (simp add: algebra_simps)
next
  assume "d * n \<le> x \<and> x < (d + 1) * n"
  then show "x div n = d" by (intro int_div_pos_eq[of _ _ _ "x - d * n"]) (simp_all add: algebra_simps)
qed

lemma service_day_bounds:
  "field_service_date t = d \<longleftrightarrow> seconds (d * 86400 - 9 * 3600) \<le> t \<and> t < seconds ((d + 1) * 86400 - 9 * 3600)"
proof -
  have p: "(0::int) < seconds 86400" by simp
  have a: "seconds (x * 86400 - 9 * 3600) = x * seconds 86400 - seconds (9 * 3600)" for x
    by (simp add: seconds_def algebra_simps)
  have "(t + seconds (9 * 3600)) div seconds 86400 = d \<longleftrightarrow>
      d * seconds 86400 \<le> t + seconds (9 * 3600) \<and> t + seconds (9 * 3600) < (d + 1) * seconds 86400"
    by (rule div_pos_iff[OF p])
  then show ?thesis
    unfolding field_service_date_def a[of d] a[of "d + 1"] by (simp only: diff_le_eq less_diff_eq)
qed

section \<open>The dispatch tables\<close>

text \<open>Every plan passes its checks and holds a worker of the job once; every check-in names a worker
  of its plan, confirms the items of its setup and was made on the day of service.\<close>

definition plan_sound :: "db \<Rightarrow> DispatchPlan \<Rightarrow> bool" where
  "plan_sound s p = (\<exists>su \<in> set (dispatch_setups s). ds_id su = dp_setup_id p \<and> ds_job_id su = dp_job_id p \<and>
     ds_source_scope_version_id su = dp_source_scope_version_id p \<and> all_pass (dispatch_checks su (Some p)) \<and>
     (\<exists>fw. length (mapped_workers su (dp_selected_worker_option_ids p) fw) = 1))"

definition check_in_sound :: "db \<Rightarrow> FieldCheckIn \<Rightarrow> bool" where
  "check_in_sound s c = (\<exists>su \<in> set (dispatch_setups s). \<exists>p \<in> set (dispatch_plans s). \<exists>w.
     dp_id p = ci_dispatch_plan_id c \<and> dp_setup_id p = ds_id su \<and> dp_job_id p = ci_job_id c \<and>
     assigned_worker su p (ci_participant_id c) = Some w \<and> wo_id w = ci_worker_option_id c \<and>
     ci_confirmed_check_keys c = map ck_key (ds_check_in_items su) \<and>
     field_service_date (ci_checked_in_at c) = field_service_date (ds_start_at su))"

definition dispatch_inv :: "db \<Rightarrow> bool" where
  "dispatch_inv s = (fresh_supply s \<and> distinct (map ds_job_id (dispatch_setups s)) \<and>
     distinct (map dp_job_id (dispatch_plans s)) \<and>
     (\<forall>su \<in> set (dispatch_setups s). distinct (map vo_id (ds_vehicle_options su)) \<and> distinct (map wo_id (ds_worker_options su))) \<and>
     (\<forall>p \<in> set (dispatch_plans s). plan_sound s p) \<and> (\<forall>c \<in> set (field_check_ins s). check_in_sound s c))"

text \<open>What a dispatch step may do: the three tables only grow.\<close>

definition dispatch_grow :: "db \<Rightarrow> db \<Rightarrow> bool" where
  "dispatch_grow s s' = (rng s' = rng s \<and> drawn s \<le> drawn s' \<and> scope_versions s' = scope_versions s \<and>
     set (dispatch_setups s) \<subseteq> set (dispatch_setups s') \<and> set (dispatch_plans s) \<subseteq> set (dispatch_plans s'))"

lemma plan_sound_mono: "plan_sound s p \<Longrightarrow> set (dispatch_setups s) \<subseteq> set (dispatch_setups s') \<Longrightarrow> plan_sound s' p"
  unfolding plan_sound_def by blast

lemma check_in_sound_mono:
  "check_in_sound s c \<Longrightarrow> set (dispatch_setups s) \<subseteq> set (dispatch_setups s') \<Longrightarrow>
   set (dispatch_plans s) \<subseteq> set (dispatch_plans s') \<Longrightarrow> check_in_sound s' c"
  unfolding check_in_sound_def by (meson subsetD)

lemma dispatch_frame:
  assumes "dispatch_inv s" "rng s' = rng s" "dispatch_setups s' = dispatch_setups s"
    "dispatch_plans s' = dispatch_plans s" "field_check_ins s' = field_check_ins s"
  shows "dispatch_inv s'"
  using assms by (simp add: dispatch_inv_def fresh_supply_def plan_sound_def check_in_sound_def)

lemma with_ids_spec:
  "with_ids f xs s = (map (\<lambda>(k, x). f (rng s (drawn s + k)) x) (enumerate 0 xs), s\<lparr>drawn := drawn s + length xs\<rparr>)"
proof (induction xs arbitrary: s)
  case (Cons x xs)
  have "map (\<lambda>(k, x). f (rng s (Suc (drawn s) + k)) x) (enumerate 0 xs) =
      map (\<lambda>(k, x). f (rng s (drawn s + k)) x) (enumerate (Suc 0) xs)"
    by (rule nth_equalityI) (simp_all add: nth_enumerate_eq)
  then show ?case by (simp add: uuid4_def Let_def Cons.IH)
qed (simp add: enumerate_simps)

lemma with_ids_distinct:
  assumes "fresh_supply s" "\<And>i x. k (f i x) = i"
  shows "distinct (map k (fst (with_ids f xs s)))"
proof -
  have "map k (fst (with_ids f xs s)) = map (\<lambda>j. rng s (drawn s + j)) [0..<length xs]"
    by (rule nth_equalityI) (simp_all add: with_ids_spec assms(2) nth_enumerate_eq)
  then show ?thesis using assms(1) by (fastforce simp: fresh_supply_def distinct_map inj_on_def dest: injD)
qed

lemma create_setup_cases:
  assumes "create_dispatch_setup job pid cmd now s = Inr (r, s')"
  obtains (replay) "setup_of_job job s = Some r" "s' = s"
  | (fresh) n vs ws i start version h where "setup_of_job job s = None"
      "dispatch_current_scope job (dsc_source_scope_version_id cmd) s = Inr version"
      "r = new_setup i job pid cmd h start vs ws now"
      "vs = fst (with_ids vehicle_option (dsc_vehicles cmd) s)"
      "ws = fst (with_ids worker_option (dsc_workers cmd) (snd (with_ids vehicle_option (dsc_vehicles cmd) s)))"
      "\<not> list_ex (\<lambda>q. ds_job_id q = job) (dispatch_setups s)"
      "s' = s\<lparr>drawn := drawn s + n, dispatch_setups := dispatch_setups s @ [r]\<rparr>"
proof (cases "setup_of_job job s")
  case (Some e)
  then show ?thesis using assms replay by (auto simp: create_dispatch_setup_def Let_def bindR_Inr split: if_splits)
next
  case None
  obtain start version fw where v: "dispatch_current_scope job (dsc_source_scope_version_id cmd) s = Inr version"
    and run: "(let ((vs, ws), s1) = snapshot_options cmd s; (i, s2) = uuid4 s1;
          su = new_setup i job pid cmd (command_hash (setup_command_json cmd) s) start vs ws now in
        (case insert_setup su s2 of Inl _ \<Rightarrow> Inl DispatchConflictError | Inr s3 \<Rightarrow> Inr (su, s3))) = Inr (r, s')"
    using assms None by (auto simp: create_dispatch_setup_def Let_def bindR_Inr split: if_splits option.splits)
  let ?vs = "with_ids vehicle_option (dsc_vehicles cmd) s"
  let ?ws = "with_ids worker_option (dsc_workers cmd) (snd ?vs)"
  let ?s2 = "s\<lparr>drawn := drawn s + (length (dsc_vehicles cmd) + length (dsc_workers cmd) + 1)\<rparr>"
  let ?h = "command_hash (setup_command_json cmd) s"
  let ?i = "rng s (drawn s + (length (dsc_vehicles cmd) + length (dsc_workers cmd)))"
  let ?r = "new_setup ?i job pid cmd ?h start (fst ?vs) (fst ?ws) now"
  have "snapshot_options cmd s = ((fst ?vs, fst ?ws), snd ?ws)"
    by (simp add: snapshot_options_def case_prod_unfold Let_def)
  moreover have "uuid4 (snd ?ws) = (?i, ?s2)"
    by (simp add: with_ids_spec uuid4_def add_ac)
  ultimately have ins: "(case insert_setup ?r ?s2 of Inl _ \<Rightarrow> Inl DispatchConflictError | Inr s3 \<Rightarrow> Inr (?r, s3)) = Inr (r, s')"
    using run by (simp only: Let_def prod.case)
  have job: "ds_job_id ?r = job" by (simp add: new_setup_def)
  have "r = ?r" "\<not> list_ex (\<lambda>q. ds_job_id q = job) (dispatch_setups s)"
    "s' = s\<lparr>drawn := drawn s + (length (dsc_vehicles cmd) + length (dsc_workers cmd) + 1), dispatch_setups := dispatch_setups s @ [r]\<rparr>"
    using ins unfolding insert_setup_def job by (auto split: if_splits)
  then show ?thesis by (rule fresh[OF None v _ refl refl])
qed

lemma check_in_cases:
  assumes "check_in_field_worker job pid cmd now s = Inr (r, s')"
  obtains (replay) su plan worker c where "setup_of_job job s = Some su" "row dp_id (fcc_dispatch_id cmd) (dispatch_plans s) = Some plan"
      "dp_job_id plan = job" "assigned_worker su plan pid = Some worker" "check_in_of job pid s = Some c"
      "set (ci_confirmed_check_keys c) = set (map ck_key (ds_check_in_items su))" "r = check_in_response c" "s' = s"
  | (fresh) su plan worker c version where "setup_of_job job s = Some su" "row dp_id (fcc_dispatch_id cmd) (dispatch_plans s) = Some plan"
      "dp_job_id plan = job" "dp_setup_id plan = ds_id su" "assigned_worker su plan pid = Some worker"
      "check_in_of job pid s = None" "set (fcc_confirmed_check_keys cmd) = set (map ck_key (ds_check_in_items su))"
      "field_service_date now = field_service_date (ds_start_at su)"
      "c = \<lparr>ci_id = rng s (drawn s), ci_job_id = job, ci_dispatch_plan_id = dp_id plan, ci_participant_id = pid,
         ci_worker_option_id = wo_id worker, ci_confirmed_check_keys = map ck_key (ds_check_in_items su), ci_checked_in_at = now\<rparr>"
      "dispatch_current_scope job (ds_source_scope_version_id su) s = Inr version"
      "r = check_in_response c" "s' = s\<lparr>drawn := Suc (drawn s), field_check_ins := field_check_ins s @ [c]\<rparr>"
proof -
  obtain su plan where sp: "setup_of_job job s = Some su" "row dp_id (fcc_dispatch_id cmd) (dispatch_plans s) = Some plan"
      "dp_job_id plan = job" "dp_setup_id plan = ds_id su"
    using assms by (auto simp: check_in_field_worker_def bindR_Inr split: if_splits option.splits)
  obtain worker where w: "assigned_worker su plan pid = Some worker"
    using assms sp by (auto simp: check_in_field_worker_def bindR_Inr split: if_splits option.splits)
  obtain version where v: "dispatch_current_scope job (ds_source_scope_version_id su) s = Inr version"
    using assms sp w by (auto simp: check_in_field_worker_def bindR_Inr split: if_splits)
  show ?thesis
  proof (cases "check_in_of job pid s")
    case (Some c)
    show ?thesis
      by (rule replay[OF sp(1-3) w Some])
        (use assms sp w v Some in \<open>auto simp: check_in_field_worker_def bindR_Inr split: if_splits\<close>)
  next
    case None
    show ?thesis
      by (rule fresh[OF sp w None _ _ refl v])
        (use assms sp w v None in \<open>auto simp: check_in_field_worker_def bindR_Inr uuid4_def insert_check_in_def
           check_in_response_def Let_def split: if_splits\<close>)
  qed
qed

lemma find_job: "find (\<lambda>x. k x = j) t = None \<longleftrightarrow> j \<notin> k ` set t"
  by (auto simp: find_None_iff)

lemma create_setup_sound:
  assumes "create_dispatch_setup job pid cmd now s = Inr (r, s')" "dispatch_inv s"
  shows "dispatch_inv s' \<and> dispatch_grow s s'"
  using assms(1)
proof (cases rule: create_setup_cases)
  case replay
  then show ?thesis using assms(2) by (simp add: dispatch_grow_def)
next
  case (fresh n vs ws i start version h)
  note inv = assms(2)[unfolded dispatch_inv_def]
  have ids: "distinct (map vo_id vs)" "distinct (map wo_id ws)"
    unfolding fresh(4,5) by (rule with_ids_distinct; use inv in \<open>simp add: vehicle_option_def worker_option_def with_ids_spec fresh_supply_def\<close>)+
  have job: "ds_job_id r \<notin> ds_job_id ` set (dispatch_setups s)"
    using fresh(3,6) by (auto simp: new_setup_def list_ex_iff)
  have opts: "ds_vehicle_options r = vs" "ds_worker_options r = ws" using fresh(3) by (simp_all add: new_setup_def)
  have "plan_sound s' p" if "p \<in> set (dispatch_plans s)" for p
    using plan_sound_mono[of s p s'] inv that fresh(7) by auto
  moreover have "check_in_sound s' c" if "c \<in> set (field_check_ins s)" for c
    using check_in_sound_mono[of s c s'] inv that fresh(7) by auto
  ultimately have "dispatch_inv s'"
    using inv ids job opts fresh(7) by (simp add: dispatch_inv_def fresh_supply_def)
  then show ?thesis using fresh(7) by (auto simp: dispatch_grow_def)
qed

lemma row_setup_mem: "row ds_id i (dispatch_setups s) = Some su \<Longrightarrow> su \<in> set (dispatch_setups s) \<and> ds_id su = i"
  using row_mem row_key by fastforce

lemma confirm_dispatch_sound:
  assumes "confirm_dispatch job pid cmd trace now s = Inr (plan, s')" "dispatch_inv s"
  shows "dispatch_inv s' \<and> dispatch_grow s s'"
  using assms(1)
proof (cases rule: confirm_dispatch_cases)
  case replay
  then show ?thesis using assms(2) by (simp add: dispatch_grow_def)
next
  case (fresh su version fw ev)
  note inv = assms(2)[unfolded dispatch_inv_def]
  note su = row_setup_mem[OF fresh(2)]
  have sel: "length (mapped_workers su (dcc_worker_ids cmd) (jp_id fw)) = 1" "all_pass (dispatch_checks su (Some plan))"
    using selection_checks[of su] inv su fresh(7) unfolding fresh(8) by blast+
  have p: "dp_setup_id plan = ds_id su" "dp_job_id plan = job" "dp_source_scope_version_id plan = ds_source_scope_version_id su"
    "dp_selected_worker_option_ids plan = dcc_worker_ids cmd"
    by (simp_all add: fresh(8) new_plan_def)
  obtain d where s': "s' = s\<lparr>dispatch_plans := dispatch_plans s @ [plan], drawn := d, outbox := outbox s @ [new_outbox_event ev]\<rparr>"
      and d: "drawn s < d"
    by (rule enqueue_event_spec[OF fresh(9)]) (auto simp: fresh(8) new_plan_def dest: Suc_lessD)
  have "plan_sound s plan"
    unfolding plan_sound_def using su sel p fresh(3) by (intro bexI[of _ su]) auto
  then have new: "plan_sound s' plan" by (rule plan_sound_mono) (simp add: s')
  have "plan_sound s' q" if "q \<in> set (dispatch_plans s)" for q
    using plan_sound_mono[of s q s'] inv that by (auto simp: s')
  moreover have "check_in_sound s' c" if "c \<in> set (field_check_ins s)" for c
    using check_in_sound_mono[of s c s'] inv that by (auto simp: s')
  moreover have "job \<notin> dp_job_id ` set (dispatch_plans s)"
    using fresh(1) unfolding plan_of_job_def find_job .
  ultimately have "dispatch_inv s'"
    using inv new p(2) by (simp add: dispatch_inv_def fresh_supply_def s')
  then show ?thesis using d by (auto simp: dispatch_grow_def s')
qed

lemma check_in_sound_step:
  assumes "check_in_field_worker job pid cmd now s = Inr (r, s')" "dispatch_inv s"
  shows "dispatch_inv s' \<and> dispatch_grow s s'"
  using assms(1)
proof (cases rule: check_in_cases)
  case replay
  then show ?thesis using assms(2) by (simp add: dispatch_grow_def)
next
  case (fresh su plan worker c version)
  note inv = assms(2)[unfolded dispatch_inv_def]
  have su: "su \<in> set (dispatch_setups s)" using find_mem[OF fresh(1)[unfolded setup_of_job_def]] by blast
  have plan: "plan \<in> set (dispatch_plans s)" "dp_id plan = fcc_dispatch_id cmd"
    using row_mem[OF fresh(2)] row_key[OF fresh(2)] by auto
  have new: "check_in_sound s c"
    unfolding check_in_sound_def
    by (intro bexI[OF _ su] bexI[OF _ plan(1)] exI[of _ worker]) (use fresh(3-5,8,9) in simp)
  have "check_in_sound s' d" if "check_in_sound s d" for d
    using check_in_sound_mono[OF that, of s'] by (simp add: fresh(12))
  moreover have "plan_sound s' q" if "plan_sound s q" for q
    using plan_sound_mono[OF that, of s'] by (simp add: fresh(12))
  ultimately have "dispatch_inv s'"
    using inv new by (simp add: dispatch_inv_def fresh_supply_def fresh(12))
  then show ?thesis by (auto simp: dispatch_grow_def fresh(12))
qed

section \<open>Runs\<close>

inductive dispatch_op :: "db \<Rightarrow> db \<Rightarrow> bool" where
  dop_setup: "create_dispatch_setup job pid scmd now s = Inr (r, s') \<Longrightarrow> dispatch_op s s'"
| dop_confirm: "confirm_dispatch job pid ccmd trace now s = Inr (p, s') \<Longrightarrow> dispatch_op s s'"
| dop_check_in: "check_in_field_worker job pid fcmd now s = Inr (c, s') \<Longrightarrow> dispatch_op s s'"
| dop_agreement: "field_op s s' \<Longrightarrow> dispatch_setups s' = dispatch_setups s \<Longrightarrow> dispatch_plans s' = dispatch_plans s \<Longrightarrow>
     field_check_ins s' = field_check_ins s \<Longrightarrow> dispatch_op s s'"

lemma setup_of_job_grow:
  assumes "dispatch_inv s'" "set (dispatch_setups s) \<subseteq> set (dispatch_setups s')" "setup_of_job job s = Some su"
  shows "setup_of_job job s' = Some su"
proof -
  have su: "su \<in> set (dispatch_setups s')" "ds_job_id su = job"
    using find_mem[OF assms(3)[unfolded setup_of_job_def]] assms(2) by auto
  have d: "distinct (map ds_job_id (dispatch_setups s'))" using assms(1) by (simp add: dispatch_inv_def)
  show ?thesis
    unfolding setup_of_job_def by (rule find_unique) (use su distinct_map_eq[OF d] in auto)
qed

lemma frames:
  "create_dispatch_setup job pid scmd now s = Inr (r, s') \<Longrightarrow> scope_frame s s' \<and> change_requests s' = change_requests s \<and>
     proposal_details s' = proposal_details s \<and> scope_proposals s' = scope_proposals s \<and> revision_requests s' = revision_requests s"
  "confirm_dispatch job pid ccmd trace now s = Inr (p, s') \<Longrightarrow> scope_frame s s' \<and> change_requests s' = change_requests s \<and>
     proposal_details s' = proposal_details s \<and> scope_proposals s' = scope_proposals s \<and> revision_requests s' = revision_requests s"
  "check_in_field_worker job pid fcmd now s = Inr (c, s') \<Longrightarrow> scope_frame s s' \<and> change_requests s' = change_requests s \<and>
     proposal_details s' = proposal_details s \<and> scope_proposals s' = scope_proposals s \<and> revision_requests s' = revision_requests s"
  subgoal by (erule create_setup_cases) (simp_all add: scope_frame_def)
  subgoal by (erule confirm_dispatch_cases, simp add: scope_frame_def, erule enqueue_event_spec, simp add: scope_frame_def)
  subgoal by (erule check_in_cases) (simp_all add: scope_frame_def)
  done

definition deployed :: "db \<Rightarrow> bool" where
  "deployed s = (field_inv s \<and> dispatch_inv s)"

lemma dispatch_op_sound:
  assumes "dispatch_op s s'" "deployed s"
  shows "deployed s' \<and> field_evolve s s' \<and> set (dispatch_setups s) \<subseteq> set (dispatch_setups s')"
  using assms
proof (induction rule: dispatch_op.induct)
  case (dop_setup job pid scmd now s r s')
  then show ?case using frames(1) frame_sound create_setup_sound unfolding deployed_def dispatch_grow_def by meson
next
  case (dop_confirm job pid ccmd trace now s p s')
  then show ?case using frames(2) frame_sound confirm_dispatch_sound unfolding deployed_def dispatch_grow_def by meson
next
  case (dop_check_in job pid fcmd now s c s')
  then show ?case using frames(3) frame_sound check_in_sound_step unfolding deployed_def dispatch_grow_def by meson
next
  case (dop_agreement s s')
  have f: "field_inv s' \<and> field_evolve s s'" using field_op_sound dop_agreement unfolding deployed_def by blast
  then have "rng s' = rng s" by (simp add: field_evolve_def review_evolve_def scope_evolve_def)
  then show ?case using f dispatch_frame[of s s'] dop_agreement unfolding deployed_def by simp
qed

lemma dispatch_ops_sound:
  "dispatch_op\<^sup>*\<^sup>* s s' \<Longrightarrow> deployed s \<Longrightarrow> deployed s' \<and> field_evolve s s' \<and> set (dispatch_setups s) \<subseteq> set (dispatch_setups s')"
proof (induction rule: rtranclp_induct)
  case (step y z)
  then show ?case using dispatch_op_sound[of y z] field_evolve_trans[of s y z] by blast
qed simp

lemma child_stays:
  assumes "deployed s" "deployed s'" "field_evolve s s'" "has_child i s"
  shows "has_child i s'"
proof -
  note sc = field_invD(4)
  obtain v where v: "v \<in> set (scope_versions s)" "sv_parent_version_id v = Some i"
    using has_child_row[OF assms(4)] by blast
  have inv: "scope_inv s" "scope_inv s'" using assms(1,2) field_invD(4) unfolding deployed_def by blast+
  have "row sv_id (sv_id v) (scope_versions s) = Some v" by (rule row_of_mem[OF scope_invD(2)[OF inv(1)] v(1)])
  moreover have "scope_evolve s s'" using assms(3) by (simp add: field_evolve_def review_evolve_def)
  ultimately show ?thesis using has_child_mono[OF inv(2) _ _ v(2)] by blast
qed

section \<open>Properties\<close>

text \<open>Property C12: whatever is set up, confirmed, changed and checked in, each plan on record
  passes the checks of its setup, a job has at most one setup and one plan, and each check-in is by
  a worker of the plan, on the day of service, with all its items.\<close>

theorem dispatch_stays_feasible:
  assumes "deployed s" "dispatch_op\<^sup>*\<^sup>* s s'"
  shows "(\<forall>p \<in> set (dispatch_plans s'). plan_sound s' p) \<and> (\<forall>c \<in> set (field_check_ins s'). check_in_sound s' c) \<and>
    distinct (map ds_job_id (dispatch_setups s')) \<and> distinct (map dp_job_id (dispatch_plans s'))"
  using dispatch_ops_sound[OF assms(2,1)] unfolding deployed_def dispatch_inv_def by blast

text \<open>A check-in is tied to the day of service and can be repeated. A first check-in
  succeeds only from midnight to midnight (nine hours ahead of UTC) of the day the setup starts on, with
  exactly the setup's items, and records the time; sending the same check-in again, on that day or
  later, returns the first one and changes nothing.\<close>

theorem check_in_on_service_day:
  assumes "check_in_field_worker job pid cmd now s = Inr (r, s')"
  shows "(\<exists>su. setup_of_job job s = Some su \<and> set (fcr_confirmed_check_keys r) = set (map ck_key (ds_check_in_items su)) \<and>
      (check_in_of job pid s = None \<longrightarrow> (let d = field_service_date (ds_start_at su) in
         seconds (d * 86400 - 9 * 3600) \<le> now \<and> now < seconds ((d + 1) * 86400 - 9 * 3600) \<and> fcr_checked_in_at r = now))) \<and>
    check_in_field_worker job pid cmd later s' = Inr (r, s')"
  using assms
proof (cases rule: check_in_cases)
  case (replay su plan worker c)
  have "check_in_field_worker job pid cmd later s = Inr (r, s)"
    using assms replay(1,2,4,5,8) by (auto simp: check_in_field_worker_def bindR_Inr split: if_splits)
  then show ?thesis using replay by (auto simp: check_in_response_def)
next
  case (fresh su plan worker c version)
  have same: "load_dispatch_job job s' = load_dispatch_job job s" "is_participant job pid R s' = is_participant job pid R s"
    "setup_of_job job s' = setup_of_job job s" "dispatch_plans s' = dispatch_plans s"
    "dispatch_current_scope job i s' = dispatch_current_scope job i s" for R i
    by (simp_all add: fresh(12) load_dispatch_job_def is_participant_def setup_of_job_def dispatch_current_scope_def
        version_of_job_def has_child_def cong: if_cong option.case_cong)
  have "check_in_of job pid s' = Some c"
    using fresh(6,9) by (simp add: fresh(12) check_in_of_def find_append)
  moreover have "ci_dispatch_plan_id c = dp_id plan" "ci_confirmed_check_keys c = map ck_key (ds_check_in_items su)"
    using fresh(9) by simp_all
  ultimately have "check_in_field_worker job pid cmd later s' = Inr (r, s')"
    using assms fresh(1-7,10,11) by (auto simp: check_in_field_worker_def bindR_Inr same split: if_splits)
  then show ?thesis
    using fresh(1,9,11) service_day_bounds[of now] fresh(8) by (auto simp: check_in_response_def Let_def)
qed

text \<open>Property C13: a dispatch prepared for a scope that a change then replaces stays stuck. Once the
  scope of a job's setup has a successor, then after any further steps the setup can neither be
  replaced nor confirmed, the worker's brief and check-in are refused, and the manager's view, where it
  shows, says the dispatch is stale.\<close>

theorem stale_dispatch_is_stuck:
  assumes "deployed s" "setup_of_job job s = Some su" "has_child (ds_source_scope_version_id su) s" "dispatch_op\<^sup>*\<^sup>* s s'"
  shows "setup_of_job job s' = Some su \<and> (create_dispatch_setup job pid scmd now s' = Inr (r, s'') \<longrightarrow> r = su \<and> s'' = s') \<and>
    (plan_of_job job s' = None \<longrightarrow> \<not> isOk (confirm_dispatch job pid ccmd trace now s')) \<and>
    \<not> isOk (get_field_brief job pid s') \<and> \<not> isOk (check_in_field_worker job pid fcmd now s') \<and>
    (get_dispatch_view job pid s' = Inr view \<longrightarrow> dv_status view = STALE)"
proof -
  note ev = dispatch_ops_sound[OF assms(4,1)]
  have inv: "dispatch_inv s'" using ev by (simp add: deployed_def)
  have su: "setup_of_job job s' = Some su" using setup_of_job_grow[OF inv] ev assms(2) by blast
  have child: "has_child (ds_source_scope_version_id su) s'" using child_stays[OF assms(1) _ _ assms(3)] ev by blast
  have no: "\<not> isOk (dispatch_current_scope job (ds_source_scope_version_id su) s')"
    using child by (auto simp: dispatch_current_scope_def version_of_job_def dest: row_key split: option.splits)
  have "create_dispatch_setup job pid scmd now s' = Inr (r, s'') \<longrightarrow> r = su \<and> s'' = s'"
    by (rule impI, erule create_setup_cases) (simp_all add: su)
  moreover have "\<not> isOk (confirm_dispatch job pid ccmd trace now s')" if none: "plan_of_job job s' = None"
  proof
    assume "isOk (confirm_dispatch job pid ccmd trace now s')"
    then obtain p t where "confirm_dispatch job pid ccmd trace now s' = Inr (p, t)" by (auto simp: isOk_iff)
    then show False
    proof (cases rule: confirm_dispatch_cases)
      case (fresh su2 version fw e)
      have d: "distinct (map ds_job_id (dispatch_setups s'))" using inv by (simp add: dispatch_inv_def)
      have "su2 = su"
        using distinct_map_eq[OF d] row_mem[OF fresh(2)] fresh(3) find_mem[OF su[unfolded setup_of_job_def]] by metis
      then show False using no fresh(5) by simp
    qed (simp add: none)
  qed
  moreover have "\<not> isOk (get_field_brief job pid s')"
    using no by (auto simp: get_field_brief_def su isOk_iff bindR_Inr split: option.splits)
  moreover have "\<not> isOk (check_in_field_worker job pid fcmd now s')"
  proof
    assume "isOk (check_in_field_worker job pid fcmd now s')"
    then show False
      using no by (auto simp: check_in_field_worker_def su isOk_iff bindR_Inr split: option.splits if_splits)
  qed
  moreover have "get_dispatch_view job pid s' = Inr view \<longrightarrow> dv_status view = STALE"
  proof -
    have "\<not> c" if "is_current_scope su s' = Inr (v, c)" for v c
      using that child by (auto simp: is_current_scope_def version_of_job_def dest: row_key split: option.splits if_splits)
    then show ?thesis by (auto simp: get_dispatch_view_def su bindR_Inr Let_def split: option.splits)
  qed
  ultimately show ?thesis using su by blast
qed

section \<open>A sample dispatch\<close>

text \<open>Job 11 is to be served on day 20, from a scope version of its own, with one vehicle and the job's
  field worker 14.\<close>

definition sample_vehicle :: DispatchVehicleOption where
  "sample_vehicle = \<lparr>vo_id = 82, vo_external_reference = ''v'', vo_display_name = ''truck'', vo_specification = ''5t'',
     vo_equipment = [], vo_capacity_m2 = 20, vo_available = True, vo_conflict_reason = None\<rparr>"

definition sample_worker :: DispatchWorkerOption where
  "sample_worker = \<lparr>wo_id = 83, wo_external_reference = ''w'', wo_display_name = ''worker'', wo_role_label = ''lead'',
     wo_skills = [''lifting''], wo_certifications = [], wo_available = True, wo_conflict_reason = None, wo_participant_id = Some 14\<rparr>"

definition sample_setup :: "uuid \<Rightarrow> DispatchSetup" where
  "sample_setup v = \<lparr>ds_id = 80, ds_job_id = 11, ds_client_reference = 84, ds_source_scope_version_id = v,
     ds_created_by_participant_id = 13, ds_command_hash = replicate 64 CHR ''a'', ds_start_at = seconds (20 * 86400),
     ds_expected_duration_minutes = 60, ds_required_vehicle_capacity_m2 = 10, ds_required_worker_count = 1,
     ds_required_skills = [''lifting''], ds_required_certifications = [],
     ds_check_in_items = [\<lparr>ck_key = ''badge'', ck_label = ''badge''\<rparr>],
     ds_completion_check_items = [\<lparr>ck_key = ''clean'', ck_label = ''clean''\<rparr>], ds_origin_conditions = [],
     ds_safety_notice = ''n'', ds_vehicle_options = [sample_vehicle], ds_worker_options = [sample_worker], ds_created_at = 9\<rparr>"

definition sample_assignment :: DispatchConfirmCreate where
  "sample_assignment = \<lparr>dcc_setup_id = 80, dcc_vehicle_id = 82, dcc_lead_worker_id = 83, dcc_worker_ids = [83], dcc_worker_note = None\<rparr>"

definition sample_plan_row :: "uuid \<Rightarrow> DispatchPlan" where
  "sample_plan_row v = new_plan 81 11 13 (sample_setup v) sample_assignment (replicate 64 CHR ''a'') 10"

definition sample_dispatch :: "uuid \<Rightarrow> DispatchPlan list \<Rightarrow> db" where
  "sample_dispatch v plans = sample_field\<lparr>
     move_jobs := [\<lparr>mj_id = 11, mj_title = ''m'', mj_status = ACTIVE, mj_scheduled_at = Some (seconds (20 * 86400)), mj_created_at = 0,
       mj_updated_at = 0, mj_completed_at = None\<rparr>],
     participants := participants sample_field @ [sample_person 14 11 FIELD_WORKER],
     dispatch_setups := [sample_setup v], dispatch_plans := plans\<rparr>"

lemmas sample_dispatch_defs = sample_dispatch_def sample_plan_row_def sample_assignment_def sample_setup_def sample_worker_def
  sample_vehicle_def new_plan_def

lemma sample_dispatch_field: "field_inv (sample_dispatch v plans)"
  using frame_sound[OF sample_field_inv, of "sample_dispatch v plans"]
  by (simp add: scope_frame_def sample_dispatch_def)

lemma sample_checks: "all_pass (dispatch_checks (sample_setup v) (Some (sample_plan_row v)))"
  by (simp add: all_pass_def dispatch_checks_def pass_if_def coverage_check_def vehicle_fits_def worker_by_id_def skills_of_def
      List.map_filter_simps sample_dispatch_defs Let_def)

lemma sample_deployed: "plans = [] \<or> plans = [sample_plan_row v] \<Longrightarrow> deployed (sample_dispatch v plans)"
proof -
  assume p: "plans = [] \<or> plans = [sample_plan_row v]"
  have "length (mapped_workers (sample_setup v) (dp_selected_worker_option_ids (sample_plan_row v)) 14) = 1"
    by (simp add: mapped_workers_def worker_by_id_def List.map_filter_simps sample_dispatch_defs)
  then have "plan_sound (sample_dispatch v plans) (sample_plan_row v)"
    unfolding plan_sound_def using sample_checks
    by (intro bexI[of _ "sample_setup v"]) (auto simp: sample_dispatch_def sample_plan_row_def new_plan_def sample_setup_def)
  then have "dispatch_inv (sample_dispatch v plans)"
    using p by (auto simp: dispatch_inv_def fresh_supply_def sample_dispatch_defs sample_field_defs)
  then show ?thesis using sample_dispatch_field by (simp add: deployed_def)
qed

definition sample_check_in :: FieldCheckInCreate where
  "sample_check_in = \<lparr>fcc_dispatch_id = 81, fcc_confirmed_check_keys = [''badge'']\<rparr>"

lemma sample_scope_current: "dispatch_current_scope 11 31 (sample_dispatch v plans) = Inr
    ((sample_version 31 11 13 (Some 8))\<lparr>sv_parent_version_id := Some 30, sv_sequence_number := 2\<rparr>)"
  by (simp add: dispatch_current_scope_def version_of_job_def has_child_def sample_dispatch_def sample_field_defs)

lemma sample_lookups:
  "load_dispatch_job 11 (sample_dispatch v plans) = Inr (hd (move_jobs (sample_dispatch v plans)))"
  "require_open_scheduled_job (hd (move_jobs (sample_dispatch v plans))) = Inr (seconds (20 * 86400))"
  "setup_of_job 11 (sample_dispatch v plans) = Some (sample_setup v)"
  "row ds_id 80 (dispatch_setups (sample_dispatch v plans)) = Some (sample_setup v)"
  "is_participant 11 14 {FIELD_WORKER} (sample_dispatch v plans)" "is_participant 11 13 {COMPANY_MANAGER} (sample_dispatch v plans)"
  "dispatch_plans (sample_dispatch v plans) = plans" "field_check_ins (sample_dispatch v plans) = []"
  "field_worker_of 11 (sample_dispatch v plans) = Some (sample_person 14 11 FIELD_WORKER)"
  "digests_ok (sample_dispatch v plans)"
  by (simp_all add: setup_of_job_def load_dispatch_job_def require_open_scheduled_job_def is_participant_def sample_dispatch_defs
      field_worker_of_def job_participants_def sample_field_defs digests_ok_def hash_text_def is_lower_hex_def in_range_def list.pred_set)

lemma sample_fields:
  "ds_id (sample_setup v) = 80" "ds_job_id (sample_setup v) = 11" "ds_source_scope_version_id (sample_setup v) = v"
  "ds_check_in_items (sample_setup v) = [\<lparr>ck_key = ''badge'', ck_label = ''badge''\<rparr>]" "ds_start_at (sample_setup v) = seconds (20 * 86400)"
  "dp_id (sample_plan_row v) = 81" "dp_job_id (sample_plan_row v) = 11" "dp_setup_id (sample_plan_row v) = 80"
  "assigned_worker (sample_setup v) (sample_plan_row v) 14 = Some sample_worker" "jp_id (sample_person 14 11 FIELD_WORKER) = 14"
  by (simp_all add: sample_dispatch_defs assigned_worker_def sample_person_def)

lemma sample_checks_in: "\<exists>r s'. check_in_field_worker 11 14 sample_check_in (seconds (20 * 86400)) (sample_dispatch 31 [sample_plan_row 31])
    = Inr (r, s')"
  unfolding check_in_field_worker_def
  by (simp add: sample_lookups sample_fields sample_check_in_def sample_scope_current check_in_of_def insert_check_in_def uuid4_def Let_def)

lemma dispatch_stays_feasible_witness:
  "\<exists>s'. dispatch_op\<^sup>*\<^sup>* (sample_dispatch 31 [sample_plan_row 31]) s' \<and> (\<forall>c \<in> set (field_check_ins s'). check_in_sound s' c)"
proof -
  obtain r s' where "check_in_field_worker 11 14 sample_check_in (seconds (20 * 86400)) (sample_dispatch 31 [sample_plan_row 31])
    = Inr (r, s')" using sample_checks_in by blast
  then have op: "dispatch_op\<^sup>*\<^sup>* (sample_dispatch 31 [sample_plan_row 31]) s'" by (intro r_into_rtranclp dop_check_in)
  show ?thesis using dispatch_stays_feasible[OF sample_deployed op] op by blast
qed

lemma check_in_on_service_day_witness:
  "\<exists>r s'. check_in_field_worker 11 14 sample_check_in (seconds (20 * 86400)) (sample_dispatch 31 [sample_plan_row 31]) = Inr (r, s') \<and>
    check_in_field_worker 11 14 sample_check_in (seconds (90 * 86400)) s' = Inr (r, s')"
  using check_in_on_service_day[of 11 14 sample_check_in] sample_checks_in by blast

lemma stale_dispatch_is_stuck_witness:
  "\<not> isOk (get_field_brief 11 14 (sample_dispatch 30 [sample_plan_row 30]))"
proof -
  have "setup_of_job 11 (sample_dispatch 30 [sample_plan_row 30]) = Some (sample_setup 30)"
    by (simp add: setup_of_job_def sample_dispatch_defs)
  moreover have "has_child (ds_source_scope_version_id (sample_setup 30)) (sample_dispatch 30 [sample_plan_row 30])"
    by (simp add: has_child_def sample_dispatch_defs sample_field_defs)
  ultimately show ?thesis using stale_dispatch_is_stuck[OF sample_deployed _ _ rtranclp.rtrancl_refl] by blast
qed

lemma confirm_dispatch_returns:
  assumes "load_dispatch_job job s = Inr j" "plan_of_job job s = None" "isOk (require_open_scheduled_job j)"
    "is_participant job pid {COMPANY_MANAGER} s" "row ds_id (dcc_setup_id cmd) (dispatch_setups s) = Some su" "ds_job_id su = job"
    "isOk (dispatch_current_scope job (ds_source_scope_version_id su) s)" "field_worker_of job s = Some fw"
    "validate_selection su cmd (jp_id fw)" "digests_ok s" "ds_id su \<notin> dp_setup_id ` set (dispatch_plans s)" "trace_text trace"
  shows "\<exists>plan s'. confirm_dispatch job pid cmd trace now s = Inr (plan, s')"
proof -
  let ?h = "command_hash (confirm_command_json cmd) s"
  let ?p = "new_plan (rng s (drawn s)) job pid su cmd ?h now"
  let ?s1 = "s\<lparr>drawn := Suc (drawn s)\<rparr>"
  have h: "length ?h = 64" using assms(10) by (auto simp: command_hash_def digests_ok_def hash_text_def)
  have p: "dp_job_id ?p = job" "dp_setup_id ?p = ds_id su" "dp_command_hash ?p = ?h" by (simp_all add: new_plan_def)
  have "job \<notin> dp_job_id ` set (dispatch_plans s)" using assms(2) unfolding plan_of_job_def find_job .
  then have ins: "insert_plan ?p ?s1 = Inr (?s1\<lparr>dispatch_plans := dispatch_plans s @ [?p]\<rparr>)"
    using h assms(11) by (auto simp: insert_plan_def dispatch_plan_check_def p list_ex_iff) (metis imageI)
  have doc: "documented_payload DISPATCH_CONFIRMED_V1 (plan_payload ?p (jp_id fw))"
    by (simp add: plan_payload_def documented_payload_def)
  then obtain ev s' where e: "enqueue_domain_event DISPATCH_CONFIRMED_V1 job (Some pid) (Some trace) (plan_payload ?p (jp_id fw)) now
      (?s1\<lparr>dispatch_plans := dispatch_plans s @ [?p]\<rparr>) = Inr (ev, s')"
    using enqueue_event_returns[OF doc, of "Some trace" job "Some pid" now] assms(12) by blast
  obtain start version where o: "require_open_scheduled_job j = Inr start"
      "dispatch_current_scope job (ds_source_scope_version_id su) s = Inr version"
    using assms(3,7) by (auto simp: isOk_iff)
  show ?thesis
    unfolding confirm_dispatch_def using assms(2,4,6,8,9)
    by (simp add: assms(1,5) o uuid4_def Let_def ins e)
qed

lemma sample_confirms_dispatch:
  "\<exists>plan s'. confirm_dispatch 11 13 sample_assignment (replicate 32 CHR ''a'') 10 (sample_dispatch 31 []) = Inr (plan, s')"
proof (rule confirm_dispatch_returns[OF sample_lookups(1) _ _ sample_lookups(6) _ _ _ sample_lookups(9) _ sample_lookups(10) _ sample_trace])
  show "row ds_id (dcc_setup_id sample_assignment) (dispatch_setups (sample_dispatch 31 [])) = Some (sample_setup 31)"
    by (simp add: sample_assignment_def sample_lookups)
  show "validate_selection (sample_setup 31) sample_assignment (jp_id (sample_person 14 11 FIELD_WORKER))"
    by (simp add: sample_fields validate_selection_def worker_by_id_def skills_of_def certifications_of_def List.map_filter_simps sample_dispatch_defs)
qed (simp_all add: sample_lookups sample_fields plan_of_job_def sample_scope_current)

lemma confirmed_dispatch_is_feasible_witness:
  "\<exists>plan s' su. confirm_dispatch 11 13 sample_assignment (replicate 32 CHR ''a'') 10 (sample_dispatch 31 []) = Inr (plan, s') \<and>
    row ds_id (dp_setup_id plan) [sample_setup 31] = Some su \<and> all_pass (dispatch_checks su (Some plan))"
proof -
  obtain plan s' where c: "confirm_dispatch 11 13 sample_assignment (replicate 32 CHR ''a'') 10 (sample_dispatch 31 []) = Inr (plan, s')"
    using sample_confirms_dispatch by blast
  have "plan_of_job 11 (sample_dispatch 31 []) = None"
    "\<forall>su \<in> set (dispatch_setups (sample_dispatch 31 [])). distinct (map vo_id (ds_vehicle_options su))"
    "dispatch_setups (sample_dispatch 31 []) = [sample_setup 31]"
    by (simp_all add: plan_of_job_def sample_dispatch_defs)
  then show ?thesis using confirmed_dispatch_is_feasible[OF c] c by metis
qed

end
