(* ===== verification/CompletionProofs.thy ===== *)
theory CompletionProofs
  imports Completion DispatchProofs
begin

text \<open>
  Lemmas about the completion of a job: it takes both sides, it happens within the customer's week,
  and it can be repeated.
\<close>

section \<open>Storing\<close>

lemma add_audit_eq:
  "add_audit_event j ty a p now s = s\<lparr>drawn := Suc (drawn s), audit_events := audit_events s @
     [\<lparr>ae_id = rng s (drawn s), ae_job_id = j, ae_event_type = ty, ae_actor_participant_id = a, ae_payload = p, ae_occurred_at = now\<rparr>]\<rparr>"
  by (simp add: add_audit_event_def uuid4_def)

lemma store_confirmation_spec:
  assumes "store_confirmation job scope pid role ids now s = Inr (c, s')"
  obtains es where "c = \<lparr>cc_id = rng s (drawn s), cc_job_id = job, cc_scope_version_id = scope, cc_participant_id = pid,
      cc_role = role, cc_confirmed_at = now\<rparr>" "role \<in> {CUSTOMER, COMPANY_MANAGER}"
    "\<not> list_ex (\<lambda>q. cc_job_id q = job \<and> cc_role q = role) (completion_confirmations s)"
    "s' = s\<lparr>drawn := drawn s + 2, completion_confirmations := completion_confirmations s @ [c],
       completion_evidence := completion_evidence s @ map (\<lambda>m. \<lparr>cv_confirmation_id = rng s (drawn s), cv_media_asset_id = m\<rparr>) ids,
       audit_events := es\<rparr>"
proof -
  obtain s2 where c: "c = \<lparr>cc_id = rng s (drawn s), cc_job_id = job, cc_scope_version_id = scope, cc_participant_id = pid,
      cc_role = role, cc_confirmed_at = now\<rparr>" and ins: "insert_confirmation c (s\<lparr>drawn := Suc (drawn s)\<rparr>) = Inr s2"
    and s': "s' = add_audit_event job AU_COMPLETION_CONFIRMED (Some pid) (confirmation_payload c ids) now
       (add_evidence (rng s (drawn s)) ids s2)"
    using assms by (auto simp: store_confirmation_def uuid4_def bindR_Inr Let_def)
  have "completion_confirmation_check c" "\<not> list_ex (\<lambda>q. cc_job_id q = job \<and> cc_role q = role) (completion_confirmations s)"
    "s2 = s\<lparr>drawn := Suc (drawn s), completion_confirmations := completion_confirmations s @ [c]\<rparr>"
    using ins c by (auto simp: insert_confirmation_def split: if_splits)
  moreover have "s' = s\<lparr>drawn := drawn s + 2, completion_confirmations := completion_confirmations s @ [c],
       completion_evidence := completion_evidence s @ map (\<lambda>m. \<lparr>cv_confirmation_id = rng s (drawn s), cv_media_asset_id = m\<rparr>) ids,
       audit_events := audit_events s'\<rparr>"
    unfolding s' calculation(3) by (simp add: add_audit_eq add_evidence_def)
  ultimately show thesis
    using that[OF c, of "audit_events s'"] c by (simp add: completion_confirmation_check_def)
qed

lemma create_retention_spec:
  assumes "create_retention_background_job job a pid cutoff trace sch now s = Inr (r, s')"
  obtains (same) "s' = s" "job_for MEDIA_RETENTION_DELETE a s \<noteq> None"
  | (drawn) "s' = s\<lparr>drawn := Suc (drawn s)\<rparr>" "job_for MEDIA_RETENTION_DELETE a s \<noteq> None"
  | (new) b where "s' = s\<lparr>drawn := Suc (drawn s), background_jobs := background_jobs s @ [b]\<rparr>"
      "bj_job_type b = MEDIA_RETENTION_DELETE" "bj_media_asset_id b = a"
proof -
  obtain asset j where aj: "asset_and_job a job s = Some (asset, j)"
    using assms by (auto simp: create_retention_background_job_def split: option.splits)
  then have id: "ma_id asset = a"
    by (auto simp: asset_and_job_def dest: row_key split: option.splits if_splits)
  show thesis
  proof (cases "job_for MEDIA_RETENTION_DELETE a s")
    case (Some e)
    then have "s' = s" using assms aj by (simp add: create_retention_background_job_def)
    then show thesis using same Some by simp
  next
    case None
    let ?b = "new_background_job (rng s (drawn s)) job a MEDIA_RETENTION_DELETE (ma_object_key asset)
        (case ma_generation asset of Some g \<Rightarrow> g | None \<Rightarrow> []) None None trace (case sch of Some t \<Rightarrow> t | None \<Rightarrow> now) pid now"
    have n: "job_for MEDIA_RETENTION_DELETE a (s\<lparr>drawn := Suc (drawn s)\<rparr>) = None" using None by (simp add: job_for_def)
    have c: "create_media_deletion_background_job asset job pid trace sch now s = Inr (r, s')"
      using assms aj None by (auto simp: create_retention_background_job_def split: if_splits)
    have "s' = s\<lparr>drawn := Suc (drawn s), background_jobs := background_jobs s @ [?b]\<rparr>"
    proof (cases "insert_background_job ?b (s\<lparr>drawn := Suc (drawn s)\<rparr>)")
      case (Inl e)
      then show ?thesis using c n by (simp add: create_media_deletion_background_job_def uuid4_def Let_def id)
    next
      case (Inr s2)
      then have "s' = s2" using c by (simp add: create_media_deletion_background_job_def uuid4_def Let_def id)
      then show ?thesis using Inr by (auto simp: insert_background_job_def split: if_splits)
    qed
    then show thesis by (rule new) (simp_all add: new_background_job_def)
  qed
qed

lemma job_for_mono: "job_for ty a s \<noteq> None \<Longrightarrow> set (background_jobs s) \<subseteq> set (background_jobs s') \<Longrightarrow> job_for ty a s' \<noteq> None"
  by (auto simp: job_for_def find_None_iff)

lemma schedule_retention_spec:
  assumes "schedule_retention job as n trace now s = Inr s'"
  obtains d bs where "s' = s\<lparr>drawn := d, background_jobs := bs\<rparr>" "drawn s \<le> d" "set (background_jobs s) \<subseteq> set bs"
    "\<forall>a \<in> set as. job_for MEDIA_RETENTION_DELETE (ma_id a) s' \<noteq> None"
proof -
  have "\<exists>d bs. s' = s\<lparr>drawn := d, background_jobs := bs\<rparr> \<and> drawn s \<le> d \<and> set (background_jobs s) \<subseteq> set bs \<and>
    (\<forall>a \<in> set as. job_for MEDIA_RETENTION_DELETE (ma_id a) s' \<noteq> None)"
    using assms
  proof (induction as arbitrary: s)
    case Nil
    then have "s' = s\<lparr>drawn := drawn s, background_jobs := background_jobs s\<rparr>" by simp
    then show ?case by (intro exI[of _ "drawn s"] exI[of _ "background_jobs s"]) simp
  next
    case (Cons a as)
    obtain r s1 where s1: "create_retention_background_job job (ma_id a) None now trace (Some (now + days n)) now s = Inr (r, s1)"
      "schedule_retention job as n trace now s1 = Inr s'"
      using Cons.prems by (auto simp: bindR_Inr)
    obtain d1 bs1 where e1: "s1 = s\<lparr>drawn := d1, background_jobs := bs1\<rparr>" "drawn s \<le> d1" "set (background_jobs s) \<subseteq> set bs1"
      "job_for MEDIA_RETENTION_DELETE (ma_id a) s1 \<noteq> None"
    proof (rule create_retention_spec[OF s1(1)])
      assume a: "s1 = s" "job_for MEDIA_RETENTION_DELETE (ma_id a) s \<noteq> None"
      show thesis by (rule that[of "background_jobs s" "drawn s"]) (use a in simp_all)
    next
      assume a: "s1 = s\<lparr>drawn := Suc (drawn s)\<rparr>" "job_for MEDIA_RETENTION_DELETE (ma_id a) s \<noteq> None"
      show thesis by (rule that[of "background_jobs s" "Suc (drawn s)"]) (use a in \<open>simp_all add: job_for_def\<close>)
    next
      fix b assume a: "s1 = s\<lparr>drawn := Suc (drawn s), background_jobs := background_jobs s @ [b]\<rparr>"
        "bj_job_type b = MEDIA_RETENTION_DELETE" "bj_media_asset_id b = ma_id a"
      show thesis by (rule that[of "background_jobs s @ [b]" "Suc (drawn s)"]) (use a in \<open>auto simp: job_for_def find_None_iff\<close>)
    qed
    obtain d bs where e2: "s' = s1\<lparr>drawn := d, background_jobs := bs\<rparr>" "drawn s1 \<le> d" "set (background_jobs s1) \<subseteq> set bs"
      "\<forall>a \<in> set as. job_for MEDIA_RETENTION_DELETE (ma_id a) s' \<noteq> None"
      using Cons.IH[OF s1(2)] by blast
    have "job_for MEDIA_RETENTION_DELETE (ma_id a) s' \<noteq> None"
      by (rule job_for_mono[OF e1(4)]) (use e2 in simp)
    then show ?case
      using e1 e2 by (intro exI[of _ d] exI[of _ bs]) auto
  qed
  then show thesis using that by blast
qed

lemma ensure_spec:
  assumes "ensure_completion_confirmation job scope pid role ids now s = Inr (c, s')"
  obtains (old) "s' = s" "c \<in> set (completion_confirmations s)" "cc_job_id c = job" "cc_role c = role"
      "cc_scope_version_id c = scope" "cc_participant_id c = pid" "set (confirmation_evidence (cc_id c) s) = set ids"
  | (new) "store_confirmation job scope pid role ids now s = Inr (c, s')"
proof (cases "find (\<lambda>c. cc_job_id c = job \<and> cc_role c = role) (completion_confirmations s)")
  case None
  then show thesis using assms new by (simp add: ensure_completion_confirmation_def)
next
  case (Some e)
  then show thesis using assms old find_mem[OF Some] by (auto simp: ensure_completion_confirmation_def split: if_splits)
qed

section \<open>Invariant\<close>

text \<open>A job has at most one confirmation of each side; the sides agree on the version and the
  evidence; a completed job has both; and a request can be decided for a week.\<close>

definition conf_inv :: "db \<Rightarrow> bool" where
  "conf_inv s = (fresh_supply s \<and> cc_id ` set (completion_confirmations s) \<subseteq> drawn_ids s \<and>
     cv_confirmation_id ` set (completion_evidence s) \<subseteq> drawn_ids s \<and> distinct (map cc_id (completion_confirmations s)) \<and>
     distinct (map (\<lambda>c. (cc_job_id c, cc_role c)) (completion_confirmations s)) \<and>
     (\<forall>c \<in> set (completion_confirmations s). cc_role c \<in> {CUSTOMER, COMPANY_MANAGER}))"

definition same_terms :: "db \<Rightarrow> CompletionConfirmation \<Rightarrow> CompletionConfirmation \<Rightarrow> bool" where
  "same_terms s c d = (cc_scope_version_id c = cc_scope_version_id d \<and>
     set (confirmation_evidence (cc_id c) s) = set (confirmation_evidence (cc_id d) s))"

definition both_confirmed :: "uuid \<Rightarrow> db \<Rightarrow> bool" where
  "both_confirmed job s = (\<exists>c \<in> set (completion_confirmations s). \<exists>m \<in> set (completion_confirmations s).
     cc_job_id c = job \<and> cc_role c = CUSTOMER \<and> cc_job_id m = job \<and> cc_role m = COMPANY_MANAGER \<and> same_terms s c m)"

definition completion_inv :: "db \<Rightarrow> bool" where
  "completion_inv s = (conf_inv s \<and> distinct (map mj_id (move_jobs s)) \<and>
     (\<forall>c \<in> set (completion_confirmations s). \<forall>d \<in> set (completion_confirmations s). cc_job_id c = cc_job_id d \<longrightarrow> same_terms s c d) \<and>
     (\<forall>j \<in> set (move_jobs s). mj_status j = COMPLETED \<longrightarrow> both_confirmed (mj_id j) s) \<and>
     (\<forall>r \<in> set (completion_requests s). cq_expires_at r = cq_requested_at r + COMPLETION_REQUEST_TTL \<and>
        (cq_status r = CQ_CONFIRMED \<longrightarrow> both_confirmed (cq_job_id r) s)))"

lemma completion_frame:
  assumes "completion_inv s" "rng s' = rng s" "drawn s \<le> drawn s'" "completion_confirmations s' = completion_confirmations s"
    "completion_evidence s' = completion_evidence s" "move_jobs s' = move_jobs s"
    "\<forall>r \<in> set (completion_requests s'). r \<in> set (completion_requests s) \<or>
       cq_status r \<noteq> CQ_CONFIRMED \<and> cq_expires_at r = cq_requested_at r + COMPLETION_REQUEST_TTL"
  shows "completion_inv s'"
proof -
  have d: "drawn_ids s \<subseteq> drawn_ids s'" by (rule drawn_ids_mono[OF assms(2,3)])
  have "conf_inv s'"
    using assms(1,2,4,5) order_trans[OF _ d] unfolding completion_inv_def conf_inv_def fresh_supply_def by simp
  moreover have "same_terms s' = same_terms s" "both_confirmed i s' = both_confirmed i s" for i
    using assms(4,5) by (simp_all add: same_terms_def confirmation_evidence_def both_confirmed_def fun_eq_iff)
  ultimately show ?thesis
    using assms(1,4,6,7) unfolding completion_inv_def by (auto simp: Ball_def)
qed

lemma evidence_new:
  assumes "conf_inv s" "store_confirmation job scope pid role ids now s = Inr (c, s')"
  shows "confirmation_evidence (cc_id c) s' = ids"
    "d \<in> set (completion_confirmations s) \<Longrightarrow> confirmation_evidence (cc_id d) s' = confirmation_evidence (cc_id d) s"
proof -
  note inv = assms(1)[unfolded conf_inv_def]
  have new: "rng s (drawn s) \<notin> drawn_ids s" using uuid4_fresh inv by blast
  have e: "filter (\<lambda>e. cv_confirmation_id e = rng s (drawn s)) (completion_evidence s) = []"
    using inv new by (auto simp: filter_empty_conv)
  obtain es where s': "cc_id c = rng s (drawn s)" "completion_evidence s' = completion_evidence s @
      map (\<lambda>m. \<lparr>cv_confirmation_id = rng s (drawn s), cv_media_asset_id = m\<rparr>) ids" "completion_confirmations s' = es"
    by (rule store_confirmation_spec[OF assms(2)]) auto
  show "confirmation_evidence (cc_id c) s' = ids"
    unfolding confirmation_evidence_def s' by (simp add: e filter_map comp_def)
  assume "d \<in> set (completion_confirmations s)"
  then have "rng s (drawn s) \<noteq> cc_id d" using inv new by blast
  then show "confirmation_evidence (cc_id d) s' = confirmation_evidence (cc_id d) s"
    unfolding confirmation_evidence_def s' by (simp add: filter_map comp_def)
qed

lemma store_sound:
  assumes "conf_inv s" "store_confirmation job scope pid role ids now s = Inr (c, s')"
  shows "conf_inv s'"
proof (rule store_confirmation_spec[OF assms(2)])
  fix es
  assume a: "c = \<lparr>cc_id = rng s (drawn s), cc_job_id = job, cc_scope_version_id = scope, cc_participant_id = pid,
      cc_role = role, cc_confirmed_at = now\<rparr>" "role \<in> {CUSTOMER, COMPANY_MANAGER}"
    "\<not> list_ex (\<lambda>q. cc_job_id q = job \<and> cc_role q = role) (completion_confirmations s)"
    "s' = s\<lparr>drawn := drawn s + 2, completion_confirmations := completion_confirmations s @ [c],
       completion_evidence := completion_evidence s @ map (\<lambda>m. \<lparr>cv_confirmation_id = rng s (drawn s), cv_media_asset_id = m\<rparr>) ids,
       audit_events := es\<rparr>"
  note inv = assms(1)[unfolded conf_inv_def]
  have new: "rng s (drawn s) \<notin> drawn_ids s" using uuid4_fresh inv by blast
  have d: "drawn_ids s \<subseteq> drawn_ids s'" "rng s (drawn s) \<in> drawn_ids s'"
    by (auto simp: drawn_ids_def a(4))
  have i: "cc_id c = rng s (drawn s)" "cc_job_id c = job" "cc_role c = role" using a(1) by simp_all
  have n: "rng s (drawn s) \<notin> cc_id ` set (completion_confirmations s)" using inv new by blast
  have k: "(job, role) \<notin> (\<lambda>c. (cc_job_id c, cc_role c)) ` set (completion_confirmations s)"
    using a(3) by (auto simp: list_ex_iff)
  have ev: "cv_confirmation_id ` set (completion_evidence s') \<subseteq> drawn_ids s'" using inv d by (auto simp: a(4))
  have cs: "cc_id ` set (completion_confirmations s') \<subseteq> drawn_ids s'" using inv d i by (auto simp: a(4))
  show "conf_inv s'"
    unfolding conf_inv_def using inv ev cs n k i a(2) by (simp add: a(4) fresh_supply_def)
qed

section \<open>Confirming from both sides\<close>

lemma both_confirm_cases:
  assumes "confirm_completion job pid role cmd n trace now s = Inr (res, s')"
  obtains j v c s1 where "row mj_id job (move_jobs s) = Some j" "mj_status j \<noteq> COMPLETED"
    "version_of_job job (ccc_scope_version_id cmd) s = Some v" "sv_locked_at v \<noteq> None" "\<not> has_child (sv_id v) s"
    "\<not> open_change job s" "ensure_field_issues_resolved job s = Inr ()"
    "\<forall>d \<in> set (confirmations_of_job job s). cc_role d \<noteq> role \<and> cc_scope_version_id d = ccc_scope_version_id cmd"
    "confirmations_of_job job s \<noteq> [] \<Longrightarrow>
       set (confirmation_evidence (cc_id (hd (confirmations_of_job job s))) s) = set (ccc_evidence_media_asset_ids cmd)"
    "store_confirmation job (ccc_scope_version_id cmd) pid role (ccc_evidence_media_asset_ids cmd) now s = Inr (c, s1)"
    "if set (map cc_role (confirmations_of_job job s)) \<union> {role} = {CUSTOMER, COMPANY_MANAGER}
     then \<exists>as. schedule_retention job as n trace now (add_audit_event job AU_JOB_COMPLETED (Some pid)
        [(''scope_version_id'', id_json (ccc_scope_version_id cmd))] now (complete_job job now s1)) = Inr s'
     else s' = s1"
proof -
  obtain j v where j: "row mj_id job (move_jobs s) = Some j" "mj_status j \<notin> {COMPLETED, CANCELED}"
      "version_of_job job (ccc_scope_version_id cmd) s = Some v" "sv_locked_at v \<noteq> None" "\<not> has_child (sv_id v) s"
      "\<not> open_change job s" "ensure_field_issues_resolved job s = Inr ()"
      "is_participant job pid {role} s" "role \<in> set REQUIRED_COMPLETION_ROLES"
    using assms by (auto simp: confirm_completion_def bindR_Inr Let_def split: option.splits if_splits)
  let ?others = "confirmations_of_job job s" and ?ids = "ccc_evidence_media_asset_ids cmd"
  let ?assets = "filter (\<lambda>a. ma_id a \<in> set ?ids \<and> worker_evidence job a s) (media_assets s)"
  have o: "\<not> list_ex (\<lambda>c. cc_role c = role) ?others" "\<not> list_ex (\<lambda>c. cc_scope_version_id c \<noteq> ccc_scope_version_id cmd) ?others"
      "\<not> (case ?others of [] \<Rightarrow> False | c # _ \<Rightarrow> set (confirmation_evidence (cc_id c) s) \<noteq> set ?ids)"
    using assms j by (auto simp: confirm_completion_def bindR_Inr Let_def split: if_splits)
  have run: "bindR (store_confirmation job (ccc_scope_version_id cmd) pid role ?ids now s) (\<lambda>(c, s1).
        if set (map cc_role ?others) \<union> {role} = set REQUIRED_COMPLETION_ROLES then
          (let s2 = add_audit_event job AU_JOB_COMPLETED (Some pid)
                  [(''scope_version_id'', id_json (ccc_scope_version_id cmd))] now (complete_job job now s1) in
           bindR (as_conflict (schedule_retention job ?assets n trace now s2)) (\<lambda>s3.
             Inr (\<lparr>cor_confirmation = confirmation_response c s3, cor_job_status = COMPLETED, cor_completed_at = Some now\<rparr>, s3)))
        else Inr (\<lparr>cor_confirmation = confirmation_response c s1, cor_job_status = mj_status j, cor_completed_at = None\<rparr>, s1))
      = Inr (res, s')"
    using assms unfolding confirm_completion_def j(1,3) option.case j(7) bindR_simps Let_def
    using j(2,4-6,8,9) o by (simp add: Let_def split: if_splits)
  then obtain c s1 where c: "store_confirmation job (ccc_scope_version_id cmd) pid role ?ids now s = Inr (c, s1)"
    and fin: "(if set (map cc_role ?others) \<union> {role} = set REQUIRED_COMPLETION_ROLES then
          (let s2 = add_audit_event job AU_JOB_COMPLETED (Some pid)
                  [(''scope_version_id'', id_json (ccc_scope_version_id cmd))] now (complete_job job now s1) in
           bindR (as_conflict (schedule_retention job ?assets n trace now s2)) (\<lambda>s3.
             Inr (\<lparr>cor_confirmation = confirmation_response c s3, cor_job_status = COMPLETED, cor_completed_at = Some now\<rparr>, s3)))
        else Inr (\<lparr>cor_confirmation = confirmation_response c s1, cor_job_status = mj_status j, cor_completed_at = None\<rparr>, s1))
      = Inr (res, s')"
    unfolding bindR_Inr by auto
  have ac: "as_conflict m = Inr x \<longleftrightarrow> m = Inr x" for m :: "db result" and x
    by (auto simp: as_conflict_def split: sum.splits exn.splits)
  have fin': "if set (map cc_role ?others) \<union> {role} = {CUSTOMER, COMPANY_MANAGER}
     then \<exists>as. schedule_retention job as n trace now (add_audit_event job AU_JOB_COMPLETED (Some pid)
        [(''scope_version_id'', id_json (ccc_scope_version_id cmd))] now (complete_job job now s1)) = Inr s'
     else s' = s1"
  proof (cases "set (map cc_role ?others) \<union> {role} = set REQUIRED_COMPLETION_ROLES")
    case True
    then show ?thesis using fin by (simp add: bindR_Inr ac Let_def REQUIRED_COMPLETION_ROLES_def) blast
  next
    case False
    then show ?thesis using fin by (simp add: REQUIRED_COMPLETION_ROLES_def)
  qed
  have "\<forall>d \<in> set ?others. cc_role d \<noteq> role \<and> cc_scope_version_id d = ccc_scope_version_id cmd"
    using o(1,2) by (auto simp: list_ex_iff)
  moreover have "?others \<noteq> [] \<Longrightarrow> set (confirmation_evidence (cc_id (hd ?others)) s) = set ?ids"
    using o(3) by (cases ?others) auto
  ultimately show thesis
    using that[OF j(1) _ j(3-7) _ _ c fin'] j(2) by simp
qed

definition agreed :: "db \<Rightarrow> bool" where
  "agreed s = (\<forall>c \<in> set (completion_confirmations s). \<forall>d \<in> set (completion_confirmations s).
     cc_job_id c = cc_job_id d \<longrightarrow> same_terms s c d)"

lemma completion_inv_agreed:
  "completion_inv s \<longleftrightarrow> conf_inv s \<and> distinct (map mj_id (move_jobs s)) \<and> agreed s \<and>
     (\<forall>j \<in> set (move_jobs s). mj_status j = COMPLETED \<longrightarrow> both_confirmed (mj_id j) s) \<and>
     (\<forall>r \<in> set (completion_requests s). cq_expires_at r = cq_requested_at r + COMPLETION_REQUEST_TTL \<and>
        (cq_status r = CQ_CONFIRMED \<longrightarrow> both_confirmed (cq_job_id r) s))"
  unfolding completion_inv_def agreed_def by (rule refl)

lemma store_tables:
  assumes "store_confirmation job scope pid role ids now s = Inr (c, s')"
  shows "cc_job_id c = job" "cc_role c = role" "cc_scope_version_id c = scope"
    "completion_confirmations s' = completion_confirmations s @ [c]" "move_jobs s' = move_jobs s"
    "completion_requests s' = completion_requests s" "rng s' = rng s" "participants s' = participants s"
    "background_jobs s' = background_jobs s" "role \<in> {CUSTOMER, COMPANY_MANAGER}"
    "media_assets s' = media_assets s" "capture_sessions s' = capture_sessions s" "sha256_hex s' = sha256_hex s"
    "problem_reports s' = problem_reports s" "drawn s \<le> drawn s'"
  by (rule store_confirmation_spec[OF assms], simp)+

lemma both_stays:
  assumes "conf_inv s" "store_confirmation job scope pid role ids now s = Inr (c, s')" "both_confirmed i s"
  shows "both_confirmed i s'"
proof -
  obtain c1 m where cm: "c1 \<in> set (completion_confirmations s)" "m \<in> set (completion_confirmations s)" "cc_job_id c1 = i"
      "cc_role c1 = CUSTOMER" "cc_job_id m = i" "cc_role m = COMPANY_MANAGER" "same_terms s c1 m"
    using assms(3) unfolding both_confirmed_def by blast
  have "same_terms s' c1 m"
    using cm(7) evidence_new(2)[OF assms(1,2)] cm(1,2) by (simp add: same_terms_def)
  then show ?thesis
    using cm unfolding both_confirmed_def store_tables(4)[OF assms(2)] by (intro bexI[of _ c1] bexI[of _ m]) auto
qed

lemma store_agrees:
  assumes "conf_inv s" "agreed s" "store_confirmation job scope pid role ids now s = Inr (c, s')"
    "\<forall>d \<in> set (confirmations_of_job job s). cc_scope_version_id d = scope \<and> set (confirmation_evidence (cc_id d) s) = set ids"
  shows "agreed s'"
proof -
  note st = store_tables[OF assms(3)] and ev = evidence_new[OF assms(1,3)]
  have old: "same_terms s' d e" if "d \<in> set (completion_confirmations s)" "e \<in> set (completion_confirmations s)" "cc_job_id d = cc_job_id e" for d e
    using assms(2) that ev(2) unfolding agreed_def same_terms_def by metis
  have new: "same_terms s' c d \<and> same_terms s' d c" if "d \<in> set (completion_confirmations s)" "cc_job_id d = job" for d
    using assms(4) that ev st(3) by (auto simp: same_terms_def confirmations_of_job_def)
  have self: "same_terms s' c c" by (simp add: same_terms_def)
  show ?thesis
    unfolding agreed_def st(4) using old new self st(1) by auto
qed

lemma complete_job_tables:
  "rng (complete_job i now s) = rng s" "drawn (complete_job i now s) = drawn s"
  "completion_confirmations (complete_job i now s) = completion_confirmations s"
  "completion_evidence (complete_job i now s) = completion_evidence s"
  "completion_requests (complete_job i now s) = completion_requests s"
  "map mj_id (move_jobs (complete_job i now s)) = map mj_id (move_jobs s)"
  "participants (complete_job i now s) = participants s" "background_jobs (complete_job i now s) = background_jobs s"
  "media_assets (complete_job i now s) = media_assets s" "sha256_hex (complete_job i now s) = sha256_hex s"
  "problem_reports (complete_job i now s) = problem_reports s" "capture_sessions (complete_job i now s) = capture_sessions s"
  by (simp_all add: complete_job_def split: option.split)

lemma complete_job_mem:
  "j \<in> set (move_jobs (complete_job i now s)) \<Longrightarrow> j \<in> set (move_jobs s) \<or> mj_id j = i"
  by (auto simp: complete_job_def dest!: row_key split: option.splits elim!: put_rowE)

text \<open>Completing a job whose two sides have confirmed keeps the invariant.\<close>

lemma complete_sound:
  assumes "completion_inv s" "both_confirmed job s"
    "schedule_retention job as n trace now (add_audit_event job ty a p now (complete_job job now s)) = Inr s'"
  shows "completion_inv s'"
proof -
  let ?t = "complete_job job now s"
  have "conf_inv ?t = conf_inv s" "agreed ?t = agreed s" "both_confirmed i ?t = both_confirmed i s" for i
    by (simp_all add: conf_inv_def fresh_supply_def drawn_ids_def complete_job_tables agreed_def both_confirmed_def same_terms_def
        confirmation_evidence_def)
  then have t: "completion_inv ?t"
    using assms(1,2) complete_job_mem[of _ job now s] unfolding completion_inv_agreed complete_job_tables by metis
  obtain d bs where s': "s' = (add_audit_event job ty a p now ?t)\<lparr>drawn := d, background_jobs := bs\<rparr>"
      "drawn (add_audit_event job ty a p now ?t) \<le> d"
    by (rule schedule_retention_spec[OF assms(3)])
  show ?thesis
    by (rule completion_frame[OF t]) (use s'(2) in \<open>auto simp: s'(1) add_audit_eq\<close>)
qed

lemma store_completion_inv:
  assumes "completion_inv s" "store_confirmation job scope pid role ids now s = Inr (c, s')"
    "\<forall>d \<in> set (confirmations_of_job job s). cc_scope_version_id d = scope \<and> set (confirmation_evidence (cc_id d) s) = set ids"
  shows "completion_inv s'"
proof -
  have inv: "conf_inv s" "agreed s" using assms(1) by (simp_all add: completion_inv_agreed)
  show ?thesis
    using assms(1) store_sound[OF inv(1) assms(2)] store_agrees[OF inv assms(2,3)] both_stays[OF inv(1) assms(2)]
    unfolding completion_inv_agreed store_tables[OF assms(2)] by blast
qed

lemma both_by_roles:
  assumes "agreed s" "set (map cc_role (confirmations_of_job job s)) = {CUSTOMER, COMPANY_MANAGER}"
  shows "both_confirmed job s"
proof -
  obtain c m where "c \<in> set (completion_confirmations s)" "cc_job_id c = job" "cc_role c = CUSTOMER"
      "m \<in> set (completion_confirmations s)" "cc_job_id m = job" "cc_role m = COMPANY_MANAGER"
  proof -
    have "CUSTOMER \<in> cc_role ` set (confirmations_of_job job s)" "COMPANY_MANAGER \<in> cc_role ` set (confirmations_of_job job s)"
      using assms(2) by auto
    then show thesis using that unfolding confirmations_of_job_def by (elim imageE) auto
  qed
  then show ?thesis using assms(1) unfolding both_confirmed_def agreed_def by (intro bexI[of _ c] bexI[of _ m]) auto
qed

lemma both_confirm_sound:
  assumes "confirm_completion job pid role cmd n trace now s = Inr (res, s')" "completion_inv s"
  shows "completion_inv s'"
proof (rule both_confirm_cases[OF assms(1)])
  fix j v c s1
  assume others: "\<forall>d \<in> set (confirmations_of_job job s). cc_role d \<noteq> role \<and> cc_scope_version_id d = ccc_scope_version_id cmd"
    and first: "confirmations_of_job job s \<noteq> [] \<Longrightarrow>
       set (confirmation_evidence (cc_id (hd (confirmations_of_job job s))) s) = set (ccc_evidence_media_asset_ids cmd)"
    and st: "store_confirmation job (ccc_scope_version_id cmd) pid role (ccc_evidence_media_asset_ids cmd) now s = Inr (c, s1)"
    and fin: "if set (map cc_role (confirmations_of_job job s)) \<union> {role} = {CUSTOMER, COMPANY_MANAGER}
     then \<exists>as. schedule_retention job as n trace now (add_audit_event job AU_JOB_COMPLETED (Some pid)
        [(''scope_version_id'', id_json (ccc_scope_version_id cmd))] now (complete_job job now s1)) = Inr s'
     else s' = s1"
  have inv: "conf_inv s" "agreed s" using assms(2) by (simp_all add: completion_inv_agreed)
  have all: "\<forall>d \<in> set (confirmations_of_job job s). cc_scope_version_id d = ccc_scope_version_id cmd \<and>
      set (confirmation_evidence (cc_id d) s) = set (ccc_evidence_media_asset_ids cmd)"
  proof
    fix d assume d: "d \<in> set (confirmations_of_job job s)"
    then have h: "hd (confirmations_of_job job s) \<in> set (confirmations_of_job job s)" by (cases "confirmations_of_job job s") auto
    then have "same_terms s d (hd (confirmations_of_job job s))"
      using d inv(2) unfolding agreed_def confirmations_of_job_def by simp
    then show "cc_scope_version_id d = ccc_scope_version_id cmd \<and>
      set (confirmation_evidence (cc_id d) s) = set (ccc_evidence_media_asset_ids cmd)"
      using others d first h unfolding same_terms_def by (metis empty_iff empty_set)
  qed
  have s1: "completion_inv s1" by (rule store_completion_inv[OF assms(2) st all])
  show ?thesis
  proof (cases "set (map cc_role (confirmations_of_job job s)) \<union> {role} = {CUSTOMER, COMPANY_MANAGER}")
    case True
    have "set (map cc_role (confirmations_of_job job s1)) = {CUSTOMER, COMPANY_MANAGER}"
      using True store_tables(1,2,4)[OF st] by (auto simp: confirmations_of_job_def)
    then have "both_confirmed job s1" using both_by_roles s1 by (simp add: completion_inv_agreed)
    then show ?thesis using complete_sound[OF s1] fin True by auto
  next
    case False
    then show ?thesis using fin s1 by simp
  qed
qed

section \<open>The customer's decision\<close>

text \<open>The request the customer may still decide: the latest one, open, within its week, on a job that
  has not ended, about the latest submission on the current scope.\<close>

definition reviewable :: "uuid \<Rightarrow> CompletionRequest \<Rightarrow> CompletionSubmission \<Rightarrow> instant \<Rightarrow> db \<Rightarrow> bool" where
  "reviewable job r submission now s = (map_option cq_id (latest_request (\<lambda>_. True) job s) = Some (cq_id r) \<and>
     cq_status r = CQ_REQUESTED \<and> now < cq_expires_at r \<and>
     (\<exists>j. row mj_id job (move_jobs s) = Some j \<and> mj_status j \<notin> {COMPLETED, CANCELED}) \<and>
     reviewed_submission job (cq_completion_submission_id r) s = Inr submission)"

lemma decide_completion_cases:
  assumes "decide_completion_request job i pid cmd n trace now s = Inr (resp, s')"
  obtains (replay) r j where "request_of_job job i s = Inr r" "cq_status r \<in> {CQ_CONFIRMED, CQ_ISSUE_REPORTED}"
      "cq_decision_hash r = Some (command_hash (decision_command_json cmd) s)" "s' = s"
      "row mj_id job (move_jobs s) = Some j" "completion_decision_response j r s = Inr resp"
  | (problem) r submission r' k s1 ev j where "request_of_job job i s = Inr r" "reviewable job r submission now s"
      "cdc2_decision cmd = REPORT_ISSUE"
      "report_problem job r pid cmd (command_hash (decision_command_json cmd) s) now s = Inr (r', k, s1)"
      "enqueue_domain_event COMPLETION_DECIDED_V1 job (Some pid) (Some trace) (decided_payload r' REPORT_ISSUE k) now s1 = Inr (ev, s')"
      "row mj_id job (move_jobs s') = Some j" "completion_decision_response j r' s' = Inr resp"
  | (confirmed) r submission assets r' k s1 ev j where "request_of_job job i s = Inr r" "reviewable job r submission now s"
      "cdc2_decision cmd = CONFIRM" "ensure_field_issues_resolved job s = Inr ()"
      "ready_assets (submission_evidence_ids (cm_id submission) s) s = Inr assets"
      "confirm_review job r submission pid cmd (command_hash (decision_command_json cmd) s)
         (submission_evidence_ids (cm_id submission) s) assets n trace now s = Inr (r', k, s1)"
      "enqueue_domain_event COMPLETION_DECIDED_V1 job (Some pid) (Some trace) (decided_payload r' CONFIRM k) now s1 = Inr (ev, s')"
      "row mj_id job (move_jobs s') = Some j" "completion_decision_response j r' s' = Inr resp"
proof -
  let ?h = "command_hash (decision_command_json cmd) s"
  obtain j r where j: "row mj_id job (move_jobs s) = Some j" "load_completion_job job s = Inr j" "request_of_job job i s = Inr r"
      "isOk (completion_participant job pid CUSTOMER s)"
    using assms by (auto simp: decide_completion_request_def bindR_Inr load_completion_job_def split: option.splits)
  obtain p where px: "completion_participant job pid CUSTOMER s = Inr p" using j(4) by (auto simp: isOk_iff)
  have body: "(if cq_status r \<in> {CQ_CONFIRMED, CQ_ISSUE_REPORTED} then
       (if cq_decision_hash r = Some ?h then bindR (completion_decision_response j r s) (\<lambda>resp. Inr (resp, s))
        else Inl CompletionConflictError)
     else if map_option cq_id (latest_request (\<lambda>_. True) job s) \<noteq> Some (cq_id r) \<or> cq_status r \<noteq> CQ_REQUESTED \<or>
        cq_expires_at r \<le> now \<or> mj_status j \<in> {COMPLETED, CANCELED}
     then Inl CompletionConflictError
     else bindR (reviewed_submission job (cq_completion_submission_id r) s) (\<lambda>submission.
     let ids = submission_evidence_ids (cm_id submission) s in
     bindR (if cdc2_decision cmd = CONFIRM
        then bindR (ensure_field_issues_resolved job s) (\<lambda>_. bindR (ready_assets ids s) (\<lambda>assets.
          confirm_review job r submission pid cmd ?h ids assets n trace now s))
        else report_problem job r pid cmd ?h now s) (\<lambda>(r', problem, s1).
     bindR (enqueue_domain_event COMPLETION_DECIDED_V1 job (Some pid) (Some trace)
              (decided_payload r' (cdc2_decision cmd) problem) now s1) (\<lambda>(_, s2).
     bindR (load_completion_job job s2) (\<lambda>job'.
     bindR (completion_decision_response job' r' s2) (\<lambda>resp. Inr (resp, s2))))))) = Inr (resp, s')"
    using assms by (simp only: decide_completion_request_def j(2,3) px bindR_simps Let_def)
  show thesis
  proof (cases "cq_status r \<in> {CQ_CONFIRMED, CQ_ISSUE_REPORTED}")
    case True
    then show thesis using body replay[OF j(3) True _ _ j(1)] by (auto simp: bindR_Inr split: if_splits)
  next
    case False
    let ?b = "\<lambda>sub. if cdc2_decision cmd = CONFIRM
        then bindR (ensure_field_issues_resolved job s) (\<lambda>_. bindR (ready_assets (submission_evidence_ids (cm_id sub) s) s) (\<lambda>assets.
          confirm_review job r sub pid cmd ?h (submission_evidence_ids (cm_id sub) s) assets n trace now s))
        else report_problem job r pid cmd ?h now s"
    obtain submission where rev: "reviewable job r submission now s"
      using body False j(1) by (auto simp: reviewable_def bindR_Inr split: if_splits)
    have sub: "reviewed_submission job (cq_completion_submission_id r) s = Inr submission" using rev by (simp add: reviewable_def)
    have nf: "\<not> (map_option cq_id (latest_request (\<lambda>_. True) job s) \<noteq> Some (cq_id r) \<or> cq_status r \<noteq> CQ_REQUESTED \<or>
        cq_expires_at r \<le> now \<or> mj_status j \<in> {COMPLETED, CANCELED})"
      using rev j(1) by (simp add: reviewable_def)
    obtain r' k s1 ev j' where b: "?b submission = Inr (r', k, s1)"
      "enqueue_domain_event COMPLETION_DECIDED_V1 job (Some pid) (Some trace) (decided_payload r' (cdc2_decision cmd) k) now s1 = Inr (ev, s')"
      "load_completion_job job s' = Inr j'" "completion_decision_response j' r' s' = Inr resp"
      using body unfolding if_not_P[OF False] if_not_P[OF nf] sub bindR_simps Let_def by (auto simp: bindR_Inr)
    have j': "row mj_id job (move_jobs s') = Some j'"
      using b(3) by (auto simp: load_completion_job_def split: option.splits)
    show thesis
    proof (cases "cdc2_decision cmd")
      case CONFIRM
      obtain assets where "ensure_field_issues_resolved job s = Inr ()" "ready_assets (submission_evidence_ids (cm_id submission) s) s = Inr assets"
         "confirm_review job r submission pid cmd ?h (submission_evidence_ids (cm_id submission) s) assets n trace now s = Inr (r', k, s1)"
        using b(1) unfolding if_P[OF CONFIRM] by (auto simp: bindR_Inr)
      then show thesis using confirmed[OF j(3) rev CONFIRM] b(2,4) j' CONFIRM by simp
    next
      case REPORT_ISSUE
      then show thesis using problem[OF j(3) rev REPORT_ISSUE] b(1,2,4) j' by simp
    qed
  qed
qed

lemma ensure_terms:
  assumes "conf_inv s" "ensure_completion_confirmation job scope pid role ids now s = Inr (c, s')"
  shows "conf_inv s'" "c \<in> set (completion_confirmations s')" "cc_job_id c = job" "cc_role c = role" "cc_scope_version_id c = scope"
    "set (confirmation_evidence (cc_id c) s') = set ids"
    "d \<in> set (completion_confirmations s) \<Longrightarrow> d \<in> set (completion_confirmations s') \<and>
       confirmation_evidence (cc_id d) s' = confirmation_evidence (cc_id d) s"
    "d \<in> set (completion_confirmations s') \<Longrightarrow> d \<in> set (completion_confirmations s) \<or> d = c"
    "move_jobs s' = move_jobs s" "completion_requests s' = completion_requests s" "participants s' = participants s"
    "media_assets s' = media_assets s" "sha256_hex s' = sha256_hex s" "problem_reports s' = problem_reports s"
    "background_jobs s' = background_jobs s" "rng s' = rng s" "drawn s \<le> drawn s'" "capture_sessions s' = capture_sessions s"
proof (atomize (full), rule ensure_spec[OF assms(2)], goal_cases)
  case 1
  then show ?case using assms(1) by simp
next
  case 2
  note st = store_tables[OF 2] and ev = evidence_new[OF assms(1) 2] and snd = store_sound[OF assms(1) 2]
  show ?case using st ev snd by auto
qed

lemma both_kept:
  assumes "both_confirmed i s" "\<forall>d \<in> set (completion_confirmations s). d \<in> set (completion_confirmations s') \<and>
       confirmation_evidence (cc_id d) s' = confirmation_evidence (cc_id d) s"
  shows "both_confirmed i s'"
  using assms unfolding both_confirmed_def same_terms_def by (metis (no_types, lifting))

lemma put_request_sound:
  assumes "completion_inv s" "row cq_id (cq_id r) (completion_requests s) = Some r" "cq_id r' = cq_id r" "cq_job_id r' = cq_job_id r"
    "cq_requested_at r' = cq_requested_at r" "cq_expires_at r' = cq_expires_at r" "cq_status r' = CQ_CONFIRMED \<longrightarrow> both_confirmed (cq_job_id r) s"
  shows "completion_inv (put_completion_request r' s)"
proof -
  let ?t = "put_completion_request r' s"
  have "conf_inv ?t = conf_inv s" "agreed ?t = agreed s" "both_confirmed i ?t = both_confirmed i s" "move_jobs ?t = move_jobs s" for i
    by (simp_all add: put_completion_request_def conf_inv_def fresh_supply_def drawn_ids_def agreed_def both_confirmed_def
        same_terms_def confirmation_evidence_def)
  moreover have "\<forall>q \<in> set (completion_requests ?t). cq_expires_at q = cq_requested_at q + COMPLETION_REQUEST_TTL \<and>
      (cq_status q = CQ_CONFIRMED \<longrightarrow> both_confirmed (cq_job_id q) s)"
  proof
    fix q assume "q \<in> set (completion_requests ?t)"
    then have "q \<in> set (completion_requests s) \<or> q = r'" using set_put_row by (fastforce simp: put_completion_request_def)
    then show "cq_expires_at q = cq_requested_at q + COMPLETION_REQUEST_TTL \<and> (cq_status q = CQ_CONFIRMED \<longrightarrow> both_confirmed (cq_job_id q) s)"
      using assms row_mem[OF assms(2)] unfolding completion_inv_def by auto
  qed
  ultimately show ?thesis using assms(1) unfolding completion_inv_agreed by simp
qed

lemma confirm_review_cases:
  assumes "confirm_review job r submission pid cmd h ids assets n trace now s = Inr (r', k, s4)"
  obtains m mc s1 cc s2 where "ensure_completion_confirmation job (cm_scope_version_id submission) m COMPANY_MANAGER ids now s = Inr (mc, s1)"
    "ensure_completion_confirmation job (cm_scope_version_id submission) pid CUSTOMER ids now s1 = Inr (cc, s2)"
    "r' = completion_decided r CQ_CONFIRMED h pid (cdc2_unrecorded_extra_charge cmd) now" "k = None"
    "schedule_retention job assets n trace now (add_audit_event job AU_JOB_COMPLETED (Some pid)
                [(''scope_version_id'', id_json (cm_scope_version_id submission)),
                 (''completion_submission_id'', id_json (cm_id submission)), (''completion_request_id'', id_json (cq_id r))] now
                (complete_job job now (put_completion_request r' s2))) = Inr s4"
  using assms unfolding confirm_review_def bindR_Inr Let_def by (auto simp: bindR_Inr)

lemma both_sides:
  assumes inv: "completion_inv s"
    and m: "ensure_completion_confirmation job scope m COMPANY_MANAGER ids now s = Inr (mc, s1)"
    and c: "ensure_completion_confirmation job scope pid CUSTOMER ids now s1 = Inr (cc, s2)"
  shows "completion_inv s2" "both_confirmed job s2"
proof -
  have i: "conf_inv s" "agreed s" using inv by (simp_all add: completion_inv_agreed)
  note M = ensure_terms[OF i(1) m]
  note C = ensure_terms[OF M(1) c]
  have mc2: "mc \<in> set (completion_confirmations s2)" "set (confirmation_evidence (cc_id mc) s2) = set ids"
    using C(7)[OF M(2)] M(6) by auto
  have kept: "d \<in> set (completion_confirmations s) \<Longrightarrow> d \<in> set (completion_confirmations s2) \<and>
      confirmation_evidence (cc_id d) s2 = confirmation_evidence (cc_id d) s" for d
    using M(7) C(7) by metis
  have new: "d \<in> set (completion_confirmations s2) \<Longrightarrow> d \<in> set (completion_confirmations s) \<or> d = mc \<or> d = cc" for d
    using M(8) C(8) by blast
  have inj: "inj_on (\<lambda>c. (cc_job_id c, cc_role c)) (set (completion_confirmations s2))"
    and roles: "d \<in> set (completion_confirmations s2) \<Longrightarrow> cc_role d \<in> {CUSTOMER, COMPANY_MANAGER}" for d
    using C(1) by (simp_all add: conf_inv_def distinct_map)
  have of_job: "d = mc \<or> d = cc" if "d \<in> set (completion_confirmations s2)" "cc_job_id d = job" for d
    using roles[OF that(1)] inj_onD[OF inj _ that(1) mc2(1)] inj_onD[OF inj _ that(1) C(2)] that(2) M(3,4) C(3,4) by auto
  have terms: "cc_scope_version_id d = scope \<and> set (confirmation_evidence (cc_id d) s2) = set ids"
    if "d \<in> set (completion_confirmations s2)" "cc_job_id d = job" for d
    using of_job[OF that] mc2(2) M(5) C(5,6) by auto
  show both: "both_confirmed job s2"
    unfolding both_confirmed_def using mc2 C(2-6) M(3-5)
    by (intro bexI[of _ cc] bexI[of _ mc]) (auto simp: same_terms_def)
  have "agreed s2"
    unfolding agreed_def
  proof (intro ballI impI)
    fix x y assume x: "x \<in> set (completion_confirmations s2)" and y: "y \<in> set (completion_confirmations s2)"
      and xy: "cc_job_id x = cc_job_id y"
    show "same_terms s2 x y"
    proof (cases "cc_job_id x = job")
      case True
      then show ?thesis using terms[OF x] terms[OF y] xy by (simp add: same_terms_def)
    next
      case False
      then have "x \<in> set (completion_confirmations s)" "y \<in> set (completion_confirmations s)"
        using new[OF x] new[OF y] xy M(3) C(3) by auto
      then show ?thesis using i(2) kept xy unfolding agreed_def same_terms_def by metis
    qed
  qed
  moreover have "both_confirmed i s \<Longrightarrow> both_confirmed i s2" for i by (erule both_kept) (use kept in blast)
  ultimately show "completion_inv s2"
    using inv C(1,9,10) M(9,10) unfolding completion_inv_agreed by auto
qed

lemma enqueue_completion:
  assumes "enqueue_domain_event ty agg actor trace payload now s = Inr (ev, s')" "completion_inv s"
  shows "completion_inv s'"
  by (rule enqueue_event_spec[OF assms(1)], rule completion_frame[OF assms(2)]) simp_all

lemma request_of_job_row: "request_of_job job i s = Inr r \<Longrightarrow> row cq_id i (completion_requests s) = Some r \<and> cq_id r = i \<and> cq_job_id r = job"
  by (auto simp: request_of_job_def dest: row_key split: option.splits if_splits)

lemma report_problem_spec:
  assumes "report_problem job r pid cmd h now s = Inr (r', k, s1)"
  shows "r' = completion_decided r CQ_ISSUE_REPORTED h pid (cdc2_unrecorded_extra_charge cmd) now"
    "\<exists>p. s1 = (put_completion_request r' s)\<lparr>drawn := Suc (drawn s), problem_reports := p\<rparr>"
    "k = Some (rng s (drawn s))"
proof -
  obtain ty descr where t: "cdc2_problem_type cmd = Some ty" "cdc2_problem_description cmd = Some descr"
    using assms unfolding report_problem_def by (auto split: option.splits)
  let ?r = "completion_decided r CQ_ISSUE_REPORTED h pid (cdc2_unrecorded_extra_charge cmd) now"
  let ?p = "\<lparr>pr_id = rng s (drawn s), pr_job_id = job, pr_completion_request_id = cq_id r, pr_problem_type = ty,
                   pr_description = descr, pr_reported_by_participant_id = pid, pr_reported_at = now\<rparr>"
  have u: "uuid4 (put_completion_request ?r s) = (rng s (drawn s), (put_completion_request ?r s)\<lparr>drawn := Suc (drawn s)\<rparr>)"
    by (simp add: uuid4_def put_completion_request_def)
  have c: "(case insert_problem ?p ((put_completion_request ?r s)\<lparr>drawn := Suc (drawn s)\<rparr>) of Inl _ \<Rightarrow> Inl CompletionConflictError
      | Inr s2 \<Rightarrow> Inr (?r, Some (rng s (drawn s)), s2)) = Inr (r', k, s1)"
    using assms unfolding report_problem_def t u Let_def by simp
  show "r' = ?r" "k = Some (rng s (drawn s))" using c by (auto split: sum.splits)
  then show "\<exists>p. s1 = (put_completion_request r' s)\<lparr>drawn := Suc (drawn s), problem_reports := p\<rparr>"
    using c by (auto simp: insert_problem_def split: if_splits)
qed

lemma decide_completion_sound:
  assumes "decide_completion_request job i pid cmd n trace now s = Inr (resp, s')" "completion_inv s"
  shows "completion_inv s'"
  using assms(1)
proof (cases rule: decide_completion_cases)
  case replay
  then show ?thesis using assms(2) by simp
next
  case (problem r submission r' k s1 ev j)
  note r = request_of_job_row[OF problem(1)]
  note r' = report_problem_spec[OF problem(4)]
  have "completion_inv (put_completion_request r' s)"
    by (rule put_request_sound[OF assms(2), of r]) (use r in \<open>simp_all add: r'(1) completion_decided_def\<close>)
  moreover obtain q where "s1 = (put_completion_request r' s)\<lparr>drawn := Suc (drawn s), problem_reports := q\<rparr>" using r'(2) by blast
  ultimately have "completion_inv s1" by (intro completion_frame[of "put_completion_request r' s" s1]) (simp_all add: put_completion_request_def)
  then show ?thesis by (rule enqueue_completion[OF problem(5)])
next
  case (confirmed r submission assets r' k s1 ev j)
  note r = request_of_job_row[OF confirmed(1)]
  obtain m mc t1 cc t2 where e: "ensure_completion_confirmation job (cm_scope_version_id submission) m COMPANY_MANAGER
        (submission_evidence_ids (cm_id submission) s) now s = Inr (mc, t1)"
      "ensure_completion_confirmation job (cm_scope_version_id submission) pid CUSTOMER
        (submission_evidence_ids (cm_id submission) s) now t1 = Inr (cc, t2)"
      "r' = completion_decided r CQ_CONFIRMED (command_hash (decision_command_json cmd) s) pid (cdc2_unrecorded_extra_charge cmd) now"
      "schedule_retention job assets n trace now (add_audit_event job AU_JOB_COMPLETED (Some pid)
                [(''scope_version_id'', id_json (cm_scope_version_id submission)),
                 (''completion_submission_id'', id_json (cm_id submission)), (''completion_request_id'', id_json (cq_id r))] now
                (complete_job job now (put_completion_request r' t2))) = Inr s1"
    by (rule confirm_review_cases[OF confirmed(6)])
  note b = both_sides[OF assms(2) e(1,2)]
  have i: "conf_inv s" using assms(2) by (simp add: completion_inv_agreed)
  have t2: "completion_requests t2 = completion_requests s"
    using ensure_terms(10)[OF i e(1)] ensure_terms(10)[OF ensure_terms(1)[OF i e(1)] e(2)] by simp
  have "completion_inv (put_completion_request r' t2)"
    by (rule put_request_sound[OF b(1), of r]) (use r b(2) t2 in \<open>simp_all add: e(3) completion_decided_def\<close>)
  moreover have "both_confirmed job (put_completion_request r' t2)"
    by (rule both_kept[OF b(2)]) (simp add: put_completion_request_def confirmation_evidence_def)
  ultimately have "completion_inv s1" by (rule complete_sound[OF _ _ e(4)])
  then show ?thesis by (rule enqueue_completion[OF confirmed(7)])
qed

section \<open>Submitting and requesting\<close>

lemma submit_cases:
  assumes "submit_completion job pid cmd trace now s = Inr (resp, s')"
  obtains (replay) "s' = s"
  | (fresh) su plan scope r media s2 ev where "setup_of_job job s = Some su" "\<not> submission_blocked job now s"
      "ensure_field_issues_resolved job s = Inr ()" "submission_facts job pid cmd su now s = Inr (plan, scope)"
      "insert_submission r media (s\<lparr>drawn := Suc (drawn s)\<rparr>) = Inr s2"
      "enqueue_domain_event COMPLETION_SUBMITTED_V1 job (Some pid) (Some trace) (submission_payload r) now s2 = Inr (ev, s')"
proof -
  obtain j0 p where j0: "load_completion_job job s = Inr j0" "completion_participant job pid FIELD_WORKER s = Inr p"
    using assms unfolding submit_completion_def bindR_Inr by blast
  obtain su where su: "setup_of_job job s = Some su"
    using assms unfolding submit_completion_def j0 bindR_simps Let_def by (cases "setup_of_job job s") auto
  note j = j0 su
  show thesis
  proof (cases "find (\<lambda>r. cm_job_id r = job \<and> cm_client_reference r = csc_client_reference cmd) (completion_submissions s)")
    case (Some r)
    have "s' = s"
      using assms unfolding submit_completion_def j bindR_simps Let_def option.case Some by (auto simp: bindR_Inr split: if_splits)
    then show thesis by (rule replay)
  next
    case None
    note run = assms[unfolded submit_completion_def j bindR_simps Let_def option.case None]
    obtain plan scope where f: "ensure_field_issues_resolved job s = Inr ()" "\<not> submission_blocked job now s"
        "submission_facts job pid cmd su now s = Inr (plan, scope)"
      using run by (auto simp: bindR_Inr split: if_splits)
    show thesis
      using run f fresh[OF su f(2,1,3)]
      by (auto simp: bindR_Inr uuid4_def split: if_splits sum.splits)
  qed
qed

lemma submit_sound:
  assumes "submit_completion job pid cmd trace now s = Inr (resp, s')" "completion_inv s"
  shows "completion_inv s'"
  using assms(1)
proof (cases rule: submit_cases)
  case (fresh su plan scope r media s2 ev)
  have "completion_inv s2"
    using fresh(5) by (intro completion_frame[OF assms(2), of s2]) (auto simp: insert_submission_def split: if_splits)
  then show ?thesis by (rule enqueue_completion[OF fresh(6)])
qed (use assms(2) in simp)

lemma request_cases:
  assumes "create_completion_request job pid cmd trace now s = Inr (resp, s')"
  obtains (replay) "s' = s"
  | (fresh) submission and customer :: JobParticipant and r s2 ev where "reviewed_submission job (cqc_completion_submission_id cmd) s = Inr submission"
      "\<not> request_blocked job submission now s" "r = new_completion_request (rng s (drawn s)) job pid cmd (cm_id submission)
          (command_hash (request_command_json cmd) s) now"
      "insert_completion_request r (s\<lparr>drawn := Suc (drawn s)\<rparr>) = Inr s2"
      "enqueue_domain_event COMPLETION_REQUESTED_V1 job (Some pid) (Some trace) (request_payload r (jp_id customer)) now s2 = Inr (ev, s')"
      "resp = request_response r now s'"
proof -
  obtain j p where j: "load_completion_job job s = Inr j" "completion_participant job pid COMPANY_MANAGER s = Inr p"
    using assms by (auto simp: create_completion_request_def bindR_Inr Let_def)
  show thesis
  proof (cases "find (\<lambda>r. cq_job_id r = job \<and> cq_client_reference r = cqc_client_reference cmd) (completion_requests s)")
    case (Some r)
    have "s' = s"
      using assms unfolding create_completion_request_def j bindR_simps Let_def Some option.case by (auto split: if_splits)
    then show thesis by (rule replay)
  next
    case None
    note run = assms[unfolded create_completion_request_def j bindR_simps Let_def None option.case]
    obtain submission where f: "reviewed_submission job (cqc_completion_submission_id cmd) s = Inr submission"
        "\<not> request_blocked job submission now s"
      using run by (auto simp: bindR_Inr split: if_splits)
    show thesis
      using run f fresh[OF f refl] by (auto simp: bindR_Inr uuid4_def split: if_splits sum.splits option.splits)
  qed
qed

lemma request_sound:
  assumes "create_completion_request job pid cmd trace now s = Inr (resp, s')" "completion_inv s"
  shows "completion_inv s'"
  using assms(1)
proof (cases rule: request_cases)
  case (fresh submission customer r s2 ev)
  have "completion_inv s2"
    using fresh(4) by (intro completion_frame[OF assms(2), of s2])
      (auto simp: insert_completion_request_def fresh(3) new_completion_request_def split: if_splits)
  then show ?thesis by (rule enqueue_completion[OF fresh(5)])
qed (use assms(2) in simp)

lemma revoke_cases:
  assumes "revoke_completion_request job i pid reason now s = Inr (resp, s')"
  obtains (replay) "s' = s"
  | (revoked) r where "request_of_job job i s = Inr r" "cq_status r = CQ_REQUESTED" "now < cq_expires_at r"
      "s' = put_completion_request (r\<lparr>cq_status := CQ_REVOKED, cq_revoked_at := Some now, cq_revoke_reason := Some reason\<rparr>) s"
proof -
  obtain r where r: "request_of_job job i s = Inr r" using assms unfolding revoke_completion_request_def bindR_Inr by blast
  have run: "(if cq_status r = CQ_REVOKED \<and> cq_revoke_reason r = Some reason then Inr (request_response r now s, s)
     else if cq_status r \<noteq> CQ_REQUESTED \<or> cq_expires_at r \<le> now then Inl CompletionConflictError
     else let r' = r\<lparr>cq_status := CQ_REVOKED, cq_revoked_at := Some now, cq_revoke_reason := Some reason\<rparr>;
              s1 = put_completion_request r' s in
       Inr (request_response r' now s1, s1)) = Inr (resp, s')"
    using assms unfolding revoke_completion_request_def r bindR_Inr bindR_simps by blast
  show thesis
  proof (cases "cq_status r = CQ_REVOKED \<and> cq_revoke_reason r = Some reason")
    case True
    then show thesis using run replay by simp
  next
    case False
    then show thesis using run revoked[OF r] unfolding if_not_P[OF False] Let_def by (simp split: if_splits)
  qed
qed

lemma revoke_sound:
  assumes "revoke_completion_request job i pid reason now s = Inr (resp, s')" "completion_inv s"
  shows "completion_inv s'"
  using assms(1)
proof (cases rule: revoke_cases)
  case (revoked r)
  note r = request_of_job_row[OF revoked(1)]
  show ?thesis
    unfolding revoked(4) by (rule put_request_sound[OF assms(2), of r]) (use r in simp_all)
qed (use assms(2) in simp)

inductive completion_op :: "db \<Rightarrow> db \<Rightarrow> bool" where
  cop_confirm: "confirm_completion job p role ccmd n trace now s = Inr (cres, s') \<Longrightarrow> completion_op s s'"
| cop_submit: "submit_completion job p scmd trace now s = Inr (sresp, s') \<Longrightarrow> completion_op s s'"
| cop_request: "create_completion_request job p qcmd trace now s = Inr (qresp, s') \<Longrightarrow> completion_op s s'"
| cop_revoke: "revoke_completion_request job i p reason now s = Inr (qresp, s') \<Longrightarrow> completion_op s s'"
| cop_decide: "decide_completion_request job i p dcmd n trace now s = Inr (dresp, s') \<Longrightarrow> completion_op s s'"

lemma completion_op_sound: "completion_op s s' \<Longrightarrow> completion_inv s \<Longrightarrow> completion_inv s'"
proof (induction rule: completion_op.induct)
  case cop_confirm then show ?case by (rule both_confirm_sound)
next
  case cop_submit then show ?case by (rule submit_sound)
next
  case cop_request then show ?case by (rule request_sound)
next
  case cop_revoke then show ?case by (rule revoke_sound)
next
  case cop_decide then show ?case by (rule decide_completion_sound)
qed

lemma completion_ops_sound: "completion_op\<^sup>*\<^sup>* s s' \<Longrightarrow> completion_inv s \<Longrightarrow> completion_inv s'"
proof (induction rule: rtranclp_induct)
  case (step y z)
  then show ?case using completion_op_sound by blast
qed

section \<open>Properties\<close>

text \<open>Property C14: no job is completed by one side. In every state the completion operations reach, a
  completed job and a confirmed request have a confirmation of the customer and one of the company,
  for the same scope version and the same evidence.\<close>

theorem completed_by_both:
  assumes "completion_inv s" "completion_op\<^sup>*\<^sup>* s s'"
  shows "(\<forall>j \<in> set (move_jobs s'). mj_status j = COMPLETED \<longrightarrow> both_confirmed (mj_id j) s') \<and>
    (\<forall>r \<in> set (completion_requests s'). cq_status r = CQ_CONFIRMED \<longrightarrow> both_confirmed (cq_job_id r) s')"
  using completion_ops_sound[OF assms(2,1)] unfolding completion_inv_def by blast

text \<open>The customer has one week. A request that is still open can be decided only less than
  seven days after it was made; from then on it shows as expired, and can be neither decided nor revoked.\<close>

theorem review_takes_a_week:
  assumes "completion_inv s" "completion_op\<^sup>*\<^sup>* s s'" "request_of_job job i s' = Inr r" "cq_status r = CQ_REQUESTED"
  shows "(isOk (decide_completion_request job i pid cmd n trace now s') \<longrightarrow> now < cq_requested_at r + days 7) \<and>
    (cq_requested_at r + days 7 \<le> now \<longrightarrow> request_view_status r now = VIEW_EXPIRED \<and>
       \<not> isOk (revoke_completion_request job i pid2 reason now s'))"
proof -
  have "r \<in> set (completion_requests s')" by (rule row_mem[OF conjunct1[OF request_of_job_row[OF assms(3)]]])
  then have ex: "cq_expires_at r = cq_requested_at r + days 7"
    using completion_ops_sound[OF assms(2,1)] unfolding completion_inv_def COMPLETION_REQUEST_TTL_def by blast
  have "now < cq_expires_at r" if "decide_completion_request job i pid cmd n trace now s' = Inr (resp, t)" for resp t
    using that
  proof (cases rule: decide_completion_cases)
    case (replay r2 j)
    then show ?thesis using assms(3,4) by simp
  next
    case (problem r2)
    then show ?thesis using assms(3) by (simp add: reviewable_def)
  next
    case (confirmed r2)
    then show ?thesis using assms(3) by (simp add: reviewable_def)
  qed
  moreover have "now < cq_expires_at r" if "revoke_completion_request job i pid2 reason now s' = Inr (resp, t)" for resp t
  proof -
    have "cq_status r \<noteq> CQ_REVOKED" using assms(4) by simp
    then show ?thesis
      using that assms(3,4) unfolding revoke_completion_request_def by (auto simp: bindR_Inr Let_def split: if_splits)
  qed
  ultimately show ?thesis
    unfolding isOk_iff ex[symmetric] using assms(4) by (auto simp: request_view_status_def)
qed

lemma decided_state:
  assumes "decide_completion_request job i pid cmd n trace now s = Inr (resp, s')" "completion_inv s"
  shows "\<exists>r j. request_of_job job i s' = Inr r \<and> cq_status r \<in> {CQ_CONFIRMED, CQ_ISSUE_REPORTED} \<and>
    cq_decision_hash r = Some (command_hash (decision_command_json cmd) s) \<and> row mj_id job (move_jobs s') = Some j \<and>
    completion_decision_response j r s' = Inr resp \<and> participants s' = participants s \<and> sha256_hex s' = sha256_hex s"
  using assms(1)
proof (cases rule: decide_completion_cases)
  case (replay r j)
  then show ?thesis by blast
next
  case (problem r submission r' k s1 ev j)
  note r = request_of_job_row[OF problem(1)] and sp = report_problem_spec[OF problem(4)]
  obtain q where s1: "s1 = (put_completion_request r' s)\<lparr>drawn := Suc (drawn s), problem_reports := q\<rparr>" using sp(2) by blast
  obtain d ob where s': "s' = s1\<lparr>drawn := d, outbox := ob\<rparr>" by (rule enqueue_event_spec[OF problem(5)])
  have r': "cq_id r' = i" "cq_job_id r' = job" "cq_status r' = CQ_ISSUE_REPORTED"
      "cq_decision_hash r' = Some (command_hash (decision_command_json cmd) s)"
    using r by (simp_all add: sp(1) completion_decided_def)
  have "request_of_job job i s' = Inr r'"
    using r r' by (simp add: request_of_job_def s' s1 put_completion_request_def row_put_row)
  then show ?thesis
    using r' problem(6,7) by (intro exI[of _ r'] exI[of _ j]) (simp add: s' s1 put_completion_request_def)
next
  case (confirmed r submission assets r' k s1 ev j)
  note r = request_of_job_row[OF confirmed(1)]
  have i: "conf_inv s" using assms(2) by (simp add: completion_inv_agreed)
  obtain m mc t1 cc t2 where e: "ensure_completion_confirmation job (cm_scope_version_id submission) m COMPANY_MANAGER
        (submission_evidence_ids (cm_id submission) s) now s = Inr (mc, t1)"
      "ensure_completion_confirmation job (cm_scope_version_id submission) pid CUSTOMER
        (submission_evidence_ids (cm_id submission) s) now t1 = Inr (cc, t2)"
      "r' = completion_decided r CQ_CONFIRMED (command_hash (decision_command_json cmd) s) pid (cdc2_unrecorded_extra_charge cmd) now"
      "schedule_retention job assets n trace now (add_audit_event job AU_JOB_COMPLETED (Some pid)
                [(''scope_version_id'', id_json (cm_scope_version_id submission)),
                 (''completion_submission_id'', id_json (cm_id submission)), (''completion_request_id'', id_json (cq_id r))] now
                (complete_job job now (put_completion_request r' t2))) = Inr s1"
    by (rule confirm_review_cases[OF confirmed(6)])
  note M = ensure_terms[OF i e(1)]
  note C = ensure_terms[OF M(1) e(2)]
  obtain d1 bs where s1: "s1 = (add_audit_event job AU_JOB_COMPLETED (Some pid)
                [(''scope_version_id'', id_json (cm_scope_version_id submission)),
                 (''completion_submission_id'', id_json (cm_id submission)), (''completion_request_id'', id_json (cq_id r))] now
                (complete_job job now (put_completion_request r' t2)))\<lparr>drawn := d1, background_jobs := bs\<rparr>"
    by (rule schedule_retention_spec[OF e(4)])
  obtain d ob where s': "s' = s1\<lparr>drawn := d, outbox := ob\<rparr>" by (rule enqueue_event_spec[OF confirmed(7)])
  have r': "cq_id r' = i" "cq_job_id r' = job" "cq_status r' = CQ_CONFIRMED"
      "cq_decision_hash r' = Some (command_hash (decision_command_json cmd) s)"
    using r by (simp_all add: e(3) completion_decided_def)
  have "completion_requests s' = put_row cq_id r' (completion_requests s)"
    by (simp add: s' s1 add_audit_eq complete_job_tables put_completion_request_def C(10) M(10))
  then have "request_of_job job i s' = Inr r'"
    using r r' by (simp add: request_of_job_def row_put_row)
  moreover have "participants s' = participants s" "sha256_hex s' = sha256_hex s"
    by (simp_all add: s' s1 add_audit_eq complete_job_tables put_completion_request_def C(11,13) M(11,13))
  ultimately show ?thesis
    using r' confirmed(8,9) by (intro exI[of _ r'] exI[of _ j]) simp
qed

text \<open>A decision stands. Sending it again, at any later time, gets the same answer and changes
  nothing, and no decision with another content is accepted for the request.\<close>

theorem completion_decision_stands:
  assumes "completion_inv s" "decide_completion_request job i pid cmd n trace now s = Inr (resp, s')"
  shows "decide_completion_request job i pid cmd n trace2 later s' = Inr (resp, s') \<and>
    (command_hash (decision_command_json cmd') s' \<noteq> command_hash (decision_command_json cmd) s' \<longrightarrow>
       \<not> isOk (decide_completion_request job i pid2 cmd' n2 trace3 later2 s'))"
proof -
  obtain r j where r: "request_of_job job i s' = Inr r" "cq_status r \<in> {CQ_CONFIRMED, CQ_ISSUE_REPORTED}"
    "cq_decision_hash r = Some (command_hash (decision_command_json cmd) s)" "row mj_id job (move_jobs s') = Some j"
    "completion_decision_response j r s' = Inr resp" "participants s' = participants s" "sha256_hex s' = sha256_hex s"
    using decided_state[OF assms(2,1)] by blast
  have h: "command_hash (decision_command_json cmd) s' = command_hash (decision_command_json cmd) s"
    using r(7) by (simp add: command_hash_def)
  have l: "load_completion_job job s' = Inr j" using r(4) by (simp add: load_completion_job_def)
  have "isOk (completion_participant job pid CUSTOMER s)"
    using assms(2) by (auto simp: decide_completion_request_def bindR_Inr isOk_iff)
  then have "isOk (completion_participant job pid CUSTOMER s')"
    by (simp add: completion_participant_def job_participants_def r(6))
  then obtain p where p: "completion_participant job pid CUSTOMER s' = Inr p" by (auto simp: isOk_iff)
  have "decide_completion_request job i pid cmd n trace2 later s' = Inr (resp, s')"
    unfolding decide_completion_request_def l p r(1) bindR_simps Let_def if_P[OF r(2)] h r(3) by (simp add: r(5))
  moreover have "\<not> isOk (decide_completion_request job i pid2 cmd' n2 trace3 later2 s')"
    if "command_hash (decision_command_json cmd') s' \<noteq> command_hash (decision_command_json cmd) s'"
    using that h r(3) unfolding decide_completion_request_def l r(1) Let_def bindR_simps if_P[OF r(2)]
    by (auto simp: isOk_iff bindR_Inr)
  ultimately show ?thesis by blast
qed

text \<open>Property C15: what a customer's confirmation does. The job is completed now; both sides stand confirmed
  for the submission's version with exactly its media as evidence; every medium is ready and its
  deletion is scheduled.\<close>

theorem confirmation_ends_job:
  assumes "completion_inv s" "decide_completion_request job i pid cmd n trace now s = Inr (resp, s')"
    and "cdc2_decision cmd = CONFIRM" "request_of_job job i s = Inr r" "cq_status r = CQ_REQUESTED"
  shows "\<exists>submission j m c. reviewable job r submission now s \<and> row mj_id job (move_jobs s') = Some j \<and> mj_status j = COMPLETED \<and>
    mj_completed_at j = Some now \<and> {m, c} \<subseteq> set (completion_confirmations s') \<and> cc_role m = COMPANY_MANAGER \<and> cc_role c = CUSTOMER \<and>
    cc_participant_id c = pid \<and>
    (\<forall>x \<in> {m, c}. cc_job_id x = job \<and> cc_scope_version_id x = cm_scope_version_id submission \<and>
       set (confirmation_evidence (cc_id x) s') = set (submission_evidence_ids (cm_id submission) s)) \<and>
    (\<forall>e \<in> set (submission_evidence_ids (cm_id submission) s). job_for MEDIA_RETENTION_DELETE e s' \<noteq> None \<and>
       (\<exists>a \<in> set (media_assets s). ma_id a = e \<and> ma_status a = READY))"
  using assms(2)
proof (cases rule: decide_completion_cases)
  case (replay r2 j)
  then show ?thesis using assms(4,5) by simp
next
  case (problem r2)
  then show ?thesis using assms(3) by simp
next
  case (confirmed r2 submission assets r' k s1 ev j0)
  let ?ids = "submission_evidence_ids (cm_id submission) s" and ?v = "cm_scope_version_id submission"
  have r: "r2 = r" using confirmed(1) assms(4) by simp
  have i: "conf_inv s" using assms(1) by (simp add: completion_inv_agreed)
  obtain mgr mc t1 cc t2 where e: "ensure_completion_confirmation job ?v mgr COMPANY_MANAGER ?ids now s = Inr (mc, t1)"
      "ensure_completion_confirmation job ?v pid CUSTOMER ?ids now t1 = Inr (cc, t2)"
      "schedule_retention job assets n trace now (add_audit_event job AU_JOB_COMPLETED (Some pid)
                [(''scope_version_id'', id_json ?v), (''completion_submission_id'', id_json (cm_id submission)),
                 (''completion_request_id'', id_json (cq_id r2))] now
                (complete_job job now (put_completion_request r' t2))) = Inr s1"
    by (rule confirm_review_cases[OF confirmed(6)])
  note M = ensure_terms[OF i e(1)]
  note C = ensure_terms[OF M(1) e(2)]
  have cust: "cc_participant_id cc = pid"
    by (rule ensure_spec[OF e(2)], assumption, erule store_confirmation_spec, simp)
  obtain d1 bs where s1: "s1 = (add_audit_event job AU_JOB_COMPLETED (Some pid)
                [(''scope_version_id'', id_json ?v), (''completion_submission_id'', id_json (cm_id submission)),
                 (''completion_request_id'', id_json (cq_id r2))] now
                (complete_job job now (put_completion_request r' t2)))\<lparr>drawn := d1, background_jobs := bs\<rparr>"
      and jobs: "\<forall>a \<in> set assets. job_for MEDIA_RETENTION_DELETE (ma_id a) s1 \<noteq> None"
    by (rule schedule_retention_spec[OF e(3)])
  obtain d ob where s': "s' = s1\<lparr>drawn := d, outbox := ob\<rparr>" by (rule enqueue_event_spec[OF confirmed(7)])
  have tab: "completion_confirmations s' = completion_confirmations t2" "completion_evidence s' = completion_evidence t2"
    by (simp_all add: s' s1 add_audit_eq complete_job_tables put_completion_request_def)
  then have ev: "confirmation_evidence x s' = confirmation_evidence x t2" for x by (simp add: confirmation_evidence_def)
  have m2: "mc \<in> set (completion_confirmations t2)" "set (confirmation_evidence (cc_id mc) t2) = set ?ids"
    using C(7)[OF M(2)] M(6) by auto
  obtain j where j: "row mj_id job (move_jobs s) = Some j" using confirmed(2) by (auto simp: reviewable_def)
  have jid: "mj_id j = job" by (rule row_key[OF j])
  have "row mj_id job (move_jobs s') = Some (j\<lparr>mj_status := COMPLETED, mj_completed_at := Some now, mj_updated_at := now\<rparr>)"
    using j jid by (simp add: s' s1 add_audit_eq complete_job_def put_completion_request_def C(9) M(9) row_put_row)
  moreover have ready: "\<exists>a \<in> set assets. ma_id a = x" if "x \<in> set ?ids" for x
  proof -
    have "x \<in> ma_id ` set assets" using confirmed(5) that by (auto simp: ready_assets_def Let_def split: if_splits)
    then show ?thesis by blast
  qed
  moreover have "a \<in> set (media_assets s) \<and> ma_status a = READY" if "a \<in> set assets" for a
    using confirmed(5) that by (auto simp: ready_assets_def Let_def list_ex_iff split: if_splits)
  moreover have "job_for MEDIA_RETENTION_DELETE x s' = job_for MEDIA_RETENTION_DELETE x s1" for x by (simp add: job_for_def s')
  ultimately show ?thesis
    using confirmed(2) cust jobs m2 M(3-5) C(2-6) unfolding r
    by (intro exI[of _ submission] exI[of _ "j\<lparr>mj_status := COMPLETED, mj_completed_at := Some now, mj_updated_at := now\<rparr>"]
        exI[of _ mc] exI[of _ cc]) (auto simp: tab ev; metis)
qed

lemma store_returns:
  assumes "role \<in> {CUSTOMER, COMPANY_MANAGER}" "find (\<lambda>c. cc_job_id c = job \<and> cc_role c = role) (completion_confirmations s) = None"
  shows "\<exists>c s'. store_confirmation job scope pid role ids now s = Inr (c, s')"
  using assms by (auto simp: store_confirmation_def uuid4_def Let_def insert_confirmation_def completion_confirmation_check_def
      find_None_iff list_ex_iff)

lemma confirm_review_returns:
  assumes "confirmations_of_job job s = []" "completion_participant job (cq_requested_by_participant_id r) COMPANY_MANAGER s = Inr mgr"
  shows "\<exists>r' s4. confirm_review job r submission pid cmd h ids [] n trace now s = Inr (r', None, s4) \<and>
    r' = completion_decided r CQ_CONFIRMED h pid (cdc2_unrecorded_extra_charge cmd) now"
proof -
  have no: "find (\<lambda>c. cc_job_id c = job \<and> cc_role c = role) (completion_confirmations s) = None" for role
    using assms(1) by (auto simp: confirmations_of_job_def filter_empty_conv find_None_iff)
  obtain m s1 where m: "store_confirmation job (cm_scope_version_id submission) (jp_id mgr) COMPANY_MANAGER ids now s = Inr (m, s1)"
    using store_returns[OF _ no] by blast
  have "find (\<lambda>c. cc_job_id c = job \<and> cc_role c = CUSTOMER) (completion_confirmations s1) = None"
    using no[of CUSTOMER] store_tables(1,2,4)[OF m] by (simp add: find_append)
  then have no1: "find (\<lambda>c. cc_job_id c = job \<and> cc_role c = CUSTOMER) (completion_confirmations s1) = None" .
  obtain c s2 where c: "store_confirmation job (cm_scope_version_id submission) pid CUSTOMER ids now s1 = Inr (c, s2)"
    using store_returns[OF _ no1] by blast
  have "ensure_completion_confirmation job (cm_scope_version_id submission) (jp_id mgr) COMPANY_MANAGER ids now s = Inr (m, s1)"
    "ensure_completion_confirmation job (cm_scope_version_id submission) pid CUSTOMER ids now s1 = Inr (c, s2)"
    using no no1 m c by (simp_all add: ensure_completion_confirmation_def)
  then show ?thesis by (simp add: confirm_review_def assms(2) Let_def)
qed

lemma decide_confirm_returns:
  assumes inv: "completion_inv s" and r: "request_of_job job i s = Inr r" "reviewable job r submission now s"
    and p: "completion_participant job pid CUSTOMER s = Inr cust"
      "completion_participant job (cq_requested_by_participant_id r) COMPANY_MANAGER s = Inr mgr"
    and c: "cdc2_decision cmd = CONFIRM" "ensure_field_issues_resolved job s = Inr ()" "submission_evidence_ids (cm_id submission) s = []"
      "confirmations_of_job job s = []" "trace_text trace"
  shows "\<exists>resp s'. decide_completion_request job i pid cmd n trace now s = Inr (resp, s')"
proof -
  let ?h = "command_hash (decision_command_json cmd) s"
  obtain j where j: "row mj_id job (move_jobs s) = Some j" "mj_status j \<notin> {COMPLETED, CANCELED}"
    using r(2) by (auto simp: reviewable_def)
  have l: "load_completion_job job s = Inr j" using j by (simp add: load_completion_job_def)
  obtain r' s1 where rv: "confirm_review job r submission pid cmd ?h [] [] n trace now s = Inr (r', None, s1)"
      "r' = completion_decided r CQ_CONFIRMED ?h pid (cdc2_unrecorded_extra_charge cmd) now"
    using confirm_review_returns[OF c(4) p(2)] by blast
  have doc: "documented_payload COMPLETION_DECIDED_V1 (decided_payload r' CONFIRM None)"
    by (simp add: decided_payload_def documented_payload_def id_opt_json_def json_opt_def)
  obtain ev s2 where e: "enqueue_domain_event COMPLETION_DECIDED_V1 job (Some pid) (Some trace) (decided_payload r' CONFIRM None) now s1 = Inr (ev, s2)"
    using enqueue_event_returns[OF doc, of "Some trace" job "Some pid" now s1] c(5) by auto
  obtain m mc t1 cc t2 where en: "ensure_completion_confirmation job (cm_scope_version_id submission) m COMPANY_MANAGER [] now s = Inr (mc, t1)"
      "ensure_completion_confirmation job (cm_scope_version_id submission) pid CUSTOMER [] now t1 = Inr (cc, t2)"
      "s1 = add_audit_event job AU_JOB_COMPLETED (Some pid)
                [(''scope_version_id'', id_json (cm_scope_version_id submission)),
                 (''completion_submission_id'', id_json (cm_id submission)), (''completion_request_id'', id_json (cq_id r))] now
                (complete_job job now (put_completion_request r' t2))"
    by (rule confirm_review_cases[OF rv(1)]) simp
  have i: "conf_inv s" using inv by (simp add: completion_inv_agreed)
  note M = ensure_terms[OF i en(1)]
  note C = ensure_terms[OF M(1) en(2)]
  obtain d ob where s2: "s2 = s1\<lparr>drawn := d, outbox := ob\<rparr>" by (rule enqueue_event_spec[OF e])
  have "\<exists>j'. row mj_id job (move_jobs s2) = Some j'"
    using j(1) row_key[OF j(1)] by (simp add: s2 en(3) add_audit_eq complete_job_def put_completion_request_def C(9) M(9) row_put_row)
  then obtain j' where j': "load_completion_job job s2 = Inr j'" by (auto simp: load_completion_job_def)
  have "completion_decision_response j' r' s2 = Inr (theR (completion_decision_response j' r' s2))"
    by (simp add: completion_decision_response_def rv(2) completion_decided_def)
  then obtain resp where resp: "completion_decision_response j' r' s2 = Inr resp" by blast
  have nf: "cq_status r \<notin> {CQ_CONFIRMED, CQ_ISSUE_REPORTED}"
      "\<not> (map_option cq_id (latest_request (\<lambda>_. True) job s) \<noteq> Some (cq_id r) \<or> cq_status r \<noteq> CQ_REQUESTED \<or>
        cq_expires_at r \<le> now \<or> mj_status j \<in> {COMPLETED, CANCELED})"
      "reviewed_submission job (cq_completion_submission_id r) s = Inr submission"
    using r(2) j by (auto simp: reviewable_def)
  have "decide_completion_request job i pid cmd n trace now s = Inr (resp, s2)"
    unfolding decide_completion_request_def l p(1) r(1) bindR_simps Let_def if_not_P[OF nf(1)] if_not_P[OF nf(2)] nf(3) if_P[OF c(1)] c(2,3)
    by (simp add: ready_assets_def rv(1) c(1) e j' resp)
  then show ?thesis by blast
qed

section \<open>A sample completion\<close>

text \<open>Job 11 has a submission (90) on its current scope and an open request (91); a change request (70)
  nobody has decided is open as well, without a field issue behind it.\<close>

definition sample_submission :: CompletionSubmission where
  "sample_submission = \<lparr>cm_id = 90, cm_job_id = 11, cm_client_reference = 92, cm_dispatch_plan_id = 81, cm_scope_version_id = 31,
     cm_submitted_by_participant_id = 14, cm_command_hash = replicate 64 CHR ''a'', cm_completed_check_keys = [''clean''],
     cm_worker_shifts = [], cm_onsite_customer_confirmed = True, cm_onsite_confirmed_at = 20, cm_work_ended_at = 20, cm_submitted_at = 21\<rparr>"

definition sample_completion_request :: CompletionRequest where
  "sample_completion_request = new_completion_request 91 11 13 \<lparr>cqc_client_reference = 93, cqc_completion_submission_id = 90\<rparr> 90
     (replicate 64 CHR ''a'') 22"

definition sample_completion :: db where
  "sample_completion = (sample_dispatch 31 [sample_plan_row 31])\<lparr>field_issues := [], proposal_details := [],
     completion_submissions := [sample_submission], completion_requests := [sample_completion_request]\<rparr>"

definition sample_confirm :: CompletionDecisionCreate where
  "sample_confirm = \<lparr>cdc2_decision = CONFIRM, cdc2_problem_type = None, cdc2_problem_description = None, cdc2_unrecorded_extra_charge = None\<rparr>"

lemma sample_completion_inv: "completion_inv sample_completion"
  by (simp add: completion_inv_def conf_inv_def fresh_supply_def both_confirmed_def sample_completion_def sample_dispatch_defs
      sample_field_defs sample_completion_request_def new_completion_request_def)

lemma sample_completion_open: "open_change 11 sample_completion"
  by (simp add: open_change_def sample_completion_def sample_dispatch_def sample_field_defs)

lemma sample_request_row: "request_of_job 11 91 sample_completion = Inr sample_completion_request"
  by (simp add: request_of_job_def sample_completion_def sample_completion_request_def new_completion_request_def)

lemma sample_reviewable: "reviewable 11 sample_completion_request sample_submission 30 sample_completion"
  by (simp add: reviewable_def latest_request_def latest_submission_def reviewed_submission_def completion_current_scope_def latest_version_def
      has_child_def sample_completion_def sample_submission_def sample_completion_request_def new_completion_request_def
      COMPLETION_REQUEST_TTL_def days_def seconds_def sample_dispatch_def sample_field_defs)

lemma sample_decides: "\<exists>resp s'. decide_completion_request 11 91 12 sample_confirm 30 (replicate 32 CHR ''a'') 30 sample_completion = Inr (resp, s')"
proof (rule decide_confirm_returns[OF sample_completion_inv sample_request_row sample_reviewable])
  show "completion_participant 11 12 CUSTOMER sample_completion = Inr (sample_person 12 11 CUSTOMER)"
    "completion_participant 11 (cq_requested_by_participant_id sample_completion_request) COMPANY_MANAGER sample_completion
      = Inr (sample_person 13 11 COMPANY_MANAGER)"
    by (simp_all add: completion_participant_def job_participants_def sample_completion_def sample_dispatch_def sample_field_defs
        sample_completion_request_def new_completion_request_def)
  show "trace_text (replicate 32 CHR ''a'')" by (rule sample_trace)
qed (simp_all add: sample_confirm_def ensure_field_issues_resolved_def submission_evidence_ids_def confirmations_of_job_def
    sample_completion_def sample_dispatch_def sample_field_def empty_db_def)

lemma decide_keeps_changes:
  assumes "decide_completion_request job i pid cmd n trace now s = Inr (resp, s')"
  shows "change_requests s' = change_requests s"
proof -
  have en: "change_requests t' = change_requests t"
    if "ensure_completion_confirmation j sc p ro ids now t = Inr (c, t')" for j sc p ro ids t c t'
    using that by (elim ensure_spec) (simp, erule store_confirmation_spec, simp)
  show ?thesis
    using assms
  proof (cases rule: decide_completion_cases)
    case (problem r submission r' k s1 ev j)
    obtain q where s1: "s1 = (put_completion_request r' s)\<lparr>drawn := Suc (drawn s), problem_reports := q\<rparr>"
      using report_problem_spec(2)[OF problem(4)] by blast
    show ?thesis by (rule enqueue_event_spec[OF problem(5)]) (simp add: s1 put_completion_request_def)
  next
    case (confirmed r submission assets r' k s1 ev j)
    show ?thesis
    proof (rule confirm_review_cases[OF confirmed(6)], rule enqueue_event_spec[OF confirmed(7)], erule schedule_retention_spec)
      fix m mc t1 cc t2 d d2 bs
      assume "ensure_completion_confirmation job (cm_scope_version_id submission) m COMPANY_MANAGER
          (submission_evidence_ids (cm_id submission) s) now s = Inr (mc, t1)"
        "ensure_completion_confirmation job (cm_scope_version_id submission) pid CUSTOMER
          (submission_evidence_ids (cm_id submission) s) now t1 = Inr (cc, t2)"
        and a: "s' = s1\<lparr>drawn := d, outbox := outbox s1 @ [new_outbox_event ev]\<rparr>"
        and b: "s1 = add_audit_event job AU_JOB_COMPLETED (Some pid)
                [(''scope_version_id'', id_json (cm_scope_version_id submission)),
                 (''completion_submission_id'', id_json (cm_id submission)), (''completion_request_id'', id_json (cq_id r))] now
                (complete_job job now (put_completion_request r' t2))\<lparr>drawn := d2, background_jobs := bs\<rparr>"
      then have "change_requests t2 = change_requests s" using en by metis
      moreover have "change_requests (complete_job job now t) = change_requests t" for t
        by (simp add: complete_job_def split: option.split)
      ultimately show ?thesis by (simp add: a b add_audit_eq put_completion_request_def)
    qed
  qed simp
qed

text \<open>Property C16: the two ways of ending a job do not ask the same. While a change request of the job is
  undecided, confirming from both sides is refused with an error, whoever asks; but the customer's
  confirmation of a request goes through and ends the job with the change request still open.\<close>

theorem review_ignores_open_change:
  assumes "completion_inv s" "open_change job s" "request_of_job job i s = Inr r" "reviewable job r submission now s"
    and "completion_participant job pid CUSTOMER s = Inr cust"
      "completion_participant job (cq_requested_by_participant_id r) COMPANY_MANAGER s = Inr mgr"
    and "cdc2_decision cmd = CONFIRM" "ensure_field_issues_resolved job s = Inr ()" "submission_evidence_ids (cm_id submission) s = []"
      "confirmations_of_job job s = []" "trace_text trace"
  shows "\<not> isOk (confirm_completion job pid2 role ccmd n2 trace2 now s) \<and>
    (\<exists>resp s' j. decide_completion_request job i pid cmd n trace now s = Inr (resp, s') \<and> row mj_id job (move_jobs s') = Some j \<and>
       mj_status j = COMPLETED \<and> open_change job s')"
proof -
  have "\<not> isOk (confirm_completion job pid2 role ccmd n2 trace2 now s)"
  proof
    assume "isOk (confirm_completion job pid2 role ccmd n2 trace2 now s)"
    then obtain res t where "confirm_completion job pid2 role ccmd n2 trace2 now s = Inr (res, t)" by (auto simp: isOk_iff)
    then show False by (rule both_confirm_cases) (use assms(2) in simp)
  qed
  moreover obtain resp s' where d: "decide_completion_request job i pid cmd n trace now s = Inr (resp, s')"
    using decide_confirm_returns[OF assms(1,3,4,5,6,7-11)] by blast
  moreover have "open_change job s'" using assms(2) decide_keeps_changes[OF d] by (simp add: open_change_def)
  moreover have "\<exists>j. row mj_id job (move_jobs s') = Some j \<and> mj_status j = COMPLETED"
    using d
  proof (cases rule: decide_completion_cases)
    case (replay r2 j)
    then show ?thesis using assms(3,4) by (simp add: reviewable_def)
  next
    case (confirmed r2 sub assets r' k s1 ev j)
    obtain t2 d1 bs where s1: "s1 = (add_audit_event job AU_JOB_COMPLETED (Some pid)
                [(''scope_version_id'', id_json (cm_scope_version_id sub)), (''completion_submission_id'', id_json (cm_id sub)),
                 (''completion_request_id'', id_json (cq_id r2))] now
                (complete_job job now (put_completion_request r' t2)))\<lparr>drawn := d1, background_jobs := bs\<rparr>"
      by (rule confirm_review_cases[OF confirmed(6)], erule schedule_retention_spec, rule that)
    obtain d2 ob where s': "s' = s1\<lparr>drawn := d2, outbox := ob\<rparr>" by (rule enqueue_event_spec[OF confirmed(7)])
    have mv: "move_jobs s' = move_jobs (complete_job job now (put_completion_request r' t2))" by (simp add: s' s1 add_audit_eq)
    have "row mj_id job (move_jobs (put_completion_request r' t2)) \<noteq> None"
    proof
      assume n: "row mj_id job (move_jobs (put_completion_request r' t2)) = None"
      then show False using confirmed(8) mv by (simp add: complete_job_def)
    qed
    then obtain j0 where "row mj_id job (move_jobs (put_completion_request r' t2)) = Some j0" by blast
    then show ?thesis using row_key by (fastforce simp: mv complete_job_def row_put_row)
  qed (use assms(7) in simp)
  ultimately show ?thesis by blast
qed

lemma review_ignores_open_change_witness:
  "\<exists>resp s' j. decide_completion_request 11 91 12 sample_confirm 30 (replicate 32 CHR ''a'') 30 sample_completion = Inr (resp, s') \<and>
     row mj_id 11 (move_jobs s') = Some j \<and> mj_status j = COMPLETED \<and> open_change 11 s'"
proof -
  have "completion_participant 11 12 CUSTOMER sample_completion = Inr (sample_person 12 11 CUSTOMER)"
    "completion_participant 11 (cq_requested_by_participant_id sample_completion_request) COMPANY_MANAGER sample_completion
      = Inr (sample_person 13 11 COMPANY_MANAGER)"
    "cdc2_decision sample_confirm = CONFIRM" "ensure_field_issues_resolved 11 sample_completion = Inr ()"
    "submission_evidence_ids (cm_id sample_submission) sample_completion = []" "confirmations_of_job 11 sample_completion = []"
    by (simp_all add: completion_participant_def job_participants_def sample_completion_def sample_dispatch_def sample_field_defs
        sample_completion_request_def new_completion_request_def sample_confirm_def ensure_field_issues_resolved_def
        submission_evidence_ids_def confirmations_of_job_def)
  from review_ignores_open_change[OF sample_completion_inv sample_completion_open sample_request_row sample_reviewable this sample_trace]
  show ?thesis by blast
qed

lemma completed_by_both_witness:
  "\<exists>s'. completion_op\<^sup>*\<^sup>* sample_completion s' \<and> (\<forall>j \<in> set (move_jobs s'). mj_status j = COMPLETED \<longrightarrow> both_confirmed (mj_id j) s')"
proof -
  obtain resp s' where "decide_completion_request 11 91 12 sample_confirm 30 (replicate 32 CHR ''a'') 30 sample_completion = Inr (resp, s')"
    using sample_decides by blast
  then have "completion_op\<^sup>*\<^sup>* sample_completion s'" by (intro r_into_rtranclp cop_decide)
  then show ?thesis using completed_by_both[OF sample_completion_inv] by blast
qed

lemma review_takes_a_week_witness:
  "request_view_status sample_completion_request (22 + days 7) = VIEW_EXPIRED"
proof -
  have "cq_status sample_completion_request = CQ_REQUESTED" "cq_requested_at sample_completion_request = 22"
    by (simp_all add: sample_completion_request_def new_completion_request_def)
  then show ?thesis
    using review_takes_a_week[OF sample_completion_inv rtranclp.rtrancl_refl sample_request_row, where now = "22 + days 7"] by simp
qed

lemma completion_decision_stands_witness:
  "\<exists>resp s'. decide_completion_request 11 91 12 sample_confirm 30 (replicate 32 CHR ''a'') 30 sample_completion = Inr (resp, s') \<and>
     decide_completion_request 11 91 12 sample_confirm 30 (replicate 32 CHR ''b'') 99 s' = Inr (resp, s')"
  using sample_decides completion_decision_stands[OF sample_completion_inv] by blast

lemma confirmation_ends_job_witness:
  "\<exists>resp s' j. decide_completion_request 11 91 12 sample_confirm 30 (replicate 32 CHR ''a'') 30 sample_completion = Inr (resp, s') \<and>
     row mj_id 11 (move_jobs s') = Some j \<and> mj_completed_at j = Some 30"
proof -
  have c: "cdc2_decision sample_confirm = CONFIRM" "cq_status sample_completion_request = CQ_REQUESTED"
    by (simp_all add: sample_confirm_def sample_completion_request_def new_completion_request_def)
  obtain resp s' where d: "decide_completion_request 11 91 12 sample_confirm 30 (replicate 32 CHR ''a'') 30 sample_completion = Inr (resp, s')"
    using sample_decides by blast
  show ?thesis using d confirmation_ends_job[OF sample_completion_inv d c(1) sample_request_row c(2)] by blast
qed

end
