(* ===== verification/Documents.thy ===== *)
theory Documents
  imports Content
begin

text \<open>
  The PDF files of the completion archive (\<open>app/modules/completion/documents.py\<close>): breaking lines,
  writing text as hexadecimal UTF-16, and the byte layout of a PDF with its cross-reference table.
  A Python string is a list of code points, a byte string a list of characters. Which sentences
  the four documents hold is not modelled.
\<close>

type_synonym code_points = "nat list"

section \<open>Lines\<close>

definition PDF_LINES_PER_PAGE :: nat where
  "PDF_LINES_PER_PAGE = 42"

definition PDF_LINE_WIDTH :: nat where
  "PDF_LINE_WIDTH = 72"

text \<open>The characters \<open>str.strip\<close> removes.\<close>

definition unicode_space :: "nat \<Rightarrow> bool" where
  "unicode_space c = (9 \<le> c \<and> c \<le> 13 \<or> 28 \<le> c \<and> c \<le> 32 \<or> c \<in> {133, 160, 5760} \<or> 8192 \<le> c \<and> c \<le> 8202 \<or>
     c \<in> {8232, 8233, 8239, 8287, 12288})"

definition strip_points :: "code_points \<Rightarrow> code_points" where
  "strip_points u = rev (dropWhile unicode_space (rev (dropWhile unicode_space u)))"

function broken :: "code_points \<Rightarrow> code_points list" where
  "broken u = (if PDF_LINE_WIDTH < length u then take PDF_LINE_WIDTH u # broken (drop PDF_LINE_WIDTH u) else [u])"
  by pat_completeness auto
termination
  by (relation "measure length") (auto simp: PDF_LINE_WIDTH_def)

declare broken.simps [simp del]

fun wrapped :: "code_points list \<Rightarrow> code_points list" where
  "wrapped [] = []"
| "wrapped (source # rest) = (let u = strip_points source in (if u = [] then [[]] else broken u) @ wrapped rest)"

section \<open>Text as hexadecimal UTF-16\<close>

definition two_bytes :: "nat \<Rightarrow> nat list" where
  "two_bytes n = [n div 256, n mod 256]"

text \<open>Big-endian UTF-16; a lone surrogate cannot be encoded.\<close>

definition utf16_point :: "nat \<Rightarrow> nat list option" where
  "utf16_point c = (if c < 0xD800 \<or> 0xE000 \<le> c \<and> c < 0x10000 then Some (two_bytes c)
     else if 0x10000 \<le> c \<and> c < 0x110000
     then Some (two_bytes (0xD800 + (c - 0x10000) div 1024) @ two_bytes (0xDC00 + (c - 0x10000) mod 1024))
     else None)"

fun utf16_be :: "code_points \<Rightarrow> nat list option" where
  "utf16_be [] = Some []"
| "utf16_be (c # u) = (case (utf16_point c, utf16_be u) of (Some a, Some b) \<Rightarrow> Some (a @ b) | _ \<Rightarrow> None)"

definition upper_hex_digit :: "nat \<Rightarrow> char" where
  "upper_hex_digit n = (if n < 10 then char_of (48 + n) else char_of (55 + n))"

definition hex_bytes :: "nat list \<Rightarrow> string" where
  "hex_bytes bs = concat (map (\<lambda>b. [upper_hex_digit (b div 16), upper_hex_digit (b mod 16)]) bs)"

definition hex_text :: "code_points \<Rightarrow> string option" where
  "hex_text u = map_option hex_bytes (utf16_be u)"

section \<open>A PDF file\<close>

definition nat_text :: "nat \<Rightarrow> string" where
  "nat_text n = int_text (int n)"

text \<open>\<open>f"{n:010d}"\<close>\<close>

definition ten_digits :: "nat \<Rightarrow> string" where
  "ten_digits n = replicate (10 - length (nat_text n)) CHR ''0'' @ nat_text n"

definition NL :: string where
  "NL = [CHR 10]"

fun page_lists :: "nat \<Rightarrow> 'a list \<Rightarrow> 'a list list" where
  "page_lists 0 xs = []"
| "page_lists (Suc k) xs = take PDF_LINES_PER_PAGE xs # page_lists k (drop PDF_LINES_PER_PAGE xs)"

text \<open>As many pages as it takes, and one if there are no lines.\<close>

definition pages_of :: "'a list \<Rightarrow> 'a list list" where
  "pages_of xs = page_lists ((max 1 (length xs) + PDF_LINES_PER_PAGE - 1) div PDF_LINES_PER_PAGE) xs"

fun joined_by :: "string \<Rightarrow> string list \<Rightarrow> string" where
  "joined_by sep [] = []"
| "joined_by sep [x] = x"
| "joined_by sep (x # y # ys) = x @ sep @ joined_by sep (y # ys)"

definition page_number :: "nat \<Rightarrow> nat" where
  "page_number index = 5 + index * 2"

definition page_object :: "nat \<Rightarrow> string" where
  "page_object number = ''<< /Type /Page /Parent 2 0 R /MediaBox [0 0 595 842] '' @
     ''/Resources << /Font << /F1 3 0 R >> >> /Contents '' @ nat_text (number + 1) @ '' 0 R >>''"

definition page_stream :: "string \<Rightarrow> string list \<Rightarrow> string" where
  "page_stream title ls = joined_by NL ([''BT'', ''/F1 16 Tf'', ''50 790 Td'', ''<'' @ title @ ''> Tj'', ''/F1 10 Tf'', ''0 -26 Td''] @
     concat (map (\<lambda>l. [''<'' @ l @ ''> Tj'', ''0 -15 Td'']) ls) @ [''ET''])"

definition content_object :: "string \<Rightarrow> string" where
  "content_object stream = ''<< /Length '' @ nat_text (length stream) @ '' >>'' @ NL @ ''stream'' @ NL @ stream @ NL @ ''endstream''"

fun page_objects :: "nat \<Rightarrow> string \<Rightarrow> string list list \<Rightarrow> string list" where
  "page_objects index title [] = []"
| "page_objects index title (p # ps) =
     page_object (page_number index) # content_object (page_stream title p) # page_objects (Suc index) title ps"

definition pdf_objects :: "string \<Rightarrow> string list \<Rightarrow> string list" where
  "pdf_objects title ls = (let pages = pages_of ls in
     [''<< /Type /Catalog /Pages 2 0 R >>'',
      ''<< /Type /Pages /Count '' @ nat_text (length pages) @ '' /Kids ['' @
        joined_by '' '' (map (\<lambda>i. nat_text (page_number i) @ '' 0 R'') [0..<length pages]) @ ''] >>'',
      ''<< /Type /Font /Subtype /Type0 /BaseFont /HYSMyeongJo-Medium '' @ ''/Encoding /UniKS-UCS2-H /DescendantFonts [4 0 R] >>'',
      ''<< /Type /Font /Subtype /CIDFontType0 /BaseFont /HYSMyeongJo-Medium '' @
        ''/CIDSystemInfo << /Registry (Adobe) /Ordering (Korea1) /Supplement 2 >> >>''] @
     page_objects 0 title pages)"

definition PDF_HEADER :: string where
  "PDF_HEADER = ''%PDF-1.4'' @ NL @ ''%'' @ [CHR 0xE2, CHR 0xE3, CHR 0xCF, CHR 0xD3] @ NL"

definition object_bytes :: "nat \<Rightarrow> string \<Rightarrow> string" where
  "object_bytes number v = nat_text number @ '' 0 obj'' @ NL @ v @ NL @ ''endobj'' @ NL"

text \<open>Writing the objects one after the other, remembering where each one starts.\<close>

fun write_objects :: "nat \<Rightarrow> string list \<Rightarrow> string \<Rightarrow> nat list \<times> string" where
  "write_objects number [] out = ([], out)"
| "write_objects number (v # vs) out = (let (offsets, final) = write_objects (Suc number) vs (out @ object_bytes number v)
     in (length out # offsets, final))"

definition xref_line :: "nat \<Rightarrow> string" where
  "xref_line offset = ten_digits offset @ '' 00000 n '' @ NL"

definition trailer :: "nat \<Rightarrow> nat list \<Rightarrow> string" where
  "trailer xref_offset offsets = (let size = nat_text (length offsets + 1) in
     ''xref'' @ NL @ ''0 '' @ size @ NL @ ''0000000000 65535 f '' @ NL @ concat (map xref_line offsets) @
     ''trailer'' @ NL @ ''<< /Size '' @ size @ '' /Root 1 0 R >>'' @ NL @ ''startxref'' @ NL @ nat_text xref_offset @ NL @
     ''%%EOF'' @ NL)"

definition pdf_file :: "string list \<Rightarrow> string" where
  "pdf_file objects = (let (offsets, out) = write_objects 1 objects PDF_HEADER in out @ trailer (length out) offsets)"

text \<open>Encoding a lone surrogate raises.\<close>

definition pdf :: "code_points \<Rightarrow> code_points list \<Rightarrow> string option" where
  "pdf title sources = (case (hex_text title, those (map hex_text (wrapped sources))) of
     (Some t, Some ls) \<Rightarrow> Some (pdf_file (pdf_objects t ls)) | _ \<Rightarrow> None)"

record ZipEntry =
  ze_name :: string
  ze_year :: int
  ze_external_attr :: int
  ze_deflated :: bool
  ze_payload :: string

definition zip_entry :: "string \<Rightarrow> string \<Rightarrow> ZipEntry" where
  "zip_entry name payload = \<lparr>ze_name = name, ze_year = 1980, ze_external_attr = push_bit 16 384, ze_deflated = True,
     ze_payload = payload\<rparr>"

end
