(* ===== verification/DocumentProofs.thy ===== *)
theory DocumentProofs
  imports Documents
begin

text \<open>
  Lemmas about the PDF files: no line is too long and no character is lost, the hexadecimal text
  decodes to the line it came from, and the cross-reference table finds every object.
\<close>

section \<open>Lines\<close>

lemma broken_long: "PDF_LINE_WIDTH < length u \<Longrightarrow> broken u = take PDF_LINE_WIDTH u # broken (drop PDF_LINE_WIDTH u)"
  by (subst broken.simps) simp

lemma broken_short: "length u \<le> PDF_LINE_WIDTH \<Longrightarrow> broken u = [u]"
  by (subst broken.simps) simp

lemma concat_broken: "concat (broken u) = u"
proof (induction u rule: broken.induct)
  case (1 u)
  show ?case
  proof (cases "PDF_LINE_WIDTH < length u")
    case True
    show ?thesis unfolding broken_long[OF True] using 1[OF True] by simp
  next
    case False
    then show ?thesis using broken_short[of u] by simp
  qed
qed

lemma broken_width: "l \<in> set (broken u) \<Longrightarrow> length l \<le> PDF_LINE_WIDTH"
proof (induction u rule: broken.induct)
  case (1 u)
  show ?case
  proof (cases "PDF_LINE_WIDTH < length u")
    case True
    then show ?thesis using 1 broken_long[OF True] by auto
  next
    case False
    then show ?thesis using 1(2) broken_short[of u] by simp
  qed
qed

lemma length_broken: "u \<noteq> [] \<Longrightarrow> length (broken u) = (length u + PDF_LINE_WIDTH - 1) div PDF_LINE_WIDTH"
proof (induction u rule: broken.induct)
  case (1 u)
  show ?case
  proof (cases "PDF_LINE_WIDTH < length u")
    case True
    then have "drop PDF_LINE_WIDTH u \<noteq> []" by simp
    then have "length (broken u) = Suc ((length u - PDF_LINE_WIDTH + PDF_LINE_WIDTH - 1) div PDF_LINE_WIDTH)"
      using 1(1)[OF True] broken_long[OF True] by simp
    also have "length u - PDF_LINE_WIDTH + PDF_LINE_WIDTH - 1 = length u - 1" using True by simp
    also have "Suc ((length u - 1) div PDF_LINE_WIDTH) = (length u - 1 + PDF_LINE_WIDTH) div PDF_LINE_WIDTH"
      by (simp add: PDF_LINE_WIDTH_def)
    finally show ?thesis using True by (simp add: PDF_LINE_WIDTH_def)
  next
    case False
    then have "0 < length u" "length u \<le> 72" using 1 by (simp_all add: PDF_LINE_WIDTH_def)
    then have "(length u + 72 - 1) div 72 = 1" by (intro div_nat_eqI) (simp_all add: Suc_le_eq)
    then show ?thesis using False broken_short[of u] by (simp add: PDF_LINE_WIDTH_def)
  qed
qed

text \<open>Breaking text into lines ends and loses nothing. Every line has at most 72
  characters, the lines together are the stripped source texts, and a text of n characters takes
  n / 72 lines, rounded up, an empty one a blank line.\<close>

theorem lines_fit:
  "(\<forall>l \<in> set (wrapped sources). length l \<le> PDF_LINE_WIDTH) \<and> concat (wrapped sources) = concat (map strip_points sources) \<and>
   length (wrapped sources) = (\<Sum>u \<leftarrow> map strip_points sources.
     if u = [] then 1 else (length u + PDF_LINE_WIDTH - 1) div PDF_LINE_WIDTH)"
proof (induction sources)
  case (Cons u sources)
  then show ?case
    using broken_width[of _ "strip_points u"] by (auto simp: Let_def concat_broken length_broken)
qed simp

section \<open>Hexadecimal text\<close>

definition hex_value :: "char \<Rightarrow> nat" where
  "hex_value c = (let n = of_char c in if n < 58 then n - 48 else n - 55)"

fun unhex :: "string \<Rightarrow> nat list" where
  "unhex (a # b # cs) = (16 * hex_value a + hex_value b) # unhex cs"
| "unhex cs = []"

text \<open>A decoder for big-endian UTF-16.\<close>

fun code_units :: "nat list \<Rightarrow> nat list" where
  "code_units (a # b # bs) = (256 * a + b) # code_units bs"
| "code_units bs = []"

fun points_of :: "nat list \<Rightarrow> code_points" where
  "points_of [] = []"
| "points_of [h] = [h]"
| "points_of (h # l # us) = (if 0xD800 \<le> h \<and> h < 0xDC00 then (0x10000 + (h - 0xD800) * 1024 + (l - 0xDC00)) # points_of us
     else h # points_of (l # us))"

definition decode_hex :: "string \<Rightarrow> code_points" where
  "decode_hex t = points_of (code_units (unhex t))"

lemma hex_value_digit: "n < 16 \<Longrightarrow> hex_value (upper_hex_digit n) = n"
  by (simp add: hex_value_def upper_hex_digit_def Let_def)

lemma unhex_hex: "list_all (\<lambda>b. b < 256) bs \<Longrightarrow> unhex (hex_bytes bs) = bs"
proof (induction bs)
  case (Cons b bs)
  have "b div 16 < 16" using Cons.prems by (simp add: less_mult_imp_div_less)
  then show ?case using Cons by (simp add: hex_bytes_def hex_value_digit)
qed (simp add: hex_bytes_def)

lemma utf16_bytes: "utf16_be u = Some bs \<Longrightarrow> list_all (\<lambda>b. b < 256) bs"
proof (induction u arbitrary: bs)
  case (Cons c u)
  obtain a b where ab: "utf16_point c = Some a" "utf16_be u = Some b" "bs = a @ b"
    using Cons.prems by (auto split: option.splits)
  have "list_all (\<lambda>b. b < 256) a"
    using ab(1) by (auto simp: utf16_point_def two_bytes_def split: if_splits)
  then show ?case using Cons.IH[OF ab(2)] ab(3) by simp
qed simp

lemma decode_point:
  assumes "utf16_point c = Some a"
  shows "points_of (code_units (a @ b)) = c # points_of (code_units b)"
proof (cases "c < 0x10000")
  case True
  then have a: "a = two_bytes c" "c < 0xD800 \<or> 0xE000 \<le> c" using assms by (auto simp: utf16_point_def split: if_splits)
  have "points_of (c # us) = c # points_of us" for us
    using a(2) by (cases us) auto
  then show ?thesis by (simp add: a(1) two_bytes_def)
next
  case False
  let ?h = "0xD800 + (c - 0x10000) div 1024" and ?l = "0xDC00 + (c - 0x10000) mod 1024"
  have a: "a = two_bytes ?h @ two_bytes ?l" "c < 0x110000" using assms False by (auto simp: utf16_point_def split: if_splits)
  have h: "(c - 0x10000) div 1024 < 1024" using a(2) by (simp add: less_mult_imp_div_less)
  have "0x10000 + (?h - 0xD800) * 1024 + (?l - 0xDC00) = c"
    using False by simp
  moreover have "256 * (x div 256) + x mod 256 = x" for x :: nat by simp
  ultimately show ?thesis using h unfolding a(1) two_bytes_def by simp
qed

lemma decode_utf16: "utf16_be u = Some bs \<Longrightarrow> points_of (code_units bs) = u"
proof (induction u arbitrary: bs)
  case (Cons c u)
  obtain a b where ab: "utf16_point c = Some a" "utf16_be u = Some b" "bs = a @ b"
    using Cons.prems by (auto split: option.splits)
  then show ?case using decode_point Cons.IH by simp
qed simp

lemma utf16_returns: "list_all (\<lambda>c. c < 0xD800 \<or> 0xE000 \<le> c \<and> c < 0x110000) u \<Longrightarrow> \<exists>bs. utf16_be u = Some bs"
  by (induction u) (auto simp: utf16_point_def)

text \<open>Hexadecimal text reads back. A text without lone surrogates is written, as hexadecimal
  digits only, and decoding the digits as big-endian UTF-16 gives the text.\<close>

theorem hex_text_reads_back:
  assumes "list_all (\<lambda>c. c < 0xD800 \<or> 0xE000 \<le> c \<and> c < 0x110000) u"
  shows "\<exists>t. hex_text u = Some t \<and> decode_hex t = u"
proof -
  obtain bs where bs: "utf16_be u = Some bs" using utf16_returns[OF assms] by blast
  then show ?thesis
    by (simp add: hex_text_def decode_hex_def unhex_hex[OF utf16_bytes[OF bs]] decode_utf16[OF bs])
qed

lemma hex_text_reads_back_witness:
  "\<exists>t. hex_text [0xAC00, 65, 0x1F600] = Some t \<and> decode_hex t = [0xAC00, 65, 0x1F600]"
  by (rule hex_text_reads_back) simp

section \<open>The cross-reference table\<close>

lemma write_objects_spec:
  assumes "write_objects number vs out = (offsets, final)"
  shows "length offsets = length vs" "\<exists>rest. final = out @ rest"
    "k < length vs \<Longrightarrow> \<exists>rest. drop (offsets ! k) final = object_bytes (number + k) (vs ! k) @ rest"
    "k < length vs \<Longrightarrow> offsets ! k \<le> length final"
proof -
  have "length offsets = length vs \<and> (\<exists>rest. final = out @ rest) \<and>
    (\<forall>k < length vs. offsets ! k \<le> length final \<and> (\<exists>rest. drop (offsets ! k) final = object_bytes (number + k) (vs ! k) @ rest))"
    using assms
  proof (induction vs arbitrary: number out offsets)
    case (Cons v vs)
    obtain os where os: "write_objects (Suc number) vs (out @ object_bytes number v) = (os, final)" "offsets = length out # os"
      using Cons.prems by (auto split: prod.splits)
    note IH = Cons.IH[OF os(1)]
    obtain rest where rest: "final = out @ object_bytes number v @ rest" using IH by auto
    have "offsets ! k \<le> length final \<and> (\<exists>rest. drop (offsets ! k) final = object_bytes (number + k) ((v # vs) ! k) @ rest)"
      if "k < length (v # vs)" for k
    proof (cases k)
      case 0
      then show ?thesis by (simp add: os(2) rest)
    next
      case (Suc k')
      then show ?thesis using IH that by (simp add: os(2))
    qed
    then show ?case using IH os(2) rest by auto
  qed simp
  then show "length offsets = length vs" "\<exists>rest. final = out @ rest"
    "k < length vs \<Longrightarrow> \<exists>rest. drop (offsets ! k) final = object_bytes (number + k) (vs ! k) @ rest"
    "k < length vs \<Longrightarrow> offsets ! k \<le> length final" by auto
qed

text \<open>The cross-reference table of a PDF finds every object. The file is the objects followed by
  a trailer that begins where \<open>startxref\<close> says; the table has one offset per object, and reading the
  file there gives exactly that object under its number.\<close>

theorem xref_finds_objects:
  "\<exists>offsets out. pdf_file objects = out @ trailer (length out) offsets \<and> length offsets = length objects \<and>
     (\<forall>k < length objects. take (length (object_bytes (Suc k) (objects ! k))) (drop (offsets ! k) (pdf_file objects))
        = object_bytes (Suc k) (objects ! k)) \<and>
     drop (length out) (pdf_file objects) = trailer (length out) offsets"
proof -
  obtain offsets out where w: "write_objects 1 objects PDF_HEADER = (offsets, out)" by force
  note sp = write_objects_spec[OF w]
  have whole: "pdf_file objects = out @ trailer (length out) offsets" unfolding pdf_file_def w by simp
  have "take (length (object_bytes (Suc k) (objects ! k))) (drop (offsets ! k) (pdf_file objects)) = object_bytes (Suc k) (objects ! k)"
    if k: "k < length objects" for k
  proof -
    obtain rest where "drop (offsets ! k) out = object_bytes (Suc k) (objects ! k) @ rest" using sp(3)[OF k] by auto
    then have "drop (offsets ! k) (pdf_file objects) = object_bytes (Suc k) (objects ! k) @ rest @ trailer (length out) offsets"
      using sp(4)[OF k] unfolding whole by simp
    then show ?thesis by simp
  qed
  then show ?thesis using sp(1) whole by (intro exI[of _ offsets] exI[of _ out]) auto
qed

lemma lines_fit_witness:
  "concat (wrapped [replicate 100 65, [32]]) = replicate 100 65 \<and> length (wrapped [replicate 100 65, [32]]) = 3"
proof -
  have "strip_points (replicate 100 65) = replicate 100 65" "strip_points [32] = []"
    by (simp_all add: strip_points_def unicode_space_def dropWhile_replicate)
  then show ?thesis using lines_fit[of "[replicate 100 65, [32]]"] by (simp add: PDF_LINE_WIDTH_def)
qed

lemma xref_finds_objects_witness:
  "\<exists>offsets out. pdf_file [''a''] = out @ trailer (length out) offsets \<and>
     take (length (object_bytes 1 ''a'')) (drop (offsets ! 0) (pdf_file [''a''])) = object_bytes 1 ''a''"
  using xref_finds_objects[of "[''a'']"] by auto

end
