(* ===== verification/AccessLinks.thy ===== *)
theory AccessLinks
  imports AuditTrail
begin

text \<open>
  Access links and role invitations: \<open>app/modules/access/service.py\<close> and
  \<open>app/modules/access/invitations.py\<close>, with the schemas they return and the actor contract of
  \<open>app/contracts/actor.py\<close>. Lemmas are in AccessProofs. Only the digest of a secret is
  stored. An actor of a command is the identifier and the role of a participant; the rate limit
  cache is one function from key and window to its answer. A Korean constant is the list of its
  UTF-8 bytes. A foreign key always finds its row; a lookup that does not is \<open>NoResultFound\<close>.
\<close>

section \<open>Actors: \<open>app/contracts/actor.py\<close>\<close>

datatype ActorKind = PARTICIPANT_ACTOR | SERVICE_ACTOR | SYSTEM_ACTOR

record ActorContext =
  ac_actor_kind :: ActorKind
  ac_participant_id :: "uuid option"
  ac_participant_role :: "ParticipantRole option"
  ac_job_id :: "uuid option"
  ac_service_name :: "string option"
  ac_request_id :: uuid
  ac_trace_id :: string

definition service_name_ok :: "string \<Rightarrow> bool" where
  "service_name_ok t = (2 \<le> length t \<and> length t \<le> 63 \<and> is_lower (hd t) \<and>
     list_all (\<lambda>c. is_lower c \<or> is_digit c \<or> c = CHR ''-'') t \<and> (is_lower (last t) \<or> is_digit (last t)))"

definition actor_context_ok :: "ActorContext \<Rightarrow> bool" where
  "actor_context_ok a = (case ac_actor_kind a of
     PARTICIPANT_ACTOR \<Rightarrow> ac_participant_id a \<noteq> None \<and> ac_participant_role a \<noteq> None \<and> ac_job_id a \<noteq> None \<and>
       ac_service_name a = None
   | SERVICE_ACTOR \<Rightarrow> ac_service_name a \<noteq> None \<and> ac_participant_id a = None \<and> ac_participant_role a = None \<and>
       ac_job_id a = None
   | SYSTEM_ACTOR \<Rightarrow> ac_service_name a = None \<and> ac_participant_id a = None \<and> ac_participant_role a = None \<and>
       ac_job_id a = None)"

text \<open>Constructing the contract model strips the texts and runs every validator.\<close>

definition mk_actor_context :: "ActorContext \<Rightarrow> ActorContext result" where
  "mk_actor_context a0 = (let a = a0\<lparr>ac_service_name := map_option strip (ac_service_name a0), ac_trace_id := strip (ac_trace_id a0)\<rparr> in
     if \<not> trace_text (ac_trace_id a) \<or> (case ac_service_name a of None \<Rightarrow> False | Some t \<Rightarrow> \<not> service_name_ok t) \<or>
        \<not> actor_context_ok a
     then Inl ValueError else Inr a)"

definition is_participant_for :: "ActorContext \<Rightarrow> uuid \<Rightarrow> bool" where
  "is_participant_for a job_id = (ac_actor_kind a = PARTICIPANT_ACTOR \<and> ac_job_id a = Some job_id)"

text \<open>The actor of a participant, with the correlation of the request or a new one.\<close>

definition participant_actor :: "JobParticipant \<Rightarrow> (uuid \<times> string) option \<Rightarrow> db \<Rightarrow> (ActorContext \<times> db) result" where
  "participant_actor p corr s =
     (let ((request_id, trace_id), s1) = (case corr of Some c \<Rightarrow> (c, s)
            | None \<Rightarrow> let (r, s1) = uuid4 s; (t, s2) = token_hex16 s1 in ((r, t), s2)) in
      bindR (mk_actor_context \<lparr>ac_actor_kind = PARTICIPANT_ACTOR, ac_participant_id = Some (jp_id p),
        ac_participant_role = Some (jp_role p), ac_job_id = Some (jp_job_id p), ac_service_name = None,
        ac_request_id = request_id, ac_trace_id = trace_id\<rparr>) (\<lambda>a. Inr (a, s1)))"

section \<open>Secrets\<close>

definition base64_char :: "nat \<Rightarrow> char" where
  "base64_char n = (if n < 26 then char_of (65 + n) else if n < 52 then char_of (71 + n)
     else if n < 62 then char_of (n - 4) else if n = 62 then CHR ''-'' else CHR ''_'')"

fun base64_fixed :: "nat \<Rightarrow> nat \<Rightarrow> string" where
  "base64_fixed 0 n = []"
| "base64_fixed (Suc w) n = base64_fixed w (n div 64) @ [base64_char (n mod 64)]"

text \<open>\<open>secrets.token_urlsafe(32)\<close>: 32 random bytes in URL-safe base 64 without padding.\<close>

definition token_urlsafe32 :: "db \<Rightarrow> string \<times> db" where
  "token_urlsafe32 s = (base64_fixed 43 (4 * rng s (drawn s)), s\<lparr>drawn := Suc (drawn s)\<rparr>)"

definition url_safe_char :: "char \<Rightarrow> bool" where
  "url_safe_char c = (is_upper c \<or> is_lower c \<or> is_digit c \<or> c = CHR ''_'' \<or> c = CHR ''-'')"

definition access_secret_pattern :: "string \<Rightarrow> bool" where
  "access_secret_pattern t = (40 \<le> length t \<and> length t \<le> 100 \<and> list_all url_safe_char t)"

definition ACCESS_TOKEN_TTL :: duration where
  "ACCESS_TOKEN_TTL = days 7"

definition access_link_matches_secret :: "ParticipantAccessToken \<Rightarrow> string \<Rightarrow> db \<Rightarrow> bool" where
  "access_link_matches_secret link secret s = (at_token_hash link = sha256_hex s secret)"

section \<open>Issuing and rotating a link\<close>

record AccessLinkResponse =
  alr_id :: uuid
  alr_job_id :: uuid
  alr_participant_id :: uuid
  alr_role :: ParticipantRole
  alr_secret :: string
  alr_expires_at :: instant

text \<open>The unique indexes of the table: one row per digest, one unrevoked row per participant.\<close>

definition token_clash :: "ParticipantAccessToken \<Rightarrow> ParticipantAccessToken \<Rightarrow> bool" where
  "token_clash r x = (at_token_hash x = at_token_hash r \<or>
     (at_participant_id x = at_participant_id r \<and> at_revoked_at x = None \<and> at_revoked_at r = None))"

definition insert_access_token :: "ParticipantAccessToken \<Rightarrow> db \<Rightarrow> db result" where
  "insert_access_token r s = (if \<not> access_token_check r \<or> list_ex (token_clash r) (access_tokens s)
     then Inl IntegrityError else Inr (s\<lparr>access_tokens := access_tokens s @ [r]\<rparr>))"

definition put_token :: "ParticipantAccessToken \<Rightarrow> db \<Rightarrow> db" where
  "put_token r s = s\<lparr>access_tokens := put_row at_id r (access_tokens s)\<rparr>"

definition link_payload :: "uuid \<Rightarrow> JobParticipant \<Rightarrow> (string \<times> json) list" where
  "link_payload link_id p = [(''access_link_id'', id_json link_id), (''participant_id'', id_json (jp_id p)),
     (''role'', JStr (role_value (jp_role p)))]"

definition optional_entry :: "string \<Rightarrow> json option \<Rightarrow> (string \<times> json) list" where
  "optional_entry k v = (case v of None \<Rightarrow> [] | Some j \<Rightarrow> [(k, j)])"

definition new_access_token :: "uuid \<Rightarrow> uuid \<Rightarrow> string \<Rightarrow> instant \<Rightarrow> instant \<Rightarrow> ParticipantAccessToken" where
  "new_access_token i participant_id digest expiry now = \<lparr>at_id = i, at_participant_id = participant_id,
     at_token_hash = digest, at_expires_at = expiry, at_revoked_at = None, at_last_used_at = None,
     at_rate_window_started_at = None, at_rate_window_count = 0, at_created_at = now\<rparr>"

definition issue_access_link ::
    "JobParticipant \<Rightarrow> uuid option \<Rightarrow> string option \<Rightarrow> uuid option \<Rightarrow> instant option \<Rightarrow> instant \<Rightarrow> db \<Rightarrow>
     (AccessLinkResponse \<times> db) result" where
  "issue_access_link p actor operation invitation_id expires_at_limit now s =
     (let expiry = (case expires_at_limit of None \<Rightarrow> now + ACCESS_TOKEN_TTL | Some l \<Rightarrow> min (now + ACCESS_TOKEN_TTL) l);
          (secret, s1) = token_urlsafe32 s;
          (i, s2) = uuid4 s1 in
      bindR (insert_access_token (new_access_token i (jp_id p) (sha256_hex s secret) expiry now) s2) (\<lambda>s3.
      Inr (\<lparr>alr_id = i, alr_job_id = jp_job_id p, alr_participant_id = jp_id p, alr_role = jp_role p,
             alr_secret = secret, alr_expires_at = expiry\<rparr>,
           add_audit_event (jp_job_id p) AU_ACCESS_LINK_ISSUED actor
             (link_payload i p @ optional_entry ''operation'' (map_option JStr operation) @
              optional_entry ''invitation_id'' (map_option id_json invitation_id)) now s3)))"

text \<open>Writing a changed digest back meets the unique index of the digests.\<close>

definition rehash_token :: "ParticipantAccessToken \<Rightarrow> string \<Rightarrow> db \<Rightarrow> db result" where
  "rehash_token r digest s =
     (if length digest \<noteq> 64 \<or> list_ex (\<lambda>x. at_id x \<noteq> at_id r \<and> at_token_hash x = digest) (access_tokens s)
      then Inl IntegrityError else Inr (put_token (r\<lparr>at_token_hash := digest\<rparr>) s))"

definition rotate_access_link ::
    "JobParticipant \<Rightarrow> string \<Rightarrow> uuid \<Rightarrow> instant \<Rightarrow> db \<Rightarrow> (AccessLinkResponse \<times> db) result" where
  "rotate_access_link p current_secret actor now s =
     (case find (\<lambda>r. at_participant_id r = jp_id p \<and> at_revoked_at r = None \<and>
                     at_token_hash r = sha256_hex s current_secret \<and> now < at_expires_at r) (access_tokens s) of
        None \<Rightarrow> Inl InvalidAccessTokenError
      | Some link \<Rightarrow>
          let (secret, s1) = token_urlsafe32 s in
          bindR (rehash_token link (sha256_hex s secret) s1) (\<lambda>s2.
          Inr (\<lparr>alr_id = at_id link, alr_job_id = jp_job_id p, alr_participant_id = jp_id p, alr_role = jp_role p,
                 alr_secret = secret, alr_expires_at = at_expires_at link\<rparr>,
               add_audit_event (jp_job_id p) AU_ACCESS_LINK_ISSUED (Some actor)
                 (link_payload (at_id link) p @ [(''operation'', JStr ''self_rotation'')]) now s2)))"

definition load_participant :: "uuid \<Rightarrow> uuid \<Rightarrow> db \<Rightarrow> JobParticipant option" where
  "load_participant job_id participant_id s = (case row jp_id participant_id (participants s) of
     None \<Rightarrow> None | Some p \<Rightarrow> if jp_job_id p = job_id then Some p else None)"

section \<open>The rate limit\<close>

text \<open>One more request in the fixed window of a link, or the first of a new window.\<close>

definition count_request :: "instant \<Rightarrow> int \<Rightarrow> ParticipantAccessToken \<Rightarrow> ParticipantAccessToken" where
  "count_request now window r =
     (if (case at_rate_window_started_at r of None \<Rightarrow> True | Some t \<Rightarrow> t \<le> now - seconds window)
      then r\<lparr>at_rate_window_started_at := Some now, at_rate_window_count := 1\<rparr>
      else r\<lparr>at_rate_window_count := at_rate_window_count r + 1\<rparr>)"

definition increment_database_rate_window ::
    "uuid \<Rightarrow> string \<Rightarrow> instant \<Rightarrow> int \<Rightarrow> db \<Rightarrow> ((int \<times> instant) \<times> db) result" where
  "increment_database_rate_window link_id expected_token_hash now window s =
     (case find (\<lambda>r. at_id r = link_id \<and> at_token_hash r = expected_token_hash \<and> at_revoked_at r = None \<and>
                     now < at_expires_at r) (access_tokens s) of
        None \<Rightarrow> Inl InvalidAccessTokenError
      | Some r \<Rightarrow> let r' = count_request now window r in
          (case at_rate_window_started_at r' of None \<Rightarrow> Inl AssertionError
           | Some t \<Rightarrow> Inr ((at_rate_window_count r', t), put_token r' s)))"

definition ceil_seconds :: "duration \<Rightarrow> int" where
  "ceil_seconds d = - ((- d) div 1000000)"

definition cache_key :: "uuid \<Rightarrow> string" where
  "cache_key participant_id = ''seqret:rate:access:'' @ uuid_str participant_id"

type_synonym rate_cache = "string \<Rightarrow> int \<Rightarrow> port_error + int"

definition enforce_access_rate_limit ::
    "ParticipantAccessToken \<Rightarrow> rate_cache option \<Rightarrow> instant \<Rightarrow> int \<Rightarrow> int \<Rightarrow> db \<Rightarrow> db result" where
  "enforce_access_rate_limit link cache now limit window s =
     bindR (increment_database_rate_window (at_id link) (at_token_hash link) now window s) (\<lambda>((n, started), s1).
     if limit < n then Inl (AccessRateLimitExceededError (max 1 (ceil_seconds (started + seconds window - now))))
     else (case cache of None \<Rightarrow> Inr s1
       | Some increment \<Rightarrow> (case increment (cache_key (at_participant_id link)) window of
           Inl (ProviderError k retryable) \<Rightarrow>
             if k \<in> {DEADLINE_EXCEEDED, UNAVAILABLE} then Inr s1 else Inl (PortError (ProviderError k retryable))
         | Inl OtherError \<Rightarrow> Inl (PortError OtherError)
         | Inr m \<Rightarrow> if limit < m then Inl (AccessRateLimitExceededError window) else Inr s1)))"

section \<open>Authentication\<close>

definition invitation_of_link :: "uuid \<Rightarrow> db \<Rightarrow> ParticipantInvitation option" where
  "invitation_of_link link_id s = find (\<lambda>i. pi_access_link_id i = link_id) (invitations s)"

definition invitation_of_invitee :: "uuid \<Rightarrow> db \<Rightarrow> ParticipantInvitation option" where
  "invitation_of_invitee participant_id s = find (\<lambda>i. pi_invitee_participant_id i = participant_id) (invitations s)"

text \<open>The invitation behind a link does not let its bearer in.\<close>

definition invitation_bars :: "instant \<Rightarrow> bool \<Rightarrow> ParticipantInvitation option \<Rightarrow> bool" where
  "invitation_bars now allow_pending invite = (case invite of None \<Rightarrow> False
     | Some i \<Rightarrow> pi_status i \<notin> {INV_PENDING, INV_ACCEPTED} \<or> pi_expires_at i \<le> now \<or>
         (pi_status i = INV_PENDING \<and> \<not> allow_pending))"

definition record_use ::
    "ParticipantAccessToken \<Rightarrow> JobParticipant \<Rightarrow> ParticipantInvitation option \<Rightarrow> instant \<Rightarrow> db \<Rightarrow> db" where
  "record_use link p invite now s = (case row at_id (at_id link) (access_tokens s) of None \<Rightarrow> s
     | Some r \<Rightarrow> let s1 = put_token (r\<lparr>at_last_used_at := Some now\<rparr>) s in
         if at_last_used_at r = None \<and> (case invite of None \<Rightarrow> True | Some i \<Rightarrow> pi_status i = INV_ACCEPTED)
         then add_audit_event (jp_job_id p) AU_PARTICIPANT_CONNECTED (Some (jp_id p)) (link_payload (at_id link) p) now s1
         else s1)"

definition authenticate_access_token ::
    "string \<Rightarrow> rate_cache option \<Rightarrow> int \<Rightarrow> int \<Rightarrow> bool \<Rightarrow> (uuid \<times> string) option \<Rightarrow> instant \<Rightarrow> db \<Rightarrow>
     (ActorContext \<times> db) result" where
  "authenticate_access_token secret cache limit window allow_pending corr now s =
     (if \<not> access_secret_pattern secret then Inl InvalidAccessTokenError
      else (case find (\<lambda>r. at_token_hash r = sha256_hex s secret) (access_tokens s) of
        None \<Rightarrow> Inl InvalidAccessTokenError
      | Some link \<Rightarrow>
          if at_revoked_at link \<noteq> None \<or> at_expires_at link \<le> now then Inl InvalidAccessTokenError
          else if invitation_bars now allow_pending (invitation_of_link (at_id link) s) then Inl InvalidAccessTokenError
          else (case row jp_id (at_participant_id link) (participants s) of
            None \<Rightarrow> Inl NoResultFound
          | Some p \<Rightarrow>
              bindR (enforce_access_rate_limit link cache now limit window s) (\<lambda>s1.
              participant_actor p corr (record_use link p (invitation_of_link (at_id link) s) now s1)))))"

section \<open>Revoking a link\<close>

definition load_access_link :: "uuid \<Rightarrow> uuid \<Rightarrow> db \<Rightarrow> ParticipantAccessToken option" where
  "load_access_link job_id link_id s = (case row at_id link_id (access_tokens s) of None \<Rightarrow> None
     | Some r \<Rightarrow> (case row jp_id (at_participant_id r) (participants s) of None \<Rightarrow> None
         | Some p \<Rightarrow> if jp_job_id p = job_id then Some r else None))"

text \<open>\<open>revoke_workspace_memberships\<close> of \<open>workspace.py\<close>.\<close>

definition revoke_workspace_memberships :: "uuid \<Rightarrow> instant \<Rightarrow> db \<Rightarrow> db" where
  "revoke_workspace_memberships participant_id now s = s\<lparr>workspace_memberships :=
     update_where (\<lambda>m. wm_participant_id m = participant_id \<and> wm_revoked_at m = None)
       (\<lambda>m. m\<lparr>wm_revoked_at := Some now\<rparr>) (workspace_memberships s)\<rparr>"

definition revoke_access_link :: "uuid \<Rightarrow> uuid \<Rightarrow> string option \<Rightarrow> instant \<Rightarrow> db \<Rightarrow> db result" where
  "revoke_access_link link_id actor operation now s = (case row at_id link_id (access_tokens s) of
     None \<Rightarrow> Inl NoResultFound
   | Some link \<Rightarrow>
       if at_revoked_at link \<noteq> None then Inr s
       else (case row jp_id (at_participant_id link) (participants s) of
         None \<Rightarrow> Inl NoResultFound
       | Some p \<Rightarrow>
           let s1 = put_token (link\<lparr>at_revoked_at := Some now\<rparr>) s;
               s2 = revoke_workspace_memberships (jp_id p) now s1 in
           Inr (add_audit_event (jp_job_id p) AU_ACCESS_LINK_REVOKED (Some actor)
             ([(''access_link_id'', id_json link_id), (''participant_id'', id_json (jp_id p))] @
              optional_entry ''operation'' (map_option JStr operation)) now s2)))"

end
