(* ===== verification/Invitations.thy ===== *)
theory Invitations
  imports AccessLinks
begin

text \<open>
  Role invitations: \<open>app/modules/access/invitations.py\<close>. The customer invites the company
  manager, who invites the field worker; revoking an invitation revokes what its invitee has
  issued. The recursion over the tree of invitations takes its depth as an argument, and running
  out of it is a \<open>RecursionError\<close>; AccessProofs shows that \<open>TREE_DEPTH\<close> is enough.
\<close>

record InvitationCreate =
  ic_role :: ParticipantRole
  ic_display_name :: "string option"

definition invitation_create_ok :: "InvitationCreate \<Rightarrow> bool" where
  "invitation_create_ok c = (ic_role c \<noteq> CUSTOMER \<and> optional_text 1 100 (ic_display_name c))"

record InvitationResponse =
  ir_id :: uuid
  ir_job_id :: uuid
  ir_issuer_participant_id :: uuid
  ir_invitee_participant_id :: uuid
  ir_role :: ParticipantRole
  ir_display_name :: string
  ir_status :: InvitationStatus
  ir_issued_at :: instant
  ir_expires_at :: instant
  ir_resolved_at :: "instant option"

record InvitationIssuedResponse =
  iir_invitation :: InvitationResponse
  iir_access_link :: AccessLinkResponse

record ActorSelfResponse =
  asr_job_id :: uuid
  asr_participant_id :: uuid
  asr_role :: ParticipantRole
  asr_display_name :: string
  asr_permissions :: "string list"
  asr_expires_at :: instant
  asr_invitation :: "InvitationResponse option"

fun invitable_role :: "ParticipantRole \<Rightarrow> ParticipantRole option" where
  "invitable_role CUSTOMER = Some COMPANY_MANAGER"
| "invitable_role COMPANY_MANAGER = Some FIELD_WORKER"
| "invitable_role FIELD_WORKER = None"

fun role_permissions :: "ParticipantRole \<Rightarrow> string list" where
  "role_permissions CUSTOMER = [''job:read'', ''capture:write'', ''scope:review'',
     ''invitation:company_manager:manage'', ''completion:confirm'']"
| "role_permissions COMPANY_MANAGER = [''job:read'', ''scope:propose'',
     ''invitation:field_worker:manage'', ''dispatch:manage'', ''completion:request'']"
| "role_permissions FIELD_WORKER = [''job:read'', ''field:check_in'', ''field:issue'', ''completion:submit'']"

definition pending_invitation_permissions :: "string list" where
  "pending_invitation_permissions = [''invitation:read'', ''invitation:accept'', ''invitation:decline'']"

definition utf8_bytes :: "nat list \<Rightarrow> string" where
  "utf8_bytes = map char_of"

text \<open>The display names used when the command gives none.\<close>

definition MANAGER_NAME :: string where
  "MANAGER_NAME = utf8_bytes [236, 157, 180, 236, 130, 172, 236, 151, 133, 236, 178, 180, 32, 235, 139, 180, 235, 139, 185, 236, 158, 144]"

definition WORKER_NAME :: string where
  "WORKER_NAME = utf8_bytes [237, 152, 132, 236, 158, 165, 234, 184, 176, 236, 130, 172]"

definition invitee_name :: "InvitationCreate \<Rightarrow> string" where
  "invitee_name c = (case ic_display_name c of
     Some (ch # t) \<Rightarrow> ch # t
   | _ \<Rightarrow> if ic_role c = COMPANY_MANAGER then MANAGER_NAME else WORKER_NAME)"

definition materialize_expiry :: "instant \<Rightarrow> ParticipantInvitation \<Rightarrow> ParticipantInvitation" where
  "materialize_expiry now i =
     (if pi_status i = INV_PENDING \<and> pi_expires_at i \<le> now then i\<lparr>pi_status := INV_EXPIRED\<rparr> else i)"

definition invitation_response :: "ParticipantInvitation \<Rightarrow> db \<Rightarrow> InvitationResponse result" where
  "invitation_response i s = (case row jp_id (pi_invitee_participant_id i) (participants s) of
     None \<Rightarrow> Inl NoResultFound
   | Some p \<Rightarrow> Inr \<lparr>ir_id = pi_id i, ir_job_id = pi_job_id i, ir_issuer_participant_id = pi_issuer_participant_id i,
       ir_invitee_participant_id = pi_invitee_participant_id i, ir_role = pi_role i, ir_display_name = jp_display_name p,
       ir_status = pi_status i, ir_issued_at = pi_issued_at i, ir_expires_at = pi_expires_at i,
       ir_resolved_at = pi_resolved_at i\<rparr>)"

definition put_invitation :: "ParticipantInvitation \<Rightarrow> db \<Rightarrow> db" where
  "put_invitation i s = s\<lparr>invitations := put_row pi_id i (invitations s)\<rparr>"

text \<open>The unrevoked link of a participant with more than a second to live.\<close>

definition load_active_access_link :: "uuid \<Rightarrow> instant \<Rightarrow> db \<Rightarrow> ParticipantAccessToken option" where
  "load_active_access_link participant_id now s = find (\<lambda>r. at_participant_id r = participant_id \<and>
     at_revoked_at r = None \<and> now + seconds 1 < at_expires_at r) (access_tokens s)"

section \<open>Creating and listing\<close>

definition insert_participant :: "JobParticipant \<Rightarrow> db \<Rightarrow> db result" where
  "insert_participant p s =
     (if list_ex (\<lambda>x. jp_job_id x = jp_job_id p \<and> jp_role x = jp_role p) (participants s)
      then Inl IntegrityError else Inr (s\<lparr>participants := participants s @ [p]\<rparr>))"

definition insert_invitation :: "ParticipantInvitation \<Rightarrow> db \<Rightarrow> db result" where
  "insert_invitation i s =
     (if \<not> invitation_check i \<or> list_ex (\<lambda>x. (pi_job_id x = pi_job_id i \<and> pi_role x = pi_role i) \<or>
           pi_access_link_id x = pi_access_link_id i) (invitations s)
      then Inl IntegrityError else Inr (s\<lparr>invitations := invitations s @ [i]\<rparr>))"

definition role_provisioned :: "uuid \<Rightarrow> ParticipantRole \<Rightarrow> db \<Rightarrow> bool" where
  "role_provisioned job_id role s =
     (list_ex (\<lambda>i. pi_job_id i = job_id \<and> pi_role i = role) (invitations s) \<or>
      list_ex (\<lambda>p. jp_job_id p = job_id \<and> jp_role p = role) (participants s))"

definition create_invitation ::
    "uuid \<Rightarrow> uuid \<Rightarrow> ParticipantRole \<Rightarrow> InvitationCreate \<Rightarrow> instant \<Rightarrow> db \<Rightarrow> (InvitationIssuedResponse \<times> db) result" where
  "create_invitation job_id issuer_id actor_role cmd now s =
     (if invitable_role actor_role \<noteq> Some (ic_role cmd) then Inl InvitationRoleError
      else if row mj_id job_id (move_jobs s) = None then Inl InvitationNotFoundError
      else (case load_active_access_link issuer_id now s of
        None \<Rightarrow> Inl InvitationConflictError
      | Some issuer_link \<Rightarrow>
          if role_provisioned job_id (ic_role cmd) s then Inl InvitationConflictError
          else
          let (invitee_id, s1) = uuid4 s;
              invitee = \<lparr>jp_id = invitee_id, jp_job_id = job_id, jp_role = ic_role cmd,
                         jp_display_name = invitee_name cmd, jp_created_at = now\<rparr> in
          bindR (insert_participant invitee s1) (\<lambda>s2.
          let (invitation_id, s3) = uuid4 s2 in
          bindR (issue_access_link invitee (Some issuer_id) (Some ''invitation_issued'') (Some invitation_id)
                   (Some (at_expires_at issuer_link)) now s3) (\<lambda>(link, s4).
          let i = \<lparr>pi_id = invitation_id, pi_job_id = job_id, pi_issuer_participant_id = issuer_id,
                   pi_invitee_participant_id = invitee_id, pi_access_link_id = alr_id link, pi_role = ic_role cmd,
                   pi_status = INV_PENDING, pi_expires_at = alr_expires_at link, pi_issued_at = now,
                   pi_resolved_at = None, pi_created_at = now\<rparr> in
          bindR (insert_invitation i s4) (\<lambda>s5.
          bindR (invitation_response i s5) (\<lambda>view.
          Inr (\<lparr>iir_invitation = view, iir_access_link = link\<rparr>, s5)))))))"

definition list_invitations :: "uuid \<Rightarrow> uuid \<Rightarrow> instant \<Rightarrow> db \<Rightarrow> (InvitationResponse list \<times> db) result" where
  "list_invitations job_id participant_id now s =
     (let visible = (\<lambda>i. pi_job_id i = job_id \<and>
                        (pi_issuer_participant_id i = participant_id \<or> pi_invitee_participant_id i = participant_id));
          s1 = s\<lparr>invitations := update_where visible (materialize_expiry now) (invitations s)\<rparr> in
      bindR (mapR (\<lambda>i. invitation_response i s1)
        (sort_key (\<lambda>i. (pi_issued_at i, pi_id i)) (filter visible (invitations s1)))) (\<lambda>views.
      Inr (views, s1)))"

section \<open>Revoking\<close>

text \<open>A loop of commands, stopped by the first exception.\<close>

fun foldR :: "('a \<Rightarrow> db \<Rightarrow> db result) \<Rightarrow> 'a list \<Rightarrow> db \<Rightarrow> db result" where
  "foldR f [] s = Inr s"
| "foldR f (x # xs) s = bindR (f x s) (foldR f xs)"

definition issued_by :: "uuid \<Rightarrow> uuid \<Rightarrow> db \<Rightarrow> uuid list" where
  "issued_by job_id issuer_id s =
     map pi_id (filter (\<lambda>i. pi_job_id i = job_id \<and> pi_issuer_participant_id i = issuer_id) (invitations s))"

definition end_invitation :: "uuid \<Rightarrow> uuid \<Rightarrow> instant \<Rightarrow> db \<Rightarrow> db result" where
  "end_invitation invitation_id actor now s = (case row pi_id invitation_id (invitations s) of
     None \<Rightarrow> Inl NoResultFound
   | Some i \<Rightarrow> revoke_access_link (pi_access_link_id i) actor None now
       (put_invitation (i\<lparr>pi_status := INV_REVOKED, pi_resolved_at := Some now\<rparr>) s))"

fun revoke_invitation_tree :: "nat \<Rightarrow> uuid \<Rightarrow> instant \<Rightarrow> uuid \<Rightarrow> db \<Rightarrow> db result" where
  "revoke_invitation_tree 0 actor now invitation_id s = Inl RecursionError"
| "revoke_invitation_tree (Suc depth) actor now invitation_id s = (case row pi_id invitation_id (invitations s) of
     None \<Rightarrow> Inl NoResultFound
   | Some i \<Rightarrow>
       bindR (if pi_role i = COMPANY_MANAGER
         then foldR (revoke_invitation_tree depth actor now) (issued_by (pi_job_id i) (pi_invitee_participant_id i) s) s
         else Inr s) (end_invitation invitation_id actor now))"

definition TREE_DEPTH :: nat where
  "TREE_DEPTH = 2"

definition revoke_invitations_issued_by :: "uuid \<Rightarrow> uuid \<Rightarrow> uuid \<Rightarrow> instant \<Rightarrow> db \<Rightarrow> db result" where
  "revoke_invitations_issued_by job_id issuer_id actor now s =
     foldR (revoke_invitation_tree TREE_DEPTH actor now) (issued_by job_id issuer_id s) s"

definition revoke_access_link_tree :: "uuid \<Rightarrow> uuid \<Rightarrow> instant \<Rightarrow> db \<Rightarrow> db result" where
  "revoke_access_link_tree link_id actor now s = (case row at_id link_id (access_tokens s) of
     None \<Rightarrow> Inl NoResultFound
   | Some link \<Rightarrow> (case invitation_of_link link_id s of
       Some i \<Rightarrow> revoke_invitation_tree TREE_DEPTH actor now (pi_id i) s
     | None \<Rightarrow> (case row jp_id (at_participant_id link) (participants s) of
         None \<Rightarrow> Inl NoResultFound
       | Some p \<Rightarrow> bindR (revoke_invitations_issued_by (jp_job_id p) (jp_id p) actor now s)
           (revoke_access_link link_id actor None now))))"

section \<open>Answering and revoking an invitation\<close>

definition load_invitation_for ::
    "(ParticipantInvitation \<Rightarrow> uuid) \<Rightarrow> uuid \<Rightarrow> uuid \<Rightarrow> uuid \<Rightarrow> instant \<Rightarrow> db \<Rightarrow> (ParticipantInvitation \<times> db) result" where
  "load_invitation_for side job_id invitation_id participant_id now s =
     (case row pi_id invitation_id (invitations s) of
        None \<Rightarrow> Inl InvitationNotFoundError
      | Some i \<Rightarrow> if pi_job_id i = job_id \<and> side i = participant_id
          then let i' = materialize_expiry now i in Inr (i', put_invitation i' s)
          else Inl InvitationNotFoundError)"

definition load_invitation_for_invitee where
  "load_invitation_for_invitee = load_invitation_for pi_invitee_participant_id"

definition load_invitation_for_issuer where
  "load_invitation_for_issuer = load_invitation_for pi_issuer_participant_id"

definition respond :: "ParticipantInvitation \<Rightarrow> db \<Rightarrow> (InvitationResponse \<times> db) result" where
  "respond i s = bindR (invitation_response i s) (\<lambda>view. Inr (view, s))"

definition accept_payload :: "ParticipantInvitation \<Rightarrow> (string \<times> json) list" where
  "accept_payload i = [(''access_link_id'', id_json (pi_access_link_id i)),
     (''participant_id'', id_json (pi_invitee_participant_id i)), (''role'', JStr (role_value (pi_role i))),
     (''operation'', JStr ''invitation_accepted''), (''invitation_id'', id_json (pi_id i))]"

definition accept_invitation ::
    "uuid \<Rightarrow> uuid \<Rightarrow> uuid \<Rightarrow> string \<Rightarrow> instant \<Rightarrow> db \<Rightarrow> (InvitationResponse \<times> db) result" where
  "accept_invitation job_id invitation_id actor secret now s =
     bindR (load_invitation_for_invitee job_id invitation_id actor now s) (\<lambda>(i, s1).
     case row at_id (pi_access_link_id i) (access_tokens s1) of
       None \<Rightarrow> Inl NoResultFound
     | Some link \<Rightarrow>
         if \<not> access_link_matches_secret link secret s1 then Inl InvalidAccessTokenError
         else if pi_status i = INV_ACCEPTED then respond i s1
         else if pi_status i \<noteq> INV_PENDING then Inl InvitationConflictError
         else let i' = i\<lparr>pi_status := INV_ACCEPTED, pi_resolved_at := Some now\<rparr> in
           respond i' (add_audit_event (pi_job_id i) AU_PARTICIPANT_CONNECTED (Some (pi_invitee_participant_id i))
             (accept_payload i) now (put_invitation i' s1)))"

definition decline_invitation ::
    "uuid \<Rightarrow> uuid \<Rightarrow> uuid \<Rightarrow> string \<Rightarrow> instant \<Rightarrow> db \<Rightarrow> (InvitationResponse \<times> db) result" where
  "decline_invitation job_id invitation_id actor secret now s =
     bindR (load_invitation_for_invitee job_id invitation_id actor now s) (\<lambda>(i, s1).
     case row at_id (pi_access_link_id i) (access_tokens s1) of
       None \<Rightarrow> Inl NoResultFound
     | Some link \<Rightarrow>
         if \<not> access_link_matches_secret link secret s1 then Inl InvalidAccessTokenError
         else if pi_status i \<noteq> INV_PENDING then Inl InvitationConflictError
         else let i' = i\<lparr>pi_status := INV_DECLINED, pi_resolved_at := Some now\<rparr> in
           bindR (revoke_access_link (at_id link) (pi_invitee_participant_id i) None now (put_invitation i' s1)) (respond i'))"

definition revoke_invitation :: "uuid \<Rightarrow> uuid \<Rightarrow> uuid \<Rightarrow> instant \<Rightarrow> db \<Rightarrow> (InvitationResponse \<times> db) result" where
  "revoke_invitation job_id invitation_id actor now s =
     bindR (load_invitation_for_issuer job_id invitation_id actor now s) (\<lambda>(i, s1).
     if pi_status i = INV_REVOKED then respond i s1
     else bindR (revoke_invitation_tree TREE_DEPTH actor now invitation_id s1)
       (respond (i\<lparr>pi_status := INV_REVOKED, pi_resolved_at := Some now\<rparr>)))"

definition reissued :: "AccessLinkResponse \<Rightarrow> instant \<Rightarrow> ParticipantInvitation \<Rightarrow> ParticipantInvitation" where
  "reissued link now i = i\<lparr>pi_access_link_id := alr_id link, pi_status := INV_PENDING, pi_issued_at := now,
     pi_expires_at := alr_expires_at link, pi_resolved_at := None\<rparr>"

definition reissue_invitation ::
    "uuid \<Rightarrow> uuid \<Rightarrow> uuid \<Rightarrow> instant \<Rightarrow> db \<Rightarrow> (InvitationIssuedResponse \<times> db) result" where
  "reissue_invitation job_id invitation_id issuer_id now s =
     bindR (load_invitation_for_issuer job_id invitation_id issuer_id now s) (\<lambda>(i, s1).
     case load_active_access_link issuer_id now s1 of
       None \<Rightarrow> Inl InvitationConflictError
     | Some issuer_link \<Rightarrow>
         bindR (revoke_invitations_issued_by (pi_job_id i) (pi_invitee_participant_id i) issuer_id now s1) (\<lambda>s2.
         bindR (revoke_access_link (pi_access_link_id i) issuer_id None now s2) (\<lambda>s3.
         case row jp_id (pi_invitee_participant_id i) (participants s3) of
           None \<Rightarrow> Inl NoResultFound
         | Some invitee \<Rightarrow>
             bindR (issue_access_link invitee (Some issuer_id) (Some ''invitation_reissued'') (Some (pi_id i))
                      (Some (at_expires_at issuer_link)) now s3) (\<lambda>(link, s4).
             bindR (invitation_response (reissued link now i) s4) (\<lambda>view.
             Inr (\<lparr>iir_invitation = view, iir_access_link = link\<rparr>, put_invitation (reissued link now i) s4))))))"

definition get_actor_self :: "uuid \<Rightarrow> ParticipantRole \<Rightarrow> instant \<Rightarrow> db \<Rightarrow> (ActorSelfResponse \<times> db) result" where
  "get_actor_self participant_id actor_role now s = (case load_active_access_link participant_id now s of
     None \<Rightarrow> Inl ActorAccessLinkNotFoundError
   | Some link \<Rightarrow> (case row jp_id (at_participant_id link) (participants s) of
       None \<Rightarrow> Inl NoResultFound
     | Some p \<Rightarrow>
         let i = map_option (materialize_expiry now) (invitation_of_invitee participant_id s);
             s1 = (case i of None \<Rightarrow> s | Some i' \<Rightarrow> put_invitation i' s);
             permissions = (if (case i of None \<Rightarrow> False | Some i' \<Rightarrow> pi_status i' \<noteq> INV_ACCEPTED)
               then pending_invitation_permissions else role_permissions actor_role) in
         bindR (case i of None \<Rightarrow> Inr None | Some i' \<Rightarrow> bindR (invitation_response i' s) (\<lambda>v. Inr (Some v))) (\<lambda>view.
         Inr (\<lparr>asr_job_id = jp_job_id p, asr_participant_id = participant_id, asr_role = jp_role p,
                asr_display_name = jp_display_name p, asr_permissions = permissions,
                asr_expires_at = at_expires_at link, asr_invitation = view\<rparr>, s1))))"

end
