(* ===== verification/Workspace.thy ===== *)
theory Workspace
  imports Invitations "HOL-Library.Option_ord"
begin

text \<open>
  Workspace sessions, the shared connection code and contact points:
  \<open>app/modules/access/workspace.py\<close>; and the checks a request passes before a command
  runs: \<open>app/modules/access/auth.py\<close>. A text is read as Latin-1 where its letters matter.
  Lemmas are in AccessProofs, AccessSafety and WorkspaceSafety.
\<close>

definition WORKSPACE_SESSION_TTL :: duration where
  "WORKSPACE_SESSION_TTL = days 30"

definition CUSTOMER_NAME :: string where
  "CUSTOMER_NAME = utf8_bytes [234, 179, 160, 234, 176, 157]"

definition COMPANY_NAME :: string where
  "COMPANY_NAME = utf8_bytes [236, 157, 180, 236, 130, 172, 236, 151, 133, 236, 178, 180]"

fun default_role_name :: "ParticipantRole \<Rightarrow> string" where
  "default_role_name CUSTOMER = CUSTOMER_NAME"
| "default_role_name COMPANY_MANAGER = COMPANY_NAME"
| "default_role_name FIELD_WORKER = WORKER_NAME"

record WorkspacePrincipal =
  wp_session_id :: uuid
  wp_account_id :: uuid
  wp_role :: ParticipantRole
  wp_display_name :: string
  wp_expires_at :: instant
  wp_csrf_token :: string

record WorkspaceMemberResponse =
  wmr_job_id :: uuid
  wmr_participant_id :: uuid
  wmr_role :: ParticipantRole
  wmr_display_name :: string
  wmr_invitation :: "InvitationResponse option"

record WorkspaceSessionResponse =
  wsr_account_id :: uuid
  wsr_role :: ParticipantRole
  wsr_display_name :: string
  wsr_expires_at :: instant
  wsr_csrf_token :: string
  wsr_members :: "WorkspaceMemberResponse list"

record IssuedWorkspaceSession =
  iws_response :: WorkspaceSessionResponse
  iws_cookie_secret :: "string option"

section \<open>Reading a session\<close>

definition put_session :: "WorkspaceSession \<Rightarrow> db \<Rightarrow> db" where
  "put_session w s = s\<lparr>workspace_sessions := put_row ws_id w (workspace_sessions s)\<rparr>"

definition load_session ::
    "string \<Rightarrow> bool \<Rightarrow> instant \<Rightarrow> db \<Rightarrow> ((WorkspaceSession \<times> WorkspaceAccount) \<times> db) result" where
  "load_session secret touch now s =
     (if \<not> access_secret_pattern secret then Inl InvalidWorkspaceSessionError
      else (case find (\<lambda>w. ws_token_hash w = sha256_hex s secret) (workspace_sessions s) of
        None \<Rightarrow> Inl InvalidWorkspaceSessionError
      | Some w \<Rightarrow> (case row wa_id (ws_account_id w) (workspace_accounts s) of
          None \<Rightarrow> Inl InvalidWorkspaceSessionError
        | Some account \<Rightarrow>
            if ws_revoked_at w \<noteq> None \<or> ws_expires_at w \<le> now then Inl InvalidWorkspaceSessionError
            else if touch then let w' = w\<lparr>ws_last_used_at := Some now\<rparr> in Inr ((w', account), put_session w' s)
            else Inr ((w, account), s))))"

definition authenticate_workspace_account ::
    "string \<Rightarrow> string option \<Rightarrow> instant \<Rightarrow> db \<Rightarrow> (WorkspacePrincipal \<times> db) result" where
  "authenticate_workspace_account secret csrf_token now s =
     bindR (load_session secret True now s) (\<lambda>((w, account), s1).
     if (case csrf_token of None \<Rightarrow> False | Some t \<Rightarrow> ws_csrf_token w \<noteq> t) then Inl InvalidWorkspaceSessionError
     else Inr (\<lparr>wp_session_id = ws_id w, wp_account_id = wa_id account, wp_role = wa_role account,
                 wp_display_name = wa_display_name account, wp_expires_at = ws_expires_at w,
                 wp_csrf_token = ws_csrf_token w\<rparr>, s1))"

definition member_account :: "JobParticipant \<Rightarrow> uuid \<Rightarrow> db \<Rightarrow> bool" where
  "member_account p account_id s = list_ex (\<lambda>m. wm_participant_id m = jp_id p \<and> wm_account_id m = account_id \<and>
     wm_revoked_at m = None) (workspace_memberships s)"

definition unaccepted :: "ParticipantInvitation option \<Rightarrow> bool" where
  "unaccepted i = (case i of None \<Rightarrow> False | Some v \<Rightarrow> pi_status v \<noteq> INV_ACCEPTED)"

definition authenticate_workspace_actor ::
    "string \<Rightarrow> uuid \<Rightarrow> string option \<Rightarrow> (uuid \<times> string) option \<Rightarrow> instant \<Rightarrow> db \<Rightarrow> (ActorContext \<times> db) result" where
  "authenticate_workspace_actor secret job_id csrf_token corr now s =
     bindR (authenticate_workspace_account secret csrf_token now s) (\<lambda>(principal, s1).
     case find (\<lambda>p. jp_job_id p = job_id \<and> jp_role p = wp_role principal \<and>
                    member_account p (wp_account_id principal) s1) (participants s1) of
       None \<Rightarrow> Inl InvalidWorkspaceSessionError
     | Some p \<Rightarrow>
         if unaccepted (invitation_of_invitee (jp_id p) s1) then Inl InvalidWorkspaceSessionError
         else participant_actor p corr s1)"

definition member_response :: "JobParticipant \<Rightarrow> db \<Rightarrow> WorkspaceMemberResponse result" where
  "member_response p s = bindR (case invitation_of_invitee (jp_id p) s of None \<Rightarrow> Inr None
       | Some i \<Rightarrow> bindR (invitation_response i s) (\<lambda>v. Inr (Some v))) (\<lambda>i.
     Inr \<lparr>wmr_job_id = jp_job_id p, wmr_participant_id = jp_id p, wmr_role = jp_role p,
           wmr_display_name = jp_display_name p, wmr_invitation = i\<rparr>)"

definition members_of :: "uuid \<Rightarrow> db \<Rightarrow> JobParticipant list" where
  "members_of account_id s = List.map_filter (\<lambda>m. row jp_id (wm_participant_id m) (participants s))
     (sort_key (\<lambda>m. (wm_joined_at m, wm_id m))
       (filter (\<lambda>m. wm_account_id m = account_id \<and> wm_revoked_at m = None) (workspace_memberships s)))"

definition workspace_response :: "WorkspaceSession \<Rightarrow> WorkspaceAccount \<Rightarrow> db \<Rightarrow> WorkspaceSessionResponse result" where
  "workspace_response w account s =
     bindR (mapR (\<lambda>p. member_response p s) (members_of (wa_id account) s)) (\<lambda>ms.
     Inr \<lparr>wsr_account_id = wa_id account, wsr_role = wa_role account, wsr_display_name = wa_display_name account,
           wsr_expires_at = ws_expires_at w, wsr_csrf_token = ws_csrf_token w, wsr_members = ms\<rparr>)"

section \<open>Creating or extending a session\<close>

definition insert_membership :: "WorkspaceMembership \<Rightarrow> db \<Rightarrow> db result" where
  "insert_membership m s =
     (if list_ex (\<lambda>x. wm_participant_id x = wm_participant_id m \<and> wm_revoked_at x = None) (workspace_memberships s)
      then Inl IntegrityError else Inr (s\<lparr>workspace_memberships := workspace_memberships s @ [m]\<rparr>))"

definition insert_session :: "WorkspaceSession \<Rightarrow> db \<Rightarrow> db result" where
  "insert_session w s =
     (if \<not> workspace_session_check w \<or> list_ex (\<lambda>x. ws_token_hash x = ws_token_hash w) (workspace_sessions s)
      then Inl IntegrityError else Inr (s\<lparr>workspace_sessions := workspace_sessions s @ [w]\<rparr>))"

text \<open>A participant proven without the browser's session leaves its workspace, and what was to be
  delivered to that workspace fails.\<close>

definition relinked_delivery :: "NotificationDelivery \<Rightarrow> NotificationDelivery" where
  "relinked_delivery d = d\<lparr>nd_status := NOTE_FAILED, nd_last_error_code := Some ''workspace_relinked'',
     nd_next_attempt_at := None, nd_lock_token := None, nd_locked_until := None\<rparr>"

definition detach_participant :: "WorkspaceMembership \<Rightarrow> instant \<Rightarrow> db \<Rightarrow> db" where
  "detach_participant m now s = s\<lparr>
     workspace_memberships := put_row wm_id (m\<lparr>wm_revoked_at := Some now\<rparr>) (workspace_memberships s),
     notifications := update_where (\<lambda>d. nd_recipient_participant_id d = wm_participant_id m \<and>
       nd_channel d \<noteq> IN_APP \<and> nd_status d = NOTE_PENDING) relinked_delivery (notifications s)\<rparr>"

definition active_membership :: "uuid \<Rightarrow> db \<Rightarrow> WorkspaceMembership option" where
  "active_membership participant_id s =
     find (\<lambda>m. wm_participant_id m = participant_id \<and> wm_revoked_at m = None) (workspace_memberships s)"

text \<open>The account the participant is in, or joins; a new one when the browser has none.\<close>

definition join_workspace ::
    "JobParticipant \<Rightarrow> WorkspaceAccount option \<Rightarrow> instant \<Rightarrow> db \<Rightarrow> (WorkspaceAccount \<times> db) result" where
  "join_workspace p account now s =
     bindR (case active_membership (jp_id p) s of
         None \<Rightarrow> Inr (None, s)
       | Some m \<Rightarrow> (case row wa_id (wm_account_id m) (workspace_accounts s) of
           None \<Rightarrow> Inl AssertionError
         | Some own \<Rightarrow> (case account of
             None \<Rightarrow> Inr (None, detach_participant m now s)
           | Some a \<Rightarrow> if wa_id a \<noteq> wa_id own then Inl WorkspaceConflictError else Inr (Some own, s)))) (\<lambda>(joined, s1).
     case joined of Some own \<Rightarrow> Inr (own, s1)
     | None \<Rightarrow>
         bindR (case account of
             Some a \<Rightarrow> if wa_role a \<noteq> jp_role p then Inl WorkspaceConflictError else Inr (a, s1)
           | None \<Rightarrow> let (i, s2) = uuid4 s1;
               a = \<lparr>wa_id = i, wa_role = jp_role p, wa_display_name = jp_display_name p, wa_created_at = now\<rparr> in
               Inr (a, s2\<lparr>workspace_accounts := workspace_accounts s2 @ [a]\<rparr>)) (\<lambda>(a, s3).
         let (i, s4) = uuid4 s3 in
         bindR (insert_membership \<lparr>wm_id = i, wm_account_id = wa_id a, wm_participant_id = jp_id p, wm_joined_at = now,
                  wm_revoked_at = None\<rparr> s4) (\<lambda>s5. Inr (a, s5))))"

definition issue_session ::
    "WorkspaceAccount \<Rightarrow> instant \<Rightarrow> db \<Rightarrow> ((WorkspaceSession \<times> string) \<times> db) result" where
  "issue_session a now s =
     (let (cookie_secret, s1) = token_urlsafe32 s;
          (csrf, s2) = token_urlsafe32 s1;
          (i, s3) = uuid4 s2;
          w = \<lparr>ws_id = i, ws_account_id = wa_id a, ws_token_hash = sha256_hex s cookie_secret, ws_csrf_token = csrf,
               ws_expires_at = now + WORKSPACE_SESSION_TTL, ws_revoked_at = None, ws_last_used_at = Some now,
               ws_created_at = now\<rparr> in
      bindR (insert_session w s3) (\<lambda>s4. Inr ((w, cookie_secret), s4)))"

definition create_or_extend_workspace_session ::
    "uuid \<Rightarrow> string option \<Rightarrow> instant \<Rightarrow> db \<Rightarrow> (IssuedWorkspaceSession \<times> db) result" where
  "create_or_extend_workspace_session participant_id current_cookie_secret now s =
     (case row jp_id participant_id (participants s) of
        None \<Rightarrow> Inl InvalidWorkspaceSessionError
      | Some p \<Rightarrow>
          if unaccepted (invitation_of_invitee (jp_id p) s) then Inl WorkspaceConflictError
          else
          let (held, s1) = (case current_cookie_secret of None \<Rightarrow> (None, s)
            | Some secret \<Rightarrow> (case load_session secret True now s of Inl e \<Rightarrow> (None, s) | Inr (wa, s1) \<Rightarrow> (Some wa, s1))) in
          bindR (join_workspace p (map_option snd held) now s1) (\<lambda>(a, s2).
          bindR (case held of Some (w, b) \<Rightarrow> Inr ((w, None), s2)
                 | None \<Rightarrow> bindR (issue_session a now s2) (\<lambda>((w, c), s3). Inr ((w, Some c), s3))) (\<lambda>((w, cookie), s3).
          bindR (workspace_response w a s3) (\<lambda>view.
          Inr (\<lparr>iws_response = view, iws_cookie_secret = cookie\<rparr>, s3)))))"

definition get_workspace_session :: "string \<Rightarrow> instant \<Rightarrow> db \<Rightarrow> (WorkspaceSessionResponse \<times> db) result" where
  "get_workspace_session secret now s = bindR (load_session secret True now s) (\<lambda>((w, a), s1).
     bindR (workspace_response w a s1) (\<lambda>view. Inr (view, s1)))"

definition revoke_workspace_session :: "string \<Rightarrow> instant \<Rightarrow> db \<Rightarrow> db result" where
  "revoke_workspace_session secret now s = bindR (load_session secret False now s) (\<lambda>((w, a), s1).
     Inr (put_session (w\<lparr>ws_revoked_at := Some now\<rparr>) s1))"

section \<open>The connection code\<close>

record MoveConnectionCreate =
  mcc_connection_code :: string
  mcc_role :: ParticipantRole

definition upper_char :: "char \<Rightarrow> char" where
  "upper_char c = (if is_lower c then char_of (of_char c - 32 :: nat) else c)"

definition lower_char :: "char \<Rightarrow> char" where
  "lower_char c = (let n = (of_char c :: nat) in
     if is_upper c \<or> (192 \<le> n \<and> n \<le> 222 \<and> n \<noteq> 215) then char_of (n + 32) else c)"

text \<open>What \<open>int(text, 16)\<close> reads: space around, a sign, \<open>0x\<close>, single underscores between digits.\<close>

definition is_hex :: "char \<Rightarrow> bool" where
  "is_hex c = (is_digit c \<or> in_range CHR ''a'' CHR ''f'' c \<or> in_range CHR ''A'' CHR ''F'' c)"

fun hex_run :: "string \<Rightarrow> bool" where
  "hex_run [] = False"
| "hex_run [c] = is_hex c"
| "hex_run (c # d # t) = (is_hex c \<and> (if d = CHR ''_'' then hex_run t else hex_run (d # t)))"

definition int16_ok :: "string \<Rightarrow> bool" where
  "int16_ok t = (let u = strip t;
     v = (case u of c # r \<Rightarrow> if c = CHR ''+'' \<or> c = CHR ''-'' then r else u | [] \<Rightarrow> u) in
     hex_run v \<or> (case v of c # x # r \<Rightarrow> c = CHR ''0'' \<and> (x = CHR ''x'' \<or> x = CHR ''X'') \<and>
        (hex_run r \<or> (case r of d # q \<Rightarrow> d = CHR ''_'' \<and> hex_run q | [] \<Rightarrow> False)) | _ \<Rightarrow> False))"

definition normalize_connection_code :: "string \<Rightarrow> string result" where
  "normalize_connection_code v = (let n = map upper_char (strip v) in
     if length n \<noteq> 13 \<or> take 5 n \<noteq> ''MOVE-'' \<or> \<not> int16_ok (drop 5 n) then Inl ValueError else Inr n)"

definition mk_move_connection_create :: "MoveConnectionCreate \<Rightarrow> MoveConnectionCreate result" where
  "mk_move_connection_create c = (if length (strip (mcc_connection_code c)) \<noteq> 13 then Inl ValueError
     else bindR (normalize_connection_code (strip (mcc_connection_code c))) (\<lambda>n. Inr (c\<lparr>mcc_connection_code := n\<rparr>)))"

text \<open>SQL \<open>LIKE\<close> with its default escape character.\<close>

fun like :: "string \<Rightarrow> string \<Rightarrow> bool" where
  "like [] t = (t = [])"
| "like (p # ps) [] = (if p = CHR ''%'' then like ps [] else False)"
| "like (p # ps) (c # t) =
     (if p = CHR ''%'' then like ps (c # t) \<or> like (p # ps) t
      else if p = CHR ''_'' then like ps t
      else if p = CHR 0x5C then (case ps of [] \<Rightarrow> False | q # qs \<Rightarrow> c = q \<and> like qs t)
      else c = p \<and> like ps t)"

definition code_pattern :: "string \<Rightarrow> string" where
  "code_pattern connection_code = map lower_char
     (if take 5 connection_code = ''MOVE-'' then drop 5 connection_code else connection_code) @ ''%''"

definition load_move_connection_job :: "string \<Rightarrow> db \<Rightarrow> MoveJob result" where
  "load_move_connection_job connection_code s =
     (case filter (\<lambda>j. mj_status j \<noteq> CANCELED \<and> like (code_pattern connection_code) (uuid_str (mj_id j))) (move_jobs s) of
        [j] \<Rightarrow> Inr j
      | _ \<Rightarrow> Inl InvalidMoveConnectionError)"

definition participant_in_role :: "uuid \<Rightarrow> ParticipantRole \<Rightarrow> db \<Rightarrow> JobParticipant option" where
  "participant_in_role job_id role s = find (\<lambda>p. jp_job_id p = job_id \<and> jp_role p = role) (participants s)"

definition preview_move_connection :: "string \<Rightarrow> ParticipantRole \<Rightarrow> db \<Rightarrow> (ParticipantRole \<times> string) result" where
  "preview_move_connection connection_code role s = bindR (load_move_connection_job connection_code s) (\<lambda>j.
     Inr (role, case participant_in_role (mj_id j) role s of
       None \<Rightarrow> default_role_name role
     | Some p \<Rightarrow> if jp_display_name p = [] then default_role_name role else jp_display_name p))"

definition resolve_move_connection :: "string \<Rightarrow> ParticipantRole \<Rightarrow> instant \<Rightarrow> db \<Rightarrow> (JobParticipant \<times> db) result" where
  "resolve_move_connection connection_code role now s = bindR (load_move_connection_job connection_code s) (\<lambda>j.
     bindR (case participant_in_role (mj_id j) role s of
         Some p \<Rightarrow> Inr (p, s)
       | None \<Rightarrow> let (i, s1) = uuid4 s;
           p = \<lparr>jp_id = i, jp_job_id = mj_id j, jp_role = role, jp_display_name = default_role_name role, jp_created_at = now\<rparr> in
           bindR (insert_participant p s1) (\<lambda>s2. Inr (p, s2))) (\<lambda>(p, s2).
     Inr (p, case invitation_of_invitee (jp_id p) s2 of
         None \<Rightarrow> s2
       | Some i \<Rightarrow> if pi_status i \<noteq> INV_ACCEPTED
           then put_invitation (i\<lparr>pi_status := INV_ACCEPTED, pi_resolved_at := Some now\<rparr>) s2 else s2)))"

end
