(* ===== verification/ContactPoints.thy ===== *)
theory ContactPoints
  imports Workspace
begin

text \<open>
  Consent-backed contact points of a workspace account: the second half of
  \<open>app/modules/access/workspace.py\<close>; and the checks a request passes before a command runs:
  \<open>app/modules/access/auth.py\<close>, with a job identifier that has been parsed (\<open>Some None\<close> for
  one that is not a UUID). Lemmas are in AccessProofs, AccessSafety and WorkspaceSafety.
\<close>

section \<open>Destinations\<close>

definition split_at :: "char \<Rightarrow> string \<Rightarrow> string \<times> string" where
  "split_at c t = (takeWhile (\<lambda>x. x \<noteq> c) t, tl (dropWhile (\<lambda>x. x \<noteq> c) t))"

fun has_double_dot :: "string \<Rightarrow> bool" where
  "has_double_dot (a # b # t) = ((a = CHR ''.'' \<and> b = CHR ''.'') \<or> has_double_dot (b # t))"
| "has_double_dot _ = False"

definition dot_at_end :: "string \<Rightarrow> bool" where
  "dot_at_end t = (t \<noteq> [] \<and> (hd t = CHR ''.'' \<or> last t = CHR ''.''))"

definition printable :: "char \<Rightarrow> bool" where
  "printable c = (let n = (of_char c :: nat) in (32 \<le> n \<and> n < 127) \<or> (161 \<le> n \<and> n \<noteq> 173))"

definition email_ok :: "string \<Rightarrow> bool" where
  "email_ok t = (count_list t CHR ''@'' = 1 \<and> (let (local, domain) = split_at CHR ''@'' t in
     local \<noteq> [] \<and> domain \<noteq> [] \<and> \<not> dot_at_end local \<and> \<not> has_double_dot local \<and> \<not> dot_at_end domain \<and>
     CHR ''.'' \<in> set domain \<and> \<not> has_double_dot domain) \<and>
     list_all (\<lambda>c. \<not> is_space c \<and> printable c) t)"

definition phone_pattern :: "string \<Rightarrow> bool" where
  "phone_pattern t = (case t of p # d # r \<Rightarrow> p = CHR ''+'' \<and> is_digit d \<and> d \<noteq> CHR ''0'' \<and>
     7 \<le> length r \<and> length r \<le> 14 \<and> list_all is_digit r | _ \<Rightarrow> False)"

definition normalized_destination :: "NotificationContactChannel \<Rightarrow> string \<Rightarrow> string result" where
  "normalized_destination channel destination = (if channel = CONTACT_EMAIL
     then let n = map lower_char (strip destination) in if email_ok n then Inr n else Inl ValueError
     else let n = filter (\<lambda>c. \<not> is_space c \<and> c \<notin> {CHR ''('', CHR '')'', CHR ''-''}) (strip destination) in
       if phone_pattern n \<and> take 3 n = ''+82'' then Inr n else Inl ValueError)"

definition masked_destination :: "NotificationContactChannel \<Rightarrow> string \<Rightarrow> string result" where
  "masked_destination channel destination = (if channel = CONTACT_EMAIL
     then if CHR ''@'' \<notin> set destination then Inl ValueError
       else let (local, domain) = split_at CHR ''@'' destination; visible = take 2 local in
         Inr (visible @ replicate (max 2 (length local - length visible)) CHR ''*'' @ CHR ''@'' # domain)
     else Inr (take 3 destination @ replicate (max 4 (length destination - 7)) CHR ''*'' @
       drop (length destination - 4) destination))"

section \<open>Contact points\<close>

record WorkspaceContactPointUpsert =
  cu_destination :: string
  cu_delivery_consent :: bool
  cu_enabled :: bool

definition contact_upsert_ok :: "WorkspaceContactPointUpsert \<Rightarrow> bool" where
  "contact_upsert_ok c = (text_between 3 320 (cu_destination c) \<and> cu_delivery_consent c)"

record WorkspaceContactPointResponse =
  cpr_channel :: NotificationContactChannel
  cpr_masked_destination :: string
  cpr_enabled :: bool
  cpr_consented_at :: instant
  cpr_updated_at :: instant

definition contact_response :: "WorkspaceContactPoint \<Rightarrow> WorkspaceContactPointResponse result" where
  "contact_response c = bindR (masked_destination (cp_channel c) (cp_destination c)) (\<lambda>m.
     Inr \<lparr>cpr_channel = cp_channel c, cpr_masked_destination = m, cpr_enabled = cp_enabled c,
           cpr_consented_at = cp_consented_at c, cpr_updated_at = cp_updated_at c\<rparr>)"

fun contact_channel_value :: "NotificationContactChannel \<Rightarrow> string" where
  "contact_channel_value CONTACT_EMAIL = ''email''"
| "contact_channel_value CONTACT_SMS = ''sms''"
| "contact_channel_value CONTACT_KAKAO = ''kakao''"

fun delivery_channel :: "NotificationContactChannel \<Rightarrow> NotificationChannel" where
  "delivery_channel CONTACT_EMAIL = EMAIL"
| "delivery_channel CONTACT_SMS = SMS"
| "delivery_channel CONTACT_KAKAO = KAKAO"

definition revoked_destination :: "NotificationContactChannel \<Rightarrow> string" where
  "revoked_destination channel = ''revoked:'' @ contact_channel_value channel"

definition revoked_delivery :: "NotificationContactChannel \<Rightarrow> NotificationDelivery \<Rightarrow> NotificationDelivery" where
  "revoked_delivery channel d = d\<lparr>nd_destination := Some (revoked_destination channel), nd_status := NOTE_FAILED,
     nd_last_error_code := Some ''consent_revoked'', nd_next_attempt_at := None, nd_lock_token := None,
     nd_locked_until := None\<rparr>"

definition account_member :: "uuid \<Rightarrow> uuid \<Rightarrow> db \<Rightarrow> bool" where
  "account_member account_id participant_id s = list_ex (\<lambda>m. wm_account_id m = account_id \<and>
     wm_participant_id m = participant_id \<and> wm_revoked_at m = None) (workspace_memberships s)"

definition cancel_pending_contact_deliveries :: "uuid \<Rightarrow> NotificationContactChannel \<Rightarrow> db \<Rightarrow> db" where
  "cancel_pending_contact_deliveries account_id channel s = s\<lparr>notifications :=
     update_where (\<lambda>d. account_member account_id (nd_recipient_participant_id d) s \<and>
         nd_channel d = delivery_channel channel \<and> nd_status d = NOTE_PENDING)
       (revoked_delivery channel) (notifications s)\<rparr>"

definition contact_of :: "uuid \<Rightarrow> NotificationContactChannel \<Rightarrow> db \<Rightarrow> WorkspaceContactPoint option" where
  "contact_of account_id channel s =
     find (\<lambda>c. cp_account_id c = account_id \<and> cp_channel c = channel) (contact_points s)"

definition put_contact :: "WorkspaceContactPoint \<Rightarrow> db \<Rightarrow> db" where
  "put_contact c s = s\<lparr>contact_points := put_row cp_id c (contact_points s)\<rparr>"

definition insert_contact :: "WorkspaceContactPoint \<Rightarrow> db \<Rightarrow> db result" where
  "insert_contact c s =
     (if cp_destination c = [] \<or> list_ex (\<lambda>x. cp_account_id x = cp_account_id c \<and> cp_channel x = cp_channel c) (contact_points s)
      then Inl IntegrityError else Inr (s\<lparr>contact_points := contact_points s @ [c]\<rparr>))"

definition upsert_contact_point ::
    "uuid \<Rightarrow> NotificationContactChannel \<Rightarrow> WorkspaceContactPointUpsert \<Rightarrow> instant \<Rightarrow> db \<Rightarrow>
     (WorkspaceContactPointResponse \<times> db) result" where
  "upsert_contact_point account_id channel cmd now s =
     bindR (normalized_destination channel (cu_destination cmd)) (\<lambda>destination.
     bindR (case contact_of account_id channel s of
         None \<Rightarrow> let (i, s1) = uuid4 s;
             c = \<lparr>cp_id = i, cp_account_id = account_id, cp_channel = channel, cp_destination = destination,
                  cp_enabled = cu_enabled cmd, cp_consented_at = now, cp_updated_at = now\<rparr> in
             bindR (insert_contact c s1) (\<lambda>s2. Inr (c, s2))
       | Some c \<Rightarrow>
           let s1 = (if cp_destination c \<noteq> destination \<or> (cp_enabled c \<and> \<not> cu_enabled cmd)
                     then cancel_pending_contact_deliveries account_id channel s else s);
               c' = c\<lparr>cp_destination := destination, cp_enabled := cu_enabled cmd, cp_consented_at := now,
                      cp_updated_at := now\<rparr> in
           Inr (c', put_contact c' s1)) (\<lambda>(c, s2).
     bindR (contact_response c) (\<lambda>view. Inr (view, s2))))"

text \<open>The channel column holds the name of the channel, and names are compared as texts.\<close>

fun channel_rank :: "NotificationContactChannel \<Rightarrow> nat" where
  "channel_rank CONTACT_EMAIL = 0"
| "channel_rank CONTACT_KAKAO = 1"
| "channel_rank CONTACT_SMS = 2"

definition list_contact_points :: "uuid \<Rightarrow> db \<Rightarrow> WorkspaceContactPointResponse list result" where
  "list_contact_points account_id s = mapR contact_response
     (sort_key (\<lambda>c. (channel_rank (cp_channel c), cp_id c))
       (filter (\<lambda>c. cp_account_id c = account_id \<and> cp_enabled c) (contact_points s)))"

definition delete_contact_point :: "uuid \<Rightarrow> NotificationContactChannel \<Rightarrow> instant \<Rightarrow> db \<Rightarrow> db result" where
  "delete_contact_point account_id channel now s = (case contact_of account_id channel s of
     None \<Rightarrow> Inl WorkspaceContactNotFoundError
   | Some c \<Rightarrow>
       if \<not> cp_enabled c then Inl WorkspaceContactNotFoundError
       else Inr (put_contact (c\<lparr>cp_destination := revoked_destination channel, cp_enabled := False, cp_updated_at := now\<rparr>)
         (cancel_pending_contact_deliveries account_id channel s)))"

section \<open>The checks before a command\<close>

datatype http_error = HTTPException int string | Unhandled exn

definition unauthorized :: http_error where
  "unauthorized = HTTPException 401 ''invalid access token''"

definition bearer_error :: "exn \<Rightarrow> http_error" where
  "bearer_error e = (case e of InvalidAccessTokenError \<Rightarrow> unauthorized
     | AccessRateLimitExceededError n \<Rightarrow> HTTPException 429 ''access rate limit exceeded''
     | _ \<Rightarrow> Unhandled e)"

definition authenticate_request ::
    "string \<Rightarrow> rate_cache option \<Rightarrow> int \<Rightarrow> int \<Rightarrow> bool \<Rightarrow> (uuid \<times> string) option \<Rightarrow> instant \<Rightarrow> db \<Rightarrow>
     http_error + ActorContext \<times> db" where
  "authenticate_request secret cache limit window allow_pending corr now s =
     (case authenticate_access_token secret cache limit window allow_pending corr now s of
        Inl e \<Rightarrow> Inl (bearer_error e)
      | Inr (a, s1) \<Rightarrow> if ac_job_id a = None then Inl (Unhandled AssertionError) else Inr (a, s1))"

definition safe_method :: "string \<Rightarrow> bool" where
  "safe_method m = (m \<in> {''GET'', ''HEAD'', ''OPTIONS''})"

definition cookie_error :: "exn \<Rightarrow> http_error" where
  "cookie_error e = (if e = InvalidWorkspaceSessionError \<or> e = ValueError
     then HTTPException 401 ''invalid workspace session'' else Unhandled e)"

definition get_current_actor ::
    "string option \<Rightarrow> string option \<Rightarrow> uuid option option \<Rightarrow> string \<Rightarrow> string option \<Rightarrow> rate_cache option \<Rightarrow> int \<Rightarrow> int \<Rightarrow>
     (uuid \<times> string) option \<Rightarrow> instant \<Rightarrow> db \<Rightarrow> http_error + ActorContext \<times> db" where
  "get_current_actor credentials cookie_secret raw_job_id request_method csrf_header cache limit window corr now s =
     (case credentials of
        Some secret \<Rightarrow> authenticate_request secret cache limit window False corr now s
      | None \<Rightarrow> (case (cookie_secret, raw_job_id) of
          (Some cookie, Some parsed) \<Rightarrow> (case parsed of
              None \<Rightarrow> Inl (cookie_error ValueError)
            | Some job_id \<Rightarrow>
                if \<not> safe_method request_method \<and> csrf_header = None then Inl (cookie_error InvalidWorkspaceSessionError)
                else (case authenticate_workspace_actor cookie job_id
                        (if safe_method request_method then None else csrf_header) corr now s of
                  Inl e \<Rightarrow> Inl (cookie_error e)
                | Inr (a, s1) \<Rightarrow> if ac_job_id a = None then Inl (Unhandled AssertionError) else Inr (a, s1)))
        | _ \<Rightarrow> Inl unauthorized))"

definition get_invitation_actor ::
    "string option \<Rightarrow> rate_cache option \<Rightarrow> int \<Rightarrow> int \<Rightarrow> (uuid \<times> string) option \<Rightarrow> instant \<Rightarrow> db \<Rightarrow> http_error + ActorContext \<times> db" where
  "get_invitation_actor credentials cache limit window corr now s = (case credentials of
     None \<Rightarrow> Inl unauthorized
   | Some secret \<Rightarrow> authenticate_request secret cache limit window True corr now s)"

definition authorize_job_actor :: "ActorContext \<Rightarrow> uuid \<Rightarrow> ParticipantRole list option \<Rightarrow> http_error option" where
  "authorize_job_actor a job_id allowed_roles =
     (if \<not> is_participant_for a job_id then Some (HTTPException 404 ''move job not found'')
      else case allowed_roles of None \<Rightarrow> None
        | Some roles \<Rightarrow> if (case ac_participant_role a of None \<Rightarrow> True | Some r \<Rightarrow> r \<notin> set roles)
            then Some (HTTPException 403 ''insufficient role'') else None)"

end
