(* ===== verification/Evolution.thy ===== *)
theory Evolution
  imports Main
begin

text \<open>
  The contract of a component whose operations keep an invariant of its tables and change rows only
  in one direction: the steps of the component, the invariant, and what may become of a state. The
  clients' facts about any number of steps are proved here once.
\<close>

locale evolution =
  fixes step :: "'s \<Rightarrow> 's \<Rightarrow> bool" and sound :: "'s \<Rightarrow> bool" and evolves :: "'s \<Rightarrow> 's \<Rightarrow> bool"
  assumes evolves_refl: "evolves s s"
    and evolves_trans: "evolves s t \<Longrightarrow> evolves t u \<Longrightarrow> evolves s u"
    and step_sound: "step s t \<Longrightarrow> sound s \<Longrightarrow> sound t \<and> evolves s t"
begin

lemma runs: "step\<^sup>*\<^sup>* s t \<Longrightarrow> sound s \<Longrightarrow> sound t \<and> evolves s t"
proof (induction rule: rtranclp_induct)
  case base
  then show ?case by (simp add: evolves_refl)
next
  case (step t u)
  then show ?case using step_sound evolves_trans by blast
qed

lemma runs_sound: "step\<^sup>*\<^sup>* s t \<Longrightarrow> sound s \<Longrightarrow> sound t"
  using runs by blast

text \<open>What a change of the allowed kind cannot undo, no run undoes.\<close>

lemma stays: "step\<^sup>*\<^sup>* s t \<Longrightarrow> sound s \<Longrightarrow> P s \<Longrightarrow> (\<And>s t. evolves s t \<Longrightarrow> P s \<Longrightarrow> P t) \<Longrightarrow> P t"
  using runs by blast

end

end
