(* ===== verification/AccessProofs.thy ===== *)
theory AccessProofs
  imports ContactPoints Evolution
begin

text \<open>
  The well-formedness of the access tables and the small steps every access operation is made
  of; that each operation keeps the tables well-formed and no revoked link comes back; the rate
  limit; and the revocation of a tree of invitations.
\<close>

section \<open>Well-formed access tables\<close>

definition tokens_inv :: "db \<Rightarrow> bool" where
  "tokens_inv s = (distinct (map at_id (access_tokens s)) \<and> distinct (map at_token_hash (access_tokens s)) \<and>
     distinct (map at_participant_id (filter (\<lambda>r. at_revoked_at r = None) (access_tokens s))) \<and>
     (\<forall>r \<in> set (access_tokens s). access_token_check r \<and> at_id r \<in> drawn_ids s \<and>
        at_participant_id r \<in> jp_id ` set (participants s)))"

definition participants_inv :: "db \<Rightarrow> bool" where
  "participants_inv s = (distinct (map jp_id (participants s)) \<and>
     distinct (map (\<lambda>p. (jp_job_id p, jp_role p)) (participants s)) \<and>
     (\<forall>p \<in> set (participants s). jp_id p \<in> drawn_ids s))"

text \<open>An invitation names its invitee's participant, the only live link of the invitee, and an issuer
  of the same job one role up the chain.\<close>

definition invitation_sound :: "db \<Rightarrow> ParticipantInvitation \<Rightarrow> bool" where
  "invitation_sound s i = (invitation_check i \<and> pi_id i \<in> drawn_ids s \<and>
     (\<exists>p \<in> set (participants s). jp_id p = pi_invitee_participant_id i \<and> jp_job_id p = pi_job_id i \<and> jp_role p = pi_role i) \<and>
     (\<exists>p \<in> set (participants s). jp_id p = pi_issuer_participant_id i \<and> jp_job_id p = pi_job_id i \<and> invitable_role (jp_role p) = Some (pi_role i)) \<and>
     (\<exists>r \<in> set (access_tokens s). at_id r = pi_access_link_id i \<and> at_participant_id r = pi_invitee_participant_id i) \<and>
     (\<forall>r \<in> set (access_tokens s). at_participant_id r = pi_invitee_participant_id i \<longrightarrow> at_revoked_at r = None \<longrightarrow>
        at_id r = pi_access_link_id i))"

definition invitations_inv :: "db \<Rightarrow> bool" where
  "invitations_inv s = (distinct (map pi_id (invitations s)) \<and> distinct (map (\<lambda>i. (pi_job_id i, pi_role i)) (invitations s)) \<and>
     distinct (map pi_access_link_id (invitations s)) \<and> distinct (map pi_invitee_participant_id (invitations s)) \<and>
     (\<forall>i \<in> set (invitations s). invitation_sound s i))"

definition workspace_inv :: "db \<Rightarrow> bool" where
  "workspace_inv s = (distinct (map wm_id (workspace_memberships s)) \<and>
     distinct (map wm_participant_id (filter (\<lambda>m. wm_revoked_at m = None) (workspace_memberships s))) \<and>
     (\<forall>m \<in> set (workspace_memberships s). wm_id m \<in> drawn_ids s \<and> wm_account_id m \<in> wa_id ` set (workspace_accounts s)) \<and>
     distinct (map wa_id (workspace_accounts s)) \<and> (\<forall>a \<in> set (workspace_accounts s). wa_id a \<in> drawn_ids s) \<and>
     distinct (map ws_id (workspace_sessions s)) \<and> distinct (map ws_token_hash (workspace_sessions s)) \<and>
     (\<forall>w \<in> set (workspace_sessions s). workspace_session_check w \<and> ws_id w \<in> drawn_ids s))"

definition access_inv :: "db \<Rightarrow> bool" where
  "access_inv s = (fresh_supply s \<and> participants_inv s \<and> tokens_inv s \<and> invitations_inv s \<and> workspace_inv s)"

text \<open>What may change: a link keeps its owner and its lifetime and stays revoked once it is, a
  participant stays as it is, an invitation keeps its two sides.\<close>

definition link_evolves :: "ParticipantAccessToken \<Rightarrow> ParticipantAccessToken \<Rightarrow> bool" where
  "link_evolves r r' = (at_id r' = at_id r \<and> at_participant_id r' = at_participant_id r \<and> at_expires_at r' = at_expires_at r \<and>
     at_created_at r' = at_created_at r \<and> (at_revoked_at r \<noteq> None \<longrightarrow> at_revoked_at r' = at_revoked_at r))"

definition invitation_evolves :: "ParticipantInvitation \<Rightarrow> ParticipantInvitation \<Rightarrow> bool" where
  "invitation_evolves i i' = (pi_id i' = pi_id i \<and> pi_job_id i' = pi_job_id i \<and> pi_role i' = pi_role i \<and>
     pi_issuer_participant_id i' = pi_issuer_participant_id i \<and> pi_invitee_participant_id i' = pi_invitee_participant_id i)"

text \<open>A session stays with its account, and a session that has ended stays ended.\<close>

definition session_evolves :: "WorkspaceSession \<Rightarrow> WorkspaceSession \<Rightarrow> bool" where
  "session_evolves w w' = (ws_id w' = ws_id w \<and> ws_token_hash w' = ws_token_hash w \<and> ws_account_id w' = ws_account_id w \<and>
     (ws_revoked_at w \<noteq> None \<longrightarrow> ws_revoked_at w' = ws_revoked_at w))"

definition access_evolves :: "db \<Rightarrow> db \<Rightarrow> bool" where
  "access_evolves s s' = (rng s' = rng s \<and> sha256_hex s' = sha256_hex s \<and> drawn s \<le> drawn s' \<and>
     set (participants s) \<subseteq> set (participants s') \<and>
     (\<forall>r \<in> set (access_tokens s). \<exists>r' \<in> set (access_tokens s'). link_evolves r r') \<and>
     (\<forall>i \<in> set (invitations s). \<exists>i' \<in> set (invitations s'). invitation_evolves i i') \<and>
     (\<forall>w \<in> set (workspace_sessions s). \<exists>w' \<in> set (workspace_sessions s'). session_evolves w w'))"

lemma link_evolves_self: "r \<in> set t \<Longrightarrow> \<exists>r' \<in> set t. link_evolves r r'"
  by (rule bexI[of _ r]) (simp_all add: link_evolves_def)

lemma invitation_evolves_self: "i \<in> set t \<Longrightarrow> \<exists>i' \<in> set t. invitation_evolves i i'"
  by (rule bexI[of _ i]) (simp_all add: invitation_evolves_def)

lemma session_evolves_self: "w \<in> set t \<Longrightarrow> \<exists>w' \<in> set t. session_evolves w w'"
  by (rule bexI[of _ w]) (simp_all add: session_evolves_def)

lemmas evolves_self = link_evolves_self invitation_evolves_self session_evolves_self

lemma access_evolves_refl: "access_evolves s s"
  by (simp add: access_evolves_def evolves_self)

lemma access_evolves_trans:
  assumes "access_evolves s t" "access_evolves t u"
  shows "access_evolves s u"
proof -
  have "\<exists>r'' \<in> set (access_tokens u). link_evolves r r''" if r: "r \<in> set (access_tokens s)" for r
  proof -
    obtain r' where r': "r' \<in> set (access_tokens t)" "link_evolves r r'" using assms(1) r unfolding access_evolves_def by blast
    then obtain r'' where "r'' \<in> set (access_tokens u)" "link_evolves r' r''" using assms(2) unfolding access_evolves_def by blast
    then show ?thesis using r' by (intro bexI[of _ r'']) (auto simp: link_evolves_def)
  qed
  moreover have "\<exists>i'' \<in> set (invitations u). invitation_evolves i i''" if i: "i \<in> set (invitations s)" for i
  proof -
    obtain i' where i': "i' \<in> set (invitations t)" "invitation_evolves i i'" using assms(1) i unfolding access_evolves_def by blast
    then obtain i'' where "i'' \<in> set (invitations u)" "invitation_evolves i' i''" using assms(2) unfolding access_evolves_def by blast
    then show ?thesis using i' by (intro bexI[of _ i'']) (auto simp: invitation_evolves_def)
  qed
  moreover have "\<exists>w'' \<in> set (workspace_sessions u). session_evolves w w''" if w: "w \<in> set (workspace_sessions s)" for w
  proof -
    obtain w' where w': "w' \<in> set (workspace_sessions t)" "session_evolves w w'" using assms(1) w unfolding access_evolves_def by blast
    then obtain w'' where "w'' \<in> set (workspace_sessions u)" "session_evolves w' w''" using assms(2) unfolding access_evolves_def by blast
    then show ?thesis using w' by (intro bexI[of _ w'']) (auto simp: session_evolves_def)
  qed
  ultimately show ?thesis using assms unfolding access_evolves_def by auto
qed

section \<open>Small steps\<close>

definition same_access :: "db \<Rightarrow> db \<Rightarrow> bool" where
  "same_access s s' = (rng s' = rng s \<and> sha256_hex s' = sha256_hex s \<and> drawn s \<le> drawn s' \<and>
     participants s' = participants s \<and> access_tokens s' = access_tokens s \<and> invitations s' = invitations s \<and>
     workspace_memberships s' = workspace_memberships s \<and> workspace_sessions s' = workspace_sessions s \<and>
     workspace_accounts s' = workspace_accounts s)"

inductive access_step :: "db \<Rightarrow> db \<Rightarrow> bool" where
  step_frame: "same_access s s' \<Longrightarrow> access_step s s'"
| step_link: "r \<in> set (access_tokens s) \<Longrightarrow> link_evolves r r' \<Longrightarrow> access_token_check r' \<Longrightarrow>
    (at_token_hash r' \<noteq> at_token_hash r \<longrightarrow> at_token_hash r' \<notin> at_token_hash ` set (access_tokens s)) \<Longrightarrow>
    access_step s (put_token r' s)"
| step_join: "jp_id p \<notin> jp_id ` set (participants s) \<Longrightarrow> jp_id p \<in> drawn_ids s \<Longrightarrow> insert_participant p s = Inr s' \<Longrightarrow>
    access_step s s'"
| step_issue: "at_id r \<in> drawn_ids s \<Longrightarrow> at_id r \<notin> at_id ` set (access_tokens s) \<Longrightarrow>
    at_participant_id r \<in> jp_id ` set (participants s) \<Longrightarrow>
    at_participant_id r \<notin> pi_invitee_participant_id ` set (invitations s) \<Longrightarrow> insert_access_token r s = Inr s' \<Longrightarrow>
    access_step s s'"
| step_reissue: "at_id r \<in> drawn_ids s \<Longrightarrow> at_id r \<notin> at_id ` set (access_tokens s) \<Longrightarrow> i \<in> set (invitations s) \<Longrightarrow>
    at_participant_id r = pi_invitee_participant_id i \<Longrightarrow> at_revoked_at r = None \<Longrightarrow> insert_access_token r s = Inr s1 \<Longrightarrow>
    pi_access_link_id i' = at_id r \<Longrightarrow> invitation_evolves i i' \<Longrightarrow> invitation_check i' \<Longrightarrow>
    access_step s (put_invitation i' s1)"
| step_invite: "pi_id i \<in> drawn_ids s \<Longrightarrow> pi_id i \<notin> pi_id ` set (invitations s) \<Longrightarrow>
    pi_invitee_participant_id i \<notin> pi_invitee_participant_id ` set (invitations s) \<Longrightarrow>
    invitation_sound s i \<Longrightarrow> insert_invitation i s = Inr s' \<Longrightarrow> access_step s s'"
| step_answer: "i \<in> set (invitations s) \<Longrightarrow> invitation_evolves i i' \<Longrightarrow> pi_access_link_id i' = pi_access_link_id i \<Longrightarrow>
    invitation_check i' \<Longrightarrow> access_step s (put_invitation i' s)"
| step_expire: "access_step s (s\<lparr>invitations := update_where P (materialize_expiry now) (invitations s)\<rparr>)"
| step_leave: "access_step s (s\<lparr>workspace_memberships := update_where P (\<lambda>m. m\<lparr>wm_revoked_at := Some now\<rparr>) (workspace_memberships s)\<rparr>)"
| step_account: "wa_id a \<notin> wa_id ` set (workspace_accounts s) \<Longrightarrow> wa_id a \<in> drawn_ids s \<Longrightarrow>
    access_step s (s\<lparr>workspace_accounts := workspace_accounts s @ [a]\<rparr>)"
| step_member: "wm_id m \<notin> wm_id ` set (workspace_memberships s) \<Longrightarrow> wm_id m \<in> drawn_ids s \<Longrightarrow>
    wm_account_id m \<in> wa_id ` set (workspace_accounts s) \<Longrightarrow> wm_revoked_at m = None \<Longrightarrow>
    insert_membership m s = Inr s' \<Longrightarrow> access_step s s'"
| step_session: "w \<in> set (workspace_sessions s) \<Longrightarrow> session_evolves w w' \<Longrightarrow> workspace_session_check w' \<Longrightarrow>
    access_step s (put_session w' s)"
| step_browse: "ws_id w \<notin> ws_id ` set (workspace_sessions s) \<Longrightarrow> ws_id w \<in> drawn_ids s \<Longrightarrow>
    insert_session w s = Inr s' \<Longrightarrow> access_step s s'"

section \<open>Every small step keeps the tables well-formed\<close>

lemma put_row_replace:
  assumes "distinct (map k t)" "r \<in> set t" "k r' = k r"
  shows "put_row k r' t = map (\<lambda>x. if x = r then r' else x) t"
  unfolding put_row_def using assms distinct_map_eq[OF assms(1) _ assms(2)] by auto

lemma mem_put_row_iff:
  assumes "r \<in> set t" "k r' = k r"
  shows "x \<in> set (put_row k r' t) \<longleftrightarrow> x = r' \<or> (x \<in> set t \<and> k x \<noteq> k r')"
  using assms by (auto simp: put_row_def image_iff split: if_splits)

lemma distinct_put_row:
  assumes "distinct (map k t)" "distinct (map f t)" "r \<in> set t" "k r' = k r" "f r' = f r \<or> f r' \<notin> f ` set t"
  shows "distinct (map f (put_row k r' t))"
  unfolding put_row_replace[OF assms(1,3,4)] using assms(2,5)
proof (induction t)
  case (Cons x t)
  have "f ` set (map (\<lambda>x. if x = r then r' else x) t) \<subseteq> insert (f r') (f ` set t)" by auto
  then show ?case using Cons by (auto simp: image_iff split: if_splits)
qed simp

lemma distinct_filter_put_row:
  assumes "distinct (map k t)" "distinct (map f (filter P t))" "r \<in> set t" "k r' = k r" "f r' = f r" "P r' \<Longrightarrow> P r"
  shows "distinct (map f (filter P (put_row k r' t)))"
  unfolding put_row_replace[OF assms(1,3,4)] using assms(2,5,6)
proof (induction t)
  case (Cons x t)
  have "f ` set (filter P (map (\<lambda>x. if x = r then r' else x) t)) \<subseteq> f ` set (filter P t)"
    using Cons.prems(2,3) by (auto simp: image_iff split: if_splits)
  then show ?case using Cons by (auto split: if_splits)
qed simp

lemma map_put_row: "f r' = f r \<Longrightarrow> r \<in> set t \<Longrightarrow> k r' = k r \<Longrightarrow> distinct (map k t) \<Longrightarrow> map f (put_row k r' t) = map f t"
  by (simp add: put_row_replace)

lemma same_access_inv:
  assumes "same_access s s'" "access_inv s"
  shows "access_inv s' \<and> access_evolves s s'"
proof -
  have ids: "drawn_ids s \<subseteq> drawn_ids s'" using assms(1) by (simp add: same_access_def drawn_ids_mono)
  have "access_evolves s s'"
    using assms(1) by (simp add: access_evolves_def same_access_def evolves_self)
  moreover have "access_inv s'"
    using assms ids unfolding access_inv_def same_access_def participants_inv_def tokens_inv_def invitations_inv_def workspace_inv_def
      invitation_sound_def fresh_supply_def by (simp add: subset_iff)
  ultimately show ?thesis by blast
qed

lemma put_row_evolves:
  assumes "distinct (map k t)" "r \<in> set t" "k r' = k r" "E r r'" "\<And>x. E x x" "x \<in> set t"
  shows "\<exists>y \<in> set (put_row k r' t). E x y"
  using assms unfolding put_row_replace[OF assms(1-3)] by (cases "x = r") (auto simp: image_iff)

lemma link_step_inv:
  assumes inv: "access_inv s" and r: "r \<in> set (access_tokens s)" and ev: "link_evolves r r'" and ok: "access_token_check r'"
    and hash: "at_token_hash r' \<noteq> at_token_hash r \<longrightarrow> at_token_hash r' \<notin> at_token_hash ` set (access_tokens s)"
  shows "access_inv (put_token r' s) \<and> access_evolves s (put_token r' s)"
proof -
  let ?t = "access_tokens s"
  have same: "at_id r' = at_id r" "at_participant_id r' = at_participant_id r" "at_revoked_at r' = None \<Longrightarrow> at_revoked_at r = None"
    using ev by (auto simp: link_evolves_def)
  have ti: "tokens_inv s" using inv by (simp add: access_inv_def)
  then have d: "distinct (map at_id ?t)" by (simp add: tokens_inv_def)
  note mem = mem_put_row_iff[OF r same(1)]
  have links: "\<exists>y \<in> set (put_row at_id r' ?t). link_evolves x y" if "x \<in> set ?t" for x
    using put_row_evolves[OF d r same(1), of link_evolves] ev that by (simp add: link_evolves_def)
  have "tokens_inv (put_token r' s)"
    using ti r ok distinct_put_row[OF d _ r same(1), of at_token_hash] hash
      distinct_filter_put_row[OF d _ r same(1), of at_participant_id "\<lambda>r. at_revoked_at r = None"] same
    unfolding tokens_inv_def put_token_def drawn_ids_def by (auto simp: mem)
  moreover have "invitation_sound (put_token r' s) i" if sound: "invitation_sound s i" for i
  proof -
    obtain x where x: "x \<in> set ?t" "at_id x = pi_access_link_id i" "at_participant_id x = pi_invitee_participant_id i"
      using sound unfolding invitation_sound_def by blast
    obtain y where "y \<in> set (put_row at_id r' ?t)" "link_evolves x y" using links[OF x(1)] by blast
    then have e: "\<exists>y \<in> set (put_row at_id r' ?t). at_id y = pi_access_link_id i \<and> at_participant_id y = pi_invitee_participant_id i"
      using x by (auto simp: link_evolves_def)
    have "at_id y = pi_access_link_id i"
      if "y \<in> set (put_row at_id r' ?t)" "at_participant_id y = pi_invitee_participant_id i" "at_revoked_at y = None" for y
      using that r same sound unfolding mem invitation_sound_def by auto
    then show ?thesis using sound e by (simp add: invitation_sound_def put_token_def drawn_ids_def)
  qed
  then have "invitations_inv (put_token r' s)" using inv unfolding access_inv_def invitations_inv_def by (simp add: put_token_def)
  moreover have "access_evolves s (put_token r' s)"
    using links by (simp add: access_evolves_def put_token_def evolves_self)
  ultimately show ?thesis using inv
    by (simp add: access_inv_def put_token_def fresh_supply_def participants_inv_def workspace_inv_def drawn_ids_def)
qed

lemma distinct_snoc: "distinct (map f (t @ [x])) \<longleftrightarrow> distinct (map f t) \<and> f x \<notin> f ` set t"
  by auto

lemma join_step_inv:
  assumes inv: "access_inv s" and new: "jp_id p \<notin> jp_id ` set (participants s)" "jp_id p \<in> drawn_ids s"
    and ins: "insert_participant p s = Inr s'"
  shows "access_inv s' \<and> access_evolves s s'"
proof -
  have s': "s' = s\<lparr>participants := participants s @ [p]\<rparr>" "(jp_job_id p, jp_role p) \<notin> (\<lambda>p. (jp_job_id p, jp_role p)) ` set (participants s)"
    using ins by (auto simp: insert_participant_def list_ex_iff split: if_splits)
  have "participants_inv s'" using inv new s'(2) unfolding access_inv_def participants_inv_def s'(1)
    by (simp add: drawn_ids_def)
  moreover have "tokens_inv s'" using inv unfolding access_inv_def tokens_inv_def s'(1) by (simp add: drawn_ids_def)
  moreover have "invitation_sound s' i" if "invitation_sound s i" for i
    using that unfolding invitation_sound_def s'(1) by (auto simp: drawn_ids_def)
  then have "invitations_inv s'" using inv unfolding access_inv_def invitations_inv_def by (simp add: s'(1))
  ultimately show ?thesis using inv by (simp add: access_inv_def s'(1) fresh_supply_def workspace_inv_def drawn_ids_def access_evolves_def evolves_self subset_iff)
qed

lemma insert_token_eq:
  assumes "insert_access_token r s = Inr s'"
  shows "s' = s\<lparr>access_tokens := access_tokens s @ [r]\<rparr>" "access_token_check r" "at_token_hash r \<notin> at_token_hash ` set (access_tokens s)"
    "at_revoked_at r = None \<Longrightarrow> x \<in> set (access_tokens s) \<Longrightarrow> at_participant_id x = at_participant_id r \<Longrightarrow> at_revoked_at x \<noteq> None"
  using assms by (auto simp: insert_access_token_def list_ex_iff token_clash_def split: if_splits)

lemma insert_token_inv:
  assumes inv: "participants_inv s" "tokens_inv s" and new: "at_id r \<in> drawn_ids s" "at_id r \<notin> at_id ` set (access_tokens s)"
    "at_participant_id r \<in> jp_id ` set (participants s)" and ins: "insert_access_token r s = Inr s'"
  shows "tokens_inv s'"
proof -
  note s' = insert_token_eq[OF ins]
  have "distinct (map at_participant_id (filter (\<lambda>r. at_revoked_at r = None) (access_tokens s @ [r])))"
    using inv(2) s'(4) unfolding tokens_inv_def by (auto simp: image_iff)
  then show ?thesis using inv new s'(2,3) unfolding tokens_inv_def s'(1)
    by (simp add: drawn_ids_def)
qed

lemma sound_other_token:
  assumes "invitation_sound s i" "at_participant_id r \<noteq> pi_invitee_participant_id i"
  shows "invitation_sound (s\<lparr>access_tokens := access_tokens s @ [r]\<rparr>) i"
proof -
  obtain x where "x \<in> set (access_tokens s)" "at_id x = pi_access_link_id i" "at_participant_id x = pi_invitee_participant_id i"
    using assms(1) unfolding invitation_sound_def by blast
  then have "\<exists>x \<in> set (access_tokens s @ [r]). at_id x = pi_access_link_id i \<and> at_participant_id x = pi_invitee_participant_id i"
    by (intro bexI[of _ x]) auto
  then show ?thesis using assms unfolding invitation_sound_def drawn_ids_def by simp
qed

lemma issue_step_inv:
  assumes inv: "access_inv s" and new: "at_id r \<in> drawn_ids s" "at_id r \<notin> at_id ` set (access_tokens s)"
    "at_participant_id r \<in> jp_id ` set (participants s)"
    "at_participant_id r \<notin> pi_invitee_participant_id ` set (invitations s)" and ins: "insert_access_token r s = Inr s'"
  shows "access_inv s' \<and> access_evolves s s'"
proof -
  note s' = insert_token_eq[OF ins]
  have "tokens_inv s'" using inv by (intro insert_token_inv[OF _ _ new(1-3) ins]) (simp_all add: access_inv_def)
  moreover have "invitation_sound s' i" if "invitation_sound s i" "i \<in> set (invitations s)" for i
    unfolding s'(1) using that(2) new(4) by (intro sound_other_token[OF that(1)]) force
  then have "invitations_inv s'" using inv unfolding access_inv_def invitations_inv_def by (simp add: s'(1))
  ultimately show ?thesis using inv
    by (simp add: access_inv_def s'(1) fresh_supply_def participants_inv_def workspace_inv_def drawn_ids_def access_evolves_def evolves_self)
qed

lemma invitation_eq:
  assumes "invitations_inv s" "i \<in> set (invitations s)" "j \<in> set (invitations s)"
    "pi_id i = pi_id j \<or> pi_access_link_id i = pi_access_link_id j \<or> pi_invitee_participant_id i = pi_invitee_participant_id j"
  shows "i = j"
  using assms unfolding invitations_inv_def by (meson distinct_map_eq)

lemma put_invitation_inv:
  assumes inv: "invitations_inv s" and i: "i \<in> set (invitations s)" and ev: "invitation_evolves i i'"
    and link: "pi_access_link_id i' = pi_access_link_id i \<or> pi_access_link_id i' \<notin> pi_access_link_id ` set (invitations s)"
    and sound: "invitation_sound t i'" and others: "\<And>j. j \<in> set (invitations s) \<Longrightarrow> j \<noteq> i \<Longrightarrow> invitation_sound t j"
    and t: "invitations t = invitations s"
  shows "invitations_inv (put_invitation i' t)"
proof -
  have id: "pi_id i' = pi_id i" using ev by (simp add: invitation_evolves_def)
  have d: "distinct (map pi_id (invitations s))" using inv by (simp add: invitations_inv_def)
  have "invitation_sound (put_invitation i' t) j" if "j \<in> set (put_row pi_id i' (invitations s))" for j
  proof -
    have "invitation_sound t j"
      using that others sound id by (auto simp: mem_put_row_iff[OF i id])
    then show ?thesis by (simp add: invitation_sound_def put_invitation_def drawn_ids_def)
  qed
  moreover have "map (\<lambda>i. (pi_job_id i, pi_role i)) (put_row pi_id i' (invitations s)) = map (\<lambda>i. (pi_job_id i, pi_role i)) (invitations s)"
    "map pi_invitee_participant_id (put_row pi_id i' (invitations s)) = map pi_invitee_participant_id (invitations s)"
    using ev by (intro map_put_row[OF _ i id d]; simp add: invitation_evolves_def)+
  ultimately show ?thesis using inv ev distinct_put_row[OF d _ i id, of pi_access_link_id] link unfolding invitations_inv_def
    by (simp add: put_invitation_def t invitation_evolves_def)
qed

lemma put_invitation_evolves:
  assumes "invitations_inv s" "i \<in> set (invitations s)" "invitation_evolves i i'" "invitations t = invitations s" "access_evolves s t"
  shows "access_evolves s (put_invitation i' t)"
proof -
  have d: "distinct (map pi_id (invitations s))" "pi_id i' = pi_id i" using assms(1,3) by (simp_all add: invitations_inv_def invitation_evolves_def)
  have "\<exists>y \<in> set (put_row pi_id i' (invitations s)). invitation_evolves x y" if "x \<in> set (invitations s)" for x
    by (rule put_row_evolves[OF d(1) assms(2) d(2) _ _ that]) (use assms(3) in \<open>simp_all add: invitation_evolves_def\<close>)
  then show ?thesis using assms(4,5) by (simp add: access_evolves_def put_invitation_def)
qed

lemma reissue_step_inv:
  assumes inv: "access_inv s" and new: "at_id r \<in> drawn_ids s" "at_id r \<notin> at_id ` set (access_tokens s)" and i: "i \<in> set (invitations s)"
    and r: "at_participant_id r = pi_invitee_participant_id i" and ins: "insert_access_token r s = Inr s1"
    and i': "pi_access_link_id i' = at_id r" "invitation_evolves i i'" "invitation_check i'" and live: "at_revoked_at r = None"
  shows "access_inv (put_invitation i' s1) \<and> access_evolves s (put_invitation i' s1)"
proof -
  note s1 = insert_token_eq[OF ins]
  have ii: "invitations_inv s" using inv by (simp add: access_inv_def)
  have si: "invitation_sound s i" using ii i by (simp add: invitations_inv_def)
  have "at_participant_id r \<in> jp_id ` set (participants s)" using si r unfolding invitation_sound_def image_iff by metis
  then have ti: "tokens_inv s1" using inv by (intro insert_token_inv[OF _ _ new _ ins]) (simp_all add: access_inv_def)
  have "\<forall>x \<in> set (access_tokens s @ [r]). at_participant_id x = pi_invitee_participant_id i \<longrightarrow> at_revoked_at x = None \<longrightarrow> at_id x = at_id r"
    using s1(4)[OF live] unfolding r by fastforce
  then have "invitation_sound s1 i'"
    using si r i' unfolding invitation_sound_def s1(1) invitation_evolves_def by (simp add: drawn_ids_def)
  moreover have "invitation_sound s1 j" if j: "j \<in> set (invitations s)" "j \<noteq> i" for j
  proof -
    have "pi_invitee_participant_id j \<noteq> pi_invitee_participant_id i" using invitation_eq[OF ii j(1) i] j(2) by blast
    moreover have "invitation_sound s j" using ii j(1) by (simp add: invitations_inv_def)
    ultimately show ?thesis unfolding s1(1) using r by (intro sound_other_token) simp_all
  qed
  moreover have "pi_access_link_id j \<in> at_id ` set (access_tokens s)" if "j \<in> set (invitations s)" for j
    using ii that unfolding invitations_inv_def invitation_sound_def image_iff by metis
  then have "pi_access_link_id i' \<notin> pi_access_link_id ` set (invitations s)" using new(2) i'(1) by (metis imageE)
  ultimately have "invitations_inv (put_invitation i' s1)"
    by (intro put_invitation_inv[OF ii i i'(2)]) (auto simp: s1(1))
  moreover have "access_evolves s (put_invitation i' s1)"
    by (rule put_invitation_evolves[OF ii i i'(2)]) (simp_all add: s1(1) access_evolves_def evolves_self)
  ultimately show ?thesis using inv ti
    by (simp add: access_inv_def s1(1) put_invitation_def fresh_supply_def participants_inv_def workspace_inv_def tokens_inv_def drawn_ids_def)
qed

lemma answer_step_inv:
  assumes inv: "access_inv s" and i: "i \<in> set (invitations s)" and i': "invitation_evolves i i'" "pi_access_link_id i' = pi_access_link_id i" "invitation_check i'"
  shows "access_inv (put_invitation i' s) \<and> access_evolves s (put_invitation i' s)"
proof -
  have ii: "invitations_inv s" using inv by (simp add: access_inv_def)
  have "invitation_sound s i'" using ii i i' unfolding invitations_inv_def invitation_sound_def invitation_evolves_def by simp
  then have "invitations_inv (put_invitation i' s)"
    using ii i'(2) by (intro put_invitation_inv[OF ii i i'(1)]) (auto simp: invitations_inv_def)
  moreover have "access_evolves s (put_invitation i' s)"
    by (rule put_invitation_evolves[OF ii i i'(1) refl access_evolves_refl])
  ultimately show ?thesis using inv
    by (simp add: access_inv_def put_invitation_def fresh_supply_def participants_inv_def workspace_inv_def tokens_inv_def drawn_ids_def)
qed

lemma invite_step_inv:
  assumes inv: "access_inv s" and new: "pi_id i \<notin> pi_id ` set (invitations s)"
    "pi_invitee_participant_id i \<notin> pi_invitee_participant_id ` set (invitations s)" "invitation_sound s i"
    and ins: "insert_invitation i s = Inr s'"
  shows "access_inv s' \<and> access_evolves s s'"
proof -
  have s': "s' = s\<lparr>invitations := invitations s @ [i]\<rparr>" "(pi_job_id i, pi_role i) \<notin> (\<lambda>i. (pi_job_id i, pi_role i)) ` set (invitations s)"
    "pi_access_link_id i \<notin> pi_access_link_id ` set (invitations s)"
    using ins by (auto simp: insert_invitation_def list_ex_iff split: if_splits)
  have "invitation_sound s' j = invitation_sound s j" for j by (simp add: invitation_sound_def s'(1) drawn_ids_def)
  then have "invitations_inv s'" using inv new s'(2,3) unfolding access_inv_def invitations_inv_def by (simp add: s'(1))
  then show ?thesis using inv
    by (simp add: access_inv_def s'(1) fresh_supply_def participants_inv_def workspace_inv_def tokens_inv_def drawn_ids_def access_evolves_def evolves_self)
qed

lemma leave_step_inv:
  assumes inv: "access_inv s" and s': "s' = s\<lparr>workspace_memberships := update_where P (\<lambda>m. m\<lparr>wm_revoked_at := Some now\<rparr>) (workspace_memberships s)\<rparr>"
  shows "access_inv s' \<and> access_evolves s s'"
proof -
  let ?f = "\<lambda>m. m\<lparr>wm_revoked_at := Some now\<rparr>"
  have "distinct (map wm_participant_id (filter (\<lambda>m. wm_revoked_at m = None) (update_where P ?f t)))"
    if "distinct (map wm_participant_id (filter (\<lambda>m. wm_revoked_at m = None) t))" for t
    using that
  proof (induction t)
    case (Cons m t)
    have "wm_participant_id ` set (filter (\<lambda>m. wm_revoked_at m = None) (update_where P ?f t)) \<subseteq>
        wm_participant_id ` set (filter (\<lambda>m. wm_revoked_at m = None) t)"
      by (auto simp: update_where_def split: if_splits)
    then show ?case using Cons by (auto simp: update_where_def split: if_splits)
  qed simp
  moreover have "map wm_id (update_where P ?f (workspace_memberships s)) = map wm_id (workspace_memberships s)"
    by (rule keys_update_where) simp
  moreover have "\<forall>m \<in> set (update_where P ?f (workspace_memberships s)). wm_id m \<in> drawn_ids s \<and> wm_account_id m \<in> wa_id ` set (workspace_accounts s)"
    using inv by (auto simp: access_inv_def workspace_inv_def update_where_def)
  ultimately have "workspace_inv s'" using inv unfolding access_inv_def workspace_inv_def s' by (simp add: drawn_ids_def)
  then show ?thesis using inv
    by (simp add: access_inv_def s' fresh_supply_def participants_inv_def tokens_inv_def invitations_inv_def invitation_sound_def drawn_ids_def
        access_evolves_def evolves_self)
qed

lemma materialize_evolves: "invitation_evolves i (materialize_expiry now i)"
  "pi_access_link_id (materialize_expiry now i) = pi_access_link_id i"
  "invitation_check (materialize_expiry now i) = invitation_check i"
  by (auto simp: invitation_evolves_def materialize_expiry_def invitation_check_def)

lemma expire_step_inv:
  assumes inv: "access_inv s" and s': "s' = s\<lparr>invitations := update_where P (materialize_expiry now) (invitations s)\<rparr>"
  shows "access_inv s' \<and> access_evolves s s'"
proof -
  note me = materialize_evolves[unfolded invitation_evolves_def]
  have keys: "map f (update_where P (materialize_expiry now) t) = map f t" if "\<And>i. f (materialize_expiry now i) = f i"
    for f :: "ParticipantInvitation \<Rightarrow> uuid" and t using that by (induction t) (auto simp: update_where_def)
  have roles: "map (\<lambda>i. (pi_job_id i, pi_role i)) (update_where P (materialize_expiry now) t) = map (\<lambda>i. (pi_job_id i, pi_role i)) t" for t
    by (induction t) (auto simp: update_where_def me)
  have same: "invitation_sound s' i = invitation_sound s i" for i by (simp add: invitation_sound_def s' drawn_ids_def)
  have "invitation_sound s (materialize_expiry now i) = invitation_sound s i" for i by (simp add: invitation_sound_def me)
  then have "\<forall>i \<in> set (invitations s'). invitation_sound s' i"
    using inv unfolding same by (auto simp: s' update_where_def access_inv_def invitations_inv_def)
  then have "invitations_inv s'" using inv unfolding access_inv_def invitations_inv_def
    by (simp add: s' keys[of pi_id] keys[of pi_access_link_id] keys[of pi_invitee_participant_id] me roles)
  moreover have "access_evolves s s'"
  proof -
    have "\<exists>i' \<in> set (invitations s'). invitation_evolves i i'" if "i \<in> set (invitations s)" for i
      by (rule bexI[of _ "if P i then materialize_expiry now i else i"])
         (use that in \<open>auto simp: s' update_where_def me invitation_evolves_def\<close>)
    then show ?thesis by (simp add: access_evolves_def s' evolves_self)
  qed
  ultimately show ?thesis using inv
    by (simp add: access_inv_def s' fresh_supply_def participants_inv_def tokens_inv_def workspace_inv_def drawn_ids_def)
qed

lemma workspace_step_inv:
  assumes inv: "access_inv s" and ws: "workspace_inv s'"
    and same: "rng s' = rng s" "drawn s' = drawn s" "sha256_hex s' = sha256_hex s" "participants s' = participants s"
      "access_tokens s' = access_tokens s" "invitations s' = invitations s"
    and kept: "\<forall>w \<in> set (workspace_sessions s). \<exists>w' \<in> set (workspace_sessions s'). session_evolves w w'"
  shows "access_inv s' \<and> access_evolves s s'"
  using assms by (simp add: access_inv_def fresh_supply_def participants_inv_def tokens_inv_def invitations_inv_def invitation_sound_def
      drawn_ids_def access_evolves_def evolves_self)

lemma member_step_inv:
  assumes inv: "access_inv s" and m: "wm_id m \<notin> wm_id ` set (workspace_memberships s)" "wm_id m \<in> drawn_ids s"
    "wm_account_id m \<in> wa_id ` set (workspace_accounts s)" "wm_revoked_at m = None" and ins: "insert_membership m s = Inr s'"
  shows "access_inv s' \<and> access_evolves s s'"
proof -
  have s': "s' = s\<lparr>workspace_memberships := workspace_memberships s @ [m]\<rparr>"
    "\<And>x. x \<in> set (workspace_memberships s) \<Longrightarrow> wm_participant_id x = wm_participant_id m \<Longrightarrow> wm_revoked_at x \<noteq> None"
    using ins by (auto simp: insert_membership_def list_ex_iff split: if_splits)
  have "wm_participant_id m \<notin> wm_participant_id ` set (filter (\<lambda>m. wm_revoked_at m = None) (workspace_memberships s))"
    using s'(2) by fastforce
  then have "distinct (map wm_participant_id (filter (\<lambda>m. wm_revoked_at m = None) (workspace_memberships s @ [m])))"
    using inv by (simp add: access_inv_def workspace_inv_def)
  then have "workspace_inv s'" using inv m unfolding access_inv_def workspace_inv_def s'(1) by (simp add: drawn_ids_def)
  then show ?thesis by (rule workspace_step_inv[OF inv]) (auto simp: s'(1) evolves_self session_evolves_def)
qed

lemma session_step_inv:
  assumes inv: "access_inv s" and w0: "w \<in> set (workspace_sessions s)" "session_evolves w w'" "workspace_session_check w'"
  shows "access_inv (put_session w' s) \<and> access_evolves s (put_session w' s)"
proof -
  have w: "w \<in> set (workspace_sessions s)" "ws_id w' = ws_id w" "ws_token_hash w' = ws_token_hash w" "workspace_session_check w'"
    using w0 by (simp_all add: session_evolves_def)
  have d: "distinct (map ws_id (workspace_sessions s))" using inv by (simp add: access_inv_def workspace_inv_def)
  have kept: "\<exists>x' \<in> set (put_row ws_id w' (workspace_sessions s)). session_evolves x x'" if x: "x \<in> set (workspace_sessions s)" for x
  proof (cases "ws_id x = ws_id w'")
    case True
    then have "x = w" using distinct_map_eq[OF d x w(1)] w(2) by simp
    then show ?thesis using w0(2) by (intro bexI[of _ w']) (simp_all add: mem_put_row_iff[OF w(1,2)])
  next
    case False
    then show ?thesis using x by (intro bexI[of _ x]) (simp_all add: mem_put_row_iff[OF w(1,2)] session_evolves_def)
  qed
  have "\<forall>x \<in> set (put_row ws_id w' (workspace_sessions s)). workspace_session_check x \<and> ws_id x \<in> drawn_ids s"
    using inv w by (auto simp: mem_put_row_iff[OF w(1,2)] access_inv_def workspace_inv_def)
  then have "workspace_inv (put_session w' s)" using inv map_put_row[OF w(3,1,2) d]
    unfolding access_inv_def workspace_inv_def put_session_def by (simp add: drawn_ids_def)
  then show ?thesis by (rule workspace_step_inv[OF inv]) (simp_all add: put_session_def kept)
qed

lemma browse_step_inv:
  assumes inv: "access_inv s" and w: "ws_id w \<notin> ws_id ` set (workspace_sessions s)" "ws_id w \<in> drawn_ids s" and ins: "insert_session w s = Inr s'"
  shows "access_inv s' \<and> access_evolves s s'"
proof -
  have s': "s' = s\<lparr>workspace_sessions := workspace_sessions s @ [w]\<rparr>" "workspace_session_check w"
    "ws_token_hash w \<notin> ws_token_hash ` set (workspace_sessions s)"
    using ins by (auto simp: insert_session_def list_ex_iff split: if_splits)
  have "workspace_inv s'" using inv w s'(2,3) unfolding access_inv_def workspace_inv_def s'(1) by (simp add: drawn_ids_def)
  then show ?thesis by (rule workspace_step_inv[OF inv]) (auto simp: s'(1) evolves_self session_evolves_def)
qed

lemma account_step_inv:
  assumes inv: "access_inv s" and a: "wa_id a \<notin> wa_id ` set (workspace_accounts s)" "wa_id a \<in> drawn_ids s"
    and s': "s' = s\<lparr>workspace_accounts := workspace_accounts s @ [a]\<rparr>"
  shows "access_inv s' \<and> access_evolves s s'"
proof -
  have "workspace_inv s'" using inv a unfolding access_inv_def workspace_inv_def s' by (simp add: drawn_ids_def)
  then show ?thesis by (rule workspace_step_inv[OF inv]) (simp_all add: s' evolves_self)
qed

lemma access_step_sound: "access_step s s' \<Longrightarrow> access_inv s \<Longrightarrow> access_inv s' \<and> access_evolves s s'"
proof (induction rule: access_step.induct)
  case step_frame then show ?case by (rule same_access_inv)
next
  case step_link then show ?case by (intro link_step_inv)
next
  case step_join then show ?case by (intro join_step_inv)
next
  case step_issue then show ?case by (intro issue_step_inv)
next
  case step_reissue then show ?case by (intro reissue_step_inv)
next
  case step_invite then show ?case by (intro invite_step_inv)
next
  case step_answer then show ?case by (intro answer_step_inv)
next
  case step_expire then show ?case by (rule expire_step_inv) simp
next
  case step_leave then show ?case by (rule leave_step_inv) simp
next
  case step_account then show ?case by (intro account_step_inv) simp_all
next
  case step_member then show ?case by (intro member_step_inv)
next
  case step_session then show ?case by (intro session_step_inv)
next
  case step_browse then show ?case by (intro browse_step_inv)
qed

interpretation small_steps: evolution access_step access_inv access_evolves
  by unfold_locales (auto intro: access_evolves_refl access_evolves_trans dest: access_step_sound)

section \<open>Every operation is made of small steps\<close>

lemma same_access_refl [simp]: "same_access s s"
  by (simp add: same_access_def)

lemma same_access_trans: "same_access s t \<Longrightarrow> same_access t u \<Longrightarrow> same_access s u"
  by (simp add: same_access_def)

lemma same_access_audit [simp]: "same_access s (add_audit_event j ty a p now s)"
  by (simp add: same_access_def add_audit_event_def uuid4_def)

lemma same_access_draw [simp]: "same_access s (s\<lparr>drawn := Suc (drawn s)\<rparr>)"
  by (simp add: same_access_def)

lemma frame_steps: "same_access s s' \<Longrightarrow> access_step\<^sup>*\<^sup>* s s'"
  by (rule r_into_rtranclp) (rule step_frame)

lemma audit_steps: "access_step\<^sup>*\<^sup>* s t \<Longrightarrow> access_step\<^sup>*\<^sup>* s (add_audit_event j ty a p now t)"
  by (meson frame_steps same_access_audit rtranclp_trans)

lemmas steps_inv = small_steps.runs_sound

lemma steps_then: "access_step\<^sup>*\<^sup>* s t \<Longrightarrow> access_step t u \<Longrightarrow> access_step\<^sup>*\<^sup>* s u"
  by (rule rtranclp.rtrancl_into_rtrancl)

lemma inv_draws: "access_inv s \<Longrightarrow> same_access s s' \<Longrightarrow> access_inv s'"
  using same_access_inv by blast

lemma drawn_new: "access_inv s \<Longrightarrow> rng s (drawn s) \<notin> drawn_ids s"
  by (simp add: access_inv_def uuid4_fresh)

lemma token_drawn: "access_inv s \<Longrightarrow> r \<in> set (access_tokens s) \<Longrightarrow> at_id r \<in> drawn_ids s"
  by (simp add: access_inv_def tokens_inv_def)

lemma token_check: "access_inv s \<Longrightarrow> r \<in> set (access_tokens s) \<Longrightarrow> access_token_check r"
  by (simp add: access_inv_def tokens_inv_def)

lemma invitation_facts:
  assumes "access_inv s" "i \<in> set (invitations s)"
  shows "invitation_sound s i" "invitation_check i"
  using assms by (simp_all add: access_inv_def invitations_inv_def invitation_sound_def)

text \<open>What a link that has been issued looks like.\<close>

lemma issue_cases:
  assumes "issue_access_link p actor operation invitation_id limit now s = Inr (l, s')"
  obtains s2 r s3 where "same_access s s2" "at_id r = rng s (Suc (drawn s))" "at_id r \<in> drawn_ids s2" "at_participant_id r = jp_id p"
    "at_revoked_at r = None" "insert_access_token r s2 = Inr s3" "same_access s3 s'" "alr_id l = at_id r" "alr_participant_id l = jp_id p"
    "alr_expires_at l = at_expires_at r"
    "at_expires_at r = (case limit of None \<Rightarrow> now + ACCESS_TOKEN_TTL | Some m \<Rightarrow> min (now + ACCESS_TOKEN_TTL) m)"
    "at_token_hash r = sha256_hex s (alr_secret l)"
proof -
  let ?s2 = "s\<lparr>drawn := Suc (Suc (drawn s))\<rparr>"
  let ?e = "case limit of None \<Rightarrow> now + ACCESS_TOKEN_TTL | Some m \<Rightarrow> min (now + ACCESS_TOKEN_TTL) m"
  let ?r = "new_access_token (rng s (Suc (drawn s))) (jp_id p) (sha256_hex s (base64_fixed 43 (4 * rng s (drawn s)))) ?e now"
  obtain s3 where s3: "insert_access_token ?r ?s2 = Inr s3"
      "l = \<lparr>alr_id = rng s (Suc (drawn s)), alr_job_id = jp_job_id p, alr_participant_id = jp_id p, alr_role = jp_role p,
        alr_secret = base64_fixed 43 (4 * rng s (drawn s)), alr_expires_at = ?e\<rparr>" "same_access s3 s'"
    using assms by (auto simp: issue_access_link_def token_urlsafe32_def uuid4_def Let_def bindR_Inr simp del: base64_fixed.simps)
  show ?thesis
    by (rule that[of ?s2 ?r s3])
      (use s3 in \<open>simp_all add: same_access_def new_access_token_def drawn_ids_def lessThan_Suc del: base64_fixed.simps\<close>)
qed

lemma rotate_steps:
  assumes "rotate_access_link p secret actor now s = Inr (l, s')" "access_inv s"
  shows "access_step\<^sup>*\<^sup>* s s'"
proof -
  obtain link s2 digest where l: "link \<in> set (access_tokens s)" "rehash_token link digest (s\<lparr>drawn := Suc (drawn s)\<rparr>) = Inr s2"
      "same_access s2 s'"
    using assms(1) unfolding rotate_access_link_def token_urlsafe32_def Let_def
    by (auto simp: bindR_Inr simp del: base64_fixed.simps split: option.splits dest!: find_mem)
  let ?s1 = "s\<lparr>drawn := Suc (drawn s)\<rparr>"
  have s2: "s2 = put_token (link\<lparr>at_token_hash := digest\<rparr>) ?s1" "length digest = 64"
    "\<And>x. x \<in> set (access_tokens s) \<Longrightarrow> at_id x \<noteq> at_id link \<Longrightarrow> at_token_hash x \<noteq> digest"
    using l(2) by (auto simp: rehash_token_def list_ex_iff split: if_splits)
  have "distinct (map at_id (access_tokens s))" using assms(2) by (simp add: access_inv_def tokens_inv_def)
  then have "digest \<notin> at_token_hash ` set (access_tokens s)" if "digest \<noteq> at_token_hash link"
    using s2(3) l(1) that by (metis distinct_map_eq imageE)
  then have "access_step ?s1 s2" unfolding s2(1) using l(1) s2(2) token_check[OF assms(2) l(1)]
    by (intro step_link[of link]) (simp_all add: link_evolves_def access_token_check_def)
  then show ?thesis using frame_steps[OF same_access_draw] l(3) by (meson frame_steps rtranclp_trans steps_then)
qed

lemma count_request_check: "access_token_check r \<Longrightarrow> access_token_check (count_request now window r)"
  by (auto simp: access_token_check_def count_request_def split: option.splits)

lemma count_request_evolves: "link_evolves r (count_request now window r)" "at_token_hash (count_request now window r) = at_token_hash r"
  by (auto simp: link_evolves_def count_request_def)

lemma increment_eq:
  assumes "increment_database_rate_window i h now window s = Inr ((n, t), s')"
  obtains r where "r \<in> set (access_tokens s)" "at_id r = i" "at_token_hash r = h" "at_revoked_at r = None" "now < at_expires_at r"
    "s' = put_token (count_request now window r) s" "n = at_rate_window_count (count_request now window r)"
    "at_rate_window_started_at (count_request now window r) = Some t"
  using assms by (auto simp: increment_database_rate_window_def Let_def split: option.splits dest!: find_mem)

lemma enforce_eq:
  assumes "enforce_access_rate_limit link cache now limit window s = Inr s'"
  obtains n t where "increment_database_rate_window (at_id link) (at_token_hash link) now window s = Inr ((n, t), s')" "n \<le> limit"
proof -
  obtain n t s1 where i: "increment_database_rate_window (at_id link) (at_token_hash link) now window s = Inr ((n, t), s1)"
    using assms by (auto simp: enforce_access_rate_limit_def bindR_Inr)
  have "n \<le> limit \<and> s' = s1"
  proof (cases cache)
    case None
    then show ?thesis using assms by (simp add: enforce_access_rate_limit_def i split: if_splits)
  next
    case (Some c)
    then show ?thesis using assms
      by (simp add: enforce_access_rate_limit_def i split: if_splits sum.splits port_error.splits)
  qed
  then show thesis using that i by blast
qed

lemma participant_actor_eq:
  assumes "participant_actor p corr s = Inr (a, s')"
  shows "same_access s s'" "ac_participant_id a = Some (jp_id p)" "ac_job_id a = Some (jp_job_id p)" "ac_participant_role a = Some (jp_role p)"
    "ac_actor_kind a = PARTICIPANT_ACTOR" "access_tokens s' = access_tokens s"
  using assms by (auto simp: participant_actor_def mk_actor_context_def Let_def bindR_Inr uuid4_def token_hex16_def same_access_def
      split: option.splits if_splits)

lemma authenticate_cases:
  assumes "authenticate_access_token secret cache limit window pending corr now s = Inr (a, s')"
  obtains link p n t s1 where "access_secret_pattern secret" "find (\<lambda>r. at_token_hash r = sha256_hex s secret) (access_tokens s) = Some link"
    "at_revoked_at link = None" "now < at_expires_at link" "\<not> invitation_bars now pending (invitation_of_link (at_id link) s)"
    "row jp_id (at_participant_id link) (participants s) = Some p"
    "increment_database_rate_window (at_id link) (at_token_hash link) now window s = Inr ((n, t), s1)" "n \<le> limit"
    "participant_actor p corr (record_use link p (invitation_of_link (at_id link) s) now s1) = Inr (a, s')"
proof -
  obtain link p s1 where l: "access_secret_pattern secret" "find (\<lambda>r. at_token_hash r = sha256_hex s secret) (access_tokens s) = Some link"
    "at_revoked_at link = None" "now < at_expires_at link" "\<not> invitation_bars now pending (invitation_of_link (at_id link) s)"
    "row jp_id (at_participant_id link) (participants s) = Some p" "enforce_access_rate_limit link cache now limit window s = Inr s1"
    "participant_actor p corr (record_use link p (invitation_of_link (at_id link) s) now s1) = Inr (a, s')"
    using assms unfolding authenticate_access_token_def by (auto simp: bindR_Inr split: if_splits option.splits)
  then show ?thesis using enforce_eq[OF l(7)] that by metis
qed

lemma record_use_steps:
  assumes "access_inv s"
  shows "access_step\<^sup>*\<^sup>* s (record_use link p i now s)"
proof (cases "row at_id (at_id link) (access_tokens s)")
  case (Some r)
  have "access_step s (put_token (r\<lparr>at_last_used_at := Some now\<rparr>) s)"
    using row_mem[OF Some] token_check[OF assms row_mem[OF Some]]
    by (intro step_link[of r]) (simp_all add: link_evolves_def access_token_check_def)
  then show ?thesis using Some unfolding record_use_def by (auto simp: Let_def intro: audit_steps)
qed (simp add: record_use_def)

lemma authenticate_steps:
  assumes "authenticate_access_token secret cache limit window pending corr now s = Inr (a, s')" "access_inv s"
  shows "access_step\<^sup>*\<^sup>* s s'"
  using assms(1)
proof (rule authenticate_cases)
  fix link p n t s1
  assume inc: "increment_database_rate_window (at_id link) (at_token_hash link) now window s = Inr ((n, t), s1)"
    and a: "participant_actor p corr (record_use link p (invitation_of_link (at_id link) s) now s1) = Inr (a, s')"
  have "access_step s s1" using inc
  proof (rule increment_eq)
    fix r assume r: "r \<in> set (access_tokens s)" "s1 = put_token (count_request now window r) s"
    show ?thesis unfolding r(2)
      using r(1) count_request_evolves count_request_check[OF token_check[OF assms(2) r(1)]] by (intro step_link[of r]) simp_all
  qed
  then have s1: "access_step\<^sup>*\<^sup>* s s1" by blast
  show ?thesis
    using s1 record_use_steps[OF steps_inv[OF s1 assms(2)]] frame_steps[OF participant_actor_eq(1)[OF a]] by (meson rtranclp_trans)
qed

lemma revoke_link_steps:
  assumes "revoke_access_link i actor operation now s = Inr s'" "access_inv s"
  shows "access_step\<^sup>*\<^sup>* s s'"
proof -
  obtain link where link: "row at_id i (access_tokens s) = Some link"
    using assms(1) by (auto simp: revoke_access_link_def split: option.splits)
  show ?thesis
  proof (cases "at_revoked_at link")
    case None
    let ?t = "put_token (link\<lparr>at_revoked_at := Some now\<rparr>) s"
    have "access_step s ?t" using None row_mem[OF link] token_check[OF assms(2) row_mem[OF link]]
      by (intro step_link[of link]) (simp_all add: link_evolves_def access_token_check_def)
    then have "access_step\<^sup>*\<^sup>* s (revoke_workspace_memberships p now ?t)" for p
      unfolding revoke_workspace_memberships_def by (rule steps_then[OF r_into_rtranclp step_leave])
    then show ?thesis using assms(1) None link
      by (auto simp: revoke_access_link_def Let_def split: option.splits intro!: audit_steps)
  next
    case (Some d)
    then show ?thesis using assms(1) link by (simp add: revoke_access_link_def)
  qed
qed

text \<open>Writing a new status, when the table accepts it.\<close>

lemma answer_steps:
  assumes "access_inv s" "i \<in> set (invitations s)" "i' = i\<lparr>pi_status := st, pi_resolved_at := d\<rparr>"
    "st \<in> {INV_ACCEPTED, INV_DECLINED, INV_REVOKED} \<and> d \<noteq> None"
  shows "access_step\<^sup>*\<^sup>* s (put_invitation i' s)"
  using invitation_facts(2)[OF assms(1,2)] assms(2,4) unfolding assms(3)
  by (intro r_into_rtranclp step_answer[of i]) (auto simp: invitation_evolves_def invitation_check_def)

lemma end_invitation_steps:
  assumes "end_invitation i actor now s = Inr s'" "access_inv s"
  shows "access_step\<^sup>*\<^sup>* s s'"
proof -
  obtain r where r: "row pi_id i (invitations s) = Some r"
      "revoke_access_link (pi_access_link_id r) actor None now (put_invitation (r\<lparr>pi_status := INV_REVOKED, pi_resolved_at := Some now\<rparr>) s) = Inr s'"
    using assms(1) by (auto simp: end_invitation_def split: option.splits)
  have s1: "access_step\<^sup>*\<^sup>* s (put_invitation (r\<lparr>pi_status := INV_REVOKED, pi_resolved_at := Some now\<rparr>) s)"
    by (rule answer_steps[OF assms(2) row_mem[OF r(1)] refl]) simp
  then show ?thesis using revoke_link_steps[OF r(2) steps_inv[OF s1 assms(2)]] by (rule rtranclp_trans)
qed

lemma foldR_steps:
  assumes "\<And>x s s'. f x s = Inr s' \<Longrightarrow> access_inv s \<Longrightarrow> access_step\<^sup>*\<^sup>* s s'" "foldR f xs s = Inr s'" "access_inv s"
  shows "access_step\<^sup>*\<^sup>* s s'"
  using assms(2,3)
proof (induction xs arbitrary: s)
  case (Cons x xs)
  obtain t where t: "f x s = Inr t" "foldR f xs t = Inr s'" using Cons.prems(1) by (auto simp: bindR_Inr)
  have st: "access_step\<^sup>*\<^sup>* s t" by (rule assms(1)[OF t(1) Cons.prems(2)])
  then show ?case using Cons.IH[OF t(2) steps_inv[OF st Cons.prems(2)]] by (rule rtranclp_trans)
qed simp

lemma tree_steps:
  "revoke_invitation_tree depth actor now i s = Inr s' \<Longrightarrow> access_inv s \<Longrightarrow> access_step\<^sup>*\<^sup>* s s'"
proof (induction depth arbitrary: i s s')
  case (Suc depth)
  obtain r where r: "row pi_id i (invitations s) = Some r" using Suc.prems(1) by (auto split: option.splits)
  obtain t where t: "(if pi_role r = COMPANY_MANAGER
        then foldR (revoke_invitation_tree depth actor now) (issued_by (pi_job_id r) (pi_invitee_participant_id r) s) s else Inr s) = Inr t"
      "end_invitation i actor now t = Inr s'"
    using Suc.prems(1) by (auto simp: bindR_Inr r simp del: foldR.simps split del: if_split)
  have st: "access_step\<^sup>*\<^sup>* s t"
  proof (cases "pi_role r = COMPANY_MANAGER")
    case True
    then have h: "foldR (revoke_invitation_tree depth actor now) (issued_by (pi_job_id r) (pi_invitee_participant_id r) s) s = Inr t"
      using t(1) by simp
    show ?thesis by (rule foldR_steps[OF _ h Suc.prems(2)]) (rule Suc.IH)
  qed (use t(1) in simp)
  then show ?case using end_invitation_steps[OF t(2) steps_inv[OF st Suc.prems(2)]] by (rule rtranclp_trans)
qed simp

lemma issued_steps: "revoke_invitations_issued_by job issuer actor now s = Inr s' \<Longrightarrow> access_inv s \<Longrightarrow> access_step\<^sup>*\<^sup>* s s'"
  unfolding revoke_invitations_issued_by_def by (rule foldR_steps[OF tree_steps])

lemma link_tree_steps:
  assumes "revoke_access_link_tree i actor now s = Inr s'" "access_inv s"
  shows "access_step\<^sup>*\<^sup>* s s'"
proof -
  obtain link where link: "row at_id i (access_tokens s) = Some link"
    using assms(1) by (auto simp: revoke_access_link_tree_def split: option.splits)
  show ?thesis
  proof (cases "invitation_of_link i s")
    case (Some v)
    then show ?thesis using assms link tree_steps by (simp add: revoke_access_link_tree_def)
  next
    case None
    then obtain p :: JobParticipant and t where t: "revoke_invitations_issued_by (jp_job_id p) (jp_id p) actor now s = Inr t"
        "revoke_access_link i actor None now t = Inr s'"
      using assms(1) link by (auto simp: revoke_access_link_tree_def bindR_Inr split: option.splits)
    have st: "access_step\<^sup>*\<^sup>* s t" by (rule issued_steps[OF t(1) assms(2)])
    then show ?thesis using revoke_link_steps[OF t(2) steps_inv[OF st assms(2)]] by (rule rtranclp_trans)
  qed
qed

lemma load_for_steps:
  assumes "load_invitation_for side job i actor now s = Inr (v, s')" "access_inv s"
  shows "access_step\<^sup>*\<^sup>* s s'" "v \<in> set (invitations s')" "pi_id v = i" "pi_job_id v = job" "access_tokens s' = access_tokens s"
proof -
  obtain r where r: "row pi_id i (invitations s) = Some r" "pi_job_id r = job" "v = materialize_expiry now r" "s' = put_invitation v s"
    using assms(1) by (auto simp: load_invitation_for_def Let_def split: option.splits if_splits)
  have v: "pi_id v = pi_id r" "pi_job_id v = pi_job_id r" unfolding r(3) using materialize_evolves(1) by (simp_all add: invitation_evolves_def)
  show "access_step\<^sup>*\<^sup>* s s'" unfolding r(4) using row_mem[OF r(1)] materialize_evolves invitation_facts(2)[OF assms(2) row_mem[OF r(1)]]
    by (intro r_into_rtranclp step_answer[of r]) (simp_all add: r(3))
  show "v \<in> set (invitations s')" unfolding r(4) using mem_put_row_iff[OF row_mem[OF r(1)] v(1)] by (simp add: put_invitation_def)
  show "pi_id v = i" "pi_job_id v = job" "access_tokens s' = access_tokens s" using v r row_key[OF r(1)] by (simp_all add: put_invitation_def)
qed

lemmas load_defs = load_invitation_for_invitee_def load_invitation_for_issuer_def

lemma respond_eq: "respond i s = Inr (view, s') \<Longrightarrow> s' = s"
  by (auto simp: respond_def bindR_Inr)

lemma accept_steps:
  assumes "accept_invitation job i actor secret now s = Inr (view, s')" "access_inv s"
  shows "access_step\<^sup>*\<^sup>* s s'"
proof -
  obtain v s1 where l: "load_invitation_for pi_invitee_participant_id job i actor now s = Inr (v, s1)"
    using assms(1) by (auto simp: accept_invitation_def load_defs bindR_Inr)
  note ld = load_for_steps[OF l assms(2)]
  show ?thesis
  proof (cases "pi_status v = INV_ACCEPTED")
    case True
    then have "s' = s1" using assms(1) by (auto simp: accept_invitation_def load_defs l split: option.splits if_splits dest: respond_eq)
    then show ?thesis using ld(1) by simp
  next
    case False
    then obtain j ty a p where "s' = add_audit_event j ty a p now (put_invitation (v\<lparr>pi_status := INV_ACCEPTED, pi_resolved_at := Some now\<rparr>) s1)"
      using assms(1) by (auto simp: accept_invitation_def load_defs l Let_def split: option.splits if_splits dest!: respond_eq)
    then show ?thesis
      using ld(1) answer_steps[OF steps_inv[OF ld(1) assms(2)] ld(2) refl, of INV_ACCEPTED "Some now"] by (auto intro: audit_steps)
  qed
qed

lemma decline_steps:
  assumes "decline_invitation job i actor secret now s = Inr (view, s')" "access_inv s"
  shows "access_step\<^sup>*\<^sup>* s s'"
proof -
  obtain v s1 where l: "load_invitation_for pi_invitee_participant_id job i actor now s = Inr (v, s1)"
    using assms(1) by (auto simp: decline_invitation_def load_defs bindR_Inr)
  note ld = load_for_steps[OF l assms(2)]
  let ?t = "put_invitation (v\<lparr>pi_status := INV_DECLINED, pi_resolved_at := Some now\<rparr>) s1"
  obtain k where r: "revoke_access_link k (pi_invitee_participant_id v) None now ?t = Inr s'"
    using assms(1) by (auto simp: decline_invitation_def load_defs l Let_def bindR_Inr split: option.splits if_splits dest!: respond_eq)
  have t: "access_step\<^sup>*\<^sup>* s ?t" using ld(1) answer_steps[OF steps_inv[OF ld(1) assms(2)] ld(2) refl, of INV_DECLINED "Some now"]
    by (auto intro: rtranclp_trans)
  then show ?thesis using revoke_link_steps[OF r steps_inv[OF t assms(2)]] by (rule rtranclp_trans)
qed

lemma revoke_invitation_steps:
  assumes "revoke_invitation job i actor now s = Inr (view, s')" "access_inv s"
  shows "access_step\<^sup>*\<^sup>* s s'"
proof -
  obtain v s1 where l: "load_invitation_for pi_issuer_participant_id job i actor now s = Inr (v, s1)"
    using assms(1) by (auto simp: revoke_invitation_def load_defs bindR_Inr)
  note ld = load_for_steps[OF l assms(2)]
  have "s' = s1 \<or> revoke_invitation_tree TREE_DEPTH actor now i s1 = Inr s'"
    using assms(1) by (auto simp: revoke_invitation_def load_defs l bindR_Inr split: if_splits dest!: respond_eq)
  then show ?thesis using ld(1) tree_steps[OF _ steps_inv[OF ld(1) assms(2)]] by (auto intro: rtranclp_trans)
qed

lemma list_steps: "list_invitations job pid now s = Inr (views, s') \<Longrightarrow> access_step\<^sup>*\<^sup>* s s'"
  by (auto simp: list_invitations_def Let_def bindR_Inr intro!: r_into_rtranclp step_expire)

lemma self_steps:
  assumes "get_actor_self pid role now s = Inr (view, s')" "access_inv s"
  shows "access_step\<^sup>*\<^sup>* s s'"
proof (cases "invitation_of_invitee pid s")
  case None
  then show ?thesis using assms(1) by (auto simp: get_actor_self_def Let_def bindR_Inr split: option.splits)
next
  case (Some i)
  then have "s' = put_invitation (materialize_expiry now i) s"
    using assms(1) by (auto simp: get_actor_self_def Let_def bindR_Inr split: option.splits)
  moreover have i: "i \<in> set (invitations s)" using find_mem Some unfolding invitation_of_invitee_def by fastforce
  ultimately show ?thesis using materialize_evolves invitation_facts(2)[OF assms(2) i] by (auto intro!: step_answer)
qed

lemma issue_step:
  assumes "issue_access_link p actor operation invitation_id limit now s = Inr (l, s')" "access_inv s" "p \<in> set (participants s)"
    "jp_id p \<notin> pi_invitee_participant_id ` set (invitations s)"
  shows "access_step\<^sup>*\<^sup>* s s'" "\<exists>r. access_tokens s' = access_tokens s @ [r] \<and> at_id r = alr_id l \<and> at_participant_id r = jp_id p \<and>
     at_expires_at r = alr_expires_at l \<and> at_id r \<notin> drawn_ids s" "participants s' = participants s" "invitations s' = invitations s" "rng s' = rng s"
    "drawn s < drawn s'"
proof -
  obtain s2 r s3 where r: "same_access s s2" "at_id r = rng s (Suc (drawn s))" "at_id r \<in> drawn_ids s2" "at_participant_id r = jp_id p"
    "insert_access_token r s2 = Inr s3" "same_access s3 s'" "alr_id l = at_id r" "alr_expires_at l = at_expires_at r"
    using assms(1) by (rule issue_cases)
  note s3 = insert_token_eq[OF r(5)]
  have new: "at_id r \<notin> drawn_ids s"
    using assms(2) unfolding r(2) by (auto simp: access_inv_def fresh_supply_def drawn_ids_def dest!: injD)
  then have "at_id r \<notin> at_id ` set (access_tokens s2)" using r(1) token_drawn[OF assms(2)] by (auto simp: same_access_def)
  moreover have "at_participant_id r \<in> jp_id ` set (participants s2)" using r(1,4) assms(3) by (auto simp: same_access_def)
  moreover have "at_participant_id r \<notin> pi_invitee_participant_id ` set (invitations s2)" using r(1,4) assms(4) by (auto simp: same_access_def)
  ultimately have "access_step s2 s3" using r(3,5) by (intro step_issue)
  then show "access_step\<^sup>*\<^sup>* s s'" using frame_steps[OF r(1)] frame_steps[OF r(6)] by (meson rtranclp_trans steps_then)
  show "\<exists>r. access_tokens s' = access_tokens s @ [r] \<and> at_id r = alr_id l \<and> at_participant_id r = jp_id p \<and>
     at_expires_at r = alr_expires_at l \<and> at_id r \<notin> drawn_ids s"
    using r(1,4,6,7,8) new s3(1) by (intro exI[of _ r]) (simp add: same_access_def)
  show "participants s' = participants s" "invitations s' = invitations s" "rng s' = rng s" using r(1,6) s3(1) by (simp_all add: same_access_def)
  have "drawn s < drawn s2" using new r(1,3) by (cases "drawn s = drawn s2") (simp_all add: same_access_def drawn_ids_def)
  then show "drawn s < drawn s'" using r(6) s3(1) by (simp add: same_access_def)
qed

lemma join_step_new:
  assumes "access_inv s" "p = p0\<lparr>jp_id := rng s (drawn s)\<rparr>" "insert_participant p (s\<lparr>drawn := Suc (drawn s)\<rparr>) = Inr s'"
  shows "access_step\<^sup>*\<^sup>* s s'" "participants s' = participants s @ [p]" "jp_id p \<notin> jp_id ` set (participants s)" "jp_id p \<in> drawn_ids s'"
    "jp_id p \<notin> at_participant_id ` set (access_tokens s')" "jp_id p \<notin> pi_invitee_participant_id ` set (invitations s')"
proof -
  have id: "jp_id p \<notin> drawn_ids s" using drawn_new[OF assms(1)] by (simp add: assms(2))
  then show new: "jp_id p \<notin> jp_id ` set (participants s)" using assms(1) by (auto simp: access_inv_def participants_inv_def)
  show ps: "participants s' = participants s @ [p]" and d: "jp_id p \<in> drawn_ids s'"
    using assms(2,3) by (auto simp: insert_participant_def drawn_ids_def split: if_splits)
  have "access_step (s\<lparr>drawn := Suc (drawn s)\<rparr>) s'" using new assms(2,3) by (intro step_join[of p]) (auto simp: drawn_ids_def)
  then show "access_step\<^sup>*\<^sup>* s s'" using frame_steps[OF same_access_draw] by (rule steps_then[rotated])
  have "access_tokens s' = access_tokens s" "invitations s' = invitations s"
    using assms(3) by (auto simp: insert_participant_def split: if_splits)
  moreover have "at_participant_id r \<in> drawn_ids s" if "r \<in> set (access_tokens s)" for r
  proof -
    have "at_participant_id r \<in> jp_id ` set (participants s)" using assms(1) that by (simp add: access_inv_def tokens_inv_def)
    then show ?thesis using assms(1) by (auto simp: access_inv_def participants_inv_def)
  qed
  moreover have "pi_invitee_participant_id i \<in> drawn_ids s" if i: "i \<in> set (invitations s)" for i
  proof -
    obtain q :: JobParticipant where "q \<in> set (participants s)" "jp_id q = pi_invitee_participant_id i"
      using invitation_facts(1)[OF assms(1) i] unfolding invitation_sound_def by blast
    then show ?thesis using assms(1) by (auto simp: access_inv_def participants_inv_def)
  qed
  ultimately show "jp_id p \<notin> at_participant_id ` set (access_tokens s')" "jp_id p \<notin> pi_invitee_participant_id ` set (invitations s')"
    using id by auto
qed

lemma create_invitation_steps:
  assumes "row jp_id issuer (participants s) = Some q" "jp_job_id q = job" "jp_role q = role"
    "create_invitation job issuer role cmd now s = Inr (view, s')" "access_inv s"
  shows "access_step\<^sup>*\<^sup>* s s'"
proof -
  let ?p = "\<lparr>jp_id = rng s (drawn s), jp_job_id = job, jp_role = ic_role cmd, jp_display_name = invitee_name cmd, jp_created_at = now\<rparr>"
  obtain issuer_link :: ParticipantAccessToken and s2 l s4 where c: "insert_participant ?p (s\<lparr>drawn := Suc (drawn s)\<rparr>) = Inr s2"
      "issue_access_link ?p (Some issuer) (Some ''invitation_issued'') (Some (rng s2 (drawn s2))) (Some (at_expires_at issuer_link)) now
         (s2\<lparr>drawn := Suc (drawn s2)\<rparr>) = Inr (l, s4)"
      "insert_invitation \<lparr>pi_id = rng s2 (drawn s2), pi_job_id = job, pi_issuer_participant_id = issuer, pi_invitee_participant_id = rng s (drawn s),
         pi_access_link_id = alr_id l, pi_role = ic_role cmd, pi_status = INV_PENDING, pi_expires_at = alr_expires_at l, pi_issued_at = now,
         pi_resolved_at = None, pi_created_at = now\<rparr> s4 = Inr s'"
    using assms(4) by (auto simp: create_invitation_def uuid4_def Let_def bindR_Inr split: if_splits option.splits)
  note j = join_step_new[OF assms(5) _ c(1), of ?p, simplified]
  have i2: "access_inv s2" using steps_inv[OF j(1) assms(5)] .
  let ?s3 = "s2\<lparr>drawn := Suc (drawn s2)\<rparr>"
  have i3: "access_inv ?s3" using inv_draws[OF i2 same_access_draw] .
  note iss = issue_step[OF c(2) i3]
  have p3: "?p \<in> set (participants ?s3)" "jp_id ?p \<notin> pi_invitee_participant_id ` set (invitations ?s3)" using j(2,6) by auto
  obtain r where r: "access_tokens s4 = access_tokens s2 @ [r]" "at_id r = alr_id l" "at_participant_id r = rng s (drawn s)"
    using iss(2)[OF p3] by auto
  let ?i = "\<lparr>pi_id = rng s2 (drawn s2), pi_job_id = job, pi_issuer_participant_id = issuer, pi_invitee_participant_id = rng s (drawn s),
         pi_access_link_id = alr_id l, pi_role = ic_role cmd, pi_status = INV_PENDING, pi_expires_at = alr_expires_at l, pi_issued_at = now,
         pi_resolved_at = None, pi_created_at = now\<rparr>"
  have d4: "pi_id ?i \<in> drawn_ids s4" using iss(5,6)[OF p3] by (auto simp: drawn_ids_def)
  have fresh: "pi_id ?i \<notin> pi_id ` set (invitations s4)"
    using iss(4)[OF p3] drawn_new[OF i2] i2 by (auto simp: access_inv_def invitations_inv_def invitation_sound_def)
  have "invitation_check ?i" using c(3) by (auto simp: insert_invitation_def split: if_splits)
  moreover have "invitable_role role = Some (ic_role cmd)" using assms(4) by (auto simp: create_invitation_def split: if_splits)
  then have "\<exists>p \<in> set (participants s4). jp_id p = issuer \<and> jp_job_id p = job \<and> invitable_role (jp_role p) = Some (ic_role cmd)"
    using assms(2,3) row_mem[OF assms(1)] row_key[OF assms(1)] j(2) iss(3)[OF p3] by (intro bexI[of _ q]) auto
  ultimately have "invitation_sound s4 ?i" using r j(2,5) iss(3)[OF p3] d4 unfolding invitation_sound_def
    by (auto simp: image_iff)
  then have "invitation_sound s4 ?i" .
  moreover have "pi_invitee_participant_id ?i \<notin> pi_invitee_participant_id ` set (invitations s4)" using j(6) iss(4)[OF p3] by auto
  ultimately have "access_step s4 s'" using c(3) d4 fresh by (intro step_invite[of ?i])
  then show ?thesis using j(1) frame_steps[OF same_access_draw[of s2]] iss(1)[OF p3] by (meson rtranclp_trans steps_then)
qed

lemma reissue_parts:
  assumes "reissue_invitation job i issuer now s = Inr (view, s')"
  obtains v s1 issuer_link s2 s3 p k s4 where "load_invitation_for pi_issuer_participant_id job i issuer now s = Inr (v, s1)"
    "load_active_access_link issuer now s1 = Some issuer_link"
    "revoke_invitations_issued_by (pi_job_id v) (pi_invitee_participant_id v) issuer now s1 = Inr s2"
    "revoke_access_link (pi_access_link_id v) issuer None now s2 = Inr s3"
    "row jp_id (pi_invitee_participant_id v) (participants s3) = Some p"
    "issue_access_link p (Some issuer) (Some ''invitation_reissued'') (Some (pi_id v)) (Some (at_expires_at issuer_link)) now s3 = Inr (k, s4)"
    "s' = put_invitation (reissued k now v) s4"
proof -
  obtain v s1 where l: "load_invitation_for pi_issuer_participant_id job i issuer now s = Inr (v, s1)"
    using assms by (auto simp: reissue_invitation_def load_defs bindR_Inr)
  obtain issuer_link where il: "load_active_access_link issuer now s1 = Some issuer_link"
    using assms by (auto simp: reissue_invitation_def load_defs l split: option.splits)
  obtain s2 where s2: "revoke_invitations_issued_by (pi_job_id v) (pi_invitee_participant_id v) issuer now s1 = Inr s2"
    using assms by (auto simp: reissue_invitation_def load_defs l il bindR_Inr)
  obtain s3 where s3: "revoke_access_link (pi_access_link_id v) issuer None now s2 = Inr s3"
    using assms by (auto simp: reissue_invitation_def load_defs l il s2 bindR_Inr)
  obtain p where p: "row jp_id (pi_invitee_participant_id v) (participants s3) = Some p"
    using assms by (auto simp: reissue_invitation_def load_defs l il s2 s3 split: option.splits)
  obtain k s4 where k: "issue_access_link p (Some issuer) (Some ''invitation_reissued'') (Some (pi_id v)) (Some (at_expires_at issuer_link)) now s3 = Inr (k, s4)"
      "s' = put_invitation (reissued k now v) s4"
    using assms by (auto simp: reissue_invitation_def load_defs l il s2 s3 p bindR_Inr)
  show thesis by (rule that[OF l il s2 s3 p k])
qed

lemma reissue_steps:
  assumes "reissue_invitation job i issuer now s = Inr (view, s')" "access_inv s"
  shows "access_step\<^sup>*\<^sup>* s s'"
  using assms(1)
proof (rule reissue_parts)
  fix v s1 issuer_link s2 s3 p k s4
  assume l: "load_invitation_for pi_issuer_participant_id job i issuer now s = Inr (v, s1)"
    and il: "load_active_access_link issuer now s1 = Some issuer_link"
    and s2: "revoke_invitations_issued_by (pi_job_id v) (pi_invitee_participant_id v) issuer now s1 = Inr s2"
    and s3: "revoke_access_link (pi_access_link_id v) issuer None now s2 = Inr s3"
    and p: "row jp_id (pi_invitee_participant_id v) (participants s3) = Some p"
    and k: "issue_access_link p (Some issuer) (Some ''invitation_reissued'') (Some (pi_id v)) (Some (at_expires_at issuer_link)) now s3 = Inr (k, s4)"
    and s': "s' = put_invitation (reissued k now v) s4"
  note ld = load_for_steps[OF l assms(2)]
  have i1: "access_inv s1" using steps_inv[OF ld(1) assms(2)] .
  have st3: "access_step\<^sup>*\<^sup>* s1 s3"
    using issued_steps[OF s2 i1] revoke_link_steps[OF s3 steps_inv[OF issued_steps[OF s2 i1] i1]] by (rule rtranclp_trans)
  have i3: "access_inv s3" "access_evolves s1 s3" using small_steps.runs[OF st3 i1] by auto
  obtain v' where v': "v' \<in> set (invitations s3)" "invitation_evolves v v'" using i3(2) ld(2) unfolding access_evolves_def by blast
  obtain t2 r t3 where r: "same_access s3 t2" "at_id r = rng s3 (Suc (drawn s3))" "at_id r \<in> drawn_ids t2" "at_participant_id r = jp_id p"
    "at_revoked_at r = None" "insert_access_token r t2 = Inr t3" "same_access t3 s4" "alr_id k = at_id r" "alr_expires_at k = at_expires_at r"
    "at_expires_at r = (case Some (at_expires_at issuer_link) of None \<Rightarrow> now + ACCESS_TOKEN_TTL | Some m \<Rightarrow> min (now + ACCESS_TOKEN_TTL) m)"
    using k by (rule issue_cases)
  have new: "at_id r \<notin> drawn_ids s3"
    using i3(1) unfolding r(2) by (auto simp: access_inv_def fresh_supply_def drawn_ids_def dest!: injD)
  have "now + seconds 1 < at_expires_at issuer_link"
    using find_mem[OF il[unfolded load_active_access_link_def]] by simp
  then have "now < at_expires_at issuer_link" by (simp add: seconds_def)
  then have "now < at_expires_at r" unfolding r(10) option.case using seconds_pos(1)[of "7 * 86400"] by (simp add: ACCESS_TOKEN_TTL_def days_def)
  then have check: "invitation_check (reissued k now v)"
    using invitation_facts(2)[OF i1 ld(2)] r(9) by (auto simp: invitation_check_def reissued_def)
  have ev: "invitation_evolves v' (reissued k now v)" using v'(2) by (simp add: invitation_evolves_def reissued_def)
  have "at_id r \<notin> at_id ` set (access_tokens t2)" using new r(1) token_drawn[OF i3(1)] by (auto simp: same_access_def)
  moreover have "at_participant_id r = pi_invitee_participant_id v'" using r(4) row_key[OF p] v'(2) by (simp add: invitation_evolves_def)
  moreover have "v' \<in> set (invitations t2)" using v'(1) r(1) by (simp add: same_access_def)
  ultimately have "access_step t2 (put_invitation (reissued k now v) t3)"
    using r(3,5,6,8) ev check by (intro step_reissue[of r _ v']) (simp_all add: reissued_def)
  moreover have "same_access (put_invitation (reissued k now v) t3) s'" using r(7) unfolding s' by (simp add: same_access_def put_invitation_def)
  ultimately show ?thesis using ld(1) st3 frame_steps[OF r(1)] frame_steps by (meson rtranclp_trans steps_then)
qed

lemma load_session_steps:
  assumes "load_session secret touch now s = Inr ((w, a), s')" "access_inv s"
  shows "access_step\<^sup>*\<^sup>* s s'" "a \<in> set (workspace_accounts s)" "\<exists>w0 \<in> set (workspace_sessions s). ws_token_hash w0 = sha256_hex s secret \<and>
     ws_id w = ws_id w0 \<and> ws_account_id w = ws_account_id w0 \<and> wa_id a = ws_account_id w0 \<and> ws_revoked_at w0 = None \<and> now < ws_expires_at w0 \<and>
     ws_token_hash w = ws_token_hash w0 \<and> ws_csrf_token w = ws_csrf_token w0 \<and> ws_revoked_at w = None \<and> ws_expires_at w = ws_expires_at w0"
    "workspace_session_check w" "participants s' = participants s" "invitations s' = invitations s" "workspace_memberships s' = workspace_memberships s"
    "workspace_accounts s' = workspace_accounts s"
proof -
  obtain w0 where w0: "w0 \<in> set (workspace_sessions s)" "ws_token_hash w0 = sha256_hex s secret" "row wa_id (ws_account_id w0) (workspace_accounts s) = Some a"
      "ws_revoked_at w0 = None" "now < ws_expires_at w0" "(w, s') = (if touch then (w0\<lparr>ws_last_used_at := Some now\<rparr>, put_session (w0\<lparr>ws_last_used_at := Some now\<rparr>) s) else (w0, s))"
  proof -
    have pat: "access_secret_pattern secret" using assms(1) by (auto simp: load_session_def split: if_splits)
    then obtain w0 where f: "find (\<lambda>w. ws_token_hash w = sha256_hex s secret) (workspace_sessions s) = Some w0"
      using assms(1) by (auto simp: load_session_def split: option.splits)
    then obtain b where b: "row wa_id (ws_account_id w0) (workspace_accounts s) = Some b"
      using assms(1) pat by (auto simp: load_session_def split: option.splits)
    have "\<not> (ws_revoked_at w0 \<noteq> None \<or> ws_expires_at w0 \<le> now)"
      using assms(1) unfolding load_session_def by (simp add: pat f b split: if_splits)
    moreover have "b = a \<and> (w, s') = (if touch then (w0\<lparr>ws_last_used_at := Some now\<rparr>, put_session (w0\<lparr>ws_last_used_at := Some now\<rparr>) s) else (w0, s))"
      using assms(1) unfolding load_session_def by (auto simp add: pat f b Let_def split: if_splits)
    ultimately show thesis using find_mem[OF f] b that[of w0] by auto
  qed
  have ok: "workspace_session_check w0" using assms(2) w0(1) by (simp add: access_inv_def workspace_inv_def)
  have "access_step s (put_session (w0\<lparr>ws_last_used_at := Some now\<rparr>) s)"
    using w0(1) ok by (intro step_session[of w0]) (simp_all add: workspace_session_check_def session_evolves_def)
  then show "access_step\<^sup>*\<^sup>* s s'" using w0(6) by (auto split: if_splits)
  show "a \<in> set (workspace_accounts s)" by (rule row_mem[OF w0(3)])
  show "\<exists>w0 \<in> set (workspace_sessions s). ws_token_hash w0 = sha256_hex s secret \<and>
     ws_id w = ws_id w0 \<and> ws_account_id w = ws_account_id w0 \<and> wa_id a = ws_account_id w0 \<and> ws_revoked_at w0 = None \<and> now < ws_expires_at w0 \<and>
     ws_token_hash w = ws_token_hash w0 \<and> ws_csrf_token w = ws_csrf_token w0 \<and> ws_revoked_at w = None \<and> ws_expires_at w = ws_expires_at w0"
    using w0 row_key[OF w0(3)] by (intro bexI[of _ w0]) (auto split: if_splits)
  show "workspace_session_check w" "participants s' = participants s" "invitations s' = invitations s"
    "workspace_memberships s' = workspace_memberships s" "workspace_accounts s' = workspace_accounts s"
    using w0(6) ok by (auto simp: workspace_session_check_def put_session_def split: if_splits)
qed

lemma account_auth_steps:
  assumes "authenticate_workspace_account secret csrf now s = Inr (who, s')" "access_inv s"
  shows "access_step\<^sup>*\<^sup>* s s'"
proof -
  obtain w a where "load_session secret True now s = Inr ((w, a), s')"
    using assms(1) by (auto simp: authenticate_workspace_account_def bindR_Inr split: if_splits)
  then show ?thesis by (rule load_session_steps[OF _ assms(2)])
qed

lemma actor_auth_steps:
  assumes "authenticate_workspace_actor secret job csrf corr now s = Inr (a, s')" "access_inv s"
  shows "access_step\<^sup>*\<^sup>* s s'"
proof -
  obtain who s1 p where p: "authenticate_workspace_account secret csrf now s = Inr (who, s1)" "participant_actor p corr s1 = Inr (a, s')"
    using assms(1) by (auto simp: authenticate_workspace_actor_def bindR_Inr split: option.splits if_splits)
  show ?thesis using account_auth_steps[OF p(1) assms(2)] frame_steps[OF participant_actor_eq(1)[OF p(2)]] by (rule rtranclp_trans)
qed

lemma detach_steps:
  assumes "access_inv s" "m \<in> set (workspace_memberships s)"
  shows "access_step\<^sup>*\<^sup>* s (detach_participant m now s)"
proof -
  have d: "distinct (map wm_id (workspace_memberships s))" using assms(1) by (simp add: access_inv_def workspace_inv_def)
  have "put_row wm_id (m\<lparr>wm_revoked_at := Some now\<rparr>) (workspace_memberships s) =
      update_where (\<lambda>x. wm_id x = wm_id m) (\<lambda>m. m\<lparr>wm_revoked_at := Some now\<rparr>) (workspace_memberships s)"
    unfolding put_row_def update_where_def using distinct_map_eq[OF d _ assms(2)] by auto
  then have "same_access (s\<lparr>workspace_memberships := update_where (\<lambda>x. wm_id x = wm_id m) (\<lambda>m. m\<lparr>wm_revoked_at := Some now\<rparr>) (workspace_memberships s)\<rparr>)
      (detach_participant m now s)"
    by (simp add: same_access_def detach_participant_def)
  from steps_then[OF r_into_rtranclp, OF step_leave step_frame[OF this]] show ?thesis .
qed

lemma new_member_steps:
  assumes "access_inv s" "a \<in> set (workspace_accounts s)"
    "insert_membership \<lparr>wm_id = rng s (drawn s), wm_account_id = wa_id a, wm_participant_id = p, wm_joined_at = now, wm_revoked_at = None\<rparr>
       (s\<lparr>drawn := Suc (drawn s)\<rparr>) = Inr s'"
  shows "access_step\<^sup>*\<^sup>* s s'"
proof -
  have "rng s (drawn s) \<notin> wm_id ` set (workspace_memberships s)"
    using drawn_new[OF assms(1)] assms(1) by (auto simp: access_inv_def workspace_inv_def)
  then have "access_step (s\<lparr>drawn := Suc (drawn s)\<rparr>) s'" using assms(2,3)
    by (intro step_member[of "\<lparr>wm_id = rng s (drawn s), wm_account_id = wa_id a, wm_participant_id = p, wm_joined_at = now, wm_revoked_at = None\<rparr>"])
       (auto simp: drawn_ids_def)
  then show ?thesis using frame_steps[OF same_access_draw] by (rule steps_then[rotated])
qed

lemma new_account_steps:
  assumes "access_inv s" "a = a0\<lparr>wa_id := rng s (drawn s)\<rparr>"
  shows "access_step\<^sup>*\<^sup>* s (s\<lparr>drawn := Suc (drawn s), workspace_accounts := workspace_accounts s @ [a]\<rparr>)"
proof -
  let ?t = "s\<lparr>drawn := Suc (drawn s)\<rparr>"
  have "rng s (drawn s) \<notin> wa_id ` set (workspace_accounts s)"
    using drawn_new[OF assms(1)] assms(1) by (auto simp: access_inv_def workspace_inv_def)
  then have "access_step ?t (?t\<lparr>workspace_accounts := workspace_accounts ?t @ [a]\<rparr>)"
    using assms(2) by (intro step_account) (auto simp: drawn_ids_def)
  then show ?thesis using steps_then[OF frame_steps[OF same_access_draw]] by simp
qed

text \<open>Joining a workspace: stay, or leave the old one and enter an account as a new member.\<close>

lemma join_workspace_cases:
  assumes "join_workspace p account now s = Inr (a, s')"
  obtains (stay) m where "active_membership (jp_id p) s = Some m" "row wa_id (wm_account_id m) (workspace_accounts s) = Some a"
      "map_option wa_id account = Some (wa_id a)" "s' = s"
  | (enter) s1 s3 where "active_membership (jp_id p) s = None \<and> s1 = s \<or> (\<exists>m. active_membership (jp_id p) s = Some m \<and> account = None \<and> s1 = detach_participant m now s)"
      "account = Some a \<and> wa_role a = jp_role p \<and> s3 = s1 \<or>
       account = None \<and> a = \<lparr>wa_id = rng s1 (drawn s1), wa_role = jp_role p, wa_display_name = jp_display_name p, wa_created_at = now\<rparr> \<and>
       s3 = s1\<lparr>drawn := Suc (drawn s1), workspace_accounts := workspace_accounts s1 @ [a]\<rparr>"
      "insert_membership \<lparr>wm_id = rng s3 (drawn s3), wm_account_id = wa_id a, wm_participant_id = jp_id p, wm_joined_at = now, wm_revoked_at = None\<rparr>
         (s3\<lparr>drawn := Suc (drawn s3)\<rparr>) = Inr s'"
proof (cases "active_membership (jp_id p) s")
  case None
  show thesis
  proof (cases account)
    case c: None
    show ?thesis
      by (rule enter[of s "s\<lparr>drawn := Suc (drawn s), workspace_accounts := workspace_accounts s @ [a]\<rparr>"])
         (use assms None c in \<open>auto simp: join_workspace_def uuid4_def Let_def bindR_Inr\<close>)
  next
    case c: (Some b)
    show ?thesis
      by (rule enter[of s s]) (use assms None c in \<open>auto simp: join_workspace_def uuid4_def Let_def bindR_Inr split: if_splits\<close>)
  qed
next
  case (Some m)
  then obtain own where own: "row wa_id (wm_account_id m) (workspace_accounts s) = Some own"
    using assms by (auto simp: join_workspace_def split: option.splits)
  show thesis
  proof (cases account)
    case c: None
    let ?t = "detach_participant m now s"
    show ?thesis
      by (rule enter[of ?t "?t\<lparr>drawn := Suc (drawn ?t), workspace_accounts := workspace_accounts ?t @ [a]\<rparr>"])
         (use assms Some own c in \<open>auto simp: join_workspace_def uuid4_def Let_def bindR_Inr\<close>)
  next
    case c: (Some b)
    show ?thesis by (rule stay[OF Some]) (use assms Some own c in \<open>auto simp: join_workspace_def split: if_splits\<close>)
  qed
qed

lemma join_steps:
  assumes "join_workspace p account now s = Inr (a, s')" "access_inv s" "\<And>b. account = Some b \<Longrightarrow> b \<in> set (workspace_accounts s)"
  shows "access_step\<^sup>*\<^sup>* s s'" "a \<in> set (workspace_accounts s')"
proof -
  have "access_step\<^sup>*\<^sup>* s s' \<and> a \<in> set (workspace_accounts s')"
    using assms(1)
  proof (cases rule: join_workspace_cases)
    case stay
    then show ?thesis using row_mem by auto
  next
    case (enter s1 s3)
    have "access_step\<^sup>*\<^sup>* s s1 \<and> workspace_accounts s1 = workspace_accounts s" using enter(1)
    proof
      assume "\<exists>m. active_membership (jp_id p) s = Some m \<and> account = None \<and> s1 = detach_participant m now s"
      then obtain m where m: "active_membership (jp_id p) s = Some m" "s1 = detach_participant m now s" by blast
      then have "m \<in> set (workspace_memberships s)" using find_mem unfolding active_membership_def by fastforce
      then show ?thesis using detach_steps[OF assms(2)] m(2) by (simp add: detach_participant_def)
    qed simp
    then have s1: "access_step\<^sup>*\<^sup>* s s1" "workspace_accounts s1 = workspace_accounts s" by auto
    have i1: "access_inv s1" by (rule steps_inv[OF s1(1) assms(2)])
    have s3: "access_step\<^sup>*\<^sup>* s1 s3 \<and> a \<in> set (workspace_accounts s3)" using enter(2)
    proof
      assume "account = Some a \<and> wa_role a = jp_role p \<and> s3 = s1"
      then show ?thesis using assms(3) s1(2) by simp
    next
      assume "account = None \<and> a = \<lparr>wa_id = rng s1 (drawn s1), wa_role = jp_role p, wa_display_name = jp_display_name p, wa_created_at = now\<rparr> \<and>
         s3 = s1\<lparr>drawn := Suc (drawn s1), workspace_accounts := workspace_accounts s1 @ [a]\<rparr>"
      then show ?thesis using new_account_steps[OF i1, of a a] by simp
    qed
    then have i3: "access_inv s3" using steps_inv i1 by blast
    have "workspace_accounts s' = workspace_accounts s3" using enter(3) by (auto simp: insert_membership_def split: if_splits)
    then show ?thesis using s1(1) s3 new_member_steps[OF i3 _ enter(3)] by (auto intro: rtranclp_trans)
  qed
  then show "access_step\<^sup>*\<^sup>* s s'" "a \<in> set (workspace_accounts s')" by auto
qed

lemma issue_session_steps:
  assumes "issue_session a now s = Inr ((w, c), s')" "access_inv s"
  shows "access_step\<^sup>*\<^sup>* s s'"
proof -
  let ?t = "s\<lparr>drawn := Suc (Suc (Suc (drawn s)))\<rparr>"
  have w: "ws_id w = rng s (Suc (Suc (drawn s)))" "insert_session w ?t = Inr s'"
    using assms(1) by (auto simp: issue_session_def token_urlsafe32_def uuid4_def Let_def bindR_Inr simp del: base64_fixed.simps)
  have "ws_id w \<notin> drawn_ids s" using assms(2) unfolding w(1) by (auto simp: access_inv_def fresh_supply_def drawn_ids_def dest!: injD)
  then have "ws_id w \<notin> ws_id ` set (workspace_sessions ?t)" using assms(2) by (auto simp: access_inv_def workspace_inv_def)
  then have "access_step ?t s'" using w by (intro step_browse[of w]) (auto simp: drawn_ids_def)
  moreover have "same_access s ?t" by (simp add: same_access_def)
  ultimately show ?thesis by (meson frame_steps steps_then)
qed

lemma create_session_parts:
  assumes "create_or_extend_workspace_session pid cookie now s = Inr (view, s')"
  obtains p held s1 a s2 w c where "row jp_id pid (participants s) = Some p" "\<not> unaccepted (invitation_of_invitee (jp_id p) s)"
    "(held, s1) = (case cookie of None \<Rightarrow> (None, s) | Some secret \<Rightarrow> (case load_session secret True now s of Inl e \<Rightarrow> (None, s) | Inr (wa, s1) \<Rightarrow> (Some wa, s1)))"
    "join_workspace p (map_option snd held) now s1 = Inr (a, s2)"
    "(case held of Some (w, b) \<Rightarrow> Inr ((w, None), s2) | None \<Rightarrow> bindR (issue_session a now s2) (\<lambda>((w, c), s3). Inr ((w, Some c), s3))) = Inr ((w, c), s')"
    "workspace_response w a s' = Inr (iws_response view)" "iws_cookie_secret view = c"
proof -
  obtain p where p: "row jp_id pid (participants s) = Some p" "\<not> unaccepted (invitation_of_invitee (jp_id p) s)"
    using assms by (auto simp: create_or_extend_workspace_session_def split: option.splits if_splits)
  obtain held s1 where h: "(case cookie of None \<Rightarrow> (None, s) | Some secret \<Rightarrow> (case load_session secret True now s of Inl e \<Rightarrow> (None, s) | Inr (wa, s1) \<Rightarrow> (Some wa, s1))) = (held, s1)"
    by force
  obtain a s2 where j: "join_workspace p (map_option snd held) now s1 = Inr (a, s2)"
    using assms unfolding create_or_extend_workspace_session_def p(1) option.case if_not_P[OF p(2)] h Let_def prod.case by (auto simp: bindR_Inr)
  obtain w c s3 where w: "(case held of Some (w, b) \<Rightarrow> Inr ((w, None), s2) | None \<Rightarrow> bindR (issue_session a now s2) (\<lambda>((w, c), s3). Inr ((w, Some c), s3))) = (Inr ((w, c), s3) :: ((WorkspaceSession \<times> string option) \<times> db) result)"
      "bindR (workspace_response w a s3) (\<lambda>view. Inr (\<lparr>iws_response = view, iws_cookie_secret = c\<rparr>, s3)) = Inr (view, s')"
    using assms unfolding create_or_extend_workspace_session_def p(1) option.case if_not_P[OF p(2)] h Let_def prod.case j bindR_simps
    by (auto simp: bindR_Inr simp del: bindR_simps) 
  show thesis by (rule that[OF p h[symmetric] j]) (use w in \<open>auto simp: bindR_Inr\<close>)
qed

lemma held_session:
  assumes "(held, s1) = (case cookie of None \<Rightarrow> (None, s) | Some secret \<Rightarrow>
      (case load_session secret True now s of Inl e \<Rightarrow> (None, s) | Inr (wa, s1) \<Rightarrow> (Some wa, s1)))" "access_inv s"
  shows "access_step\<^sup>*\<^sup>* s s1" "map_option snd held = Some b \<Longrightarrow> b \<in> set (workspace_accounts s1)" "participants s1 = participants s"
    "invitations s1 = invitations s" "workspace_memberships s1 = workspace_memberships s" "workspace_accounts s1 = workspace_accounts s"
proof -
  have "held = None \<and> s1 = s \<or> (\<exists>secret w a. load_session secret True now s = Inr ((w, a), s1) \<and> held = Some (w, a))"
    using assms(1) by (auto split: option.splits sum.splits)
  then show "access_step\<^sup>*\<^sup>* s s1" "map_option snd held = Some b \<Longrightarrow> b \<in> set (workspace_accounts s1)" "participants s1 = participants s"
    "invitations s1 = invitations s" "workspace_memberships s1 = workspace_memberships s" "workspace_accounts s1 = workspace_accounts s"
    using load_session_steps[OF _ assms(2)] by auto
qed

lemma create_session_steps:
  assumes "create_or_extend_workspace_session pid cookie now s = Inr (view, s')" "access_inv s"
  shows "access_step\<^sup>*\<^sup>* s s'"
  using assms(1)
proof (rule create_session_parts)
  fix p held s1 a s2 w c
  assume h: "(held, s1) = (case cookie of None \<Rightarrow> (None, s) | Some secret \<Rightarrow>
      (case load_session secret True now s of Inl e \<Rightarrow> (None, s) | Inr (wa, s1) \<Rightarrow> (Some wa, s1)))"
    and j: "join_workspace p (map_option snd held) now s1 = Inr (a, s2)"
    and w: "(case held of Some (w, b) \<Rightarrow> Inr ((w, None), s2) | None \<Rightarrow> bindR (issue_session a now s2) (\<lambda>((w, c), s3). Inr ((w, Some c), s3))) = Inr ((w, c), s')"
  note hs = held_session[OF h assms(2)]
  have s2: "access_step\<^sup>*\<^sup>* s s2" using hs(1) join_steps(1)[OF j steps_inv[OF hs(1) assms(2)] hs(2)] by (auto intro: rtranclp_trans)
  have "s' = s2 \<or> (\<exists>c. issue_session a now s2 = Inr ((w, c), s'))"
    using w by (auto simp: bindR_Inr split: option.splits)
  then show ?thesis using s2 issue_session_steps[OF _ steps_inv[OF s2 assms(2)]] by (auto intro: rtranclp_trans)
qed

lemma revoke_session_steps:
  assumes "revoke_workspace_session secret now s = Inr s'" "access_inv s"
  shows "access_step\<^sup>*\<^sup>* s s'"
proof -
  obtain w a s1 where l: "load_session secret False now s = Inr ((w, a), s1)" "s' = put_session (w\<lparr>ws_revoked_at := Some now\<rparr>) s1"
    using assms(1) by (auto simp: revoke_workspace_session_def bindR_Inr)
  note ls = load_session_steps[OF l(1) assms(2)]
  have s1: "s1 = s" using l(1) by (auto simp: load_session_def split: if_splits option.splits)
  obtain w0 where "w0 \<in> set (workspace_sessions s)" "ws_id w = ws_id w0" "ws_token_hash w = ws_token_hash w0"
      "ws_account_id w = ws_account_id w0" "ws_revoked_at w0 = None" using ls(3) by auto
  then show ?thesis using ls(4) unfolding l(2) s1
    by (intro r_into_rtranclp step_session[of w0]) (simp_all add: workspace_session_check_def session_evolves_def)
qed

lemma get_session_steps: "get_workspace_session secret now s = Inr (view, s') \<Longrightarrow> access_inv s \<Longrightarrow> access_step\<^sup>*\<^sup>* s s'"
  by (auto simp: get_workspace_session_def bindR_Inr dest: load_session_steps(1))

text \<open>The shared code brings a participant in, and accepts whatever invitation it has.\<close>

lemma resolve_parts:
  assumes "resolve_move_connection code role now s = Inr (p, s')"
  obtains j s2 where "load_move_connection_job code s = Inr j"
    "participant_in_role (mj_id j) role s = Some p \<and> s2 = s \<or> participant_in_role (mj_id j) role s = None \<and>
       p = \<lparr>jp_id = rng s (drawn s), jp_job_id = mj_id j, jp_role = role, jp_display_name = default_role_name role, jp_created_at = now\<rparr> \<and>
       insert_participant p (s\<lparr>drawn := Suc (drawn s)\<rparr>) = Inr s2"
    "s' = (case invitation_of_invitee (jp_id p) s2 of None \<Rightarrow> s2
       | Some i \<Rightarrow> if pi_status i \<noteq> INV_ACCEPTED then put_invitation (i\<lparr>pi_status := INV_ACCEPTED, pi_resolved_at := Some now\<rparr>) s2 else s2)"
proof -
  obtain j where j: "load_move_connection_job code s = Inr j" using assms by (auto simp: resolve_move_connection_def bindR_Inr)
  show thesis
  proof (cases "participant_in_role (mj_id j) role s")
    case None
    let ?p = "\<lparr>jp_id = rng s (drawn s), jp_job_id = mj_id j, jp_role = role, jp_display_name = default_role_name role, jp_created_at = now\<rparr>"
    obtain s2 where s2: "insert_participant ?p (s\<lparr>drawn := Suc (drawn s)\<rparr>) = Inr s2"
      using None assms by (auto simp: resolve_move_connection_def j uuid4_def Let_def bindR_Inr)
    then show ?thesis using None assms that[OF j, of s2] by (auto simp: resolve_move_connection_def j uuid4_def Let_def)
  next
    case (Some q)
    then show ?thesis using assms that[OF j, of s] by (auto simp: resolve_move_connection_def j)
  qed
qed

lemma invitee_mem: "invitation_of_invitee pid s = Some i \<Longrightarrow> i \<in> set (invitations s) \<and> pi_invitee_participant_id i = pid"
  using find_mem unfolding invitation_of_invitee_def by fastforce

lemma resolve_steps:
  assumes "resolve_move_connection code role now s = Inr (p, s')" "access_inv s"
  shows "access_step\<^sup>*\<^sup>* s s'"
  using assms(1)
proof (rule resolve_parts)
  fix j s2
  assume p: "participant_in_role (mj_id j) role s = Some p \<and> s2 = s \<or> participant_in_role (mj_id j) role s = None \<and>
       p = \<lparr>jp_id = rng s (drawn s), jp_job_id = mj_id j, jp_role = role, jp_display_name = default_role_name role, jp_created_at = now\<rparr> \<and>
       insert_participant p (s\<lparr>drawn := Suc (drawn s)\<rparr>) = Inr s2"
    and s': "s' = (case invitation_of_invitee (jp_id p) s2 of None \<Rightarrow> s2
       | Some i \<Rightarrow> if pi_status i \<noteq> INV_ACCEPTED then put_invitation (i\<lparr>pi_status := INV_ACCEPTED, pi_resolved_at := Some now\<rparr>) s2 else s2)"
  have s2: "access_step\<^sup>*\<^sup>* s s2" using p join_step_new(1)[OF assms(2), of p p s2] by auto
  have "access_step\<^sup>*\<^sup>* s2 s'"
  proof (cases "invitation_of_invitee (jp_id p) s2")
    case (Some i)
    then show ?thesis using answer_steps[OF steps_inv[OF s2 assms(2)] conjunct1[OF invitee_mem[OF Some]] refl, of INV_ACCEPTED "Some now"]
      by (simp add: s')
  qed (simp add: s')
  then show ?thesis using s2 by (rule rtranclp_trans[rotated])
qed

lemma cancel_frame [simp]: "same_access s (cancel_pending_contact_deliveries account channel s)"
  by (simp add: same_access_def cancel_pending_contact_deliveries_def)

lemma put_contact_frame [simp]: "same_access s (put_contact c t) = same_access s t"
  by (simp add: same_access_def put_contact_def)

lemma upsert_frame:
  assumes "upsert_contact_point account channel cmd now s = Inr (view, s')"
  shows "same_access s s'"
proof (cases "contact_of account channel s")
  case None
  then show ?thesis using assms
    by (auto simp: upsert_contact_point_def bindR_Inr insert_contact_def uuid4_def Let_def same_access_def split: if_splits)
next
  case (Some c)
  then show ?thesis using assms by (auto simp: upsert_contact_point_def bindR_Inr Let_def)
qed

lemma delete_frame: "delete_contact_point account channel now s = Inr s' \<Longrightarrow> same_access s s'"
  by (auto simp: delete_contact_point_def split: option.splits if_splits)

section \<open>Any sequence of operations\<close>

text \<open>The operations of the component, and whatever leaves its tables alone. The issuer of an invitation
  has been authenticated as a participant of the job in its role.\<close>

inductive access_op :: "db \<Rightarrow> db \<Rightarrow> bool" where
  aop_other: "same_access s s' \<Longrightarrow> access_op s s'"
| aop_rotate: "rotate_access_link p secret actor now s = Inr (x, s') \<Longrightarrow> access_op s s'"
| aop_authenticate: "authenticate_access_token secret cache limit window pending corr now s = Inr (x, s') \<Longrightarrow> access_op s s'"
| aop_revoke_link: "revoke_access_link_tree i actor now s = Inr s' \<Longrightarrow> access_op s s'"
| aop_invite: "row jp_id issuer (participants s) = Some p \<Longrightarrow> jp_job_id p = job \<Longrightarrow> jp_role p = role \<Longrightarrow>
    create_invitation job issuer role cmd now s = Inr (x, s') \<Longrightarrow> access_op s s'"
| aop_list: "list_invitations job pid now s = Inr (x, s') \<Longrightarrow> access_op s s'"
| aop_accept: "accept_invitation job i actor secret now s = Inr (x, s') \<Longrightarrow> access_op s s'"
| aop_decline: "decline_invitation job i actor secret now s = Inr (x, s') \<Longrightarrow> access_op s s'"
| aop_revoke: "revoke_invitation job i actor now s = Inr (x, s') \<Longrightarrow> access_op s s'"
| aop_reissue: "reissue_invitation job i issuer now s = Inr (x, s') \<Longrightarrow> access_op s s'"
| aop_self: "get_actor_self pid role now s = Inr (x, s') \<Longrightarrow> access_op s s'"
| aop_session: "create_or_extend_workspace_session pid cookie now s = Inr (x, s') \<Longrightarrow> access_op s s'"
| aop_account: "authenticate_workspace_account secret csrf now s = Inr (x, s') \<Longrightarrow> access_op s s'"
| aop_actor: "authenticate_workspace_actor secret job csrf corr now s = Inr (x, s') \<Longrightarrow> access_op s s'"
| aop_get_session: "get_workspace_session secret now s = Inr (x, s') \<Longrightarrow> access_op s s'"
| aop_revoke_session: "revoke_workspace_session secret now s = Inr s' \<Longrightarrow> access_op s s'"
| aop_connect: "resolve_move_connection code role now s = Inr (x, s') \<Longrightarrow> access_op s s'"
| aop_contact: "upsert_contact_point account channel cmd now s = Inr (x, s') \<Longrightarrow> access_op s s'"
| aop_withdraw: "delete_contact_point account channel now s = Inr s' \<Longrightarrow> access_op s s'"

lemma access_op_steps: "access_op s s' \<Longrightarrow> access_inv s \<Longrightarrow> access_step\<^sup>*\<^sup>* s s'"
proof (induction rule: access_op.induct)
  case aop_other then show ?case by (intro frame_steps)
next
  case aop_rotate then show ?case by (rule rotate_steps)
next
  case aop_authenticate then show ?case by (rule authenticate_steps)
next
  case aop_revoke_link then show ?case by (rule link_tree_steps)
next
  case aop_invite then show ?case by (rule create_invitation_steps)
next
  case aop_list then show ?case by (intro list_steps)
next
  case aop_accept then show ?case by (rule accept_steps)
next
  case aop_decline then show ?case by (rule decline_steps)
next
  case aop_revoke then show ?case by (rule revoke_invitation_steps)
next
  case aop_reissue then show ?case by (rule reissue_steps)
next
  case aop_self then show ?case by (rule self_steps)
next
  case aop_session then show ?case by (rule create_session_steps)
next
  case aop_account then show ?case by (rule account_auth_steps)
next
  case aop_actor then show ?case by (rule actor_auth_steps)
next
  case aop_get_session then show ?case by (rule get_session_steps)
next
  case aop_revoke_session then show ?case by (rule revoke_session_steps)
next
  case aop_connect then show ?case by (rule resolve_steps)
next
  case aop_contact then show ?case by (intro frame_steps upsert_frame)
next
  case aop_withdraw then show ?case by (intro frame_steps delete_frame)
qed

interpretation access_ops: evolution access_op access_inv access_evolves
  by unfold_locales (auto intro: access_evolves_refl access_evolves_trans dest: small_steps.runs[OF access_op_steps])

end
