(* ===== verification/AccessSafety.thy ===== *)
theory AccessSafety
  imports AccessProofs
begin

text \<open>
  The properties of access links, invitations, workspace sessions and contact points.
\<close>

section \<open>Well-formed rows\<close>

text \<open>Property C17: whatever sequence of operations runs, the rows of the access tables stay
  well-formed: every link and every invitation satisfies the CHECK constraints of its table, a digest
  belongs to one link, a participant has at most one unrevoked link, there is one invitation for a job
  and role, and its link belongs to its invitee, who is a participant of that job in that role. A link
  keeps its owner and its lifetime, and once revoked it stays revoked.\<close>

theorem access_rows_wellformed:
  assumes "access_inv s" "access_op\<^sup>*\<^sup>* s s'"
  shows "(\<forall>r \<in> set (access_tokens s'). access_token_check r) \<and> distinct (map at_token_hash (access_tokens s')) \<and>
    distinct (map at_participant_id (filter (\<lambda>r. at_revoked_at r = None) (access_tokens s'))) \<and>
    distinct (map (\<lambda>i. (pi_job_id i, pi_role i)) (invitations s')) \<and>
    (\<forall>i \<in> set (invitations s'). invitation_check i \<and>
       (\<exists>r \<in> set (access_tokens s'). at_id r = pi_access_link_id i \<and> at_participant_id r = pi_invitee_participant_id i) \<and>
       (\<exists>p \<in> set (participants s'). jp_id p = pi_invitee_participant_id i \<and> jp_job_id p = pi_job_id i \<and> jp_role p = pi_role i)) \<and>
    (\<forall>w \<in> set (workspace_sessions s'). workspace_session_check w) \<and>
    (\<forall>r \<in> set (access_tokens s). \<exists>r' \<in> set (access_tokens s'). at_id r' = at_id r \<and> at_participant_id r' = at_participant_id r \<and>
       at_expires_at r' = at_expires_at r \<and> (at_revoked_at r \<noteq> None \<longrightarrow> at_revoked_at r' = at_revoked_at r))"
proof -
  have inv: "access_inv s'" "access_evolves s s'" using access_ops.runs[OF assms(2,1)] by auto
  have "\<exists>r' \<in> set (access_tokens s'). at_id r' = at_id r \<and> at_participant_id r' = at_participant_id r \<and>
      at_expires_at r' = at_expires_at r \<and> (at_revoked_at r \<noteq> None \<longrightarrow> at_revoked_at r' = at_revoked_at r)"
    if "r \<in> set (access_tokens s)" for r
    using inv(2) that unfolding access_evolves_def link_evolves_def by blast
  moreover have "\<forall>i \<in> set (invitations s'). invitation_sound s' i" using inv(1) by (simp add: access_inv_def invitations_inv_def)
  ultimately show ?thesis
    using inv(1) by (simp add: access_inv_def tokens_inv_def invitations_inv_def invitation_sound_def workspace_inv_def)
qed

section \<open>Revocation\<close>

text \<open>Property C18: a revoked link is dead for good. Whatever operations run after its revocation, an
  authentication that succeeds uses another link, one that is unrevoked and unexpired at that moment, and the
  actor is the participant of that link.\<close>

theorem revoked_link_is_dead:
  assumes "access_inv s" "r \<in> set (access_tokens s)" "at_revoked_at r \<noteq> None" "access_op\<^sup>*\<^sup>* s s'"
    and auth: "authenticate_access_token secret cache limit window pending corr now s' = Inr (a, s'')"
  shows "\<exists>link \<in> set (access_tokens s'). at_id link \<noteq> at_id r \<and> at_token_hash link = sha256_hex s' secret \<and>
    at_revoked_at link = None \<and> now < at_expires_at link \<and> ac_participant_id a = Some (at_participant_id link)"
  using auth
proof (rule authenticate_cases)
  fix link p n t s1
  assume f: "find (\<lambda>r. at_token_hash r = sha256_hex s' secret) (access_tokens s') = Some link" "at_revoked_at link = None"
    "now < at_expires_at link" and p: "row jp_id (at_participant_id link) (participants s') = Some p"
    and a: "participant_actor p corr (record_use link p (invitation_of_link (at_id link) s') now s1) = Inr (a, s'')"
  have inv: "access_inv s'" "access_evolves s s'" using access_ops.runs[OF assms(4,1)] by auto
  obtain r' where r': "r' \<in> set (access_tokens s')" "link_evolves r r'" using inv(2) assms(2) unfolding access_evolves_def by blast
  have l: "link \<in> set (access_tokens s')" "at_token_hash link = sha256_hex s' secret" using find_mem[OF f(1)] by auto
  have "at_id link \<noteq> at_id r"
  proof
    assume "at_id link = at_id r"
    then have "link = r'" using inv(1) l(1) r' unfolding access_inv_def tokens_inv_def link_evolves_def by (metis distinct_map_eq)
    then show False using f(2) r'(2) assms(3) by (auto simp: link_evolves_def)
  qed
  then show ?thesis using l f participant_actor_eq(2)[OF a] row_key[OF p] by (intro bexI[of _ link]) auto
qed

text \<open>How the revocations of a tree change the tables: no row appears, no participant or link changes owner, and
  what is revoked stays revoked.\<close>

definition cuts :: "db \<Rightarrow> db \<Rightarrow> bool" where
  "cuts s s' = (participants s' = participants s \<and> map pi_id (invitations s') = map pi_id (invitations s) \<and>
     (\<forall>i \<in> set (invitations s). \<exists>i' \<in> set (invitations s'). invitation_evolves i i' \<and> (pi_status i = INV_REVOKED \<longrightarrow> pi_status i' = INV_REVOKED)) \<and>
     map at_id (access_tokens s') = map at_id (access_tokens s) \<and>
     (\<forall>r' \<in> set (access_tokens s'). \<exists>r \<in> set (access_tokens s). link_evolves r r'))"

lemma cuts_refl: "cuts s s"
  by (auto simp: cuts_def link_evolves_def invitation_evolves_def)

lemma cuts_trans:
  assumes "cuts s t" "cuts t u"
  shows "cuts s u"
proof -
  have "\<exists>i'' \<in> set (invitations u). invitation_evolves i i'' \<and> (pi_status i = INV_REVOKED \<longrightarrow> pi_status i'' = INV_REVOKED)"
    if i: "i \<in> set (invitations s)" for i
  proof -
    obtain i' where i': "i' \<in> set (invitations t)" "invitation_evolves i i'" "pi_status i = INV_REVOKED \<longrightarrow> pi_status i' = INV_REVOKED"
      using assms(1) i unfolding cuts_def by blast
    then obtain i'' where "i'' \<in> set (invitations u)" "invitation_evolves i' i''" "pi_status i' = INV_REVOKED \<longrightarrow> pi_status i'' = INV_REVOKED"
      using assms(2) unfolding cuts_def by blast
    then show ?thesis using i' by (intro bexI[of _ i'']) (auto simp: invitation_evolves_def)
  qed
  moreover have "\<exists>r \<in> set (access_tokens s). link_evolves r r''" if r: "r'' \<in> set (access_tokens u)" for r''
  proof -
    obtain r' where r': "r' \<in> set (access_tokens t)" "link_evolves r' r''" using assms(2) r unfolding cuts_def by blast
    then obtain r where "r \<in> set (access_tokens s)" "link_evolves r r'" using assms(1) unfolding cuts_def by blast
    then show ?thesis using r' by (intro bexI[of _ r]) (auto simp: link_evolves_def)
  qed
  ultimately show ?thesis using assms unfolding cuts_def by simp
qed

lemma cuts_links: "cuts s s' \<Longrightarrow> r' \<in> set (access_tokens s') \<Longrightarrow> \<exists>r \<in> set (access_tokens s). link_evolves r r'"
  by (simp add: cuts_def)

text \<open>A participant without a live link whose invitation is revoked.\<close>

definition severed :: "db \<Rightarrow> uuid \<Rightarrow> bool" where
  "severed s pid = ((\<forall>r \<in> set (access_tokens s). at_participant_id r = pid \<longrightarrow> at_revoked_at r \<noteq> None) \<and>
     (\<forall>i \<in> set (invitations s). pi_invitee_participant_id i = pid \<longrightarrow> pi_status i = INV_REVOKED))"

lemma cuts_row:
  assumes "cuts s s'" "access_inv s" "access_inv s'" "row pi_id i (invitations s) = Some v"
  shows "\<exists>v'. row pi_id i (invitations s') = Some v' \<and> invitation_evolves v v' \<and> (pi_status v = INV_REVOKED \<longrightarrow> pi_status v' = INV_REVOKED)"
proof -
  obtain v' where v': "v' \<in> set (invitations s')" "invitation_evolves v v'" "pi_status v = INV_REVOKED \<longrightarrow> pi_status v' = INV_REVOKED"
    using assms(1) row_mem[OF assms(4)] unfolding cuts_def by blast
  moreover have "row pi_id (pi_id v') (invitations s') = Some v'"
    using assms(3) v'(1) by (intro row_of_mem) (auto simp: access_inv_def invitations_inv_def)
  ultimately show ?thesis using row_key[OF assms(4)] by (auto simp: invitation_evolves_def)
qed

lemma severed_stays:
  assumes "cuts s s'" "severed s pid" "access_inv s'"
  shows "severed s' pid"
proof -
  have "at_revoked_at r' \<noteq> None" if r': "r' \<in> set (access_tokens s')" "at_participant_id r' = pid" for r'
  proof -
    obtain r where "r \<in> set (access_tokens s)" "link_evolves r r'" using cuts_links[OF assms(1) r'(1)] by blast
    then show ?thesis using assms(2) r'(2) unfolding severed_def link_evolves_def by simp
  qed
  moreover have "pi_status i' = INV_REVOKED" if i': "i' \<in> set (invitations s')" "pi_invitee_participant_id i' = pid" for i'
  proof -
    have "pi_id i' \<in> pi_id ` set (invitations s)" using assms(1) i'(1) unfolding cuts_def by (metis image_eqI list.set_map)
    then obtain i where i: "i \<in> set (invitations s)" "pi_id i = pi_id i'" by force
    then obtain j where j: "j \<in> set (invitations s')" "invitation_evolves i j" "pi_status i = INV_REVOKED \<longrightarrow> pi_status j = INV_REVOKED"
      using assms(1) unfolding cuts_def by blast
    have "j = i'" using invitation_eq[of s' j i'] assms(3) j(1,2) i'(1) i(2) by (simp add: access_inv_def invitation_evolves_def)
    then have "pi_invitee_participant_id i = pid" using j(2) i'(2) by (simp add: invitation_evolves_def)
    then have "pi_status i = INV_REVOKED" using assms(2) i(1) by (simp add: severed_def)
    then show ?thesis using j(3) \<open>j = i'\<close> by simp
  qed
  ultimately show ?thesis unfolding severed_def by blast
qed

lemma revoke_link_cuts:
  assumes "access_inv s" "row at_id l (access_tokens s) = Some link"
  shows "\<exists>s'. revoke_access_link l actor operation now s = Inr s' \<and> cuts s s' \<and> invitations s' = invitations s \<and>
    (\<forall>r \<in> set (access_tokens s'). at_id r = l \<longrightarrow> at_revoked_at r \<noteq> None)"
proof (cases "at_revoked_at link")
  case (Some d)
  have "r = link" if "r \<in> set (access_tokens s)" "at_id r = l" for r
    using assms that row_mem[OF assms(2)] row_key[OF assms(2)] unfolding access_inv_def tokens_inv_def by (metis distinct_map_eq)
  then show ?thesis using Some by (auto simp: revoke_access_link_def assms(2) cuts_refl)
next
  case None
  have d: "distinct (map at_id (access_tokens s))" using assms(1) by (simp add: access_inv_def tokens_inv_def)
  have lk: "link \<in> set (access_tokens s)" "at_id link = l" using row_mem[OF assms(2)] row_key[OF assms(2)] by auto
  have "at_participant_id link \<in> jp_id ` set (participants s)" using assms(1) lk(1) by (simp add: access_inv_def tokens_inv_def)
  then obtain p where p: "row jp_id (at_participant_id link) (participants s) = Some p"
    by (metis not_None_eq row_None_iff)
  let ?l = "link\<lparr>at_revoked_at := Some now\<rparr>"
  have mem: "x \<in> set (put_row at_id ?l (access_tokens s)) \<longleftrightarrow> x = ?l \<or> (x \<in> set (access_tokens s) \<and> at_id x \<noteq> l)" for x
    using mem_put_row_iff[OF lk(1), of at_id ?l] lk(2) by simp
  have "\<exists>r \<in> set (access_tokens s). link_evolves r r'" if "r' \<in> set (put_row at_id ?l (access_tokens s))" for r'
    using that lk(1) None unfolding mem by (auto simp: link_evolves_def intro: bexI[of _ link])
  then have "cuts s (put_token ?l s)"
    by (auto simp: cuts_def put_token_def invitation_evolves_def)
  then show ?thesis using None mem
    by (auto simp: revoke_access_link_def assms(2) p Let_def cuts_def add_audit_event_def uuid4_def revoke_workspace_memberships_def put_token_def)
qed

lemma end_invitation_cuts:
  assumes "access_inv s" "row pi_id i (invitations s) = Some v"
  shows "\<exists>s'. end_invitation i actor now s = Inr s' \<and> access_inv s' \<and> cuts s s' \<and> severed s' (pi_invitee_participant_id v)"
proof -
  let ?v = "v\<lparr>pi_status := INV_REVOKED, pi_resolved_at := Some now\<rparr>"
  let ?s1 = "put_invitation ?v s"
  have v: "v \<in> set (invitations s)" "pi_id v = i" using row_mem[OF assms(2)] row_key[OF assms(2)] by auto
  have s1: "access_inv ?s1"
    using steps_inv[OF answer_steps[OF assms(1) v(1) refl, of INV_REVOKED "Some now"] assms(1)] by simp
  have mem: "x \<in> set (put_row pi_id ?v (invitations s)) \<longleftrightarrow> x = ?v \<or> (x \<in> set (invitations s) \<and> pi_id x \<noteq> i)" for x
    using mem_put_row_iff[OF v(1), of pi_id ?v] v(2) by simp
  have "\<exists>x' \<in> set (put_row pi_id ?v (invitations s)). invitation_evolves x x' \<and> (pi_status x = INV_REVOKED \<longrightarrow> pi_status x' = INV_REVOKED)"
    if x: "x \<in> set (invitations s)" for x
  proof (cases "pi_id x = i")
    case True
    then have "x = v" using invitation_eq[of s x v] assms(1) x v by (simp add: access_inv_def)
    then show ?thesis by (intro bexI[of _ ?v]) (simp_all add: mem invitation_evolves_def)
  next
    case False
    then show ?thesis using x by (intro bexI[of _ x]) (simp_all add: mem invitation_evolves_def)
  qed
  then have c1: "cuts s ?s1" by (auto simp: cuts_def put_invitation_def link_evolves_def)
  obtain link where link: "link \<in> set (access_tokens s)" "at_id link = pi_access_link_id v"
    using invitation_facts(1)[OF assms(1) v(1)] unfolding invitation_sound_def by blast
  have "row at_id (at_id link) (access_tokens s) = Some link"
    using assms(1) link(1) by (intro row_of_mem) (simp_all add: access_inv_def tokens_inv_def)
  then have "row at_id (pi_access_link_id v) (access_tokens ?s1) = Some link" using link(2) by (simp add: put_invitation_def)
  then obtain s' where s': "revoke_access_link (pi_access_link_id v) actor None now ?s1 = Inr s'" "cuts ?s1 s'" "invitations s' = invitations ?s1"
    "\<forall>r \<in> set (access_tokens s'). at_id r = pi_access_link_id v \<longrightarrow> at_revoked_at r \<noteq> None"
    using revoke_link_cuts[OF s1] by blast
  have i': "access_inv s'" by (rule steps_inv[OF revoke_link_steps[OF s'(1) s1] s1])
  have vm: "?v \<in> set (invitations s')" unfolding s'(3) put_invitation_def using mem by simp
  have "at_revoked_at r \<noteq> None" if "r \<in> set (access_tokens s')" "at_participant_id r = pi_invitee_participant_id v" for r
    using invitation_facts(1)[OF i' vm] that s'(4) unfolding invitation_sound_def by fastforce
  moreover have "pi_status j = INV_REVOKED" if "j \<in> set (invitations s')" "pi_invitee_participant_id j = pi_invitee_participant_id v" for j
  proof -
    have "j = ?v" using invitation_eq[of s' j ?v] i' that vm by (simp add: access_inv_def)
    then show ?thesis by simp
  qed
  ultimately have "severed s' (pi_invitee_participant_id v)" by (simp add: severed_def)
  then show ?thesis using s'(1) i' cuts_trans[OF c1 s'(2)] by (simp add: end_invitation_def assms(2))
qed

lemma foldR_cuts:
  assumes "\<And>x s. access_inv s \<Longrightarrow> Q x s \<Longrightarrow> \<exists>s'. f x s = Inr s' \<and> access_inv s' \<and> cuts s s' \<and> R x s'"
    and "\<And>x s s'. cuts s s' \<Longrightarrow> access_inv s \<Longrightarrow> access_inv s' \<Longrightarrow> Q x s \<Longrightarrow> Q x s'"
    and "\<And>x s s'. cuts s s' \<Longrightarrow> access_inv s' \<Longrightarrow> R x s \<Longrightarrow> R x s'"
    and "access_inv s" "\<forall>x \<in> set xs. Q x s"
  shows "\<exists>s'. foldR f xs s = Inr s' \<and> access_inv s' \<and> cuts s s' \<and> (\<forall>x \<in> set xs. R x s')"
  using assms(4,5)
proof (induction xs arbitrary: s)
  case Nil
  then show ?case by (simp add: cuts_refl)
next
  case (Cons x xs)
  obtain t where t: "f x s = Inr t" "access_inv t" "cuts s t" "R x t" using assms(1)[of s x] Cons.prems by auto
  have "\<forall>y \<in> set xs. Q y t" using assms(2)[OF t(3) Cons.prems(1) t(2)] Cons.prems(2) by simp
  then obtain u where u: "foldR f xs t = Inr u" "access_inv u" "cuts t u" "\<forall>y \<in> set xs. R y u" using Cons.IH[OF t(2)] by blast
  show ?case using t(1) u assms(3)[OF u(3) u(2) t(4)] cuts_trans[OF t(3) u(3)] by (intro exI[of _ u]) simp
qed

text \<open>The participants an invitation of \<open>m\<close> has brought in.\<close>

definition delegates :: "db \<Rightarrow> uuid \<Rightarrow> uuid set" where
  "delegates s m = pi_invitee_participant_id ` {i \<in> set (invitations s). pi_issuer_participant_id i = m}"

lemma cuts_delegates:
  assumes "cuts s s'" "access_inv s'"
  shows "delegates s' m = delegates s m"
proof (intro set_eqI iffI)
  fix q assume "q \<in> delegates s m"
  then obtain i where i: "i \<in> set (invitations s)" "pi_issuer_participant_id i = m" "pi_invitee_participant_id i = q" unfolding delegates_def by blast
  then obtain i' where "i' \<in> set (invitations s')" "invitation_evolves i i'" using assms(1) unfolding cuts_def by blast
  then show "q \<in> delegates s' m" using i unfolding delegates_def by (intro image_eqI[of _ _ i']) (simp_all add: invitation_evolves_def)
next
  fix q assume "q \<in> delegates s' m"
  then obtain i' where i': "i' \<in> set (invitations s')" "pi_issuer_participant_id i' = m" "pi_invitee_participant_id i' = q" unfolding delegates_def by blast
  have "pi_id i' \<in> pi_id ` set (invitations s)" using assms(1) i'(1) unfolding cuts_def by (metis image_eqI list.set_map)
  then obtain i where i: "i \<in> set (invitations s)" "pi_id i = pi_id i'" by force
  then obtain j where j: "j \<in> set (invitations s')" "invitation_evolves i j" using assms(1) unfolding cuts_def by blast
  have "j = i'" using invitation_eq[of s' j i'] assms(2) j i'(1) i(2) by (simp add: access_inv_def invitation_evolves_def)
  then show "q \<in> delegates s m" using i(1) j(2) i' unfolding delegates_def by (intro image_eqI[of _ _ i]) (simp_all add: invitation_evolves_def)
qed

lemma participant_eq: "access_inv s \<Longrightarrow> p \<in> set (participants s) \<Longrightarrow> q \<in> set (participants s) \<Longrightarrow> jp_id p = jp_id q \<Longrightarrow> p = q"
  unfolding access_inv_def participants_inv_def by (meson distinct_map_eq)

lemma issuer_facts:
  assumes "access_inv s" "i \<in> set (invitations s)" "p \<in> set (participants s)" "jp_id p = pi_issuer_participant_id i"
  shows "jp_job_id p = pi_job_id i" "invitable_role (jp_role p) = Some (pi_role i)"
proof -
  obtain q :: JobParticipant where "q \<in> set (participants s)" "jp_id q = pi_issuer_participant_id i" "jp_job_id q = pi_job_id i" "invitable_role (jp_role q) = Some (pi_role i)"
    using invitation_facts(1)[OF assms(1,2)] unfolding invitation_sound_def by blast
  then show "jp_job_id p = pi_job_id i" "invitable_role (jp_role p) = Some (pi_role i)" using participant_eq[OF assms(1,3)] assms(4) by auto
qed

lemma invitee_participant:
  assumes "access_inv s" "i \<in> set (invitations s)"
  obtains p :: JobParticipant where "p \<in> set (participants s)" "jp_id p = pi_invitee_participant_id i" "jp_job_id p = pi_job_id i" "jp_role p = pi_role i"
  using invitation_facts(1)[OF assms] unfolding invitation_sound_def by blast

lemma issued_by_rows:
  assumes "access_inv s" "x \<in> set (issued_by job m s)"
  shows "\<exists>v. row pi_id x (invitations s) = Some v \<and> pi_issuer_participant_id v = m"
proof -
  obtain v where v: "v \<in> set (invitations s)" "pi_id v = x" "pi_issuer_participant_id v = m" using assms(2) unfolding issued_by_def by auto
  then show ?thesis using row_of_mem[of pi_id "invitations s" v] assms(1) by (auto simp: access_inv_def invitations_inv_def)
qed

lemma worker_tree_cuts:
  assumes "access_inv s" "row pi_id x (invitations s) = Some v" "pi_role v \<noteq> COMPANY_MANAGER"
  shows "\<exists>s'. revoke_invitation_tree (Suc d) actor now x s = Inr s' \<and> access_inv s' \<and> cuts s s' \<and> severed s' (pi_invitee_participant_id v)"
  using end_invitation_cuts[OF assms(1,2)] assms(2,3) by simp

lemma manager_tree_cuts:
  assumes "access_inv s" "row pi_id x (invitations s) = Some v" "pi_role v = COMPANY_MANAGER"
  shows "\<exists>s'. revoke_invitation_tree (Suc (Suc d)) actor now x s = Inr s' \<and> access_inv s' \<and> cuts s s' \<and>
    severed s' (pi_invitee_participant_id v) \<and> (\<forall>q \<in> delegates s (pi_invitee_participant_id v). severed s' q)"
proof -
  let ?m = "pi_invitee_participant_id v" and ?ids = "issued_by (pi_job_id v) (pi_invitee_participant_id v) s"
  obtain p where p: "p \<in> set (participants s)" "jp_id p = ?m" "jp_job_id p = pi_job_id v" "jp_role p = pi_role v"
    using invitee_participant[OF assms(1) row_mem[OF assms(2)]] .
  have issued: "pi_job_id w = pi_job_id v \<and> pi_role w = FIELD_WORKER" if "w \<in> set (invitations s)" "pi_issuer_participant_id w = ?m" for w
    using issuer_facts[OF assms(1) that(1) p(1)] that(2) p assms(3) by simp
  define g where "g y = pi_invitee_participant_id (the (row pi_id y (invitations s)))" for y
  have "\<exists>t. foldR (revoke_invitation_tree (Suc d) actor now) ?ids s = Inr t \<and> access_inv t \<and> cuts s t \<and> (\<forall>y \<in> set ?ids. severed t (g y))"
  proof (rule foldR_cuts[where Q = "\<lambda>y t. \<exists>w. row pi_id y (invitations t) = Some w \<and> pi_role w \<noteq> COMPANY_MANAGER \<and> pi_invitee_participant_id w = g y"])
    fix y t assume "access_inv t" "\<exists>w. row pi_id y (invitations t) = Some w \<and> pi_role w \<noteq> COMPANY_MANAGER \<and> pi_invitee_participant_id w = g y"
    then show "\<exists>u. revoke_invitation_tree (Suc d) actor now y t = Inr u \<and> access_inv u \<and> cuts t u \<and> severed u (g y)"
      using worker_tree_cuts by metis
  next
    fix y t u assume "cuts t u" "access_inv t" "access_inv u" "\<exists>w. row pi_id y (invitations t) = Some w \<and> pi_role w \<noteq> COMPANY_MANAGER \<and> pi_invitee_participant_id w = g y"
    then show "\<exists>w. row pi_id y (invitations u) = Some w \<and> pi_role w \<noteq> COMPANY_MANAGER \<and> pi_invitee_participant_id w = g y"
      using cuts_row unfolding invitation_evolves_def by metis
  next
    show "\<forall>y \<in> set ?ids. \<exists>w. row pi_id y (invitations s) = Some w \<and> pi_role w \<noteq> COMPANY_MANAGER \<and> pi_invitee_participant_id w = g y"
      using issued_by_rows[OF assms(1)] issued row_mem unfolding g_def by fastforce
  qed (use assms(1) severed_stays in auto)
  then obtain t where t: "foldR (revoke_invitation_tree (Suc d) actor now) ?ids s = Inr t" "access_inv t" "cuts s t" "\<forall>y \<in> set ?ids. severed t (g y)" by blast
  obtain v' where v': "row pi_id x (invitations t) = Some v'" "invitation_evolves v v'" using cuts_row[OF t(3) assms(1) t(2) assms(2)] by blast
  obtain u where u: "end_invitation x actor now t = Inr u" "access_inv u" "cuts t u" "severed u (pi_invitee_participant_id v')"
    using end_invitation_cuts[OF t(2) v'(1)] by blast
  have "severed u q" if q: "q \<in> delegates s ?m" for q
  proof -
    obtain w where w: "w \<in> set (invitations s)" "pi_issuer_participant_id w = ?m" "pi_invitee_participant_id w = q" using q unfolding delegates_def by blast
    have "pi_id w \<in> set ?ids" using w issued[OF w(1,2)] unfolding issued_by_def by force
    moreover have "g (pi_id w) = q" using row_of_mem[of pi_id "invitations s" w] assms(1) w by (simp add: g_def access_inv_def invitations_inv_def)
    ultimately show ?thesis using t(4) severed_stays[OF u(3) _ u(2)] by metis
  qed
  moreover have "pi_invitee_participant_id v' = ?m" using v'(2) by (simp add: invitation_evolves_def)
  ultimately show ?thesis using t(1) u cuts_trans[OF t(3) u(3)] assms(2,3) by simp
qed

lemma tree_cuts:
  assumes "access_inv s" "row pi_id x (invitations s) = Some v"
  shows "\<exists>s'. revoke_invitation_tree TREE_DEPTH actor now x s = Inr s' \<and> access_inv s' \<and> cuts s s' \<and>
    severed s' (pi_invitee_participant_id v) \<and> (\<forall>q \<in> delegates s (pi_invitee_participant_id v). severed s' q)"
proof (cases "pi_role v = COMPANY_MANAGER")
  case True
  then show ?thesis using manager_tree_cuts[OF assms] by (simp add: TREE_DEPTH_def numeral_2_eq_2)
next
  case False
  then have "pi_role v = FIELD_WORKER" using invitation_facts(2)[OF assms(1) row_mem[OF assms(2)]] by (auto simp: invitation_check_def)
  then have "delegates s (pi_invitee_participant_id v) = {}"
    using invitee_participant[OF assms(1) row_mem[OF assms(2)]] issuer_facts(2)[OF assms(1)] unfolding delegates_def
    by (metis (mono_tags, lifting) empty_Collect_eq image_is_empty invitable_role.simps(3) option.distinct(1))
  then show ?thesis using worker_tree_cuts[OF assms False] by (simp add: TREE_DEPTH_def numeral_2_eq_2)
qed

lemma delegate_chain:
  assumes "access_inv s" "p \<in> set (participants s)" "m \<in> delegates s (jp_id p)" "q \<in> delegates s m"
  shows "jp_role p = CUSTOMER"
proof -
  obtain a b where ab: "a \<in> set (invitations s)" "pi_issuer_participant_id a = jp_id p" "pi_invitee_participant_id a = m"
      "b \<in> set (invitations s)" "pi_issuer_participant_id b = m"
    using assms(3,4) unfolding delegates_def by blast
  have "invitable_role (jp_role p) = Some (pi_role a)" "invitable_role (pi_role a) = Some (pi_role b)"
    using issuer_facts(2)[OF assms(1)] invitee_participant[OF assms(1)] ab assms(2) by metis+
  then show ?thesis by (cases "pi_role a"; cases "jp_role p") auto
qed

lemma issued_tree_cuts:
  assumes "access_inv s" "p \<in> set (participants s)"
  shows "\<exists>t. revoke_invitations_issued_by (jp_job_id p) (jp_id p) actor now s = Inr t \<and> access_inv t \<and> cuts s t \<and>
    (\<forall>m \<in> delegates s (jp_id p). severed t m \<and> (\<forall>q \<in> delegates s m. severed t q))"
proof -
  let ?ids = "issued_by (jp_job_id p) (jp_id p) s"
  define g where "g y = pi_invitee_participant_id (the (row pi_id y (invitations s)))" for y
  have "\<exists>t. foldR (revoke_invitation_tree TREE_DEPTH actor now) ?ids s = Inr t \<and> access_inv t \<and> cuts s t \<and>
    (\<forall>y \<in> set ?ids. severed t (g y) \<and> (\<forall>q \<in> delegates s (g y). severed t q))"
  proof (rule foldR_cuts[where Q = "\<lambda>y t. (\<exists>w. row pi_id y (invitations t) = Some w \<and> pi_invitee_participant_id w = g y) \<and> delegates t (g y) = delegates s (g y)"])
    fix y t assume h: "access_inv t" "(\<exists>w. row pi_id y (invitations t) = Some w \<and> pi_invitee_participant_id w = g y) \<and> delegates t (g y) = delegates s (g y)"
    then obtain w where w: "row pi_id y (invitations t) = Some w" "pi_invitee_participant_id w = g y" by blast
    show "\<exists>u. revoke_invitation_tree TREE_DEPTH actor now y t = Inr u \<and> access_inv u \<and> cuts t u \<and>
        severed u (g y) \<and> (\<forall>q \<in> delegates s (g y). severed u q)"
      using tree_cuts[OF h(1) w(1), of actor now] h(2) w(2) by simp
  next
    fix y t u assume h: "cuts t u" "access_inv t" "access_inv u"
      "(\<exists>w. row pi_id y (invitations t) = Some w \<and> pi_invitee_participant_id w = g y) \<and> delegates t (g y) = delegates s (g y)"
    then obtain w where w: "row pi_id y (invitations t) = Some w" "pi_invitee_participant_id w = g y" by blast
    show "(\<exists>w. row pi_id y (invitations u) = Some w \<and> pi_invitee_participant_id w = g y) \<and> delegates u (g y) = delegates s (g y)"
      using cuts_row[OF h(1-3) w(1)] cuts_delegates[OF h(1,3)] h(4) w(2) by (auto simp: invitation_evolves_def)
  next
    show "\<forall>y \<in> set ?ids. (\<exists>w. row pi_id y (invitations s) = Some w \<and> pi_invitee_participant_id w = g y) \<and> delegates s (g y) = delegates s (g y)"
      using issued_by_rows[OF assms(1)] unfolding g_def by fastforce
  qed (use assms(1) severed_stays in auto)
  then obtain t where t: "foldR (revoke_invitation_tree TREE_DEPTH actor now) ?ids s = Inr t" "access_inv t" "cuts s t"
    "\<forall>y \<in> set ?ids. severed t (g y) \<and> (\<forall>q \<in> delegates s (g y). severed t q)" by blast
  have "severed t m \<and> (\<forall>q \<in> delegates s m. severed t q)" if m: "m \<in> delegates s (jp_id p)" for m
  proof -
    obtain w where w: "w \<in> set (invitations s)" "pi_issuer_participant_id w = jp_id p" "pi_invitee_participant_id w = m" using m unfolding delegates_def by blast
    have "pi_id w \<in> set ?ids" using w issuer_facts(1)[OF assms(1) w(1) assms(2)] unfolding issued_by_def by force
    moreover have "g (pi_id w) = m" using row_of_mem[of pi_id "invitations s" w] assms(1) w by (simp add: g_def access_inv_def invitations_inv_def)
    ultimately show ?thesis using t(4) by metis
  qed
  then show ?thesis using t(1-3) unfolding revoke_invitations_issued_by_def by blast
qed

lemma link_tree_ends:
  assumes "access_inv s" "row at_id l (access_tokens s) = Some link"
  shows "\<exists>s'. revoke_access_link_tree l actor now s = Inr s' \<and> (\<forall>r \<in> set (access_tokens s'). at_id r = l \<longrightarrow> at_revoked_at r \<noteq> None) \<and>
    (\<forall>m \<in> delegates s (at_participant_id link). severed s' m \<and> (\<forall>q \<in> delegates s m. severed s' q))"
proof -
  let ?p = "at_participant_id link"
  have "?p \<in> jp_id ` set (participants s)" using assms(1) row_mem[OF assms(2)] by (simp add: access_inv_def tokens_inv_def)
  then obtain p where p: "row jp_id ?p (participants s) = Some p" by (metis not_None_eq row_None_iff)
  have pp: "p \<in> set (participants s)" "jp_id p = ?p" using row_mem[OF p] row_key[OF p] by auto
  show ?thesis
  proof (cases "invitation_of_link l s")
    case None
    obtain t where t: "revoke_invitations_issued_by (jp_job_id p) (jp_id p) actor now s = Inr t" "access_inv t" "cuts s t"
      "\<forall>m \<in> delegates s ?p. severed t m \<and> (\<forall>q \<in> delegates s m. severed t q)"
      using issued_tree_cuts[OF assms(1) pp(1)] unfolding pp(2) by blast
    have "at_id ` set (access_tokens t) = at_id ` set (access_tokens s)" using t(3) unfolding cuts_def by (metis list.set_map)
    then have "l \<in> at_id ` set (access_tokens t)" using row_mem[OF assms(2)] row_key[OF assms(2)] by blast
    then obtain lt where "row at_id l (access_tokens t) = Some lt" by (metis not_None_eq row_None_iff)
    then obtain u where u: "revoke_access_link l actor None now t = Inr u" "cuts t u" "\<forall>r \<in> set (access_tokens u). at_id r = l \<longrightarrow> at_revoked_at r \<noteq> None"
      using revoke_link_cuts[OF t(2)] by blast
    have "access_inv u" by (rule steps_inv[OF revoke_link_steps[OF u(1) t(2)] t(2)])
    then show ?thesis using t(1,4) u severed_stays[OF u(2)] pp by (simp add: revoke_access_link_tree_def assms(2) None p)
  next
    case (Some i)
    have i: "i \<in> set (invitations s)" "pi_access_link_id i = l" using Some find_mem unfolding invitation_of_link_def by fastforce+
    obtain r where r: "r \<in> set (access_tokens s)" "at_id r = l" "at_participant_id r = pi_invitee_participant_id i"
      using invitation_facts(1)[OF assms(1) i(1)] i(2) unfolding invitation_sound_def by blast
    have d: "distinct (map at_id (access_tokens s))" using assms(1) by (simp add: access_inv_def tokens_inv_def)
    have one: "x = link" if "x \<in> set (access_tokens s)" "at_id x = l" for x
      using distinct_map_eq[OF d that(1) row_mem[OF assms(2)]] that(2) row_key[OF assms(2)] by simp
    have ip: "pi_invitee_participant_id i = ?p" using one[OF r(1,2)] r(3) by simp
    have "row pi_id (pi_id i) (invitations s) = Some i" using i(1) assms(1) by (intro row_of_mem) (simp_all add: access_inv_def invitations_inv_def)
    then obtain u where u: "revoke_invitation_tree TREE_DEPTH actor now (pi_id i) s = Inr u" "access_inv u" "cuts s u" "severed u ?p"
        "\<forall>q \<in> delegates s ?p. severed u q"
      using tree_cuts[OF assms(1)] ip by metis
    obtain p' where p': "p' \<in> set (participants s)" "jp_id p' = pi_invitee_participant_id i" "jp_role p' = pi_role i"
      using invitee_participant[OF assms(1) i(1)] .
    have "jp_role p \<noteq> CUSTOMER" using participant_eq[OF assms(1) p'(1) pp(1)] p' ip pp(2) invitation_facts(2)[OF assms(1) i(1)]
      by (auto simp: invitation_check_def)
    then have "x \<notin> delegates s m" if "m \<in> delegates s ?p" for m x using delegate_chain[OF assms(1) pp(1), of m x] that pp(2) by auto
    moreover have "at_revoked_at x \<noteq> None" if x: "x \<in> set (access_tokens u)" "at_id x = l" for x
    proof -
      obtain y where "y \<in> set (access_tokens s)" "link_evolves y x" using cuts_links[OF u(3) x(1)] by blast
      then have "at_participant_id x = ?p" using one[of y] x(2) by (simp add: link_evolves_def)
      then show ?thesis using u(4) x(1) by (simp add: severed_def)
    qed
    ultimately show ?thesis using u by (auto simp: revoke_access_link_tree_def assms(2) Some)
  qed
qed

text \<open>Property C19: revoking a link ends, and cuts off everyone its participant has brought in, directly or
  through an invited manager: afterwards the link itself is revoked, and every participant down the chain of
  invitations has no unrevoked link and a revoked invitation.\<close>

theorem revocation_cuts_delegates:
  assumes "access_inv s" "row at_id l (access_tokens s) = Some link"
  shows "\<exists>s'. revoke_access_link_tree l actor now s = Inr s' \<and>
    (\<forall>r \<in> set (access_tokens s'). at_id r = l \<longrightarrow> at_revoked_at r \<noteq> None) \<and>
    (\<forall>q. (\<lambda>m q. q \<in> delegates s m)\<^sup>+\<^sup>+ (at_participant_id link) q \<longrightarrow>
       (\<forall>r \<in> set (access_tokens s'). at_participant_id r = q \<longrightarrow> at_revoked_at r \<noteq> None) \<and>
       (\<forall>i \<in> set (invitations s'). pi_invitee_participant_id i = q \<longrightarrow> pi_status i = INV_REVOKED))"
proof -
  let ?p = "at_participant_id link"
  have "?p \<in> jp_id ` set (participants s)" using assms(1) row_mem[OF assms(2)] by (simp add: access_inv_def tokens_inv_def)
  then obtain p where p: "row jp_id ?p (participants s) = Some p" by (metis not_None_eq row_None_iff)
  have pp: "p \<in> set (participants s)" "jp_id p = ?p" using row_mem[OF p] row_key[OF p] by auto
  have chain: "q \<in> delegates s ?p \<or> (\<exists>m \<in> delegates s ?p. q \<in> delegates s m)" if "(\<lambda>m q. q \<in> delegates s m)\<^sup>+\<^sup>+ ?p q" for q
    using that
  proof (induction rule: tranclp_induct)
    case (step y z)
    show ?case
    proof (cases "y \<in> delegates s ?p")
      case False
      then obtain m where m: "m \<in> delegates s ?p" "y \<in> delegates s m" using step.IH by blast
      obtain a b c where abc: "a \<in> set (invitations s)" "pi_issuer_participant_id a = ?p" "pi_invitee_participant_id a = m"
          "b \<in> set (invitations s)" "pi_issuer_participant_id b = m" "pi_invitee_participant_id b = y"
          "c \<in> set (invitations s)" "pi_issuer_participant_id c = y"
        using m step.hyps(2) unfolding delegates_def by blast
      have "invitable_role (pi_role a) = Some (pi_role b)" "invitable_role (pi_role b) = Some (pi_role c)" "invitable_role (jp_role p) = Some (pi_role a)"
        using issuer_facts(2)[OF assms(1)] invitee_participant[OF assms(1)] abc pp by metis+
      then show ?thesis by (cases "pi_role a"; cases "pi_role b"; cases "jp_role p") auto
    qed (use step.hyps(2) in blast)
  qed blast
  show ?thesis using link_tree_ends[OF assms, of actor now] chain unfolding severed_def by metis
qed

section \<open>The rate limit\<close>

text \<open>Requests with one secret at the given times, a refused one rolled back: how many are let in, and the
  state they leave.\<close>

fun attempts :: "string \<Rightarrow> int \<Rightarrow> int \<Rightarrow> bool \<Rightarrow> instant list \<Rightarrow> db \<Rightarrow> nat \<times> db" where
  "attempts secret limit window pending [] s = (0, s)"
| "attempts secret limit window pending (t # ts) s =
     (case authenticate_access_token secret None limit window pending None t s of
        Inl e \<Rightarrow> attempts secret limit window pending ts s
      | Inr (a, s') \<Rightarrow> (case attempts secret limit window pending ts s' of (n, s'') \<Rightarrow> (Suc n, s'')))"

text \<open>A link that would let its bearer in at a time, the limit apart, within a window that began at \<open>t0\<close>.\<close>

definition admissible :: "string \<Rightarrow> ParticipantAccessToken \<Rightarrow> bool \<Rightarrow> int \<Rightarrow> instant \<Rightarrow> instant \<Rightarrow> db \<Rightarrow> bool" where
  "admissible secret link pending window t0 t s = (access_secret_pattern secret \<and> link \<in> set (access_tokens s) \<and>
     at_token_hash link = sha256_hex s secret \<and> at_revoked_at link = None \<and> t < at_expires_at link \<and>
     \<not> invitation_bars t pending (invitation_of_link (at_id link) s) \<and>
     at_rate_window_started_at link = Some t0 \<and> t < t0 + seconds window)"

lemma participant_actor_returns:
  "\<exists>a s'. participant_actor p None s = Inr (a, s') \<and> participants s' = participants s \<and> access_tokens s' = access_tokens s \<and>
     invitations s' = invitations s \<and> sha256_hex s' = sha256_hex s"
  by (simp add: participant_actor_def uuid4_def token_hex16_def mk_actor_context_def Let_def actor_context_ok_def)

lemma attempt_spec:
  assumes inv: "access_inv s" and ok: "admissible secret link pending window t0 t s"
  shows "at_rate_window_count link < limit \<Longrightarrow> \<exists>a s'. authenticate_access_token secret None limit window pending None t s = Inr (a, s') \<and>
      access_inv s' \<and> link\<lparr>at_rate_window_count := at_rate_window_count link + 1, at_last_used_at := Some t\<rparr> \<in> set (access_tokens s') \<and>
      invitations s' = invitations s \<and> sha256_hex s' = sha256_hex s"
    "limit \<le> at_rate_window_count link \<Longrightarrow> authenticate_access_token secret None limit window pending None t s =
      Inl (AccessRateLimitExceededError (max 1 (ceil_seconds (t0 + seconds window - t))))"
proof -
  note l = ok[unfolded admissible_def]
  have d: "distinct (map at_token_hash (access_tokens s))" "distinct (map at_id (access_tokens s))" using inv by (simp_all add: access_inv_def tokens_inv_def)
  have f: "find (\<lambda>r. at_token_hash r = sha256_hex s secret) (access_tokens s) = Some link"
    using l distinct_map_eq[OF d(1)] by (intro find_unique) auto
  have g: "find (\<lambda>r. at_id r = at_id link \<and> at_token_hash r = at_token_hash link \<and> at_revoked_at r = None \<and> t < at_expires_at r) (access_tokens s) = Some link"
    using l distinct_map_eq[OF d(2)] by (intro find_unique) auto
  have "at_participant_id link \<in> jp_id ` set (participants s)" using inv l by (simp add: access_inv_def tokens_inv_def)
  then obtain p where p: "row jp_id (at_participant_id link) (participants s) = Some p" by (metis not_None_eq row_None_iff)
  let ?r = "link\<lparr>at_rate_window_count := at_rate_window_count link + 1\<rparr>"
  have c: "count_request t window link = ?r" using l by (simp add: count_request_def)
  have inc: "increment_database_rate_window (at_id link) (at_token_hash link) t window s = Inr ((at_rate_window_count link + 1, t0), put_token ?r s)"
    unfolding increment_database_rate_window_def g option.case c Let_def using l by simp
  have e: "enforce_access_rate_limit link None t limit window s =
      (if limit < at_rate_window_count link + 1 then Inl (AccessRateLimitExceededError (max 1 (ceil_seconds (t0 + seconds window - t)))) else Inr (put_token ?r s))"
    using inc by (simp add: enforce_access_rate_limit_def)
  let ?i = "invitation_of_link (at_id link) s"
  have auth: "authenticate_access_token secret None limit window pending None t s =
      (if limit < at_rate_window_count link + 1 then Inl (AccessRateLimitExceededError (max 1 (ceil_seconds (t0 + seconds window - t))))
       else participant_actor p None (record_use link p ?i t (put_token ?r s)))"
    using l by (simp add: authenticate_access_token_def f p e)
  show "authenticate_access_token secret None limit window pending None t s =
      Inl (AccessRateLimitExceededError (max 1 (ceil_seconds (t0 + seconds window - t))))" if "limit \<le> at_rate_window_count link"
    using auth that by simp
  show "\<exists>a s'. authenticate_access_token secret None limit window pending None t s = Inr (a, s') \<and>
      access_inv s' \<and> link\<lparr>at_rate_window_count := at_rate_window_count link + 1, at_last_used_at := Some t\<rparr> \<in> set (access_tokens s') \<and>
      invitations s' = invitations s \<and> sha256_hex s' = sha256_hex s" if "at_rate_window_count link < limit"
  proof -
    let ?u = "record_use link p ?i t (put_token ?r s)"
    have lk: "link \<in> set (access_tokens s)" using l by simp
    obtain a s' where a: "participant_actor p None ?u = Inr (a, s')" "access_tokens s' = access_tokens ?u" "invitations s' = invitations ?u" "sha256_hex s' = sha256_hex ?u"
      using participant_actor_returns[of p ?u] by blast
    have auth': "authenticate_access_token secret None limit window pending None t s = Inr (a, s')" using auth that a(1) by simp
    have rm: "?r \<in> set (put_row at_id ?r (access_tokens s))" using mem_put_row_iff[OF lk, of at_id ?r] by simp
    have dr: "distinct (map at_id (put_row at_id ?r (access_tokens s)))" using d(2) by simp
    have rw: "row at_id (at_id link) (access_tokens (put_token ?r s)) = Some ?r"
      using row_of_mem[OF dr rm] by (simp add: put_token_def)
    have tk: "access_tokens ?u = put_row at_id (?r\<lparr>at_last_used_at := Some t\<rparr>) (put_row at_id ?r (access_tokens s))"
      "invitations ?u = invitations s" "sha256_hex ?u = sha256_hex s"
      unfolding record_use_def rw by (simp_all add: Let_def put_token_def add_audit_event_def uuid4_def)
    have "?r\<lparr>at_last_used_at := Some t\<rparr> \<in> set (access_tokens s')"
      unfolding a(2) tk(1) using mem_put_row_iff[OF rm, of at_id "?r\<lparr>at_last_used_at := Some t\<rparr>"] by simp
    then show ?thesis using auth' authenticate_steps[OF auth' inv] steps_inv[OF _ inv] a tk by auto
  qed
qed

text \<open>The rate limit is exact. Within one window, however many requests are made with a good secret
  and whenever, exactly the rest of the limit is let in; and once the limit is reached, the answer tells how many
  whole seconds to wait, at least one, after which the window is over.\<close>

theorem window_budget:
  assumes "access_inv s" "\<forall>t \<in> set ts. admissible secret link pending window t0 t s" "at_rate_window_count link \<le> limit"
  shows "fst (attempts secret limit window pending ts s) = min (length ts) (nat (limit - at_rate_window_count link)) \<and>
    (\<forall>t \<in> set ts. at_rate_window_count link = limit \<longrightarrow>
       (\<exists>n \<ge> 1. authenticate_access_token secret None limit window pending None t s = Inl (AccessRateLimitExceededError n) \<and>
          t0 + seconds window \<le> t + seconds n))"
proof
  show "fst (attempts secret limit window pending ts s) = min (length ts) (nat (limit - at_rate_window_count link))"
    using assms
  proof (induction ts arbitrary: s link)
    case (Cons t ts)
    show ?case
    proof (cases "at_rate_window_count link < limit")
      case True
      let ?l = "link\<lparr>at_rate_window_count := at_rate_window_count link + 1, at_last_used_at := Some t\<rparr>"
      obtain a s' where a: "authenticate_access_token secret None limit window pending None t s = Inr (a, s')" "access_inv s'"
          "?l \<in> set (access_tokens s')" "invitations s' = invitations s" "sha256_hex s' = sha256_hex s"
        using attempt_spec(1)[OF Cons.prems(1) _ True, of secret pending window t0 t] Cons.prems(2) by auto
      have "\<forall>u \<in> set ts. admissible secret ?l pending window t0 u s'"
        using Cons.prems(2) a(3-5) by (simp add: admissible_def invitation_of_link_def)
      then have "fst (attempts secret limit window pending ts s') = min (length ts) (nat (limit - (at_rate_window_count link + 1)))"
        using Cons.IH[OF a(2), of ?l] True by simp
      then show ?thesis using a(1) True by (auto split: prod.splits)
    next
      case False
      then have "authenticate_access_token secret None limit window pending None t s =
          Inl (AccessRateLimitExceededError (max 1 (ceil_seconds (t0 + seconds window - t))))"
        using attempt_spec(2)[OF Cons.prems(1), of secret link pending window t0 t limit] Cons.prems(2) by simp
      then show ?thesis using Cons.IH[OF Cons.prems(1), of link] Cons.prems(2,3) False by simp
    qed
  qed simp
  have "d \<le> seconds (max 1 (ceil_seconds d))" for d
  proof -
    have "d \<le> seconds (ceil_seconds d)" unfolding ceil_seconds_def seconds_def by (simp add: algebra_simps minus_div_mult_eq_mod)
    then show ?thesis by (smt (verit) max_def seconds_mono(2))
  qed
  then show "\<forall>t \<in> set ts. at_rate_window_count link = limit \<longrightarrow>
       (\<exists>n \<ge> 1. authenticate_access_token secret None limit window pending None t s = Inl (AccessRateLimitExceededError n) \<and>
          t0 + seconds window \<le> t + seconds n)"
    using attempt_spec(2)[OF assms(1)] assms(2) by (metis add.commute diff_le_eq max.cobounded1 order_refl)
qed

section \<open>A sample job\<close>

text \<open>A job with a customer, a manager the customer invited and a worker the manager invited, each with a live
  link; an earlier link of the customer, revoked; and a workspace session of the customer. A digest is the padded secret.\<close>

definition sample_digest :: "string \<Rightarrow> string" where
  "sample_digest t = take 64 (t @ replicate 64 CHR ''0'')"

definition sample_member :: "uuid \<Rightarrow> ParticipantRole \<Rightarrow> JobParticipant" where
  "sample_member i role = \<lparr>jp_id = i, jp_job_id = 9, jp_role = role, jp_display_name = ''Kim'', jp_created_at = 0\<rparr>"

definition sample_link :: "uuid \<Rightarrow> uuid \<Rightarrow> char \<Rightarrow> ParticipantAccessToken" where
  "sample_link i p c = \<lparr>at_id = i, at_participant_id = p, at_token_hash = sample_digest (replicate 43 c), at_expires_at = days 7,
     at_revoked_at = None, at_last_used_at = Some 10, at_rate_window_started_at = Some 10, at_rate_window_count = 2, at_created_at = 0\<rparr>"

definition sample_invitation :: "uuid \<Rightarrow> uuid \<Rightarrow> uuid \<Rightarrow> uuid \<Rightarrow> ParticipantRole \<Rightarrow> ParticipantInvitation" where
  "sample_invitation i issuer invitee link role = \<lparr>pi_id = i, pi_job_id = 9, pi_issuer_participant_id = issuer, pi_invitee_participant_id = invitee,
     pi_access_link_id = link, pi_role = role, pi_status = INV_ACCEPTED, pi_expires_at = days 7, pi_issued_at = 0,
     pi_resolved_at = Some 5, pi_created_at = 0\<rparr>"

definition sample_access :: db where
  "sample_access = (empty_db id sample_digest)\<lparr>drawn := 20,
     participants := [sample_member 1 CUSTOMER, sample_member 2 COMPANY_MANAGER, sample_member 3 FIELD_WORKER],
     access_tokens := [(sample_link 10 1 CHR ''z'')\<lparr>at_revoked_at := Some 8\<rparr>, sample_link 11 1 CHR ''a'', sample_link 12 2 CHR ''b'', sample_link 13 3 CHR ''c''],
     invitations := [sample_invitation 14 1 2 12 COMPANY_MANAGER, sample_invitation 15 2 3 13 FIELD_WORKER],
     workspace_accounts := [\<lparr>wa_id = 16, wa_role = CUSTOMER, wa_display_name = ''Kim'', wa_created_at = 0\<rparr>],
     workspace_memberships := [\<lparr>wm_id = 17, wm_account_id = 16, wm_participant_id = 1, wm_joined_at = 0, wm_revoked_at = None\<rparr>],
     workspace_sessions := [\<lparr>ws_id = 18, ws_account_id = 16, ws_token_hash = sample_digest (replicate 43 CHR ''d''),
       ws_csrf_token = replicate 43 CHR ''e'', ws_expires_at = days 30, ws_revoked_at = None, ws_last_used_at = None, ws_created_at = 0\<rparr>]\<rparr>"

lemma sample_digest_facts: "length (sample_digest t) = 64" "sample_digest (replicate 43 c) = sample_digest (replicate 43 d) \<longleftrightarrow> c = d"
  by (auto simp: sample_digest_def)

lemmas sample_access_defs = sample_access_def sample_member_def sample_link_def sample_invitation_def empty_db_def days_def seconds_def

lemma sample_access_inv: "access_inv sample_access"
proof -
  have d: "drawn_ids sample_access = {..<20}" by (simp add: drawn_ids_def sample_access_defs)
  have "fresh_supply sample_access" by (simp add: fresh_supply_def sample_access_defs)
  moreover have "participants_inv sample_access" by (simp add: participants_inv_def d) (simp add: sample_access_defs)
  moreover have "tokens_inv sample_access"
    by (simp add: tokens_inv_def d) (simp add: sample_access_defs sample_digest_facts access_token_check_def)
  moreover have "invitations_inv sample_access"
    by (simp add: invitations_inv_def invitation_sound_def d) (simp add: sample_access_defs invitation_check_def)
  moreover have "workspace_inv sample_access"
    by (simp add: workspace_inv_def d) (simp add: sample_access_defs sample_digest_facts workspace_session_check_def)
  ultimately show ?thesis by (simp add: access_inv_def)
qed

lemma sample_link_row: "row at_id 11 (access_tokens sample_access) = Some (sample_link 11 1 CHR ''a'')"
  by (simp add: sample_access_def sample_link_def row_def)

lemma revocation_cuts_delegates_witness:
  "\<exists>s'. revoke_access_link_tree 11 1 500 sample_access = Inr s' \<and>
     (\<forall>r \<in> set (access_tokens s'). at_participant_id r \<in> {2, 3} \<longrightarrow> at_revoked_at r \<noteq> None)"
proof -
  have d: "2 \<in> delegates sample_access 1" "3 \<in> delegates sample_access 2" unfolding delegates_def
    by (intro image_eqI[of _ _ "sample_invitation 14 1 2 12 COMPANY_MANAGER"] image_eqI[of _ _ "sample_invitation 15 2 3 13 FIELD_WORKER"];
        simp add: sample_access_def sample_invitation_def)+
  have "(\<lambda>m q. q \<in> delegates sample_access m)\<^sup>+\<^sup>+ 1 2" "(\<lambda>m q. q \<in> delegates sample_access m)\<^sup>+\<^sup>+ 1 3"
    using d by (auto intro: tranclp.r_into_trancl tranclp.trancl_into_trancl)
  moreover have "at_participant_id (sample_link 11 1 CHR ''a'') = 1" by (simp add: sample_link_def)
  ultimately show ?thesis
    using revocation_cuts_delegates[OF sample_access_inv sample_link_row, of 1 500] by (metis empty_iff insertE)
qed

lemma access_rows_wellformed_witness:
  "\<exists>s'. revoke_access_link_tree 11 1 500 sample_access = Inr s' \<and> distinct (map at_token_hash (access_tokens s')) \<and>
     (\<exists>r' \<in> set (access_tokens s'). at_id r' = 10 \<and> at_revoked_at r' = Some 8)"
proof -
  obtain s' where s': "revoke_access_link_tree 11 1 500 sample_access = Inr s'"
    using link_tree_ends[OF sample_access_inv sample_link_row] by blast
  then have "access_op\<^sup>*\<^sup>* sample_access s'" by (intro r_into_rtranclp aop_revoke_link)
  note w = access_rows_wellformed[OF sample_access_inv this]
  have "(sample_link 10 1 CHR ''z'')\<lparr>at_revoked_at := Some 8\<rparr> \<in> set (access_tokens sample_access)" by (simp add: sample_access_def)
  then obtain r' where "r' \<in> set (access_tokens s')" "at_id r' = 10" "at_revoked_at r' = Some 8"
    using w by (fastforce simp: sample_link_def)
  then show ?thesis using s' w by blast
qed

lemma sample_admissible:
  "t < 10 + seconds 60 \<Longrightarrow> admissible (replicate 43 CHR ''a'') (sample_link 11 1 CHR ''a'') False 60 10 t sample_access"
  by (auto simp: admissible_def access_secret_pattern_def url_safe_char_def is_lower_def in_range_def list_all_iff sample_access_defs invitation_of_link_def invitation_bars_def)

lemma revoked_link_is_dead_witness:
  "\<exists>a s' (link :: ParticipantAccessToken). authenticate_access_token (replicate 43 CHR ''a'') None 4 60 False None 20 sample_access = Inr (a, s') \<and>
     at_id link \<noteq> 10 \<and> at_revoked_at link = None \<and> ac_participant_id a = Some (at_participant_id link)"
proof -
  let ?r = "(sample_link 10 1 CHR ''z'')\<lparr>at_revoked_at := Some 8\<rparr>"
  have r: "?r \<in> set (access_tokens sample_access)" "at_revoked_at ?r \<noteq> None" "at_id ?r = 10" by (simp_all add: sample_access_def sample_link_def)
  have c: "at_rate_window_count (sample_link 11 1 CHR ''a'') < 4" by (simp add: sample_link_def)
  obtain a s' where auth: "authenticate_access_token (replicate 43 CHR ''a'') None 4 60 False None 20 sample_access = Inr (a, s')"
    using attempt_spec(1)[OF sample_access_inv sample_admissible c, of 20] by (auto simp: seconds_def)
  obtain link :: ParticipantAccessToken where l: "at_id link \<noteq> at_id ?r" "at_revoked_at link = None" "ac_participant_id a = Some (at_participant_id link)"
    using revoked_link_is_dead[OF sample_access_inv r(1,2) rtranclp.rtrancl_refl auth] by blast
  then show ?thesis using auth l(1)[unfolded r(3)] by blast
qed

lemma window_budget_witness:
  "fst (attempts (replicate 43 CHR ''a'') 4 60 False [20, 21, 22] sample_access) = 2"
proof -
  let ?l = "sample_link 11 1 CHR ''a''"
  have "\<forall>t \<in> set [20, 21, 22]. admissible (replicate 43 CHR ''a'') ?l False 60 10 t sample_access"
    using sample_admissible by (simp add: seconds_def)
  moreover have "at_rate_window_count ?l = 2" by (simp add: sample_link_def)
  ultimately show ?thesis using window_budget[OF sample_access_inv, of "[20, 21, 22]" _ ?l False 60 10 4] by simp
qed

end
