(* ===== verification/WorkspaceSafety.thy ===== *)
theory WorkspaceSafety
  imports AccessSafety
begin

text \<open>
  The properties of workspace sessions and of the shared connection code.
\<close>

section \<open>A session shows what has been proven to its browser\<close>

lemma issue_session_eq:
  assumes "issue_session a now s = Inr ((w, c), s')"
  shows "ws_account_id w = wa_id a" "ws_token_hash w = sha256_hex s c" "w \<in> set (workspace_sessions s')" "workspace_memberships s' = workspace_memberships s"
    "participants s' = participants s" "invitations s' = invitations s" "workspace_accounts s' = workspace_accounts s" "sha256_hex s' = sha256_hex s"
  using assms by (auto simp: issue_session_def token_urlsafe32_def uuid4_def Let_def bindR_Inr insert_session_def split: if_splits simp del: base64_fixed.simps)

lemma fresh_member:
  assumes "access_inv s" "join_workspace p None now s = Inr (a, s')"
  shows "\<exists>m. filter (\<lambda>m. wm_account_id m = wa_id a \<and> wm_revoked_at m = None) (workspace_memberships s') = [m] \<and> wm_participant_id m = jp_id p"
    "\<forall>m \<in> set (workspace_memberships s'). wm_participant_id m = jp_id p \<longrightarrow> wm_revoked_at m = None \<longrightarrow> wm_account_id m = wa_id a"
    "participants s' = participants s" "invitations s' = invitations s" "wa_role a = jp_role p" "sha256_hex s' = sha256_hex s"
proof -
  obtain s1 where s1: "active_membership (jp_id p) s = None \<and> s1 = s \<or> (\<exists>m. active_membership (jp_id p) s = Some m \<and> s1 = detach_participant m now s)"
      "a = \<lparr>wa_id = rng s1 (drawn s1), wa_role = jp_role p, wa_display_name = jp_display_name p, wa_created_at = now\<rparr>"
      "insert_membership \<lparr>wm_id = rng s1 (Suc (drawn s1)), wm_account_id = wa_id a, wm_participant_id = jp_id p, wm_joined_at = now, wm_revoked_at = None\<rparr>
         (s1\<lparr>workspace_accounts := workspace_accounts s1 @ [a], drawn := Suc (Suc (drawn s1))\<rparr>) = Inr s'"
  proof (cases rule: join_workspace_cases[OF assms(2)])
    case (2 s1 s3)
    have n: "s3 = s1\<lparr>drawn := Suc (drawn s1), workspace_accounts := workspace_accounts s1 @ [a]\<rparr>"
      "a = \<lparr>wa_id = rng s1 (drawn s1), wa_role = jp_role p, wa_display_name = jp_display_name p, wa_created_at = now\<rparr>"
      using 2(2) by simp_all
    have e: "insert_membership \<lparr>wm_id = rng s1 (Suc (drawn s1)), wm_account_id = wa_id a, wm_participant_id = jp_id p, wm_joined_at = now, wm_revoked_at = None\<rparr>
         (s1\<lparr>workspace_accounts := workspace_accounts s1 @ [a], drawn := Suc (Suc (drawn s1))\<rparr>) = Inr s'"
      using 2(3) by (simp add: n(1))
    have "active_membership (jp_id p) s = None \<and> s1 = s \<or> (\<exists>m. active_membership (jp_id p) s = Some m \<and> s1 = detach_participant m now s)"
      using 2(1) by blast
    then show ?thesis using n(2) e by (rule that)
  qed simp
  have same: "participants s1 = participants s" "invitations s1 = invitations s" "rng s1 = rng s" "drawn s1 = drawn s" "workspace_accounts s1 = workspace_accounts s"
      "sha256_hex s1 = sha256_hex s" "\<forall>m \<in> set (workspace_memberships s1). wm_account_id m \<in> wm_account_id ` set (workspace_memberships s)"
    using s1(1) by (auto simp: detach_participant_def put_row_def active_membership_def dest!: find_mem)
  let ?m = "\<lparr>wm_id = rng s1 (Suc (drawn s1)), wm_account_id = wa_id a, wm_participant_id = jp_id p, wm_joined_at = now, wm_revoked_at = None\<rparr>"
  have s': "workspace_memberships s' = workspace_memberships s1 @ [?m]" "participants s' = participants s1" "invitations s' = invitations s1" "sha256_hex s' = sha256_hex s1"
    "\<forall>m \<in> set (workspace_memberships s1). wm_participant_id m = jp_id p \<longrightarrow> wm_revoked_at m \<noteq> None"
    using s1(3) by (auto simp: insert_membership_def list_ex_iff split: if_splits)
  have old: "wm_account_id m \<in> drawn_ids s" if "m \<in> set (workspace_memberships s1)" for m
  proof -
    have "wm_account_id m \<in> wa_id ` set (workspace_accounts s)"
      using same(7) that assms(1) unfolding access_inv_def workspace_inv_def by (metis imageE)
    then show ?thesis using assms(1) by (auto simp: access_inv_def workspace_inv_def)
  qed
  moreover have "wa_id a \<notin> drawn_ids s" unfolding s1(2) same(3,4) using drawn_new[OF assms(1)] by simp
  ultimately have other: "wm_account_id m \<noteq> wa_id a" if "m \<in> set (workspace_memberships s1)" for m using that by metis
  then have "filter (\<lambda>m. wm_account_id m = wa_id a \<and> wm_revoked_at m = None) (workspace_memberships s1) = []"
    by (auto simp: filter_empty_conv)
  then have "filter (\<lambda>m. wm_account_id m = wa_id a \<and> wm_revoked_at m = None) (workspace_memberships s') = [?m]" unfolding s'(1) by simp
  then show "\<exists>m. filter (\<lambda>m. wm_account_id m = wa_id a \<and> wm_revoked_at m = None) (workspace_memberships s') = [m] \<and> wm_participant_id m = jp_id p"
    by (intro exI[of _ ?m]) simp
  show "\<forall>m \<in> set (workspace_memberships s'). wm_participant_id m = jp_id p \<longrightarrow> wm_revoked_at m = None \<longrightarrow> wm_account_id m = wa_id a"
    using s'(1,5) by auto
  show "participants s' = participants s" "invitations s' = invitations s" "wa_role a = jp_role p" "sha256_hex s' = sha256_hex s" using s' same s1(2) by auto
qed

text \<open>Property C20: a participant that is proven without the cookie of a browser opens a workspace of its own. The
  new session lists this participant and no other, whatever it was grouped with before; no other workspace
  keeps it; and the new cookie never authenticates as anybody else.\<close>

theorem new_session_shows_one_participant:
  assumes "access_inv s" "create_or_extend_workspace_session pid None now s = Inr (view, s')"
  shows "map wmr_participant_id (wsr_members (iws_response view)) = [pid] \<and>
    (\<forall>m \<in> set (workspace_memberships s'). wm_participant_id m = pid \<longrightarrow> wm_revoked_at m = None \<longrightarrow> wm_account_id m = wsr_account_id (iws_response view)) \<and>
    (\<exists>c. iws_cookie_secret view = Some c \<and> (\<forall>job csrf corr t a s''.
       authenticate_workspace_actor c job csrf corr t s' = Inr (a, s'') \<longrightarrow> ac_participant_id a = Some pid))"
  using assms(2)
proof (rule create_session_parts)
  fix p held s1 a s2 w c
  assume p: "row jp_id pid (participants s) = Some p"
    and h: "(held, s1) = (case None of None \<Rightarrow> (None, s) | Some secret \<Rightarrow> (case load_session secret True now s of Inl e \<Rightarrow> (None, s) | Inr (wa, s1) \<Rightarrow> (Some wa, s1)))"
    and j: "join_workspace p (map_option snd held) now s1 = Inr (a, s2)"
    and w: "(case held of Some (w, b) \<Rightarrow> Inr ((w, None), s2) | None \<Rightarrow> bindR (issue_session a now s2) (\<lambda>((w, c), s3). Inr ((w, Some c), s3))) = Inr ((w, c), s')"
    and view: "workspace_response w a s' = Inr (iws_response view)" "iws_cookie_secret view = c"
  have h': "held = None" "s1 = s" using h by auto
  have j': "join_workspace p None now s = Inr (a, s2)" using j h' by simp
  note fm = fresh_member[OF assms(1) j']
  obtain cs where cs: "issue_session a now s2 = Inr ((w, cs), s')" "c = Some cs" using w h' by (auto simp: bindR_Inr)
  note is' = issue_session_eq[OF cs(1)]
  have pid: "jp_id p = pid" using row_key[OF p] .
  obtain m where m: "filter (\<lambda>m. wm_account_id m = wa_id a \<and> wm_revoked_at m = None) (workspace_memberships s') = [m]" "wm_participant_id m = pid"
    using fm(1) is'(4) pid by auto
  have "members_of (wa_id a) s' = [p]"
    unfolding members_of_def m(1) using m(2) p fm(3) is'(5) by (simp add: List.map_filter_simps)
  then obtain x where x: "member_response p s' = Inr x"
      "\<lparr>wsr_account_id = wa_id a, wsr_role = wa_role a, wsr_display_name = wa_display_name a,
      wsr_expires_at = ws_expires_at w, wsr_csrf_token = ws_csrf_token w, wsr_members = [x]\<rparr> = iws_response view"
    using view(1) by (cases "member_response p s'") (auto simp: workspace_response_def)
  have "wmr_participant_id x = pid" using x(1) pid by (auto simp: member_response_def bindR_Inr)
  then have one: "map wmr_participant_id (wsr_members (iws_response view)) = [pid]" "wsr_account_id (iws_response view) = wa_id a" unfolding x(2)[symmetric] by simp_all
  have inv': "access_inv s'" using steps_inv[OF create_session_steps[OF assms(2,1)] assms(1)] .
  have cookie: "ac_participant_id b = Some pid" if auth: "authenticate_workspace_actor cs job csrf corr t s' = Inr (b, s'')" for job csrf corr t b s''
  proof -
    obtain who t1 q where q: "authenticate_workspace_account cs csrf t s' = Inr (who, t1)" "participant_actor q corr t1 = Inr (b, s'')"
        "member_account q (wp_account_id who) t1"
      using auth by (auto simp: authenticate_workspace_actor_def bindR_Inr split: option.splits if_splits dest!: find_mem)
    obtain v acc where v: "load_session cs True t s' = Inr ((v, acc), t1)" "wp_account_id who = wa_id acc"
      using q(1) by (auto simp: authenticate_workspace_account_def bindR_Inr split: if_splits)
    note ls = load_session_steps[OF v(1) inv']
    obtain w0 where w0: "w0 \<in> set (workspace_sessions s')" "ws_token_hash w0 = sha256_hex s' cs" "wa_id acc = ws_account_id w0" using ls(3) by blast
    have "distinct (map ws_token_hash (workspace_sessions s'))" using inv' by (simp add: access_inv_def workspace_inv_def)
    then have "w0 = w" using w0 is' by (metis distinct_map_eq)
    then have "wa_id acc = wa_id a" using w0(3) is'(1) by simp
    then obtain x where "x \<in> set (workspace_memberships s')" "wm_participant_id x = jp_id q" "wm_account_id x = wa_id a" "wm_revoked_at x = None"
      using q(3) v(2) ls(7) by (auto simp: member_account_def list_ex_iff)
    then have "x \<in> set (filter (\<lambda>m. wm_account_id m = wa_id a \<and> wm_revoked_at m = None) (workspace_memberships s'))" by simp
    then have "jp_id q = pid" using m \<open>wm_participant_id x = jp_id q\<close> by simp
    then show ?thesis using participant_actor_eq(2)[OF q(2)] by simp
  qed
  show ?thesis using one fm(2) is'(4) pid cs(2) view(2) cookie by auto
qed

text \<open>A request that changes something and brings no link but the cookie needs the session's own token
  in its header. If it is let in, there is an unrevoked, unexpired session of this cookie whose CSRF token is the
  header, its account has an unrevoked membership of the actor, who is a participant of the requested job.\<close>

theorem cookie_needs_csrf:
  assumes "access_inv s" "\<not> safe_method request_method"
    "get_current_actor None cookie raw_job request_method header cache limit window corr now s = Inr (a, s')"
  shows "\<exists>secret job token. cookie = Some secret \<and> raw_job = Some (Some job) \<and> header = Some token \<and>
    (\<exists>w \<in> set (workspace_sessions s). ws_token_hash w = sha256_hex s secret \<and> ws_csrf_token w = token \<and> ws_revoked_at w = None \<and>
       now < ws_expires_at w \<and>
       (\<exists>m \<in> set (workspace_memberships s). wm_account_id m = ws_account_id w \<and> wm_revoked_at m = None \<and>
          ac_participant_id a = Some (wm_participant_id m))) \<and> ac_job_id a = Some job"
proof -
  obtain secret job where sj: "cookie = Some secret" "raw_job = Some (Some job)"
    using assms(3) by (auto simp: get_current_actor_def split: option.splits)
  obtain token where token: "header = Some token"
    using assms(2,3) by (cases header) (auto simp: get_current_actor_def sj)
  have auth: "authenticate_workspace_actor secret job (Some token) corr now s = Inr (a, s')"
    using assms(2,3) by (auto simp: get_current_actor_def sj token split: sum.splits if_splits)
  obtain who s1 q where q: "authenticate_workspace_account secret (Some token) now s = Inr (who, s1)" "participant_actor q corr s1 = Inr (a, s')"
      "member_account q (wp_account_id who) s1" "jp_job_id q = job"
    using auth by (auto simp: authenticate_workspace_actor_def bindR_Inr split: option.splits if_splits dest!: find_mem)
  obtain v acc where v: "load_session secret True now s = Inr ((v, acc), s1)" "wp_account_id who = wa_id acc" "ws_csrf_token v = token"
    using q(1) by (auto simp: authenticate_workspace_account_def bindR_Inr split: if_splits)
  note ls = load_session_steps[OF v(1) assms(1)]
  obtain w0 where w0: "w0 \<in> set (workspace_sessions s)" "ws_token_hash w0 = sha256_hex s secret" "wa_id acc = ws_account_id w0"
      "ws_revoked_at w0 = None" "now < ws_expires_at w0" "ws_csrf_token v = ws_csrf_token w0" using ls(3) by blast
  obtain x where x: "x \<in> set (workspace_memberships s)" "wm_participant_id x = jp_id q" "wm_account_id x = wa_id acc" "wm_revoked_at x = None"
    using q(3) v(2) ls(7) by (auto simp: member_account_def list_ex_iff)
  have "\<exists>m \<in> set (workspace_memberships s). wm_account_id m = ws_account_id w0 \<and> wm_revoked_at m = None \<and> ac_participant_id a = Some (wm_participant_id m)"
    using x w0(3) participant_actor_eq(2)[OF q(2)] by (intro bexI[of _ x]) simp_all
  moreover have "ws_csrf_token w0 = token" using v(3) w0(6) by simp
  moreover have "ac_job_id a = Some job" using participant_actor_eq(3)[OF q(2)] q(4) by simp
  ultimately show ?thesis using sj token w0(1,2,4,5) by blast
qed

lemma length_base64_fixed [simp]: "length (base64_fixed w n) = w"
  by (induction w arbitrary: n) simp_all

lemma sample_digest_new: "sample_digest (replicate 43 CHR ''d'') \<noteq> sample_digest (base64_fixed 43 88)"
proof
  assume "sample_digest (replicate 43 CHR ''d'') = sample_digest (base64_fixed 43 88)"
  then have "base64_fixed 43 88 = replicate 43 CHR ''d''" by (simp add: sample_digest_def)
  then have "last (base64_fixed 43 88) = last (replicate 43 CHR ''d'')" by (rule arg_cong)
  moreover have "base64_fixed 43 88 = base64_fixed 42 1 @ [base64_char 24]" using base64_fixed.simps(2)[of 42 88] by simp
  moreover have "base64_char 24 \<noteq> CHR ''d''" by code_simp
  ultimately show False by (simp del: base64_fixed.simps)
qed

lemma new_session_shows_one_participant_witness:
  "\<exists>view s'. create_or_extend_workspace_session 1 None 30 sample_access = Inr (view, s') \<and>
     map wmr_participant_id (wsr_members (iws_response view)) = [1]"
proof -
  have "isOk (create_or_extend_workspace_session 1 None 30 sample_access)"
    using sample_digest_new
    by (simp add: create_or_extend_workspace_session_def sample_access_defs row_def invitation_of_invitee_def unaccepted_def join_workspace_def
        active_membership_def detach_participant_def uuid4_def Let_def insert_membership_def issue_session_def token_urlsafe32_def
        insert_session_def workspace_session_check_def sample_digest_facts put_row_def workspace_response_def WORKSPACE_SESSION_TTL_def members_of_def List.map_filter_simps
        member_response_def del: base64_fixed.simps)
  then obtain view s' where "create_or_extend_workspace_session 1 None 30 sample_access = Inr (view, s')" by (auto simp: isOk_iff)
  then show ?thesis using new_session_shows_one_participant[OF sample_access_inv] by blast
qed

lemma cookie_needs_csrf_witness:
  "\<exists>a s'. get_current_actor None (Some (replicate 43 CHR ''d'')) (Some (Some 9)) ''POST'' (Some (replicate 43 CHR ''e'')) None 4 60 None 30
      sample_access = Inr (a, s') \<and> ac_job_id a = Some 9"
proof -
  let ?d = "replicate 43 CHR ''d''" and ?e = "replicate 43 CHR ''e''"
  let ?w = "(hd (workspace_sessions sample_access))\<lparr>ws_last_used_at := Some 30\<rparr>"
  have pat: "access_secret_pattern ?d"
    by (simp add: access_secret_pattern_def list_all_iff url_safe_char_def is_lower_def in_range_def)
  have "load_session ?d True 30 sample_access = Inr ((?w, hd (workspace_accounts sample_access)), put_session ?w sample_access)"
    using pat by (simp add: load_session_def sample_access_defs row_def Let_def)
  then have acc: "authenticate_workspace_account ?d (Some ?e) 30 sample_access =
      Inr (\<lparr>wp_session_id = 18, wp_account_id = 16, wp_role = CUSTOMER, wp_display_name = ''Kim'', wp_expires_at = days 30, wp_csrf_token = ?e\<rparr>,
        put_session ?w sample_access)"
    by (simp add: authenticate_workspace_account_def sample_access_defs)
  obtain a s' where pa: "participant_actor (sample_member 1 CUSTOMER) None (put_session ?w sample_access) = Inr (a, s')"
    using participant_actor_returns by blast
  have job: "ac_job_id a = Some 9" using participant_actor_eq(3)[OF pa] by (simp add: sample_member_def)
  note pa
  moreover have "find (\<lambda>p. jp_job_id p = 9 \<and> jp_role p = CUSTOMER \<and> member_account p 16 (put_session ?w sample_access))
      (participants (put_session ?w sample_access)) = Some (sample_member 1 CUSTOMER)"
    "invitation_of_invitee (jp_id (sample_member 1 CUSTOMER)) (put_session ?w sample_access) = None"
    by (simp_all add: member_account_def put_session_def sample_access_def sample_member_def empty_db_def invitation_of_invitee_def sample_invitation_def)
  ultimately have "authenticate_workspace_actor ?d 9 (Some ?e) None 30 sample_access = Inr (a, s')"
    unfolding authenticate_workspace_actor_def acc bindR_simps prod.case by (simp add: unaccepted_def)
  then have r: "get_current_actor None (Some ?d) (Some (Some 9)) ''POST'' (Some ?e) None 4 60 None 30 sample_access = Inr (a, s')"
    using job by (simp add: get_current_actor_def safe_method_def)
  have "\<not> safe_method ''POST''" by (simp add: safe_method_def)
  then show ?thesis using cookie_needs_csrf[OF sample_access_inv _ r] r by blast
qed

section \<open>What the connection code lets through\<close>

text \<open>The validator reads the code with \<open>int(text, 16)\<close>, which takes single underscores between digits, and the
  lookup puts the code into a \<open>LIKE\<close> pattern, where an underscore is any character: five of the eight digits
  are enough.\<close>

definition sample_job :: MoveJob where
  "sample_job = \<lparr>mj_id = 0xA1B2C3D4 * 16 ^ 24, mj_title = ''Move'', mj_status = ACTIVE, mj_scheduled_at = None,
     mj_created_at = 0, mj_updated_at = 0, mj_completed_at = None\<rparr>"

lemma sample_digits: "char_of (48 :: nat) = CHR ''0''" "char_of (97 :: nat) = CHR ''a''" "char_of (49 :: nat) = CHR ''1''" "char_of (98 :: nat) = CHR ''b''"
    "char_of (50 :: nat) = CHR ''2''" "char_of (99 :: nat) = CHR ''c''" "char_of (51 :: nat) = CHR ''3''" "char_of (100 :: nat) = CHR ''d''"
    "char_of (52 :: nat) = CHR ''4''"
  by code_simp+

lemma hex_fixed_shift: "hex_fixed (w + k) (n * 16 ^ k) = hex_fixed w n @ replicate k CHR ''0''"
proof (induction k)
  case (Suc k)
  have "n * 16 ^ Suc k div 16 = n * 16 ^ k" "n * 16 ^ Suc k mod 16 = 0" by simp_all
  then show ?case using Suc by (simp add: hex_digit_def replicate_append_same sample_digits)
qed simp

lemma underscores_stand_for_digits:
  "normalize_connection_code ''MOVE-a_b_c_d4'' = Inr ''MOVE-A_B_C_D4'' \<and>
   load_move_connection_job ''MOVE-A_B_C_D4'' (sample_access\<lparr>move_jobs := [sample_job]\<rparr>) = Inr sample_job"
proof -
  have "hex_fixed (8 + 24) (0xA1B2C3D4 * 16 ^ 24) = hex_fixed 8 0xA1B2C3D4 @ replicate 24 CHR ''0''" by (rule hex_fixed_shift)
  moreover have "hex_fixed 8 0xA1B2C3D4 = ''a1b2c3d4''"
  proof -
    have eight: "(8 :: nat) = Suc (Suc (Suc (Suc (Suc (Suc (Suc (Suc 0)))))))" by simp
    show ?thesis unfolding eight by (simp add: hex_digit_def sample_digits)
  qed
  ultimately have h: "hex_fixed 32 (mj_id sample_job) = ''a1b2c3d4'' @ replicate 24 CHR ''0''" by (simp add: sample_job_def)
  have u: "uuid_str (mj_id sample_job) = ''a1b2c3d4-0000-0000-0000-000000000000''" unfolding uuid_str_def h Let_def by code_simp
  have "normalize_connection_code ''MOVE-a_b_c_d4'' = Inr ''MOVE-A_B_C_D4''" by code_simp
  moreover have "code_pattern ''MOVE-A_B_C_D4'' = ''a_b_c_d4%''" by code_simp
  moreover have "like ''a_b_c_d4%'' ''a1b2c3d4-0000-0000-0000-000000000000''" by code_simp
  moreover have "mj_status sample_job \<noteq> CANCELED" by (simp add: sample_job_def)
  ultimately show ?thesis using u by (simp add: load_move_connection_job_def)
qed

text \<open>Connecting with the code accepts the invitation of the role, whatever had become of it: an invitee whose
  invitation was revoked, declined or has expired is an accepted participant again.\<close>

lemma code_overrides_revocation:
  assumes "access_inv s" "load_move_connection_job code s = Inr j" "participant_in_role (mj_id j) role s = Some p"
    "invitation_of_invitee (jp_id p) s = Some i" "pi_status i \<noteq> INV_ACCEPTED"
  shows "\<exists>s'. resolve_move_connection code role now s = Inr (p, s') \<and>
    invitation_of_invitee (jp_id p) s' = Some (i\<lparr>pi_status := INV_ACCEPTED, pi_resolved_at := Some now\<rparr>) \<and>
    \<not> unaccepted (invitation_of_invitee (jp_id p) s')"
proof -
  let ?i = "i\<lparr>pi_status := INV_ACCEPTED, pi_resolved_at := Some now\<rparr>" and ?s = "put_invitation (i\<lparr>pi_status := INV_ACCEPTED, pi_resolved_at := Some now\<rparr>) s"
  have i: "i \<in> set (invitations s)" "pi_invitee_participant_id i = jp_id p"
    using assms(4) find_mem unfolding invitation_of_invitee_def by fastforce+
  have "map pi_invitee_participant_id (put_row pi_id ?i (invitations s)) = map pi_invitee_participant_id (invitations s)"
    using invitation_eq[of s] assms(1) i(1) by (auto simp: put_row_def access_inv_def)
  then have d: "distinct (map pi_invitee_participant_id (put_row pi_id ?i (invitations s)))"
    using assms(1) by (simp add: access_inv_def invitations_inv_def)
  have m: "?i \<in> set (put_row pi_id ?i (invitations s))" using mem_put_row_iff[OF i(1), of pi_id ?i] by simp
  have "find (\<lambda>x. pi_invitee_participant_id x = jp_id p) (put_row pi_id ?i (invitations s)) = Some ?i"
    using m i(2) distinct_map_eq[OF d _ m] by (intro find_unique) auto
  then have "invitation_of_invitee (jp_id p) ?s = Some ?i" by (simp add: invitation_of_invitee_def put_invitation_def)
  moreover have "resolve_move_connection code role now s = Inr (p, ?s)"
    using assms(2-5) by (simp add: resolve_move_connection_def)
  ultimately show ?thesis by (simp add: unaccepted_def)
qed

end
