(* ===== verification/MoveJob.thy ===== *)
theory MoveJob
  imports Workspace Scope
begin

text \<open>
  Move jobs: the commands of \<open>app/modules/move_job/service.py\<close> that create, change and cancel a
  job, with the schemas of \<open>app/modules/move_job/schemas.py\<close>. A field a command may leave out is an
  option: \<open>None\<close> when it was not set, \<open>Some None\<close> when it was set to null. A stored condition
  document reads back valid. Lemmas are in MoveJobProofs.
\<close>

section \<open>Commands and responses\<close>

record ParticipantCreate =
  pcr_role :: ParticipantRole
  pcr_display_name :: string

record RoomZoneCreate =
  rzc_name :: string
  rzc_sort_order :: int

record LocationCreate =
  lcr_kind :: LocationKind
  lcr_label :: string
  lcr_detail_address :: "string option"
  lcr_conditions :: LocationConditions
  lcr_room_zones :: "RoomZoneCreate list"

definition room_zone_create_ok :: "RoomZoneCreate \<Rightarrow> bool" where
  "room_zone_create_ok z = (text_between 1 100 (rzc_name z) \<and> 0 \<le> rzc_sort_order z)"

definition location_create_ok :: "LocationCreate \<Rightarrow> bool" where
  "location_create_ok l = (text_between 1 100 (lcr_label l) \<and> optional_text 1 200 (lcr_detail_address l) \<and>
     location_conditions_ok (lcr_conditions l) \<and>
     1 \<le> length (lcr_room_zones l) \<and> length (lcr_room_zones l) \<le> 100 \<and> list_all room_zone_create_ok (lcr_room_zones l) \<and>
     distinct (map rzc_name (lcr_room_zones l)) \<and> distinct (map rzc_sort_order (lcr_room_zones l)))"

record MoveJobCreate =
  mjc_title :: string
  mjc_scheduled_at :: "instant option"
  mjc_participants :: "ParticipantCreate list"
  mjc_locations :: "LocationCreate list"

definition locations_create_ok :: "LocationCreate list \<Rightarrow> bool" where
  "locations_create_ok ls = (1 \<le> length ls \<and> length ls \<le> 2 \<and> list_all location_create_ok ls \<and> distinct (map lcr_kind ls))"

definition move_job_create_ok :: "MoveJobCreate \<Rightarrow> bool" where
  "move_job_create_ok c = (text_between 1 200 (mjc_title c) \<and> length (mjc_participants c) = 3 \<and>
     list_all (\<lambda>p. text_between 1 100 (pcr_display_name p)) (mjc_participants c) \<and>
     distinct (map pcr_role (mjc_participants c)) \<and> locations_create_ok (mjc_locations c))"

record CustomerMoveJobCreate =
  cmj_title :: string
  cmj_scheduled_at :: "instant option"
  cmj_customer_display_name :: string
  cmj_locations :: "LocationCreate list"

definition customer_move_job_create_ok :: "CustomerMoveJobCreate \<Rightarrow> bool" where
  "customer_move_job_create_ok c = (text_between 1 200 (cmj_title c) \<and> text_between 1 100 (cmj_customer_display_name c) \<and>
     locations_create_ok (cmj_locations c))"

record ParticipantResponse =
  par_id :: uuid
  par_role :: ParticipantRole
  par_display_name :: string

record RoomZoneResponse =
  rzr_id :: uuid
  rzr_name :: string
  rzr_sort_order :: int

record LocationResponse =
  lor_id :: uuid
  lor_kind :: LocationKind
  lor_label :: string
  lor_detail_address :: "string option"
  lor_conditions :: LocationConditions
  lor_room_zones :: "RoomZoneResponse list"

record MoveJobResponse =
  mjr_id :: uuid
  mjr_title :: string
  mjr_status :: MoveJobStatus
  mjr_scheduled_at :: "instant option"
  mjr_created_at :: instant
  mjr_completed_at :: "instant option"
  mjr_participants :: "ParticipantResponse list"
  mjr_locations :: "LocationResponse list"

record MoveJobCreatedResponse =
  mcr_job :: MoveJobResponse
  mcr_access_links :: "AccessLinkResponse list"

record CustomerMoveJobCreatedResponse =
  ccr_job :: MoveJobResponse
  ccr_customer_access_link :: AccessLinkResponse
  ccr_connection_code :: string

record MoveJobLocationPatch =
  mlp_kind :: LocationKind
  mlp_label :: "string option"
  mlp_detail_address :: "string option option"
  mlp_conditions :: "LocationConditions option"

record MoveJobPatch =
  mjp_title :: "string option option"
  mjp_scheduled_at :: "instant option option"
  mjp_locations :: "MoveJobLocationPatch list option option"

definition location_patch_ok :: "MoveJobLocationPatch \<Rightarrow> bool" where
  "location_patch_ok l = (optional_text 1 100 (mlp_label l) \<and>
     (case mlp_detail_address l of None \<Rightarrow> True | Some a \<Rightarrow> optional_text 1 200 a) \<and>
     (case mlp_conditions l of None \<Rightarrow> True | Some c \<Rightarrow> location_conditions_ok c) \<and>
     \<not> (mlp_label l = None \<and> mlp_detail_address l = None \<and> mlp_conditions l = None))"

definition move_job_patch_ok :: "MoveJobPatch \<Rightarrow> bool" where
  "move_job_patch_ok c = ((case mjp_title c of Some (Some t) \<Rightarrow> text_between 1 200 t | _ \<Rightarrow> True) \<and>
     (case mjp_locations c of Some (Some ls) \<Rightarrow> 1 \<le> length ls \<and> length ls \<le> 2 \<and> list_all location_patch_ok ls \<and> distinct (map mlp_kind ls)
      | _ \<Rightarrow> True) \<and>
     \<not> (mjp_title c = None \<and> mjp_scheduled_at c = None \<and> mjp_locations c = None) \<and>
     mjp_title c \<noteq> Some None \<and> mjp_locations c \<noteq> Some None)"

section \<open>Reading a job\<close>

definition participants_of :: "uuid \<Rightarrow> db \<Rightarrow> JobParticipant list" where
  "participants_of job_id s = filter (\<lambda>p. jp_job_id p = job_id) (participants s)"

definition locations_of :: "uuid \<Rightarrow> db \<Rightarrow> Location list" where
  "locations_of job_id s = filter (\<lambda>l. loc_job_id l = job_id) (locations s)"

definition zones_of :: "uuid \<Rightarrow> db \<Rightarrow> RoomZone list" where
  "zones_of location_id s = filter (\<lambda>z. rz_location_id z = location_id) (room_zones s)"

definition location_view :: "bool \<Rightarrow> db \<Rightarrow> Location \<Rightarrow> LocationResponse" where
  "location_view expose_detail_address s l = \<lparr>lor_id = loc_id l, lor_kind = loc_kind l, lor_label = loc_label l,
     lor_detail_address = (if expose_detail_address then loc_detail_address l else None), lor_conditions = loc_conditions l,
     lor_room_zones = map (\<lambda>z. \<lparr>rzr_id = rz_id z, rzr_name = rz_name z, rzr_sort_order = rz_sort_order z\<rparr>)
       (sort_key rz_sort_order (zones_of (loc_id l) s))\<rparr>"

definition to_response :: "ParticipantRole \<Rightarrow> MoveJob \<Rightarrow> db \<Rightarrow> MoveJobResponse" where
  "to_response viewer_role j s = \<lparr>mjr_id = mj_id j, mjr_title = mj_title j, mjr_status = mj_status j,
     mjr_scheduled_at = mj_scheduled_at j, mjr_created_at = mj_created_at j, mjr_completed_at = mj_completed_at j,
     mjr_participants = map (\<lambda>p. \<lparr>par_id = jp_id p, par_role = jp_role p, par_display_name = jp_display_name p\<rparr>)
       (sort_key (\<lambda>p. role_value (jp_role p)) (participants_of (mj_id j) s)),
     mjr_locations = map (location_view (viewer_role \<in> {CUSTOMER, COMPANY_MANAGER}) s)
       (sort_key (\<lambda>l. location_kind_value (loc_kind l)) (locations_of (mj_id j) s))\<rparr>"

definition get_move_job :: "uuid \<Rightarrow> ParticipantRole \<Rightarrow> db \<Rightarrow> MoveJobResponse result" where
  "get_move_job job_id viewer_role s = (case row mj_id job_id (move_jobs s) of
     None \<Rightarrow> Inl MoveJobNotFoundError | Some j \<Rightarrow> Inr (to_response viewer_role j s))"

section \<open>Creating a job\<close>

text \<open>INSERT of a location and of its zones: the unique keys of both tables.\<close>

definition insert_location :: "Location \<Rightarrow> db \<Rightarrow> db result" where
  "insert_location l s = (if list_ex (\<lambda>x. loc_job_id x = loc_job_id l \<and> loc_kind x = loc_kind l) (locations s)
     then Inl IntegrityError else Inr (s\<lparr>locations := locations s @ [l]\<rparr>))"

definition insert_room_zone :: "RoomZone \<Rightarrow> db \<Rightarrow> db result" where
  "insert_room_zone z s =
     (if \<not> room_zone_check z \<or> list_ex (\<lambda>x. rz_location_id x = rz_location_id z \<and>
           (rz_name x = rz_name z \<or> rz_sort_order x = rz_sort_order z)) (room_zones s)
      then Inl IntegrityError else Inr (s\<lparr>room_zones := room_zones s @ [z]\<rparr>))"

definition add_zone :: "uuid \<Rightarrow> instant \<Rightarrow> RoomZoneCreate \<Rightarrow> db \<Rightarrow> db result" where
  "add_zone location_id now z s = (let (i, s1) = uuid4 s in
     insert_room_zone \<lparr>rz_id = i, rz_location_id = location_id, rz_name = rzc_name z, rz_sort_order = rzc_sort_order z,
       rz_created_at = now\<rparr> s1)"

definition add_location :: "uuid \<Rightarrow> instant \<Rightarrow> LocationCreate \<Rightarrow> db \<Rightarrow> db result" where
  "add_location job_id now l s = (let (i, s1) = uuid4 s in
     bindR (insert_location \<lparr>loc_id = i, loc_job_id = job_id, loc_kind = lcr_kind l, loc_label = lcr_label l,
              loc_detail_address = lcr_detail_address l, loc_conditions = lcr_conditions l, loc_created_at = now\<rparr> s1)
       (foldR (add_zone i now) (lcr_room_zones l)))"

definition locations_from_command :: "uuid \<Rightarrow> instant \<Rightarrow> LocationCreate list \<Rightarrow> db \<Rightarrow> db result" where
  "locations_from_command job_id now = foldR (add_location job_id now)"

definition add_participant :: "uuid \<Rightarrow> instant \<Rightarrow> ParticipantCreate \<Rightarrow> db \<Rightarrow> db result" where
  "add_participant job_id now p s = (let (i, s1) = uuid4 s in
     insert_participant \<lparr>jp_id = i, jp_job_id = job_id, jp_role = pcr_role p, jp_display_name = pcr_display_name p,
       jp_created_at = now\<rparr> s1)"

definition record_job_created :: "uuid \<Rightarrow> instant \<Rightarrow> db \<Rightarrow> db" where
  "record_job_created job_id now s = add_audit_event job_id AU_JOB_CREATED None
     [(''participant_roles'', JList (map JStr (sort (map (\<lambda>p. role_value (jp_role p)) (participants_of job_id s))))),
      (''location_kinds'', JList (map JStr (sort (map (\<lambda>l. location_kind_value (loc_kind l)) (locations_of job_id s)))))] now s"

definition new_move_job :: "uuid \<Rightarrow> string \<Rightarrow> instant option \<Rightarrow> instant \<Rightarrow> MoveJob" where
  "new_move_job i title scheduled_at now = \<lparr>mj_id = i, mj_title = title, mj_status = DRAFT, mj_scheduled_at = scheduled_at,
     mj_created_at = now, mj_updated_at = now, mj_completed_at = None\<rparr>"

text \<open>The part both ways of creating a job share: the job with its participants and locations.\<close>

definition insert_topology ::
    "string \<Rightarrow> instant option \<Rightarrow> ParticipantCreate list \<Rightarrow> LocationCreate list \<Rightarrow> instant \<Rightarrow> db \<Rightarrow> (MoveJob \<times> db) result" where
  "insert_topology title scheduled_at ps ls now s =
     (let (i, s1) = uuid4 s; j = new_move_job i title scheduled_at now; s2 = s1\<lparr>move_jobs := move_jobs s1 @ [j]\<rparr> in
      bindR (foldR (add_participant i now) ps s2) (\<lambda>s3.
      bindR (locations_from_command i now ls s3) (\<lambda>s4.
      Inr (j, record_job_created i now s4))))"

fun issue_links :: "JobParticipant list \<Rightarrow> instant \<Rightarrow> db \<Rightarrow> (AccessLinkResponse list \<times> db) result" where
  "issue_links [] now s = Inr ([], s)"
| "issue_links (p # ps) now s = bindR (issue_access_link p None None None None now s) (\<lambda>(link, s1).
     bindR (issue_links ps now s1) (\<lambda>(links, s2). Inr (link # links, s2)))"

definition create_move_job :: "MoveJobCreate \<Rightarrow> instant \<Rightarrow> db \<Rightarrow> (MoveJobCreatedResponse \<times> db) result" where
  "create_move_job cmd now s =
     bindR (insert_topology (mjc_title cmd) (mjc_scheduled_at cmd) (mjc_participants cmd) (mjc_locations cmd) now s) (\<lambda>(j, s1).
     bindR (issue_links (participants_of (mj_id j) s1) now s1) (\<lambda>(links, s2).
     Inr (\<lparr>mcr_job = to_response CUSTOMER j s2, mcr_access_links = links\<rparr>, s2)))"

definition connection_code_of :: "uuid \<Rightarrow> string" where
  "connection_code_of job_id = ''MOVE-'' @ map upper_char (take 8 (hex_fixed 32 job_id))"

definition create_customer_move_job ::
    "CustomerMoveJobCreate \<Rightarrow> instant \<Rightarrow> db \<Rightarrow> (CustomerMoveJobCreatedResponse \<times> db) result" where
  "create_customer_move_job cmd now s =
     bindR (insert_topology (cmj_title cmd) (cmj_scheduled_at cmd)
              [\<lparr>pcr_role = CUSTOMER, pcr_display_name = cmj_customer_display_name cmd\<rparr>] (cmj_locations cmd) now s) (\<lambda>(j, s1).
     (case participant_in_role (mj_id j) CUSTOMER s1 of
        None \<Rightarrow> Inl NoResultFound
      | Some customer \<Rightarrow>
          bindR (issue_access_link customer None None None None now s1) (\<lambda>(link, s2).
          Inr (\<lparr>ccr_job = to_response CUSTOMER j s2, ccr_customer_access_link = link,
                 ccr_connection_code = connection_code_of (mj_id j)\<rparr>, s2))))"

section \<open>Changing the basic information\<close>

definition has_proposal :: "uuid \<Rightarrow> db \<Rightarrow> bool" where
  "has_proposal job_id s = list_ex (\<lambda>p. sp_job_id p = job_id) (scope_proposals s)"

definition current_scope_of :: "uuid \<Rightarrow> db \<Rightarrow> ScopeVersion option" where
  "current_scope_of job_id s = (case rev (sort_key (\<lambda>v. (sv_sequence_number v, sv_id v))
       (filter (\<lambda>v. sv_job_id v = job_id) (scope_versions s))) of [] \<Rightarrow> None | v # _ \<Rightarrow> Some v)"

definition put_move_job :: "MoveJob \<Rightarrow> db \<Rightarrow> db" where
  "put_move_job j s = s\<lparr>move_jobs := put_row mj_id j (move_jobs s)\<rparr>"

definition patched_location :: "MoveJobLocationPatch \<Rightarrow> Location \<Rightarrow> Location" where
  "patched_location c l = l\<lparr>
     loc_label := (case mlp_label c of None \<Rightarrow> loc_label l | Some t \<Rightarrow> t),
     loc_detail_address := (case mlp_detail_address c of None \<Rightarrow> loc_detail_address l | Some a \<Rightarrow> a),
     loc_conditions := (case mlp_conditions c of None \<Rightarrow> loc_conditions l | Some v \<Rightarrow> v)\<rparr>"

definition patch_location :: "uuid \<Rightarrow> MoveJobLocationPatch \<Rightarrow> db \<Rightarrow> db result" where
  "patch_location job_id c s = (case find (\<lambda>l. loc_kind l = mlp_kind c) (rev (locations_of job_id s)) of
     None \<Rightarrow> Inl MoveJobNotFoundError
   | Some l \<Rightarrow> Inr (s\<lparr>locations := put_row loc_id (patched_location c l) (locations s)\<rparr>))"

definition location_patches :: "MoveJobPatch \<Rightarrow> MoveJobLocationPatch list" where
  "location_patches cmd = (case mjp_locations cmd of Some (Some ls) \<Rightarrow> ls | _ \<Rightarrow> [])"

definition changes_scope_conditions :: "MoveJobPatch \<Rightarrow> bool" where
  "changes_scope_conditions cmd = list_ex (\<lambda>c. mlp_conditions c \<noteq> None) (location_patches cmd)"

definition changed_fields :: "MoveJobPatch \<Rightarrow> string list" where
  "changed_fields cmd = (if mjp_title cmd \<noteq> None then [''title''] else []) @
     (if mjp_scheduled_at cmd \<noteq> None then [''scheduled_at''] else []) @
     map (\<lambda>c. ''location:'' @ location_kind_value (mlp_kind c)) (location_patches cmd)"

definition patched_job :: "MoveJobPatch \<Rightarrow> instant \<Rightarrow> MoveJob \<Rightarrow> MoveJob" where
  "patched_job cmd now j = j\<lparr>
     mj_title := (case mjp_title cmd of None \<Rightarrow> mj_title j | Some t \<Rightarrow> (case t of None \<Rightarrow> [] | Some u \<Rightarrow> u)),
     mj_scheduled_at := (case mjp_scheduled_at cmd of None \<Rightarrow> mj_scheduled_at j | Some t \<Rightarrow> t),
     mj_updated_at := now\<rparr>"

text \<open>New conditions of a job with an open version 2 scope become a child version that snapshots them.\<close>

definition snapshot_scope :: "uuid \<Rightarrow> uuid \<Rightarrow> ScopeVersion \<Rightarrow> instant \<Rightarrow> db \<Rightarrow> db result" where
  "snapshot_scope job_id actor_id v now s = bindR (mk_scope_content (sv_content v)) (\<lambda>c.
     (case create_scope_version job_id (Some actor_id) (Some (sv_id v)) (c\<lparr>sc_location_conditions := []\<rparr>) None False now s of
        Inl e \<Rightarrow> Inl (if e = ScopeVersionConflictError then MoveJobConflictError else e)
      | Inr (_, s1) \<Rightarrow> Inr s1))"

definition patch_move_job ::
    "uuid \<Rightarrow> uuid \<Rightarrow> MoveJobPatch \<Rightarrow> instant \<Rightarrow> db \<Rightarrow> (MoveJobResponse \<times> db) result" where
  "patch_move_job job_id actor_id cmd now s = (case row mj_id job_id (move_jobs s) of
     None \<Rightarrow> Inl MoveJobNotFoundError
   | Some j \<Rightarrow>
       if mj_status j \<in> {COMPLETED, CANCELED} then Inl MoveJobConflictError
       else if has_proposal job_id s then Inl MoveJobConflictError
       else let current = current_scope_of job_id s in
       if changes_scope_conditions cmd \<and> (case current of None \<Rightarrow> False | Some v \<Rightarrow> sv_locked_at v \<noteq> None)
       then Inl MoveJobConflictError
       else let j1 = patched_job cmd now j in
       bindR (foldR (patch_location job_id) (location_patches cmd) (put_move_job j1 s)) (\<lambda>s1.
       bindR (case current of None \<Rightarrow> Inr s1
         | Some v \<Rightarrow> if changes_scope_conditions cmd \<and> sc_schema_version (sv_content v) = 2
             then snapshot_scope job_id actor_id v now s1 else Inr s1) (\<lambda>s2.
       let s3 = add_audit_event job_id AU_JOB_BASIC_INFO_UPDATED (Some actor_id)
                  [(''changed_fields'', JList (map JStr (sort (changed_fields cmd))))] now s2 in
       Inr (to_response CUSTOMER j1 s3, s3))))"

section \<open>Canceling\<close>

definition live_links_of :: "uuid \<Rightarrow> db \<Rightarrow> ParticipantAccessToken list" where
  "live_links_of job_id s = sort_key (\<lambda>r. (at_created_at r, at_id r))
     (filter (\<lambda>r. at_revoked_at r = None \<and>
        map_option jp_job_id (row jp_id (at_participant_id r) (participants s)) = Some job_id) (access_tokens s))"

definition cancel_move_job :: "uuid \<Rightarrow> uuid \<Rightarrow> instant \<Rightarrow> db \<Rightarrow> db result" where
  "cancel_move_job job_id actor_id now s = (case row mj_id job_id (move_jobs s) of
     None \<Rightarrow> Inl MoveJobNotFoundError
   | Some j \<Rightarrow>
       if mj_status j = CANCELED then Inr s
       else if mj_status j = COMPLETED then Inl MoveJobConflictError
       else if has_proposal job_id s then Inl MoveJobConflictError
       else let s1 = s\<lparr>invitations := update_where (\<lambda>i. pi_job_id i = job_id)
                  (\<lambda>i. i\<lparr>pi_status := INV_REVOKED, pi_resolved_at := Some now\<rparr>) (invitations s)\<rparr>;
                links = live_links_of job_id s1;
                s2 = put_move_job (j\<lparr>mj_status := CANCELED, mj_updated_at := now\<rparr>) s1 in
         foldR (\<lambda>r. revoke_access_link (at_id r) actor_id (Some ''job_canceled'') now) links s2)"

end
