(* ===== verification/MoveJobProofs.thy ===== *)
theory MoveJobProofs
  imports MoveJob WorkspaceSafety ScopeProofs
begin

text \<open>
  Lemmas about creating, changing and canceling a move job: a new job's customer can come in at once, with
  the link and with the connection code; canceling closes the job to links, codes and invitations, and to cookies with the exception
  stated there; new conditions of a job with an open
  scope become a child version and leave the history as it was.
\<close>

section \<open>Creating a job\<close>

text \<open>What the steps that insert locations and zones leave alone.\<close>

definition topology_frame :: "db \<Rightarrow> db \<Rightarrow> bool" where
  "topology_frame s s' = (s' = s\<lparr>drawn := drawn s', locations := locations s', room_zones := room_zones s'\<rparr> \<and> drawn s \<le> drawn s')"

lemma topology_frame_refl: "topology_frame s s"
  by (simp add: topology_frame_def)

lemma topology_frame_trans:
  assumes "topology_frame s t" "topology_frame t u"
  shows "topology_frame s u"
  unfolding topology_frame_def
proof
  have t: "t = s\<lparr>drawn := drawn t, locations := locations t, room_zones := room_zones t\<rparr>"
    and u: "u = t\<lparr>drawn := drawn u, locations := locations u, room_zones := room_zones u\<rparr>"
    using assms by (simp_all add: topology_frame_def)
  show "u = s\<lparr>drawn := drawn u, locations := locations u, room_zones := room_zones u\<rparr>"
    by (subst u, subst t) simp
qed (use assms in \<open>simp add: topology_frame_def\<close>)

lemma topology_frameD:
  assumes "topology_frame s s'"
  shows "rng s' = rng s" "sha256_hex s' = sha256_hex s" "move_jobs s' = move_jobs s" "access_tokens s' = access_tokens s"
    "invitations s' = invitations s" "participants s' = participants s" "drawn s \<le> drawn s'"
proof -
  have eq: "s' = s\<lparr>drawn := drawn s', locations := locations s', room_zones := room_zones s'\<rparr>" "drawn s \<le> drawn s'"
    using assms by (simp_all add: topology_frame_def)
  show "rng s' = rng s" "sha256_hex s' = sha256_hex s" "move_jobs s' = move_jobs s" "access_tokens s' = access_tokens s"
    "invitations s' = invitations s" "participants s' = participants s" by (subst eq(1), simp)+
  show "drawn s \<le> drawn s'" by (rule eq(2))
qed

lemma foldR_rel:
  assumes "\<And>x s s'. f x s = Inr s' \<Longrightarrow> K s s'" "\<And>s. K s s" "\<And>s t u. K s t \<Longrightarrow> K t u \<Longrightarrow> K s u" "foldR f xs s = Inr s'"
  shows "K s s'"
  using assms(4)
proof (induction xs arbitrary: s)
  case (Cons x xs)
  then obtain t where "f x s = Inr t" "foldR f xs t = Inr s'" by (auto simp: bindR_Inr)
  then show ?case using assms(1,3) Cons.IH by blast
qed (use assms(2) in simp)

lemma add_zone_frame: "add_zone l now z s = Inr s' \<Longrightarrow> topology_frame s s'"
  by (auto simp: add_zone_def uuid4_def insert_room_zone_def topology_frame_def split: if_splits)

lemma add_location_frame:
  assumes "add_location j now l s = Inr s'"
  shows "topology_frame s s'"
proof -
  obtain t where t: "insert_location \<lparr>loc_id = rng s (drawn s), loc_job_id = j, loc_kind = lcr_kind l, loc_label = lcr_label l,
      loc_detail_address = lcr_detail_address l, loc_conditions = lcr_conditions l, loc_created_at = now\<rparr> (s\<lparr>drawn := Suc (drawn s)\<rparr>) = Inr t"
      "foldR (add_zone (rng s (drawn s)) now) (lcr_room_zones l) t = Inr s'"
    using assms by (auto simp: add_location_def uuid4_def bindR_Inr)
  have "topology_frame s t" using t(1) by (auto simp: insert_location_def topology_frame_def split: if_splits)
  moreover have "topology_frame t s'"
    by (rule foldR_rel[where K = topology_frame, OF _ _ _ t(2)]) (blast intro: add_zone_frame topology_frame_refl topology_frame_trans)+
  ultimately show ?thesis by (rule topology_frame_trans)
qed

lemma locations_frame:
  assumes "locations_from_command j now ls s = Inr s'"
  shows "topology_frame s s'"
  by (rule foldR_rel[where K = topology_frame, OF _ _ _ assms[unfolded locations_from_command_def]])
    (blast intro: add_location_frame topology_frame_refl topology_frame_trans)+

lemma issue_link_row:
  assumes "issue_access_link p actor operation invitation_id None now s = Inr (l, s')"
  obtains link where "link = new_access_token (alr_id l) (jp_id p) (sha256_hex s (alr_secret l)) (now + ACCESS_TOKEN_TTL) now"
    "access_tokens s' = access_tokens s @ [link]" "\<not> list_ex (token_clash link) (access_tokens s)" "access_token_check link"
    "alr_id l = rng s (Suc (drawn s))" "alr_secret l = base64_fixed 43 (4 * rng s (drawn s))" "participants s' = participants s"
    "invitations s' = invitations s" "sha256_hex s' = sha256_hex s" "move_jobs s' = move_jobs s" "rng s' = rng s" "drawn s \<le> drawn s'"
proof -
  let ?r = "new_access_token (rng s (Suc (drawn s))) (jp_id p) (sha256_hex s (base64_fixed 43 (4 * rng s (drawn s)))) (now + ACCESS_TOKEN_TTL) now"
  obtain s3 where s3: "insert_access_token ?r (s\<lparr>drawn := Suc (Suc (drawn s))\<rparr>) = Inr s3"
      "l = \<lparr>alr_id = rng s (Suc (drawn s)), alr_job_id = jp_job_id p, alr_participant_id = jp_id p, alr_role = jp_role p,
        alr_secret = base64_fixed 43 (4 * rng s (drawn s)), alr_expires_at = now + ACCESS_TOKEN_TTL\<rparr>"
      "s' = add_audit_event (jp_job_id p) AU_ACCESS_LINK_ISSUED actor (link_payload (rng s (Suc (drawn s))) p @
        optional_entry ''operation'' (map_option JStr operation) @ optional_entry ''invitation_id'' (map_option id_json invitation_id)) now s3"
    using assms by (auto simp: issue_access_link_def token_urlsafe32_def uuid4_def Let_def bindR_Inr simp del: base64_fixed.simps)
  have "access_token_check ?r" "\<not> list_ex (token_clash ?r) (access_tokens s)"
    "s3 = s\<lparr>drawn := Suc (Suc (drawn s)), access_tokens := access_tokens s @ [?r]\<rparr>"
    using s3(1) by (auto simp: insert_access_token_def simp del: base64_fixed.simps split: if_splits)
  then show thesis using s3(2,3)
    by (intro that[of ?r]) (auto simp: add_audit_event_def uuid4_def simp del: base64_fixed.simps)
qed

lemma base64_fixed_url: "list_all url_safe_char (base64_fixed w n)"
proof (induction w arbitrary: n)
  case (Suc w)
  have "url_safe_char (base64_char (n mod 64))"
    by (auto simp: url_safe_char_def base64_char_def is_upper_def is_lower_def is_digit_def in_range_def)
  then show ?case using Suc by simp
qed simp

text \<open>A link that was never used lets its bearer in.\<close>

lemma new_link_admits:
  assumes "find (\<lambda>r. at_token_hash r = sha256_hex s secret) (access_tokens s) = Some link" "access_secret_pattern secret"
    "distinct (map at_id (access_tokens s))" "at_rate_window_started_at link = None" "at_revoked_at link = None" "t < at_expires_at link"
    "invitation_of_link (at_id link) s = None" "row jp_id (at_participant_id link) (participants s) = Some p" "1 \<le> limit"
  shows "\<exists>a s'. authenticate_access_token secret None limit window pending None t s = Inr (a, s') \<and> ac_job_id a = Some (jp_job_id p) \<and>
    ac_participant_id a = Some (jp_id p) \<and> ac_participant_role a = Some (jp_role p)"
proof -
  have m: "link \<in> set (access_tokens s)" "at_token_hash link = sha256_hex s secret" using find_mem[OF assms(1)] by auto
  have g: "find (\<lambda>r. at_id r = at_id link \<and> at_token_hash r = at_token_hash link \<and> at_revoked_at r = None \<and> t < at_expires_at r) (access_tokens s) = Some link"
    using m assms(5,6) distinct_map_eq[OF assms(3)] by (intro find_unique) auto
  let ?r = "link\<lparr>at_rate_window_started_at := Some t, at_rate_window_count := 1\<rparr>"
  have c: "count_request t window link = ?r" using assms(4) by (simp add: count_request_def)
  have "increment_database_rate_window (at_id link) (at_token_hash link) t window s = Inr ((1, t), put_token ?r s)"
    unfolding increment_database_rate_window_def g option.case c Let_def by simp
  then have e: "enforce_access_rate_limit link None t limit window s = Inr (put_token ?r s)"
    using assms(9) by (simp add: enforce_access_rate_limit_def)
  have b: "\<not> invitation_bars t pending None" by (simp add: invitation_bars_def)
  obtain a s' where a: "participant_actor p None (record_use link p None t (put_token ?r s)) = Inr (a, s')"
    using participant_actor_returns by blast
  have "authenticate_access_token secret None limit window pending None t s = Inr (a, s')"
    using assms(2,5,6) b a unfolding authenticate_access_token_def assms(1) option.case assms(7,8) e bindR_simps by simp
  then show ?thesis using participant_actor_eq(2,3,4)[OF a] by auto
qed

lemma create_customer_parts:
  assumes "create_customer_move_job cmd now s = Inr (resp, s')"
  obtains s1 customer where "mjr_id (ccr_job resp) = rng s (drawn s)" "ccr_connection_code resp = connection_code_of (rng s (drawn s))"
    "issue_access_link customer None None None None now s1 = Inr (ccr_customer_access_link resp, s')"
    "move_jobs s1 = move_jobs s @ [new_move_job (rng s (drawn s)) (cmj_title cmd) (cmj_scheduled_at cmd) now]"
    "participants s1 = participants s @ [customer]" "jp_id customer = rng s (Suc (drawn s))" "jp_job_id customer = rng s (drawn s)"
    "jp_role customer = CUSTOMER" "access_tokens s1 = access_tokens s" "invitations s1 = invitations s" "rng s1 = rng s" "sha256_hex s1 = sha256_hex s"
    "drawn s \<le> drawn s1"
proof -
  let ?i = "rng s (drawn s)"
  let ?j = "new_move_job ?i (cmj_title cmd) (cmj_scheduled_at cmd) now"
  let ?s2 = "s\<lparr>drawn := Suc (drawn s), move_jobs := move_jobs s @ [?j]\<rparr>"
  let ?p = "\<lparr>jp_id = rng s (Suc (drawn s)), jp_job_id = ?i, jp_role = CUSTOMER, jp_display_name = cmj_customer_display_name cmd, jp_created_at = now\<rparr>"
  obtain s3 s4 customer where s: "insert_participant ?p (?s2\<lparr>drawn := Suc (Suc (drawn s))\<rparr>) = Inr s3" "locations_from_command ?i now (cmj_locations cmd) s3 = Inr s4"
      "participant_in_role ?i CUSTOMER (record_job_created ?i now s4) = Some customer"
      "issue_access_link customer None None None None now (record_job_created ?i now s4) = Inr (ccr_customer_access_link resp, s')"
      "mjr_id (ccr_job resp) = ?i" "ccr_connection_code resp = connection_code_of ?i"
    using assms by (auto simp: create_customer_move_job_def insert_topology_def uuid4_def Let_def bindR_Inr add_participant_def new_move_job_def
        to_response_def split: option.splits)
  have s3: "s3 = ?s2\<lparr>drawn := Suc (Suc (drawn s)), participants := participants s @ [?p]\<rparr>"
    "\<not> list_ex (\<lambda>x. jp_job_id x = ?i \<and> jp_role x = CUSTOMER) (participants s)"
    using s(1) by (auto simp: insert_participant_def split: if_splits)
  let ?s1 = "record_job_created ?i now s4"
  note f = topology_frameD[OF locations_frame[OF s(2)]]
  have "find (\<lambda>p. jp_job_id p = ?i \<and> jp_role p = CUSTOMER) (participants s) = None" using s3(2) by (simp add: find_None_iff list_ex_iff)
  then have "participant_in_role ?i CUSTOMER ?s1 = Some ?p"
    using f(6) s3(1) by (simp add: participant_in_role_def record_job_created_def add_audit_event_def uuid4_def find_append)
  then have "customer = ?p" using s(3) by simp
  then show thesis
    by (intro that[of customer ?s1]) (use s f s3 in \<open>auto simp: record_job_created_def add_audit_event_def uuid4_def\<close>)
qed

section \<open>The connection code of a new job\<close>

lemma like_all: "like ''%'' t"
  by (induction t) simp_all

lemma like_prefix:
  "list_all (\<lambda>c. c \<noteq> CHR ''%'' \<and> c \<noteq> CHR ''_'' \<and> c \<noteq> CHR 0x5C) p \<Longrightarrow> like (p @ ''%'') t \<longleftrightarrow> take (length p) t = p"
proof (induction p arbitrary: t)
  case Nil
  then show ?case using like_all by simp
next
  case (Cons c p)
  then show ?case by (cases t) auto
qed

lemma hex_case:
  assumes "is_lower_hex c"
  shows "lower_char (upper_char c) = c" "upper_char (upper_char c) = upper_char c" "is_hex (upper_char c)" "\<not> is_space (upper_char c)"
    "c \<noteq> CHR ''%''" "c \<noteq> CHR ''_''" "c \<noteq> CHR 0x5C"
  using assms
  by (auto simp: is_lower_hex_def upper_char_def lower_char_def is_lower_def is_upper_def is_digit_def in_range_def is_hex_def is_space_def Let_def)

lemma hex_not_special: "is_hex c \<Longrightarrow> c \<noteq> CHR ''_'' \<and> c \<noteq> CHR ''+'' \<and> c \<noteq> CHR ''-''"
  by (auto simp: is_hex_def is_digit_def in_range_def)

lemma hex_run_all: "list_all (\<lambda>c. is_hex c \<and> c \<noteq> CHR ''_'') t \<Longrightarrow> t \<noteq> [] \<Longrightarrow> hex_run t"
  by (induction t rule: hex_run.induct) auto

lemma new_code:
  fixes i :: uuid
  defines "h \<equiv> take 8 (hex_fixed 32 i)"
  shows "code_pattern (connection_code_of i) = h @ ''%''" "like (h @ ''%'') (uuid_str k) \<longleftrightarrow> take 8 (hex_fixed 32 k) = h"
    "normalize_connection_code (connection_code_of i) = Inr (connection_code_of i)"
proof -
  have hx: "\<forall>c \<in> set h. is_lower_hex c" "length h = 8"
    using hex_fixed_hex[of _ 32 i] by (auto simp: h_def dest: in_set_takeD)
  have low: "map lower_char (map upper_char h) = h" "map upper_char (map upper_char h) = map upper_char h"
    using hx(1) hex_case(1,2) by (auto intro: map_idI)
  show "code_pattern (connection_code_of i) = h @ ''%''" using low by (simp add: code_pattern_def connection_code_of_def h_def)
  have "take 8 (uuid_str k) = take 8 (hex_fixed 32 k)" by (simp add: uuid_str_def Let_def)
  then show "like (h @ ''%'') (uuid_str k) \<longleftrightarrow> take 8 (hex_fixed 32 k) = h"
    using like_prefix[of h] hx hex_case(5-7) by (simp add: list_all_iff)
  let ?u = "map upper_char h"
  have "hex_run ?u" using hx hex_case(3) hex_not_special by (intro hex_run_all) (auto simp: list_all_iff)
  moreover have "strip ?u = ?u" "strip (''MOVE-'' @ ?u) = ''MOVE-'' @ ?u"
    using hx(1) hex_case(4) by (intro strip_no_space; force simp: list_all_iff is_space_def Let_def)+
  moreover have "length ?u = 8" using hx(2) by simp
  moreover have "map upper_char ''MOVE-'' = ''MOVE-''" by code_simp
  moreover obtain c r where "?u = c # r" "c \<noteq> CHR ''+''" "c \<noteq> CHR ''-''" using hx hex_case(3) hex_not_special by (cases h) auto
  ultimately show "normalize_connection_code (connection_code_of i) = Inr (connection_code_of i)"
    using low(2) hx(2) by (simp add: normalize_connection_code_def connection_code_of_def Let_def int16_ok_def flip: h_def)
qed

text \<open>Property C21: whoever creates a job as its customer is let in at once. Until the link expires, and where no cache counts the requests, the secret in the
  answer authenticates as the customer of the new job; and unless the first eight digits of its identifier are
  those of another job that is not canceled, the connection code in the answer passes the validator as it is and
  leads to the new job.\<close>

theorem new_customer_comes_in:
  assumes "access_inv s" "create_customer_move_job cmd now s = Inr (resp, s')"
  shows "(\<forall>t limit window pending. t < now + ACCESS_TOKEN_TTL \<longrightarrow> 1 \<le> limit \<longrightarrow>
      (\<exists>a s''. authenticate_access_token (alr_secret (ccr_customer_access_link resp)) None limit window pending None t s' = Inr (a, s'') \<and>
         ac_job_id a = Some (mjr_id (ccr_job resp)) \<and> ac_participant_role a = Some CUSTOMER)) \<and>
    ((\<forall>j \<in> set (move_jobs s). mj_status j \<noteq> CANCELED \<longrightarrow> take 8 (hex_fixed 32 (mj_id j)) \<noteq> take 8 (hex_fixed 32 (mjr_id (ccr_job resp)))) \<longrightarrow>
      normalize_connection_code (ccr_connection_code resp) = Inr (ccr_connection_code resp) \<and>
      (\<exists>j. load_move_connection_job (ccr_connection_code resp) s' = Inr j \<and> mj_id j = mjr_id (ccr_job resp)))"
  using assms(2)
proof (rule create_customer_parts)
  fix s1 customer
  assume id: "mjr_id (ccr_job resp) = rng s (drawn s)" and code: "ccr_connection_code resp = connection_code_of (rng s (drawn s))"
    and issued: "issue_access_link customer None None None None now s1 = Inr (ccr_customer_access_link resp, s')"
    and jobs: "move_jobs s1 = move_jobs s @ [new_move_job (rng s (drawn s)) (cmj_title cmd) (cmj_scheduled_at cmd) now]"
    and ps: "participants s1 = participants s @ [customer]" "jp_id customer = rng s (Suc (drawn s))" "jp_job_id customer = rng s (drawn s)" "jp_role customer = CUSTOMER"
    and same: "access_tokens s1 = access_tokens s" "invitations s1 = invitations s" "rng s1 = rng s" "sha256_hex s1 = sha256_hex s" "drawn s \<le> drawn s1"
  let ?l = "ccr_customer_access_link resp"
  obtain link where link: "link = new_access_token (alr_id ?l) (jp_id customer) (sha256_hex s1 (alr_secret ?l)) (now + ACCESS_TOKEN_TTL) now"
    "access_tokens s' = access_tokens s1 @ [link]" "\<not> list_ex (token_clash link) (access_tokens s1)" "access_token_check link"
    "alr_id ?l = rng s1 (Suc (drawn s1))" "alr_secret ?l = base64_fixed 43 (4 * rng s1 (drawn s1))" "participants s' = participants s1"
    "invitations s' = invitations s1" "sha256_hex s' = sha256_hex s1" "move_jobs s' = move_jobs s1" "rng s' = rng s1" "drawn s1 \<le> drawn s'"
    by (rule issue_link_row[OF issued])
  have new: "rng s k \<notin> drawn_ids s" if "drawn s \<le> k" for k
  proof
    assume "rng s k \<in> drawn_ids s"
    then obtain m where "m < drawn s" "rng s m = rng s k" by (auto simp: drawn_ids_def)
    moreover have "inj (rng s)" using assms(1) by (simp add: access_inv_def fresh_supply_def)
    ultimately show False using that by (metis injD not_le)
  qed
  have "at_id link = rng s (Suc (drawn s1))" using link(1,5) same(3) by (simp add: new_access_token_def)
  then have fresh: "at_id link \<notin> at_id ` set (access_tokens s)" "jp_id customer \<notin> jp_id ` set (participants s)"
    using new[of "Suc (drawn s1)"] new[of "Suc (drawn s)"] same(5) ps(2) token_drawn[OF assms(1)] assms(1)
    by (auto simp: access_inv_def participants_inv_def)
  have "find (\<lambda>r. at_token_hash r = sha256_hex s' (alr_secret ?l)) (access_tokens s) = None"
    using link(1,3,9) same(1) by (auto simp: find_None_iff list_ex_iff token_clash_def new_access_token_def)
  then have f: "find (\<lambda>r. at_token_hash r = sha256_hex s' (alr_secret ?l)) (access_tokens s') = Some link"
    using link(1,2,9) same(1) by (simp add: find_append new_access_token_def)
  have "pi_access_link_id i \<noteq> at_id link" if "i \<in> set (invitations s)" for i
    using invitation_facts(1)[OF assms(1) that] fresh(1) unfolding invitation_sound_def by (metis image_eqI)
  then have uninvited: "invitation_of_link (at_id link) s' = None" using link(8) same(2) by (auto simp: invitation_of_link_def find_None_iff)
  have p: "row jp_id (at_participant_id link) (participants s') = Some customer"
    using fresh(2) ps(1) link(1,7) row_None_iff[of jp_id "jp_id customer" "participants s"] by (simp add: new_access_token_def)
  have d: "distinct (map at_id (access_tokens s'))" using assms(1) fresh(1) link(2) same(1) by (auto simp: access_inv_def tokens_inv_def)
  have pat: "access_secret_pattern (alr_secret ?l)"
    unfolding link(6) access_secret_pattern_def by (simp add: base64_fixed_url del: base64_fixed.simps)
  have "\<exists>a s''. authenticate_access_token (alr_secret ?l) None limit window pending None t s' = Inr (a, s'') \<and>
      ac_job_id a = Some (mjr_id (ccr_job resp)) \<and> ac_participant_role a = Some CUSTOMER"
    if "t < now + ACCESS_TOKEN_TTL" "1 \<le> limit" for t limit window pending
    using new_link_admits[OF f pat d _ _ _ uninvited p that(2), of t window pending] that(1) link(1) id ps(3,4) by (auto simp: new_access_token_def)
  moreover have "normalize_connection_code (ccr_connection_code resp) = Inr (ccr_connection_code resp) \<and>
      (\<exists>j. load_move_connection_job (ccr_connection_code resp) s' = Inr j \<and> mj_id j = mjr_id (ccr_job resp))"
    if alone: "\<forall>j \<in> set (move_jobs s). mj_status j \<noteq> CANCELED \<longrightarrow> take 8 (hex_fixed 32 (mj_id j)) \<noteq> take 8 (hex_fixed 32 (mjr_id (ccr_job resp)))"
  proof -
    let ?j = "new_move_job (rng s (drawn s)) (cmj_title cmd) (cmj_scheduled_at cmd) now"
    have "filter (\<lambda>j. mj_status j \<noteq> CANCELED \<and> like (code_pattern (connection_code_of (rng s (drawn s)))) (uuid_str (mj_id j))) (move_jobs s') = [?j]"
      using alone unfolding new_code link(10) jobs id by (auto simp: new_move_job_def filter_empty_conv)
    then show ?thesis using new_code(3) id code by (simp add: load_move_connection_job_def new_move_job_def)
  qed
  ultimately show ?thesis by blast
qed

section \<open>Canceling a job\<close>

lemma revoke_all_inv:
  fixes now :: instant
  assumes "access_inv s"
  defines "f \<equiv> \<lambda>i. i\<lparr>pi_status := INV_REVOKED, pi_resolved_at := Some now\<rparr>"
  shows "access_inv (s\<lparr>invitations := update_where (\<lambda>i. pi_job_id i = job) f (invitations s)\<rparr>)"
proof -
  let ?s = "s\<lparr>invitations := update_where (\<lambda>i. pi_job_id i = job) f (invitations s)\<rparr>"
  have "invitation_sound ?s i'" if i': "i' \<in> set (update_where (\<lambda>i. pi_job_id i = job) f (invitations s))" for i'
  proof -
    obtain i where i: "i \<in> set (invitations s)" "i' = i \<or> i' = f i" using i' by (auto simp: update_where_def split: if_splits)
    have "invitation_sound s i" by (rule invitation_facts(1)[OF assms(1) i(1)])
    then show ?thesis using i(2) by (auto simp: invitation_sound_def invitation_check_def f_def drawn_ids_def)
  qed
  moreover have "map pi_id (invitations ?s) = map pi_id (invitations s)" "map (\<lambda>i. (pi_job_id i, pi_role i)) (invitations ?s) = map (\<lambda>i. (pi_job_id i, pi_role i)) (invitations s)"
    "map pi_access_link_id (invitations ?s) = map pi_access_link_id (invitations s)"
    "map pi_invitee_participant_id (invitations ?s) = map pi_invitee_participant_id (invitations s)"
    by (auto simp: update_where_def f_def)
  ultimately have "invitations_inv ?s" using assms(1) unfolding access_inv_def invitations_inv_def by simp
  then show ?thesis using assms(1)
    by (simp add: access_inv_def fresh_supply_def participants_inv_def tokens_inv_def workspace_inv_def drawn_ids_def)
qed

lemma revoke_link_jobs: "revoke_access_link l actor operation now s = Inr s' \<Longrightarrow> move_jobs s' = move_jobs s \<and> invitations s' = invitations s"
  by (auto simp: revoke_access_link_def Let_def add_audit_event_def uuid4_def revoke_workspace_memberships_def put_token_def split: option.splits if_splits)

lemma revoke_links_cut:
  assumes "access_inv s" "\<forall>r \<in> set rs. r \<in> set (access_tokens s)"
  shows "\<exists>s'. foldR (\<lambda>r. revoke_access_link (at_id r) actor operation now) rs s = Inr s' \<and> access_inv s' \<and> cuts s s' \<and>
    (\<forall>r \<in> set rs. \<forall>x \<in> set (access_tokens s'). at_id x = at_id r \<longrightarrow> at_revoked_at x \<noteq> None)"
proof (rule foldR_cuts[where Q = "\<lambda>r s. at_id r \<in> at_id ` set (access_tokens s)"])
  fix r :: ParticipantAccessToken and t
  assume t: "access_inv t" "at_id r \<in> at_id ` set (access_tokens t)"
  obtain link where link: "row at_id (at_id r) (access_tokens t) = Some link" using t(2) by (metis not_None_eq row_None_iff)
  obtain u where u: "revoke_access_link (at_id r) actor operation now t = Inr u" "cuts t u"
      "\<forall>x \<in> set (access_tokens u). at_id x = at_id r \<longrightarrow> at_revoked_at x \<noteq> None"
    using revoke_link_cuts[OF t(1) link] by blast
  have "access_inv u" by (rule steps_inv[OF revoke_link_steps[OF u(1) t(1)] t(1)])
  then show "\<exists>u. revoke_access_link (at_id r) actor operation now t = Inr u \<and> access_inv u \<and> cuts t u \<and>
      (\<forall>x \<in> set (access_tokens u). at_id x = at_id r \<longrightarrow> at_revoked_at x \<noteq> None)" using u by blast
next
  fix r :: ParticipantAccessToken and t u
  assume "cuts t u" "at_id r \<in> at_id ` set (access_tokens t)"
  then show "at_id r \<in> at_id ` set (access_tokens u)" unfolding cuts_def by (metis list.set_map)
next
  fix r :: ParticipantAccessToken and t u
  assume c: "cuts t u" "\<forall>x \<in> set (access_tokens t). at_id x = at_id r \<longrightarrow> at_revoked_at x \<noteq> None"
  show "\<forall>x \<in> set (access_tokens u). at_id x = at_id r \<longrightarrow> at_revoked_at x \<noteq> None"
  proof (intro ballI impI)
    fix x assume x: "x \<in> set (access_tokens u)" "at_id x = at_id r"
    obtain y where "y \<in> set (access_tokens t)" "link_evolves y x" using cuts_links[OF c(1) x(1)] by blast
    then show "at_revoked_at x \<noteq> None" using c(2) x(2) by (simp add: link_evolves_def)
  qed
qed (use assms in auto)

text \<open>A participant that holds no live link and was not invited: one that came in with the connection code, or whose links were
  all revoked before.\<close>

definition unlinked :: "db \<Rightarrow> uuid \<Rightarrow> bool" where
  "unlinked s pid = ((\<forall>r \<in> set (access_tokens s). at_participant_id r = pid \<longrightarrow> at_revoked_at r \<noteq> None) \<and>
     (\<forall>i \<in> set (invitations s). pi_invitee_participant_id i \<noteq> pid))"

text \<open>What a cookie has to meet to open a job.\<close>

lemma put_session_access [simp]:
  "member_account p i (put_session w s) = member_account p i s" "participants (put_session w s) = participants s"
  "invitation_of_invitee pid (put_session w s) = invitation_of_invitee pid s"
  by (simp_all add: member_account_def put_session_def invitation_of_invitee_def)

definition cookie_session :: "string \<Rightarrow> string option \<Rightarrow> instant \<Rightarrow> db \<Rightarrow> WorkspaceSession \<Rightarrow> WorkspaceAccount \<Rightarrow> bool" where
  "cookie_session secret csrf t s w account = (access_secret_pattern secret \<and>
     find (\<lambda>w. ws_token_hash w = sha256_hex s secret) (workspace_sessions s) = Some w \<and>
     row wa_id (ws_account_id w) (workspace_accounts s) = Some account \<and> ws_revoked_at w = None \<and> t < ws_expires_at w \<and>
     (\<forall>x. csrf = Some x \<longrightarrow> ws_csrf_token w = x))"

definition cookie_participant :: "uuid \<Rightarrow> WorkspaceAccount \<Rightarrow> db \<Rightarrow> JobParticipant option" where
  "cookie_participant job account s =
     find (\<lambda>p. jp_job_id p = job \<and> jp_role p = wa_role account \<and> member_account p (wa_id account) s) (participants s)"

lemma cookie_opensD:
  assumes "authenticate_workspace_actor secret job csrf corr t s = Inr (a, u)"
  obtains w account p where "cookie_session secret csrf t s w account" "cookie_participant job account s = Some p"
    "\<not> unaccepted (invitation_of_invitee (jp_id p) s)" "participant_actor p corr (put_session (w\<lparr>ws_last_used_at := Some t\<rparr>) s) = Inr (a, u)"
proof -
  obtain principal s1 where l: "authenticate_workspace_account secret csrf t s = Inr (principal, s1)"
    using assms by (auto simp: authenticate_workspace_actor_def bindR_Inr)
  then obtain w account where w: "cookie_session secret csrf t s w account" "wp_role principal = wa_role account"
      "wp_account_id principal = wa_id account" "s1 = put_session (w\<lparr>ws_last_used_at := Some t\<rparr>) s"
    unfolding authenticate_workspace_account_def load_session_def cookie_session_def
    by (auto simp: bindR_Inr Let_def split: if_splits option.splits)
  then obtain p where "cookie_participant job account s = Some p" "\<not> unaccepted (invitation_of_invitee (jp_id p) s)"
      "participant_actor p corr s1 = Inr (a, u)"
    using assms l by (auto simp: authenticate_workspace_actor_def cookie_participant_def split: option.splits if_splits)
  then show thesis using that w(1,4) by blast
qed

lemma cookie_opensI:
  assumes "cookie_session secret csrf t s w account" "cookie_participant job account s = Some p"
    "\<not> unaccepted (invitation_of_invitee (jp_id p) s)" "participant_actor p corr (put_session (w\<lparr>ws_last_used_at := Some t\<rparr>) s) = Inr (a, u)"
  shows "authenticate_workspace_actor secret job csrf corr t s = Inr (a, u)"
  using assms by (simp add: authenticate_workspace_actor_def authenticate_workspace_account_def load_session_def cookie_session_def
    cookie_participant_def Let_def split: option.splits)

lemma participant_actor_again:
  assumes "participant_actor p corr s = Inr (a, u)"
  shows "\<exists>a' u'. participant_actor p corr v = Inr (a', u') \<and> ac_participant_id a' = Some (jp_id p)"
proof (cases corr)
  case None
  then show ?thesis using participant_actor_returns[of p v] participant_actor_eq(2) by blast
next
  case (Some c)
  then obtain request trace where "corr = Some (request, trace)" by fastforce
  then show ?thesis using assms by (auto simp: participant_actor_def mk_actor_context_def Let_def bindR_Inr split: if_splits)
qed

text \<open>The memberships the revoked links take along.\<close>

definition left_workspaces :: "ParticipantAccessToken list \<Rightarrow> instant \<Rightarrow> WorkspaceMembership list \<Rightarrow> WorkspaceMembership list" where
  "left_workspaces rs now = update_where (\<lambda>m. wm_participant_id m \<in> at_participant_id ` set rs \<and> wm_revoked_at m = None)
     (\<lambda>m. m\<lparr>wm_revoked_at := Some now\<rparr>)"

lemma left_workspaces_Cons: "left_workspaces rs now (left_workspaces [r] now ms) = left_workspaces (r # rs) now ms"
  by (auto simp: left_workspaces_def update_where_def)

lemma revoke_links_members:
  assumes "foldR (\<lambda>r. revoke_access_link (at_id r) actor operation now) rs s = Inr s'" "distinct (map at_id rs)"
    and "\<forall>r \<in> set rs. row at_id (at_id r) (access_tokens s) = Some r \<and> at_revoked_at r = None"
  shows "workspace_memberships s' = left_workspaces rs now (workspace_memberships s) \<and> workspace_accounts s' = workspace_accounts s \<and>
    workspace_sessions s' = workspace_sessions s \<and> sha256_hex s' = sha256_hex s"
  using assms
proof (induction rs arbitrary: s)
  case Nil
  then show ?case by (simp add: left_workspaces_def update_where_def)
next
  case (Cons r rs)
  obtain t where t: "revoke_access_link (at_id r) actor operation now s = Inr t" "foldR (\<lambda>r. revoke_access_link (at_id r) actor operation now) rs t = Inr s'"
    using Cons.prems(1) by (auto simp: bindR_Inr)
  have r: "row at_id (at_id r) (access_tokens s) = Some r" "at_revoked_at r = None" using Cons.prems(3) by simp_all
  have now: "workspace_memberships t = left_workspaces [r] now (workspace_memberships s) \<and> workspace_accounts t = workspace_accounts s \<and>
      workspace_sessions t = workspace_sessions s \<and> sha256_hex t = sha256_hex s \<and>
      access_tokens t = put_row at_id (r\<lparr>at_revoked_at := Some now\<rparr>) (access_tokens s)"
    using t(1) r by (auto simp: revoke_access_link_def revoke_workspace_memberships_def put_token_def add_audit_event_def uuid4_def
      left_workspaces_def Let_def dest: row_key split: option.splits)
  have "\<forall>x \<in> set rs. row at_id (at_id x) (access_tokens t) = Some x \<and> at_revoked_at x = None"
    using Cons.prems(2,3) now by (auto simp: row_put_row image_iff)
  then show ?case using Cons.IH[OF t(2)] Cons.prems(2) now left_workspaces_Cons by simp
qed

lemma list_ex_mapped: "list_ex P (map f xs) = (\<exists>x \<in> set xs. P (f x))"
  by (induction xs) auto

lemma member_left:
  assumes "workspace_memberships s' = left_workspaces rs now (workspace_memberships s)"
  shows "member_account p i s' \<longleftrightarrow> member_account p i s \<and> jp_id p \<notin> at_participant_id ` set rs"
proof
  assume "member_account p i s'"
  then show "member_account p i s \<and> jp_id p \<notin> at_participant_id ` set rs"
    unfolding member_account_def assms left_workspaces_def update_where_def list_ex_mapped unfolding list_ex_iff by (auto split: if_splits)
next
  assume m: "member_account p i s \<and> jp_id p \<notin> at_participant_id ` set rs"
  then obtain m where "m \<in> set (workspace_memberships s)" "wm_participant_id m = jp_id p" "wm_account_id m = i" "wm_revoked_at m = None"
    unfolding member_account_def list_ex_iff by blast
  then show "member_account p i s'"
    unfolding member_account_def assms left_workspaces_def update_where_def list_ex_mapped using m by (intro bexI[of _ m]) simp_all
qed

lemma find_narrowed: "find P xs = Some x \<Longrightarrow> Q x \<Longrightarrow> find (\<lambda>y. P y \<and> Q y) xs = Some x"
  by (induction xs) (auto split: if_splits)

text \<open>What canceling does to the tables of the access.\<close>

definition canceled :: "uuid \<Rightarrow> instant \<Rightarrow> db \<Rightarrow> db \<Rightarrow> bool" where
  "canceled job now s s' = (
     invitations s' = update_where (\<lambda>i. pi_job_id i = job) (\<lambda>i. i\<lparr>pi_status := INV_REVOKED, pi_resolved_at := Some now\<rparr>) (invitations s) \<and>
     participants s' = participants s \<and> workspace_accounts s' = workspace_accounts s \<and> workspace_sessions s' = workspace_sessions s \<and>
     sha256_hex s' = sha256_hex s \<and> workspace_memberships s' = left_workspaces (live_links_of job s) now (workspace_memberships s) \<and>
     (\<forall>x \<in> set (access_tokens s'). \<exists>r \<in> set (access_tokens s). link_evolves r x) \<and>
     (\<forall>r \<in> set (live_links_of job s). \<forall>x \<in> set (access_tokens s'). at_id x = at_id r \<longrightarrow> at_revoked_at x \<noteq> None))"

lemma cancel_parts:
  assumes "access_inv s" "row mj_id job (move_jobs s) = Some j" "mj_status j \<notin> {COMPLETED, CANCELED}" "\<not> has_proposal job s"
  obtains s' where "cancel_move_job job actor now s = Inr s'" "canceled job now s s'"
    "move_jobs s' = put_row mj_id (j\<lparr>mj_status := CANCELED, mj_updated_at := now\<rparr>) (move_jobs s)"
proof -
  let ?f = "\<lambda>i. i\<lparr>pi_status := INV_REVOKED, pi_resolved_at := Some now\<rparr>"
  let ?j = "j\<lparr>mj_status := CANCELED, mj_updated_at := now\<rparr>"
  let ?s1 = "s\<lparr>invitations := update_where (\<lambda>i. pi_job_id i = job) ?f (invitations s)\<rparr>"
  let ?s2 = "put_move_job ?j ?s1" and ?links = "live_links_of job s"
  have i1: "access_inv ?s1" by (rule revoke_all_inv[OF assms(1)])
  have "same_access ?s1 ?s2" by (simp add: same_access_def put_move_job_def)
  then have i2: "access_inv ?s2" using same_access_inv[OF _ i1] by blast
  have "\<forall>r \<in> set ?links. r \<in> set (access_tokens ?s2)" by (simp add: live_links_of_def put_move_job_def)
  then obtain s' where s': "foldR (\<lambda>r. revoke_access_link (at_id r) actor (Some ''job_canceled'') now) ?links ?s2 = Inr s'" "access_inv s'" "cuts ?s2 s'"
      "\<forall>r \<in> set ?links. \<forall>x \<in> set (access_tokens s'). at_id x = at_id r \<longrightarrow> at_revoked_at x \<noteq> None"
    using revoke_links_cut[OF i2] by blast
  have kept: "move_jobs s' = move_jobs ?s2 \<and> invitations s' = invitations ?s2"
    by (rule foldR_rel[where K = "\<lambda>s s'. move_jobs s' = move_jobs s \<and> invitations s' = invitations s", OF revoke_link_jobs _ _ s'(1)]) auto
  have "live_links_of job ?s1 = ?links" by (simp add: live_links_of_def)
  then have cancel: "cancel_move_job job actor now s = Inr s'" using assms(2-4) s'(1) by (simp add: cancel_move_job_def Let_def)
  have d: "distinct (map at_id (access_tokens s))" using assms(1) by (simp add: access_inv_def tokens_inv_def)
  then have "distinct (map at_id ?links)" by (auto simp: live_links_of_def distinct_map intro: inj_on_subset)
  moreover have "\<forall>r \<in> set ?links. row at_id (at_id r) (access_tokens ?s2) = Some r \<and> at_revoked_at r = None"
    using row_of_mem[OF d] by (simp add: live_links_of_def put_move_job_def)
  ultimately have "canceled job now s s'"
    using revoke_links_members[OF s'(1)] kept s'(3,4) cuts_links[OF s'(3)] by (simp add: canceled_def cuts_def put_move_job_def)
  then show thesis using that[OF cancel] kept by (simp add: put_move_job_def)
qed

lemma canceled_links:
  assumes "canceled job now s s'" "authenticate_access_token secret cache limit window pending corr t s' = Inr (a, s'')"
  shows "ac_job_id a \<noteq> Some job"
  using assms(2)
proof (rule authenticate_cases)
  fix link p n u s3
  assume l: "find (\<lambda>r. at_token_hash r = sha256_hex s' secret) (access_tokens s') = Some link" "at_revoked_at link = None"
    and p: "row jp_id (at_participant_id link) (participants s') = Some p"
    and a: "participant_actor p corr (record_use link p (invitation_of_link (at_id link) s') t s3) = Inr (a, s'')"
  have m: "link \<in> set (access_tokens s')" using find_mem[OF l(1)] by simp
  then obtain r where r: "r \<in> set (access_tokens s)" "link_evolves r link" using assms(1) unfolding canceled_def by blast
  have "jp_job_id p \<noteq> job"
  proof
    assume "jp_job_id p = job"
    then have "r \<in> set (live_links_of job s)" using r l(2) p assms(1) by (auto simp: live_links_of_def link_evolves_def canceled_def)
    moreover have "at_id link = at_id r" using r(2) by (simp add: link_evolves_def)
    ultimately have "at_revoked_at link \<noteq> None" using assms(1) m unfolding canceled_def by blast
    then show False using l(2) by simp
  qed
  then show ?thesis using participant_actor_eq(3)[OF a] by simp
qed

lemma canceled_invitation:
  assumes "canceled job now s s'" "i \<in> set (invitations s')"
  shows "pi_job_id i = job \<Longrightarrow> pi_status i = INV_REVOKED" "\<exists>k \<in> set (invitations s). pi_invitee_participant_id i = pi_invitee_participant_id k \<and> pi_job_id i = pi_job_id k"
proof -
  let ?f = "\<lambda>i. if pi_job_id i = job then i\<lparr>pi_status := INV_REVOKED, pi_resolved_at := Some now\<rparr> else i"
  have e: "invitations s' = map ?f (invitations s)" using assms(1) by (simp add: canceled_def update_where_def)
  obtain k where k: "k \<in> set (invitations s)" "i = ?f k" using imageE[OF assms(2)[unfolded e set_map]] by metis
  show "pi_job_id i = job \<Longrightarrow> pi_status i = INV_REVOKED" using k(2) by (simp split: if_splits)
  show "\<exists>k \<in> set (invitations s). pi_invitee_participant_id i = pi_invitee_participant_id k \<and> pi_job_id i = pi_job_id k" using k by auto
qed

lemma canceled_invitee:
  assumes "access_inv s" "canceled job now s s'" "p \<in> set (participants s)" "jp_job_id p = job"
    and "i \<in> set (invitations s)" "pi_invitee_participant_id i = jp_id p"
  shows "unaccepted (invitation_of_invitee (jp_id p) s')"
proof -
  have d: "distinct (map jp_id (participants s))" using assms(1) by (simp add: access_inv_def participants_inv_def)
  have only: "pi_job_id k = job" if "k \<in> set (invitations s)" "pi_invitee_participant_id k = jp_id p" for k
    using invitation_facts(1)[OF assms(1) that(1)] that(2) d assms(3,4) unfolding invitation_sound_def by (metis distinct_map_eq)
  have invs: "invitations s' = map (\<lambda>i. if pi_job_id i = job then i\<lparr>pi_status := INV_REVOKED, pi_resolved_at := Some now\<rparr> else i) (invitations s)"
    using assms(2) by (simp add: canceled_def update_where_def)
  have "list_ex (\<lambda>i. pi_invitee_participant_id i = jp_id p) (invitations s')"
    unfolding invs list_ex_mapped using assms(5,6) by auto
  then have "invitation_of_invitee (jp_id p) s' \<noteq> None" by (auto simp: invitation_of_invitee_def find_None_iff list_ex_iff)
  then obtain k where k: "find (\<lambda>i. pi_invitee_participant_id i = jp_id p) (invitations s') = Some k"
    unfolding invitation_of_invitee_def by blast
  have m: "k \<in> set (invitations s')" "pi_invitee_participant_id k = jp_id p" using find_mem[OF k] by auto
  then have "pi_job_id k = job" using canceled_invitation(2)[OF assms(2) m(1)] only by metis
  then have "pi_status k = INV_REVOKED" by (rule canceled_invitation(1)[OF assms(2) m(1)])
  then show ?thesis using k by (simp add: unaccepted_def invitation_of_invitee_def)
qed

lemma canceled_cookies:
  assumes "access_inv s" "canceled job now s s'" "authenticate_workspace_actor cookie job csrf corr t s' = Inr (a, s'')"
  shows "\<exists>p \<in> set (participants s). jp_job_id p = job \<and> ac_participant_id a = Some (jp_id p) \<and> unlinked s (jp_id p)"
proof -
  obtain w account p where p: "cookie_participant job account s' = Some p" "\<not> unaccepted (invitation_of_invitee (jp_id p) s')"
      "participant_actor p corr (put_session (w\<lparr>ws_last_used_at := Some t\<rparr>) s') = Inr (a, s'')"
    using assms(3) by (rule cookie_opensD)
  have parts: "participants s' = participants s" and "workspace_memberships s' = left_workspaces (live_links_of job s) now (workspace_memberships s)"
    using assms(2) by (simp_all add: canceled_def)
  then have m: "p \<in> set (participants s)" "jp_job_id p = job" "jp_id p \<notin> at_participant_id ` set (live_links_of job s)"
    using find_mem[OF p(1)[unfolded cookie_participant_def]] member_left by auto
  have "row jp_id (jp_id p) (participants s) = Some p"
    using assms(1) m(1) by (intro row_of_mem) (simp_all add: access_inv_def participants_inv_def)
  then have "at_revoked_at r \<noteq> None" if "r \<in> set (access_tokens s)" "at_participant_id r = jp_id p" for r
    using that m(2,3) by (auto simp: live_links_of_def image_iff)
  then have "unlinked s (jp_id p)" using canceled_invitee[OF assms(1,2) m(1,2)] p(2) unfolding unlinked_def by blast
  then show ?thesis using m(1,2) participant_actor_eq(2)[OF p(3)] by blast
qed

lemma canceled_cookies_kept:
  assumes "canceled job now s s'" "authenticate_workspace_actor cookie job csrf corr t s = Inr (a, u)" "ac_participant_id a = Some pid" "unlinked s pid"
  shows "\<exists>a' s''. authenticate_workspace_actor cookie job csrf corr t s' = Inr (a', s'') \<and> ac_participant_id a' = Some pid"
proof -
  obtain w account p where w: "cookie_session cookie csrf t s w account" and p: "cookie_participant job account s = Some p"
      "participant_actor p corr (put_session (w\<lparr>ws_last_used_at := Some t\<rparr>) s) = Inr (a, u)"
    using assms(2) by (rule cookie_opensD)
  have pid: "jp_id p = pid" using participant_actor_eq(2)[OF p(2)] assms(3) by simp
  have tables: "workspace_accounts s' = workspace_accounts s" "workspace_sessions s' = workspace_sessions s" "sha256_hex s' = sha256_hex s"
      "participants s' = participants s" "workspace_memberships s' = left_workspaces (live_links_of job s) now (workspace_memberships s)"
    using assms(1) by (simp_all add: canceled_def)
  have "jp_id p \<notin> at_participant_id ` set (live_links_of job s)" using assms(4) pid by (auto simp: unlinked_def live_links_of_def)
  from find_narrowed[OF p(1)[unfolded cookie_participant_def], of "\<lambda>p. jp_id p \<notin> at_participant_id ` set (live_links_of job s)", OF this]
  have found: "cookie_participant job account s' = Some p"
    unfolding cookie_participant_def tables(4) member_left[OF tables(5)] by (simp add: conj_assoc)
  have "\<forall>i \<in> set (invitations s'). pi_invitee_participant_id i \<noteq> pid"
    using canceled_invitation(2)[OF assms(1)] assms(4) unfolding unlinked_def by metis
  then have "invitation_of_invitee (jp_id p) s' = None" using pid by (auto simp: invitation_of_invitee_def find_None_iff)
  then have asked: "\<not> unaccepted (invitation_of_invitee (jp_id p) s')" by (simp add: unaccepted_def)
  obtain a' s'' where "participant_actor p corr (put_session (w\<lparr>ws_last_used_at := Some t\<rparr>) s') = Inr (a', s'')" "ac_participant_id a' = Some (jp_id p)"
    using participant_actor_again[OF p(2)] by blast
  moreover have "cookie_session cookie csrf t s' w account" using w tables(1-3) by (simp add: cookie_session_def)
  ultimately show ?thesis using cookie_opensI found asked pid by blast
qed

text \<open>
  Property C25: an open job without a quote can be canceled, and in the state that leaves, every invitation of the job is revoked,
  no link secret authenticates for the job, whichever link it belongs to and whenever it is tried, and no connection code leads to
  it. A browser cookie opens the canceled job only for a participant that at the time of the cancel had no live link and was never invited;
  for such a participant (one that came in with the connection code) the cancel changes nothing: a cookie that opened the job
  before opens it still, although the job was to lose every capability.
\<close>

theorem cancel_closes_job:
  assumes "access_inv s" "row mj_id job (move_jobs s) = Some j" "mj_status j \<notin> {COMPLETED, CANCELED}" "\<not> has_proposal job s"
  shows "\<exists>s'. cancel_move_job job actor now s = Inr s' \<and>
    row mj_id job (move_jobs s') = Some (j\<lparr>mj_status := CANCELED, mj_updated_at := now\<rparr>) \<and>
    (\<forall>i \<in> set (invitations s'). pi_job_id i = job \<longrightarrow> pi_status i = INV_REVOKED) \<and>
    (\<forall>secret cache limit window pending corr t a s''.
       authenticate_access_token secret cache limit window pending corr t s' = Inr (a, s'') \<longrightarrow> ac_job_id a \<noteq> Some job) \<and>
    (\<forall>code k. load_move_connection_job code s' = Inr k \<longrightarrow> mj_id k \<noteq> job) \<and>
    (\<forall>cookie csrf corr t a s''. authenticate_workspace_actor cookie job csrf corr t s' = Inr (a, s'') \<longrightarrow>
       (\<exists>p \<in> set (participants s). jp_job_id p = job \<and> ac_participant_id a = Some (jp_id p) \<and> unlinked s (jp_id p))) \<and>
    (\<forall>cookie csrf corr t a u pid. authenticate_workspace_actor cookie job csrf corr t s = Inr (a, u) \<longrightarrow>
       ac_participant_id a = Some pid \<longrightarrow> unlinked s pid \<longrightarrow>
       (\<exists>a' s''. authenticate_workspace_actor cookie job csrf corr t s' = Inr (a', s'') \<and> ac_participant_id a' = Some pid))"
proof -
  let ?j = "j\<lparr>mj_status := CANCELED, mj_updated_at := now\<rparr>"
  obtain s' where s': "cancel_move_job job actor now s = Inr s'" "canceled job now s s'" "move_jobs s' = put_row mj_id ?j (move_jobs s)"
    by (rule cancel_parts[OF assms])
  have id: "mj_id j = job" by (rule row_key[OF assms(2)])
  then have row: "row mj_id job (move_jobs s') = Some ?j" unfolding s'(3) row_put_row assms(2) by simp
  have invs: "\<forall>i \<in> set (invitations s'). pi_job_id i = job \<longrightarrow> pi_status i = INV_REVOKED"
    using canceled_invitation[OF s'(2)] by blast
  have codes: "\<forall>code k. load_move_connection_job code s' = Inr k \<longrightarrow> mj_id k \<noteq> job"
  proof (intro allI impI)
    fix code k assume "load_move_connection_job code s' = Inr k"
    then have "filter (\<lambda>j. mj_status j \<noteq> CANCELED \<and> like (code_pattern code) (uuid_str (mj_id j))) (move_jobs s') = [k]"
      unfolding load_move_connection_job_def by (simp split: list.splits)
    then have "k \<in> set (move_jobs s')" "mj_status k \<noteq> CANCELED" by (auto simp: filter_eq_Cons_iff)
    then show "mj_id k \<noteq> job" using s'(3) id by (auto simp: put_row_def split: if_splits)
  qed
  have links: "\<forall>secret cache limit window pending corr t a s''.
      authenticate_access_token secret cache limit window pending corr t s' = Inr (a, s'') \<longrightarrow> ac_job_id a \<noteq> Some job"
    using canceled_links[OF s'(2)] by (intro allI impI)
  have cookies: "\<forall>cookie csrf corr t a s''. authenticate_workspace_actor cookie job csrf corr t s' = Inr (a, s'') \<longrightarrow>
      (\<exists>p \<in> set (participants s). jp_job_id p = job \<and> ac_participant_id a = Some (jp_id p) \<and> unlinked s (jp_id p))"
    using canceled_cookies[OF assms(1) s'(2)] by (intro allI impI)
  have kept: "\<forall>cookie csrf corr t a u pid. authenticate_workspace_actor cookie job csrf corr t s = Inr (a, u) \<longrightarrow>
      ac_participant_id a = Some pid \<longrightarrow> unlinked s pid \<longrightarrow>
      (\<exists>a' s''. authenticate_workspace_actor cookie job csrf corr t s' = Inr (a', s'') \<and> ac_participant_id a' = Some pid)"
    using canceled_cookies_kept[OF s'(2)] by (intro allI impI)
  show ?thesis by (intro exI[of _ s'] conjI) (rule s'(1) row invs links codes cookies kept)+
qed

section \<open>Changing the basic information\<close>

lemma current_scope_row:
  assumes "current_scope_of job s = Some v"
  shows "v \<in> set (scope_versions s) \<and> sv_job_id v = job"
proof -
  let ?l = "rev (sort_key (\<lambda>v. (sv_sequence_number v, sv_id v)) (filter (\<lambda>v. sv_job_id v = job) (scope_versions s)))"
  obtain r where "?l = v # r" using assms unfolding current_scope_of_def by (cases ?l) auto
  then have "v \<in> set ?l" by (metis list.set_intros(1))
  then show ?thesis by simp
qed

text \<open>What a location patch leaves alone.\<close>

definition address_frame :: "db \<Rightarrow> db \<Rightarrow> bool" where
  "address_frame s s' = (\<exists>ls. s' = s\<lparr>locations := ls\<rparr>)"

lemma patch_locations_frame:
  assumes "foldR (patch_location job) cs s = Inr s'"
  shows "address_frame s s'"
proof (rule foldR_rel[where K = address_frame, OF _ _ _ assms])
  show "address_frame t u" if "patch_location job c t = Inr u" for c t u
    using that by (auto simp: patch_location_def address_frame_def split: option.splits)
  show "address_frame t t" for t unfolding address_frame_def by (rule exI[of _ "locations t"]) simp
  show "address_frame t v" if "address_frame t u" "address_frame u v" for t u v using that by (auto simp: address_frame_def)
qed

lemma patch_parts:
  assumes "patch_move_job job actor cmd now s = Inr (resp, s')"
  obtains j s1 s2 ty pl where "row mj_id job (move_jobs s) = Some j" "address_frame (put_move_job (patched_job cmd now j) s) s1"
    "(case current_scope_of job s of None \<Rightarrow> Inr s1
      | Some v \<Rightarrow> if changes_scope_conditions cmd \<and> sc_schema_version (sv_content v) = 2 then snapshot_scope job actor v now s1 else Inr s1) = Inr s2"
    "s' = add_audit_event job ty (Some actor) pl now s2" "resp = to_response CUSTOMER (patched_job cmd now j) s'"
    "\<not> (changes_scope_conditions cmd \<and> (case current_scope_of job s of None \<Rightarrow> False | Some v \<Rightarrow> sv_locked_at v \<noteq> None))"
proof -
  let ?pl = "[(''changed_fields'', JList (map JStr (sort (changed_fields cmd))))]"
  obtain j where j: "row mj_id job (move_jobs s) = Some j" using assms by (auto simp: patch_move_job_def split: option.splits)
  have fits: "\<not> (changes_scope_conditions cmd \<and> (case current_scope_of job s of None \<Rightarrow> False | Some v \<Rightarrow> sv_locked_at v \<noteq> None))"
    using assms by (auto simp: patch_move_job_def j Let_def split: if_splits)
  have "bindR (foldR (patch_location job) (location_patches cmd) (put_move_job (patched_job cmd now j) s)) (\<lambda>s1.
      bindR (case current_scope_of job s of None \<Rightarrow> Inr s1
        | Some v \<Rightarrow> if changes_scope_conditions cmd \<and> sc_schema_version (sv_content v) = 2 then snapshot_scope job actor v now s1 else Inr s1) (\<lambda>s2.
      Inr (to_response CUSTOMER (patched_job cmd now j) (add_audit_event job AU_JOB_BASIC_INFO_UPDATED (Some actor) ?pl now s2),
        add_audit_event job AU_JOB_BASIC_INFO_UPDATED (Some actor) ?pl now s2))) = Inr (resp, s')"
    using assms fits unfolding patch_move_job_def j option.case Let_def by (simp split: if_splits)
  then obtain s1 s2 where s1: "foldR (patch_location job) (location_patches cmd) (put_move_job (patched_job cmd now j) s) = Inr s1"
      and s2: "(case current_scope_of job s of None \<Rightarrow> Inr s1
        | Some v \<Rightarrow> if changes_scope_conditions cmd \<and> sc_schema_version (sv_content v) = 2 then snapshot_scope job actor v now s1 else Inr s1) = Inr s2"
      and out: "Inr (to_response CUSTOMER (patched_job cmd now j) (add_audit_event job AU_JOB_BASIC_INFO_UPDATED (Some actor) ?pl now s2),
        add_audit_event job AU_JOB_BASIC_INFO_UPDATED (Some actor) ?pl now s2) = (Inr (resp, s') :: (MoveJobResponse \<times> db) result)"
    unfolding bindR_Inr by blast
  have "s' = add_audit_event job AU_JOB_BASIC_INFO_UPDATED (Some actor) ?pl now s2"
    "resp = to_response CUSTOMER (patched_job cmd now j) s'" using out by auto
  from that[OF j patch_locations_frame[OF s1] s2 this fits] show thesis .
qed

lemma snapshot_parts:
  assumes "snapshot_scope job actor v now s = Inr s'" "sc_schema_version (sv_content v) = 2" "row sv_id (sv_id v) (scope_versions s) = Some v"
  obtains w ty pl where "s' = add_audit_event job ty (Some actor) pl now (s\<lparr>drawn := Suc (drawn s), scope_versions := scope_versions s @ [w]\<rparr>)"
    "sv_job_id w = job" "sv_parent_version_id w = Some (sv_id v)" "sv_sequence_number w = sv_sequence_number v + 1" "sv_locked_at w = None"
    "set (sc_items (sv_content w)) = set (sc_items (sv_content v))"
    "set (sc_location_conditions (sv_content w)) = location_snapshot ` set (locations_of job s)"
proof -
  let ?c = "(sv_content v)\<lparr>sc_location_conditions := []\<rparr>"
  obtain resp where "create_scope_version job (Some actor) (Some (sv_id v)) ?c None False now s = Inr (resp, s')"
    using assms(1) by (auto simp: snapshot_scope_def bindR_Inr mk_scope_content_def split: if_splits sum.splits prod.splits)
  then show thesis
  proof (rule create_version_cases)
    fix c seq w
    assume c: "with_location_condition_snapshot job ?c s = Inr c" and seq: "next_sequence_number job (Some (sv_id v)) False s = Inr seq"
      and w: "w = new_scope_version (rng s (drawn s)) job (Some (sv_id v)) seq (normalize_scope_content c) (content_hash_of (normalize_scope_content c) s) None (Some actor) now"
      and s': "s' = add_audit_event job AU_SCOPE_VERSION_CREATED (Some actor) (version_payload w) now (s\<lparr>drawn := Suc (drawn s), scope_versions := scope_versions s @ [w]\<rparr>)"
    have "c = ?c\<lparr>sc_location_conditions := map location_snapshot (job_locations job s)\<rparr>"
      using c assms(2) by (auto simp: with_location_condition_snapshot_def mk_scope_content_def Let_def split: if_splits)
    moreover have "seq = sv_sequence_number v + 1" using seq assms(3) by (auto simp: next_sequence_number_def split: if_splits)
    ultimately show thesis
      by (intro that[OF s']) (simp_all add: w new_scope_version_def normalize_scope_content_def job_locations_def locations_of_def)
  qed
qed

text \<open>Property C22: a change of the basic information answers with what a later read shows the customer, and it never
  rewrites the scope history: the versions on record stay as they are, and new conditions of a job whose current
  scope is an open version 2 are appended as its child, unlocked, with the same items and exactly the conditions the
  locations now have.\<close>

theorem patch_appends_snapshot:
  assumes "patch_move_job job actor cmd now s = Inr (resp, s')" "distinct (map sv_id (scope_versions s))"
  shows "get_move_job job CUSTOMER s' = Inr resp \<and>
    (if changes_scope_conditions cmd \<and> (\<exists>v. current_scope_of job s = Some v \<and> sc_schema_version (sv_content v) = 2)
     then \<exists>v w. current_scope_of job s = Some v \<and> sv_locked_at v = None \<and> scope_versions s' = scope_versions s @ [w] \<and>
       sv_parent_version_id w = Some (sv_id v) \<and> sv_sequence_number w = sv_sequence_number v + 1 \<and> sv_locked_at w = None \<and>
       set (sc_items (sv_content w)) = set (sc_items (sv_content v)) \<and>
       set (sc_location_conditions (sv_content w)) = location_snapshot ` set (locations_of job s')
     else scope_versions s' = scope_versions s)"
  using assms(1)
proof (rule patch_parts)
  fix j s1 s2 ty pl
  assume j: "row mj_id job (move_jobs s) = Some j" and s1: "address_frame (put_move_job (patched_job cmd now j) s) s1"
    and s2: "(case current_scope_of job s of None \<Rightarrow> Inr s1
      | Some v \<Rightarrow> if changes_scope_conditions cmd \<and> sc_schema_version (sv_content v) = 2 then snapshot_scope job actor v now s1 else Inr s1) = Inr s2"
    and s': "s' = add_audit_event job ty (Some actor) pl now s2" and resp: "resp = to_response CUSTOMER (patched_job cmd now j) s'"
    and open_scope: "\<not> (changes_scope_conditions cmd \<and> (case current_scope_of job s of None \<Rightarrow> False | Some v \<Rightarrow> sv_locked_at v \<noteq> None))"
  have f: "move_jobs s1 = put_row mj_id (patched_job cmd now j) (move_jobs s)" "scope_versions s1 = scope_versions s"
    using s1 by (auto simp: address_frame_def put_move_job_def)
  have id: "mj_id (patched_job cmd now j) = job" using row_key[OF j] by (simp add: patched_job_def)
  have shown: "get_move_job job CUSTOMER s' = Inr resp" if "move_jobs s2 = move_jobs s1"
  proof -
    have "row mj_id job (move_jobs s') = Some (patched_job cmd now j)" unfolding s' add_audit_simps that f(1) row_put_row id j by simp
    then show ?thesis by (simp add: get_move_job_def resp)
  qed
  show ?thesis
  proof (cases "changes_scope_conditions cmd \<and> (\<exists>v. current_scope_of job s = Some v \<and> sc_schema_version (sv_content v) = 2)")
    case True
    then obtain v where v: "current_scope_of job s = Some v" "sc_schema_version (sv_content v) = 2" "changes_scope_conditions cmd" by blast
    have "v \<in> set (scope_versions s)" using current_scope_row[OF v(1)] by simp
    then have "row sv_id (sv_id v) (scope_versions s1) = Some v" unfolding f(2) by (rule row_of_mem[OF assms(2)])
    moreover have "snapshot_scope job actor v now s1 = Inr s2" using s2 v by simp
    ultimately obtain w ty' pl' where w: "s2 = add_audit_event job ty' (Some actor) pl' now (s1\<lparr>drawn := Suc (drawn s1), scope_versions := scope_versions s1 @ [w]\<rparr>)"
        "sv_parent_version_id w = Some (sv_id v)" "sv_sequence_number w = sv_sequence_number v + 1" "sv_locked_at w = None"
        "set (sc_items (sv_content w)) = set (sc_items (sv_content v))"
        "set (sc_location_conditions (sv_content w)) = location_snapshot ` set (locations_of job s1)"
      using snapshot_parts v(2) by metis
    have "locations_of job s' = locations_of job s1" "scope_versions s' = scope_versions s @ [w]" "move_jobs s2 = move_jobs s1"
      using f(2) by (simp_all add: s' w(1) locations_of_def)
    moreover have "sv_locked_at v = None" using open_scope v by simp
    ultimately show ?thesis using True v(1) w shown by auto
  next
    case False
    then have "s2 = s1" using s2 by (auto split: option.splits if_splits)
    then show ?thesis using False shown f(2) by (simp add: s')
  qed
qed

section \<open>Sample jobs\<close>

definition sample_home :: CustomerMoveJobCreate where
  "sample_home = \<lparr>cmj_title = ''move'', cmj_scheduled_at = None, cmj_customer_display_name = ''Kim'',
     cmj_locations = [\<lparr>lcr_kind = ORIGIN, lcr_label = ''home'', lcr_detail_address = None, lcr_conditions = default_conditions,
       lcr_room_zones = [\<lparr>rzc_name = ''room'', rzc_sort_order = 0\<rparr>]\<rparr>]\<rparr>"

abbreviation no_jobs :: db where
  "no_jobs \<equiv> empty_db id sample_digest"

lemma no_jobs_inv: "access_inv no_jobs"
  by (simp add: access_inv_def fresh_supply_def participants_inv_def tokens_inv_def invitations_inv_def workspace_inv_def empty_db_def)

lemma sample_home_created: "\<exists>resp s'. create_customer_move_job sample_home 0 no_jobs = Inr (resp, s') \<and> mjr_id (ccr_job resp) = 0"
  by (simp add: create_customer_move_job_def sample_home_def insert_topology_def new_move_job_def add_participant_def insert_participant_def
      locations_from_command_def add_location_def add_zone_def insert_location_def insert_room_zone_def room_zone_check_def uuid4_def
      participant_in_role_def issue_access_link_def token_urlsafe32_def insert_access_token_def new_access_token_def access_token_check_def
      token_clash_def record_job_created_def to_response_def ACCESS_TOKEN_TTL_def days_def seconds_def sample_digest_facts is_participant_def add_audit_event_def Let_def empty_db_def
      del: base64_fixed.simps)

lemma new_customer_comes_in_witness:
  "\<exists>resp s' a s'' j. create_customer_move_job sample_home 0 no_jobs = Inr (resp, s') \<and>
     authenticate_access_token (alr_secret (ccr_customer_access_link resp)) None 1 60 False None 500 s' = Inr (a, s'') \<and>
     ac_participant_role a = Some CUSTOMER \<and> load_move_connection_job (ccr_connection_code resp) s' = Inr j \<and> mj_id j = 0"
proof -
  obtain resp s' where c: "create_customer_move_job sample_home 0 no_jobs = Inr (resp, s')" "mjr_id (ccr_job resp) = 0"
    using sample_home_created by blast
  have no: "move_jobs no_jobs = []" by (simp add: empty_db_def)
  note w = new_customer_comes_in[OF no_jobs_inv c(1)]
  have t: "(500 :: instant) < 0 + ACCESS_TOKEN_TTL" by (simp add: ACCESS_TOKEN_TTL_def days_def seconds_def)
  obtain a s'' where "authenticate_access_token (alr_secret (ccr_customer_access_link resp)) None 1 60 False None 500 s' = Inr (a, s'')"
      "ac_participant_role a = Some CUSTOMER"
    using conjunct1[OF w] t by fastforce
  moreover obtain j where "load_move_connection_job (ccr_connection_code resp) s' = Inr j" "mj_id j = mjr_id (ccr_job resp)"
    using conjunct2[OF w] no by auto
  ultimately show ?thesis using c by auto
qed

definition sample_open_job :: "uuid \<Rightarrow> MoveJob" where
  "sample_open_job i = (new_move_job i ''move'' None 0)\<lparr>mj_status := ACTIVE\<rparr>"

definition sample_open :: db where
  "sample_open = sample_access\<lparr>move_jobs := [sample_open_job 9]\<rparr>"

text \<open>The same job when its manager came in with the connection code: no link, no invitation, but a workspace of its own.\<close>

definition sample_code_joined :: db where
  "sample_code_joined = sample_open\<lparr>invitations := [], access_tokens := [sample_link 11 1 CHR ''a''],
     workspace_accounts := [\<lparr>wa_id = 16, wa_role = COMPANY_MANAGER, wa_display_name = ''Lee'', wa_created_at = 0\<rparr>],
     workspace_memberships := [\<lparr>wm_id = 17, wm_account_id = 16, wm_participant_id = 2, wm_joined_at = 0, wm_revoked_at = None\<rparr>]\<rparr>"

lemma sample_code_joined_inv: "access_inv sample_code_joined"
proof -
  note defs = sample_code_joined_def sample_open_def sample_access_defs
  have d: "drawn_ids sample_code_joined = {..<20}" by (simp add: drawn_ids_def defs)
  have "fresh_supply sample_code_joined" by (simp add: fresh_supply_def defs)
  moreover have "participants_inv sample_code_joined" by (simp add: participants_inv_def d) (simp add: defs)
  moreover have "tokens_inv sample_code_joined"
    by (simp add: tokens_inv_def d) (simp add: defs sample_digest_facts access_token_check_def)
  moreover have "invitations_inv sample_code_joined" by (simp add: invitations_inv_def defs)
  moreover have "workspace_inv sample_code_joined"
    by (simp add: workspace_inv_def d) (simp add: defs sample_digest_facts workspace_session_check_def)
  ultimately show ?thesis by (simp add: access_inv_def)
qed

lemma sample_cookie:
  "\<exists>a u. authenticate_workspace_actor (replicate 43 CHR ''d'') 9 None None 501 sample_code_joined = Inr (a, u) \<and> ac_participant_id a = Some 2"
proof -
  let ?c = "replicate 43 CHR ''d''"
  note defs = sample_code_joined_def sample_open_def sample_access_defs
  let ?a = "\<lparr>wa_id = 16, wa_role = COMPANY_MANAGER, wa_display_name = ''Lee'', wa_created_at = 0\<rparr>"
  obtain w where w: "workspace_sessions sample_code_joined = [w]" "cookie_session ?c None 501 sample_code_joined w ?a"
    by (simp add: cookie_session_def access_secret_pattern_def list.pred_set url_safe_char_def is_lower_def in_range_def defs)
  moreover have "cookie_participant 9 ?a sample_code_joined = Some (sample_member 2 COMPANY_MANAGER)"
    by (simp add: cookie_participant_def member_account_def defs)
  moreover have "\<not> unaccepted (invitation_of_invitee (jp_id (sample_member 2 COMPANY_MANAGER)) sample_code_joined)"
    by (simp add: unaccepted_def invitation_of_invitee_def defs)
  moreover obtain a u where "participant_actor (sample_member 2 COMPANY_MANAGER) None (put_session (w\<lparr>ws_last_used_at := Some 501\<rparr>) sample_code_joined) = Inr (a, u)"
    using participant_actor_returns by blast
  moreover have "jp_id (sample_member 2 COMPANY_MANAGER) = 2" by (simp add: sample_member_def)
  ultimately show ?thesis using cookie_opensI participant_actor_eq(2) by metis
qed

lemma cancel_closes_job_witness:
  "(\<exists>s'. cancel_move_job 9 1 500 sample_open = Inr s' \<and> map_option mj_status (row mj_id 9 (move_jobs s')) = Some CANCELED \<and>
     (\<forall>a s''. authenticate_access_token (replicate 43 CHR ''b'') None 10 60 False None 501 s' = Inr (a, s'') \<longrightarrow> ac_job_id a \<noteq> Some 9) \<and>
     (\<forall>a s''. authenticate_workspace_actor (replicate 43 CHR ''d'') 9 None None 501 s' \<noteq> Inr (a, s''))) \<and>
   (\<exists>s' a s''. cancel_move_job 9 1 500 sample_code_joined = Inr s' \<and>
     authenticate_workspace_actor (replicate 43 CHR ''d'') 9 None None 501 s' = Inr (a, s'') \<and> ac_participant_id a = Some 2)"
proof
  have st: "mj_status (sample_open_job 9) \<notin> {COMPLETED, CANCELED}" by (simp add: sample_open_job_def)
  have "same_access sample_access sample_open" by (simp add: same_access_def sample_open_def)
  then have i: "access_inv sample_open" using same_access_inv[OF _ sample_access_inv] by blast
  have r: "row mj_id 9 (move_jobs sample_open) = Some (sample_open_job 9)" by (simp add: sample_open_def sample_open_job_def new_move_job_def)
  have p: "\<not> has_proposal 9 sample_open" by (simp add: has_proposal_def sample_open_def sample_access_defs)
  obtain s' where s': "cancel_move_job 9 1 500 sample_open = Inr s'" "row mj_id 9 (move_jobs s') = Some ((sample_open_job 9)\<lparr>mj_status := CANCELED, mj_updated_at := 500\<rparr>)"
    and none: "\<forall>secret cache limit window pending corr t a s''.
       authenticate_access_token secret cache limit window pending corr t s' = Inr (a, s'') \<longrightarrow> ac_job_id a \<noteq> Some 9"
    and cookie: "\<forall>cookie csrf corr t a s''. authenticate_workspace_actor cookie 9 csrf corr t s' = Inr (a, s'') \<longrightarrow>
       (\<exists>p \<in> set (participants sample_open). jp_job_id p = 9 \<and> ac_participant_id a = Some (jp_id p) \<and> unlinked sample_open (jp_id p))"
    using cancel_closes_job[OF i r st p, of 1 500] by (elim exE conjE)
  have "\<forall>p \<in> set (participants sample_open). \<not> unlinked sample_open (jp_id p)"
    by (simp add: unlinked_def sample_open_def sample_access_defs)
  then have "\<forall>a s''. authenticate_workspace_actor (replicate 43 CHR ''d'') 9 None None 501 s' \<noteq> Inr (a, s'')" using cookie by blast
  then show "\<exists>s'. cancel_move_job 9 1 500 sample_open = Inr s' \<and> map_option mj_status (row mj_id 9 (move_jobs s')) = Some CANCELED \<and>
     (\<forall>a s''. authenticate_access_token (replicate 43 CHR ''b'') None 10 60 False None 501 s' = Inr (a, s'') \<longrightarrow> ac_job_id a \<noteq> Some 9) \<and>
     (\<forall>a s''. authenticate_workspace_actor (replicate 43 CHR ''d'') 9 None None 501 s' \<noteq> Inr (a, s''))"
    using s' none by (intro exI[of _ s']) simp
next
  have st: "mj_status (sample_open_job 9) \<notin> {COMPLETED, CANCELED}" by (simp add: sample_open_job_def)
  have r: "row mj_id 9 (move_jobs sample_code_joined) = Some (sample_open_job 9)"
    by (simp add: sample_code_joined_def sample_open_def sample_open_job_def new_move_job_def)
  have p: "\<not> has_proposal 9 sample_code_joined" by (simp add: has_proposal_def sample_code_joined_def sample_open_def sample_access_defs)
  obtain s' where s': "cancel_move_job 9 1 500 sample_code_joined = Inr s'"
    and kept: "\<forall>cookie csrf corr t a u pid. authenticate_workspace_actor cookie 9 csrf corr t sample_code_joined = Inr (a, u) \<longrightarrow>
      ac_participant_id a = Some pid \<longrightarrow> unlinked sample_code_joined pid \<longrightarrow>
      (\<exists>a' s''. authenticate_workspace_actor cookie 9 csrf corr t s' = Inr (a', s'') \<and> ac_participant_id a' = Some pid)"
    using cancel_closes_job[OF sample_code_joined_inv r st p, of 1 500] by (elim exE conjE)
  have "unlinked sample_code_joined 2" by (simp add: unlinked_def sample_code_joined_def sample_link_def)
  then show "\<exists>s' a s''. cancel_move_job 9 1 500 sample_code_joined = Inr s' \<and>
     authenticate_workspace_actor (replicate 43 CHR ''d'') 9 None None 501 s' = Inr (a, s'') \<and> ac_participant_id a = Some 2"
    using s' kept sample_cookie by blast
qed

text \<open>A job with a version 2 scope that is still open, and a patch of the conditions of its one location.\<close>

definition sample_content2 :: ScopeContent where
  "sample_content2 = \<lparr>sc_schema_version = 2, sc_items = [Item2 \<lparr>i2_item_key = ''a'', i2_room_zone_id = 6, i2_name = ''sofa'',
       i2_quantity = None, i2_unit = None, i2_work_note = None, i2_review_status = REVIEW_REQUIRED, i2_source = SOURCE_CUSTOMER\<rparr>],
     sc_location_conditions = [\<lparr>sl_location_id = 5, sl_kind = ORIGIN, sl_conditions = default_conditions\<rparr>]\<rparr>"

definition sample_conditions :: db where
  "sample_conditions = sample_scope\<lparr>move_jobs := [sample_open_job 1], scope_approvals := [], change_requests := [],
     scope_versions := [new_scope_version 10 1 None 1 sample_content2 (replicate 64 CHR ''a'') None (Some 2) 5]\<rparr>"

definition sample_patch :: MoveJobPatch where
  "sample_patch = \<lparr>mjp_title = None, mjp_scheduled_at = None, mjp_locations = Some (Some [\<lparr>mlp_kind = ORIGIN, mlp_label = None,
     mlp_detail_address = None, mlp_conditions = Some (default_conditions\<lparr>lc_access_note := Some ''gate''\<rparr>)\<rparr>])\<rparr>"

lemma sample_patch_done: "\<exists>resp s'. patch_move_job 1 2 sample_patch 60 sample_conditions = Inr (resp, s')"
  by (simp add: patch_move_job_def sample_conditions_def sample_patch_def sample_open_job_def new_move_job_def has_proposal_def
      current_scope_of_def changes_scope_conditions_def location_patches_def patch_location_def locations_of_def patched_location_def
      put_move_job_def patched_job_def snapshot_scope_def mk_scope_content_def scope_content_ok_def sample_content2_def
      location_conditions_ok_def default_conditions_def floor_ok_def carry_distance_ok_def optional_text_def text_between_def
      create_scope_version_def store_scope_version_def with_location_condition_snapshot_def validate_scope_zones_def
      zone_in_job_def next_sequence_number_def any_role_def has_child_def insert_scope_version_def is_participant_def
      scope_version_check_def scope_version_clash_def normalize_scope_content_def uuid4_def content_hash_of_def
      job_locations_def location_snapshot_def changed_fields_def put_row_def Let_def sample_scope_defs)

lemma patch_appends_snapshot_witness:
  "\<exists>resp s' w. patch_move_job 1 2 sample_patch 60 sample_conditions = Inr (resp, s') \<and>
     scope_versions s' = scope_versions sample_conditions @ [w] \<and> sv_parent_version_id w = Some 10 \<and> sv_sequence_number w = 2"
proof -
  obtain resp s' where d: "patch_move_job 1 2 sample_patch 60 sample_conditions = Inr (resp, s')" using sample_patch_done by blast
  have "distinct (map sv_id (scope_versions sample_conditions))" by (simp add: sample_conditions_def)
  note w = patch_appends_snapshot[OF d this]
  have "current_scope_of 1 sample_conditions = Some (new_scope_version 10 1 None 1 sample_content2 (replicate 64 CHR ''a'') None (Some 2) 5)"
    by (simp add: current_scope_of_def sample_conditions_def new_scope_version_def)
  moreover have "changes_scope_conditions sample_patch" by (simp add: changes_scope_conditions_def location_patches_def sample_patch_def)
  ultimately show ?thesis using w d by (auto simp: new_scope_version_def sample_content2_def)
qed

end
