(* ===== verification/MoveJobList.thy ===== *)
theory MoveJobList
  imports MoveJob ScopeReview
begin

text \<open>
  The list of move jobs: \<open>list_move_jobs\<close> of \<open>app/modules/move_job/service.py\<close> with its cursor, its
  search and the summary of a job, read for one job (\<open>_move_summary\<close>) or for a page at once. Text is
  read as Latin-1 where its letters matter; \<open>base64.b64decode(\<dots>, validate=True)\<close> takes the alphabet
  with either pair of special characters, no other character, and padding only to complete the last
  group. A dict comprehension keeps the last of equal keys, \<open>setdefault\<close> the first. Lemmas are in
  MoveJobListProofs.
\<close>

section \<open>The cursor\<close>

definition MAX_LIST_CURSOR_OFFSET :: int where
  "MAX_LIST_CURSOR_OFFSET = 2 ^ 63 - 1"

text \<open>Base 64 without padding: three bytes become four characters.\<close>

fun b64_encode :: "nat list \<Rightarrow> string" where
  "b64_encode [] = []"
| "b64_encode [a] = [base64_char (a div 4), base64_char (a mod 4 * 16)]"
| "b64_encode [a, b] = [base64_char (a div 4), base64_char (a mod 4 * 16 + b div 16), base64_char (b mod 16 * 4)]"
| "b64_encode (a # b # c # r) =
     [base64_char (a div 4), base64_char (a mod 4 * 16 + b div 16), base64_char (b mod 16 * 4 + c div 64), base64_char (c mod 64)] @ b64_encode r"

definition b64_value :: "char \<Rightarrow> nat option" where
  "b64_value c = (let n = of_char c in
     if is_upper c then Some (n - 65) else if is_lower c then Some (n - 71) else if is_digit c then Some (n + 4)
     else if c = CHR ''+'' \<or> c = CHR ''-'' then Some 62 else if c = CHR ''/'' \<or> c = CHR ''_'' then Some 63 else None)"

fun b64_decode :: "string \<Rightarrow> nat list option" where
  "b64_decode [] = Some []"
| "b64_decode (a # b # c # d # r) = (case (b64_value a, b64_value b) of
     (Some x, Some y) \<Rightarrow>
       (case b64_value c of
          None \<Rightarrow> if c = CHR ''='' \<and> d = CHR ''='' \<and> r = [] then Some [x * 4 + y div 16] else None
        | Some z \<Rightarrow> (case b64_value d of
            None \<Rightarrow> if d = CHR ''='' \<and> r = [] then Some [x * 4 + y div 16, y mod 16 * 16 + z div 4] else None
          | Some w \<Rightarrow> map_option (\<lambda>t. (x * 4 + y div 16) # (y mod 16 * 16 + z div 4) # (z mod 4 * 64 + w) # t) (b64_decode r)))
   | _ \<Rightarrow> None)"
| "b64_decode _ = None"

definition encode_list_cursor :: "int \<Rightarrow> string" where
  "encode_list_cursor offset = b64_encode (map of_char (''v1:'' @ int_text offset))"

definition pad4 :: "string \<Rightarrow> string" where
  "pad4 t = t @ replicate (nat ((- int (length t)) mod 4)) CHR ''=''"

definition is_ascii :: "char \<Rightarrow> bool" where
  "is_ascii c = ((of_char c :: nat) < 128)"

definition decode_list_cursor :: "string \<Rightarrow> int result" where
  "decode_list_cursor cursor = (if cursor = [] \<or> 256 < length cursor then Inl ValueError
     else if \<not> list_all is_ascii cursor then Inl ValueError
     else (case b64_decode (pad4 cursor) of
       None \<Rightarrow> Inl ValueError
     | Some bytes \<Rightarrow>
         if \<not> list_all (\<lambda>n. n < 128) bytes then Inl ValueError
         else let payload = map char_of bytes in
           if CHR '':'' \<notin> set payload then Inl ValueError
           else if takeWhile (\<lambda>c. c \<noteq> CHR '':'') payload \<noteq> ''v1'' then Inl ValueError
           else (case parse_nat (tl (dropWhile (\<lambda>c. c \<noteq> CHR '':'') payload)) of
             None \<Rightarrow> Inl ValueError
           | Some n \<Rightarrow> if n < 0 \<or> MAX_LIST_CURSOR_OFFSET < n then Inl ValueError else Inr n)))"

section \<open>The summary of a job\<close>

datatype ScopeReviewStatus = REVIEW_COMPANY | REVIEW_CUSTOMER | REVIEW_REVISION_REQUESTED | REVIEW_CONFIRMED

datatype CompanyParticipationStatus = COMPANY_NOT_INVITED | COMPANY_INVITED | COMPANY_JOINED | COMPANY_DECLINED
  | COMPANY_EXPIRED | COMPANY_REVOKED

record MoveJobSummaryResponse =
  mjs_job :: MoveJobResponse
  mjs_version_label :: string
  mjs_scope_status :: ScopeReviewStatus
  mjs_company_participation_status :: CompanyParticipationStatus
  mjs_completion_request_status :: "CompletionRequestStatus option"
  mjs_quote :: "QuoteSnapshot option"
  mjs_item_count :: nat
  mjs_adjustment_count :: nat

record MoveJobListResponse =
  mjl_moves :: "MoveJobSummaryResponse list"
  mjl_next_cursor :: "string option"

definition DRAFT_LABEL :: string where
  "DRAFT_LABEL = utf8_bytes [236, 180, 136, 236, 149, 136]"

definition company_invitation :: "uuid \<Rightarrow> db \<Rightarrow> ParticipantInvitation option" where
  "company_invitation job_id s = find (\<lambda>i. pi_job_id i = job_id \<and> pi_role i = COMPANY_MANAGER) (invitations s)"

definition company_status_from_invitation ::
    "JobParticipant list \<Rightarrow> ParticipantInvitation option \<Rightarrow> instant \<Rightarrow> CompanyParticipationStatus" where
  "company_status_from_invitation ps invite now = (case invite of
     None \<Rightarrow> if list_ex (\<lambda>p. jp_role p = COMPANY_MANAGER) ps then COMPANY_JOINED else COMPANY_NOT_INVITED
   | Some i \<Rightarrow> (case pi_status i of
       INV_PENDING \<Rightarrow> if pi_expires_at i \<le> now then COMPANY_EXPIRED else COMPANY_INVITED
     | INV_ACCEPTED \<Rightarrow> COMPANY_JOINED | INV_DECLINED \<Rightarrow> COMPANY_DECLINED
     | INV_EXPIRED \<Rightarrow> COMPANY_EXPIRED | INV_REVOKED \<Rightarrow> COMPANY_REVOKED))"

definition company_status :: "MoveJob \<Rightarrow> instant \<Rightarrow> db \<Rightarrow> CompanyParticipationStatus" where
  "company_status j now s = company_status_from_invitation (participants_of (mj_id j) s) (company_invitation (mj_id j) s) now"

definition scope_status :: "ScopeProposal option \<Rightarrow> ScopeReviewStatus" where
  "scope_status proposal = (case proposal of None \<Rightarrow> REVIEW_COMPANY | Some p \<Rightarrow> (case sp_status p of
     SP_CUSTOMER_REVIEW \<Rightarrow> REVIEW_CUSTOMER | SP_REVISION_REQUESTED \<Rightarrow> REVIEW_REVISION_REQUESTED
   | SP_CONFIRMED \<Rightarrow> REVIEW_CONFIRMED | SP_SUPERSEDED \<Rightarrow> REVIEW_COMPANY))"

definition mk_quote :: "QuoteSnapshot \<Rightarrow> QuoteSnapshot result" where
  "mk_quote q = (if quote_ok q then Inr q else Inl ValueError)"

definition summary_quote :: "ScopeProposal option \<Rightarrow> ChangeProposalDetail option \<Rightarrow> QuoteSnapshot option result" where
  "summary_quote proposal current_change = (case current_change of
     Some d \<Rightarrow> bindR (mk_quote (quote_from_change_detail d)) (\<lambda>q. Inr (Some q))
   | None \<Rightarrow> (case proposal of None \<Rightarrow> Inr None | Some p \<Rightarrow> bindR (mk_quote (quote_from_proposal p)) (\<lambda>q. Inr (Some q))))"

definition move_summary_response ::
    "MoveJob \<Rightarrow> ScopeVersion option \<Rightarrow> ScopeProposal option \<Rightarrow> CompletionRequestStatus option \<Rightarrow> ChangeProposalDetail option \<Rightarrow>
     CompanyParticipationStatus \<Rightarrow> ParticipantRole \<Rightarrow> db \<Rightarrow> MoveJobSummaryResponse result" where
  "move_summary_response j version proposal completion_status current_change company viewer_role s =
     bindR (summary_quote proposal current_change) (\<lambda>quote.
     Inr \<lparr>mjs_job = to_response viewer_role j s,
       mjs_version_label = (case version of None \<Rightarrow> DRAFT_LABEL | Some v \<Rightarrow> CHR ''V'' # int_text (sv_sequence_number v)),
       mjs_scope_status = scope_status proposal, mjs_company_participation_status = company,
       mjs_completion_request_status = completion_status, mjs_quote = quote,
       mjs_item_count = (case version of None \<Rightarrow> 0 | Some v \<Rightarrow> length (sc_items (sv_content v))),
       mjs_adjustment_count = (case quote of None \<Rightarrow> 0 | Some q \<Rightarrow> length (qs_adjustments q))\<rparr>)"

definition latest_proposal :: "uuid \<Rightarrow> db \<Rightarrow> ScopeProposal option" where
  "latest_proposal job_id s = (case rev (sort_key (\<lambda>p. (sp_sent_at p, sp_id p))
       (filter (\<lambda>p. sp_job_id p = job_id) (scope_proposals s))) of [] \<Rightarrow> None | p # _ \<Rightarrow> Some p)"

definition latest_completion_status :: "uuid \<Rightarrow> db \<Rightarrow> CompletionRequestStatus option" where
  "latest_completion_status job_id s = (case rev (sort_key (\<lambda>r. (cq_requested_at r, cq_id r))
       (filter (\<lambda>r. cq_job_id r = job_id) (completion_requests s))) of [] \<Rightarrow> None | r # _ \<Rightarrow> Some (cq_status r))"

text \<open>The details of approved changes, joined with their requests.\<close>

definition approved_details :: "(uuid \<Rightarrow> bool) \<Rightarrow> db \<Rightarrow> (ChangeProposalDetail \<times> uuid option) list" where
  "approved_details P s = List.map_filter (\<lambda>d. case row cr_id (pd_change_request_id d) (change_requests s) of
       None \<Rightarrow> None
     | Some r \<Rightarrow> if P (cr_job_id r) \<and> cr_status r = CR_APPROVED then Some (d, cr_result_scope_version_id r) else None)
     (proposal_details s)"

definition move_summary :: "MoveJob \<Rightarrow> ParticipantRole \<Rightarrow> instant \<Rightarrow> db \<Rightarrow> MoveJobSummaryResponse result" where
  "move_summary j viewer_role now s = (let version = current_scope_of (mj_id j) s in
     move_summary_response j version (latest_proposal (mj_id j) s) (latest_completion_status (mj_id j) s)
       (case version of None \<Rightarrow> None
        | Some v \<Rightarrow> map_option fst (find (\<lambda>(d, r). r = Some (sv_id v)) (approved_details (\<lambda>i. i = mj_id j) s)))
       (company_status j now s) viewer_role s)"

section \<open>A page of summaries\<close>

text \<open>One query per table for all jobs of the page, in the order the dictionary is filled.\<close>

definition page_scope_versions :: "uuid list \<Rightarrow> db \<Rightarrow> ScopeVersion list" where
  "page_scope_versions ids s = sort_key (\<lambda>v. (sv_job_id v, - sv_sequence_number v, - int (sv_id v)))
     (filter (\<lambda>v. sv_job_id v \<in> set ids) (scope_versions s))"

definition page_proposals :: "uuid list \<Rightarrow> db \<Rightarrow> ScopeProposal list" where
  "page_proposals ids s = sort_key (\<lambda>p. (sp_job_id p, - sp_sent_at p, - int (sp_id p)))
     (filter (\<lambda>p. sp_job_id p \<in> set ids) (scope_proposals s))"

definition page_completion_requests :: "uuid list \<Rightarrow> db \<Rightarrow> CompletionRequest list" where
  "page_completion_requests ids s = sort_key (\<lambda>r. (cq_job_id r, - cq_requested_at r, - int (cq_id r)))
     (filter (\<lambda>r. cq_job_id r \<in> set ids) (completion_requests s))"

definition page_company_invitations :: "uuid list \<Rightarrow> db \<Rightarrow> ParticipantInvitation list" where
  "page_company_invitations ids s = filter (\<lambda>i. pi_job_id i \<in> set ids \<and> pi_role i = COMPANY_MANAGER) (invitations s)"

definition page_summary :: "uuid list \<Rightarrow> ParticipantRole \<Rightarrow> instant \<Rightarrow> db \<Rightarrow> MoveJob \<Rightarrow> MoveJobSummaryResponse result" where
  "page_summary ids viewer_role now s j =
     (let version = find (\<lambda>v. sv_job_id v = mj_id j) (page_scope_versions ids s) in
      move_summary_response j version (find (\<lambda>p. sp_job_id p = mj_id j) (page_proposals ids s))
        (map_option cq_status (find (\<lambda>r. cq_job_id r = mj_id j) (page_completion_requests ids s)))
        (case version of None \<Rightarrow> None
         | Some v \<Rightarrow> map_option fst (find (\<lambda>(d, r). r = Some (sv_id v)) (rev (approved_details (\<lambda>i. i \<in> set ids) s))))
        (company_status_from_invitation (participants_of (mj_id j) s)
          (find (\<lambda>i. pi_job_id i = mj_id j) (rev (page_company_invitations ids s))) now)
        viewer_role s)"

section \<open>Listing\<close>

datatype list_identity = ACTOR_PARTICIPANT uuid | ACCOUNT uuid

record move_filter =
  mf_status :: "MoveJobStatus option"
  mf_search :: "string option"
  mf_scheduled_from :: "instant option"
  mf_scheduled_to :: "instant option"

definition list_identity_of :: "uuid option \<Rightarrow> uuid option \<Rightarrow> list_identity result" where
  "list_identity_of actor_participant_id account_id = (case (actor_participant_id, account_id) of
     (Some p, None) \<Rightarrow> Inr (ACTOR_PARTICIPANT p) | (None, Some a) \<Rightarrow> Inr (ACCOUNT a) | _ \<Rightarrow> Inl ValueError)"

definition move_filter_ok :: "move_filter \<Rightarrow> bool" where
  "move_filter_ok f = (\<not> (case (mf_scheduled_from f, mf_scheduled_to f) of (Some a, Some b) \<Rightarrow> b < a | _ \<Rightarrow> False) \<and>
     \<not> (case mf_search f of None \<Rightarrow> False | Some q \<Rightarrow> strip q = []))"

definition viewer_role_of :: "list_identity \<Rightarrow> db \<Rightarrow> ParticipantRole option" where
  "viewer_role_of who s = (case who of
     ACTOR_PARTICIPANT i \<Rightarrow> map_option jp_role (row jp_id i (participants s))
   | ACCOUNT i \<Rightarrow> map_option wa_role (row wa_id i (workspace_accounts s)))"

definition visible_job_ids :: "list_identity \<Rightarrow> db \<Rightarrow> uuid set" where
  "visible_job_ids who s = (case who of
     ACTOR_PARTICIPANT i \<Rightarrow> set (map jp_job_id (filter (\<lambda>p. jp_id p = i) (participants s)))
   | ACCOUNT i \<Rightarrow> set (map jp_job_id (filter (\<lambda>p. list_ex (\<lambda>m. wm_participant_id m = jp_id p \<and> wm_account_id m = i \<and>
       wm_revoked_at m = None) (workspace_memberships s)) (participants s))))"

definition search_pattern :: "string \<Rightarrow> string" where
  "search_pattern q = ''%'' @ map lower_char (strip q) @ ''%''"

definition matches :: "string \<Rightarrow> string \<Rightarrow> bool" where
  "matches pattern t = like pattern (map lower_char t)"

text \<open>The outer joins pair every location of a job with every participant; a missing side matches nothing.\<close>

definition search_matches :: "ParticipantRole \<Rightarrow> string \<Rightarrow> MoveJob \<Rightarrow> db \<Rightarrow> bool" where
  "search_matches viewer_role pattern j s =
     (matches pattern (mj_title j) \<or>
      list_ex (\<lambda>l. matches pattern (loc_label l)) (locations_of (mj_id j) s) \<or>
      list_ex (\<lambda>p. matches pattern (jp_display_name p)) (participants_of (mj_id j) s) \<or>
      (viewer_role \<noteq> FIELD_WORKER \<and>
       list_ex (\<lambda>l. case loc_detail_address l of None \<Rightarrow> False | Some a \<Rightarrow> matches pattern a) (locations_of (mj_id j) s)))"

definition job_listed :: "list_identity \<Rightarrow> ParticipantRole \<Rightarrow> move_filter \<Rightarrow> db \<Rightarrow> MoveJob \<Rightarrow> bool" where
  "job_listed who viewer_role f s j = (mj_id j \<in> visible_job_ids who s \<and>
     (case mf_status f of None \<Rightarrow> True | Some x \<Rightarrow> mj_status j = x) \<and>
     (case mf_scheduled_from f of None \<Rightarrow> True | Some t \<Rightarrow> (case mj_scheduled_at j of None \<Rightarrow> False | Some u \<Rightarrow> t \<le> u)) \<and>
     (case mf_scheduled_to f of None \<Rightarrow> True | Some t \<Rightarrow> (case mj_scheduled_at j of None \<Rightarrow> False | Some u \<Rightarrow> u \<le> t)) \<and>
     (case mf_search f of None \<Rightarrow> True | Some q \<Rightarrow> search_matches viewer_role (search_pattern q) j s))"

text \<open>The selected jobs, newest first.\<close>

definition listed_jobs :: "list_identity \<Rightarrow> ParticipantRole \<Rightarrow> move_filter \<Rightarrow> db \<Rightarrow> MoveJob list" where
  "listed_jobs who viewer_role f s =
     rev (sort_key (\<lambda>j. (mj_created_at j, mj_id j)) (filter (job_listed who viewer_role f s) (move_jobs s)))"

definition list_move_jobs ::
    "uuid option \<Rightarrow> uuid option \<Rightarrow> move_filter \<Rightarrow> int \<Rightarrow> string option \<Rightarrow> instant \<Rightarrow> db \<Rightarrow> MoveJobListResponse result" where
  "list_move_jobs actor_participant_id account_id f limit cursor now s =
     bindR (list_identity_of actor_participant_id account_id) (\<lambda>who.
     if \<not> move_filter_ok f then Inl ValueError
     else if \<not> (1 \<le> limit \<and> limit \<le> 100) then Inl ValueError
     else
     bindR (case cursor of None \<Rightarrow> Inr 0 | Some c \<Rightarrow> decode_list_cursor c) (\<lambda>offset.
     case viewer_role_of who s of
       None \<Rightarrow> Inl ValueError
     | Some viewer_role \<Rightarrow>
         let fetched = take (nat limit + 1) (drop (nat offset) (listed_jobs who viewer_role f s));
             jobs = take (nat limit) fetched in
         if jobs = [] then Inr \<lparr>mjl_moves = [], mjl_next_cursor = None\<rparr>
         else bindR (mapR (page_summary (map mj_id jobs) viewer_role now s) jobs) (\<lambda>moves.
           Inr \<lparr>mjl_moves = moves, mjl_next_cursor =
             (if nat limit < length fetched then Some (encode_list_cursor (offset + int (length jobs))) else None)\<rparr>)))"

end
