(* ===== verification/MoveJobListProofs.thy ===== *)
theory MoveJobListProofs
  imports MoveJobList "HOL-Library.Multiset"
begin

text \<open>
  Lemmas about the list of move jobs: the cursor reads back, a page agrees with the summary of each job
  read alone, following the cursors lists every job once, and what a field worker is shown does not
  depend on any detail address.
\<close>

section \<open>The cursor\<close>

lemma base64_value:
  assumes "n < 64"
  shows "b64_value (base64_char n) = Some n" "is_ascii (base64_char n)"
proof -
  consider "n < 26" | "26 \<le> n" "n < 52" | "52 \<le> n" "n < 62" | "n = 62" | "n = 63" using assms by linarith
  then have "b64_value (base64_char n) = Some n \<and> is_ascii (base64_char n)"
  proof cases
    case 4
    have "b64_value (base64_char 62) = Some 62 \<and> is_ascii (base64_char 62)" by code_simp
    then show ?thesis using 4 by simp
  next
    case 5
    have "b64_value (base64_char 63) = Some 63 \<and> is_ascii (base64_char 63)" by code_simp
    then show ?thesis using 5 by simp
  qed (auto simp: base64_char_def b64_value_def is_ascii_def is_upper_def is_lower_def is_digit_def in_range_def Let_def)
  then show "b64_value (base64_char n) = Some n" "is_ascii (base64_char n)" by auto
qed

lemma b64_value_pad [simp]: "b64_value (CHR ''='') = None"
  by code_simp

lemma pad4_group: "length q = 4 \<Longrightarrow> pad4 (q @ t) = q @ pad4 t"
proof -
  assume "length q = 4"
  then have "(- int (length (q @ t))) mod 4 = (- int (length t)) mod 4" by (simp add: mod_eq_dvd_iff)
  then show ?thesis unfolding pad4_def by simp
qed

lemma split_bits: "y < k \<Longrightarrow> (x * k + y) div k = x \<and> (x * k + y) mod k = (y :: nat)"
  by simp

lemma six_bits:
  fixes a b c :: nat
  assumes "a < 256" "b < 256" "c < 256"
  shows "a div 4 < 64" "a mod 4 * 16 < 64" "a mod 4 * 16 + b div 16 < 64" "b mod 16 * 4 < 64" "b mod 16 * 4 + c div 64 < 64" "c mod 64 < 64"
    "a div 4 * 4 + (a mod 4 * 16) div 16 = a" "a div 4 * 4 + (a mod 4 * 16 + b div 16) div 16 = a"
    "(a mod 4 * 16 + b div 16) mod 16 * 16 + (b mod 16 * 4) div 4 = b"
    "(a mod 4 * 16 + b div 16) mod 16 * 16 + (b mod 16 * 4 + c div 64) div 4 = b"
    "(b mod 16 * 4 + c div 64) mod 4 * 64 + c mod 64 = c"
proof -
  have r: "a mod 4 < 4" "b div 16 < 16" "b mod 16 < 16" "c div 64 < 4" "c mod 64 < 64" using assms by (simp_all add: less_mult_imp_div_less)
  show "a div 4 < 64" using assms(1) by (simp add: less_mult_imp_div_less)
  show "a mod 4 * 16 < 64" "a mod 4 * 16 + b div 16 < 64" "b mod 16 * 4 < 64" "b mod 16 * 4 + c div 64 < 64" "c mod 64 < 64"
    using r by linarith+
  show "a div 4 * 4 + (a mod 4 * 16) div 16 = a" by simp
  show "a div 4 * 4 + (a mod 4 * 16 + b div 16) div 16 = a" using split_bits[OF r(2), of "a mod 4"] by simp
  show "(a mod 4 * 16 + b div 16) mod 16 * 16 + (b mod 16 * 4) div 4 = b" using split_bits[OF r(2), of "a mod 4"] by simp
  show "(a mod 4 * 16 + b div 16) mod 16 * 16 + (b mod 16 * 4 + c div 64) div 4 = b"
    using split_bits[OF r(2), of "a mod 4"] split_bits[OF r(4), of "b mod 16"] by simp
  show "(b mod 16 * 4 + c div 64) mod 4 * 64 + c mod 64 = c" using split_bits[OF r(4), of "b mod 16"] by simp
qed

lemma b64_reads_back: "\<forall>n \<in> set xs. n < 256 \<Longrightarrow> b64_decode (pad4 (b64_encode xs)) = Some xs"
proof (induction xs rule: b64_encode.induct)
  case 1
  then show ?case by (simp add: pad4_def)
next
  case (2 a)
  then show ?case using six_bits[of a 0 0] by (simp add: pad4_def base64_value numeral_2_eq_2)
next
  case (3 a b)
  then show ?case using six_bits[of a b 0] by (simp add: pad4_def base64_value)
next
  case (4 a b c r)
  then have bytes: "a < 256" "b < 256" "c < 256" by simp_all
  obtain x y z w where q: "x = a div 4" "y = a mod 4 * 16 + b div 16" "z = b mod 16 * 4 + c div 64" "w = c mod 64" by blast
  have "x < 64" "y < 64" "z < 64" "w < 64" "x * 4 + y div 16 = a" "y mod 16 * 16 + z div 4 = b" "z mod 4 * 64 + w = c"
    unfolding q by (rule six_bits[OF bytes])+
  moreover have "b64_encode (a # b # c # r) = [base64_char x, base64_char y, base64_char z, base64_char w] @ b64_encode r"
    unfolding q by (rule b64_encode.simps)
  ultimately show ?case using 4 by (simp add: pad4_group[of "[_, _, _, _]", simplified] base64_value)
qed

lemma b64_ascii: "\<forall>n \<in> set xs. n < 256 \<Longrightarrow> list_all is_ascii (b64_encode xs)"
proof (induction xs rule: b64_encode.induct)
  case (2 a)
  then show ?case using six_bits[of a 0 0] by (simp add: base64_value)
next
  case (3 a b)
  then show ?case using six_bits[of a b 0] by (simp add: base64_value)
next
  case (4 a b c r)
  then show ?case using six_bits[of a b c] by (simp add: base64_value)
qed simp

lemma length_b64: "length (b64_encode xs) \<le> 2 * length xs"
  by (induction xs rule: b64_encode.induct) auto

lemma digit_char:
  assumes "d < 10"
  shows "is_digit (char_of (48 + d :: nat))" "of_char (char_of (48 + d :: nat) :: char) = (48 + int d :: int)"
proof -
  have "\<forall>d < (10 :: nat). is_digit (char_of (48 + d)) \<and> of_char (char_of (48 + d) :: char) = (48 + int d :: int)" by code_simp
  then show "is_digit (char_of (48 + d :: nat))" "of_char (char_of (48 + d :: nat) :: char) = (48 + int d :: int)" using assms by auto
qed

lemma decimal_digits: "list_all is_digit (decimal n) \<and> decimal n \<noteq> [] \<and> foldl (\<lambda>m c. 10 * m + (of_char c - 48)) 0 (decimal n) = int n"
proof (induction n rule: decimal.induct)
  case (1 n)
  show ?case
  proof (cases "n < 10")
    case True
    then show ?thesis using digit_char[of n] by (subst (1 2 3) decimal.simps) simp
  next
    case False
    have "10 * int (n div 10) + int (n mod 10) = int n" by (simp add: zdiv_int zmod_int)
    then show ?thesis using 1 False digit_char[of "n mod 10"] by (subst (1 2 3) decimal.simps) simp
  qed
qed

lemma parse_decimal: "parse_nat (decimal n) = Some (int n)"
  using decimal_digits[of n] by (simp add: parse_nat_def)

lemma length_decimal: "n < 10 ^ k \<Longrightarrow> 0 < k \<Longrightarrow> length (decimal n) \<le> k"
proof (induction k arbitrary: n)
  case (Suc k)
  show ?case
  proof (cases "n < 10")
    case True
    then show ?thesis by (subst decimal.simps) simp
  next
    case False
    then have "0 < k" using Suc.prems by (cases k) auto
    moreover have "n div 10 < 10 ^ k" using Suc.prems(1) by (simp add: less_mult_imp_div_less mult.commute)
    ultimately show ?thesis using Suc.IH[of "n div 10"] False by (subst decimal.simps) simp
  qed
qed simp

lemma cursor_roundtrip:
  assumes "0 \<le> n" "n \<le> MAX_LIST_CURSOR_OFFSET"
  shows "decode_list_cursor (encode_list_cursor n) = Inr n"
proof -
  let ?p = "''v1:'' @ decimal (nat n)"
  let ?b = "map of_char ?p :: nat list"
  have enc: "encode_list_cursor n = b64_encode ?b" using assms(1) by (simp add: encode_list_cursor_def int_text_def)
  have dg: "list_all is_digit (decimal (nat n))" using decimal_digits by blast
  have lt: "(of_char c :: nat) < 128" if "c \<in> set ?p" for c
    using that dg by (auto simp: list_all_iff is_digit_def in_range_def)
  have nc: "CHR '':'' \<notin> set (decimal (nat n))" using dg by (auto simp: list_all_iff is_digit_def in_range_def)
  have "n < 10 ^ 19" using assms(2) by (simp add: MAX_LIST_CURSOR_OFFSET_def)
  then have "nat n < 10 ^ 19" by (simp add: nat_less_iff)
  then have "length (decimal (nat n)) \<le> 19" using length_decimal by simp
  then have len: "length (b64_encode ?b) \<le> 256" using length_b64[of ?b] by simp
  have b: "\<forall>k \<in> set ?b. k < 256" using lt by force
  have ne: "b64_encode ?b \<noteq> []" by (cases "map of_char (decimal (nat n)) :: nat list") simp_all
  have all: "list_all (\<lambda>k. k < 128) ?b" using lt by (auto simp: list_all_iff)
  have chars: "map char_of ?b = ?p" by (simp only: map_map comp_def char_of_char list.map_ident)
  have split: "takeWhile (\<lambda>c. c \<noteq> CHR '':'') ?p = ''v1''" "tl (dropWhile (\<lambda>c. c \<noteq> CHR '':'') ?p) = decimal (nat n)" by simp_all
  have colon: "CHR '':'' \<in> set ?p" by simp
  show ?thesis unfolding enc decode_list_cursor_def b64_reads_back[OF b] option.case Let_def chars split parse_decimal
    using ne len b64_ascii[OF b] all colon assms by simp
qed

text \<open>A cursor the list hands out reads back as the offset it stands for, at every offset the
  list accepts.\<close>

theorem cursor_reads_back:
  assumes "0 \<le> n" "n \<le> MAX_LIST_CURSOR_OFFSET"
  shows "decode_list_cursor (encode_list_cursor n) = Inr n"
  by (rule cursor_roundtrip[OF assms])

lemma cursor_reads_back_witness: "decode_list_cursor (encode_list_cursor 9223372036854775807) = Inr 9223372036854775807"
  by (rule cursor_reads_back) (simp_all add: MAX_LIST_CURSOR_OFFSET_def)

section \<open>A page agrees with the summaries\<close>

lemma find_filter: "find P xs = (case filter P xs of [] \<Rightarrow> None | x # _ \<Rightarrow> Some x)"
  by (induction xs) simp_all

lemma find_same:
  assumes "\<And>x. x \<in> set xs \<and> P x \<longleftrightarrow> x \<in> set ys \<and> Q x" "\<And>x y. x \<in> set ys \<Longrightarrow> Q x \<Longrightarrow> y \<in> set ys \<Longrightarrow> Q y \<Longrightarrow> x = y"
  shows "find P xs = find Q ys"
proof (cases "find Q ys")
  case None
  then show ?thesis using assms(1) by (metis find_None_iff)
next
  case (Some y)
  then have y: "y \<in> set ys" "Q y" using find_mem[OF Some] by auto
  then have "y \<in> set xs" "P y" using assms(1) by auto
  moreover have "x = y" if "x \<in> set xs" "P x" for x using assms that y by blast
  ultimately have "find P xs = Some y" by (rule find_unique)
  then show ?thesis using Some by simp
qed

text \<open>The first of a group in descending order is the last in ascending order.\<close>

lemma sort_descending:
  fixes a :: "'r \<Rightarrow> int" and b :: "'r \<Rightarrow> uuid"
  assumes "distinct (map b xs)" "\<forall>x \<in> set xs. g x = (j :: uuid)"
  shows "sort_key (\<lambda>x. (g x, - a x, - int (b x))) xs = rev (sort_key (\<lambda>x. (a x, b x)) xs)"
proof (rule properties_for_sort_key)
  let ?k = "\<lambda>x. (g x, - a x, - int (b x))" and ?zs = "sort_key (\<lambda>x. (a x, b x)) xs"
  show "mset (rev ?zs) = mset xs" by simp
  have inj: "?k x = ?k y \<longleftrightarrow> x = y" if "x \<in> set xs" "y \<in> set xs" for x y
    using that assms(1) by (auto dest: distinct_map_eq)
  fix y assume y: "y \<in> set (rev ?zs)"
  have same: "filter (\<lambda>x. ?k y = ?k x) ws = replicate (count (mset xs) y) y" if ws: "mset ws = mset xs" for ws
  proof -
    have m: "set ws = set xs" using ws by (metis set_mset_mset)
    have "filter (\<lambda>x. ?k y = ?k x) ws = filter (HOL.eq y) ws" using inj y m by (intro filter_cong) auto
    then show ?thesis using replicate_count_mset_eq_filter_eq[of ws y] ws by simp
  qed
  show "filter (\<lambda>x. ?k y = ?k x) (rev ?zs) = filter (\<lambda>x. ?k y = ?k x) xs" using same[of "rev ?zs"] same[of xs] by simp
next
  have "sorted_wrt (\<lambda>x y. (a x, b x) \<le> (a y, b y)) (sort_key (\<lambda>x. (a x, b x)) xs)"
    using sorted_sort_key[of "\<lambda>x. (a x, b x)" xs] by (simp add: sorted_wrt_map)
  then have "sorted_wrt (\<lambda>x y. (g y, - a y, - int (b y)) \<le> (g x, - a x, - int (b x))) (sort_key (\<lambda>x. (a x, b x)) xs)"
    by (rule sorted_wrt_mono_rel[rotated]) (use assms(2) in auto)
  then show "sorted (map (\<lambda>x. (g x, - a x, - int (b x))) (rev (sort_key (\<lambda>x. (a x, b x)) xs)))"
    by (simp add: sorted_wrt_map sorted_wrt_rev)
qed

lemma first_of_group:
  fixes a :: "'r \<Rightarrow> int" and b :: "'r \<Rightarrow> uuid"
  assumes "distinct (map b xs)" "(j :: uuid) \<in> I"
  shows "find (\<lambda>x. g x = j) (sort_key (\<lambda>x. (g x, - a x, - int (b x))) (filter (\<lambda>x. g x \<in> I) xs)) =
    (case rev (sort_key (\<lambda>x. (a x, b x)) (filter (\<lambda>x. g x = j) xs)) of [] \<Rightarrow> None | x # _ \<Rightarrow> Some x)"
proof -
  have f: "filter (\<lambda>x. g x = j) (filter (\<lambda>x. g x \<in> I) xs) = filter (\<lambda>x. g x = j) xs"
    using assms(2) by (induction xs) auto
  have d: "sort_key (\<lambda>x. (g x, - a x, - int (b x))) (filter (\<lambda>x. g x = j) xs) = rev (sort_key (\<lambda>x. (a x, b x)) (filter (\<lambda>x. g x = j) xs))"
    using assms(1) by (intro sort_descending[where j = j] distinct_map_filter) auto
  show ?thesis unfolding find_filter[of _ "sort_key _ _"] filter_sort f d by (rule refl)
qed

text \<open>The unique keys of the tables a summary reads, and that the result of a change is a version of its job.\<close>

definition summary_keys :: "db \<Rightarrow> bool" where
  "summary_keys s = (distinct (map sv_id (scope_versions s)) \<and> distinct (map sp_id (scope_proposals s)) \<and>
     distinct (map cq_id (completion_requests s)) \<and> distinct (map (\<lambda>i. (pi_job_id i, pi_role i)) (invitations s)) \<and>
     distinct (map pd_change_request_id (proposal_details s)) \<and>
     (\<forall>r \<in> set (change_requests s). \<forall>q \<in> set (change_requests s).
        cr_result_scope_version_id r \<noteq> None \<and> cr_result_scope_version_id q = cr_result_scope_version_id r \<longrightarrow> q = r) \<and>
     (\<forall>r \<in> set (change_requests s). \<forall>v \<in> set (scope_versions s).
        cr_result_scope_version_id r = Some (sv_id v) \<longrightarrow> cr_job_id r = sv_job_id v))"

lemma mem_map_filter: "y \<in> set (List.map_filter f xs) \<longleftrightarrow> (\<exists>x \<in> set xs. f x = Some y)"
  by (induction xs) (auto simp: List.map_filter_simps split: option.splits)

lemma approved_details_iff:
  "(d, x) \<in> set (approved_details P s) \<longleftrightarrow> d \<in> set (proposal_details s) \<and>
     (\<exists>r. row cr_id (pd_change_request_id d) (change_requests s) = Some r \<and> P (cr_job_id r) \<and> cr_status r = CR_APPROVED \<and>
        x = cr_result_scope_version_id r)"
  unfolding approved_details_def mem_map_filter by (auto split: option.splits if_splits)

lemma page_change_agrees:
  assumes "summary_keys s" "v \<in> set (scope_versions s)" "sv_job_id v \<in> set ids"
  shows "find (\<lambda>(d, r). r = Some (sv_id v)) (rev (approved_details (\<lambda>i. i \<in> set ids) s)) =
    find (\<lambda>(d, r). r = Some (sv_id v)) (approved_details (\<lambda>i. i = sv_job_id v) s)"
proof (rule find_same)
  have job: "cr_job_id r = sv_job_id v" if "row cr_id i (change_requests s) = Some r" "cr_result_scope_version_id r = Some (sv_id v)" for i r
    using that assms(1,2) row_mem unfolding summary_keys_def by metis
  fix x :: "ChangeProposalDetail \<times> uuid option"
  show "x \<in> set (rev (approved_details (\<lambda>i. i \<in> set ids) s)) \<and> (case x of (d, r) \<Rightarrow> r = Some (sv_id v)) \<longleftrightarrow>
      x \<in> set (approved_details (\<lambda>i. i = sv_job_id v) s) \<and> (case x of (d, r) \<Rightarrow> r = Some (sv_id v))"
    using job assms(3) by (cases x) (auto simp: approved_details_iff)
next
  have detail: "\<exists>d r. x = (d, Some (sv_id v)) \<and> d \<in> set (proposal_details s) \<and> row cr_id (pd_change_request_id d) (change_requests s) = Some r \<and>
      cr_result_scope_version_id r = Some (sv_id v)"
    if "x \<in> set (approved_details (\<lambda>i. i = sv_job_id v) s)" "case x of (d, r) \<Rightarrow> r = Some (sv_id v)" for x
  proof -
    obtain d c where "x = (d, c)" by (cases x)
    then show ?thesis using that approved_details_iff[of d c] by auto
  qed
  fix x y :: "ChangeProposalDetail \<times> uuid option"
  assume x: "x \<in> set (approved_details (\<lambda>i. i = sv_job_id v) s)" "case x of (d, r) \<Rightarrow> r = Some (sv_id v)"
    and y: "y \<in> set (approved_details (\<lambda>i. i = sv_job_id v) s)" "case y of (d, r) \<Rightarrow> r = Some (sv_id v)"
  obtain d r where d: "x = (d, Some (sv_id v))" "d \<in> set (proposal_details s)" "row cr_id (pd_change_request_id d) (change_requests s) = Some r"
      "cr_result_scope_version_id r = Some (sv_id v)"
    using detail[OF x] by blast
  obtain e q where e: "y = (e, Some (sv_id v))" "e \<in> set (proposal_details s)" "row cr_id (pd_change_request_id e) (change_requests s) = Some q"
      "cr_result_scope_version_id q = Some (sv_id v)"
    using detail[OF y] by blast
  have "q = r" using assms(1) row_mem[OF d(3)] row_mem[OF e(3)] d(4) e(4) unfolding summary_keys_def by (metis option.distinct(1))
  then have "pd_change_request_id d = pd_change_request_id e" using row_key[OF d(3)] row_key[OF e(3)] by simp
  then have "d = e" using assms(1) d(2) e(2) unfolding summary_keys_def by (metis distinct_map_eq)
  then show "x = y" using d(1) e(1) by simp
qed

lemma page_invitation_agrees:
  assumes "summary_keys s" "j \<in> set ids"
  shows "find (\<lambda>i. pi_job_id i = j) (rev (page_company_invitations ids s)) = company_invitation j s"
  unfolding company_invitation_def
proof (rule find_same)
  fix x show "x \<in> set (rev (page_company_invitations ids s)) \<and> pi_job_id x = j \<longleftrightarrow>
      x \<in> set (invitations s) \<and> pi_job_id x = j \<and> pi_role x = COMPANY_MANAGER"
    using assms(2) by (auto simp: page_company_invitations_def)
next
  fix x y assume m: "x \<in> set (invitations s)" "y \<in> set (invitations s)"
    and "pi_job_id x = j \<and> pi_role x = COMPANY_MANAGER" "pi_job_id y = j \<and> pi_role y = COMPANY_MANAGER"
  then have "(pi_job_id x, pi_role x) = (pi_job_id y, pi_role y)" by simp
  moreover have "distinct (map (\<lambda>i. (pi_job_id i, pi_role i)) (invitations s))" using assms(1) by (simp add: summary_keys_def)
  ultimately show "x = y" using distinct_map_eq[of "\<lambda>i. (pi_job_id i, pi_role i)", OF _ m] by simp
qed

lemma current_scope_mem: "current_scope_of j s = Some v \<Longrightarrow> v \<in> set (scope_versions s) \<and> sv_job_id v = j"
proof -
  assume a: "current_scope_of j s = Some v"
  then have "v \<in> set (rev (sort_key (\<lambda>v. (sv_sequence_number v, sv_id v)) (filter (\<lambda>v. sv_job_id v = j) (scope_versions s))))"
    unfolding current_scope_of_def by (metis (no_types, lifting) list.set_intros(1) list.simps(4,5) neq_Nil_conv option.distinct(1) option.inject)
  then show ?thesis by simp
qed

lemma page_summary_eq:
  assumes "summary_keys s" "mj_id j \<in> set ids"
  shows "page_summary ids role now s j = move_summary j role now s"
proof -
  have v: "find (\<lambda>v. sv_job_id v = mj_id j) (page_scope_versions ids s) = current_scope_of (mj_id j) s"
    unfolding page_scope_versions_def current_scope_of_def
    by (rule first_of_group) (use assms in \<open>simp_all add: summary_keys_def\<close>)
  have p: "find (\<lambda>p. sp_job_id p = mj_id j) (page_proposals ids s) = latest_proposal (mj_id j) s"
    unfolding page_proposals_def latest_proposal_def
    by (rule first_of_group) (use assms in \<open>simp_all add: summary_keys_def\<close>)
  have "find (\<lambda>r. cq_job_id r = mj_id j) (page_completion_requests ids s) =
      (case rev (sort_key (\<lambda>r. (cq_requested_at r, cq_id r)) (filter (\<lambda>r. cq_job_id r = mj_id j) (completion_requests s))) of [] \<Rightarrow> None | r # _ \<Rightarrow> Some r)"
    unfolding page_completion_requests_def
    by (rule first_of_group) (use assms in \<open>simp_all add: summary_keys_def\<close>)
  then have c: "map_option cq_status (find (\<lambda>r. cq_job_id r = mj_id j) (page_completion_requests ids s)) = latest_completion_status (mj_id j) s"
    by (simp add: latest_completion_status_def split: list.splits)
  show ?thesis
    unfolding page_summary_def move_summary_def Let_def v p c page_invitation_agrees[OF assms] company_status_def
    using page_change_agrees[OF assms(1), of _ ids] assms(2) current_scope_mem by (auto split: option.splits)
qed

section \<open>Following the cursors\<close>

text \<open>What a client collects that asks for the first page and follows the cursors to the end.\<close>

fun follow_pages ::
    "nat \<Rightarrow> uuid option \<Rightarrow> uuid option \<Rightarrow> move_filter \<Rightarrow> int \<Rightarrow> string option \<Rightarrow> instant \<Rightarrow> db \<Rightarrow> MoveJobSummaryResponse list result" where
  "follow_pages 0 actor account f limit cursor now s = Inl RecursionError"
| "follow_pages (Suc n) actor account f limit cursor now s = bindR (list_move_jobs actor account f limit cursor now s) (\<lambda>p.
     case mjl_next_cursor p of
       None \<Rightarrow> Inr (mjl_moves p)
     | Some c \<Rightarrow> bindR (follow_pages n actor account f limit (Some c) now s) (\<lambda>ms. Inr (mjl_moves p @ ms)))"

lemma mapR_append: "mapR f (xs @ ys) = bindR (mapR f xs) (\<lambda>us. bindR (mapR f ys) (\<lambda>vs. Inr (us @ vs)))"
  by (induction xs) (auto simp: bindR_def split: sum.splits)

lemma mapR_cong: "(\<And>x. x \<in> set xs \<Longrightarrow> f x = g x) \<Longrightarrow> mapR f xs = mapR g xs"
  by (induction xs) (auto simp: bindR_def split: sum.splits)

lemma list_page:
  assumes "summary_keys s" "list_identity_of actor account = Inr who" "viewer_role_of who s = Some role" "move_filter_ok f" "1 \<le> limit" "limit \<le> 100"
    and cursor: "(case cursor of None \<Rightarrow> Inr 0 | Some c \<Rightarrow> decode_list_cursor c) = Inr (int k)"
    and ms: "mapR (\<lambda>j. move_summary j role now s) (take (nat limit) (drop k (listed_jobs who role f s))) = Inr ms"
  shows "list_move_jobs actor account f limit cursor now s = Inr \<lparr>mjl_moves = ms, mjl_next_cursor =
     (if k + nat limit < length (listed_jobs who role f s) then Some (encode_list_cursor (int (k + nat limit))) else None)\<rparr>"
proof -
  let ?l = "listed_jobs who role f s"
  let ?jobs = "take (nat limit) (take (nat limit + 1) (drop k ?l))"
  have jobs: "?jobs = take (nat limit) (drop k ?l)" by (simp add: min_def)
  have "mapR (page_summary (map mj_id ?jobs) role now s) ?jobs = mapR (\<lambda>j. move_summary j role now s) ?jobs"
    by (rule mapR_cong) (simp add: page_summary_eq[OF assms(1)])
  then have page: "mapR (page_summary (map mj_id ?jobs) role now s) ?jobs = Inr ms" using ms jobs by simp
  have more: "nat limit < length (take (nat limit + 1) (drop k ?l)) \<longleftrightarrow> k + nat limit < length ?l" by auto
  have len: "length ?jobs = nat limit" if "k + nat limit < length ?l" using that by simp
  show ?thesis
  proof (cases "?jobs = []")
    case True
    then have "ms = []" using page unfolding True by simp
    moreover have "\<not> k + nat limit < length ?l" using True assms(5) by auto
    ultimately show ?thesis using assms(2-6) True unfolding list_move_jobs_def bindR_simps cursor Let_def by simp
  next
    case False
    show ?thesis using assms(2-6) False page more len
      unfolding list_move_jobs_def bindR_simps cursor Let_def nat_int assms(2,3) option.case by simp
  qed
qed

text \<open>Property C26: a client that follows the cursors is shown every selected job exactly once, newest first, each with
  the summary of that job read alone, although a page reads every table once for all its jobs. The selected jobs are
  the jobs of the viewer that pass the filters.\<close>

theorem paging_lists_every_job_once:
  assumes "summary_keys s" "list_identity_of actor account = Inr who" "viewer_role_of who s = Some role" "move_filter_ok f" "1 \<le> limit" "limit \<le> 100"
    and "int (length (listed_jobs who role f s)) \<le> MAX_LIST_CURSOR_OFFSET"
    and "mapR (\<lambda>j. move_summary j role now s) (listed_jobs who role f s) = Inr ms"
  shows "follow_pages (Suc (length (listed_jobs who role f s))) actor account f limit None now s = Inr ms \<and>
    (\<forall>j. count_list (listed_jobs who role f s) j = (if job_listed who role f s j then count_list (move_jobs s) j else 0)) \<and>
    sorted_wrt (\<lambda>i j. (mj_created_at j, mj_id j) \<le> (mj_created_at i, mj_id i)) (listed_jobs who role f s)"
proof (intro conjI allI)
  let ?l = "listed_jobs who role f s"
  have split: "mapR g (drop k ?l) = bindR (mapR g (take (nat limit) (drop k ?l))) (\<lambda>us. bindR (mapR g (drop (k + nat limit) ?l)) (\<lambda>vs. Inr (us @ vs)))"
    for k and g :: "MoveJob \<Rightarrow> MoveJobSummaryResponse result"
    unfolding mapR_append[symmetric] by (metis add.commute append_take_drop_id drop_drop)
  have step: "follow_pages n actor account f limit cursor now s = Inr us"
    if "(case cursor of None \<Rightarrow> Inr 0 | Some c \<Rightarrow> decode_list_cursor c) = Inr (int k)" "length ?l - k < n"
      "mapR (\<lambda>j. move_summary j role now s) (drop k ?l) = Inr us" for n k us cursor
    using that
  proof (induction n arbitrary: k us cursor)
    case (Suc n)
    obtain vs ws where vw: "mapR (\<lambda>j. move_summary j role now s) (take (nat limit) (drop k ?l)) = Inr vs"
        "mapR (\<lambda>j. move_summary j role now s) (drop (k + nat limit) ?l) = Inr ws" "us = vs @ ws"
      using Suc.prems(3)[unfolded split[of _ k] bindR_Inr] by blast
    note page = list_page[OF assms(1-6) Suc.prems(1) vw(1)]
    show ?case
    proof (cases "k + nat limit < length ?l")
      case True
      have "decode_list_cursor (encode_list_cursor (int (k + nat limit))) = Inr (int (k + nat limit))"
        using assms(7) True by (intro cursor_roundtrip) linarith+
      then have "follow_pages n actor account f limit (Some (encode_list_cursor (int (k + nat limit)))) now s = Inr ws"
        using Suc.IH[of _ "k + nat limit" ws] vw(2) Suc.prems(2) assms(5) True by simp
      then show ?thesis using page True vw(3) by simp
    next
      case False
      then show ?thesis using page vw(2,3) by simp
    qed
  qed simp
  show "follow_pages (Suc (length ?l)) actor account f limit None now s = Inr ms"
    by (rule step[of None 0]) (simp_all add: assms(8))
  show "count_list ?l j = (if job_listed who role f s j then count_list (move_jobs s) j else 0)" for j
    by (simp add: listed_jobs_def flip: count_mset)
  have "sorted_wrt (\<lambda>i j. (mj_created_at i, mj_id i) \<le> (mj_created_at j, mj_id j))
      (sort_key (\<lambda>j. (mj_created_at j, mj_id j)) (filter (job_listed who role f s) (move_jobs s)))"
    using sorted_sort_key[of "\<lambda>j. (mj_created_at j, mj_id j)"] by (simp add: sorted_wrt_map)
  then show "sorted_wrt (\<lambda>i j. (mj_created_at j, mj_id j) \<le> (mj_created_at i, mj_id i)) ?l"
    unfolding listed_jobs_def by (simp add: sorted_wrt_rev)
qed

section \<open>What a field worker is shown\<close>

text \<open>The same tables with other detail addresses.\<close>

definition readdress :: "(Location \<Rightarrow> string option) \<Rightarrow> db \<Rightarrow> db" where
  "readdress f s = s\<lparr>locations := map (\<lambda>l. l\<lparr>loc_detail_address := f l\<rparr>) (locations s)\<rparr>"

lemma sort_key_map: "(\<And>x. k (g x) = k x) \<Longrightarrow> sort_key k (map g xs) = map g (sort_key k xs)"
proof (induction xs)
  case (Cons x xs)
  have "insort_key k (g x) (map g ys) = map g (insort_key k x ys)" for ys using Cons.prems by (induction ys) simp_all
  then show ?case using Cons by simp
qed simp

lemma readdress_locations: "locations_of j (readdress f s) = map (\<lambda>l. l\<lparr>loc_detail_address := f l\<rparr>) (locations_of j s)"
  by (simp add: locations_of_def readdress_def filter_map comp_def)

lemma readdress_view: "to_response FIELD_WORKER j (readdress f s) = to_response FIELD_WORKER j s"
proof -
  have "location_view False (readdress f s) (l\<lparr>loc_detail_address := f l\<rparr>) = location_view False s l" for l
    by (simp add: location_view_def zones_of_def readdress_def)
  then show ?thesis
    unfolding to_response_def readdress_locations by (simp add: sort_key_map comp_def participants_of_def) (simp add: readdress_def)
qed

lemma readdress_summary: "page_summary ids FIELD_WORKER now (readdress f s) j = page_summary ids FIELD_WORKER now s j"
proof -
  have tables: "page_scope_versions ids (readdress f s) = page_scope_versions ids s" "page_proposals ids (readdress f s) = page_proposals ids s"
    "page_completion_requests ids (readdress f s) = page_completion_requests ids s"
    "page_company_invitations ids (readdress f s) = page_company_invitations ids s"
    "approved_details P (readdress f s) = approved_details P s" "participants_of i (readdress f s) = participants_of i s" for P i
    by (simp_all add: page_scope_versions_def page_proposals_def page_completion_requests_def page_company_invitations_def
        approved_details_def participants_of_def readdress_def)
  have "move_summary_response j v p c d st FIELD_WORKER (readdress f s) = move_summary_response j v p c d st FIELD_WORKER s" for v p c d st
    by (simp add: move_summary_response_def readdress_view)
  then show ?thesis unfolding page_summary_def tables by simp
qed

lemma readdress_listed: "listed_jobs who FIELD_WORKER flt (readdress f s) = listed_jobs who FIELD_WORKER flt s"
proof -
  have m: "search_matches FIELD_WORKER p j (readdress f s) = search_matches FIELD_WORKER p j s" for p j
    unfolding search_matches_def readdress_locations by (simp add: list_ex_iff participants_of_def readdress_def)
  have v: "visible_job_ids who (readdress f s) = visible_job_ids who s"
    by (simp add: visible_job_ids_def readdress_def split: list_identity.splits)
  have "job_listed who FIELD_WORKER flt (readdress f s) = job_listed who FIELD_WORKER flt s"
    by (rule ext) (simp only: job_listed_def m v)
  then show ?thesis by (simp add: listed_jobs_def readdress_def)
qed

text \<open>Property C27: whatever the detail addresses are, a field worker is shown the same: the list, with every search, filter and
  cursor, and the view of a job do not depend on them. So neither an answer nor a search tells a worker anything about
  a detail address.\<close>

theorem worker_learns_no_address:
  assumes "list_identity_of actor account = Inr who" "viewer_role_of who s = Some FIELD_WORKER"
  shows "list_move_jobs actor account flt limit cursor now (readdress f s) = list_move_jobs actor account flt limit cursor now s \<and>
    get_move_job job FIELD_WORKER (readdress f s) = get_move_job job FIELD_WORKER s"
proof
  have v: "viewer_role_of who (readdress f s) = Some FIELD_WORKER"
    using assms(2) by (simp add: viewer_role_of_def readdress_def split: list_identity.splits)
  have page: "page_summary ids FIELD_WORKER now (readdress f s) = page_summary ids FIELD_WORKER now s" for ids by (rule ext) (rule readdress_summary)
  show "list_move_jobs actor account flt limit cursor now (readdress f s) = list_move_jobs actor account flt limit cursor now s"
    unfolding list_move_jobs_def assms(1) bindR_simps v assms(2) option.case readdress_listed page by (rule refl)
  show "get_move_job job FIELD_WORKER (readdress f s) = get_move_job job FIELD_WORKER s"
    by (simp add: get_move_job_def readdress_view split: option.splits) (simp add: readdress_def)
qed

section \<open>Sample lists\<close>

text \<open>Two moves of one worker's workspace, the later one with an address.\<close>

definition sample_move :: "uuid \<Rightarrow> instant \<Rightarrow> MoveJob" where
  "sample_move i t = \<lparr>mj_id = i, mj_title = ''Move'', mj_status = ACTIVE, mj_scheduled_at = None, mj_created_at = t, mj_updated_at = t, mj_completed_at = None\<rparr>"

definition sample_list :: db where
  "sample_list = (empty_db id id)\<lparr>move_jobs := [sample_move 5 1, sample_move 6 2],
     participants := [\<lparr>jp_id = 1, jp_job_id = 5, jp_role = FIELD_WORKER, jp_display_name = ''Lee'', jp_created_at = 1\<rparr>,
       \<lparr>jp_id = 2, jp_job_id = 6, jp_role = FIELD_WORKER, jp_display_name = ''Lee'', jp_created_at = 2\<rparr>],
     locations := [\<lparr>loc_id = 9, loc_job_id = 6, loc_kind = ORIGIN, loc_label = ''Home'', loc_detail_address = Some ''Apt 7'',
       loc_conditions = default_conditions, loc_created_at = 2\<rparr>],
     workspace_accounts := [\<lparr>wa_id = 3, wa_role = FIELD_WORKER, wa_display_name = ''Lee'', wa_created_at = 1\<rparr>],
     workspace_memberships := [\<lparr>wm_id = 7, wm_account_id = 3, wm_participant_id = 1, wm_joined_at = 1, wm_revoked_at = None\<rparr>,
       \<lparr>wm_id = 8, wm_account_id = 3, wm_participant_id = 2, wm_joined_at = 2, wm_revoked_at = None\<rparr>]\<rparr>"

definition no_filter :: move_filter where
  "no_filter = \<lparr>mf_status = None, mf_search = None, mf_scheduled_from = None, mf_scheduled_to = None\<rparr>"

lemma sample_list_facts:
  "list_identity_of None (Some 3) = Inr (ACCOUNT 3)" "viewer_role_of (ACCOUNT 3) sample_list = Some FIELD_WORKER" "move_filter_ok no_filter"
  "listed_jobs (ACCOUNT 3) FIELD_WORKER no_filter sample_list = [sample_move 6 2, sample_move 5 1]" "summary_keys sample_list"
  by (simp_all add: list_identity_of_def viewer_role_of_def sample_list_def move_filter_ok_def no_filter_def listed_jobs_def job_listed_def
      visible_job_ids_def empty_db_def sample_move_def summary_keys_def)

lemma worker_learns_no_address_witness:
  "list_move_jobs None (Some 3) no_filter 1 None 9 (readdress (\<lambda>l. Some ''Apt 8'') sample_list) = list_move_jobs None (Some 3) no_filter 1 None 9 sample_list"
  using worker_learns_no_address[OF sample_list_facts(1,2)] by blast

lemma paging_lists_every_job_once_witness:
  "\<exists>ms. follow_pages 3 None (Some 3) no_filter 1 None 9 sample_list = Inr ms \<and> map (\<lambda>m. mjr_id (mjs_job m)) ms = [6, 5]"
proof -
  have summary: "\<exists>m. move_summary j FIELD_WORKER 9 sample_list = Inr m \<and> mjr_id (mjs_job m) = mj_id j" for j
    by (simp add: move_summary_def current_scope_of_def latest_proposal_def latest_completion_status_def move_summary_response_def summary_quote_def
        sample_list_def empty_db_def to_response_def)
  obtain m n where m: "move_summary (sample_move 6 2) FIELD_WORKER 9 sample_list = Inr m" "mjr_id (mjs_job m) = 6"
      "move_summary (sample_move 5 1) FIELD_WORKER 9 sample_list = Inr n" "mjr_id (mjs_job n) = 5"
    using summary[of "sample_move 6 2"] summary[of "sample_move 5 1"] by (auto simp: sample_move_def)
  then have "mapR (\<lambda>j. move_summary j FIELD_WORKER 9 sample_list) (listed_jobs (ACCOUNT 3) FIELD_WORKER no_filter sample_list) = Inr [m, n]"
    unfolding sample_list_facts(4) by simp
  then have "follow_pages (Suc (length (listed_jobs (ACCOUNT 3) FIELD_WORKER no_filter sample_list))) None (Some 3) no_filter 1 None 9 sample_list = Inr [m, n]"
    using paging_lists_every_job_once[OF sample_list_facts(5,1,2,3), of 1] sample_list_facts(4) by (simp add: MAX_LIST_CURSOR_OFFSET_def del: follow_pages.simps)
  then have "follow_pages 3 None (Some 3) no_filter 1 None 9 sample_list = Inr [m, n]"
    unfolding sample_list_facts(4) by (simp add: numeral_3_eq_3 del: follow_pages.simps)
  then show ?thesis using m by (intro exI[of _ "[m, n]"]) simp
qed

end
