(* ===== verification/Capture.thy ===== *)
theory Capture
  imports MediaProcessing AuditTrail
begin

text \<open>
  Capture sessions and media uploads: \<open>app/modules/capture/service.py\<close> with its \<open>schemas.py\<close>, and
  the public view of an analysis (\<open>app/modules/analysis_workflow/schemas.py\<close>). The storage port and the
  check of the URL it signs are one argument; \<open>others\<close> is what other transactions commit while the storage
  is asked, before the rows are locked. What the storage reports is a validated
  \<open>StorageObjectMetadata\<close>. Lemmas are in CaptureProofs.
\<close>

section \<open>The view of an analysis\<close>

datatype AnalysisFailureStage = STAGE_PROMPT | INPUT_LOOKUP | PROVIDER_CALL | STAGE_PARSE | SOURCE_MAP
  | RESULT_LOAD | SCOPE_IMPORT

fun stage_value :: "AnalysisFailureStage \<Rightarrow> string" where
  "stage_value STAGE_PROMPT = ''prompt''"
| "stage_value INPUT_LOOKUP = ''input_lookup''"
| "stage_value PROVIDER_CALL = ''provider_call''"
| "stage_value STAGE_PARSE = ''parse''"
| "stage_value SOURCE_MAP = ''source_map''"
| "stage_value RESULT_LOAD = ''result_load''"
| "stage_value SCOPE_IMPORT = ''scope_import''"

datatype AnalysisFailureDetail = PROMPT_NOT_CONFIGURED | NO_READY_MEDIA | PROVIDER_REJECTED
  | PROVIDER_TIMEOUT | PROVIDER_UNAVAILABLE | EMPTY_RESPONSE | SCHEMA_VALIDATION
  | INVALID_SOURCE_REFERENCE | MIXED_SOURCE_LOCATION | DUPLICATE_ITEM_KEY | DUPLICATE_LOCATION
  | RESULT_MISSING | SCOPE_IMPORT_INVALID

fun detail_value :: "AnalysisFailureDetail \<Rightarrow> string" where
  "detail_value PROMPT_NOT_CONFIGURED = ''prompt_not_configured''"
| "detail_value NO_READY_MEDIA = ''no_ready_media''"
| "detail_value PROVIDER_REJECTED = ''provider_rejected''"
| "detail_value PROVIDER_TIMEOUT = ''provider_timeout''"
| "detail_value PROVIDER_UNAVAILABLE = ''provider_unavailable''"
| "detail_value EMPTY_RESPONSE = ''empty_response''"
| "detail_value SCHEMA_VALIDATION = ''schema_validation''"
| "detail_value INVALID_SOURCE_REFERENCE = ''invalid_source_reference''"
| "detail_value MIXED_SOURCE_LOCATION = ''mixed_source_location''"
| "detail_value DUPLICATE_ITEM_KEY = ''duplicate_item_key''"
| "detail_value DUPLICATE_LOCATION = ''duplicate_location''"
| "detail_value RESULT_MISSING = ''result_missing''"
| "detail_value SCOPE_IMPORT_INVALID = ''scope_import_invalid''"

text \<open>\<open>AnalysisFailureStage(text)\<close>: the member with this value, or a \<open>ValueError\<close>.\<close>

definition stage_of :: "string \<Rightarrow> AnalysisFailureStage result" where
  "stage_of t = (case find (\<lambda>x. stage_value x = t)
       [STAGE_PROMPT, INPUT_LOOKUP, PROVIDER_CALL, STAGE_PARSE, SOURCE_MAP, RESULT_LOAD, SCOPE_IMPORT] of
     None \<Rightarrow> Inl ValueError | Some x \<Rightarrow> Inr x)"

definition detail_of :: "string \<Rightarrow> AnalysisFailureDetail result" where
  "detail_of t = (case find (\<lambda>x. detail_value x = t)
       [PROMPT_NOT_CONFIGURED, NO_READY_MEDIA, PROVIDER_REJECTED, PROVIDER_TIMEOUT, PROVIDER_UNAVAILABLE,
        EMPTY_RESPONSE, SCHEMA_VALIDATION, INVALID_SOURCE_REFERENCE, MIXED_SOURCE_LOCATION,
        DUPLICATE_ITEM_KEY, DUPLICATE_LOCATION, RESULT_MISSING, SCOPE_IMPORT_INVALID] of
     None \<Rightarrow> Inl ValueError | Some x \<Rightarrow> Inr x)"

definition optional_of :: "(string \<Rightarrow> 'a result) \<Rightarrow> string option \<Rightarrow> 'a option result" where
  "optional_of f t = (case t of None \<Rightarrow> Inr None | Some u \<Rightarrow> bindR (f u) (\<lambda>x. Inr (Some x)))"

record CaptureAnalysisResponse =
  car_analysis_run_id :: uuid
  car_capture_session_id :: uuid
  car_status :: CaptureAnalysisStatus
  car_scope_version_id :: "uuid option"
  car_failure_code :: "string option"
  car_retryable :: "bool option"
  car_failure_stage :: "AnalysisFailureStage option"
  car_provider_status :: "int option"
  car_failure_detail_code :: "AnalysisFailureDetail option"
  car_submitted_at :: instant
  car_completed_at :: "instant option"

definition capture_analysis_response :: "CaptureAnalysisDispatch \<Rightarrow> CaptureAnalysisResponse result" where
  "capture_analysis_response r =
     bindR (optional_of stage_of (ca_failure_stage r)) (\<lambda>stage.
     bindR (optional_of detail_of (ca_failure_detail_code r)) (\<lambda>detail.
     Inr \<lparr>car_analysis_run_id = ca_analysis_run_id r, car_capture_session_id = ca_capture_session_id r,
       car_status = ca_status r, car_scope_version_id = ca_scope_version_id r,
       car_failure_code = ca_failure_code r, car_retryable = ca_retryable r, car_failure_stage = stage,
       car_provider_status = ca_provider_status r, car_failure_detail_code = detail,
       car_submitted_at = ca_submitted_at r, car_completed_at = ca_completed_at r\<rparr>))"

section \<open>Commands and responses\<close>

definition MAX_IMAGE_BYTES :: int where
  "MAX_IMAGE_BYTES = 20 * 1024 * 1024"

definition MAX_VIDEO_BYTES :: int where
  "MAX_VIDEO_BYTES = 200 * 1024 * 1024"

definition MEDIA_CONSENT_POLICY_VERSION :: string where
  "MEDIA_CONSENT_POLICY_VERSION = ''2026-08-17.v1''"

datatype MediaProcessingPurpose = INVENTORY_ANALYSIS | CONDITION_RECORD | FIELD_CHANGE_EVIDENCE | COMPLETION_RECORD

definition MEDIA_PROCESSING_PURPOSES :: "MediaProcessingPurpose list" where
  "MEDIA_PROCESSING_PURPOSES = [INVENTORY_ANALYSIS, CONDITION_RECORD, FIELD_CHANGE_EVIDENCE, COMPLETION_RECORD]"

record CaptureSessionCreate =
  csn_consent_policy_version :: string
  csn_privacy_notice_acknowledged :: bool

definition capture_session_create_ok :: "CaptureSessionCreate \<Rightarrow> bool" where
  "capture_session_create_ok c = (text_between 1 50 (csn_consent_policy_version c) \<and> csn_privacy_notice_acknowledged c)"

record MediaProcessingConsentSnapshot =
  mcs_policy_version :: "string option"
  mcs_processing_purposes :: "MediaProcessingPurpose list"
  mcs_privacy_notice_acknowledged :: bool
  mcs_retention_days_after_job_completion :: "int option"
  mcs_consented_at :: "instant option"

record MediaUploadCreate =
  muc_room_zone_id :: uuid
  muc_media_purpose :: MediaPurpose
  muc_content_type :: string
  muc_content_length :: int

definition media_upload_create_ok :: "MediaUploadCreate \<Rightarrow> bool" where
  "media_upload_create_ok c = (muc_content_type c \<in> {''image/jpeg'', ''image/png'', ''video/mp4''} \<and>
     0 < muc_content_length c \<and> muc_content_length c \<le> MAX_VIDEO_BYTES \<and>
     \<not> (take 6 (muc_content_type c) = ''image/'' \<and> MAX_IMAGE_BYTES < muc_content_length c))"

record CaptureSessionResponse =
  csr_id :: uuid
  csr_job_id :: uuid
  csr_created_by_participant_id :: uuid
  csr_media_processing_consent :: MediaProcessingConsentSnapshot
  csr_created_at :: instant

record MediaAssetResponse =
  mar_id :: uuid
  mar_capture_session_id :: uuid
  mar_room_zone_id :: uuid
  mar_media_purpose :: MediaPurpose
  mar_status :: MediaAssetStatus
  mar_content_type :: string
  mar_expected_size_bytes :: int
  mar_actual_size_bytes :: "int option"
  mar_sha256_hex :: "string option"
  mar_created_at :: instant
  mar_uploaded_at :: "instant option"

record CaptureSessionDetailResponse = CaptureSessionResponse +
  csd_media_assets :: "MediaAssetResponse list"
  csd_analysis :: "CaptureAnalysisResponse option"

record MediaUploadResponse =
  mur_asset :: MediaAssetResponse
  mur_upload_url :: string
  mur_upload_headers :: "(string \<times> string) list"
  mur_expires_at :: instant

definition asset_response :: "MediaAsset \<Rightarrow> MediaAssetResponse" where
  "asset_response a = \<lparr>mar_id = ma_id a, mar_capture_session_id = ma_capture_session_id a,
     mar_room_zone_id = ma_room_zone_id a, mar_media_purpose = ma_media_purpose a, mar_status = ma_status a,
     mar_content_type = ma_content_type a, mar_expected_size_bytes = ma_expected_size_bytes a,
     mar_actual_size_bytes = ma_actual_size_bytes a, mar_sha256_hex = ma_sha256_hex a,
     mar_created_at = ma_created_at a, mar_uploaded_at = ma_uploaded_at a\<rparr>"

definition consent_snapshot :: "CaptureSession \<Rightarrow> MediaProcessingConsentSnapshot" where
  "consent_snapshot c = \<lparr>mcs_policy_version = cs_media_consent_policy_version c,
     mcs_processing_purposes = (if cs_privacy_notice_acknowledged c then MEDIA_PROCESSING_PURPOSES else []),
     mcs_privacy_notice_acknowledged = cs_privacy_notice_acknowledged c,
     mcs_retention_days_after_job_completion = cs_media_retention_days c, mcs_consented_at = cs_media_consented_at c\<rparr>"

definition capture_response :: "CaptureSession \<Rightarrow> CaptureSessionResponse" where
  "capture_response c = \<lparr>csr_id = cs_id c, csr_job_id = cs_job_id c,
     csr_created_by_participant_id = cs_created_by_participant_id c, csr_media_processing_consent = consent_snapshot c,
     csr_created_at = cs_created_at c\<rparr>"

section \<open>Sessions\<close>

definition lock_mutable_job :: "uuid \<Rightarrow> db \<Rightarrow> unit result" where
  "lock_mutable_job job_id s = (case row mj_id job_id (move_jobs s) of
     None \<Rightarrow> Inl CaptureResourceNotFoundError
   | Some j \<Rightarrow> if mj_status j \<in> {COMPLETED, CANCELED} then Inl CaptureWorkflowConflictError else Inr ())"

definition insert_capture :: "CaptureSession \<Rightarrow> db \<Rightarrow> db result" where
  "insert_capture c s = (if capture_session_check c then Inr (s\<lparr>capture_sessions := capture_sessions s @ [c]\<rparr>)
     else Inl IntegrityError)"

definition create_capture_session ::
    "uuid \<Rightarrow> uuid \<Rightarrow> CaptureSessionCreate \<Rightarrow> int \<Rightarrow> instant \<Rightarrow> db \<Rightarrow> (CaptureSessionResponse \<times> db) result" where
  "create_capture_session job_id participant_id cmd retention_days now s =
     (if csn_consent_policy_version cmd \<noteq> MEDIA_CONSENT_POLICY_VERSION then Inl MediaConsentConflictError
      else bindR (lock_mutable_job job_id s) (\<lambda>_.
        if \<not> is_participant job_id participant_id any_role s then Inl CaptureResourceNotFoundError
        else let (i, s1) = uuid4 s;
                 c = \<lparr>cs_id = i, cs_job_id = job_id, cs_created_by_participant_id = participant_id,
                      cs_media_consent_policy_version = Some MEDIA_CONSENT_POLICY_VERSION,
                      cs_privacy_notice_acknowledged = True, cs_media_retention_days = Some retention_days,
                      cs_media_consented_at = Some now, cs_created_at = now\<rparr> in
          bindR (insert_capture c s1) (\<lambda>s2. Inr (capture_response c, s2))))"

definition assets_of_capture :: "uuid \<Rightarrow> db \<Rightarrow> MediaAsset list" where
  "assets_of_capture capture_id s = sort_key (\<lambda>a. (ma_created_at a, ma_id a))
     (filter (\<lambda>a. ma_capture_session_id a = capture_id) (media_assets s))"

definition analysis_of_capture :: "uuid \<Rightarrow> db \<Rightarrow> CaptureAnalysisDispatch option" where
  "analysis_of_capture capture_id s = find (\<lambda>r. ca_capture_session_id r = capture_id) (analysis_dispatches s)"

definition capture_detail :: "db \<Rightarrow> CaptureSession \<Rightarrow> CaptureSessionDetailResponse result" where
  "capture_detail s c =
     bindR (case analysis_of_capture (cs_id c) s of None \<Rightarrow> Inr None
       | Some r \<Rightarrow> bindR (capture_analysis_response r) (\<lambda>v. Inr (Some v))) (\<lambda>analysis.
     Inr \<lparr>csr_id = cs_id c, csr_job_id = cs_job_id c, csr_created_by_participant_id = cs_created_by_participant_id c,
       csr_media_processing_consent = consent_snapshot c, csr_created_at = cs_created_at c,
       csd_media_assets = map asset_response (assets_of_capture (cs_id c) s), csd_analysis = analysis\<rparr>)"

definition list_capture_sessions :: "uuid \<Rightarrow> uuid \<Rightarrow> db \<Rightarrow> CaptureSessionDetailResponse list result" where
  "list_capture_sessions job_id participant_id s = mapR (capture_detail s)
     (rev (sort_key (\<lambda>c. (cs_created_at c, cs_id c))
       (filter (\<lambda>c. cs_job_id c = job_id \<and> cs_created_by_participant_id c = participant_id) (capture_sessions s))))"

definition load_owned_capture :: "uuid \<Rightarrow> uuid \<Rightarrow> uuid \<Rightarrow> db \<Rightarrow> CaptureSession result" where
  "load_owned_capture job_id capture_id participant_id s = (case row cs_id capture_id (capture_sessions s) of
     None \<Rightarrow> Inl CaptureResourceNotFoundError
   | Some c \<Rightarrow> if cs_job_id c \<noteq> job_id \<or> cs_created_by_participant_id c \<noteq> participant_id
       then Inl CaptureResourceNotFoundError else Inr c)"

text \<open>Once a capture is submitted for analysis its media are fixed.\<close>

definition lock_capture_for_media :: "uuid \<Rightarrow> uuid \<Rightarrow> uuid \<Rightarrow> db \<Rightarrow> unit result" where
  "lock_capture_for_media job_id capture_id participant_id s =
     bindR (load_owned_capture job_id capture_id participant_id s) (\<lambda>_.
     if analysis_of_capture capture_id s \<noteq> None then Inl CaptureWorkflowConflictError else Inr ())"

section \<open>Uploads\<close>

definition UPLOAD_URL_TTL_SECONDS :: int where
  "UPLOAD_URL_TTL_SECONDS = 15 * 60"

definition CAPTURE_PURPOSES :: "MediaPurpose set" where
  "CAPTURE_PURPOSES = {INVENTORY, CONDITION, CHANGE_EVIDENCE, COMPLETION}"

definition job_ended :: "uuid \<Rightarrow> db \<Rightarrow> bool" where
  "job_ended job_id s = (case row mj_id job_id (move_jobs s) of None \<Rightarrow> False
     | Some j \<Rightarrow> mj_status j \<in> {COMPLETED, CANCELED})"

definition zone_of_job :: "uuid \<Rightarrow> uuid \<Rightarrow> db \<Rightarrow> bool" where
  "zone_of_job job_id zone_id s = (case row rz_id zone_id (room_zones s) of None \<Rightarrow> False
     | Some z \<Rightarrow> map_option loc_job_id (row loc_id (rz_location_id z) (locations s)) = Some job_id)"

definition object_key_of :: "uuid \<Rightarrow> uuid \<Rightarrow> uuid \<Rightarrow> string" where
  "object_key_of job_id capture_id asset_id =
     ''jobs/'' @ uuid_str job_id @ ''/captures/'' @ uuid_str capture_id @ ''/'' @ uuid_str asset_id"

definition new_media_asset :: "uuid \<Rightarrow> uuid \<Rightarrow> uuid \<Rightarrow> MediaUploadCreate \<Rightarrow> instant \<Rightarrow> MediaAsset" where
  "new_media_asset i job_id capture_id cmd now = \<lparr>ma_id = i, ma_capture_session_id = capture_id,
     ma_room_zone_id = muc_room_zone_id cmd, ma_media_purpose = muc_media_purpose cmd, ma_status = PENDING_UPLOAD,
     ma_object_key = object_key_of job_id capture_id i, ma_content_type = muc_content_type cmd,
     ma_expected_size_bytes = muc_content_length cmd, ma_actual_size_bytes = None, ma_sha256_hex = None,
     ma_generation = None, ma_created_at = now, ma_uploaded_at = None\<rparr>"

definition insert_asset :: "MediaAsset \<Rightarrow> db \<Rightarrow> db result" where
  "insert_asset a s =
     (if \<not> media_asset_check a \<or> list_ex (\<lambda>x. ma_id x = ma_id a \<or> ma_object_key x = ma_object_key a) (media_assets s)
      then Inl IntegrityError else Inr (s\<lparr>media_assets := media_assets s @ [a]\<rparr>))"

definition create_media_upload ::
    "(string \<Rightarrow> string \<Rightarrow> int \<Rightarrow> (string \<times> (string \<times> string) list) result) \<Rightarrow> (db \<Rightarrow> db) \<Rightarrow>
     uuid \<Rightarrow> uuid \<Rightarrow> uuid \<Rightarrow> MediaUploadCreate \<Rightarrow> instant \<Rightarrow> db \<Rightarrow> (MediaUploadResponse \<times> db) result" where
  "create_media_upload create_upload_url others job_id capture_id participant_id cmd now s =
     bindR (load_owned_capture job_id capture_id participant_id s) (\<lambda>capture.
     if cs_media_consented_at capture = None then Inl MediaConsentConflictError
     else if job_ended job_id s then Inl CaptureWorkflowConflictError
     else if muc_media_purpose cmd \<notin> CAPTURE_PURPOSES then Inl MediaPurposeNotAllowedError
     else if \<not> zone_of_job job_id (muc_room_zone_id cmd) s then Inl CaptureResourceNotFoundError
     else let (i, s1) = uuid4 s; asset = new_media_asset i job_id capture_id cmd now in
     bindR (create_upload_url (ma_object_key asset) (ma_content_type asset) (ma_expected_size_bytes asset)) (\<lambda>(url, headers).
     let s2 = others s1 in
     bindR (lock_mutable_job job_id s2) (\<lambda>_.
     bindR (lock_capture_for_media job_id capture_id participant_id s2) (\<lambda>_.
     bindR (insert_asset asset s2) (\<lambda>s3.
     Inr (\<lparr>mur_asset = asset_response asset, mur_upload_url = url, mur_upload_headers = headers,
            mur_expires_at = now + seconds UPLOAD_URL_TTL_SECONDS\<rparr>, s3))))))"

definition asset_in_capture :: "uuid \<Rightarrow> uuid \<Rightarrow> db \<Rightarrow> MediaAsset option" where
  "asset_in_capture asset_id capture_id s = (case row ma_id asset_id (media_assets s) of None \<Rightarrow> None
     | Some a \<Rightarrow> if ma_capture_session_id a = capture_id then Some a else None)"

definition upload_matches :: "StorageObjectMetadata \<Rightarrow> MediaAsset \<Rightarrow> bool" where
  "upload_matches m a = (so_object_key m = ma_object_key a \<and> so_content_type m = ma_content_type a \<and>
     so_size_bytes m = ma_expected_size_bytes a \<and> so_generation m \<noteq> None)"

definition uploaded_asset :: "StorageObjectMetadata \<Rightarrow> instant \<Rightarrow> MediaAsset \<Rightarrow> MediaAsset" where
  "uploaded_asset m now a = a\<lparr>ma_status := UPLOADED, ma_actual_size_bytes := Some (so_size_bytes m),
     ma_sha256_hex := None, ma_generation := so_generation m, ma_uploaded_at := Some now\<rparr>"

text \<open>An upload that is already reported gets its validation job, and the same answer.\<close>

definition repeat_validation ::
    "uuid \<Rightarrow> MediaAsset \<Rightarrow> uuid \<Rightarrow> string option \<Rightarrow> instant \<Rightarrow> db \<Rightarrow> (MediaAssetResponse \<times> db) result" where
  "repeat_validation job_id asset participant_id trace now s =
     (let (tr, s1) = trace_or_new trace s in
      bindR (create_media_validation_background_job job_id (ma_id asset) participant_id tr None now s1) (\<lambda>(_, s2).
      Inr (asset_response asset, s2)))"

definition media_payload :: "uuid \<Rightarrow> MediaAsset \<Rightarrow> (string \<times> json) list" where
  "media_payload capture_id a = [(''capture_session_id'', id_json capture_id), (''media_asset_id'', id_json (ma_id a)),
     (''room_zone_id'', id_json (ma_room_zone_id a))]"

definition announce_completion_media ::
    "uuid \<Rightarrow> uuid \<Rightarrow> MediaAsset \<Rightarrow> uuid \<Rightarrow> string \<Rightarrow> instant \<Rightarrow> db \<Rightarrow> db result" where
  "announce_completion_media job_id capture_id a participant_id trace now s =
     (if ma_media_purpose a \<noteq> COMPLETION then Inr s
      else bindR (enqueue_domain_event COMPLETION_MEDIA_SUBMITTED_V1 job_id (Some participant_id) (Some trace)
             (media_payload capture_id a) now
             (add_audit_event job_id AU_COMPLETION_MEDIA_UPLOADED (Some participant_id) (media_payload capture_id a) now s))
        (\<lambda>(_, s1). Inr s1))"

definition record_upload ::
    "uuid \<Rightarrow> uuid \<Rightarrow> StorageObjectMetadata \<Rightarrow> MediaAsset \<Rightarrow> uuid \<Rightarrow> string option \<Rightarrow> instant \<Rightarrow> db \<Rightarrow>
     (MediaAssetResponse \<times> db) result" where
  "record_upload job_id capture_id metadata a participant_id trace now s =
     (let asset = uploaded_asset metadata now a; (tr, s1) = trace_or_new trace (put_asset asset s) in
      bindR (create_media_validation_background_job job_id (ma_id asset) participant_id tr None now s1) (\<lambda>(_, s2).
      bindR (announce_completion_media job_id capture_id asset participant_id tr now s2) (\<lambda>s3.
      if media_asset_check asset then Inr (asset_response asset, s3) else Inl IntegrityError)))"

definition complete_media_upload ::
    "(string \<Rightarrow> port_error + StorageObjectMetadata) \<Rightarrow> (db \<Rightarrow> db) \<Rightarrow>
     uuid \<Rightarrow> uuid \<Rightarrow> uuid \<Rightarrow> uuid \<Rightarrow> string option \<Rightarrow> instant \<Rightarrow> db \<Rightarrow> (MediaAssetResponse \<times> db) result" where
  "complete_media_upload get_metadata others job_id capture_id asset_id participant_id trace now s =
     bindR (load_owned_capture job_id capture_id participant_id s) (\<lambda>capture.
     if cs_media_consented_at capture = None then Inl MediaConsentConflictError
     else case asset_in_capture asset_id capture_id s of None \<Rightarrow> Inl CaptureResourceNotFoundError
     | Some asset \<Rightarrow>
     if ma_status asset = UPLOADED then repeat_validation job_id asset participant_id trace now s
     else if ma_status asset \<noteq> PENDING_UPLOAD then Inl MediaUploadStateConflictError
     else if job_ended job_id s then Inl CaptureWorkflowConflictError
     else case get_metadata (ma_object_key asset) of Inl e \<Rightarrow> Inl (PortError e)
     | Inr metadata \<Rightarrow>
     if \<not> upload_matches metadata asset then Inl MediaMetadataMismatchError
     else let s1 = others s in
     bindR (lock_mutable_job job_id s1) (\<lambda>_.
     bindR (lock_capture_for_media job_id capture_id participant_id s1) (\<lambda>_.
     case asset_in_capture asset_id capture_id s1 of None \<Rightarrow> Inl NoResultFound
     | Some current \<Rightarrow>
     if ma_status current = UPLOADED then repeat_validation job_id current participant_id trace now s1
     else if ma_status current \<noteq> PENDING_UPLOAD then Inl MediaUploadStateConflictError
     else record_upload job_id capture_id metadata current participant_id trace now s1)))"

end
