(* ===== verification/CaptureProofs.thy ===== *)
theory CaptureProofs
  imports Capture
begin

text \<open>
  Lemmas about media uploads: what reporting an upload pins and schedules, and that reporting it again gives the
  same answer.
\<close>

lemma trace_step: "trace_or_new trace s = (tr, s1) \<Longrightarrow> \<exists>d. s1 = s\<lparr>drawn := d\<rparr>"
proof -
  assume t: "trace_or_new trace s = (tr, s1)"
  then have "s1 = s\<lparr>drawn := drawn s1\<rparr>" by (auto simp: trace_or_new_def token_hex16_def split: option.splits list.splits)
  then show ?thesis by blast
qed

lemma asset_in_capture_row: "asset_in_capture i c s = Some a \<longleftrightarrow> row ma_id i (media_assets s) = Some a \<and> ma_capture_session_id a = c"
  by (auto simp: asset_in_capture_def split: option.splits)

lemma uploaded_fields [simp]:
  "ma_id (uploaded_asset m now a) = ma_id a" "ma_status (uploaded_asset m now a) = UPLOADED"
  "ma_generation (uploaded_asset m now a) = so_generation m" "ma_actual_size_bytes (uploaded_asset m now a) = Some (so_size_bytes m)"
  "ma_object_key (uploaded_asset m now a) = ma_object_key a" "ma_capture_session_id (uploaded_asset m now a) = ma_capture_session_id a"
  "ma_media_purpose (uploaded_asset m now a) = ma_media_purpose a" "ma_content_type (uploaded_asset m now a) = ma_content_type a"
  by (simp_all add: uploaded_asset_def)

text \<open>A validation job made for an asset that has none yet.\<close>

lemma validation_created:
  assumes "create_media_validation_background_job job i p trace None now s = Inr (resp, s')" "job_for MEDIA_VALIDATION i s = None"
    "row ma_id i (media_assets s) = Some a"
  shows "\<exists>b. job_for MEDIA_VALIDATION i s' = Some b \<and> s' = s\<lparr>drawn := Suc (drawn s), background_jobs := background_jobs s @ [b]\<rparr> \<and>
    bj_status b = PENDING \<and> bj_target_object_key b = ma_object_key a \<and> Some (bj_target_generation b) = ma_generation a \<and>
    bj_target_size_bytes b = ma_actual_size_bytes a \<and> bj_scheduled_at b = now"
proof -
  have id: "ma_id a = i" by (rule row_key[OF assms(3)])
  define b where "b = new_background_job (rng s (drawn s)) job i MEDIA_VALIDATION (ma_object_key a)
    (case ma_generation a of Some g \<Rightarrow> g | None \<Rightarrow> []) (Some (ma_content_type a)) (ma_actual_size_bytes a) trace now (Some p) now"
  have "trimmed_generation a" "insert_background_job b (s\<lparr>drawn := Suc (drawn s)\<rparr>) = Inr s'"
    using assms id by (auto simp: create_media_validation_background_job_def uuid4_def b_def Let_def bindR_Inr split: if_splits)
  moreover from this have "ma_generation a = Some (bj_target_generation b)"
    by (auto simp: trimmed_generation_def b_def new_background_job_def split: option.splits)
  moreover have f: "bj_job_type b = MEDIA_VALIDATION" "bj_media_asset_id b = i" "bj_status b = PENDING"
      "bj_target_object_key b = ma_object_key a" "bj_target_size_bytes b = ma_actual_size_bytes a" "bj_scheduled_at b = now"
    by (simp_all add: b_def new_background_job_def)
  moreover from calculation(2) have s': "s' = s\<lparr>drawn := Suc (drawn s), background_jobs := background_jobs s @ [b]\<rparr>"
    by (simp add: insert_background_job_def split: if_splits)
  moreover have "job_for MEDIA_VALIDATION i s' = Some b" using assms(2) f(1,2) by (simp add: s' job_for_def find_append)
  ultimately show ?thesis by (intro exI[of _ b]) simp
qed

lemma announce_frame:
  assumes "announce_completion_media job c a p trace now s = Inr s'"
  shows "media_assets s' = media_assets s \<and> background_jobs s' = background_jobs s \<and> capture_sessions s' = capture_sessions s \<and>
    move_jobs s' = move_jobs s"
proof (cases "ma_media_purpose a = COMPLETION")
  case True
  then obtain ev where "enqueue_domain_event COMPLETION_MEDIA_SUBMITTED_V1 job (Some p) (Some trace) (media_payload c a) now
      (add_audit_event job AU_COMPLETION_MEDIA_UPLOADED (Some p) (media_payload c a) now s) = Inr (ev, s')"
    using assms by (auto simp: announce_completion_media_def bindR_Inr)
  then show ?thesis by (rule enqueue_event_spec) (simp add: add_audit_event_def uuid4_def)
qed (use assms in \<open>simp add: announce_completion_media_def\<close>)

text \<open>An upload is reported once, for the object the storage holds. When reporting a pending upload succeeds, the
  storage has described the object as it was announced, key, content type and size; the asset is uploaded at the
  generation the storage named, one pending validation job is pinned to exactly that object and due at once, and no
  other asset changes. Whoever reports it again, however late and whatever the storage says by then, gets the same
  answer and changes nothing.\<close>

theorem upload_reported_once:
  assumes run: "complete_media_upload get_metadata others job c i p trace now s = Inr (v, s')"
    and asset: "asset_in_capture i c s = Some a" "ma_status a = PENDING_UPLOAD"
    and same: "asset_in_capture i c (others s) = Some a" "job_for MEDIA_VALIDATION i (others s) = None"
      "capture_sessions (others s) = capture_sessions s"
  shows "(\<exists>m b. get_metadata (ma_object_key a) = Inr m \<and> upload_matches m a \<and>
      row ma_id i (media_assets s') = Some (uploaded_asset m now a) \<and> v = asset_response (uploaded_asset m now a) \<and>
      job_for MEDIA_VALIDATION i s' = Some b \<and> bj_status b = PENDING \<and> bj_scheduled_at b = now \<and>
      bj_target_object_key b = ma_object_key a \<and> Some (bj_target_generation b) = so_generation m \<and>
      bj_target_size_bytes b = Some (ma_expected_size_bytes a)) \<and>
    (\<forall>k. k \<noteq> i \<longrightarrow> row ma_id k (media_assets s') = row ma_id k (media_assets (others s))) \<and>
    (\<forall>get2 others2 trace2 later. \<exists>d. complete_media_upload get2 others2 job c i p trace2 later s' = Inr (v, s'\<lparr>drawn := d\<rparr>))"
proof -
  let ?s1 = "others s"
  obtain capture where cap: "load_owned_capture job c p s = Inr capture" "cs_media_consented_at capture \<noteq> None"
    using run by (auto simp: complete_media_upload_def bindR_Inr split: if_splits)
  obtain consented where con: "cs_media_consented_at capture = Some consented" using cap(2) by blast
  have active: "\<not> job_ended job s" using run cap(1) con asset by (auto simp: complete_media_upload_def)
  obtain m where m1: "get_metadata (ma_object_key a) = Inr m"
    using run cap(1) con asset active by (cases "get_metadata (ma_object_key a)") (simp_all add: complete_media_upload_def)
  have m2: "upload_matches m a" using run cap(1) con asset active m1 by (simp add: complete_media_upload_def split: if_splits)
  have rec: "bindR (lock_mutable_job job ?s1) (\<lambda>_. bindR (lock_capture_for_media job c p ?s1) (\<lambda>_.
        record_upload job c m a p trace now ?s1)) = Inr (v, s')"
    using run cap(1) con asset active m1 m2 same(1) by (simp add: complete_media_upload_def Let_def)
  have r1: "row ma_id i (media_assets ?s1) = Some a" and inc: "ma_capture_session_id a = c"
    using same(1) by (simp_all add: asset_in_capture_row)
  have id: "ma_id a = i" by (rule row_key[OF r1])
  let ?a = "uploaded_asset m now a"
  obtain tr s2 where t: "trace_or_new trace (put_asset ?a ?s1) = (tr, s2)" by fastforce
  then obtain d where s2: "s2 = (put_asset ?a ?s1)\<lparr>drawn := d\<rparr>" using trace_step by blast
  obtain resp s3 where j: "create_media_validation_background_job job i p tr None now s2 = Inr (resp, s3)"
      and ann: "announce_completion_media job c ?a p tr now s3 = Inr s'" and v: "v = asset_response ?a"
    using rec t id by (auto simp: record_upload_def bindR_Inr Let_def split: if_splits)
  have row2: "row ma_id i (media_assets s2) = Some ?a" using r1 id by (simp add: s2 put_asset_def row_put_row)
  have "job_for MEDIA_VALIDATION i s2 = None" using same(2) by (simp add: s2 put_asset_def job_for_def)
  from validation_created[OF j this row2] obtain b where b: "job_for MEDIA_VALIDATION i s3 = Some b"
      "s3 = s2\<lparr>drawn := Suc (drawn s2), background_jobs := background_jobs s2 @ [b]\<rparr>" "bj_status b = PENDING"
      "bj_target_object_key b = ma_object_key a" "Some (bj_target_generation b) = so_generation m"
      "bj_target_size_bytes b = Some (so_size_bytes m)" "bj_scheduled_at b = now" by auto
  note fr = announce_frame[OF ann]
  have row': "row ma_id i (media_assets s') = Some ?a" using fr row2 by (simp add: b(2))
  have job': "job_for MEDIA_VALIDATION i s' = Some b" using fr b(1) by (simp add: job_for_def)
  have rest: "row ma_id k (media_assets s') = row ma_id k (media_assets ?s1)" if "k \<noteq> i" for k
    using fr that id by (simp add: b(2) s2 put_asset_def row_put_row)
  have caps: "capture_sessions s' = capture_sessions ?s1" using fr by (simp add: b(2) s2 put_asset_def)
  have again: "\<exists>d. complete_media_upload get2 others2 job c i p trace2 later s' = Inr (v, s'\<lparr>drawn := d\<rparr>)" for get2 others2 trace2 later
  proof -
    have own: "load_owned_capture job c p s' = Inr capture"
      using cap(1) caps same(3) by (simp add: load_owned_capture_def)
    then have crow: "map_option cs_job_id (row cs_id c (capture_sessions s')) = Some job"
      by (auto simp: load_owned_capture_def split: option.splits if_splits)
    have found: "asset_in_capture i c s' = Some ?a" using row' inc by (simp add: asset_in_capture_row)
    obtain tr2 s4 where t2: "trace_or_new trace2 s' = (tr2, s4)" by fastforce
    then obtain d where s4: "s4 = s'\<lparr>drawn := d\<rparr>" using trace_step by blast
    have "create_media_validation_background_job job i p tr2 None later s4 = Inr (job_response b, s4)"
      using row' crow job' id inc by (simp add: create_media_validation_background_job_def s4 job_for_def)
    then have "repeat_validation job ?a p trace2 later s' = Inr (v, s'\<lparr>drawn := d\<rparr>)"
      using t2 id v by (simp add: repeat_validation_def s4)
    then show ?thesis using own cap(2) found by (auto simp: complete_media_upload_def)
  qed
  have "so_size_bytes m = ma_expected_size_bytes a" using m2 by (simp add: upload_matches_def)
  then show ?thesis using m1 m2 row' v job' b(3-7) rest again by auto
qed

section \<open>Witness\<close>

definition sample_upload :: db where
  "sample_upload = (empty_db (\<lambda>k. 100 + k) (\<lambda>t. t))\<lparr>
     move_jobs := [\<lparr>mj_id = 1, mj_title = ''move'', mj_status = ACTIVE, mj_scheduled_at = None, mj_created_at = 0,
       mj_updated_at = 0, mj_completed_at = None\<rparr>],
     capture_sessions := [\<lparr>cs_id = 31, cs_job_id = 1, cs_created_by_participant_id = 2,
       cs_media_consent_policy_version = Some MEDIA_CONSENT_POLICY_VERSION, cs_privacy_notice_acknowledged = True,
       cs_media_retention_days = Some 30, cs_media_consented_at = Some 0, cs_created_at = 0\<rparr>],
     media_assets := [\<lparr>ma_id = 35, ma_capture_session_id = 31, ma_room_zone_id = 34, ma_media_purpose = INVENTORY,
       ma_status = PENDING_UPLOAD, ma_object_key = ''v'', ma_content_type = ''video/mp4'', ma_expected_size_bytes = 9,
       ma_actual_size_bytes = None, ma_sha256_hex = None, ma_generation = None, ma_created_at = 0,
       ma_uploaded_at = None\<rparr>]\<rparr>"

definition sample_object :: StorageObjectMetadata where
  "sample_object = \<lparr>so_object_key = ''v'', so_content_type = ''video/mp4'', so_size_bytes = 9, so_sha256_hex = None,
     so_generation = Some ''5''\<rparr>"

theorem upload_reported_once_witness:
  "\<exists>v s' d. complete_media_upload (\<lambda>_. Inr sample_object) (\<lambda>s. s) 1 31 35 2 (Some (replicate 32 CHR ''a'')) 7 sample_upload = Inr (v, s') \<and>
     mar_status v = UPLOADED \<and> job_for MEDIA_VALIDATION 35 s' \<noteq> None \<and>
     complete_media_upload (\<lambda>_. Inl OtherError) (\<lambda>s. s) 1 31 35 2 None 99 s' = Inr (v, s'\<lparr>drawn := d\<rparr>)"
proof -
  let ?a = "hd (media_assets sample_upload)"
  have trace: "trace_or_new (Some (replicate 32 CHR ''a'')) s = (replicate 32 CHR ''a'', s)" for s
    by (simp add: trace_or_new_def numeral_eq_Suc)
  have "\<exists>v s'. complete_media_upload (\<lambda>_. Inr sample_object) (\<lambda>s. s) 1 31 35 2 (Some (replicate 32 CHR ''a'')) 7 sample_upload = Inr (v, s')"
    unfolding complete_media_upload_def record_upload_def trace
    by (simp add: sample_upload_def empty_db_def sample_object_def load_owned_capture_def asset_in_capture_def job_ended_def upload_matches_def
      lock_mutable_job_def lock_capture_for_media_def analysis_of_capture_def uploaded_asset_def put_asset_def put_row_def
      create_media_validation_background_job_def job_for_def trimmed_generation_def strip_def is_space_def uuid4_def insert_background_job_def
      new_background_job_def background_job_target_check_def background_job_state_check_def announce_completion_media_def
      media_asset_check_def Let_def)
  then obtain v s' where run: "complete_media_upload (\<lambda>_. Inr sample_object) (\<lambda>s. s) 1 31 35 2 (Some (replicate 32 CHR ''a'')) 7 sample_upload = Inr (v, s')"
    by (elim exE)
  have "asset_in_capture 35 31 sample_upload = Some ?a" "ma_status ?a = PENDING_UPLOAD" "job_for MEDIA_VALIDATION 35 sample_upload = None"
    by (simp_all add: asset_in_capture_def sample_upload_def empty_db_def job_for_def)
  note once = upload_reported_once[OF run this(1,2) this(1,3) refl]
  have "mar_status v = UPLOADED" "job_for MEDIA_VALIDATION 35 s' \<noteq> None" using once by (auto simp: asset_response_def)
  moreover have "\<exists>d. complete_media_upload (\<lambda>_. Inl OtherError) (\<lambda>s. s) 1 31 35 2 None 99 s' = Inr (v, s'\<lparr>drawn := d\<rparr>)"
    using once by blast
  ultimately show ?thesis using run by blast
qed

end
