(* ===== verification/AnalysisRuns.thy ===== *)
theory AnalysisRuns
  imports Capture
begin

text \<open>
  Analysis runs: \<open>app/modules/analysis\<close>. \<open>service.py\<close> keeps one row per run and the detections of its
  result, \<open>orchestration.py\<close> builds the request of a run and enqueues its task, \<open>handler.py\<close> drives one
  attempt. The AI provider is an argument that answers a request with a validated \<open>AnalysisResult\<close> or an
  error; \<open>others\<close> is what other transactions commit in between. Stored identifier lists read back as they
  were written; integer columns are unbounded. Lemmas are in AnalysisProofs.
\<close>

section \<open>Runs\<close>

definition insert_run :: "AiAnalysisRun \<Rightarrow> db \<Rightarrow> db result" where
  "insert_run r s = (if \<not> analysis_run_check r \<or> row ar_id (ar_id r) (analysis_runs s) \<noteq> None
     then Inl IntegrityError else Inr (s\<lparr>analysis_runs := analysis_runs s @ [r]\<rparr>))"

definition new_run :: "uuid \<Rightarrow> uuid \<Rightarrow> string \<Rightarrow> instant \<Rightarrow> AiAnalysisRun" where
  "new_run run_id capture_id trace now = \<lparr>ar_id = run_id, ar_capture_session_id = capture_id, ar_status = RUN_RUNNING,
     ar_attempt_count = 1, ar_trace_id = trace, ar_model_name = None, ar_model_version = None, ar_prompt_version = None,
     ar_result_schema_version = None, ar_failure_code = None, ar_failure_stage = None, ar_provider_status = None,
     ar_failure_detail_code = None, ar_created_at = now, ar_started_at = Some now, ar_completed_at = None\<rparr>"

definition put_run :: "AiAnalysisRun \<Rightarrow> db \<Rightarrow> db" where
  "put_run r s = s\<lparr>analysis_runs := put_row ar_id r (analysis_runs s)\<rparr>"

definition start_analysis_run :: "(db \<Rightarrow> db) \<Rightarrow> uuid \<Rightarrow> uuid \<Rightarrow> string \<Rightarrow> instant \<Rightarrow> db \<Rightarrow> db result" where
  "start_analysis_run others run_id capture_id trace now s =
     (let same = (\<lambda>r s. if ar_capture_session_id r \<noteq> capture_id then Inl AnalysisRunConflictError else Inr s) in
      case row ar_id run_id (analysis_runs s) of
        Some r \<Rightarrow> same r s
      | None \<Rightarrow> let s1 = others s in
          (case insert_run (new_run run_id capture_id trace now) s1 of
             Inr s2 \<Rightarrow> Inr s2
           | Inl e \<Rightarrow> (case row ar_id run_id (analysis_runs s1) of None \<Rightarrow> Inl e | Some r \<Rightarrow> same r s1)))"

section \<open>Results\<close>

definition detection_of :: "AnalysisResult \<Rightarrow> bool \<Rightarrow> int \<Rightarrow> DraftItem \<Rightarrow> uuid \<Rightarrow> instant \<Rightarrow> Detection" where
  "detection_of result review_required ordinal d i now = \<lparr>dt_id = i, dt_analysis_run_id = an_analysis_run_id result,
     dt_ordinal = ordinal, dt_item_schema_version = an_result_schema_version result, dt_item_key = di_item_key d,
     dt_description = di_description d, dt_name = di_name d, dt_quantity = di_quantity d, dt_unit = di_unit d,
     dt_work_note = di_work_note d, dt_confidence = di_confidence d, dt_review_required = review_required,
     dt_source_media_asset_ids = di_source_media_asset_ids d, dt_created_at = now\<rparr>"

definition insert_detection :: "Detection \<Rightarrow> db \<Rightarrow> db result" where
  "insert_detection d s = (if \<not> detection_check d \<or>
       list_ex (\<lambda>x. dt_analysis_run_id x = dt_analysis_run_id d \<and> dt_ordinal x = dt_ordinal d) (detections s)
     then Inl IntegrityError else Inr (s\<lparr>detections := detections s @ [d]\<rparr>))"

fun add_detections :: "AnalysisResult \<Rightarrow> bool \<Rightarrow> int \<Rightarrow> DraftItem list \<Rightarrow> instant \<Rightarrow> db \<Rightarrow> db result" where
  "add_detections result review_required ordinal [] now s = Inr s"
| "add_detections result review_required ordinal (d # ds) now s = (let (i, s1) = uuid4 s in
     bindR (insert_detection (detection_of result review_required ordinal d i now) s1)
       (add_detections result review_required (ordinal + 1) ds now))"

definition suggestion_of :: "AnalysisResult \<Rightarrow> int \<Rightarrow> DraftLocationCondition \<Rightarrow> uuid \<Rightarrow> instant \<Rightarrow> AnalysisLocationConditionSuggestion" where
  "suggestion_of result ordinal l i now = \<lparr>ls_id = i, ls_analysis_run_id = an_analysis_run_id result, ls_ordinal = ordinal,
     ls_location_id = dl_location_id l, ls_location_kind = dl_location_kind l, ls_residence_type = dl_residence_type l,
     ls_floor_status = fc_status (dl_floor l), ls_floor_value = fc_value (dl_floor l), ls_elevator = dl_elevator l,
     ls_stairs = dl_stairs l, ls_parking_access = dl_parking_access l,
     ls_carry_distance_status = cd_status (dl_carry_distance l), ls_carry_distance_value_m = cd_value_m (dl_carry_distance l),
     ls_access_note = dl_access_note l, ls_confidence = dl_confidence l,
     ls_review_required_fields = dl_review_required_fields l, ls_source_media_asset_ids = dl_source_media_asset_ids l,
     ls_created_at = now\<rparr>"

definition insert_suggestion :: "AnalysisLocationConditionSuggestion \<Rightarrow> db \<Rightarrow> db result" where
  "insert_suggestion l s = (if \<not> location_suggestion_check l \<or>
       list_ex (\<lambda>x. ls_analysis_run_id x = ls_analysis_run_id l \<and> (ls_ordinal x = ls_ordinal l \<or>
         ls_location_id x = ls_location_id l \<or> ls_location_kind x = ls_location_kind l)) (location_suggestions s)
     then Inl IntegrityError else Inr (s\<lparr>location_suggestions := location_suggestions s @ [l]\<rparr>))"

fun add_suggestions :: "AnalysisResult \<Rightarrow> int \<Rightarrow> DraftLocationCondition list \<Rightarrow> instant \<Rightarrow> db \<Rightarrow> db result" where
  "add_suggestions result ordinal [] now s = Inr s"
| "add_suggestions result ordinal (l # ls) now s = (let (i, s1) = uuid4 s in
     bindR (insert_suggestion (suggestion_of result ordinal l i now) s1) (add_suggestions result (ordinal + 1) ls now))"

definition draft_item_of :: "Detection \<Rightarrow> DraftItem" where
  "draft_item_of d = \<lparr>di_item_key = dt_item_key d, di_description = dt_description d, di_name = dt_name d,
     di_quantity = dt_quantity d, di_unit = dt_unit d, di_work_note = dt_work_note d, di_confidence = dt_confidence d,
     di_source_media_asset_ids = dt_source_media_asset_ids d\<rparr>"

definition draft_location_of :: "AnalysisLocationConditionSuggestion \<Rightarrow> DraftLocationCondition" where
  "draft_location_of l = \<lparr>dl_location_id = ls_location_id l, dl_location_kind = ls_location_kind l,
     dl_residence_type = ls_residence_type l, dl_floor = \<lparr>fc_status = ls_floor_status l, fc_value = ls_floor_value l\<rparr>,
     dl_elevator = ls_elevator l, dl_stairs = ls_stairs l, dl_parking_access = ls_parking_access l,
     dl_carry_distance = \<lparr>cd_status = ls_carry_distance_status l, cd_value_m = ls_carry_distance_value_m l\<rparr>,
     dl_access_note = ls_access_note l, dl_confidence = ls_confidence l,
     dl_review_required_fields = ls_review_required_fields l, dl_source_media_asset_ids = ls_source_media_asset_ids l\<rparr>"

definition detections_of :: "uuid \<Rightarrow> db \<Rightarrow> Detection list" where
  "detections_of run_id s = sort_key dt_ordinal (filter (\<lambda>d. dt_analysis_run_id d = run_id) (detections s))"

definition suggestions_of :: "uuid \<Rightarrow> db \<Rightarrow> AnalysisLocationConditionSuggestion list" where
  "suggestions_of run_id s = sort_key ls_ordinal (filter (\<lambda>l. ls_analysis_run_id l = run_id) (location_suggestions s))"

text \<open>Constructing the contract model validates it; a completed row has all four version fields.\<close>

definition mk_analysis_result :: "AnalysisResult \<Rightarrow> AnalysisResult result" where
  "mk_analysis_result r = (if analysis_result_ok r then Inr r else Inl ValueError)"

definition stored_result :: "AiAnalysisRun \<Rightarrow> db \<Rightarrow> AnalysisResult result" where
  "stored_result run s = (case (ar_model_name run, ar_model_version run, ar_prompt_version run, ar_result_schema_version run) of
     (Some name, Some version, Some prompt, Some schema) \<Rightarrow>
       (let ds = detections_of (ar_id run) s in
        mk_analysis_result \<lparr>an_analysis_run_id = ar_id run, an_capture_session_id = ar_capture_session_id run,
          an_model_name = name, an_model_version = version, an_prompt_version = prompt, an_result_schema_version = schema,
          an_draft_items = map draft_item_of (filter (\<lambda>d. \<not> dt_review_required d) ds),
          an_review_required_items = map draft_item_of (filter dt_review_required ds),
          an_location_condition_suggestions = map draft_location_of (suggestions_of (ar_id run) s)\<rparr>)
   | _ \<Rightarrow> Inl ValueError)"

definition load_analysis_result :: "uuid \<Rightarrow> db \<Rightarrow> AnalysisResult option result" where
  "load_analysis_result run_id s = (case row ar_id run_id (analysis_runs s) of None \<Rightarrow> Inr None
     | Some run \<Rightarrow> if ar_status run \<noteq> RUN_COMPLETED then Inr None
         else bindR (stored_result run s) (\<lambda>r. Inr (Some r)))"

definition completed_run :: "AnalysisResult \<Rightarrow> instant \<Rightarrow> AiAnalysisRun \<Rightarrow> AiAnalysisRun" where
  "completed_run result now r = r\<lparr>ar_status := RUN_COMPLETED, ar_model_name := Some (an_model_name result),
     ar_model_version := Some (an_model_version result), ar_prompt_version := Some (an_prompt_version result),
     ar_result_schema_version := Some (an_result_schema_version result), ar_failure_code := None,
     ar_failure_stage := None, ar_provider_status := None, ar_failure_detail_code := None, ar_completed_at := Some now\<rparr>"

definition complete_analysis_run :: "AnalysisResult \<Rightarrow> instant \<Rightarrow> db \<Rightarrow> db result" where
  "complete_analysis_run result now s = (case row ar_id (an_analysis_run_id result) (analysis_runs s) of
     None \<Rightarrow> Inl AnalysisRunNotFoundError
   | Some run \<Rightarrow>
       if ar_status run = RUN_COMPLETED then
         bindR (load_analysis_result (an_analysis_run_id result) s) (\<lambda>stored.
         if stored = Some result then Inr s else Inl AnalysisRunConflictError)
       else if ar_status run \<noteq> RUN_RUNNING then Inl AnalysisRunConflictError
       else if ar_capture_session_id run \<noteq> an_capture_session_id result then Inl AnalysisRunConflictError
       else
         bindR (add_detections result False 0 (an_draft_items result) now (put_run (completed_run result now run) s)) (\<lambda>s1.
         bindR (add_detections result True (int (length (an_draft_items result))) (an_review_required_items result) now s1) (\<lambda>s2.
         add_suggestions result 0 (an_location_condition_suggestions result) now s2)))"

section \<open>Failures and retries\<close>

record failure_report =
  fr_kind :: ProviderErrorKind
  fr_stage :: "AnalysisFailureStage option"
  fr_status :: "int option"
  fr_detail :: "AnalysisFailureDetail option"

text \<open>\<open>a or b\<close> on an optional text and on an optional number: an empty text and zero count as missing.\<close>

definition or_text :: "string option \<Rightarrow> string option \<Rightarrow> string option" where
  "or_text a b = (case a of None \<Rightarrow> b | Some t \<Rightarrow> if t = [] then b else a)"

definition or_number :: "int option \<Rightarrow> int option \<Rightarrow> int option" where
  "or_number a b = (case a of None \<Rightarrow> b | Some n \<Rightarrow> if n = 0 then b else a)"

definition stage_text :: "failure_report \<Rightarrow> string option" where
  "stage_text f = map_option stage_value (fr_stage f)"

definition detail_text :: "failure_report \<Rightarrow> string option" where
  "detail_text f = map_option detail_value (fr_detail f)"

definition fail_analysis_run :: "uuid \<Rightarrow> failure_report \<Rightarrow> instant \<Rightarrow> db \<Rightarrow> db result" where
  "fail_analysis_run run_id f now s = (case row ar_id run_id (analysis_runs s) of
     None \<Rightarrow> Inl AnalysisRunNotFoundError
   | Some run \<Rightarrow>
       if ar_status run = RUN_FAILED then
         if ar_failure_code run = Some (kind_value (fr_kind f)) \<and> ar_failure_stage run \<in> {None, stage_text f} \<and>
            ar_provider_status run \<in> {None, fr_status f} \<and> ar_failure_detail_code run \<in> {None, detail_text f}
         then Inr (put_run (run\<lparr>ar_failure_stage := or_text (ar_failure_stage run) (stage_text f),
             ar_provider_status := or_number (ar_provider_status run) (fr_status f),
             ar_failure_detail_code := or_text (ar_failure_detail_code run) (detail_text f)\<rparr>) s)
         else Inl AnalysisRunConflictError
       else if ar_status run \<noteq> RUN_RUNNING then Inl AnalysisRunConflictError
       else Inr (put_run (run\<lparr>ar_status := RUN_FAILED, ar_failure_code := Some (kind_value (fr_kind f)),
           ar_failure_stage := stage_text f, ar_provider_status := fr_status f, ar_failure_detail_code := detail_text f,
           ar_completed_at := Some now\<rparr>) s))"

record AnalysisRunSnapshot =
  sn_status :: AnalysisRunStatus
  sn_failure_kind :: "ProviderErrorKind option"
  sn_failure_stage :: "AnalysisFailureStage option"
  sn_provider_status :: "int option"
  sn_failure_detail :: "AnalysisFailureDetail option"

definition kind_of :: "string \<Rightarrow> ProviderErrorKind result" where
  "kind_of t = (case find (\<lambda>x. kind_value x = t)
       [NOT_FOUND, CONFLICT, INVALID_INPUT, UNAVAILABLE, DEADLINE_EXCEEDED, PERMISSION_DENIED] of
     None \<Rightarrow> Inl ValueError | Some x \<Rightarrow> Inr x)"

definition get_analysis_run_snapshot :: "uuid \<Rightarrow> db \<Rightarrow> AnalysisRunSnapshot result" where
  "get_analysis_run_snapshot run_id s = (case row ar_id run_id (analysis_runs s) of
     None \<Rightarrow> Inl AnalysisRunNotFoundError
   | Some run \<Rightarrow>
       bindR (optional_of kind_of (ar_failure_code run)) (\<lambda>kind.
       bindR (optional_of stage_of (ar_failure_stage run)) (\<lambda>stage.
       bindR (optional_of detail_of (ar_failure_detail_code run)) (\<lambda>detail.
       Inr \<lparr>sn_status = ar_status run, sn_failure_kind = kind, sn_failure_stage = stage,
         sn_provider_status = ar_provider_status run, sn_failure_detail = detail\<rparr>))))"

definition reopened_run :: "instant \<Rightarrow> AiAnalysisRun \<Rightarrow> AiAnalysisRun" where
  "reopened_run now r = r\<lparr>ar_status := RUN_RUNNING, ar_attempt_count := ar_attempt_count r + 1, ar_started_at := Some now,
     ar_completed_at := None, ar_failure_code := None, ar_failure_stage := None, ar_provider_status := None,
     ar_failure_detail_code := None, ar_model_name := None, ar_model_version := None, ar_prompt_version := None,
     ar_result_schema_version := None\<rparr>"

definition reopen_analysis_run :: "uuid \<Rightarrow> instant \<Rightarrow> db \<Rightarrow> db result" where
  "reopen_analysis_run run_id now s = (case row ar_id run_id (analysis_runs s) of
     None \<Rightarrow> Inl AnalysisRunNotFoundError
   | Some run \<Rightarrow>
       if ar_status run = RUN_RUNNING then Inr s
       else if ar_status run \<noteq> RUN_FAILED then Inl AnalysisRunConflictError
       else Inr (put_run (reopened_run now run) s))"

datatype AnalysisRetryDecision = RETRY | TERMINAL

definition prepare_analysis_retry :: "uuid \<Rightarrow> int \<Rightarrow> instant \<Rightarrow> db \<Rightarrow> AnalysisRetryDecision \<times> db" where
  "prepare_analysis_retry run_id max_attempts now s = (case row ar_id run_id (analysis_runs s) of
     None \<Rightarrow> (TERMINAL, s)
   | Some run \<Rightarrow>
       if ar_status run = RUN_FAILED then
         if max_attempts \<le> ar_attempt_count run then (TERMINAL, s) else (RETRY, put_run (reopened_run now run) s)
       else (RETRY, s))"

section \<open>Requests and tasks\<close>

record AnalysisSourceContext =
  ax_media_asset_id :: uuid
  ax_location_id :: uuid
  ax_location_kind :: LocationKind
  ax_room_zone_id :: uuid

record AnalysisRequest =
  aq_analysis_run_id :: uuid
  aq_capture_session_id :: uuid
  aq_source_media_asset_ids :: "uuid list"
  aq_object_keys :: "string list"
  aq_content_types :: "string list"
  aq_model_name :: string
  aq_model_version :: string
  aq_prompt_version :: string
  aq_requested_result_schema_version :: int
  aq_source_contexts :: "AnalysisSourceContext list"

definition analysis_request_ok :: "AnalysisRequest \<Rightarrow> bool" where
  "analysis_request_ok r = (aq_source_media_asset_ids r \<noteq> [] \<and> aq_object_keys r \<noteq> [] \<and> aq_content_types r \<noteq> [] \<and>
     set (aq_content_types r) \<subseteq> {''image/jpeg'', ''image/png'', ''video/mp4''} \<and>
     text_between 1 100 (aq_model_name r) \<and> text_between 1 100 (aq_model_version r) \<and> text_between 1 100 (aq_prompt_version r) \<and>
     aq_requested_result_schema_version r \<in> {1, 2} \<and>
     length (aq_source_media_asset_ids r) = length (aq_object_keys r) \<and>
     length (aq_source_media_asset_ids r) = length (aq_content_types r) \<and>
     distinct (aq_source_media_asset_ids r) \<and> distinct (aq_object_keys r) \<and>
     (aq_source_contexts r = [] \<or> map ax_media_asset_id (aq_source_contexts r) = aq_source_media_asset_ids r) \<and>
     \<not> (aq_requested_result_schema_version r = 2 \<and> aq_source_contexts r = []))"

text \<open>The joined rows: an asset with the location of its zone.\<close>

definition source_row :: "db \<Rightarrow> MediaAsset \<Rightarrow> (MediaAsset \<times> Location) option" where
  "source_row s a = (case row rz_id (ma_room_zone_id a) (room_zones s) of None \<Rightarrow> None
     | Some z \<Rightarrow> map_option (Pair a) (row loc_id (rz_location_id z) (locations s)))"

definition source_rows :: "uuid \<Rightarrow> db \<Rightarrow> (MediaAsset \<times> Location) list" where
  "source_rows capture_id s = List.map_filter (source_row s)
     (filter (\<lambda>a. ma_media_purpose a \<in> {INVENTORY, CONDITION} \<and> ma_status a = READY) (assets_of_capture capture_id s))"

definition build_analysis_request :: "uuid \<Rightarrow> uuid \<Rightarrow> string \<Rightarrow> string \<Rightarrow> string \<Rightarrow> db \<Rightarrow> AnalysisRequest result" where
  "build_analysis_request run_id capture_id model_name model_version prompt_version s =
     (let rows = source_rows capture_id s; assets = map fst rows in
      if rows = [] then Inl AnalysisInputsUnavailableError
      else let r = \<lparr>aq_analysis_run_id = run_id, aq_capture_session_id = capture_id,
             aq_source_media_asset_ids = map ma_id assets, aq_object_keys = map ma_object_key assets,
             aq_content_types = map ma_content_type assets, aq_model_name = model_name, aq_model_version = model_version,
             aq_prompt_version = prompt_version, aq_requested_result_schema_version = 2,
             aq_source_contexts = map (\<lambda>(a, l). \<lparr>ax_media_asset_id = ma_id a, ax_location_id = loc_id l,
               ax_location_kind = loc_kind l, ax_room_zone_id = ma_room_zone_id a\<rparr>) rows\<rparr> in
        if analysis_request_ok r then Inr r else Inl ValueError)"

record AnalysisTaskV1 =
  av_analysis_run_id :: uuid
  av_capture_session_id :: uuid
  av_attempt_count :: int
  av_trace_id :: string

definition mk_analysis_task :: "uuid \<Rightarrow> uuid \<Rightarrow> int \<Rightarrow> string \<Rightarrow> AnalysisTaskV1 result" where
  "mk_analysis_task run_id capture_id attempt trace = (if 1 \<le> attempt \<and> trace_text trace
     then Inr \<lparr>av_analysis_run_id = run_id, av_capture_session_id = capture_id, av_attempt_count = attempt, av_trace_id = trace\<rparr>
     else Inl ValueError)"

definition request_analysis ::
    "(string \<Rightarrow> AnalysisTaskV1 \<Rightarrow> port_error + string) \<Rightarrow> uuid \<Rightarrow> uuid \<Rightarrow> string \<Rightarrow> int \<Rightarrow> string result" where
  "request_analysis enqueue run_id capture_id trace attempt =
     bindR (mk_analysis_task run_id capture_id attempt trace) (\<lambda>task.
     case enqueue (''analysis:'' @ uuid_str run_id @ '':attempt:'' @ int_text attempt) task of
       Inl e \<Rightarrow> Inl (PortError e) | Inr t \<Rightarrow> Inr t)"

section \<open>One attempt\<close>

text \<open>What the provider call may raise: a \<open>ProviderError\<close> with its report and retry class, or anything else.\<close>

datatype analysis_error = AnalysisProviderError failure_report bool | OtherAnalysisError

record AnalysisTaskOutcome =
  ao_succeeded :: bool
  ao_error_kind :: "ProviderErrorKind option"
  ao_retryable :: bool
  ao_failure_stage :: "AnalysisFailureStage option"
  ao_provider_status :: "int option"
  ao_failure_detail :: "AnalysisFailureDetail option"

definition RETRYABLE_ERROR_KINDS :: "ProviderErrorKind set" where
  "RETRYABLE_ERROR_KINDS = {UNAVAILABLE, DEADLINE_EXCEEDED}"

definition success_outcome :: AnalysisTaskOutcome where
  "success_outcome = \<lparr>ao_succeeded = True, ao_error_kind = None, ao_retryable = False, ao_failure_stage = None,
     ao_provider_status = None, ao_failure_detail = None\<rparr>"

definition failure_outcome :: "ProviderErrorKind option \<Rightarrow> bool \<Rightarrow> AnalysisFailureStage option \<Rightarrow> int option \<Rightarrow>
    AnalysisFailureDetail option \<Rightarrow> AnalysisTaskOutcome" where
  "failure_outcome kind retryable stage status detail = \<lparr>ao_succeeded = False, ao_error_kind = kind,
     ao_retryable = retryable, ao_failure_stage = stage, ao_provider_status = status, ao_failure_detail = detail\<rparr>"

text \<open>A transaction that raises leaves the database it started from.\<close>

definition committed :: "db \<Rightarrow> db result \<Rightarrow> db" where
  "committed s m = (case m of Inl _ \<Rightarrow> s | Inr s1 \<Rightarrow> s1)"

definition record_attempt ::
    "AnalysisRequest \<Rightarrow> analysis_error + AnalysisResult \<Rightarrow> instant \<Rightarrow> db \<Rightarrow> AnalysisTaskOutcome result \<times> db" where
  "record_attempt request answer now s = (case answer of
     Inl OtherAnalysisError \<Rightarrow> (Inl (PortError OtherError), s)
   | Inl (AnalysisProviderError f retryable) \<Rightarrow>
       (let m = fail_analysis_run (aq_analysis_run_id request) f now s in
        (bindR m (\<lambda>_. Inr (failure_outcome (Some (fr_kind f)) retryable (fr_stage f) (fr_status f) (fr_detail f))), committed s m))
   | Inr result \<Rightarrow>
       (let m = complete_analysis_run result now s in (bindR m (\<lambda>_. Inr success_outcome), committed s m)))"

definition handle_analysis_task ::
    "(AnalysisRequest \<Rightarrow> analysis_error + AnalysisResult) \<Rightarrow> (nat \<Rightarrow> db \<Rightarrow> db) \<Rightarrow> AnalysisRequest \<Rightarrow> string \<Rightarrow> instant \<Rightarrow> db \<Rightarrow>
     AnalysisTaskOutcome result \<times> db" where
  "handle_analysis_task analyze others request trace now s =
     (case start_analysis_run (others 0) (aq_analysis_run_id request) (aq_capture_session_id request) trace now s of
        Inl e \<Rightarrow> (Inl e, if row ar_id (aq_analysis_run_id request) (analysis_runs s) = None then others 0 s else s)
      | Inr s1 \<Rightarrow> let s2 = others 1 s1 in
          (case get_analysis_run_snapshot (aq_analysis_run_id request) s2 of
             Inl e \<Rightarrow> (Inl e, s2)
           | Inr snapshot \<Rightarrow>
               if sn_status snapshot = RUN_COMPLETED then (Inr success_outcome, s2)
               else if sn_status snapshot = RUN_FAILED then
                 (Inr (failure_outcome (sn_failure_kind snapshot)
                    (case sn_failure_kind snapshot of None \<Rightarrow> False | Some k \<Rightarrow> k \<in> RETRYABLE_ERROR_KINDS)
                    (sn_failure_stage snapshot) (sn_provider_status snapshot) (sn_failure_detail snapshot)), s2)
               else record_attempt request (analyze request) now (others 2 s2)))"

end
