(* ===== verification/AnalysisWorkflow.thy ===== *)
theory AnalysisWorkflow
  imports AnalysisRuns Scope
begin

text \<open>
  Submitting a capture for analysis, dispatching its task and importing its result:
  \<open>app/modules/analysis_workflow/service.py\<close>, and the analysis task of the worker
  (\<open>handle_analysis\<close> of \<open>app/entrypoints/worker.py\<close>), which composes it with the run of
  AnalysisRuns. One dispatch row per capture. The task queue and the AI provider are arguments;
  \<open>others\<close> is what other transactions commit in between. Lemmas are in AnalysisProofs.
\<close>

section \<open>Submission\<close>

definition insert_dispatch :: "CaptureAnalysisDispatch \<Rightarrow> db \<Rightarrow> db result" where
  "insert_dispatch r s = (if \<not> capture_analysis_check r \<or>
       list_ex (\<lambda>x. ca_analysis_run_id x = ca_analysis_run_id r \<or> ca_capture_session_id x = ca_capture_session_id r) (analysis_dispatches s)
     then Inl IntegrityError else Inr (s\<lparr>analysis_dispatches := analysis_dispatches s @ [r]\<rparr>))"

definition put_dispatch :: "CaptureAnalysisDispatch \<Rightarrow> db \<Rightarrow> db" where
  "put_dispatch r s = s\<lparr>analysis_dispatches := put_row ca_analysis_run_id r (analysis_dispatches s)\<rparr>"

definition new_dispatch :: "uuid \<Rightarrow> uuid \<Rightarrow> uuid \<Rightarrow> uuid \<Rightarrow> string \<Rightarrow> instant \<Rightarrow> CaptureAnalysisDispatch" where
  "new_dispatch run_id capture_id job_id participant_id trace now = \<lparr>ca_analysis_run_id = run_id,
     ca_capture_session_id = capture_id, ca_move_job_id = job_id, ca_submitted_by_participant_id = participant_id,
     ca_status = CA_PENDING, ca_trace_id = trace, ca_scheduled_at = now, ca_dispatch_attempt_count = 0,
     ca_dispatch_token = None, ca_dispatch_locked_until = None, ca_provider_task_id = None,
     ca_last_dispatch_error_code = None, ca_failure_code = None, ca_retryable = None, ca_failure_stage = None,
     ca_provider_status = None, ca_failure_detail_code = None, ca_scope_version_id = None, ca_submitted_at = now,
     ca_last_attempt_at = None, ca_completed_at = None\<rparr>"

definition inventory_assets :: "uuid \<Rightarrow> db \<Rightarrow> MediaAsset list" where
  "inventory_assets capture_id s = filter (\<lambda>a. ma_media_purpose a = INVENTORY) (assets_of_capture capture_id s)"

definition submit_capture_analysis ::
    "uuid \<Rightarrow> uuid \<Rightarrow> uuid \<Rightarrow> string \<Rightarrow> instant \<Rightarrow> db \<Rightarrow> (CaptureAnalysisResponse \<times> db) result" where
  "submit_capture_analysis job_id capture_id participant_id trace now s = (case row mj_id job_id (move_jobs s) of
     None \<Rightarrow> Inl CaptureAnalysisNotFoundError
   | Some job \<Rightarrow> (case row cs_id capture_id (capture_sessions s) of
       None \<Rightarrow> Inl CaptureAnalysisNotFoundError
     | Some capture \<Rightarrow>
         if cs_job_id capture \<noteq> job_id \<or> cs_created_by_participant_id capture \<noteq> participant_id
         then Inl CaptureAnalysisNotFoundError
         else if cs_media_consented_at capture = None then Inl CaptureAnalysisConflictError
         else (case analysis_of_capture capture_id s of
           Some existing \<Rightarrow> bindR (capture_analysis_response existing) (\<lambda>v. Inr (v, s))
         | None \<Rightarrow>
             if mj_status job \<in> {COMPLETED, CANCELED} then Inl CaptureAnalysisConflictError
             else let assets = inventory_assets capture_id s in
             if assets = [] \<or> list_ex (\<lambda>a. ma_status a \<noteq> READY) assets then Inl CaptureAnalysisConflictError
             else let (run_id, s1) = uuid4 s; r = new_dispatch run_id capture_id job_id participant_id trace now in
               bindR (insert_dispatch r s1) (\<lambda>s2.
               bindR (enqueue_domain_event CAPTURE_SUBMITTED_V1 job_id (Some participant_id) (Some trace)
                  [(''capture_session_id'', id_json capture_id), (''analysis_run_id'', id_json run_id),
                   (''inventory_media_asset_ids'', JList (map (\<lambda>a. id_json (ma_id a)) assets))] now s2) (\<lambda>(_, s3).
               bindR (capture_analysis_response r) (\<lambda>v. Inr (v, s3)))))))"

definition get_capture_analysis :: "uuid \<Rightarrow> uuid \<Rightarrow> uuid \<Rightarrow> db \<Rightarrow> CaptureAnalysisResponse result" where
  "get_capture_analysis job_id capture_id participant_id s = (case analysis_of_capture capture_id s of
     None \<Rightarrow> Inl CaptureAnalysisNotFoundError
   | Some r \<Rightarrow>
       if ca_move_job_id r \<noteq> job_id \<or>
          map_option cs_created_by_participant_id (row cs_id capture_id (capture_sessions s)) \<noteq> Some participant_id
       then Inl CaptureAnalysisNotFoundError else capture_analysis_response r)"

section \<open>Dispatch\<close>

definition MAX_DISPATCH_RETRY_DELAY_SECONDS :: int where
  "MAX_DISPATCH_RETRY_DELAY_SECONDS = 300"

record ClaimedCaptureAnalysis =
  cca_task :: AnalysisTaskV1
  cca_dispatch_token :: uuid

record AnalysisDispatchResult =
  adr_claimed :: int
  adr_queued :: int
  adr_failed :: int

definition analysis_due :: "instant \<Rightarrow> CaptureAnalysisDispatch \<Rightarrow> bool" where
  "analysis_due now r = ((ca_status r = CA_PENDING \<and> ca_scheduled_at r \<le> now) \<or>
     (ca_status r = CA_DISPATCHING \<and> (case ca_dispatch_locked_until r of None \<Rightarrow> False | Some u \<Rightarrow> u \<le> now)))"

definition lease_analysis :: "instant \<Rightarrow> instant \<Rightarrow> uuid \<Rightarrow> CaptureAnalysisDispatch \<Rightarrow> CaptureAnalysisDispatch" where
  "lease_analysis now until tok r0 =
     (let r = (if ca_status r0 = CA_PENDING
               then r0\<lparr>ca_dispatch_attempt_count := ca_dispatch_attempt_count r0 + 1, ca_last_attempt_at := Some now\<rparr>
               else r0) in
      r\<lparr>ca_status := CA_DISPATCHING, ca_dispatch_token := Some tok, ca_dispatch_locked_until := Some until\<rparr>)"

definition task_of_analysis :: "CaptureAnalysisDispatch \<Rightarrow> AnalysisTaskV1 result" where
  "task_of_analysis r = mk_analysis_task (ca_analysis_run_id r) (ca_capture_session_id r) 1 (ca_trace_id r)"

fun lease_analysis_rows ::
    "instant \<Rightarrow> instant \<Rightarrow> CaptureAnalysisDispatch list \<Rightarrow> db \<Rightarrow> (ClaimedCaptureAnalysis list \<times> db) result" where
  "lease_analysis_rows now until [] s = Inr ([], s)"
| "lease_analysis_rows now until (r # rs) s =
     (let (tok, s1) = uuid4 s; r' = lease_analysis now until tok r in
      bindR (task_of_analysis r') (\<lambda>task.
      bindR (lease_analysis_rows now until rs (put_dispatch r' s1)) (\<lambda>(cs, s2).
      Inr (\<lparr>cca_task = task, cca_dispatch_token = tok\<rparr> # cs, s2))))"

definition claim_capture_analyses ::
    "instant \<Rightarrow> int \<Rightarrow> int \<Rightarrow> db \<Rightarrow> (ClaimedCaptureAnalysis list \<times> db) result" where
  "claim_capture_analyses now limit lease_seconds s =
     (if \<not> (1 \<le> limit \<and> limit \<le> MAX_BATCH_SIZE) then Inl ValueError
      else if lease_seconds \<le> 0 then Inl ValueError
      else lease_analysis_rows now (now + seconds lease_seconds)
             (select_by (\<lambda>r. (ca_scheduled_at r, ca_analysis_run_id r)) (nat limit) (analysis_due now)
                (analysis_dispatches s)) s)"

definition analysis_accepted :: "ClaimedCaptureAnalysis \<Rightarrow> string option \<Rightarrow> CaptureAnalysisDispatch \<Rightarrow> bool" where
  "analysis_accepted claim task_id r = (task_id \<noteq> None \<and>
     ca_capture_session_id r = av_capture_session_id (cca_task claim) \<and> ca_trace_id r = av_trace_id (cca_task claim) \<and>
     ca_status r \<in> {CA_QUEUED, CA_RUNNING, CA_COMPLETED, CA_FAILED} \<and>
     ca_dispatch_token r = None \<and> ca_provider_task_id r \<in> {None, task_id})"

definition analysis_retry_delay :: "int \<Rightarrow> int" where
  "analysis_retry_delay attempts = min (2 ^ nat (min attempts 8)) MAX_DISPATCH_RETRY_DELAY_SECONDS"

definition finalize_capture_analysis_dispatch ::
    "ClaimedCaptureAnalysis \<Rightarrow> string option \<Rightarrow> string option \<Rightarrow> instant \<Rightarrow> db \<Rightarrow> (bool \<times> db) result" where
  "finalize_capture_analysis_dispatch claim task_id error_code now s =
     (if (task_id = None) = (error_code = None) then Inl ValueError
      else case row ca_analysis_run_id (av_analysis_run_id (cca_task claim)) (analysis_dispatches s) of
        None \<Rightarrow> Inr (False, s)
      | Some r \<Rightarrow>
          if \<not> (ca_status r = CA_DISPATCHING \<and> ca_dispatch_token r = Some (cca_dispatch_token claim)) then
            if \<not> analysis_accepted claim task_id r then Inr (False, s)
            else Inr (True, put_dispatch (r\<lparr>ca_provider_task_id := task_id\<rparr>) s)
          else
            let r1 = r\<lparr>ca_dispatch_token := None, ca_dispatch_locked_until := None\<rparr> in
            (case error_code of
               None \<Rightarrow> Inr (True, put_dispatch (r1\<lparr>ca_status := CA_QUEUED, ca_provider_task_id := task_id,
                 ca_last_dispatch_error_code := None\<rparr>) s)
             | Some code \<Rightarrow> Inr (True, put_dispatch (r1\<lparr>ca_status := CA_PENDING,
                 ca_scheduled_at := now + seconds (analysis_retry_delay (ca_dispatch_attempt_count r)),
                 ca_last_dispatch_error_code := Some code\<rparr>) s)))"

text \<open>Whatever the enqueueing of one task raises is the outcome of this task alone.\<close>

definition enqueue_error_code :: "exn \<Rightarrow> string" where
  "enqueue_error_code e = (case e of PortError p \<Rightarrow> port_error_code p | _ \<Rightarrow> ''unexpected'')"

definition settle_analysis_dispatch ::
    "ClaimedCaptureAnalysis \<Rightarrow> string result \<Rightarrow> instant \<Rightarrow> db \<Rightarrow> (bool \<times> db) result" where
  "settle_analysis_dispatch claim outcome tm s = (case outcome of
     Inl e \<Rightarrow> finalize_capture_analysis_dispatch claim None (Some (enqueue_error_code e)) tm s
   | Inr task_id \<Rightarrow> finalize_capture_analysis_dispatch claim (Some task_id) None tm s)"

fun settle_analysis_batch ::
    "(ClaimedCaptureAnalysis \<times> string result) list \<Rightarrow> instant \<Rightarrow> db \<Rightarrow> (int \<times> int \<times> db) result" where
  "settle_analysis_batch [] tm s = Inr (0, 0, s)"
| "settle_analysis_batch ((c, outcome) # rest) tm s =
     bindR (settle_analysis_dispatch c outcome tm s) (\<lambda>(ok, s1).
     bindR (settle_analysis_batch rest tm s1) (\<lambda>(queued, failed, s2).
     Inr (if isOk outcome then (queued + of_bool ok, failed, s2) else (queued, failed + of_bool ok, s2))))"

definition dispatch_capture_analyses_once ::
    "(string \<Rightarrow> AnalysisTaskV1 \<Rightarrow> port_error + string) \<Rightarrow> (db \<Rightarrow> db) \<Rightarrow> instant option \<Rightarrow> instant \<Rightarrow> instant \<Rightarrow>
     int \<Rightarrow> int \<Rightarrow> rat \<Rightarrow> db \<Rightarrow> (AnalysisDispatchResult \<times> db) result" where
  "dispatch_capture_analyses_once enqueue others now t0 t1 batch_size lease_seconds timeout s =
     (if timeout \<le> 0 then Inl ValueError
      else if of_int lease_seconds \<le> timeout then Inl ValueError
      else let start = (case now of Some t \<Rightarrow> t | None \<Rightarrow> t0) in
      bindR (claim_capture_analyses start batch_size lease_seconds s) (\<lambda>(claims, s1).
      if claims = [] then Inr (\<lparr>adr_claimed = 0, adr_queued = 0, adr_failed = 0\<rparr>, s1)
      else let outcomes = map (\<lambda>c. let t = cca_task c in request_analysis enqueue (av_analysis_run_id t)
                 (av_capture_session_id t) (av_trace_id t) (av_attempt_count t)) claims;
               finish = (case now of Some t \<Rightarrow> t | None \<Rightarrow> t1) in
      bindR (settle_analysis_batch (zip claims outcomes) finish (others s1)) (\<lambda>(queued, failed, s2).
      Inr (\<lparr>adr_claimed = int (length claims), adr_queued = queued, adr_failed = failed\<rparr>, s2))))"

section \<open>Execution\<close>

definition load_task_row :: "AnalysisTaskV1 \<Rightarrow> db \<Rightarrow> CaptureAnalysisDispatch result" where
  "load_task_row task s = (case row ca_analysis_run_id (av_analysis_run_id task) (analysis_dispatches s) of
     None \<Rightarrow> Inl CaptureAnalysisNotFoundError
   | Some r \<Rightarrow> if ca_capture_session_id r \<noteq> av_capture_session_id task \<or> ca_trace_id r \<noteq> av_trace_id task \<or>
         av_attempt_count task \<noteq> 1 then Inl CaptureAnalysisNotFoundError else Inr r)"

definition started_dispatch :: "CaptureAnalysisDispatch \<Rightarrow> CaptureAnalysisDispatch" where
  "started_dispatch r = r\<lparr>ca_status := CA_RUNNING, ca_dispatch_token := None, ca_dispatch_locked_until := None\<rparr>"

definition start_capture_analysis :: "AnalysisTaskV1 \<Rightarrow> db \<Rightarrow> (bool \<times> db) result" where
  "start_capture_analysis task s = bindR (load_task_row task s) (\<lambda>r.
     if ca_status r \<in> {CA_COMPLETED, CA_FAILED} then Inr (False, s)
     else Inr (True, put_dispatch (started_dispatch r) s))"

definition failed_analysis :: "failure_report \<Rightarrow> bool \<Rightarrow> instant \<Rightarrow> CaptureAnalysisDispatch \<Rightarrow> CaptureAnalysisDispatch" where
  "failed_analysis f retryable now r = r\<lparr>ca_status := CA_FAILED, ca_failure_code := Some (kind_value (fr_kind f)),
     ca_retryable := Some retryable, ca_failure_stage := stage_text f, ca_provider_status := fr_status f,
     ca_failure_detail_code := detail_text f, ca_scope_version_id := None, ca_dispatch_token := None,
     ca_dispatch_locked_until := None, ca_completed_at := Some now\<rparr>"

definition mark_failed ::
    "CaptureAnalysisDispatch \<Rightarrow> failure_report \<Rightarrow> bool \<Rightarrow> instant \<Rightarrow> db \<Rightarrow> (CaptureAnalysisDispatch \<times> db) result" where
  "mark_failed r f retryable now s = (let r' = failed_analysis f retryable now r in
     bindR (enqueue_domain_event ANALYSIS_FAILED_V1 (ca_move_job_id r) None (Some (ca_trace_id r))
       [(''capture_session_id'', id_json (ca_capture_session_id r)), (''analysis_run_id'', id_json (ca_analysis_run_id r)),
        (''error_kind'', JStr (kind_value (fr_kind f))), (''retryable'', JBool retryable)] now (put_dispatch r' s))
     (\<lambda>(_, s1). Inr (r', s1)))"

text \<open>The draft of an earlier analysis that nobody has built on yet. PostgreSQL sorts a missing time last.\<close>

definition nulls_last :: "instant option \<Rightarrow> nat \<times> instant" where
  "nulls_last t = (case t of None \<Rightarrow> (1, 0) | Some u \<Rightarrow> (0, u))"

definition previous_unreviewed :: "CaptureAnalysisDispatch \<Rightarrow> db \<Rightarrow> uuid option" where
  "previous_unreviewed r s =
     (case rev (sort_key (\<lambda>x. (nulls_last (ca_completed_at x), ca_analysis_run_id x)) (filter (\<lambda>x. ca_move_job_id x = ca_move_job_id r \<and>
          ca_analysis_run_id x \<noteq> ca_analysis_run_id r \<and> ca_status x = CA_COMPLETED \<and>
          (case ca_scope_version_id x of None \<Rightarrow> False | Some i \<Rightarrow> (case row sv_id i (scope_versions s) of None \<Rightarrow> False
             | Some v \<Rightarrow> sv_locked_at v = None))) (analysis_dispatches s))) of
        [] \<Rightarrow> None
      | x # _ \<Rightarrow> (case ca_scope_version_id x of None \<Rightarrow> None
          | Some i \<Rightarrow> if has_child i s then None else Some i))"

definition imported_scope :: "AnalysisResult \<Rightarrow> uuid \<Rightarrow> db \<Rightarrow> ScopeVersion option" where
  "imported_scope result job_id s = find (\<lambda>v. sv_source_analysis_run_id v = Some (an_analysis_run_id result) \<and>
     sv_source_capture_session_id v = Some (an_capture_session_id result) \<and> sv_job_id v = job_id) (scope_versions s)"

definition completed_dispatch :: "uuid \<Rightarrow> instant \<Rightarrow> CaptureAnalysisDispatch \<Rightarrow> CaptureAnalysisDispatch" where
  "completed_dispatch version_id now r = r\<lparr>ca_status := CA_COMPLETED, ca_scope_version_id := Some version_id,
     ca_completed_at := Some now\<rparr>"

definition finish_analysis :: "CaptureAnalysisDispatch \<Rightarrow> uuid \<Rightarrow> instant \<Rightarrow> db \<Rightarrow> (CaptureAnalysisResponse \<times> db) result" where
  "finish_analysis r version_id now s = (let r' = completed_dispatch version_id now r in
     bindR (enqueue_domain_event ANALYSIS_COMPLETED_V1 (ca_move_job_id r) None (Some (ca_trace_id r))
       [(''capture_session_id'', id_json (ca_capture_session_id r)), (''analysis_run_id'', id_json (ca_analysis_run_id r)),
        (''scope_version_id'', id_json version_id)] now (put_dispatch r' s)) (\<lambda>(_, s1).
     bindR (capture_analysis_response r') (\<lambda>v. Inr (v, s1))))"

text \<open>The exceptions of an import that end the analysis; every other one propagates.\<close>

definition import_rejected :: "exn \<Rightarrow> bool" where
  "import_rejected e = (e \<in> {AnalysisDraftInvalidError, ScopeResourceNotFoundError, ScopeVersionConflictError})"

definition import_failure :: failure_report where
  "import_failure = \<lparr>fr_kind = INVALID_INPUT, fr_stage = Some SCOPE_IMPORT, fr_status = None, fr_detail = Some SCOPE_IMPORT_INVALID\<rparr>"

definition complete_capture_analysis ::
    "AnalysisTaskV1 \<Rightarrow> AnalysisResult \<Rightarrow> instant \<Rightarrow> db \<Rightarrow> (CaptureAnalysisResponse \<times> db) result" where
  "complete_capture_analysis task result now s = bindR (load_task_row task s) (\<lambda>r.
     if an_analysis_run_id result \<noteq> av_analysis_run_id task \<or> an_capture_session_id result \<noteq> av_capture_session_id task
     then Inl CaptureAnalysisConflictError
     else if ca_status r = CA_COMPLETED then bindR (capture_analysis_response r) (\<lambda>v. Inr (v, s))
     else if ca_status r \<noteq> CA_RUNNING then Inl CaptureAnalysisConflictError
     else (case imported_scope result (ca_move_job_id r) s of
       Some v \<Rightarrow> finish_analysis r (sv_id v) now s
     | None \<Rightarrow> (case import_analysis_draft (ca_move_job_id r) result (previous_unreviewed r s) now s of
         Inr (imported, s1) \<Rightarrow> finish_analysis r (svr_id imported) now s1
       | Inl e \<Rightarrow> if import_rejected e
           then bindR (mark_failed r import_failure False now s) (\<lambda>(r', s1).
             bindR (capture_analysis_response r') (\<lambda>v. Inr (v, s1)))
           else Inl e)))"

definition same_failure :: "failure_report \<Rightarrow> bool \<Rightarrow> CaptureAnalysisDispatch \<Rightarrow> bool" where
  "same_failure f retryable r = (ca_failure_code r = Some (kind_value (fr_kind f)) \<and> ca_retryable r = Some retryable \<and>
     ca_failure_stage r \<in> {None, stage_text f} \<and> ca_provider_status r \<in> {None, fr_status f} \<and>
     ca_failure_detail_code r \<in> {None, detail_text f})"

definition fail_capture_analysis ::
    "AnalysisTaskV1 \<Rightarrow> failure_report \<Rightarrow> bool \<Rightarrow> instant \<Rightarrow> db \<Rightarrow> (CaptureAnalysisResponse \<times> db) result" where
  "fail_capture_analysis task f retryable now s = bindR (load_task_row task s) (\<lambda>r.
     if ca_status r = CA_FAILED then
       if same_failure f retryable r then
         let r' = r\<lparr>ca_failure_stage := or_text (ca_failure_stage r) (stage_text f),
                    ca_provider_status := or_number (ca_provider_status r) (fr_status f),
                    ca_failure_detail_code := or_text (ca_failure_detail_code r) (detail_text f)\<rparr> in
         bindR (capture_analysis_response r') (\<lambda>v. Inr (v, put_dispatch r' s))
       else Inl CaptureAnalysisConflictError
     else if ca_status r = CA_COMPLETED then Inl CaptureAnalysisConflictError
     else bindR (mark_failed r f retryable now s) (\<lambda>(r', s1).
       bindR (capture_analysis_response r') (\<lambda>v. Inr (v, s1))))"

section \<open>The worker's task\<close>

definition ANALYSIS_MODEL_NAME :: string where
  "ANALYSIS_MODEL_NAME = ''gemini-2.5-flash''"

definition ANALYSIS_MODEL_VERSION :: string where
  "ANALYSIS_MODEL_VERSION = ''2025-08''"

definition ANALYSIS_PROMPT_VERSION :: string where
  "ANALYSIS_PROMPT_VERSION = ''inventory-2''"

definition MAX_ANALYSIS_ATTEMPTS :: int where
  "MAX_ANALYSIS_ATTEMPTS = 5"

definition MAX_ANALYSIS_OUTPUT_ATTEMPTS :: int where
  "MAX_ANALYSIS_OUTPUT_ATTEMPTS = 2"

definition OUTPUT_FAILURE_STAGES :: "AnalysisFailureStage set" where
  "OUTPUT_FAILURE_STAGES = {STAGE_PARSE, SOURCE_MAP}"

definition max_attempts_of :: "AnalysisFailureStage option \<Rightarrow> int" where
  "max_attempts_of stage = (case stage of None \<Rightarrow> MAX_ANALYSIS_ATTEMPTS
     | Some x \<Rightarrow> if x \<in> OUTPUT_FAILURE_STAGES then MAX_ANALYSIS_OUTPUT_ATTEMPTS else MAX_ANALYSIS_ATTEMPTS)"

text \<open>The answer to the queue: done, or deliver again.\<close>

datatype task_reply = NO_CONTENT | SERVICE_UNAVAILABLE

text \<open>A last transaction of the handler: an exception rolls it back and escapes.\<close>

definition closing :: "db \<Rightarrow> ('a \<times> db) result \<Rightarrow> task_reply result \<times> db" where
  "closing s m = (case m of Inl e \<Rightarrow> (Inl e, s) | Inr (_, s1) \<Rightarrow> (Inr NO_CONTENT, s1))"

definition no_ready_media :: failure_report where
  "no_ready_media = \<lparr>fr_kind = INVALID_INPUT, fr_stage = Some INPUT_LOOKUP, fr_status = None, fr_detail = Some NO_READY_MEDIA\<rparr>"

definition result_missing :: failure_report where
  "result_missing = \<lparr>fr_kind = CONFLICT, fr_stage = Some RESULT_LOAD, fr_status = None, fr_detail = Some RESULT_MISSING\<rparr>"

definition deliver_result :: "AnalysisTaskV1 \<Rightarrow> instant \<Rightarrow> db \<Rightarrow> (CaptureAnalysisResponse \<times> db) result" where
  "deliver_result task now s = bindR (load_analysis_result (av_analysis_run_id task) s) (\<lambda>stored. case stored of
     None \<Rightarrow> fail_capture_analysis task result_missing False now s
   | Some result \<Rightarrow> complete_capture_analysis task result now s)"

definition outcome_report :: "AnalysisTaskOutcome \<Rightarrow> failure_report" where
  "outcome_report o1 = \<lparr>fr_kind = (case ao_error_kind o1 of None \<Rightarrow> CONFLICT | Some k \<Rightarrow> k), fr_stage = ao_failure_stage o1,
     fr_status = ao_provider_status o1, fr_detail = ao_failure_detail o1\<rparr>"

definition conclude_attempt ::
    "(nat \<Rightarrow> db \<Rightarrow> db) \<Rightarrow> AnalysisTaskV1 \<Rightarrow> AnalysisTaskOutcome \<Rightarrow> instant \<Rightarrow> db \<Rightarrow> task_reply result \<times> db" where
  "conclude_attempt others task o1 now s =
     (if ao_succeeded o1 then let s1 = others 4 s in closing s1 (deliver_result task now s1)
      else if ao_retryable o1 then
        let (decision, s1) = prepare_analysis_retry (av_analysis_run_id task) (max_attempts_of (ao_failure_stage o1)) now (others 4 s) in
        if decision = RETRY then (Inr SERVICE_UNAVAILABLE, s1)
        else let s2 = others 5 s1 in closing s2 (fail_capture_analysis task (outcome_report o1) True now s2)
      else let s1 = others 5 s in closing s1 (fail_capture_analysis task (outcome_report o1) False now s1))"

definition handle_analysis ::
    "(AnalysisRequest \<Rightarrow> analysis_error + AnalysisResult) option \<Rightarrow> (nat \<Rightarrow> db \<Rightarrow> db) \<Rightarrow> AnalysisTaskV1 \<Rightarrow> instant \<Rightarrow> db \<Rightarrow>
     task_reply result \<times> db" where
  "handle_analysis provider others task now s = (case provider of None \<Rightarrow> (Inr SERVICE_UNAVAILABLE, s)
   | Some analyze \<Rightarrow> (case start_capture_analysis task s of
       Inl e \<Rightarrow> (if e = CaptureAnalysisNotFoundError then Inr NO_CONTENT else Inl e, s)
     | Inr (should_process, s1) \<Rightarrow>
         if \<not> should_process then (Inr NO_CONTENT, s1)
         else let s2 = others 3 s1 in
           (case build_analysis_request (av_analysis_run_id task) (av_capture_session_id task) ANALYSIS_MODEL_NAME
              ANALYSIS_MODEL_VERSION ANALYSIS_PROMPT_VERSION s2 of
              Inl e \<Rightarrow> if e = AnalysisInputsUnavailableError
                then let s3 = others 4 s2 in closing s3 (fail_capture_analysis task no_ready_media False now s3)
                else (Inl e, s2)
            | Inr request \<Rightarrow> (case handle_analysis_task analyze others request (av_trace_id task) now s2 of
                (Inl e, s3) \<Rightarrow> (Inl e, s3)
              | (Inr outcome, s3) \<Rightarrow> conclude_attempt others task outcome now s3))))"

end
