(* ===== verification/AnalysisProofs.thy ===== *)
theory AnalysisProofs
  imports AnalysisWorkflow ScopeProofs
begin

text \<open>
  Lemmas about the analysis of a capture: the stored result of a run reads back as it was answered, a
  delivery of the worker's task is acknowledged only when the analysis is settled, and the deliveries that
  ask for another one are bounded, also when deliveries overlap.
\<close>

section \<open>Storing a result\<close>

lemma draft_round [simp]: "draft_item_of (detection_of result b k d i now) = d"
  by (simp add: draft_item_of_def detection_of_def)

lemma location_round [simp]: "draft_location_of (suggestion_of result k l i now) = l"
  by (simp add: draft_location_of_def suggestion_of_def)

lemma detection_fields [simp]:
  "dt_ordinal (detection_of result b k d i now) = k" "dt_review_required (detection_of result b k d i now) = b"
  "dt_analysis_run_id (detection_of result b k d i now) = an_analysis_run_id result"
  by (simp_all add: detection_of_def)

lemma suggestion_fields [simp]:
  "ls_ordinal (suggestion_of result k l i now) = k"
  "ls_analysis_run_id (suggestion_of result k l i now) = an_analysis_run_id result"
  by (simp_all add: suggestion_of_def)

text \<open>Rows numbered upwards from k.\<close>

definition numbered :: "('r \<Rightarrow> int) \<Rightarrow> int \<Rightarrow> 'r list \<Rightarrow> bool" where
  "numbered f k rows = (sorted (map f rows) \<and> (\<forall>r \<in> set rows. k \<le> f r \<and> f r < k + int (length rows)))"

lemma numbered_Nil [simp]: "numbered f k []"
  by (simp add: numbered_def)

lemma numbered_Cons: "f r = k \<Longrightarrow> numbered f (k + 1) rows \<Longrightarrow> numbered f k (r # rows)"
  by (fastforce simp: numbered_def)

lemma numbered_append: "numbered f k xs \<Longrightarrow> numbered f (k + int (length xs)) ys \<Longrightarrow> numbered f k (xs @ ys)"
  by (fastforce simp: numbered_def sorted_append)

lemma numbered_sorted: "numbered f k rows \<Longrightarrow> sort_key f rows = rows"
  by (simp add: numbered_def sort_key_id_if_sorted)

lemma add_detections_spec:
  assumes "add_detections result b k ds now s = Inr s'"
  shows "\<exists>rows. s' = s\<lparr>drawn := drawn s + length ds, detections := detections s @ rows\<rparr> \<and> map draft_item_of rows = ds \<and>
    numbered dt_ordinal k rows \<and> (\<forall>d \<in> set rows. dt_review_required d = b \<and> dt_analysis_run_id d = an_analysis_run_id result)"
  using assms
proof (induction ds arbitrary: k s)
  case Nil
  then show ?case by (intro exI[of _ "[]"]) simp
next
  case (Cons d ds)
  let ?d = "detection_of result b k d (rng s (drawn s)) now" and ?s1 = "s\<lparr>drawn := Suc (drawn s)\<rparr>"
  obtain s2 where s2: "insert_detection ?d ?s1 = Inr s2" "add_detections result b (k + 1) ds now s2 = Inr s'"
    using Cons.prems by (auto simp: uuid4_def Let_def bindR_Inr)
  have e: "s2 = ?s1\<lparr>detections := detections s @ [?d]\<rparr>" using s2(1) by (simp add: insert_detection_def split: if_splits)
  obtain rows where "s' = s2\<lparr>drawn := drawn s2 + length ds, detections := detections s2 @ rows\<rparr>" "map draft_item_of rows = ds"
      "numbered dt_ordinal (k + 1) rows" "\<forall>d \<in> set rows. dt_review_required d = b \<and> dt_analysis_run_id d = an_analysis_run_id result"
    using Cons.IH[OF s2(2)] by blast
  then show ?case by (intro exI[of _ "?d # rows"]) (simp add: e numbered_Cons)
qed

lemma add_suggestions_spec:
  assumes "add_suggestions result k ls now s = Inr s'"
  shows "\<exists>rows. s' = s\<lparr>drawn := drawn s + length ls, location_suggestions := location_suggestions s @ rows\<rparr> \<and>
    map draft_location_of rows = ls \<and> numbered ls_ordinal k rows \<and> (\<forall>l \<in> set rows. ls_analysis_run_id l = an_analysis_run_id result)"
  using assms
proof (induction ls arbitrary: k s)
  case Nil
  then show ?case by (intro exI[of _ "[]"]) simp
next
  case (Cons l ls)
  let ?l = "suggestion_of result k l (rng s (drawn s)) now" and ?s1 = "s\<lparr>drawn := Suc (drawn s)\<rparr>"
  obtain s2 where s2: "insert_suggestion ?l ?s1 = Inr s2" "add_suggestions result (k + 1) ls now s2 = Inr s'"
    using Cons.prems by (auto simp: uuid4_def Let_def bindR_Inr)
  have e: "s2 = ?s1\<lparr>location_suggestions := location_suggestions s @ [?l]\<rparr>" using s2(1) by (simp add: insert_suggestion_def split: if_splits)
  obtain rows where "s' = s2\<lparr>drawn := drawn s2 + length ls, location_suggestions := location_suggestions s2 @ rows\<rparr>"
      "map draft_location_of rows = ls" "numbered ls_ordinal (k + 1) rows" "\<forall>l \<in> set rows. ls_analysis_run_id l = an_analysis_run_id result"
    using Cons.IH[OF s2(2)] by blast
  then show ?case by (intro exI[of _ "?l # rows"]) (simp add: e numbered_Cons)
qed

lemma complete_run_rows:
  assumes "complete_analysis_run result now s = Inr s'" "row ar_id (an_analysis_run_id result) (analysis_runs s) = Some run"
    "ar_status run = RUN_RUNNING"
  obtains rows1 rows2 rows3 d where "ar_capture_session_id run = an_capture_session_id result"
    "s' = s\<lparr>drawn := d, analysis_runs := put_row ar_id (completed_run result now run) (analysis_runs s),
       detections := detections s @ rows1 @ rows2, location_suggestions := location_suggestions s @ rows3\<rparr>"
    "map draft_item_of rows1 = an_draft_items result" "map draft_item_of rows2 = an_review_required_items result"
    "map draft_location_of rows3 = an_location_condition_suggestions result"
    "numbered dt_ordinal 0 (rows1 @ rows2)" "numbered ls_ordinal 0 rows3"
    "\<forall>d \<in> set rows1. \<not> dt_review_required d \<and> dt_analysis_run_id d = an_analysis_run_id result"
    "\<forall>d \<in> set rows2. dt_review_required d \<and> dt_analysis_run_id d = an_analysis_run_id result"
    "\<forall>l \<in> set rows3. ls_analysis_run_id l = an_analysis_run_id result"
proof -
  let ?s0 = "put_run (completed_run result now run) s"
  have same: "ar_capture_session_id run = an_capture_session_id result"
    using assms by (auto simp: complete_analysis_run_def split: if_splits)
  obtain s1 s2 where s1: "add_detections result False 0 (an_draft_items result) now ?s0 = Inr s1"
      and s2: "add_detections result True (int (length (an_draft_items result))) (an_review_required_items result) now s1 = Inr s2"
      and s3: "add_suggestions result 0 (an_location_condition_suggestions result) now s2 = Inr s'"
    using assms same by (auto simp: complete_analysis_run_def bindR_Inr)
  obtain rows1 where r1: "s1 = ?s0\<lparr>drawn := drawn ?s0 + length (an_draft_items result), detections := detections ?s0 @ rows1\<rparr>"
      "map draft_item_of rows1 = an_draft_items result" "numbered dt_ordinal 0 rows1"
      "\<forall>d \<in> set rows1. dt_review_required d = False \<and> dt_analysis_run_id d = an_analysis_run_id result"
    using add_detections_spec[OF s1] by blast
  obtain rows2 where r2: "s2 = s1\<lparr>drawn := drawn s1 + length (an_review_required_items result), detections := detections s1 @ rows2\<rparr>"
      "map draft_item_of rows2 = an_review_required_items result" "numbered dt_ordinal (int (length (an_draft_items result))) rows2"
      "\<forall>d \<in> set rows2. dt_review_required d = True \<and> dt_analysis_run_id d = an_analysis_run_id result"
    using add_detections_spec[OF s2] by blast
  obtain rows3 where r3: "s' = s2\<lparr>drawn := drawn s2 + length (an_location_condition_suggestions result), location_suggestions := location_suggestions s2 @ rows3\<rparr>"
      "map draft_location_of rows3 = an_location_condition_suggestions result" "numbered ls_ordinal 0 rows3"
      "\<forall>l \<in> set rows3. ls_analysis_run_id l = an_analysis_run_id result"
    using add_suggestions_spec[OF s3] by blast
  have "length rows1 = length (an_draft_items result)" using arg_cong[OF r1(2), of length] by simp
  then have "numbered dt_ordinal 0 (rows1 @ rows2)" using numbered_append[OF r1(3), of rows2] r2(3) by simp
  moreover have "s' = s\<lparr>drawn := drawn s + length (an_draft_items result) + length (an_review_required_items result) + length (an_location_condition_suggestions result),
      analysis_runs := put_row ar_id (completed_run result now run) (analysis_runs s),
      detections := detections s @ rows1 @ rows2, location_suggestions := location_suggestions s @ rows3\<rparr>"
    by (simp add: r1(1) r2(1) r3(1) put_run_def)
  ultimately show thesis using that[OF same] r1(2,4) r2(2,4) r3(2-4) by simp
qed

lemma filter_all: "(\<forall>x \<in> set xs. P x) \<Longrightarrow> filter P xs = xs" "(\<forall>x \<in> set xs. \<not> P x) \<Longrightarrow> filter P xs = []"
  by (induction xs) auto

lemma sort_key_Nil_iff: "sort_key f xs = [] \<longleftrightarrow> xs = []"
  by (metis length_0_conv length_sort)

text \<open>Property C30: the result of a run reads back as it was answered. When a running run is completed with a valid
  result, loading it afterwards gives exactly that result, the certain items and the ones to be reviewed apart and each in its order,
  with the conditions suggested for each location. Completing the run once more with the same result changes nothing, and with another result it is
  refused.\<close>

theorem analysis_result_reads_back:
  assumes "complete_analysis_run result now s = Inr s'" "analysis_result_ok result"
    and "row ar_id (an_analysis_run_id result) (analysis_runs s) = Some run" "ar_status run = RUN_RUNNING"
    and "detections_of (an_analysis_run_id result) s = []" "suggestions_of (an_analysis_run_id result) s = []"
  shows "load_analysis_result (an_analysis_run_id result) s' = Inr (Some result) \<and>
    (\<forall>later. complete_analysis_run result later s' = Inr s') \<and>
    (\<forall>other later. an_analysis_run_id other = an_analysis_run_id result \<longrightarrow> other \<noteq> result \<longrightarrow>
       complete_analysis_run other later s' = Inl AnalysisRunConflictError)"
proof -
  let ?id = "an_analysis_run_id result" and ?run = "completed_run result now run"
  obtain rows1 rows2 rows3 d where r: "ar_capture_session_id run = an_capture_session_id result"
    "s' = s\<lparr>drawn := d, analysis_runs := put_row ar_id ?run (analysis_runs s),
       detections := detections s @ rows1 @ rows2, location_suggestions := location_suggestions s @ rows3\<rparr>"
    "map draft_item_of rows1 = an_draft_items result" "map draft_item_of rows2 = an_review_required_items result"
    "map draft_location_of rows3 = an_location_condition_suggestions result"
    "numbered dt_ordinal 0 (rows1 @ rows2)" "numbered ls_ordinal 0 rows3"
    "\<forall>d \<in> set rows1. \<not> dt_review_required d \<and> dt_analysis_run_id d = ?id"
    "\<forall>d \<in> set rows2. dt_review_required d \<and> dt_analysis_run_id d = ?id"
    "\<forall>l \<in> set rows3. ls_analysis_run_id l = ?id"
    by (rule complete_run_rows[OF assms(1,3,4)])
  have id: "ar_id run = ?id" by (rule row_key[OF assms(3)])
  have new: "row ar_id ?id (analysis_runs s') = Some ?run" using assms(3) id by (simp add: r(2) row_put_row completed_run_def)
  have "filter (\<lambda>d. dt_analysis_run_id d = ?id) (detections s') = rows1 @ rows2"
    using assms(5) r(8,9) by (simp add: r(2) detections_of_def sort_key_Nil_iff filter_all)
  then have ds: "detections_of ?id s' = rows1 @ rows2" using numbered_sorted[OF r(6)] by (simp add: detections_of_def)
  have "filter (\<lambda>l. ls_analysis_run_id l = ?id) (location_suggestions s') = rows3"
    using assms(6) r(10) by (simp add: r(2) suggestions_of_def sort_key_Nil_iff filter_all)
  then have ls: "suggestions_of ?id s' = rows3" using numbered_sorted[OF r(7)] by (simp add: suggestions_of_def)
  have "filter (\<lambda>d. \<not> dt_review_required d) (rows1 @ rows2) = rows1" "filter dt_review_required (rows1 @ rows2) = rows2"
    using r(8,9) by (simp_all add: filter_all)
  then have "stored_result ?run s' = mk_analysis_result result"
    using ds ls id r(1,3-5) by (simp add: stored_result_def completed_run_def Let_def) (cases result, simp)
  then have load: "load_analysis_result ?id s' = Inr (Some result)"
    using new assms(2) by (simp add: load_analysis_result_def mk_analysis_result_def completed_run_def)
  have "ar_status ?run = RUN_COMPLETED" by (simp add: completed_run_def)
  then show ?thesis using load new by (simp add: complete_analysis_run_def)
qed

section \<open>One delivery of the task\<close>

definition settled :: "AnalysisTaskV1 \<Rightarrow> db \<Rightarrow> bool" where
  "settled task s = (\<exists>r. row ca_analysis_run_id (av_analysis_run_id task) (analysis_dispatches s) = Some r \<and> ca_status r \<in> {CA_COMPLETED, CA_FAILED})"

definition run_attempts :: "AnalysisTaskV1 \<Rightarrow> db \<Rightarrow> int" where
  "run_attempts task s = (case row ar_id (av_analysis_run_id task) (analysis_runs s) of None \<Rightarrow> 1 | Some r \<Rightarrow> ar_attempt_count r)"

lemma import_frame:
  assumes "import_analysis_draft job r parent now s = Inr (resp, s')"
  shows "analysis_runs s' = analysis_runs s \<and> analysis_dispatches s' = analysis_dispatches s"
proof -
  obtain c where "create_scope_version job None parent c (Some r) False now s = Inr (resp, s')"
    using assms by (auto simp: import_analysis_draft_def Let_def bindR_Inr split: if_splits)
  then show ?thesis by (rule create_version_cases) (simp add: add_audit_event_def uuid4_def)
qed

lemma task_row: "load_task_row task s = Inr r \<Longrightarrow> row ca_analysis_run_id (av_analysis_run_id task) (analysis_dispatches s) = Some r"
  by (auto simp: load_task_row_def split: option.splits if_splits)

lemma put_dispatch_simps [simp]:
  "analysis_runs (put_dispatch r s) = analysis_runs s"
  "analysis_dispatches (put_dispatch r s) = put_row ca_analysis_run_id r (analysis_dispatches s)"
  by (simp_all add: put_dispatch_def)

lemma finish_frame:
  assumes "finish_analysis r v now s = Inr (resp, s')" "row ca_analysis_run_id (ca_analysis_run_id r) (analysis_dispatches s) = Some old"
    "ca_analysis_run_id r = av_analysis_run_id task"
  shows "analysis_runs s' = analysis_runs s \<and> settled task s'"
proof -
  obtain ev where "enqueue_domain_event ANALYSIS_COMPLETED_V1 (ca_move_job_id r) None (Some (ca_trace_id r))
       [(''capture_session_id'', id_json (ca_capture_session_id r)), (''analysis_run_id'', id_json (ca_analysis_run_id r)),
        (''scope_version_id'', id_json v)] now (put_dispatch (completed_dispatch v now r) s) = Inr (ev, s')"
    using assms(1) by (auto simp: finish_analysis_def bindR_Inr Let_def)
  then show ?thesis by (rule enqueue_event_spec) (use assms(2,3) in \<open>simp add: settled_def row_put_row completed_dispatch_def\<close>)
qed

lemma mark_failed_frame:
  assumes "mark_failed r f b now s = Inr (r', s')" "row ca_analysis_run_id (ca_analysis_run_id r) (analysis_dispatches s) = Some old"
    "ca_analysis_run_id r = av_analysis_run_id task"
  shows "analysis_runs s' = analysis_runs s \<and> settled task s'"
proof -
  obtain ev where "enqueue_domain_event ANALYSIS_FAILED_V1 (ca_move_job_id r) None (Some (ca_trace_id r))
       [(''capture_session_id'', id_json (ca_capture_session_id r)), (''analysis_run_id'', id_json (ca_analysis_run_id r)),
        (''error_kind'', JStr (kind_value (fr_kind f))), (''retryable'', JBool b)] now (put_dispatch (failed_analysis f b now r) s) = Inr (ev, s')"
    using assms(1) by (auto simp: mark_failed_def bindR_Inr Let_def)
  then show ?thesis by (rule enqueue_event_spec) (use assms(2,3) in \<open>simp add: settled_def row_put_row failed_analysis_def\<close>)
qed

lemma complete_capture_frame:
  assumes "complete_capture_analysis task result now s = Inr (v, s')"
  shows "analysis_runs s' = analysis_runs s \<and> settled task s'"
proof -
  obtain r where r: "load_task_row task s = Inr r" using assms by (auto simp: complete_capture_analysis_def bindR_Inr)
  have row: "row ca_analysis_run_id (av_analysis_run_id task) (analysis_dispatches s) = Some r" by (rule task_row[OF r])
  have id: "ca_analysis_run_id r = av_analysis_run_id task" by (rule row_key[OF row])
  have here: "row ca_analysis_run_id (ca_analysis_run_id r) (analysis_dispatches s) = Some r" using row id by simp
  show ?thesis
  proof (cases "ca_status r = CA_COMPLETED")
    case True
    then show ?thesis using assms r row by (auto simp: complete_capture_analysis_def settled_def bindR_Inr split: if_splits)
  next
    case False
    then have body: "(case imported_scope result (ca_move_job_id r) s of
       Some v \<Rightarrow> finish_analysis r (sv_id v) now s
     | None \<Rightarrow> (case import_analysis_draft (ca_move_job_id r) result (previous_unreviewed r s) now s of
         Inr (imported, s1) \<Rightarrow> finish_analysis r (svr_id imported) now s1
       | Inl e \<Rightarrow> if import_rejected e
           then bindR (mark_failed r import_failure False now s) (\<lambda>(r', s1).
             bindR (capture_analysis_response r') (\<lambda>v. Inr (v, s1)))
           else Inl e)) = Inr (v, s')"
      using assms r by (simp add: complete_capture_analysis_def split: if_splits)
    show ?thesis
    proof (cases "imported_scope result (ca_move_job_id r) s")
      case (Some w)
      then show ?thesis using body finish_frame[OF _ here id] by simp
    next
      case None
      show ?thesis
      proof (cases "import_analysis_draft (ca_move_job_id r) result (previous_unreviewed r s) now s")
        case (Inl e)
        then obtain r' where "mark_failed r import_failure False now s = Inr (r', s')"
          using body None by (auto simp: bindR_Inr split: if_splits)
        then show ?thesis by (rule mark_failed_frame[OF _ here id])
      next
        case (Inr p)
        obtain imported s1 where p: "p = (imported, s1)" by fastforce
        then have same: "analysis_runs s1 = analysis_runs s" "analysis_dispatches s1 = analysis_dispatches s" using import_frame Inr by blast+
        have "finish_analysis r (svr_id imported) now s1 = Inr (v, s')" using body None Inr p by simp
        then show ?thesis using finish_frame[OF _ _ id] here same by simp
      qed
    qed
  qed
qed

lemma fail_capture_frame:
  assumes "fail_capture_analysis task f b now s = Inr (v, s')"
  shows "analysis_runs s' = analysis_runs s \<and> settled task s'"
proof -
  obtain r where r: "load_task_row task s = Inr r" using assms by (auto simp: fail_capture_analysis_def bindR_Inr)
  have row: "row ca_analysis_run_id (av_analysis_run_id task) (analysis_dispatches s) = Some r" by (rule task_row[OF r])
  have id: "ca_analysis_run_id r = av_analysis_run_id task" by (rule row_key[OF row])
  have here: "row ca_analysis_run_id (ca_analysis_run_id r) (analysis_dispatches s) = Some r" using row id by simp
  show ?thesis
  proof (cases "ca_status r = CA_FAILED")
    case True
    then show ?thesis using assms r here id
      by (auto simp: fail_capture_analysis_def settled_def bindR_Inr row_put_row Let_def split: if_splits)
  next
    case False
    then obtain r' where "mark_failed r f b now s = Inr (r', s')"
      using assms r by (auto simp: fail_capture_analysis_def bindR_Inr split: if_splits)
    then show ?thesis by (rule mark_failed_frame[OF _ here id])
  qed
qed

lemma deliver_frame: "deliver_result task now s = Inr (v, s') \<Longrightarrow> analysis_runs s' = analysis_runs s \<and> settled task s'"
  by (auto simp: deliver_result_def bindR_Inr dest: complete_capture_frame fail_capture_frame split: option.splits)

text \<open>
  Every transaction of the program either leaves the runs alone or is one of these four, which are all the callers of
  \<open>analysis/service.py\<close> make (\<open>reopen_analysis_run\<close> has no caller). Deliveries of a task overlap: between two
  transactions of one, any number of others may commit.
\<close>

inductive run_step :: "db \<Rightarrow> db \<Rightarrow> bool" where
  run_started: "start_analysis_run (\<lambda>s. s) i capture trace now s = Inr s' \<Longrightarrow> run_step s s'"
| run_completed: "complete_analysis_run result now s = Inr s' \<Longrightarrow> run_step s s'"
| run_failed: "fail_analysis_run i f now s = Inr s' \<Longrightarrow> run_step s s'"
| run_retried: "prepare_analysis_retry i (max_attempts_of stage) now s = (d, s') \<Longrightarrow> run_step s s'"
| elsewhere: "analysis_runs s' = analysis_runs s \<Longrightarrow> run_step s s'"

definition has_failed :: "AnalysisTaskV1 \<Rightarrow> db \<Rightarrow> bool" where
  "has_failed task s = (\<exists>r. row ar_id (av_analysis_run_id task) (analysis_runs s) = Some r \<and> ar_status r = RUN_FAILED)"

text \<open>The attempts only grow, not past five, and a failed run leaves that state only by a new attempt.\<close>

definition attempts_move :: "AnalysisTaskV1 \<Rightarrow> db \<Rightarrow> db \<Rightarrow> bool" where
  "attempts_move task s s' = (run_attempts task s \<le> run_attempts task s' \<and> run_attempts task s' \<le> max 5 (run_attempts task s) \<and>
     (has_failed task s \<longrightarrow> has_failed task s' \<or> run_attempts task s < run_attempts task s'))"

lemma attempts_move_refl: "attempts_move task s s"
  by (simp add: attempts_move_def)

lemma attempts_move_trans: "attempts_move task s t \<Longrightarrow> attempts_move task t u \<Longrightarrow> attempts_move task s u"
  by (auto simp: attempts_move_def)

lemma attempts_move_runs: "analysis_runs s' = analysis_runs t \<Longrightarrow> attempts_move task s s' = attempts_move task s t"
  by (simp add: attempts_move_def run_attempts_def has_failed_def)

lemma attempts_move_put:
  assumes "row ar_id i (analysis_runs s) = Some run" "ar_id run' = i"
    and "ar_attempt_count run' = ar_attempt_count run \<and> (ar_status run = RUN_FAILED \<longrightarrow> ar_status run' = RUN_FAILED) \<or>
      ar_attempt_count run' = ar_attempt_count run + 1 \<and> ar_attempt_count run < 5"
  shows "attempts_move task s (put_run run' s)"
  using assms by (auto simp: attempts_move_def run_attempts_def has_failed_def put_run_def row_put_row split: option.splits)

lemma limit_five: "max_attempts_of stage \<le> 5"
  by (simp add: max_attempts_of_def MAX_ANALYSIS_ATTEMPTS_def MAX_ANALYSIS_OUTPUT_ATTEMPTS_def split: option.splits)

lemma start_run_moves: "start_analysis_run (\<lambda>s. s) i capture trace now s = Inr s' \<Longrightarrow> attempts_move task s s'"
  by (auto simp: start_analysis_run_def insert_run_def new_run_def attempts_move_def run_attempts_def has_failed_def Let_def
    split: option.splits if_splits)

lemma complete_run_moves:
  assumes "complete_analysis_run result now s = Inr s'"
  shows "attempts_move task s s'"
proof -
  obtain run where run: "row ar_id (an_analysis_run_id result) (analysis_runs s) = Some run"
    using assms by (auto simp: complete_analysis_run_def split: option.splits)
  have id: "ar_id run = an_analysis_run_id result" by (rule row_key[OF run])
  show ?thesis
  proof (cases "ar_status run = RUN_RUNNING")
    case True
    obtain rows1 rows2 rows3 d where "s' = s\<lparr>drawn := d, analysis_runs := put_row ar_id (completed_run result now run) (analysis_runs s),
         detections := detections s @ rows1 @ rows2, location_suggestions := location_suggestions s @ rows3\<rparr>"
      by (rule complete_run_rows[OF assms run True])
    then have "analysis_runs s' = analysis_runs (put_run (completed_run result now run) s)" by (simp add: put_run_def)
    moreover have "attempts_move task s (put_run (completed_run result now run) s)"
      by (rule attempts_move_put[OF run]) (simp_all add: completed_run_def id True)
    ultimately show ?thesis using attempts_move_runs by blast
  next
    case False
    then have "s' = s" using assms run by (auto simp: complete_analysis_run_def bindR_Inr split: if_splits)
    then show ?thesis by (simp add: attempts_move_refl)
  qed
qed

lemma fail_run_result:
  assumes "fail_analysis_run i f now s = Inr s'"
  obtains run run' where "row ar_id i (analysis_runs s) = Some run" "s' = put_run run' s" "ar_id run' = i"
    "ar_attempt_count run' = ar_attempt_count run" "ar_status run' = RUN_FAILED"
proof -
  obtain run where run: "row ar_id i (analysis_runs s) = Some run"
    using assms by (auto simp: fail_analysis_run_def split: option.splits)
  then show thesis using assms that[OF run] row_key[OF run] by (auto simp: fail_analysis_run_def split: if_splits)
qed

lemma fail_run_moves: "fail_analysis_run i f now s = Inr s' \<Longrightarrow> attempts_move task s s'"
  by (erule fail_run_result) (simp add: attempts_move_put)

lemma fail_run_has_failed: "fail_analysis_run (av_analysis_run_id task) f now s = Inr s' \<Longrightarrow> has_failed task s'"
  by (erule fail_run_result) (simp add: has_failed_def put_run_def row_put_row)

lemma retry_moves:
  assumes "prepare_analysis_retry i limit now s = (d, s')" "limit \<le> 5"
  shows "attempts_move task s s'"
proof (cases "row ar_id i (analysis_runs s)")
  case None
  then show ?thesis using assms by (simp add: prepare_analysis_retry_def attempts_move_refl)
next
  case (Some run)
  have "attempts_move task s (put_run (reopened_run now run) s)" if "\<not> limit \<le> ar_attempt_count run"
    by (rule attempts_move_put[OF Some]) (use that assms(2) row_key[OF Some] in \<open>simp_all add: reopened_run_def\<close>)
  then show ?thesis using assms Some by (auto simp: prepare_analysis_retry_def attempts_move_refl split: if_splits)
qed

lemma run_step_moves: "run_step s s' \<Longrightarrow> attempts_move task s s'"
  by (induction rule: run_step.induct)
    (blast intro: start_run_moves complete_run_moves fail_run_moves retry_moves limit_five attempts_move_runs[THEN iffD2] attempts_move_refl)+

lemma run_steps_move: "run_step\<^sup>*\<^sup>* s s' \<Longrightarrow> attempts_move task s s'"
  by (induction rule: rtranclp_induct) (blast intro: attempts_move_refl attempts_move_trans run_step_moves)+

text \<open>What a retry that was granted says of a run this delivery saw failed.\<close>

lemma retry_granted:
  assumes "prepare_analysis_retry (av_analysis_run_id task) limit now s = (RETRY, s')" "has_failed task s"
  shows "run_attempts task s < run_attempts task s'"
proof -
  obtain r where r: "row ar_id (av_analysis_run_id task) (analysis_runs s) = Some r" "ar_status r = RUN_FAILED"
    using assms(2) by (auto simp: has_failed_def)
  then have "s' = put_run (reopened_run now r) s" using assms(1) by (simp add: prepare_analysis_retry_def split: if_splits)
  then show ?thesis using r row_key[OF r(1)] by (simp add: run_attempts_def put_run_def reopened_run_def row_put_row)
qed

section \<open>One delivery among others\<close>

definition interfering :: "(nat \<Rightarrow> db \<Rightarrow> db) \<Rightarrow> bool" where
  "interfering others = (\<forall>k s. run_step\<^sup>*\<^sup>* s (others k s))"

lemma interfered: "interfering others \<Longrightarrow> run_step\<^sup>*\<^sup>* s t \<Longrightarrow> run_step\<^sup>*\<^sup>* s (others k t)"
  by (metis interfering_def rtranclp_trans)

lemma closing_steps:
  assumes "closing s m = (reply, s')" "\<And>v s1. m = Inr (v, s1) \<Longrightarrow> analysis_runs s1 = analysis_runs s"
  shows "run_step\<^sup>*\<^sup>* s s' \<and> reply \<noteq> Inr SERVICE_UNAVAILABLE"
  using assms by (cases m) (auto simp: closing_def intro: elsewhere)

lemma start_run_others:
  "start_analysis_run others i capture trace now s = Inr s' \<Longrightarrow>
     start_analysis_run (\<lambda>s. s) i capture trace now s = Inr s' \<or> start_analysis_run (\<lambda>s. s) i capture trace now (others s) = Inr s'"
  by (auto simp: start_analysis_run_def insert_run_def new_run_def Let_def split: option.splits if_splits)

lemma record_attempt_steps:
  assumes "record_attempt request answer now s = (out, s')" "aq_analysis_run_id request = av_analysis_run_id task"
  shows "run_step\<^sup>*\<^sup>* s s' \<and> (\<forall>x. out = Inr x \<longrightarrow> \<not> ao_succeeded x \<longrightarrow> has_failed task s')"
  using assms by (auto simp: record_attempt_def committed_def success_outcome_def Let_def bindR_Inr
    intro: run_completed run_failed fail_run_has_failed split: sum.splits analysis_error.splits)

lemma handle_task_steps:
  assumes "handle_analysis_task analyze others request trace now s = (out, s')" "interfering others"
    "aq_analysis_run_id request = av_analysis_run_id task"
  shows "run_step\<^sup>*\<^sup>* s s' \<and> (\<forall>x. out = Inr x \<longrightarrow> \<not> ao_succeeded x \<longrightarrow> has_failed task s')"
proof (cases "start_analysis_run (others 0) (av_analysis_run_id task) (aq_capture_session_id request) trace now s")
  case (Inl e)
  then show ?thesis using assms by (auto simp: handle_analysis_task_def interfering_def)
next
  case (Inr s1)
  have "run_step\<^sup>*\<^sup>* s (others 0 s)" using assms(2) by (simp add: interfering_def)
  then have "run_step\<^sup>*\<^sup>* s s1" using start_run_others[OF Inr] run_started by (blast intro: rtranclp.rtrancl_into_rtrancl)
  then have seen: "run_step\<^sup>*\<^sup>* s (others 1 s1)" by (rule interfered[OF assms(2)])
  then have asked: "run_step\<^sup>*\<^sup>* s (others 2 (others 1 s1))" by (rule interfered[OF assms(2)])
  show ?thesis
  proof (cases "get_analysis_run_snapshot (av_analysis_run_id task) (others 1 s1)")
    case (Inl e)
    then show ?thesis using assms Inr seen by (auto simp: handle_analysis_task_def)
  next
    case snap: (Inr x)
    obtain r where r: "row ar_id (av_analysis_run_id task) (analysis_runs (others 1 s1)) = Some r" "sn_status x = ar_status r"
      using snap by (auto simp: get_analysis_run_snapshot_def bindR_Inr split: option.splits)
    show ?thesis
    proof (cases "sn_status x = RUN_COMPLETED \<or> sn_status x = RUN_FAILED")
      case True
      then show ?thesis using assms Inr snap r seen
        by (auto simp: handle_analysis_task_def success_outcome_def failure_outcome_def has_failed_def)
    next
      case False
      then have "record_attempt request (analyze request) now (others 2 (others 1 s1)) = (out, s')"
        using assms Inr snap by (simp add: handle_analysis_task_def)
      then show ?thesis using record_attempt_steps assms(3) asked by (blast intro: rtranclp_trans)
    qed
  qed
qed

lemma conclude_steps:
  assumes "conclude_attempt others task x now s = (reply, s')" "interfering others" "\<not> ao_succeeded x \<Longrightarrow> has_failed task s"
  shows "run_step\<^sup>*\<^sup>* s s' \<and> (reply = Inr SERVICE_UNAVAILABLE \<longrightarrow> run_attempts task s < run_attempts task s')"
proof -
  have step: "run_step\<^sup>*\<^sup>* s (others k s)" for k using assms(2) by (simp add: interfering_def)
  have fail: ?thesis if "run_step\<^sup>*\<^sup>* s u" "closing u (fail_capture_analysis task f b now u) = (reply, s')" for u f b
    using closing_steps[OF that(2)] that(1) fail_capture_frame by (blast intro: rtranclp_trans)
  consider "ao_succeeded x" | "\<not> ao_succeeded x" "ao_retryable x" | "\<not> ao_succeeded x" "\<not> ao_retryable x" by blast
  then show ?thesis
  proof cases
    case 1
    then have "closing (others 4 s) (deliver_result task now (others 4 s)) = (reply, s')"
      using assms(1) by (simp add: conclude_attempt_def Let_def)
    then show ?thesis using closing_steps deliver_frame step by (blast intro: rtranclp_trans)
  next
    case 2
    obtain d s1 where d: "prepare_analysis_retry (av_analysis_run_id task) (max_attempts_of (ao_failure_stage x)) now (others 4 s) = (d, s1)" by fastforce
    have s1: "run_step\<^sup>*\<^sup>* s s1" using step[of 4] run_retried[OF d] by simp
    show ?thesis
    proof (cases "d = RETRY")
      case True
      then have s': "s' = s1" using assms(1) 2 d by (simp add: conclude_attempt_def)
      have "attempts_move task s (others 4 s)" "attempts_move task (others 4 s) s1" using step run_retried[OF d] run_steps_move run_step_moves by blast+
      moreover have "has_failed task (others 4 s) \<Longrightarrow> run_attempts task (others 4 s) < run_attempts task s1" using retry_granted d True by blast
      ultimately show ?thesis using s1 s' assms(3) 2(1) by (auto simp: attempts_move_def)
    next
      case False
      then have "closing (others 5 s1) (fail_capture_analysis task (outcome_report x) True now (others 5 s1)) = (reply, s')"
        using assms(1) 2 d by (simp add: conclude_attempt_def Let_def)
      then show ?thesis by (rule fail[OF interfered[OF assms(2) s1]])
    qed
  next
    case 3
    then have "closing (others 5 s) (fail_capture_analysis task (outcome_report x) False now (others 5 s)) = (reply, s')"
      using assms(1) by (simp add: conclude_attempt_def Let_def)
    then show ?thesis by (rule fail[OF step])
  qed
qed

text \<open>A delivery commits such transactions only, and one that asks for another delivery saw an attempt begin.\<close>

lemma delivery_steps:
  assumes "handle_analysis (Some analyze) others task now s = (reply, s')" "interfering others"
  shows "run_step\<^sup>*\<^sup>* s s' \<and> (reply = Inr SERVICE_UNAVAILABLE \<longrightarrow> run_attempts task s < run_attempts task s')"
proof (cases "start_capture_analysis task s")
  case (Inl e)
  then show ?thesis using assms by (auto simp: handle_analysis_def split: if_splits)
next
  case (Inr p)
  obtain go s1 where p: "p = (go, s1)" by fastforce
  have "run_step s s1" using Inr p by (intro elsewhere) (auto simp: start_capture_analysis_def bindR_Inr split: if_splits)
  then have begun: "run_step\<^sup>*\<^sup>* s s1" by blast
  show ?thesis
  proof (cases go)
    case False
    then show ?thesis using assms Inr p begun by (auto simp: handle_analysis_def)
  next
    case True
    let ?s2 = "others 3 s1"
    let ?b = "build_analysis_request (av_analysis_run_id task) (av_capture_session_id task) ANALYSIS_MODEL_NAME ANALYSIS_MODEL_VERSION ANALYSIS_PROMPT_VERSION ?s2"
    have s2: "run_step\<^sup>*\<^sup>* s ?s2" by (rule interfered[OF assms(2) begun])
    show ?thesis
    proof (cases ?b)
      case (Inl e)
      show ?thesis
      proof (cases "e = AnalysisInputsUnavailableError")
        case True
        then have "closing (others 4 ?s2) (fail_capture_analysis task no_ready_media False now (others 4 ?s2)) = (reply, s')"
          using assms(1) Inr p \<open>go\<close> Inl by (simp add: handle_analysis_def Let_def)
        then show ?thesis using closing_steps fail_capture_frame interfered[OF assms(2) s2, of 4] by (blast intro: rtranclp_trans)
      next
        case False
        then show ?thesis using assms(1) Inr p \<open>go\<close> Inl s2 by (auto simp: handle_analysis_def Let_def)
      qed
    next
      case req: (Inr request)
      have id: "aq_analysis_run_id request = av_analysis_run_id task"
        using req by (auto simp: build_analysis_request_def Let_def split: if_splits)
      obtain out s3 where h: "handle_analysis_task analyze others request (av_trace_id task) now ?s2 = (out, s3)" by fastforce
      note run = handle_task_steps[OF h assms(2) id]
      have s3: "run_step\<^sup>*\<^sup>* s s3" using s2 run by (blast intro: rtranclp_trans)
      show ?thesis
      proof (cases out)
        case (Inl e)
        then show ?thesis using assms(1) Inr p \<open>go\<close> req h s3 by (auto simp: handle_analysis_def Let_def)
      next
        case x: (Inr x)
        then have c: "conclude_attempt others task x now s3 = (reply, s')"
          using assms(1) Inr p \<open>go\<close> req h by (simp add: handle_analysis_def Let_def)
        have "attempts_move task s s3" using s3 by (rule run_steps_move)
        then show ?thesis using conclude_steps[OF c assms(2)] run x s3 by (auto simp: attempts_move_def)
      qed
    qed
  qed
qed

section \<open>The queue's view\<close>

lemma closing_settled:
  "closing s m = (Inr NO_CONTENT, s') \<Longrightarrow> (\<And>v s1. m = Inr (v, s1) \<Longrightarrow> settled task s1) \<Longrightarrow> settled task s'"
  by (cases m) (auto simp: closing_def)

lemma conclude_settled:
  assumes "conclude_attempt others task x now s = (Inr NO_CONTENT, s')"
  shows "settled task s'"
proof (cases "ao_succeeded x")
  case True
  then show ?thesis using assms deliver_frame by (auto simp: conclude_attempt_def Let_def intro: closing_settled)
next
  case False
  have fail: "settled task s'" if "closing u (fail_capture_analysis task f b now u) = (Inr NO_CONTENT, s')" for u f b
    by (rule closing_settled[OF that]) (use fail_capture_frame in blast)
  obtain d s1 where d: "prepare_analysis_retry (av_analysis_run_id task) (max_attempts_of (ao_failure_stage x)) now (others 4 s) = (d, s1)" by fastforce
  show ?thesis
    using assms False d by (auto simp: conclude_attempt_def Let_def intro: fail split: if_splits)
qed

text \<open>Property C28: a delivery of the analysis task is acknowledged only when the analysis is settled. Whatever the provider answers and
  whatever other transactions do in between, the queue is told that the work is done only when the analysis of the capture is
  completed or failed in what the delivery leaves behind, or the task is unknown and nothing was done. A settled analysis is never
  run again: every later delivery is acknowledged and changes nothing.\<close>

theorem acknowledged_analysis_is_settled:
  "(\<forall>s'. handle_analysis provider others task now s = (Inr NO_CONTENT, s') \<longrightarrow>
      settled task s' \<or> load_task_row task s = Inl CaptureAnalysisNotFoundError \<and> s' = s) \<and>
   (settled task s \<longrightarrow> provider \<noteq> None \<longrightarrow> handle_analysis provider others task now s = (Inr NO_CONTENT, s))"
proof (intro conjI allI impI)
  fix s'
  assume ack: "handle_analysis provider others task now s = (Inr NO_CONTENT, s')"
  then obtain analyze where a: "provider = Some analyze" by (auto simp: handle_analysis_def split: option.splits)
  show "settled task s' \<or> load_task_row task s = Inl CaptureAnalysisNotFoundError \<and> s' = s"
  proof (cases "start_capture_analysis task s")
    case (Inl e)
    then show ?thesis using ack a by (auto simp: handle_analysis_def start_capture_analysis_def bindR_Inl split: if_splits)
  next
    case (Inr p)
    obtain go s1 where p: "p = (go, s1)" by fastforce
    obtain r where r: "load_task_row task s = Inr r" using Inr by (auto simp: start_capture_analysis_def bindR_Inr)
    show ?thesis
    proof (cases go)
      case False
      then have "settled task s1" using Inr p r task_row[OF r] by (auto simp: start_capture_analysis_def settled_def split: if_splits)
      then show ?thesis using ack a Inr p False by (simp add: handle_analysis_def)
    next
      case True
      let ?b = "build_analysis_request (av_analysis_run_id task) (av_capture_session_id task) ANALYSIS_MODEL_NAME ANALYSIS_MODEL_VERSION ANALYSIS_PROMPT_VERSION (others 3 s1)"
      show ?thesis
      proof (cases ?b)
        case (Inl e)
        then have "closing (others 4 (others 3 s1)) (fail_capture_analysis task no_ready_media False now (others 4 (others 3 s1))) = (Inr NO_CONTENT, s')"
          using ack a Inr p True Inl by (auto simp: handle_analysis_def Let_def split: if_splits)
        then have "settled task s'" by (rule closing_settled) (use fail_capture_frame in blast)
        then show ?thesis by simp
      next
        case req: (Inr request)
        obtain out s2 where h: "handle_analysis_task analyze others request (av_trace_id task) now (others 3 s1) = (out, s2)" by fastforce
        then obtain x where "conclude_attempt others task x now s2 = (Inr NO_CONTENT, s')"
          using ack a Inr p True req by (cases out) (auto simp: handle_analysis_def Let_def)
        then show ?thesis by (blast dest: conclude_settled)
      qed
    qed
  qed
next
  assume "settled task s" "provider \<noteq> None"
  then obtain analyze r where a: "provider = Some analyze" "row ca_analysis_run_id (av_analysis_run_id task) (analysis_dispatches s) = Some r"
      "ca_status r \<in> {CA_COMPLETED, CA_FAILED}" by (auto simp: settled_def)
  then have "start_capture_analysis task s = Inr (False, s) \<or> start_capture_analysis task s = Inl CaptureAnalysisNotFoundError"
    by (auto simp: start_capture_analysis_def load_task_row_def)
  then show "handle_analysis provider others task now s = (Inr NO_CONTENT, s)" using a(1) by (auto simp: handle_analysis_def)
qed

text \<open>
  A delivery within a history of committed states: it starts in the state numbered \<open>dl_from\<close>, its answer is given in the one
  numbered \<open>dl_upto\<close>, and \<open>dl_others\<close> is what commits between its own transactions.
\<close>

record analysis_delivery =
  dl_analyze :: "AnalysisRequest \<Rightarrow> analysis_error + AnalysisResult"
  dl_others :: "nat \<Rightarrow> db \<Rightarrow> db"
  dl_now :: instant
  dl_from :: nat
  dl_upto :: nat
  dl_reply :: "task_reply result"

definition delivered :: "AnalysisTaskV1 \<Rightarrow> (nat \<Rightarrow> db) \<Rightarrow> analysis_delivery \<Rightarrow> bool" where
  "delivered task h d = (dl_from d \<le> dl_upto d \<and> interfering (dl_others d) \<and>
     handle_analysis (Some (dl_analyze d)) (dl_others d) task (dl_now d) (h (dl_from d)) = (dl_reply d, h (dl_upto d)))"

definition in_flight :: "nat \<Rightarrow> analysis_delivery \<Rightarrow> bool" where
  "in_flight i d = (dl_from d \<le> i \<and> i < dl_upto d)"

text \<open>The times at which an attempt begins are few: the counter is another one at each.\<close>

lemma history_moves:
  assumes "\<And>i. run_step (h i) (h (Suc i))" "i \<le> j"
  shows "attempts_move task (h i) (h j)"
  using assms(2) by (induction j rule: dec_induct) (blast intro: attempts_move_refl attempts_move_trans run_step_moves assms(1))+

lemma attempts_begun:
  assumes "\<And>i. run_step (h i) (h (Suc i))"
  shows "finite {i. run_attempts task (h i) < run_attempts task (h (Suc i))} \<and>
    card {i. run_attempts task (h i) < run_attempts task (h (Suc i))} \<le> nat (5 - run_attempts task (h 0))"
proof -
  let ?c = "\<lambda>i. run_attempts task (h i)"
  let ?I = "{i. ?c i < ?c (Suc i)}"
  have mono: "?c i \<le> ?c j" if "i \<le> j" for i j using history_moves[of h i j task] assms that by (simp add: attempts_move_def)
  have up: "?c i < ?c j" if "i \<in> ?I" "i < j" for i j using mono[of "Suc i" j] that by auto
  have inj: "inj_on ?c ?I"
  proof (rule inj_onI)
    fix i j assume "i \<in> ?I" "j \<in> ?I" "?c i = ?c j"
    then show "i = j" using up[of i j] up[of j i] by (cases i j rule: linorder_cases) auto
  qed
  have range: "?c ` ?I \<subseteq> {?c 0..<5}"
  proof (rule image_subsetI)
    fix i assume "i \<in> ?I"
    then show "?c i \<in> {?c 0..<5}" using mono[of 0 i] run_step_moves[OF assms[of i], of task] by (auto simp: attempts_move_def)
  qed
  then have "finite ?I" using inj finite_subset finite_imageD by blast
  moreover have "card ?I \<le> card {?c 0..<5}" using card_image[OF inj] card_mono[OF _ range] by simp
  ultimately show ?thesis by simp
qed

lemma attempt_in_flight: "(c (i :: nat) :: int) < c j \<Longrightarrow> i \<le> j \<Longrightarrow> \<exists>k. i \<le> k \<and> k < j \<and> c k < c (Suc k)"
proof (induction j)
  case (Suc j)
  then show ?case
  proof (cases "c i < c j")
    case True
    then have "i \<le> j" using Suc.prems(2) by (metis le_Suc_eq less_irrefl Suc.prems(1) le_SucE order.asym)
    then show ?thesis using Suc.IH[OF True] less_SucI by blast
  next
    case False
    then have "c j < c (Suc j)" "i \<le> j" using Suc.prems le_Suc_eq by fastforce+
    then show ?thesis by blast
  qed
qed simp

lemma covered_length:
  assumes "finite I" "\<forall>d \<in> set ds. P d \<longrightarrow> (\<exists>i \<in> I. Q i d)"
  shows "length (filter P ds) \<le> (\<Sum>i \<in> I. length (filter (Q i) ds))"
  using assms(2)
proof (induction ds)
  case (Cons d ds)
  have "(\<Sum>i \<in> I. length (filter (Q i) (d # ds))) = (\<Sum>i \<in> I. length (filter (Q i) ds)) + (\<Sum>i \<in> I. if Q i d then 1 else 0)"
    by (simp add: sum.distrib[symmetric] if_distrib cong: if_cong)
  moreover have "1 \<le> (\<Sum>i \<in> I. if Q i d then 1 else (0 :: nat))" if "P d"
  proof -
    obtain i where "i \<in> I" "Q i d" using Cons.prems \<open>P d\<close> by auto
    then show ?thesis using member_le_sum[of i I "\<lambda>i. if Q i d then 1 else (0 :: nat)"] assms(1) by simp
  qed
  ultimately show ?case using Cons by auto
qed simp

text \<open>Property C29: the retries of an analysis are bounded, also when deliveries overlap. Take any history of committed states in
  which the runs change only by the program's own transactions, and in it any number of deliveries of a task by a worker with a
  provider, each with its answers of the provider and with other deliveries committing between its transactions. Every answer 503
  is given by a delivery during which a new attempt of the run began, its own or the one of an overlapping winner; the attempts
  never grow past five; and when at most \<open>w\<close> deliveries are in flight at a time, at most \<open>4 * w\<close> answers are 503 (no more than the attempts that
  are left when the run is recorded already, times \<open>w\<close>): four when the queue delivers one at a time. Only the answers 503 are counted. A delivery
  that raises is answered 500 and delivered again by the queue; nothing here bounds those.\<close>

theorem analysis_retries_end:
  assumes "\<forall>i. run_step (h i) (h (Suc i))" "\<forall>d \<in> set ds. delivered task h d"
    and "\<forall>i. length (filter (in_flight i) ds) \<le> w"
  shows "length (filter (\<lambda>d. dl_reply d = Inr SERVICE_UNAVAILABLE) ds) \<le>
      (case row ar_id (av_analysis_run_id task) (analysis_runs (h 0)) of None \<Rightarrow> 4 | Some run \<Rightarrow> nat (5 - ar_attempt_count run)) * w \<and>
    (\<forall>d \<in> set ds. dl_reply d = Inr SERVICE_UNAVAILABLE \<longrightarrow>
      (\<exists>i. in_flight i d \<and> run_attempts task (h i) < run_attempts task (h (Suc i)))) \<and>
    (\<forall>i. run_attempts task (h i) \<le> max 5 (run_attempts task (h 0)))"
proof -
  let ?P = "\<lambda>d. dl_reply d = Inr SERVICE_UNAVAILABLE"
  let ?I = "{i. run_attempts task (h i) < run_attempts task (h (Suc i))}"
  have begun: "\<exists>i \<in> ?I. in_flight i d" if "d \<in> set ds" "?P d" for d
  proof -
    have d: "delivered task h d" using assms(2) that(1) by blast
    then have "run_attempts task (h (dl_from d)) < run_attempts task (h (dl_upto d))"
      using delivery_steps that(2) by (auto simp: delivered_def)
    then show ?thesis using attempt_in_flight[of "\<lambda>i. run_attempts task (h i)"] d by (auto simp: delivered_def in_flight_def)
  qed
  have I: "finite ?I" "card ?I \<le> nat (5 - run_attempts task (h 0))" using attempts_begun[of h task] assms(1) by auto
  have "length (filter ?P ds) \<le> (\<Sum>i \<in> ?I. length (filter (in_flight i) ds))"
    by (rule covered_length[OF I(1)]) (use begun in blast)
  also have "\<dots> \<le> card ?I * w" using sum_bounded_above[of ?I "\<lambda>i. length (filter (in_flight i) ds)" w] assms(3) by simp
  also have "\<dots> \<le> nat (5 - run_attempts task (h 0)) * w" using I(2) by simp
  also have "nat (5 - run_attempts task (h 0)) =
      (case row ar_id (av_analysis_run_id task) (analysis_runs (h 0)) of None \<Rightarrow> 4 | Some run \<Rightarrow> nat (5 - ar_attempt_count run))"
    by (simp add: run_attempts_def split: option.splits)
  finally have "length (filter ?P ds) \<le>
      (case row ar_id (av_analysis_run_id task) (analysis_runs (h 0)) of None \<Rightarrow> 4 | Some run \<Rightarrow> nat (5 - ar_attempt_count run)) * w" .
  moreover have "run_attempts task (h i) \<le> max 5 (run_attempts task (h 0))" for i
    using history_moves[of h 0 i task] assms(1) by (simp add: attempts_move_def)
  moreover have "\<forall>d \<in> set ds. ?P d \<longrightarrow> (\<exists>i. in_flight i d \<and> run_attempts task (h i) < run_attempts task (h (Suc i)))"
    using begun by blast
  ultimately show ?thesis by blast
qed

section \<open>Witnesses\<close>

text \<open>Run 30 of capture 31 is running; its dispatch is queued.\<close>

definition sample_run :: AiAnalysisRun where
  "sample_run = \<lparr>ar_id = 30, ar_capture_session_id = 31, ar_status = RUN_RUNNING, ar_attempt_count = 1,
     ar_trace_id = replicate 32 CHR ''a'', ar_model_name = None, ar_model_version = None, ar_prompt_version = None,
     ar_result_schema_version = None, ar_failure_code = None, ar_failure_stage = None, ar_provider_status = None,
     ar_failure_detail_code = None, ar_created_at = 0, ar_started_at = Some 0, ar_completed_at = None\<rparr>"

definition sample_queued_analysis :: CaptureAnalysisDispatch where
  "sample_queued_analysis = (new_dispatch 30 31 1 2 (replicate 32 CHR ''a'') 0)\<lparr>ca_status := CA_QUEUED\<rparr>"

definition sample_task :: AnalysisTaskV1 where
  "sample_task = \<lparr>av_analysis_run_id = 30, av_capture_session_id = 31, av_attempt_count = 1, av_trace_id = replicate 32 CHR ''a''\<rparr>"

theorem analysis_result_reads_back_witness:
  "\<exists>s'. complete_analysis_run sample_draft 50 (sample_import\<lparr>analysis_runs := [sample_run]\<rparr>) = Inr s' \<and>
     load_analysis_result 30 s' = Inr (Some sample_draft)"
proof -
  let ?s = "sample_import\<lparr>analysis_runs := [sample_run]\<rparr>"
  have "\<exists>s'. complete_analysis_run sample_draft 50 ?s = Inr s'"
    by (simp add: complete_analysis_run_def sample_draft_def sample_run_def sample_import_def empty_db_def completed_run_def put_run_def
      put_row_def insert_detection_def insert_suggestion_def detection_of_def suggestion_of_def detection_check_def
      location_suggestion_check_def uuid4_def Let_def)
  then obtain s' where s': "complete_analysis_run sample_draft 50 ?s = Inr s'" by blast
  have "analysis_result_ok sample_draft"
    by (simp add: analysis_result_ok_def sample_draft_def draft_item_ok_def draft_location_ok_def text_between_def optional_text_def
      floor_ok_def carry_distance_ok_def)
  moreover have "an_analysis_run_id sample_draft = 30" by (simp add: sample_draft_def)
  moreover have "row ar_id 30 (analysis_runs ?s) = Some sample_run" "ar_status sample_run = RUN_RUNNING" by (simp_all add: sample_run_def)
  moreover have "detections_of 30 ?s = []" "suggestions_of 30 ?s = []"
    by (simp_all add: detections_of_def suggestions_of_def sample_import_def empty_db_def)
  ultimately show ?thesis using analysis_result_reads_back[OF s', of sample_run] s' by simp
qed

lemma mark_failed_returns:
  assumes "trace_text (ca_trace_id r)"
  shows "\<exists>s'. mark_failed r f b now s = Inr (failed_analysis f b now r, s')"
proof -
  have "documented_payload ANALYSIS_FAILED_V1 [(''capture_session_id'', id_json (ca_capture_session_id r)),
      (''analysis_run_id'', id_json (ca_analysis_run_id r)), (''error_kind'', JStr (kind_value (fr_kind f))), (''retryable'', JBool b)]"
    by (cases "fr_kind f") (auto simp: documented_payload_def id_json_def)
  from enqueue_event_returns[OF this, of "Some (ca_trace_id r)" "ca_move_job_id r" None now "put_dispatch (failed_analysis f b now r) s"]
  show ?thesis using assms by (auto simp: mark_failed_def Let_def)
qed

theorem acknowledged_analysis_is_settled_witness:
  "\<exists>s'. handle_analysis (Some (\<lambda>_. Inr sample_draft)) (\<lambda>_ s. s) sample_task 9 (sample_import\<lparr>media_assets := [], analysis_dispatches := [sample_queued_analysis]\<rparr>) = (Inr NO_CONTENT, s') \<and>
     settled sample_task s' \<and> handle_analysis (Some (\<lambda>_. Inr sample_draft)) (\<lambda>_ s. s) sample_task 99 s' = (Inr NO_CONTENT, s')"
proof -
  let ?s = "sample_import\<lparr>media_assets := [], analysis_dispatches := [sample_queued_analysis]\<rparr>"
  let ?r = "started_dispatch sample_queued_analysis" and ?s1 = "put_dispatch (started_dispatch sample_queued_analysis) ?s"
  have load: "load_task_row sample_task ?s = Inr sample_queued_analysis"
    by (simp add: load_task_row_def sample_task_def sample_queued_analysis_def new_dispatch_def)
  have again: "load_task_row sample_task ?s1 = Inr ?r"
    by (simp add: load_task_row_def sample_task_def sample_queued_analysis_def new_dispatch_def started_dispatch_def put_row_def)
  have start: "start_capture_analysis sample_task ?s = Inr (True, ?s1)"
    using load by (simp add: start_capture_analysis_def sample_queued_analysis_def)
  have none: "build_analysis_request 30 31 m v p ?s1 = Inl AnalysisInputsUnavailableError" for m v p
    by (simp add: build_analysis_request_def source_rows_def assets_of_capture_def put_dispatch_def map_filter_simps Let_def)
  have trace: "trace_text (ca_trace_id ?r)"
    by (simp add: started_dispatch_def sample_queued_analysis_def new_dispatch_def trace_text_def is_lower_hex_def in_range_def list.pred_set)
  obtain s' where s': "mark_failed ?r no_ready_media False 9 ?s1 = Inr (failed_analysis no_ready_media False 9 ?r, s')"
    using mark_failed_returns[of ?r no_ready_media False 9 ?s1] trace by blast
  have "\<exists>v. fail_capture_analysis sample_task no_ready_media False 9 ?s1 = Inr (v, s')"
    using again s' by (simp add: fail_capture_analysis_def capture_analysis_response_def optional_of_def failed_analysis_def started_dispatch_def
      stage_text_def detail_text_def no_ready_media_def stage_of_def detail_of_def)
  then have h: "handle_analysis (Some (\<lambda>_. Inr sample_draft)) (\<lambda>_ s. s) sample_task 9 ?s = (Inr NO_CONTENT, s')"
    using start none by (auto simp: handle_analysis_def sample_task_def closing_def Let_def)
  have "settled sample_task s'"
    using acknowledged_analysis_is_settled[of "Some (\<lambda>_. Inr sample_draft)" "\<lambda>_ s. s" sample_task 9 ?s] h load by simp
  then show ?thesis using h acknowledged_analysis_is_settled[of "Some (\<lambda>_. Inr sample_draft)" "\<lambda>_ s. s" sample_task 99 s'] by blast
qed

text \<open>Two deliveries of a run that failed once; both have seen the failure. The first one reopens the run, the second one finds
  it running, and both ask for another delivery.\<close>

definition sample_failed :: db where
  "sample_failed = sample_import\<lparr>analysis_dispatches := [sample_queued_analysis\<lparr>ca_status := CA_RUNNING\<rparr>],
     analysis_runs := [sample_run\<lparr>ar_status := RUN_FAILED, ar_failure_code := Some ''unavailable'', ar_completed_at := Some 5\<rparr>]\<rparr>"

definition reopening :: "db \<Rightarrow> db" where
  "reopening s = snd (prepare_analysis_retry 30 (max_attempts_of None) 9 s)"

definition sample_delivery :: "(nat \<Rightarrow> db \<Rightarrow> db) \<Rightarrow> analysis_delivery" where
  "sample_delivery others = \<lparr>dl_analyze = (\<lambda>_. Inr sample_draft), dl_others = others, dl_now = 9, dl_from = 0, dl_upto = 1,
     dl_reply = Inr SERVICE_UNAVAILABLE\<rparr>"

lemma reopening_step: "run_step s (reopening s)"
  unfolding reopening_def by (rule run_retried[of 30 None 9 s "fst (prepare_analysis_retry 30 (max_attempts_of None) 9 s)"]) simp

lemma sample_failed_delivered:
  assumes "\<forall>k < 4. others k sample_failed = sample_failed" "others 4 sample_failed \<in> {sample_failed, reopening sample_failed}"
  shows "handle_analysis (Some (\<lambda>_. Inr sample_draft)) others sample_task 9 sample_failed = (Inr SERVICE_UNAVAILABLE, reopening sample_failed)"
proof -
  have others: "others 0 sample_failed = sample_failed" "others 1 sample_failed = sample_failed" "others (Suc 0) sample_failed = sample_failed"
      "others 3 sample_failed = sample_failed"
    using assms(1) by simp_all
  have start: "start_capture_analysis sample_task sample_failed = Inr (True, sample_failed)"
    by (simp add: start_capture_analysis_def load_task_row_def sample_task_def sample_failed_def sample_queued_analysis_def new_dispatch_def
      put_dispatch_def put_row_def started_dispatch_def)
  obtain request where request: "build_analysis_request 30 31 ANALYSIS_MODEL_NAME ANALYSIS_MODEL_VERSION ANALYSIS_PROMPT_VERSION sample_failed = Inr request"
      "aq_analysis_run_id request = 30" "aq_capture_session_id request = 31"
    by (simp add: build_analysis_request_def source_rows_def source_row_def assets_of_capture_def sample_failed_def sample_import_def
      empty_db_def map_filter_simps analysis_request_ok_def text_between_def ANALYSIS_MODEL_NAME_def ANALYSIS_MODEL_VERSION_def
      ANALYSIS_PROMPT_VERSION_def Let_def)
  have run: "handle_analysis_task (\<lambda>_. Inr sample_draft) others request (av_trace_id sample_task) 9 sample_failed =
      (Inr (failure_outcome (Some UNAVAILABLE) True None None None), sample_failed)"
    using others request(2,3)
    by (simp add: handle_analysis_task_def start_analysis_run_def get_analysis_run_snapshot_def kind_of_def optional_of_def
      RETRYABLE_ERROR_KINDS_def sample_failed_def sample_run_def)
  have "conclude_attempt others sample_task (failure_outcome (Some UNAVAILABLE) True None None None) 9 sample_failed =
      (Inr SERVICE_UNAVAILABLE, reopening sample_failed)"
    using assms(2) by (auto simp: conclude_attempt_def failure_outcome_def reopening_def prepare_analysis_retry_def max_attempts_of_def
      MAX_ANALYSIS_ATTEMPTS_def sample_failed_def sample_run_def sample_task_def put_run_def put_row_def reopened_run_def)
  then show ?thesis using start run request(1) others by (simp add: handle_analysis_def sample_task_def Let_def)
qed

theorem analysis_retries_end_witness:
  "\<exists>h ds. (\<forall>i. run_step (h i) (h (Suc i))) \<and> (\<forall>d \<in> set ds. delivered sample_task h d) \<and>
     length (filter (\<lambda>d. dl_reply d = Inr SERVICE_UNAVAILABLE) ds) = 2 \<and> run_attempts sample_task (h 1) = 2 \<and>
     length (filter (\<lambda>d. dl_reply d = Inr SERVICE_UNAVAILABLE) ds) \<le> nat (5 - 1) * 2 \<and>
     (\<forall>i. run_attempts sample_task (h i) \<le> 5)"
proof -
  let ?h = "\<lambda>i :: nat. if i = 0 then sample_failed else reopening sample_failed"
  let ?ds = "[sample_delivery (\<lambda>_ s. s), sample_delivery (\<lambda>k s. if k = 4 then reopening s else s)]"
  have h: "\<forall>i. run_step (?h i) (?h (Suc i))" using reopening_step elsewhere by simp
  have "interfering (\<lambda>_ s. s)" "interfering (\<lambda>k s. if k = 4 then reopening s else s)"
    using reopening_step by (auto simp: interfering_def)
  then have ds: "\<forall>d \<in> set ?ds. delivered sample_task ?h d" by (simp add: delivered_def sample_delivery_def sample_failed_delivered)
  have w: "\<forall>i. length (filter (in_flight i) ?ds) \<le> 2" by simp
  have run: "\<exists>r. row ar_id (av_analysis_run_id sample_task) (analysis_runs (?h 0)) = Some r \<and> ar_attempt_count r = 1"
    by (simp add: sample_failed_def sample_run_def sample_task_def)
  then have one: "run_attempts sample_task (?h 0) = 1" by (auto simp: run_attempts_def)
  have "run_attempts sample_task (?h 1) = 2"
    by (simp add: run_attempts_def sample_failed_def sample_run_def sample_task_def reopening_def prepare_analysis_retry_def max_attempts_of_def
      MAX_ANALYSIS_ATTEMPTS_def put_run_def put_row_def reopened_run_def)
  moreover have "length (filter (\<lambda>d. dl_reply d = Inr SERVICE_UNAVAILABLE) ?ds) = 2" by (simp add: sample_delivery_def)
  moreover have left: "(case row ar_id (av_analysis_run_id sample_task) (analysis_runs (?h 0)) of None \<Rightarrow> 4
      | Some run \<Rightarrow> nat (5 - ar_attempt_count run)) = nat (5 - 1)" using run by auto
  have max_five: "max 5 1 = (5 :: int)" by simp
  have "length (filter (\<lambda>d. dl_reply d = Inr SERVICE_UNAVAILABLE) ?ds) \<le> nat (5 - 1) * 2 \<and> (\<forall>i. run_attempts sample_task (?h i) \<le> 5)"
    using analysis_retries_end[OF h ds w, unfolded left one max_five] by blast
  ultimately show ?thesis using h ds by (intro exI[of _ ?h] exI[of _ ?ds]) (elim conjE, intro conjI, assumption+)
qed

end
