(* ===== verification/AnalysisReview.thy ===== *)
theory AnalysisReview
  imports AnalysisWorkflow
begin

text \<open>
  The customer's review of an AI draft: \<open>app/modules/analysis_review/service.py\<close> with its \<open>schemas.py\<close>.
  The stored result of an analysis reads back valid; the storage adapter and the check of the URL it signs
  are one argument. Lemmas are in AnalysisReviewProofs.
\<close>

section \<open>Commands and responses\<close>

record AnalysisReviewItemInput =
  ari_item_key :: string
  ari_room_zone_id :: uuid
  ari_description :: "string option"
  ari_name :: "string option"
  ari_quantity :: "int option"
  ari_unit :: "string option"
  ari_work_note :: "string option"

definition review_item_ok :: "AnalysisReviewItemInput \<Rightarrow> bool" where
  "review_item_ok i = (let is_v1 = (ari_description i \<noteq> None);
       is_v2 = (ari_name i \<noteq> None \<or> ari_quantity i \<noteq> None \<or> ari_unit i \<noteq> None) in
     text_between 1 100 (ari_item_key i) \<and> optional_text 1 2000 (ari_description i) \<and> optional_text 1 200 (ari_name i) \<and>
     (case ari_quantity i of None \<Rightarrow> True | Some q \<Rightarrow> 1 \<le> q) \<and> optional_text 1 20 (ari_unit i) \<and>
     optional_text 1 500 (ari_work_note i) \<and> is_v1 \<noteq> is_v2 \<and>
     \<not> (is_v2 \<and> (ari_name i = None \<or> ari_quantity i = None \<or> ari_unit i = None)) \<and>
     \<not> (is_v1 \<and> ari_work_note i \<noteq> None))"

record AnalysisReviewComplete =
  arc_source_scope_version_id :: uuid
  arc_scope_schema_version :: int
  arc_items :: "AnalysisReviewItemInput list"
  arc_location_conditions :: "ScopeLocationConditions list"

definition analysis_review_complete_ok :: "AnalysisReviewComplete \<Rightarrow> bool" where
  "analysis_review_complete_ok c = (arc_scope_schema_version c \<in> {1, 2} \<and>
     1 \<le> length (arc_items c) \<and> length (arc_items c) \<le> 500 \<and> list_all review_item_ok (arc_items c) \<and>
     list_all (\<lambda>l. location_conditions_ok (sl_conditions l)) (arc_location_conditions c) \<and>
     list_all (\<lambda>i. (ari_name i \<noteq> None) = (arc_scope_schema_version c = 2)) (arc_items c) \<and>
     distinct (map ari_item_key (arc_items c)) \<and>
     \<not> (arc_scope_schema_version c = 1 \<and> arc_location_conditions c \<noteq> []) \<and>
     distinct (map sl_location_id (arc_location_conditions c)) \<and> distinct (map sl_kind (arc_location_conditions c)))"

record AnalysisReviewZone =
  arz_room_zone_id :: uuid
  arz_name :: string
  arz_sort_order :: int
  arz_total_media_count :: nat
  arz_ready_media_count :: nat
  arz_failed_media_count :: nat

record AnalysisReviewItem =
  arv_item_key :: string
  arv_room_zone_id :: uuid
  arv_description :: string
  arv_name :: string
  arv_quantity :: "int option"
  arv_unit :: "string option"
  arv_work_note :: "string option"
  arv_review_status :: ScopeItemReviewStatus
  arv_scope_source :: ScopeItemSource
  arv_by_ai :: bool
  arv_confidence :: "rat option"
  arv_review_required :: bool
  arv_source_media_asset_ids :: "uuid list"

record AnalysisReviewVideoPreview =
  avp_media_asset_id :: uuid
  avp_content_type :: string
  avp_read_url :: string
  avp_expires_at :: instant

record AnalysisReviewResponse =
  arr_job_id :: uuid
  arr_analysis_run_id :: uuid
  arr_capture_session_id :: uuid
  arr_source_scope_version_id :: uuid
  arr_review_scope_version_id :: "uuid option"
  arr_scope_schema_version :: int
  arr_analysis_completed_at :: instant
  arr_review_completed_at :: "instant option"
  arr_zones :: "AnalysisReviewZone list"
  arr_items :: "AnalysisReviewItem list"
  arr_location_conditions :: "ScopeLocationConditions list"
  arr_location_condition_suggestions :: "DraftLocationCondition list"
  arr_video_preview :: "AnalysisReviewVideoPreview option"

section \<open>Reading\<close>

definition ANALYSIS_READ_URL_TTL_SECONDS :: int where
  "ANALYSIS_READ_URL_TTL_SECONDS = 5 * 60"

definition latest_owned_analysis :: "uuid \<Rightarrow> uuid \<Rightarrow> db \<Rightarrow> CaptureAnalysisDispatch result" where
  "latest_owned_analysis job_id participant_id s =
     (case rev (sort_key (\<lambda>r. (ca_submitted_at r, ca_analysis_run_id r))
        (filter (\<lambda>r. ca_move_job_id r = job_id \<and> ca_submitted_by_participant_id r = participant_id) (analysis_dispatches s))) of
        [] \<Rightarrow> Inl AnalysisReviewNotFoundError
      | r # _ \<Rightarrow> if ca_status r \<noteq> CA_COMPLETED \<or> ca_scope_version_id r = None then Inl AnalysisReviewConflictError else Inr r)"

definition load_source_scope :: "CaptureAnalysisDispatch \<Rightarrow> db \<Rightarrow> (ScopeVersion \<times> AnalysisResult) result" where
  "load_source_scope r s =
     (case find (\<lambda>v. Some (sv_id v) = ca_scope_version_id r \<and> sv_job_id v = ca_move_job_id r \<and>
        sv_source_analysis_run_id v = Some (ca_analysis_run_id r) \<and>
        sv_source_capture_session_id v = Some (ca_capture_session_id r)) (scope_versions s) of
        None \<Rightarrow> Inl AnalysisReviewConflictError
      | Some v \<Rightarrow> (case sv_analysis_source v of None \<Rightarrow> Inl AnalysisReviewConflictError | Some result \<Rightarrow> Inr (v, result)))"

definition child_scope :: "uuid \<Rightarrow> db \<Rightarrow> ScopeVersion option" where
  "child_scope source_id s = find (\<lambda>v. sv_parent_version_id v = Some source_id) (scope_versions s)"

text \<open>A dict of the AI's items by key keeps the last of equal keys.\<close>

definition ai_item :: "AnalysisResult \<Rightarrow> string \<Rightarrow> DraftItem option" where
  "ai_item result key = find (\<lambda>d. di_item_key d = key) (rev (an_draft_items result @ an_review_required_items result))"

definition needs_review :: "AnalysisResult \<Rightarrow> string \<Rightarrow> bool" where
  "needs_review result key = list_ex (\<lambda>d. di_item_key d = key) (an_review_required_items result)"

definition current_item :: "AnalysisResult \<Rightarrow> ScopeItem \<Rightarrow> AnalysisReviewItem" where
  "current_item result item = (let key = item_key item; ai = ai_item result key in
     case item of
       Item1 i \<Rightarrow> \<lparr>arv_item_key = key, arv_room_zone_id = i1_room_zone_id i, arv_description = i1_description i,
         arv_name = i1_description i, arv_quantity = None, arv_unit = None, arv_work_note = None,
         arv_review_status = (if needs_review result key then REVIEW_REQUIRED else CONFIRMED_ITEM),
         arv_scope_source = (if ai \<noteq> None then SOURCE_AI else SOURCE_CUSTOMER), arv_by_ai = (ai \<noteq> None),
         arv_confidence = map_option di_confidence ai, arv_review_required = needs_review result key,
         arv_source_media_asset_ids = (case ai of None \<Rightarrow> [] | Some d \<Rightarrow> di_source_media_asset_ids d)\<rparr>
     | Item2 i \<Rightarrow> \<lparr>arv_item_key = key, arv_room_zone_id = i2_room_zone_id i, arv_description = i2_name i,
         arv_name = i2_name i, arv_quantity = i2_quantity i, arv_unit = i2_unit i, arv_work_note = i2_work_note i,
         arv_review_status = i2_review_status i, arv_scope_source = i2_source i, arv_by_ai = (i2_source i = SOURCE_AI),
         arv_confidence = map_option di_confidence ai, arv_review_required = (i2_review_status i = REVIEW_REQUIRED),
         arv_source_media_asset_ids = (case ai of None \<Rightarrow> [] | Some d \<Rightarrow> di_source_media_asset_ids d)\<rparr>)"

definition inventory_count :: "uuid \<Rightarrow> uuid \<Rightarrow> MediaAssetStatus set \<Rightarrow> db \<Rightarrow> nat" where
  "inventory_count capture_id zone_id statuses s = length (filter (\<lambda>a. ma_capture_session_id a = capture_id \<and>
     ma_media_purpose a = INVENTORY \<and> ma_room_zone_id a = zone_id \<and> ma_status a \<in> statuses) (media_assets s))"

definition zone_views :: "uuid \<Rightarrow> uuid \<Rightarrow> db \<Rightarrow> AnalysisReviewZone list" where
  "zone_views job_id capture_id s = map (\<lambda>z. \<lparr>arz_room_zone_id = rz_id z, arz_name = rz_name z, arz_sort_order = rz_sort_order z,
       arz_total_media_count = inventory_count capture_id (rz_id z) UNIV s,
       arz_ready_media_count = inventory_count capture_id (rz_id z) {READY} s,
       arz_failed_media_count = inventory_count capture_id (rz_id z) {MEDIA_FAILED} s\<rparr>)
     (sort_key (\<lambda>z. (rz_sort_order z, rz_id z)) (filter (\<lambda>z. case row loc_id (rz_location_id z) (locations s) of
        None \<Rightarrow> False | Some l \<Rightarrow> loc_job_id l = job_id \<and> loc_kind l = ORIGIN) (room_zones s)))"

definition preview_video :: "uuid \<Rightarrow> db \<Rightarrow> MediaAsset option" where
  "preview_video capture_id s = find (\<lambda>a. ma_media_purpose a = INVENTORY \<and> ma_status a = READY \<and>
     ma_content_type a = ''video/mp4'' \<and> ma_generation a \<noteq> None) (assets_of_capture capture_id s)"

definition video_preview ::
    "(string \<Rightarrow> string \<Rightarrow> string result) \<Rightarrow> uuid \<Rightarrow> instant \<Rightarrow> db \<Rightarrow> AnalysisReviewVideoPreview option result" where
  "video_preview sign capture_id now s = (case preview_video capture_id s of None \<Rightarrow> Inr None
   | Some a \<Rightarrow> (case ma_generation a of None \<Rightarrow> Inl AssertionError
     | Some g \<Rightarrow> bindR (sign (ma_object_key a) g) (\<lambda>url. Inr (Some \<lparr>avp_media_asset_id = ma_id a,
         avp_content_type = ma_content_type a, avp_read_url = url, avp_expires_at = now + seconds ANALYSIS_READ_URL_TTL_SECONDS\<rparr>))))"

definition review_response ::
    "CaptureAnalysisDispatch \<Rightarrow> ScopeVersion \<Rightarrow> AnalysisResult \<Rightarrow> ScopeVersion option \<Rightarrow> (string \<Rightarrow> string \<Rightarrow> string result) option \<Rightarrow>
     instant \<Rightarrow> db \<Rightarrow> AnalysisReviewResponse result" where
  "review_response r source result review storage now s = (case ca_completed_at r of None \<Rightarrow> Inl AnalysisReviewConflictError
   | Some completed \<Rightarrow>
       let content = (case review of None \<Rightarrow> sv_content source | Some v \<Rightarrow> sv_content v) in
       bindR (case storage of None \<Rightarrow> Inr None | Some sign \<Rightarrow> video_preview sign (ca_capture_session_id r) now s) (\<lambda>preview.
       Inr \<lparr>arr_job_id = ca_move_job_id r, arr_analysis_run_id = ca_analysis_run_id r,
         arr_capture_session_id = ca_capture_session_id r, arr_source_scope_version_id = sv_id source,
         arr_review_scope_version_id = map_option sv_id review, arr_scope_schema_version = sc_schema_version content,
         arr_analysis_completed_at = completed, arr_review_completed_at = map_option sv_created_at review,
         arr_zones = zone_views (ca_move_job_id r) (ca_capture_session_id r) s,
         arr_items = map (current_item result) (sc_items content), arr_location_conditions = sc_location_conditions content,
         arr_location_condition_suggestions = an_location_condition_suggestions result, arr_video_preview = preview\<rparr>))"

definition get_analysis_review ::
    "(string \<Rightarrow> string \<Rightarrow> string result) option \<Rightarrow> uuid \<Rightarrow> uuid \<Rightarrow> instant \<Rightarrow> db \<Rightarrow> AnalysisReviewResponse result" where
  "get_analysis_review storage job_id participant_id now s =
     bindR (latest_owned_analysis job_id participant_id s) (\<lambda>r.
     bindR (load_source_scope r s) (\<lambda>(source, result).
     let review = child_scope (sv_id source) s in
     if (case review of None \<Rightarrow> False | Some v \<Rightarrow> sv_created_by_participant_id v \<noteq> Some participant_id)
     then Inl AnalysisReviewConflictError
     else review_response r source result review storage now s))"

section \<open>Completing the review\<close>

text \<open>The items of the command in the shape of the requested version; a validated command has the fields it needs.\<close>

definition requested_item :: "int \<Rightarrow> AnalysisReviewItemInput \<Rightarrow> ScopeItem result" where
  "requested_item schema i = (if schema = 1 then
       (case ari_description i of None \<Rightarrow> Inl ValueError
        | Some d \<Rightarrow> Inr (Item1 \<lparr>i1_item_key = ari_item_key i, i1_room_zone_id = ari_room_zone_id i, i1_description = d\<rparr>))
     else (case ari_name i of None \<Rightarrow> Inl ValueError
        | Some n \<Rightarrow> if ari_quantity i = None \<or> ari_unit i = None then Inl ValueError
          else Inr (Item2 \<lparr>i2_item_key = ari_item_key i, i2_room_zone_id = ari_room_zone_id i, i2_name = n,
            i2_quantity = ari_quantity i, i2_unit = ari_unit i, i2_work_note = ari_work_note i,
            i2_review_status = CONFIRMED_ITEM, i2_source = SOURCE_CUSTOMER\<rparr>)))"

definition requested_content :: "uuid \<Rightarrow> AnalysisReviewComplete \<Rightarrow> db \<Rightarrow> ScopeContent result" where
  "requested_content job_id cmd s =
     bindR (mapR (requested_item (arc_scope_schema_version cmd)) (arc_items cmd)) (\<lambda>items.
     bindR (mk_scope_content \<lparr>sc_schema_version = arc_scope_schema_version cmd, sc_items = items,
              sc_location_conditions = arc_location_conditions cmd\<rparr>) (\<lambda>c.
     (case with_location_condition_snapshot job_id c s of
        Inl e \<Rightarrow> Inl (if e = ScopeResourceNotFoundError then AnalysisReviewNotFoundError else e)
      | Inr c1 \<Rightarrow> Inr (normalize_scope_content c1))))"

definition review_videos :: "uuid \<Rightarrow> db \<Rightarrow> MediaAsset list" where
  "review_videos capture_id s = filter (\<lambda>a. ma_capture_session_id a = capture_id \<and> ma_media_purpose a = INVENTORY \<and>
     ma_content_type a = ''video/mp4'' \<and> ma_status a \<in> {READY, DELETED} \<and> ma_generation a \<noteq> None) (media_assets s)"

fun consume_videos :: "CaptureAnalysisDispatch \<Rightarrow> uuid \<Rightarrow> instant \<Rightarrow> MediaAsset list \<Rightarrow> db \<Rightarrow> db result" where
  "consume_videos r participant_id now [] s = Inr s"
| "consume_videos r participant_id now (a # as) s =
     bindR (create_media_deletion_background_job a (ca_move_job_id r) (Some participant_id) (ca_trace_id r) None now s) (\<lambda>(_, s1).
     consume_videos r participant_id now as (put_asset (a\<lparr>ma_status := DELETED\<rparr>) s1))"

definition consume_review_videos :: "CaptureAnalysisDispatch \<Rightarrow> uuid \<Rightarrow> instant \<Rightarrow> db \<Rightarrow> db result" where
  "consume_review_videos r participant_id now s =
     consume_videos r participant_id now (review_videos (ca_capture_session_id r) s) s"

definition store_review ::
    "uuid \<Rightarrow> uuid \<Rightarrow> ScopeVersion \<Rightarrow> ScopeContent \<Rightarrow> instant \<Rightarrow> db \<Rightarrow> (ScopeVersion \<times> db) result" where
  "store_review job_id participant_id source content now s =
     (case create_scope_version job_id (Some participant_id) (Some (sv_id source)) content None False now s of
        Inl e \<Rightarrow> Inl (if e = ScopeResourceNotFoundError then AnalysisReviewNotFoundError
                      else if e = ScopeVersionConflictError then AnalysisReviewConflictError else e)
      | Inr (created, s1) \<Rightarrow> (case row sv_id (svr_id created) (scope_versions s1) of
          None \<Rightarrow> Inl NoResultFound | Some v \<Rightarrow> Inr (v, s1)))"

definition complete_analysis_review ::
    "uuid \<Rightarrow> uuid \<Rightarrow> AnalysisReviewComplete \<Rightarrow> instant \<Rightarrow> db \<Rightarrow> (AnalysisReviewResponse \<times> db) result" where
  "complete_analysis_review job_id participant_id cmd now s =
     bindR (latest_owned_analysis job_id participant_id s) (\<lambda>r.
     bindR (load_source_scope r s) (\<lambda>(source, result).
     if arc_source_scope_version_id cmd \<noteq> sv_id source then Inl AnalysisReviewConflictError
     else
     bindR (requested_content job_id cmd s) (\<lambda>content.
     bindR (case child_scope (sv_id source) s of
         Some existing \<Rightarrow>
           if sv_created_by_participant_id existing \<noteq> Some participant_id \<or> sv_content existing \<noteq> content
           then Inl AnalysisReviewConflictError else Inr (existing, s)
       | None \<Rightarrow> store_review job_id participant_id source content now s) (\<lambda>(review, s1).
     bindR (consume_review_videos r participant_id now s1) (\<lambda>s2.
     bindR (review_response r source result (Some review) None now s2) (\<lambda>v. Inr (v, s2)))))))"

end
