(* ===== verification/AnalysisReviewProofs.thy ===== *)
theory AnalysisReviewProofs
  imports AnalysisReview ScopeReviewProofs
begin

text \<open>
  Lemmas about the customer's review of an AI draft: what completing it does to the videos of the capture, and
  that completing it again gives the same answer.
\<close>

section \<open>The reviewed content\<close>

lemma snapshot_twice:
  assumes "with_location_condition_snapshot job c s = Inr c1" "with_location_condition_snapshot job (normalize_scope_content c1) s2 = Inr c2"
  shows "c2 = normalize_scope_content c1"
proof (cases "sc_schema_version c = 1")
  case True
  then show ?thesis using assms by (auto simp: with_location_condition_snapshot_def normalize_scope_content_def)
next
  case False
  then have "sc_schema_version c1 \<noteq> 1 \<and> sc_location_conditions c1 \<noteq> []"
    using assms(1) by (auto simp: with_location_condition_snapshot_def mk_scope_content_def Let_def split: if_splits)
  moreover have "sc_location_conditions (normalize_scope_content c1) = [] \<longleftrightarrow> sc_location_conditions c1 = []"
    by (simp add: normalize_scope_content_def) (metis length_0_conv length_sort)
  moreover have "sc_schema_version (normalize_scope_content c1) = sc_schema_version c1" by (simp add: normalize_scope_content_def)
  ultimately show ?thesis using assms(2) by (auto simp: with_location_condition_snapshot_def Let_def split: if_splits)
qed

lemma requested_content_stored:
  assumes "requested_content job cmd s = Inr content" "with_location_condition_snapshot job content s2 = Inr c"
  shows "normalize_scope_content c = content"
proof -
  obtain c0 where "(case with_location_condition_snapshot job c0 s of
      Inl e \<Rightarrow> Inl (if e = ScopeResourceNotFoundError then AnalysisReviewNotFoundError else e)
    | Inr c1 \<Rightarrow> Inr (normalize_scope_content c1)) = Inr content"
    using assms(1) by (auto simp: requested_content_def bindR_Inr)
  then obtain c1 where "with_location_condition_snapshot job c0 s = Inr c1" "content = normalize_scope_content c1"
    by (cases "with_location_condition_snapshot job c0 s") auto
  then show ?thesis using snapshot_twice[of job c0 s c1 s2 c] assms(2) by simp
qed

lemma store_review_spec:
  assumes "store_review job p source content now s = Inr (x, s1)" "rng s (drawn s) \<notin> sv_id ` set (scope_versions s)"
    "\<And>c. with_location_condition_snapshot job content s = Inr c \<Longrightarrow> normalize_scope_content c = content"
  shows "sv_parent_version_id x = Some (sv_id source) \<and> sv_created_by_participant_id x = Some p \<and> sv_content x = content \<and>
    (\<exists>d au. s1 = s\<lparr>drawn := d, scope_versions := scope_versions s @ [x], audit_events := au\<rparr>)"
proof -
  obtain created where c: "create_scope_version job (Some p) (Some (sv_id source)) content None False now s = Inr (created, s1)"
      and x: "row sv_id (svr_id created) (scope_versions s1) = Some x"
    using assms(1) by (auto simp: store_review_def split: sum.splits prod.splits option.splits)
  show ?thesis
  proof (rule create_version_cases[OF c])
    fix c seq v
    assume snap: "with_location_condition_snapshot job content s = Inr c"
      and v: "v = new_scope_version (rng s (drawn s)) job (Some (sv_id source)) seq (normalize_scope_content c)
        (content_hash_of (normalize_scope_content c) s) None (Some p) now"
      and s1: "s1 = add_audit_event job AU_SCOPE_VERSION_CREATED (Some p) (version_payload v) now
        (s\<lparr>drawn := Suc (drawn s), scope_versions := scope_versions s @ [v]\<rparr>)"
      and w: "created = scope_version_response v s1"
    have id: "sv_id v = rng s (drawn s)" by (simp add: v new_scope_version_def)
    have "row sv_id (sv_id v) (scope_versions s) = None" using assms(2) id by (auto simp: row_None_iff)
    then have "x = v" using x by (simp add: s1 w add_audit_event_def uuid4_def scope_version_response_def)
    moreover have "s1 = s\<lparr>drawn := drawn s1, scope_versions := scope_versions s @ [v], audit_events := audit_events s1\<rparr>"
      by (simp add: s1 add_audit_event_def uuid4_def)
    moreover have "sv_parent_version_id v = Some (sv_id source)" "sv_created_by_participant_id v = Some p" "sv_content v = content"
      using assms(3)[OF snap] by (simp_all add: v new_scope_version_def)
    ultimately show ?thesis by blast
  qed
qed

section \<open>The videos\<close>

abbreviation deletion_of :: "MediaAsset \<Rightarrow> db \<Rightarrow> BackgroundJob option" where
  "deletion_of a s \<equiv> job_for MEDIA_RETENTION_DELETE (ma_id a) s"

definition deleted :: "MediaAsset \<Rightarrow> MediaAsset" where
  "deleted a = a\<lparr>ma_status := DELETED\<rparr>"

lemma deleted_fields [simp]:
  "ma_id (deleted a) = ma_id a" "ma_status (deleted a) = DELETED" "ma_media_purpose (deleted a) = ma_media_purpose a"
  "ma_content_type (deleted a) = ma_content_type a" "ma_generation (deleted a) = ma_generation a"
  "ma_capture_session_id (deleted a) = ma_capture_session_id a" "ma_room_zone_id (deleted a) = ma_room_zone_id a"
  "deleted (deleted a) = deleted a"
  by (simp_all add: deleted_def)

lemma deletion_created:
  assumes "create_media_deletion_background_job a job p trace sched now s = Inr (v, s1)"
  shows "(\<exists>bs. s1 = s\<lparr>drawn := Suc (drawn s), background_jobs := background_jobs s @ bs\<rparr>) \<and> deletion_of a s1 \<noteq> None"
proof (cases "deletion_of a s")
  case None
  then show ?thesis using assms
    by (auto simp: create_media_deletion_background_job_def insert_background_job_def uuid4_def Let_def job_for_def
      new_background_job_def find_append split: sum.splits option.splits if_splits)
next
  case (Some b)
  then have "s1 = s\<lparr>drawn := Suc (drawn s), background_jobs := background_jobs s @ []\<rparr>" using assms
    by (auto simp: create_media_deletion_background_job_def insert_background_job_def uuid4_def Let_def job_for_def new_background_job_def)
  moreover from this have "deletion_of a s1 \<noteq> None" using Some by (simp add: job_for_def)
  ultimately show ?thesis by blast
qed

lemma deletion_repeated:
  assumes "deletion_of a s \<noteq> None"
  shows "\<exists>v. create_media_deletion_background_job a job p trace sched now s = Inr (v, s\<lparr>drawn := Suc (drawn s)\<rparr>)"
  using assms by (auto simp: create_media_deletion_background_job_def insert_background_job_def uuid4_def Let_def job_for_def
      new_background_job_def)

text \<open>What a list of videos looks like once they are consumed.\<close>

definition delete_in :: "MediaAsset list \<Rightarrow> MediaAsset list \<Rightarrow> MediaAsset list" where
  "delete_in vs t = map (\<lambda>x. if x \<in> set vs then deleted x else x) t"

lemma put_deleted:
  assumes "distinct (map ma_id t)" "a \<in> set t"
  shows "put_row ma_id (deleted a) t = delete_in [a] t"
  using distinct_map_eq[OF assms(1) _ assms(2)] by (auto simp: put_row_def delete_in_def)

lemma consume_videos_spec:
  assumes "consume_videos r p now vs s = Inr s'" "distinct (map ma_id (media_assets s))" "set vs \<subseteq> set (media_assets s)" "distinct vs"
  shows "(\<exists>d bs. s' = s\<lparr>drawn := d, background_jobs := background_jobs s @ bs, media_assets := delete_in vs (media_assets s)\<rparr>) \<and>
    (\<forall>a \<in> set vs. deletion_of a s' \<noteq> None)"
  using assms
proof (induction vs arbitrary: s)
  case Nil
  then show ?case by (intro conjI exI[of _ "drawn s"] exI[of _ "[]"]) (simp_all add: delete_in_def)
next
  case (Cons a vs)
  obtain v s1 where s1: "create_media_deletion_background_job a (ca_move_job_id r) (Some p) (ca_trace_id r) None now s = Inr (v, s1)"
      "consume_videos r p now vs (put_asset (deleted a) s1) = Inr s'"
    using Cons.prems(1) by (auto simp: bindR_Inr deleted_def)
  let ?s2 = "put_asset (deleted a) s1"
  obtain bs where bs: "s1 = s\<lparr>drawn := Suc (drawn s), background_jobs := background_jobs s @ bs\<rparr>" "deletion_of a s1 \<noteq> None"
    using deletion_created[OF s1(1)] by blast
  have m: "media_assets ?s2 = delete_in [a] (media_assets s)"
    using put_deleted[of "media_assets s" a] Cons.prems by (simp add: put_asset_def bs(1))
  have keys: "map ma_id (delete_in [a] (media_assets s)) = map ma_id (media_assets s)" by (simp add: delete_in_def)
  have sub: "set vs \<subseteq> set (media_assets ?s2)"
  proof
    fix x
    assume x: "x \<in> set vs"
    then have "x \<noteq> a" "x \<in> set (media_assets s)" using Cons.prems(3,4) by auto
    then show "x \<in> set (media_assets ?s2)" unfolding m delete_in_def by force
  qed
  have two: "delete_in vs (delete_in [a] (media_assets s)) = delete_in (a # vs) (media_assets s)"
    using Cons.prems(2-4) by (auto simp: delete_in_def dest: distinct_map_eq[OF Cons.prems(2)])
  obtain d bs2 where r: "s' = ?s2\<lparr>drawn := d, background_jobs := background_jobs ?s2 @ bs2, media_assets := delete_in vs (media_assets ?s2)\<rparr>"
      "\<forall>x \<in> set vs. deletion_of x s' \<noteq> None"
    using Cons.IH[OF s1(2) _ sub] Cons.prems(2,4) m keys by auto
  have "deletion_of a s' \<noteq> None" using bs(2) by (auto simp: r(1) put_asset_def job_for_def find_append)
  then show ?case
    using r two m bs(1) by (intro conjI exI[of _ d] exI[of _ "bs @ bs2"]) (auto simp: put_asset_def)
qed

lemma consume_videos_again:
  assumes "\<forall>a \<in> set vs. deletion_of a s \<noteq> None \<and> ma_status a = DELETED" "distinct (map ma_id (media_assets s))" "set vs \<subseteq> set (media_assets s)"
  shows "consume_videos r p now vs s = Inr (s\<lparr>drawn := drawn s + length vs\<rparr>)"
  using assms
proof (induction vs arbitrary: s)
  case (Cons a vs)
  let ?s1 = "s\<lparr>drawn := Suc (drawn s)\<rparr>"
  obtain v where v: "create_media_deletion_background_job a (ca_move_job_id r) (Some p) (ca_trace_id r) None now s = Inr (v, ?s1)"
    using deletion_repeated[of a s "ca_move_job_id r" "Some p" "ca_trace_id r" None now] Cons.prems(1) by auto
  have "a\<lparr>ma_status := DELETED\<rparr> = a" using Cons.prems(1) by (cases a) simp
  moreover have "put_row ma_id a (media_assets s) = media_assets s"
    unfolding put_row_def using distinct_map_eq[OF Cons.prems(2), of _ a] Cons.prems(3) by (intro map_idI) auto
  ultimately have "put_asset (a\<lparr>ma_status := DELETED\<rparr>) ?s1 = ?s1" by (simp add: put_asset_def)
  moreover have "consume_videos r p now vs ?s1 = Inr (?s1\<lparr>drawn := drawn ?s1 + length vs\<rparr>)"
    using Cons.IH[of ?s1] Cons.prems by (simp add: job_for_def)
  ultimately show ?case using v by simp
qed simp

lemma review_videos_deleted:
  assumes "vs = review_videos c s" "media_assets s' = delete_in vs (media_assets s)"
  shows "review_videos c s' = map deleted vs"
proof -
  let ?p = "\<lambda>a. ma_capture_session_id a = c \<and> ma_media_purpose a = INVENTORY \<and> ma_content_type a = ''video/mp4'' \<and>
    ma_status a \<in> {READY, DELETED} \<and> ma_generation a \<noteq> None"
  let ?f = "\<lambda>x. if x \<in> set vs then deleted x else x"
  have mem: "x \<in> set vs \<longleftrightarrow> x \<in> set (media_assets s) \<and> ?p x" for x by (auto simp: assms(1) review_videos_def)
  have "review_videos c s' = filter ?p (map ?f (media_assets s))" by (simp add: review_videos_def assms(2) delete_in_def)
  also have "\<dots> = map ?f (filter ?p (media_assets s))"
    unfolding filter_map comp_def by (rule arg_cong[of _ _ "map ?f"], rule filter_cong) (use mem in auto)
  also have "\<dots> = map deleted vs" unfolding assms(1) review_videos_def[symmetric] by (rule map_cong) (auto simp: assms(1)[symmetric])
  finally show ?thesis .
qed

section \<open>Completing the review twice\<close>

text \<open>Property C34: completing the review of an AI draft is idempotent and gives the videos up. Once it succeeded, sending the same
  command again at any later time gives the same answer, makes no version and schedules nothing; and every
  inventory video of the capture is deleted from then on, with the deletion of its object scheduled.\<close>

theorem review_completes_once:
  assumes "complete_analysis_review job p cmd now s = Inr (v, s')"
    and "distinct (map ma_id (media_assets s))" "rng s (drawn s) \<notin> sv_id ` set (scope_versions s)"
  shows "(\<exists>d. complete_analysis_review job p cmd later s' = Inr (v, s'\<lparr>drawn := d\<rparr>)) \<and>
    (\<forall>a \<in> set (review_videos (arr_capture_session_id v) s).
       row ma_id (ma_id a) (media_assets s') = Some (a\<lparr>ma_status := DELETED\<rparr>) \<and>
       job_for MEDIA_RETENTION_DELETE (ma_id a) s' \<noteq> None)"
proof -
  obtain r source result content review s1 where
      r: "latest_owned_analysis job p s = Inr r" "load_source_scope r s = Inr (source, result)"
        "arc_source_scope_version_id cmd = sv_id source" "requested_content job cmd s = Inr content"
      and review: "(case child_scope (sv_id source) s of
         Some existing \<Rightarrow>
           if sv_created_by_participant_id existing \<noteq> Some p \<or> sv_content existing \<noteq> content
           then Inl AnalysisReviewConflictError else Inr (existing, s)
       | None \<Rightarrow> store_review job p source content now s) = Inr (review, s1)"
      and s': "consume_review_videos r p now s1 = Inr s'" "review_response r source result (Some review) None now s' = Inr v"
    using assms(1) by (auto simp: complete_analysis_review_def bindR_Inr Let_def split: if_splits)
  have s1: "sv_created_by_participant_id review = Some p \<and> sv_content review = content \<and> child_scope (sv_id source) s1 = Some review \<and>
      (\<exists>d vs au. s1 = s\<lparr>drawn := d, scope_versions := scope_versions s @ vs, audit_events := au\<rparr>)"
  proof (cases "child_scope (sv_id source) s")
    case None
    then have st: "store_review job p source content now s = Inr (review, s1)" using review by simp
    have sp: "sv_parent_version_id review = Some (sv_id source) \<and> sv_created_by_participant_id review = Some p \<and> sv_content review = content \<and>
        (\<exists>d au. s1 = s\<lparr>drawn := d, scope_versions := scope_versions s @ [review], audit_events := au\<rparr>)"
      by (rule store_review_spec[OF st assms(3)]) (rule requested_content_stored[OF r(4)])
    then obtain d au where "s1 = s\<lparr>drawn := d, scope_versions := scope_versions s @ [review], audit_events := au\<rparr>" by blast
    then show ?thesis using None sp by (auto simp: child_scope_def find_append)
  next
    case (Some x)
    then have "x = review" "s1 = s" "sv_created_by_participant_id x = Some p" "sv_content x = content"
      using review by (auto split: if_splits)
    then show ?thesis using Some
      by (intro conjI exI[of _ "drawn s"] exI[of _ "[]"] exI[of _ "audit_events s"]) (simp_all add: child_scope_def)
  qed
  then obtain d vs au where e1: "s1 = s\<lparr>drawn := d, scope_versions := scope_versions s @ vs, audit_events := au\<rparr>" by blast
  define videos where "videos = review_videos (ca_capture_session_id r) s1"
  have vid: "videos = review_videos (ca_capture_session_id r) s" by (simp add: videos_def e1 review_videos_def)
  have consumed: "consume_videos r p now videos s1 = Inr s'" using s'(1) by (simp add: consume_review_videos_def videos_def)
  have ids: "distinct (map ma_id (media_assets s1))" using assms(2) by (simp add: e1)
  have sub: "set videos \<subseteq> set (media_assets s1)" by (auto simp: videos_def review_videos_def)
  have "distinct (media_assets s1)" using ids by (simp add: distinct_map)
  then have "distinct videos" by (simp add: videos_def review_videos_def)
  from consume_videos_spec[OF consumed ids sub this] obtain d2 bs where
      e2: "s' = s1\<lparr>drawn := d2, background_jobs := background_jobs s1 @ bs, media_assets := delete_in videos (media_assets s1)\<rparr>"
      and jobs: "\<forall>a \<in> set videos. deletion_of a s' \<noteq> None" by blast
  have assets: "media_assets s' = delete_in videos (media_assets s1)" by (simp add: e2)
  have ids': "distinct (map ma_id (media_assets s'))" using ids by (simp add: assets delete_in_def comp_def if_distrib cong: if_cong)
  have again: "review_videos (ca_capture_session_id r) s' = map deleted videos" by (rule review_videos_deleted[OF videos_def assets])
  have "consume_videos r p later (map deleted videos) s' = Inr (s'\<lparr>drawn := drawn s' + length (map deleted videos)\<rparr>)"
    by (rule consume_videos_again) (use jobs ids' sub in \<open>auto simp: assets delete_in_def\<close>)
  then have twice: "consume_review_videos r p later s' = Inr (s'\<lparr>drawn := drawn s' + length videos\<rparr>)"
    by (simp add: consume_review_videos_def again)
  have same: "latest_owned_analysis job p s' = Inr r" "load_source_scope r s' = Inr (source, result)" "requested_content job cmd s' = Inr content"
      "child_scope (sv_id source) s' = Some review"
  proof -
    show "latest_owned_analysis job p s' = Inr r" using r(1) by (simp add: latest_owned_analysis_def e1 e2)
    show "load_source_scope r s' = Inr (source, result)"
      using r(2) by (auto simp: load_source_scope_def e1 e2 find_append split: option.splits)
    show "requested_content job cmd s' = Inr content"
    proof -
      have "job_locations job s' = job_locations job s" by (simp add: job_locations_def e1 e2)
      then have "with_location_condition_snapshot job c s' = with_location_condition_snapshot job c s" for c
        by (simp only: with_location_condition_snapshot_def)
      then show ?thesis using r(4) by (simp only: requested_content_def)
    qed
    show "child_scope (sv_id source) s' = Some review" using s1 by (simp add: child_scope_def e2)
  qed
  have "review_response r source result (Some review) None later (s'\<lparr>drawn := drawn s' + length videos\<rparr>) = Inr v"
    using s'(2) by (auto simp: review_response_def zone_views_def inventory_count_def Let_def split: option.splits)
  then have "complete_analysis_review job p cmd later s' = Inr (v, s'\<lparr>drawn := drawn s' + length videos\<rparr>)"
    using same r(3) s1 twice by (simp add: complete_analysis_review_def Let_def)
  moreover have "arr_capture_session_id v = ca_capture_session_id r"
    using s'(2) by (auto simp: review_response_def Let_def split: option.splits)
  moreover have "row ma_id (ma_id a) (media_assets s') = Some (deleted a)" if "a \<in> set videos" for a
  proof -
    have "deleted a \<in> set (media_assets s')" using that sub by (force simp: assets delete_in_def)
    from row_of_mem[OF ids' this] show ?thesis by simp
  qed
  ultimately show ?thesis using jobs vid by (auto simp: deleted_def)
qed

section \<open>Witness\<close>

text \<open>The draft of run 30 was imported as version 40 of job 1; the capture has the inventory video 35.\<close>

definition sample_reviewed_content :: ScopeContent where
  "sample_reviewed_content = \<lparr>sc_schema_version = 1,
     sc_items = [Item1 \<lparr>i1_item_key = ''a'', i1_room_zone_id = 34, i1_description = ''sofa''\<rparr>], sc_location_conditions = []\<rparr>"

definition sample_source :: ScopeVersion where
  "sample_source = new_scope_version 40 1 None 1 sample_reviewed_content (replicate 64 CHR ''a'') (Some sample_draft) None 5"

definition sample_completed :: CaptureAnalysisDispatch where
  "sample_completed = (new_dispatch 30 31 1 2 (replicate 32 CHR ''a'') 0)\<lparr>ca_status := CA_COMPLETED,
     ca_scope_version_id := Some 40, ca_completed_at := Some 5\<rparr>"

definition sample_video :: MediaAsset where
  "sample_video = \<lparr>ma_id = 35, ma_capture_session_id = 31, ma_room_zone_id = 34, ma_media_purpose = INVENTORY,
     ma_status = READY, ma_object_key = ''v'', ma_content_type = ''video/mp4'', ma_expected_size_bytes = 9,
     ma_actual_size_bytes = Some 9, ma_sha256_hex = None, ma_generation = Some ''g'', ma_created_at = 0,
     ma_uploaded_at = Some 1\<rparr>"

definition sample_reviewed :: db where
  "sample_reviewed = sample_import\<lparr>
     move_jobs := [\<lparr>mj_id = 1, mj_title = ''move'', mj_status = ACTIVE, mj_scheduled_at = None, mj_created_at = 0,
       mj_updated_at = 0, mj_completed_at = None\<rparr>],
     participants := [\<lparr>jp_id = 2, jp_job_id = 1, jp_role = CUSTOMER, jp_display_name = ''c'', jp_created_at = 0\<rparr>],
     media_assets := [sample_video], scope_versions := [sample_source], analysis_dispatches := [sample_completed]\<rparr>"

definition sample_ai_review :: AnalysisReviewComplete where
  "sample_ai_review = \<lparr>arc_source_scope_version_id = 40, arc_scope_schema_version = 1,
     arc_items = [\<lparr>ari_item_key = ''a'', ari_room_zone_id = 34, ari_description = Some ''sofa'', ari_name = None,
       ari_quantity = None, ari_unit = None, ari_work_note = None\<rparr>], arc_location_conditions = []\<rparr>"

theorem review_completes_once_witness:
  "\<exists>v s' d. complete_analysis_review 1 2 sample_ai_review 50 sample_reviewed = Inr (v, s') \<and>
     complete_analysis_review 1 2 sample_ai_review 99 s' = Inr (v, s'\<lparr>drawn := d\<rparr>) \<and> map ma_status (media_assets s') = [DELETED]"
proof -
  note tables = sample_reviewed_def sample_import_def empty_db_def
  have latest: "latest_owned_analysis 1 2 sample_reviewed = Inr sample_completed"
    by (simp add: latest_owned_analysis_def tables sample_completed_def new_dispatch_def)
  have source: "load_source_scope sample_completed sample_reviewed = Inr (sample_source, sample_draft)"
    by (simp add: load_source_scope_def tables sample_completed_def new_dispatch_def sample_source_def new_scope_version_def sample_draft_def)
  have content: "requested_content 1 sample_ai_review sample_reviewed = Inr sample_reviewed_content"
    by (simp add: requested_content_def sample_ai_review_def requested_item_def mk_scope_content_def scope_content_ok_def text_between_def
      with_location_condition_snapshot_def normalize_scope_content_def sample_reviewed_content_def)
  have child: "child_scope (sv_id sample_source) sample_reviewed = None"
    by (simp add: child_scope_def tables sample_source_def new_scope_version_def)
  have "\<exists>x s1. store_review 1 2 sample_source sample_reviewed_content 50 sample_reviewed = Inr (x, s1)"
    by (simp add: store_review_def create_scope_version_def store_scope_version_def with_location_condition_snapshot_def
      validate_scope_zones_def zone_in_job_def next_sequence_number_def has_child_def any_role_def is_participant_def insert_scope_version_def
      scope_version_check_def scope_version_clash_def scope_version_response_def add_audit_event_def content_hash_of_def
      normalize_scope_content_def uuid4_def sample_reviewed_content_def sample_source_def new_scope_version_def tables Let_def)
  then obtain x s1 where st: "store_review 1 2 sample_source sample_reviewed_content 50 sample_reviewed = Inr (x, s1)" by blast
  obtain created where "create_scope_version 1 (Some 2) (Some (sv_id sample_source)) sample_reviewed_content None False 50 sample_reviewed = Inr (created, s1)"
    using st by (auto simp: store_review_def split: sum.splits prod.splits option.splits)
  then have s1: "media_assets s1 = [sample_video] \<and> background_jobs s1 = []"
    by (rule create_version_cases) (simp add: add_audit_event_def uuid4_def tables)
  have rv: "review_videos 31 s1 = [sample_video]" using s1 by (simp add: review_videos_def sample_video_def)
  obtain w s2 where w: "create_media_deletion_background_job sample_video 1 (Some 2) (replicate 32 CHR ''a'') None 50 s1 = Inr (w, s2)"
      "media_assets s2 = [sample_video]"
    using s1 by (simp add: sample_video_def create_media_deletion_background_job_def insert_background_job_def new_background_job_def
      job_for_def background_job_target_check_def background_job_state_check_def uuid4_def Let_def)
  have pa: "put_asset (sample_video\<lparr>ma_status := DELETED\<rparr>) s2 = s2\<lparr>media_assets := [sample_video\<lparr>ma_status := DELETED\<rparr>]\<rparr>"
    using w(2) by (simp add: put_asset_def put_row_def sample_video_def)
  have ca: "ca_capture_session_id sample_completed = 31" "ca_move_job_id sample_completed = 1"
      "ca_trace_id sample_completed = replicate 32 CHR ''a''" by (simp_all add: sample_completed_def new_dispatch_def)
  define s3 where "s3 = s2\<lparr>media_assets := [sample_video\<lparr>ma_status := DELETED\<rparr>]\<rparr>"
  have s3: "consume_review_videos sample_completed 2 50 s1 = Inr s3" "map ma_status (media_assets s3) = [DELETED]"
    by (simp_all only: consume_review_videos_def ca rv consume_videos.simps w(1) bindR_simps prod.case pa s3_def) simp
  have cmd: "arc_source_scope_version_id sample_ai_review = sv_id sample_source" by (simp add: sample_ai_review_def sample_source_def new_scope_version_def)
  obtain v where v: "review_response sample_completed sample_source sample_draft (Some x) None 50 s3 = Inr v"
    by (simp add: review_response_def sample_completed_def Let_def)
  have run: "complete_analysis_review 1 2 sample_ai_review 50 sample_reviewed = Inr (v, s3)"
    unfolding complete_analysis_review_def
    by (simp only: latest source content child st s3(1) v cmd bindR_simps prod.case option.case Let_def simp_thms if_False)
  have "distinct (map ma_id (media_assets sample_reviewed))" "rng sample_reviewed (drawn sample_reviewed) \<notin> sv_id ` set (scope_versions sample_reviewed)"
    by (simp_all add: tables sample_source_def new_scope_version_def)
  from review_completes_once[OF run this, of 99, THEN conjunct1]
  show ?thesis using run s3(2) by (elim exE) (intro exI conjI)
qed

end
