(* ===== verification/Notification.thy ===== *)
theory Notification
  imports Outbox ContactPoints
begin

text \<open>
  Notifications: \<open>app/modules/notification\<close>. \<open>service.py\<close> turns an event into one delivery per recipient
  and channel, \<open>consumer.py\<close> feeds it from the event bus, \<open>delivery.py\<close> sends what leaves the program.
  Parsing a message's JSON, the subscriber and the provider are arguments; the workers of one sending
  pass run as an explicit interleaving of their transactions. Texts are UTF-8 bytes, and a bound on the
  length of a text is read on them. Lemmas are in
  NotificationProofs.
\<close>

section \<open>Responses\<close>

record NotificationResponse =
  ntr_id :: uuid
  ntr_event_id :: uuid
  ntr_event_type :: DomainEventType
  ntr_job_id :: uuid
  ntr_recipient_participant_id :: uuid
  ntr_channel :: NotificationChannel
  ntr_status :: NotificationStatus
  ntr_attempt_count :: int
  ntr_created_at :: instant
  ntr_last_attempt_at :: "instant option"
  ntr_sent_at :: "instant option"
  ntr_last_error_code :: "string option"
  ntr_provider_message_id :: "string option"

definition notification_response :: "NotificationDelivery \<Rightarrow> NotificationResponse" where
  "notification_response n = \<lparr>ntr_id = nd_id n, ntr_event_id = nd_event_id n, ntr_event_type = nd_event_type n,
     ntr_job_id = nd_job_id n, ntr_recipient_participant_id = nd_recipient_participant_id n, ntr_channel = nd_channel n,
     ntr_status = nd_status n, ntr_attempt_count = nd_attempt_count n, ntr_created_at = nd_created_at n,
     ntr_last_attempt_at = nd_last_attempt_at n, ntr_sent_at = nd_sent_at n, ntr_last_error_code = nd_last_error_code n,
     ntr_provider_message_id = nd_provider_message_id n\<rparr>"

section \<open>Consuming an event\<close>

definition NOTIFICATION_CONSUMER_NAME :: string where
  "NOTIFICATION_CONSUMER_NAME = ''participant-notifications.v1''"

fun notification_roles :: "DomainEventType \<Rightarrow> ParticipantRole set" where
  "notification_roles CAPTURE_SUBMITTED_V1 = {CUSTOMER, COMPANY_MANAGER}"
| "notification_roles ANALYSIS_COMPLETED_V1 = {CUSTOMER, COMPANY_MANAGER}"
| "notification_roles ANALYSIS_FAILED_V1 = {CUSTOMER, COMPANY_MANAGER}"
| "notification_roles SCOPE_LOCKED_V1 = {FIELD_WORKER}"
| "notification_roles CHANGE_REQUESTED_V1 = {CUSTOMER, COMPANY_MANAGER}"
| "notification_roles DISPATCH_CONFIRMED_V1 = {FIELD_WORKER}"
| "notification_roles COMPLETION_MEDIA_SUBMITTED_V1 = {CUSTOMER, COMPANY_MANAGER}"
| "notification_roles COMPLETION_SUBMITTED_V1 = {COMPANY_MANAGER}"
| "notification_roles COMPLETION_REQUESTED_V1 = {CUSTOMER}"
| "notification_roles COMPLETION_DECIDED_V1 = {COMPANY_MANAGER}"
| "notification_roles MEDIA_DELETED_V1 = {}"

definition insert_consumption :: "EventConsumption \<Rightarrow> db \<Rightarrow> db result" where
  "insert_consumption c s = (if ec_consumer_name c = [] \<or>
       list_ex (\<lambda>x. ec_consumer_name x = ec_consumer_name c \<and> ec_event_id x = ec_event_id c) (event_consumptions s)
     then Inl IntegrityError else Inr (s\<lparr>event_consumptions := event_consumptions s @ [c]\<rparr>))"

definition recipients_of :: "DomainEvent \<Rightarrow> db \<Rightarrow> uuid list" where
  "recipients_of ev s = sort (map jp_id (filter (\<lambda>p. jp_job_id p = de_aggregate_id ev \<and>
     jp_role p \<in> notification_roles (de_event_type ev) \<and>
     (case de_actor_id ev of None \<Rightarrow> True | Some a \<Rightarrow> jp_id p \<noteq> a)) (participants s)))"

definition contact_rows :: "uuid list \<Rightarrow> db \<Rightarrow> (uuid \<times> NotificationContactChannel \<times> string) list" where
  "contact_rows ids s = sort_key (\<lambda>(i, ch, d). (i, channel_rank ch))
     (concat (map (\<lambda>m. map (\<lambda>c. (wm_participant_id m, cp_channel c, cp_destination c))
          (filter (\<lambda>c. cp_account_id c = wm_account_id m \<and> cp_enabled c) (contact_points s)))
        (filter (\<lambda>m. wm_participant_id m \<in> set ids \<and> wm_revoked_at m = None) (workspace_memberships s))))"

definition new_delivery :: "DomainEvent \<Rightarrow> uuid \<Rightarrow> NotificationChannel \<Rightarrow> string option \<Rightarrow> instant option \<Rightarrow> instant \<Rightarrow> uuid \<Rightarrow>
    NotificationDelivery" where
  "new_delivery ev recipient channel destination next now i = \<lparr>nd_id = i, nd_event_id = de_event_id ev,
     nd_event_type = de_event_type ev, nd_job_id = de_aggregate_id ev, nd_recipient_participant_id = recipient,
     nd_channel = channel, nd_destination = destination, nd_status = NOTE_PENDING, nd_attempt_count = 0,
     nd_created_at = now, nd_last_attempt_at = None, nd_sent_at = None, nd_last_error_code = None,
     nd_next_attempt_at = next, nd_locked_until = None, nd_lock_token = None, nd_provider_message_id = None\<rparr>"

definition intents_of :: "DomainEvent \<Rightarrow> instant \<Rightarrow> db \<Rightarrow> (uuid \<Rightarrow> NotificationDelivery) list" where
  "intents_of ev now s = (let ids = recipients_of ev s in
     map (\<lambda>p. new_delivery ev p IN_APP None None now) ids @
     (if ids = [] then [] else map (\<lambda>(p, ch, d). new_delivery ev p (delivery_channel ch) (Some d) (Some now) now) (contact_rows ids s)))"

definition insert_delivery :: "NotificationDelivery \<Rightarrow> db \<Rightarrow> db result" where
  "insert_delivery n s = (if \<not> notification_check n \<or> list_ex (\<lambda>x. nd_event_id x = nd_event_id n \<and>
       nd_recipient_participant_id x = nd_recipient_participant_id n \<and> nd_channel x = nd_channel n) (notifications s)
     then Inl IntegrityError else Inr (s\<lparr>notifications := notifications s @ [n]\<rparr>))"

fun add_intents :: "(uuid \<Rightarrow> NotificationDelivery) list \<Rightarrow> db \<Rightarrow> (NotificationDelivery list \<times> db) result" where
  "add_intents [] s = Inr ([], s)"
| "add_intents (f # fs) s = (let (i, s1) = uuid4 s in
     bindR (insert_delivery (f i) s1) (\<lambda>s2.
     bindR (add_intents fs s2) (\<lambda>(ns, s3). Inr (f i # ns, s3))))"

definition consume_notification_event ::
    "DomainEvent \<Rightarrow> instant \<Rightarrow> db \<Rightarrow> (NotificationResponse list \<times> db) result" where
  "consume_notification_event ev now s = (case row mj_id (de_aggregate_id ev) (move_jobs s) of
     None \<Rightarrow> Inl NotificationResourceNotFoundError
   | Some j \<Rightarrow> (case insert_consumption \<lparr>ec_consumer_name = NOTIFICATION_CONSUMER_NAME,
          ec_event_id = de_event_id ev, ec_consumed_at = now\<rparr> s of
        Inl e \<Rightarrow> Inr ([], s)
      | Inr s1 \<Rightarrow>
          if notification_roles (de_event_type ev) = {} then Inr ([], s1)
          else bindR (add_intents (intents_of ev now s1) s1) (\<lambda>(ns, s2). Inr (map notification_response ns, s2))))"

definition list_notifications :: "uuid \<Rightarrow> uuid \<Rightarrow> db \<Rightarrow> NotificationResponse list" where
  "list_notifications job_id recipient s = map notification_response (sort_key (\<lambda>n. (nd_created_at n, nd_id n))
     (filter (\<lambda>n. nd_job_id n = job_id \<and> nd_recipient_participant_id n = recipient \<and> nd_channel n = IN_APP) (notifications s)))"

section \<open>Operator commands\<close>

fun note_transitions :: "NotificationStatus \<Rightarrow> NotificationStatus set" where
  "note_transitions NOTE_PENDING = {NOTE_SENT, NOTE_FAILED}"
| "note_transitions NOTE_FAILED = {NOTE_PENDING, NOTE_SENT, NOTE_FAILED}"
| "note_transitions NOTE_SENT = {}"

definition put_note :: "NotificationDelivery \<Rightarrow> db \<Rightarrow> db" where
  "put_note n s = s\<lparr>notifications := put_row nd_id n (notifications s)\<rparr>"

definition with_notification ::
    "uuid \<Rightarrow> db \<Rightarrow> (NotificationDelivery \<Rightarrow> (NotificationResponse \<times> db) result) \<Rightarrow> (NotificationResponse \<times> db) result" where
  "with_notification i s f = (case row nd_id i (notifications s) of
     None \<Rightarrow> Inl NotificationResourceNotFoundError | Some n \<Rightarrow> f n)"

definition mark_notification_sent :: "uuid \<Rightarrow> string option \<Rightarrow> instant \<Rightarrow> db \<Rightarrow> (NotificationResponse \<times> db) result" where
  "mark_notification_sent i provider_message_id now s = with_notification i s (\<lambda>n.
     if nd_status n = NOTE_SENT then Inr (notification_response n, s)
     else if NOTE_SENT \<notin> note_transitions (nd_status n) then Inl NotificationConflictError
     else let n' = n\<lparr>nd_status := NOTE_SENT, nd_attempt_count := nd_attempt_count n + 1, nd_last_attempt_at := Some now,
            nd_sent_at := Some now, nd_last_error_code := None, nd_provider_message_id := provider_message_id,
            nd_next_attempt_at := None, nd_locked_until := None, nd_lock_token := None\<rparr> in
       Inr (notification_response n', put_note n' s))"

definition mark_notification_failed :: "uuid \<Rightarrow> string \<Rightarrow> instant \<Rightarrow> db \<Rightarrow> (NotificationResponse \<times> db) result" where
  "mark_notification_failed i error_code now s =
     (if \<not> error_code_pattern error_code then Inl ValueError
      else with_notification i s (\<lambda>n.
     if NOTE_FAILED \<notin> note_transitions (nd_status n) then Inl NotificationConflictError
     else let n' = n\<lparr>nd_status := NOTE_FAILED, nd_attempt_count := nd_attempt_count n + 1, nd_last_attempt_at := Some now,
            nd_last_error_code := Some error_code, nd_locked_until := None, nd_lock_token := None\<rparr> in
       Inr (notification_response n', put_note n' s)))"

definition retry_notification :: "uuid \<Rightarrow> instant \<Rightarrow> db \<Rightarrow> (NotificationResponse \<times> db) result" where
  "retry_notification i now s = with_notification i s (\<lambda>n.
     if NOTE_PENDING \<notin> note_transitions (nd_status n) then Inl NotificationConflictError
     else let n' = n\<lparr>nd_status := NOTE_PENDING, nd_last_error_code := None, nd_next_attempt_at := Some now\<rparr> in
       Inr (notification_response n', put_note n' s))"

section \<open>The event bus consumer\<close>

record PulledEventMessage =
  pm_ack_id :: string
  pm_data :: string
  pm_attributes :: "string \<rightharpoonup> string"

record NotificationConsumerResult =
  ncr_pulled :: int
  ncr_acknowledged :: int
  ncr_failed :: int

definition expected_attributes :: "DomainEvent \<Rightarrow> string \<rightharpoonup> string" where
  "expected_attributes ev = [''event_id'' \<mapsto> uuid_str (de_event_id ev), ''event_type'' \<mapsto> event_type_value (de_event_type ev),
     ''schema_version'' \<mapsto> int_text (de_schema_version ev), ''idempotency_key'' \<mapsto> ''event:'' @ uuid_str (de_event_id ev)]"

definition parse_domain_event :: "(string \<Rightarrow> DomainEvent result) \<Rightarrow> PulledEventMessage \<Rightarrow> DomainEvent result" where
  "parse_domain_event validate_json m = bindR (validate_json (pm_data m)) (\<lambda>ev.
     if pm_attributes m \<noteq> expected_attributes ev then Inl ValueError else Inr ev)"

text \<open>One message: its transaction, then the acknowledgement; whatever raises leads to a negative
  acknowledgement, and if that raises too the batch ends. The answer is whether it was acknowledged.\<close>

definition consume_message ::
    "(string \<Rightarrow> DomainEvent result) \<Rightarrow> (string \<Rightarrow> port_error option) \<Rightarrow> (string \<Rightarrow> port_error option) \<Rightarrow>
     PulledEventMessage \<Rightarrow> instant \<Rightarrow> db \<Rightarrow> bool result \<times> db" where
  "consume_message validate_json acknowledge nack m now s =
     (let give_up = (\<lambda>s. (case nack (pm_ack_id m) of None \<Rightarrow> Inr False | Some e \<Rightarrow> Inl (PortError e), s)) in
      case bindR (parse_domain_event validate_json m) (\<lambda>ev. consume_notification_event ev now s) of
        Inl e \<Rightarrow> give_up s
      | Inr (_, s1) \<Rightarrow> (case acknowledge (pm_ack_id m) of None \<Rightarrow> (Inr True, s1) | Some e \<Rightarrow> give_up s1))"

fun consume_messages ::
    "(string \<Rightarrow> DomainEvent result) \<Rightarrow> (string \<Rightarrow> port_error option) \<Rightarrow> (string \<Rightarrow> port_error option) \<Rightarrow>
     PulledEventMessage list \<Rightarrow> instant \<Rightarrow> db \<Rightarrow> (int \<times> int) result \<times> db" where
  "consume_messages validate_json acknowledge nack [] now s = (Inr (0, 0), s)"
| "consume_messages validate_json acknowledge nack (m # ms) now s =
     (case consume_message validate_json acknowledge nack m now s of
        (Inl e, s1) \<Rightarrow> (Inl e, s1)
      | (Inr ok, s1) \<Rightarrow> (case consume_messages validate_json acknowledge nack ms now s1 of
          (Inl e, s2) \<Rightarrow> (Inl e, s2)
        | (Inr (acknowledged, failed), s2) \<Rightarrow>
            (Inr (if ok then (acknowledged + 1, failed) else (acknowledged, failed + 1)), s2)))"

definition consume_notification_events_once ::
    "(string \<Rightarrow> DomainEvent result) \<Rightarrow> (int \<Rightarrow> port_error + PulledEventMessage list) \<Rightarrow> (string \<Rightarrow> port_error option) \<Rightarrow>
     (string \<Rightarrow> port_error option) \<Rightarrow> int \<Rightarrow> instant \<Rightarrow> db \<Rightarrow> NotificationConsumerResult result \<times> db" where
  "consume_notification_events_once validate_json pull acknowledge nack batch_size now s = (case pull batch_size of
     Inl e \<Rightarrow> (Inl (PortError e), s)
   | Inr messages \<Rightarrow> (case consume_messages validate_json acknowledge nack messages now s of
       (Inl e, s1) \<Rightarrow> (Inl e, s1)
     | (Inr (acknowledged, failed), s1) \<Rightarrow>
         (Inr \<lparr>ncr_pulled = int (length messages), ncr_acknowledged = acknowledged, ncr_failed = failed\<rparr>, s1)))"

section \<open>Sending\<close>

definition MAX_DELIVERY_ATTEMPTS :: int where
  "MAX_DELIVERY_ATTEMPTS = 5"

definition MAX_DELIVERY_RETRY_DELAY_SECONDS :: int where
  "MAX_DELIVERY_RETRY_DELAY_SECONDS = 300"

definition DELIVERY_CONCURRENCY :: int where
  "DELIVERY_CONCURRENCY = 10"

fun event_message :: "DomainEventType \<Rightarrow> string" where
  "event_message CAPTURE_SUBMITTED_V1 = utf8_bytes [236, 180, 172, 236, 152, 129, 32, 236, 158, 144, 235, 163, 140, 234, 176, 128, 32, 236, 160, 156, 236, 182,
     156, 235, 144, 152, 236, 151, 136, 236, 138, 181, 235, 139, 136, 235, 139, 164, 46]"
| "event_message ANALYSIS_COMPLETED_V1 = utf8_bytes [236, 180, 172, 236, 152, 129, 32, 235, 182, 132, 236, 132, 157, 236, 157, 180, 32, 236, 153, 132, 235, 163,
     140, 235, 144, 152, 236, 151, 136, 236, 138, 181, 235, 139, 136, 235, 139, 164, 46]"
| "event_message ANALYSIS_FAILED_V1 = utf8_bytes [236, 180, 172, 236, 152, 129, 32, 235, 182, 132, 236, 132, 157, 236, 157, 132, 32, 236, 153, 132, 235, 163,
     140, 237, 149, 152, 236, 167, 128, 32, 235, 170, 187, 237, 149, 180, 32, 237, 153, 149, 236, 157, 184, 236,
     157, 180, 32, 237, 149, 132, 236, 154, 148, 237, 149, 169, 235, 139, 136, 235, 139, 164, 46]"
| "event_message SCOPE_LOCKED_V1 = utf8_bytes [234, 179, 160, 234, 176, 157, 234, 179, 188, 32, 236, 151, 133, 236, 178, 180, 234, 176, 128, 32, 236, 158,
     145, 236, 151, 133, 235, 178, 148, 236, 156, 132, 235, 165, 188, 32, 237, 149, 168, 234, 187, 152, 32, 237,
     153, 149, 236, 157, 184, 237, 150, 136, 236, 138, 181, 235, 139, 136, 235, 139, 164, 46]"
| "event_message CHANGE_REQUESTED_V1 = utf8_bytes [237, 152, 132, 236, 158, 165, 32, 235, 179, 128, 234, 178, 189, 32, 236, 154, 148, 236, 178, 173, 236, 157,
     180, 32, 235, 147, 177, 235, 161, 157, 235, 144, 152, 236, 151, 136, 236, 138, 181, 235, 139, 136, 235, 139,
     164, 46]"
| "event_message DISPATCH_CONFIRMED_V1 = utf8_bytes [234, 184, 176, 236, 130, 172, 236, 153, 128, 32, 236, 176, 168, 235, 159, 137, 32, 235, 176, 176, 236, 176,
     168, 234, 176, 128, 32, 237, 153, 149, 236, 160, 149, 235, 144, 152, 236, 151, 136, 236, 138, 181, 235, 139,
     136, 235, 139, 164, 46]"
| "event_message COMPLETION_MEDIA_SUBMITTED_V1 = utf8_bytes [236, 153, 132, 235, 163, 140, 32, 237, 153, 149, 236, 157, 184, 32, 236, 158, 144, 235, 163, 140, 234, 176,
     128, 32, 235, 147, 177, 235, 161, 157, 235, 144, 152, 236, 151, 136, 236, 138, 181, 235, 139, 136, 235, 139,
     164, 46]"
| "event_message COMPLETION_SUBMITTED_V1 = utf8_bytes [237, 152, 132, 236, 158, 165, 32, 236, 158, 145, 236, 151, 133, 32, 236, 153, 132, 235, 163, 140, 32, 235,
     130, 180, 236, 154, 169, 236, 157, 180, 32, 236, 160, 156, 236, 182, 156, 235, 144, 152, 236, 151, 136, 236,
     138, 181, 235, 139, 136, 235, 139, 164, 46]"
| "event_message COMPLETION_REQUESTED_V1 = utf8_bytes [236, 158, 145, 236, 151, 133, 32, 236, 153, 132, 235, 163, 140, 32, 237, 153, 149, 236, 157, 184, 32, 236,
     154, 148, 236, 178, 173, 236, 157, 180, 32, 235, 143, 132, 236, 176, 169, 237, 150, 136, 236, 138, 181, 235,
     139, 136, 235, 139, 164, 46]"
| "event_message COMPLETION_DECIDED_V1 = utf8_bytes [236, 158, 145, 236, 151, 133, 32, 236, 153, 132, 235, 163, 140, 32, 237, 153, 149, 236, 157, 184, 32, 234,
     178, 176, 234, 179, 188, 234, 176, 128, 32, 235, 147, 177, 235, 161, 157, 235, 144, 152, 236, 151, 136, 236,
     138, 181, 235, 139, 136, 235, 139, 164, 46]"
| "event_message MEDIA_DELETED_V1 = utf8_bytes [235, 179, 180, 236, 161, 180, 234, 184, 176, 234, 176, 132, 236, 157, 180, 32, 236, 167, 128, 235, 130, 156,
     32, 235, 175, 184, 235, 148, 148, 236, 150, 180, 234, 176, 128, 32, 236, 130, 173, 236, 160, 156, 235, 144,
     152, 236, 151, 136, 236, 138, 181, 235, 139, 136, 235, 139, 164, 46]"

definition NOTIFICATION_SUBJECT :: string where
  "NOTIFICATION_SUBJECT = utf8_bytes [91, 83, 69, 81, 82, 69, 84, 93, 32, 236, 158, 145, 236, 151, 133, 32, 236, 131, 129, 237, 131, 156, 32, 236,
     149, 140, 235, 166, 188]"

datatype ExternalNotificationChannel = EXTERNAL_EMAIL | EXTERNAL_SMS | EXTERNAL_KAKAO

fun external_channel :: "NotificationChannel \<Rightarrow> ExternalNotificationChannel result" where
  "external_channel EMAIL = Inr EXTERNAL_EMAIL"
| "external_channel SMS = Inr EXTERNAL_SMS"
| "external_channel KAKAO = Inr EXTERNAL_KAKAO"
| "external_channel IN_APP = Inl KeyError"

record OutboundNotification =
  on_notification_id :: uuid
  on_event_id :: uuid
  on_job_id :: uuid
  on_channel :: ExternalNotificationChannel
  on_destination :: string
  on_subject :: string
  on_body :: string
  on_deep_link :: string

definition outbound_ok :: "OutboundNotification \<Rightarrow> bool" where
  "outbound_ok m = (text_between 3 320 (on_destination m) \<and> on_subject m \<noteq> [] \<and> on_body m \<noteq> [] \<and>
     text_between 1 2000 (on_deep_link m))"

definition message_of :: "string \<Rightarrow> NotificationDelivery \<Rightarrow> OutboundNotification result" where
  "message_of frontend_origin n = (case nd_destination n of None \<Rightarrow> Inl AssertionError
   | Some d \<Rightarrow> bindR (external_channel (nd_channel n)) (\<lambda>ch.
       let m = \<lparr>on_notification_id = nd_id n, on_event_id = nd_event_id n, on_job_id = nd_job_id n, on_channel = ch,
            on_destination = strip d, on_subject = NOTIFICATION_SUBJECT, on_body = event_message (nd_event_type n),
            on_deep_link = strip (frontend_origin @ ''/?job='' @ uuid_str (nd_job_id n))\<rparr> in
       if outbound_ok m then Inr m else Inl ValueError))"

record ClaimedNotification =
  cn_notification_id :: uuid
  cn_lock_token :: uuid
  cn_message :: OutboundNotification

definition note_due :: "instant \<Rightarrow> NotificationDelivery \<Rightarrow> bool" where
  "note_due now n = (nd_channel n \<noteq> IN_APP \<and> nd_status n = NOTE_PENDING \<and>
     (case nd_next_attempt_at n of None \<Rightarrow> False | Some t \<Rightarrow> t \<le> now) \<and>
     (case nd_locked_until n of None \<Rightarrow> True | Some u \<Rightarrow> u \<le> now))"

definition note_time :: "NotificationDelivery \<Rightarrow> nat \<times> instant" where
  "note_time n = (case nd_next_attempt_at n of None \<Rightarrow> (1, 0) | Some t \<Rightarrow> (0, t))"

definition lease_note :: "instant \<Rightarrow> instant \<Rightarrow> uuid \<Rightarrow> NotificationDelivery \<Rightarrow> NotificationDelivery" where
  "lease_note now until tok n = n\<lparr>nd_lock_token := Some tok, nd_locked_until := Some until,
     nd_attempt_count := nd_attempt_count n + 1, nd_last_attempt_at := Some now\<rparr>"

fun lease_note_rows ::
    "string \<Rightarrow> instant \<Rightarrow> instant \<Rightarrow> NotificationDelivery list \<Rightarrow> db \<Rightarrow> (ClaimedNotification list \<times> db) result" where
  "lease_note_rows origin now until [] s = Inr ([], s)"
| "lease_note_rows origin now until (n # ns) s = (let (tok, s1) = uuid4 s; n' = lease_note now until tok n in
     bindR (message_of origin n') (\<lambda>m.
     bindR (lease_note_rows origin now until ns (put_note n' s1)) (\<lambda>(cs, s2).
     Inr (\<lparr>cn_notification_id = nd_id n, cn_lock_token = tok, cn_message = m\<rparr> # cs, s2))))"

definition claim_external_notifications ::
    "string \<Rightarrow> instant \<Rightarrow> int \<Rightarrow> int \<Rightarrow> db \<Rightarrow> (ClaimedNotification list \<times> db) result" where
  "claim_external_notifications frontend_origin now limit lease_seconds s =
     (if \<not> (1 \<le> limit \<and> limit \<le> 100) then Inl ValueError
      else if lease_seconds \<le> 0 then Inl ValueError
      else lease_note_rows frontend_origin now (now + seconds lease_seconds)
             (select_by (\<lambda>n. (note_time n, nd_id n)) (nat limit) (note_due now) (notifications s)) s)"

definition leased_note :: "uuid \<Rightarrow> uuid \<Rightarrow> db \<Rightarrow> NotificationDelivery option" where
  "leased_note i tok s = find (\<lambda>n. nd_id n = i \<and> nd_lock_token n = Some tok \<and> nd_status n = NOTE_PENDING) (notifications s)"

definition sent_note :: "string \<Rightarrow> instant \<Rightarrow> NotificationDelivery \<Rightarrow> NotificationDelivery" where
  "sent_note provider_message_id now n = n\<lparr>nd_status := NOTE_SENT, nd_sent_at := Some now, nd_last_error_code := None,
     nd_next_attempt_at := None, nd_lock_token := None, nd_locked_until := None,
     nd_provider_message_id := Some provider_message_id\<rparr>"

definition mark_sent :: "ClaimedNotification \<Rightarrow> string \<Rightarrow> instant \<Rightarrow> db \<Rightarrow> bool \<times> db" where
  "mark_sent c provider_message_id now s = (case leased_note (cn_notification_id c) (cn_lock_token c) s of
     None \<Rightarrow> (False, s) | Some n \<Rightarrow> (True, put_note (sent_note provider_message_id now n) s))"

definition delivery_retry_delay :: "int \<Rightarrow> int" where
  "delivery_retry_delay attempts = min (2 ^ nat (min (max (attempts - 1) 0) 8)) MAX_DELIVERY_RETRY_DELAY_SECONDS"

datatype delivery_outcome = STALE | RETRY_SCHEDULED | DELIVERY_FAILED

definition mark_failure :: "ClaimedNotification \<Rightarrow> string \<Rightarrow> bool \<Rightarrow> instant \<Rightarrow> db \<Rightarrow> delivery_outcome \<times> db" where
  "mark_failure c error_code retryable now s = (case leased_note (cn_notification_id c) (cn_lock_token c) s of
     None \<Rightarrow> (STALE, s)
   | Some n \<Rightarrow> let n1 = n\<lparr>nd_lock_token := None, nd_locked_until := None\<rparr> in
       if retryable \<and> nd_attempt_count n < MAX_DELIVERY_ATTEMPTS then
         (RETRY_SCHEDULED, put_note (n1\<lparr>nd_last_error_code := None,
            nd_next_attempt_at := Some (now + seconds (delivery_retry_delay (nd_attempt_count n)))\<rparr>) s)
       else (DELIVERY_FAILED, put_note (n1\<lparr>nd_status := NOTE_FAILED, nd_last_error_code := Some error_code,
            nd_next_attempt_at := None\<rparr>) s))"

section \<open>A sending pass\<close>

record delivery_pass =
  pass_claimed :: int
  pass_sent :: int
  pass_retry_scheduled :: int
  pass_failed :: int
  pass_exhausted :: bool
  pass_in_flight :: "ClaimedNotification list"

definition new_pass :: delivery_pass where
  "new_pass = \<lparr>pass_claimed = 0, pass_sent = 0, pass_retry_scheduled = 0, pass_failed = 0, pass_exhausted = False, pass_in_flight = []\<rparr>"

text \<open>A worker behind the claim gate: it claims one row, or finds that the pass is over.\<close>

definition pass_gate ::
    "string \<Rightarrow> int \<Rightarrow> int \<Rightarrow> instant \<Rightarrow> delivery_pass \<Rightarrow> db \<Rightarrow> (delivery_pass \<times> db) result" where
  "pass_gate frontend_origin batch_size lease_seconds started p s =
     (if pass_exhausted p \<or> batch_size \<le> pass_claimed p then Inr (p, s)
      else bindR (claim_external_notifications frontend_origin started 1 lease_seconds s) (\<lambda>(claims, s1). case claims of
          [] \<Rightarrow> Inr (p\<lparr>pass_exhausted := True\<rparr>, s1)
        | c # _ \<Rightarrow> Inr (p\<lparr>pass_claimed := pass_claimed p + 1, pass_in_flight := pass_in_flight p @ [c]\<rparr>, s1)))"

text \<open>The provider's answer for one claim is settled: what was sent, retried or given up is counted.\<close>

definition pass_settle :: "port_error + string \<Rightarrow> ClaimedNotification \<Rightarrow> instant \<Rightarrow> delivery_pass \<Rightarrow> db \<Rightarrow> delivery_pass \<times> db" where
  "pass_settle answer c started p s = (case answer of
     Inr message_id \<Rightarrow> (let (ok, s1) = mark_sent c message_id started s in (p\<lparr>pass_sent := pass_sent p + of_bool ok\<rparr>, s1))
   | Inl e \<Rightarrow>
       (let (code, retryable) = (case e of ProviderError k r \<Rightarrow> (kind_value k, r) | OtherError \<Rightarrow> (''unavailable'', True));
            (outcome, s1) = mark_failure c code retryable started s in
        (p\<lparr>pass_retry_scheduled := pass_retry_scheduled p + of_bool (outcome = RETRY_SCHEDULED),
           pass_failed := pass_failed p + of_bool (outcome = DELIVERY_FAILED)\<rparr>, s1)))"

text \<open>One transaction of the pass: a worker at the gate, the settlement of the k-th claim in flight, or a
  transaction of somebody else.\<close>

datatype pass_action = AtGate | Settled nat | Elsewhere "db \<Rightarrow> db"

definition pass_step ::
    "(OutboundNotification \<Rightarrow> port_error + string) \<Rightarrow> string \<Rightarrow> int \<Rightarrow> int \<Rightarrow> instant \<Rightarrow> pass_action \<Rightarrow>
     delivery_pass \<times> db \<Rightarrow> (delivery_pass \<times> db) result" where
  "pass_step send frontend_origin batch_size lease_seconds started a st = (case (a, st) of
     (AtGate, (p, s)) \<Rightarrow>
       if min batch_size DELIVERY_CONCURRENCY \<le> int (length (pass_in_flight p)) then Inr (p, s)
       else pass_gate frontend_origin batch_size lease_seconds started p s
   | (Settled k, (p, s)) \<Rightarrow>
       if k < length (pass_in_flight p) then
         let c = pass_in_flight p ! k; p1 = p\<lparr>pass_in_flight := take k (pass_in_flight p) @ drop (Suc k) (pass_in_flight p)\<rparr> in
         Inr (pass_settle (send (cn_message c)) c started p1 s)
       else Inr (p, s)
   | (Elsewhere f, (p, s)) \<Rightarrow> Inr (p, f s))"

definition pass_over :: "int \<Rightarrow> delivery_pass \<Rightarrow> bool" where
  "pass_over batch_size p = (pass_in_flight p = [] \<and> (pass_exhausted p \<or> batch_size \<le> pass_claimed p))"

record ExternalDeliveryResult =
  edr_claimed :: int
  edr_sent :: int
  edr_retry_scheduled :: int
  edr_failed :: int

fun run_schedule :: "('a \<Rightarrow> 's \<Rightarrow> 's result) \<Rightarrow> 'a list \<Rightarrow> 's \<Rightarrow> 's result" where
  "run_schedule f [] st = Inr st"
| "run_schedule f (a # as) st = bindR (f a st) (run_schedule f as)"

text \<open>The pass under a schedule of its transactions; \<open>None\<close> when the schedule stops before it is over.\<close>

definition deliver_external_notifications_once ::
    "(OutboundNotification \<Rightarrow> port_error + string) \<Rightarrow> string \<Rightarrow> int \<Rightarrow> int \<Rightarrow> rat \<Rightarrow> instant \<Rightarrow> pass_action list \<Rightarrow> db \<Rightarrow>
     (ExternalDeliveryResult option \<times> db) result" where
  "deliver_external_notifications_once send frontend_origin batch_size lease_seconds timeout started schedule s =
     (if \<not> (1 \<le> batch_size \<and> batch_size \<le> 100) then Inl ValueError
      else if timeout \<le> 0 then Inl ValueError
      else if of_int lease_seconds \<le> timeout + 1 then Inl ValueError
      else bindR (run_schedule (pass_step send frontend_origin batch_size lease_seconds started) schedule (new_pass, s)) (\<lambda>(p, s1).
        Inr (if pass_over batch_size p then Some \<lparr>edr_claimed = pass_claimed p, edr_sent = pass_sent p,
               edr_retry_scheduled = pass_retry_scheduled p, edr_failed = pass_failed p\<rparr> else None, s1)))"

end
