(* ===== verification/NotificationProofs.thy ===== *)
theory NotificationProofs
  imports Notification
begin

text \<open>
  Lemmas about notifications: an event turns into deliveries once, a sending pass that runs alone sends
  and settles exactly what is due whatever the order of its workers' transactions, and how long a claimed
  delivery is protected from other passes.
\<close>

section \<open>Consuming an event\<close>

lemma insert_delivery_eq: "insert_delivery n s = Inr s' \<Longrightarrow> s' = s\<lparr>notifications := notifications s @ [n]\<rparr>"
  by (auto simp: insert_delivery_def split: if_splits)

definition built :: "(uuid \<Rightarrow> 'a) list \<Rightarrow> 'a list \<Rightarrow> bool" where
  "built fs ns = list_all2 (\<lambda>f n. \<exists>i. n = f i) fs ns"

lemma built_map: "built fs ns \<Longrightarrow> (\<And>f i. f \<in> set fs \<Longrightarrow> h (f i) = k f) \<Longrightarrow> map h ns = map k fs"
  unfolding built_def by (induction rule: list_all2_induct) auto

lemma built_all: "built fs ns \<Longrightarrow> (\<And>f i. f \<in> set fs \<Longrightarrow> P (f i)) \<Longrightarrow> n \<in> set ns \<Longrightarrow> P n"
  unfolding built_def by (induction rule: list_all2_induct) auto

lemma add_intents_spec:
  assumes "add_intents fs s = Inr (ns, s')"
  shows "built fs ns \<and> s' = s\<lparr>drawn := drawn s + length fs, notifications := notifications s @ ns\<rparr>"
  using assms
proof (induction fs arbitrary: s ns)
  case Nil
  then show ?case by (simp add: built_def)
next
  case (Cons f fs)
  let ?s1 = "s\<lparr>drawn := Suc (drawn s)\<rparr>" and ?n = "f (rng s (drawn s))"
  obtain s2 ms where s2: "insert_delivery ?n ?s1 = Inr s2" "add_intents fs s2 = Inr (ms, s')" "ns = ?n # ms"
    using Cons.prems by (auto simp: uuid4_def bindR_Inr Let_def)
  have e: "s2 = ?s1\<lparr>notifications := notifications s @ [?n]\<rparr>" using insert_delivery_eq[OF s2(1)] by simp
  have "built (f # fs) (?n # ms)" using Cons.IH[OF s2(2)] by (auto simp: built_def)
  then show ?case using Cons.IH[OF s2(2)] s2(3) by (simp add: e)
qed

definition consumed :: "DomainEvent \<Rightarrow> db \<Rightarrow> bool" where
  "consumed ev s = list_ex (\<lambda>x. ec_consumer_name x = NOTIFICATION_CONSUMER_NAME \<and> ec_event_id x = de_event_id ev) (event_consumptions s)"

lemma consume_again:
  assumes "consumed ev s" "row mj_id (de_aggregate_id ev) (move_jobs s) \<noteq> None"
  shows "consume_notification_event ev now s = Inr ([], s)"
  using assms by (auto simp: consume_notification_event_def insert_consumption_def consumed_def)

text \<open>Property C35: an event turns into notifications once. The first delivery of an event that names a job adds, for
  every participant of a role that is told of this kind of event, the one who caused it excepted, an in-app
  notification, and one for each enabled contact of the workspace the participant is in; it adds nothing else and
  answers with what it added. However often and however late the event is delivered again, nothing is added.\<close>

theorem event_notifies_once:
  assumes "consume_notification_event ev now s = Inr (rs, s')" "\<not> consumed ev s"
  shows "(\<exists>ns. notifications s' = notifications s @ ns \<and> rs = map notification_response ns \<and>
      (\<forall>n \<in> set ns. nd_status n = NOTE_PENDING \<and> nd_event_id n = de_event_id ev \<and> Some (nd_recipient_participant_id n) \<noteq> de_actor_id ev) \<and>
      map (\<lambda>n. (nd_recipient_participant_id n, nd_channel n, nd_destination n)) ns =
        map (\<lambda>p. (p, IN_APP, None)) (recipients_of ev s) @
        map (\<lambda>(p, ch, d). (p, delivery_channel ch, Some d)) (contact_rows (recipients_of ev s) s)) \<and>
    (\<forall>later t. set (event_consumptions s') \<subseteq> set (event_consumptions t) \<longrightarrow> row mj_id (de_aggregate_id ev) (move_jobs t) \<noteq> None \<longrightarrow>
       consume_notification_event ev later t = Inr ([], t))"
proof -
  let ?c = "\<lparr>ec_consumer_name = NOTIFICATION_CONSUMER_NAME, ec_event_id = de_event_id ev, ec_consumed_at = now\<rparr>"
  let ?s1 = "s\<lparr>event_consumptions := event_consumptions s @ [?c]\<rparr>"
  have job: "row mj_id (de_aggregate_id ev) (move_jobs s) \<noteq> None" using assms(1) by (auto simp: consume_notification_event_def split: option.splits)
  then obtain j where j: "row mj_id (de_aggregate_id ev) (move_jobs s) = Some j" by blast
  have ins: "insert_consumption ?c s = Inr ?s1"
    using assms(2) by (simp add: insert_consumption_def consumed_def NOTIFICATION_CONSUMER_NAME_def)
  have run: "(if notification_roles (de_event_type ev) = {} then Inr ([], ?s1)
      else bindR (add_intents (intents_of ev now ?s1) ?s1) (\<lambda>(ns, s2). Inr (map notification_response ns, s2))) = Inr (rs, s')"
    using assms(1) unfolding consume_notification_event_def by (simp only: j ins option.case sum.case)
  have same: "recipients_of ev ?s1 = recipients_of ev s" "\<And>ids. contact_rows ids ?s1 = contact_rows ids s"
    by (simp_all add: recipients_of_def contact_rows_def)
  have none: "contact_rows [] s = []" by (simp add: contact_rows_def)
  obtain ns where ns: "rs = map notification_response ns" "notifications s' = notifications s @ ns" "event_consumptions s' = event_consumptions ?s1"
      "built (intents_of ev now ?s1) ns"
  proof (cases "notification_roles (de_event_type ev) = {}")
    case True
    then have "recipients_of ev s = []" by (simp add: recipients_of_def)
    then have "intents_of ev now ?s1 = []" by (simp add: intents_of_def same Let_def)
    then show thesis using True run by (intro that[of "[]"]) (auto simp: built_def)
  next
    case False
    then obtain ns where ns: "add_intents (intents_of ev now ?s1) ?s1 = Inr (ns, s')" "rs = map notification_response ns"
      using run by (auto simp: bindR_Inr)
    show thesis using add_intents_spec[OF ns(1)] ns(2) by (intro that[of ns]) simp_all
  qed
  have shape: "map (\<lambda>n. (nd_recipient_participant_id n, nd_channel n, nd_destination n)) ns =
        map (\<lambda>p. (p, IN_APP, None)) (recipients_of ev s) @
        map (\<lambda>(p, ch, d). (p, delivery_channel ch, Some d)) (contact_rows (recipients_of ev s) s)" (is "map ?f ns = ?want")
  proof -
    have "map ?f ns = map (\<lambda>g. ?f (g 0)) (intents_of ev now ?s1)"
      by (rule built_map[OF ns(4)]) (auto simp: intents_of_def new_delivery_def Let_def split: if_splits)
    also have "\<dots> = ?want" by (simp add: intents_of_def same none new_delivery_def Let_def case_prod_beta)
    finally show ?thesis .
  qed
  have fields: "nd_status n = NOTE_PENDING \<and> nd_event_id n = de_event_id ev" if n: "n \<in> set ns" for n
    by (rule built_all[OF ns(4) _ n]) (auto simp: intents_of_def new_delivery_def Let_def split: if_splits)
  have to: "Some p \<noteq> de_actor_id ev" if "p \<in> set (recipients_of ev s)" for p
    using that unfolding recipients_of_def by (cases "de_actor_id ev") auto
  have "Some (nd_recipient_participant_id n) \<noteq> de_actor_id ev" if "n \<in> set ns" for n
  proof -
    have "?f n \<in> set (map ?f ns)" using that by simp
    then have "?f n \<in> set ?want" by (simp only: shape)
    then have "nd_recipient_participant_id n \<in> set (recipients_of ev s)" by (auto simp: contact_rows_def)
    then show ?thesis by (rule to)
  qed
  moreover have "consumed ev t" if "set (event_consumptions s') \<subseteq> set (event_consumptions t)" for t
    using that ns(3) by (force simp: consumed_def list_ex_iff)
  ultimately show ?thesis using ns(1,2) shape fields consume_again by blast
qed

section \<open>One row at a time\<close>

abbreviation due_notes :: "instant \<Rightarrow> db \<Rightarrow> NotificationDelivery list" where
  "due_notes t s \<equiv> filter (note_due t) (notifications s)"

lemma filter_put_row:
  assumes "distinct (map k t)" "row k (k r) t = Some old"
  shows "length (filter P (put_row k r t)) + of_bool (P old) = length (filter P t) + of_bool (P r)"
  using assms
proof (induction t)
  case (Cons x t)
  show ?case
  proof (cases "k x = k r")
    case True
    then have "row k (k r) t = None" using Cons.prems by (auto simp: row_None_iff)
    then have "put_row k r (x # t) = r # t" "old = x" using True Cons.prems put_row_absent[of k r t] by (auto simp: put_row_def)
    then show ?thesis by simp
  next
    case False
    then have "put_row k r (x # t) = x # put_row k r t" by (simp add: put_row_def)
    then show ?thesis using Cons False by auto
  qed
qed simp

lemma put_note_simps [simp]:
  "notifications (put_note n s) = put_row nd_id n (notifications s)" "drawn (put_note n s) = drawn s" "rng (put_note n s) = rng s"
  by (simp_all add: put_note_def)

text \<open>What a pass that claims one row at a time finds.\<close>

lemma claim_one:
  assumes "0 < lease" "distinct (map nd_id (notifications s))"
  obtains "claim_external_notifications origin t 1 lease s = Inr ([], s)" "due_notes t s = []"
  | n where "n \<in> set (due_notes t s)"
      "claim_external_notifications origin t 1 lease s = (let n' = lease_note t (t + seconds lease) (rng s (drawn s)) n in
         bindR (message_of origin n') (\<lambda>m. Inr ([\<lparr>cn_notification_id = nd_id n, cn_lock_token = rng s (drawn s), cn_message = m\<rparr>],
           put_note n' (s\<lparr>drawn := Suc (drawn s)\<rparr>))))"
proof (cases "due_notes t s")
  case Nil
  then show thesis using that(1) assms(1) by (simp add: claim_external_notifications_def select_by_def)
next
  case (Cons x xs)
  let ?sel = "select_by (\<lambda>n. (note_time n, nd_id n)) 1 (note_due t) (notifications s)"
  have "length ?sel = 1" using Cons by (simp add: length_select_by)
  then obtain n where n: "?sel = [n]" by (auto simp: length_Suc_conv)
  then have "n \<in> set (due_notes t s)" using select_by_mem[of n "\<lambda>n. (note_time n, nd_id n)" 1 "note_due t" "notifications s"] by simp
  moreover have "claim_external_notifications origin t 1 lease s = lease_note_rows origin t (t + seconds lease) [n] s"
    using assms(1) n by (simp add: claim_external_notifications_def)
  ultimately show thesis using that(2)
    by (simp add: uuid4_def Let_def bindR_def split: sum.splits)
qed

lemma seconds_not_past [simp]: "0 < k \<Longrightarrow> \<not> seconds k \<le> 0"
  by (simp add: not_le)

lemma lease_note_fields [simp]:
  "nd_id (lease_note t u tok n) = nd_id n" "nd_lock_token (lease_note t u tok n) = Some tok"
  "nd_locked_until (lease_note t u tok n) = Some u" "nd_status (lease_note t u tok n) = nd_status n"
  "nd_channel (lease_note t u tok n) = nd_channel n" "nd_next_attempt_at (lease_note t u tok n) = nd_next_attempt_at n"
  by (simp_all add: lease_note_def)

lemma message_leased [simp]: "message_of origin (lease_note t u tok n) = message_of origin n"
  unfolding message_of_def lease_note_def by (simp cong: option.case_cong)

lemma leased_note_row:
  assumes "distinct (map nd_id (notifications s))" "row nd_id i (notifications s) = Some n" "nd_lock_token n = Some tok" "nd_status n = NOTE_PENDING"
  shows "leased_note i tok s = Some n"
  unfolding leased_note_def
  by (rule find_unique) (use assms row_SomeD[OF assms(2)] distinct_map_eq[OF assms(1)] in auto)

section \<open>A sending pass\<close>

definition in_flight_ok :: "instant \<Rightarrow> ClaimedNotification \<Rightarrow> db \<Rightarrow> bool" where
  "in_flight_ok until c s = (\<exists>n. row nd_id (cn_notification_id c) (notifications s) = Some n \<and>
     nd_lock_token n = Some (cn_lock_token c) \<and> nd_status n = NOTE_PENDING \<and> nd_locked_until n = Some until)"

text \<open>What holds between two transactions of a pass: the counters add up, and what was due at its start is
  claimed or still due.\<close>

definition pass_sound :: "string \<Rightarrow> int \<Rightarrow> int \<Rightarrow> instant \<Rightarrow> nat \<Rightarrow> delivery_pass \<Rightarrow> db \<Rightarrow> bool" where
  "pass_sound origin batch lease t due p s = (distinct (map nd_id (notifications s)) \<and>
     (\<forall>n \<in> set (due_notes t s). isOk (message_of origin n)) \<and>
     0 \<le> pass_claimed p \<and> pass_claimed p \<le> batch \<and>
     pass_claimed p = pass_sent p + pass_retry_scheduled p + pass_failed p + int (length (pass_in_flight p)) \<and>
     int (length (due_notes t s)) + pass_claimed p = int due \<and> (pass_exhausted p \<longrightarrow> due_notes t s = []) \<and>
     length (pass_in_flight p) \<le> 10 \<and> distinct (map cn_notification_id (pass_in_flight p)) \<and>
     (\<forall>c \<in> set (pass_in_flight p). in_flight_ok (t + seconds lease) c s))"

lemma in_flight_not_due: "in_flight_ok u c s \<Longrightarrow> distinct (map nd_id (notifications s)) \<Longrightarrow> t < u \<Longrightarrow>
    n \<in> set (notifications s) \<Longrightarrow> nd_id n = cn_notification_id c \<Longrightarrow> \<not> note_due t n"
  using row_of_mem[of nd_id "notifications s" n] by (auto simp: in_flight_ok_def note_due_def)

lemma in_flight_other:
  "in_flight_ok u c s \<Longrightarrow> cn_notification_id c \<noteq> nd_id n \<Longrightarrow> in_flight_ok u c (put_note n (s\<lparr>drawn := d\<rparr>))"
  "in_flight_ok u c s \<Longrightarrow> cn_notification_id c \<noteq> nd_id n \<Longrightarrow> in_flight_ok u c (put_note n s)"
  by (auto simp: in_flight_ok_def row_put_row)

lemma gate_sound:
  assumes "pass_sound origin batch lease t due p s" "0 < lease"
  shows "\<exists>p' s'. pass_step send origin batch lease t AtGate (p, s) = Inr (p', s') \<and> pass_sound origin batch lease t due p' s' \<and>
    length (pass_in_flight p') \<le> Suc (length (pass_in_flight p)) \<and>
    (pass_in_flight p = [] \<longrightarrow> 1 \<le> batch \<longrightarrow> pass_exhausted p' \<or> batch \<le> pass_claimed p' \<or> pass_claimed p' = pass_claimed p + 1)"
proof (cases "min batch DELIVERY_CONCURRENCY \<le> int (length (pass_in_flight p)) \<or> pass_exhausted p \<or> batch \<le> pass_claimed p")
  case True
  then show ?thesis using assms(1) by (auto simp: pass_step_def pass_gate_def DELIVERY_CONCURRENCY_def)
next
  case False
  note i = assms(1)[unfolded pass_sound_def]
  have d: "distinct (map nd_id (notifications s))" using i by blast
  have step: "pass_step send origin batch lease t AtGate (p, s) = pass_gate origin batch lease t p s"
    using False by (simp add: pass_step_def)
  show ?thesis
  proof (rule claim_one[OF assms(2) d, of origin t])
    assume "claim_external_notifications origin t 1 lease s = Inr ([], s)" "due_notes t s = []"
    then have "pass_gate origin batch lease t p s = Inr (p\<lparr>pass_exhausted := True\<rparr>, s)" "pass_sound origin batch lease t due (p\<lparr>pass_exhausted := True\<rparr>) s"
      using False i by (simp_all add: pass_gate_def pass_sound_def)
    then show ?thesis using step by auto
  next
    fix n
    let ?n = "lease_note t (t + seconds lease) (rng s (drawn s)) n" and ?s1 = "s\<lparr>drawn := Suc (drawn s)\<rparr>"
    assume n: "n \<in> set (due_notes t s)"
      and claim: "claim_external_notifications origin t 1 lease s = (let n' = lease_note t (t + seconds lease) (rng s (drawn s)) n in
         bindR (message_of origin n') (\<lambda>m. Inr ([\<lparr>cn_notification_id = nd_id n, cn_lock_token = rng s (drawn s), cn_message = m\<rparr>],
           put_note n' (s\<lparr>drawn := Suc (drawn s)\<rparr>))))"
    obtain m where m: "message_of origin n = Inr m" using i n by (meson isOk_iff)
    let ?c = "\<lparr>cn_notification_id = nd_id n, cn_lock_token = rng s (drawn s), cn_message = m\<rparr>"
    let ?p = "p\<lparr>pass_claimed := pass_claimed p + 1, pass_in_flight := pass_in_flight p @ [?c]\<rparr>" and ?s = "put_note ?n ?s1"
    have r: "row nd_id (nd_id n) (notifications s) = Some n" using n row_of_mem[OF d] by simp
    have "t < t + seconds lease" using assms(2) by (simp add: seconds_pos)
    then have nd: "\<not> note_due t ?n" by (auto simp: note_due_def)
    have count: "length (due_notes t ?s) + 1 = length (due_notes t s)"
      using filter_put_row[OF d, of ?n n "note_due t"] r n nd by simp
    have pending: "nd_status n = NOTE_PENDING" using n by (simp add: note_due_def)
    have fresh: "cn_notification_id c \<noteq> nd_id n" if "c \<in> set (pass_in_flight p)" for c
    proof
      assume e: "cn_notification_id c = nd_id n"
      have "in_flight_ok (t + seconds lease) c s" using i that by blast
      then show False using in_flight_not_due[OF _ d \<open>t < t + seconds lease\<close>, of c n] n e by simp
    qed
    have new: "nd_id n \<notin> cn_notification_id ` set (pass_in_flight p)" using fresh by (metis imageE)
    have "in_flight_ok (t + seconds lease) ?c ?s" using r pending by (simp add: in_flight_ok_def row_put_row)
    moreover have "in_flight_ok (t + seconds lease) c ?s" if "c \<in> set (pass_in_flight p)" for c
      using in_flight_other(1) i that fresh by simp
    moreover have "isOk (message_of origin x)" if "x \<in> set (due_notes t ?s)" for x
      using that i nd by (auto elim!: put_rowE)
    ultimately have "pass_sound origin batch lease t due ?p ?s"
      using i False count new d by (auto simp: pass_sound_def DELIVERY_CONCURRENCY_def)
    moreover have "pass_gate origin batch lease t p s = Inr (?p, ?s)"
      using False claim m by (simp add: pass_gate_def Let_def)
    ultimately show ?thesis using step by auto
  qed
qed

lemma retry_later: "t < t + seconds (delivery_retry_delay k)"
  by (simp add: delivery_retry_delay_def MAX_DELIVERY_RETRY_DELAY_SECONDS_def seconds_pos)

lemma failure_effect:
  assumes "leased_note (cn_notification_id c) (cn_lock_token c) s = Some n" "mark_failure c code retryable now s = (out, s')"
  shows "\<exists>n'. nd_id n' = nd_id n \<and> \<not> note_due now n' \<and> s' = put_note n' s \<and> (out = RETRY_SCHEDULED \<or> out = DELIVERY_FAILED)"
proof (cases "retryable \<and> nd_attempt_count n < MAX_DELIVERY_ATTEMPTS")
  case True
  let ?n = "n\<lparr>nd_lock_token := None, nd_locked_until := None, nd_last_error_code := None,
    nd_next_attempt_at := Some (now + seconds (delivery_retry_delay (nd_attempt_count n)))\<rparr>"
  have "\<not> note_due now ?n" using retry_later[of now "nd_attempt_count n"] by (simp add: note_due_def)
  moreover have "out = RETRY_SCHEDULED" "s' = put_note ?n s" using assms True by (simp_all add: mark_failure_def Let_def)
  ultimately show ?thesis by (intro exI[of _ ?n]) simp
next
  case False
  let ?n = "n\<lparr>nd_lock_token := None, nd_locked_until := None, nd_status := NOTE_FAILED, nd_last_error_code := Some code,
    nd_next_attempt_at := None\<rparr>"
  have "out = DELIVERY_FAILED" "s' = put_note ?n s" using assms False by (auto simp: mark_failure_def Let_def)
  then show ?thesis by (intro exI[of _ ?n]) (simp add: note_due_def)
qed

lemma settle_effect:
  assumes "distinct (map nd_id (notifications s))" "in_flight_ok u c s" "pass_settle answer c t p s = (p', s')" "t < u"
  shows "\<exists>n. nd_id n = cn_notification_id c \<and> \<not> note_due t n \<and> s' = put_note n s \<and>
    pass_claimed p' = pass_claimed p \<and> pass_exhausted p' = pass_exhausted p \<and> pass_in_flight p' = pass_in_flight p \<and>
    pass_sent p' + pass_retry_scheduled p' + pass_failed p' = pass_sent p + pass_retry_scheduled p + pass_failed p + 1"
proof -
  obtain n where n: "row nd_id (cn_notification_id c) (notifications s) = Some n" "nd_lock_token n = Some (cn_lock_token c)" "nd_status n = NOTE_PENDING"
    using assms(2) by (auto simp: in_flight_ok_def)
  have l: "leased_note (cn_notification_id c) (cn_lock_token c) s = Some n" by (rule leased_note_row[OF assms(1) n])
  have id: "nd_id n = cn_notification_id c" by (rule row_key[OF n(1)])
  show ?thesis
  proof (cases answer)
    case (Inr m)
    then show ?thesis using assms(3) l id
      by (intro exI[of _ "sent_note m t n"]) (auto simp: pass_settle_def mark_sent_def sent_note_def note_due_def)
  next
    case (Inl e)
    define cr where "cr = (case e of ProviderError k r \<Rightarrow> (kind_value k, r) | OtherError \<Rightarrow> (''unavailable'', True))"
    obtain out s1 where f: "mark_failure c (fst cr) (snd cr) t s = (out, s1)" by fastforce
    then have "p' = p\<lparr>pass_retry_scheduled := pass_retry_scheduled p + of_bool (out = RETRY_SCHEDULED),
        pass_failed := pass_failed p + of_bool (out = DELIVERY_FAILED)\<rparr>" "s' = s1"
      using assms(3) by (simp_all add: pass_settle_def Inl Let_def case_prod_beta flip: cr_def)
    then show ?thesis using failure_effect[OF l f] id by auto
  qed
qed

lemma settle_sound:
  assumes "pass_sound origin batch lease t due p s" "0 < lease"
  shows "\<exists>p' s'. pass_step send origin batch lease t (Settled k) (p, s) = Inr (p', s') \<and> pass_sound origin batch lease t due p' s' \<and>
    length (pass_in_flight p') = length (pass_in_flight p) - of_bool (k < length (pass_in_flight p)) \<and>
    pass_claimed p' = pass_claimed p \<and> pass_exhausted p' = pass_exhausted p"
proof (cases "k < length (pass_in_flight p)")
  case False
  then show ?thesis using assms(1) by (simp add: pass_step_def)
next
  case True
  note i = assms(1)[unfolded pass_sound_def]
  let ?fl = "take k (pass_in_flight p) @ drop (Suc k) (pass_in_flight p)" and ?c = "pass_in_flight p ! k"
  let ?p1 = "p\<lparr>pass_in_flight := ?fl\<rparr>"
  have d: "distinct (map nd_id (notifications s))" using i by blast
  have split: "pass_in_flight p = take k (pass_in_flight p) @ ?c # drop (Suc k) (pass_in_flight p)" using True by (rule id_take_nth_drop)
  have mem: "?c \<in> set (pass_in_flight p)" using True by simp
  then have ok: "in_flight_ok (t + seconds lease) ?c s" using i by blast
  have lt: "t < t + seconds lease" using assms(2) by (simp add: seconds_pos)
  obtain p' s' where st: "pass_settle (send (cn_message ?c)) ?c t ?p1 s = (p', s')" by fastforce
  obtain n where n: "nd_id n = cn_notification_id ?c" "\<not> note_due t n" "s' = put_note n s" and p': "pass_claimed p' = pass_claimed p" "pass_exhausted p' = pass_exhausted p"
      "pass_in_flight p' = ?fl" "pass_sent p' + pass_retry_scheduled p' + pass_failed p' = pass_sent p + pass_retry_scheduled p + pass_failed p + 1"
    using settle_effect[OF d ok st lt] by auto
  obtain old where old: "row nd_id (nd_id n) (notifications s) = Some old" "nd_locked_until old = Some (t + seconds lease)"
    using ok n(1) by (auto simp: in_flight_ok_def)
  then have "\<not> note_due t old" using lt by (auto simp: note_due_def)
  then have count: "length (due_notes t s') = length (due_notes t s)" using filter_put_row[OF d old(1), of "note_due t"] n by simp
  have ids: "distinct (map cn_notification_id (take k (pass_in_flight p) @ ?c # drop (Suc k) (pass_in_flight p)))" using i split by metis
  then have keep: "in_flight_ok (t + seconds lease) c s'" if c: "c \<in> set ?fl" for c
  proof -
    have "c \<in> set (pass_in_flight p)" using c by (auto dest: in_set_takeD in_set_dropD)
    moreover have "cn_notification_id c \<noteq> nd_id n" 
    proof
      assume "cn_notification_id c = nd_id n"
      then have "cn_notification_id ?c \<in> cn_notification_id ` set ?fl" using imageI[OF c, of cn_notification_id] n(1) by simp
      then show False using ids by auto
    qed
    ultimately show ?thesis using in_flight_other(2) i n(3) by blast
  qed
  have msgs: "\<forall>x \<in> set (due_notes t s'). isOk (message_of origin x)" using i n by (auto elim!: put_rowE)
  have len: "length (pass_in_flight p) = length ?fl + 1" by (subst split) simp
  have none: "due_notes t s' = []" if "pass_exhausted p" using that i count by (metis length_0_conv)
  have d': "distinct (map nd_id (notifications s'))" using d n(3) by simp
  have ids': "distinct (map cn_notification_id ?fl)" using ids by simp
  have books: "pass_claimed p = pass_sent p + pass_retry_scheduled p + pass_failed p + int (length (pass_in_flight p))"
    "length (pass_in_flight p) \<le> 10" using i by blast+
  have sums: "pass_claimed p = pass_sent p' + pass_retry_scheduled p' + pass_failed p' + int (length ?fl)" using books(1) p'(4) len by linarith
  have few: "length ?fl \<le> 10" using books(2) len by linarith
  have "pass_sound origin batch lease t due p' s'"
    unfolding pass_sound_def p'(1,2,3) count using i d' msgs sums none few ids' keep by blast
  moreover have "pass_step send origin batch lease t (Settled k) (p, s) = Inr (p', s')" using True st by (simp add: pass_step_def Let_def)
  moreover have "length (pass_in_flight p') = length (pass_in_flight p) - of_bool (k < length (pass_in_flight p))"
    unfolding p'(3) using len True by (simp only: of_bool_eq add_diff_cancel_right')
  ultimately show ?thesis using p'(1,2) by blast
qed

section \<open>Any order of the workers\<close>

definition alone :: "pass_action list \<Rightarrow> bool" where
  "alone sched = list_all (\<lambda>a. case a of Elsewhere f \<Rightarrow> False | _ \<Rightarrow> True) sched"

lemma run_schedule_append: "run_schedule f (xs @ ys) st = bindR (run_schedule f xs st) (run_schedule f ys)"
  by (induction xs arbitrary: st) (auto simp: bindR_def split: sum.splits)

lemma run_sound:
  assumes "pass_sound origin batch lease t due p s" "0 < lease" "alone sched"
  shows "\<exists>p' s'. run_schedule (pass_step send origin batch lease t) sched (p, s) = Inr (p', s') \<and> pass_sound origin batch lease t due p' s'"
  using assms(1,3)
proof (induction sched arbitrary: p s)
  case (Cons a sched)
  have "\<exists>p1 s1. pass_step send origin batch lease t a (p, s) = Inr (p1, s1) \<and> pass_sound origin batch lease t due p1 s1"
  proof (cases a)
    case AtGate
    then show ?thesis using gate_sound[OF Cons.prems(1) assms(2), of send] by blast
  next
    case (Settled k)
    then show ?thesis using settle_sound[OF Cons.prems(1) assms(2), of send k] by blast
  next
    case (Elsewhere f)
    then show ?thesis using Cons.prems(2) by (simp add: alone_def)
  qed
  then obtain p1 s1 where "pass_step send origin batch lease t a (p, s) = Inr (p1, s1)" "pass_sound origin batch lease t due p1 s1" by blast
  then show ?case using Cons.IH[of p1 s1] Cons.prems(2) by (simp add: alone_def)
qed simp

text \<open>However far a pass has come, at most ten settlements and one round for each row of the batch end it.\<close>

definition finishing :: "int \<Rightarrow> pass_action list" where
  "finishing batch = replicate 10 (Settled 0) @ concat (replicate (nat batch) [AtGate, Settled 0])"

lemma drain_flight:
  assumes "pass_sound origin batch lease t due p s" "0 < lease" "length (pass_in_flight p) \<le> k"
  shows "\<exists>p' s'. run_schedule (pass_step send origin batch lease t) (replicate k (Settled 0)) (p, s) = Inr (p', s') \<and>
    pass_sound origin batch lease t due p' s' \<and> pass_in_flight p' = []"
  using assms(1,3)
proof (induction k arbitrary: p s)
  case (Suc k)
  obtain p1 s1 where s1: "pass_step send origin batch lease t (Settled 0) (p, s) = Inr (p1, s1)" "pass_sound origin batch lease t due p1 s1"
      "length (pass_in_flight p1) = length (pass_in_flight p) - of_bool (0 < length (pass_in_flight p))"
    using settle_sound[OF Suc.prems(1) assms(2), of send 0] by auto
  then have "length (pass_in_flight p1) \<le> k" using Suc.prems(2) by (cases "pass_in_flight p") auto
  then show ?case using Suc.IH[OF s1(2)] s1(1) by simp
qed simp

lemma rounds_finish:
  assumes "pass_sound origin batch lease t due p s" "0 < lease" "1 \<le> batch" "pass_in_flight p = []" "batch \<le> pass_claimed p + int k \<or> pass_exhausted p"
  shows "\<exists>p' s'. run_schedule (pass_step send origin batch lease t) (concat (replicate k [AtGate, Settled 0])) (p, s) = Inr (p', s') \<and>
    pass_sound origin batch lease t due p' s' \<and> pass_over batch p'"
  using assms(1,4,5)
proof (induction k arbitrary: p s)
  case 0
  then show ?case by (auto simp: pass_over_def)
next
  case (Suc k)
  obtain p1 s1 where s1: "pass_step send origin batch lease t AtGate (p, s) = Inr (p1, s1)" "pass_sound origin batch lease t due p1 s1"
      "length (pass_in_flight p1) \<le> 1" "pass_exhausted p1 \<or> batch \<le> pass_claimed p1 \<or> pass_claimed p1 = pass_claimed p + 1"
    using gate_sound[OF Suc.prems(1) assms(2), of send] Suc.prems(2) assms(3) by auto
  obtain p2 s2 where s2: "pass_step send origin batch lease t (Settled 0) (p1, s1) = Inr (p2, s2)" "pass_sound origin batch lease t due p2 s2"
      "length (pass_in_flight p2) = length (pass_in_flight p1) - of_bool (0 < length (pass_in_flight p1))"
      "pass_claimed p2 = pass_claimed p1" "pass_exhausted p2 = pass_exhausted p1"
    using settle_sound[OF s1(2) assms(2), of send 0] by blast
  have "pass_in_flight p2 = []" using s1(3) s2(3) by (cases "pass_in_flight p1") auto
  moreover have "pass_exhausted p \<longrightarrow> pass_exhausted p1" using s1(1) by (auto simp: pass_step_def pass_gate_def split: if_splits)
  ultimately show ?case using Suc.IH[OF s2(2)] Suc.prems(3) s1(1,4) s2(1,4,5) by auto
qed

lemma new_pass_sound:
  assumes "distinct (map nd_id (notifications s))" "\<forall>n \<in> set (due_notes t s). isOk (message_of origin n)" "1 \<le> batch"
  shows "pass_sound origin batch lease t (length (due_notes t s)) new_pass s"
  using assms by (simp add: pass_sound_def new_pass_def)

text \<open>Property C36: a sending pass accounts for every delivery that is due. Run without interference from other
  transactions, it never raises, whatever order its workers' transactions take and whatever the provider answers; it
  can always be brought to its end; and when it ends it has claimed every external delivery that was due at its start,
  up to the batch size, each once, and has settled each as sent, to be retried or failed. None it gave up is due
  again.\<close>

theorem sending_pass_accounts:
  assumes "distinct (map nd_id (notifications s))" "\<forall>n \<in> set (due_notes t s). isOk (message_of origin n)"
    and "1 \<le> batch" "batch \<le> 100" "0 < timeout" "timeout + 1 < of_int lease" "alone sched"
  shows "(\<exists>answer. deliver_external_notifications_once send origin batch lease timeout t sched s = Inr answer) \<and>
    (\<exists>r s'. deliver_external_notifications_once send origin batch lease timeout t (sched @ finishing batch) s = Inr (Some r, s')) \<and>
    (\<forall>r s'. deliver_external_notifications_once send origin batch lease timeout t sched s = Inr (Some r, s') \<longrightarrow>
       edr_claimed r = min batch (int (length (due_notes t s))) \<and>
       edr_claimed r = edr_sent r + edr_retry_scheduled r + edr_failed r \<and>
       int (length (due_notes t s')) = int (length (due_notes t s)) - edr_claimed r)"
proof -
  let ?run = "run_schedule (pass_step send origin batch lease t)"
  have "0 < (of_int lease :: rat)" using assms(5,6) by linarith
  then have lease: "0 < lease" by simp
  obtain p s1 where p: "?run sched (new_pass, s) = Inr (p, s1)" "pass_sound origin batch lease t (length (due_notes t s)) p s1"
    using run_sound[OF new_pass_sound[OF assms(1-3)] lease assms(7)] by blast
  obtain p2 s2 where p2: "?run (replicate 10 (Settled 0)) (p, s1) = Inr (p2, s2)" "pass_sound origin batch lease t (length (due_notes t s)) p2 s2" "pass_in_flight p2 = []"
    using drain_flight[OF p(2) lease, of 10 send] p(2) by (auto simp: pass_sound_def)
  have "batch \<le> pass_claimed p2 + int (nat batch)" using p2(2) assms(3) by (simp add: pass_sound_def)
  then obtain p3 s3 where p3: "?run (concat (replicate (nat batch) [AtGate, Settled 0])) (p2, s2) = Inr (p3, s3)" "pass_over batch p3"
    using rounds_finish[OF p2(2) lease assms(3) p2(3)] by blast
  have d: "deliver_external_notifications_once send origin batch lease timeout t x s = bindR (?run x (new_pass, s)) (\<lambda>(p, s1).
        Inr (if pass_over batch p then Some \<lparr>edr_claimed = pass_claimed p, edr_sent = pass_sent p,
               edr_retry_scheduled = pass_retry_scheduled p, edr_failed = pass_failed p\<rparr> else None, s1))" for x
    using assms(3-6) by (simp add: deliver_external_notifications_once_def)
  have "?run (sched @ finishing batch) (new_pass, s) = Inr (p3, s3)"
    by (simp add: finishing_def run_schedule_append p(1) p2(1) p3(1))
  moreover have "pass_claimed p = min batch (int (length (due_notes t s)))" "pass_in_flight p = []" if "pass_over batch p"
    using that p(2) by (auto simp: pass_over_def pass_sound_def)
  ultimately show ?thesis using p p3(2) by (auto simp: d pass_sound_def)
qed

section \<open>How long a claim protects\<close>

text \<open>Property C37: a delivery claimed late in a pass is not protected while it is sent. The lease of every row a pass
  claims runs from the start of the pass, not from the claim: from then on plus the lease the row is due again, however
  recently it was claimed, and not before. A second pass that finds it claims it and sends the same message again, and
  what the first worker then reports is dropped.\<close>

theorem late_claim_is_unprotected:
  assumes claim: "pass_step send origin batch lease t AtGate (p, s) = Inr (p', s')" "pass_in_flight p' = pass_in_flight p @ [c]"
    and ids: "distinct (map nd_id (notifications s))" and lease: "0 < lease" "0 < lease'"
    and late: "t + seconds lease \<le> later" "1 \<le> batch'"
    and only: "\<forall>x \<in> set (due_notes later s'). nd_id x = cn_notification_id c"
    and fresh: "rng s (drawn s') \<noteq> cn_lock_token c"
  shows "(\<forall>u \<ge> t. (\<exists>n \<in> set (due_notes u s'). nd_id n = cn_notification_id c) \<longleftrightarrow> t + seconds lease \<le> u) \<and>
    (\<exists>c2 s2. pass_step send' origin batch' lease' later AtGate (new_pass, s') =
         Inr (new_pass\<lparr>pass_claimed := 1, pass_in_flight := [c2]\<rparr>, s2) \<and>
       cn_notification_id c2 = cn_notification_id c \<and> cn_message c2 = cn_message c \<and>
       (\<forall>answer. pass_settle answer c t p' s2 = (p', s2)))"
proof -
  have "\<not> min batch DELIVERY_CONCURRENCY \<le> int (length (pass_in_flight p))" using claim by (auto simp: pass_step_def split: if_splits)
  then have gate: "pass_gate origin batch lease t p s = Inr (p', s')" using claim(1) by (simp add: pass_step_def)
  obtain n m where n: "n \<in> set (due_notes t s)" and m: "message_of origin n = Inr m"
    and c: "c = \<lparr>cn_notification_id = nd_id n, cn_lock_token = rng s (drawn s), cn_message = m\<rparr>"
    and s': "s' = put_note (lease_note t (t + seconds lease) (rng s (drawn s)) n) (s\<lparr>drawn := Suc (drawn s)\<rparr>)"
  proof -
    have go: "\<not> (pass_exhausted p \<or> batch \<le> pass_claimed p)" using gate claim(2) by (auto simp: pass_gate_def)
    obtain claims s1 where c1: "claim_external_notifications origin t 1 lease s = Inr (claims, s1)"
      using gate go by (auto simp: pass_gate_def bindR_Inr)
    have "claim_external_notifications origin t 1 lease s = Inr (claims, s') \<and> claims \<noteq> [] \<and> hd claims = c"
      using gate go claim(2) c1 by (cases claims) (auto simp: pass_gate_def)
    then have "claim_external_notifications origin t 1 lease s = Inr (claims, s')" "claims \<noteq> []" "hd claims = c" by blast+
    note hd = this
    show thesis
    proof (rule claim_one[OF lease(1) ids, of origin t])
      assume "claim_external_notifications origin t 1 lease s = Inr ([], s)"
      then show thesis using hd by simp
    next
      fix n
      assume n: "n \<in> set (due_notes t s)" and got: "claim_external_notifications origin t 1 lease s =
        (let n' = lease_note t (t + seconds lease) (rng s (drawn s)) n in
           bindR (message_of origin n') (\<lambda>m. Inr ([\<lparr>cn_notification_id = nd_id n, cn_lock_token = rng s (drawn s), cn_message = m\<rparr>],
             put_note n' (s\<lparr>drawn := Suc (drawn s)\<rparr>))))"
      obtain m where m: "message_of origin n = Inr m" using hd(1) got by (cases "message_of origin n") (simp_all add: Let_def)
      have "claims = [\<lparr>cn_notification_id = nd_id n, cn_lock_token = rng s (drawn s), cn_message = m\<rparr>] \<and>
          s' = put_note (lease_note t (t + seconds lease) (rng s (drawn s)) n) (s\<lparr>drawn := Suc (drawn s)\<rparr>)"
        using hd(1) got m by (simp add: Let_def)
      then show thesis using that[OF n m] hd(3) by simp
    qed
  qed
  let ?n = "lease_note t (t + seconds lease) (rng s (drawn s)) n"
  have r: "row nd_id (nd_id n) (notifications s) = Some n" using n row_of_mem[OF ids] by simp
  then have r': "row nd_id (nd_id n) (notifications s') = Some ?n" by (simp add: s' row_put_row)
  have ids': "distinct (map nd_id (notifications s'))" using ids by (simp add: s')
  have only_row: "x = ?n" if "x \<in> set (notifications s')" "nd_id x = nd_id n" for x
    using row_of_mem[OF ids' that(1)] that(2) r' by simp
  obtain since where at: "nd_next_attempt_at n = Some since" "since \<le> t" "nd_channel n \<noteq> IN_APP" "nd_status n = NOTE_PENDING"
    using n by (cases "nd_next_attempt_at n") (simp_all add: note_due_def)
  have due: "note_due u ?n \<longleftrightarrow> t + seconds lease \<le> u" if "t \<le> u" for u
    using at that order_trans[OF at(2) that] by (simp add: note_due_def)
  have mem: "?n \<in> set (notifications s')" using row_SomeD[OF r'] by simp
  have "(\<exists>x \<in> set (due_notes u s'). nd_id x = cn_notification_id c) \<longleftrightarrow> t + seconds lease \<le> u" if "t \<le> u" for u
  proof
    assume "\<exists>x \<in> set (due_notes u s'). nd_id x = cn_notification_id c"
    then obtain x where "x \<in> set (notifications s')" "note_due u x" "nd_id x = nd_id n" by (auto simp: c)
    then show "t + seconds lease \<le> u" using only_row due[OF that] by blast
  next
    assume "t + seconds lease \<le> u"
    then have "?n \<in> set (due_notes u s')" using due[OF that] mem by simp
    then show "\<exists>x \<in> set (due_notes u s'). nd_id x = cn_notification_id c" by (rule rev_bexI) (simp add: c)
  qed
  moreover have "\<exists>c2 s2. pass_step send' origin batch' lease' later AtGate (new_pass, s') =
         Inr (new_pass\<lparr>pass_claimed := 1, pass_in_flight := [c2]\<rparr>, s2) \<and>
       cn_notification_id c2 = cn_notification_id c \<and> cn_message c2 = cn_message c \<and> (\<forall>answer. pass_settle answer c t p' s2 = (p', s2))"
  proof (rule claim_one[OF lease(2) ids', of origin later])
    assume "due_notes later s' = []"
    moreover have "t \<le> later" using order_trans[of t "t + seconds lease" later] late(1) lease(1) by simp
    then have "?n \<in> set (due_notes later s')" using due[of later] late(1) mem by simp
    ultimately show ?thesis by simp
  next
    fix n2
    let ?n2 = "lease_note later (later + seconds lease') (rng s' (drawn s')) n2"
    let ?c2 = "\<lparr>cn_notification_id = nd_id n2, cn_lock_token = rng s' (drawn s'), cn_message = m\<rparr>"
    let ?s2 = "put_note ?n2 (s'\<lparr>drawn := Suc (drawn s')\<rparr>)"
    assume n2: "n2 \<in> set (due_notes later s')" and again: "claim_external_notifications origin later 1 lease' s' =
      (let n' = ?n2 in bindR (message_of origin n') (\<lambda>m. Inr ([\<lparr>cn_notification_id = nd_id n2, cn_lock_token = rng s' (drawn s'), cn_message = m\<rparr>],
           put_note n' (s'\<lparr>drawn := Suc (drawn s')\<rparr>))))"
    have e: "n2 = ?n" using n2 only only_row by (simp add: c)
    have "leased_note (nd_id n) (rng s (drawn s)) ?s2 = None"
      unfolding leased_note_def find_None_iff using only_row fresh by (auto simp: e c s' elim!: put_rowE)
    then have "pass_settle answer c t p' ?s2 = (p', ?s2)" for answer
      by (simp add: pass_settle_def mark_sent_def mark_failure_def c split: sum.splits prod.splits)
    moreover have "pass_step send' origin batch' lease' later AtGate (new_pass, s') =
         Inr (new_pass\<lparr>pass_claimed := 1, pass_in_flight := [?c2]\<rparr>, ?s2)"
      using again m late(2) by (simp add: pass_step_def pass_gate_def new_pass_def DELIVERY_CONCURRENCY_def e Let_def)
    ultimately show ?thesis by (intro exI[of _ ?c2] exI[of _ ?s2]) (simp add: e c)
  qed
  ultimately show ?thesis by blast
qed

section \<open>Witnesses\<close>

text \<open>Job 1 with its customer 11 and its manager 12; the customer's workspace has an enabled e-mail contact.\<close>

definition sample_notice :: DomainEvent where
  "sample_notice = \<lparr>de_event_id = 70, de_event_type = COMPLETION_SUBMITTED_V1, de_schema_version = 1, de_aggregate_id = 1,
     de_occurred_at = 5, de_actor_id = None, de_trace_id = ''t'', de_payload = []\<rparr>"

definition sample_inbox :: db where
  "sample_inbox = (empty_db (\<lambda>k. 100 + k) (\<lambda>t. t))\<lparr>
     move_jobs := [\<lparr>mj_id = 1, mj_title = ''move'', mj_status = DRAFT, mj_scheduled_at = None, mj_created_at = 0,
       mj_updated_at = 0, mj_completed_at = None\<rparr>],
     participants := [\<lparr>jp_id = 11, jp_job_id = 1, jp_role = CUSTOMER, jp_display_name = ''c'', jp_created_at = 0\<rparr>,
       \<lparr>jp_id = 12, jp_job_id = 1, jp_role = COMPANY_MANAGER, jp_display_name = ''m'', jp_created_at = 0\<rparr>],
     workspace_memberships := [\<lparr>wm_id = 1, wm_account_id = 2, wm_participant_id = 12, wm_joined_at = 0, wm_revoked_at = None\<rparr>],
     contact_points := [\<lparr>cp_id = 1, cp_account_id = 2, cp_channel = CONTACT_EMAIL, cp_destination = ''m@x.io'', cp_enabled = True,
       cp_consented_at = 0, cp_updated_at = 0\<rparr>]\<rparr>"

definition sample_note :: "uuid \<Rightarrow> NotificationDelivery" where
  "sample_note i = \<lparr>nd_id = i, nd_event_id = 70, nd_event_type = COMPLETION_SUBMITTED_V1, nd_job_id = 1,
     nd_recipient_participant_id = 12, nd_channel = EMAIL, nd_destination = Some ''m@x.io'', nd_status = NOTE_PENDING,
     nd_attempt_count = 0, nd_created_at = 0, nd_last_attempt_at = None, nd_sent_at = None, nd_last_error_code = None,
     nd_next_attempt_at = Some 0, nd_locked_until = None, nd_lock_token = None, nd_provider_message_id = None\<rparr>"

lemma sample_message: "isOk (message_of ''https://a.io'' (sample_note i))"
proof -
  have "strip (''https://a.io'' @ ''/?job='' @ uuid_str 1) \<noteq> []"
    by (simp add: strip_def is_space_def)
  moreover have "length (strip x) \<le> length x" for x :: string
    unfolding strip_def by (metis length_dropWhile_le length_rev order_trans)
  then have "length (strip (''https://a.io'' @ ''/?job='' @ uuid_str 1)) \<le> 2000"
    by (rule order_trans) (simp add: uuid_str_def Let_def)
  moreover have "strip ''m@x.io'' = ''m@x.io''" by (simp add: strip_def is_space_def)
  ultimately show ?thesis
    by (simp add: message_of_def sample_note_def outbound_ok_def text_between_def NOTIFICATION_SUBJECT_def utf8_bytes_def Let_def Suc_le_eq del: append_Cons)
qed

theorem event_notifies_once_witness:
  "\<exists>s'. consume_notification_event sample_notice 9 sample_inbox =
      Inr (map notification_response (notifications s'), s') \<and> length (notifications s') = 2 \<and>
     consume_notification_event sample_notice 99 s' = Inr ([], s')"
proof -
  have run: "\<exists>rs s'. consume_notification_event sample_notice 9 sample_inbox = Inr (rs, s') \<and> length (notifications s') = 2 \<and>
      row mj_id 1 (move_jobs s') \<noteq> None"
    by (simp add: consume_notification_event_def sample_notice_def sample_inbox_def empty_db_def insert_consumption_def
      NOTIFICATION_CONSUMER_NAME_def intents_of_def recipients_of_def contact_rows_def new_delivery_def insert_delivery_def
      notification_check_def uuid4_def Let_def)
  then obtain rs s' where s': "consume_notification_event sample_notice 9 sample_inbox = Inr (rs, s')" "length (notifications s') = 2"
      "row mj_id 1 (move_jobs s') \<noteq> None" by blast
  have "\<not> consumed sample_notice sample_inbox" "notifications sample_inbox = []" "de_aggregate_id sample_notice = 1"
    by (simp_all add: consumed_def sample_inbox_def sample_notice_def empty_db_def)
  then show ?thesis using event_notifies_once[OF s'(1)] s' by auto
qed

theorem sending_pass_accounts_witness:
  "\<exists>r s'. deliver_external_notifications_once (\<lambda>m. Inr ''ok'') ''https://a.io'' 100 60 10 5 (finishing 100)
      (sample_inbox\<lparr>notifications := [sample_note 1, sample_note 2]\<rparr>) = Inr (Some r, s')"
proof -
  let ?s = "sample_inbox\<lparr>notifications := [sample_note 1, sample_note 2]\<rparr>"
  have "distinct (map nd_id (notifications ?s))" by (simp add: sample_note_def)
  moreover have "\<forall>n \<in> set (due_notes 5 ?s). isOk (message_of ''https://a.io'' n)" using sample_message by simp
  ultimately have "\<exists>r s'. deliver_external_notifications_once (\<lambda>m. Inr ''ok'') ''https://a.io'' 100 60 10 5 ([] @ finishing 100) ?s = Inr (Some r, s')"
    by (rule sending_pass_accounts[THEN conjunct2, THEN conjunct1]) (simp_all add: alone_def)
  then show ?thesis by (simp only: append_Nil)
qed

theorem late_claim_is_unprotected_witness:
  "\<exists>p' s' c2 s2. pass_step (\<lambda>m. Inr ''ok'') ''https://a.io'' 100 60 5 AtGate (new_pass, sample_inbox\<lparr>notifications := [sample_note 1]\<rparr>) = Inr (p', s') \<and>
     pass_step (\<lambda>m. Inr ''ok'') ''https://a.io'' 100 60 (5 + seconds 60) AtGate (new_pass, s') =
       Inr (new_pass\<lparr>pass_claimed := 1, pass_in_flight := [c2]\<rparr>, s2) \<and> cn_notification_id c2 = 1"
proof -
  let ?s = "sample_inbox\<lparr>notifications := [sample_note 1]\<rparr>"
  obtain m where m: "message_of ''https://a.io'' (sample_note 1) = Inr m" using sample_message by (meson isOk_iff)
  let ?c = "\<lparr>cn_notification_id = 1, cn_lock_token = 100, cn_message = m\<rparr>"
  let ?p' = "new_pass\<lparr>pass_claimed := 1, pass_in_flight := [?c]\<rparr>" and ?n = "lease_note 5 (5 + seconds 60) 100 (sample_note 1)"
  let ?s' = "put_note ?n (?s\<lparr>drawn := 1\<rparr>)"
  have id: "nd_id (sample_note 1) = 1" by (simp add: sample_note_def)
  have due: "note_due 5 (sample_note 1)" by (simp add: note_due_def sample_note_def)
  have start: "distinct (map nd_id (notifications ?s))" "rng ?s = (\<lambda>k. 100 + k)" "drawn ?s = 0" "notifications ?s = [sample_note 1]"
    by (simp_all add: sample_inbox_def empty_db_def)
  have step: "pass_step (\<lambda>m. Inr ''ok'') ''https://a.io'' 100 60 5 AtGate (new_pass, ?s) = Inr (?p', ?s')"
    using m due id start
    by (simp add: pass_step_def pass_gate_def new_pass_def DELIVERY_CONCURRENCY_def claim_external_notifications_def select_by_def uuid4_def Let_def)
  have rows: "notifications ?s' = [?n]" "drawn ?s' = 1" using id by (simp_all add: put_row_def)
  have "(\<forall>u \<ge> 5. (\<exists>n \<in> set (due_notes u ?s'). nd_id n = cn_notification_id ?c) \<longleftrightarrow> 5 + seconds 60 \<le> u) \<and>
    (\<exists>c2 s2. pass_step (\<lambda>m. Inr ''ok'') ''https://a.io'' 100 60 (5 + seconds 60) AtGate (new_pass, ?s') =
         Inr (new_pass\<lparr>pass_claimed := 1, pass_in_flight := [c2]\<rparr>, s2) \<and>
       cn_notification_id c2 = cn_notification_id ?c \<and> cn_message c2 = cn_message ?c \<and> (\<forall>answer. pass_settle answer ?c 5 ?p' s2 = (?p', s2)))"
  proof (rule late_claim_is_unprotected[OF step])
    show "pass_in_flight ?p' = pass_in_flight new_pass @ [?c]" by (simp add: new_pass_def)
    show "distinct (map nd_id (notifications ?s))" by (rule start(1))
    show "\<forall>x \<in> set (due_notes (5 + seconds 60) ?s'). nd_id x = cn_notification_id ?c" using rows id by simp
    show "rng ?s (drawn ?s') \<noteq> cn_lock_token ?c" using start(2) rows(2) by simp
  qed simp_all
  then obtain c2 s2 where "pass_step (\<lambda>m. Inr ''ok'') ''https://a.io'' 100 60 (5 + seconds 60) AtGate (new_pass, ?s') =
      Inr (new_pass\<lparr>pass_claimed := 1, pass_in_flight := [c2]\<rparr>, s2)" "cn_notification_id c2 = 1" by auto
  then show ?thesis using step by blast
qed

end
