(* ===== verification/ReviewPage.thy ===== *)
theory ReviewPage
  imports FieldChange MoveJobList AnalysisReview
begin

text \<open>
  The review page of a job's scope: \<open>get_scope_review\<close> of \<open>app/modules/scope_review/service.py\<close> and what
  it is composed of. The storage adapter with the check of the URL it signs is one argument, the walk to the
  first version takes fuel, stored documents read back valid. Lemmas are in ReviewPageProofs.
\<close>

section \<open>Views\<close>

datatype ScopeCollaborationStatus = COLLABORATION_DRAFT | AWAITING_COMPANY_PROPOSAL | AWAITING_CONFIRMATION
  | COLLABORATION_REVISION_REQUESTED | COLLABORATION_CONFIRMED

record ScopeReviewItem =
  sri_item_key :: string
  sri_room_zone_id :: uuid
  sri_description :: string
  sri_name :: string
  sri_quantity :: "int option"
  sri_unit :: "string option"
  sri_work_note :: "string option"
  sri_review_status :: ScopeItemReviewStatus
  sri_source :: ScopeItemSource
  sri_review_required :: bool
  sri_source_media_asset_ids :: "uuid list"

record RoomScopeGroup =
  rsg_room_zone_id :: uuid
  rsg_label :: string
  rsg_item_count :: nat
  rsg_review_required_count :: nat
  rsg_items :: "ScopeReviewItem list"

record ScopeMediaPreview =
  smp_media_asset_id :: uuid
  smp_room_zone_id :: uuid
  smp_content_type :: string
  smp_read_url :: string
  smp_expires_at :: instant

record ScopeReviewScope =
  srs_id :: uuid
  srs_version_label :: string
  srs_schema_version :: int
  srs_content_hash :: string
  srs_locked_at :: "instant option"
  srs_status :: ScopeReviewStatus
  srs_item_count :: nat
  srs_work_count :: nat
  srs_exclusion_count :: nat
  srs_review_required_count :: nat
  srs_room_groups :: "RoomScopeGroup list"
  srs_location_conditions :: "ScopeLocationConditions list"
  srs_included_works :: "string list"
  srs_exclusions :: "string list"

record ApprovedChangeSummary =
  acs_proposal_id :: uuid
  acs_field_issue_id :: uuid
  acs_title :: string
  acs_reason :: string
  acs_base_scope_version_id :: uuid
  acs_result_scope_version_id :: uuid
  acs_quote :: QuoteSnapshot
  acs_evidence_media_asset_ids :: "uuid list"
  acs_approved_at :: instant

record ScopeReviewView =
  srv_job :: ScopeReviewJobHeader
  srv_scope :: ScopeReviewScope
  srv_proposal_id :: "uuid option"
  srv_quote :: "QuoteSnapshot option"
  srv_execution_plan :: "ExecutionPlanSnapshot option"
  srv_proposal_reason :: "string option"
  srv_company_participation_status :: CompanyParticipationStatus
  srv_collaboration_status :: ScopeCollaborationStatus
  srv_agreement_notice :: string
  srv_approved_changes :: "ApprovedChangeSummary list"
  srv_media_previews :: "ScopeMediaPreview list"
  srv_company_confirmed_at :: "instant option"
  srv_customer_confirmed_at :: "instant option"
  srv_revision_request :: "ScopeRevisionRequestResponse option"

section \<open>Parts\<close>

definition company_participation_status :: "MoveJob \<Rightarrow> instant \<Rightarrow> db \<Rightarrow> CompanyParticipationStatus" where
  "company_participation_status j now s = (case company_invitation (mj_id j) s of
     None \<Rightarrow> if list_ex (\<lambda>p. jp_role p = COMPANY_MANAGER) (participants_of (mj_id j) s)
             then COMPANY_JOINED else COMPANY_NOT_INVITED
   | Some i \<Rightarrow>
       if pi_status i = INV_PENDING then (if pi_expires_at i \<le> now then COMPANY_EXPIRED else COMPANY_INVITED)
       else (case pi_status i of INV_ACCEPTED \<Rightarrow> COMPANY_JOINED | INV_DECLINED \<Rightarrow> COMPANY_DECLINED
             | INV_EXPIRED \<Rightarrow> COMPANY_EXPIRED | _ \<Rightarrow> COMPANY_REVOKED))"

definition evidence_of_change :: "uuid \<Rightarrow> db \<Rightarrow> uuid list" where
  "evidence_of_change request_id s = sort (map ce_media_asset_id
     (filter (\<lambda>e. ce_change_request_id e = request_id) (change_evidence s)))"

definition approved_rows :: "uuid \<Rightarrow> db \<Rightarrow> (ChangeProposalDetail \<times> ChangeRequest) list" where
  "approved_rows job_id s = List.map_filter (\<lambda>r. map_option (\<lambda>d. (d, r)) (row pd_change_request_id (cr_id r) (proposal_details s)))
     (sort_key (\<lambda>r. (nulls_last (cr_decided_at r), cr_id r))
       (filter (\<lambda>r. cr_job_id r = job_id \<and> cr_status r = CR_APPROVED) (change_requests s)))"

definition change_summary :: "db \<Rightarrow> ChangeProposalDetail \<times> ChangeRequest \<Rightarrow> ApprovedChangeSummary result" where
  "change_summary s dr = (case dr of (d, r) \<Rightarrow>
     bindR (mk_quote (quote_from_change_detail d)) (\<lambda>quote.
     case (cr_result_scope_version_id r, cr_decided_at r) of
       (Some result, Some at_time) \<Rightarrow> Inr \<lparr>acs_proposal_id = cr_id r, acs_field_issue_id = pd_field_issue_id d, acs_title = pd_title d,
         acs_reason = cr_description r, acs_base_scope_version_id = cr_base_scope_version_id r,
         acs_result_scope_version_id = result, acs_quote = quote,
         acs_evidence_media_asset_ids = evidence_of_change (cr_id r) s, acs_approved_at = at_time\<rparr>
     | _ \<Rightarrow> Inl ValueError))"

definition approved_change_summaries :: "uuid \<Rightarrow> db \<Rightarrow> ApprovedChangeSummary list result" where
  "approved_change_summaries job_id s = mapR (change_summary s) (approved_rows job_id s)"

definition review_job_header ::
    "MoveJob \<Rightarrow> JobParticipant list \<Rightarrow> Location list \<Rightarrow> JobParticipant \<Rightarrow> CompanyParticipationStatus \<Rightarrow> ScopeReviewJobHeader" where
  "review_job_header j ps ls viewer company = \<lparr>jh_job_id = mj_id j, jh_job_code = job_code (mj_id j), jh_title = mj_title j,
     jh_scheduled_at = mj_scheduled_at j, jh_customer_display_name = name_of_role CUSTOMER ps,
     jh_company_display_name = (if company = COMPANY_JOINED then name_of_role COMPANY_MANAGER ps else None),
     jh_viewer = viewer, jh_origin_summary = label_of_kind ORIGIN ls, jh_destination_summary = label_of_kind DESTINATION ls\<rparr>"

definition current_scope_version :: "uuid \<Rightarrow> db \<Rightarrow> ScopeVersion result" where
  "current_scope_version job_id s = (case current_scope_of job_id s of None \<Rightarrow> Inl ScopeReviewNotFoundError | Some v \<Rightarrow> Inr v)"

definition AGREEMENT_NOTICE :: string where
  "AGREEMENT_NOTICE = utf8_bytes [
    236, 160, 132, 236, 158, 144, 234, 179, 132, 236, 149, 189, 236, 157, 180, 32, 236, 149, 132, 235, 139, 140,
    32, 236, 134, 140, 235, 185, 132, 236, 158, 144, 236, 153, 128, 32, 236, 151, 133, 236, 178, 180, 236, 157,
    152, 32, 234, 179, 181, 235, 143, 153, 237, 153, 149, 236, 157, 184, 32, 234, 184, 176, 235, 161, 157, 236,
    158, 133, 235, 139, 136, 235, 139, 164, 46]"

definition MAX_MEDIA_PREVIEWS :: nat where
  "MAX_MEDIA_PREVIEWS = 24"

definition REVIEW_READ_URL_TTL_SECONDS :: int where
  "REVIEW_READ_URL_TTL_SECONDS = 5 * 60"

definition previewable :: "uuid \<Rightarrow> uuid list \<Rightarrow> db \<Rightarrow> MediaAsset list" where
  "previewable job_id media_ids s = sort_key (\<lambda>a. (ma_created_at a, ma_id a)) (filter (\<lambda>a.
     map_option cs_job_id (row cs_id (ma_capture_session_id a) (capture_sessions s)) = Some job_id \<and>
     ma_id a \<in> set (take MAX_MEDIA_PREVIEWS media_ids) \<and> ma_status a \<in> {UPLOADED, READY} \<and> ma_generation a \<noteq> None)
     (media_assets s))"

definition media_preview :: "(string \<Rightarrow> string \<Rightarrow> string result) \<Rightarrow> instant \<Rightarrow> MediaAsset \<Rightarrow> ScopeMediaPreview result" where
  "media_preview sign now a = (case ma_generation a of None \<Rightarrow> Inl AssertionError
   | Some g \<Rightarrow> bindR (sign (ma_object_key a) g) (\<lambda>url.
       Inr \<lparr>smp_media_asset_id = ma_id a, smp_room_zone_id = ma_room_zone_id a, smp_content_type = ma_content_type a,
         smp_read_url = url, smp_expires_at = now + seconds REVIEW_READ_URL_TTL_SECONDS\<rparr>))"

definition media_previews ::
    "(string \<Rightarrow> string \<Rightarrow> string result) \<Rightarrow> uuid \<Rightarrow> uuid list \<Rightarrow> uuid set \<Rightarrow> instant \<Rightarrow> db \<Rightarrow> ScopeMediaPreview list result" where
  "media_previews sign job_id media_ids uploaded_ids now s = mapR (media_preview sign now)
     (filter (\<lambda>a. \<not> (ma_status a = UPLOADED \<and> ma_id a \<notin> uploaded_ids)) (previewable job_id media_ids s))"

definition field_evidence_media_ids :: "uuid \<Rightarrow> db \<Rightarrow> uuid list" where
  "field_evidence_media_ids job_id s = take MAX_MEDIA_PREVIEWS (map (\<lambda>(i, e). fe_media_asset_id e)
     (sort_key (\<lambda>(i, e). (fi_created_at i, fi_id i, fe_media_asset_id e))
       (concat (map (\<lambda>i. map (Pair i) (filter (\<lambda>e. fe_field_issue_id e = fi_id i) (field_issue_evidence s)))
         (filter (\<lambda>i. fi_job_id i = job_id) (field_issues s))))))"

definition current_location_conditions :: "Location list \<Rightarrow> ScopeContent \<Rightarrow> ScopeLocationConditions list" where
  "current_location_conditions ls c = (if sc_location_conditions c \<noteq> [] then sc_location_conditions c
     else map location_snapshot (sort_key (\<lambda>l. location_kind_value (loc_kind l)) ls))"

text \<open>The versions from the current one to the first; \<open>None\<close> when the fuel runs out on the way.\<close>

fun lineage :: "nat \<Rightarrow> ScopeVersion list \<Rightarrow> ScopeVersion \<Rightarrow> ScopeVersion list option" where
  "lineage 0 vs v = None"
| "lineage (Suc n) vs v = (case (case sv_parent_version_id v of None \<Rightarrow> None | Some p \<Rightarrow> row sv_id p vs) of
     None \<Rightarrow> Some [v] | Some w \<Rightarrow> map_option (Cons v) (lineage n vs w))"

definition latest_analysis :: "ScopeVersion list \<Rightarrow> AnalysisResult option" where
  "latest_analysis vs = (case find (\<lambda>v. sv_analysis_source v \<noteq> None) vs of None \<Rightarrow> None | Some v \<Rightarrow> sv_analysis_source v)"

definition ai_source :: "AnalysisResult option \<Rightarrow> string \<Rightarrow> DraftItem option" where
  "ai_source analysis key = (case analysis of None \<Rightarrow> None | Some r \<Rightarrow> ai_item r key)"

definition ai_flagged :: "AnalysisResult option \<Rightarrow> string \<Rightarrow> bool" where
  "ai_flagged analysis key = (case analysis of None \<Rightarrow> False | Some r \<Rightarrow> needs_review r key)"

definition scope_review_item :: "AnalysisResult option \<Rightarrow> ScopeItem \<Rightarrow> ScopeReviewItem" where
  "scope_review_item analysis item = (let key = item_key item; ai = ai_source analysis key;
       media = (case ai of None \<Rightarrow> [] | Some d \<Rightarrow> di_source_media_asset_ids d) in
     case item of
       Item2 i \<Rightarrow> \<lparr>sri_item_key = key, sri_room_zone_id = i2_room_zone_id i, sri_description = i2_name i, sri_name = i2_name i,
         sri_quantity = i2_quantity i, sri_unit = i2_unit i, sri_work_note = i2_work_note i,
         sri_review_status = i2_review_status i, sri_source = i2_source i,
         sri_review_required = (i2_review_status i = REVIEW_REQUIRED), sri_source_media_asset_ids = media\<rparr>
     | Item1 i \<Rightarrow> \<lparr>sri_item_key = key, sri_room_zone_id = i1_room_zone_id i, sri_description = i1_description i,
         sri_name = i1_description i, sri_quantity = None, sri_unit = None, sri_work_note = None,
         sri_review_status = (if ai_flagged analysis key then REVIEW_REQUIRED else CONFIRMED_ITEM),
         sri_source = (if ai \<noteq> None then SOURCE_AI else SOURCE_CUSTOMER),
         sri_review_required = ai_flagged analysis key, sri_source_media_asset_ids = media\<rparr>)"

text \<open>The rooms of the job: the locations by kind, and in each the rooms by their order.\<close>

definition review_zones :: "Location list \<Rightarrow> db \<Rightarrow> RoomZone list" where
  "review_zones ls s = filter (\<lambda>z. list_ex (\<lambda>l. loc_id l = rz_location_id z) ls) (room_zones s)"

definition zone_order :: "Location list \<Rightarrow> RoomZone list \<Rightarrow> uuid \<Rightarrow> nat \<times> int \<times> uuid" where
  "zone_order ls zs i = (case row rz_id i zs of None \<Rightarrow> (0, 0, 0)
     | Some z \<Rightarrow> (length (takeWhile (\<lambda>l. loc_id l \<noteq> rz_location_id z) ls), rz_sort_order z, i))"

definition zone_label :: "RoomZone list \<Rightarrow> uuid \<Rightarrow> string" where
  "zone_label zs i = (case row rz_id i zs of None \<Rightarrow> [] | Some z \<Rightarrow> rz_name z)"

definition room_group :: "RoomZone list \<Rightarrow> ScopeReviewItem list \<Rightarrow> uuid \<Rightarrow> RoomScopeGroup" where
  "room_group zs items i = (let here = filter (\<lambda>x. sri_room_zone_id x = i) items in
     \<lparr>rsg_room_zone_id = i, rsg_label = zone_label zs i, rsg_item_count = length here,
      rsg_review_required_count = length (filter sri_review_required here), rsg_items = here\<rparr>)"

definition room_groups :: "Location list \<Rightarrow> RoomZone list \<Rightarrow> ScopeReviewItem list \<Rightarrow> RoomScopeGroup list" where
  "room_groups ls zs items = map (room_group zs items) (sort_key (zone_order ls zs) (remdups (map sri_room_zone_id items)))"

definition review_status_of :: "bool \<Rightarrow> ScopeProposal option \<Rightarrow> ScopeReviewStatus result" where
  "review_status_of changed proposal = (if changed then Inr REVIEW_CONFIRMED else case proposal of
     None \<Rightarrow> Inr REVIEW_COMPANY
   | Some p \<Rightarrow> (case sp_status p of SP_CUSTOMER_REVIEW \<Rightarrow> Inr REVIEW_CUSTOMER
       | SP_REVISION_REQUESTED \<Rightarrow> Inr REVIEW_REVISION_REQUESTED
       | SP_CONFIRMED \<Rightarrow> Inr REVIEW_CONFIRMED | SP_SUPERSEDED \<Rightarrow> Inl ScopeReviewConflictError))"

definition collaboration_status :: "ScopeReviewStatus \<Rightarrow> CompanyParticipationStatus \<Rightarrow> ScopeCollaborationStatus" where
  "collaboration_status status company = (case status of
     REVIEW_CONFIRMED \<Rightarrow> COLLABORATION_CONFIRMED
   | REVIEW_REVISION_REQUESTED \<Rightarrow> COLLABORATION_REVISION_REQUESTED
   | REVIEW_CUSTOMER \<Rightarrow> AWAITING_CONFIRMATION
   | REVIEW_COMPANY \<Rightarrow> if company = COMPANY_JOINED then AWAITING_COMPANY_PROPOSAL else COLLABORATION_DRAFT)"

definition current_quote :: "ApprovedChangeSummary option \<Rightarrow> ScopeProposal option \<Rightarrow> QuoteSnapshot option result" where
  "current_quote change proposal = (case change of Some c \<Rightarrow> Inr (Some (acs_quote c))
   | None \<Rightarrow> (case proposal of None \<Rightarrow> Inr None | Some p \<Rightarrow> bindR (mk_quote (quote_from_proposal p)) (\<lambda>q. Inr (Some q))))"

definition plan_of_proposal :: "ScopeProposal option \<Rightarrow> ExecutionPlanSnapshot option result" where
  "plan_of_proposal proposal = (case proposal of None \<Rightarrow> Inr None | Some p \<Rightarrow> (case sp_execution_plan p of None \<Rightarrow> Inr None
     | Some plan \<Rightarrow> if execution_plan_ok plan then Inr (Some plan) else Inl ValueError))"

text \<open>\<open>dict.fromkeys\<close>: the first occurrences in order.\<close>

definition first_occurrences :: "'a list \<Rightarrow> 'a list" where
  "first_occurrences xs = rev (remdups (rev xs))"

definition lineage_agreement :: "uuid \<Rightarrow> ScopeVersion list \<Rightarrow> db \<Rightarrow> ScopeProposal option" where
  "lineage_agreement job_id vs s = (case find (\<lambda>v. proposal_for_result job_id (sv_id v) s \<noteq> None) vs of
     None \<Rightarrow> None | Some v \<Rightarrow> proposal_for_result job_id (sv_id v) s)"

definition approval_time :: "uuid \<Rightarrow> ParticipantRole \<Rightarrow> db \<Rightarrow> instant option" where
  "approval_time i role s = map_option sa_approved_at
     (find (\<lambda>a. sa_scope_version_id a = i \<and> sa_role a = role) (scope_approvals s))"

section \<open>The page\<close>

text \<open>What the page shows once the job, the viewer, the current version and its ancestors are known.\<close>

definition review_view ::
    "(string \<Rightarrow> string \<Rightarrow> string result) \<Rightarrow> MoveJob \<Rightarrow> JobParticipant \<Rightarrow> ScopeVersion \<Rightarrow> ScopeVersion list \<Rightarrow> instant \<Rightarrow>
     db \<Rightarrow> ScopeReviewView result" where
  "review_view sign job viewer current versions now s = (
     let job_id = mj_id job; role = jp_role viewer; ps = participants_of job_id s; locs = locations_of job_id s;
         content = sv_content current;
         ls = sort_key (\<lambda>l. location_kind_value (loc_kind l)) locs;
         zs = review_zones ls s;
         items = map (scope_review_item (latest_analysis versions)) (sc_items content);
         media = concat (map sri_source_media_asset_ids items);
         groups = room_groups ls zs items;
         proposal = proposal_for_result job_id (sv_id current) s;
         agreement = (case proposal of Some p \<Rightarrow> Some p | None \<Rightarrow> lineage_agreement job_id versions s) in
     if list_ex (\<lambda>x. row rz_id (sri_room_zone_id x) zs = None) items then Inl ScopeReviewConflictError
     else
     bindR (approved_change_summaries job_id s) (\<lambda>changes.
     let change = find (\<lambda>c. acs_result_scope_version_id c = sv_id current) (rev changes) in
     bindR (review_status_of (change \<noteq> None) proposal) (\<lambda>status.
     bindR (current_quote change proposal) (\<lambda>quote.
     bindR (plan_of_proposal agreement) (\<lambda>plan.
     let works = (case agreement of None \<Rightarrow> [] | Some p \<Rightarrow> sp_included_works p);
         exclusions = (case agreement of None \<Rightarrow> [] | Some p \<Rightarrow> sp_exclusions p);
         company = company_participation_status job now s;
         field_ids = (if role \<in> {COMPANY_MANAGER, FIELD_WORKER} then field_evidence_media_ids job_id s else []) in
     bindR (media_previews sign job_id (first_occurrences (field_ids @ media)) (set field_ids) now s) (\<lambda>previews.
     Inr \<lparr>srv_job = review_job_header job ps locs viewer company,
       srv_scope = \<lparr>srs_id = sv_id current, srs_version_label = CHR ''v'' # int_text (sv_sequence_number current),
         srs_schema_version = sc_schema_version content, srs_content_hash = sv_content_hash current,
         srs_locked_at = sv_locked_at current, srs_status = status, srs_item_count = length (sc_items content),
         srs_work_count = length works, srs_exclusion_count = length exclusions,
         srs_review_required_count = length (filter sri_review_required (concat (map rsg_items groups))),
         srs_room_groups = groups, srs_location_conditions = current_location_conditions locs content,
         srs_included_works = works, srs_exclusions = exclusions\<rparr>,
       srv_proposal_id = map_option sp_id agreement, srv_quote = quote, srv_execution_plan = plan,
       srv_proposal_reason = map_option sp_reason agreement, srv_company_participation_status = company,
       srv_collaboration_status = collaboration_status status company,
       srv_agreement_notice = AGREEMENT_NOTICE, srv_approved_changes = changes,
       srv_media_previews = previews, srv_company_confirmed_at = approval_time (sv_id current) COMPANY_MANAGER s,
       srv_customer_confirmed_at = approval_time (sv_id current) CUSTOMER s,
       srv_revision_request = (case proposal of None \<Rightarrow> None
         | Some p \<Rightarrow> map_option revision_response (revision_for_proposal (sp_id p) s))\<rparr>))))))"

definition get_scope_review ::
    "nat \<Rightarrow> (string \<Rightarrow> string \<Rightarrow> string result) \<Rightarrow> uuid \<Rightarrow> uuid \<Rightarrow> ParticipantRole \<Rightarrow> instant \<Rightarrow> db \<Rightarrow>
     ScopeReviewView result option" where
  "get_scope_review fuel sign job_id participant_id role now s = (case row mj_id job_id (move_jobs s) of
     None \<Rightarrow> Some (Inl ScopeReviewNotFoundError)
   | Some job \<Rightarrow> (case find (\<lambda>p. jp_id p = participant_id) (participants_of job_id s) of
        None \<Rightarrow> Some (Inl ScopeReviewNotFoundError)
      | Some viewer \<Rightarrow> if jp_role viewer \<noteq> role then Some (Inl ScopeReviewNotFoundError)
        else (case current_scope_version job_id s of
          Inl e \<Rightarrow> Some (Inl e)
        | Inr current \<Rightarrow>
          if role = FIELD_WORKER \<and> sv_locked_at current = None then Some (Inl ScopeReviewNotFoundError)
          else map_option (\<lambda>versions. review_view sign job viewer current versions now s)
            (lineage fuel (filter (\<lambda>v. sv_job_id v = job_id) (scope_versions s)) current))))"

end
