(* ===== verification/ReviewPageProofs.thy ===== *)
theory ReviewPageProofs
  imports ReviewPage FieldChangeProofs MoveJobListProofs
begin

text \<open>
  Lemmas about the review page: the walk to the first version ends and finds the agreement of the
  reference definition, the rooms partition the items, and the page is compared with the job list.
\<close>

section \<open>The walk to the first version\<close>

lemma row_filter:
  assumes "distinct (map k t)" "row k i t = Some r" "P r"
  shows "row k i (filter P t) = Some r"
proof -
  have "r \<in> set (filter P t)" using row_mem[OF assms(2)] assms(3) by simp
  then show ?thesis using row_of_mem[OF distinct_map_filter[OF assms(1), of P]] row_key[OF assms(2)] by metis
qed

lemma lineage_ends:
  assumes inv: "scope_inv s" and v: "v \<in> set (scope_versions s)" "sv_job_id v = job"
    and fuel: "nat (sv_sequence_number v) \<le> n"
  shows "\<exists>vs. lineage n (filter (\<lambda>v. sv_job_id v = job) (scope_versions s)) v = Some vs \<and>
    lineage_agreement job vs s = agreement_of job v s"
  using v fuel
proof (induction n arbitrary: v)
  case 0
  then show ?case using version_okD(2)[OF scope_invD(5)[OF inv]] by (fastforce simp: scope_version_check_def)
next
  case (Suc n)
  have ok: "parent_ok s v" using version_okD(4)[OF scope_invD(5)[OF inv Suc.prems(1)]] .
  let ?vs = "filter (\<lambda>v. sv_job_id v = job) (scope_versions s)"
  show ?case
  proof (cases "sv_parent_version_id v")
    case None
    then show ?thesis by (simp add: agreement_step[OF inv Suc.prems(1)] lineage_agreement_def split: option.splits)
  next
    case (Some q)
    then obtain w where w: "row sv_id q (scope_versions s) = Some w" "sv_job_id w = job" "sv_sequence_number v = sv_sequence_number w + 1"
      using ok Suc.prems(2) by (auto simp: parent_ok_def)
    have r: "row sv_id q ?vs = Some w" by (rule row_filter[OF scope_invD(2)[OF inv] w(1)]) (rule w(2))
    have "nat (sv_sequence_number w) \<le> n" using Suc.prems(3) w(3) by linarith
    then obtain vs where vs: "lineage n ?vs w = Some vs" "lineage_agreement job vs s = agreement_of job w s"
      using Suc.IH[OF row_mem[OF w(1)] w(2)] by blast
    have "lineage_agreement job (v # vs) s = agreement_of job v s"
      using vs(2) by (simp add: agreement_step[OF inv Suc.prems(1)] Some w(1) lineage_agreement_def split: option.splits)
    then show ?thesis using Some r vs(1) by simp
  qed
qed

section \<open>Rooms\<close>

lemma mset_groups:
  "distinct ks \<Longrightarrow> mset (concat (map (\<lambda>i. filter (\<lambda>x. f x = i) xs) ks)) = mset (filter (\<lambda>x. f x \<in> set ks) xs)"
proof (induction ks)
  case (Cons k ks)
  have "mset (filter (\<lambda>x. f x = k) xs) + mset (filter (\<lambda>x. f x \<in> set ks) xs) = mset (filter (\<lambda>x. f x \<in> set (k # ks)) xs)"
    using Cons.prems by (induction xs) auto
  then show ?case using Cons by simp
qed simp

lemma concat_groups: "concat (map (rsg_items \<circ> room_group zs items) ks) = concat (map (\<lambda>i. filter (\<lambda>x. sri_room_zone_id x = i) items) ks)"
  by (simp add: room_group_def comp_def Let_def)

lemma groups_hold_items: "mset (concat (map rsg_items (room_groups ls zs items))) = mset items"
proof -
  let ?ks = "sort_key (zone_order ls zs) (remdups (map sri_room_zone_id items))"
  have "filter (\<lambda>x. sri_room_zone_id x \<in> set ?ks) items = items" by (simp add: filter_id_conv)
  then show ?thesis unfolding room_groups_def map_map concat_groups
    using mset_groups[of ?ks sri_room_zone_id items] by simp
qed

lemma room_groups_wf:
  assumes "g \<in> set (room_groups ls zs items)"
  shows "rsg_item_count g = length (rsg_items g)" "rsg_items g \<noteq> []" "x \<in> set (rsg_items g) \<Longrightarrow> sri_room_zone_id x = rsg_room_zone_id g"
proof -
  obtain i where "g = room_group zs items i" "i \<in> sri_room_zone_id ` set items" using assms by (auto simp: room_groups_def)
  then show "rsg_item_count g = length (rsg_items g)" "rsg_items g \<noteq> []" "x \<in> set (rsg_items g) \<Longrightarrow> sri_room_zone_id x = rsg_room_zone_id g"
    by (auto simp: room_group_def Let_def filter_empty_conv)
qed

lemma room_groups_distinct: "distinct (map rsg_room_zone_id (room_groups ls zs items))"
  by (simp add: room_groups_def comp_def room_group_def Let_def)

lemma review_item_key [simp]: "sri_item_key (scope_review_item a i) = item_key i"
  by (cases i) (simp_all add: scope_review_item_def Let_def)

section \<open>What a page was composed of\<close>

lemma pageE:
  assumes "get_scope_review n sign job pid role now s = Some (Inr v)"
  obtains j viewer c vs where "row mj_id job (move_jobs s) = Some j" "current_scope_of job s = Some c"
    "lineage n (filter (\<lambda>v. sv_job_id v = job) (scope_versions s)) c = Some vs" "review_view sign j viewer c vs now s = Inr v"
proof -
  note g = assms[unfolded get_scope_review_def current_scope_version_def]
  obtain j where j: "row mj_id job (move_jobs s) = Some j" using g by (auto split: option.splits)
  obtain w where w: "find (\<lambda>p. jp_id p = pid) (participants_of job s) = Some w" using g j by (auto split: option.splits)
  obtain c where c: "current_scope_of job s = Some c" using g j w by (auto split: option.splits if_splits)
  have "map_option (\<lambda>versions. review_view sign j w c versions now s) (lineage n (filter (\<lambda>v. sv_job_id v = job) (scope_versions s)) c) = Some (Inr v)"
    using g j w c by (auto split: if_splits)
  then show ?thesis using that j c by auto
qed

definition page_agreement :: "uuid \<Rightarrow> ScopeVersion \<Rightarrow> ScopeVersion list \<Rightarrow> db \<Rightarrow> ScopeProposal option" where
  "page_agreement job c versions s = (case proposal_for_result job (sv_id c) s of Some p \<Rightarrow> Some p | None \<Rightarrow> lineage_agreement job versions s)"

lemma viewE:
  assumes "review_view sign j w c vs now s = Inr v"
  obtains changes where "approved_change_summaries (mj_id j) s = Inr changes"
    "review_status_of (find (\<lambda>x. acs_result_scope_version_id x = sv_id c) (rev changes) \<noteq> None) (proposal_for_result (mj_id j) (sv_id c) s) =
       Inr (srs_status (srv_scope v))"
    "current_quote (find (\<lambda>x. acs_result_scope_version_id x = sv_id c) (rev changes)) (proposal_for_result (mj_id j) (sv_id c) s) = Inr (srv_quote v)"
    "srs_id (srv_scope v) = sv_id c" "srs_version_label (srv_scope v) = CHR ''v'' # int_text (sv_sequence_number c)"
    "srv_company_participation_status v = company_participation_status j now s"
    "srs_item_count (srv_scope v) = length (sc_items (sv_content c))"
    "srs_included_works (srv_scope v) = (case page_agreement (mj_id j) c vs s of None \<Rightarrow> [] | Some p \<Rightarrow> sp_included_works p)"
    "\<exists>ls zs. srs_room_groups (srv_scope v) = room_groups ls zs (map (scope_review_item (latest_analysis vs)) (sc_items (sv_content c)))"
    "srs_review_required_count (srv_scope v) = length (filter sri_review_required (concat (map rsg_items (srs_room_groups (srv_scope v)))))"
proof -
  note g = assms[unfolded review_view_def Let_def page_agreement_def[symmetric] if_Inl_Inr bindR_Inr sum.inject]
  show ?thesis by (insert g, elim exE conjE, hypsubst, rule that, assumption) (simp_all, intro exI, rule refl)
qed

definition shown_items :: "ScopeReviewView \<Rightarrow> ScopeReviewItem list" where
  "shown_items v = concat (map rsg_items (srs_room_groups (srv_scope v)))"

lemma page_of_version:
  assumes inv: "scope_inv s" and c: "current_scope_of job s = Some c" and fuel: "nat (sv_sequence_number c) \<le> n"
    and page: "get_scope_review n sign job pid role now s = Some (Inr v)"
  shows "srs_id (srv_scope v) = sv_id c" "mset (map sri_item_key (shown_items v)) = mset (map item_key (sc_items (sv_content c)))"
    "srs_item_count (srv_scope v) = length (shown_items v)"
    "srs_review_required_count (srv_scope v) = length (filter sri_review_required (shown_items v))"
    "distinct (map rsg_room_zone_id (srs_room_groups (srv_scope v)))"
    "g \<in> set (srs_room_groups (srv_scope v)) \<Longrightarrow> rsg_item_count g = length (rsg_items g) \<and> rsg_items g \<noteq> [] \<and>
       (\<forall>x \<in> set (rsg_items g). sri_room_zone_id x = rsg_room_zone_id g)"
    "srs_included_works (srv_scope v) = (case agreement_of job c s of None \<Rightarrow> [] | Some p \<Rightarrow> sp_included_works p)"
proof -
  obtain j w vs where j: "row mj_id job (move_jobs s) = Some j" "lineage n (filter (\<lambda>v. sv_job_id v = job) (scope_versions s)) c = Some vs"
      "review_view sign j w c vs now s = Inr v"
    using pageE[OF page] c by (metis option.inject)
  have cm: "c \<in> set (scope_versions s)" "sv_job_id c = job" using current_scope_mem[OF c] by auto
  have jid: "mj_id j = job" using row_key[OF j(1)] .
  let ?items = "map (scope_review_item (latest_analysis vs)) (sc_items (sv_content c))"
  obtain ls zs where g: "srs_room_groups (srv_scope v) = room_groups ls zs ?items" using viewE[OF j(3)] by metis
  have shown: "mset (shown_items v) = mset ?items" by (simp only: shown_items_def g groups_hold_items)
  show "srs_id (srv_scope v) = sv_id c" by (rule viewE[OF j(3)])
  show "mset (map sri_item_key (shown_items v)) = mset (map item_key (sc_items (sv_content c)))"
    using shown by (simp add: image_mset.compositionality comp_def)
  have "length (shown_items v) = length ?items" using shown by (metis size_mset)
  then show "srs_item_count (srv_scope v) = length (shown_items v)" using viewE[OF j(3)] by (metis length_map)
  show "srs_review_required_count (srv_scope v) = length (filter sri_review_required (shown_items v))"
    unfolding shown_items_def by (rule viewE[OF j(3)])
  show "distinct (map rsg_room_zone_id (srs_room_groups (srv_scope v)))" by (simp add: g room_groups_distinct)
  show "g \<in> set (srs_room_groups (srv_scope v)) \<Longrightarrow> rsg_item_count g = length (rsg_items g) \<and> rsg_items g \<noteq> [] \<and>
       (\<forall>x \<in> set (rsg_items g). sri_room_zone_id x = rsg_room_zone_id g)"
    unfolding g using room_groups_wf by blast
  have "lineage_agreement job vs s = agreement_of job c s" using lineage_ends[OF inv cm fuel] j(2) by simp
  then have "page_agreement job c vs s = agreement_of job c s"
    by (simp add: page_agreement_def agreement_step[OF inv cm(1)] split: option.splits)
  then show "srs_included_works (srv_scope v) = (case agreement_of job c s of None \<Rightarrow> [] | Some p \<Rightarrow> sp_included_works p)"
    using viewE[OF j(3)] jid by metis
qed

lemma page_returns:
  assumes "scope_inv s" "current_scope_of job s = Some c" "nat (sv_sequence_number c) \<le> n"
  shows "\<exists>r. get_scope_review n sign job pid role now s = Some r"
proof -
  have cm: "c \<in> set (scope_versions s)" "sv_job_id c = job" using current_scope_mem[OF assms(2)] by auto
  obtain vs where "lineage n (filter (\<lambda>v. sv_job_id v = job) (scope_versions s)) c = Some vs" using lineage_ends[OF assms(1) cm assms(3)] by blast
  then show ?thesis unfolding get_scope_review_def current_scope_version_def assms(2) by (simp split: option.split)
qed

section \<open>The page and the job list\<close>

lemma mapR_set: "mapR f xs = Inr ys \<Longrightarrow> set ys = {y. \<exists>x \<in> set xs. f x = Inr y}"
  by (induction xs arbitrary: ys) (auto simp: res_simps)

lemma mapR_all: "mapR f xs = Inr ys \<Longrightarrow> x \<in> set xs \<Longrightarrow> \<exists>y. f x = Inr y"
  by (induction xs arbitrary: ys) (auto simp: res_simps)

lemma approved_rows_iff:
  "(d, r) \<in> set (approved_rows job s) \<longleftrightarrow> r \<in> set (change_requests s) \<and> cr_job_id r = job \<and> cr_status r = CR_APPROVED \<and>
     row pd_change_request_id (cr_id r) (proposal_details s) = Some d"
  by (auto simp: approved_rows_def mem_map_filter split: option.splits)

lemma change_summary_parts:
  assumes "change_summary s (d, r) = Inr c"
  shows "cr_result_scope_version_id r = Some (acs_result_scope_version_id c)" "mk_quote (quote_from_change_detail d) = Inr (acs_quote c)"
  using assms by (auto simp: change_summary_def res_simps split: option.splits)

text \<open>Both readings find the same approved change of a version.\<close>

lemma listed_change:
  assumes inv: "money_inv s" and r: "(d, r) \<in> set (approved_rows job s)" "cr_result_scope_version_id r = Some i"
  shows "find (\<lambda>(d, x). x = Some i) (approved_details (\<lambda>k. k = job) s) = Some (d, Some i)"
proof (rule find_unique)
  have m: "r \<in> set (change_requests s)" "cr_job_id r = job" "cr_status r = CR_APPROVED" "row pd_change_request_id (cr_id r) (proposal_details s) = Some d"
    using r(1) by (simp_all add: approved_rows_iff)
  have d: "d \<in> set (proposal_details s)" "pd_change_request_id d = cr_id r" using row_mem[OF m(4)] row_key[OF m(4)] by simp_all
  have "row cr_id (cr_id r) (change_requests s) = Some r" by (rule row_of_mem[OF money_invD(1)[OF inv] m(1)])
  then show "(d, Some i) \<in> set (approved_details (\<lambda>k. k = job) s)" unfolding approved_details_iff using d m(2,3) r(2) by auto
  show "case (d, Some i) of (d, x) \<Rightarrow> x = Some i" by simp
  fix x assume x: "x \<in> set (approved_details (\<lambda>k. k = job) s)" "case x of (d, x) \<Rightarrow> x = Some i"
  then obtain e where e: "x = (e, Some i)" by (cases x) auto
  obtain q where q: "e \<in> set (proposal_details s)" "row cr_id (pd_change_request_id e) (change_requests s) = Some q" "cr_result_scope_version_id q = Some i"
    using x(1) unfolding e approved_details_iff by auto
  have "q = r" by (rule money_invD(4)[OF inv row_mem[OF q(2)] m(1) q(3) r(2)])
  then have "pd_change_request_id e = pd_change_request_id d" using row_key[OF q(2)] d(2) by simp
  then show "x = (d, Some i)" using distinct_map_eq[OF money_invD(2)[OF inv] q(1) d(1)] e by simp
qed

lemma unlisted_change:
  assumes inv: "money_inv s" and x: "(e, Some i) \<in> set (approved_details (\<lambda>k. k = job) s)"
  shows "\<exists>r. (e, r) \<in> set (approved_rows job s) \<and> cr_result_scope_version_id r = Some i"
proof -
  obtain q where q: "e \<in> set (proposal_details s)" "row cr_id (pd_change_request_id e) (change_requests s) = Some q" "cr_job_id q = job"
      "cr_status q = CR_APPROVED" "cr_result_scope_version_id q = Some i"
    using x unfolding approved_details_iff by auto
  have "row pd_change_request_id (cr_id q) (proposal_details s) = Some e"
    using row_of_mem[OF money_invD(2)[OF inv] q(1)] row_key[OF q(2)] by simp
  then show ?thesis using q row_mem[OF q(2)] by (auto simp: approved_rows_iff)
qed

lemma same_change:
  assumes inv: "money_inv s" and cs: "approved_change_summaries job s = Inr changes"
  shows "case find (\<lambda>x. acs_result_scope_version_id x = i) (rev changes) of
      None \<Rightarrow> find (\<lambda>(d, x). x = Some i) (approved_details (\<lambda>k. k = job) s) = None
    | Some c \<Rightarrow> (\<exists>d. find (\<lambda>(d, x). x = Some i) (approved_details (\<lambda>k. k = job) s) = Some (d, Some i) \<and>
        mk_quote (quote_from_change_detail d) = Inr (acs_quote c))"
proof (cases "find (\<lambda>x. acs_result_scope_version_id x = i) (rev changes)")
  case (Some c)
  then have "c \<in> set changes" "acs_result_scope_version_id c = i" using find_mem[OF Some] by auto
  then obtain d r where "(d, r) \<in> set (approved_rows job s)" "change_summary s (d, r) = Inr c"
    using mapR_set[OF cs[unfolded approved_change_summaries_def]] by auto
  then show ?thesis using listed_change[OF inv] change_summary_parts \<open>acs_result_scope_version_id c = i\<close> Some by fastforce
next
  case None
  have "\<not> (e, Some i) \<in> set (approved_details (\<lambda>k. k = job) s)" for e
  proof
    assume "(e, Some i) \<in> set (approved_details (\<lambda>k. k = job) s)"
    then obtain r where r: "(e, r) \<in> set (approved_rows job s)" "cr_result_scope_version_id r = Some i" using unlisted_change[OF inv] by blast
    obtain c where c: "change_summary s (e, r) = Inr c" using mapR_all[OF cs[unfolded approved_change_summaries_def] r(1)] by blast
    then have "c \<in> set changes" using mapR_set[OF cs[unfolded approved_change_summaries_def]] r(1) by auto
    then show False using None change_summary_parts(1)[OF c] r(2) by (auto simp: find_None_iff)
  qed
  then show ?thesis unfolding None option.case find_None_iff by blast
qed

lemma same_company: "company_participation_status j now s = company_status j now s"
  by (auto simp: company_participation_status_def company_status_def company_status_from_invitation_def
      split: option.splits InvitationStatus.splits)

text \<open>The list reads the job's last proposal; the page the one of the current version.\<close>

definition change_of_version :: "uuid \<Rightarrow> uuid \<Rightarrow> db \<Rightarrow> ChangeProposalDetail option" where
  "change_of_version job i s = map_option fst (find (\<lambda>(d, x). x = Some i) (approved_details (\<lambda>k. k = job) s))"

definition last_proposal_is_current :: "uuid \<Rightarrow> uuid \<Rightarrow> db \<Rightarrow> bool" where
  "last_proposal_is_current job i s = (if change_of_version job i s = None then latest_proposal job s = proposal_for_result job i s
     else map_option sp_status (latest_proposal job s) = Some SP_CONFIRMED)"

text \<open>Both describe the same version: its number after the letter, its items, and the company.\<close>

definition same_version :: "MoveJobSummaryResponse \<Rightarrow> ScopeReviewView \<Rightarrow> bool" where
  "same_version m v = (tl (mjs_version_label m) = tl (srs_version_label (srv_scope v)) \<and>
     mjs_company_participation_status m = srv_company_participation_status v \<and> mjs_item_count m = srs_item_count (srv_scope v))"

lemma list_of_page:
  assumes inv: "money_inv s" and page: "get_scope_review n sign job pid role now s = Some (Inr v)" and j: "row mj_id job (move_jobs s) = Some j"
  obtains c where "current_scope_of job s = Some c" "srs_id (srv_scope v) = sv_id c"
    "change_of_version job (sv_id c) s = None \<Longrightarrow> review_status_of False (proposal_for_result job (sv_id c) s) = Inr (srs_status (srv_scope v)) \<and>
       current_quote None (proposal_for_result job (sv_id c) s) = Inr (srv_quote v)"
    "change_of_version job (sv_id c) s \<noteq> None \<Longrightarrow> srs_status (srv_scope v) = REVIEW_CONFIRMED"
    "\<And>q. (change_of_version job (sv_id c) s \<noteq> None \<Longrightarrow> q = srv_quote v) \<Longrightarrow>
       (change_of_version job (sv_id c) s = None \<Longrightarrow> current_quote None (latest_proposal job s) = Inr q) \<Longrightarrow>
       \<exists>m. move_summary j role now s = Inr m \<and> mjs_quote m = q \<and> mjs_scope_status m = scope_status (latest_proposal job s) \<and>
         same_version m v"
proof -
  obtain w c vs where c: "current_scope_of job s = Some c" and view: "review_view sign j w c vs now s = Inr v"
    using pageE[OF page] j by (metis option.inject)
  have jid: "mj_id j = job" using row_key[OF j] .
  obtain changes where ch: "approved_change_summaries job s = Inr changes"
    "review_status_of (find (\<lambda>x. acs_result_scope_version_id x = sv_id c) (rev changes) \<noteq> None) (proposal_for_result job (sv_id c) s) =
       Inr (srs_status (srv_scope v))"
    "current_quote (find (\<lambda>x. acs_result_scope_version_id x = sv_id c) (rev changes)) (proposal_for_result job (sv_id c) s) = Inr (srv_quote v)"
    using viewE[OF view] unfolding jid by metis
  have sh: "srs_id (srv_scope v) = sv_id c" "srs_version_label (srv_scope v) = CHR ''v'' # int_text (sv_sequence_number c)"
    "srv_company_participation_status v = company_participation_status j now s"
    "srs_item_count (srv_scope v) = length (sc_items (sv_content c))"
    by (rule viewE[OF view], assumption)+
  let ?f = "find (\<lambda>x. acs_result_scope_version_id x = sv_id c) (rev changes)"
  note same = same_change[OF inv ch(1), of "sv_id c"]
  have f: "change_of_version job (sv_id c) s = None \<longleftrightarrow> ?f = None" using same by (cases ?f) (auto simp: change_of_version_def)
  have summary: "\<exists>m. move_summary j role now s = Inr m \<and> mjs_quote m = q \<and> mjs_scope_status m = scope_status (latest_proposal job s) \<and>
         same_version m v"
    if "summary_quote (latest_proposal job s) (change_of_version job (sv_id c) s) = Inr q" for q
    using that sh by (simp add: move_summary_def jid c change_of_version_def[symmetric] move_summary_response_def same_company same_version_def)
  show ?thesis
  proof (rule that[OF c sh(1)])
    assume "change_of_version job (sv_id c) s = None"
    then have "?f = None" using f by simp
    then show "review_status_of False (proposal_for_result job (sv_id c) s) = Inr (srs_status (srv_scope v)) \<and>
       current_quote None (proposal_for_result job (sv_id c) s) = Inr (srv_quote v)" using ch(2,3) by simp
  next
    assume "change_of_version job (sv_id c) s \<noteq> None"
    then show "srs_status (srv_scope v) = REVIEW_CONFIRMED" using f ch(2) by (simp add: review_status_of_def)
  next
    fix q assume q: "change_of_version job (sv_id c) s \<noteq> None \<Longrightarrow> q = srv_quote v"
      "change_of_version job (sv_id c) s = None \<Longrightarrow> current_quote None (latest_proposal job s) = Inr q"
    have "summary_quote (latest_proposal job s) (change_of_version job (sv_id c) s) = Inr q"
    proof (cases ?f)
      case None
      then show ?thesis using q(2) f by (simp add: summary_quote_def current_quote_def)
    next
      case (Some x)
      then obtain d where "change_of_version job (sv_id c) s = Some d" "mk_quote (quote_from_change_detail d) = Inr (acs_quote x)"
        using same by (auto simp: change_of_version_def)
      then show ?thesis using q(1) ch(3) Some by (simp add: summary_quote_def current_quote_def)
    qed
    then show "\<exists>m. move_summary j role now s = Inr m \<and> mjs_quote m = q \<and> mjs_scope_status m = scope_status (latest_proposal job s) \<and>
         same_version m v"
      by (rule summary)
  qed
qed

section \<open>Properties\<close>

text \<open>Property C31: the review page always returns when the walk is given the number of the current
  version as fuel, and what it shows is complete. Every item of the current version appears exactly
  once; the rooms are distinct, not empty, and hold the items of that room; the counts are those of
  the items shown; and the works are those of the nearest agreement on the way to the first version,
  the reference reading the confirmation history is compared with.\<close>

theorem review_shows_every_item_once:
  assumes inv: "scope_inv s" and c: "current_scope_of job s = Some c" and fuel: "nat (sv_sequence_number c) \<le> n"
  shows "\<exists>r. get_scope_review n sign job pid role now s = Some r \<and> (\<forall>v. r = Inr v \<longrightarrow>
    srs_id (srv_scope v) = sv_id c \<and> mset (map sri_item_key (shown_items v)) = mset (map item_key (sc_items (sv_content c))) \<and>
    distinct (map rsg_room_zone_id (srs_room_groups (srv_scope v))) \<and>
    (\<forall>g \<in> set (srs_room_groups (srv_scope v)). rsg_item_count g = length (rsg_items g) \<and> rsg_items g \<noteq> [] \<and>
       (\<forall>x \<in> set (rsg_items g). sri_room_zone_id x = rsg_room_zone_id g)) \<and>
    srs_item_count (srv_scope v) = length (shown_items v) \<and>
    srs_review_required_count (srv_scope v) = length (filter sri_review_required (shown_items v)) \<and>
    srs_included_works (srv_scope v) = (case agreement_of job c s of None \<Rightarrow> [] | Some p \<Rightarrow> sp_included_works p))"
proof -
  obtain r where r: "get_scope_review n sign job pid role now s = Some r" using page_returns[OF inv c fuel] by blast
  show ?thesis
  proof (intro exI conjI allI impI ballI, rule r)
    fix v assume "r = Inr v"
    note shown = page_of_version[OF inv c fuel r[unfolded this]]
    show "srs_id (srv_scope v) = sv_id c" "mset (map sri_item_key (shown_items v)) = mset (map item_key (sc_items (sv_content c)))"
      "distinct (map rsg_room_zone_id (srs_room_groups (srv_scope v)))" "srs_item_count (srv_scope v) = length (shown_items v)"
      "srs_review_required_count (srv_scope v) = length (filter sri_review_required (shown_items v))"
      "srs_included_works (srv_scope v) = (case agreement_of job c s of None \<Rightarrow> [] | Some p \<Rightarrow> sp_included_works p)"
      by (fact shown)+
    fix g assume "g \<in> set (srs_room_groups (srv_scope v))"
    then show "rsg_item_count g = length (rsg_items g)" "rsg_items g \<noteq> []"
        "\<And>x. x \<in> set (rsg_items g) \<Longrightarrow> sri_room_zone_id x = rsg_room_zone_id g"
      using shown(6) by blast+
  qed
qed

text \<open>Property C32: the list of jobs agrees with the review page when the job's last proposal is the one
  of the current version, or when the current version came from an approved change and the last
  proposal is confirmed: same version number, review status, company status, item count and quote.\<close>

theorem list_agrees_with_review:
  assumes inv: "money_inv s" and page: "get_scope_review n sign job pid role now s = Some (Inr v)"
    and j: "row mj_id job (move_jobs s) = Some j" and last: "last_proposal_is_current job (srs_id (srv_scope v)) s"
  shows "\<exists>m. move_summary j role now s = Inr m \<and> same_version m v \<and>
    mjs_scope_status m = srs_status (srv_scope v) \<and> mjs_quote m = srv_quote v"
proof (rule list_of_page[OF inv page j])
  fix c assume cur: "current_scope_of job s = Some c" and c: "srs_id (srv_scope v) = sv_id c"
    "change_of_version job (sv_id c) s = None \<Longrightarrow> review_status_of False (proposal_for_result job (sv_id c) s) = Inr (srs_status (srv_scope v)) \<and>
       current_quote None (proposal_for_result job (sv_id c) s) = Inr (srv_quote v)"
    "change_of_version job (sv_id c) s \<noteq> None \<Longrightarrow> srs_status (srv_scope v) = REVIEW_CONFIRMED"
    and list: "\<And>q. (change_of_version job (sv_id c) s \<noteq> None \<Longrightarrow> q = srv_quote v) \<Longrightarrow>
       (change_of_version job (sv_id c) s = None \<Longrightarrow> current_quote None (latest_proposal job s) = Inr q) \<Longrightarrow>
       \<exists>m. move_summary j role now s = Inr m \<and> mjs_quote m = q \<and> mjs_scope_status m = scope_status (latest_proposal job s) \<and>
         same_version m v"
  note last = last[unfolded last_proposal_is_current_def c(1)]
  have "scope_status (latest_proposal job s) = srs_status (srv_scope v)"
    using last c(2,3) by (cases "change_of_version job (sv_id c) s")
      (auto simp: review_status_of_def scope_status_def split: option.splits ScopeProposalStatus.splits)
  moreover have "current_quote None (latest_proposal job s) = Inr (srv_quote v)" if "change_of_version job (sv_id c) s = None"
    using last c(2) that by simp
  ultimately show ?thesis using list[of "srv_quote v"] by auto
qed

text \<open>Property C33: after a new version without a quote, the list still shows the quote and the status
  of the last proposal next to the number of the new version, while the page shows no quote and a
  version awaiting the company.\<close>

theorem list_keeps_old_quote:
  assumes inv: "money_inv s" and page: "get_scope_review n sign job pid role now s = Some (Inr v)"
    and j: "row mj_id job (move_jobs s) = Some j" and latest: "latest_proposal job s = Some p" and quote: "quote_ok (quote_from_proposal p)"
    and unquoted: "proposal_for_result job (srs_id (srv_scope v)) s = None" "change_of_version job (srs_id (srv_scope v)) s = None"
  shows "srv_quote v = None \<and> srs_status (srv_scope v) = REVIEW_COMPANY \<and> (\<exists>m. move_summary j role now s = Inr m \<and>
    same_version m v \<and> mjs_quote m = Some (quote_from_proposal p) \<and>
    mjs_scope_status m = scope_status (Some p))"
proof (rule list_of_page[OF inv page j])
  fix c assume cur: "current_scope_of job s = Some c" and c: "srs_id (srv_scope v) = sv_id c"
    "change_of_version job (sv_id c) s = None \<Longrightarrow> review_status_of False (proposal_for_result job (sv_id c) s) = Inr (srs_status (srv_scope v)) \<and>
       current_quote None (proposal_for_result job (sv_id c) s) = Inr (srv_quote v)"
    "change_of_version job (sv_id c) s \<noteq> None \<Longrightarrow> srs_status (srv_scope v) = REVIEW_CONFIRMED"
    and list: "\<And>q. (change_of_version job (sv_id c) s \<noteq> None \<Longrightarrow> q = srv_quote v) \<Longrightarrow>
       (change_of_version job (sv_id c) s = None \<Longrightarrow> current_quote None (latest_proposal job s) = Inr q) \<Longrightarrow>
       \<exists>m. move_summary j role now s = Inr m \<and> mjs_quote m = q \<and> mjs_scope_status m = scope_status (latest_proposal job s) \<and>
         same_version m v"
  have "review_status_of False None = Inr (srs_status (srv_scope v))" "current_quote None None = Inr (srv_quote v)"
    using c(2) unquoted[unfolded c(1)] by simp_all
  moreover have "current_quote None (latest_proposal job s) = Inr (Some (quote_from_proposal p))"
    using latest quote by (simp add: current_quote_def mk_quote_def)
  ultimately show ?thesis using list[of "Some (quote_from_proposal p)"] unquoted(2)[unfolded c(1)] latest
    by (auto simp: review_status_of_def current_quote_def)
qed

section \<open>Witnesses\<close>

definition sample_page :: db where
  "sample_page = sample_review\<lparr>move_jobs := [sample_move 51 1],
     locations := [\<lparr>loc_id = 5, loc_job_id = 51, loc_kind = ORIGIN, loc_label = ''home'', loc_detail_address = None,
       loc_conditions = default_conditions, loc_created_at = 0\<rparr>]\<rparr>"

text \<open>A second version of the customer on top of the quoted one.\<close>

definition sample_newer :: db where
  "sample_newer = sample_page\<lparr>scope_versions := scope_versions sample_page @
     [(sample_version 62 51 52 None)\<lparr>sv_parent_version_id := Some 61, sv_sequence_number := 3\<rparr>]\<rparr>"

lemma sample_page_inv: "scope_inv sample_page" "money_inv sample_page" "money_inv sample_newer"
proof -
  show "scope_inv sample_page"
    by (auto simp: scope_inv_def fresh_supply_def version_ok_def approval_ok_def parent_ok_def scope_version_check_def sample_page_def
        content_hash_of_def approval_roles_of_def is_participant_def drawn_ids_def scope_approval_check_def sample_review_defs)
  show "money_inv sample_page" "money_inv sample_newer"
    by (simp_all add: money_inv_def sample_newer_def sample_page_def sample_review_defs)
qed

lemma sample_views:
  "\<exists>v. get_scope_review 2 (\<lambda>_ _. Inl ValueError) 51 52 CUSTOMER 9 sample_page = Some (Inr v) \<and> srs_id (srv_scope v) = 61"
  "\<exists>v. get_scope_review 3 (\<lambda>_ _. Inl ValueError) 51 52 CUSTOMER 9 sample_newer = Some (Inr v) \<and> srs_id (srv_scope v) = 62"
proof -
  have "case get_scope_review 2 (\<lambda>_ _. Inl ValueError) 51 52 CUSTOMER 9 sample_page of Some (Inr v) \<Rightarrow> srs_id (srv_scope v) = 61 | _ \<Rightarrow> False"
    "case get_scope_review 3 (\<lambda>_ _. Inl ValueError) 51 52 CUSTOMER 9 sample_newer of Some (Inr v) \<Rightarrow> srs_id (srv_scope v) = 62 | _ \<Rightarrow> False"
    by code_simp+
  then show "\<exists>v. get_scope_review 2 (\<lambda>_ _. Inl ValueError) 51 52 CUSTOMER 9 sample_page = Some (Inr v) \<and> srs_id (srv_scope v) = 61"
    "\<exists>v. get_scope_review 3 (\<lambda>_ _. Inl ValueError) 51 52 CUSTOMER 9 sample_newer = Some (Inr v) \<and> srs_id (srv_scope v) = 62"
    by (auto split: option.splits sum.splits)
qed

lemma sample_job: "row mj_id 51 (move_jobs sample_page) = Some (sample_move 51 1)" "row mj_id 51 (move_jobs sample_newer) = Some (sample_move 51 1)"
  by (simp_all add: sample_newer_def sample_page_def sample_move_def)

lemma sample_current: "current_scope_of 51 sample_page = Some ((sample_version 61 51 53 None)\<lparr>sv_parent_version_id := Some 60, sv_sequence_number := 2\<rparr>)"
  by (simp add: current_scope_of_def sample_page_def sample_review_defs)

lemma sample_last: "latest_proposal 51 s = Some (new_proposal 70 51 53 61 INITIAL (sample_command 60) 7)"
  "change_of_version 51 i s = None" "proposal_for_result 51 61 s = Some (new_proposal 70 51 53 61 INITIAL (sample_command 60) 7)"
  "proposal_for_result 51 62 s = None" if "s \<in> {sample_page, sample_newer}"
  using that by (auto simp: latest_proposal_def change_of_version_def approved_details_def proposal_for_result_def map_filter_simps
      sample_newer_def sample_page_def sample_review_defs)

lemma review_shows_every_item_once_witness:
  "\<exists>v. get_scope_review 2 (\<lambda>_ _. Inl ValueError) 51 52 CUSTOMER 9 sample_page = Some (Inr v) \<and>
     map sri_item_key (shown_items v) = [''a''] \<and> srs_item_count (srv_scope v) = 1"
proof -
  obtain v where v: "get_scope_review 2 (\<lambda>_ _. Inl ValueError) 51 52 CUSTOMER 9 sample_page = Some (Inr v)" using sample_views(1) by blast
  let ?c = "(sample_version 61 51 53 None)\<lparr>sv_parent_version_id := Some 60, sv_sequence_number := 2\<rparr>"
  have "nat (sv_sequence_number ?c) \<le> 2" by simp
  from review_shows_every_item_once[OF sample_page_inv(1) sample_current this, of "\<lambda>_ _. Inl ValueError" 52 CUSTOMER 9]
  have shown: "mset (map sri_item_key (shown_items v)) = mset (map item_key (sc_items (sv_content ?c)))"
    "srs_item_count (srv_scope v) = length (shown_items v)" using v by simp_all
  moreover have "map item_key (sc_items (sv_content ?c)) = [''a'']" by (simp add: sample_scope_defs)
  ultimately have keys: "map sri_item_key (shown_items v) = [''a'']" by (metis mset_single_iff_right mset_single_iff mset.simps)
  then have "length (shown_items v) = 1" by (metis length_map One_nat_def length_Cons list.size(3))
  then show ?thesis using v keys shown(2) by simp
qed

lemma list_agrees_with_review_witness:
  "\<exists>v m. get_scope_review 2 (\<lambda>_ _. Inl ValueError) 51 52 CUSTOMER 9 sample_page = Some (Inr v) \<and>
     move_summary (sample_move 51 1) CUSTOMER 9 sample_page = Inr m \<and> mjs_quote m = srv_quote v \<and> mjs_scope_status m = srs_status (srv_scope v)"
proof -
  obtain v where v: "get_scope_review 2 (\<lambda>_ _. Inl ValueError) 51 52 CUSTOMER 9 sample_page = Some (Inr v)" "srs_id (srv_scope v) = 61"
    using sample_views(1) by blast
  have "last_proposal_is_current 51 (srs_id (srv_scope v)) sample_page" by (simp add: last_proposal_is_current_def v(2) sample_last)
  from list_agrees_with_review[OF sample_page_inv(2) v(1) sample_job(1) this] v(1) show ?thesis by blast
qed

lemma list_keeps_old_quote_witness:
  "\<exists>v m. get_scope_review 3 (\<lambda>_ _. Inl ValueError) 51 52 CUSTOMER 9 sample_newer = Some (Inr v) \<and> srv_quote v = None \<and>
     move_summary (sample_move 51 1) CUSTOMER 9 sample_newer = Inr m \<and> mjs_quote m = Some sample_quote \<and> mjs_scope_status m = REVIEW_CUSTOMER"
proof -
  let ?p = "new_proposal 70 51 53 61 INITIAL (sample_command 60) 7"
  obtain v where v: "get_scope_review 3 (\<lambda>_ _. Inl ValueError) 51 52 CUSTOMER 9 sample_newer = Some (Inr v)" "srs_id (srv_scope v) = 62"
    using sample_views(2) by blast
  have p: "latest_proposal 51 sample_newer = Some ?p" by (simp add: sample_last)
  have q: "quote_from_proposal ?p = sample_quote" "scope_status (Some ?p) = REVIEW_CUSTOMER"
    by (simp_all add: quote_from_proposal_def scope_status_def new_proposal_def sample_command_def sample_quote_def)
  have ok: "quote_ok (quote_from_proposal ?p)" unfolding q(1) by code_simp
  have none: "proposal_for_result 51 (srs_id (srv_scope v)) sample_newer = None" "change_of_version 51 (srs_id (srv_scope v)) sample_newer = None"
    by (simp_all add: v(2) sample_last)
  from list_keeps_old_quote[OF sample_page_inv(3) v(1) sample_job(2) p ok none] v(1) q show ?thesis by auto
qed

end
