(* ===== verification/JobApi.thy ===== *)
theory JobApi
  imports ReviewPage ContactPoints Dispatch Completion Notification AnalysisWorkflow
begin

text \<open>
  The routes of a job: the endpoints of \<open>app/modules/*/router.py\<close> under \<open>/move-jobs/{job_id}\<close>, apart from the
  eight of \<open>access/router.py\<close> for invitations and access links, which are in AccessApi. An endpoint
  authorizes the actor, calls one service and turns the exceptions its \<open>except\<close> clauses name into
  answers; any other exception stays \<open>Unhandled\<close> and is answered 500. Request bodies are parsed, so an
  ill-formed one is answered 422 before the endpoint; the header \<open>Cache-Control\<close> is not modelled. The actor
  comes from \<open>get_current_actor\<close>. Lemmas are in JobApiProofs.
\<close>

section \<open>Authorization, errors and the storage port\<close>

record storage_port =
  read_url :: "string \<Rightarrow> string \<Rightarrow> string result"
  upload_url :: "string \<Rightarrow> string \<Rightarrow> int \<Rightarrow> (string \<times> (string \<times> string) list) result"
  object_metadata :: "string \<Rightarrow> port_error + StorageObjectMetadata"

text \<open>What an endpoint reads of \<open>request.app.state\<close>.\<close>

record app_state =
  media_retention_days :: "int option"
  app_storage :: "storage_port option"

text \<open>A participant has an identifier and a role (\<open>ActorContext\<close> demands both), so the casts of the endpoints
  never fail.\<close>

definition authorized ::
    "ActorContext \<Rightarrow> uuid \<Rightarrow> ParticipantRole list option \<Rightarrow> (uuid \<Rightarrow> ParticipantRole \<Rightarrow> http_error + 'a) \<Rightarrow> http_error + 'a" where
  "authorized a job_id roles f = (case authorize_job_actor a job_id roles of Some e \<Rightarrow> Inl e
   | None \<Rightarrow> (case (ac_participant_id a, ac_participant_role a) of (Some p, Some r) \<Rightarrow> f p r | _ \<Rightarrow> Inl (Unhandled AssertionError)))"

definition answer :: "(exn \<Rightarrow> http_error) \<Rightarrow> 'a result \<Rightarrow> http_error + 'a" where
  "answer handler m = (case m of Inl e \<Rightarrow> Inl (handler e) | Inr x \<Rightarrow> Inr x)"

definition except_clause :: "exn list \<Rightarrow> http_error \<Rightarrow> (exn \<Rightarrow> http_error) \<Rightarrow> exn \<Rightarrow> http_error" where
  "except_clause classes h rest e = (if e \<in> set classes then h else rest e)"

definition storage_error :: "ProviderErrorKind \<Rightarrow> http_error" where
  "storage_error kind = (if kind \<in> {NOT_FOUND, CONFLICT, INVALID_INPUT} then HTTPException 409 ''media object is not ready''
     else HTTPException 503 ''storage is unavailable'')"

definition except_provider :: "(exn \<Rightarrow> http_error) \<Rightarrow> exn \<Rightarrow> http_error" where
  "except_provider rest e = (case e of PortError (ProviderError kind retryable) \<Rightarrow> storage_error kind | _ \<Rightarrow> rest e)"

definition get_storage_port :: "app_state \<Rightarrow> uuid \<Rightarrow> ActorContext \<Rightarrow> http_error + storage_port" where
  "get_storage_port app job_id a = (case authorize_job_actor a job_id None of Some e \<Rightarrow> Inl e
   | None \<Rightarrow> (case app_storage app of None \<Rightarrow> Inl (HTTPException 503 ''storage is unavailable'') | Some st \<Rightarrow> Inr st))"

definition with_storage :: "app_state \<Rightarrow> uuid \<Rightarrow> ActorContext \<Rightarrow> (storage_port \<Rightarrow> http_error + 'a) \<Rightarrow> http_error + 'a" where
  "with_storage app job_id a f = (case get_storage_port app job_id a of Inl e \<Rightarrow> Inl e | Inr st \<Rightarrow> f st)"

definition retention_days :: "app_state \<Rightarrow> http_error + int" where
  "retention_days app = (case media_retention_days app of
     None \<Rightarrow> Inl (HTTPException 503 ''media retention policy is unavailable'') | Some d \<Rightarrow> Inr d)"

definition with_retention :: "app_state \<Rightarrow> (int \<Rightarrow> http_error + 'a) \<Rightarrow> http_error + 'a" where
  "with_retention app f = (case retention_days app of Inl e \<Rightarrow> Inl e | Inr d \<Rightarrow> f d)"

section \<open>Scope\<close>

definition APPROVER_ROLES :: "ParticipantRole list" where
  "APPROVER_ROLES = [CUSTOMER, COMPANY_MANAGER]"

text \<open>\<open>_change_error\<close>, for the classes an endpoint catches.\<close>

definition change_error :: "exn \<Rightarrow> http_error" where
  "change_error e = (if e = ScopeResourceNotFoundError then HTTPException 404 ''change resource not found''
     else if e = ChangeRequestInvalidError then HTTPException 422 ''change request is invalid''
     else HTTPException 409 ''change request state conflict'')"

definition except_change :: "exn list \<Rightarrow> (exn \<Rightarrow> http_error) \<Rightarrow> exn \<Rightarrow> http_error" where
  "except_change classes rest e = (if e \<in> set classes then change_error e else rest e)"

definition create_scope_version_endpoint ::
    "uuid \<Rightarrow> uuid option \<Rightarrow> ScopeContent \<Rightarrow> ActorContext \<Rightarrow> instant \<Rightarrow> db \<Rightarrow> http_error + ScopeVersionResponse \<times> db" where
  "create_scope_version_endpoint job_id parent content a now s = authorized a job_id (Some APPROVER_ROLES) (\<lambda>p r.
     answer (except_clause [ScopeResourceNotFoundError] (HTTPException 404 ''scope resource not found'')
         (except_clause [ScopeVersionConflictError] (HTTPException 409 ''scope parent is no longer current'') Unhandled))
       (create_scope_version job_id (Some p) parent content None False now s))"

definition list_scope_versions_endpoint :: "uuid \<Rightarrow> ActorContext \<Rightarrow> db \<Rightarrow> http_error + ScopeVersionResponse list" where
  "list_scope_versions_endpoint job_id a s = authorized a job_id (Some APPROVER_ROLES) (\<lambda>p r. Inr (list_scope_versions job_id s))"

definition approve_scope_version_endpoint ::
    "uuid \<Rightarrow> uuid \<Rightarrow> ActorContext \<Rightarrow> instant \<Rightarrow> db \<Rightarrow> http_error + ScopeApprovalResult \<times> db" where
  "approve_scope_version_endpoint job_id version_id a now s = authorized a job_id (Some APPROVER_ROLES) (\<lambda>p r.
     answer (except_clause [ScopeResourceNotFoundError] (HTTPException 404 ''scope resource not found'')
         (except_clause [ScopeApprovalConflictError] (HTTPException 409 ''scope version cannot be approved'') Unhandled))
       (approve_scope_version job_id version_id p r (Some (ac_trace_id a)) now s))"

definition create_change_request_endpoint ::
    "uuid \<Rightarrow> ChangeRequestCreate \<Rightarrow> ActorContext \<Rightarrow> instant \<Rightarrow> db \<Rightarrow> http_error + ChangeRequestResponse \<times> db" where
  "create_change_request_endpoint job_id cmd a now s = authorized a job_id (Some [FIELD_WORKER]) (\<lambda>p r.
     answer (except_change [ScopeResourceNotFoundError, ChangeRequestConflictError, ChangeRequestInvalidError] Unhandled)
       (create_change_request job_id p cmd (Some (ac_trace_id a)) now s))"

definition list_change_requests_endpoint :: "uuid \<Rightarrow> ActorContext \<Rightarrow> db \<Rightarrow> http_error + ChangeRequestResponse list" where
  "list_change_requests_endpoint job_id a s = authorized a job_id None (\<lambda>p r. Inr (list_change_requests job_id s))"

text \<open>The service call picks the object; the adapter signs the URL.\<close>

definition create_change_evidence_read_url_endpoint ::
    "app_state \<Rightarrow> uuid \<Rightarrow> uuid \<Rightarrow> uuid \<Rightarrow> ActorContext \<Rightarrow> instant \<Rightarrow> db \<Rightarrow> http_error + uuid \<times> string \<times> instant" where
  "create_change_evidence_read_url_endpoint app job_id request_id asset_id a now s =
     authorized a job_id (Some APPROVER_ROLES) (\<lambda>p r. with_storage app job_id a (\<lambda>st.
     answer (except_change [ScopeResourceNotFoundError] (except_change [ChangeRequestConflictError] (except_provider Unhandled)))
       (bindR (change_evidence_to_read job_id request_id asset_id p s) (\<lambda>(key, generation).
        bindR (read_url st key generation) (\<lambda>url. Inr (asset_id, url, now + seconds READ_URL_TTL_SECONDS))))))"

definition request_change_clarification_endpoint ::
    "uuid \<Rightarrow> uuid \<Rightarrow> string \<Rightarrow> ActorContext \<Rightarrow> instant \<Rightarrow> db \<Rightarrow> http_error + ChangeRequestResponse \<times> db" where
  "request_change_clarification_endpoint job_id i message a now s = authorized a job_id (Some APPROVER_ROLES) (\<lambda>p r.
     answer (except_change [ScopeResourceNotFoundError, ChangeRequestConflictError] Unhandled)
       (request_change_clarification job_id i p message now s))"

definition explain_change_request_endpoint ::
    "uuid \<Rightarrow> uuid \<Rightarrow> string \<Rightarrow> ActorContext \<Rightarrow> instant \<Rightarrow> db \<Rightarrow> http_error + ChangeRequestResponse \<times> db" where
  "explain_change_request_endpoint job_id i explanation a now s = authorized a job_id (Some [FIELD_WORKER]) (\<lambda>p r.
     answer (except_change [ScopeResourceNotFoundError, ChangeRequestConflictError] Unhandled)
       (explain_change_request job_id i p explanation now s))"

definition decide_change_request_endpoint ::
    "uuid \<Rightarrow> uuid \<Rightarrow> ChangeDecisionCreate \<Rightarrow> ActorContext \<Rightarrow> instant \<Rightarrow> db \<Rightarrow> http_error + ChangeRequestResponse \<times> db" where
  "decide_change_request_endpoint job_id i cmd a now s = authorized a job_id (Some APPROVER_ROLES) (\<lambda>p r.
     answer (except_change [ScopeResourceNotFoundError, ChangeRequestConflictError] Unhandled)
       (decide_change_request job_id i p cmd now s))"

section \<open>Scope review\<close>

definition REVIEW_ROLES :: "ParticipantRole list" where
  "REVIEW_ROLES = [CUSTOMER, COMPANY_MANAGER, FIELD_WORKER]"

definition CONFIRMATION_HISTORY_ROLES :: "ParticipantRole list" where
  "CONFIRMATION_HISTORY_ROLES = [CUSTOMER, COMPANY_MANAGER]"

definition review_not_found :: http_error where
  "review_not_found = HTTPException 404 ''scope review resource not found''"

definition review_conflict :: http_error where
  "review_conflict = HTTPException 409 ''scope review state conflict''"

text \<open>\<open>None\<close> as long as the walk to the first version is not over.\<close>

definition get_scope_review_endpoint ::
    "nat \<Rightarrow> app_state \<Rightarrow> uuid \<Rightarrow> ActorContext \<Rightarrow> instant \<Rightarrow> db \<Rightarrow> (http_error + ScopeReviewView) option" where
  "get_scope_review_endpoint fuel app job_id a now s =
     (case with_storage app job_id a (\<lambda>st. authorized a job_id (Some REVIEW_ROLES) (\<lambda>p r. Inr (st, p, r))) of
        Inl e \<Rightarrow> Some (Inl e)
      | Inr (st, p, r) \<Rightarrow> map_option (answer (except_clause [ScopeReviewNotFoundError] review_not_found
            (except_clause [ScopeReviewConflictError] review_conflict (except_provider Unhandled))))
          (get_scope_review fuel (read_url st) job_id p r now s))"

definition get_scope_confirmation_history_endpoint ::
    "uuid \<Rightarrow> ActorContext \<Rightarrow> db \<Rightarrow> http_error + ScopeConfirmationHistoryEntry list" where
  "get_scope_confirmation_history_endpoint job_id a s = authorized a job_id (Some CONFIRMATION_HISTORY_ROLES) (\<lambda>p r.
     answer (except_clause [ScopeReviewNotFoundError] review_not_found Unhandled) (get_scope_confirmation_history job_id p r s))"

definition create_scope_proposal_endpoint ::
    "uuid \<Rightarrow> ScopeProposalCreate \<Rightarrow> ActorContext \<Rightarrow> instant \<Rightarrow> db \<Rightarrow> http_error + ScopeProposalResponse \<times> db" where
  "create_scope_proposal_endpoint job_id cmd a now s = authorized a job_id (Some [COMPANY_MANAGER]) (\<lambda>p r.
     answer (except_clause [ScopeReviewNotFoundError, ScopeResourceNotFoundError] review_not_found
         (except_clause [ScopeReviewConflictError, ScopeVersionConflictError, ScopeApprovalConflictError] review_conflict Unhandled))
       (create_scope_proposal job_id p cmd now s))"

definition request_scope_revision_endpoint ::
    "uuid \<Rightarrow> uuid \<Rightarrow> string \<Rightarrow> ActorContext \<Rightarrow> instant \<Rightarrow> db \<Rightarrow> http_error + ScopeRevisionRequestResponse \<times> db" where
  "request_scope_revision_endpoint job_id version_id reason a now s = authorized a job_id (Some [CUSTOMER]) (\<lambda>p r.
     answer (except_clause [ScopeReviewNotFoundError] review_not_found
         (except_clause [ScopeReviewConflictError] review_conflict Unhandled))
       (request_scope_revision job_id p version_id reason now s))"

definition confirm_scope_proposal_endpoint ::
    "uuid \<Rightarrow> uuid \<Rightarrow> ActorContext \<Rightarrow> instant \<Rightarrow> db \<Rightarrow> http_error + ScopeConfirmResponse \<times> db" where
  "confirm_scope_proposal_endpoint job_id version_id a now s = authorized a job_id (Some [CUSTOMER]) (\<lambda>p r.
     answer (except_clause [ScopeReviewNotFoundError, ScopeResourceNotFoundError] review_not_found
         (except_clause [ScopeReviewConflictError, ScopeApprovalConflictError] review_conflict Unhandled))
       (confirm_scope_proposal job_id p version_id (ac_trace_id a) now s))"

section \<open>Field changes\<close>

definition ISSUE_VIEW_ROLES :: "ParticipantRole list" where
  "ISSUE_VIEW_ROLES = [CUSTOMER, COMPANY_MANAGER, FIELD_WORKER]"

definition ISSUE_REPORT_ROLES :: "ParticipantRole list" where
  "ISSUE_REPORT_ROLES = [COMPANY_MANAGER, FIELD_WORKER]"

definition ISSUE_EVIDENCE_VIEW_ROLES :: "ParticipantRole list" where
  "ISSUE_EVIDENCE_VIEW_ROLES = [CUSTOMER, COMPANY_MANAGER, FIELD_WORKER]"

definition PROPOSAL_VIEW_ROLES :: "ParticipantRole list" where
  "PROPOSAL_VIEW_ROLES = [CUSTOMER, COMPANY_MANAGER]"

definition field_not_found :: http_error where
  "field_not_found = HTTPException 404 ''field change resource not found''"

definition field_conflict :: http_error where
  "field_conflict = HTTPException 409 ''field change state conflict''"

definition create_field_issue_endpoint ::
    "uuid \<Rightarrow> FieldIssueCreate \<Rightarrow> ActorContext \<Rightarrow> instant \<Rightarrow> db \<Rightarrow> http_error + FieldIssueResponse \<times> db" where
  "create_field_issue_endpoint job_id cmd a now s = authorized a job_id (Some ISSUE_REPORT_ROLES) (\<lambda>p r.
     answer (except_clause [FieldChangeNotFoundError] field_not_found
         (except_clause [FieldChangeConflictError, FieldChangeInvalidError] field_conflict Unhandled))
       (create_field_issue job_id p cmd now s))"

definition list_field_issues_endpoint :: "uuid \<Rightarrow> ActorContext \<Rightarrow> db \<Rightarrow> http_error + FieldIssueResponse list" where
  "list_field_issues_endpoint job_id a s = authorized a job_id (Some ISSUE_VIEW_ROLES) (\<lambda>p r. Inr (list_field_issues job_id s))"

definition create_field_issue_evidence_read_url_endpoint ::
    "app_state \<Rightarrow> uuid \<Rightarrow> uuid \<Rightarrow> uuid \<Rightarrow> ActorContext \<Rightarrow> instant \<Rightarrow> db \<Rightarrow> http_error + EvidenceRead" where
  "create_field_issue_evidence_read_url_endpoint app job_id issue_id asset_id a now s = with_storage app job_id a (\<lambda>st.
     authorized a job_id (Some ISSUE_EVIDENCE_VIEW_ROLES) (\<lambda>p r.
     answer (except_clause [FieldChangeNotFoundError] field_not_found
         (except_clause [FieldChangeConflictError] field_conflict (except_provider Unhandled)))
       (create_field_issue_evidence_read_url (read_url st) job_id issue_id asset_id p r now s)))"

definition create_change_proposal_endpoint ::
    "uuid \<Rightarrow> ChangeProposalCreate \<Rightarrow> ActorContext \<Rightarrow> instant \<Rightarrow> db \<Rightarrow> http_error + ChangeProposalResponse \<times> db" where
  "create_change_proposal_endpoint job_id cmd a now s = authorized a job_id (Some [COMPANY_MANAGER]) (\<lambda>p r.
     answer (except_clause [FieldChangeNotFoundError] field_not_found
         (except_clause [FieldChangeConflictError, FieldChangeInvalidError] field_conflict Unhandled))
       (create_change_proposal job_id p cmd (ac_trace_id a) now s))"

definition get_change_proposal_endpoint ::
    "app_state \<Rightarrow> uuid \<Rightarrow> uuid \<Rightarrow> ActorContext \<Rightarrow> instant \<Rightarrow> db \<Rightarrow> http_error + ChangeProposalView" where
  "get_change_proposal_endpoint app job_id i a now s = with_storage app job_id a (\<lambda>st.
     authorized a job_id (Some PROPOSAL_VIEW_ROLES) (\<lambda>p r.
     answer (except_clause [FieldChangeNotFoundError] field_not_found
         (except_clause [FieldChangeConflictError] field_conflict (except_provider Unhandled)))
       (get_change_proposal (read_url st) job_id i p r now s)))"

definition decide_change_proposal_endpoint ::
    "uuid \<Rightarrow> uuid \<Rightarrow> ChangeProposalDecisionCreate \<Rightarrow> ActorContext \<Rightarrow> instant \<Rightarrow> db \<Rightarrow>
     http_error + ChangeProposalDecisionResponse \<times> db" where
  "decide_change_proposal_endpoint job_id i cmd a now s = authorized a job_id (Some [CUSTOMER]) (\<lambda>p r.
     answer (except_clause [FieldChangeNotFoundError] field_not_found
         (except_clause [FieldChangeConflictError, ChangeRequestConflictError, ScopeApprovalConflictError, ScopeResourceNotFoundError,
            ScopeVersionConflictError] field_conflict Unhandled))
       (decide_change_proposal job_id i p cmd (ac_trace_id a) now s))"

definition explain_change_proposal_endpoint ::
    "uuid \<Rightarrow> uuid \<Rightarrow> string \<Rightarrow> ActorContext \<Rightarrow> instant \<Rightarrow> db \<Rightarrow> http_error + ChangeProposalResponse \<times> db" where
  "explain_change_proposal_endpoint job_id i explanation a now s = authorized a job_id (Some [COMPANY_MANAGER]) (\<lambda>p r.
     answer (except_clause [FieldChangeNotFoundError] field_not_found (except_clause [FieldChangeConflictError] field_conflict Unhandled))
       (explain_change_proposal job_id i p explanation now s))"

section \<open>Dispatch\<close>

definition dispatch_not_found :: http_error where
  "dispatch_not_found = HTTPException 404 ''dispatch resource not found''"

definition dispatch_conflict :: http_error where
  "dispatch_conflict = HTTPException 409 ''dispatch state conflict''"

definition create_dispatch_setup_endpoint ::
    "uuid \<Rightarrow> DispatchSetupCreate \<Rightarrow> ActorContext \<Rightarrow> instant \<Rightarrow> db \<Rightarrow> http_error + DispatchView \<times> db" where
  "create_dispatch_setup_endpoint job_id cmd a now s = authorized a job_id (Some [COMPANY_MANAGER]) (\<lambda>p r.
     answer (except_clause [DispatchNotFoundError] dispatch_not_found
         (except_clause [DispatchConflictError, DispatchInvalidError] dispatch_conflict Unhandled))
       (bindR (create_dispatch_setup job_id p cmd now s) (\<lambda>(_, s1). bindR (get_dispatch_view job_id p s1) (\<lambda>view. Inr (view, s1)))))"

definition get_dispatch_endpoint :: "uuid \<Rightarrow> ActorContext \<Rightarrow> db \<Rightarrow> http_error + DispatchView" where
  "get_dispatch_endpoint job_id a s = authorized a job_id (Some [COMPANY_MANAGER]) (\<lambda>p r.
     answer (except_clause [DispatchNotFoundError] dispatch_not_found (except_clause [DispatchConflictError] dispatch_conflict Unhandled))
       (get_dispatch_view job_id p s))"

definition confirm_dispatch_endpoint ::
    "uuid \<Rightarrow> DispatchConfirmCreate \<Rightarrow> ActorContext \<Rightarrow> instant \<Rightarrow> db \<Rightarrow> http_error + DispatchView \<times> db" where
  "confirm_dispatch_endpoint job_id cmd a now s = authorized a job_id (Some [COMPANY_MANAGER]) (\<lambda>p r.
     answer (except_clause [DispatchNotFoundError] dispatch_not_found (except_clause [DispatchConflictError] dispatch_conflict Unhandled))
       (bindR (confirm_dispatch job_id p cmd (ac_trace_id a) now s) (\<lambda>(_, s1).
        bindR (get_dispatch_view job_id p s1) (\<lambda>view. Inr (view, s1)))))"

definition get_field_brief_endpoint :: "uuid \<Rightarrow> ActorContext \<Rightarrow> db \<Rightarrow> http_error + FieldBriefView" where
  "get_field_brief_endpoint job_id a s = authorized a job_id (Some [FIELD_WORKER]) (\<lambda>p r.
     answer (except_clause [DispatchNotFoundError] dispatch_not_found (except_clause [DispatchConflictError] dispatch_conflict Unhandled))
       (get_field_brief job_id p s))"

definition check_in_field_worker_endpoint ::
    "uuid \<Rightarrow> FieldCheckInCreate \<Rightarrow> ActorContext \<Rightarrow> instant \<Rightarrow> db \<Rightarrow> http_error + FieldCheckInResponse \<times> db" where
  "check_in_field_worker_endpoint job_id cmd a now s = authorized a job_id (Some [FIELD_WORKER]) (\<lambda>p r.
     answer (except_clause [DispatchNotFoundError] dispatch_not_found (except_clause [DispatchConflictError] dispatch_conflict Unhandled))
       (check_in_field_worker job_id p cmd now s))"

section \<open>Completion\<close>

definition COMPLETION_ROLES :: "ParticipantRole list" where
  "COMPLETION_ROLES = [CUSTOMER, COMPANY_MANAGER]"

definition FIELD_WORKER_ROLE :: "ParticipantRole list" where
  "FIELD_WORKER_ROLE = [FIELD_WORKER]"

definition COMPANY_ROLE :: "ParticipantRole list" where
  "COMPANY_ROLE = [COMPANY_MANAGER]"

definition CUSTOMER_ROLE :: "ParticipantRole list" where
  "CUSTOMER_ROLE = [CUSTOMER]"

definition completion_not_found :: http_error where
  "completion_not_found = HTTPException 404 ''completion resource not found''"

definition completion_conflict :: http_error where
  "completion_conflict = HTTPException 409 ''completion state conflict''"

definition submit_completion_endpoint ::
    "uuid \<Rightarrow> CompletionSubmissionCreate \<Rightarrow> ActorContext \<Rightarrow> instant \<Rightarrow> db \<Rightarrow> http_error + CompletionSubmissionResponse \<times> db" where
  "submit_completion_endpoint job_id cmd a now s = authorized a job_id (Some FIELD_WORKER_ROLE) (\<lambda>p r.
     answer (except_clause [CompletionResourceNotFoundError] completion_not_found
         (except_clause [CompletionInvalidError] (HTTPException 422 ''completion evidence is invalid'')
         (except_clause [CompletionConflictError] completion_conflict Unhandled)))
       (submit_completion job_id p cmd (ac_trace_id a) now s))"

definition get_completion_summary_endpoint ::
    "app_state \<Rightarrow> uuid \<Rightarrow> ActorContext \<Rightarrow> instant \<Rightarrow> db \<Rightarrow> http_error + CompletionSummaryView" where
  "get_completion_summary_endpoint app job_id a now s = with_storage app job_id a (\<lambda>st. authorized a job_id (Some COMPLETION_ROLES) (\<lambda>p r.
     answer (except_clause [CompletionResourceNotFoundError] completion_not_found
         (except_clause [CompletionConflictError] completion_conflict (except_provider Unhandled)))
       (get_completion_summary (read_url st) job_id p r now s)))"

definition create_completion_request_endpoint ::
    "uuid \<Rightarrow> CompletionRequestCreate \<Rightarrow> ActorContext \<Rightarrow> instant \<Rightarrow> db \<Rightarrow> http_error + CompletionRequestResponse \<times> db" where
  "create_completion_request_endpoint job_id cmd a now s = authorized a job_id (Some COMPANY_ROLE) (\<lambda>p r.
     answer (except_clause [CompletionResourceNotFoundError] completion_not_found
         (except_clause [CompletionConflictError] completion_conflict Unhandled))
       (create_completion_request job_id p cmd (ac_trace_id a) now s))"

definition revoke_completion_request_endpoint ::
    "uuid \<Rightarrow> uuid \<Rightarrow> string \<Rightarrow> ActorContext \<Rightarrow> instant \<Rightarrow> db \<Rightarrow> http_error + CompletionRequestResponse \<times> db" where
  "revoke_completion_request_endpoint job_id i reason a now s = authorized a job_id (Some COMPANY_ROLE) (\<lambda>p r.
     answer (except_clause [CompletionResourceNotFoundError] completion_not_found
         (except_clause [CompletionConflictError] completion_conflict Unhandled))
       (revoke_completion_request job_id i p reason now s))"

definition decide_completion_request_endpoint ::
    "app_state \<Rightarrow> uuid \<Rightarrow> uuid \<Rightarrow> CompletionDecisionCreate \<Rightarrow> ActorContext \<Rightarrow> instant \<Rightarrow> db \<Rightarrow>
     http_error + CompletionDecisionResponse \<times> db" where
  "decide_completion_request_endpoint app job_id i cmd a now s = authorized a job_id (Some CUSTOMER_ROLE) (\<lambda>p r.
     with_retention app (\<lambda>days.
     answer (except_clause [CompletionResourceNotFoundError] completion_not_found
         (except_clause [CompletionConflictError] completion_conflict Unhandled))
       (decide_completion_request job_id i p cmd days (ac_trace_id a) now s)))"

text \<open>The classes that derive from \<open>ValueError\<close>.\<close>

definition value_errors :: "exn list" where
  "value_errors = [ValueError, BackgroundJobConflictError, CaptureWorkflowConflictError, MediaConsentConflictError,
     MediaPurposeNotAllowedError, MediaMetadataMismatchError, MediaUploadStateConflictError, ScopeVersionConflictError,
     ScopeApprovalConflictError, AnalysisDraftInvalidError, ChangeRequestConflictError, ChangeRequestInvalidError,
     ScopeReviewConflictError, FieldChangeConflictError, FieldChangeInvalidError, DispatchConflictError, DispatchInvalidError,
     CompletionConflictError, CompletionInvalidError, WorkspaceConflictError, CaptureAnalysisConflictError,
     AnalysisReviewConflictError, NotificationConflictError]"

text \<open>The archive is built by \<open>archive\<close>; the answer is its content and the name of the file.\<close>

definition download_completion_archive_endpoint ::
    "(CompletionSummaryView \<Rightarrow> string result) \<Rightarrow> app_state \<Rightarrow> uuid \<Rightarrow> ActorContext \<Rightarrow> instant \<Rightarrow> db \<Rightarrow> http_error + string \<times> string" where
  "download_completion_archive_endpoint archive app job_id a now s = with_storage app job_id a (\<lambda>st.
     authorized a job_id (Some COMPANY_ROLE) (\<lambda>p r.
     answer (except_clause [CompletionResourceNotFoundError] completion_not_found
         (except_clause (CompletionConflictError # value_errors) completion_conflict (except_provider Unhandled)))
       (bindR (get_completion_summary (read_url st) job_id p COMPANY_MANAGER now s) (\<lambda>summary.
        bindR (archive summary) (\<lambda>content.
        Inr (content, ''seqret-'' @ jh_job_code (csv_job summary) @ ''-documents.zip''))))))"

definition confirm_completion_endpoint ::
    "app_state \<Rightarrow> uuid \<Rightarrow> CompletionConfirmationCreate \<Rightarrow> ActorContext \<Rightarrow> instant \<Rightarrow> db \<Rightarrow> http_error + CompletionResult \<times> db" where
  "confirm_completion_endpoint app job_id cmd a now s = authorized a job_id (Some COMPLETION_ROLES) (\<lambda>p r.
     with_retention app (\<lambda>days.
     answer (except_clause [CompletionResourceNotFoundError] (HTTPException 404 ''completion resource not found'')
         (except_clause [CompletionInvalidError] (HTTPException 422 ''completion evidence is invalid'')
         (except_clause [CompletionConflictError] (HTTPException 409 ''completion cannot be confirmed'') Unhandled)))
       (confirm_completion job_id p r cmd days (ac_trace_id a) now s)))"

definition list_completion_confirmations_endpoint ::
    "uuid \<Rightarrow> ActorContext \<Rightarrow> db \<Rightarrow> http_error + CompletionConfirmationResponse list" where
  "list_completion_confirmations_endpoint job_id a s = authorized a job_id None (\<lambda>p r. Inr (list_completion_confirmations job_id s))"

definition list_audit_events_endpoint :: "uuid \<Rightarrow> ActorContext \<Rightarrow> db \<Rightarrow> http_error + AuditEvent list" where
  "list_audit_events_endpoint job_id a s = authorized a job_id None (\<lambda>p r. Inr (list_audit_events job_id s))"

section \<open>Captures\<close>

text \<open>The Korean notice is the number of days it is rendered from.\<close>

record MediaConsentPolicyResponse =
  mcp_policy_version :: string
  mcp_processing_purposes :: "MediaProcessingPurpose list"
  mcp_retention_days :: int

definition get_media_consent_policy_endpoint ::
    "app_state \<Rightarrow> uuid \<Rightarrow> ActorContext \<Rightarrow> http_error + MediaConsentPolicyResponse" where
  "get_media_consent_policy_endpoint app job_id a = authorized a job_id None (\<lambda>p r. with_retention app (\<lambda>days.
     Inr \<lparr>mcp_policy_version = MEDIA_CONSENT_POLICY_VERSION, mcp_processing_purposes = MEDIA_PROCESSING_PURPOSES,
       mcp_retention_days = days\<rparr>))"

definition list_capture_sessions_endpoint :: "uuid \<Rightarrow> ActorContext \<Rightarrow> db \<Rightarrow> http_error + CaptureSessionDetailResponse list" where
  "list_capture_sessions_endpoint job_id a s = authorized a job_id None (\<lambda>p r. answer Unhandled (list_capture_sessions job_id p s))"

definition submit_capture_analysis_endpoint ::
    "uuid \<Rightarrow> uuid \<Rightarrow> ActorContext \<Rightarrow> instant \<Rightarrow> db \<Rightarrow> http_error + CaptureAnalysisResponse \<times> db" where
  "submit_capture_analysis_endpoint job_id capture_id a now s = authorized a job_id None (\<lambda>p r.
     answer (except_clause [CaptureAnalysisNotFoundError] (HTTPException 404 ''capture resource not found'')
         (except_clause [CaptureAnalysisConflictError] (HTTPException 409 ''capture is not ready for analysis'') Unhandled))
       (submit_capture_analysis job_id capture_id p (ac_trace_id a) now s))"

definition get_capture_analysis_endpoint ::
    "uuid \<Rightarrow> uuid \<Rightarrow> ActorContext \<Rightarrow> db \<Rightarrow> http_error + CaptureAnalysisResponse" where
  "get_capture_analysis_endpoint job_id capture_id a s = authorized a job_id None (\<lambda>p r.
     answer (except_clause [CaptureAnalysisNotFoundError] (HTTPException 404 ''capture analysis not found'') Unhandled)
       (get_capture_analysis job_id capture_id p s))"

definition create_capture_session_endpoint ::
    "app_state \<Rightarrow> uuid \<Rightarrow> CaptureSessionCreate \<Rightarrow> ActorContext \<Rightarrow> instant \<Rightarrow> db \<Rightarrow> http_error + CaptureSessionResponse \<times> db" where
  "create_capture_session_endpoint app job_id cmd a now s = authorized a job_id None (\<lambda>p r. with_retention app (\<lambda>days.
     answer (except_clause [CaptureResourceNotFoundError] (HTTPException 404 ''move job not found'')
         (except_clause [CaptureWorkflowConflictError] (HTTPException 409 ''capture workflow is closed'')
         (except_clause [MediaConsentConflictError] (HTTPException 409 ''media consent policy is stale'') Unhandled)))
       (create_capture_session job_id p cmd days now s)))"

text \<open>The uploads are authorized by their storage dependency. \<open>others\<close> is what other transactions commit while
  the storage is asked.\<close>

definition create_media_upload_endpoint ::
    "(db \<Rightarrow> db) \<Rightarrow> app_state \<Rightarrow> uuid \<Rightarrow> uuid \<Rightarrow> MediaUploadCreate \<Rightarrow> ActorContext \<Rightarrow> instant \<Rightarrow> db \<Rightarrow>
     http_error + MediaUploadResponse \<times> db" where
  "create_media_upload_endpoint others app job_id capture_id cmd a now s = with_storage app job_id a (\<lambda>st. authorized a job_id None (\<lambda>p r.
     answer (except_clause [CaptureResourceNotFoundError] (HTTPException 404 ''capture resource not found'')
         (except_clause [MediaPurposeNotAllowedError] (HTTPException 422 ''media purpose is not allowed for this capture workflow'')
         (except_clause [CaptureWorkflowConflictError] (HTTPException 409 ''capture workflow is closed'')
         (except_clause [MediaConsentConflictError] (HTTPException 409 ''media processing consent is required'') (except_provider Unhandled)))))
       (create_media_upload (upload_url st) others job_id capture_id p cmd now s)))"

definition complete_media_upload_endpoint ::
    "(db \<Rightarrow> db) \<Rightarrow> app_state \<Rightarrow> uuid \<Rightarrow> uuid \<Rightarrow> uuid \<Rightarrow> ActorContext \<Rightarrow> instant \<Rightarrow> db \<Rightarrow> http_error + MediaAssetResponse \<times> db" where
  "complete_media_upload_endpoint others app job_id capture_id asset_id a now s = with_storage app job_id a (\<lambda>st. authorized a job_id None (\<lambda>p r.
     answer (except_clause [CaptureResourceNotFoundError] (HTTPException 404 ''capture resource not found'')
         (except_clause [MediaMetadataMismatchError] (HTTPException 409 ''uploaded media metadata does not match'')
         (except_clause [MediaUploadStateConflictError] (HTTPException 409 ''media upload cannot complete from its current state'')
         (except_clause [CaptureWorkflowConflictError] (HTTPException 409 ''capture workflow is closed'')
         (except_clause [MediaConsentConflictError] (HTTPException 409 ''media processing consent is required'') (except_provider Unhandled))))))
       (complete_media_upload (object_metadata st) others job_id capture_id asset_id p (Some (ac_trace_id a)) now s)))"

section \<open>Move jobs\<close>

definition create_customer_move_job_endpoint ::
    "CustomerMoveJobCreate \<Rightarrow> instant \<Rightarrow> db \<Rightarrow> http_error + CustomerMoveJobCreatedResponse \<times> db" where
  "create_customer_move_job_endpoint cmd now s = answer Unhandled (create_customer_move_job cmd now s)"

definition create_move_job_endpoint :: "MoveJobCreate \<Rightarrow> instant \<Rightarrow> db \<Rightarrow> http_error + MoveJobCreatedResponse \<times> db" where
  "create_move_job_endpoint cmd now s = answer Unhandled (create_move_job cmd now s)"

text \<open>The bearer link is authenticated in a transaction of its own, the cookie in the one of the request. The
  text of a refused query is not kept.\<close>

definition list_move_jobs_endpoint ::
    "string option \<Rightarrow> string option \<Rightarrow> move_filter \<Rightarrow> int \<Rightarrow> string option \<Rightarrow> rate_cache option \<Rightarrow> int \<Rightarrow> int \<Rightarrow>
     (uuid \<times> string) option \<Rightarrow> instant \<Rightarrow> db \<Rightarrow> (http_error + MoveJobListResponse) \<times> db" where
  "list_move_jobs_endpoint credentials cookie f limit cursor cache rate window corr now s =
     (let query = (\<lambda>p acc s1. answer (except_clause value_errors (HTTPException 422 ''invalid list query'') Unhandled)
                      (list_move_jobs p acc f limit cursor now s1)) in
      case credentials of
        Some secret \<Rightarrow> (case authenticate_request secret cache rate window False corr now s of
            Inl e \<Rightarrow> (Inl e, s) | Inr (a, s1) \<Rightarrow> (query (ac_participant_id a) None s1, s1))
      | None \<Rightarrow> (case cookie of None \<Rightarrow> (Inl unauthorized, s)
          | Some secret \<Rightarrow> (case authenticate_workspace_account secret None now s of
              Inl e \<Rightarrow> (Inl (except_clause [InvalidWorkspaceSessionError] (HTTPException 401 ''invalid workspace session'') Unhandled e), s)
            | Inr (account, s1) \<Rightarrow> (case query None (Some (wp_account_id account)) s1 of
                Inl e \<Rightarrow> (Inl e, s) | Inr result \<Rightarrow> (Inr result, s1)))))"

definition get_move_job_endpoint :: "uuid \<Rightarrow> ActorContext \<Rightarrow> db \<Rightarrow> http_error + MoveJobResponse" where
  "get_move_job_endpoint job_id a s = authorized a job_id None (\<lambda>p r.
     answer (except_clause [MoveJobNotFoundError] (HTTPException 404 ''move job not found'') Unhandled) (get_move_job job_id r s))"

definition patch_move_job_endpoint ::
    "uuid \<Rightarrow> MoveJobPatch \<Rightarrow> ActorContext \<Rightarrow> instant \<Rightarrow> db \<Rightarrow> http_error + MoveJobResponse \<times> db" where
  "patch_move_job_endpoint job_id cmd a now s = authorized a job_id (Some [CUSTOMER]) (\<lambda>p r.
     answer (except_clause [MoveJobNotFoundError] (HTTPException 404 ''move job not found'')
         (except_clause [MoveJobConflictError]
            (HTTPException 409 ''confirmed-scope, quoted, completed, or canceled move job cannot be edited'') Unhandled))
       (patch_move_job job_id p cmd now s))"

definition cancel_move_job_endpoint :: "uuid \<Rightarrow> ActorContext \<Rightarrow> instant \<Rightarrow> db \<Rightarrow> http_error + db" where
  "cancel_move_job_endpoint job_id a now s = authorized a job_id (Some [CUSTOMER]) (\<lambda>p r.
     answer (except_clause [MoveJobNotFoundError] (HTTPException 404 ''move job not found'')
         (except_clause [MoveJobConflictError] (HTTPException 409 ''quoted or completed move job cannot be canceled'') Unhandled))
       (cancel_move_job job_id p now s))"

section \<open>The review of the AI draft\<close>

definition analysis_review_error :: "exn \<Rightarrow> http_error" where
  "analysis_review_error e = (if e = AnalysisReviewNotFoundError then HTTPException 404 ''analysis review not found''
     else HTTPException 409 ''analysis review is not ready or is no longer current'')"

definition except_analysis_review :: "(exn \<Rightarrow> http_error) \<Rightarrow> exn \<Rightarrow> http_error" where
  "except_analysis_review rest e = (if e \<in> {AnalysisReviewNotFoundError, AnalysisReviewConflictError} then analysis_review_error e
     else rest e)"

definition get_analysis_review_endpoint ::
    "app_state \<Rightarrow> uuid \<Rightarrow> ActorContext \<Rightarrow> instant \<Rightarrow> db \<Rightarrow> http_error + AnalysisReviewResponse" where
  "get_analysis_review_endpoint app job_id a now s = with_storage app job_id a (\<lambda>st. authorized a job_id (Some CUSTOMER_ROLE) (\<lambda>p r.
     answer (except_analysis_review (except_provider Unhandled)) (get_analysis_review (Some (read_url st)) job_id p now s)))"

definition complete_analysis_review_endpoint ::
    "uuid \<Rightarrow> AnalysisReviewComplete \<Rightarrow> ActorContext \<Rightarrow> instant \<Rightarrow> db \<Rightarrow> http_error + AnalysisReviewResponse \<times> db" where
  "complete_analysis_review_endpoint job_id cmd a now s = authorized a job_id (Some CUSTOMER_ROLE) (\<lambda>p r.
     answer (except_analysis_review Unhandled) (complete_analysis_review job_id p cmd now s))"

section \<open>Background jobs and notifications\<close>

definition MAINTENANCE_ROLES :: "ParticipantRole list" where
  "MAINTENANCE_ROLES = [COMPANY_MANAGER]"

definition create_background_job_endpoint ::
    "app_state \<Rightarrow> uuid \<Rightarrow> uuid \<Rightarrow> ActorContext \<Rightarrow> instant \<Rightarrow> db \<Rightarrow> http_error + BackgroundJobResponse \<times> db" where
  "create_background_job_endpoint app job_id asset_id a now s = authorized a job_id (Some MAINTENANCE_ROLES) (\<lambda>p r.
     with_retention app (\<lambda>days.
     answer (except_clause [BackgroundJobNotFoundError] (HTTPException 404 ''media asset not found'')
         (except_clause [BackgroundJobConflictError] (HTTPException 409 ''media asset is not eligible for retention deletion'') Unhandled))
       (create_retention_background_job job_id asset_id (Some p) (now - seconds (days * 24 * 60 * 60)) (ac_trace_id a) (Some now) now s)))"

definition list_background_jobs_endpoint :: "uuid \<Rightarrow> ActorContext \<Rightarrow> db \<Rightarrow> http_error + BackgroundJobResponse list" where
  "list_background_jobs_endpoint job_id a s = authorized a job_id None (\<lambda>p r. Inr (list_background_jobs job_id s))"

definition retry_background_job_endpoint ::
    "uuid \<Rightarrow> uuid \<Rightarrow> ActorContext \<Rightarrow> instant \<Rightarrow> db \<Rightarrow> http_error + BackgroundJobResponse \<times> db" where
  "retry_background_job_endpoint job_id i a now s = authorized a job_id (Some MAINTENANCE_ROLES) (\<lambda>p r.
     answer (except_clause [BackgroundJobNotFoundError] (HTTPException 404 ''background job not found'')
         (except_clause [BackgroundJobConflictError] (HTTPException 409 ''background job cannot be retried from its current state'') Unhandled))
       (retry_background_job job_id i now s))"

definition list_notifications_endpoint :: "uuid \<Rightarrow> ActorContext \<Rightarrow> db \<Rightarrow> http_error + NotificationResponse list" where
  "list_notifications_endpoint job_id a s = authorized a job_id None (\<lambda>p r. Inr (list_notifications job_id p s))"

section \<open>The routes of a job together\<close>

text \<open>One request of a job: its route with the parameters and the body, by router. The method and the path choose
  the endpoint. The routes of the captures commit others' work in between; the review page takes fuel.\<close>

datatype scope_call = PostScopeVersion "uuid option" ScopeContent | GetScopeVersions | PostApproval uuid
    | PostChangeRequest ChangeRequestCreate | GetChangeRequests | GetChangeEvidence uuid uuid | PostClarification uuid string
    | PostExplanation uuid string | PostDecision uuid ChangeDecisionCreate

datatype review_call = GetScopeReview nat | GetHistory | PostProposal ScopeProposalCreate | PostRevisionRequest uuid string
    | PostConfirm uuid

datatype field_change_call = PostFieldIssue FieldIssueCreate | GetFieldIssues | GetIssueEvidence uuid uuid
    | PostChangeProposal ChangeProposalCreate | GetChangeProposal uuid
    | PostProposalDecision uuid ChangeProposalDecisionCreate | PostProposalExplanation uuid string

datatype dispatch_call = PostDispatchSetup DispatchSetupCreate | GetDispatch | PutDispatch DispatchConfirmCreate
    | GetFieldBrief | PostCheckIn FieldCheckInCreate

datatype completion_call = PostSubmission CompletionSubmissionCreate | GetSummary
    | PostCompletionRequest CompletionRequestCreate | PostRevocation uuid string
    | PostCompletionDecision uuid CompletionDecisionCreate | GetArchive | PostConfirmation CompletionConfirmationCreate
    | GetConfirmations | GetAuditEvents

datatype capture_call = GetConsentPolicy | GetCaptures | PostCaptureSubmission uuid | GetCaptureAnalysis uuid
    | PostCapture CaptureSessionCreate | PostUpload uuid MediaUploadCreate | PostUploadCompletion uuid uuid

datatype move_job_call = GetMoveJob | PatchMoveJob MoveJobPatch | DeleteMoveJob | GetAnalysisReview
    | PostAnalysisReview AnalysisReviewComplete | PostBackgroundJob uuid | GetBackgroundJobs | PostBackgroundRetry uuid
    | GetNotifications

datatype job_call = ScopeRoute scope_call | ReviewRoute review_call | FieldChangeRoute field_change_call
    | DispatchRoute dispatch_call | CompletionRoute completion_call | CaptureRoute capture_call | JobRoute move_job_call

definition written :: "http_error + 'v \<times> db \<Rightarrow> http_error + db" where
  "written m = (case m of Inl e \<Rightarrow> Inl e | Inr (v, s) \<Rightarrow> Inr s)"

definition only_read :: "db \<Rightarrow> http_error + 'v \<Rightarrow> http_error + db" where
  "only_read s m = (case m of Inl e \<Rightarrow> Inl e | Inr v \<Rightarrow> Inr s)"

text \<open>The state a request leaves, or the error it is answered with, after which its transaction is rolled back.\<close>

primrec serve_scope ::
    "app_state \<Rightarrow> uuid \<Rightarrow> ActorContext \<Rightarrow> scope_call \<Rightarrow> instant \<Rightarrow> db \<Rightarrow> http_error + db" where
  "serve_scope app job_id a (PostScopeVersion parent content) now s = written (create_scope_version_endpoint job_id parent content a now s)"
| "serve_scope app job_id a GetScopeVersions now s = only_read s (list_scope_versions_endpoint job_id a s)"
| "serve_scope app job_id a (PostApproval i) now s = written (approve_scope_version_endpoint job_id i a now s)"
| "serve_scope app job_id a (PostChangeRequest cmd) now s = written (create_change_request_endpoint job_id cmd a now s)"
| "serve_scope app job_id a GetChangeRequests now s = only_read s (list_change_requests_endpoint job_id a s)"
| "serve_scope app job_id a (GetChangeEvidence i m) now s = only_read s (create_change_evidence_read_url_endpoint app job_id i m a now s)"
| "serve_scope app job_id a (PostClarification i t) now s = written (request_change_clarification_endpoint job_id i t a now s)"
| "serve_scope app job_id a (PostExplanation i t) now s = written (explain_change_request_endpoint job_id i t a now s)"
| "serve_scope app job_id a (PostDecision i cmd) now s = written (decide_change_request_endpoint job_id i cmd a now s)"

primrec serve_review ::
    "app_state \<Rightarrow> uuid \<Rightarrow> ActorContext \<Rightarrow> review_call \<Rightarrow> instant \<Rightarrow> db \<Rightarrow> (http_error + db) option" where
  "serve_review app job_id a (GetScopeReview fuel) now s = map_option (only_read s) (get_scope_review_endpoint fuel app job_id a now s)"
| "serve_review app job_id a GetHistory now s = Some (only_read s (get_scope_confirmation_history_endpoint job_id a s))"
| "serve_review app job_id a (PostProposal cmd) now s = Some (written (create_scope_proposal_endpoint job_id cmd a now s))"
| "serve_review app job_id a (PostRevisionRequest i t) now s = Some (written (request_scope_revision_endpoint job_id i t a now s))"
| "serve_review app job_id a (PostConfirm i) now s = Some (written (confirm_scope_proposal_endpoint job_id i a now s))"

primrec serve_field_change ::
    "app_state \<Rightarrow> uuid \<Rightarrow> ActorContext \<Rightarrow> field_change_call \<Rightarrow> instant \<Rightarrow> db \<Rightarrow> http_error + db" where
  "serve_field_change app job_id a (PostFieldIssue cmd) now s = written (create_field_issue_endpoint job_id cmd a now s)"
| "serve_field_change app job_id a GetFieldIssues now s = only_read s (list_field_issues_endpoint job_id a s)"
| "serve_field_change app job_id a (GetIssueEvidence i m) now s = only_read s (create_field_issue_evidence_read_url_endpoint app job_id i m a now s)"
| "serve_field_change app job_id a (PostChangeProposal cmd) now s = written (create_change_proposal_endpoint job_id cmd a now s)"
| "serve_field_change app job_id a (GetChangeProposal i) now s = only_read s (get_change_proposal_endpoint app job_id i a now s)"
| "serve_field_change app job_id a (PostProposalDecision i cmd) now s = written (decide_change_proposal_endpoint job_id i cmd a now s)"
| "serve_field_change app job_id a (PostProposalExplanation i t) now s = written (explain_change_proposal_endpoint job_id i t a now s)"

primrec serve_dispatch ::
    "uuid \<Rightarrow> ActorContext \<Rightarrow> dispatch_call \<Rightarrow> instant \<Rightarrow> db \<Rightarrow> http_error + db" where
  "serve_dispatch job_id a (PostDispatchSetup cmd) now s = written (create_dispatch_setup_endpoint job_id cmd a now s)"
| "serve_dispatch job_id a GetDispatch now s = only_read s (get_dispatch_endpoint job_id a s)"
| "serve_dispatch job_id a (PutDispatch cmd) now s = written (confirm_dispatch_endpoint job_id cmd a now s)"
| "serve_dispatch job_id a GetFieldBrief now s = only_read s (get_field_brief_endpoint job_id a s)"
| "serve_dispatch job_id a (PostCheckIn cmd) now s = written (check_in_field_worker_endpoint job_id cmd a now s)"

primrec serve_completion ::
    "(CompletionSummaryView \<Rightarrow> string result) \<Rightarrow> app_state \<Rightarrow> uuid \<Rightarrow> ActorContext \<Rightarrow> completion_call \<Rightarrow> instant \<Rightarrow> db \<Rightarrow> http_error + db" where
  "serve_completion archive app job_id a (PostSubmission cmd) now s = written (submit_completion_endpoint job_id cmd a now s)"
| "serve_completion archive app job_id a GetSummary now s = only_read s (get_completion_summary_endpoint app job_id a now s)"
| "serve_completion archive app job_id a (PostCompletionRequest cmd) now s = written (create_completion_request_endpoint job_id cmd a now s)"
| "serve_completion archive app job_id a (PostRevocation i t) now s = written (revoke_completion_request_endpoint job_id i t a now s)"
| "serve_completion archive app job_id a (PostCompletionDecision i cmd) now s = written (decide_completion_request_endpoint app job_id i cmd a now s)"
| "serve_completion archive app job_id a GetArchive now s = only_read s (download_completion_archive_endpoint archive app job_id a now s)"
| "serve_completion archive app job_id a (PostConfirmation cmd) now s = written (confirm_completion_endpoint app job_id cmd a now s)"
| "serve_completion archive app job_id a GetConfirmations now s = only_read s (list_completion_confirmations_endpoint job_id a s)"
| "serve_completion archive app job_id a GetAuditEvents now s = only_read s (list_audit_events_endpoint job_id a s)"

primrec serve_capture ::
    "(db \<Rightarrow> db) \<Rightarrow> app_state \<Rightarrow> uuid \<Rightarrow> ActorContext \<Rightarrow> capture_call \<Rightarrow> instant \<Rightarrow> db \<Rightarrow> http_error + db" where
  "serve_capture others app job_id a GetConsentPolicy now s = only_read s (get_media_consent_policy_endpoint app job_id a)"
| "serve_capture others app job_id a GetCaptures now s = only_read s (list_capture_sessions_endpoint job_id a s)"
| "serve_capture others app job_id a (PostCaptureSubmission i) now s = written (submit_capture_analysis_endpoint job_id i a now s)"
| "serve_capture others app job_id a (GetCaptureAnalysis i) now s = only_read s (get_capture_analysis_endpoint job_id i a s)"
| "serve_capture others app job_id a (PostCapture cmd) now s = written (create_capture_session_endpoint app job_id cmd a now s)"
| "serve_capture others app job_id a (PostUpload i cmd) now s = written (create_media_upload_endpoint others app job_id i cmd a now s)"
| "serve_capture others app job_id a (PostUploadCompletion i m) now s = written (complete_media_upload_endpoint others app job_id i m a now s)"

primrec serve_move_job ::
    "app_state \<Rightarrow> uuid \<Rightarrow> ActorContext \<Rightarrow> move_job_call \<Rightarrow> instant \<Rightarrow> db \<Rightarrow> http_error + db" where
  "serve_move_job app job_id a GetMoveJob now s = only_read s (get_move_job_endpoint job_id a s)"
| "serve_move_job app job_id a (PatchMoveJob cmd) now s = written (patch_move_job_endpoint job_id cmd a now s)"
| "serve_move_job app job_id a DeleteMoveJob now s = cancel_move_job_endpoint job_id a now s"
| "serve_move_job app job_id a GetAnalysisReview now s = only_read s (get_analysis_review_endpoint app job_id a now s)"
| "serve_move_job app job_id a (PostAnalysisReview cmd) now s = written (complete_analysis_review_endpoint job_id cmd a now s)"
| "serve_move_job app job_id a (PostBackgroundJob m) now s = written (create_background_job_endpoint app job_id m a now s)"
| "serve_move_job app job_id a GetBackgroundJobs now s = only_read s (list_background_jobs_endpoint job_id a s)"
| "serve_move_job app job_id a (PostBackgroundRetry i) now s = written (retry_background_job_endpoint job_id i a now s)"
| "serve_move_job app job_id a GetNotifications now s = only_read s (list_notifications_endpoint job_id a s)"

primrec serve ::
    "(db \<Rightarrow> db) \<Rightarrow> (CompletionSummaryView \<Rightarrow> string result) \<Rightarrow> app_state \<Rightarrow> uuid \<Rightarrow> ActorContext \<Rightarrow> job_call \<Rightarrow> instant \<Rightarrow>
     db \<Rightarrow> (http_error + db) option" where
  "serve others archive app job_id a (ScopeRoute c) now s = Some (serve_scope app job_id a c now s)"
| "serve others archive app job_id a (ReviewRoute c) now s = serve_review app job_id a c now s"
| "serve others archive app job_id a (FieldChangeRoute c) now s = Some (serve_field_change app job_id a c now s)"
| "serve others archive app job_id a (DispatchRoute c) now s = Some (serve_dispatch job_id a c now s)"
| "serve others archive app job_id a (CompletionRoute c) now s = Some (serve_completion archive app job_id a c now s)"
| "serve others archive app job_id a (CaptureRoute c) now s = Some (serve_capture others app job_id a c now s)"
| "serve others archive app job_id a (JobRoute c) now s = Some (serve_move_job app job_id a c now s)"

text \<open>The methods that need no CSRF token.\<close>

primrec scope_method :: "scope_call \<Rightarrow> string" where
  "scope_method (PostScopeVersion parent content) = ''POST''"
| "scope_method GetScopeVersions = ''GET''"
| "scope_method (PostApproval i) = ''POST''"
| "scope_method (PostChangeRequest cmd) = ''POST''"
| "scope_method GetChangeRequests = ''GET''"
| "scope_method (GetChangeEvidence i m) = ''GET''"
| "scope_method (PostClarification i t) = ''POST''"
| "scope_method (PostExplanation i t) = ''POST''"
| "scope_method (PostDecision i cmd) = ''POST''"

primrec review_method :: "review_call \<Rightarrow> string" where
  "review_method (GetScopeReview fuel) = ''GET''"
| "review_method GetHistory = ''GET''"
| "review_method (PostProposal cmd) = ''POST''"
| "review_method (PostRevisionRequest i t) = ''POST''"
| "review_method (PostConfirm i) = ''POST''"

primrec field_change_method :: "field_change_call \<Rightarrow> string" where
  "field_change_method (PostFieldIssue cmd) = ''POST''"
| "field_change_method GetFieldIssues = ''GET''"
| "field_change_method (GetIssueEvidence i m) = ''GET''"
| "field_change_method (PostChangeProposal cmd) = ''POST''"
| "field_change_method (GetChangeProposal i) = ''GET''"
| "field_change_method (PostProposalDecision i cmd) = ''POST''"
| "field_change_method (PostProposalExplanation i t) = ''POST''"

primrec dispatch_method :: "dispatch_call \<Rightarrow> string" where
  "dispatch_method (PostDispatchSetup cmd) = ''POST''"
| "dispatch_method GetDispatch = ''GET''"
| "dispatch_method (PutDispatch cmd) = ''PUT''"
| "dispatch_method GetFieldBrief = ''GET''"
| "dispatch_method (PostCheckIn cmd) = ''POST''"

primrec completion_method :: "completion_call \<Rightarrow> string" where
  "completion_method (PostSubmission cmd) = ''POST''"
| "completion_method GetSummary = ''GET''"
| "completion_method (PostCompletionRequest cmd) = ''POST''"
| "completion_method (PostRevocation i t) = ''POST''"
| "completion_method (PostCompletionDecision i cmd) = ''POST''"
| "completion_method GetArchive = ''GET''"
| "completion_method (PostConfirmation cmd) = ''POST''"
| "completion_method GetConfirmations = ''GET''"
| "completion_method GetAuditEvents = ''GET''"

primrec capture_method :: "capture_call \<Rightarrow> string" where
  "capture_method GetConsentPolicy = ''GET''"
| "capture_method GetCaptures = ''GET''"
| "capture_method (PostCaptureSubmission i) = ''POST''"
| "capture_method (GetCaptureAnalysis i) = ''GET''"
| "capture_method (PostCapture cmd) = ''POST''"
| "capture_method (PostUpload i cmd) = ''POST''"
| "capture_method (PostUploadCompletion i m) = ''POST''"

primrec move_job_method :: "move_job_call \<Rightarrow> string" where
  "move_job_method GetMoveJob = ''GET''"
| "move_job_method (PatchMoveJob cmd) = ''PATCH''"
| "move_job_method DeleteMoveJob = ''DELETE''"
| "move_job_method GetAnalysisReview = ''GET''"
| "move_job_method (PostAnalysisReview cmd) = ''POST''"
| "move_job_method (PostBackgroundJob m) = ''POST''"
| "move_job_method GetBackgroundJobs = ''GET''"
| "move_job_method (PostBackgroundRetry i) = ''POST''"
| "move_job_method GetNotifications = ''GET''"

primrec call_method :: "job_call \<Rightarrow> string" where
  "call_method (ScopeRoute c) = scope_method c"
| "call_method (ReviewRoute c) = review_method c"
| "call_method (FieldChangeRoute c) = field_change_method c"
| "call_method (DispatchRoute c) = dispatch_method c"
| "call_method (CompletionRoute c) = completion_method c"
| "call_method (CaptureRoute c) = capture_method c"
| "call_method (JobRoute c) = move_job_method c"

record request_context =
  rc_bearer :: "string option"
  rc_cookie :: "string option"
  rc_csrf_header :: "string option"
  rc_cache :: "rate_cache option"
  rc_rate_limit :: int
  rc_rate_window :: int
  rc_correlation :: "(uuid \<times> string) option"

text \<open>A request from its credentials on. The actor is found in a transaction of its own, which stays.\<close>

definition handle_job_request ::
    "(db \<Rightarrow> db) \<Rightarrow> (CompletionSummaryView \<Rightarrow> string result) \<Rightarrow> app_state \<Rightarrow> request_context \<Rightarrow> uuid \<Rightarrow> job_call \<Rightarrow>
     instant \<Rightarrow> db \<Rightarrow> (http_error option \<times> db) option" where
  "handle_job_request others archive app q job_id c now s =
     (case get_current_actor (rc_bearer q) (rc_cookie q) (Some (Some job_id)) (call_method c) (rc_csrf_header q) (rc_cache q)
         (rc_rate_limit q) (rc_rate_window q) (rc_correlation q) now s of
        Inl e \<Rightarrow> Some (Some e, s)
      | Inr (a, s1) \<Rightarrow> (case serve others archive app job_id a c now s1 of
          None \<Rightarrow> None
        | Some (Inl e) \<Rightarrow> Some (Some e, s1)
        | Some (Inr s2) \<Rightarrow> Some (None, s2)))"

end
