(* ===== verification/JobApiProofs.thy ===== *)
theory JobApiProofs
  imports JobApi FieldChangeProofs DispatchProofs CompletionProofs MoveJobProofs AnalysisReviewProofs CaptureProofs
begin

text \<open>
  Lemmas about the routes of a job: which actors are served at all, what a request may do to the
  tables of an agreement, and what every run of requests keeps.
\<close>

section \<open>Requests that leave the agreement alone\<close>

definition agreement_tables where
  "agreement_tables s = (rng s, sha256_hex s, scope_versions s, scope_approvals s, participants s, change_requests s, proposal_details s,
     scope_proposals s, revision_requests s)"

definition agreement_frame :: "db \<Rightarrow> db \<Rightarrow> bool" where
  "agreement_frame s s' = (agreement_tables s' = agreement_tables s \<and> drawn s \<le> drawn s')"

lemmas frame_defs = agreement_frame_def agreement_tables_def

lemma agreement_refl [simp]: "agreement_frame s s"
  by (simp add: agreement_frame_def)

lemma agreement_trans: "agreement_frame s t \<Longrightarrow> agreement_frame t u \<Longrightarrow> agreement_frame s u"
  by (simp add: agreement_frame_def)

lemma agreement_op: "agreement_frame s s' \<Longrightarrow> field_op s s'"
  by (intro fop_review rop_scope sop_other) (simp_all add: frame_defs scope_frame_def)

lemma agreement_audit: "agreement_frame s (add_audit_event j ty a p now s)"
  by (simp add: frame_defs add_audit_eq)

lemma agreement_event:
  assumes "enqueue_domain_event ty agg actor trace payload now s = Inr (ev, s')"
  shows "agreement_frame s s'"
  by (rule enqueue_event_spec[OF assms]) (simp add: frame_defs)

lemma agreement_trace: "trace_or_new trace s = (tr, s1) \<Longrightarrow> agreement_frame s s1"
  by (auto simp: frame_defs trace_or_new_def token_hex16_def split: option.splits list.splits)

lemma agreement_fold:
  assumes "\<And>x s s'. f x s = Inr s' \<Longrightarrow> agreement_frame s s'" "foldR f xs s = Inr s'"
  shows "agreement_frame s s'"
  by (rule foldR_rel[OF assms(1) agreement_refl agreement_trans assms(2)])

lemmas one_op = r_into_rtranclp[of field_op]

text \<open>Completion.\<close>

lemma agreement_retention: "schedule_retention job as n trace now s = Inr s' \<Longrightarrow> agreement_frame s s'"
  by (erule schedule_retention_spec) (simp add: frame_defs)

lemma agreement_store: "store_confirmation job scope pid role ids now s = Inr (c, s') \<Longrightarrow> agreement_frame s s'"
  by (erule store_confirmation_spec) (simp add: frame_defs)

lemma agreement_ensure: "ensure_completion_confirmation job scope pid role ids now s = Inr (c, s') \<Longrightarrow> agreement_frame s s'"
  by (erule ensure_spec) (simp_all add: agreement_store)

lemma agreement_completed: "agreement_frame s (complete_job job now s)" "agreement_frame s (put_completion_request r s)"
  by (simp_all add: frame_defs complete_job_def put_completion_request_def split: option.split)

lemma agreement_finish:
  "schedule_retention job as n trace now (add_audit_event job ty a p now (complete_job job now s)) = Inr s' \<Longrightarrow> agreement_frame s s'"
  by (meson agreement_retention agreement_audit agreement_completed agreement_trans)

lemma agreement_confirm:
  assumes "confirm_completion job pid role cmd n trace now s = Inr (res, s')"
  shows "agreement_frame s s'"
proof (rule both_confirm_cases[OF assms])
  fix c s1
  assume c: "store_confirmation job (ccc_scope_version_id cmd) pid role (ccc_evidence_media_asset_ids cmd) now s = Inr (c, s1)"
    and rest: "if set (map cc_role (confirmations_of_job job s)) \<union> {role} = {CUSTOMER, COMPANY_MANAGER}
     then \<exists>as. schedule_retention job as n trace now (add_audit_event job AU_JOB_COMPLETED (Some pid)
        [(''scope_version_id'', id_json (ccc_scope_version_id cmd))] now (complete_job job now s1)) = Inr s'
     else s' = s1"
  then have "agreement_frame s1 s'" using agreement_finish agreement_refl by (metis (no_types, lifting))
  then show ?thesis using agreement_trans[OF agreement_store[OF c]] by blast
qed

lemma agreement_review:
  assumes "confirm_review job r submission pid cmd h ids assets n trace now s = Inr (r', k, s4)"
  shows "agreement_frame s s4"
  by (rule confirm_review_cases[OF assms]) (meson agreement_ensure agreement_completed agreement_finish agreement_trans)

lemma agreement_report:
  assumes "report_problem job r pid cmd h now s = Inr (r', k, s1)"
  shows "agreement_frame s s1"
proof -
  obtain p where p: "s1 = (put_completion_request r' s)\<lparr>drawn := Suc (drawn s), problem_reports := p\<rparr>"
    using report_problem_spec(2)[OF assms] by blast
  show ?thesis unfolding p by (simp add: frame_defs put_completion_request_def)
qed

lemma agreement_decide: "decide_completion_request job i pid cmd n trace now s = Inr (resp, s') \<Longrightarrow> agreement_frame s s'"
  by (erule decide_completion_cases) (auto intro: agreement_trans agreement_report agreement_review agreement_event)

lemma agreement_submit:
  assumes "submit_completion job pid cmd trace now s = Inr (resp, s')"
  shows "agreement_frame s s'"
  using assms
proof (cases rule: submit_cases)
  case (fresh su plan scope r media s2 ev)
  have "agreement_frame s s2" using fresh(5) by (auto simp: insert_submission_def frame_defs split: if_splits)
  then show ?thesis using agreement_trans agreement_event[OF fresh(6)] by blast
qed simp

lemma agreement_request:
  assumes "create_completion_request job pid cmd trace now s = Inr (resp, s')"
  shows "agreement_frame s s'"
  using assms
proof (cases rule: request_cases)
  case (fresh submission customer r s2 ev)
  have "agreement_frame s s2" using fresh(4) by (auto simp: insert_completion_request_def frame_defs split: if_splits)
  then show ?thesis using agreement_trans agreement_event[OF fresh(5)] by blast
qed simp

lemma agreement_revoke: "revoke_completion_request job i pid reason now s = Inr (resp, s') \<Longrightarrow> agreement_frame s s'"
  by (erule revoke_cases) (simp_all add: agreement_completed)

text \<open>Captures and background jobs.\<close>

lemma agreement_validation: "create_media_validation_background_job job i p trace sch now s = Inr (resp, s') \<Longrightarrow> agreement_frame s s'"
  by (auto simp: create_media_validation_background_job_def uuid4_def insert_background_job_def frame_defs Let_def res_simps
      split: option.splits if_splits)

lemma agreement_deletion: "create_media_deletion_background_job a job p trace sch now s = Inr (resp, s') \<Longrightarrow> agreement_frame s s'"
  by (auto simp: create_media_deletion_background_job_def uuid4_def insert_background_job_def frame_defs Let_def
      split: option.splits if_splits sum.splits)

lemma agreement_retention_job: "create_retention_background_job job a p cutoff trace sch now s = Inr (resp, s') \<Longrightarrow> agreement_frame s s'"
  by (erule create_retention_spec) (simp_all add: frame_defs)

lemma agreement_retry:
  assumes "retry_background_job job i now s = Inr (resp, s')"
  shows "agreement_frame s s'"
proof -
  obtain r s1 where "s' = put_job (reopened_job now r) s1" "s1 = s \<or> (\<exists>a. s1 = put_asset a s)"
    using assms by (auto simp: retry_background_job_def bindR_Inr split: option.splits if_splits)
  then show ?thesis by (auto simp: frame_defs put_job_def put_asset_def)
qed

lemma agreement_capture: "create_capture_session job p cmd n now s = Inr (resp, s') \<Longrightarrow> agreement_frame s s'"
  by (auto simp: create_capture_session_def insert_capture_def uuid4_def frame_defs res_simps Let_def split: if_splits)

lemma agreement_announce:
  assumes "announce_completion_media job c a p trace now s = Inr s'"
  shows "agreement_frame s s'"
proof (cases "ma_media_purpose a = COMPLETION")
  case True
  then obtain ev where "enqueue_domain_event COMPLETION_MEDIA_SUBMITTED_V1 job (Some p) (Some trace) (media_payload c a) now
      (add_audit_event job AU_COMPLETION_MEDIA_UPLOADED (Some p) (media_payload c a) now s) = Inr (ev, s')"
    using assms by (auto simp: announce_completion_media_def bindR_Inr)
  then show ?thesis using agreement_event agreement_audit agreement_trans by blast
qed (use assms in \<open>simp add: announce_completion_media_def\<close>)

lemma agreement_repeat:
  assumes "repeat_validation job a p trace now s = Inr (resp, s')"
  shows "agreement_frame s s'"
proof -
  obtain tr s1 where t: "trace_or_new trace s = (tr, s1)" by force
  then obtain r where "create_media_validation_background_job job (ma_id a) p tr None now s1 = Inr (r, s')"
    using assms by (auto simp: repeat_validation_def bindR_Inr)
  then show ?thesis using agreement_trans agreement_trace[OF t] agreement_validation by blast
qed

lemma agreement_record:
  assumes "record_upload job c m a p trace now s = Inr (resp, s')"
  shows "agreement_frame s s'"
proof -
  let ?a = "uploaded_asset m now a"
  obtain tr s1 where t: "trace_or_new trace (put_asset ?a s) = (tr, s1)" by force
  obtain r s2 where v: "create_media_validation_background_job job (ma_id ?a) p tr None now s1 = Inr (r, s2)"
      "announce_completion_media job c ?a p tr now s2 = Inr s'"
    using assms t by (auto simp: record_upload_def bindR_Inr Let_def split: if_splits)
  have "agreement_frame s (put_asset ?a s)" by (simp add: put_asset_def frame_defs)
  then show ?thesis using agreement_trace[OF t] agreement_validation[OF v(1)] agreement_announce[OF v(2)] agreement_trans by blast
qed


lemma agreement_uuid: "uuid4 s = (i, s1) \<Longrightarrow> agreement_frame s s1"
  by (auto simp: uuid4_def frame_defs)

lemma agreement_asset: "insert_asset a s = Inr s' \<Longrightarrow> agreement_frame s s'"
  by (auto simp: insert_asset_def frame_defs split: if_splits)

lemma agreement_analysis:
  assumes "submit_capture_analysis job c p trace now s = Inr (resp, s')"
  shows "agreement_frame s s'"
proof -
  obtain i s1 where u: "uuid4 s = (i, s1)" by force
  have "s' = s \<or> (\<exists>r s2 ty agg act tr payload ev. insert_dispatch r s1 = Inr s2 \<and>
      enqueue_domain_event ty agg act tr payload now s2 = Inr (ev, s'))"
    using assms u by (auto simp: submit_capture_analysis_def bindR_Inr Let_def split: option.splits if_splits)
  moreover have "agreement_frame s1 s2" if "insert_dispatch r s1 = Inr s2" for r s2
    using that by (auto simp: insert_dispatch_def frame_defs split: if_splits)
  ultimately show ?thesis using agreement_uuid[OF u] agreement_event agreement_trans agreement_refl by metis
qed

lemma agreement_videos: "consume_videos r p now as s = Inr s' \<Longrightarrow> agreement_frame s s'"
proof (induction as arbitrary: s)
  case (Cons a as)
  obtain resp s1 where d: "create_media_deletion_background_job a (ca_move_job_id r) (Some p) (ca_trace_id r) None now s = Inr (resp, s1)"
      "consume_videos r p now as (put_asset (a\<lparr>ma_status := DELETED\<rparr>) s1) = Inr s'"
    using Cons.prems by (auto simp: bindR_Inr)
  have "agreement_frame s1 (put_asset (a\<lparr>ma_status := DELETED\<rparr>) s1)" by (simp add: put_asset_def frame_defs)
  then show ?case using agreement_deletion[OF d(1)] Cons.IH[OF d(2)] agreement_trans by blast
qed simp

text \<open>Links and sessions.\<close>

lemma agreement_token: "agreement_frame s (put_token r s)" "agreement_frame s (revoke_workspace_memberships p now s)"
  by (simp_all add: frame_defs put_token_def revoke_workspace_memberships_def)

lemma agreement_revoke_link:
  assumes "revoke_access_link i actor operation now s = Inr s'"
  shows "agreement_frame s s'"
  using assms by (auto simp: revoke_access_link_def Let_def split: option.splits if_splits
      intro!: agreement_trans[OF _ agreement_audit] agreement_trans[OF agreement_token(1) agreement_token(2)])

lemma agreement_actor: "participant_actor p corr s = Inr (a, s') \<Longrightarrow> agreement_frame s s'"
  by (auto simp: participant_actor_def Let_def bindR_Inr uuid4_def token_hex16_def frame_defs split: option.splits if_splits)

lemma agreement_use: "agreement_frame s (record_use link p i now s)"
  by (auto simp: record_use_def Let_def split: option.split intro!: agreement_trans[OF agreement_token(1) agreement_audit] agreement_token(1))

lemma agreement_bearer:
  assumes "authenticate_request secret cache limit window pending corr now s = Inr (a, s')"
  shows "agreement_frame s s'"
proof -
  have "authenticate_access_token secret cache limit window pending corr now s = Inr (a, s')"
    using assms by (auto simp: authenticate_request_def split: sum.splits if_splits)
  then show ?thesis
  proof (rule authenticate_cases)
    fix link p n t s1
    assume inc: "increment_database_rate_window (at_id link) (at_token_hash link) now window s = Inr ((n, t), s1)"
      and a: "participant_actor p corr (record_use link p (invitation_of_link (at_id link) s) now s1) = Inr (a, s')"
    have "agreement_frame s s1" using inc by (rule increment_eq) (simp add: agreement_token)
    then show ?thesis using agreement_use agreement_actor[OF a] agreement_trans by blast
  qed
qed

lemma agreement_session: "agreement_frame s (put_session w s)"
  by (simp add: put_session_def frame_defs)

lemma cookie_cases:
  assumes "authenticate_workspace_actor secret job csrf corr now s = Inr (a, s')"
  obtains w account p s1 where "w \<in> set (workspace_sessions s)" "ws_token_hash w = sha256_hex s secret" "ws_revoked_at w = None" "now < ws_expires_at w"
    "\<forall>t. csrf = Some t \<longrightarrow> ws_csrf_token w = t" "row wa_id (ws_account_id w) (workspace_accounts s) = Some account"
    "p \<in> set (participants s1)" "jp_job_id p = job" "member_account p (wa_id account) s1" "participant_actor p corr s1 = Inr (a, s')"
    "s1 = put_session (w\<lparr>ws_last_used_at := Some now\<rparr>) s"
proof -
  obtain w account where w: "find (\<lambda>w. ws_token_hash w = sha256_hex s secret) (workspace_sessions s) = Some w"
      "row wa_id (ws_account_id w) (workspace_accounts s) = Some account" "ws_revoked_at w = None" "now < ws_expires_at w"
      "\<forall>t. csrf = Some t \<longrightarrow> ws_csrf_token w = t"
    using assms unfolding authenticate_workspace_actor_def authenticate_workspace_account_def load_session_def
    by (auto simp: bindR_Inr Let_def split: if_splits option.splits)
  let ?s1 = "put_session (w\<lparr>ws_last_used_at := Some now\<rparr>) s"
  obtain p where p: "find (\<lambda>p. jp_job_id p = job \<and> jp_role p = wa_role account \<and> member_account p (wa_id account) ?s1) (participants ?s1) = Some p"
      "participant_actor p corr ?s1 = Inr (a, s')"
    using assms w unfolding authenticate_workspace_actor_def authenticate_workspace_account_def load_session_def
    by (auto simp: bindR_Inr Let_def split: if_splits option.splits)
  show ?thesis using that[of w account p ?s1] w find_mem[OF w(1)] find_mem[OF p(1)] p(2) by simp
qed

lemma actor_cases:
  assumes "get_current_actor bearer cookie (Some (Some job)) meth csrf cache limit window corr now s = Inr (a, s')"
  obtains (bearer) secret where "bearer = Some secret" "authenticate_request secret cache limit window False corr now s = Inr (a, s')"
  | (cookie) secret where "bearer = None" "cookie = Some secret" "safe_method meth \<or> csrf \<noteq> None"
      "authenticate_workspace_actor secret job (if safe_method meth then None else csrf) corr now s = Inr (a, s')"
  using assms unfolding get_current_actor_def by (auto split: option.splits if_splits sum.splits)

lemma agreement_authentication:
  assumes "get_current_actor bearer cookie (Some (Some job)) meth csrf cache limit window corr now s = Inr (a, s')"
  shows "agreement_frame s s'"
  using assms
proof (cases rule: actor_cases)
  case (bearer secret)
  show ?thesis by (rule agreement_bearer[OF bearer(2)])
next
  case (cookie secret)
  show ?thesis
    by (rule cookie_cases[OF cookie(4)]) (use agreement_session agreement_actor agreement_trans in blast)
qed

section \<open>Every route is an operation of the agreement\<close>

lemma written_Inr: "written m = Inr s' \<longleftrightarrow> (\<exists>v. m = Inr (v, s'))"
  by (auto simp: written_def split: sum.splits)

lemma only_read_Inr: "only_read s m = Inr s' \<longleftrightarrow> s' = s \<and> (\<exists>v. m = Inr v)"
  by (auto simp: only_read_def split: sum.splits)

lemma answer_Inr: "answer h m = Inr x \<longleftrightarrow> m = Inr x"
  by (auto simp: answer_def split: sum.splits)

lemma authorized_Inr: "authorized a job roles f = Inr x \<longleftrightarrow> (\<exists>p r. authorize_job_actor a job roles = None \<and>
    ac_participant_id a = Some p \<and> ac_participant_role a = Some r \<and> f p r = Inr x)"
  by (auto simp: authorized_def split: option.splits)

lemma with_retention_Inr: "with_retention app f = Inr x \<longleftrightarrow> (\<exists>d. media_retention_days app = Some d \<and> f d = Inr x)"
  by (auto simp: with_retention_def retention_days_def split: option.splits)

lemma with_storage_Inr: "with_storage app job a f = Inr x \<longleftrightarrow>
    (\<exists>st. authorize_job_actor a job None = None \<and> app_storage app = Some st \<and> f st = Inr x)"
  by (auto simp: with_storage_def get_storage_port_def split: option.splits)

lemmas route_simps = written_Inr only_read_Inr answer_Inr authorized_Inr with_retention_Inr with_storage_Inr

lemma field_op_frame: "scope_frame s s' \<and> change_requests s' = change_requests s \<and> proposal_details s' = proposal_details s \<and>
    scope_proposals s' = scope_proposals s \<and> revision_requests s' = revision_requests s \<Longrightarrow> field_op s s'"
  by (intro fop_review rop_scope sop_other) simp_all

lemma version_op:
  assumes "create_scope_version job pid parent c source flp now s = Inr (resp, s')"
  shows "field_op s s'"
  by (intro fop_review rop_scope sop_create[OF assms])
    (simp_all add: create_version_tables[OF assms] create_version_other[OF assms] create_version_requests[OF assms])

lemma approval_op:
  assumes "approve_scope_version job vid p role trace now s = Inr (res, s')"
  shows "field_op s s'"
  by (intro fop_review rop_scope sop_approve[OF assms]) (simp_all add: approve_tables[OF assms] approve_other[OF assms])

lemma proposal_op:
  assumes "create_scope_proposal job p cmd now s = Inr (resp, s')"
  shows "field_op s s'"
proof (rule fop_review[OF rop_send[OF assms]])
  have "change_requests s' = change_requests s \<and> proposal_details s' = proposal_details s"
    using assms
  proof (cases rule: create_proposal_cases)
    case (fresh source kind basis q)
    show ?thesis by (rule send_cases[OF fresh(4)]) (simp add: create_version_other create_version_requests approve_other supersede_def put_revision_def put_proposal_def split: option.split)
  qed simp
  then show "change_requests s' = change_requests s" "proposal_details s' = proposal_details s" by simp_all
qed

lemma revision_op:
  assumes "request_scope_revision job p vid reason now s = Inr (resp, s')"
  shows "field_op s s'"
proof (rule fop_review[OF rop_revise[OF assms]])
  show "change_requests s' = change_requests s" "proposal_details s' = proposal_details s"
    using assms by (cases rule: request_revision_cases; simp)+
qed

lemma confirmation_op:
  assumes "confirm_scope_proposal job p vid trace now s = Inr (resp, s')"
  shows "field_op s s'"
proof (rule fop_review[OF rop_confirm[OF assms]])
  have "change_requests s' = change_requests s \<and> proposal_details s' = proposal_details s"
    using assms by (cases rule: confirm_cases) (simp_all add: approve_other put_proposal_def)
  then show "change_requests s' = change_requests s" "proposal_details s' = proposal_details s" by simp_all
qed

lemma snapshot_op:
  assumes "snapshot_scope job p v now s = Inr s'"
  shows "field_op s s'"
proof -
  obtain c where c: "(case create_scope_version job (Some p) (Some (sv_id v)) c None False now s of
        Inl e \<Rightarrow> Inl (if e = ScopeVersionConflictError then MoveJobConflictError else e) | Inr (_, s1) \<Rightarrow> Inr s1) = Inr s'"
    using assms unfolding snapshot_scope_def bindR_Inr by blast
  then obtain resp where "create_scope_version job (Some p) (Some (sv_id v)) c None False now s = Inr (resp, s')"
    by (cases "create_scope_version job (Some p) (Some (sv_id v)) c None False now s") auto
  then show ?thesis by (rule version_op)
qed

lemma patch_ops:
  assumes "patch_move_job job p cmd now s = Inr (resp, s')"
  shows "field_op\<^sup>*\<^sup>* s s'"
proof (rule patch_parts[OF assms])
  fix j s1 s2 ty pl
  assume a: "address_frame (put_move_job (patched_job cmd now j) s) s1"
    and b: "(case current_scope_of job s of None \<Rightarrow> Inr s1
      | Some v \<Rightarrow> if changes_scope_conditions cmd \<and> sc_schema_version (sv_content v) = 2 then snapshot_scope job p v now s1 else Inr s1) = Inr s2"
    and c: "s' = add_audit_event job ty (Some p) pl now s2"
  obtain ls where "s1 = put_move_job (patched_job cmd now j) s\<lparr>locations := ls\<rparr>" using a unfolding address_frame_def by blast
  then have "field_op s s1" by (intro agreement_op) (simp add: frame_defs put_move_job_def)
  moreover have "field_op\<^sup>*\<^sup>* s1 s2" using b snapshot_op by (auto split: option.splits if_splits)
  moreover have "field_op s2 s'" unfolding c by (rule agreement_op[OF agreement_audit])
  ultimately show ?thesis by (meson converse_rtranclp_into_rtranclp rtranclp.rtrancl_into_rtrancl)
qed

lemma agreement_cancel:
  assumes "cancel_move_job job p now s = Inr s'"
  shows "agreement_frame s s'"
proof -
  let ?t = "s\<lparr>invitations := update_where (\<lambda>i. pi_job_id i = job) (\<lambda>i. i\<lparr>pi_status := INV_REVOKED, pi_resolved_at := Some now\<rparr>) (invitations s)\<rparr>"
  let ?u = "\<lambda>j. put_move_job (j\<lparr>mj_status := CANCELED, mj_updated_at := now\<rparr>) ?t"
  have c: "s' = s \<or> (\<exists>j. foldR (\<lambda>r. revoke_access_link (at_id r) p (Some ''job_canceled'') now) (live_links_of job ?t) (?u j) = Inr s')"
    using assms unfolding cancel_move_job_def Let_def by (auto split: option.splits if_splits)
  have t: "agreement_frame s (?u j)" for j by (simp add: frame_defs put_move_job_def)
  have "agreement_frame (?u j) s'" if "foldR (\<lambda>r. revoke_access_link (at_id r) p (Some ''job_canceled'') now) (live_links_of job ?t) (?u j) = Inr s'" for j
    using agreement_fold[OF _ that] agreement_revoke_link by blast
  then show ?thesis using c agreement_trans[OF t] agreement_refl by metis
qed

lemma review_completion_ops:
  assumes "complete_analysis_review job p cmd now s = Inr (resp, s')"
  shows "field_op\<^sup>*\<^sup>* s s'"
proof -
  obtain r source content review s1 where v: "(case child_scope (sv_id source) s of
         Some existing \<Rightarrow> if sv_created_by_participant_id existing \<noteq> Some p \<or> sv_content existing \<noteq> content
           then Inl AnalysisReviewConflictError else Inr (existing, s)
       | None \<Rightarrow> store_review job p source content now s) = Inr (review, s1)" "consume_review_videos r p now s1 = Inr s'"
    using assms unfolding complete_analysis_review_def by (auto simp: bindR_Inr split: if_splits)
  have "field_op\<^sup>*\<^sup>* s s1" using v(1) by (auto simp: store_review_def split: option.splits sum.splits if_splits intro: one_op dest: version_op)
  moreover have "field_op s1 s'" using agreement_op[OF agreement_videos[OF v(2)[unfolded consume_review_videos_def]]] .
  ultimately show ?thesis by simp
qed

text \<open>An upload and what others commit in between.\<close>

lemma upload_ops:
  assumes "create_media_upload url others job c p cmd now s = Inr (resp, s')" "\<And>t. field_op\<^sup>*\<^sup>* t (others t)"
  shows "field_op\<^sup>*\<^sup>* s s'"
proof -
  obtain i s1 a where u: "uuid4 s = (i, s1)" "insert_asset a (others s1) = Inr s'"
    using assms(1) unfolding create_media_upload_def
    by (cases "uuid4 s") (auto simp: bindR_Inr Let_def split: if_splits)
  show ?thesis
    using agreement_op[OF agreement_uuid[OF u(1)]] assms(2)[of s1] agreement_op[OF agreement_asset[OF u(2)]]
    by (meson converse_rtranclp_into_rtranclp rtranclp.rtrancl_into_rtrancl)
qed

lemma upload_completion_cases:
  assumes "complete_media_upload meta others job c m p trace now s = Inr (resp, s')"
  shows "(\<exists>a. repeat_validation job a p trace now s = Inr (resp, s')) \<or> (\<exists>a. repeat_validation job a p trace now (others s) = Inr (resp, s')) \<or>
      (\<exists>d a. record_upload job c d a p trace now (others s) = Inr (resp, s'))"
  using assms unfolding complete_media_upload_def
  by (auto simp: bindR_Inr Let_def split: if_splits option.splits sum.splits)

lemma upload_completion_ops:
  assumes "complete_media_upload meta others job c m p trace now s = Inr (resp, s')" "\<And>t. field_op\<^sup>*\<^sup>* t (others t)"
  shows "field_op\<^sup>*\<^sup>* s s'"
  using upload_completion_cases[OF assms(1)] agreement_op agreement_repeat agreement_record assms(2)[of s]
  by (meson r_into_rtranclp rtranclp.rtrancl_into_rtrancl)

lemmas job_endpoint_defs =
  create_scope_version_endpoint_def list_scope_versions_endpoint_def approve_scope_version_endpoint_def
  create_change_request_endpoint_def list_change_requests_endpoint_def create_change_evidence_read_url_endpoint_def
  request_change_clarification_endpoint_def explain_change_request_endpoint_def decide_change_request_endpoint_def
  get_scope_confirmation_history_endpoint_def create_scope_proposal_endpoint_def
  request_scope_revision_endpoint_def confirm_scope_proposal_endpoint_def
  create_field_issue_endpoint_def list_field_issues_endpoint_def create_field_issue_evidence_read_url_endpoint_def
  create_change_proposal_endpoint_def get_change_proposal_endpoint_def decide_change_proposal_endpoint_def
  explain_change_proposal_endpoint_def
  create_dispatch_setup_endpoint_def get_dispatch_endpoint_def confirm_dispatch_endpoint_def get_field_brief_endpoint_def
  check_in_field_worker_endpoint_def
  submit_completion_endpoint_def get_completion_summary_endpoint_def create_completion_request_endpoint_def
  revoke_completion_request_endpoint_def decide_completion_request_endpoint_def download_completion_archive_endpoint_def
  confirm_completion_endpoint_def list_completion_confirmations_endpoint_def list_audit_events_endpoint_def
  get_media_consent_policy_endpoint_def list_capture_sessions_endpoint_def submit_capture_analysis_endpoint_def
  get_capture_analysis_endpoint_def create_capture_session_endpoint_def create_media_upload_endpoint_def
  complete_media_upload_endpoint_def
  get_move_job_endpoint_def patch_move_job_endpoint_def cancel_move_job_endpoint_def get_analysis_review_endpoint_def
  complete_analysis_review_endpoint_def create_background_job_endpoint_def list_background_jobs_endpoint_def
  retry_background_job_endpoint_def list_notifications_endpoint_def

lemma scope_routes: "serve_scope app job a c now s = Inr s' \<Longrightarrow> field_op\<^sup>*\<^sup>* s s'"
  by (cases c) (auto simp: route_simps job_endpoint_defs intro: one_op
      dest: version_op approval_op fop_request fop_clarify fop_explain fop_decide)

lemma review_routes: "serve_review app job a c now s = Some (Inr s') \<Longrightarrow> field_op\<^sup>*\<^sup>* s s'"
  by (cases c) (auto simp: route_simps job_endpoint_defs intro: one_op dest: proposal_op revision_op confirmation_op)

lemma field_change_routes: "serve_field_change app job a c now s = Inr s' \<Longrightarrow> field_op\<^sup>*\<^sup>* s s'"
  by (cases c) (auto simp: route_simps job_endpoint_defs intro: one_op dest: fop_issue fop_propose fop_decision fop_explanation)

lemma dispatch_routes: "serve_dispatch job a c now s = Inr s' \<Longrightarrow> field_op\<^sup>*\<^sup>* s s'"
  by (cases c) (auto simp: route_simps job_endpoint_defs bindR_Inr intro: one_op
      dest: field_op_frame[OF frames(1)] field_op_frame[OF frames(2)] field_op_frame[OF frames(3)])

lemma completion_routes: "serve_completion archive app job a c now s = Inr s' \<Longrightarrow> field_op\<^sup>*\<^sup>* s s'"
  by (cases c) (auto simp: route_simps job_endpoint_defs intro: one_op agreement_op
      dest: agreement_submit agreement_request agreement_revoke agreement_decide agreement_confirm)

lemma capture_routes:
  assumes "serve_capture others app job a c now s = Inr s'" "\<And>t. field_op\<^sup>*\<^sup>* t (others t)"
  shows "field_op\<^sup>*\<^sup>* s s'"
  using assms(1) by (cases c) (auto simp: route_simps job_endpoint_defs intro: one_op agreement_op
      dest: agreement_analysis agreement_capture upload_ops[OF _ assms(2)] upload_completion_ops[OF _ assms(2)])

lemma move_job_routes: "serve_move_job app job a c now s = Inr s' \<Longrightarrow> field_op\<^sup>*\<^sup>* s s'"
  by (cases c) (auto simp: route_simps job_endpoint_defs intro: one_op agreement_op
      dest: patch_ops agreement_cancel review_completion_ops agreement_retention_job agreement_retry)

lemma routes:
  assumes "serve others archive app job a c now s = Some (Inr s')" "\<And>t. field_op\<^sup>*\<^sup>* t (others t)"
  shows "field_op\<^sup>*\<^sup>* s s'"
  using assms(1) by (cases c) (simp_all add: scope_routes review_routes field_change_routes dispatch_routes completion_routes
      capture_routes[OF _ assms(2)] move_job_routes)

lemma request_parts:
  assumes "handle_job_request others archive app q job c now s = Some (e, s')"
  obtains (refused) "s' = s" "e \<noteq> None"
  | (failed) a err where "get_current_actor (rc_bearer q) (rc_cookie q) (Some (Some job)) (call_method c) (rc_csrf_header q) (rc_cache q)
         (rc_rate_limit q) (rc_rate_window q) (rc_correlation q) now s = Inr (a, s')" "e = Some err"
  | (served) a s1 where "get_current_actor (rc_bearer q) (rc_cookie q) (Some (Some job)) (call_method c) (rc_csrf_header q) (rc_cache q)
         (rc_rate_limit q) (rc_rate_window q) (rc_correlation q) now s = Inr (a, s1)"
      "serve others archive app job a c now s1 = Some (Inr s')" "e = None"
  using assms unfolding handle_job_request_def by (auto split: sum.splits option.splits)

lemma request_ops:
  assumes "handle_job_request others archive app q job c now s = Some (e, s')" "\<And>t. field_op\<^sup>*\<^sup>* t (others t)"
  shows "field_op\<^sup>*\<^sup>* s s'"
  using assms(1)
proof (cases rule: request_parts)
  case (failed a err)
  then show ?thesis using one_op[OF agreement_op[OF agreement_authentication]] by blast
next
  case (served a s1)
  show ?thesis
    by (rule converse_rtranclp_into_rtranclp[OF agreement_op[OF agreement_authentication[OF served(1)]] routes[OF served(2) assms(2)]])
qed simp

section \<open>Runs of requests\<close>

text \<open>What happens to the database: requests of all users, each with whatever others commit while its upload
  waits for the storage, and the steps of the other processes, as far as they touch an agreement.\<close>

inductive api_step :: "db \<Rightarrow> db \<Rightarrow> bool" where
  api_request: "\<forall>t. api_step\<^sup>*\<^sup>* t (others t) \<Longrightarrow> handle_job_request others archive app q job c now s = Some (e, s') \<Longrightarrow> api_step s s'"
| api_process: "field_op s s' \<Longrightarrow> api_step s s'"

lemma api_step_ops: "api_step s s' \<Longrightarrow> field_op\<^sup>*\<^sup>* s s'"
proof (induction rule: api_step.induct)
  case (api_request others archive app q job c now s e s')
  have "field_op\<^sup>*\<^sup>* t (others t)" for t
    using api_request(1)[rule_format, of t] by (induction rule: rtranclp_induct) (auto intro: rtranclp_trans)
  then show ?case by (rule request_ops[OF api_request(2)])
qed (rule one_op)

interpretation api: evolution api_step field_inv field_evolve
  by unfold_locales (auto intro: field_evolve_trans dest: api_step_ops field_ops_sound)

section \<open>Who is served\<close>

text \<open>The roles a route is for.\<close>

primrec scope_roles :: "scope_call \<Rightarrow> ParticipantRole set" where
  "scope_roles (PostScopeVersion parent content) = {CUSTOMER, COMPANY_MANAGER}"
| "scope_roles GetScopeVersions = {CUSTOMER, COMPANY_MANAGER}"
| "scope_roles (PostApproval i) = {CUSTOMER, COMPANY_MANAGER}"
| "scope_roles (PostChangeRequest cmd) = {FIELD_WORKER}"
| "scope_roles GetChangeRequests = UNIV"
| "scope_roles (GetChangeEvidence i m) = {CUSTOMER, COMPANY_MANAGER}"
| "scope_roles (PostClarification i t) = {CUSTOMER, COMPANY_MANAGER}"
| "scope_roles (PostExplanation i t) = {FIELD_WORKER}"
| "scope_roles (PostDecision i cmd) = {CUSTOMER, COMPANY_MANAGER}"

primrec review_roles :: "review_call \<Rightarrow> ParticipantRole set" where
  "review_roles (GetScopeReview fuel) = UNIV"
| "review_roles GetHistory = {CUSTOMER, COMPANY_MANAGER}"
| "review_roles (PostProposal cmd) = {COMPANY_MANAGER}"
| "review_roles (PostRevisionRequest i t) = {CUSTOMER}"
| "review_roles (PostConfirm i) = {CUSTOMER}"

primrec field_change_roles :: "field_change_call \<Rightarrow> ParticipantRole set" where
  "field_change_roles (PostFieldIssue cmd) = {COMPANY_MANAGER, FIELD_WORKER}"
| "field_change_roles GetFieldIssues = UNIV"
| "field_change_roles (GetIssueEvidence i m) = UNIV"
| "field_change_roles (PostChangeProposal cmd) = {COMPANY_MANAGER}"
| "field_change_roles (GetChangeProposal i) = {CUSTOMER, COMPANY_MANAGER}"
| "field_change_roles (PostProposalDecision i cmd) = {CUSTOMER}"
| "field_change_roles (PostProposalExplanation i t) = {COMPANY_MANAGER}"

primrec dispatch_roles :: "dispatch_call \<Rightarrow> ParticipantRole set" where
  "dispatch_roles (PostDispatchSetup cmd) = {COMPANY_MANAGER}"
| "dispatch_roles GetDispatch = {COMPANY_MANAGER}"
| "dispatch_roles (PutDispatch cmd) = {COMPANY_MANAGER}"
| "dispatch_roles GetFieldBrief = {FIELD_WORKER}"
| "dispatch_roles (PostCheckIn cmd) = {FIELD_WORKER}"

primrec completion_roles :: "completion_call \<Rightarrow> ParticipantRole set" where
  "completion_roles (PostSubmission cmd) = {FIELD_WORKER}"
| "completion_roles GetSummary = {CUSTOMER, COMPANY_MANAGER}"
| "completion_roles (PostCompletionRequest cmd) = {COMPANY_MANAGER}"
| "completion_roles (PostRevocation i t) = {COMPANY_MANAGER}"
| "completion_roles (PostCompletionDecision i cmd) = {CUSTOMER}"
| "completion_roles GetArchive = {COMPANY_MANAGER}"
| "completion_roles (PostConfirmation cmd) = {CUSTOMER, COMPANY_MANAGER}"
| "completion_roles GetConfirmations = UNIV"
| "completion_roles GetAuditEvents = UNIV"

primrec move_job_roles :: "move_job_call \<Rightarrow> ParticipantRole set" where
  "move_job_roles GetMoveJob = UNIV"
| "move_job_roles (PatchMoveJob cmd) = {CUSTOMER}"
| "move_job_roles DeleteMoveJob = {CUSTOMER}"
| "move_job_roles GetAnalysisReview = {CUSTOMER}"
| "move_job_roles (PostAnalysisReview cmd) = {CUSTOMER}"
| "move_job_roles (PostBackgroundJob m) = {COMPANY_MANAGER}"
| "move_job_roles GetBackgroundJobs = UNIV"
| "move_job_roles (PostBackgroundRetry i) = {COMPANY_MANAGER}"
| "move_job_roles GetNotifications = UNIV"

primrec admitted :: "job_call \<Rightarrow> ParticipantRole set" where
  "admitted (ScopeRoute c) = scope_roles c"
| "admitted (ReviewRoute c) = review_roles c"
| "admitted (FieldChangeRoute c) = field_change_roles c"
| "admitted (DispatchRoute c) = dispatch_roles c"
| "admitted (CompletionRoute c) = completion_roles c"
| "admitted (CaptureRoute c) = UNIV"
| "admitted (JobRoute c) = move_job_roles c"

lemmas role_lists = APPROVER_ROLES_def REVIEW_ROLES_def CONFIRMATION_HISTORY_ROLES_def ISSUE_VIEW_ROLES_def ISSUE_REPORT_ROLES_def
  ISSUE_EVIDENCE_VIEW_ROLES_def PROPOSAL_VIEW_ROLES_def COMPLETION_ROLES_def FIELD_WORKER_ROLE_def COMPANY_ROLE_def CUSTOMER_ROLE_def
  MAINTENANCE_ROLES_def

lemma authorize_None: "authorize_job_actor a job None = None \<longleftrightarrow> is_participant_for a job"
  by (simp add: authorize_job_actor_def)

lemma authorize_Some: "authorize_job_actor a job (Some roles) = None \<longleftrightarrow>
    is_participant_for a job \<and> (\<exists>r \<in> set roles. ac_participant_role a = Some r)"
  by (auto simp: authorize_job_actor_def split: option.splits)

lemmas gate_simps = route_simps authorize_None authorize_Some role_lists

lemma scope_gate: "serve_scope app job a c now s = Inr s' \<Longrightarrow> is_participant_for a job \<and> (\<exists>r \<in> scope_roles c. ac_participant_role a = Some r)"
  by (cases c) (auto simp: gate_simps job_endpoint_defs)

lemma review_gate:
  "serve_review app job a c now s = Some (Inr s') \<Longrightarrow> is_participant_for a job \<and> (\<exists>r \<in> review_roles c. ac_participant_role a = Some r)"
proof (cases c)
  case (GetScopeReview fuel)
  assume "serve_review app job a c now s = Some (Inr s')"
  then obtain st p r where "with_storage app job a (\<lambda>st. authorized a job (Some REVIEW_ROLES) (\<lambda>p r. Inr (st, p, r))) = Inr (st, p, r)"
    using GetScopeReview by (auto simp: get_scope_review_endpoint_def only_read_Inr split: sum.splits)
  then show ?thesis using GetScopeReview by (auto simp: gate_simps)
qed (auto simp: gate_simps job_endpoint_defs)

lemma field_change_gate:
  "serve_field_change app job a c now s = Inr s' \<Longrightarrow> is_participant_for a job \<and> (\<exists>r \<in> field_change_roles c. ac_participant_role a = Some r)"
  by (cases c) (auto simp: gate_simps job_endpoint_defs)

lemma dispatch_gate:
  "serve_dispatch job a c now s = Inr s' \<Longrightarrow> is_participant_for a job \<and> (\<exists>r \<in> dispatch_roles c. ac_participant_role a = Some r)"
  by (cases c) (auto simp: gate_simps job_endpoint_defs)

lemma completion_gate:
  "serve_completion archive app job a c now s = Inr s' \<Longrightarrow> is_participant_for a job \<and> (\<exists>r \<in> completion_roles c. ac_participant_role a = Some r)"
  by (cases c) (auto simp: gate_simps job_endpoint_defs)

lemma capture_gate: "serve_capture others app job a c now s = Inr s' \<Longrightarrow> is_participant_for a job \<and> (\<exists>r. ac_participant_role a = Some r)"
  by (cases c) (auto simp: gate_simps job_endpoint_defs)

lemma move_job_gate:
  "serve_move_job app job a c now s = Inr s' \<Longrightarrow> is_participant_for a job \<and> (\<exists>r \<in> move_job_roles c. ac_participant_role a = Some r)"
  by (cases c) (auto simp: gate_simps job_endpoint_defs)

lemma serve_gate:
  "serve others archive app job a c now s = Some (Inr s') \<Longrightarrow> is_participant_for a job \<and> (\<exists>r \<in> admitted c. ac_participant_role a = Some r)"
  by (cases c) (simp_all add: scope_gate review_gate field_change_gate dispatch_gate completion_gate capture_gate move_job_gate)


section \<open>Properties\<close>

text \<open>Property C1: a request of a route of \<open>job_call\<close> (every route under a job but those for invitations and access
  links, which AccessApi has) is carried out only for one of its participants, in a role the route is for,
  who proved it: by the secret of a live link of this participant, or by the cookie of a live session whose account
  holds a live membership of the participant, with the CSRF token of the session when the method can change something.\<close>

theorem served_requests_are_authorized:
  assumes "handle_job_request others archive app q job c now s = Some (None, s')"
  shows "\<exists>p \<in> set (participants s). jp_job_id p = job \<and> jp_role p \<in> admitted c \<and>
    (case rc_bearer q of
       Some secret \<Rightarrow> (\<exists>link \<in> set (access_tokens s). at_participant_id link = jp_id p \<and> at_token_hash link = sha256_hex s secret \<and>
         at_revoked_at link = None \<and> now < at_expires_at link)
     | None \<Rightarrow> (\<exists>cookie. \<exists>w \<in> set (workspace_sessions s). \<exists>m \<in> set (workspace_memberships s). rc_cookie q = Some cookie \<and>
         ws_token_hash w = sha256_hex s cookie \<and> ws_revoked_at w = None \<and> now < ws_expires_at w \<and>
         (safe_method (call_method c) \<or> rc_csrf_header q = Some (ws_csrf_token w)) \<and>
         wm_participant_id m = jp_id p \<and> wm_account_id m = ws_account_id w \<and> wm_revoked_at m = None))"
  using assms
proof (cases rule: request_parts)
  case (served a s1)
  note gate = serve_gate[OF served(2)]
  have role: "p \<in> set (participants s) \<Longrightarrow> participant_actor p corr t = Inr (a, s1) \<Longrightarrow> jp_job_id p = job \<and> jp_role p \<in> admitted c" for p corr t
    using gate participant_actor_eq(3,4)[of p corr t a s1] by (auto simp: is_participant_for_def)
  show ?thesis using served(1)
  proof (cases rule: actor_cases)
    case (bearer secret)
    have "authenticate_access_token secret (rc_cache q) (rc_rate_limit q) (rc_rate_window q) False (rc_correlation q) now s = Inr (a, s1)"
      using bearer(2) by (auto simp: authenticate_request_def split: sum.splits if_splits)
    then show ?thesis
    proof (rule authenticate_cases)
      fix link p n t s2
      assume l: "find (\<lambda>r. at_token_hash r = sha256_hex s secret) (access_tokens s) = Some link" "at_revoked_at link = None"
          "now < at_expires_at link" "row jp_id (at_participant_id link) (participants s) = Some p"
        and a: "participant_actor p (rc_correlation q) (record_use link p (invitation_of_link (at_id link) s) now s2) = Inr (a, s1)"
      have p: "p \<in> set (participants s)" "jp_id p = at_participant_id link" using row_mem[OF l(4)] row_key[OF l(4)] by simp_all
      show ?thesis
        by (rule bexI[OF _ p(1)]) (use role[OF p(1) a] p(2) find_mem[OF l(1)] l bearer(1) in auto)
    qed
  next
    case (cookie secret)
    show ?thesis
    proof (rule cookie_cases[OF cookie(4)])
      fix w account p s2
      assume w: "w \<in> set (workspace_sessions s)" "ws_token_hash w = sha256_hex s secret" "ws_revoked_at w = None" "now < ws_expires_at w"
          "\<forall>t. (if safe_method (call_method c) then None else rc_csrf_header q) = Some t \<longrightarrow> ws_csrf_token w = t"
          "row wa_id (ws_account_id w) (workspace_accounts s) = Some account"
        and p: "p \<in> set (participants s2)" "member_account p (wa_id account) s2" "participant_actor p (rc_correlation q) s2 = Inr (a, s1)"
        and s2: "s2 = put_session (w\<lparr>ws_last_used_at := Some now\<rparr>) s"
      have p': "p \<in> set (participants s)" using p(1) by (simp add: s2 put_session_def)
      obtain m where m: "m \<in> set (workspace_memberships s)" "wm_participant_id m = jp_id p" "wm_account_id m = ws_account_id w" "wm_revoked_at m = None"
        using p(2) row_key[OF w(6)] by (auto simp: member_account_def list_ex_iff s2 put_session_def)
      show ?thesis
        by (rule bexI[OF _ p']) (use role[OF p' p(3)] w m cookie(1,2,3) in \<open>auto split: if_splits\<close>)
    qed
  qed
qed simp_all

text \<open>Property C2: an agreement survives every request. Whatever requests of the routes of \<open>job_call\<close> are made by whomever, in any
  order, with other processes and uploads in between, a version that is locked is found unchanged and the total agreed for a version stays.\<close>

theorem agreement_survives_requests:
  assumes "field_inv s" "api_step\<^sup>*\<^sup>* s s'"
  shows "(\<forall>i v. row sv_id i (scope_versions s) = Some v \<and> sv_locked_at v \<noteq> None \<longrightarrow> row sv_id i (scope_versions s') = Some v) \<and>
    (\<forall>job i n. effective_total_amount job i s = Inr n \<longrightarrow> effective_total_amount job i s' = Inr n)"
proof -
  have i: "field_inv s'" and e: "field_evolve s s'" using api.runs[OF assms(2,1)] by simp_all
  have v: "scope_evolve s s'" using e by (simp add: field_evolve_def review_evolve_def)
  show ?thesis
    using effective_stable[OF field_invD(1,2)[OF assms(1)] field_invD(1,2)[OF i] e] locked_row_kept[OF v] by blast
qed

text \<open>What the two sides have negotiated.\<close>

definition negotiated where
  "negotiated s = (scope_versions s, scope_approvals s, scope_proposals s, revision_requests s, proposal_details s)"

lemma agreement_negotiated: "agreement_frame s s' \<Longrightarrow> negotiated s' = negotiated s"
  by (simp add: frame_defs negotiated_def)

lemma request_negotiated: "create_change_request job p cmd trace now s = Inr (resp, s') \<Longrightarrow> negotiated s' = negotiated s"
  using create_request_tables create_request_frame by (fastforce simp: negotiated_def scope_frame_def)

lemma explanation_negotiated: "explain_change_request job i p t now s = Inr (resp, s') \<Longrightarrow> negotiated s' = negotiated s"
  by (auto simp: explain_change_request_def bindR_Inr Let_def negotiated_def put_request_def split: if_splits)

lemma issue_negotiated: "create_field_issue job p cmd now s = Inr (resp, s') \<Longrightarrow> negotiated s' = negotiated s"
  by (auto simp: create_field_issue_def insert_field_issue_def bindR_Inr uuid4_def Let_def negotiated_def
      split: option.splits if_splits sum.splits)

lemma check_in_negotiated: "check_in_field_worker job p cmd now s = Inr (resp, s') \<Longrightarrow> negotiated s' = negotiated s"
  by (erule check_in_cases) (simp_all add: negotiated_def)

lemma upload_negotiated:
  assumes "create_media_upload url others job c p cmd now s = Inr (resp, s')" "\<And>t. negotiated (others t) = negotiated t"
  shows "negotiated s' = negotiated s"
proof -
  obtain i s1 a where u: "uuid4 s = (i, s1)" "insert_asset a (others s1) = Inr s'"
    using assms(1) unfolding create_media_upload_def
    by (cases "uuid4 s") (auto simp: bindR_Inr Let_def split: if_splits)
  show ?thesis
    using agreement_negotiated[OF agreement_uuid[OF u(1)]] assms(2)[of s1] agreement_negotiated[OF agreement_asset[OF u(2)]] by simp
qed

lemma upload_completion_negotiated:
  assumes "complete_media_upload meta others job c m p trace now s = Inr (resp, s')" "\<And>t. negotiated (others t) = negotiated t"
  shows "negotiated s' = negotiated s"
proof -
  have "agreement_frame s s' \<or> agreement_frame (others s) s'"
    using upload_completion_cases[OF assms(1)] agreement_repeat agreement_record by blast
  then show ?thesis using agreement_negotiated assms(2)[of s] by fastforce
qed

lemma capture_negotiated:
  assumes "serve_capture others app job a c now s = Inr s'" "\<And>t. negotiated (others t) = negotiated t"
  shows "negotiated s' = negotiated s"
proof (cases c)
  case (PostCaptureSubmission i)
  then show ?thesis using assms(1) agreement_negotiated[OF agreement_analysis] by (auto simp: route_simps job_endpoint_defs)
next
  case (PostCapture cmd)
  then show ?thesis using assms(1) agreement_negotiated[OF agreement_capture] by (auto simp: route_simps job_endpoint_defs)
next
  case (PostUpload i cmd)
  then show ?thesis using assms(1) upload_negotiated[OF _ assms(2)] by (auto simp: route_simps job_endpoint_defs)
next
  case (PostUploadCompletion i m)
  then show ?thesis using assms(1) upload_completion_negotiated[OF _ assms(2)] by (auto simp: route_simps job_endpoint_defs)
qed (use assms(1) in \<open>auto simp: route_simps\<close>)

text \<open>Property C23: a field worker never touches what the two sides have negotiated: after a request in this role to any route of
  \<open>job_call\<close> (the routes for invitations and access links are not among them) every scope version, approval, proposal, revision request and priced change is as it was, unless another request changed it meanwhile.\<close>

theorem worker_requests_keep_agreement:
  assumes "serve others archive app job a c now s = Some (Inr s')" "ac_participant_role a = Some FIELD_WORKER"
    "\<forall>t. negotiated (others t) = negotiated t"
  shows "negotiated s' = negotiated s"
proof -
  have w: "FIELD_WORKER \<in> admitted c" using serve_gate[OF assms(1)] assms(2) by simp
  show ?thesis
  proof (cases c)
    case (ScopeRoute d)
    then show ?thesis using w assms(1)
      by (cases d) (auto simp: route_simps job_endpoint_defs dest: request_negotiated explanation_negotiated)
  next
    case (ReviewRoute d)
    then show ?thesis using w assms(1) by (cases d) (auto simp: route_simps)
  next
    case (FieldChangeRoute d)
    then show ?thesis using w assms(1) by (cases d) (auto simp: route_simps job_endpoint_defs dest: issue_negotiated)
  next
    case (DispatchRoute d)
    then show ?thesis using w assms(1) by (cases d) (auto simp: route_simps job_endpoint_defs dest: check_in_negotiated)
  next
    case (CompletionRoute d)
    then show ?thesis using w assms(1)
      by (cases d) (auto simp: route_simps job_endpoint_defs dest: agreement_negotiated[OF agreement_submit])
  next
    case (CaptureRoute d)
    then show ?thesis using capture_negotiated[OF _ assms(3)[rule_format]] assms(1) by simp
  next
    case (JobRoute d)
    then show ?thesis using w assms(1) by (cases d) (auto simp: route_simps job_endpoint_defs)
  qed
qed

section \<open>Samples\<close>

definition sample_request :: request_context where
  "sample_request = \<lparr>rc_bearer = Some (replicate 43 CHR ''b''), rc_cookie = None, rc_csrf_header = None, rc_cache = None,
     rc_rate_limit = 10, rc_rate_window = 60, rc_correlation = Some (7, replicate 32 CHR ''a'')\<rparr>"

definition sample_app :: app_state where
  "sample_app = \<lparr>media_retention_days = None, app_storage = None\<rparr>"

definition sample_actor :: "uuid \<Rightarrow> ParticipantRole \<Rightarrow> ActorContext" where
  "sample_actor p role = \<lparr>ac_actor_kind = PARTICIPANT_ACTOR, ac_participant_id = Some p, ac_participant_role = Some role,
     ac_job_id = Some 11, ac_service_name = None, ac_request_id = 7, ac_trace_id = replicate 32 CHR ''a''\<rparr>"

text \<open>The sample agreement with a link of its customer.\<close>

definition sample_api :: db where
  "sample_api = sample_field\<lparr>access_tokens := [\<lparr>at_id = 90, at_participant_id = 12, at_token_hash = replicate 64 CHR ''a'',
     at_expires_at = days 7, at_revoked_at = None, at_last_used_at = None, at_rate_window_started_at = None,
     at_rate_window_count = 0, at_created_at = 0\<rparr>]\<rparr>"

lemma sample_api_actor:
  "\<exists>s'. authenticate_access_token (replicate 43 CHR ''b'') None 10 60 False (Some (7, replicate 32 CHR ''a'')) 20 sample_api
     = Inr (sample_actor 12 CUSTOMER, s')"
proof -
  have secret: "access_secret_pattern (replicate 43 CHR ''b'')"
    by (simp add: access_secret_pattern_def url_safe_char_def is_lower_def in_range_def list_all_iff)
  have actor: "mk_actor_context (sample_actor 12 CUSTOMER) = Inr (sample_actor 12 CUSTOMER)"
    using sample_trace by (simp add: mk_actor_context_def sample_actor_def actor_context_ok_def)
  show ?thesis
    by (simp add: authenticate_access_token_def secret sample_api_def sample_field_defs days_def seconds_def invitation_of_link_def
        invitation_bars_def enforce_access_rate_limit_def increment_database_rate_window_def count_request_def Let_def put_token_def
        record_use_def participant_actor_def actor[unfolded sample_actor_def] sample_actor_def)
qed

lemma sample_request_served:
  "\<exists>s'. handle_job_request id (\<lambda>_. Inl ValueError) sample_app sample_request 11 (ScopeRoute GetScopeVersions) 20 sample_api = Some (None, s')"
proof -
  obtain s' where "authenticate_access_token (replicate 43 CHR ''b'') None 10 60 False (Some (7, replicate 32 CHR ''a'')) 20 sample_api
     = Inr (sample_actor 12 CUSTOMER, s')" using sample_api_actor by blast
  then show ?thesis
    by (simp add: handle_job_request_def get_current_actor_def authenticate_request_def sample_request_def sample_actor_def
        list_scope_versions_endpoint_def authorized_def authorize_job_actor_def is_participant_for_def APPROVER_ROLES_def only_read_def)
qed

lemma served_requests_are_authorized_witness:
  "\<exists>p \<in> set (participants sample_api). jp_job_id p = 11 \<and> jp_role p \<in> {CUSTOMER, COMPANY_MANAGER} \<and>
     (\<exists>link \<in> set (access_tokens sample_api). at_participant_id link = jp_id p)"
proof -
  obtain s' where "handle_job_request id (\<lambda>_. Inl ValueError) sample_app sample_request 11 (ScopeRoute GetScopeVersions) 20 sample_api
     = Some (None, s')" using sample_request_served by blast
  from served_requests_are_authorized[OF this] show ?thesis by (auto simp: sample_request_def)
qed

lemma agreement_survives_requests_witness:
  "\<exists>s'. handle_job_request id (\<lambda>_. Inl ValueError) sample_app sample_request 11 (ScopeRoute GetScopeVersions) 20 sample_api
     = Some (None, s') \<and> effective_total_amount 11 31 s' = Inr 120"
proof -
  obtain s' where h: "handle_job_request id (\<lambda>_. Inl ValueError) sample_app sample_request 11 (ScopeRoute GetScopeVersions) 20 sample_api
     = Some (None, s')" using sample_request_served by blast
  have o: "\<forall>t. api_step\<^sup>*\<^sup>* t (id t)" by simp
  have r: "api_step\<^sup>*\<^sup>* sample_api s'" using api_request[OF o h] by (rule r_into_rtranclp)
  have f: "field_op sample_field sample_api" by (rule agreement_op) (simp add: frame_defs sample_api_def)
  have i: "field_inv sample_api" using field_op_sound[OF f sample_field_inv] by simp
  have "effective_total_amount 11 31 sample_api = Inr 120"
    by (simp add: effective_total_amount_def initial_total_def sample_api_def sample_field_defs)
  then show ?thesis using agreement_survives_requests[OF i r] h by blast
qed

lemma worker_requests_keep_agreement_witness:
  "\<exists>s'. serve id (\<lambda>_. Inl ValueError) sample_app 11 (sample_actor 14 FIELD_WORKER) (DispatchRoute (PostCheckIn sample_check_in))
       (seconds (20 * 86400)) (sample_dispatch 31 [sample_plan_row 31]) = Some (Inr s') \<and>
     negotiated s' = negotiated (sample_dispatch 31 [sample_plan_row 31])"
proof -
  obtain r s' where "check_in_field_worker 11 14 sample_check_in (seconds (20 * 86400)) (sample_dispatch 31 [sample_plan_row 31]) = Inr (r, s')"
    using sample_checks_in by blast
  then have s: "serve id (\<lambda>_. Inl ValueError) sample_app 11 (sample_actor 14 FIELD_WORKER) (DispatchRoute (PostCheckIn sample_check_in))
       (seconds (20 * 86400)) (sample_dispatch 31 [sample_plan_row 31]) = Some (Inr s')"
    by (simp add: check_in_field_worker_endpoint_def authorized_def authorize_job_actor_def is_participant_for_def
        sample_actor_def answer_def written_def)
  have w: "ac_participant_role (sample_actor 14 FIELD_WORKER) = Some FIELD_WORKER" by (simp add: sample_actor_def)
  have o: "\<forall>t. negotiated (id t) = negotiated t" by simp
  show ?thesis using s worker_requests_keep_agreement[OF s w o] by blast
qed

end
