(* ===== verification/AccessApi.thy ===== *)
theory AccessApi
  imports JobApi
begin

text \<open>
  The endpoints of \<open>app/modules/access/router.py\<close>: workspace sessions, connection codes, contact points,
  invitations and links. The answer of an endpoint that issues a session carries the secret of its cookie;
  the attributes of the cookie are not modelled, and where the answer shows the text of an exception its
  class is shown instead. A required header or bearer token is an argument, without it the request is
  refused before. The \<open>actor\<close> of an invitation may be pending (\<open>get_invitation_actor\<close>). Lemmas are in
  AccessApiProofs.
\<close>

section \<open>Workspace sessions\<close>

definition invalid_session :: http_error where
  "invalid_session = HTTPException 401 ''invalid workspace session''"

definition workspace_principal ::
    "string option \<Rightarrow> string option \<Rightarrow> instant \<Rightarrow> db \<Rightarrow> http_error + WorkspacePrincipal \<times> db" where
  "workspace_principal cookie csrf now s = (case cookie of None \<Rightarrow> Inl invalid_session
     | Some secret \<Rightarrow> answer (except_clause [InvalidWorkspaceSessionError] invalid_session Unhandled)
         (authenticate_workspace_account secret csrf now s))"

definition create_workspace_session_endpoint ::
    "ActorContext \<Rightarrow> string option \<Rightarrow> instant \<Rightarrow> db \<Rightarrow> http_error + IssuedWorkspaceSession \<times> db" where
  "create_workspace_session_endpoint a cookie now s = (case ac_participant_id a of
     None \<Rightarrow> Inl (Unhandled AssertionError)
   | Some p \<Rightarrow> answer (except_clause [WorkspaceConflictError] (HTTPException 409 ''WorkspaceConflictError'') Unhandled)
       (create_or_extend_workspace_session p cookie now s))"

definition invalid_connection :: http_error where
  "invalid_connection = HTTPException 401 ''invalid move connection code''"

definition preview_move_connection_endpoint :: "MoveConnectionCreate \<Rightarrow> db \<Rightarrow> http_error + ParticipantRole \<times> string" where
  "preview_move_connection_endpoint cmd s = answer (except_clause [InvalidMoveConnectionError] invalid_connection Unhandled)
     (preview_move_connection (mcc_connection_code cmd) (mcc_role cmd) s)"

definition create_move_connection_endpoint ::
    "MoveConnectionCreate \<Rightarrow> string option \<Rightarrow> instant \<Rightarrow> db \<Rightarrow> http_error + IssuedWorkspaceSession \<times> db" where
  "create_move_connection_endpoint cmd cookie now s =
     answer (except_clause [InvalidMoveConnectionError] invalid_connection
         (except_clause [WorkspaceConflictError] (HTTPException 409 ''WorkspaceConflictError'') Unhandled))
       (bindR (resolve_move_connection (mcc_connection_code cmd) (mcc_role cmd) now s) (\<lambda>(p, s1).
        create_or_extend_workspace_session (jp_id p) cookie now s1))"

definition get_workspace_session_endpoint ::
    "string option \<Rightarrow> instant \<Rightarrow> db \<Rightarrow> http_error + WorkspaceSessionResponse \<times> db" where
  "get_workspace_session_endpoint cookie now s = (case cookie of None \<Rightarrow> Inl invalid_session
     | Some secret \<Rightarrow> answer (except_clause [InvalidWorkspaceSessionError] invalid_session Unhandled)
         (get_workspace_session secret now s))"

definition delete_workspace_session_endpoint ::
    "string option \<Rightarrow> string \<Rightarrow> instant \<Rightarrow> db \<Rightarrow> http_error + db" where
  "delete_workspace_session_endpoint cookie csrf now s = (case workspace_principal cookie (Some csrf) now s of
     Inl e \<Rightarrow> Inl e
   | Inr (_, s1) \<Rightarrow> (case cookie of None \<Rightarrow> Inl (Unhandled AssertionError)
       | Some secret \<Rightarrow> answer Unhandled (revoke_workspace_session secret now s1)))"

section \<open>Contact points\<close>

definition list_workspace_contact_points_endpoint ::
    "string option \<Rightarrow> instant \<Rightarrow> db \<Rightarrow> http_error + WorkspaceContactPointResponse list \<times> db" where
  "list_workspace_contact_points_endpoint cookie now s = (case workspace_principal cookie None now s of
     Inl e \<Rightarrow> Inl e
   | Inr (w, s1) \<Rightarrow> answer Unhandled (bindR (list_contact_points (wp_account_id w) s1) (\<lambda>cs. Inr (cs, s1))))"

definition upsert_workspace_contact_point_endpoint ::
    "NotificationContactChannel \<Rightarrow> WorkspaceContactPointUpsert \<Rightarrow> string option \<Rightarrow> string \<Rightarrow> instant \<Rightarrow> db \<Rightarrow>
     http_error + WorkspaceContactPointResponse \<times> db" where
  "upsert_workspace_contact_point_endpoint channel cmd cookie csrf now s =
     (case workspace_principal cookie (Some csrf) now s of
        Inl e \<Rightarrow> Inl e
      | Inr (w, s1) \<Rightarrow> answer (except_clause value_errors (HTTPException 422 ''ValueError'') Unhandled)
          (upsert_contact_point (wp_account_id w) channel cmd now s1))"

definition delete_workspace_contact_point_endpoint ::
    "NotificationContactChannel \<Rightarrow> string option \<Rightarrow> string \<Rightarrow> instant \<Rightarrow> db \<Rightarrow> http_error + db" where
  "delete_workspace_contact_point_endpoint channel cookie csrf now s =
     (case workspace_principal cookie (Some csrf) now s of
        Inl e \<Rightarrow> Inl e
      | Inr (w, s1) \<Rightarrow> answer (except_clause [WorkspaceContactNotFoundError] (HTTPException 404 ''contact point not found'') Unhandled)
          (delete_contact_point (wp_account_id w) channel now s1))"

section \<open>Invitations\<close>

definition get_actor_self_endpoint :: "ActorContext \<Rightarrow> instant \<Rightarrow> db \<Rightarrow> http_error + ActorSelfResponse \<times> db" where
  "get_actor_self_endpoint a now s = (case (ac_participant_id a, ac_participant_role a) of
     (Some p, Some r) \<Rightarrow> answer (except_clause [ActorAccessLinkNotFoundError] unauthorized Unhandled) (get_actor_self p r now s)
   | _ \<Rightarrow> Inl (Unhandled AssertionError))"

definition INVITER_ROLES :: "ParticipantRole list" where
  "INVITER_ROLES = [CUSTOMER, COMPANY_MANAGER]"

definition create_invitation_endpoint ::
    "uuid \<Rightarrow> InvitationCreate \<Rightarrow> ActorContext \<Rightarrow> instant \<Rightarrow> db \<Rightarrow> http_error + InvitationIssuedResponse \<times> db" where
  "create_invitation_endpoint job_id cmd a now s = authorized a job_id (Some INVITER_ROLES) (\<lambda>p r.
     answer (except_clause [InvitationRoleError] (HTTPException 403 ''insufficient role'')
         (except_clause [InvitationConflictError] (HTTPException 409 ''InvitationConflictError'')
         (except_clause [InvitationNotFoundError] (HTTPException 404 ''move job not found'') Unhandled)))
       (create_invitation job_id p r cmd now s))"

definition list_invitations_endpoint ::
    "uuid \<Rightarrow> ActorContext \<Rightarrow> instant \<Rightarrow> db \<Rightarrow> http_error + InvitationResponse list \<times> db" where
  "list_invitations_endpoint job_id a now s = authorized a job_id (Some INVITER_ROLES) (\<lambda>p r.
     answer Unhandled (list_invitations job_id p now s))"

definition respond_to_invitation ::
    "bool \<Rightarrow> uuid \<Rightarrow> uuid \<Rightarrow> ActorContext \<Rightarrow> string \<Rightarrow> instant \<Rightarrow> db \<Rightarrow> http_error + InvitationResponse \<times> db" where
  "respond_to_invitation accept job_id i a secret now s = authorized a job_id None (\<lambda>p r.
     answer (except_clause [InvalidAccessTokenError] unauthorized
         (except_clause [InvitationNotFoundError] (HTTPException 404 ''invitation not found'')
         (except_clause [InvitationConflictError] (HTTPException 409 ''InvitationConflictError'') Unhandled)))
       (if accept then accept_invitation job_id i p secret now s else decline_invitation job_id i p secret now s))"

definition accept_invitation_endpoint ::
    "uuid \<Rightarrow> uuid \<Rightarrow> ActorContext \<Rightarrow> string \<Rightarrow> instant \<Rightarrow> db \<Rightarrow> http_error + InvitationResponse \<times> db" where
  "accept_invitation_endpoint job_id i a secret now s = respond_to_invitation True job_id i a secret now s"

definition decline_invitation_endpoint ::
    "uuid \<Rightarrow> uuid \<Rightarrow> ActorContext \<Rightarrow> string \<Rightarrow> instant \<Rightarrow> db \<Rightarrow> http_error + InvitationResponse \<times> db" where
  "decline_invitation_endpoint job_id i a secret now s = respond_to_invitation False job_id i a secret now s"

text \<open>The two actions of the issuer differ in their answers.\<close>

definition manage_invitation ::
    "(uuid \<Rightarrow> ('v \<times> db) result) \<Rightarrow> uuid \<Rightarrow> ActorContext \<Rightarrow> http_error + 'v \<times> db" where
  "manage_invitation action job_id a = authorized a job_id (Some INVITER_ROLES) (\<lambda>p r.
     answer (except_clause [InvitationNotFoundError] (HTTPException 404 ''invitation not found'')
         (except_clause [InvitationConflictError] (HTTPException 409 ''InvitationConflictError'') Unhandled))
       (action p))"

definition revoke_invitation_endpoint ::
    "uuid \<Rightarrow> uuid \<Rightarrow> ActorContext \<Rightarrow> instant \<Rightarrow> db \<Rightarrow> http_error + InvitationResponse \<times> db" where
  "revoke_invitation_endpoint job_id i a now s = manage_invitation (\<lambda>p. revoke_invitation job_id i p now s) job_id a"

definition reissue_invitation_endpoint ::
    "uuid \<Rightarrow> uuid \<Rightarrow> ActorContext \<Rightarrow> instant \<Rightarrow> db \<Rightarrow> http_error + InvitationIssuedResponse \<times> db" where
  "reissue_invitation_endpoint job_id i a now s = manage_invitation (\<lambda>p. reissue_invitation job_id i p now s) job_id a"

section \<open>Links\<close>

definition create_access_link_endpoint ::
    "uuid \<Rightarrow> uuid \<Rightarrow> ActorContext \<Rightarrow> string \<Rightarrow> instant \<Rightarrow> db \<Rightarrow> http_error + AccessLinkResponse \<times> db" where
  "create_access_link_endpoint job_id participant_id a secret now s = authorized a job_id None (\<lambda>p r.
     if p \<noteq> participant_id then Inl (HTTPException 403 ''insufficient role'')
     else (case load_participant job_id participant_id s of
         None \<Rightarrow> Inl (HTTPException 404 ''participant not found'')
       | Some participant \<Rightarrow> answer (except_clause [InvalidAccessTokenError] unauthorized Unhandled)
           (rotate_access_link participant secret p now s)))"

definition revoke_access_link_endpoint :: "uuid \<Rightarrow> uuid \<Rightarrow> ActorContext \<Rightarrow> instant \<Rightarrow> db \<Rightarrow> http_error + db" where
  "revoke_access_link_endpoint job_id link_id a now s = authorized a job_id None (\<lambda>p r.
     (case load_access_link job_id link_id s of
        None \<Rightarrow> Inl (HTTPException 404 ''access link not found'')
      | Some link \<Rightarrow>
          if r \<noteq> COMPANY_MANAGER \<and> p \<noteq> at_participant_id link then Inl (HTTPException 403 ''insufficient role'')
          else answer Unhandled (revoke_access_link_tree (at_id link) p now s)))"

end
