(* ===== verification/AccessApiProofs.thy ===== *)
theory AccessApiProofs
  imports AccessApi WorkspaceSafety
begin







end
