(* ===== verification/Spec2Isabelle.thy ===== *)
theory Spec2Isabelle
  imports MediaProcessing CompletionProofs DocumentProofs WorkspaceSafety MoveJobProofs MoveJobListProofs CaptureProofs AnalysisProofs AnalysisReviewProofs NotificationProofs ReviewPageProofs JobApiProofs AccessApiProofs
begin

text \<open>
  SEQRET backend: a verification development of the services under \<open>src/app\<close>.

  \<^bold>\<open>The program.\<close> The backend runs one household move as a \<^emph>\<open>job\<close>. A customer creates the job and shares
  it by links or a short code with a company manager, who shares it with a field worker
  (\<open>modules/move_job\<close>, \<open>modules/access\<close>). Rooms are photographed; every file is validated by a background
  job (\<open>modules/background_job\<close>, \<open>modules/media_processing\<close>) and an AI draft of the inventory can be imported.
  The inventory is an immutable chain of scope versions (\<open>modules/scope\<close>); the company quotes a version, the
  customer asks for a revision or confirms (\<open>modules/scope_review\<close>), which locks it. The company then assigns
  a vehicle and workers (\<open>modules/dispatch\<close>), the worker checks in and reports what differs on site, which
  becomes a priced change the customer decides (\<open>modules/field_change\<close>), and the job ends when both sides
  have confirmed the same evidence (\<open>modules/completion\<close>). Facts other processes react to are written as
  rows of a transactional outbox and relayed (\<open>platform/event_bus\<close>).

  The services share no memory: each call is one database transaction. So one record \<open>db\<close> (Database) holds
  all tables, and every service function is a function from its arguments, the clock reading \<open>now\<close> and the
  state to \<open>exn + (answer \<times> db)\<close>: \<open>Inl\<close> is a raised exception, after which the transaction is rolled back, so
  that a failing call has no new state. A function that only reads gives \<open>exn + answer\<close>.

  \<^bold>\<open>Ground.\<close> Prelude: instants, uuids, result type, the table primitives that stand for the SQL statements,
  text predicates. LeaseQueue and Evolution: the two interfaces, as locales. A \<open>lease queue\<close> is a table whose rows
  are leased by a claim and settled with a token; Outbox and BackgroundJobProofs interpret it on the outbox and
  on the dispatcher, so that exclusion of workers is proved once. An \<open>evolution\<close> is a step relation
  with an invariant and a one-way change of rows; AccessProofs interprets it on the small steps and on the operations of
  the access tables, JobApiProofs on the requests of the HTTP API, so that facts of one step become facts of all runs. Contracts (\<open>contracts/\<close>), Content (JSON documents,
  \<open>json.dumps\<close>), JobTables, AgreementTables and DeliveryTables (the rows of every \<open>models.py\<close> with their CHECK
  constraints), Database, AuditTrail (\<open>add_audit_event\<close>, participant checks).

  \<^bold>\<open>Components.\<close>
  \<^item> Outbox: \<open>platform/event_bus/service.py\<close> with \<open>enqueue_domain_event\<close> used by all services. Lemmas: a live
    lease excludes others, a relay pass accounts for every leased event, retries back off.
  \<^item> BackgroundJobs, BackgroundJobProofs, MediaProcessing: \<open>modules/background_job/service.py\<close> and the two task
    handlers. Lemmas: the operations refine an abstract state machine; a validation run alone decides as the
    storage reports; a validation that loses its asset is stuck.
  \<^item> Scope, ScopeProofs: \<open>modules/scope/service.py\<close>. Lemmas: the versions of a job are one chain; a locked version
    is final, carries its digest and both approvals; the exact condition of an approval; an approved change
    is the only successor; importing a draft.
  \<^item> ScopeReview, ScopeReviewProofs: \<open>modules/scope_review/service.py\<close>. Lemmas: the life of a proposal, replays of both
    commands, the confirmation history agrees with its specification.
  \<^item> FieldChange, FieldChangeProofs: \<open>modules/field_change/service.py\<close>. Lemmas: an approved change moves the agreed
    price by its adjustments, an agreed price never moves again, a decision is final.
  \<^item> Dispatch, DispatchProofs: \<open>modules/dispatch/service.py\<close>. Lemmas: a confirmed selection passes all checks and stays
    feasible, the check-in belongs to the service day, a setup whose scope was succeeded is stuck.
  \<^item> Completion, CompletionProofs: \<open>modules/completion/service.py\<close>. Lemmas: a job is completed only by both sides, what a
    confirmation does, replays, the week of review.
  \<^item> Documents, DocumentProofs: the PDF writer of \<open>modules/completion/documents.py\<close>. Lemmas: line breaking, hexadecimal
    text, cross-reference table.
  \<^item> AccessLinks, Invitations, Workspace, ContactPoints, AccessProofs, AccessSafety, WorkspaceSafety:
    \<open>modules/access\<close>. Lemmas: the invariant of the access tables under every operation, revoked links stay dead,
    a revocation reaches all delegates, the rate limit, what a new browser session shows, the CSRF check.
  \<^item> MoveJob, MoveJobList, MoveJobProofs, MoveJobListProofs: \<open>modules/move_job/service.py\<close>. Lemmas: the customer who
    creates a job can come in, a change of conditions appends a version, canceling closes the job to links, codes
    and invitations and says which cookies still open it, paging lists each visible job once, the worker's list does not depend on detail addresses.
  \<^item> Capture, CaptureProofs: \<open>modules/capture/service.py\<close>, consent, capture sessions and uploads. Lemmas: what the
    report of an upload pins and schedules, and that repeating it gives the same answer.
  \<^item> AnalysisRuns, AnalysisWorkflow, AnalysisProofs: \<open>modules/analysis\<close>, \<open>modules/analysis_workflow\<close> and the analysis
    task of the worker. Lemmas: a delivery is acknowledged only when the analysis is settled, the deliveries that
    ask for another one are bounded, also when deliveries overlap in a history of transactions, a stored result reads back.
  \<^item> AnalysisReview, AnalysisReviewProofs: \<open>modules/analysis_review/service.py\<close>. Lemmas: completing a review twice.
  \<^item> Notification, NotificationProofs: \<open>modules/notification\<close>, fan-out, consumer and the sending pass, whose workers
    interleave along a schedule that is an argument. Lemmas: an event notifies once, a pass settles every claim
    in any order of its workers, the lease of a late claim is short.
  \<^item> ReviewPage, ReviewPageProofs: the review page of \<open>modules/scope_review/service.py\<close>. Lemmas: every item is shown
    once in its room, the works of the nearest agreement, agreement with the job list.
  \<^item> JobApi, JobApiProofs: the endpoints of \<open>modules/*/router.py\<close> under a job, except those of \<open>access/router.py\<close>, and their composition in \<open>app/main.py\<close>:
    credentials to an actor, the roles of the route, the service, the answer each exception becomes. A request is a
    constructor per route, \<open>handle_job_request\<close> serves it. Lemmas: only participants in a role of the route are
    served; runs of requests are runs of the agreement's operations, so that locked versions and agreed
    prices survive them; a field worker's requests leave what was negotiated alone.
  \<^item> AccessApi, AccessApiProofs: \<open>modules/access/router.py\<close>, sessions, contact points, invitations and access links. Lemmas: a session that was ended stays ended.

  The sections below their last \<open>Proofs\<close> theory hold a sample state each, on which every property with a
  hypothesis is instantiated.

  \<^bold>\<open>Conventions and assumptions.\<close> One call reads the clock once: the several \<open>utc_now()\<close> of one Python call are one
  instant. Instants are microseconds. New identifiers and secrets come from a supply \<open>rng\<close> in the state, and the
  properties that need it assume that it never repeats (\<open>fresh_supply\<close>). SHA-256 is a function of the state
  (\<open>sha256_hex\<close>); \<open>digests_ok\<close> assumes that its results have 64 lower-case digits, and no property assumes
  that it has no collisions unless it says so. Text is a list of characters read as Latin-1, Korean constants are
  their UTF-8 bytes, and Documents uses lists of code points where the width of a character matters. A JSON
  document stored by the program reads back valid. The identity map of a session is exact: a row loaded twice is one
  row. Row locks make the calls on one row sequential, so that interleaving is the order of calls; a claim, the
  work outside a transaction and the settlement are separate calls, and LeaseQueue is about their interleaving.
  An \<open>IntegrityError\<close> arises where a CHECK, a unique key or a primary key would be violated; foreign keys are modelled
  where the code can miss a row. External services (storage, cloud tasks, Pub/Sub, Redis, mail, AI) are
  arguments, functions from a request to an answer or a \<open>port_error\<close>.

  Integers are unbounded: no column overflow is modelled, the bounds the schemas and CHECK constraints state are. What
  other transactions commit while an external service is asked is an argument \<open>others\<close> of the operations that ask.

  \<^bold>\<open>Fuel.\<close> \<open>revoke_invitation_tree\<close> is called with \<open>TREE_DEPTH = 2\<close>, since a customer invites managers, managers invite
  workers and workers nobody; the property revocation_cuts_delegates shows that under the invariant the fuel never
  runs out. The review page walks to the first version of a job; review_shows_every_item_once shows that the number
  of the current version is enough fuel.

  \<^bold>\<open>Not modelled.\<close> Parsing of requests, response headers and cookie attributes; process entry points beside the composition
  of the routers and the analysis task; configuration, observability, adapters of external services, test doubles,
  migrations and scripts: what they reach is external and an argument here. The sentences of the completion documents
  and the ZIP container are left out. Where an answer shows the text of an exception, the model shows its class.
\<close>

end
